(* ===== verification/Prelude.thy ===== *)
theory Prelude
  imports Main "HOL-Library.Word"
begin

text \<open>
  Shared vocabulary of the development: the machine types of the server, the result type of
  operations that may throw, the bit order of the network packets, and the generic lemmas on
  lists, words and results that the component theories rely on.
\<close>

unbundle bit_operations_syntax

type_synonym u8 = "8 word"
type_synonym u16 = "16 word"
type_synonym u32 = "32 word"
type_synonym u64 = "64 word"

named_theorems res_simps \<open>rewriting of the result type\<close>
named_theorems bb_simps \<open>unfolding of packet primitives\<close>

subsection \<open>Results of operations that may fail\<close>

text \<open>\<open>Inl\<close> is the exception (or the failed assertion) that leaves the function, \<open>Inr\<close> its result.\<close>

definition bind_res :: "'e + 'a \<Rightarrow> ('a \<Rightarrow> 'e + 'b) \<Rightarrow> 'e + 'b" where
  "bind_res r f = (case r of Inl e \<Rightarrow> Inl e | Inr x \<Rightarrow> f x)"

definition guard_res :: "bool \<Rightarrow> 'e \<Rightarrow> 'e + unit" where
  "guard_res c e = (if c then Inr () else Inl e)"

lemma bind_res_Inl [simp, res_simps]: "bind_res (Inl e) f = Inl e"
  by (simp add: bind_res_def)

lemma bind_res_Inr [simp, res_simps]: "bind_res (Inr x) f = f x"
  by (simp add: bind_res_def)

lemma bind_res_eq_Inr:
  "bind_res r f = Inr y \<longleftrightarrow> (\<exists>x. r = Inr x \<and> f x = Inr y)"
  by (cases r) auto

lemma bind_res_assoc:
  "bind_res (bind_res r f) g = bind_res r (\<lambda>x. bind_res (f x) g)"
  by (cases r) auto

lemma bind_res_cong [fundef_cong]:
  "r = r' \<Longrightarrow> (\<And>x. r' = Inr x \<Longrightarrow> f x = g x) \<Longrightarrow> bind_res r f = bind_res r' g"
  by (cases r') auto

lemma guard_res_True [simp, res_simps]: "guard_res True e = Inr ()"
  by (simp add: guard_res_def)

lemma guard_res_False [simp, res_simps]: "guard_res False e = Inl e"
  by (simp add: guard_res_def)

subsection \<open>Bits of a byte, most significant bit first\<close>

definition bits_of_byte :: "u8 \<Rightarrow> bool list" where
  "bits_of_byte y = map (\<lambda>i. bit y (7 - i)) [0..<8]"

definition pack_bits :: "bool list \<Rightarrow> u8" where
  "pack_bits bs = horner_sum of_bool 2 (rev (bs @ replicate (8 - length bs) False))"

lemma length_bits_of_byte [simp]: "length (bits_of_byte y) = 8"
  by (simp add: bits_of_byte_def)

lemma nth_bits_of_byte: "i < 8 \<Longrightarrow> bits_of_byte y ! i = bit y (7 - i)"
  by (simp add: bits_of_byte_def)

lemma bit_pack_bits:
  assumes "length bs \<le> 8"
  shows "bit (pack_bits bs) n \<longleftrightarrow> n < 8 \<and> 7 - n < length bs \<and> bs ! (7 - n)"
  using assms
  by (auto simp: pack_bits_def bit_horner_sum_bit_word_iff rev_nth nth_append)

lemma pack_bits_Nil [simp]: "pack_bits [] = 0"
  by (rule bit_word_eqI) (simp add: bit_pack_bits)

lemma bits_of_pack_bits:
  assumes "length bs \<le> 8"
  shows "bits_of_byte (pack_bits bs) = bs @ replicate (8 - length bs) False"
  by (rule nth_equalityI)
    (use assms in \<open>auto simp: nth_bits_of_byte bit_pack_bits nth_append\<close>)

lemma pack_bits_snoc:
  assumes "length bs < 8"
  shows "pack_bits bs OR (if x then push_bit (7 - length bs) 1 else 0) = pack_bits (bs @ [x])"
proof (rule bit_word_eqI)
  fix n assume "n < LENGTH(8)"
  then have n: "n < 8" by simp
  show "bit (pack_bits bs OR (if x then push_bit (7 - length bs) 1 else 0)) n
      = bit (pack_bits (bs @ [x])) n"
  proof (cases "n = 7 - length bs")
    case True
    with assms n show ?thesis
      by (simp add: bit_or_iff bit_pack_bits bit_exp_iff nth_append)
  next
    case False
    with n assms have "bit (push_bit (7 - length bs) (1 :: u8)) n = False"
      by (simp add: bit_exp_iff)
    moreover from False n assms have "7 - n < length (bs @ [x]) \<longleftrightarrow> 7 - n < length bs"
      by auto
    ultimately show ?thesis
      using n assms by (auto simp: bit_or_iff bit_pack_bits nth_append)
  qed
qed

subsection \<open>Little-endian byte images of machine words\<close>

text \<open>The byte image of a value on a little-endian host, where \<open>EndianConvert\<close> does nothing.\<close>

definition word_byte :: "'a::len word \<Rightarrow> nat \<Rightarrow> u8" where
  "word_byte w i = ucast (drop_bit (8 * i) w)"

definition le_bytes :: "'a::len word \<Rightarrow> u8 list" where
  "le_bytes w = map (word_byte w) [0..<LENGTH('a) div 8]"

definition le_word :: "u8 list \<Rightarrow> 'a::len word" where
  "le_word bs = foldr (\<lambda>b w. ucast b OR push_bit 8 w) bs 0"

lemma length_le_bytes [simp]: "length (le_bytes (w :: 'a::len word)) = LENGTH('a) div 8"
  by (simp add: le_bytes_def)

lemma bit_word_byte:
  "bit (word_byte (w :: 'a::len word) i) n \<longleftrightarrow> n < 8 \<and> bit w (8 * i + n)"
  by (auto simp: word_byte_def bit_ucast_iff bit_drop_bit_eq ac_simps dest: bit_imp_le_length)

lemma bit_le_word:
  "bit (le_word bs :: 'a::len word) n \<longleftrightarrow>
     n < LENGTH('a) \<and> n div 8 < length bs \<and> bit (bs ! (n div 8)) (n mod 8)"
proof (induction bs arbitrary: n)
  case Nil
  then show ?case by (simp add: le_word_def)
next
  case (Cons b bs)
  have step: "(le_word (b # bs) :: 'a word) = ucast b OR push_bit 8 (le_word bs)"
    by (simp add: le_word_def)
  show ?case
  proof (cases "n < 8")
    case True
    then show ?thesis
      by (auto simp: step bit_or_iff bit_ucast_iff bit_push_bit_iff)
  next
    case False
    then have "\<not> bit b n"
      by (auto dest: bit_imp_le_length)
    moreover have "n div 8 = Suc ((n - 8) div 8)" "n mod 8 = (n - 8) mod 8"
      using False by (simp_all add: div_if mod_if)
    ultimately show ?thesis
      using False Cons.IH [of "n - 8"]
      by (auto simp: step bit_or_iff bit_ucast_iff bit_push_bit_iff)
  qed
qed

lemma le_word_le_bytes:
  assumes "LENGTH('a) mod 8 = 0"
  shows "le_word (le_bytes w) = (w :: 'a::len word)"
proof (rule bit_word_eqI)
  fix n assume n: "n < LENGTH('a)"
  with assms have "n div 8 < LENGTH('a) div 8"
    by (metis add.right_neutral div_mult_mod_eq less_mult_imp_div_less)
  then show "bit (le_word (le_bytes w) :: 'a word) n = bit w n"
    using n by (simp add: bit_le_word le_bytes_def bit_word_byte)
qed

end
