(* ===== verification/ByteBuffer.thy ===== *)
theory ByteBuffer
  imports Prelude
begin

text \<open>
  The packet buffer of \<open>src/server/shared/Packets/ByteBuffer.h\<close>: a byte vector with a read
  position, a write position and the bit accumulator that \<open>WriteBit\<close> and \<open>ReadBit\<close> share.
  Exceptions are the values of \<open>bb_error\<close>. \<open>size_t\<close> values are \<open>nat\<close>; the host is
  little-endian, so \<open>EndianConvert\<close> is the identity; a \<open>float\<close> is its 32-bit pattern.
  An operation that throws leaves the packet to be discarded by its handler, so the model drops
  the buffer in that case.
\<close>

datatype bb_error =
    PositionException bool nat nat nat  \<comment> \<open>\<open>ByteBufferPositionException(add, pos, size, valueSize)\<close>\<close>
  | SourceException nat nat nat         \<comment> \<open>\<open>ByteBufferSourceException(pos, size, valueSize)\<close>\<close>
  | AssertFailed                        \<comment> \<open>\<open>ASSERT\<close> aborts the server\<close>
  | UndefinedBehaviour                  \<comment> \<open>no defined result: a shift out of range, a null reference\<close>

record bytebuffer =
  rpos :: nat
  wpos :: nat
  bitpos :: nat
  curbitval :: u8
  storage :: "u8 list"

definition bb_new :: bytebuffer where
  "bb_new = \<lparr>rpos = 0, wpos = 0, bitpos = 8, curbitval = 0, storage = []\<rparr>"

definition bb_clear :: "bytebuffer \<Rightarrow> bytebuffer" where
  "bb_clear b = b\<lparr>storage := [], rpos := 0, wpos := 0\<rparr>"

text \<open>
  A received packet: the network layer copies the payload into the vector with \<open>resize\<close>, and the
  bit accumulator is in its initial state.
\<close>

definition bb_resize :: "nat \<Rightarrow> bytebuffer \<Rightarrow> bytebuffer" where
  "bb_resize n b =
     b\<lparr>storage := take n (storage b) @ replicate (n - length (storage b)) 0, rpos := 0, wpos := n\<rparr>"

definition bb_received :: "u8 list \<Rightarrow> bytebuffer" where
  "bb_received bs = \<lparr>rpos = 0, wpos = length bs, bitpos = 8, curbitval = 0, storage = bs\<rparr>"

subsection \<open>Writing bytes\<close>

definition append_bytes :: "u8 list \<Rightarrow> bytebuffer \<Rightarrow> bb_error + bytebuffer" where
  "append_bytes src b =
     (if src = [] then Inl (SourceException (wpos b) (length (storage b)) 0)
      else if \<not> length (storage b) < 10000000 then Inl AssertFailed
      else
        let st = (if length (storage b) < wpos b + length src
                  then storage b @ replicate (wpos b + length src - length (storage b)) 0
                  else storage b)
        in Inr (b\<lparr>storage := take (wpos b) st @ src @ drop (wpos b + length src) st,
                  wpos := wpos b + length src\<rparr>))"

definition FlushBits :: "bytebuffer \<Rightarrow> bb_error + bytebuffer" where
  "FlushBits b =
     (if bitpos b = 8 then Inr b
      else bind_res (append_bytes [curbitval b] b)
             (\<lambda>b. Inr (b\<lparr>curbitval := 0, bitpos := 8\<rparr>)))"

definition append_val :: "'a::len word \<Rightarrow> bytebuffer \<Rightarrow> bb_error + bytebuffer" where
  "append_val v b = bind_res (FlushBits b) (append_bytes (le_bytes v))"

definition put_bytes :: "nat \<Rightarrow> u8 list \<Rightarrow> bytebuffer \<Rightarrow> bb_error + bytebuffer" where
  "put_bytes pos src b =
     (if pos + length src > length (storage b)
      then Inl (PositionException True pos (length src) (length (storage b)))
      else Inr (b\<lparr>storage := take pos (storage b) @ src @ drop (pos + length src) (storage b)\<rparr>))"

definition put_val :: "nat \<Rightarrow> 'a::len word \<Rightarrow> bytebuffer \<Rightarrow> bb_error + bytebuffer" where
  "put_val pos v b = put_bytes pos (le_bytes v) b"

definition append_buffer :: "bytebuffer \<Rightarrow> bytebuffer \<Rightarrow> bb_error + bytebuffer" where
  "append_buffer src b =
     (if wpos src \<noteq> 0 then append_bytes (take (wpos src) (storage src)) b else Inr b)"

subsection \<open>Writing bits\<close>

text \<open>
  \<open>WriteBit\<close> also returns \<open>bit != 0\<close>, which the model leaves out. Writing after \<open>ReadBit\<close> has
  left \<open>_bitpos\<close> at 0 makes \<open>--_bitpos\<close> wrap to the largest \<open>size_t\<close>, and the shift by it has no
  defined result.
\<close>

definition WriteBit :: "u32 \<Rightarrow> bytebuffer \<Rightarrow> bb_error + bytebuffer" where
  "WriteBit x b =
     (if bitpos b = 0 then Inl UndefinedBehaviour
      else
        let p = bitpos b - 1;
            c = (if x \<noteq> 0 then curbitval b OR push_bit p 1 else curbitval b)
        in if p = 0
           then bind_res (append_bytes [c] (b\<lparr>bitpos := 8, curbitval := c\<rparr>))
                  (\<lambda>b. Inr (b\<lparr>curbitval := 0\<rparr>))
           else Inr (b\<lparr>bitpos := p, curbitval := c\<rparr>))"

fun WriteBits :: "'a::len word \<Rightarrow> nat \<Rightarrow> bytebuffer \<Rightarrow> bb_error + bytebuffer" where
  "WriteBits v 0 b = Inr b"
| "WriteBits v (Suc i) b = bind_res (WriteBit (of_bool (bit v i)) b) (WriteBits v i)"

definition WriteByteSeq :: "u8 \<Rightarrow> bytebuffer \<Rightarrow> bb_error + bytebuffer" where
  "WriteByteSeq x b = (if x \<noteq> 0 then append_val (x XOR 1) b else Inr b)"

fun AppendBits_bytes :: "u8 list \<Rightarrow> bytebuffer \<Rightarrow> bb_error + bytebuffer" where
  "AppendBits_bytes [] b = Inr b"
| "AppendBits_bytes (x # xs) b = bind_res (WriteBits x 8 b) (AppendBits_bytes xs)"

definition AppendBits :: "bytebuffer \<Rightarrow> bytebuffer \<Rightarrow> bb_error + bytebuffer" where
  "AppendBits src b =
     bind_res (AppendBits_bytes (take (wpos src) (storage src)) b)
       (WriteBits (drop_bit (bitpos src) (curbitval src)) (8 - bitpos src))"

subsection \<open>Reading\<close>

definition read_at :: "nat \<Rightarrow> bytebuffer \<Rightarrow> bb_error + 'a::len word" where
  "read_at pos b =
     (if pos + LENGTH('a) div 8 > length (storage b)
      then Inl (PositionException False pos (LENGTH('a) div 8) (length (storage b)))
      else Inr (le_word (take (LENGTH('a) div 8) (drop pos (storage b)))))"

definition read_val :: "bytebuffer \<Rightarrow> bb_error + ('a::len word \<times> bytebuffer)" where
  "read_val b = bind_res (read_at (rpos b) b)
     (\<lambda>r. Inr (r, b\<lparr>rpos := rpos b + LENGTH('a) div 8\<rparr>))"

definition read_skip :: "nat \<Rightarrow> bytebuffer \<Rightarrow> bb_error + bytebuffer" where
  "read_skip n b =
     (if rpos b + n > length (storage b)
      then Inl (PositionException False (rpos b) n (length (storage b)))
      else Inr (b\<lparr>rpos := rpos b + n\<rparr>))"

definition read_bytes :: "nat \<Rightarrow> bytebuffer \<Rightarrow> bb_error + (u8 list \<times> bytebuffer)" where
  "read_bytes n b =
     (if rpos b + n > length (storage b)
      then Inl (PositionException False (rpos b) n (length (storage b)))
      else Inr (take n (drop (rpos b) (storage b)), b\<lparr>rpos := rpos b + n\<rparr>))"

definition ReadBit :: "bytebuffer \<Rightarrow> bb_error + (bool \<times> bytebuffer)" where
  "ReadBit b =
     bind_res
       (if bitpos b + 1 > 7
        then bind_res (read_val (b\<lparr>bitpos := 0\<rparr>)) (\<lambda>(c, b). Inr (b\<lparr>curbitval := c\<rparr>))
        else Inr (b\<lparr>bitpos := bitpos b + 1\<rparr>))
       (\<lambda>b. Inr (drop_bit (7 - bitpos b) (curbitval b) AND 1 \<noteq> 0, b))"

fun ReadBits_from :: "nat \<Rightarrow> u32 \<Rightarrow> bytebuffer \<Rightarrow> bb_error + (u32 \<times> bytebuffer)" where
  "ReadBits_from 0 v b = Inr (v, b)"
| "ReadBits_from (Suc i) v b =
     bind_res (ReadBit b) (\<lambda>(x, b). ReadBits_from i (if x then v OR push_bit i 1 else v) b)"

definition ReadBits :: "nat \<Rightarrow> bytebuffer \<Rightarrow> bb_error + (u32 \<times> bytebuffer)" where
  "ReadBits n b = ReadBits_from n 0 b"

definition ReadByteSeq :: "u8 \<Rightarrow> bytebuffer \<Rightarrow> bb_error + (u8 \<times> bytebuffer)" where
  "ReadByteSeq x b =
     (if x \<noteq> 0 then bind_res (read_val b) (\<lambda>(r, b). Inr (x XOR r, b)) else Inr (x, b))"

subsection \<open>Object GUIDs\<close>

text \<open>
  \<open>struct ObjectGuid\<close> is a union of a \<open>uint64\<close> and its eight bytes; indexing asserts
  \<open>index < 8\<close>. Lists of indices are the variadic arguments of the mask and byte helpers.
\<close>

definition guid_set :: "u64 \<Rightarrow> nat \<Rightarrow> u8 \<Rightarrow> u64" where
  "guid_set g i v = (g AND NOT (push_bit (8 * i) 255)) OR push_bit (8 * i) (ucast v)"

definition guid_get :: "u64 \<Rightarrow> nat \<Rightarrow> bb_error + u8" where
  "guid_get g i = (if i < 8 then Inr (word_byte g i) else Inl AssertFailed)"

definition guid_put :: "u64 \<Rightarrow> nat \<Rightarrow> u8 \<Rightarrow> bb_error + u64" where
  "guid_put g i v = (if i < 8 then Inr (guid_set g i v) else Inl AssertFailed)"

fun WriteGuidMask :: "u64 \<Rightarrow> nat list \<Rightarrow> bytebuffer \<Rightarrow> bb_error + bytebuffer" where
  "WriteGuidMask g [] b = Inr b"
| "WriteGuidMask g (i # is) b =
     bind_res (guid_get g i) (\<lambda>x. bind_res (WriteBit (ucast x) b) (WriteGuidMask g is))"

fun WriteGuidBytes :: "u64 \<Rightarrow> nat list \<Rightarrow> bytebuffer \<Rightarrow> bb_error + bytebuffer" where
  "WriteGuidBytes g [] b = Inr b"
| "WriteGuidBytes g (i # is) b =
     bind_res (guid_get g i) (\<lambda>x. bind_res (WriteByteSeq x b) (WriteGuidBytes g is))"

fun ReadGuidMask :: "u64 \<Rightarrow> nat list \<Rightarrow> bytebuffer \<Rightarrow> bb_error + (u64 \<times> bytebuffer)" where
  "ReadGuidMask g [] b = Inr (g, b)"
| "ReadGuidMask g (i # is) b =
     bind_res (ReadBit b) (\<lambda>(x, b).
       bind_res (guid_put g i (of_bool x)) (\<lambda>g. ReadGuidMask g is b))"

fun ReadGuidBytes :: "u64 \<Rightarrow> nat list \<Rightarrow> bytebuffer \<Rightarrow> bb_error + (u64 \<times> bytebuffer)" where
  "ReadGuidBytes g [] b = Inr (g, b)"
| "ReadGuidBytes g (i # is) b =
     bind_res (guid_get g i) (\<lambda>x. bind_res (ReadByteSeq x b) (\<lambda>(y, b).
       bind_res (guid_put g i y) (\<lambda>g. ReadGuidBytes g is b)))"

end
