(* ===== verification/PacketStream.thy ===== *)
theory PacketStream
  imports ByteBuffer
begin

text \<open>
  What the packet buffer promises its clients. A packet is a sequence of tokens, single bits and
  whole bytes; \<open>emit\<close> is the byte image the writer builds for it (bits are packed from the most
  significant end and a byte token flushes the unfinished byte), \<open>readable\<close> says that a reader takes
  the tokens back and has then consumed every byte. The locale \<open>token_channel\<close> states the laws of
  the four primitives, and the round trip is proved from them; \<open>ByteBuffer\<close> is its interpretation.
\<close>

datatype token = Bit bool | Byte u8

subsection \<open>The byte image of a token sequence\<close>

definition flush_image :: "bool list \<Rightarrow> u8 list" where
  "flush_image ps = (if ps = [] then [] else [pack_bits ps])"

fun emit1 :: "token \<Rightarrow> u8 list \<times> bool list \<Rightarrow> u8 list \<times> bool list" where
  "emit1 (Bit x) (bs, ps) =
     (if length ps = 7 then (bs @ [pack_bits (ps @ [x])], []) else (bs, ps @ [x]))"
| "emit1 (Byte y) (bs, ps) = (bs @ flush_image ps @ [y], [])"

fun emit :: "token list \<Rightarrow> u8 list \<times> bool list \<Rightarrow> u8 list \<times> bool list" where
  "emit [] s = s"
| "emit (t # ts) s = emit ts (emit1 t s)"

definition pending_ok :: "u8 list \<times> bool list \<Rightarrow> bool" where
  "pending_ok s \<longleftrightarrow> length (snd s) < 8"

lemma emit_append [simp]: "emit (ts @ us) s = emit us (emit ts s)"
  by (induction ts arbitrary: s) auto

lemma pending_ok_Nil [simp]: "pending_ok (bs, [])"
  by (simp add: pending_ok_def)

lemma pending_ok_emit1: "pending_ok s \<Longrightarrow> pending_ok (emit1 t s)"
  by (cases t; cases s) (auto simp: pending_ok_def)

lemma pending_ok_emit: "pending_ok s \<Longrightarrow> pending_ok (emit ts s)"
  by (induction ts arbitrary: s) (auto simp: pending_ok_emit1)

lemma length_emit1: "length (fst (emit1 t s)) \<le> length (fst s) + 2"
  by (cases t; cases s) (auto simp: flush_image_def)

lemma length_emit: "length (fst (emit ts s)) \<le> length (fst s) + 2 * length ts"
proof (induction ts arbitrary: s)
  case Nil
  then show ?case by simp
next
  case (Cons t ts)
  have "length (fst (emit (t # ts) s)) \<le> length (fst (emit1 t s)) + 2 * length ts"
    using Cons.IH by simp
  with length_emit1 [of t s] show ?case by simp
qed

lemma emit1_prefix: "emit1 t (bs @ cs, ps) = (bs @ fst (emit1 t (cs, ps)), snd (emit1 t (cs, ps)))"
  by (cases t) auto

lemma emit_prefix: "emit ts (bs @ cs, ps) = (bs @ fst (emit ts (cs, ps)), snd (emit ts (cs, ps)))"
proof (induction ts arbitrary: cs ps)
  case Nil
  then show ?case by simp
next
  case (Cons t ts)
  show ?case
    by (cases "emit1 t (cs, ps)") (simp add: emit1_prefix Cons.IH)
qed

subsection \<open>Reading the tokens back\<close>

text \<open>
  \<open>ReadBit\<close> keeps the unread bits of the last byte it fetched even when bytes are read in between,
  while the writer starts a new byte for the next bit. \<open>aligned\<close> is the condition under which the
  two agree: a byte token is preceded by a whole number of bit octets, or no bit follows it.
\<close>

fun readable :: "bool list \<Rightarrow> u8 list \<Rightarrow> token list \<Rightarrow> bool" where
  "readable pb bs [] \<longleftrightarrow> bs = []"
| "readable (p # pb) bs (Bit x # ts) \<longleftrightarrow> p = x \<and> readable pb bs ts"
| "readable [] [] (Bit x # ts) \<longleftrightarrow> False"
| "readable [] (y # bs) (Bit x # ts) \<longleftrightarrow>
     hd (bits_of_byte y) = x \<and> readable (tl (bits_of_byte y)) bs ts"
| "readable pb [] (Byte y # ts) \<longleftrightarrow> False"
| "readable pb (z # bs) (Byte y # ts) \<longleftrightarrow> z = y \<and> readable pb bs ts"

fun is_bit :: "token \<Rightarrow> bool" where
  "is_bit (Bit _) \<longleftrightarrow> True"
| "is_bit (Byte _) \<longleftrightarrow> False"

fun aligned :: "nat \<Rightarrow> token list \<Rightarrow> bool" where
  "aligned k [] \<longleftrightarrow> True"
| "aligned k (Bit _ # ts) \<longleftrightarrow> aligned (if k = 7 then 0 else Suc k) ts"
| "aligned k (Byte _ # ts) \<longleftrightarrow> (k = 0 \<or> (\<forall>t \<in> set ts. \<not> is_bit t)) \<and> aligned 0 ts"

lemma readable_bytes:
  "\<forall>t \<in> set ts. \<not> is_bit t \<Longrightarrow>
     emit ts ([], []) = (bs, []) \<Longrightarrow> readable pb bs ts"
proof (induction ts arbitrary: bs)
  case Nil
  then show ?case by simp
next
  case (Cons t ts)
  then obtain y where t: "t = Byte y" by (cases t) auto
  have "emit (t # ts) ([], []) = emit ts ([y] @ [], [])"
    by (simp add: t flush_image_def)
  with Cons.prems obtain bs' where "bs = y # bs'" "emit ts ([], []) = (bs', [])"
    by (simp only: emit_prefix) (cases "emit ts ([], [])"; simp)
  with Cons t show ?case by simp
qed

lemma bits_of_pack_snoc:
  "length ps = 7 \<Longrightarrow> bits_of_byte (pack_bits (ps @ [x])) = ps @ [x]"
  by (simp add: bits_of_pack_bits)

text \<open>
  The central fact: what has been emitted after the partial octet \<open>ps\<close> is readable by a reader that
  has taken the bits \<open>ps\<close> already. The first byte of the image, when \<open>ps\<close> is not empty, is the one
  the reader holds.
\<close>

lemma emit_readable:
  assumes "emit ts ([], ps) = (bs, [])" and "length ps < 8" and "aligned (length ps) ts"
  shows "if ps = [] then readable [] bs ts
         else \<exists>y bs'. bs = y # bs' \<and> take (length ps) (bits_of_byte y) = ps \<and>
                readable (drop (length ps) (bits_of_byte y)) bs' ts"
  using assms
proof (induction ts arbitrary: ps bs)
  case Nil
  then show ?case by simp
next
  case (Cons t ts)
  show ?case
  proof (cases t)
    case (Byte y)
    let ?f = "flush_image ps"
    have "emit (t # ts) ([], ps) = emit ts ((?f @ [y]) @ [], [])"
      by (simp add: Byte)
    with Cons.prems(1) obtain bs' where bs: "bs = ?f @ y # bs'" and em: "emit ts ([], []) = (bs', [])"
      by (simp only: emit_prefix) (cases "emit ts ([], [])"; simp)
    have al: "aligned 0 ts" and or: "length ps = 0 \<or> (\<forall>t \<in> set ts. \<not> is_bit t)"
      using Cons.prems(3) by (auto simp: Byte)
    show ?thesis
    proof (cases "ps = []")
      case True
      have "readable [] bs' ts" using Cons.IH [of "[]" bs'] em al by simp
      with True bs Byte show ?thesis by (simp add: flush_image_def)
    next
      case False
      with or have nb: "\<forall>t \<in> set ts. \<not> is_bit t" by simp
      have r: "readable pb (y # bs') (t # ts)" for pb
        using readable_bytes [OF nb em] by (simp add: Byte)
      have "take (length ps) (bits_of_byte (pack_bits ps)) = ps"
        using Cons.prems(2) by (simp add: bits_of_pack_bits)
      with False bs r show ?thesis by (auto simp: flush_image_def)
    qed
  next
    case (Bit x)
    show ?thesis
    proof (cases "length ps = 7")
      case True
      let ?y = "pack_bits (ps @ [x])"
      have "emit (t # ts) ([], ps) = emit ts ([?y] @ [], [])"
        using True by (simp add: Bit)
      with Cons.prems(1) obtain bs' where bs: "bs = ?y # bs'" and em: "emit ts ([], []) = (bs', [])"
        by (simp only: emit_prefix) (cases "emit ts ([], [])"; simp)
      have "readable [] bs' ts"
        using Cons.IH [of "[]" bs'] em Cons.prems(3) True by (simp add: Bit)
      moreover have "bits_of_byte ?y = ps @ [x]"
        using True by (rule bits_of_pack_snoc)
      ultimately show ?thesis
        using True bs Bit by auto
    next
      case False
      have em: "emit ts ([], ps @ [x]) = (bs, [])"
        using Cons.prems(1) False by (simp add: Bit)
      have "length (ps @ [x]) < 8" "aligned (length (ps @ [x])) ts"
        using Cons.prems(2,3) False by (auto simp: Bit)
      with Cons.IH [OF em] obtain y bs' where
        bs: "bs = y # bs'" and tk: "take (Suc (length ps)) (bits_of_byte y) = ps @ [x]" and
        rd: "readable (drop (Suc (length ps)) (bits_of_byte y)) bs' ts"
        by auto
      have tk': "take (length ps) (bits_of_byte y) = ps"
        using arg_cong [OF tk, of "take (length ps)"] by simp
      have "drop (length ps) (bits_of_byte y) = x # drop (Suc (length ps)) (bits_of_byte y)"
        using tk Cons.prems(2) False
        by (metis Cons_nth_drop_Suc append_take_drop_id length_bits_of_byte nth_append_length
            append.assoc append_Cons append_Nil)
      with bs tk' rd Bit show ?thesis
        by (cases ps) (auto simp: drop_Suc neq_Nil_conv
          dest: arg_cong [of _ _ hd] split: list.splits)
    qed
  qed
qed

subsection \<open>The interface\<close>

text \<open>
  A channel writes tokens into a state that is determined by the bytes stored and the bits pending,
  and reads them from a state with a list of pending bits and a list of unread bytes. Writing fails
  only when the store has reached its limit, reading only when there is nothing left to read.
\<close>

locale token_channel =
  fixes put_bit :: "bool \<Rightarrow> 'w \<Rightarrow> 'e + 'w"
    and put_byte :: "u8 \<Rightarrow> 'w \<Rightarrow> 'e + 'w"
    and get_bit :: "'r \<Rightarrow> 'e + (bool \<times> 'r)"
    and get_byte :: "'r \<Rightarrow> 'e + (u8 \<times> 'r)"
    and wview :: "u8 list \<times> bool list \<Rightarrow> 'w"
    and pending :: "'r \<Rightarrow> bool list"
    and unread :: "'r \<Rightarrow> u8 list"
    and limit :: nat
  assumes put_bit_view:
      "pending_ok s \<Longrightarrow> length (fst s) < limit \<Longrightarrow> put_bit x (wview s) = Inr (wview (emit1 (Bit x) s))"
    and put_byte_view:
      "pending_ok s \<Longrightarrow> Suc (length (fst s)) < limit \<Longrightarrow>
         put_byte y (wview s) = Inr (wview (emit1 (Byte y) s))"
    and get_bit_pending:
      "pending r = p # ps \<Longrightarrow> \<exists>r'. get_bit r = Inr (p, r') \<and> pending r' = ps \<and> unread r' = unread r"
    and get_bit_fetch:
      "pending r = [] \<Longrightarrow> unread r = y # ys \<Longrightarrow>
         \<exists>r'. get_bit r = Inr (hd (bits_of_byte y), r') \<and>
              pending r' = tl (bits_of_byte y) \<and> unread r' = ys"
    and get_byte_unread:
      "unread r = y # ys \<Longrightarrow> \<exists>r'. get_byte r = Inr (y, r') \<and> pending r' = pending r \<and> unread r' = ys"
begin

definition put_token :: "token \<Rightarrow> 'w \<Rightarrow> 'e + 'w" where
  "put_token t w = (case t of Bit x \<Rightarrow> put_bit x w | Byte y \<Rightarrow> put_byte y w)"

primrec put_tokens :: "token list \<Rightarrow> 'w \<Rightarrow> 'e + 'w" where
  "put_tokens [] w = Inr w"
| "put_tokens (t # ts) w = bind_res (put_token t w) (put_tokens ts)"

definition get_token :: "token \<Rightarrow> 'r \<Rightarrow> 'e + (token \<times> 'r)" where
  "get_token t r = (case t of
       Bit _ \<Rightarrow> bind_res (get_bit r) (\<lambda>(x, r). Inr (Bit x, r))
     | Byte _ \<Rightarrow> bind_res (get_byte r) (\<lambda>(y, r). Inr (Byte y, r)))"

primrec get_tokens :: "token list \<Rightarrow> 'r \<Rightarrow> 'e + (token list \<times> 'r)" where
  "get_tokens [] r = Inr ([], r)"
| "get_tokens (t # ts) r =
     bind_res (get_token t r) (\<lambda>(u, r). bind_res (get_tokens ts r) (\<lambda>(us, r). Inr (u # us, r)))"

lemma put_tokens_view:
  "pending_ok s \<Longrightarrow> length (fst s) + 2 * length ts < limit \<Longrightarrow>
     put_tokens ts (wview s) = Inr (wview (emit ts s))"
proof (induction ts arbitrary: s)
  case Nil
  then show ?case by simp
next
  case (Cons t ts)
  have one: "put_token t (wview s) = Inr (wview (emit1 t s))"
    using Cons.prems by (cases t) (auto simp: put_token_def put_bit_view put_byte_view)
  have "length (fst (emit1 t s)) + 2 * length ts < limit"
    using Cons.prems(2) length_emit1 [of t s] by simp
  with Cons.IH [OF pending_ok_emit1 [OF Cons.prems(1)]] one show ?case by simp
qed

lemma get_bit_readable:
  assumes "readable (pending r) (unread r) (Bit x # ts)"
  shows "\<exists>r'. get_bit r = Inr (x, r') \<and> readable (pending r') (unread r') ts"
proof (cases "pending r")
  case Nil
  with assms obtain y ys where "unread r = y # ys" by (cases "unread r") auto
  with Nil assms get_bit_fetch [OF Nil this] show ?thesis by auto
next
  case (Cons p ps)
  with assms get_bit_pending [OF Cons] show ?thesis by auto
qed

lemma get_byte_readable:
  assumes "readable (pending r) (unread r) (Byte y # ts)"
  shows "\<exists>r'. get_byte r = Inr (y, r') \<and> readable (pending r') (unread r') ts"
proof -
  from assms obtain ys where "unread r = y # ys" "readable (pending r) ys ts"
    by (cases "unread r"; cases "pending r") auto
  with get_byte_unread [OF this(1)] show ?thesis by auto
qed

lemma get_tokens_readable:
  "readable (pending r) (unread r) ts \<Longrightarrow> \<exists>r'. get_tokens ts r = Inr (ts, r') \<and> unread r' = []"
proof (induction ts arbitrary: r)
  case Nil
  then show ?case by simp
next
  case (Cons t ts)
  have "\<exists>r1. get_token t r = Inr (t, r1) \<and> readable (pending r1) (unread r1) ts"
    using Cons.prems get_bit_readable get_byte_readable
    by (cases t) (fastforce simp: get_token_def)+
  then obtain r1 where "get_token t r = Inr (t, r1)" "readable (pending r1) (unread r1) ts"
    by blast
  with Cons.IH [of r1] show ?case by auto
qed

lemma tokens_roundtrip:
  assumes "aligned 0 ts" and "emit ts ([], []) = (bs, [])" and "2 * length ts < limit"
    and "pending r = []" and "unread r = bs"
  shows "put_tokens ts (wview ([], [])) = Inr (wview (bs, [])) \<and>
    (\<exists>r'. get_tokens ts r = Inr (ts, r') \<and> unread r' = [])"
proof
  show "put_tokens ts (wview ([], [])) = Inr (wview (bs, []))"
    using put_tokens_view [of "([], [])" ts] assms(2,3) by simp
  have "readable [] bs ts"
    using emit_readable [OF assms(2)] assms(1) by simp
  with assms(4,5) get_tokens_readable [of r ts] show "\<exists>r'. get_tokens ts r = Inr (ts, r') \<and> unread r' = []" by simp
qed

end

subsection \<open>\<open>ByteBuffer\<close> keeps the contract\<close>

definition wstate :: "nat \<Rightarrow> u8 list \<times> bool list \<Rightarrow> bytebuffer" where
  "wstate r s = \<lparr>rpos = r, wpos = length (fst s), bitpos = 8 - length (snd s),
                 curbitval = pack_bits (snd s), storage = fst s\<rparr>"

definition pending_bits :: "bytebuffer \<Rightarrow> bool list" where
  "pending_bits b = drop (Suc (bitpos b)) (bits_of_byte (curbitval b))"

definition unread_bytes :: "bytebuffer \<Rightarrow> u8 list" where
  "unread_bytes b = drop (rpos b) (storage b)"

definition bb_limit :: nat where
  "bb_limit = 10000000"

lemma bb_new_wstate: "bb_new = wstate 0 ([], [])"
  by (simp add: bb_new_def wstate_def)

lemma received_wstate: "bb_received bs = wstate 0 (bs, [])"
  by (simp add: bb_received_def wstate_def)

lemma append_bytes_wstate:
  "src \<noteq> [] \<Longrightarrow> length bs < bb_limit \<Longrightarrow>
     append_bytes src (wstate r (bs, [])) = Inr (wstate r (bs @ src, []))"
  by (simp add: append_bytes_def wstate_def bb_limit_def)

lemma FlushBits_wstate:
  assumes "length ps < 8" and "length bs < bb_limit"
  shows "FlushBits (wstate r (bs, ps)) = Inr (wstate r (bs @ flush_image ps, []))"
proof (cases "ps = []")
  case True
  then show ?thesis by (simp add: FlushBits_def wstate_def flush_image_def)
next
  case False
  then have "8 - length ps \<noteq> 8" using assms(1) by (cases ps) auto
  with False assms show ?thesis
    by (auto simp: FlushBits_def wstate_def flush_image_def append_bytes_def bb_limit_def)
qed

lemma append_val_wstate:
  assumes "length ps < 8" and "Suc (length bs) < bb_limit" and "8 \<le> LENGTH('a)"
  shows "append_val (v :: 'a::len word) (wstate r (bs, ps))
       = Inr (wstate r (bs @ flush_image ps @ le_bytes v, []))"
proof -
  have "LENGTH('a) div 8 \<noteq> 0" using assms(3) by (simp add: div_eq_0_iff)
  then have "length (le_bytes v) \<noteq> 0" by simp
  then have "le_bytes v \<noteq> []" by (metis length_0_conv)
  moreover have "length (bs @ flush_image ps) < bb_limit"
    using assms(2) by (simp add: flush_image_def)
  ultimately show ?thesis
    using assms by (simp add: append_val_def FlushBits_wstate append_bytes_wstate del: length_append)
qed

lemma WriteBit_wstate:
  assumes "length ps < 8" and "length bs < bb_limit"
  shows "WriteBit x (wstate r (bs, ps)) = Inr (wstate r (emit1 (Bit (x \<noteq> 0)) (bs, ps)))"
proof -
  have c: "(if x \<noteq> 0 then pack_bits ps OR push_bit (7 - length ps) 1 else pack_bits ps)
      = pack_bits (ps @ [x \<noteq> 0])"
    using pack_bits_snoc [OF assms(1), of "x \<noteq> 0"] by (auto split: if_splits)
  show ?thesis
    by (cases "x = 0"; cases "length ps = 7")
      (use c assms in \<open>simp_all add: WriteBit_def wstate_def append_bytes_def bb_limit_def Let_def\<close>)
qed

lemma le_bytes_u8 [simp]: "le_bytes (y :: u8) = [y]"
  by (simp add: le_bytes_def word_byte_def)

lemma ReadBit_pending:
  assumes "pending_bits b = p # ps"
  shows "\<exists>b'. ReadBit b = Inr (p, b') \<and> pending_bits b' = ps \<and> unread_bytes b' = unread_bytes b"
proof -
  have lt: "Suc (bitpos b) < 8"
    using arg_cong [OF assms, of length] by (simp add: pending_bits_def)
  then have "drop (Suc (bitpos b)) (bits_of_byte (curbitval b)) =
      bits_of_byte (curbitval b) ! Suc (bitpos b) # drop (Suc (Suc (bitpos b))) (bits_of_byte (curbitval b))"
    by (simp add: Cons_nth_drop_Suc)
  with assms lt have p: "p = bit (curbitval b) (7 - Suc (bitpos b))"
    and ps: "ps = drop (Suc (Suc (bitpos b))) (bits_of_byte (curbitval b))"
    by (simp_all add: pending_bits_def nth_bits_of_byte)
  have "drop_bit k w AND 1 \<noteq> (0 :: u8) \<longleftrightarrow> bit w k" for k w
    by (simp add: and_one_eq odd_iff_mod_2_eq_one [symmetric] bit_iff_odd_drop_bit)
  with lt p ps show ?thesis
    by (simp add: ReadBit_def pending_bits_def unread_bytes_def)
qed

lemma read_val_u8_unread:
  assumes "unread_bytes b = y # ys"
  shows "read_val b = Inr (y :: u8, b\<lparr>rpos := Suc (rpos b)\<rparr>)"
proof -
  have "rpos b < length (storage b)"
    using assms by (metis drop_all not_less list.distinct(1) unread_bytes_def)
  with assms show ?thesis
    by (simp add: read_val_def read_at_def unread_bytes_def le_word_def)
qed

lemma ReadBit_fetch:
  assumes "pending_bits b = []" and "unread_bytes b = y # ys"
  shows "\<exists>b'. ReadBit b = Inr (hd (bits_of_byte y), b') \<and>
     pending_bits b' = tl (bits_of_byte y) \<and> unread_bytes b' = ys"
proof -
  have ge: "7 < Suc (bitpos b)"
    using arg_cong [OF assms(1), of length] by (simp add: pending_bits_def)
  have "read_val (b\<lparr>bitpos := 0\<rparr>) = Inr (y, b\<lparr>bitpos := 0, rpos := Suc (rpos b)\<rparr>)"
    using read_val_u8_unread [of "b\<lparr>bitpos := 0\<rparr>" y ys] assms(2) by (simp add: unread_bytes_def)
  moreover have "drop_bit 7 y AND 1 \<noteq> (0 :: u8) \<longleftrightarrow> hd (bits_of_byte y)"
    by (simp add: and_one_eq odd_iff_mod_2_eq_one [symmetric] bit_iff_odd_drop_bit
        bits_of_byte_def upt_rec)
  moreover have "drop (Suc (rpos b)) (storage b) = ys"
    using assms(2) by (metis drop_Suc tl_drop list.sel(3) unread_bytes_def)
  ultimately show ?thesis
    using ge by (simp add: ReadBit_def pending_bits_def unread_bytes_def drop_Suc)
qed

lemma read_val_keeps:
  assumes "unread_bytes b = y # ys"
  shows "\<exists>b'. read_val b = Inr (y :: u8, b') \<and> pending_bits b' = pending_bits b \<and> unread_bytes b' = ys"
  using assms read_val_u8_unread [OF assms]
  by (auto simp: pending_bits_def unread_bytes_def) (metis drop_Suc list.sel(3) tl_drop)

interpretation bb: token_channel
  "\<lambda>x. WriteBit (of_bool x)" "append_val :: u8 \<Rightarrow> _" ReadBit "read_val :: _ \<Rightarrow> bb_error + (u8 \<times> _)"
  "wstate r" pending_bits unread_bytes bb_limit for r
proof unfold_locales
  fix s x assume "pending_ok s" "length (fst s) < bb_limit"
  then show "WriteBit (of_bool x) (wstate r s) = Inr (wstate r (emit1 (Bit x) s))"
    by (cases s) (simp add: pending_ok_def WriteBit_wstate del: emit1.simps)
next
  fix s and y :: u8 assume "pending_ok s" "Suc (length (fst s)) < bb_limit"
  then show "append_val y (wstate r s) = Inr (wstate r (emit1 (Byte y) s))"
    by (cases s) (simp add: pending_ok_def append_val_wstate)
qed (use ReadBit_pending ReadBit_fetch read_val_keeps in blast)+

end
