(* ===== verification/PacketCodec.thy ===== *)
theory PacketCodec
  imports PacketStream
begin

text \<open>
  Whole values on the packet stream: the tokens of an integer, of a bit field and of an optional GUID
  byte, the lemmas that the write operations of \<open>ByteBuffer\<close> emit them and the read operations take
  them back, and the bytes of a GUID.
\<close>

subsection \<open>The tokens of a value\<close>

definition word_tokens :: "'a::len word \<Rightarrow> token list" where
  "word_tokens v = map Byte (le_bytes v)"

definition bits_tokens :: "nat \<Rightarrow> 'a::len word \<Rightarrow> token list" where
  "bits_tokens n v = map (\<lambda>i. Bit (bit v i)) (rev [0..<n])"

definition byteseq_tokens :: "u8 \<Rightarrow> token list" where
  "byteseq_tokens x = (if x \<noteq> 0 then [Byte (x XOR 1)] else [])"

subsection \<open>Writing emits the tokens\<close>

abbreviation room :: "nat \<Rightarrow> u8 list \<times> bool list \<Rightarrow> bool" where
  "room n st \<equiv> pending_ok st \<and> length (fst st) + 2 * n < bb_limit"

lemma emit_bytes:
  "xs \<noteq> [] \<Longrightarrow> emit (map Byte xs) (bs, ps) = (bs @ flush_image ps @ xs, [])"
proof (induction xs arbitrary: bs ps)
  case Nil
  then show ?case by simp
next
  case (Cons x xs)
  then show ?case
    by (cases "xs = []") (simp_all add: flush_image_def)
qed

lemma write_bit_emit:
  "room 1 st \<Longrightarrow> WriteBit x (wstate r st) = Inr (wstate r (emit [Bit (x \<noteq> 0)] st))"
  by (cases st) (simp add: WriteBit_wstate pending_ok_def del: emit1.simps)

lemma write_of_bool_emit:
  "room 1 st \<Longrightarrow> WriteBit (of_bool x) (wstate r st) = Inr (wstate r (emit [Bit x] st))"
  by (simp add: write_bit_emit del: emit.simps)

lemma append_val_emit:
  assumes "room 2 st" and "8 \<le> LENGTH('a)"
  shows "append_val (v :: 'a::len word) (wstate r st) = Inr (wstate r (emit (word_tokens v) st))"
proof -
  have "length (le_bytes v) \<noteq> 0" using assms(2) by (simp add: div_eq_0_iff)
  then have "le_bytes v \<noteq> []" by (metis length_0_conv)
  then show ?thesis
    using assms by (cases st) (simp add: append_val_wstate word_tokens_def emit_bytes pending_ok_def)
qed

lemma WriteBits_emit:
  "room n st \<Longrightarrow> WriteBits v n (wstate r st) = Inr (wstate r (emit (bits_tokens n v) st))"
proof (induction n arbitrary: st)
  case 0
  then show ?case by (simp add: bits_tokens_def)
next
  case (Suc n)
  let ?st = "emit1 (Bit (bit v n)) st"
  have "WriteBit (of_bool (bit v n)) (wstate r st) = Inr (wstate r ?st)"
    using write_of_bool_emit [of st "bit v n" r] Suc.prems by simp
  moreover have "room n ?st"
    using Suc.prems length_emit1 [of "Bit (bit v n)" st] by (auto intro: pending_ok_emit1)
  moreover have "bits_tokens (Suc n) v = Bit (bit v n) # bits_tokens n v"
    by (simp add: bits_tokens_def)
  ultimately show ?case using Suc.IH [of ?st] by simp
qed

lemma ucast_byte_eq_0 [simp]: "(ucast (x :: u8) :: u32) = 0 \<longleftrightarrow> x = 0"
proof
  assume z: "(ucast x :: u32) = 0"
  show "x = 0"
  proof (rule bit_word_eqI)
    fix n assume "n < LENGTH(8)"
    with z have "\<not> bit (ucast x :: u32) n" by simp
    with \<open>n < LENGTH(8)\<close> show "bit x n = bit 0 n" by (simp add: bit_ucast_iff)
  qed
qed simp

subsection \<open>Reading takes the tokens back\<close>

abbreviation avail :: "bytebuffer \<Rightarrow> token list \<Rightarrow> bool" where
  "avail b ts \<equiv> readable (pending_bits b) (unread_bytes b) ts"

lemma avail_bit:
  "avail b (Bit x # ts) \<Longrightarrow> \<exists>b'. ReadBit b = Inr (x, b') \<and> avail b' ts"
  by (rule bb.get_bit_readable)

lemma readable_bytes_append:
  "readable pb bs (map Byte xs @ ts) \<Longrightarrow> \<exists>bs'. bs = xs @ bs' \<and> readable pb bs' ts"
proof (induction xs arbitrary: bs)
  case Nil
  then show ?case by simp
next
  case (Cons x xs)
  then show ?case by (cases bs; cases pb) auto
qed

lemma read_val_prefix:
  assumes "unread_bytes b = le_bytes v @ bs" and "LENGTH('a) mod 8 = 0" and "8 \<le> LENGTH('a)"
  shows "read_val b = Inr (v :: 'a::len word, b\<lparr>rpos := rpos b + LENGTH('a) div 8\<rparr>)"
proof -
  have "length (drop (rpos b) (storage b)) = LENGTH('a) div 8 + length bs"
    using arg_cong [OF assms(1), of length] by (simp add: unread_bytes_def)
  moreover have "0 < LENGTH('a) div 8"
    using assms(3) by (simp add: div_greater_zero_iff)
  ultimately have "\<not> rpos b + LENGTH('a) div 8 > length (storage b)" by simp
  moreover have "take (LENGTH('a) div 8) (drop (rpos b) (storage b)) = le_bytes v"
    using assms(1) by (simp add: unread_bytes_def)
  ultimately show ?thesis
    by (simp add: read_val_def read_at_def le_word_le_bytes [OF assms(2)])
qed

lemma avail_val:
  assumes "avail b (word_tokens v @ ts)" and "LENGTH('a) mod 8 = 0" and "8 \<le> LENGTH('a)"
  shows "\<exists>b'. read_val b = Inr (v :: 'a::len word, b') \<and> avail b' ts"
proof -
  from assms(1) obtain bs where bs: "unread_bytes b = le_bytes v @ bs"
    and rd: "readable (pending_bits b) bs ts"
    using readable_bytes_append unfolding word_tokens_def by blast
  let ?b = "b\<lparr>rpos := rpos b + LENGTH('a) div 8\<rparr>"
  have "unread_bytes ?b = drop (LENGTH('a) div 8) (unread_bytes b)"
    by (simp add: unread_bytes_def add.commute)
  also have "\<dots> = bs" using bs by simp
  finally show ?thesis
    using read_val_prefix [OF bs assms(2,3)] rd by (auto simp: pending_bits_def)
qed

lemma ReadBits_from_avail:
  "avail b (bits_tokens n v @ ts) \<Longrightarrow> n \<le> 32 \<Longrightarrow>
     \<exists>b'. ReadBits_from n w b = Inr (w OR ucast (take_bit n (v :: 'a::len word)), b') \<and> avail b' ts"
proof (induction n arbitrary: b w)
  case 0
  then show ?case by (simp add: bits_tokens_def)
next
  case (Suc n)
  have "bits_tokens (Suc n) v = Bit (bit v n) # bits_tokens n v"
    by (simp add: bits_tokens_def)
  with Suc.prems obtain b1 where b1: "ReadBit b = Inr (bit v n, b1)" "avail b1 (bits_tokens n v @ ts)"
    using avail_bit by fastforce
  let ?w = "if bit v n then w OR push_bit n 1 else w"
  from Suc.IH [OF b1(2), of ?w] Suc.prems obtain b' where
    b': "ReadBits_from n ?w b1 = Inr (?w OR ucast (take_bit n v), b')" "avail b' ts"
    by auto
  have "?w OR ucast (take_bit n v) = w OR (ucast (take_bit (Suc n) v) :: u32)"
    by (rule bit_word_eqI)
      (use Suc.prems(2) in \<open>auto simp: bit_or_iff bit_ucast_iff bit_take_bit_iff bit_exp_iff less_Suc_eq
        dest: bit_imp_le_length\<close>)
  with b1(1) b' show ?case by auto
qed

lemma avail_bits:
  "avail b (bits_tokens n v @ ts) \<Longrightarrow> n \<le> 32 \<Longrightarrow>
     \<exists>b'. ReadBits n b = Inr (ucast (take_bit n (v :: 'a::len word)), b') \<and> avail b' ts"
  using ReadBits_from_avail [of b n v ts 0] by (simp add: ReadBits_def)

lemma avail_byteseq:
  assumes "avail b (byteseq_tokens x @ ts)"
  shows "\<exists>b'. ReadByteSeq (of_bool (x \<noteq> 0)) b = Inr (x, b') \<and> avail b' ts"
proof (cases "x = 0")
  case True
  with assms show ?thesis by (simp add: ReadByteSeq_def byteseq_tokens_def)
next
  case False
  then have "byteseq_tokens x = word_tokens (x XOR 1)"
    by (simp add: byteseq_tokens_def word_tokens_def)
  with assms avail_val [of b "x XOR 1" ts] obtain b' where
    "read_val b = Inr (x XOR 1, b')" "avail b' ts" by auto
  moreover have "1 XOR (x XOR 1) = x"
    by (simp add: xor.commute xor.left_commute)
  ultimately show ?thesis using False by (simp add: ReadByteSeq_def)
qed

subsection \<open>Setting and getting GUID bytes\<close>

lemma bit_FF: "bit (255 :: u64) k \<longleftrightarrow> k < 8"
proof -
  have e: "mask 8 = (255 :: u64)" by (simp add: mask_eq_exp_minus_1)
  have "bit (mask 8 :: u64) k \<longleftrightarrow> k < 64 \<and> k < 8"
    unfolding bit_mask_iff by (auto simp: possible_bit_word)
  then show ?thesis unfolding e by auto
qed

lemma bit_guid_set:
  "bit (guid_set g i v) n \<longleftrightarrow>
     n < 64 \<and> (if 8 * i \<le> n \<and> n < 8 * i + 8 then bit v (n - 8 * i) else bit g n)"
proof -
  have m: "bit (push_bit (8 * i) (255 :: u64)) n \<longleftrightarrow> n < 64 \<and> 8 * i \<le> n \<and> n < 8 * i + 8"
    unfolding bit_push_bit_iff bit_FF by (auto simp: possible_bit_word)
  show ?thesis
    unfolding guid_set_def bit_or_iff bit_and_iff bit_not_iff m
    by (auto simp: bit_push_bit_iff bit_ucast_iff dest: bit_imp_le_length)
qed

lemma word_byte_guid_set:
  "i < 8 \<Longrightarrow> word_byte (guid_set g i v) j = (if i = j then v else word_byte g j)"
  by (rule bit_word_eqI) (auto simp: bit_word_byte bit_guid_set dest: bit_imp_le_length)

lemma guid_eq_iff_bytes: "(\<And>i. i < 8 \<Longrightarrow> word_byte g i = word_byte h i) \<Longrightarrow> g = (h :: u64)"
proof (rule bit_word_eqI)
  fix n assume eq: "\<And>i. i < 8 \<Longrightarrow> word_byte g i = word_byte h i" and "n < LENGTH(64)"
  then have "n div 8 < 8" by simp
  with eq have "bit (word_byte g (n div 8)) (n mod 8) = bit (word_byte h (n div 8)) (n mod 8)"
    by simp
  then show "bit g n = bit h n" by (simp add: bit_word_byte)
qed

subsection \<open>Runs of bits and runs of bytes\<close>

definition bits_only :: "token list \<Rightarrow> bool" where
  "bits_only ts \<longleftrightarrow> (\<forall>t \<in> set ts. is_bit t)"

definition bytes_only :: "token list \<Rightarrow> bool" where
  "bytes_only ts \<longleftrightarrow> (\<forall>t \<in> set ts. \<not> is_bit t)"

lemma bytes_only_word [simp]: "bytes_only (word_tokens v)"
  by (auto simp: bytes_only_def word_tokens_def)

lemma bits_only_bits [simp]: "bits_only (bits_tokens n v)"
  by (auto simp: bits_only_def bits_tokens_def)

lemma length_bits_tokens [simp]: "length (bits_tokens n v) = n"
  by (simp add: bits_tokens_def)

lemma length_word_tokens [simp]: "length (word_tokens (v :: 'a::len word)) = LENGTH('a) div 8"
  by (simp add: word_tokens_def)

lemma word_tokens_not_Nil [simp]: "8 \<le> LENGTH('a) \<Longrightarrow> word_tokens (v :: 'a::len word) \<noteq> []"
  by (metis length_word_tokens div_greater_zero_iff list.size(3) less_numeral_extra(3) zero_less_numeral)

lemma shaped_bit [simp]: "bits_only [Bit x]"
  by (simp add: bits_only_def)

lemma bytes_only_byteseq [simp]: "bytes_only (byteseq_tokens x)"
  by (simp add: bytes_only_def byteseq_tokens_def)

lemma only_append [simp]: "bytes_only (ts @ us) \<longleftrightarrow> bytes_only ts \<and> bytes_only us"
  by (auto simp: bytes_only_def)

lemma only_Nil [simp]: "bits_only []" "bytes_only []"
  by (simp_all add: bits_only_def bytes_only_def)

lemma length_byteseq_tokens: "length (byteseq_tokens x) \<le> 1"
  by (simp add: byteseq_tokens_def)

lemma aligned_bits:
  "bits_only ts \<Longrightarrow> k < 8 \<Longrightarrow> aligned k (ts @ us) \<longleftrightarrow> aligned ((k + length ts) mod 8) us"
proof (induction ts arbitrary: k)
  case Nil
  then show ?case by simp
next
  case (Cons t ts)
  then obtain x where t: "t = Bit x" by (cases t) (auto simp: bits_only_def)
  have "bits_only ts" using Cons.prems by (simp add: bits_only_def)
  moreover have "(if k = 7 then 0 else Suc k) < 8" using Cons.prems by simp
  ultimately have "aligned k ((t # ts) @ us) = aligned (((if k = 7 then 0 else Suc k) + length ts) mod 8) us"
    using Cons.IH t by simp
  also have "((if k = 7 then 0 else Suc k) + length ts) mod 8 = (k + length (t # ts)) mod 8"
    by simp
  finally show ?case .
qed

lemma aligned_bytes:
  "bytes_only ts \<Longrightarrow> ts \<noteq> [] \<Longrightarrow> aligned 0 us \<Longrightarrow> k = 0 \<or> bytes_only us \<Longrightarrow> aligned k (ts @ us)"
proof (induction ts arbitrary: k)
  case Nil
  then show ?case by simp
next
  case (Cons t ts)
  then obtain y where t: "t = Byte y" by (cases t) (auto simp: bytes_only_def)
  have b: "bytes_only ts" using Cons.prems by (simp add: bytes_only_def)
  show ?case
    using Cons t b by (cases "ts = []") (auto simp: bytes_only_def)
qed

lemma emit_bits_pending:
  "bits_only ts \<Longrightarrow> length (snd s) < 8 \<Longrightarrow> length (snd (emit ts s)) = (length (snd s) + length ts) mod 8"
proof (induction ts arbitrary: s)
  case Nil
  then show ?case by simp
next
  case (Cons t ts)
  then obtain x where t: "t = Bit x" by (cases t) (auto simp: bits_only_def)
  have b: "bits_only ts" using Cons.prems by (simp add: bits_only_def)
  show ?case
  proof (cases "length (snd s) = 7")
    case True
    with t Cons.prems Cons.IH [OF b, of "emit1 t s"] show ?thesis
      by (cases s) simp
  next
    case False
    with t Cons.prems Cons.IH [OF b, of "emit1 t s"] show ?thesis
      by (cases s) simp
  qed
qed

lemma emit_bytes_pending:
  "bytes_only ts \<Longrightarrow> ts \<noteq> [] \<Longrightarrow> snd (emit ts s) = []"
proof (induction ts arbitrary: s)
  case Nil
  then show ?case by simp
next
  case (Cons t ts)
  then obtain y where t: "t = Byte y" by (cases t) (auto simp: bytes_only_def)
  show ?case
    using Cons t by (cases "ts = []"; cases s) (auto simp: bytes_only_def)
qed

end
