(* ===== verification/MovementStructures.thy ===== *)
theory MovementStructures
  imports PacketCodec
begin

text \<open>
  The elements of movement packets, \<open>src/server/game/Movement/MovementStructures.h\<close>, and the extra
  elements that some packets embed (\<open>ExtraMovementStatusElement\<close>). The eight enumerators of a GUID
  byte group are one constructor with the byte index, the value \<open>element - MSE..Byte0\<close> that the code
  uses them for.
\<close>

datatype (plugins only: code size) MovementStatusElements =
    MSEForcesCount | MSEHasCounter | MSEHasGuidByte nat | MSEHasMountDisplayId
  | MSEHasMovementFlags | MSEHasMovementFlags2 | MSEHasTimestamp | MSEHasOrientation
  | MSEHasTransportData | MSEHasTransportGuidByte nat | MSEHasTransportTime2
  | MSEHasTransportTime3 | MSEHasTransportVehicleId | MSEHasPitch | MSEHasFallData
  | MSEHasFallDirection | MSEHasSplineElevation | MSEHasSpline
  | MSEForces | MSECount | MSECounter | MSEGuidByte nat
  | MSEMountDisplayIdWithCheck | MSEMountDisplayIdWithoutCheck | MSEMovementFlags
  | MSEMovementFlags2 | MSETimestamp | MSEPositionX | MSEPositionY | MSEPositionZ
  | MSEOrientation | MSETransportGuidByte nat | MSETransportPositionX | MSETransportPositionY
  | MSETransportPositionZ | MSETransportOrientation | MSETransportSeat | MSETransportTime
  | MSETransportTime2 | MSETransportTime3 | MSETransportVehicleId | MSEPitch | MSEFallTime
  | MSEFallVerticalSpeed | MSEFallCosAngle | MSEFallSinAngle | MSEFallHorizontalSpeed
  | MSESplineElevation | MSEUintCount
  | MSEZeroBit | MSEOneBit | MSEEnd | MSEExtraElement | MSEExtraFloat | MSEExtraFloat2
  | MSEExtraInt8 | MSEExtraInt32 | MSEExtra2Bits

text \<open>
  \<open>_elements\<close> points to an array without a bound: reading past its end has no defined result.
  Floats and signed integers are kept as their bit patterns.
\<close>

record extra_element =
  ex_elements :: "MovementStatusElements list"
  ex_index :: nat
  ex_guid :: u64
  ex_byteData :: u8
  ex_int32Data :: u32
  ex_2bitsData :: u32
  ex_floatData :: u32
  ex_floatData2 :: u32

definition extra_new :: "MovementStatusElements list \<Rightarrow> extra_element" where
  "extra_new els = \<lparr>ex_elements = els, ex_index = 0, ex_guid = 0, ex_byteData = 0, ex_int32Data = 0,
     ex_2bitsData = 0, ex_floatData = 0, ex_floatData2 = 0\<rparr>"

definition ResetIndex :: "extra_element \<Rightarrow> extra_element" where
  "ResetIndex x = x\<lparr>ex_index := 0\<rparr>"

definition read_extra_data ::
  "MovementStatusElements \<Rightarrow> extra_element \<Rightarrow> bytebuffer \<Rightarrow> bb_error + (extra_element \<times> bytebuffer)"
where
  "read_extra_data e x b = (case e of
       MSEHasGuidByte i \<Rightarrow>
         bind_res (ReadBit b) (\<lambda>(v, b). bind_res (guid_put (ex_guid x) i (of_bool v))
           (\<lambda>g. Inr (x\<lparr>ex_guid := g\<rparr>, b)))
     | MSEGuidByte i \<Rightarrow>
         bind_res (guid_get (ex_guid x) i) (\<lambda>v. bind_res (ReadByteSeq v b) (\<lambda>(v, b).
           bind_res (guid_put (ex_guid x) i v) (\<lambda>g. Inr (x\<lparr>ex_guid := g\<rparr>, b))))
     | MSEExtraFloat \<Rightarrow> bind_res (read_val b) (\<lambda>(v, b). Inr (x\<lparr>ex_floatData := v\<rparr>, b))
     | MSEExtraFloat2 \<Rightarrow> bind_res (read_val b) (\<lambda>(v, b). Inr (x\<lparr>ex_floatData2 := v\<rparr>, b))
     | MSEExtraInt8 \<Rightarrow> bind_res (read_val b) (\<lambda>(v, b). Inr (x\<lparr>ex_byteData := v\<rparr>, b))
     | MSEExtraInt32 \<Rightarrow> bind_res (read_val b) (\<lambda>(v, b). Inr (x\<lparr>ex_int32Data := v\<rparr>, b))
     | MSEExtra2Bits \<Rightarrow> bind_res (ReadBits 2 b) (\<lambda>(v, b). Inr (x\<lparr>ex_2bitsData := v\<rparr>, b))
     | _ \<Rightarrow> Inl AssertFailed)"

definition write_extra_data ::
  "MovementStatusElements \<Rightarrow> extra_element \<Rightarrow> bytebuffer \<Rightarrow> bb_error + bytebuffer"
where
  "write_extra_data e x b = (case e of
       MSEHasGuidByte i \<Rightarrow> bind_res (guid_get (ex_guid x) i) (\<lambda>v. WriteBit (ucast v) b)
     | MSEGuidByte i \<Rightarrow> bind_res (guid_get (ex_guid x) i) (\<lambda>v. WriteByteSeq v b)
     | MSEExtraFloat \<Rightarrow> append_val (ex_floatData x) b
     | MSEExtraFloat2 \<Rightarrow> append_val (ex_floatData2 x) b
     | MSEExtraInt8 \<Rightarrow> append_val (ex_byteData x) b
     | MSEExtraInt32 \<Rightarrow> append_val (ex_int32Data x) b
     | MSEExtra2Bits \<Rightarrow> WriteBits (ex_2bitsData x) 2 b
     | _ \<Rightarrow> Inl AssertFailed)"

text \<open>\<open>extras\<close> is a pointer and may be null; both functions advance the index before they switch.\<close>

definition ReadNextElement ::
  "extra_element option \<Rightarrow> bytebuffer \<Rightarrow> bb_error + (extra_element option \<times> bytebuffer)"
where
  "ReadNextElement ex b = (case ex of
       None \<Rightarrow> Inl UndefinedBehaviour
     | Some x \<Rightarrow>
         if ex_index x < length (ex_elements x)
         then bind_res (read_extra_data (ex_elements x ! ex_index x) (x\<lparr>ex_index := Suc (ex_index x)\<rparr>) b)
                (\<lambda>(x, b). Inr (Some x, b))
         else Inl UndefinedBehaviour)"

definition WriteNextElement ::
  "extra_element option \<Rightarrow> bytebuffer \<Rightarrow> bb_error + (extra_element option \<times> bytebuffer)"
where
  "WriteNextElement ex b = (case ex of
       None \<Rightarrow> Inl UndefinedBehaviour
     | Some x \<Rightarrow>
         if ex_index x < length (ex_elements x)
         then bind_res (write_extra_data (ex_elements x ! ex_index x) x b)
                (\<lambda>b. Inr (Some (x\<lparr>ex_index := Suc (ex_index x)\<rparr>), b))
         else Inl UndefinedBehaviour)"

end
