(* ===== verification/MovementTables.thy ===== *)
theory MovementTables
  imports MovementStructures
begin
text \<open>
  The element sequences of the movement packets, \<open>src/server/game/Movement/MovementStructures.cpp\<close>,
  one definition per array (the terminating \<open>MSEEnd\<close> included, since the loops of the reader and of
  the writer stop at it), and the dispatch \<open>GetMovementStatusElementsSequence\<close> from opcodes to
  sequences. The enumerators are those of the opcodes with a sequence; every other opcode is
  \<open>OTHER_OPCODE\<close> with its number.
\<close>

definition PlayerMove :: "MovementStatusElements list" where
  "PlayerMove = [
     MSEHasPitch, MSEHasGuidByte 2, MSEZeroBit, MSEZeroBit, MSEHasGuidByte 0,
     MSEHasOrientation, MSEHasFallData, MSEHasCounter, MSEHasGuidByte 3,
     MSEHasFallDirection, MSEHasTransportData, MSEHasGuidByte 4, MSEHasTransportGuidByte 5,
     MSEHasTransportGuidByte 4, MSEHasTransportGuidByte 7, MSEHasTransportGuidByte 2,
     MSEHasTransportGuidByte 6, MSEHasTransportTime2, MSEHasTransportGuidByte 3,
     MSEHasTransportGuidByte 1, MSEHasTransportVehicleId, MSEHasTransportGuidByte 0,
     MSEHasSplineElevation, MSEHasMovementFlags, MSEZeroBit, MSEMovementFlags,
     MSEHasMovementFlags2, MSEHasGuidByte 7, MSEHasGuidByte 1, MSEHasTimestamp,
     MSEMovementFlags2, MSEHasGuidByte 5, MSEForcesCount, MSEHasGuidByte 6, MSEPositionY,
     MSETransportGuidByte 7, MSETransportTime2, MSETransportPositionX,
     MSETransportGuidByte 5, MSETransportSeat, MSETransportGuidByte 2,
     MSETransportGuidByte 0, MSETransportGuidByte 3, MSETransportTime,
     MSETransportGuidByte 4, MSETransportPositionZ, MSETransportGuidByte 1,
     MSETransportPositionY, MSETransportOrientation, MSETransportGuidByte 6,
     MSETransportVehicleId, MSEGuidByte 5, MSEGuidByte 1, MSEPositionZ, MSETimestamp,
     MSEOrientation, MSEGuidByte 3, MSEFallSinAngle, MSEFallHorizontalSpeed,
     MSEFallCosAngle, MSEFallVerticalSpeed, MSEFallTime, MSEGuidByte 0, MSEPitch,
     MSEGuidByte 2, MSEGuidByte 6, MSESplineElevation, MSECounter, MSEPositionX,
     MSEGuidByte 4, MSEGuidByte 7, MSEEnd]"

definition MovementFallLand :: "MovementStatusElements list" where
  "MovementFallLand = [
     MSEPositionY, MSEPositionZ, MSEPositionX, MSEHasFallData, MSEZeroBit, MSEZeroBit,
     MSEHasTimestamp, MSEHasGuidByte 7, MSEZeroBit, MSEHasSplineElevation, MSEHasGuidByte 5,
     MSEHasPitch, MSEHasMovementFlags2, MSEHasGuidByte 2, MSEHasGuidByte 3,
     MSEHasGuidByte 0, MSEHasOrientation, MSEForcesCount, MSEHasMovementFlags,
     MSEHasCounter, MSEHasGuidByte 1, MSEHasTransportData, MSEHasGuidByte 6,
     MSEHasGuidByte 4, MSEHasTransportGuidByte 0, MSEHasTransportTime2,
     MSEHasTransportGuidByte 3, MSEHasTransportGuidByte 5, MSEHasTransportGuidByte 1,
     MSEHasTransportGuidByte 7, MSEHasTransportGuidByte 4, MSEHasTransportGuidByte 2,
     MSEHasTransportGuidByte 6, MSEHasTransportVehicleId, MSEMovementFlags2,
     MSEHasFallDirection, MSEMovementFlags, MSEGuidByte 4, MSEGuidByte 3, MSEGuidByte 7,
     MSEGuidByte 0, MSEGuidByte 2, MSEGuidByte 5, MSEGuidByte 1, MSEGuidByte 6, MSEForces,
     MSEFallSinAngle, MSEFallHorizontalSpeed, MSEFallCosAngle, MSEFallTime,
     MSEFallVerticalSpeed, MSETransportGuidByte 4, MSETransportPositionY,
     MSETransportOrientation, MSETransportPositionZ, MSETransportSeat,
     MSETransportGuidByte 3, MSETransportGuidByte 6, MSETransportTime2,
     MSETransportGuidByte 2, MSETransportGuidByte 1, MSETransportGuidByte 5,
     MSETransportVehicleId, MSETransportTime, MSETransportPositionX, MSETransportGuidByte 7,
     MSETransportGuidByte 0, MSECounter, MSETimestamp, MSESplineElevation, MSEPitch,
     MSEOrientation, MSEEnd]"

definition MovementHeartBeat :: "MovementStatusElements list" where
  "MovementHeartBeat = [
     MSEPositionZ, MSEPositionX, MSEPositionY, MSEForcesCount, MSEHasMovementFlags,
     MSEZeroBit, MSEHasCounter, MSEHasGuidByte 3, MSEHasGuidByte 6, MSEHasPitch, MSEZeroBit,
     MSEZeroBit, MSEHasGuidByte 7, MSEHasGuidByte 2, MSEHasGuidByte 4, MSEHasMovementFlags2,
     MSEHasOrientation, MSEHasTimestamp, MSEHasTransportData, MSEHasFallData,
     MSEHasGuidByte 5, MSEHasSplineElevation, MSEHasGuidByte 1, MSEHasGuidByte 0,
     MSEHasTransportGuidByte 5, MSEHasTransportGuidByte 3, MSEHasTransportGuidByte 6,
     MSEHasTransportGuidByte 0, MSEHasTransportGuidByte 7, MSEHasTransportVehicleId,
     MSEHasTransportGuidByte 1, MSEHasTransportGuidByte 2, MSEHasTransportGuidByte 4,
     MSEHasTransportTime2, MSEMovementFlags, MSEHasFallDirection, MSEMovementFlags2,
     MSEGuidByte 2, MSEGuidByte 3, MSEGuidByte 6, MSEGuidByte 1, MSEGuidByte 4,
     MSEGuidByte 7, MSEForces, MSEGuidByte 5, MSEGuidByte 0, MSEFallSinAngle,
     MSEFallCosAngle, MSEFallHorizontalSpeed, MSEFallVerticalSpeed, MSEFallTime,
     MSETransportGuidByte 1, MSETransportGuidByte 3, MSETransportGuidByte 2,
     MSETransportGuidByte 0, MSETransportVehicleId, MSETransportSeat,
     MSETransportGuidByte 7, MSETransportPositionX, MSETransportGuidByte 4,
     MSETransportTime2, MSETransportPositionY, MSETransportGuidByte 6,
     MSETransportGuidByte 5, MSETransportPositionZ, MSETransportTime,
     MSETransportOrientation, MSECounter, MSEOrientation, MSEPitch, MSETimestamp,
     MSESplineElevation, MSEEnd]"

definition MovementJump :: "MovementStatusElements list" where
  "MovementJump = [
     MSEPositionY, MSEPositionX, MSEPositionZ, MSEHasGuidByte 1, MSEHasGuidByte 7,
     MSEHasMovementFlags2, MSEHasGuidByte 5, MSEHasSplineElevation, MSEHasOrientation,
     MSEHasGuidByte 6, MSEHasGuidByte 4, MSEZeroBit, MSEHasTransportData, MSEZeroBit,
     MSEForcesCount, MSEHasPitch, MSEHasMovementFlags, MSEHasTimestamp, MSEHasCounter,
     MSEHasGuidByte 3, MSEZeroBit, MSEHasFallData, MSEHasGuidByte 2, MSEHasGuidByte 0,
     MSEHasTransportGuidByte 2, MSEHasTransportGuidByte 3, MSEHasTransportGuidByte 1,
     MSEHasTransportGuidByte 4, MSEHasTransportTime2, MSEHasTransportGuidByte 5,
     MSEHasTransportGuidByte 6, MSEHasTransportGuidByte 0, MSEHasTransportGuidByte 7,
     MSEHasTransportVehicleId, MSEMovementFlags, MSEMovementFlags2, MSEHasFallDirection,
     MSEGuidByte 7, MSEGuidByte 1, MSEGuidByte 0, MSEForces, MSEGuidByte 2, MSEGuidByte 6,
     MSEGuidByte 3, MSEGuidByte 4, MSEGuidByte 5, MSEFallVerticalSpeed, MSEFallSinAngle,
     MSEFallCosAngle, MSEFallHorizontalSpeed, MSEFallTime, MSETransportGuidByte 5,
     MSETransportGuidByte 7, MSETransportSeat, MSETransportGuidByte 4,
     MSETransportGuidByte 0, MSETransportPositionZ, MSETransportGuidByte 6,
     MSETransportGuidByte 2, MSETransportPositionY, MSETransportTime, MSETransportPositionX,
     MSETransportTime2, MSETransportGuidByte 1, MSETransportGuidByte 3,
     MSETransportVehicleId, MSETransportOrientation, MSESplineElevation, MSEOrientation,
     MSEPitch, MSECounter, MSETimestamp, MSEEnd]"

definition MovementSetFacing :: "MovementStatusElements list" where
  "MovementSetFacing = [
     MSEPositionY, MSEPositionX, MSEPositionZ, MSEHasGuidByte 5, MSEHasMovementFlags2,
     MSEHasGuidByte 3, MSEHasGuidByte 2, MSEForcesCount, MSEZeroBit, MSEHasPitch,
     MSEHasGuidByte 0, MSEHasOrientation, MSEHasTimestamp, MSEZeroBit, MSEHasCounter,
     MSEHasGuidByte 4, MSEZeroBit, MSEHasGuidByte 1, MSEHasGuidByte 6, MSEHasFallData,
     MSEHasMovementFlags, MSEHasSplineElevation, MSEHasTransportData, MSEHasGuidByte 7,
     MSEHasTransportGuidByte 7, MSEHasTransportGuidByte 0, MSEHasTransportTime2,
     MSEHasTransportGuidByte 3, MSEHasTransportGuidByte 6, MSEHasTransportVehicleId,
     MSEHasTransportGuidByte 2, MSEHasTransportGuidByte 5, MSEHasTransportGuidByte 1,
     MSEHasTransportGuidByte 4, MSEHasFallDirection, MSEMovementFlags2, MSEMovementFlags,
     MSEForces, MSEGuidByte 0, MSEGuidByte 6, MSEGuidByte 3, MSEGuidByte 1, MSEGuidByte 2,
     MSEGuidByte 7, MSEGuidByte 4, MSEGuidByte 5, MSETransportGuidByte 0,
     MSETransportGuidByte 2, MSETransportOrientation, MSETransportGuidByte 7,
     MSETransportVehicleId, MSETransportGuidByte 5, MSETransportTime, MSETransportPositionX,
     MSETransportTime2, MSETransportPositionZ, MSETransportSeat, MSETransportPositionY,
     MSETransportGuidByte 4, MSETransportGuidByte 3, MSETransportGuidByte 6,
     MSETransportGuidByte 1, MSEFallTime, MSEFallVerticalSpeed, MSEFallHorizontalSpeed,
     MSEFallSinAngle, MSEFallCosAngle, MSECounter, MSETimestamp, MSESplineElevation,
     MSEOrientation, MSEPitch, MSEEnd]"

definition MovementSetPitch :: "MovementStatusElements list" where
  "MovementSetPitch = [
     MSEPositionZ, MSEPositionX, MSEPositionY, MSEHasMovementFlags, MSEZeroBit,
     MSEHasGuidByte 4, MSEHasTransportData, MSEHasGuidByte 7, MSEHasTimestamp,
     MSEHasGuidByte 0, MSEHasMovementFlags2, MSEHasGuidByte 5, MSEHasCounter, MSEZeroBit,
     MSEHasGuidByte 2, MSEForcesCount, MSEHasOrientation, MSEHasPitch,
     MSEHasSplineElevation, MSEHasGuidByte 6, MSEHasGuidByte 1, MSEZeroBit, MSEHasFallData,
     MSEHasGuidByte 3, MSEHasTransportGuidByte 1, MSEHasTransportGuidByte 3,
     MSEHasTransportGuidByte 5, MSEHasTransportGuidByte 7, MSEHasTransportGuidByte 6,
     MSEHasTransportTime2, MSEHasTransportGuidByte 2, MSEHasTransportVehicleId,
     MSEHasTransportGuidByte 4, MSEHasTransportGuidByte 0, MSEHasFallDirection,
     MSEMovementFlags, MSEMovementFlags2, MSEGuidByte 2, MSEGuidByte 4, MSEGuidByte 5,
     MSEGuidByte 6, MSEGuidByte 0, MSEForces, MSEGuidByte 3, MSEGuidByte 7, MSEGuidByte 1,
     MSESplineElevation, MSETransportPositionZ, MSETransportGuidByte 3,
     MSETransportGuidByte 2, MSETransportVehicleId, MSETransportGuidByte 5,
     MSETransportTime2, MSETransportGuidByte 6, MSETransportTime, MSETransportGuidByte 4,
     MSETransportSeat, MSETransportOrientation, MSETransportPositionY,
     MSETransportGuidByte 1, MSETransportGuidByte 7, MSETransportPositionX,
     MSETransportGuidByte 0, MSEFallHorizontalSpeed, MSEFallSinAngle, MSEFallCosAngle,
     MSEFallTime, MSEFallVerticalSpeed, MSECounter, MSETimestamp, MSEOrientation, MSEPitch,
     MSEEnd]"

definition MovementStartBackward :: "MovementStatusElements list" where
  "MovementStartBackward = [
     MSEPositionY, MSEPositionZ, MSEPositionX, MSEHasTimestamp, MSEHasOrientation,
     MSEHasGuidByte 7, MSEHasGuidByte 2, MSEForcesCount, MSEHasFallData, MSEZeroBit,
     MSEHasGuidByte 5, MSEHasGuidByte 3, MSEHasGuidByte 6, MSEHasSplineElevation,
     MSEHasGuidByte 4, MSEHasTransportData, MSEHasGuidByte 0, MSEHasMovementFlags,
     MSEHasPitch, MSEHasCounter, MSEHasMovementFlags2, MSEZeroBit, MSEHasGuidByte 1,
     MSEZeroBit, MSEHasTransportGuidByte 1, MSEHasTransportTime2, MSEHasTransportGuidByte 0,
     MSEHasTransportGuidByte 7, MSEHasTransportVehicleId, MSEHasTransportGuidByte 3,
     MSEHasTransportGuidByte 5, MSEHasTransportGuidByte 6, MSEHasTransportGuidByte 2,
     MSEHasTransportGuidByte 4, MSEMovementFlags2, MSEMovementFlags, MSEHasFallDirection,
     MSEForces, MSEGuidByte 1, MSEGuidByte 3, MSEGuidByte 5, MSEGuidByte 2, MSEGuidByte 0,
     MSEGuidByte 4, MSEGuidByte 7, MSEGuidByte 6, MSECounter, MSETransportTime,
     MSETransportGuidByte 4, MSETransportGuidByte 1, MSETransportGuidByte 5,
     MSETransportGuidByte 3, MSETransportGuidByte 6, MSETransportSeat,
     MSETransportOrientation, MSETransportPositionX, MSETransportGuidByte 0,
     MSETransportPositionY, MSETransportVehicleId, MSETransportGuidByte 7,
     MSETransportTime2, MSETransportPositionZ, MSETransportGuidByte 2, MSEOrientation,
     MSEFallTime, MSEFallSinAngle, MSEFallCosAngle, MSEFallHorizontalSpeed,
     MSEFallVerticalSpeed, MSEPitch, MSETimestamp, MSESplineElevation, MSEEnd]"

definition MovementStartForward :: "MovementStatusElements list" where
  "MovementStartForward = [
     MSEPositionZ, MSEPositionX, MSEPositionY, MSEHasMovementFlags2, MSEZeroBit,
     MSEHasCounter, MSEZeroBit, MSEHasGuidByte 0, MSEHasOrientation, MSEHasFallData,
     MSEForcesCount, MSEHasGuidByte 4, MSEHasGuidByte 1, MSEHasTimestamp, MSEHasGuidByte 7,
     MSEHasPitch, MSEHasTransportData, MSEHasGuidByte 5, MSEHasMovementFlags,
     MSEHasGuidByte 3, MSEHasSplineElevation, MSEHasGuidByte 2, MSEHasGuidByte 6,
     MSEZeroBit, MSEHasTransportGuidByte 1, MSEHasTransportVehicleId,
     MSEHasTransportGuidByte 3, MSEHasTransportGuidByte 4, MSEHasTransportGuidByte 2,
     MSEHasTransportGuidByte 5, MSEHasTransportGuidByte 0, MSEHasTransportGuidByte 7,
     MSEHasTransportGuidByte 6, MSEHasTransportTime2, MSEHasFallDirection,
     MSEMovementFlags2, MSEMovementFlags, MSEGuidByte 1, MSEGuidByte 6, MSEGuidByte 7,
     MSEForces, MSEGuidByte 5, MSEGuidByte 0, MSEGuidByte 3, MSEGuidByte 2, MSEGuidByte 4,
     MSETransportGuidByte 3, MSETransportGuidByte 1, MSETransportGuidByte 6,
     MSETransportPositionZ, MSETransportGuidByte 4, MSETransportVehicleId, MSETransportSeat,
     MSETransportGuidByte 7, MSETransportOrientation, MSETransportTime2,
     MSETransportGuidByte 5, MSETransportGuidByte 2, MSETransportPositionX,
     MSETransportGuidByte 0, MSETransportPositionY, MSETransportTime, MSEFallCosAngle,
     MSEFallSinAngle, MSEFallHorizontalSpeed, MSEFallTime, MSEFallVerticalSpeed,
     MSETimestamp, MSEPitch, MSESplineElevation, MSEOrientation, MSECounter, MSEEnd]"

definition MovementStartStrafeLeft :: "MovementStatusElements list" where
  "MovementStartStrafeLeft = [
     MSEPositionY, MSEPositionZ, MSEPositionX, MSEHasGuidByte 0, MSEHasTimestamp,
     MSEHasGuidByte 3, MSEHasMovementFlags2, MSEHasPitch, MSEZeroBit, MSEHasGuidByte 2,
     MSEZeroBit, MSEHasTransportData, MSEHasFallData, MSEHasGuidByte 5, MSEForcesCount,
     MSEZeroBit, MSEHasGuidByte 4, MSEHasOrientation, MSEHasSplineElevation,
     MSEHasGuidByte 7, MSEHasCounter, MSEHasGuidByte 1, MSEHasGuidByte 6,
     MSEHasMovementFlags, MSEHasTransportGuidByte 0, MSEHasTransportGuidByte 2,
     MSEHasTransportGuidByte 1, MSEHasTransportGuidByte 6, MSEHasTransportGuidByte 7,
     MSEHasTransportGuidByte 3, MSEHasTransportGuidByte 5, MSEHasTransportVehicleId,
     MSEHasTransportTime2, MSEHasTransportGuidByte 4, MSEMovementFlags, MSEHasFallDirection,
     MSEMovementFlags2, MSEGuidByte 0, MSEGuidByte 2, MSEForces, MSEGuidByte 3,
     MSEGuidByte 5, MSEGuidByte 1, MSEGuidByte 7, MSEGuidByte 4, MSEGuidByte 6,
     MSETransportGuidByte 2, MSETransportPositionZ, MSETransportVehicleId,
     MSETransportGuidByte 6, MSETransportGuidByte 3, MSETransportOrientation,
     MSETransportGuidByte 5, MSETransportTime2, MSETransportGuidByte 1,
     MSETransportPositionY, MSETransportGuidByte 4, MSETransportTime, MSETransportSeat,
     MSETransportPositionX, MSETransportGuidByte 0, MSETransportGuidByte 7, MSEPitch,
     MSETimestamp, MSEFallTime, MSEFallCosAngle, MSEFallHorizontalSpeed, MSEFallSinAngle,
     MSEFallVerticalSpeed, MSECounter, MSESplineElevation, MSEOrientation, MSEEnd]"

definition MovementStartStrafeRight :: "MovementStatusElements list" where
  "MovementStartStrafeRight = [
     MSEPositionY, MSEPositionX, MSEPositionZ, MSEHasGuidByte 0, MSEHasFallData,
     MSEForcesCount, MSEHasGuidByte 7, MSEHasGuidByte 6, MSEHasGuidByte 4,
     MSEHasMovementFlags, MSEHasGuidByte 5, MSEHasSplineElevation, MSEHasGuidByte 3,
     MSEZeroBit, MSEHasTransportData, MSEHasCounter, MSEHasGuidByte 1, MSEZeroBit,
     MSEHasGuidByte 2, MSEHasPitch, MSEHasMovementFlags2, MSEHasOrientation, MSEZeroBit,
     MSEHasTimestamp, MSEHasFallDirection, MSEHasTransportGuidByte 1,
     MSEHasTransportGuidByte 6, MSEHasTransportGuidByte 3, MSEHasTransportGuidByte 5,
     MSEHasTransportGuidByte 2, MSEHasTransportGuidByte 0, MSEHasTransportGuidByte 4,
     MSEHasTransportVehicleId, MSEHasTransportGuidByte 7, MSEHasTransportTime2,
     MSEMovementFlags, MSEMovementFlags2, MSEGuidByte 6, MSEGuidByte 7, MSEGuidByte 0,
     MSEGuidByte 4, MSEGuidByte 1, MSEForces, MSEGuidByte 2, MSEGuidByte 3, MSEGuidByte 5,
     MSEPitch, MSETransportGuidByte 1, MSETransportSeat, MSETransportGuidByte 3,
     MSETransportTime2, MSETransportGuidByte 7, MSETransportVehicleId,
     MSETransportGuidByte 5, MSETransportGuidByte 6, MSETransportGuidByte 2,
     MSETransportGuidByte 0, MSETransportTime, MSETransportOrientation,
     MSETransportPositionY, MSETransportPositionZ, MSETransportGuidByte 4,
     MSETransportPositionX, MSETimestamp, MSEFallVerticalSpeed, MSEFallCosAngle,
     MSEFallHorizontalSpeed, MSEFallSinAngle, MSEFallTime, MSEOrientation, MSECounter,
     MSESplineElevation, MSEEnd]"

definition MovementStartTurnLeft :: "MovementStatusElements list" where
  "MovementStartTurnLeft = [
     MSEPositionZ, MSEPositionX, MSEPositionY, MSEHasOrientation, MSEHasGuidByte 4,
     MSEHasGuidByte 5, MSEZeroBit, MSEHasTimestamp, MSEZeroBit, MSEZeroBit, MSEHasCounter,
     MSEHasGuidByte 3, MSEHasGuidByte 1, MSEHasMovementFlags2, MSEHasMovementFlags,
     MSEHasGuidByte 0, MSEHasGuidByte 2, MSEForcesCount, MSEHasTransportData,
     MSEHasGuidByte 7, MSEHasPitch, MSEHasSplineElevation, MSEHasFallData, MSEHasGuidByte 6,
     MSEHasTransportVehicleId, MSEHasTransportGuidByte 5, MSEHasTransportGuidByte 6,
     MSEHasTransportGuidByte 2, MSEHasTransportGuidByte 3, MSEHasTransportGuidByte 4,
     MSEHasTransportGuidByte 7, MSEHasTransportTime2, MSEHasTransportGuidByte 0,
     MSEHasTransportGuidByte 1, MSEMovementFlags, MSEMovementFlags2, MSEHasFallDirection,
     MSEGuidByte 7, MSEGuidByte 3, MSEGuidByte 6, MSEGuidByte 4, MSEGuidByte 1, MSEForces,
     MSEGuidByte 5, MSEGuidByte 0, MSEGuidByte 2, MSEFallTime, MSEFallHorizontalSpeed,
     MSEFallCosAngle, MSEFallSinAngle, MSEFallVerticalSpeed, MSEPitch,
     MSETransportPositionY, MSETransportGuidByte 3, MSETransportPositionX,
     MSETransportOrientation, MSETransportGuidByte 5, MSETransportTime2,
     MSETransportPositionZ, MSETransportGuidByte 2, MSETransportGuidByte 1,
     MSETransportGuidByte 7, MSETransportGuidByte 4, MSETransportGuidByte 0,
     MSETransportVehicleId, MSETransportSeat, MSETransportGuidByte 6, MSETransportTime,
     MSEOrientation, MSESplineElevation, MSECounter, MSETimestamp, MSEEnd]"

definition MovementStartTurnRight :: "MovementStatusElements list" where
  "MovementStartTurnRight = [
     MSEPositionX, MSEPositionZ, MSEPositionY, MSEZeroBit, MSEZeroBit, MSEHasGuidByte 1,
     MSEHasGuidByte 0, MSEHasMovementFlags, MSEHasFallData, MSEHasPitch, MSEHasCounter,
     MSEForcesCount, MSEHasSplineElevation, MSEHasMovementFlags2, MSEHasOrientation,
     MSEHasGuidByte 2, MSEHasTimestamp, MSEHasGuidByte 4, MSEHasGuidByte 6,
     MSEHasGuidByte 5, MSEHasGuidByte 3, MSEZeroBit, MSEHasTransportData, MSEHasGuidByte 7,
     MSEHasTransportGuidByte 2, MSEHasTransportTime2, MSEHasTransportGuidByte 6,
     MSEHasTransportGuidByte 5, MSEHasTransportGuidByte 3, MSEHasTransportGuidByte 7,
     MSEHasTransportGuidByte 4, MSEHasTransportVehicleId, MSEHasTransportGuidByte 0,
     MSEHasTransportGuidByte 1, MSEMovementFlags, MSEMovementFlags2, MSEHasFallDirection,
     MSEGuidByte 5, MSEGuidByte 1, MSEGuidByte 3, MSEGuidByte 0, MSEGuidByte 4,
     MSEGuidByte 2, MSEGuidByte 6, MSEForces, MSEGuidByte 7, MSEFallSinAngle,
     MSEFallHorizontalSpeed, MSEFallCosAngle, MSEFallVerticalSpeed, MSEFallTime, MSEPitch,
     MSETransportVehicleId, MSETransportGuidByte 3, MSETransportTime2,
     MSETransportGuidByte 7, MSETransportGuidByte 1, MSETransportPositionX,
     MSETransportSeat, MSETransportGuidByte 5, MSETransportGuidByte 4,
     MSETransportGuidByte 2, MSETransportGuidByte 0, MSETransportPositionZ,
     MSETransportTime, MSETransportPositionY, MSETransportGuidByte 6,
     MSETransportOrientation, MSEOrientation, MSETimestamp, MSESplineElevation, MSECounter,
     MSEEnd]"

definition MovementStop :: "MovementStatusElements list" where
  "MovementStop = [
     MSEPositionX, MSEPositionY, MSEPositionZ, MSEHasGuidByte 5, MSEHasGuidByte 2,
     MSEHasFallData, MSEHasGuidByte 0, MSEZeroBit, MSEZeroBit, MSEHasCounter,
     MSEHasGuidByte 1, MSEForcesCount, MSEHasPitch, MSEHasGuidByte 3, MSEHasGuidByte 4,
     MSEHasTransportData, MSEZeroBit, MSEHasGuidByte 6, MSEHasMovementFlags,
     MSEHasTimestamp, MSEHasMovementFlags2, MSEHasOrientation, MSEHasSplineElevation,
     MSEHasGuidByte 7, MSEHasTransportTime2, MSEHasTransportGuidByte 7,
     MSEHasTransportGuidByte 4, MSEHasTransportGuidByte 1, MSEHasTransportGuidByte 0,
     MSEHasTransportGuidByte 5, MSEHasTransportGuidByte 2, MSEHasTransportGuidByte 3,
     MSEHasTransportVehicleId, MSEHasTransportGuidByte 6, MSEHasFallDirection,
     MSEMovementFlags2, MSEMovementFlags, MSEGuidByte 0, MSEGuidByte 3, MSEForces,
     MSEGuidByte 6, MSEGuidByte 1, MSEGuidByte 4, MSEGuidByte 2, MSEGuidByte 5,
     MSEGuidByte 7, MSEOrientation, MSEFallVerticalSpeed, MSEFallHorizontalSpeed,
     MSEFallSinAngle, MSEFallCosAngle, MSEFallTime, MSESplineElevation,
     MSETransportPositionX, MSETransportTime, MSETransportGuidByte 3,
     MSETransportOrientation, MSETransportPositionY, MSETransportGuidByte 2,
     MSETransportGuidByte 6, MSETransportGuidByte 7, MSETransportGuidByte 1,
     MSETransportGuidByte 4, MSETransportVehicleId, MSETransportGuidByte 0,
     MSETransportSeat, MSETransportPositionZ, MSETransportGuidByte 5, MSETransportTime2,
     MSECounter, MSEPitch, MSETimestamp, MSEEnd]"

definition MovementStopStrafe :: "MovementStatusElements list" where
  "MovementStopStrafe = [
     MSEPositionZ, MSEPositionX, MSEPositionY, MSEHasFallData, MSEHasOrientation,
     MSEHasSplineElevation, MSEHasTimestamp, MSEHasMovementFlags, MSEHasCounter,
     MSEHasGuidByte 6, MSEHasTransportData, MSEZeroBit, MSEHasMovementFlags2,
     MSEHasGuidByte 4, MSEHasPitch, MSEHasGuidByte 5, MSEHasGuidByte 3, MSEHasGuidByte 2,
     MSEForcesCount, MSEZeroBit, MSEHasGuidByte 7, MSEHasGuidByte 0, MSEZeroBit,
     MSEHasGuidByte 1, MSEHasTransportGuidByte 7, MSEHasTransportVehicleId,
     MSEHasTransportGuidByte 3, MSEHasTransportGuidByte 1, MSEHasTransportGuidByte 6,
     MSEHasTransportTime2, MSEHasTransportGuidByte 2, MSEHasTransportGuidByte 5,
     MSEHasTransportGuidByte 4, MSEHasTransportGuidByte 0, MSEMovementFlags2,
     MSEHasFallDirection, MSEMovementFlags, MSEGuidByte 5, MSEGuidByte 3, MSEForces,
     MSEGuidByte 2, MSEGuidByte 0, MSEGuidByte 1, MSEGuidByte 6, MSEGuidByte 4,
     MSEGuidByte 7, MSETransportGuidByte 0, MSETransportVehicleId, MSETransportGuidByte 1,
     MSETransportGuidByte 6, MSETransportTime, MSETransportPositionY, MSETransportPositionZ,
     MSETransportGuidByte 4, MSETransportTime2, MSETransportGuidByte 3, MSETransportSeat,
     MSETransportPositionX, MSETransportGuidByte 2, MSETransportGuidByte 7,
     MSETransportGuidByte 5, MSETransportOrientation, MSEOrientation, MSESplineElevation,
     MSETimestamp, MSEFallCosAngle, MSEFallSinAngle, MSEFallHorizontalSpeed, MSEFallTime,
     MSEFallVerticalSpeed, MSEPitch, MSECounter, MSEEnd]"

definition MovementStopTurn :: "MovementStatusElements list" where
  "MovementStopTurn = [
     MSEPositionX, MSEPositionZ, MSEPositionY, MSEHasTransportData, MSEForcesCount,
     MSEZeroBit, MSEHasGuidByte 4, MSEHasGuidByte 5, MSEHasCounter, MSEHasGuidByte 3,
     MSEZeroBit, MSEHasFallData, MSEHasGuidByte 0, MSEHasGuidByte 1, MSEHasPitch,
     MSEHasGuidByte 6, MSEHasMovementFlags, MSEHasGuidByte 2, MSEZeroBit,
     MSEHasMovementFlags2, MSEHasSplineElevation, MSEHasOrientation, MSEHasGuidByte 7,
     MSEHasTimestamp, MSEMovementFlags2, MSEHasTransportGuidByte 1,
     MSEHasTransportVehicleId, MSEHasTransportTime2, MSEHasTransportGuidByte 3,
     MSEHasTransportGuidByte 6, MSEHasTransportGuidByte 2, MSEHasTransportGuidByte 0,
     MSEHasTransportGuidByte 5, MSEHasTransportGuidByte 7, MSEHasTransportGuidByte 4,
     MSEMovementFlags, MSEHasFallDirection, MSEGuidByte 2, MSEGuidByte 3, MSEGuidByte 6,
     MSEForces, MSEGuidByte 0, MSEGuidByte 5, MSEGuidByte 4, MSEGuidByte 7, MSEGuidByte 1,
     MSETransportTime, MSETransportVehicleId, MSETransportSeat, MSETransportPositionY,
     MSETransportPositionX, MSETransportTime2, MSETransportGuidByte 4,
     MSETransportGuidByte 3, MSETransportOrientation, MSETransportGuidByte 0,
     MSETransportPositionZ, MSETransportGuidByte 6, MSETransportGuidByte 7,
     MSETransportGuidByte 5, MSETransportGuidByte 1, MSETransportGuidByte 2, MSEOrientation,
     MSETimestamp, MSEFallSinAngle, MSEFallCosAngle, MSEFallHorizontalSpeed,
     MSEFallVerticalSpeed, MSEFallTime, MSECounter, MSESplineElevation, MSEPitch, MSEEnd]"

definition MovementStartAscend :: "MovementStatusElements list" where
  "MovementStartAscend = [
     MSEPositionY, MSEPositionX, MSEPositionZ, MSEHasOrientation, MSEHasGuidByte 3,
     MSEHasTransportData, MSEHasMovementFlags, MSEZeroBit, MSEHasGuidByte 0,
     MSEHasGuidByte 4, MSEHasTimestamp, MSEHasGuidByte 7, MSEZeroBit, MSEHasPitch,
     MSEHasGuidByte 5, MSEHasMovementFlags2, MSEZeroBit, MSEHasGuidByte 6, MSEHasGuidByte 2,
     MSEHasCounter, MSEForcesCount, MSEHasGuidByte 1, MSEHasSplineElevation, MSEHasFallData,
     MSEHasTransportGuidByte 4, MSEHasTransportGuidByte 0, MSEHasTransportGuidByte 3,
     MSEHasTransportGuidByte 5, MSEHasTransportTime2, MSEHasTransportGuidByte 1,
     MSEHasTransportVehicleId, MSEHasTransportGuidByte 6, MSEHasTransportGuidByte 2,
     MSEHasTransportGuidByte 7, MSEHasFallDirection, MSEMovementFlags2, MSEMovementFlags,
     MSEGuidByte 2, MSEGuidByte 5, MSEForces, MSEGuidByte 1, MSEGuidByte 0, MSEGuidByte 4,
     MSEGuidByte 7, MSEGuidByte 6, MSEGuidByte 3, MSEOrientation, MSETimestamp,
     MSETransportGuidByte 3, MSETransportTime, MSETransportPositionY,
     MSETransportOrientation, MSETransportGuidByte 6, MSETransportVehicleId,
     MSETransportPositionX, MSETransportGuidByte 2, MSETransportTime2,
     MSETransportGuidByte 1, MSETransportGuidByte 7, MSETransportPositionZ,
     MSETransportSeat, MSETransportGuidByte 0, MSETransportGuidByte 4,
     MSETransportGuidByte 5, MSESplineElevation, MSEFallVerticalSpeed, MSEFallSinAngle,
     MSEFallCosAngle, MSEFallHorizontalSpeed, MSEFallTime, MSEPitch, MSECounter, MSEEnd]"

definition MovementStartDescend :: "MovementStatusElements list" where
  "MovementStartDescend = [
     MSEPositionX, MSEPositionY, MSEPositionZ, MSEHasFallData, MSEHasMovementFlags,
     MSEHasGuidByte 7, MSEHasGuidByte 0, MSEHasGuidByte 4, MSEHasMovementFlags2,
     MSEHasPitch, MSEHasGuidByte 6, MSEHasGuidByte 2, MSEZeroBit, MSEHasCounter,
     MSEForcesCount, MSEHasTransportData, MSEHasOrientation, MSEHasGuidByte 1, MSEZeroBit,
     MSEZeroBit, MSEHasGuidByte 3, MSEHasGuidByte 5, MSEHasSplineElevation, MSEHasTimestamp,
     MSEHasTransportGuidByte 0, MSEHasTransportVehicleId, MSEHasTransportGuidByte 7,
     MSEHasTransportTime2, MSEHasTransportGuidByte 1, MSEHasTransportGuidByte 4,
     MSEHasTransportGuidByte 5, MSEHasTransportGuidByte 3, MSEHasTransportGuidByte 6,
     MSEHasTransportGuidByte 2, MSEMovementFlags2, MSEMovementFlags, MSEHasFallDirection,
     MSEGuidByte 4, MSEGuidByte 7, MSEGuidByte 1, MSEGuidByte 3, MSEForces, MSEGuidByte 2,
     MSEGuidByte 6, MSEGuidByte 0, MSEGuidByte 5, MSETransportPositionX,
     MSETransportGuidByte 0, MSETransportGuidByte 3, MSETransportGuidByte 7,
     MSETransportSeat, MSETransportGuidByte 5, MSETransportGuidByte 1,
     MSETransportPositionY, MSETransportVehicleId, MSETransportTime, MSETransportGuidByte 4,
     MSETransportTime2, MSETransportOrientation, MSETransportPositionZ,
     MSETransportGuidByte 2, MSETransportGuidByte 6, MSEFallTime, MSEFallCosAngle,
     MSEFallHorizontalSpeed, MSEFallSinAngle, MSEFallVerticalSpeed, MSEPitch, MSECounter,
     MSESplineElevation, MSEOrientation, MSETimestamp, MSEEnd]"

definition MovementStartSwim :: "MovementStatusElements list" where
  "MovementStartSwim = [
     MSEPositionX, MSEPositionY, MSEPositionZ, MSEHasSplineElevation, MSEHasTransportData,
     MSEHasGuidByte 2, MSEZeroBit, MSEHasMovementFlags2, MSEForcesCount, MSEHasPitch,
     MSEHasTimestamp, MSEHasGuidByte 3, MSEZeroBit, MSEHasGuidByte 6, MSEHasGuidByte 1,
     MSEHasFallData, MSEHasCounter, MSEZeroBit, MSEHasGuidByte 7, MSEHasGuidByte 0,
     MSEHasOrientation, MSEHasGuidByte 5, MSEHasMovementFlags, MSEHasGuidByte 4,
     MSEHasTransportTime2, MSEHasTransportGuidByte 2, MSEHasTransportGuidByte 7,
     MSEHasTransportGuidByte 6, MSEHasTransportGuidByte 5, MSEHasTransportGuidByte 1,
     MSEHasTransportGuidByte 4, MSEHasTransportVehicleId, MSEHasTransportGuidByte 0,
     MSEHasTransportGuidByte 3, MSEMovementFlags, MSEHasFallDirection, MSEMovementFlags2,
     MSEGuidByte 5, MSEGuidByte 0, MSEForces, MSEGuidByte 7, MSEGuidByte 3, MSEGuidByte 4,
     MSEGuidByte 1, MSEGuidByte 6, MSEGuidByte 2, MSETransportGuidByte 3,
     MSETransportPositionX, MSETransportGuidByte 7, MSETransportGuidByte 0,
     MSETransportPositionY, MSETransportSeat, MSETransportTime2, MSETransportGuidByte 6,
     MSETransportGuidByte 4, MSETransportGuidByte 1, MSETransportGuidByte 2,
     MSETransportPositionZ, MSETransportTime, MSETransportOrientation,
     MSETransportVehicleId, MSETransportGuidByte 5, MSEFallCosAngle, MSEFallSinAngle,
     MSEFallHorizontalSpeed, MSEFallTime, MSEFallVerticalSpeed, MSETimestamp,
     MSESplineElevation, MSEOrientation, MSECounter, MSEPitch, MSEEnd]"

definition MovementStopSwim :: "MovementStatusElements list" where
  "MovementStopSwim = [
     MSEPositionX, MSEPositionZ, MSEPositionY, MSEHasPitch, MSEHasGuidByte 6,
     MSEHasOrientation, MSEZeroBit, MSEZeroBit, MSEZeroBit, MSEHasCounter, MSEHasGuidByte 4,
     MSEHasMovementFlags2, MSEHasTransportData, MSEHasFallData, MSEHasGuidByte 1,
     MSEForcesCount, MSEHasMovementFlags, MSEHasGuidByte 7, MSEHasGuidByte 0,
     MSEHasTimestamp, MSEHasGuidByte 3, MSEHasGuidByte 5, MSEHasSplineElevation,
     MSEHasGuidByte 2, MSEHasTransportGuidByte 1, MSEHasTransportTime2,
     MSEHasTransportGuidByte 5, MSEHasTransportGuidByte 2, MSEHasTransportGuidByte 4,
     MSEHasTransportGuidByte 6, MSEHasTransportGuidByte 7, MSEHasTransportGuidByte 3,
     MSEHasTransportVehicleId, MSEHasTransportGuidByte 0, MSEHasFallDirection,
     MSEMovementFlags, MSEMovementFlags2, MSEGuidByte 7, MSEGuidByte 6, MSEGuidByte 1,
     MSEGuidByte 5, MSEGuidByte 4, MSEGuidByte 3, MSEForces, MSEGuidByte 0, MSEGuidByte 2,
     MSETransportTime, MSETransportGuidByte 1, MSETransportGuidByte 2,
     MSETransportPositionZ, MSETransportPositionX, MSETransportPositionY,
     MSETransportGuidByte 0, MSETransportGuidByte 6, MSETransportGuidByte 3,
     MSETransportSeat, MSETransportOrientation, MSETransportGuidByte 7,
     MSETransportGuidByte 4, MSETransportGuidByte 5, MSETransportTime2,
     MSETransportVehicleId, MSEFallCosAngle, MSEFallHorizontalSpeed, MSEFallSinAngle,
     MSEFallVerticalSpeed, MSEFallTime, MSESplineElevation, MSEPitch, MSETimestamp,
     MSECounter, MSEOrientation, MSEEnd]"

definition MovementStopAscend :: "MovementStatusElements list" where
  "MovementStopAscend = [
     MSEPositionZ, MSEPositionX, MSEPositionY, MSEHasOrientation, MSEHasGuidByte 0,
     MSEHasGuidByte 3, MSEHasGuidByte 7, MSEHasGuidByte 2, MSEHasGuidByte 6,
     MSEHasMovementFlags2, MSEHasTimestamp, MSEHasCounter, MSEHasTransportData, MSEHasPitch,
     MSEZeroBit, MSEZeroBit, MSEHasGuidByte 4, MSEZeroBit, MSEHasGuidByte 5, MSEForcesCount,
     MSEHasFallData, MSEHasMovementFlags, MSEHasGuidByte 1, MSEHasSplineElevation,
     MSEHasTransportTime2, MSEHasTransportGuidByte 0, MSEHasTransportGuidByte 5,
     MSEHasTransportGuidByte 4, MSEHasTransportGuidByte 6, MSEHasTransportGuidByte 2,
     MSEHasTransportGuidByte 1, MSEHasTransportVehicleId, MSEHasTransportGuidByte 3,
     MSEHasTransportGuidByte 7, MSEMovementFlags2, MSEMovementFlags, MSEHasFallDirection,
     MSEGuidByte 0, MSEForces, MSEGuidByte 4, MSEGuidByte 5, MSEGuidByte 1, MSEGuidByte 7,
     MSEGuidByte 6, MSEGuidByte 3, MSEGuidByte 2, MSETransportGuidByte 5,
     MSETransportPositionY, MSETransportGuidByte 4, MSETransportGuidByte 7,
     MSETransportGuidByte 1, MSETransportGuidByte 3, MSETransportTime2,
     MSETransportPositionX, MSETransportOrientation, MSETransportGuidByte 0,
     MSETransportGuidByte 2, MSETransportPositionZ, MSETransportVehicleId, MSETransportTime,
     MSETransportSeat, MSETransportGuidByte 6, MSEFallCosAngle, MSEFallHorizontalSpeed,
     MSEFallSinAngle, MSEFallTime, MSEFallVerticalSpeed, MSETimestamp, MSESplineElevation,
     MSEPitch, MSECounter, MSEOrientation, MSEEnd]"

definition MovementStopPitch :: "MovementStatusElements list" where
  "MovementStopPitch = [
     MSEPositionY, MSEPositionX, MSEPositionZ, MSEHasFallData, MSEHasSplineElevation,
     MSEHasGuidByte 0, MSEHasTimestamp, MSEZeroBit, MSEHasGuidByte 2, MSEForcesCount,
     MSEHasOrientation, MSEHasMovementFlags, MSEHasPitch, MSEHasGuidByte 3,
     MSEHasGuidByte 7, MSEHasGuidByte 5, MSEHasMovementFlags2, MSEZeroBit, MSEHasCounter,
     MSEHasTransportData, MSEHasGuidByte 6, MSEHasGuidByte 4, MSEZeroBit, MSEHasGuidByte 1,
     MSEHasTransportGuidByte 4, MSEHasTransportGuidByte 5, MSEHasTransportVehicleId,
     MSEHasTransportGuidByte 6, MSEHasTransportGuidByte 3, MSEHasTransportGuidByte 0,
     MSEHasTransportGuidByte 7, MSEHasTransportGuidByte 1, MSEHasTransportTime2,
     MSEHasTransportGuidByte 2, MSEMovementFlags2, MSEMovementFlags, MSEHasFallDirection,
     MSEGuidByte 0, MSEGuidByte 6, MSEGuidByte 7, MSEGuidByte 1, MSEForces, MSEGuidByte 5,
     MSEGuidByte 3, MSEGuidByte 4, MSEGuidByte 2, MSEFallSinAngle, MSEFallHorizontalSpeed,
     MSEFallCosAngle, MSEFallTime, MSEFallVerticalSpeed, MSETransportGuidByte 1,
     MSETransportPositionX, MSETransportPositionZ, MSETransportPositionY,
     MSETransportGuidByte 5, MSETransportGuidByte 0, MSETransportTime2,
     MSETransportGuidByte 6, MSETransportGuidByte 2, MSETransportGuidByte 3,
     MSETransportSeat, MSETransportVehicleId, MSETransportTime, MSETransportGuidByte 4,
     MSETransportGuidByte 7, MSETransportOrientation, MSEPitch, MSETimestamp,
     MSESplineElevation, MSEOrientation, MSECounter, MSEEnd]"

definition MovementStartPitchDown :: "MovementStatusElements list" where
  "MovementStartPitchDown = [
     MSEPositionZ, MSEPositionY, MSEPositionX, MSEHasGuidByte 2, MSEHasGuidByte 7,
     MSEHasGuidByte 3, MSEHasOrientation, MSEHasGuidByte 5, MSEZeroBit, MSEHasCounter,
     MSEZeroBit, MSEHasMovementFlags, MSEHasGuidByte 4, MSEHasGuidByte 1,
     MSEHasSplineElevation, MSEHasFallData, MSEZeroBit, MSEHasTransportData,
     MSEHasTimestamp, MSEHasMovementFlags2, MSEForcesCount, MSEHasGuidByte 6,
     MSEHasGuidByte 0, MSEHasPitch, MSEHasTransportTime2, MSEHasTransportGuidByte 2,
     MSEHasTransportGuidByte 6, MSEHasTransportGuidByte 3, MSEHasTransportGuidByte 7,
     MSEHasTransportGuidByte 5, MSEHasTransportGuidByte 4, MSEHasTransportVehicleId,
     MSEHasTransportGuidByte 1, MSEHasTransportGuidByte 0, MSEMovementFlags,
     MSEMovementFlags2, MSEHasFallDirection, MSEGuidByte 6, MSEGuidByte 3, MSEGuidByte 5,
     MSEGuidByte 0, MSEGuidByte 4, MSEForces, MSEGuidByte 7, MSEGuidByte 2, MSEGuidByte 1,
     MSEFallHorizontalSpeed, MSEFallCosAngle, MSEFallSinAngle, MSEFallTime,
     MSEFallVerticalSpeed, MSETransportOrientation, MSETransportGuidByte 4,
     MSETransportGuidByte 7, MSETransportPositionZ, MSETransportGuidByte 0,
     MSETransportTime, MSETransportGuidByte 6, MSETransportGuidByte 1, MSETransportSeat,
     MSETransportGuidByte 2, MSETransportGuidByte 5, MSETransportPositionX,
     MSETransportVehicleId, MSETransportPositionY, MSETransportGuidByte 3,
     MSETransportTime2, MSEOrientation, MSETimestamp, MSESplineElevation, MSECounter,
     MSEPitch, MSEEnd]"

definition MovementStartPitchUp :: "MovementStatusElements list" where
  "MovementStartPitchUp = [
     MSEPositionY, MSEPositionZ, MSEPositionX, MSEHasGuidByte 0, MSEHasPitch,
     MSEHasGuidByte 3, MSEZeroBit, MSEHasOrientation, MSEHasGuidByte 5, MSEZeroBit,
     MSEHasGuidByte 2, MSEHasGuidByte 7, MSEHasGuidByte 1, MSEHasFallData,
     MSEHasMovementFlags2, MSEHasTransportData, MSEHasCounter, MSEHasMovementFlags,
     MSEHasGuidByte 6, MSEForcesCount, MSEHasTimestamp, MSEHasGuidByte 4, MSEZeroBit,
     MSEHasSplineElevation, MSEHasTransportGuidByte 5, MSEHasTransportGuidByte 1,
     MSEHasTransportTime2, MSEHasTransportGuidByte 4, MSEHasTransportGuidByte 2,
     MSEHasTransportGuidByte 6, MSEHasTransportGuidByte 0, MSEHasTransportVehicleId,
     MSEHasTransportGuidByte 7, MSEHasTransportGuidByte 3, MSEMovementFlags2,
     MSEMovementFlags, MSEHasFallDirection, MSEGuidByte 6, MSEForces, MSEGuidByte 0,
     MSEGuidByte 5, MSEGuidByte 7, MSEGuidByte 1, MSEGuidByte 3, MSEGuidByte 4,
     MSEGuidByte 2, MSETransportSeat, MSETransportGuidByte 3, MSETransportVehicleId,
     MSETransportGuidByte 2, MSETransportGuidByte 7, MSETransportGuidByte 0,
     MSETransportPositionY, MSETransportGuidByte 4, MSETransportGuidByte 5,
     MSETransportTime2, MSETransportGuidByte 1, MSETransportPositionX,
     MSETransportOrientation, MSETransportGuidByte 6, MSETransportTime,
     MSETransportPositionZ, MSEPitch, MSEOrientation, MSESplineElevation,
     MSEFallVerticalSpeed, MSEFallHorizontalSpeed, MSEFallSinAngle, MSEFallCosAngle,
     MSEFallTime, MSECounter, MSETimestamp, MSEEnd]"

definition MoveChngTransport :: "MovementStatusElements list" where
  "MoveChngTransport = [
     MSEPositionX, MSEPositionY, MSEPositionZ, MSEHasGuidByte 1, MSEHasPitch,
     MSEHasSplineElevation, MSEHasGuidByte 4, MSEHasCounter, MSEHasGuidByte 5,
     MSEForcesCount, MSEZeroBit, MSEHasGuidByte 6, MSEZeroBit, MSEHasGuidByte 7,
     MSEHasGuidByte 0, MSEHasTransportData, MSEHasMovementFlags, MSEZeroBit,
     MSEHasMovementFlags2, MSEHasGuidByte 2, MSEHasGuidByte 3, MSEHasTimestamp,
     MSEHasFallData, MSEHasOrientation, MSEHasTransportTime3, MSEHasTransportGuidByte 5,
     MSEHasTransportGuidByte 6, MSEHasTransportGuidByte 3, MSEHasTransportGuidByte 2,
     MSEHasTransportGuidByte 4, MSEHasTransportTime2, MSEHasTransportGuidByte 1,
     MSEHasTransportGuidByte 7, MSEHasTransportGuidByte 0, MSEMovementFlags,
     MSEHasFallDirection, MSEMovementFlags2, MSEGuidByte 5, MSEGuidByte 2, MSEForces,
     MSEGuidByte 6, MSEGuidByte 3, MSEGuidByte 0, MSEGuidByte 4, MSEGuidByte 7,
     MSEGuidByte 1, MSEFallVerticalSpeed, MSEFallSinAngle, MSEFallHorizontalSpeed,
     MSEFallCosAngle, MSEFallTime, MSETransportGuidByte 6, MSETransportPositionZ,
     MSETransportGuidByte 5, MSETransportGuidByte 4, MSETransportTime3,
     MSETransportGuidByte 3, MSETransportTime, MSETransportGuidByte 2, MSETransportTime2,
     MSETransportGuidByte 0, MSETransportPositionY, MSETransportGuidByte 1,
     MSETransportSeat, MSETransportOrientation, MSETransportGuidByte 7,
     MSETransportPositionX, MSEOrientation, MSESplineElevation, MSECounter, MSEPitch,
     MSETimestamp, MSEEnd]"

definition MoveSplineDone :: "MovementStatusElements list" where
  "MoveSplineDone = [
     MSEExtraElement, MSEPositionZ, MSEPositionY, MSEPositionX, MSEHasGuidByte 7,
     MSEHasMovementFlags2, MSEHasSplineElevation, MSEHasMovementFlags, MSEHasGuidByte 3,
     MSEZeroBit, MSEHasGuidByte 0, MSEHasPitch, MSEZeroBit, MSEHasGuidByte 1, MSEZeroBit,
     MSEHasGuidByte 2, MSEHasCounter, MSEHasGuidByte 4, MSEHasTransportData,
     MSEHasGuidByte 6, MSEHasGuidByte 5, MSEForcesCount, MSEHasOrientation, MSEHasTimestamp,
     MSEHasFallData, MSEHasTransportGuidByte 2, MSEHasTransportVehicleId,
     MSEHasTransportTime2, MSEHasTransportGuidByte 1, MSEHasTransportGuidByte 4,
     MSEHasTransportGuidByte 3, MSEHasTransportGuidByte 7, MSEHasTransportGuidByte 5,
     MSEHasTransportGuidByte 0, MSEHasTransportGuidByte 6, MSEMovementFlags2,
     MSEMovementFlags, MSEHasFallDirection, MSEGuidByte 6, MSEForces, MSEGuidByte 1,
     MSEGuidByte 5, MSEGuidByte 0, MSEGuidByte 7, MSEGuidByte 4, MSEGuidByte 2,
     MSEGuidByte 3, MSESplineElevation, MSETransportGuidByte 3, MSETransportOrientation,
     MSETransportGuidByte 2, MSETransportGuidByte 5, MSETransportGuidByte 1,
     MSETransportPositionX, MSETransportGuidByte 6, MSETransportSeat, MSETransportVehicleId,
     MSETransportGuidByte 4, MSETransportGuidByte 7, MSETransportGuidByte 0,
     MSETransportPositionY, MSETransportTime2, MSETransportPositionZ, MSETransportTime,
     MSEFallSinAngle, MSEFallCosAngle, MSEFallHorizontalSpeed, MSEFallVerticalSpeed,
     MSEFallTime, MSECounter, MSEOrientation, MSETimestamp, MSEPitch, MSEEnd]"

definition MoveNotActiveMover :: "MovementStatusElements list" where
  "MoveNotActiveMover = [
     MSEPositionZ, MSEPositionX, MSEPositionY, MSEHasMovementFlags2, MSEHasTransportData,
     MSEHasGuidByte 6, MSEHasSplineElevation, MSEHasGuidByte 3, MSEZeroBit, MSEHasTimestamp,
     MSEHasGuidByte 0, MSEHasOrientation, MSEHasGuidByte 5, MSEHasPitch, MSEHasGuidByte 1,
     MSEHasGuidByte 4, MSEHasGuidByte 7, MSEHasSpline, MSEHasGuidByte 2, MSEHasFallData,
     MSEHasMovementFlags, MSEHasTransportGuidByte 4, MSEHasTransportGuidByte 0,
     MSEHasTransportGuidByte 1, MSEHasTransportGuidByte 6, MSEHasTransportGuidByte 2,
     MSEHasTransportVehicleId, MSEHasTransportGuidByte 5, MSEHasTransportGuidByte 7,
     MSEHasTransportTime2, MSEHasTransportGuidByte 3, MSEHasFallDirection, MSEMovementFlags,
     MSEMovementFlags2, MSEGuidByte 1, MSEGuidByte 0, MSEGuidByte 4, MSEGuidByte 2,
     MSEGuidByte 7, MSEGuidByte 5, MSEGuidByte 6, MSEGuidByte 3, MSEFallVerticalSpeed,
     MSEFallSinAngle, MSEFallCosAngle, MSEFallHorizontalSpeed, MSEFallTime,
     MSETransportVehicleId, MSETransportGuidByte 1, MSETransportTime2,
     MSETransportOrientation, MSETransportGuidByte 0, MSETransportSeat,
     MSETransportGuidByte 4, MSETransportGuidByte 6, MSETransportGuidByte 3,
     MSETransportGuidByte 5, MSETransportPositionY, MSETransportPositionX,
     MSETransportGuidByte 2, MSETransportPositionZ, MSETransportGuidByte 7,
     MSETransportTime, MSETimestamp, MSESplineElevation, MSEPitch, MSEOrientation, MSEEnd]"

definition DismissControlledVehicle :: "MovementStatusElements list" where
  "DismissControlledVehicle = [
     MSEPositionY, MSEPositionZ, MSEPositionX, MSEHasSplineElevation, MSEHasFallData,
     MSEHasTransportData, MSEHasGuidByte 4, MSEHasGuidByte 7, MSEHasMovementFlags2,
     MSEHasGuidByte 2, MSEHasOrientation, MSEHasGuidByte 0, MSEHasGuidByte 6, MSEHasPitch,
     MSEHasTimestamp, MSEHasGuidByte 1, MSEZeroBit, MSEHasSpline, MSEHasGuidByte 3,
     MSEHasMovementFlags, MSEHasGuidByte 5, MSEHasTransportGuidByte 5,
     MSEHasTransportVehicleId, MSEHasTransportGuidByte 2, MSEHasTransportGuidByte 0,
     MSEHasTransportGuidByte 7, MSEHasTransportGuidByte 3, MSEHasTransportGuidByte 4,
     MSEHasTransportGuidByte 1, MSEHasTransportGuidByte 6, MSEHasTransportTime2,
     MSEMovementFlags2, MSEHasFallDirection, MSEMovementFlags, MSEGuidByte 6, MSEGuidByte 3,
     MSEGuidByte 1, MSEGuidByte 5, MSEGuidByte 2, MSEGuidByte 4, MSEGuidByte 7,
     MSEGuidByte 0, MSETimestamp, MSETransportVehicleId, MSETransportGuidByte 4,
     MSETransportGuidByte 7, MSETransportTime2, MSETransportGuidByte 6, MSETransportTime,
     MSETransportPositionZ, MSETransportGuidByte 0, MSETransportPositionX,
     MSETransportGuidByte 3, MSETransportSeat, MSETransportPositionY,
     MSETransportOrientation, MSETransportGuidByte 1, MSETransportGuidByte 5,
     MSETransportGuidByte 2, MSEFallTime, MSEFallHorizontalSpeed, MSEFallCosAngle,
     MSEFallSinAngle, MSEFallVerticalSpeed, MSEOrientation, MSESplineElevation, MSEPitch,
     MSEEnd]"

definition MoveUpdateTeleport :: "MovementStatusElements list" where
  "MoveUpdateTeleport = [
     MSEPositionZ, MSEPositionY, MSEPositionX, MSEHasOrientation, MSEHasSpline,
     MSEHasMovementFlags, MSEHasGuidByte 2, MSEHasGuidByte 4, MSEHasGuidByte 6,
     MSEHasFallData, MSEHasGuidByte 0, MSEHasTransportData, MSEHasGuidByte 5,
     MSEHasTransportGuidByte 1, MSEHasTransportGuidByte 4, MSEHasTransportGuidByte 5,
     MSEHasTransportGuidByte 3, MSEHasTransportGuidByte 0, MSEHasTransportTime2,
     MSEHasTransportGuidByte 7, MSEHasTransportGuidByte 6, MSEHasTransportVehicleId,
     MSEHasTransportGuidByte 2, MSEZeroBit, MSEHasGuidByte 7, MSEHasGuidByte 3, MSEHasPitch,
     MSEHasMovementFlags2, MSEHasTimestamp, MSEHasFallDirection, MSEMovementFlags2,
     MSEHasSplineElevation, MSEMovementFlags, MSEHasGuidByte 1, MSEGuidByte 7,
     MSETransportGuidByte 3, MSETransportGuidByte 4, MSETransportOrientation,
     MSETransportVehicleId, MSETransportGuidByte 1, MSETransportTime2,
     MSETransportPositionZ, MSETransportGuidByte 7, MSETransportGuidByte 0,
     MSETransportGuidByte 6, MSETransportGuidByte 5, MSETransportGuidByte 2,
     MSETransportSeat, MSETransportTime, MSETransportPositionY, MSETransportPositionX,
     MSEGuidByte 6, MSEPitch, MSESplineElevation, MSEOrientation, MSEGuidByte 2,
     MSEGuidByte 3, MSEGuidByte 1, MSEFallTime, MSEFallHorizontalSpeed, MSEFallCosAngle,
     MSEFallSinAngle, MSEFallVerticalSpeed, MSEGuidByte 5, MSEGuidByte 4, MSETimestamp,
     MSEGuidByte 0, MSEEnd]"

definition MovementSetRunMode :: "MovementStatusElements list" where
  "MovementSetRunMode = [
     MSEPositionY, MSEPositionX, MSEPositionZ, MSEHasGuidByte 1, MSEHasMovementFlags2,
     MSEHasGuidByte 2, MSEZeroBit, MSEHasTransportData, MSEZeroBit, MSEHasGuidByte 5,
     MSEHasGuidByte 6, MSEHasMovementFlags, MSEHasGuidByte 7, MSEHasGuidByte 0,
     MSEHasTimestamp, MSEForcesCount, MSEHasPitch, MSEHasCounter, MSEZeroBit,
     MSEHasOrientation, MSEHasFallData, MSEHasGuidByte 3, MSEHasSplineElevation,
     MSEHasGuidByte 4, MSEHasTransportGuidByte 7, MSEHasTransportGuidByte 1,
     MSEHasTransportGuidByte 4, MSEHasTransportGuidByte 5, MSEHasTransportGuidByte 6,
     MSEHasTransportVehicleId, MSEHasTransportGuidByte 2, MSEHasTransportGuidByte 3,
     MSEHasTransportGuidByte 0, MSEHasTransportTime2, MSEMovementFlags, MSEMovementFlags2,
     MSEHasFallDirection, MSEGuidByte 1, MSEGuidByte 2, MSEGuidByte 3, MSEGuidByte 5,
     MSEGuidByte 7, MSEGuidByte 6, MSEForces, MSEGuidByte 4, MSEGuidByte 0, MSEPitch,
     MSETimestamp, MSETransportGuidByte 3, MSETransportGuidByte 7, MSETransportGuidByte 5,
     MSETransportOrientation, MSETransportGuidByte 2, MSETransportPositionY,
     MSETransportPositionX, MSETransportGuidByte 1, MSETransportTime, MSETransportVehicleId,
     MSETransportPositionZ, MSETransportTime2, MSETransportSeat, MSETransportGuidByte 0,
     MSETransportGuidByte 4, MSETransportGuidByte 6, MSEFallSinAngle,
     MSEFallHorizontalSpeed, MSEFallCosAngle, MSEFallVerticalSpeed, MSEFallTime, MSECounter,
     MSEOrientation, MSESplineElevation, MSEEnd]"

definition MovementSetWalkMode :: "MovementStatusElements list" where
  "MovementSetWalkMode = [
     MSEPositionZ, MSEPositionY, MSEPositionX, MSEHasTimestamp, MSEHasGuidByte 5,
     MSEHasMovementFlags, MSEZeroBit, MSEHasGuidByte 0, MSEZeroBit, MSEHasPitch,
     MSEHasTransportData, MSEForcesCount, MSEHasGuidByte 4, MSEHasGuidByte 7,
     MSEHasGuidByte 3, MSEHasOrientation, MSEHasGuidByte 1, MSEHasCounter, MSEHasGuidByte 6,
     MSEHasSplineElevation, MSEZeroBit, MSEHasMovementFlags2, MSEHasGuidByte 2,
     MSEHasFallData, MSEHasTransportGuidByte 4, MSEHasTransportGuidByte 0,
     MSEHasTransportGuidByte 7, MSEHasTransportGuidByte 5, MSEHasTransportGuidByte 1,
     MSEHasTransportGuidByte 3, MSEHasTransportGuidByte 6, MSEHasTransportTime2,
     MSEHasTransportGuidByte 2, MSEHasTransportVehicleId, MSEHasFallDirection,
     MSEMovementFlags, MSEMovementFlags2, MSEGuidByte 0, MSEGuidByte 5, MSEGuidByte 3,
     MSEGuidByte 2, MSEGuidByte 1, MSEGuidByte 4, MSEForces, MSEGuidByte 6, MSEGuidByte 7,
     MSEFallVerticalSpeed, MSEFallHorizontalSpeed, MSEFallCosAngle, MSEFallSinAngle,
     MSEFallTime, MSEPitch, MSETransportGuidByte 0, MSETransportGuidByte 5,
     MSETransportGuidByte 7, MSETransportPositionZ, MSETransportGuidByte 2,
     MSETransportGuidByte 4, MSETransportPositionX, MSETransportGuidByte 1,
     MSETransportVehicleId, MSETransportSeat, MSETransportPositionY, MSETransportGuidByte 6,
     MSETransportTime, MSETransportGuidByte 3, MSETransportTime2, MSETransportOrientation,
     MSESplineElevation, MSETimestamp, MSEOrientation, MSECounter, MSEEnd]"

definition MovementSetCanFly :: "MovementStatusElements list" where
  "MovementSetCanFly = [
     MSEPositionY, MSEPositionX, MSEPositionZ, MSEHasFallData, MSEHasGuidByte 0,
     MSEHasMovementFlags2, MSEHasGuidByte 6, MSEHasMovementFlags, MSEZeroBit,
     MSEHasGuidByte 2, MSEHasOrientation, MSEHasCounter, MSEHasSplineElevation,
     MSEHasTransportData, MSEHasGuidByte 1, MSEHasGuidByte 5, MSEHasPitch, MSEZeroBit,
     MSEHasGuidByte 4, MSEHasTimestamp, MSEForcesCount, MSEZeroBit, MSEHasGuidByte 7,
     MSEHasGuidByte 3, MSEHasTransportGuidByte 2, MSEHasTransportVehicleId,
     MSEHasTransportGuidByte 7, MSEHasTransportGuidByte 5, MSEHasTransportGuidByte 3,
     MSEHasTransportGuidByte 1, MSEHasTransportGuidByte 4, MSEHasTransportGuidByte 0,
     MSEHasTransportGuidByte 6, MSEHasTransportTime2, MSEHasFallDirection, MSEMovementFlags,
     MSEMovementFlags2, MSEForces, MSEGuidByte 4, MSEGuidByte 2, MSEGuidByte 6,
     MSEGuidByte 3, MSEGuidByte 0, MSEGuidByte 7, MSEGuidByte 1, MSEGuidByte 5, MSECounter,
     MSETransportGuidByte 7, MSETransportGuidByte 4, MSETransportTime,
     MSETransportGuidByte 3, MSETransportGuidByte 6, MSETransportOrientation,
     MSETransportGuidByte 0, MSETransportPositionZ, MSETransportPositionX, MSETransportSeat,
     MSETransportPositionY, MSETransportTime2, MSETransportGuidByte 1,
     MSETransportGuidByte 5, MSETransportGuidByte 2, MSETransportVehicleId, MSEFallCosAngle,
     MSEFallHorizontalSpeed, MSEFallSinAngle, MSEFallTime, MSEFallVerticalSpeed,
     MSESplineElevation, MSEOrientation, MSETimestamp, MSEPitch, MSEEnd]"

definition MovementSetCanTransitionBetweenSwimAndFlyAck :: "MovementStatusElements list" where
  "MovementSetCanTransitionBetweenSwimAndFlyAck = [
     MSEPositionZ, MSEPositionY, MSECounter, MSEPositionX, MSEHasGuidByte 3,
     MSEHasOrientation, MSEHasTransportData, MSEHasMovementFlags, MSEHasMovementFlags2,
     MSEHasSplineElevation, MSEHasTimestamp, MSEHasSpline, MSEZeroBit, MSEHasFallData,
     MSEHasGuidByte 5, MSEHasGuidByte 0, MSEHasGuidByte 1, MSEHasGuidByte 4,
     MSEHasGuidByte 6, MSEHasGuidByte 2, MSEHasPitch, MSEHasGuidByte 7,
     MSEHasTransportGuidByte 4, MSEHasTransportGuidByte 2, MSEHasTransportTime2,
     MSEHasTransportGuidByte 0, MSEHasTransportGuidByte 3, MSEHasTransportGuidByte 6,
     MSEHasTransportGuidByte 5, MSEHasTransportVehicleId, MSEHasTransportGuidByte 7,
     MSEHasTransportGuidByte 1, MSEMovementFlags2, MSEHasFallDirection, MSEMovementFlags,
     MSEGuidByte 3, MSEGuidByte 2, MSEGuidByte 0, MSEGuidByte 4, MSEGuidByte 1,
     MSEGuidByte 5, MSEGuidByte 7, MSEGuidByte 6, MSEFallTime, MSEFallHorizontalSpeed,
     MSEFallCosAngle, MSEFallSinAngle, MSEFallVerticalSpeed, MSETransportPositionY,
     MSETransportPositionZ, MSETransportGuidByte 5, MSETransportGuidByte 1,
     MSETransportGuidByte 4, MSETransportTime, MSETransportSeat, MSETransportGuidByte 3,
     MSETransportGuidByte 0, MSETransportGuidByte 2, MSETransportGuidByte 7,
     MSETransportPositionX, MSETransportTime2, MSETransportGuidByte 6,
     MSETransportOrientation, MSETransportVehicleId, MSEPitch, MSEOrientation, MSETimestamp,
     MSESplineElevation, MSEEnd]"

definition MovementUpdateSwimSpeed :: "MovementStatusElements list" where
  "MovementUpdateSwimSpeed = [
     MSEHasMovementFlags, MSEHasGuidByte 2, MSEMovementFlags, MSEHasGuidByte 3, MSEZeroBit,
     MSEHasGuidByte 7, MSEHasFallDirection, MSEHasTransportGuidByte 4,
     MSEHasTransportGuidByte 5, MSEHasTransportGuidByte 3, MSEHasTransportGuidByte 2,
     MSEHasTransportGuidByte 0, MSEHasTransportGuidByte 1, MSEHasTransportGuidByte 6,
     MSEHasTransportGuidByte 7, MSEHasGuidByte 6, MSEHasGuidByte 0, MSEHasGuidByte 4,
     MSEHasGuidByte 5, MSEHasOrientation, MSEHasGuidByte 1, MSETransportGuidByte 2,
     MSETransportPositionX, MSETransportGuidByte 6, MSETransportOrientation,
     MSETransportGuidByte 0, MSETransportGuidByte 4, MSETransportPositionY,
     MSETransportTime, MSETransportGuidByte 1, MSETransportGuidByte 7,
     MSETransportPositionZ, MSETransportSeat, MSETransportGuidByte 3,
     MSETransportGuidByte 5, MSEPositionX, MSEFallSinAngle, MSEFallHorizontalSpeed,
     MSEFallCosAngle, MSEFallTime, MSEFallVerticalSpeed, MSEGuidByte 7, MSETimestamp,
     MSEPositionY, MSEPositionZ, MSEExtraElement, MSEGuidByte 4, MSEOrientation,
     MSEGuidByte 2, MSEGuidByte 3, MSEGuidByte 0, MSEGuidByte 6, MSEGuidByte 1,
     MSEGuidByte 5, MSEPitch, MSEEnd]"

definition MovementUpdateRunSpeed :: "MovementStatusElements list" where
  "MovementUpdateRunSpeed = [
     MSEHasGuidByte 0, MSEHasGuidByte 3, MSEHasTimestamp, MSEHasGuidByte 7,
     MSEHasGuidByte 4, MSEZeroBit, MSEHasGuidByte 1, MSEHasPitch, MSEHasGuidByte 2,
     MSEHasGuidByte 5, MSEHasCounter, MSEHasGuidByte 6, MSEHasMovementFlags, MSEForcesCount,
     MSEMovementFlags, MSEHasMovementFlags2, MSEMovementFlags2, MSEHasTransportData,
     MSEHasTransportTime2, MSEHasTransportGuidByte 5, MSEHasTransportGuidByte 6,
     MSEHasTransportGuidByte 1, MSEHasTransportGuidByte 3, MSEHasTransportGuidByte 2,
     MSEHasTransportVehicleId, MSEHasTransportGuidByte 0, MSEHasTransportGuidByte 7,
     MSEHasTransportGuidByte 4, MSEHasSplineElevation, MSEHasOrientation, MSEHasFallData,
     MSEZeroBit, MSEHasFallDirection, MSEZeroBit, MSEFallVerticalSpeed, MSEFallSinAngle,
     MSEFallCosAngle, MSEFallHorizontalSpeed, MSEFallTime, MSETransportGuidByte 4,
     MSETransportGuidByte 2, MSETransportSeat, MSETransportPositionZ,
     MSETransportGuidByte 5, MSETransportGuidByte 7, MSETransportGuidByte 3,
     MSETransportPositionY, MSETransportTime2, MSETransportGuidByte 6, MSETransportTime,
     MSETransportOrientation, MSETransportVehicleId, MSETransportPositionX,
     MSETransportGuidByte 0, MSETransportGuidByte 1, MSEPositionX, MSESplineElevation,
     MSEGuidByte 1, MSEGuidByte 2, MSEGuidByte 6, MSECounter, MSEGuidByte 0, MSETimestamp,
     MSEGuidByte 3, MSEGuidByte 5, MSEForces, MSEPitch, MSEGuidByte 7, MSEOrientation,
     MSEPositionZ, MSEPositionY, MSEExtraElement, MSEGuidByte 4, MSEEnd]"

definition MovementUpdateFlightSpeed :: "MovementStatusElements list" where
  "MovementUpdateFlightSpeed = [
     MSEHasGuidByte 3, MSEHasGuidByte 2, MSEHasTransportData, MSEHasOrientation,
     MSEHasSplineElevation, MSEHasGuidByte 6, MSEHasGuidByte 7, MSEZeroBit,
     MSEHasTransportGuidByte 4, MSEHasTransportVehicleId, MSEHasTransportTime2,
     MSEHasTransportGuidByte 5, MSEHasTransportGuidByte 7, MSEHasTransportGuidByte 3,
     MSEHasTransportGuidByte 6, MSEHasTransportGuidByte 1, MSEHasTransportGuidByte 2,
     MSEHasTransportGuidByte 0, MSEHasMovementFlags, MSEForcesCount, MSEZeroBit,
     MSEHasGuidByte 0, MSEHasCounter, MSEHasFallData, MSEHasGuidByte 5, MSEHasGuidByte 4,
     MSEHasMovementFlags2, MSEHasPitch, MSEHasTimestamp, MSEHasFallDirection, MSEZeroBit,
     MSEMovementFlags, MSEMovementFlags2, MSEHasGuidByte 1, MSEGuidByte 5, MSEPositionZ,
     MSEGuidByte 7, MSETransportPositionX, MSETransportGuidByte 4, MSETransportGuidByte 6,
     MSETransportGuidByte 0, MSETransportGuidByte 2, MSETransportGuidByte 5,
     MSETransportTime2, MSETransportGuidByte 1, MSETransportPositionZ,
     MSETransportVehicleId, MSETransportGuidByte 7, MSETransportTime,
     MSETransportGuidByte 3, MSETransportPositionY, MSETransportOrientation,
     MSETransportSeat, MSEGuidByte 0, MSEGuidByte 2, MSEFallTime, MSEFallVerticalSpeed,
     MSEFallSinAngle, MSEFallCosAngle, MSEFallHorizontalSpeed, MSEPositionX,
     MSESplineElevation, MSEGuidByte 4, MSEForces, MSEPositionY, MSEGuidByte 6, MSECounter,
     MSETimestamp, MSEOrientation, MSEGuidByte 1, MSEExtraElement, MSEPitch, MSEGuidByte 3,
     MSEEnd]"

definition MovementUpdateCollisionHeight :: "MovementStatusElements list" where
  "MovementUpdateCollisionHeight = [
     MSEHasGuidByte 7, MSEHasGuidByte 3, MSEHasMovementFlags2, MSEZeroBit, MSEHasGuidByte 4,
     MSEHasGuidByte 2, MSEHasOrientation, MSEHasGuidByte 5, MSEZeroBit,
     MSEHasSplineElevation, MSEHasMovementFlags, MSEHasTimestamp, MSEHasPitch,
     MSEHasGuidByte 6, MSEHasGuidByte 1, MSEHasCounter, MSEMovementFlags, MSEZeroBit,
     MSEForcesCount, MSEHasFallData, MSEHasFallDirection, MSEHasTransportData,
     MSEHasTransportGuidByte 5, MSEHasTransportGuidByte 2, MSEHasTransportGuidByte 7,
     MSEHasTransportGuidByte 3, MSEHasTransportTime2, MSEHasTransportGuidByte 6,
     MSEHasTransportGuidByte 4, MSEHasTransportVehicleId, MSEHasTransportGuidByte 1,
     MSEHasTransportGuidByte 0, MSEHasGuidByte 0, MSEMovementFlags2,
     MSETransportOrientation, MSETransportGuidByte 7, MSETransportPositionZ,
     MSETransportSeat, MSETransportGuidByte 3, MSETransportTime, MSETransportVehicleId,
     MSETransportGuidByte 6, MSETransportGuidByte 1, MSETransportGuidByte 2,
     MSETransportPositionY, MSETransportGuidByte 0, MSETransportTime2,
     MSETransportGuidByte 4, MSETransportGuidByte 5, MSETransportPositionX,
     MSESplineElevation, MSEPositionZ, MSEPitch, MSEExtraElement, MSEGuidByte 5,
     MSEGuidByte 7, MSEGuidByte 4, MSEGuidByte 3, MSECounter, MSEPositionX, MSEFallCosAngle,
     MSEFallHorizontalSpeed, MSEFallSinAngle, MSEFallVerticalSpeed, MSEFallTime,
     MSEOrientation, MSEGuidByte 1, MSEPositionY, MSEForces, MSEGuidByte 0, MSEExtraElement,
     MSEGuidByte 6, MSETimestamp, MSEGuidByte 2, MSEEnd]"

definition MovementForceRunSpeedChangeAck :: "MovementStatusElements list" where
  "MovementForceRunSpeedChangeAck = [
     MSECounter, MSEPositionX, MSEExtraElement, MSEPositionZ, MSEPositionY,
     MSEHasGuidByte 2, MSEHasGuidByte 4, MSEHasGuidByte 1, MSEHasGuidByte 7,
     MSEHasOrientation, MSEHasFallData, MSEHasGuidByte 0, MSEHasSpline, MSEHasTransportData,
     MSEHasTimestamp, MSEHasMovementFlags2, MSEHasGuidByte 6, MSEZeroBit,
     MSEHasSplineElevation, MSEHasPitch, MSEHasGuidByte 5, MSEHasMovementFlags,
     MSEHasGuidByte 3, MSEHasTransportVehicleId, MSEHasTransportGuidByte 5,
     MSEHasTransportTime2, MSEHasTransportGuidByte 3, MSEHasTransportGuidByte 2,
     MSEHasTransportGuidByte 0, MSEHasTransportGuidByte 7, MSEHasTransportGuidByte 6,
     MSEHasTransportGuidByte 1, MSEHasTransportGuidByte 4, MSEMovementFlags,
     MSEHasFallDirection, MSEMovementFlags2, MSEGuidByte 6, MSEGuidByte 4, MSEGuidByte 1,
     MSEGuidByte 3, MSEGuidByte 5, MSEGuidByte 2, MSEGuidByte 7, MSEGuidByte 0,
     MSETransportPositionZ, MSETransportGuidByte 6, MSETransportGuidByte 1,
     MSETransportPositionY, MSETransportGuidByte 0, MSETransportGuidByte 5,
     MSETransportTime2, MSETransportPositionX, MSETransportTime, MSETransportGuidByte 7,
     MSETransportOrientation, MSETransportGuidByte 3, MSETransportVehicleId,
     MSETransportGuidByte 2, MSETransportSeat, MSETransportGuidByte 4, MSEFallVerticalSpeed,
     MSEFallHorizontalSpeed, MSEFallSinAngle, MSEFallCosAngle, MSEFallTime,
     MSESplineElevation, MSEPitch, MSETimestamp, MSEOrientation, MSEEnd]"

definition MovementSetCollisionHeightAck :: "MovementStatusElements list" where
  "MovementSetCollisionHeightAck = [
     MSEMountDisplayIdWithoutCheck, MSEPositionZ, MSEExtraElement, MSEPositionY, MSECount,
     MSEPositionX, MSEZeroBit, MSEForcesCount, MSEHasCounter, MSEExtraElement,
     MSEHasGuidByte 5, MSEHasTimestamp, MSEHasSplineElevation, MSEHasGuidByte 4,
     MSEHasGuidByte 6, MSEHasGuidByte 3, MSEHasTransportData, MSEHasFallData, MSEHasPitch,
     MSEHasOrientation, MSEHasMovementFlags, MSEHasMovementFlags2, MSEHasGuidByte 0,
     MSEZeroBit, MSEHasGuidByte 1, MSEZeroBit, MSEHasGuidByte 7, MSEHasGuidByte 2,
     MSEHasTransportGuidByte 0, MSEHasTransportGuidByte 6, MSEHasTransportGuidByte 1,
     MSEHasTransportGuidByte 4, MSEHasTransportGuidByte 5, MSEHasTransportGuidByte 2,
     MSEHasTransportGuidByte 3, MSEHasTransportVehicleId, MSEHasTransportTime2,
     MSEHasTransportGuidByte 7, MSEMovementFlags, MSEHasFallDirection, MSEMovementFlags2,
     MSEGuidByte 1, MSEGuidByte 0, MSEForces, MSEGuidByte 5, MSEGuidByte 4, MSEGuidByte 3,
     MSEGuidByte 6, MSEGuidByte 7, MSEGuidByte 2, MSETransportTime, MSETransportPositionY,
     MSETransportPositionX, MSETransportGuidByte 3, MSETransportSeat,
     MSETransportGuidByte 5, MSETransportOrientation, MSETransportGuidByte 1,
     MSETransportGuidByte 4, MSETransportGuidByte 0, MSETransportTime2,
     MSETransportVehicleId, MSETransportGuidByte 6, MSETransportGuidByte 7,
     MSETransportGuidByte 2, MSETransportPositionZ, MSEFallVerticalSpeed, MSEFallSinAngle,
     MSEFallCosAngle, MSEFallHorizontalSpeed, MSEFallTime, MSEOrientation, MSEPitch,
     MSESplineElevation, MSETimestamp, MSECounter, MSEEnd]"

definition MovementForceFlightSpeedChangeAck :: "MovementStatusElements list" where
  "MovementForceFlightSpeedChangeAck = [
     MSECounter, MSEPositionZ, MSEPositionX, MSEPositionY, MSEExtraElement,
     MSEHasGuidByte 4, MSEHasGuidByte 5, MSEZeroBit, MSEHasMovementFlags,
     MSEHasSplineElevation, MSEHasGuidByte 3, MSEHasMovementFlags2, MSEHasGuidByte 7,
     MSEHasTransportData, MSEHasGuidByte 0, MSEHasFallData, MSEHasTimestamp, MSEHasPitch,
     MSEHasSpline, MSEHasOrientation, MSEHasGuidByte 6, MSEHasGuidByte 2, MSEHasGuidByte 1,
     MSEHasTransportGuidByte 6, MSEHasTransportGuidByte 1, MSEHasTransportGuidByte 7,
     MSEHasTransportTime2, MSEHasTransportGuidByte 0, MSEHasTransportVehicleId,
     MSEHasTransportGuidByte 3, MSEHasTransportGuidByte 2, MSEHasTransportGuidByte 5,
     MSEHasTransportGuidByte 4, MSEHasFallDirection, MSEMovementFlags2, MSEMovementFlags,
     MSEGuidByte 5, MSEGuidByte 6, MSEGuidByte 1, MSEGuidByte 7, MSEGuidByte 3,
     MSEGuidByte 0, MSEGuidByte 2, MSEGuidByte 4, MSETransportGuidByte 6,
     MSETransportGuidByte 0, MSETransportSeat, MSETransportTime2, MSETransportOrientation,
     MSETransportGuidByte 1, MSETransportGuidByte 5, MSETransportVehicleId,
     MSETransportGuidByte 2, MSETransportPositionZ, MSETransportGuidByte 7,
     MSETransportGuidByte 3, MSETransportGuidByte 4, MSETransportPositionX,
     MSETransportTime, MSETransportPositionY, MSETimestamp, MSESplineElevation,
     MSEFallSinAngle, MSEFallCosAngle, MSEFallHorizontalSpeed, MSEFallTime,
     MSEFallVerticalSpeed, MSEPitch, MSEOrientation, MSEEnd]"

definition MovementSetCanFlyAck :: "MovementStatusElements list" where
  "MovementSetCanFlyAck = [
     MSEPositionY, MSECounter, MSEPositionX, MSEPositionZ, MSEHasGuidByte 3,
     MSEHasTimestamp, MSEHasGuidByte 4, MSEHasGuidByte 0, MSEHasOrientation, MSEHasFallData,
     MSEHasGuidByte 2, MSEHasGuidByte 5, MSEHasSplineElevation, MSEHasMovementFlags2,
     MSEZeroBit, MSEHasGuidByte 7, MSEHasSpline, MSEHasGuidByte 6, MSEHasGuidByte 1,
     MSEHasMovementFlags, MSEHasTransportData, MSEHasPitch, MSEHasTransportGuidByte 3,
     MSEHasTransportGuidByte 1, MSEHasTransportGuidByte 2, MSEHasTransportVehicleId,
     MSEHasTransportTime2, MSEHasTransportGuidByte 0, MSEHasTransportGuidByte 5,
     MSEHasTransportGuidByte 7, MSEHasTransportGuidByte 4, MSEHasTransportGuidByte 6,
     MSEMovementFlags2, MSEMovementFlags, MSEHasFallDirection, MSEGuidByte 1, MSEGuidByte 0,
     MSEGuidByte 2, MSEGuidByte 3, MSEGuidByte 7, MSEGuidByte 6, MSEGuidByte 4,
     MSEGuidByte 5, MSETransportTime2, MSETransportGuidByte 6, MSETransportTime,
     MSETransportVehicleId, MSETransportGuidByte 7, MSETransportPositionZ,
     MSETransportGuidByte 3, MSETransportPositionY, MSETransportGuidByte 5,
     MSETransportPositionX, MSETransportGuidByte 2, MSETransportOrientation,
     MSETransportSeat, MSETransportGuidByte 1, MSETransportGuidByte 0,
     MSETransportGuidByte 4, MSEFallTime, MSEFallSinAngle, MSEFallHorizontalSpeed,
     MSEFallCosAngle, MSEFallVerticalSpeed, MSEPitch, MSEOrientation, MSETimestamp,
     MSESplineElevation, MSEEnd]"

definition MovementForceSwimSpeedChangeAck :: "MovementStatusElements list" where
  "MovementForceSwimSpeedChangeAck = [
     MSEPositionX, MSECounter, MSEExtraElement, MSEPositionY, MSEPositionZ,
     MSEHasGuidByte 4, MSEHasOrientation, MSEHasPitch, MSEHasTransportData,
     MSEHasMovementFlags, MSEHasMovementFlags2, MSEHasGuidByte 1, MSEHasGuidByte 3,
     MSEHasFallData, MSEHasGuidByte 2, MSEHasGuidByte 7, MSEHasTimestamp, MSEZeroBit,
     MSEHasGuidByte 5, MSEHasGuidByte 6, MSEHasSplineElevation, MSEHasSpline,
     MSEHasGuidByte 0, MSEHasTransportGuidByte 1, MSEHasTransportGuidByte 4,
     MSEHasTransportGuidByte 0, MSEHasTransportGuidByte 5, MSEHasTransportGuidByte 7,
     MSEHasTransportGuidByte 3, MSEHasTransportTime2, MSEHasTransportVehicleId,
     MSEHasTransportGuidByte 6, MSEHasTransportGuidByte 2, MSEMovementFlags2,
     MSEHasFallDirection, MSEMovementFlags, MSEGuidByte 2, MSEGuidByte 0, MSEGuidByte 6,
     MSEGuidByte 5, MSEGuidByte 1, MSEGuidByte 3, MSEGuidByte 4, MSEGuidByte 7,
     MSETransportGuidByte 0, MSETransportVehicleId, MSETransportTime2,
     MSETransportPositionX, MSETransportGuidByte 7, MSETransportSeat, MSETransportPositionY,
     MSETransportGuidByte 5, MSETransportPositionZ, MSETransportOrientation,
     MSETransportTime, MSETransportGuidByte 2, MSETransportGuidByte 6,
     MSETransportGuidByte 3, MSETransportGuidByte 1, MSETransportGuidByte 4, MSEFallTime,
     MSEFallSinAngle, MSEFallCosAngle, MSEFallHorizontalSpeed, MSEFallVerticalSpeed,
     MSEOrientation, MSEPitch, MSESplineElevation, MSETimestamp, MSEEnd]"

definition MovementForceWalkSpeedChangeAck :: "MovementStatusElements list" where
  "MovementForceWalkSpeedChangeAck = [
     MSEPositionZ, MSEPositionY, MSEExtraElement, MSEPositionX, MSECounter,
     MSEHasGuidByte 0, MSEHasMovementFlags2, MSEHasTimestamp, MSEHasGuidByte 4,
     MSEHasGuidByte 5, MSEHasGuidByte 2, MSEHasMovementFlags, MSEHasFallData,
     MSEHasOrientation, MSEHasSpline, MSEZeroBit, MSEHasGuidByte 3, MSEHasGuidByte 1,
     MSEHasSplineElevation, MSEHasTransportData, MSEHasGuidByte 7, MSEHasGuidByte 6,
     MSEHasPitch, MSEHasTransportTime2, MSEHasTransportGuidByte 5,
     MSEHasTransportGuidByte 1, MSEHasTransportGuidByte 6, MSEHasTransportVehicleId,
     MSEHasTransportGuidByte 2, MSEHasTransportGuidByte 0, MSEHasTransportGuidByte 4,
     MSEHasTransportGuidByte 7, MSEHasTransportGuidByte 3, MSEMovementFlags,
     MSEMovementFlags2, MSEHasFallDirection, MSEGuidByte 5, MSEGuidByte 6, MSEGuidByte 7,
     MSEGuidByte 2, MSEGuidByte 1, MSEGuidByte 3, MSEGuidByte 4, MSEGuidByte 0,
     MSEFallVerticalSpeed, MSEFallCosAngle, MSEFallHorizontalSpeed, MSEFallSinAngle,
     MSEFallTime, MSETransportPositionZ, MSETransportGuidByte 7, MSETransportGuidByte 5,
     MSETransportPositionX, MSETransportGuidByte 0, MSETransportTime, MSETransportVehicleId,
     MSETransportPositionY, MSETransportGuidByte 2, MSETransportGuidByte 4,
     MSETransportGuidByte 1, MSETransportGuidByte 3, MSETransportOrientation,
     MSETransportSeat, MSETransportGuidByte 6, MSETransportTime2, MSESplineElevation,
     MSETimestamp, MSEOrientation, MSEPitch, MSEEnd]"

definition MovementForceRunBackSpeedChangeAck :: "MovementStatusElements list" where
  "MovementForceRunBackSpeedChangeAck = [
     MSEExtraElement, MSECounter, MSEPositionX, MSEPositionZ, MSEPositionY,
     MSEHasGuidByte 2, MSEHasGuidByte 4, MSEHasTimestamp, MSEHasTransportData,
     MSEHasGuidByte 1, MSEHasGuidByte 0, MSEHasGuidByte 5, MSEHasGuidByte 3,
     MSEHasOrientation, MSEHasFallData, MSEHasMovementFlags2, MSEHasMovementFlags,
     MSEHasGuidByte 7, MSEHasSpline, MSEHasPitch, MSEHasGuidByte 6, MSEHasSplineElevation,
     MSEZeroBit, MSEHasTransportGuidByte 3, MSEHasTransportTime2, MSEHasTransportGuidByte 7,
     MSEHasTransportGuidByte 0, MSEHasTransportGuidByte 2, MSEHasTransportGuidByte 1,
     MSEHasTransportVehicleId, MSEHasTransportGuidByte 4, MSEHasTransportGuidByte 6,
     MSEHasTransportGuidByte 5, MSEMovementFlags, MSEMovementFlags2, MSEHasFallDirection,
     MSEGuidByte 0, MSEGuidByte 7, MSEGuidByte 2, MSEGuidByte 4, MSEGuidByte 3,
     MSEGuidByte 6, MSEGuidByte 5, MSEGuidByte 1, MSEFallTime, MSEFallHorizontalSpeed,
     MSEFallSinAngle, MSEFallCosAngle, MSEFallVerticalSpeed, MSETransportGuidByte 5,
     MSETransportSeat, MSETransportGuidByte 6, MSETransportGuidByte 1,
     MSETransportGuidByte 0, MSETransportGuidByte 2, MSETransportPositionY,
     MSETransportVehicleId, MSETransportPositionX, MSETransportOrientation,
     MSETransportGuidByte 3, MSETransportTime, MSETransportTime2, MSETransportGuidByte 4,
     MSETransportPositionZ, MSETransportGuidByte 7, MSETimestamp, MSESplineElevation,
     MSEOrientation, MSEPitch, MSEEnd]"

definition MovementUpdateRunBackSpeed :: "MovementStatusElements list" where
  "MovementUpdateRunBackSpeed = [
     MSEHasGuidByte 1, MSEHasGuidByte 2, MSEHasGuidByte 4, MSEHasGuidByte 3,
     MSEHasGuidByte 6, MSEHasGuidByte 0, MSEZeroBit, MSEHasMovementFlags, MSEHasGuidByte 5,
     MSEHasOrientation, MSEMovementFlags, MSEHasFallDirection, MSEHasTransportGuidByte 5,
     MSEHasTransportGuidByte 3, MSEHasTransportGuidByte 1, MSEHasTransportGuidByte 6,
     MSEHasTransportGuidByte 7, MSEHasTransportGuidByte 2, MSEHasTransportGuidByte 4,
     MSEHasTransportGuidByte 0, MSEHasGuidByte 7, MSETransportPositionX,
     MSETransportGuidByte 2, MSETransportGuidByte 5, MSETransportGuidByte 4,
     MSETransportGuidByte 6, MSETransportGuidByte 0, MSETransportGuidByte 3,
     MSETransportPositionY, MSETransportGuidByte 7, MSETransportPositionZ, MSETransportTime,
     MSETransportSeat, MSETransportGuidByte 1, MSETransportOrientation, MSEGuidByte 4,
     MSEFallTime, MSEFallHorizontalSpeed, MSEFallSinAngle, MSEFallCosAngle,
     MSEFallVerticalSpeed, MSETimestamp, MSEGuidByte 1, MSEOrientation, MSEGuidByte 0,
     MSEGuidByte 5, MSEGuidByte 3, MSEPositionX, MSEPositionY, MSEPitch, MSEGuidByte 7,
     MSEExtraElement, MSEGuidByte 2, MSEGuidByte 6, MSEPositionZ, MSEEnd]"

definition MovementUpdateWalkSpeed :: "MovementStatusElements list" where
  "MovementUpdateWalkSpeed = [
     MSEHasOrientation, MSEZeroBit, MSEHasGuidByte 3, MSEHasGuidByte 2,
     MSEHasTransportGuidByte 6, MSEHasTransportGuidByte 3, MSEHasTransportGuidByte 2,
     MSEHasTransportGuidByte 0, MSEHasTransportGuidByte 4, MSEHasTransportGuidByte 7,
     MSEHasTransportGuidByte 1, MSEHasTransportGuidByte 5, MSEHasGuidByte 7,
     MSEHasGuidByte 5, MSEHasGuidByte 1, MSEHasGuidByte 0, MSEHasMovementFlags,
     MSEHasGuidByte 6, MSEHasFallDirection, MSEMovementFlags, MSEHasGuidByte 4, MSEPitch,
     MSETransportGuidByte 6, MSETransportGuidByte 0, MSETransportGuidByte 4,
     MSETransportGuidByte 2, MSETransportPositionX, MSETransportGuidByte 7,
     MSETransportTime, MSETransportPositionZ, MSETransportSeat, MSETransportGuidByte 5,
     MSETransportOrientation, MSETransportGuidByte 1, MSETransportPositionY,
     MSETransportGuidByte 3, MSEFallVerticalSpeed, MSEFallHorizontalSpeed, MSEFallSinAngle,
     MSEFallCosAngle, MSEFallTime, MSEGuidByte 1, MSEGuidByte 4, MSEGuidByte 2,
     MSEGuidByte 6, MSEGuidByte 7, MSETimestamp, MSEOrientation, MSEPositionY,
     MSEGuidByte 0, MSEPositionZ, MSEPositionX, MSEGuidByte 3, MSEGuidByte 5,
     MSEExtraElement, MSEEnd]"

definition ForceMoveRootAck :: "MovementStatusElements list" where
  "ForceMoveRootAck = [
     MSEPositionX, MSECounter, MSEPositionY, MSEPositionZ, MSEZeroBit, MSEHasTimestamp,
     MSEHasSplineElevation, MSEZeroBit, MSEHasGuidByte 3, MSEZeroBit, MSEHasGuidByte 4,
     MSEHasMovementFlags2, MSEHasGuidByte 6, MSEHasCounter, MSEHasPitch, MSEHasFallData,
     MSEHasGuidByte 2, MSEHasGuidByte 1, MSEHasGuidByte 7, MSEHasTransportData,
     MSEForcesCount, MSEHasMovementFlags, MSEHasGuidByte 0, MSEHasOrientation,
     MSEHasGuidByte 5, MSEHasTransportGuidByte 1, MSEHasTransportTime3,
     MSEHasTransportTime2, MSEHasTransportGuidByte 2, MSEHasTransportGuidByte 6,
     MSEHasTransportGuidByte 3, MSEHasTransportGuidByte 0, MSEHasTransportGuidByte 4,
     MSEHasTransportGuidByte 7, MSEHasTransportGuidByte 5, MSEMovementFlags,
     MSEHasFallDirection, MSEMovementFlags2, MSEGuidByte 1, MSEGuidByte 0, MSEGuidByte 5,
     MSEGuidByte 7, MSEGuidByte 3, MSEGuidByte 4, MSEGuidByte 2, MSEGuidByte 6, MSEForces,
     MSECounter, MSEFallCosAngle, MSEFallSinAngle, MSEFallHorizontalSpeed, MSEFallTime,
     MSEFallVerticalSpeed, MSETransportGuidByte 5, MSETransportGuidByte 0,
     MSETransportGuidByte 3, MSETransportGuidByte 2, MSETransportPositionX,
     MSETransportGuidByte 6, MSETransportPositionY, MSETransportTime2, MSETransportTime,
     MSETransportPositionZ, MSETransportGuidByte 7, MSETransportOrientation,
     MSETransportGuidByte 1, MSETransportSeat, MSETransportTime3, MSETransportGuidByte 4,
     MSEPitch, MSETimestamp, MSEOrientation, MSESplineElevation, MSEEnd]"

definition ForceMoveUnrootAck :: "MovementStatusElements list" where
  "ForceMoveUnrootAck = [
     MSEPositionX, MSEPositionY, MSECounter, MSEPositionZ, MSEHasGuidByte 0, MSEHasPitch,
     MSEHasFallData, MSEHasSplineElevation, MSEZeroBit, MSEHasGuidByte 6, MSEHasGuidByte 4,
     MSEHasGuidByte 1, MSEHasGuidByte 3, MSEZeroBit, MSEHasGuidByte 7, MSEHasGuidByte 5,
     MSEZeroBit, MSEHasTimestamp, MSEHasCounter, MSEHasMovementFlags, MSEHasTransportData,
     MSEHasGuidByte 2, MSEForcesCount, MSEHasMovementFlags2, MSEHasOrientation,
     MSETransportVehicleId, MSEHasTransportGuidByte 0, MSEHasTransportGuidByte 2,
     MSEHasTransportTime2, MSEHasTransportGuidByte 6, MSEHasTransportGuidByte 4,
     MSEHasTransportGuidByte 1, MSEHasTransportGuidByte 7, MSEHasTransportGuidByte 5,
     MSEHasTransportGuidByte 3, MSEMovementFlags2, MSEHasFallDirection, MSEMovementFlags,
     MSEGuidByte 1, MSEGuidByte 0, MSEForces, MSEGuidByte 6, MSEGuidByte 2, MSEGuidByte 5,
     MSEGuidByte 3, MSEGuidByte 4, MSEGuidByte 7, MSECounter, MSETransportSeat,
     MSETransportGuidByte 7, MSETransportGuidByte 4, MSETransportTime,
     MSETransportGuidByte 1, MSETransportTime2, MSETransportPositionZ,
     MSETransportVehicleId, MSETransportGuidByte 5, MSETransportPositionY,
     MSETransportGuidByte 6, MSETransportGuidByte 2, MSETransportPositionX,
     MSETransportGuidByte 0, MSETransportGuidByte 3, MSETransportOrientation,
     MSEFallCosAngle, MSEFallHorizontalSpeed, MSEFallSinAngle, MSEFallTime,
     MSEFallVerticalSpeed, MSETimestamp, MSESplineElevation, MSEOrientation, MSEPitch,
     MSEEnd]"

definition MovementFallReset :: "MovementStatusElements list" where
  "MovementFallReset = [
     MSEPositionY, MSEPositionZ, MSEPositionX, MSEHasGuidByte 1, MSEHasGuidByte 6,
     MSEZeroBit, MSEHasOrientation, MSEHasMovementFlags, MSEHasPitch, MSEHasMovementFlags2,
     MSEForcesCount, MSEHasTimestamp, MSEZeroBit, MSEZeroBit, MSEHasCounter,
     MSEHasGuidByte 0, MSEHasGuidByte 7, MSEHasGuidByte 2, MSEHasGuidByte 4,
     MSEHasSplineElevation, MSEHasFallData, MSEHasGuidByte 5, MSEHasTransportData,
     MSEHasGuidByte 3, MSEHasTransportVehicleId, MSEHasTransportGuidByte 6,
     MSEHasTransportGuidByte 2, MSEHasTransportGuidByte 1, MSEHasTransportGuidByte 0,
     MSEHasTransportTime2, MSEHasTransportGuidByte 7, MSEHasTransportGuidByte 4,
     MSEHasTransportGuidByte 5, MSEHasTransportGuidByte 3, MSEHasFallDirection,
     MSEMovementFlags2, MSEMovementFlags, MSEGuidByte 4, MSEGuidByte 6, MSEGuidByte 1,
     MSEForces, MSEGuidByte 7, MSEGuidByte 5, MSEGuidByte 3, MSEGuidByte 0, MSEGuidByte 2,
     MSEFallTime, MSEFallSinAngle, MSEFallCosAngle, MSEFallHorizontalSpeed,
     MSEFallVerticalSpeed, MSETransportVehicleId, MSETransportGuidByte 0,
     MSETransportOrientation, MSETransportGuidByte 7, MSETransportGuidByte 3,
     MSETransportPositionX, MSETransportTime2, MSETransportGuidByte 2,
     MSETransportPositionZ, MSETransportGuidByte 6, MSETransportSeat, MSETransportPositionY,
     MSETransportGuidByte 5, MSETransportGuidByte 4, MSETransportTime,
     MSETransportGuidByte 1, MSETimestamp, MSECounter, MSEPitch, MSESplineElevation,
     MSEOrientation, MSEEnd]"

definition MovementFeatherFallAck :: "MovementStatusElements list" where
  "MovementFeatherFallAck = [
     MSEPositionZ, MSECounter, MSEPositionY, MSEPositionX, MSEZeroBit, MSEHasGuidByte 3,
     MSEHasSplineElevation, MSEHasGuidByte 1, MSEHasPitch, MSEHasGuidByte 2, MSEHasSpline,
     MSEHasTimestamp, MSEHasGuidByte 5, MSEHasFallData, MSEHasOrientation,
     MSEHasTransportData, MSEHasGuidByte 7, MSEHasMovementFlags2, MSEHasGuidByte 6,
     MSEHasMovementFlags, MSEHasGuidByte 0, MSEHasGuidByte 4, MSEHasTransportGuidByte 6,
     MSEHasTransportVehicleId, MSEHasTransportGuidByte 2, MSEHasTransportGuidByte 4,
     MSEHasTransportGuidByte 7, MSEHasTransportGuidByte 3, MSEHasTransportGuidByte 5,
     MSEHasTransportTime2, MSEHasTransportGuidByte 1, MSEHasTransportGuidByte 0,
     MSEHasFallDirection, MSEMovementFlags2, MSEMovementFlags, MSEGuidByte 6, MSEGuidByte 1,
     MSEGuidByte 7, MSEGuidByte 0, MSEGuidByte 5, MSEGuidByte 4, MSEGuidByte 3,
     MSEGuidByte 2, MSETransportVehicleId, MSETransportOrientation, MSETransportPositionZ,
     MSETransportGuidByte 7, MSETransportGuidByte 5, MSETransportGuidByte 2,
     MSETransportPositionX, MSETransportGuidByte 1, MSETransportGuidByte 6,
     MSETransportTime2, MSETransportTime, MSETransportPositionY, MSETransportGuidByte 4,
     MSETransportGuidByte 0, MSETransportSeat, MSETransportGuidByte 3, MSETimestamp,
     MSESplineElevation, MSEOrientation, MSEFallVerticalSpeed, MSEFallSinAngle,
     MSEFallHorizontalSpeed, MSEFallCosAngle, MSEFallTime, MSEPitch, MSEEnd]"

definition MovementGravityDisableAck :: "MovementStatusElements list" where
  "MovementGravityDisableAck = [
     MSEPositionZ, MSEPositionY, MSECounter, MSEPositionX, MSEHasGuidByte 3,
     MSEHasTransportData, MSEHasGuidByte 4, MSEHasGuidByte 5, MSEHasMovementFlags,
     MSEHasOrientation, MSEHasSpline, MSEHasGuidByte 6, MSEHasGuidByte 0, MSEHasGuidByte 7,
     MSEHasSplineElevation, MSEHasTimestamp, MSEHasPitch, MSEHasMovementFlags2, MSEZeroBit,
     MSEHasGuidByte 2, MSEHasFallData, MSEHasGuidByte 1, MSEHasTransportGuidByte 2,
     MSEHasTransportVehicleId, MSEHasTransportGuidByte 0, MSEHasTransportGuidByte 1,
     MSEHasTransportGuidByte 5, MSEHasTransportGuidByte 3, MSEHasTransportGuidByte 7,
     MSEHasTransportGuidByte 6, MSEHasTransportGuidByte 4, MSEHasTransportTime2,
     MSEMovementFlags, MSEMovementFlags2, MSEHasFallDirection, MSEGuidByte 0, MSEGuidByte 2,
     MSEGuidByte 1, MSEGuidByte 3, MSEGuidByte 5, MSEGuidByte 7, MSEGuidByte 4,
     MSEGuidByte 6, MSETransportPositionZ, MSETransportGuidByte 2, MSETransportGuidByte 5,
     MSETransportGuidByte 3, MSETransportGuidByte 4, MSETransportPositionY,
     MSETransportTime, MSETransportSeat, MSETransportGuidByte 6, MSETransportGuidByte 1,
     MSETransportGuidByte 0, MSETransportOrientation, MSETransportTime2,
     MSETransportPositionX, MSETransportGuidByte 7, MSETransportVehicleId, MSEFallSinAngle,
     MSEFallCosAngle, MSEFallHorizontalSpeed, MSEFallTime, MSEFallVerticalSpeed,
     MSEOrientation, MSESplineElevation, MSETimestamp, MSEPitch, MSEEnd]"

definition MovementGravityEnableAck :: "MovementStatusElements list" where
  "MovementGravityEnableAck = [
     MSEPositionZ, MSEPositionX, MSECounter, MSEPositionY, MSEHasSplineElevation,
     MSEHasMovementFlags2, MSEHasGuidByte 6, MSEHasOrientation, MSEZeroBit,
     MSEHasGuidByte 5, MSEHasSpline, MSEHasGuidByte 3, MSEHasTransportData, MSEHasPitch,
     MSEHasGuidByte 1, MSEHasTimestamp, MSEHasGuidByte 2, MSEHasGuidByte 4,
     MSEHasGuidByte 7, MSEHasMovementFlags, MSEHasFallData, MSEHasGuidByte 0,
     MSEHasTransportVehicleId, MSEHasTransportGuidByte 0, MSEHasTransportGuidByte 1,
     MSEHasTransportGuidByte 3, MSEHasTransportGuidByte 7, MSEHasTransportGuidByte 2,
     MSEHasTransportGuidByte 5, MSEHasTransportTime2, MSEHasTransportGuidByte 4,
     MSEHasTransportGuidByte 6, MSEHasFallDirection, MSEMovementFlags, MSEMovementFlags2,
     MSEGuidByte 5, MSEGuidByte 4, MSEGuidByte 1, MSEGuidByte 7, MSEGuidByte 0,
     MSEGuidByte 2, MSEGuidByte 3, MSEGuidByte 6, MSEFallTime, MSEFallHorizontalSpeed,
     MSEFallCosAngle, MSEFallSinAngle, MSEFallVerticalSpeed, MSETransportGuidByte 1,
     MSETransportPositionX, MSETransportVehicleId, MSETransportOrientation,
     MSETransportGuidByte 2, MSETransportGuidByte 0, MSETransportGuidByte 7,
     MSETransportGuidByte 6, MSETransportSeat, MSETransportGuidByte 3,
     MSETransportGuidByte 4, MSETransportPositionZ, MSETransportTime2,
     MSETransportGuidByte 5, MSETransportTime, MSETransportPositionY, MSESplineElevation,
     MSEOrientation, MSEPitch, MSETimestamp, MSEEnd]"

definition MovementHoverAck :: "MovementStatusElements list" where
  "MovementHoverAck = [
     MSECounter, MSEPositionZ, MSEPositionY, MSEPositionX, MSEHasGuidByte 4,
     MSEHasTransportData, MSEHasGuidByte 2, MSEHasTimestamp, MSEHasSpline,
     MSEHasMovementFlags, MSEHasGuidByte 1, MSEHasPitch, MSEHasGuidByte 0, MSEHasGuidByte 6,
     MSEHasGuidByte 7, MSEHasGuidByte 5, MSEZeroBit, MSEHasFallData, MSEHasMovementFlags2,
     MSEHasSplineElevation, MSEHasOrientation, MSEHasGuidByte 3, MSEHasTransportGuidByte 4,
     MSEHasTransportGuidByte 6, MSEHasTransportVehicleId, MSEHasTransportGuidByte 1,
     MSEHasTransportGuidByte 0, MSEHasTransportGuidByte 3, MSEHasTransportGuidByte 2,
     MSEHasTransportGuidByte 5, MSEHasTransportGuidByte 7, MSEHasTransportTime2,
     MSEMovementFlags, MSEMovementFlags2, MSEHasFallDirection, MSEGuidByte 1, MSEGuidByte 4,
     MSEGuidByte 7, MSEGuidByte 2, MSEGuidByte 5, MSEGuidByte 6, MSEGuidByte 3,
     MSEGuidByte 0, MSETimestamp, MSEFallSinAngle, MSEFallCosAngle, MSEFallHorizontalSpeed,
     MSEFallTime, MSEFallVerticalSpeed, MSEOrientation, MSETransportGuidByte 1,
     MSETransportVehicleId, MSETransportGuidByte 2, MSETransportGuidByte 7,
     MSETransportGuidByte 3, MSETransportGuidByte 4, MSETransportSeat,
     MSETransportPositionX, MSETransportPositionZ, MSETransportOrientation,
     MSETransportTime, MSETransportGuidByte 0, MSETransportPositionY,
     MSETransportGuidByte 5, MSETransportTime2, MSETransportGuidByte 6, MSESplineElevation,
     MSEPitch, MSEEnd]"

definition MovementKnockBackAck :: "MovementStatusElements list" where
  "MovementKnockBackAck = [
     MSEPositionY, MSEPositionZ, MSECounter, MSEPositionX, MSEHasGuidByte 6,
     MSEHasOrientation, MSEHasPitch, MSEHasSplineElevation, MSEHasGuidByte 3,
     MSEHasGuidByte 4, MSEHasGuidByte 1, MSEHasGuidByte 2, MSEHasSpline, MSEHasGuidByte 7,
     MSEZeroBit, MSEHasMovementFlags2, MSEHasTimestamp, MSEHasGuidByte 0,
     MSEHasMovementFlags, MSEHasTransportData, MSEHasGuidByte 5, MSEHasFallData,
     MSEMovementFlags, MSEHasTransportGuidByte 4, MSEHasTransportGuidByte 1,
     MSEHasTransportTime2, MSEHasTransportGuidByte 0, MSEHasTransportVehicleId,
     MSEHasTransportGuidByte 6, MSEHasTransportGuidByte 2, MSEHasTransportGuidByte 3,
     MSEHasTransportGuidByte 5, MSEHasTransportGuidByte 7, MSEMovementFlags2,
     MSEHasFallDirection, MSEGuidByte 4, MSEGuidByte 5, MSEGuidByte 1, MSEGuidByte 6,
     MSEGuidByte 0, MSEGuidByte 3, MSEGuidByte 2, MSEGuidByte 7, MSEFallSinAngle,
     MSEFallHorizontalSpeed, MSEFallCosAngle, MSEFallTime, MSEFallVerticalSpeed,
     MSETimestamp, MSETransportPositionY, MSETransportGuidByte 4, MSETransportTime2,
     MSETransportGuidByte 7, MSETransportOrientation, MSETransportGuidByte 6,
     MSETransportTime, MSETransportGuidByte 3, MSETransportGuidByte 1,
     MSETransportVehicleId, MSETransportGuidByte 2, MSETransportPositionZ,
     MSETransportGuidByte 0, MSETransportGuidByte 5, MSETransportPositionX,
     MSETransportSeat, MSEPitch, MSESplineElevation, MSEOrientation, MSEEnd]"

definition MovementWaterWalkAck :: "MovementStatusElements list" where
  "MovementWaterWalkAck = [
     MSEPositionY, MSEPositionZ, MSECounter, MSEPositionX, MSEHasTimestamp, MSEHasPitch,
     MSEHasGuidByte 5, MSEHasGuidByte 0, MSEHasGuidByte 7, MSEHasOrientation,
     MSEHasGuidByte 1, MSEHasMovementFlags2, MSEHasGuidByte 2, MSEHasMovementFlags,
     MSEHasGuidByte 3, MSEHasTransportData, MSEHasGuidByte 6, MSEHasFallData,
     MSEHasGuidByte 4, MSEZeroBit, MSEHasSplineElevation, MSEHasSpline,
     MSEHasTransportGuidByte 0, MSEHasTransportGuidByte 1, MSEHasTransportGuidByte 6,
     MSEHasTransportGuidByte 2, MSEHasTransportGuidByte 7, MSEHasTransportGuidByte 5,
     MSEHasTransportTime2, MSEHasTransportGuidByte 3, MSEHasTransportVehicleId,
     MSEHasTransportGuidByte 4, MSEMovementFlags, MSEHasFallDirection, MSEMovementFlags2,
     MSEGuidByte 2, MSEGuidByte 7, MSEGuidByte 3, MSEGuidByte 5, MSEGuidByte 6,
     MSEGuidByte 0, MSEGuidByte 4, MSEGuidByte 1, MSETransportPositionX,
     MSETransportGuidByte 1, MSETransportVehicleId, MSETransportGuidByte 0,
     MSETransportOrientation, MSETransportGuidByte 7, MSETransportPositionY,
     MSETransportTime2, MSETransportTime, MSETransportGuidByte 5, MSETransportSeat,
     MSETransportPositionZ, MSETransportGuidByte 3, MSETransportGuidByte 2,
     MSETransportGuidByte 6, MSETransportGuidByte 4, MSESplineElevation, MSEFallSinAngle,
     MSEFallHorizontalSpeed, MSEFallCosAngle, MSEFallVerticalSpeed, MSEFallTime,
     MSEOrientation, MSETimestamp, MSEPitch, MSEEnd]"

definition MovementUpdateKnockBack :: "MovementStatusElements list" where
  "MovementUpdateKnockBack = [
     MSEZeroBit, MSEHasGuidByte 4, MSEHasMovementFlags, MSEHasGuidByte 1, MSEHasGuidByte 0,
     MSEHasGuidByte 3, MSEHasGuidByte 2, MSEHasGuidByte 7, MSEHasTransportGuidByte 7,
     MSEHasTransportGuidByte 5, MSEHasTransportGuidByte 1, MSEHasTransportGuidByte 6,
     MSEHasTransportGuidByte 2, MSEHasTransportGuidByte 4, MSEHasTransportGuidByte 0,
     MSEHasTransportGuidByte 3, MSEHasGuidByte 5, MSEHasGuidByte 6, MSEMovementFlags,
     MSEHasFallDirection, MSEHasOrientation, MSEOrientation, MSEFallSinAngle,
     MSEFallHorizontalSpeed, MSEFallCosAngle, MSEFallTime, MSEFallVerticalSpeed,
     MSEGuidByte 3, MSETransportGuidByte 5, MSETransportGuidByte 7, MSETransportSeat,
     MSETransportGuidByte 3, MSETransportGuidByte 6, MSETransportPositionZ,
     MSETransportGuidByte 1, MSETransportPositionY, MSETransportPositionX,
     MSETransportGuidByte 2, MSETransportGuidByte 0, MSETransportOrientation,
     MSETransportTime, MSETransportGuidByte 4, MSEPitch, MSEPositionZ, MSETimestamp,
     MSEPositionX, MSEGuidByte 4, MSEGuidByte 6, MSEGuidByte 7, MSEGuidByte 2,
     MSEGuidByte 1, MSEPositionY, MSEGuidByte 0, MSEGuidByte 5, MSEEnd]"

definition SplineMoveSetWalkSpeed :: "MovementStatusElements list" where
  "SplineMoveSetWalkSpeed = [
     MSEHasGuidByte 0, MSEHasGuidByte 6, MSEHasGuidByte 7, MSEHasGuidByte 3,
     MSEHasGuidByte 5, MSEHasGuidByte 1, MSEHasGuidByte 2, MSEHasGuidByte 4, MSEGuidByte 0,
     MSEGuidByte 4, MSEGuidByte 7, MSEGuidByte 1, MSEGuidByte 5, MSEGuidByte 3,
     MSEExtraElement, MSEGuidByte 6, MSEGuidByte 2, MSEEnd]"

definition SplineMoveSetWalkBackSpeed :: "MovementStatusElements list" where
  "SplineMoveSetWalkBackSpeed = [
     MSEHasGuidByte 4, MSEHasGuidByte 1, MSEHasGuidByte 7, MSEHasGuidByte 6,
     MSEHasGuidByte 3, MSEHasGuidByte 2, MSEHasGuidByte 5, MSEHasGuidByte 0, MSEGuidByte 2,
     MSEGuidByte 3, MSEGuidByte 1, MSEGuidByte 0, MSEGuidByte 6, MSEGuidByte 5,
     MSEGuidByte 4, MSEGuidByte 7, MSEExtraElement, MSEEnd]"

definition SplineMoveSetRunSpeed :: "MovementStatusElements list" where
  "SplineMoveSetRunSpeed = [
     MSEHasGuidByte 3, MSEHasGuidByte 0, MSEHasGuidByte 1, MSEHasGuidByte 4,
     MSEHasGuidByte 7, MSEHasGuidByte 5, MSEHasGuidByte 6, MSEHasGuidByte 2, MSEGuidByte 4,
     MSEExtraElement, MSEGuidByte 1, MSEGuidByte 5, MSEGuidByte 3, MSEGuidByte 7,
     MSEGuidByte 6, MSEGuidByte 2, MSEGuidByte 0, MSEEnd]"

definition SplineMoveSetRunBackSpeed :: "MovementStatusElements list" where
  "SplineMoveSetRunBackSpeed = [
     MSEHasGuidByte 7, MSEHasGuidByte 4, MSEHasGuidByte 0, MSEHasGuidByte 3,
     MSEHasGuidByte 2, MSEHasGuidByte 5, MSEHasGuidByte 6, MSEHasGuidByte 1, MSEGuidByte 6,
     MSEGuidByte 4, MSEGuidByte 1, MSEGuidByte 5, MSEGuidByte 2, MSEGuidByte 3,
     MSEGuidByte 7, MSEExtraElement, MSEGuidByte 0, MSEEnd]"

definition SplineMoveSetSwimSpeed :: "MovementStatusElements list" where
  "SplineMoveSetSwimSpeed = [
     MSEHasGuidByte 5, MSEHasGuidByte 6, MSEHasGuidByte 7, MSEHasGuidByte 3,
     MSEHasGuidByte 4, MSEHasGuidByte 2, MSEHasGuidByte 1, MSEHasGuidByte 0, MSEGuidByte 4,
     MSEGuidByte 1, MSEGuidByte 6, MSEGuidByte 7, MSEGuidByte 3, MSEExtraElement,
     MSEGuidByte 5, MSEGuidByte 0, MSEGuidByte 2, MSEEnd]"

definition SplineMoveSetSwimBackSpeed :: "MovementStatusElements list" where
  "SplineMoveSetSwimBackSpeed = [
     MSEHasGuidByte 2, MSEHasGuidByte 6, MSEHasGuidByte 5, MSEHasGuidByte 0,
     MSEHasGuidByte 4, MSEHasGuidByte 3, MSEHasGuidByte 1, MSEHasGuidByte 7, MSEGuidByte 7,
     MSEGuidByte 6, MSEGuidByte 5, MSEGuidByte 3, MSEGuidByte 2, MSEGuidByte 4,
     MSEGuidByte 1, MSEGuidByte 0, MSEExtraElement, MSEEnd]"

definition SplineMoveSetTurnRate :: "MovementStatusElements list" where
  "SplineMoveSetTurnRate = [
     MSEHasGuidByte 5, MSEHasGuidByte 7, MSEHasGuidByte 4, MSEHasGuidByte 0,
     MSEHasGuidByte 1, MSEHasGuidByte 6, MSEHasGuidByte 3, MSEHasGuidByte 2, MSEGuidByte 1,
     MSEGuidByte 7, MSEExtraElement, MSEGuidByte 6, MSEGuidByte 0, MSEGuidByte 4,
     MSEGuidByte 2, MSEGuidByte 5, MSEGuidByte 3, MSEEnd]"

definition SplineMoveSetFlightSpeed :: "MovementStatusElements list" where
  "SplineMoveSetFlightSpeed = [
     MSEExtraElement, MSEHasGuidByte 1, MSEHasGuidByte 4, MSEHasGuidByte 7,
     MSEHasGuidByte 3, MSEHasGuidByte 2, MSEHasGuidByte 6, MSEHasGuidByte 5,
     MSEHasGuidByte 0, MSEGuidByte 5, MSEGuidByte 1, MSEGuidByte 0, MSEGuidByte 6,
     MSEGuidByte 2, MSEGuidByte 4, MSEGuidByte 7, MSEGuidByte 3, MSEEnd]"

definition SplineMoveSetFlightBackSpeed :: "MovementStatusElements list" where
  "SplineMoveSetFlightBackSpeed = [
     MSEHasGuidByte 6, MSEHasGuidByte 0, MSEHasGuidByte 2, MSEHasGuidByte 7,
     MSEHasGuidByte 5, MSEHasGuidByte 4, MSEHasGuidByte 3, MSEHasGuidByte 1, MSEGuidByte 7,
     MSEGuidByte 6, MSEGuidByte 4, MSEExtraElement, MSEGuidByte 1, MSEGuidByte 3,
     MSEGuidByte 2, MSEGuidByte 0, MSEGuidByte 5, MSEEnd]"

definition SplineMoveSetPitchRate :: "MovementStatusElements list" where
  "SplineMoveSetPitchRate = [
     MSEHasGuidByte 2, MSEHasGuidByte 6, MSEHasGuidByte 0, MSEHasGuidByte 5,
     MSEHasGuidByte 1, MSEHasGuidByte 3, MSEHasGuidByte 7, MSEHasGuidByte 4, MSEGuidByte 5,
     MSEExtraElement, MSEGuidByte 4, MSEGuidByte 0, MSEGuidByte 3, MSEGuidByte 6,
     MSEGuidByte 1, MSEGuidByte 2, MSEGuidByte 7, MSEEnd]"

definition MoveSetWalkSpeed :: "MovementStatusElements list" where
  "MoveSetWalkSpeed = [
     MSEHasGuidByte 6, MSEHasGuidByte 7, MSEHasGuidByte 3, MSEHasGuidByte 1,
     MSEHasGuidByte 2, MSEHasGuidByte 0, MSEHasGuidByte 4, MSEHasGuidByte 5, MSEGuidByte 5,
     MSEGuidByte 6, MSECounter, MSEGuidByte 4, MSEExtraElement, MSEGuidByte 2,
     MSEGuidByte 3, MSEGuidByte 0, MSEGuidByte 1, MSEGuidByte 7, MSEEnd]"

definition MoveSetRunSpeed :: "MovementStatusElements list" where
  "MoveSetRunSpeed = [
     MSEHasGuidByte 1, MSEHasGuidByte 7, MSEHasGuidByte 4, MSEHasGuidByte 2,
     MSEHasGuidByte 5, MSEHasGuidByte 3, MSEHasGuidByte 6, MSEHasGuidByte 0, MSEGuidByte 1,
     MSECounter, MSEGuidByte 7, MSEGuidByte 3, MSEGuidByte 0, MSEExtraElement,
     MSEGuidByte 2, MSEGuidByte 4, MSEGuidByte 6, MSEGuidByte 5, MSEEnd]"

definition MoveSetRunBackSpeed :: "MovementStatusElements list" where
  "MoveSetRunBackSpeed = [
     MSEHasGuidByte 3, MSEHasGuidByte 0, MSEHasGuidByte 1, MSEHasGuidByte 4,
     MSEHasGuidByte 7, MSEHasGuidByte 5, MSEHasGuidByte 6, MSEHasGuidByte 2, MSEGuidByte 4,
     MSECounter, MSEGuidByte 1, MSEGuidByte 5, MSEGuidByte 3, MSEGuidByte 7, MSEGuidByte 6,
     MSEGuidByte 2, MSEGuidByte 0, MSEExtraElement, MSEEnd]"

definition MoveSetSwimSpeed :: "MovementStatusElements list" where
  "MoveSetSwimSpeed = [
     MSEHasGuidByte 5, MSEHasGuidByte 0, MSEHasGuidByte 6, MSEHasGuidByte 3,
     MSEHasGuidByte 7, MSEHasGuidByte 2, MSEHasGuidByte 4, MSEHasGuidByte 1, MSECounter,
     MSEGuidByte 1, MSEGuidByte 3, MSEExtraElement, MSEGuidByte 6, MSEGuidByte 7,
     MSEGuidByte 0, MSEGuidByte 5, MSEGuidByte 2, MSEGuidByte 4, MSEEnd]"

definition MoveSetSwimBackSpeed :: "MovementStatusElements list" where
  "MoveSetSwimBackSpeed = [
     MSEHasGuidByte 4, MSEHasGuidByte 2, MSEHasGuidByte 3, MSEHasGuidByte 6,
     MSEHasGuidByte 5, MSEHasGuidByte 1, MSEHasGuidByte 0, MSEHasGuidByte 7, MSECounter,
     MSEGuidByte 0, MSEGuidByte 3, MSEGuidByte 4, MSEGuidByte 6, MSEGuidByte 5,
     MSEGuidByte 1, MSEExtraElement, MSEGuidByte 7, MSEGuidByte 2, MSEEnd]"

definition MoveSetTurnRate :: "MovementStatusElements list" where
  "MoveSetTurnRate = [
     MSEHasGuidByte 7, MSEHasGuidByte 2, MSEHasGuidByte 1, MSEHasGuidByte 0,
     MSEHasGuidByte 4, MSEHasGuidByte 5, MSEHasGuidByte 6, MSEHasGuidByte 3, MSEGuidByte 5,
     MSEGuidByte 7, MSEGuidByte 2, MSEExtraElement, MSEGuidByte 3, MSEGuidByte 1,
     MSEGuidByte 0, MSECounter, MSEGuidByte 6, MSEGuidByte 4, MSEEnd]"

definition MoveSetFlightSpeed :: "MovementStatusElements list" where
  "MoveSetFlightSpeed = [
     MSEExtraElement, MSECount, MSEHasGuidByte 6, MSEHasGuidByte 5, MSEHasGuidByte 0,
     MSEHasGuidByte 4, MSEHasGuidByte 1, MSEHasGuidByte 7, MSEHasGuidByte 3,
     MSEHasGuidByte 2, MSEGuidByte 0, MSEGuidByte 7, MSEGuidByte 4, MSEGuidByte 5,
     MSEGuidByte 6, MSEGuidByte 2, MSEGuidByte 3, MSEGuidByte 1, MSEEnd]"

definition MoveSetFlightBackSpeed :: "MovementStatusElements list" where
  "MoveSetFlightBackSpeed = [
     MSEHasGuidByte 1, MSEHasGuidByte 2, MSEHasGuidByte 6, MSEHasGuidByte 4,
     MSEHasGuidByte 7, MSEHasGuidByte 3, MSEHasGuidByte 0, MSEHasGuidByte 5, MSEGuidByte 3,
     MSECount, MSEGuidByte 6, MSEExtraElement, MSEGuidByte 1, MSEGuidByte 2, MSEGuidByte 4,
     MSEGuidByte 0, MSEGuidByte 5, MSEGuidByte 7, MSEEnd]"

definition MoveSetPitchRate :: "MovementStatusElements list" where
  "MoveSetPitchRate = [
     MSEHasGuidByte 1, MSEHasGuidByte 2, MSEHasGuidByte 6, MSEHasGuidByte 7,
     MSEHasGuidByte 0, MSEHasGuidByte 3, MSEHasGuidByte 5, MSEHasGuidByte 4,
     MSEExtraElement, MSEGuidByte 6, MSEGuidByte 4, MSEGuidByte 0, MSECount, MSEGuidByte 1,
     MSEGuidByte 2, MSEGuidByte 7, MSEGuidByte 3, MSEGuidByte 5, MSEEnd]"

definition MoveSetCollisionHeight :: "MovementStatusElements list" where
  "MoveSetCollisionHeight = [
     MSEHasGuidByte 7, MSEHasGuidByte 0, MSEHasGuidByte 1, MSEHasMountDisplayId,
     MSEHasGuidByte 3, MSEZeroBit, MSEZeroBit, MSEHasGuidByte 2, MSEHasGuidByte 6,
     MSEHasGuidByte 5, MSEHasGuidByte 4, MSEExtraElement, MSEMountDisplayIdWithCheck,
     MSEGuidByte 3, MSEGuidByte 2, MSEGuidByte 5, MSEGuidByte 6, MSECounter,
     MSEExtraElement, MSEGuidByte 7, MSEGuidByte 1, MSEGuidByte 4, MSEGuidByte 0, MSEEnd]"

definition SplineMoveSetWalkMode :: "MovementStatusElements list" where
  "SplineMoveSetWalkMode = [
     MSEHasGuidByte 7, MSEHasGuidByte 6, MSEHasGuidByte 5, MSEHasGuidByte 1,
     MSEHasGuidByte 3, MSEHasGuidByte 4, MSEHasGuidByte 2, MSEHasGuidByte 0, MSEGuidByte 4,
     MSEGuidByte 2, MSEGuidByte 1, MSEGuidByte 6, MSEGuidByte 5, MSEGuidByte 0,
     MSEGuidByte 7, MSEGuidByte 3, MSEEnd]"

definition SplineMoveSetRunMode :: "MovementStatusElements list" where
  "SplineMoveSetRunMode = [
     MSEHasGuidByte 5, MSEHasGuidByte 6, MSEHasGuidByte 2, MSEHasGuidByte 4,
     MSEHasGuidByte 7, MSEHasGuidByte 1, MSEHasGuidByte 3, MSEHasGuidByte 0, MSEGuidByte 5,
     MSEGuidByte 1, MSEGuidByte 4, MSEGuidByte 0, MSEGuidByte 7, MSEGuidByte 3,
     MSEGuidByte 6, MSEGuidByte 2, MSEEnd]"

definition SplineMoveGravityDisable :: "MovementStatusElements list" where
  "SplineMoveGravityDisable = [
     MSEHasGuidByte 1, MSEHasGuidByte 7, MSEHasGuidByte 4, MSEHasGuidByte 5,
     MSEHasGuidByte 6, MSEHasGuidByte 0, MSEHasGuidByte 2, MSEHasGuidByte 3, MSEGuidByte 3,
     MSEGuidByte 4, MSEGuidByte 5, MSEGuidByte 6, MSEGuidByte 0, MSEGuidByte 1,
     MSEGuidByte 2, MSEGuidByte 7, MSEEnd]"

definition SplineMoveGravityEnable :: "MovementStatusElements list" where
  "SplineMoveGravityEnable = [
     MSEHasGuidByte 5, MSEHasGuidByte 7, MSEHasGuidByte 4, MSEHasGuidByte 2,
     MSEHasGuidByte 3, MSEHasGuidByte 6, MSEHasGuidByte 1, MSEHasGuidByte 0, MSEGuidByte 6,
     MSEGuidByte 3, MSEGuidByte 2, MSEGuidByte 4, MSEGuidByte 1, MSEGuidByte 5,
     MSEGuidByte 7, MSEGuidByte 0, MSEEnd]"

definition SplineMoveSetHover :: "MovementStatusElements list" where
  "SplineMoveSetHover = [
     MSEHasGuidByte 6, MSEHasGuidByte 5, MSEHasGuidByte 1, MSEHasGuidByte 3,
     MSEHasGuidByte 0, MSEHasGuidByte 4, MSEHasGuidByte 7, MSEHasGuidByte 2, MSEGuidByte 7,
     MSEGuidByte 1, MSEGuidByte 0, MSEGuidByte 6, MSEGuidByte 3, MSEGuidByte 2,
     MSEGuidByte 5, MSEGuidByte 4, MSEEnd]"

definition SplineMoveUnsetHover :: "MovementStatusElements list" where
  "SplineMoveUnsetHover = [
     MSEHasGuidByte 3, MSEHasGuidByte 1, MSEHasGuidByte 5, MSEHasGuidByte 7,
     MSEHasGuidByte 4, MSEHasGuidByte 6, MSEHasGuidByte 2, MSEHasGuidByte 0, MSEGuidByte 3,
     MSEGuidByte 5, MSEGuidByte 2, MSEGuidByte 1, MSEGuidByte 6, MSEGuidByte 7,
     MSEGuidByte 4, MSEGuidByte 0, MSEEnd]"

definition SplineMoveStartSwim :: "MovementStatusElements list" where
  "SplineMoveStartSwim = [
     MSEHasGuidByte 7, MSEHasGuidByte 4, MSEHasGuidByte 2, MSEHasGuidByte 6,
     MSEHasGuidByte 5, MSEHasGuidByte 3, MSEHasGuidByte 1, MSEHasGuidByte 0, MSEGuidByte 4,
     MSEGuidByte 0, MSEGuidByte 6, MSEGuidByte 7, MSEGuidByte 1, MSEGuidByte 2,
     MSEGuidByte 3, MSEGuidByte 5, MSEEnd]"

definition SplineMoveStopSwim :: "MovementStatusElements list" where
  "SplineMoveStopSwim = [
     MSEHasGuidByte 7, MSEHasGuidByte 4, MSEHasGuidByte 2, MSEHasGuidByte 6,
     MSEHasGuidByte 5, MSEHasGuidByte 3, MSEHasGuidByte 1, MSEHasGuidByte 0, MSEGuidByte 4,
     MSEGuidByte 0, MSEGuidByte 6, MSEGuidByte 7, MSEGuidByte 1, MSEGuidByte 2,
     MSEGuidByte 3, MSEGuidByte 5, MSEEnd]"

definition SplineMoveSetFlying :: "MovementStatusElements list" where
  "SplineMoveSetFlying = [
     MSEHasGuidByte 4, MSEHasGuidByte 1, MSEHasGuidByte 2, MSEHasGuidByte 0,
     MSEHasGuidByte 7, MSEHasGuidByte 5, MSEHasGuidByte 3, MSEHasGuidByte 6, MSEGuidByte 4,
     MSEGuidByte 7, MSEGuidByte 1, MSEGuidByte 0, MSEGuidByte 3, MSEGuidByte 5,
     MSEGuidByte 6, MSEGuidByte 2, MSEEnd]"

definition SplineMoveUnsetFlying :: "MovementStatusElements list" where
  "SplineMoveUnsetFlying = [
     MSEHasGuidByte 1, MSEHasGuidByte 5, MSEHasGuidByte 7, MSEHasGuidByte 2,
     MSEHasGuidByte 6, MSEHasGuidByte 3, MSEHasGuidByte 0, MSEHasGuidByte 4, MSEGuidByte 2,
     MSEGuidByte 5, MSEGuidByte 4, MSEGuidByte 6, MSEGuidByte 1, MSEGuidByte 0,
     MSEGuidByte 7, MSEGuidByte 3, MSEEnd]"

definition SplineMoveSetWaterWalk :: "MovementStatusElements list" where
  "SplineMoveSetWaterWalk = [
     MSEHasGuidByte 3, MSEHasGuidByte 1, MSEHasGuidByte 5, MSEHasGuidByte 6,
     MSEHasGuidByte 4, MSEHasGuidByte 0, MSEHasGuidByte 7, MSEHasGuidByte 2, MSEGuidByte 4,
     MSEGuidByte 3, MSEGuidByte 6, MSEGuidByte 2, MSEGuidByte 1, MSEGuidByte 5,
     MSEGuidByte 7, MSEGuidByte 0, MSEEnd]"

definition SplineMoveSetLandWalk :: "MovementStatusElements list" where
  "SplineMoveSetLandWalk = [
     MSEHasGuidByte 1, MSEHasGuidByte 5, MSEHasGuidByte 6, MSEHasGuidByte 0,
     MSEHasGuidByte 7, MSEHasGuidByte 2, MSEHasGuidByte 3, MSEHasGuidByte 4, MSEGuidByte 1,
     MSEGuidByte 6, MSEGuidByte 4, MSEGuidByte 3, MSEGuidByte 7, MSEGuidByte 0,
     MSEGuidByte 2, MSEGuidByte 5, MSEEnd]"

definition SplineMoveSetFeatherFall :: "MovementStatusElements list" where
  "SplineMoveSetFeatherFall = [
     MSEHasGuidByte 1, MSEHasGuidByte 5, MSEHasGuidByte 6, MSEHasGuidByte 3,
     MSEHasGuidByte 7, MSEHasGuidByte 2, MSEHasGuidByte 4, MSEHasGuidByte 0, MSEGuidByte 7,
     MSEGuidByte 1, MSEGuidByte 6, MSEGuidByte 4, MSEGuidByte 5, MSEGuidByte 3,
     MSEGuidByte 2, MSEGuidByte 0, MSEEnd]"

definition SplineMoveSetNormalFall :: "MovementStatusElements list" where
  "SplineMoveSetNormalFall = [
     MSEHasGuidByte 6, MSEHasGuidByte 1, MSEHasGuidByte 4, MSEHasGuidByte 5,
     MSEHasGuidByte 2, MSEHasGuidByte 7, MSEHasGuidByte 0, MSEHasGuidByte 3, MSEGuidByte 7,
     MSEGuidByte 5, MSEGuidByte 1, MSEGuidByte 0, MSEGuidByte 6, MSEGuidByte 4,
     MSEGuidByte 2, MSEGuidByte 4, MSEEnd]"

definition SplineMoveRoot :: "MovementStatusElements list" where
  "SplineMoveRoot = [
     MSEHasGuidByte 3, MSEHasGuidByte 7, MSEHasGuidByte 2, MSEHasGuidByte 4,
     MSEHasGuidByte 5, MSEHasGuidByte 6, MSEHasGuidByte 0, MSEHasGuidByte 1, MSEGuidByte 2,
     MSEGuidByte 4, MSEGuidByte 5, MSEGuidByte 7, MSEGuidByte 1, MSEGuidByte 0,
     MSEGuidByte 3, MSEGuidByte 6, MSEEnd]"

definition SplineMoveUnroot :: "MovementStatusElements list" where
  "SplineMoveUnroot = [
     MSEHasGuidByte 1, MSEHasGuidByte 5, MSEHasGuidByte 2, MSEHasGuidByte 0,
     MSEHasGuidByte 3, MSEHasGuidByte 6, MSEHasGuidByte 5, MSEHasGuidByte 7, MSEGuidByte 2,
     MSEGuidByte 7, MSEGuidByte 1, MSEGuidByte 3, MSEGuidByte 5, MSEGuidByte 0,
     MSEGuidByte 4, MSEGuidByte 6, MSEEnd]"

definition MoveGravityDisable :: "MovementStatusElements list" where
  "MoveGravityDisable = [
     MSEHasGuidByte 6, MSEHasGuidByte 1, MSEHasGuidByte 3, MSEHasGuidByte 7,
     MSEHasGuidByte 4, MSEHasGuidByte 2, MSEHasGuidByte 5, MSEHasGuidByte 0, MSEGuidByte 5,
     MSEGuidByte 2, MSEGuidByte 1, MSEGuidByte 6, MSEGuidByte 0, MSECount, MSEGuidByte 3,
     MSEGuidByte 4, MSEGuidByte 7, MSEEnd]"

definition MoveGravityEnable :: "MovementStatusElements list" where
  "MoveGravityEnable = [
     MSEHasGuidByte 3, MSEHasGuidByte 0, MSEHasGuidByte 7, MSEHasGuidByte 1,
     MSEHasGuidByte 5, MSEHasGuidByte 2, MSEHasGuidByte 6, MSEHasGuidByte 4, MSEGuidByte 3,
     MSEGuidByte 2, MSEGuidByte 1, MSEGuidByte 7, MSEGuidByte 6, MSEGuidByte 0,
     MSEGuidByte 4, MSECounter, MSEGuidByte 5, MSEEnd]"

definition MoveSetCanFly :: "MovementStatusElements list" where
  "MoveSetCanFly = [
     MSEHasGuidByte 6, MSEHasGuidByte 1, MSEHasGuidByte 4, MSEHasGuidByte 0,
     MSEHasGuidByte 3, MSEHasGuidByte 7, MSEHasGuidByte 5, MSEHasGuidByte 2, MSEGuidByte 4,
     MSEGuidByte 2, MSEUintCount, MSEGuidByte 6, MSEGuidByte 3, MSEGuidByte 1,
     MSEGuidByte 0, MSEGuidByte 7, MSEGuidByte 5, MSEEnd]"

definition MoveUnsetCanFly :: "MovementStatusElements list" where
  "MoveUnsetCanFly = [
     MSEHasGuidByte 6, MSEHasGuidByte 5, MSEHasGuidByte 0, MSEHasGuidByte 4,
     MSEHasGuidByte 3, MSEHasGuidByte 7, MSEHasGuidByte 2, MSEHasGuidByte 1, MSEGuidByte 4,
     MSEGuidByte 5, MSEGuidByte 7, MSECounter, MSEGuidByte 6, MSEGuidByte 2, MSEGuidByte 3,
     MSEGuidByte 1, MSEGuidByte 0, MSEEnd]"

definition MoveSetHover :: "MovementStatusElements list" where
  "MoveSetHover = [
     MSEHasGuidByte 1, MSEHasGuidByte 4, MSEHasGuidByte 2, MSEHasGuidByte 3,
     MSEHasGuidByte 0, MSEHasGuidByte 5, MSEHasGuidByte 6, MSEHasGuidByte 7, MSEGuidByte 5,
     MSEGuidByte 4, MSEGuidByte 1, MSEGuidByte 2, MSEGuidByte 3, MSEGuidByte 6,
     MSEGuidByte 0, MSEGuidByte 7, MSECounter, MSEEnd]"

definition MoveUnsetHover :: "MovementStatusElements list" where
  "MoveUnsetHover = [
     MSEHasGuidByte 4, MSEHasGuidByte 6, MSEHasGuidByte 3, MSEHasGuidByte 1,
     MSEHasGuidByte 2, MSEHasGuidByte 7, MSEHasGuidByte 5, MSEHasGuidByte 0, MSEGuidByte 4,
     MSEGuidByte 5, MSEGuidByte 3, MSEGuidByte 6, MSEGuidByte 7, MSEGuidByte 1,
     MSEGuidByte 2, MSEGuidByte 0, MSECounter, MSEEnd]"

definition MoveWaterWalk :: "MovementStatusElements list" where
  "MoveWaterWalk = [
     MSEHasGuidByte 2, MSEHasGuidByte 0, MSEHasGuidByte 4, MSEHasGuidByte 5,
     MSEHasGuidByte 3, MSEHasGuidByte 7, MSEHasGuidByte 1, MSEHasGuidByte 6, MSEGuidByte 4,
     MSEGuidByte 7, MSEGuidByte 0, MSEGuidByte 1, MSEGuidByte 6, MSEGuidByte 2,
     MSEGuidByte 3, MSEGuidByte 5, MSECounter, MSEEnd]"

definition MoveLandWalk :: "MovementStatusElements list" where
  "MoveLandWalk = [
     MSEHasGuidByte 0, MSEHasGuidByte 7, MSEHasGuidByte 3, MSEHasGuidByte 1,
     MSEHasGuidByte 6, MSEHasGuidByte 5, MSEHasGuidByte 2, MSEHasGuidByte 4, MSEGuidByte 7,
     MSEGuidByte 6, MSEGuidByte 4, MSEGuidByte 3, MSEGuidByte 2, MSEGuidByte 0,
     MSEGuidByte 1, MSECounter, MSEGuidByte 5, MSEEnd]"

definition MoveFeatherFall :: "MovementStatusElements list" where
  "MoveFeatherFall = [
     MSEHasGuidByte 4, MSEHasGuidByte 1, MSEHasGuidByte 7, MSEHasGuidByte 3,
     MSEHasGuidByte 0, MSEHasGuidByte 5, MSEHasGuidByte 2, MSEHasGuidByte 6, MSECount,
     MSEGuidByte 1, MSEGuidByte 0, MSEGuidByte 5, MSEGuidByte 4, MSEGuidByte 6,
     MSEGuidByte 3, MSEGuidByte 2, MSEGuidByte 7, MSEEnd]"

definition MoveNormalFall :: "MovementStatusElements list" where
  "MoveNormalFall = [
     MSEHasGuidByte 3, MSEHasGuidByte 1, MSEHasGuidByte 6, MSEHasGuidByte 0,
     MSEHasGuidByte 4, MSEHasGuidByte 7, MSEHasGuidByte 2, MSEHasGuidByte 5, MSEGuidByte 3,
     MSEGuidByte 2, MSECounter, MSEGuidByte 1, MSEGuidByte 5, MSEGuidByte 4, MSEGuidByte 7,
     MSEGuidByte 0, MSEGuidByte 6, MSEEnd]"

definition MoveRoot :: "MovementStatusElements list" where
  "MoveRoot = [
     MSEHasGuidByte 0, MSEHasGuidByte 3, MSEHasGuidByte 4, MSEHasGuidByte 1,
     MSEHasGuidByte 5, MSEHasGuidByte 2, MSEHasGuidByte 6, MSEHasGuidByte 7, MSEGuidByte 4,
     MSEGuidByte 7, MSEGuidByte 1, MSEGuidByte 2, MSEGuidByte 6, MSEGuidByte 5, MSECount,
     MSEGuidByte 0, MSEGuidByte 3, MSEEnd]"

definition MoveUnroot :: "MovementStatusElements list" where
  "MoveUnroot = [
     MSEHasGuidByte 3, MSEHasGuidByte 5, MSEHasGuidByte 7, MSEHasGuidByte 1,
     MSEHasGuidByte 0, MSEHasGuidByte 2, MSEHasGuidByte 4, MSEHasGuidByte 6, MSEGuidByte 0,
     MSEGuidByte 7, MSECounter, MSEGuidByte 5, MSEGuidByte 4, MSEGuidByte 2, MSEGuidByte 1,
     MSEGuidByte 3, MSEGuidByte 6, MSEEnd]"

definition ChangeSeatsOnControlledVehicle :: "MovementStatusElements list" where
  "ChangeSeatsOnControlledVehicle = [
     MSEPositionY, MSEPositionX, MSEPositionZ, MSEExtraElement, MSEHasMovementFlags,
     MSEHasTransportData, MSEHasGuidByte 2, MSEHasGuidByte 6, MSEHasGuidByte 4,
     MSEExtraElement, MSEExtraElement, MSEHasOrientation, MSEZeroBit, MSEExtraElement,
     MSEHasGuidByte 7, MSEExtraElement, MSEHasTimestamp, MSEHasSplineElevation,
     MSEHasGuidByte 5, MSEExtraElement, MSEHasMovementFlags2, MSEHasPitch, MSEExtraElement,
     MSEHasGuidByte 0, MSEExtraElement, MSEHasFallData, MSEHasGuidByte 1, MSEHasSpline,
     MSEMovementFlags, MSEExtraElement, MSEHasGuidByte 3, MSEHasTransportGuidByte 3,
     MSEHasTransportGuidByte 0, MSEHasTransportGuidByte 7, MSEHasTransportGuidByte 5,
     MSEHasTransportVehicleId, MSEHasTransportGuidByte 1, MSEHasTransportGuidByte 2,
     MSEHasTransportTime2, MSEHasTransportGuidByte 4, MSEHasTransportGuidByte 6,
     MSEMovementFlags2, MSEHasFallDirection, MSEExtraElement, MSEGuidByte 7, MSEGuidByte 5,
     MSEExtraElement, MSEExtraElement, MSEGuidByte 6, MSEExtraElement, MSEExtraElement,
     MSEGuidByte 3, MSEExtraElement, MSEGuidByte 0, MSEExtraElement, MSEGuidByte 4,
     MSEGuidByte 1, MSEExtraElement, MSEGuidByte 2, MSEPitch, MSEFallCosAngle,
     MSEFallSinAngle, MSEFallHorizontalSpeed, MSEFallTime, MSEFallVerticalSpeed,
     MSETransportGuidByte 2, MSETransportTime2, MSETransportVehicleId,
     MSETransportGuidByte 0, MSETransportTime, MSETransportSeat, MSETransportPositionX,
     MSETransportOrientation, MSETransportGuidByte 7, MSETransportGuidByte 4,
     MSETransportGuidByte 3, MSETransportGuidByte 5, MSETransportPositionZ,
     MSETransportGuidByte 1, MSETransportGuidByte 6, MSETransportPositionY,
     MSESplineElevation, MSEOrientation, MSETimestamp, MSEEnd]"

definition CastSpellEmbeddedMovement :: "MovementStatusElements list" where
  "CastSpellEmbeddedMovement = [
     MSEPositionZ, MSEPositionY, MSEPositionX, MSEHasFallData, MSEHasTimestamp,
     MSEHasOrientation, MSEZeroBit, MSEHasSpline, MSEHasGuidByte 6, MSEHasGuidByte 4,
     MSEHasMovementFlags2, MSEHasGuidByte 3, MSEHasGuidByte 5, MSEHasSplineElevation,
     MSEHasPitch, MSEHasGuidByte 7, MSEHasTransportData, MSEHasGuidByte 2,
     MSEHasMovementFlags, MSEHasGuidByte 1, MSEHasGuidByte 0, MSEHasTransportGuidByte 6,
     MSEHasTransportGuidByte 2, MSEHasTransportGuidByte 5, MSEHasTransportTime2,
     MSEHasTransportGuidByte 7, MSEHasTransportGuidByte 4, MSEHasTransportVehicleId,
     MSEHasTransportGuidByte 0, MSEHasTransportGuidByte 1, MSEHasTransportGuidByte 3,
     MSEMovementFlags2, MSEMovementFlags, MSEHasFallDirection, MSEGuidByte 1, MSEGuidByte 4,
     MSEGuidByte 7, MSEGuidByte 3, MSEGuidByte 0, MSEGuidByte 2, MSEGuidByte 5,
     MSEGuidByte 6, MSETransportSeat, MSETransportOrientation, MSETransportTime,
     MSETransportGuidByte 6, MSETransportGuidByte 5, MSETransportVehicleId,
     MSETransportPositionX, MSETransportGuidByte 4, MSETransportPositionZ,
     MSETransportGuidByte 2, MSETransportGuidByte 0, MSETransportTime2,
     MSETransportGuidByte 1, MSETransportGuidByte 3, MSETransportPositionY,
     MSETransportGuidByte 7, MSEOrientation, MSESplineElevation, MSEFallTime,
     MSEFallHorizontalSpeed, MSEFallSinAngle, MSEFallCosAngle, MSEFallVerticalSpeed,
     MSETimestamp, MSEPitch, MSEEnd]"

datatype (plugins only: code size) Opcodes =
    NULL_OPCODE
  | MSG_MOVE_FALL_LAND | MSG_MOVE_HEARTBEAT | MSG_MOVE_JUMP | MSG_MOVE_SET_FACING
  | MSG_MOVE_SET_PITCH | MSG_MOVE_START_ASCEND | MSG_MOVE_START_BACKWARD
  | MSG_MOVE_START_DESCEND | MSG_MOVE_START_FORWARD | MSG_MOVE_START_PITCH_DOWN
  | MSG_MOVE_START_PITCH_UP | MSG_MOVE_START_STRAFE_LEFT | MSG_MOVE_START_STRAFE_RIGHT
  | MSG_MOVE_START_SWIM | MSG_MOVE_START_TURN_LEFT | MSG_MOVE_START_TURN_RIGHT
  | MSG_MOVE_STOP | MSG_MOVE_STOP_ASCEND | MSG_MOVE_STOP_PITCH | MSG_MOVE_STOP_STRAFE
  | MSG_MOVE_STOP_SWIM | MSG_MOVE_STOP_TURN | SMSG_PLAYER_MOVE | CMSG_MOVE_CHNG_TRANSPORT
  | CMSG_MOVE_SPLINE_DONE | CMSG_FORCE_MOVE_ROOT_ACK | CMSG_FORCE_MOVE_UNROOT_ACK
  | SMSG_MOVE_SET_COLLISION_HEIGHT | CMSG_MOVE_SET_COLLISION_HEIGHT_ACK
  | SMSG_MOVE_UPDATE_COLLISION_HEIGHT | SMSG_MOVE_UPDATE_FLIGHT_SPEED
  | SMSG_MOVE_UPDATE_RUN_SPEED | SMSG_MOVE_SPLINE_SET_WALK_BACK_SPEED
  | SMSG_MOVE_SPLINE_SET_RUN_SPEED | SMSG_MOVE_SPLINE_SET_RUN_BACK_SPEED
  | SMSG_MOVE_SPLINE_SET_SWIM_SPEED | SMSG_MOVE_SPLINE_SET_SWIM_BACK_SPEED
  | SMSG_MOVE_SPLINE_SET_TURN_RATE | SMSG_MOVE_SPLINE_SET_FLIGHT_SPEED
  | SMSG_MOVE_SPLINE_SET_FLIGHT_BACK_SPEED | SMSG_MOVE_SPLINE_SET_PITCH_RATE
  | SMSG_MOVE_SET_WALK_SPEED | SMSG_MOVE_SET_RUN_SPEED | SMSG_MOVE_SET_RUN_BACK_SPEED
  | SMSG_MOVE_SET_SWIM_SPEED | SMSG_MOVE_SET_FLIGHT_SPEED | SMSG_MOVE_SPLINE_SET_RUN_MODE
  | SMSG_MOVE_SPLINE_GRAVITY_DISABLE | SMSG_MOVE_SPLINE_GRAVITY_ENABLE
  | SMSG_MOVE_SPLINE_SET_HOVER | SMSG_MOVE_SPLINE_UNSET_HOVER | SMSG_MOVE_SPLINE_START_SWIM
  | SMSG_MOVE_SPLINE_STOP_SWIM | SMSG_MOVE_SPLINE_SET_FLYING
  | SMSG_MOVE_SPLINE_UNSET_FLYING | SMSG_MOVE_SPLINE_SET_WATER_WALK
  | SMSG_MOVE_SPLINE_SET_LAND_WALK | SMSG_MOVE_SPLINE_SET_FEATHER_FALL
  | SMSG_MOVE_SPLINE_SET_NORMAL_FALL | SMSG_MOVE_SPLINE_ROOT | SMSG_MOVE_SPLINE_UNROOT
  | SMSG_MOVE_GRAVITY_DISABLE | SMSG_MOVE_GRAVITY_ENABLE | SMSG_MOVE_SET_CAN_FLY
  | SMSG_MOVE_UNSET_CAN_FLY | SMSG_MOVE_WATER_WALK | SMSG_MOVE_LAND_WALK
  | SMSG_MOVE_FEATHER_FALL | SMSG_MOVE_NORMAL_FALL | SMSG_MOVE_ROOT | SMSG_MOVE_UNROOT
  | OTHER_OPCODE nat

definition GetMovementStatusElementsSequence :: "Opcodes \<Rightarrow> MovementStatusElements list option" where
  "GetMovementStatusElementsSequence opcode = (case opcode of
       MSG_MOVE_FALL_LAND \<Rightarrow> Some MovementFallLand
     | MSG_MOVE_HEARTBEAT \<Rightarrow> Some MovementHeartBeat
     | MSG_MOVE_JUMP \<Rightarrow> Some MovementJump
     | MSG_MOVE_SET_FACING \<Rightarrow> Some MovementSetFacing
     | MSG_MOVE_SET_PITCH \<Rightarrow> Some MovementSetPitch
     | MSG_MOVE_START_ASCEND \<Rightarrow> Some MovementStartAscend
     | MSG_MOVE_START_BACKWARD \<Rightarrow> Some MovementStartBackward
     | MSG_MOVE_START_DESCEND \<Rightarrow> Some MovementStartDescend
     | MSG_MOVE_START_FORWARD \<Rightarrow> Some MovementStartForward
     | MSG_MOVE_START_PITCH_DOWN \<Rightarrow> Some MovementStartPitchDown
     | MSG_MOVE_START_PITCH_UP \<Rightarrow> Some MovementStartPitchUp
     | MSG_MOVE_START_STRAFE_LEFT \<Rightarrow> Some MovementStartStrafeLeft
     | MSG_MOVE_START_STRAFE_RIGHT \<Rightarrow> Some MovementStartStrafeRight
     | MSG_MOVE_START_SWIM \<Rightarrow> Some MovementStartSwim
     | MSG_MOVE_START_TURN_LEFT \<Rightarrow> Some MovementStartTurnLeft
     | MSG_MOVE_START_TURN_RIGHT \<Rightarrow> Some MovementStartTurnRight
     | MSG_MOVE_STOP \<Rightarrow> Some MovementStop
     | MSG_MOVE_STOP_ASCEND \<Rightarrow> Some MovementStopAscend
     | MSG_MOVE_STOP_PITCH \<Rightarrow> Some MovementStopPitch
     | MSG_MOVE_STOP_STRAFE \<Rightarrow> Some MovementStopStrafe
     | MSG_MOVE_STOP_SWIM \<Rightarrow> Some MovementStopSwim
     | MSG_MOVE_STOP_TURN \<Rightarrow> Some MovementStopTurn
     | SMSG_PLAYER_MOVE \<Rightarrow> Some PlayerMove
     | CMSG_MOVE_CHNG_TRANSPORT \<Rightarrow> Some MoveChngTransport
     | CMSG_MOVE_SPLINE_DONE \<Rightarrow> Some MoveSplineDone
     | CMSG_FORCE_MOVE_ROOT_ACK \<Rightarrow> Some ForceMoveRootAck
     | CMSG_FORCE_MOVE_UNROOT_ACK \<Rightarrow> Some ForceMoveUnrootAck
     | SMSG_MOVE_SET_COLLISION_HEIGHT \<Rightarrow> Some MoveSetCollisionHeight
     | CMSG_MOVE_SET_COLLISION_HEIGHT_ACK \<Rightarrow> Some MovementSetCollisionHeightAck
     | SMSG_MOVE_UPDATE_COLLISION_HEIGHT \<Rightarrow> Some MovementUpdateCollisionHeight
     | SMSG_MOVE_UPDATE_FLIGHT_SPEED \<Rightarrow> Some MovementUpdateFlightSpeed
     | SMSG_MOVE_UPDATE_RUN_SPEED \<Rightarrow> Some MovementUpdateRunSpeed
     | SMSG_MOVE_SPLINE_SET_WALK_BACK_SPEED \<Rightarrow> Some SplineMoveSetWalkBackSpeed
     | SMSG_MOVE_SPLINE_SET_RUN_SPEED \<Rightarrow> Some SplineMoveSetRunSpeed
     | SMSG_MOVE_SPLINE_SET_RUN_BACK_SPEED \<Rightarrow> Some SplineMoveSetRunBackSpeed
     | SMSG_MOVE_SPLINE_SET_SWIM_SPEED \<Rightarrow> Some SplineMoveSetSwimSpeed
     | SMSG_MOVE_SPLINE_SET_SWIM_BACK_SPEED \<Rightarrow> Some SplineMoveSetSwimBackSpeed
     | SMSG_MOVE_SPLINE_SET_TURN_RATE \<Rightarrow> Some SplineMoveSetTurnRate
     | SMSG_MOVE_SPLINE_SET_FLIGHT_SPEED \<Rightarrow> Some SplineMoveSetFlightSpeed
     | SMSG_MOVE_SPLINE_SET_FLIGHT_BACK_SPEED \<Rightarrow> Some SplineMoveSetFlightBackSpeed
     | SMSG_MOVE_SPLINE_SET_PITCH_RATE \<Rightarrow> Some SplineMoveSetPitchRate
     | SMSG_MOVE_SET_WALK_SPEED \<Rightarrow> Some MoveSetWalkSpeed
     | SMSG_MOVE_SET_RUN_SPEED \<Rightarrow> Some MoveSetRunSpeed
     | SMSG_MOVE_SET_RUN_BACK_SPEED \<Rightarrow> Some MoveSetRunBackSpeed
     | SMSG_MOVE_SET_SWIM_SPEED \<Rightarrow> Some MoveSetSwimSpeed
     | SMSG_MOVE_SET_FLIGHT_SPEED \<Rightarrow> Some MoveSetFlightSpeed
     | SMSG_MOVE_SPLINE_SET_RUN_MODE \<Rightarrow> Some SplineMoveSetRunMode
     | SMSG_MOVE_SPLINE_GRAVITY_DISABLE \<Rightarrow> Some SplineMoveGravityDisable
     | SMSG_MOVE_SPLINE_GRAVITY_ENABLE \<Rightarrow> Some SplineMoveGravityEnable
     | SMSG_MOVE_SPLINE_SET_HOVER \<Rightarrow> Some SplineMoveSetHover
     | SMSG_MOVE_SPLINE_UNSET_HOVER \<Rightarrow> Some SplineMoveUnsetHover
     | SMSG_MOVE_SPLINE_START_SWIM \<Rightarrow> Some SplineMoveStartSwim
     | SMSG_MOVE_SPLINE_STOP_SWIM \<Rightarrow> Some SplineMoveStopSwim
     | SMSG_MOVE_SPLINE_SET_FLYING \<Rightarrow> Some SplineMoveSetFlying
     | SMSG_MOVE_SPLINE_UNSET_FLYING \<Rightarrow> Some SplineMoveUnsetFlying
     | SMSG_MOVE_SPLINE_SET_WATER_WALK \<Rightarrow> Some SplineMoveSetWaterWalk
     | SMSG_MOVE_SPLINE_SET_LAND_WALK \<Rightarrow> Some SplineMoveSetLandWalk
     | SMSG_MOVE_SPLINE_SET_FEATHER_FALL \<Rightarrow> Some SplineMoveSetFeatherFall
     | SMSG_MOVE_SPLINE_SET_NORMAL_FALL \<Rightarrow> Some SplineMoveSetNormalFall
     | SMSG_MOVE_SPLINE_ROOT \<Rightarrow> Some SplineMoveRoot
     | SMSG_MOVE_SPLINE_UNROOT \<Rightarrow> Some SplineMoveUnroot
     | SMSG_MOVE_GRAVITY_DISABLE \<Rightarrow> Some MoveGravityDisable
     | SMSG_MOVE_GRAVITY_ENABLE \<Rightarrow> Some MoveGravityEnable
     | SMSG_MOVE_SET_CAN_FLY \<Rightarrow> Some MoveSetCanFly
     | SMSG_MOVE_UNSET_CAN_FLY \<Rightarrow> Some MoveUnsetCanFly
     | SMSG_MOVE_WATER_WALK \<Rightarrow> Some MoveWaterWalk
     | SMSG_MOVE_LAND_WALK \<Rightarrow> Some MoveLandWalk
     | SMSG_MOVE_FEATHER_FALL \<Rightarrow> Some MoveFeatherFall
     | SMSG_MOVE_NORMAL_FALL \<Rightarrow> Some MoveNormalFall
     | SMSG_MOVE_ROOT \<Rightarrow> Some MoveRoot
     | SMSG_MOVE_UNROOT \<Rightarrow> Some MoveUnroot
     | _ \<Rightarrow> None)"

lemmas sequence_defs =
  PlayerMove_def MovementFallLand_def MovementHeartBeat_def MovementJump_def
  MovementSetFacing_def MovementSetPitch_def MovementStartBackward_def MovementStartForward_def
  MovementStartStrafeLeft_def MovementStartStrafeRight_def MovementStartTurnLeft_def
  MovementStartTurnRight_def MovementStop_def MovementStopStrafe_def MovementStopTurn_def
  MovementStartAscend_def MovementStartDescend_def MovementStartSwim_def MovementStopSwim_def
  MovementStopAscend_def MovementStopPitch_def MovementStartPitchDown_def
  MovementStartPitchUp_def MoveChngTransport_def MoveSplineDone_def MoveNotActiveMover_def
  DismissControlledVehicle_def MoveUpdateTeleport_def MovementSetRunMode_def
  MovementSetWalkMode_def MovementSetCanFly_def
  MovementSetCanTransitionBetweenSwimAndFlyAck_def MovementUpdateSwimSpeed_def
  MovementUpdateRunSpeed_def MovementUpdateFlightSpeed_def MovementUpdateCollisionHeight_def
  MovementForceRunSpeedChangeAck_def MovementSetCollisionHeightAck_def
  MovementForceFlightSpeedChangeAck_def MovementSetCanFlyAck_def
  MovementForceSwimSpeedChangeAck_def MovementForceWalkSpeedChangeAck_def
  MovementForceRunBackSpeedChangeAck_def MovementUpdateRunBackSpeed_def
  MovementUpdateWalkSpeed_def ForceMoveRootAck_def ForceMoveUnrootAck_def MovementFallReset_def
  MovementFeatherFallAck_def MovementGravityDisableAck_def MovementGravityEnableAck_def
  MovementHoverAck_def MovementKnockBackAck_def MovementWaterWalkAck_def
  MovementUpdateKnockBack_def SplineMoveSetWalkSpeed_def SplineMoveSetWalkBackSpeed_def
  SplineMoveSetRunSpeed_def SplineMoveSetRunBackSpeed_def SplineMoveSetSwimSpeed_def
  SplineMoveSetSwimBackSpeed_def SplineMoveSetTurnRate_def SplineMoveSetFlightSpeed_def
  SplineMoveSetFlightBackSpeed_def SplineMoveSetPitchRate_def MoveSetWalkSpeed_def
  MoveSetRunSpeed_def MoveSetRunBackSpeed_def MoveSetSwimSpeed_def MoveSetSwimBackSpeed_def
  MoveSetTurnRate_def MoveSetFlightSpeed_def MoveSetFlightBackSpeed_def MoveSetPitchRate_def
  MoveSetCollisionHeight_def SplineMoveSetWalkMode_def SplineMoveSetRunMode_def
  SplineMoveGravityDisable_def SplineMoveGravityEnable_def SplineMoveSetHover_def
  SplineMoveUnsetHover_def SplineMoveStartSwim_def SplineMoveStopSwim_def
  SplineMoveSetFlying_def SplineMoveUnsetFlying_def SplineMoveSetWaterWalk_def
  SplineMoveSetLandWalk_def SplineMoveSetFeatherFall_def SplineMoveSetNormalFall_def
  SplineMoveRoot_def SplineMoveUnroot_def MoveGravityDisable_def MoveGravityEnable_def
  MoveSetCanFly_def MoveUnsetCanFly_def MoveSetHover_def MoveUnsetHover_def MoveWaterWalk_def
  MoveLandWalk_def MoveFeatherFall_def MoveNormalFall_def MoveRoot_def MoveUnroot_def
  ChangeSeatsOnControlledVehicle_def CastSpellEmbeddedMovement_def

end
