(* ===== verification/MovementInfo.thy ===== *)
theory MovementInfo
  imports MovementTables
begin

text \<open>
  The movement block of a packet: \<open>Unit::WriteMovementInfo\<close> (\<open>Entities/Unit/Unit.cpp\<close>) interprets the
  element sequence of the packet's opcode as a writer, \<open>Player::ReadMovementInfo\<close>
  (\<open>Entities/Player/Player.cpp\<close>) as a reader that then drops the movement flags a client may not set.
  Floating-point arithmetic (G3D's \<open>fuzzyEq\<close> and \<open>wrap\<close>, \<open>fmod\<close> in \<open>NormalizeOrientation\<close>) is the
  parameter \<open>float_env\<close> on bit patterns; the auras and the account level that the flag checks consult
  are the parameter \<open>mover_env\<close>; the clock value is an argument.
\<close>

record float_env =
  fe_fuzzy_zero :: "u32 \<Rightarrow> bool"
  fe_normalize :: "u32 \<Rightarrow> u32"
  fe_wrap_pi :: "u32 \<Rightarrow> u32"

record mover_env =
  me_hover_aura :: bool
  me_water_walk_aura :: bool
  me_feather_fall_aura :: bool
  me_sec_player :: bool
  me_mover_fly_aura :: bool
  me_mover_mounted_flight_aura :: bool

record position =
  pos_x :: u32
  pos_y :: u32
  pos_z :: u32
  pos_o :: u32

record transport_info =
  tr_guid :: u64
  tr_pos :: position
  tr_seat :: u8
  tr_time :: u32
  tr_time2 :: u32
  tr_vehicleId :: u32

record jump_info =
  ji_fallTime :: u32
  ji_zspeed :: u32
  ji_sinAngle :: u32
  ji_cosAngle :: u32
  ji_xyspeed :: u32

record movement_info =
  mi_guid :: u64
  mi_flags :: u32
  mi_flags2 :: u16
  mi_pos :: position
  mi_time :: u32
  mi_transport :: transport_info
  mi_pitch :: u32
  mi_jump :: jump_info
  mi_splineElevation :: u32

definition position_zero :: position where
  "position_zero = \<lparr>pos_x = 0, pos_y = 0, pos_z = 0, pos_o = 0\<rparr>"

definition transport_reset :: transport_info where
  "transport_reset = \<lparr>tr_guid = 0, tr_pos = position_zero, tr_seat = -1, tr_time = 0,
     tr_time2 = 0, tr_vehicleId = 0\<rparr>"

definition jump_reset :: jump_info where
  "jump_reset = \<lparr>ji_fallTime = 0, ji_zspeed = 0, ji_sinAngle = 0, ji_cosAngle = 0, ji_xyspeed = 0\<rparr>"

definition movement_info_new :: movement_info where
  "movement_info_new = \<lparr>mi_guid = 0, mi_flags = 0, mi_flags2 = 0, mi_pos = position_zero, mi_time = 0,
     mi_transport = transport_reset, mi_pitch = 0, mi_jump = jump_reset, mi_splineElevation = 0\<rparr>"

subsection \<open>Movement flags\<close>

abbreviation (input) MOVEMENTFLAG_FORWARD :: u32 where "MOVEMENTFLAG_FORWARD \<equiv> 0x00000001"
abbreviation (input) MOVEMENTFLAG_BACKWARD :: u32 where "MOVEMENTFLAG_BACKWARD \<equiv> 0x00000002"
abbreviation (input) MOVEMENTFLAG_STRAFE_LEFT :: u32 where "MOVEMENTFLAG_STRAFE_LEFT \<equiv> 0x00000004"
abbreviation (input) MOVEMENTFLAG_STRAFE_RIGHT :: u32 where "MOVEMENTFLAG_STRAFE_RIGHT \<equiv> 0x00000008"
abbreviation (input) MOVEMENTFLAG_LEFT :: u32 where "MOVEMENTFLAG_LEFT \<equiv> 0x00000010"
abbreviation (input) MOVEMENTFLAG_RIGHT :: u32 where "MOVEMENTFLAG_RIGHT \<equiv> 0x00000020"
abbreviation (input) MOVEMENTFLAG_PITCH_UP :: u32 where "MOVEMENTFLAG_PITCH_UP \<equiv> 0x00000040"
abbreviation (input) MOVEMENTFLAG_PITCH_DOWN :: u32 where "MOVEMENTFLAG_PITCH_DOWN \<equiv> 0x00000080"
abbreviation (input) MOVEMENTFLAG_DISABLE_GRAVITY :: u32 where "MOVEMENTFLAG_DISABLE_GRAVITY \<equiv> 0x00000200"
abbreviation (input) MOVEMENTFLAG_ROOT :: u32 where "MOVEMENTFLAG_ROOT \<equiv> 0x00000400"
abbreviation (input) MOVEMENTFLAG_FALLING :: u32 where "MOVEMENTFLAG_FALLING \<equiv> 0x00000800"
abbreviation (input) MOVEMENTFLAG_SWIMMING :: u32 where "MOVEMENTFLAG_SWIMMING \<equiv> 0x00100000"
abbreviation (input) MOVEMENTFLAG_ASCENDING :: u32 where "MOVEMENTFLAG_ASCENDING \<equiv> 0x00200000"
abbreviation (input) MOVEMENTFLAG_DESCENDING :: u32 where "MOVEMENTFLAG_DESCENDING \<equiv> 0x00400000"
abbreviation (input) MOVEMENTFLAG_CAN_FLY :: u32 where "MOVEMENTFLAG_CAN_FLY \<equiv> 0x00800000"
abbreviation (input) MOVEMENTFLAG_FLYING :: u32 where "MOVEMENTFLAG_FLYING \<equiv> 0x01000000"
abbreviation (input) MOVEMENTFLAG_SPLINE_ELEVATION :: u32 where "MOVEMENTFLAG_SPLINE_ELEVATION \<equiv> 0x02000000"
abbreviation (input) MOVEMENTFLAG_WATERWALKING :: u32 where "MOVEMENTFLAG_WATERWALKING \<equiv> 0x04000000"
abbreviation (input) MOVEMENTFLAG_FALLING_SLOW :: u32 where "MOVEMENTFLAG_FALLING_SLOW \<equiv> 0x08000000"
abbreviation (input) MOVEMENTFLAG_HOVER :: u32 where "MOVEMENTFLAG_HOVER \<equiv> 0x10000000"
abbreviation (input) MOVEMENTFLAG2_ALWAYS_ALLOW_PITCHING :: u16 where
  "MOVEMENTFLAG2_ALWAYS_ALLOW_PITCHING \<equiv> 0x0010"

definition has_flag :: "u32 \<Rightarrow> u32 \<Rightarrow> bool" where
  "has_flag flags f \<longleftrightarrow> flags AND f \<noteq> 0"

definition remove_flag :: "u32 \<Rightarrow> u32 \<Rightarrow> u32" where
  "remove_flag flags f = flags AND NOT f"

subsection \<open>The writer\<close>

text \<open>
  The mover that is written: its GUID, its position, its \<open>m_movementInfo\<close>, the GUID of its transport or
  vehicle, its mount, whether it moves along a spline, and the counter of movement packets.
\<close>

record mover =
  mv_guid :: u64
  mv_pos :: position
  mv_info :: movement_info
  mv_trans_guid :: u64
  mv_mount_display :: u32
  mv_spline_enabled :: bool
  mv_counter :: u32

text \<open>The local flags, computed by the writer before its loop and read from the packet by the reader.\<close>

record has_locals =
  h_mountDisplayId :: bool
  h_movementFlags :: bool
  h_movementFlags2 :: bool
  h_timestamp :: bool
  h_orientation :: bool
  h_transportData :: bool
  h_transportTime2 :: bool
  h_transportVehicleId :: bool
  h_pitch :: bool
  h_fallDirection :: bool
  h_fallData :: bool
  h_splineElevation :: bool
  h_counter :: bool

definition writer_locals :: "float_env \<Rightarrow> mover \<Rightarrow> has_locals" where
  "writer_locals fe m =
    (let mi = mv_info m;
         transport = mv_trans_guid m \<noteq> 0;
         fallDirection = has_flag (mi_flags mi) MOVEMENTFLAG_FALLING
     in \<lparr>h_mountDisplayId = mv_mount_display m \<noteq> 0,
         h_movementFlags = mi_flags mi \<noteq> 0,
         h_movementFlags2 = mi_flags2 mi \<noteq> 0,
         h_timestamp = True,
         h_orientation = (\<not> fe_fuzzy_zero fe (pos_o (mv_pos m))),
         h_transportData = transport,
         h_transportTime2 = (transport \<and> tr_time2 (mi_transport mi) \<noteq> 0),
         h_transportVehicleId = (transport \<and> tr_vehicleId (mi_transport mi) \<noteq> 0),
         h_pitch = (has_flag (mi_flags mi) (MOVEMENTFLAG_SWIMMING OR MOVEMENTFLAG_FLYING) \<or>
                    mi_flags2 mi AND MOVEMENTFLAG2_ALWAYS_ALLOW_PITCHING \<noteq> 0),
         h_fallDirection = fallDirection,
         h_fallData = (fallDirection \<or> ji_fallTime (mi_jump mi) \<noteq> 0),
         h_splineElevation = has_flag (mi_flags mi) MOVEMENTFLAG_SPLINE_ELEVATION,
         h_counter = (mv_counter m \<noteq> 0)\<rparr>)"

type_synonym write_state = "mover \<times> extra_element option \<times> bytebuffer"

definition put_if :: "bool \<Rightarrow> (bytebuffer \<Rightarrow> bb_error + bytebuffer) \<Rightarrow> write_state \<Rightarrow> bb_error + write_state" where
  "put_if c f s = (case s of (m, ex, b) \<Rightarrow>
     if c then bind_res (f b) (\<lambda>b. Inr (m, ex, b)) else Inr s)"

definition put_count :: "write_state \<Rightarrow> bb_error + write_state" where
  "put_count s = (case s of (m, ex, b) \<Rightarrow>
     bind_res (append_val (mv_counter m) b) (\<lambda>b. Inr (m\<lparr>mv_counter := mv_counter m + 1\<rparr>, ex, b)))"

definition put_guid_bit :: "u64 \<Rightarrow> nat \<Rightarrow> bytebuffer \<Rightarrow> bb_error + bytebuffer" where
  "put_guid_bit g i b = bind_res (guid_get g i) (\<lambda>x. WriteBit (ucast x) b)"

definition put_guid_byte :: "u64 \<Rightarrow> nat \<Rightarrow> bytebuffer \<Rightarrow> bb_error + bytebuffer" where
  "put_guid_byte g i b = bind_res (guid_get g i) (\<lambda>x. WriteByteSeq x b)"

definition write_element ::
  "u32 \<Rightarrow> has_locals \<Rightarrow> MovementStatusElements \<Rightarrow> write_state \<Rightarrow> bb_error + write_state"
where
  "write_element now h element s =
    (let m = fst s;
         mi = mv_info m;
         tguid = (if h_transportData h then mv_trans_guid m else 0);
         bit = (\<lambda>c x. put_if c (WriteBit (of_bool x)) s);
         val = (\<lambda>c v. put_if c (append_val (v :: u32)) s)
     in case element of
       MSEHasGuidByte i \<Rightarrow> put_if True (put_guid_bit (mv_guid m) i) s
     | MSEHasTransportGuidByte i \<Rightarrow> put_if (h_transportData h) (put_guid_bit tguid i) s
     | MSEGuidByte i \<Rightarrow> put_if True (put_guid_byte (mv_guid m) i) s
     | MSETransportGuidByte i \<Rightarrow> put_if (h_transportData h) (put_guid_byte tguid i) s
     | MSEHasCounter \<Rightarrow> bit True (mv_counter m = 0)
     | MSEHasMountDisplayId \<Rightarrow> bit True (\<not> h_mountDisplayId h)
     | MSEHasMovementFlags \<Rightarrow> bit True (\<not> h_movementFlags h)
     | MSEHasMovementFlags2 \<Rightarrow> bit True (\<not> h_movementFlags2 h)
     | MSEHasTimestamp \<Rightarrow> bit True (\<not> h_timestamp h)
     | MSEHasOrientation \<Rightarrow> bit True (\<not> h_orientation h)
     | MSEHasTransportData \<Rightarrow> bit True (h_transportData h)
     | MSEHasTransportTime2 \<Rightarrow> bit (h_transportData h) (h_transportTime2 h)
     | MSEHasTransportVehicleId \<Rightarrow> bit (h_transportData h) (h_transportVehicleId h)
     | MSEHasPitch \<Rightarrow> bit True (\<not> h_pitch h)
     | MSEHasFallData \<Rightarrow> bit True (h_fallData h)
     | MSEHasFallDirection \<Rightarrow> bit (h_fallData h) (h_fallDirection h)
     | MSEHasSplineElevation \<Rightarrow> bit True (\<not> h_splineElevation h)
     | MSEHasSpline \<Rightarrow> bit True (mv_spline_enabled m)
     | MSEMountDisplayIdWithCheck \<Rightarrow> val (h_mountDisplayId h) (mv_mount_display m)
     | MSEMountDisplayIdWithoutCheck \<Rightarrow> val True (mv_mount_display m)
     | MSEMovementFlags \<Rightarrow> put_if (h_movementFlags h) (WriteBits (mi_flags mi) 30) s
     | MSEMovementFlags2 \<Rightarrow> put_if (h_movementFlags2 h) (WriteBits (mi_flags2 mi) 13) s
     | MSETimestamp \<Rightarrow> val (h_timestamp h) now
     | MSEPositionX \<Rightarrow> val True (pos_x (mv_pos m))
     | MSEPositionY \<Rightarrow> val True (pos_y (mv_pos m))
     | MSEPositionZ \<Rightarrow> val True (pos_z (mv_pos m))
     | MSEOrientation \<Rightarrow> val (h_orientation h) (pos_o (mv_pos m))
     | MSETransportPositionX \<Rightarrow> val (h_transportData h) (pos_x (tr_pos (mi_transport mi)))
     | MSETransportPositionY \<Rightarrow> val (h_transportData h) (pos_y (tr_pos (mi_transport mi)))
     | MSETransportPositionZ \<Rightarrow> val (h_transportData h) (pos_z (tr_pos (mi_transport mi)))
     | MSETransportOrientation \<Rightarrow> val (h_transportData h) (pos_o (tr_pos (mi_transport mi)))
     | MSETransportSeat \<Rightarrow> put_if (h_transportData h) (append_val (tr_seat (mi_transport mi))) s
     | MSETransportTime \<Rightarrow> val (h_transportData h) (tr_time (mi_transport mi))
     | MSETransportTime2 \<Rightarrow>
         val (h_transportData h \<and> h_transportTime2 h) (tr_time2 (mi_transport mi))
     | MSETransportVehicleId \<Rightarrow>
         val (h_transportData h \<and> h_transportVehicleId h) (tr_vehicleId (mi_transport mi))
     | MSEPitch \<Rightarrow> val (h_pitch h) (mi_pitch mi)
     | MSEFallTime \<Rightarrow> val (h_fallData h) (ji_fallTime (mi_jump mi))
     | MSEFallVerticalSpeed \<Rightarrow> val (h_fallData h) (ji_zspeed (mi_jump mi))
     | MSEFallCosAngle \<Rightarrow> val (h_fallData h \<and> h_fallDirection h) (ji_cosAngle (mi_jump mi))
     | MSEFallSinAngle \<Rightarrow> val (h_fallData h \<and> h_fallDirection h) (ji_sinAngle (mi_jump mi))
     | MSEFallHorizontalSpeed \<Rightarrow> val (h_fallData h \<and> h_fallDirection h) (ji_xyspeed (mi_jump mi))
     | MSESplineElevation \<Rightarrow> val (h_splineElevation h) (mi_splineElevation mi)
     | MSEForcesCount \<Rightarrow> put_if True (WriteBits (0 :: u32) 22) s
     | MSEForces \<Rightarrow> Inr s
     | MSECounter \<Rightarrow> if mv_counter m = 0 then Inr s else put_count s
     | MSECount \<Rightarrow> put_count s
     | MSEZeroBit \<Rightarrow> bit True False
     | MSEOneBit \<Rightarrow> bit True True
     | MSEExtraElement \<Rightarrow>
         bind_res (WriteNextElement (fst (snd s)) (snd (snd s))) (\<lambda>(ex, b). Inr (m, ex, b))
     | MSEUintCount \<Rightarrow> val True 0
     | _ \<Rightarrow> Inl AssertFailed)"

text \<open>The loop \<open>for (; *sequence != MSEEnd; ++sequence)\<close>; the arrays end with \<open>MSEEnd\<close>.\<close>

fun write_elements ::
  "u32 \<Rightarrow> has_locals \<Rightarrow> MovementStatusElements list \<Rightarrow> write_state \<Rightarrow> bb_error + write_state"
where
  "write_elements now h [] s = Inl UndefinedBehaviour"
| "write_elements now h (e # es) s =
     (if e = MSEEnd then Inr s
      else bind_res (write_element now h e s) (write_elements now h es))"

definition WriteMovementInfo ::
  "float_env \<Rightarrow> u32 \<Rightarrow> Opcodes \<Rightarrow> write_state \<Rightarrow> bb_error + write_state"
where
  "WriteMovementInfo fe now opcode s =
    (case GetMovementStatusElementsSequence opcode of
       None \<Rightarrow> Inr s
     | Some seq \<Rightarrow> write_elements now (writer_locals fe (fst s)) seq s)"

subsection \<open>The reader\<close>

text \<open>
  \<open>rs_mount\<close> is the player's \<open>UNIT_FIELD_MOUNT_DISPLAY_ID\<close>, which the reader may set. The unread
  locals start as in the code: every flag false, both GUIDs and the forces count zero.
\<close>

record read_state =
  rs_has :: has_locals
  rs_forcesCount :: u32
  rs_guid :: u64
  rs_tguid :: u64
  rs_mi :: movement_info
  rs_mount :: u32
  rs_extras :: "extra_element option"
  rs_packet :: bytebuffer

definition reader_locals :: has_locals where
  "reader_locals = \<lparr>h_mountDisplayId = False, h_movementFlags = False, h_movementFlags2 = False,
     h_timestamp = False, h_orientation = False, h_transportData = False, h_transportTime2 = False,
     h_transportVehicleId = False, h_pitch = False, h_fallDirection = False, h_fallData = False,
     h_splineElevation = False, h_counter = False\<rparr>"

definition reader_init ::
  "movement_info \<Rightarrow> u32 \<Rightarrow> extra_element option \<Rightarrow> bytebuffer \<Rightarrow> read_state"
where
  "reader_init mi mount ex b = \<lparr>rs_has = reader_locals, rs_forcesCount = 0, rs_guid = 0, rs_tguid = 0,
     rs_mi = mi, rs_mount = mount, rs_extras = ex, rs_packet = b\<rparr>"

definition take_bit_then :: "(bool \<Rightarrow> read_state \<Rightarrow> read_state) \<Rightarrow> read_state \<Rightarrow> bb_error + read_state" where
  "take_bit_then f s =
     bind_res (ReadBit (rs_packet s)) (\<lambda>(x, b). Inr (f x (s\<lparr>rs_packet := b\<rparr>)))"

definition take_has ::
  "(bool \<Rightarrow> has_locals \<Rightarrow> has_locals) \<Rightarrow> read_state \<Rightarrow> bb_error + read_state"
where
  "take_has f s = take_bit_then (\<lambda>x s. s\<lparr>rs_has := f x (rs_has s)\<rparr>) s"

definition take_val ::
  "bool \<Rightarrow> ('a::len word \<Rightarrow> movement_info \<Rightarrow> movement_info) \<Rightarrow> read_state \<Rightarrow> bb_error + read_state"
where
  "take_val c f s =
     (if c then bind_res (read_val (rs_packet s))
                  (\<lambda>(v, b). Inr (s\<lparr>rs_mi := f v (rs_mi s), rs_packet := b\<rparr>))
      else Inr s)"

definition take_bits ::
  "bool \<Rightarrow> nat \<Rightarrow> (u32 \<Rightarrow> movement_info \<Rightarrow> movement_info) \<Rightarrow> read_state \<Rightarrow> bb_error + read_state"
where
  "take_bits c n f s =
     (if c then bind_res (ReadBits n (rs_packet s))
                  (\<lambda>(v, b). Inr (s\<lparr>rs_mi := f v (rs_mi s), rs_packet := b\<rparr>))
      else Inr s)"

definition take_mount :: "read_state \<Rightarrow> bb_error + read_state" where
  "take_mount s = bind_res (read_val (rs_packet s))
     (\<lambda>(v, b). Inr (s\<lparr>rs_mount := v, rs_packet := b\<rparr>))"

definition skip_u32 :: "read_state \<Rightarrow> bb_error + read_state" where
  "skip_u32 s = bind_res (read_skip 4 (rs_packet s)) (\<lambda>b. Inr (s\<lparr>rs_packet := b\<rparr>))"

fun skip_forces :: "nat \<Rightarrow> read_state \<Rightarrow> bb_error + read_state" where
  "skip_forces 0 s = Inr s"
| "skip_forces (Suc n) s = bind_res (skip_u32 s) (skip_forces n)"

definition take_guid_bit ::
  "(read_state \<Rightarrow> u64) \<Rightarrow> (u64 \<Rightarrow> read_state \<Rightarrow> read_state) \<Rightarrow> nat \<Rightarrow> read_state \<Rightarrow> bb_error + read_state"
where
  "take_guid_bit get upd i s =
     bind_res (ReadBit (rs_packet s)) (\<lambda>(x, b).
       bind_res (guid_put (get s) i (of_bool x)) (\<lambda>g. Inr (upd g (s\<lparr>rs_packet := b\<rparr>))))"

definition take_guid_byte ::
  "(read_state \<Rightarrow> u64) \<Rightarrow> (u64 \<Rightarrow> read_state \<Rightarrow> read_state) \<Rightarrow> nat \<Rightarrow> read_state \<Rightarrow> bb_error + read_state"
where
  "take_guid_byte get upd i s =
     bind_res (guid_get (get s) i) (\<lambda>v. bind_res (ReadByteSeq v (rs_packet s)) (\<lambda>(v, b).
       bind_res (guid_put (get s) i v) (\<lambda>g. Inr (upd g (s\<lparr>rs_packet := b\<rparr>)))))"

text \<open>Assignments through the \<open>mi\<close> pointer.\<close>

definition upd_pos :: "(position \<Rightarrow> position) \<Rightarrow> movement_info \<Rightarrow> movement_info" where
  "upd_pos f mi = mi\<lparr>mi_pos := f (mi_pos mi)\<rparr>"

definition upd_transport :: "(transport_info \<Rightarrow> transport_info) \<Rightarrow> movement_info \<Rightarrow> movement_info" where
  "upd_transport f mi = mi\<lparr>mi_transport := f (mi_transport mi)\<rparr>"

definition upd_tpos :: "(position \<Rightarrow> position) \<Rightarrow> movement_info \<Rightarrow> movement_info" where
  "upd_tpos f = upd_transport (\<lambda>t. t\<lparr>tr_pos := f (tr_pos t)\<rparr>)"

definition upd_jump :: "(jump_info \<Rightarrow> jump_info) \<Rightarrow> movement_info \<Rightarrow> movement_info" where
  "upd_jump f mi = mi\<lparr>mi_jump := f (mi_jump mi)\<rparr>"

definition read_element ::
  "float_env \<Rightarrow> MovementStatusElements \<Rightarrow> read_state \<Rightarrow> bb_error + read_state"
where
  "read_element fe element s =
    (let h = rs_has s;
         t = h_transportData h;
         tguid_upd = (\<lambda>g s. s\<lparr>rs_tguid := g\<rparr>);
         guid_upd = (\<lambda>g s. s\<lparr>rs_guid := g\<rparr>)
     in case element of
       MSEHasGuidByte i \<Rightarrow> take_guid_bit rs_guid guid_upd i s
     | MSEHasTransportGuidByte i \<Rightarrow> if t then take_guid_bit rs_tguid tguid_upd i s else Inr s
     | MSEGuidByte i \<Rightarrow> take_guid_byte rs_guid guid_upd i s
     | MSETransportGuidByte i \<Rightarrow> if t then take_guid_byte rs_tguid tguid_upd i s else Inr s
     | MSEHasMovementFlags \<Rightarrow> take_has (\<lambda>x h. h\<lparr>h_movementFlags := \<not> x\<rparr>) s
     | MSEHasMovementFlags2 \<Rightarrow> take_has (\<lambda>x h. h\<lparr>h_movementFlags2 := \<not> x\<rparr>) s
     | MSEHasTimestamp \<Rightarrow> take_has (\<lambda>x h. h\<lparr>h_timestamp := \<not> x\<rparr>) s
     | MSEHasOrientation \<Rightarrow> take_has (\<lambda>x h. h\<lparr>h_orientation := \<not> x\<rparr>) s
     | MSEHasTransportData \<Rightarrow> take_has (\<lambda>x h. h\<lparr>h_transportData := x\<rparr>) s
     | MSEHasTransportTime2 \<Rightarrow> if t then take_has (\<lambda>x h. h\<lparr>h_transportTime2 := x\<rparr>) s else Inr s
     | MSEHasTransportVehicleId \<Rightarrow>
         if t then take_has (\<lambda>x h. h\<lparr>h_transportVehicleId := x\<rparr>) s else Inr s
     | MSEHasPitch \<Rightarrow> take_has (\<lambda>x h. h\<lparr>h_pitch := \<not> x\<rparr>) s
     | MSEHasFallData \<Rightarrow> take_has (\<lambda>x h. h\<lparr>h_fallData := x\<rparr>) s
     | MSEHasFallDirection \<Rightarrow>
         if h_fallData h then take_has (\<lambda>x h. h\<lparr>h_fallDirection := x\<rparr>) s else Inr s
     | MSEHasSplineElevation \<Rightarrow> take_has (\<lambda>x h. h\<lparr>h_splineElevation := \<not> x\<rparr>) s
     | MSEHasSpline \<Rightarrow> take_has (\<lambda>x h. h) s
     | MSEHasMountDisplayId \<Rightarrow> take_has (\<lambda>x h. h\<lparr>h_mountDisplayId := \<not> x\<rparr>) s
     | MSEMountDisplayIdWithCheck \<Rightarrow> if h_mountDisplayId h then take_mount s else Inr s
     | MSEMountDisplayIdWithoutCheck \<Rightarrow> take_mount s
     | MSEMovementFlags \<Rightarrow> take_bits (h_movementFlags h) 30 (\<lambda>v mi. mi\<lparr>mi_flags := v\<rparr>) s
     | MSEMovementFlags2 \<Rightarrow> take_bits (h_movementFlags2 h) 13 (\<lambda>v mi. mi\<lparr>mi_flags2 := ucast v\<rparr>) s
     | MSETimestamp \<Rightarrow> take_val (h_timestamp h) (\<lambda>v mi. mi\<lparr>mi_time := v\<rparr>) s
     | MSEPositionX \<Rightarrow> take_val True (\<lambda>v. upd_pos (\<lambda>p. p\<lparr>pos_x := v\<rparr>)) s
     | MSEPositionY \<Rightarrow> take_val True (\<lambda>v. upd_pos (\<lambda>p. p\<lparr>pos_y := v\<rparr>)) s
     | MSEPositionZ \<Rightarrow> take_val True (\<lambda>v. upd_pos (\<lambda>p. p\<lparr>pos_z := v\<rparr>)) s
     | MSEOrientation \<Rightarrow>
         take_val (h_orientation h) (\<lambda>v. upd_pos (\<lambda>p. p\<lparr>pos_o := fe_normalize fe v\<rparr>)) s
     | MSETransportPositionX \<Rightarrow> take_val t (\<lambda>v. upd_tpos (\<lambda>p. p\<lparr>pos_x := v\<rparr>)) s
     | MSETransportPositionY \<Rightarrow> take_val t (\<lambda>v. upd_tpos (\<lambda>p. p\<lparr>pos_y := v\<rparr>)) s
     | MSETransportPositionZ \<Rightarrow> take_val t (\<lambda>v. upd_tpos (\<lambda>p. p\<lparr>pos_z := v\<rparr>)) s
     | MSETransportOrientation \<Rightarrow>
         take_val t (\<lambda>v. upd_tpos (\<lambda>p. p\<lparr>pos_o := fe_normalize fe v\<rparr>)) s
     | MSETransportSeat \<Rightarrow> take_val t (\<lambda>v. upd_transport (\<lambda>r. r\<lparr>tr_seat := v\<rparr>)) s
     | MSETransportTime \<Rightarrow> take_val t (\<lambda>v. upd_transport (\<lambda>r. r\<lparr>tr_time := v\<rparr>)) s
     | MSETransportTime2 \<Rightarrow>
         take_val (t \<and> h_transportTime2 h) (\<lambda>v. upd_transport (\<lambda>r. r\<lparr>tr_time2 := v\<rparr>)) s
     | MSETransportVehicleId \<Rightarrow>
         take_val (t \<and> h_transportVehicleId h) (\<lambda>v. upd_transport (\<lambda>r. r\<lparr>tr_vehicleId := v\<rparr>)) s
     | MSEPitch \<Rightarrow> take_val (h_pitch h) (\<lambda>v mi. mi\<lparr>mi_pitch := fe_wrap_pi fe v\<rparr>) s
     | MSEFallTime \<Rightarrow> take_val (h_fallData h) (\<lambda>v. upd_jump (\<lambda>j. j\<lparr>ji_fallTime := v\<rparr>)) s
     | MSEFallVerticalSpeed \<Rightarrow> take_val (h_fallData h) (\<lambda>v. upd_jump (\<lambda>j. j\<lparr>ji_zspeed := v\<rparr>)) s
     | MSEFallCosAngle \<Rightarrow>
         take_val (h_fallData h \<and> h_fallDirection h) (\<lambda>v. upd_jump (\<lambda>j. j\<lparr>ji_cosAngle := v\<rparr>)) s
     | MSEFallSinAngle \<Rightarrow>
         take_val (h_fallData h \<and> h_fallDirection h) (\<lambda>v. upd_jump (\<lambda>j. j\<lparr>ji_sinAngle := v\<rparr>)) s
     | MSEFallHorizontalSpeed \<Rightarrow>
         take_val (h_fallData h \<and> h_fallDirection h) (\<lambda>v. upd_jump (\<lambda>j. j\<lparr>ji_xyspeed := v\<rparr>)) s
     | MSESplineElevation \<Rightarrow> take_val (h_splineElevation h) (\<lambda>v mi. mi\<lparr>mi_splineElevation := v\<rparr>) s
     | MSEForcesCount \<Rightarrow>
         bind_res (ReadBits 22 (rs_packet s)) (\<lambda>(v, b). Inr (s\<lparr>rs_forcesCount := v, rs_packet := b\<rparr>))
     | MSEForces \<Rightarrow> skip_forces (unat (rs_forcesCount s)) s
     | MSEHasCounter \<Rightarrow> take_has (\<lambda>x h. h\<lparr>h_counter := \<not> x\<rparr>) s
     | MSECounter \<Rightarrow> if h_counter h then skip_u32 s else Inr s
     | MSECount \<Rightarrow> skip_u32 s
     | MSEZeroBit \<Rightarrow> take_has (\<lambda>x h. h) s
     | MSEOneBit \<Rightarrow> take_has (\<lambda>x h. h) s
     | MSEExtraElement \<Rightarrow>
         bind_res (ReadNextElement (rs_extras s) (rs_packet s))
           (\<lambda>(ex, b). Inr (s\<lparr>rs_extras := ex, rs_packet := b\<rparr>))
     | _ \<Rightarrow> Inr s)"

fun read_elements ::
  "float_env \<Rightarrow> MovementStatusElements list \<Rightarrow> read_state \<Rightarrow> bb_error + read_state"
where
  "read_elements fe [] s = Inl UndefinedBehaviour"
| "read_elements fe (e # es) s =
     (if e = MSEEnd then Inr s else bind_res (read_element fe e s) (read_elements fe es))"

text \<open>The checks after the loop, in the order of the code, each \<open>REMOVE_VIOLATING_FLAGS(check, mask)\<close>.\<close>

definition remove_if :: "bool \<Rightarrow> u32 \<Rightarrow> u32 \<Rightarrow> u32" where
  "remove_if c msk flags = (if c then remove_flag flags msk else flags)"

definition both_flags :: "u32 \<Rightarrow> u32 \<Rightarrow> u32 \<Rightarrow> bool" where
  "both_flags flags f g \<longleftrightarrow> has_flag flags f \<and> has_flag flags g"

definition remove_both :: "u32 \<Rightarrow> u32 \<Rightarrow> u32 \<Rightarrow> u32" where
  "remove_both f g flags = remove_if (both_flags flags f g) (f OR g) flags"

definition remove_violating_flags ::
  "float_env \<Rightarrow> mover_env \<Rightarrow> has_locals \<Rightarrow> u32 \<Rightarrow> u32 \<Rightarrow> u32"
where
  "remove_violating_flags fe me h splineElevation f0 =
    (let f1 = remove_if (has_flag f0 MOVEMENTFLAG_ROOT) MOVEMENTFLAG_ROOT f0;
         f2 = remove_if (has_flag f1 MOVEMENTFLAG_HOVER \<and> \<not> me_hover_aura me) MOVEMENTFLAG_HOVER f1;
         f3 = remove_both MOVEMENTFLAG_ASCENDING MOVEMENTFLAG_DESCENDING f2;
         f4 = remove_both MOVEMENTFLAG_LEFT MOVEMENTFLAG_RIGHT f3;
         f5 = remove_both MOVEMENTFLAG_STRAFE_LEFT MOVEMENTFLAG_STRAFE_RIGHT f4;
         f6 = remove_both MOVEMENTFLAG_PITCH_UP MOVEMENTFLAG_PITCH_DOWN f5;
         f7 = remove_both MOVEMENTFLAG_FORWARD MOVEMENTFLAG_BACKWARD f6;
         f8 = remove_if (has_flag f7 MOVEMENTFLAG_WATERWALKING \<and> \<not> me_water_walk_aura me)
                MOVEMENTFLAG_WATERWALKING f7;
         f9 = remove_if (has_flag f8 MOVEMENTFLAG_FALLING_SLOW \<and> \<not> me_feather_fall_aura me)
                MOVEMENTFLAG_FALLING_SLOW f8;
         f10 = remove_if (has_flag f9 (MOVEMENTFLAG_FLYING OR MOVEMENTFLAG_CAN_FLY) \<and>
                  me_sec_player me \<and> \<not> me_mover_fly_aura me \<and> \<not> me_mover_mounted_flight_aura me)
                (MOVEMENTFLAG_FLYING OR MOVEMENTFLAG_CAN_FLY) f9;
         f11 = remove_if (has_flag f10 (MOVEMENTFLAG_DISABLE_GRAVITY OR MOVEMENTFLAG_CAN_FLY) \<and>
                  has_flag f10 MOVEMENTFLAG_FALLING) MOVEMENTFLAG_FALLING f10;
         f12 = remove_if (has_flag f11 MOVEMENTFLAG_FALLING \<and> (\<not> h_fallData h \<or> \<not> h_fallDirection h))
                MOVEMENTFLAG_FALLING f11;
         f13 = remove_if (has_flag f12 MOVEMENTFLAG_SPLINE_ELEVATION \<and>
                  (\<not> h_splineElevation h \<or> fe_fuzzy_zero fe splineElevation))
                MOVEMENTFLAG_SPLINE_ELEVATION f12
     in f13)"

definition finish_movement_info ::
  "float_env \<Rightarrow> mover_env \<Rightarrow> read_state \<Rightarrow> read_state"
where
  "finish_movement_info fe me s =
    (let mi = upd_transport (\<lambda>t. t\<lparr>tr_guid := rs_tguid s\<rparr>) ((rs_mi s)\<lparr>mi_guid := rs_guid s\<rparr>);
         f = remove_violating_flags fe me (rs_has s) (mi_splineElevation mi) (mi_flags mi)
     in s\<lparr>rs_mi := mi\<lparr>mi_flags :=
            (if h_splineElevation (rs_has s) then f OR MOVEMENTFLAG_SPLINE_ELEVATION else f)\<rparr>\<rparr>)"

definition ReadMovementInfo ::
  "float_env \<Rightarrow> mover_env \<Rightarrow> Opcodes \<Rightarrow> movement_info \<Rightarrow> u32 \<Rightarrow> extra_element option \<Rightarrow> bytebuffer
     \<Rightarrow> bb_error + read_state"
where
  "ReadMovementInfo fe me opcode mi mount ex b =
    (let s = reader_init mi mount ex b
     in case GetMovementStatusElementsSequence opcode of
          None \<Rightarrow> Inr s
        | Some seq \<Rightarrow>
            bind_res (read_elements fe seq s) (\<lambda>s. Inr (finish_movement_info fe me s)))"

end
