(* ===== verification/MovementLayout.thy ===== *)
theory MovementLayout
  imports MovementInfo
begin

text \<open>
  When does the reader invert the writer? \<open>elem_tokens\<close> is what an element contributes to the packet,
  \<open>layout_step\<close> a static check of an element sequence: every conditional element comes after the bit
  that announces it, GUID bytes come once and after their mask bit, no bit follows a byte that was
  written inside an unfinished octet, and the last octet is flushed. The check is executable and is
  run on the arrays of \<open>MovementTables\<close>; its soundness is proved in \<open>MovementElement\<close> and \<open>MovementRoundtrip\<close>.
\<close>

subsection \<open>What an element writes\<close>

definition extra_tokens :: "extra_element option \<Rightarrow> token list" where
  "extra_tokens ex = (case ex of
       None \<Rightarrow> []
     | Some x \<Rightarrow> (case ex_elements x ! ex_index x of
           MSEExtraFloat \<Rightarrow> word_tokens (ex_floatData x)
         | MSEExtraFloat2 \<Rightarrow> word_tokens (ex_floatData2 x)
         | MSEExtraInt8 \<Rightarrow> word_tokens (ex_byteData x)
         | MSEExtraInt32 \<Rightarrow> word_tokens (ex_int32Data x)
         | MSEExtra2Bits \<Rightarrow> bits_tokens 2 (ex_2bitsData x)
         | _ \<Rightarrow> []))"

definition cond_tokens :: "bool \<Rightarrow> token list \<Rightarrow> token list" where
  "cond_tokens c ts = (if c then ts else [])"

definition elem_tokens ::
  "u32 \<Rightarrow> has_locals \<Rightarrow> mover \<Rightarrow> extra_element option \<Rightarrow> MovementStatusElements \<Rightarrow> token list"
where
  "elem_tokens now h m ex e =
    (let mi = mv_info m; t = h_transportData h
     in case e of
       MSEHasGuidByte i \<Rightarrow> [Bit (word_byte (mv_guid m) i \<noteq> 0)]
     | MSEHasTransportGuidByte i \<Rightarrow> cond_tokens t [Bit (word_byte (mv_trans_guid m) i \<noteq> 0)]
     | MSEGuidByte i \<Rightarrow> byteseq_tokens (word_byte (mv_guid m) i)
     | MSETransportGuidByte i \<Rightarrow> cond_tokens t (byteseq_tokens (word_byte (mv_trans_guid m) i))
     | MSEHasCounter \<Rightarrow> [Bit (mv_counter m = 0)]
     | MSEHasMountDisplayId \<Rightarrow> [Bit (\<not> h_mountDisplayId h)]
     | MSEHasMovementFlags \<Rightarrow> [Bit (\<not> h_movementFlags h)]
     | MSEHasMovementFlags2 \<Rightarrow> [Bit (\<not> h_movementFlags2 h)]
     | MSEHasTimestamp \<Rightarrow> [Bit (\<not> h_timestamp h)]
     | MSEHasOrientation \<Rightarrow> [Bit (\<not> h_orientation h)]
     | MSEHasTransportData \<Rightarrow> [Bit t]
     | MSEHasTransportTime2 \<Rightarrow> cond_tokens t [Bit (h_transportTime2 h)]
     | MSEHasTransportVehicleId \<Rightarrow> cond_tokens t [Bit (h_transportVehicleId h)]
     | MSEHasPitch \<Rightarrow> [Bit (\<not> h_pitch h)]
     | MSEHasFallData \<Rightarrow> [Bit (h_fallData h)]
     | MSEHasFallDirection \<Rightarrow> cond_tokens (h_fallData h) [Bit (h_fallDirection h)]
     | MSEHasSplineElevation \<Rightarrow> [Bit (\<not> h_splineElevation h)]
     | MSEHasSpline \<Rightarrow> [Bit (mv_spline_enabled m)]
     | MSEMountDisplayIdWithCheck \<Rightarrow> cond_tokens (h_mountDisplayId h) (word_tokens (mv_mount_display m))
     | MSEMountDisplayIdWithoutCheck \<Rightarrow> word_tokens (mv_mount_display m)
     | MSEMovementFlags \<Rightarrow> cond_tokens (h_movementFlags h) (bits_tokens 30 (mi_flags mi))
     | MSEMovementFlags2 \<Rightarrow> cond_tokens (h_movementFlags2 h) (bits_tokens 13 (mi_flags2 mi))
     | MSETimestamp \<Rightarrow> cond_tokens (h_timestamp h) (word_tokens now)
     | MSEPositionX \<Rightarrow> word_tokens (pos_x (mv_pos m))
     | MSEPositionY \<Rightarrow> word_tokens (pos_y (mv_pos m))
     | MSEPositionZ \<Rightarrow> word_tokens (pos_z (mv_pos m))
     | MSEOrientation \<Rightarrow> cond_tokens (h_orientation h) (word_tokens (pos_o (mv_pos m)))
     | MSETransportPositionX \<Rightarrow> cond_tokens t (word_tokens (pos_x (tr_pos (mi_transport mi))))
     | MSETransportPositionY \<Rightarrow> cond_tokens t (word_tokens (pos_y (tr_pos (mi_transport mi))))
     | MSETransportPositionZ \<Rightarrow> cond_tokens t (word_tokens (pos_z (tr_pos (mi_transport mi))))
     | MSETransportOrientation \<Rightarrow> cond_tokens t (word_tokens (pos_o (tr_pos (mi_transport mi))))
     | MSETransportSeat \<Rightarrow> cond_tokens t (word_tokens (tr_seat (mi_transport mi)))
     | MSETransportTime \<Rightarrow> cond_tokens t (word_tokens (tr_time (mi_transport mi)))
     | MSETransportTime2 \<Rightarrow>
         cond_tokens (t \<and> h_transportTime2 h) (word_tokens (tr_time2 (mi_transport mi)))
     | MSETransportVehicleId \<Rightarrow>
         cond_tokens (t \<and> h_transportVehicleId h) (word_tokens (tr_vehicleId (mi_transport mi)))
     | MSEPitch \<Rightarrow> cond_tokens (h_pitch h) (word_tokens (mi_pitch mi))
     | MSEFallTime \<Rightarrow> cond_tokens (h_fallData h) (word_tokens (ji_fallTime (mi_jump mi)))
     | MSEFallVerticalSpeed \<Rightarrow> cond_tokens (h_fallData h) (word_tokens (ji_zspeed (mi_jump mi)))
     | MSEFallCosAngle \<Rightarrow>
         cond_tokens (h_fallData h \<and> h_fallDirection h) (word_tokens (ji_cosAngle (mi_jump mi)))
     | MSEFallSinAngle \<Rightarrow>
         cond_tokens (h_fallData h \<and> h_fallDirection h) (word_tokens (ji_sinAngle (mi_jump mi)))
     | MSEFallHorizontalSpeed \<Rightarrow>
         cond_tokens (h_fallData h \<and> h_fallDirection h) (word_tokens (ji_xyspeed (mi_jump mi)))
     | MSESplineElevation \<Rightarrow> cond_tokens (h_splineElevation h) (word_tokens (mi_splineElevation mi))
     | MSEForcesCount \<Rightarrow> bits_tokens 22 (0 :: u32)
     | MSECounter \<Rightarrow> cond_tokens (mv_counter m \<noteq> 0) (word_tokens (mv_counter m))
     | MSECount \<Rightarrow> word_tokens (mv_counter m)
     | MSEZeroBit \<Rightarrow> [Bit False]
     | MSEOneBit \<Rightarrow> [Bit True]
     | MSEExtraElement \<Rightarrow> extra_tokens ex
     | _ \<Rightarrow> [])"

text \<open>The mover and the extra elements after an element has been written.\<close>

definition next_mover :: "MovementStatusElements \<Rightarrow> mover \<Rightarrow> mover" where
  "next_mover e m =
     (if e = MSECount \<or> e = MSECounter \<and> mv_counter m \<noteq> 0
      then m\<lparr>mv_counter := mv_counter m + 1\<rparr> else m)"

definition next_extra :: "MovementStatusElements \<Rightarrow> extra_element option \<Rightarrow> extra_element option" where
  "next_extra e ex =
     (if e = MSEExtraElement then map_option (\<lambda>x. x\<lparr>ex_index := Suc (ex_index x)\<rparr>) ex else ex)"

subsection \<open>The static check\<close>

datatype fact = FFlags | FFlags2 | FTimestamp | FOrientation | FTransport | FTime2 | FVehicle
  | FPitch | FFall | FFallDir | FElev | FCounter | FMount
  | FMask nat | FByte nat | FTMask nat | FTByte nat

datatype shape = Bits nat | MaybeBits | Bytes | MaybeBytes | Nothing

definition elem_needs :: "MovementStatusElements \<Rightarrow> fact list" where
  "elem_needs e = (case e of
       MSEHasTransportGuidByte i \<Rightarrow> [FTransport]
     | MSEGuidByte i \<Rightarrow> [FMask i]
     | MSETransportGuidByte i \<Rightarrow> [FTransport, FTMask i]
     | MSEHasTransportTime2 \<Rightarrow> [FTransport]
     | MSEHasTransportVehicleId \<Rightarrow> [FTransport]
     | MSEHasFallDirection \<Rightarrow> [FFall]
     | MSEMountDisplayIdWithCheck \<Rightarrow> [FMount]
     | MSEMovementFlags \<Rightarrow> [FFlags]
     | MSEMovementFlags2 \<Rightarrow> [FFlags2]
     | MSETimestamp \<Rightarrow> [FTimestamp]
     | MSEOrientation \<Rightarrow> [FOrientation]
     | MSETransportPositionX \<Rightarrow> [FTransport]
     | MSETransportPositionY \<Rightarrow> [FTransport]
     | MSETransportPositionZ \<Rightarrow> [FTransport]
     | MSETransportOrientation \<Rightarrow> [FTransport]
     | MSETransportSeat \<Rightarrow> [FTransport]
     | MSETransportTime \<Rightarrow> [FTransport]
     | MSETransportTime2 \<Rightarrow> [FTransport, FTime2]
     | MSETransportVehicleId \<Rightarrow> [FTransport, FVehicle]
     | MSEPitch \<Rightarrow> [FPitch]
     | MSEFallTime \<Rightarrow> [FFall]
     | MSEFallVerticalSpeed \<Rightarrow> [FFall]
     | MSEFallCosAngle \<Rightarrow> [FFall, FFallDir]
     | MSEFallSinAngle \<Rightarrow> [FFall, FFallDir]
     | MSEFallHorizontalSpeed \<Rightarrow> [FFall, FFallDir]
     | MSESplineElevation \<Rightarrow> [FElev]
     | MSECounter \<Rightarrow> [FCounter]
     | _ \<Rightarrow> [])"

definition elem_gives :: "MovementStatusElements \<Rightarrow> fact list" where
  "elem_gives e = (case e of
       MSEHasGuidByte i \<Rightarrow> [FMask i]
     | MSEHasTransportGuidByte i \<Rightarrow> [FTMask i]
     | MSEGuidByte i \<Rightarrow> [FByte i]
     | MSETransportGuidByte i \<Rightarrow> [FTByte i]
     | MSEHasCounter \<Rightarrow> [FCounter]
     | MSEHasMountDisplayId \<Rightarrow> [FMount]
     | MSEHasMovementFlags \<Rightarrow> [FFlags]
     | MSEHasMovementFlags2 \<Rightarrow> [FFlags2]
     | MSEHasTimestamp \<Rightarrow> [FTimestamp]
     | MSEHasOrientation \<Rightarrow> [FOrientation]
     | MSEHasTransportData \<Rightarrow> [FTransport]
     | MSEHasTransportTime2 \<Rightarrow> [FTime2]
     | MSEHasTransportVehicleId \<Rightarrow> [FVehicle]
     | MSEHasPitch \<Rightarrow> [FPitch]
     | MSEHasFallData \<Rightarrow> [FFall]
     | MSEHasFallDirection \<Rightarrow> [FFallDir]
     | MSEHasSplineElevation \<Rightarrow> [FElev]
     | _ \<Rightarrow> [])"

definition elem_drops :: "MovementStatusElements \<Rightarrow> fact list" where
  "elem_drops e = (case e of
       MSEHasGuidByte i \<Rightarrow> [FByte i]
     | MSEHasTransportGuidByte i \<Rightarrow> [FTByte i]
     | MSEGuidByte i \<Rightarrow> [FMask i]
     | MSETransportGuidByte i \<Rightarrow> [FTMask i]
     | MSECount \<Rightarrow> [FCounter]
     | MSECounter \<Rightarrow> [FCounter]
     | _ \<Rightarrow> [])"

definition extra_shape :: "MovementStatusElements \<Rightarrow> shape option" where
  "extra_shape e = (case e of
       MSEExtraFloat \<Rightarrow> Some Bytes
     | MSEExtraFloat2 \<Rightarrow> Some Bytes
     | MSEExtraInt8 \<Rightarrow> Some Bytes
     | MSEExtraInt32 \<Rightarrow> Some Bytes
     | MSEExtra2Bits \<Rightarrow> Some (Bits 2)
     | _ \<Rightarrow> None)"

text \<open>\<open>None\<close>: the writer or the reader does not support the element, or they disagree on it.\<close>

definition elem_shape :: "MovementStatusElements \<Rightarrow> MovementStatusElements list \<Rightarrow> shape option" where
  "elem_shape e exs = (case e of
       MSEHasGuidByte i \<Rightarrow> if i < 8 then Some (Bits 1) else None
     | MSEHasTransportGuidByte i \<Rightarrow> if i < 8 then Some MaybeBits else None
     | MSEGuidByte i \<Rightarrow> if i < 8 then Some MaybeBytes else None
     | MSETransportGuidByte i \<Rightarrow> if i < 8 then Some MaybeBytes else None
     | MSEHasCounter \<Rightarrow> Some (Bits 1)
     | MSEHasMountDisplayId \<Rightarrow> Some (Bits 1)
     | MSEHasMovementFlags \<Rightarrow> Some (Bits 1)
     | MSEHasMovementFlags2 \<Rightarrow> Some (Bits 1)
     | MSEHasTimestamp \<Rightarrow> Some (Bits 1)
     | MSEHasOrientation \<Rightarrow> Some (Bits 1)
     | MSEHasTransportData \<Rightarrow> Some (Bits 1)
     | MSEHasTransportTime2 \<Rightarrow> Some MaybeBits
     | MSEHasTransportVehicleId \<Rightarrow> Some MaybeBits
     | MSEHasPitch \<Rightarrow> Some (Bits 1)
     | MSEHasFallData \<Rightarrow> Some (Bits 1)
     | MSEHasFallDirection \<Rightarrow> Some MaybeBits
     | MSEHasSplineElevation \<Rightarrow> Some (Bits 1)
     | MSEHasSpline \<Rightarrow> Some (Bits 1)
     | MSEMountDisplayIdWithoutCheck \<Rightarrow> Some Bytes
     | MSEMovementFlags \<Rightarrow> Some MaybeBits
     | MSEMovementFlags2 \<Rightarrow> Some MaybeBits
     | MSETimestamp \<Rightarrow> Some Bytes
     | MSEPositionX \<Rightarrow> Some Bytes
     | MSEPositionY \<Rightarrow> Some Bytes
     | MSEPositionZ \<Rightarrow> Some Bytes
     | MSEForcesCount \<Rightarrow> Some (Bits 22)
     | MSEForces \<Rightarrow> Some Nothing
     | MSECount \<Rightarrow> Some Bytes
     | MSEZeroBit \<Rightarrow> Some (Bits 1)
     | MSEOneBit \<Rightarrow> Some (Bits 1)
     | MSEExtraElement \<Rightarrow> (case exs of [] \<Rightarrow> None | x # _ \<Rightarrow> extra_shape x)
     | MSEHasTransportTime3 \<Rightarrow> None
     | MSETransportTime3 \<Rightarrow> None
     | MSEUintCount \<Rightarrow> None
     | MSEEnd \<Rightarrow> None
     | MSEExtraFloat \<Rightarrow> None
     | MSEExtraFloat2 \<Rightarrow> None
     | MSEExtraInt8 \<Rightarrow> None
     | MSEExtraInt32 \<Rightarrow> None
     | MSEExtra2Bits \<Rightarrow> None
     | _ \<Rightarrow> Some MaybeBytes)"

text \<open>
  \<open>ls_bits\<close> is the number of bits in the unfinished octet where it does not depend on the mover,
  \<open>ls_stale\<close> says that bytes were written over a possibly unfinished octet.
\<close>

record layout_state =
  ls_known :: "fact list"
  ls_bits :: "nat option"
  ls_stale :: bool
  ls_extras :: "MovementStatusElements list"

definition layout_init :: "MovementStatusElements list \<Rightarrow> layout_state" where
  "layout_init exs = \<lparr>ls_known = [], ls_bits = Some 0, ls_stale = False, ls_extras = exs\<rparr>"

definition shape_step :: "shape \<Rightarrow> nat option \<times> bool \<Rightarrow> (nat option \<times> bool) option" where
  "shape_step sh s = (case s of (k, stale) \<Rightarrow> (case sh of
       Bits n \<Rightarrow> if stale then None else Some (map_option (\<lambda>k. (k + n) mod 8) k, False)
     | MaybeBits \<Rightarrow> if stale then None else Some (None, False)
     | Bytes \<Rightarrow> Some (Some 0, stale \<or> k \<noteq> Some 0)
     | MaybeBytes \<Rightarrow> Some (if k = Some 0 then Some 0 else None, stale \<or> k \<noteq> Some 0)
     | Nothing \<Rightarrow> Some (k, stale)))"

definition layout_step ::
  "MovementStatusElements \<Rightarrow> layout_state \<Rightarrow> layout_state option"
where
  "layout_step e ls =
    (if list_all (\<lambda>f. List.member (ls_known ls) f) (elem_needs e)
     then (case elem_shape e (ls_extras ls) of
             None \<Rightarrow> None
           | Some sh \<Rightarrow> (case shape_step sh (ls_bits ls, ls_stale ls) of
               None \<Rightarrow> None
             | Some (k, stale) \<Rightarrow>
                 Some \<lparr>ls_known = elem_gives e @ filter (\<lambda>f. \<not> List.member (elem_drops e) f) (ls_known ls),
                       ls_bits = k, ls_stale = stale,
                       ls_extras = (if e = MSEExtraElement then tl (ls_extras ls) else ls_extras ls)\<rparr>))
     else None)"

fun layout :: "MovementStatusElements list \<Rightarrow> layout_state \<Rightarrow> layout_state option" where
  "layout [] ls = None"
| "layout (e # es) ls =
     (if e = MSEEnd then (if ls_bits ls = Some 0 then Some ls else None)
      else (case layout_step e ls of None \<Rightarrow> None | Some ls' \<Rightarrow> layout es ls'))"

text \<open>
  A complete layout carries the whole GUID, and the transport GUID whenever it carries transport data.
\<close>

definition layout_ok :: "MovementStatusElements list \<Rightarrow> MovementStatusElements list \<Rightarrow> bool" where
  "layout_ok exs seq = (length seq \<le> 1000 \<and> (case layout seq (layout_init exs) of
       None \<Rightarrow> False
     | Some ls \<Rightarrow> list_all (\<lambda>i. List.member (ls_known ls) (FByte i)) [0..<8] \<and>
         (List.member (ls_known ls) FTransport \<longrightarrow>
            list_all (\<lambda>i. List.member (ls_known ls) (FTByte i)) [0..<8])))"

end
