(* ===== verification/MovementElement.thy ===== *)
theory MovementElement
  imports MovementLayout
begin

text \<open>
  One element of a movement sequence: the writer appends the tokens of the element, and a reader that
  finds them in front of it stores a copy of the mover's field (\<open>learn\<close>), consumes exactly these tokens
  and keeps its agreement with the writer on every fact the layout check tracks.
\<close>

subsection \<open>The writer emits the tokens of its elements\<close>

lemma put_guid_bit_emit:
  "room 1 st \<Longrightarrow> i < 8 \<Longrightarrow>
     put_guid_bit g i (wstate r st) = Inr (wstate r (emit [Bit (word_byte g i \<noteq> 0)] st))"
  by (simp add: put_guid_bit_def guid_get_def write_bit_emit del: emit.simps)

lemma put_guid_byte_emit:
  "room 2 st \<Longrightarrow> i < 8 \<Longrightarrow>
     put_guid_byte g i (wstate r st) = Inr (wstate r (emit (byteseq_tokens (word_byte g i)) st))"
  using append_val_emit [of st "word_byte g i XOR 1" r]
  by (simp add: put_guid_byte_def guid_get_def WriteByteSeq_def byteseq_tokens_def word_tokens_def)

lemma cond_tokens_simps [simp]: "cond_tokens True ts = ts" "cond_tokens False ts = []"
  by (simp_all add: cond_tokens_def)

lemma put_if_bit:
  "room 1 st \<Longrightarrow> put_if c (WriteBit (of_bool x)) (m, ex, wstate r st) =
     Inr (m, ex, wstate r (emit (cond_tokens c [Bit x]) st))"
  by (cases c) (simp_all add: put_if_def write_of_bool_emit del: emit.simps(2))

lemma put_if_val:
  "room 2 st \<Longrightarrow> 8 \<le> LENGTH('a) \<Longrightarrow> put_if c (append_val (v :: 'a::len word)) (m, ex, wstate r st) =
     Inr (m, ex, wstate r (emit (cond_tokens c (word_tokens v)) st))"
  by (cases c) (simp_all add: put_if_def append_val_emit)

lemma put_if_bits:
  "room n st \<Longrightarrow> put_if c (WriteBits v n) (m, ex, wstate r st) =
     Inr (m, ex, wstate r (emit (cond_tokens c (bits_tokens n v)) st))"
  by (cases c) (simp_all add: put_if_def WriteBits_emit)

lemma put_if_guid_bit:
  "room 1 st \<Longrightarrow> i < 8 \<Longrightarrow> put_if c (put_guid_bit g i) (m, ex, wstate r st) =
     Inr (m, ex, wstate r (emit (cond_tokens c [Bit (word_byte g i \<noteq> 0)]) st))"
  by (cases c) (simp_all add: put_if_def put_guid_bit_emit del: emit.simps(2))

lemma put_if_guid_byte:
  "room 2 st \<Longrightarrow> i < 8 \<Longrightarrow> put_if c (put_guid_byte g i) (m, ex, wstate r st) =
     Inr (m, ex, wstate r (emit (cond_tokens c (byteseq_tokens (word_byte g i))) st))"
  by (cases c) (simp_all add: put_if_def put_guid_byte_emit)

lemma put_count_emit:
  "room 2 st \<Longrightarrow> put_count (m, ex, wstate r st) =
     Inr (m\<lparr>mv_counter := mv_counter m + 1\<rparr>, ex, wstate r (emit (word_tokens (mv_counter m)) st))"
  by (simp add: put_count_def append_val_emit)

lemmas write_emits = put_if_bit put_if_val put_if_bits put_if_guid_bit put_if_guid_byte put_count_emit

definition extras_match :: "MovementStatusElements list \<Rightarrow> extra_element option \<Rightarrow> bool" where
  "extras_match exs ex \<longleftrightarrow>
     exs = [] \<or> (\<exists>x. ex = Some x \<and> drop (ex_index x) (ex_elements x) = exs)"

lemma write_extra_emit:
  assumes "room 5 st" and "extras_match (e # exs) ex" and "extra_shape e \<noteq> None"
  shows "WriteNextElement ex (wstate r st) =
     Inr (next_extra MSEExtraElement ex, wstate r (emit (extra_tokens ex) st))"
proof -
  from assms(2) obtain x where ex: "ex = Some x" and d: "drop (ex_index x) (ex_elements x) = e # exs"
    by (auto simp: extras_match_def)
  from d have lt: "ex_index x < length (ex_elements x)"
    by (metis drop_all leI list.distinct(1))
  with d have e: "ex_elements x ! ex_index x = e"
    by (metis Cons_nth_drop_Suc list.inject)
  have "write_extra_data e x (wstate r st) = Inr (wstate r (emit (extra_tokens ex) st))"
    using assms(1,3) e
    by (cases e) (simp_all add: extra_shape_def write_extra_data_def extra_tokens_def ex
      append_val_emit WriteBits_emit)
  with ex lt e show ?thesis
    by (simp add: WriteNextElement_def next_extra_def)
qed

lemma write_element_emit:
  assumes "room 40 st" and "elem_shape e exs \<noteq> None" and "extras_match exs ex"
  shows "write_element now h e (m, ex, wstate r st) =
     Inr (next_mover e m, next_extra e ex, wstate r (emit (elem_tokens now h m ex e) st))"
proof (cases "e = MSEExtraElement")
  case True
  with assms(2) obtain x xs where "exs = x # xs" "extra_shape x \<noteq> None"
    by (auto simp: elem_shape_def split: list.splits)
  with assms True write_extra_emit [of st x xs ex r] show ?thesis
    by (simp add: write_element_def elem_tokens_def next_mover_def)
next
  case False
  with assms(1,2) show ?thesis
    by (cases e) (simp_all add: write_element_def elem_tokens_def write_emits next_mover_def next_extra_def
      elem_shape_def split: if_splits del: emit.simps(2))
qed

subsection \<open>The specification of the reader: a field by field copy\<close>

definition copy_element ::
  "float_env \<Rightarrow> u32 \<Rightarrow> has_locals \<Rightarrow> mover \<Rightarrow> MovementStatusElements \<Rightarrow> movement_info \<Rightarrow> movement_info"
where
  "copy_element fe now h m e mi =
    (let w = mv_info m; wt = mi_transport w; wj = mi_jump w; t = h_transportData h;
         fall = h_fallData h; dir = (h_fallData h \<and> h_fallDirection h);
         when = (\<lambda>c f. if c then f mi else mi)
     in case e of
       MSEMovementFlags \<Rightarrow> when (h_movementFlags h) (\<lambda>mi. mi\<lparr>mi_flags := take_bit 30 (mi_flags w)\<rparr>)
     | MSEMovementFlags2 \<Rightarrow> when (h_movementFlags2 h) (\<lambda>mi. mi\<lparr>mi_flags2 := take_bit 13 (mi_flags2 w)\<rparr>)
     | MSETimestamp \<Rightarrow> when (h_timestamp h) (\<lambda>mi. mi\<lparr>mi_time := now\<rparr>)
     | MSEPositionX \<Rightarrow> upd_pos (\<lambda>p. p\<lparr>pos_x := pos_x (mv_pos m)\<rparr>) mi
     | MSEPositionY \<Rightarrow> upd_pos (\<lambda>p. p\<lparr>pos_y := pos_y (mv_pos m)\<rparr>) mi
     | MSEPositionZ \<Rightarrow> upd_pos (\<lambda>p. p\<lparr>pos_z := pos_z (mv_pos m)\<rparr>) mi
     | MSEOrientation \<Rightarrow>
         when (h_orientation h) (upd_pos (\<lambda>p. p\<lparr>pos_o := fe_normalize fe (pos_o (mv_pos m))\<rparr>))
     | MSETransportPositionX \<Rightarrow> when t (upd_tpos (\<lambda>p. p\<lparr>pos_x := pos_x (tr_pos wt)\<rparr>))
     | MSETransportPositionY \<Rightarrow> when t (upd_tpos (\<lambda>p. p\<lparr>pos_y := pos_y (tr_pos wt)\<rparr>))
     | MSETransportPositionZ \<Rightarrow> when t (upd_tpos (\<lambda>p. p\<lparr>pos_z := pos_z (tr_pos wt)\<rparr>))
     | MSETransportOrientation \<Rightarrow>
         when t (upd_tpos (\<lambda>p. p\<lparr>pos_o := fe_normalize fe (pos_o (tr_pos wt))\<rparr>))
     | MSETransportSeat \<Rightarrow> when t (upd_transport (\<lambda>r. r\<lparr>tr_seat := tr_seat wt\<rparr>))
     | MSETransportTime \<Rightarrow> when t (upd_transport (\<lambda>r. r\<lparr>tr_time := tr_time wt\<rparr>))
     | MSETransportTime2 \<Rightarrow>
         when (t \<and> h_transportTime2 h) (upd_transport (\<lambda>r. r\<lparr>tr_time2 := tr_time2 wt\<rparr>))
     | MSETransportVehicleId \<Rightarrow>
         when (t \<and> h_transportVehicleId h) (upd_transport (\<lambda>r. r\<lparr>tr_vehicleId := tr_vehicleId wt\<rparr>))
     | MSEPitch \<Rightarrow> when (h_pitch h) (\<lambda>mi. mi\<lparr>mi_pitch := fe_wrap_pi fe (mi_pitch w)\<rparr>)
     | MSEFallTime \<Rightarrow> when fall (upd_jump (\<lambda>j. j\<lparr>ji_fallTime := ji_fallTime wj\<rparr>))
     | MSEFallVerticalSpeed \<Rightarrow> when fall (upd_jump (\<lambda>j. j\<lparr>ji_zspeed := ji_zspeed wj\<rparr>))
     | MSEFallCosAngle \<Rightarrow> when dir (upd_jump (\<lambda>j. j\<lparr>ji_cosAngle := ji_cosAngle wj\<rparr>))
     | MSEFallSinAngle \<Rightarrow> when dir (upd_jump (\<lambda>j. j\<lparr>ji_sinAngle := ji_sinAngle wj\<rparr>))
     | MSEFallHorizontalSpeed \<Rightarrow> when dir (upd_jump (\<lambda>j. j\<lparr>ji_xyspeed := ji_xyspeed wj\<rparr>))
     | MSESplineElevation \<Rightarrow>
         when (h_splineElevation h) (\<lambda>mi. mi\<lparr>mi_splineElevation := mi_splineElevation w\<rparr>)
     | _ \<Rightarrow> mi)"

definition copy_mount :: "has_locals \<Rightarrow> mover \<Rightarrow> MovementStatusElements \<Rightarrow> u32 \<Rightarrow> u32" where
  "copy_mount h m e mount = (case e of
       MSEMountDisplayIdWithCheck \<Rightarrow> if h_mountDisplayId h then mv_mount_display m else mount
     | MSEMountDisplayIdWithoutCheck \<Rightarrow> mv_mount_display m
     | _ \<Rightarrow> mount)"

definition copy_extra_data :: "MovementStatusElements \<Rightarrow> extra_element \<Rightarrow> extra_element \<Rightarrow> extra_element" where
  "copy_extra_data e w x = (case e of
       MSEExtraFloat \<Rightarrow> x\<lparr>ex_floatData := ex_floatData w\<rparr>
     | MSEExtraFloat2 \<Rightarrow> x\<lparr>ex_floatData2 := ex_floatData2 w\<rparr>
     | MSEExtraInt8 \<Rightarrow> x\<lparr>ex_byteData := ex_byteData w\<rparr>
     | MSEExtraInt32 \<Rightarrow> x\<lparr>ex_int32Data := ex_int32Data w\<rparr>
     | MSEExtra2Bits \<Rightarrow> x\<lparr>ex_2bitsData := take_bit 2 (ex_2bitsData w)\<rparr>
     | _ \<Rightarrow> x)"

definition copy_extra ::
  "extra_element option \<Rightarrow> MovementStatusElements \<Rightarrow> extra_element option \<Rightarrow> extra_element option"
where
  "copy_extra exw e exr = (if e = MSEExtraElement then
     (case (exw, exr) of
        (Some w, Some x) \<Rightarrow>
          Some (copy_extra_data (ex_elements x ! ex_index x) w (x\<lparr>ex_index := Suc (ex_index x)\<rparr>))
      | _ \<Rightarrow> exr) else exr)"

text \<open>What the reader learns about the announced fields and about the GUIDs.\<close>

definition learn_has :: "has_locals \<Rightarrow> mover \<Rightarrow> MovementStatusElements \<Rightarrow> has_locals \<Rightarrow> has_locals" where
  "learn_has h m e r = (case e of
       MSEHasMovementFlags \<Rightarrow> r\<lparr>h_movementFlags := h_movementFlags h\<rparr>
     | MSEHasMovementFlags2 \<Rightarrow> r\<lparr>h_movementFlags2 := h_movementFlags2 h\<rparr>
     | MSEHasTimestamp \<Rightarrow> r\<lparr>h_timestamp := h_timestamp h\<rparr>
     | MSEHasOrientation \<Rightarrow> r\<lparr>h_orientation := h_orientation h\<rparr>
     | MSEHasTransportData \<Rightarrow> r\<lparr>h_transportData := h_transportData h\<rparr>
     | MSEHasTransportTime2 \<Rightarrow>
         if h_transportData h then r\<lparr>h_transportTime2 := h_transportTime2 h\<rparr> else r
     | MSEHasTransportVehicleId \<Rightarrow>
         if h_transportData h then r\<lparr>h_transportVehicleId := h_transportVehicleId h\<rparr> else r
     | MSEHasPitch \<Rightarrow> r\<lparr>h_pitch := h_pitch h\<rparr>
     | MSEHasFallData \<Rightarrow> r\<lparr>h_fallData := h_fallData h\<rparr>
     | MSEHasFallDirection \<Rightarrow> if h_fallData h then r\<lparr>h_fallDirection := h_fallDirection h\<rparr> else r
     | MSEHasSplineElevation \<Rightarrow> r\<lparr>h_splineElevation := h_splineElevation h\<rparr>
     | MSEHasMountDisplayId \<Rightarrow> r\<lparr>h_mountDisplayId := h_mountDisplayId h\<rparr>
     | MSEHasCounter \<Rightarrow> r\<lparr>h_counter := (mv_counter m \<noteq> 0)\<rparr>
     | _ \<Rightarrow> r)"

definition learn_guid :: "mover \<Rightarrow> MovementStatusElements \<Rightarrow> u64 \<Rightarrow> u64" where
  "learn_guid m e g = (case e of
       MSEHasGuidByte i \<Rightarrow> guid_set g i (of_bool (word_byte (mv_guid m) i \<noteq> 0))
     | MSEGuidByte i \<Rightarrow> guid_set g i (word_byte (mv_guid m) i)
     | _ \<Rightarrow> g)"

definition learn_tguid :: "has_locals \<Rightarrow> mover \<Rightarrow> MovementStatusElements \<Rightarrow> u64 \<Rightarrow> u64" where
  "learn_tguid h m e g = (case e of
       MSEHasTransportGuidByte i \<Rightarrow>
         if h_transportData h then guid_set g i (of_bool (word_byte (mv_trans_guid m) i \<noteq> 0)) else g
     | MSETransportGuidByte i \<Rightarrow>
         if h_transportData h then guid_set g i (word_byte (mv_trans_guid m) i) else g
     | _ \<Rightarrow> g)"

definition learn ::
  "float_env \<Rightarrow> u32 \<Rightarrow> has_locals \<Rightarrow> mover \<Rightarrow> extra_element option \<Rightarrow> MovementStatusElements
     \<Rightarrow> read_state \<Rightarrow> read_state"
where
  "learn fe now h m exw e s = s\<lparr>rs_has := learn_has h m e (rs_has s),
     rs_guid := learn_guid m e (rs_guid s), rs_tguid := learn_tguid h m e (rs_tguid s),
     rs_mi := copy_element fe now h m e (rs_mi s), rs_mount := copy_mount h m e (rs_mount s),
     rs_extras := copy_extra exw e (rs_extras s)\<rparr>"

subsection \<open>What the reader knows\<close>

fun fact_ok :: "has_locals \<Rightarrow> mover \<Rightarrow> read_state \<Rightarrow> fact \<Rightarrow> bool" where
  "fact_ok h m s FFlags \<longleftrightarrow> h_movementFlags (rs_has s) = h_movementFlags h"
| "fact_ok h m s FFlags2 \<longleftrightarrow> h_movementFlags2 (rs_has s) = h_movementFlags2 h"
| "fact_ok h m s FTimestamp \<longleftrightarrow> h_timestamp (rs_has s) = h_timestamp h"
| "fact_ok h m s FOrientation \<longleftrightarrow> h_orientation (rs_has s) = h_orientation h"
| "fact_ok h m s FTransport \<longleftrightarrow> h_transportData (rs_has s) = h_transportData h"
| "fact_ok h m s FTime2 \<longleftrightarrow> h_transportTime2 (rs_has s) = h_transportTime2 h"
| "fact_ok h m s FVehicle \<longleftrightarrow> h_transportVehicleId (rs_has s) = h_transportVehicleId h"
| "fact_ok h m s FPitch \<longleftrightarrow> h_pitch (rs_has s) = h_pitch h"
| "fact_ok h m s FFall \<longleftrightarrow> h_fallData (rs_has s) = h_fallData h"
| "fact_ok h m s FFallDir \<longleftrightarrow> h_fallDirection (rs_has s) = h_fallDirection h"
| "fact_ok h m s FElev \<longleftrightarrow> h_splineElevation (rs_has s) = h_splineElevation h"
| "fact_ok h m s FCounter \<longleftrightarrow> h_counter (rs_has s) = (mv_counter m \<noteq> 0)"
| "fact_ok h m s FMount \<longleftrightarrow> h_mountDisplayId (rs_has s) = h_mountDisplayId h"
| "fact_ok h m s (FMask i) \<longleftrightarrow> word_byte (rs_guid s) i = of_bool (word_byte (mv_guid m) i \<noteq> 0)"
| "fact_ok h m s (FByte i) \<longleftrightarrow> word_byte (rs_guid s) i = word_byte (mv_guid m) i"
| "fact_ok h m s (FTMask i) \<longleftrightarrow> (h_transportData h \<longrightarrow>
     word_byte (rs_tguid s) i = of_bool (word_byte (mv_trans_guid m) i \<noteq> 0))"
| "fact_ok h m s (FTByte i) \<longleftrightarrow> (h_transportData h \<longrightarrow>
     word_byte (rs_tguid s) i = word_byte (mv_trans_guid m) i)"

text \<open>Fields that depend on an absent one are absent, on both sides.\<close>

definition coherent :: "has_locals \<Rightarrow> bool" where
  "coherent h \<longleftrightarrow> h_timestamp h \<and>
     (\<not> h_transportData h \<longrightarrow> \<not> h_transportTime2 h \<and> \<not> h_transportVehicleId h) \<and>
     (\<not> h_fallData h \<longrightarrow> \<not> h_fallDirection h)"

definition agree :: "has_locals \<Rightarrow> mover \<Rightarrow> fact list \<Rightarrow> read_state \<Rightarrow> bool" where
  "agree h m K s \<longleftrightarrow> (\<forall>f \<in> set K. fact_ok h m s f) \<and> rs_forcesCount s = 0 \<and>
     (\<not> h_transportData h \<longrightarrow> rs_tguid s = 0 \<and> \<not> h_transportTime2 (rs_has s) \<and>
        \<not> h_transportVehicleId (rs_has s)) \<and>
     (\<not> h_fallData h \<longrightarrow> \<not> h_fallDirection (rs_has s))"

lemma coherent_writer_locals: "coherent (writer_locals fe m)"
  by (simp add: coherent_def writer_locals_def Let_def)

lemma agree_init: "agree h m [] (reader_init mi mount ex b)"
  by (simp add: agree_def reader_init_def reader_locals_def)

lemma agree_packet [simp]: "agree h m K (s\<lparr>rs_packet := b\<rparr>) = agree h m K s"
proof -
  have "fact_ok h m (s\<lparr>rs_packet := b\<rparr>) f = fact_ok h m s f" for f
    by (cases f) simp_all
  then show ?thesis by (simp add: agree_def)
qed

subsection \<open>One element\<close>

lemma needs_hold:
  assumes "agree h m K s" and "list_all (\<lambda>f. List.member K f) (elem_needs e)"
  shows "\<forall>f \<in> set (elem_needs e). fact_ok h m s f"
  using assms by (auto simp: agree_def list_all_iff)

lemma fact_ok_learn:
  assumes "fact_ok h m s f" and "f \<notin> set (elem_drops e)" and "elem_shape e exs \<noteq> None"
  shows "fact_ok h (next_mover e m) (learn fe now h m exw e s) f"
  using assms
  by (cases e; cases f) (simp_all add: learn_def next_mover_def learn_has_def learn_guid_def learn_tguid_def
      elem_drops_def elem_shape_def word_byte_guid_set split: if_splits)

lemma fact_ok_given:
  assumes "f \<in> set (elem_gives e)" and "elem_shape e exs \<noteq> None" and "coherent h"
    and "\<not> h_transportData h \<longrightarrow> \<not> h_transportTime2 (rs_has s) \<and> \<not> h_transportVehicleId (rs_has s)"
    and "\<not> h_fallData h \<longrightarrow> \<not> h_fallDirection (rs_has s)"
  shows "fact_ok h (next_mover e m) (learn fe now h m exw e s) f"
  using assms
  by (cases e) (auto simp: learn_def next_mover_def learn_has_def learn_guid_def learn_tguid_def
      elem_gives_def elem_shape_def word_byte_guid_set coherent_def split: if_splits)

lemma agree_learn:
  assumes "agree h m K s" and "coherent h" and "elem_shape e exs \<noteq> None"
  shows "agree h (next_mover e m) (elem_gives e @ filter (\<lambda>f. \<not> List.member (elem_drops e) f) K)
           (learn fe now h m exw e s)"
proof -
  let ?s = "learn fe now h m exw e s"
  have "fact_ok h (next_mover e m) ?s f"
    if "f \<in> set (elem_gives e @ filter (\<lambda>f. \<not> List.member (elem_drops e) f) K)" for f
  proof (cases "f \<in> set (elem_gives e)")
    case True
    with assms show ?thesis by (intro fact_ok_given [where exs = exs]) (auto simp: agree_def)
  next
    case False
    with that assms show ?thesis by (intro fact_ok_learn [where exs = exs]) (auto simp: agree_def)
  qed
  moreover have "rs_forcesCount ?s = 0"
    using assms(1) by (simp add: agree_def learn_def)
  moreover have "\<not> h_transportData h \<longrightarrow> rs_tguid ?s = 0 \<and> \<not> h_transportTime2 (rs_has ?s) \<and>
      \<not> h_transportVehicleId (rs_has ?s)"
    using assms(1) by (cases e) (simp_all add: agree_def learn_def learn_tguid_def learn_has_def)
  moreover have "\<not> h_fallData h \<longrightarrow> \<not> h_fallDirection (rs_has ?s)"
    using assms(1) by (cases e) (simp_all add: agree_def learn_def learn_has_def)
  ultimately show ?thesis unfolding agree_def by blast
qed

lemma take_has_ex:
  assumes "avail (rs_packet s) (Bit x # ts)" and "s' = s\<lparr>rs_has := f x (rs_has s)\<rparr>"
  shows "\<exists>b. take_has f s = Inr (s'\<lparr>rs_packet := b\<rparr>) \<and> avail b ts"
proof -
  from avail_bit [OF assms(1)] obtain b where "ReadBit (rs_packet s) = Inr (x, b)" "avail b ts"
    by blast
  then show ?thesis
    by (intro exI [of _ b]) (simp add: take_has_def take_bit_then_def assms(2))
qed

lemma take_val_ex:
  fixes f :: "'a::len word \<Rightarrow> movement_info \<Rightarrow> movement_info"
  assumes "avail (rs_packet s) (cond_tokens c (word_tokens v) @ ts)"
    and "LENGTH('a) mod 8 = 0" and "8 \<le> LENGTH('a)"
    and "s' = s\<lparr>rs_mi := if c then f v (rs_mi s) else rs_mi s\<rparr>"
  shows "\<exists>b. take_val c f s = Inr (s'\<lparr>rs_packet := b\<rparr>) \<and> avail b ts"
proof (cases c)
  case True
  with assms(1) avail_val [OF _ assms(2,3), of "rs_packet s" v ts] show ?thesis
    by (auto simp: take_val_def assms(4))
next
  case False
  with assms(1) show ?thesis
    by (intro exI [of _ "rs_packet s"]) (simp add: take_val_def assms(4))
qed

lemma take_bits_ex:
  assumes "avail (rs_packet s) (cond_tokens c (bits_tokens n v) @ ts)" and "n \<le> 32"
    and "s' = s\<lparr>rs_mi := if c then f (ucast (take_bit n v)) (rs_mi s) else rs_mi s\<rparr>"
  shows "\<exists>b. take_bits c n f s = Inr (s'\<lparr>rs_packet := b\<rparr>) \<and> avail b ts"
proof (cases c)
  case True
  with assms avail_bits [of "rs_packet s" n v ts] show ?thesis
    by (auto simp: take_bits_def)
next
  case False
  with assms show ?thesis
    by (intro exI [of _ "rs_packet s"]) (simp add: take_bits_def)
qed

lemma take_mount_ex:
  assumes "avail (rs_packet s) (word_tokens v @ ts)" and "s' = s\<lparr>rs_mount := v\<rparr>"
  shows "\<exists>b. take_mount s = Inr (s'\<lparr>rs_packet := b\<rparr>) \<and> avail b ts"
  using avail_val [OF assms(1)] by (auto simp: take_mount_def assms(2))

lemma skip_u32_ex:
  assumes "avail (rs_packet s) (word_tokens (v :: u32) @ ts)" and "s' = s"
  shows "\<exists>b. skip_u32 s = Inr (s'\<lparr>rs_packet := b\<rparr>) \<and> avail b ts"
proof -
  from assms(1) obtain bs where bs: "unread_bytes (rs_packet s) = le_bytes v @ bs"
    and rd: "readable (pending_bits (rs_packet s)) bs ts"
    using readable_bytes_append unfolding word_tokens_def by blast
  let ?b = "(rs_packet s)\<lparr>rpos := rpos (rs_packet s) + 4\<rparr>"
  have len: "length (unread_bytes (rs_packet s)) = 4 + length bs"
    using bs by simp
  have "unread_bytes ?b = drop 4 (unread_bytes (rs_packet s))"
    by (simp add: unread_bytes_def add.commute)
  then have "unread_bytes ?b = bs" using bs by simp
  with len rd show ?thesis
    by (auto simp: skip_u32_def read_skip_def pending_bits_def unread_bytes_def assms(2))
qed

lemma take_guid_bit_ex:
  assumes "avail (rs_packet s) (Bit x # ts)" and "i < 8"
    and "\<And>b. upd (guid_set (get s) i (of_bool x)) (s\<lparr>rs_packet := b\<rparr>) = s'\<lparr>rs_packet := b\<rparr>"
  shows "\<exists>b. take_guid_bit get upd i s = Inr (s'\<lparr>rs_packet := b\<rparr>) \<and> avail b ts"
  using avail_bit [OF assms(1)] assms(2,3) by (auto simp: take_guid_bit_def guid_put_def)

lemma take_guid_byte_ex:
  assumes "avail (rs_packet s) (byteseq_tokens x @ ts)" and "i < 8"
    and "word_byte (get s) i = of_bool (x \<noteq> 0)"
    and "\<And>b. upd (guid_set (get s) i x) (s\<lparr>rs_packet := b\<rparr>) = s'\<lparr>rs_packet := b\<rparr>"
  shows "\<exists>b. take_guid_byte get upd i s = Inr (s'\<lparr>rs_packet := b\<rparr>) \<and> avail b ts"
  using avail_byteseq [OF assms(1)] assms(2,3,4)
  by (auto simp: take_guid_byte_def guid_put_def guid_get_def)

lemma take_forces_ex:
  assumes "avail (rs_packet s) (bits_tokens 22 (0 :: u32) @ ts)" and "rs_forcesCount s = 0"
  shows "\<exists>b. bind_res (ReadBits 22 (rs_packet s))
      (\<lambda>(v, b). Inr (s\<lparr>rs_forcesCount := v, rs_packet := b\<rparr>)) = Inr (s\<lparr>rs_packet := b\<rparr>) \<and> avail b ts"
proof -
  from avail_bits [OF assms(1)] obtain b where "ReadBits 22 (rs_packet s) = Inr (0, b)" "avail b ts"
    by auto
  moreover have "s\<lparr>rs_forcesCount := 0\<rparr> = s" using assms(2) by (cases s) simp
  ultimately show ?thesis by (metis bind_res_Inr case_prod_conv)
qed

lemma read_extra_ex:
  assumes "avail (rs_packet s) (extra_tokens exw @ ts)" and "extras_match (e # exs) exw"
    and "extras_match (e # exs) (rs_extras s)" and "extra_shape e \<noteq> None"
  shows "\<exists>b. ReadNextElement (rs_extras s) (rs_packet s) =
      Inr (copy_extra exw MSEExtraElement (rs_extras s), b) \<and> avail b ts"
proof -
  have el: "ex_index x < length (ex_elements x) \<and> ex_elements x ! ex_index x = e"
    if "drop (ex_index x) (ex_elements x) = e # exs" for x
    using that by (metis Cons_nth_drop_Suc drop_all leI list.distinct(1) list.inject)
  from assms(2) obtain w where w: "exw = Some w" "ex_elements w ! ex_index w = e"
    using el by (auto simp: extras_match_def)
  from assms(3) obtain x where x: "rs_extras s = Some x" "ex_index x < length (ex_elements x)"
    "ex_elements x ! ex_index x = e"
    using el by (auto simp: extras_match_def)
  have av: "avail (rs_packet s) (extra_tokens (Some w) @ ts)" using assms(1) w by simp
  show ?thesis
    using assms(4) x w av
      avail_val [of "rs_packet s" "ex_floatData w" ts] avail_val [of "rs_packet s" "ex_floatData2 w" ts]
      avail_val [of "rs_packet s" "ex_byteData w" ts] avail_val [of "rs_packet s" "ex_int32Data w" ts]
      avail_bits [of "rs_packet s" 2 "ex_2bitsData w" ts]
    by (cases e) (auto simp: extra_shape_def ReadNextElement_def read_extra_data_def extra_tokens_def
        copy_extra_def copy_extra_data_def)
qed

lemma ucast_u16_u32 [simp]: "(ucast (ucast x :: u32) :: u16) = (x :: u16)"
  by (rule bit_word_eqI) (simp add: bit_ucast_iff)

lemma if_take_ex:
  assumes "avail (rs_packet s) (cond_tokens c ts @ us)"
    and "c \<Longrightarrow> avail (rs_packet s) (ts @ us) \<Longrightarrow>
      \<exists>b. F s = Inr (s'\<lparr>rs_packet := b\<rparr>) \<and> avail b us"
    and "\<not> c \<Longrightarrow> s' = s"
  shows "\<exists>b. (if c then F s else Inr s) = Inr (s'\<lparr>rs_packet := b\<rparr>) \<and> avail b us"
  using assms by (cases c) (auto intro: exI [of _ "rs_packet s"])

lemma read_element_learn:
  assumes ag: "agree h m K s" and co: "coherent h"
    and nd: "list_all (\<lambda>f. List.member K f) (elem_needs e)" and sh: "elem_shape e exs \<noteq> None"
    and exw: "extras_match exs exw" and exr: "extras_match exs (rs_extras s)"
    and av: "avail (rs_packet s) (elem_tokens now h m exw e @ ts)"
  shows "\<exists>b. read_element fe e s = Inr ((learn fe now h m exw e s)\<lparr>rs_packet := b\<rparr>) \<and> avail b ts"
proof -
  have known: "\<forall>f \<in> set (elem_needs e). fact_ok h m s f"
    using needs_hold [OF ag nd] .
  have absent: "\<not> h_transportData h \<longrightarrow> \<not> h_transportTime2 (rs_has s) \<and> \<not> h_transportVehicleId (rs_has s)"
    "\<not> h_fallData h \<longrightarrow> \<not> h_fallDirection (rs_has s)" "rs_forcesCount s = 0"
    using ag by (auto simp: agree_def)
  show ?thesis
  proof (cases "e = MSEExtraElement")
    case True
    with sh obtain x xs where x: "exs = x # xs" "extra_shape x \<noteq> None"
      by (auto simp: elem_shape_def split: list.splits)
    have "avail (rs_packet s) (extra_tokens exw @ ts)"
      using av True by (simp add: elem_tokens_def)
    with x exw exr obtain b where "ReadNextElement (rs_extras s) (rs_packet s) =
        Inr (copy_extra exw MSEExtraElement (rs_extras s), b)" "avail b ts"
      using read_extra_ex by blast
    with True show ?thesis
      by (intro exI [of _ b]) (simp add: read_element_def learn_def learn_has_def learn_guid_def
        learn_tguid_def copy_element_def copy_mount_def)
  next
    case False
    show ?thesis
      apply (cases e)
      apply (use False sh known av in \<open>simp_all add: read_element_def learn_def learn_has_def
        learn_guid_def learn_tguid_def copy_element_def copy_mount_def copy_extra_def elem_needs_def
        elem_shape_def elem_tokens_def split del: if_split split_of_bool\<close>)
      apply ((rule exI [of _ "rs_packet s"], simp add: absent; fail) | (erule take_forces_ex, simp add: absent; fail)
        | (erule take_has_ex, simp; fail)
        | (rule take_val_ex, assumption, simp, simp, simp; fail)
        | (rule take_val_ex [where c = True], simp, simp, simp, simp; fail)
        | (erule take_bits_ex, simp, simp; fail)
        | (rule if_take_ex, assumption, simp split del: split_of_bool,
            (erule take_has_ex | erule take_guid_bit_ex | erule take_guid_byte_ex | erule take_mount_ex
              | erule skip_u32_ex), (simp split: if_splits)+; fail)
        | (erule take_guid_bit_ex, (simp split: if_splits)+; fail)
        | (erule take_guid_byte_ex, (simp split: if_splits)+; fail)
        | (erule take_mount_ex, simp; fail) | (erule skip_u32_ex, simp; fail))+
      done
  qed
qed

end
