(* ===== verification/MovementRoundtrip.thy ===== *)
theory MovementRoundtrip
  imports MovementElement
begin

text \<open>
  The round trip of the movement block. On a sequence that passes \<open>layout_ok\<close> the writer never fails,
  the reader consumes exactly what the writer produced, and what it stores is a copy of the mover.
\<close>

subsection \<open>The shape of what an element writes\<close>

fun shaped :: "shape \<Rightarrow> token list \<Rightarrow> bool" where
  "shaped (Bits n) ts \<longleftrightarrow> bits_only ts \<and> length ts = n"
| "shaped MaybeBits ts \<longleftrightarrow> bits_only ts"
| "shaped Bytes ts \<longleftrightarrow> bytes_only ts \<and> ts \<noteq> []"
| "shaped MaybeBytes ts \<longleftrightarrow> bytes_only ts"
| "shaped Nothing ts \<longleftrightarrow> ts = []"

lemma only_cond [simp]:
  "bits_only ts \<Longrightarrow> bits_only (cond_tokens c ts)" "bytes_only ts \<Longrightarrow> bytes_only (cond_tokens c ts)"
  by (auto simp: cond_tokens_def bits_only_def bytes_only_def)

lemma extras_match_el:
  "extras_match (e # exs) ex \<Longrightarrow> \<exists>x. ex = Some x \<and> ex_index x < length (ex_elements x) \<and>
     ex_elements x ! ex_index x = e \<and> drop (Suc (ex_index x)) (ex_elements x) = exs"
  unfolding extras_match_def
  by (metis Cons_nth_drop_Suc drop_all leI list.distinct(1) list.inject)

lemma extra_tokens_shaped:
  assumes "extras_match (e # exs) ex" and "extra_shape e = Some sh"
  shows "shaped sh (extra_tokens ex)" and "length (extra_tokens ex) \<le> 40"
  using extras_match_el [OF assms(1)] assms(2)
  by (cases e; auto simp: extra_shape_def extra_tokens_def)+

lemma elem_tokens_shaped:
  assumes "elem_shape e exs = Some sh" and "extras_match exs ex" and "coherent h"
  shows "shaped sh (elem_tokens now h m ex e)"
proof (cases "e = MSEExtraElement")
  case True
  with assms(1) obtain x xs where "exs = x # xs" "extra_shape x = Some sh"
    by (auto simp: elem_shape_def split: list.splits)
  with True assms(2) extra_tokens_shaped(1) show ?thesis by (simp add: elem_tokens_def)
next
  case False
  with assms show ?thesis
    by (cases e) (auto simp: elem_shape_def elem_tokens_def coherent_def split: if_splits)
qed

lemma length_cond_tokens: "length ts \<le> n \<Longrightarrow> length (cond_tokens c ts) \<le> n"
  by (simp add: cond_tokens_def)

lemma length_elem_tokens:
  assumes "elem_shape e exs \<noteq> None" and "extras_match exs ex"
  shows "length (elem_tokens now h m ex e) \<le> 40"
proof (cases "e = MSEExtraElement")
  case True
  with assms(1) obtain x xs sh where "exs = x # xs" "extra_shape x = Some sh"
    by (auto simp: elem_shape_def split: list.splits)
  with True assms(2) extra_tokens_shaped(2) show ?thesis by (simp add: elem_tokens_def)
next
  case False
  have "length (byteseq_tokens x) \<le> 40" for x
    using length_byteseq_tokens [of x] by simp
  with False show ?thesis
    by (cases e) (simp_all add: elem_tokens_def length_cond_tokens)
qed

subsection \<open>A checked sequence\<close>

fun seq_tokens ::
  "u32 \<Rightarrow> has_locals \<Rightarrow> mover \<Rightarrow> extra_element option \<Rightarrow> MovementStatusElements list \<Rightarrow> token list"
where
  "seq_tokens now h m ex [] = []"
| "seq_tokens now h m ex (e # es) = (if e = MSEEnd then []
     else elem_tokens now h m ex e @ seq_tokens now h (next_mover e m) (next_extra e ex) es)"

fun seq_mover :: "MovementStatusElements list \<Rightarrow> mover \<Rightarrow> mover" where
  "seq_mover [] m = m"
| "seq_mover (e # es) m = (if e = MSEEnd then m else seq_mover es (next_mover e m))"

fun seq_extra :: "MovementStatusElements list \<Rightarrow> extra_element option \<Rightarrow> extra_element option" where
  "seq_extra [] ex = ex"
| "seq_extra (e # es) ex = (if e = MSEEnd then ex else seq_extra es (next_extra e ex))"

fun seq_learn ::
  "float_env \<Rightarrow> u32 \<Rightarrow> has_locals \<Rightarrow> mover \<Rightarrow> extra_element option \<Rightarrow> MovementStatusElements list
     \<Rightarrow> read_state \<Rightarrow> read_state"
where
  "seq_learn fe now h m exw [] s = s"
| "seq_learn fe now h m exw (e # es) s = (if e = MSEEnd then s
     else seq_learn fe now h (next_mover e m) (next_extra e exw) es (learn fe now h m exw e s))"

lemma layout_stepD:
  assumes "layout_step e ls = Some ls'"
  obtains sh where "list_all (\<lambda>f. List.member (ls_known ls) f) (elem_needs e)"
    and "elem_shape e (ls_extras ls) = Some sh"
    and "shape_step sh (ls_bits ls, ls_stale ls) = Some (ls_bits ls', ls_stale ls')"
    and "ls_known ls' = elem_gives e @ filter (\<lambda>f. \<not> List.member (elem_drops e) f) (ls_known ls)"
    and "ls_extras ls' = (if e = MSEExtraElement then tl (ls_extras ls) else ls_extras ls)"
  using assms by (auto simp: layout_step_def split: if_splits option.splits)

lemma extras_match_next:
  assumes "extras_match exs ex" and "elem_shape e exs \<noteq> None"
  shows "extras_match (if e = MSEExtraElement then tl exs else exs) (next_extra e ex)"
  using assms extras_match_el
  by (cases exs) (fastforce simp: next_extra_def extras_match_def elem_shape_def)+

lemma extras_match_copy:
  assumes "extras_match exs ex" and "extras_match exs exw" and "elem_shape e exs \<noteq> None"
  shows "extras_match (if e = MSEExtraElement then tl exs else exs) (copy_extra exw e ex)"
proof (cases "e = MSEExtraElement \<and> tl exs \<noteq> []")
  case True
  then obtain y ys where e: "e = MSEExtraElement" "exs = y # ys" by (cases exs) auto
  from extras_match_el [of y ys ex] extras_match_el [of y ys exw] assms e obtain x w where
    "ex = Some x" "drop (Suc (ex_index x)) (ex_elements x) = ys" "exw = Some w"
    by auto
  moreover have "ex_index (copy_extra_data d w z) = ex_index z"
    "ex_elements (copy_extra_data d w z) = ex_elements z" for d z
    by (cases d; simp add: copy_extra_data_def)+
  ultimately show ?thesis using e by (simp add: copy_extra_def extras_match_def)
next
  case False
  with assms show ?thesis by (auto simp: copy_extra_def extras_match_def)
qed

lemma learn_packet [simp]:
  "learn fe now h m ex e (s\<lparr>rs_packet := b\<rparr>) = (learn fe now h m ex e s)\<lparr>rs_packet := b\<rparr>"
  by (simp add: learn_def)

lemma seq_learn_packet [simp]:
  "seq_learn fe now h m ex es (s\<lparr>rs_packet := b\<rparr>) = (seq_learn fe now h m ex es s)\<lparr>rs_packet := b\<rparr>"
  by (induction es arbitrary: m ex s) simp_all

lemma write_elements_emit:
  assumes "layout seq ls \<noteq> None" and "extras_match (ls_extras ls) ex" and "coherent h"
    and "room (40 * Suc (length seq)) st"
  shows "write_elements now h seq (m, ex, wstate r st) =
    Inr (seq_mover seq m, seq_extra seq ex, wstate r (emit (seq_tokens now h m ex seq) st))"
  using assms
proof (induction seq arbitrary: m ex st ls)
  case Nil
  then show ?case by simp
next
  case (Cons e es)
  show ?case
  proof (cases "e = MSEEnd")
    case True
    then show ?thesis by simp
  next
    case False
    with Cons.prems(1) obtain ls' where ls': "layout_step e ls = Some ls'" "layout es ls' \<noteq> None"
      by (auto split: option.splits)
    from layout_stepD [OF ls'(1)] obtain sh where sh: "elem_shape e (ls_extras ls) = Some sh"
      and exs: "ls_extras ls' = (if e = MSEExtraElement then tl (ls_extras ls) else ls_extras ls)"
      by metis
    let ?ts = "elem_tokens now h m ex e"
    have len: "length ?ts \<le> 40"
      using length_elem_tokens [of e "ls_extras ls" ex] sh Cons.prems(2) by simp
    have one: "write_element now h e (m, ex, wstate r st) =
        Inr (next_mover e m, next_extra e ex, wstate r (emit ?ts st))"
      using Cons.prems(2,4) sh by (intro write_element_emit [where exs = "ls_extras ls"]) auto
    have "room (40 * Suc (length es)) (emit ?ts st)"
      using Cons.prems(4) len length_emit [of ?ts st] by (auto intro: pending_ok_emit)
    moreover have "extras_match (ls_extras ls') (next_extra e ex)"
      using extras_match_next [OF Cons.prems(2)] sh exs by simp
    ultimately show ?thesis
      using Cons.IH [OF ls'(2) _ Cons.prems(3)] one False by simp
  qed
qed

lemma read_elements_learn:
  assumes "layout seq ls \<noteq> None" and "extras_match (ls_extras ls) exw"
    and "extras_match (ls_extras ls) (rs_extras s)" and "coherent h"
    and "agree h m (ls_known ls) s" and "avail (rs_packet s) (seq_tokens now h m exw seq)"
  shows "\<exists>b ls'. read_elements fe seq s = Inr ((seq_learn fe now h m exw seq s)\<lparr>rs_packet := b\<rparr>) \<and>
      unread_bytes b = [] \<and> layout seq ls = Some ls' \<and>
      agree h (seq_mover seq m) (ls_known ls') (seq_learn fe now h m exw seq s)"
  using assms
proof (induction seq arbitrary: m exw s ls)
  case Nil
  then show ?case by simp
next
  case (Cons e es)
  show ?case
  proof (cases "e = MSEEnd")
    case True
    with Cons.prems show ?thesis
      by (intro exI [of _ "rs_packet s"] exI [of _ ls]) (auto split: if_splits)
  next
    case False
    with Cons.prems(1) obtain ls' where ls': "layout_step e ls = Some ls'" "layout es ls' \<noteq> None"
      by (auto split: option.splits)
    from layout_stepD [OF ls'(1)] obtain sh where
      nd: "list_all (\<lambda>f. List.member (ls_known ls) f) (elem_needs e)"
      and sh: "elem_shape e (ls_extras ls) \<noteq> None"
      and kn: "ls_known ls' = elem_gives e @ filter (\<lambda>f. \<not> List.member (elem_drops e) f) (ls_known ls)"
      and exs: "ls_extras ls' = (if e = MSEExtraElement then tl (ls_extras ls) else ls_extras ls)"
      by (metis option.distinct(1))
    let ?m = "next_mover e m" and ?ex = "next_extra e exw" and ?s = "learn fe now h m exw e s"
    have av: "avail (rs_packet s) (elem_tokens now h m exw e @ seq_tokens now h ?m ?ex es)"
      using Cons.prems(6) False by simp
    from read_element_learn [OF Cons.prems(5,4) nd sh Cons.prems(2,3) av] obtain b where
      b: "read_element fe e s = Inr (?s\<lparr>rs_packet := b\<rparr>)" "avail b (seq_tokens now h ?m ?ex es)"
      by blast
    let ?t = "?s\<lparr>rs_packet := b\<rparr>"
    have "extras_match (ls_extras ls') ?ex"
      using extras_match_next [OF Cons.prems(2) sh] exs by simp
    moreover have "extras_match (ls_extras ls') (rs_extras ?t)"
      using extras_match_copy [OF Cons.prems(3,2) sh] exs by (simp add: learn_def)
    moreover have "agree h ?m (ls_known ls') ?t"
      using agree_learn [OF Cons.prems(5,4) sh] kn by simp
    moreover have "avail (rs_packet ?t) (seq_tokens now h ?m ?ex es)" using b(2) by simp
    ultimately obtain b' l where IH: "read_elements fe es ?t =
        Inr ((seq_learn fe now h ?m ?ex es ?t)\<lparr>rs_packet := b'\<rparr>)" "unread_bytes b' = []" "layout es ls' = Some l"
        "agree h (seq_mover es ?m) (ls_known l) (seq_learn fe now h ?m ?ex es ?t)"
      using Cons.IH [OF ls'(2) _ _ Cons.prems(4)] by blast
    with IH show ?thesis
      using b(1) ls'(1) False by (intro exI [of _ b'] exI [of _ l]) simp
  qed
qed

text \<open>After a stale octet only bytes follow; a checked sequence is aligned and ends on a whole octet.\<close>

lemma shape_step_stale:
  "shape_step sh (k, True) = Some (k', stale') \<Longrightarrow> shaped sh ts \<Longrightarrow> stale' \<and> bytes_only ts"
  by (cases sh) (auto simp: shape_step_def)

lemma layout_stale:
  assumes "layout seq ls \<noteq> None" and "ls_stale ls" and "extras_match (ls_extras ls) ex" and "coherent h"
  shows "bytes_only (seq_tokens now h m ex seq)"
  using assms
proof (induction seq arbitrary: m ex ls)
  case Nil
  then show ?case by simp
next
  case (Cons e es)
  show ?case
  proof (cases "e = MSEEnd")
    case True
    then show ?thesis by simp
  next
    case False
    with Cons.prems(1) obtain ls' where ls': "layout_step e ls = Some ls'" "layout es ls' \<noteq> None"
      by (auto split: option.splits)
    from layout_stepD [OF ls'(1)] obtain sh where sh: "elem_shape e (ls_extras ls) = Some sh"
      and st: "shape_step sh (ls_bits ls, ls_stale ls) = Some (ls_bits ls', ls_stale ls')"
      and exs: "ls_extras ls' = (if e = MSEExtraElement then tl (ls_extras ls) else ls_extras ls)"
      by metis
    have "shape_step sh (ls_bits ls, True) = Some (ls_bits ls', ls_stale ls')"
      using st Cons.prems(2) by simp
    from shape_step_stale [OF this elem_tokens_shaped [OF sh Cons.prems(3,4)]]
    have "ls_stale ls' \<and> bytes_only (elem_tokens now h m ex e)" by blast
    moreover have "extras_match (ls_extras ls') (next_extra e ex)"
      using extras_match_next [OF Cons.prems(3)] sh exs by simp
    ultimately show ?thesis
      using Cons.IH [OF ls'(2) _ _ Cons.prems(4)] False by simp
  qed
qed

lemma shape_step_pending:
  assumes "shape_step sh (k, stale) = Some (k', stale')" and "shaped sh ts"
    and "k = None \<or> k = Some (length (snd st))" and "pending_ok st"
  shows "k' = None \<or> k' = Some (length (snd (emit ts st)))"
  using assms emit_bits_pending [of ts st] emit_bytes_pending [of ts st]
  by (cases sh; cases "ts = []") (auto simp: shape_step_def pending_ok_def split: if_splits)

lemma shape_step_aligned:
  assumes "shape_step sh (k, stale) = Some (k', stale')" and "shaped sh ts"
    and "k = None \<or> k = Some (length (snd st))" and "pending_ok st"
    and "aligned (length (snd (emit ts st))) us" and "stale' \<longrightarrow> bytes_only us"
  shows "aligned (length (snd st)) (ts @ us)"
proof (cases "bits_only ts")
  case True
  with assms(4,5) show ?thesis
    by (simp add: aligned_bits pending_ok_def emit_bits_pending)
next
  case False
  with assms(2) have ts: "bytes_only ts" "ts \<noteq> []"
    by (cases sh; auto)+
  have "length (snd st) = 0 \<or> bytes_only us"
    using assms(1,2,3,6) False by (cases sh) (auto simp: shape_step_def split: if_splits)
  with ts assms(5) show ?thesis
    by (intro aligned_bytes) (simp_all add: emit_bytes_pending)
qed

lemma layout_aligned:
  assumes "layout seq ls \<noteq> None" and "extras_match (ls_extras ls) ex" and "coherent h"
    and "ls_bits ls = None \<or> ls_bits ls = Some (length (snd st))" and "pending_ok st"
  shows "aligned (length (snd st)) (seq_tokens now h m ex seq) \<and>
    snd (emit (seq_tokens now h m ex seq) st) = []"
  using assms
proof (induction seq arbitrary: m ex st ls)
  case Nil
  then show ?case by simp
next
  case (Cons e es)
  show ?case
  proof (cases "e = MSEEnd")
    case True
    with Cons.prems show ?thesis by (auto split: if_splits)
  next
    case False
    with Cons.prems(1) obtain ls' where ls': "layout_step e ls = Some ls'" "layout es ls' \<noteq> None"
      by (auto split: option.splits)
    from layout_stepD [OF ls'(1)] obtain sh where sh: "elem_shape e (ls_extras ls) = Some sh"
      and st: "shape_step sh (ls_bits ls, ls_stale ls) = Some (ls_bits ls', ls_stale ls')"
      and exs: "ls_extras ls' = (if e = MSEExtraElement then tl (ls_extras ls) else ls_extras ls)"
      by metis
    let ?ts = "elem_tokens now h m ex e" and ?us = "seq_tokens now h (next_mover e m) (next_extra e ex) es"
    have shp: "shaped sh ?ts" by (rule elem_tokens_shaped [OF sh Cons.prems(2,3)])
    have ex': "extras_match (ls_extras ls') (next_extra e ex)"
      using extras_match_next [OF Cons.prems(2)] sh exs by simp
    have "aligned (length (snd (emit ?ts st))) ?us \<and> snd (emit ?us (emit ?ts st)) = []"
      using shape_step_pending [OF st shp Cons.prems(4,5)]
      by (intro Cons.IH [OF ls'(2) ex' Cons.prems(3)] pending_ok_emit Cons.prems(5)) simp
    moreover have "ls_stale ls' \<longrightarrow> bytes_only ?us"
      using layout_stale [OF ls'(2) _ ex' Cons.prems(3)] by simp
    ultimately show ?thesis
      using shape_step_aligned [OF st shp Cons.prems(4,5)] False by simp
  qed
qed

subsection \<open>What the reader stores\<close>

text \<open>The movement info a reader ends with when the sequence has the elements \<open>S\<close>.\<close>

definition copied_position ::
  "(u32 \<Rightarrow> u32) \<Rightarrow> bool \<times> bool \<times> bool \<times> bool \<Rightarrow> position \<Rightarrow> position \<Rightarrow> position"
where
  "copied_position nrm c w p = (case c of (x, y, z, o') \<Rightarrow>
     \<lparr>pos_x = (if x then pos_x w else pos_x p), pos_y = (if y then pos_y w else pos_y p),
      pos_z = (if z then pos_z w else pos_z p), pos_o = (if o' then nrm (pos_o w) else pos_o p)\<rparr>)"

definition copied_transport ::
  "float_env \<Rightarrow> has_locals \<Rightarrow> MovementStatusElements set \<Rightarrow> transport_info \<Rightarrow> transport_info \<Rightarrow> transport_info"
where
  "copied_transport fe h S w t =
    (if \<not> h_transportData h then t else
     \<lparr>tr_guid = tr_guid t,
      tr_pos = copied_position (fe_normalize fe) (MSETransportPositionX \<in> S, MSETransportPositionY \<in> S,
        MSETransportPositionZ \<in> S, MSETransportOrientation \<in> S) (tr_pos w) (tr_pos t),
      tr_seat = (if MSETransportSeat \<in> S then tr_seat w else tr_seat t),
      tr_time = (if MSETransportTime \<in> S then tr_time w else tr_time t),
      tr_time2 = (if MSETransportTime2 \<in> S \<and> h_transportTime2 h then tr_time2 w else tr_time2 t),
      tr_vehicleId = (if MSETransportVehicleId \<in> S \<and> h_transportVehicleId h
                      then tr_vehicleId w else tr_vehicleId t)\<rparr>)"

definition copied_jump ::
  "has_locals \<Rightarrow> MovementStatusElements set \<Rightarrow> jump_info \<Rightarrow> jump_info \<Rightarrow> jump_info"
where
  "copied_jump h S w j =
    (if \<not> h_fallData h then j else
     \<lparr>ji_fallTime = (if MSEFallTime \<in> S then ji_fallTime w else ji_fallTime j),
      ji_zspeed = (if MSEFallVerticalSpeed \<in> S then ji_zspeed w else ji_zspeed j),
      ji_sinAngle = (if MSEFallSinAngle \<in> S \<and> h_fallDirection h then ji_sinAngle w else ji_sinAngle j),
      ji_cosAngle = (if MSEFallCosAngle \<in> S \<and> h_fallDirection h then ji_cosAngle w else ji_cosAngle j),
      ji_xyspeed = (if MSEFallHorizontalSpeed \<in> S \<and> h_fallDirection h
                    then ji_xyspeed w else ji_xyspeed j)\<rparr>)"

definition copied_info ::
  "float_env \<Rightarrow> u32 \<Rightarrow> has_locals \<Rightarrow> MovementStatusElements set \<Rightarrow> mover \<Rightarrow> movement_info \<Rightarrow> movement_info"
where
  "copied_info fe now h S m mi = (let w = mv_info m in
     \<lparr>mi_guid = mi_guid mi,
      mi_flags = (if MSEMovementFlags \<in> S \<and> h_movementFlags h then take_bit 30 (mi_flags w) else mi_flags mi),
      mi_flags2 = (if MSEMovementFlags2 \<in> S \<and> h_movementFlags2 h
                   then take_bit 13 (mi_flags2 w) else mi_flags2 mi),
      mi_pos = copied_position (fe_normalize fe) (MSEPositionX \<in> S, MSEPositionY \<in> S, MSEPositionZ \<in> S,
        MSEOrientation \<in> S \<and> h_orientation h) (mv_pos m) (mi_pos mi),
      mi_time = (if MSETimestamp \<in> S \<and> h_timestamp h then now else mi_time mi),
      mi_transport = copied_transport fe h S (mi_transport w) (mi_transport mi),
      mi_pitch = (if MSEPitch \<in> S \<and> h_pitch h then fe_wrap_pi fe (mi_pitch w) else mi_pitch mi),
      mi_jump = copied_jump h S (mi_jump w) (mi_jump mi),
      mi_splineElevation = (if MSESplineElevation \<in> S \<and> h_splineElevation h
                            then mi_splineElevation w else mi_splineElevation mi)\<rparr>)"

definition sequence_elements :: "MovementStatusElements list \<Rightarrow> MovementStatusElements set" where
  "sequence_elements seq = set (takeWhile (\<lambda>e. e \<noteq> MSEEnd) seq)"

lemma copied_info_empty: "copied_info fe now h {} m mi = mi"
  by (cases mi; cases "mi_pos mi"; cases "mi_transport mi"; cases "mi_jump mi";
      cases "tr_pos (mi_transport mi)")
    (simp add: copied_info_def copied_position_def copied_transport_def copied_jump_def Let_def)

lemma copy_element_copied:
  "copied_info fe now h S m (copy_element fe now h m e mi) = copied_info fe now h (insert e S) m mi"
  by (cases e) (simp_all add: copied_info_def copied_position_def copied_transport_def copied_jump_def
      copy_element_def upd_pos_def upd_tpos_def upd_transport_def upd_jump_def Let_def)

lemma copied_info_mover [simp]: "copied_info fe now h S (next_mover e m) mi = copied_info fe now h S m mi"
  by (simp add: copied_info_def next_mover_def)

lemma seq_learn_copied:
  "rs_mi (seq_learn fe now h m ex seq s) = copied_info fe now h (sequence_elements seq) m (rs_mi s)"
proof (induction seq arbitrary: m ex s)
  case Nil
  then show ?case by (simp add: sequence_elements_def copied_info_empty)
next
  case (Cons e es)
  show ?case
  proof (cases "e = MSEEnd")
    case True
    then show ?thesis by (simp add: sequence_elements_def copied_info_empty)
  next
    case False
    then have "sequence_elements (e # es) = insert e (sequence_elements es)"
      by (auto simp: sequence_elements_def)
    with False Cons.IH show ?thesis by (simp add: learn_def copy_element_copied)
  qed
qed

lemma seq_mover_info [simp]:
  "mv_guid (seq_mover seq m) = mv_guid m" "mv_trans_guid (seq_mover seq m) = mv_trans_guid m"
  by (induction seq arbitrary: m) (simp_all add: next_mover_def)

lemma agree_guid:
  assumes "agree h m K s" and "list_all (\<lambda>i. List.member K (FByte i)) [0..<8]"
  shows "rs_guid s = mv_guid m"
proof (rule guid_eq_iff_bytes)
  fix i :: nat
  assume "i < 8"
  with assms(2) have "FByte i \<in> set K" by (simp add: list_all_iff)
  with assms(1) have "fact_ok h m s (FByte i)" unfolding agree_def by blast
  then show "word_byte (rs_guid s) i = word_byte (mv_guid m) i" by simp
qed

lemma agree_tguid:
  assumes "agree h m K s" and "list_all (\<lambda>i. List.member K (FTByte i)) [0..<8]"
  shows "rs_tguid s = (if h_transportData h then mv_trans_guid m else 0)"
proof (cases "h_transportData h")
  case True
  have "rs_tguid s = mv_trans_guid m"
  proof (rule guid_eq_iff_bytes)
    fix i :: nat
    assume "i < 8"
    with assms(2) have "FTByte i \<in> set K" by (simp add: list_all_iff)
  with assms(1) have "fact_ok h m s (FTByte i)" unfolding agree_def by blast
    with True show "word_byte (rs_tguid s) i = word_byte (mv_trans_guid m) i" by simp
  qed
  with True show ?thesis by simp
next
  case False
  with assms show ?thesis by (simp add: agree_def)
qed

lemma layout_transport:
  assumes "layout seq ls = Some ls'"
  shows "List.member (ls_known ls') FTransport \<longleftrightarrow>
    List.member (ls_known ls) FTransport \<or> MSEHasTransportData \<in> sequence_elements seq"
  using assms
proof (induction seq arbitrary: ls)
  case Nil
  then show ?case by simp
next
  case (Cons e es)
  show ?case
  proof (cases "e = MSEEnd")
    case True
    with Cons.prems show ?thesis by (auto simp: sequence_elements_def split: if_splits)
  next
    case False
    with Cons.prems obtain l where l: "layout_step e ls = Some l" "layout es l = Some ls'"
      by (auto split: option.splits)
    have "FTransport \<in> set (elem_gives e) \<longleftrightarrow> e = MSEHasTransportData" "FTransport \<notin> set (elem_drops e)"
      by (cases e; simp add: elem_gives_def elem_drops_def)+
    with l(1) have "List.member (ls_known l) FTransport \<longleftrightarrow>
        List.member (ls_known ls) FTransport \<or> e = MSEHasTransportData"
      by (auto elim!: layout_stepD)
    with False Cons.IH [OF l(2)] show ?thesis by (auto simp: sequence_elements_def)
  qed
qed

lemma seq_learn_tguid:
  assumes "layout seq ls = Some ls'" and "\<not> List.member (ls_known ls') FTransport"
  shows "rs_tguid (seq_learn fe now h m ex seq s) = rs_tguid s"
  using assms
proof (induction seq arbitrary: m ex s ls)
  case Nil
  then show ?case by simp
next
  case (Cons e es)
  show ?case
  proof (cases "e = MSEEnd")
    case True
    then show ?thesis by simp
  next
    case False
    with Cons.prems obtain l where l: "layout_step e ls = Some l" "layout es l = Some ls'"
      by (auto split: option.splits)
    have "\<not> List.member (ls_known l) FTransport"
      using layout_transport [OF l(2)] Cons.prems(2) by blast
    moreover have "FTransport \<notin> set (elem_drops e)"
      by (cases e; simp add: elem_drops_def)
    ultimately have "\<not> List.member (ls_known ls) FTransport"
      using l(1) by (auto elim!: layout_stepD)
    with l(1) have "FTransport \<notin> set (elem_needs e)"
      by (auto elim!: layout_stepD simp: list_all_iff)
    then have "learn_tguid h m e g = g" for g
      by (cases e) (simp_all add: elem_needs_def learn_tguid_def)
    with False Cons.IH [OF l(2) Cons.prems(2)] show ?thesis by (simp add: learn_def)
  qed
qed

text \<open>The reader's flags after the loop that the flag checks consult.\<close>

definition received_locals :: "has_locals \<Rightarrow> MovementStatusElements set \<Rightarrow> has_locals \<Rightarrow> has_locals" where
  "received_locals h S r = r\<lparr>
     h_fallData := (if MSEHasFallData \<in> S then h_fallData h else h_fallData r),
     h_fallDirection := (if MSEHasFallDirection \<in> S \<and> h_fallData h then h_fallDirection h else h_fallDirection r),
     h_splineElevation := (if MSEHasSplineElevation \<in> S then h_splineElevation h else h_splineElevation r)\<rparr>"

lemma learn_has_received:
  "received_locals h S (learn_has h m e r) = received_locals h (insert e S) (learn_has h m e r)"
  by (cases e) (simp_all add: received_locals_def learn_has_def)

definition check_flags :: "has_locals \<Rightarrow> bool \<times> bool \<times> bool" where
  "check_flags r = (h_fallData r, h_fallDirection r, h_splineElevation r)"

lemma check_flags_learn:
  "check_flags (received_locals h S (learn_has h m e r)) = check_flags (received_locals h (insert e S) r)"
  by (cases e) (simp_all add: received_locals_def learn_has_def check_flags_def)

lemma seq_learn_check_flags:
  "check_flags (rs_has (seq_learn fe now h m ex seq s)) =
     check_flags (received_locals h (sequence_elements seq) (rs_has s))"
proof (induction seq arbitrary: m ex s)
  case Nil
  then show ?case by (simp add: sequence_elements_def received_locals_def check_flags_def)
next
  case (Cons e es)
  show ?case
  proof (cases "e = MSEEnd")
    case True
    then show ?thesis by (simp add: sequence_elements_def received_locals_def check_flags_def)
  next
    case False
    then have "sequence_elements (e # es) = insert e (sequence_elements es)"
      by (auto simp: sequence_elements_def)
    with False Cons.IH show ?thesis by (simp add: learn_def check_flags_learn)
  qed
qed

lemma remove_violating_flags_cong:
  "check_flags h = check_flags h' \<Longrightarrow>
     remove_violating_flags fe me h e f = remove_violating_flags fe me h' e f"
  by (simp add: remove_violating_flags_def check_flags_def)

subsection \<open>The round trip\<close>

text \<open>What the server knows of a mover after it has parsed the block.\<close>

definition delivered_info ::
  "float_env \<Rightarrow> mover_env \<Rightarrow> u32 \<Rightarrow> MovementStatusElements set \<Rightarrow> mover \<Rightarrow> movement_info \<Rightarrow> movement_info"
where
  "delivered_info fe me now S m mi0 =
    (let h = writer_locals fe m;
         r = received_locals h S reader_locals;
         mi = copied_info fe now h S m mi0;
         f = remove_violating_flags fe me r (mi_splineElevation mi) (mi_flags mi)
     in mi\<lparr>mi_guid := mv_guid m,
           mi_transport := (mi_transport mi)\<lparr>tr_guid :=
             (if MSEHasTransportData \<in> S then mv_trans_guid m else 0)\<rparr>,
           mi_flags := (if h_splineElevation r then f OR MOVEMENTFLAG_SPLINE_ELEVATION else f)\<rparr>)"

lemma elements_roundtrip:
  assumes ok: "layout_ok exs seq" and exw: "extras_match exs exw" and exr: "extras_match exs exr"
  shows "\<exists>bs b s. write_elements now (writer_locals fe m) seq (m, exw, bb_new) =
        Inr (seq_mover seq m, seq_extra seq exw, wstate 0 (bs, [])) \<and>
      read_elements fe seq (reader_init mi0 mount exr (bb_received bs)) = Inr (s\<lparr>rs_packet := b\<rparr>) \<and>
      unread_bytes b = [] \<and>
      rs_mi (finish_movement_info fe me s) = delivered_info fe me now (sequence_elements seq) m mi0"
proof -
  let ?h = "writer_locals fe m" and ?K = "layout_init exs" and ?S = "sequence_elements seq"
  let ?ts = "seq_tokens now ?h m exw seq"
  have co: "coherent ?h" by (rule coherent_writer_locals)
  from ok obtain ls where len: "length seq \<le> 1000" and ls: "layout seq ?K = Some ls"
    and gb: "list_all (\<lambda>i. List.member (ls_known ls) (FByte i)) [0..<8]"
    and tb: "List.member (ls_known ls) FTransport \<longrightarrow>
      list_all (\<lambda>i. List.member (ls_known ls) (FTByte i)) [0..<8]"
    by (auto simp: layout_ok_def split: option.splits)
  have ok': "layout seq ?K \<noteq> None" and mw: "extras_match (ls_extras ?K) exw"
    and mr: "extras_match (ls_extras ?K) exr" and kn: "ls_known ?K = []"
    and kb: "ls_bits ?K = None \<or> ls_bits ?K = Some (length (snd ([] :: u8 list, [] :: bool list)))"
    using ls exw exr by (simp_all add: layout_init_def)
  obtain bs where bs: "emit ?ts ([], []) = (bs, [])"
    using layout_aligned [OF ok' mw co kb] by (metis pending_ok_Nil prod.collapse)
  have al: "aligned 0 ?ts"
    using layout_aligned [OF ok' mw co kb] by simp
  have w: "write_elements now ?h seq (m, exw, bb_new) =
      Inr (seq_mover seq m, seq_extra seq exw, wstate 0 (bs, []))"
    using write_elements_emit [OF ok' mw co, of "([], [])" now m 0] len bs
    by (simp add: bb_new_wstate bb_limit_def)
  let ?init = "reader_init mi0 mount exr (bb_received bs)"
  let ?s = "seq_learn fe now ?h m exw seq ?init"
  have "readable [] bs ?ts" using emit_readable [OF bs] al by simp
  then have av: "avail (rs_packet ?init) ?ts"
    by (simp add: reader_init_def received_wstate wstate_def pending_bits_def unread_bytes_def)
  have "extras_match (ls_extras ?K) (rs_extras ?init)" "agree ?h m (ls_known ?K) ?init"
    using mr kn by (simp_all add: reader_init_def agree_init [unfolded reader_init_def])
  from read_elements_learn [OF ok' mw this(1) co this(2) av] ls obtain b where
    r: "read_elements fe seq ?init = Inr (?s\<lparr>rs_packet := b\<rparr>)" "unread_bytes b = []"
    and ag: "agree ?h (seq_mover seq m) (ls_known ls) ?s"
    by auto
  have g: "rs_guid ?s = mv_guid m"
    using agree_guid [OF ag gb] by simp
  have tg: "rs_tguid ?s = (if MSEHasTransportData \<in> ?S then mv_trans_guid m else 0)"
  proof (cases "MSEHasTransportData \<in> ?S")
    case True
    then have "List.member (ls_known ls) FTransport" using layout_transport [OF ls] by blast
    with True agree_tguid [OF ag] tb show ?thesis by (simp add: writer_locals_def Let_def)
  next
    case False
    then have "\<not> List.member (ls_known ls) FTransport" using layout_transport [OF ls] kn by simp
    with False seq_learn_tguid [OF ls] show ?thesis by (simp add: reader_init_def)
  qed
  have mi: "rs_mi ?s = copied_info fe now ?h ?S m mi0"
    by (simp add: seq_learn_copied reader_init_def)
  have cf: "check_flags (rs_has ?s) = check_flags (received_locals ?h ?S reader_locals)"
    by (simp add: seq_learn_check_flags reader_init_def)
  have "rs_mi (finish_movement_info fe me ?s) = delivered_info fe me now ?S m mi0"
    using cf by (simp add: finish_movement_info_def delivered_info_def Let_def g tg mi upd_transport_def
      remove_violating_flags_cong [OF cf] check_flags_def)
  with w r show ?thesis by blast
qed

end
