(* ===== verification/MovementChecks.thy ===== *)
theory MovementChecks
  imports MovementRoundtrip
begin

text \<open>
  The consequences for the opcodes: which packets are checked, the round trip of
  \<open>Unit::WriteMovementInfo\<close> and \<open>Player::ReadMovementInfo\<close> on them, what the flag checks guarantee,
  and the packets whose array is not the inverse of itself.
\<close>

subsection \<open>The checked packets\<close>

text \<open>The movement packets a client sends for its own mover; none has extra elements.\<close>

definition client_move_opcodes :: "Opcodes list" where
  "client_move_opcodes = [
     MSG_MOVE_FALL_LAND, MSG_MOVE_HEARTBEAT, MSG_MOVE_JUMP, MSG_MOVE_SET_FACING,
     MSG_MOVE_SET_PITCH, MSG_MOVE_START_ASCEND, MSG_MOVE_START_BACKWARD,
     MSG_MOVE_START_DESCEND, MSG_MOVE_START_FORWARD, MSG_MOVE_START_PITCH_DOWN,
     MSG_MOVE_START_PITCH_UP, MSG_MOVE_START_STRAFE_LEFT, MSG_MOVE_START_STRAFE_RIGHT,
     MSG_MOVE_START_SWIM, MSG_MOVE_START_TURN_LEFT, MSG_MOVE_START_TURN_RIGHT,
     MSG_MOVE_STOP, MSG_MOVE_STOP_ASCEND, MSG_MOVE_STOP_PITCH, MSG_MOVE_STOP_STRAFE,
     MSG_MOVE_STOP_SWIM, MSG_MOVE_STOP_TURN]"

text \<open>The opcodes whose array passes the check, each with the extra elements its senders supply.\<close>

definition checked_opcodes :: "(Opcodes \<times> MovementStatusElements list) list" where
  "checked_opcodes = map (\<lambda>opcode. (opcode, [])) client_move_opcodes @ [
     (SMSG_PLAYER_MOVE, []), (CMSG_MOVE_SPLINE_DONE, [MSEExtraInt32]),
     (CMSG_MOVE_SET_COLLISION_HEIGHT_ACK, [MSEExtraFloat, MSEExtra2Bits]),
     (SMSG_MOVE_UPDATE_COLLISION_HEIGHT, [MSEExtraFloat, MSEExtraFloat2]),
     (SMSG_MOVE_UPDATE_FLIGHT_SPEED, [MSEExtraFloat]),
     (SMSG_MOVE_UPDATE_RUN_SPEED, [MSEExtraFloat]),
     (SMSG_MOVE_SPLINE_SET_WALK_BACK_SPEED, [MSEExtraFloat]),
     (SMSG_MOVE_SPLINE_SET_RUN_SPEED, [MSEExtraFloat]),
     (SMSG_MOVE_SPLINE_SET_RUN_BACK_SPEED, [MSEExtraFloat]),
     (SMSG_MOVE_SPLINE_SET_SWIM_SPEED, [MSEExtraFloat]),
     (SMSG_MOVE_SPLINE_SET_SWIM_BACK_SPEED, [MSEExtraFloat]),
     (SMSG_MOVE_SPLINE_SET_TURN_RATE, [MSEExtraFloat]),
     (SMSG_MOVE_SPLINE_SET_FLIGHT_SPEED, [MSEExtraFloat]),
     (SMSG_MOVE_SPLINE_SET_FLIGHT_BACK_SPEED, [MSEExtraFloat]),
     (SMSG_MOVE_SPLINE_SET_PITCH_RATE, [MSEExtraFloat]),
     (SMSG_MOVE_SET_FLIGHT_SPEED, [MSEExtraFloat]), (SMSG_MOVE_SPLINE_SET_RUN_MODE, []),
     (SMSG_MOVE_SPLINE_GRAVITY_DISABLE, []), (SMSG_MOVE_SPLINE_GRAVITY_ENABLE, []),
     (SMSG_MOVE_SPLINE_SET_HOVER, []), (SMSG_MOVE_SPLINE_UNSET_HOVER, []),
     (SMSG_MOVE_SPLINE_START_SWIM, []), (SMSG_MOVE_SPLINE_STOP_SWIM, []),
     (SMSG_MOVE_SPLINE_SET_FLYING, []), (SMSG_MOVE_SPLINE_UNSET_FLYING, []),
     (SMSG_MOVE_SPLINE_SET_WATER_WALK, []), (SMSG_MOVE_SPLINE_SET_LAND_WALK, []),
     (SMSG_MOVE_SPLINE_SET_FEATHER_FALL, []), (SMSG_MOVE_SPLINE_ROOT, []),
     (SMSG_MOVE_GRAVITY_DISABLE, []), (SMSG_MOVE_FEATHER_FALL, []), (SMSG_MOVE_ROOT, [])]"

definition opcode_layout_ok :: "Opcodes \<Rightarrow> MovementStatusElements list \<Rightarrow> bool" where
  "opcode_layout_ok opcode exs = (case GetMovementStatusElementsSequence opcode of
       None \<Rightarrow> False | Some seq \<Rightarrow> layout_ok exs seq)"

lemma checked_opcodes_ok: "list_all (\<lambda>(opcode, exs). opcode_layout_ok opcode exs) checked_opcodes"
  by code_simp

lemma checked_opcodeE:
  assumes "(opcode, exs) \<in> set checked_opcodes"
  obtains seq where "GetMovementStatusElementsSequence opcode = Some seq" "layout_ok exs seq"
proof -
  have "opcode_layout_ok opcode exs"
    using checked_opcodes_ok assms by (auto simp: list_all_iff)
  with that show ?thesis by (auto simp: opcode_layout_ok_def split: option.splits)
qed

lemma movement_transfer:
  assumes "(opcode, exs) \<in> set checked_opcodes"
    and "extras_match exs exw" and "extras_match exs exr"
  shows "\<exists>seq bs s. GetMovementStatusElementsSequence opcode = Some seq \<and>
      WriteMovementInfo fe now opcode (m, exw, bb_new) =
        Inr (seq_mover seq m, seq_extra seq exw, wstate 0 (bs, [])) \<and>
      ReadMovementInfo fe me opcode mi0 mount exr (bb_received bs) = Inr s \<and>
      unread_bytes (rs_packet s) = [] \<and>
      rs_mi s = delivered_info fe me now (sequence_elements seq) m mi0"
proof -
  from checked_opcodeE [OF assms(1)] obtain seq where
    seq: "GetMovementStatusElementsSequence opcode = Some seq" "layout_ok exs seq" .
  from elements_roundtrip [OF seq(2) assms(2,3), of now fe m mi0 mount me] obtain bs b s where
    w: "write_elements now (writer_locals fe m) seq (m, exw, bb_new) =
        Inr (seq_mover seq m, seq_extra seq exw, wstate 0 (bs, []))"
    and r: "read_elements fe seq (reader_init mi0 mount exr (bb_received bs)) = Inr (s\<lparr>rs_packet := b\<rparr>)"
    and b: "unread_bytes b = []"
    and mi: "rs_mi (finish_movement_info fe me s) = delivered_info fe me now (sequence_elements seq) m mi0"
    by blast
  have fin: "finish_movement_info fe me (s\<lparr>rs_packet := b\<rparr>) = (finish_movement_info fe me s)\<lparr>rs_packet := b\<rparr>"
    by (simp add: finish_movement_info_def Let_def)
  show ?thesis
    using seq w r b mi fin
    by (intro exI [of _ seq] exI [of _ bs] exI [of _ "(finish_movement_info fe me s)\<lparr>rs_packet := b\<rparr>"])
      (simp add: WriteMovementInfo_def ReadMovementInfo_def)
qed

text \<open>The elements that carry a field, with the bits that announce the optional ones.\<close>

definition field_elements :: "MovementStatusElements list" where
  "field_elements = [MSEHasTransportData, MSEHasFallData, MSEHasFallDirection, MSEHasSplineElevation,
     MSEMovementFlags, MSEMovementFlags2, MSETimestamp, MSEPositionX, MSEPositionY, MSEPositionZ,
     MSEOrientation, MSETransportPositionX, MSETransportPositionY, MSETransportPositionZ,
     MSETransportOrientation, MSETransportSeat, MSETransportTime, MSETransportTime2,
     MSETransportVehicleId, MSEPitch, MSEFallTime, MSEFallVerticalSpeed, MSEFallCosAngle,
     MSEFallSinAngle, MSEFallHorizontalSpeed, MSESplineElevation]"

definition carries_all_fields :: "Opcodes \<Rightarrow> bool" where
  "carries_all_fields opcode = (case GetMovementStatusElementsSequence opcode of
       None \<Rightarrow> False
     | Some seq \<Rightarrow> list_all (\<lambda>e. List.member (takeWhile (\<lambda>x. x \<noteq> MSEEnd) seq) e) field_elements)"

text \<open>
  Every movement packet of a player (the MSG_MOVE opcodes and SMSG_PLAYER_MOVE) carries every
  field of the movement info, so its round trip loses none.
\<close>

theorem client_packets_complete: "list_all carries_all_fields (SMSG_PLAYER_MOVE # client_move_opcodes)"
  by code_simp

subsection \<open>The flag checks\<close>

definition flags_le :: "u32 \<Rightarrow> u32 \<Rightarrow> bool" where
  "flags_le g f \<longleftrightarrow> g AND f = g"

lemma flags_le_iff: "flags_le g f \<longleftrightarrow> (\<forall>n. bit g n \<longrightarrow> bit f n)"
proof
  assume "flags_le g f"
  then show "\<forall>n. bit g n \<longrightarrow> bit f n" by (metis flags_le_def bit_and_iff)
next
  assume "\<forall>n. bit g n \<longrightarrow> bit f n"
  then show "flags_le g f" unfolding flags_le_def by (intro bit_word_eqI) (auto simp: bit_and_iff)
qed

lemma has_flag_iff: "has_flag f x \<longleftrightarrow> (\<exists>n. bit f n \<and> bit x n)"
proof -
  have "f AND x = 0 \<longleftrightarrow> (\<forall>n. \<not> bit (f AND x) n)"
    by (metis bit_0_eq bot_apply bot_bool_def bit_word_eqI)
  then show ?thesis by (simp add: has_flag_def bit_and_iff)
qed

lemma bit_remove_flag: "bit (remove_flag f x) n \<longleftrightarrow> bit f n \<and> \<not> bit x n"
  by (auto simp: remove_flag_def bit_and_iff bit_not_iff dest: bit_imp_le_length)

lemma flags_le_trans: "flags_le h g \<Longrightarrow> flags_le g f \<Longrightarrow> flags_le h f"
  by (auto simp: flags_le_iff)

lemma has_flag_mono: "flags_le g f \<Longrightarrow> has_flag g x \<Longrightarrow> has_flag f x"
  by (auto simp: flags_le_iff has_flag_iff)

lemma remove_if_le: "flags_le (remove_if c msk f) f"
  by (auto simp: remove_if_def flags_le_iff bit_remove_flag)

lemma not_has_removed: "\<not> has_flag (remove_flag f (x OR y)) x" "\<not> has_flag (remove_flag f x) x"
  by (auto simp: has_flag_iff bit_remove_flag bit_or_iff)

lemma remove_if_cond:
  "has_flag (remove_if (has_flag f x \<and> c) x f) x \<Longrightarrow> \<not> c"
  using not_has_removed(2) [of f x] by (auto simp: remove_if_def split: if_splits)

lemma remove_both_both: "\<not> both_flags (remove_both x y f) x y"
  using not_has_removed by (auto simp: remove_both_def remove_if_def both_flags_def)

lemma both_flags_mono: "flags_le g f \<Longrightarrow> both_flags g x y \<Longrightarrow> both_flags f x y"
  by (auto simp: both_flags_def has_flag_mono)

text \<open>What the checks guarantee of the flags \<open>g\<close> that remain.\<close>

definition flags_safe :: "mover_env \<Rightarrow> has_locals \<Rightarrow> u32 \<Rightarrow> bool" where
  "flags_safe me h g \<longleftrightarrow>
     \<not> has_flag g MOVEMENTFLAG_ROOT \<and>
     (has_flag g MOVEMENTFLAG_HOVER \<longrightarrow> me_hover_aura me) \<and>
     \<not> both_flags g MOVEMENTFLAG_ASCENDING MOVEMENTFLAG_DESCENDING \<and>
     \<not> both_flags g MOVEMENTFLAG_LEFT MOVEMENTFLAG_RIGHT \<and>
     \<not> both_flags g MOVEMENTFLAG_STRAFE_LEFT MOVEMENTFLAG_STRAFE_RIGHT \<and>
     \<not> both_flags g MOVEMENTFLAG_PITCH_UP MOVEMENTFLAG_PITCH_DOWN \<and>
     \<not> both_flags g MOVEMENTFLAG_FORWARD MOVEMENTFLAG_BACKWARD \<and>
     (has_flag g MOVEMENTFLAG_WATERWALKING \<longrightarrow> me_water_walk_aura me) \<and>
     (has_flag g MOVEMENTFLAG_FALLING_SLOW \<longrightarrow> me_feather_fall_aura me) \<and>
     (has_flag g (MOVEMENTFLAG_FLYING OR MOVEMENTFLAG_CAN_FLY) \<longrightarrow>
        \<not> me_sec_player me \<or> me_mover_fly_aura me \<or> me_mover_mounted_flight_aura me) \<and>
     \<not> both_flags g (MOVEMENTFLAG_DISABLE_GRAVITY OR MOVEMENTFLAG_CAN_FLY) MOVEMENTFLAG_FALLING \<and>
     (has_flag g MOVEMENTFLAG_FALLING \<longrightarrow> h_fallData h \<and> h_fallDirection h)"

lemma remove_violating_flags_spec:
  "flags_safe me h (remove_violating_flags fe me h elev f) \<and>
   flags_le (remove_violating_flags fe me h elev f) f \<and>
   (has_flag (remove_violating_flags fe me h elev f) MOVEMENTFLAG_SPLINE_ELEVATION \<longrightarrow>
      h_splineElevation h \<and> \<not> fe_fuzzy_zero fe elev)"
proof -
  define f1 where "f1 = remove_if (has_flag f MOVEMENTFLAG_ROOT) MOVEMENTFLAG_ROOT f"
  define f2 where "f2 = remove_if (has_flag f1 MOVEMENTFLAG_HOVER \<and> \<not> me_hover_aura me) MOVEMENTFLAG_HOVER f1"
  define f3 where "f3 = remove_both MOVEMENTFLAG_ASCENDING MOVEMENTFLAG_DESCENDING f2"
  define f4 where "f4 = remove_both MOVEMENTFLAG_LEFT MOVEMENTFLAG_RIGHT f3"
  define f5 where "f5 = remove_both MOVEMENTFLAG_STRAFE_LEFT MOVEMENTFLAG_STRAFE_RIGHT f4"
  define f6 where "f6 = remove_both MOVEMENTFLAG_PITCH_UP MOVEMENTFLAG_PITCH_DOWN f5"
  define f7 where "f7 = remove_both MOVEMENTFLAG_FORWARD MOVEMENTFLAG_BACKWARD f6"
  define f8 where "f8 = remove_if (has_flag f7 MOVEMENTFLAG_WATERWALKING \<and> \<not> me_water_walk_aura me)
    MOVEMENTFLAG_WATERWALKING f7"
  define f9 where "f9 = remove_if (has_flag f8 MOVEMENTFLAG_FALLING_SLOW \<and> \<not> me_feather_fall_aura me)
    MOVEMENTFLAG_FALLING_SLOW f8"
  define f10 where "f10 = remove_if (has_flag f9 (MOVEMENTFLAG_FLYING OR MOVEMENTFLAG_CAN_FLY) \<and>
      me_sec_player me \<and> \<not> me_mover_fly_aura me \<and> \<not> me_mover_mounted_flight_aura me)
    (MOVEMENTFLAG_FLYING OR MOVEMENTFLAG_CAN_FLY) f9"
  define f11 where "f11 = remove_if (has_flag f10 (MOVEMENTFLAG_DISABLE_GRAVITY OR MOVEMENTFLAG_CAN_FLY) \<and>
      has_flag f10 MOVEMENTFLAG_FALLING) MOVEMENTFLAG_FALLING f10"
  define f12 where "f12 = remove_if (has_flag f11 MOVEMENTFLAG_FALLING \<and> (\<not> h_fallData h \<or> \<not> h_fallDirection h))
    MOVEMENTFLAG_FALLING f11"
  define f13 where "f13 = remove_if (has_flag f12 MOVEMENTFLAG_SPLINE_ELEVATION \<and>
      (\<not> h_splineElevation h \<or> fe_fuzzy_zero fe elev)) MOVEMENTFLAG_SPLINE_ELEVATION f12"
  note defs = f1_def f2_def f3_def f4_def f5_def f6_def f7_def f8_def f9_def f10_def f11_def f12_def f13_def
  have le: "flags_le f1 f" "flags_le f2 f1" "flags_le f3 f2" "flags_le f4 f3" "flags_le f5 f4"
    "flags_le f6 f5" "flags_le f7 f6" "flags_le f8 f7" "flags_le f9 f8" "flags_le f10 f9"
    "flags_le f11 f10" "flags_le f12 f11" "flags_le f13 f12"
    by (simp_all only: defs remove_if_le remove_both_def)
  have lt12: "flags_le f13 f12" by (rule le(13))
  have lt11: "flags_le f13 f11" by (rule flags_le_trans [OF lt12 le(12)])
  have lt10: "flags_le f13 f10" by (rule flags_le_trans [OF lt11 le(11)])
  have lt9: "flags_le f13 f9" by (rule flags_le_trans [OF lt10 le(10)])
  have lt8: "flags_le f13 f8" by (rule flags_le_trans [OF lt9 le(9)])
  have lt7: "flags_le f13 f7" by (rule flags_le_trans [OF lt8 le(8)])
  have lt6: "flags_le f13 f6" by (rule flags_le_trans [OF lt7 le(7)])
  have lt5: "flags_le f13 f5" by (rule flags_le_trans [OF lt6 le(6)])
  have lt4: "flags_le f13 f4" by (rule flags_le_trans [OF lt5 le(5)])
  have lt3: "flags_le f13 f3" by (rule flags_le_trans [OF lt4 le(4)])
  have lt2: "flags_le f13 f2" by (rule flags_le_trans [OF lt3 le(3)])
  have lt1: "flags_le f13 f1" by (rule flags_le_trans [OF lt2 le(2)])
  have lt0: "flags_le f13 f" by (rule flags_le_trans [OF lt1 le(1)])
  have root: "\<not> has_flag f1 MOVEMENTFLAG_ROOT"
    unfolding f1_def using not_has_removed(2) [of f MOVEMENTFLAG_ROOT] by (auto simp: remove_if_def)
  have fall: "\<not> both_flags f11 (MOVEMENTFLAG_DISABLE_GRAVITY OR MOVEMENTFLAG_CAN_FLY) MOVEMENTFLAG_FALLING"
    unfolding f11_def using not_has_removed(2) [of f10 MOVEMENTFLAG_FALLING]
    by (auto simp: remove_if_def both_flags_def)
  have "flags_safe me h f13 \<and>
      (has_flag f13 MOVEMENTFLAG_SPLINE_ELEVATION \<longrightarrow> h_splineElevation h \<and> \<not> fe_fuzzy_zero fe elev)"
    unfolding flags_safe_def
    using root fall
      remove_if_cond [of f1 MOVEMENTFLAG_HOVER "\<not> me_hover_aura me", folded f2_def]
      remove_both_both [of MOVEMENTFLAG_ASCENDING MOVEMENTFLAG_DESCENDING f2, folded f3_def]
      remove_both_both [of MOVEMENTFLAG_LEFT MOVEMENTFLAG_RIGHT f3, folded f4_def]
      remove_both_both [of MOVEMENTFLAG_STRAFE_LEFT MOVEMENTFLAG_STRAFE_RIGHT f4, folded f5_def]
      remove_both_both [of MOVEMENTFLAG_PITCH_UP MOVEMENTFLAG_PITCH_DOWN f5, folded f6_def]
      remove_both_both [of MOVEMENTFLAG_FORWARD MOVEMENTFLAG_BACKWARD f6, folded f7_def]
      remove_if_cond [of f7 MOVEMENTFLAG_WATERWALKING "\<not> me_water_walk_aura me", folded f8_def]
      remove_if_cond [of f8 MOVEMENTFLAG_FALLING_SLOW "\<not> me_feather_fall_aura me", folded f9_def]
      remove_if_cond [of f9 "MOVEMENTFLAG_FLYING OR MOVEMENTFLAG_CAN_FLY"
        "me_sec_player me \<and> \<not> me_mover_fly_aura me \<and> \<not> me_mover_mounted_flight_aura me", folded f10_def]
      remove_if_cond [of f11 MOVEMENTFLAG_FALLING "\<not> h_fallData h \<or> \<not> h_fallDirection h", folded f12_def]
      remove_if_cond [of f12 MOVEMENTFLAG_SPLINE_ELEVATION
        "\<not> h_splineElevation h \<or> fe_fuzzy_zero fe elev", folded f13_def]
      has_flag_mono [OF lt1] has_flag_mono [OF lt2] both_flags_mono [OF lt3] both_flags_mono [OF lt4]
      both_flags_mono [OF lt5] both_flags_mono [OF lt6] both_flags_mono [OF lt7]
      has_flag_mono [OF lt8] has_flag_mono [OF lt9] has_flag_mono [OF lt10] both_flags_mono [OF lt11]
      has_flag_mono [OF lt12]
    by (intro conjI) blast+
  moreover have "remove_violating_flags fe me h elev f = f13"
    unfolding remove_violating_flags_def Let_def defs ..
  ultimately show ?thesis using lt0 by simp
qed

lemma has_flag_or: "has_flag (f OR g) x \<longleftrightarrow> has_flag f x \<or> has_flag g x"
  by (auto simp: has_flag_iff bit_or_iff)

lemma flags_safe_spline:
  "flags_safe me h f \<Longrightarrow> flags_safe me h (f OR MOVEMENTFLAG_SPLINE_ELEVATION)"
  unfolding flags_safe_def both_flags_def has_flag_or
  by (simp add: has_flag_def)

lemma has_flag_self [simp]: "has_flag x x \<longleftrightarrow> x \<noteq> 0"
  by (simp add: has_flag_def)

lemma finish_flags_safe:
  "flags_safe me (rs_has s) (mi_flags (rs_mi (finish_movement_info fe me s))) \<and>
   (has_flag (mi_flags (rs_mi (finish_movement_info fe me s))) MOVEMENTFLAG_SPLINE_ELEVATION \<longleftrightarrow>
      h_splineElevation (rs_has s))"
  using remove_violating_flags_spec [of me "rs_has s" fe "mi_splineElevation (rs_mi s)" "mi_flags (rs_mi s)"]
  by (auto simp: finish_movement_info_def upd_transport_def Let_def flags_safe_spline has_flag_or)

text \<open>
  C2: Whatever packet of a movement opcode arrives, when Player::ReadMovementInfo parses it the
  stored movement flags never contain ROOT, never two opposite directions, never hover, water
  walking or slow fall without the aura that allows it, never falling together with disabled
  gravity or the right to fly or without fall data and direction, and spline elevation exactly
  when the packet carries it; for an account of level SEC_PLAYER whose mover has no flight aura
  they contain neither of the two flight flags (accounts above that level are exempt from this one
  check, as the code intends).
\<close>

theorem client_flags_safe:
  assumes "ReadMovementInfo fe me opcode mi mount ex b = Inr s"
    and "GetMovementStatusElementsSequence opcode \<noteq> None"
  shows "flags_safe me (rs_has s) (mi_flags (rs_mi s)) \<and>
    (has_flag (mi_flags (rs_mi s)) MOVEMENTFLAG_SPLINE_ELEVATION \<longleftrightarrow> h_splineElevation (rs_has s))"
proof -
  from assms obtain seq t where "read_elements fe seq (reader_init mi mount ex b) = Inr t"
    and s: "s = finish_movement_info fe me t"
    by (auto simp: ReadMovementInfo_def Let_def bind_res_eq_Inr split: option.splits)
  have "rs_has s = rs_has t" by (simp add: s finish_movement_info_def Let_def)
  with finish_flags_safe [of me t fe] s
  show ?thesis by simp
qed

subsection \<open>A concrete mover\<close>

definition sample_float_env :: float_env where
  "sample_float_env = \<lparr>fe_fuzzy_zero = (\<lambda>x. x = 0), fe_normalize = (\<lambda>x. x), fe_wrap_pi = (\<lambda>x. x)\<rparr>"

definition sample_mover_env :: mover_env where
  "sample_mover_env = \<lparr>me_hover_aura = False, me_water_walk_aura = True, me_feather_fall_aura = False,
     me_sec_player = True, me_mover_fly_aura = False, me_mover_mounted_flight_aura = False\<rparr>"

text \<open>A falling passenger of a vehicle that claims every flag.\<close>

definition sample_mover :: mover where
  "sample_mover = \<lparr>mv_guid = 0x0300000000A0B1C2,
     mv_pos = \<lparr>pos_x = 0x44800000, pos_y = 0x43960000, pos_z = 0x42C80000, pos_o = 0x40490FDB\<rparr>,
     mv_info = movement_info_new\<lparr>mi_flags := 0x3FFFFFFF, mi_flags2 := 0x0010, mi_time := 7,
       mi_transport := transport_reset\<lparr>tr_seat := 2, tr_time2 := 9, tr_vehicleId := 5\<rparr>,
       mi_pitch := 0x3F000000,
       mi_jump := jump_reset\<lparr>ji_fallTime := 300, ji_zspeed := 0x41000000\<rparr>\<rparr>,
     mv_trans_guid = 0x1F50000000000123, mv_mount_display = 0, mv_spline_enabled = False, mv_counter = 3\<rparr>"

definition sample_transfer :: "Opcodes \<Rightarrow> bb_error + read_state" where
  "sample_transfer opcode =
    bind_res (WriteMovementInfo sample_float_env 1000 opcode (sample_mover, None, bb_new)) (\<lambda>(m, ex, b).
      ReadMovementInfo sample_float_env sample_mover_env opcode movement_info_new 0 None (bb_received (storage b)))"

text \<open>
  C1: For every checked movement opcode, mover and clock value, Unit::WriteMovementInfo succeeds
  on an empty packet, Player::ReadMovementInfo reads the packet to its last byte, and the movement
  info it stores is the copy of the mover described by delivered_info: every announced field bit
  for bit, both GUIDs, and the flags after the flag checks.
\<close>

theorem movement_roundtrip:
  assumes "(opcode, exs) \<in> set checked_opcodes"
    and "extras_match exs exw" and "extras_match exs exr"
  shows "\<exists>seq bs s. GetMovementStatusElementsSequence opcode = Some seq \<and>
      WriteMovementInfo fe now opcode (m, exw, bb_new) =
        Inr (seq_mover seq m, seq_extra seq exw, wstate 0 (bs, [])) \<and>
      ReadMovementInfo fe me opcode mi0 mount exr (bb_received bs) = Inr s \<and>
      unread_bytes (rs_packet s) = [] \<and>
      rs_mi s = delivered_info fe me now (sequence_elements seq) m mi0"
  using assms by (rule movement_transfer)

theorem movement_roundtrip_witness:
  "(MSG_MOVE_HEARTBEAT, []) \<in> set checked_opcodes \<and> extras_match [] None \<and>
   (\<exists>seq bs s. GetMovementStatusElementsSequence MSG_MOVE_HEARTBEAT = Some seq \<and>
      WriteMovementInfo sample_float_env 1000 MSG_MOVE_HEARTBEAT (sample_mover, None, bb_new) =
        Inr (seq_mover seq sample_mover, seq_extra seq None, wstate 0 (bs, [])) \<and>
      ReadMovementInfo sample_float_env sample_mover_env MSG_MOVE_HEARTBEAT movement_info_new 0 None
        (bb_received bs) = Inr s \<and>
      unread_bytes (rs_packet s) = [] \<and>
      rs_mi s = delivered_info sample_float_env sample_mover_env 1000 (sequence_elements seq)
        sample_mover movement_info_new)"
proof -
  have h: "(MSG_MOVE_HEARTBEAT, []) \<in> set checked_opcodes" "extras_match [] None"
    by (simp_all add: checked_opcodes_def client_move_opcodes_def extras_match_def)
  show ?thesis
    using h movement_roundtrip [OF h(1) h(2) h(2), of sample_float_env 1000 sample_mover
      sample_mover_env movement_info_new 0] by blast
qed

theorem client_flags_safe_witness:
  "\<exists>bs s. ReadMovementInfo sample_float_env sample_mover_env MSG_MOVE_HEARTBEAT movement_info_new 0 None
       (bb_received bs) = Inr s \<and>
     GetMovementStatusElementsSequence MSG_MOVE_HEARTBEAT \<noteq> None \<and>
     mi_flags (rs_mi s) = 0x261FF300 \<and>
     flags_safe sample_mover_env (rs_has s) (mi_flags (rs_mi s)) \<and>
     (has_flag (mi_flags (rs_mi s)) MOVEMENTFLAG_SPLINE_ELEVATION \<longleftrightarrow> h_splineElevation (rs_has s))"
proof -
  have h: "(MSG_MOVE_HEARTBEAT, []) \<in> set checked_opcodes" "extras_match [] None"
    by (simp_all add: checked_opcodes_def client_move_opcodes_def extras_match_def)
  have seq: "GetMovementStatusElementsSequence MSG_MOVE_HEARTBEAT = Some MovementHeartBeat"
    by (simp add: GetMovementStatusElementsSequence_def)
  from movement_transfer [OF h(1) h(2) h(2), of sample_float_env 1000 sample_mover
      sample_mover_env movement_info_new 0] obtain bs s where
    r: "ReadMovementInfo sample_float_env sample_mover_env MSG_MOVE_HEARTBEAT movement_info_new 0 None
       (bb_received bs) = Inr s"
    and mi: "rs_mi s = delivered_info sample_float_env sample_mover_env 1000
       (sequence_elements MovementHeartBeat) sample_mover movement_info_new"
    using seq by auto
  have "mi_flags (rs_mi s) = 0x261FF300"
    unfolding mi by code_simp
  with client_flags_safe [OF r] seq r show ?thesis by fastforce
qed

subsection \<open>A misplaced element\<close>

text \<open>
  \<open>ForceMoveUnrootAck\<close> lists \<open>MSETransportVehicleId\<close> twice and \<open>MSEHasTransportVehicleId\<close> never, so
  the reader skips the vehicle of every such packet.
\<close>

definition vehicle_kept :: "u32 \<Rightarrow> read_state \<Rightarrow> bool" where
  "vehicle_kept v s \<longleftrightarrow>
     \<not> h_transportVehicleId (rs_has s) \<and> tr_vehicleId (mi_transport (rs_mi s)) = v"

definition keeps_vehicle :: "u32 \<Rightarrow> bb_error + read_state \<Rightarrow> bool" where
  "keeps_vehicle v r = (case r of Inl e \<Rightarrow> True | Inr s \<Rightarrow> vehicle_kept v s)"

lemma keeps_vehicle_bind:
  "(\<And>x. r = Inr x \<Longrightarrow> keeps_vehicle v (f x)) \<Longrightarrow> keeps_vehicle v (bind_res r f)"
  by (cases r) (simp_all add: keeps_vehicle_def)

lemma keeps_vehicle_Inr [simp]: "keeps_vehicle v (Inr s) = vehicle_kept v s"
  by (simp add: keeps_vehicle_def)

lemma skip_forces_keeps: "vehicle_kept v s \<Longrightarrow> keeps_vehicle v (skip_forces n s)"
proof (induction n arbitrary: s)
  case 0
  then show ?case by simp
next
  case (Suc n)
  then show ?case
    by (auto intro!: keeps_vehicle_bind simp: skip_u32_def bind_res_eq_Inr vehicle_kept_def)
qed

lemma read_element_keeps:
  assumes "vehicle_kept v s" and "e \<noteq> MSEHasTransportVehicleId"
  shows "keeps_vehicle v (read_element fe e s)"
  using assms skip_forces_keeps [OF assms(1)]
  by (cases e) (auto simp: read_element_def take_has_def take_bit_then_def take_val_def take_bits_def
    take_mount_def skip_u32_def take_guid_bit_def take_guid_byte_def vehicle_kept_def upd_pos_def
    upd_tpos_def upd_transport_def upd_jump_def Let_def intro!: keeps_vehicle_bind)

lemma read_elements_keeps:
  "vehicle_kept v s \<Longrightarrow> MSEHasTransportVehicleId \<notin> set seq \<Longrightarrow>
     keeps_vehicle v (read_elements fe seq s)"
proof (induction seq arbitrary: s)
  case Nil
  then show ?case by (simp add: keeps_vehicle_def)
next
  case (Cons e es)
  have "keeps_vehicle v (read_elements fe es t)" if "read_element fe e s = Inr t" for t
  proof -
    have "e \<noteq> MSEHasTransportVehicleId" using Cons.prems(2) by auto
    from read_element_keeps [OF Cons.prems(1) this, of fe] that have "vehicle_kept v t" by simp
    with Cons.IH Cons.prems(2) show ?thesis by simp
  qed
  with Cons.prems show ?case by (auto intro!: keeps_vehicle_bind)
qed

lemma unroot_ack_elements:
  "MSEHasTransportVehicleId \<notin> set ForceMoveUnrootAck"
  "count_list ForceMoveUnrootAck MSETransportVehicleId = 2"
  by code_simp+

text \<open>
  ForceMoveUnrootAck lists the vehicle id where its announcing bit belongs: a parsed
  CMSG_FORCE_MOVE_UNROOT_ACK never changes the vehicle id.
\<close>

theorem unroot_ack_drops_vehicle:
  "case ReadMovementInfo fe me CMSG_FORCE_MOVE_UNROOT_ACK mi mount ex b of
     Inl e \<Rightarrow> True
   | Inr s \<Rightarrow> tr_vehicleId (mi_transport (rs_mi s)) = tr_vehicleId (mi_transport mi)"
proof -
  have "vehicle_kept (tr_vehicleId (mi_transport mi)) (reader_init mi mount ex b)"
    by (simp add: vehicle_kept_def reader_init_def reader_locals_def)
  from read_elements_keeps [OF this unroot_ack_elements(1), of fe] show ?thesis
    by (cases "read_elements fe ForceMoveUnrootAck (reader_init mi mount ex b)")
      (simp_all add: ReadMovementInfo_def GetMovementStatusElementsSequence_def vehicle_kept_def
        finish_movement_info_def upd_transport_def Let_def)
qed

end
