(* ===== verification/MovementSender.thy ===== *)
theory MovementSender
  imports MovementChecks
begin

text \<open>
  \<open>Movement::PacketSender\<close> (\<open>Movement/MovementStructures.cpp\<close>): a movement change is announced to the
  player who controls the unit and broadcast to the units around it. The two packets share one
  \<open>ExtraMovementStatusElement\<close>, whose index the first packet advances.
\<close>

record packet_sender =
  ps_extraElements :: "extra_element option"
  ps_selfOpcode :: Opcodes
  ps_broadcast :: Opcodes

datatype sent_packet = SendDirectMessage Opcodes bytebuffer | SendMessageToSet Opcodes bytebuffer bool

text \<open>\<open>unit_is_player\<close>: the unit is a player; \<open>mover_is_player\<close>: what it controls is one.\<close>

definition new_PacketSender ::
  "bool \<Rightarrow> bool \<Rightarrow> Opcodes \<Rightarrow> Opcodes \<Rightarrow> Opcodes \<Rightarrow> extra_element option \<Rightarrow> packet_sender"
where
  "new_PacketSender unit_is_player mover_is_player serverControl playerControl broadcast extras =
    (if unit_is_player \<and> mover_is_player
     then \<lparr>ps_extraElements = extras, ps_selfOpcode = playerControl, ps_broadcast = broadcast\<rparr>
     else \<lparr>ps_extraElements = extras, ps_selfOpcode = NULL_OPCODE, ps_broadcast = serverControl\<rparr>)"

definition send_self ::
  "float_env \<Rightarrow> u32 \<Rightarrow> bool \<Rightarrow> packet_sender \<Rightarrow> mover
     \<Rightarrow> bb_error + (mover \<times> extra_element option \<times> sent_packet list)"
where
  "send_self fe now isPlayerMovement ps m =
    (if isPlayerMovement \<and> ps_selfOpcode ps \<noteq> NULL_OPCODE
     then bind_res (WriteMovementInfo fe now (ps_selfOpcode ps) (m, ps_extraElements ps, bb_new))
            (\<lambda>(m, ex, b). Inr (m, ex, [SendDirectMessage (ps_selfOpcode ps) b]))
     else Inr (m, ps_extraElements ps, []))"

definition send_broadcast ::
  "float_env \<Rightarrow> u32 \<Rightarrow> bool \<Rightarrow> packet_sender \<Rightarrow> mover \<times> extra_element option
     \<Rightarrow> bb_error + (mover \<times> extra_element option \<times> sent_packet list)"
where
  "send_broadcast fe now isPlayerMovement ps s = (case s of (m, ex) \<Rightarrow>
    (if ps_broadcast ps \<noteq> NULL_OPCODE
     then bind_res (WriteMovementInfo fe now (ps_broadcast ps) (m, map_option ResetIndex ex, bb_new))
            (\<lambda>(m, ex, b). Inr (m, ex, [SendMessageToSet (ps_broadcast ps) b (\<not> isPlayerMovement)]))
     else Inr (m, ex, [])))"

definition Send ::
  "float_env \<Rightarrow> u32 \<Rightarrow> u32 \<Rightarrow> bool \<Rightarrow> bool \<Rightarrow> packet_sender \<Rightarrow> mover
     \<Rightarrow> bb_error + (mover \<times> extra_element option \<times> sent_packet list)"
where
  "Send fe now1 now2 unit_is_player mover_is_player ps m =
    (let isPlayerMovement = (unit_is_player \<and> mover_is_player)
     in bind_res (send_self fe now1 isPlayerMovement ps m) (\<lambda>(m, ex, out1).
          bind_res (send_broadcast fe now2 isPlayerMovement ps (m, ex)) (\<lambda>(m, ex, out2).
            Inr (m, ex, out1 @ out2))))"

text \<open>The extra elements are writable from their start again, whatever the first packet consumed.\<close>

lemma ResetIndex_next_extra [simp]: "map_option ResetIndex (next_extra e ex) = map_option ResetIndex ex"
  by (cases ex) (simp_all add: next_extra_def ResetIndex_def)

lemma ResetIndex_seq_extra: "map_option ResetIndex (seq_extra seq ex) = map_option ResetIndex ex"
  by (induction seq arbitrary: ex) simp_all

lemma extras_match_reset:
  "ex_elements x = exs \<Longrightarrow> extras_match exs (Some (ResetIndex x))"
  by (simp add: extras_match_def ResetIndex_def)

text \<open>A mover that differs from one that differs from \<open>m\<close> in the counter differs from \<open>m\<close> in the counter.\<close>

lemma counter_again: "n' = n\<lparr>mv_counter := c'\<rparr> \<Longrightarrow> n = m\<lparr>mv_counter := c\<rparr> \<Longrightarrow> n' = m\<lparr>mv_counter := c'\<rparr>"
  by simp

text \<open>What a receiver of a packet stores for the mover \<open>m\<close>.\<close>

definition receives ::
  "float_env \<Rightarrow> mover_env \<Rightarrow> u32 \<Rightarrow> Opcodes \<Rightarrow> mover \<Rightarrow> extra_element option \<Rightarrow> bytebuffer \<Rightarrow> bool"
where
  "receives fe me now opcode m exr b \<longleftrightarrow> (\<exists>seq s.
     GetMovementStatusElementsSequence opcode = Some seq \<and>
     ReadMovementInfo fe me opcode movement_info_new 0 exr (bb_received (storage b)) = Inr s \<and>
     unread_bytes (rs_packet s) = [] \<and>
     rs_mi s = delivered_info fe me now (sequence_elements seq) m movement_info_new)"


definition sample_extras :: extra_element where
  "sample_extras = \<lparr>ex_elements = [MSEExtraFloat], ex_index = 0, ex_guid = 0, ex_byteData = 0, ex_int32Data = 0,
     ex_2bitsData = 0, ex_floatData = 0x40E00000, ex_floatData2 = 0\<rparr>"


end
