(* ===== verification/ByteBufferOps.thy ===== *)
theory ByteBufferOps
  imports PacketCodec
begin

text \<open>
  The remaining operations of \<open>ByteBuffer\<close>: positions, GUIDs in a given byte order, packed GUIDs,
  strings, bit patching, and the container templates. The containers are proved once for every
  element type that keeps the contract \<open>byte_codec\<close>.
\<close>

subsection \<open>Positions\<close>

definition bb_index :: "nat \<Rightarrow> bytebuffer \<Rightarrow> bb_error + u8" where
  "bb_index pos b =
     (if pos \<ge> length (storage b) then Inl (PositionException False pos 1 (length (storage b)))
      else Inr (storage b ! pos))"

definition set_rpos :: "nat \<Rightarrow> bytebuffer \<Rightarrow> bytebuffer" where
  "set_rpos p b = b\<lparr>rpos := p\<rparr>"

definition rfinish :: "bytebuffer \<Rightarrow> bytebuffer" where
  "rfinish b = b\<lparr>rpos := wpos b\<rparr>"

definition set_wpos :: "nat \<Rightarrow> bytebuffer \<Rightarrow> bytebuffer" where
  "set_wpos p b = b\<lparr>wpos := p\<rparr>"

definition bitwpos :: "bytebuffer \<Rightarrow> nat" where
  "bitwpos b = wpos b * 8 + 8 - bitpos b"

definition set_bitwpos :: "nat \<Rightarrow> bytebuffer \<Rightarrow> bytebuffer" where
  "set_bitwpos p b = b\<lparr>wpos := p div 8, bitpos := 8 - p mod 8\<rparr>"

lemma bitwpos_set: "bitwpos (set_bitwpos p b) = p"
  by (simp add: bitwpos_def set_bitwpos_def)

lemma bitwpos_wstate: "length ps < 8 \<Longrightarrow> bitwpos (wstate r (bs, ps)) = 8 * length bs + length ps"
  by (simp add: bitwpos_def wstate_def)

subsection \<open>GUIDs in a given order\<close>

text \<open>The \<open>order\<close> arrays have eight entries.\<close>

definition WriteBitInOrder :: "u64 \<Rightarrow> nat list \<Rightarrow> bytebuffer \<Rightarrow> bb_error + bytebuffer" where
  "WriteBitInOrder g order b = WriteGuidMask g order b"

definition ReadBitInOrder :: "u64 \<Rightarrow> nat list \<Rightarrow> bytebuffer \<Rightarrow> bb_error + (u64 \<times> bytebuffer)" where
  "ReadBitInOrder g order b = ReadGuidMask g order b"

definition WriteBytesSeq :: "u64 \<Rightarrow> nat list \<Rightarrow> bytebuffer \<Rightarrow> bb_error + bytebuffer" where
  "WriteBytesSeq g order b = WriteGuidBytes g order b"

definition ReadBytesSeq :: "u64 \<Rightarrow> nat list \<Rightarrow> bytebuffer \<Rightarrow> bb_error + (u64 \<times> bytebuffer)" where
  "ReadBytesSeq g order b = ReadGuidBytes g order b"

definition mask_tokens :: "u64 \<Rightarrow> nat list \<Rightarrow> token list" where
  "mask_tokens g is = map (\<lambda>i. Bit (word_byte g i \<noteq> 0)) is"

definition guid_byte_tokens :: "u64 \<Rightarrow> nat list \<Rightarrow> token list" where
  "guid_byte_tokens g is = concat (map (\<lambda>i. byteseq_tokens (word_byte g i)) is)"

lemma WriteGuidMask_emit:
  "room (length is) st \<Longrightarrow> \<forall>i \<in> set is. i < 8 \<Longrightarrow>
     WriteGuidMask g is (wstate r st) = Inr (wstate r (emit (mask_tokens g is) st))"
proof (induction "is" arbitrary: st)
  case Nil
  then show ?case by (simp add: mask_tokens_def)
next
  case (Cons i "is")
  let ?t = "Bit (word_byte g i \<noteq> 0)"
  have "room (length is) (emit1 ?t st)"
    using Cons.prems(1) length_emit1 [of ?t st] by (auto intro: pending_ok_emit1)
  from Cons.IH [OF this] show ?case
    using Cons.prems write_bit_emit [of st "ucast (word_byte g i)" r]
    by (simp add: guid_get_def mask_tokens_def)
qed

lemma WriteByteSeq_emit:
  "room 2 st \<Longrightarrow> WriteByteSeq x (wstate r st) = Inr (wstate r (emit (byteseq_tokens x) st))"
  using append_val_emit [of st "x XOR 1" r]
  by (simp add: WriteByteSeq_def byteseq_tokens_def word_tokens_def)

lemma WriteGuidBytes_emit:
  "room (2 * length is) st \<Longrightarrow> \<forall>i \<in> set is. i < 8 \<Longrightarrow>
     WriteGuidBytes g is (wstate r st) = Inr (wstate r (emit (guid_byte_tokens g is) st))"
proof (induction "is" arbitrary: st)
  case Nil
  then show ?case by (simp add: guid_byte_tokens_def)
next
  case (Cons i "is")
  let ?t = "byteseq_tokens (word_byte g i)"
  have "room (2 * length is) (emit ?t st)"
    using Cons.prems(1) length_emit [of ?t st] length_byteseq_tokens [of "word_byte g i"]
    by (auto intro: pending_ok_emit)
  from Cons.IH [OF this] show ?case
    using Cons.prems WriteByteSeq_emit [of st "word_byte g i" r]
    by (simp add: guid_get_def guid_byte_tokens_def)
qed

text \<open>The mask sets the bytes of the announced indices to zero or one, the others stay.\<close>

lemma ReadGuidMask_avail:
  "avail b (mask_tokens g is @ ts) \<Longrightarrow> \<forall>i \<in> set is. i < 8 \<Longrightarrow>
     \<exists>h b'. ReadGuidMask h0 is b = Inr (h, b') \<and> avail b' ts \<and>
       (\<forall>i < 8. word_byte h i = (if i \<in> set is then of_bool (word_byte g i \<noteq> 0) else word_byte h0 i))"
proof (induction "is" arbitrary: b h0)
  case Nil
  then show ?case by (auto simp: mask_tokens_def)
next
  case (Cons i "is")
  let ?h = "guid_set h0 i (of_bool (word_byte g i \<noteq> 0))"
  from Cons.prems(1) obtain b1 where b1: "ReadBit b = Inr (word_byte g i \<noteq> 0, b1)"
    "avail b1 (mask_tokens g is @ ts)"
    using avail_bit [of b "word_byte g i \<noteq> 0" "mask_tokens g is @ ts"] by (auto simp: mask_tokens_def)
  from Cons.IH [OF b1(2), of ?h] Cons.prems(2) obtain h b' where
    "ReadGuidMask ?h is b1 = Inr (h, b')" "avail b' ts"
    "\<forall>j < 8. word_byte h j = (if j \<in> set is then of_bool (word_byte g j \<noteq> 0) else word_byte ?h j)"
    by auto
  with b1 Cons.prems(2) show ?case
    by (intro exI [of _ h] exI [of _ b']) (auto simp: guid_put_def word_byte_guid_set)
qed

lemma ReadGuidBytes_avail:
  "avail b (guid_byte_tokens g is @ ts) \<Longrightarrow> \<forall>i \<in> set is. i < 8 \<Longrightarrow> distinct is \<Longrightarrow>
     \<forall>i \<in> set is. word_byte h0 i = of_bool (word_byte g i \<noteq> 0) \<Longrightarrow>
     \<exists>h b'. ReadGuidBytes h0 is b = Inr (h, b') \<and> avail b' ts \<and>
       (\<forall>i < 8. word_byte h i = (if i \<in> set is then word_byte g i else word_byte h0 i))"
proof (induction "is" arbitrary: b h0)
  case Nil
  then show ?case by (auto simp: guid_byte_tokens_def)
next
  case (Cons i "is")
  let ?h = "guid_set h0 i (word_byte g i)"
  from Cons.prems(1) obtain b1 where
    b1: "ReadByteSeq (of_bool (word_byte g i \<noteq> 0)) b = Inr (word_byte g i, b1)"
    "avail b1 (guid_byte_tokens g is @ ts)"
    using avail_byteseq [of b "word_byte g i" "guid_byte_tokens g is @ ts"]
    by (auto simp: guid_byte_tokens_def)
  have "\<forall>j \<in> set is. word_byte ?h j = of_bool (word_byte g j \<noteq> 0)"
    using Cons.prems(2,3,4) by (auto simp: word_byte_guid_set)
  from Cons.IH [OF b1(2) _ _ this] Cons.prems(2,3) obtain h b' where
    "ReadGuidBytes ?h is b1 = Inr (h, b')" "avail b' ts"
    "\<forall>j < 8. word_byte h j = (if j \<in> set is then word_byte g j else word_byte ?h j)"
    by auto
  with b1 Cons.prems(2,3,4) show ?case
    by (intro exI [of _ h] exI [of _ b']) (auto simp: guid_get_def guid_put_def word_byte_guid_set)
qed

lemma bits_only_mask [simp]: "bits_only (mask_tokens g is)"
  by (auto simp: mask_tokens_def bits_only_def)

lemma bytes_only_guid [simp]: "bytes_only (guid_byte_tokens g is)"
  by (induction "is") (simp_all add: guid_byte_tokens_def)

lemma length_mask [simp]: "length (mask_tokens g is) = length is"
  by (simp add: mask_tokens_def)

text \<open>
  For every pair of permutations of the eight byte indices, the mask and bytes of a GUID
  written by WriteBitInOrder and WriteBytesSeq are turned back into the GUID by ReadBitInOrder and
  ReadBytesSeq with the same orders.
\<close>

theorem guid_roundtrip:
  assumes mo: "distinct mo" "set mo = {..<8}" and bo: "distinct bo" "set bo = {..<8}"
  shows "\<exists>b1 b2 h r1 r2. WriteBitInOrder g mo bb_new = Inr b1 \<and> WriteBytesSeq g bo b1 = Inr b2 \<and>
    ReadBitInOrder 0 mo (bb_received (storage b2)) = Inr (h, r1) \<and>
    ReadBytesSeq h bo r1 = Inr (g, r2) \<and> unread_bytes r2 = []"
proof -
  let ?m = "mask_tokens g mo" and ?b = "guid_byte_tokens g bo"
  have lm: "length mo = 8" and lb: "length bo = 8"
    using distinct_card [OF mo(1)] distinct_card [OF bo(1)] mo(2) bo(2) by simp_all
  obtain bs where bs: "emit ?m ([], []) = (bs, [])"
    using emit_bits_pending [of ?m "([], [])"] lm by (cases "emit ?m ([], [])") simp
  have len: "length bs \<le> 16" using length_emit [of ?m "([], [])"] bs lm by simp
  obtain bs' where bs': "emit ?b (bs, []) = (bs', [])"
    by (cases "?b = []"; cases "emit ?b (bs, [])") (use emit_bytes_pending [of ?b "(bs, [])"] in auto)
  have w1: "WriteBitInOrder g mo bb_new = Inr (wstate 0 (bs, []))"
    using WriteGuidMask_emit [of "([], [])" mo g 0] mo(2) lm bs
    by (simp add: WriteBitInOrder_def bb_new_wstate bb_limit_def)
  have w2: "WriteBytesSeq g bo (wstate 0 (bs, [])) = Inr (wstate 0 (bs', []))"
    using WriteGuidBytes_emit [of "(bs, [])" bo g 0] bo(2) lb bs' len
    by (simp add: WriteBytesSeq_def bb_limit_def)
  have em: "emit (?m @ ?b) ([], []) = (bs', [])" using bs bs' by simp
  have "aligned 0 ?b"
    using aligned_bytes [of ?b "[]" 0] by (cases "?b = []") simp_all
  then have "aligned 0 (?m @ ?b)" using lm by (simp add: aligned_bits)
  from emit_readable [OF em] this have "readable [] bs' (?m @ ?b)" by simp
  then have av: "avail (bb_received bs') (?m @ ?b)"
    by (simp add: received_wstate wstate_def pending_bits_def unread_bytes_def)
  from ReadGuidMask_avail [OF av, of 0] mo(2) obtain h r1 where
    r1: "ReadGuidMask 0 mo (bb_received bs') = Inr (h, r1)" "avail r1 (?b @ [])"
    and h: "\<forall>i < 8. word_byte h i = of_bool (word_byte g i \<noteq> 0)"
    by auto
  from ReadGuidBytes_avail [OF r1(2) _ bo(1), of h] h bo(2) obtain h' r2 where
    r2: "ReadGuidBytes h bo r1 = Inr (h', r2)" "avail r2 []"
    and h': "\<forall>i < 8. word_byte h' i = word_byte g i"
    by auto
  have "h' = g" using h' by (intro guid_eq_iff_bytes) simp
  with r1 r2 w1 w2 show ?thesis
    by (simp add: ReadBitInOrder_def ReadBytesSeq_def wstate_def)
qed

theorem guid_roundtrip_witness:
  "distinct [2, 4, 0, 3, 6, 7, 5, 1 :: nat] \<and> set [2, 4, 0, 3, 6, 7, 5, 1 :: nat] = {..<8} \<and>
   (\<exists>b1 b2 h r1 r2. WriteBitInOrder 0x0300000000A0B1C2 [2, 4, 0, 3, 6, 7, 5, 1] bb_new = Inr b1 \<and>
    WriteBytesSeq 0x0300000000A0B1C2 [0, 1, 2, 3, 4, 5, 6, 7] b1 = Inr b2 \<and>
    ReadBitInOrder 0 [2, 4, 0, 3, 6, 7, 5, 1] (bb_received (storage b2)) = Inr (h, r1) \<and>
    ReadBytesSeq h [0, 1, 2, 3, 4, 5, 6, 7] r1 = Inr (0x0300000000A0B1C2, r2) \<and> unread_bytes r2 = [])"
proof -
  have s: "distinct [2, 4, 0, 3, 6, 7, 5, 1 :: nat]" "set [2, 4, 0, 3, 6, 7, 5, 1 :: nat] = {..<8}"
    "distinct [0, 1, 2, 3, 4, 5, 6, 7 :: nat]" "set [0, 1, 2, 3, 4, 5, 6, 7 :: nat] = {..<8}"
    by auto
  show ?thesis using s guid_roundtrip [OF s] by blast
qed

subsection \<open>Self-delimiting encodings\<close>

text \<open>
  A codec appends the bytes \<open>enc v\<close> of a value to a packet without pending bits and takes them from
  the front of what is unread.
\<close>

locale byte_codec =
  fixes wr :: "'v \<Rightarrow> bytebuffer \<Rightarrow> bb_error + bytebuffer"
    and rd :: "bytebuffer \<Rightarrow> bb_error + ('v \<times> bytebuffer)"
    and enc :: "'v \<Rightarrow> u8 list"
    and valid :: "'v \<Rightarrow> bool"
  assumes wr_enc:
      "valid v \<Longrightarrow> length bs + length (enc v) < bb_limit \<Longrightarrow>
         wr v (wstate r (bs, [])) = Inr (wstate r (bs @ enc v, []))"
    and rd_enc:
      "valid v \<Longrightarrow> unread_bytes b = enc v @ rest \<Longrightarrow>
         \<exists>b'. rd b = Inr (v, b') \<and> unread_bytes b' = rest"

fun put_all :: "('v \<Rightarrow> bytebuffer \<Rightarrow> bb_error + bytebuffer) \<Rightarrow> 'v list \<Rightarrow> bytebuffer \<Rightarrow> bb_error + bytebuffer" where
  "put_all wr [] b = Inr b"
| "put_all wr (v # vs) b = bind_res (wr v b) (put_all wr vs)"

fun get_n :: "(bytebuffer \<Rightarrow> bb_error + ('v \<times> bytebuffer)) \<Rightarrow> nat \<Rightarrow> bytebuffer \<Rightarrow> bb_error + ('v list \<times> bytebuffer)" where
  "get_n rd 0 b = Inr ([], b)"
| "get_n rd (Suc n) b =
     bind_res (rd b) (\<lambda>(v, b). bind_res (get_n rd n b) (\<lambda>(vs, b). Inr (v # vs, b)))"

definition put_vector :: "('v \<Rightarrow> bytebuffer \<Rightarrow> bb_error + bytebuffer) \<Rightarrow> 'v list \<Rightarrow> bytebuffer \<Rightarrow> bb_error + bytebuffer" where
  "put_vector wr vs b = bind_res (append_val (of_nat (length vs) :: u32) b) (put_all wr vs)"

definition get_vector :: "(bytebuffer \<Rightarrow> bb_error + ('v \<times> bytebuffer)) \<Rightarrow> bytebuffer \<Rightarrow> bb_error + ('v list \<times> bytebuffer)" where
  "get_vector rd b = bind_res (read_val b) (\<lambda>(n, b). get_n rd (unat (n :: u32)) b)"

text \<open>A \<open>std::map\<close> is written in key order; \<open>insert\<close> keeps the value of a key that is present.\<close>

definition put_pair ::
  "('k \<Rightarrow> bytebuffer \<Rightarrow> bb_error + bytebuffer) \<Rightarrow> ('v \<Rightarrow> bytebuffer \<Rightarrow> bb_error + bytebuffer)
     \<Rightarrow> 'k \<times> 'v \<Rightarrow> bytebuffer \<Rightarrow> bb_error + bytebuffer"
where
  "put_pair wk wv p b = bind_res (wk (fst p) b) (wv (snd p))"

definition get_pair ::
  "(bytebuffer \<Rightarrow> bb_error + ('k \<times> bytebuffer)) \<Rightarrow> (bytebuffer \<Rightarrow> bb_error + ('v \<times> bytebuffer))
     \<Rightarrow> bytebuffer \<Rightarrow> bb_error + (('k \<times> 'v) \<times> bytebuffer)"
where
  "get_pair rk rv b = bind_res (rk b) (\<lambda>(k, b). bind_res (rv b) (\<lambda>(v, b). Inr ((k, v), b)))"

definition put_map ::
  "('k \<Rightarrow> bytebuffer \<Rightarrow> bb_error + bytebuffer) \<Rightarrow> ('v \<Rightarrow> bytebuffer \<Rightarrow> bb_error + bytebuffer)
     \<Rightarrow> ('k \<times> 'v) list \<Rightarrow> bytebuffer \<Rightarrow> bb_error + bytebuffer"
where
  "put_map wk wv kvs b = put_vector (put_pair wk wv) kvs b"

definition map_insert :: "'k \<times> 'v \<Rightarrow> ('k \<Rightarrow> 'v option) \<Rightarrow> 'k \<Rightarrow> 'v option" where
  "map_insert kv m = (if m (fst kv) = None then m(fst kv \<mapsto> snd kv) else m)"

definition get_map ::
  "(bytebuffer \<Rightarrow> bb_error + ('k \<times> bytebuffer)) \<Rightarrow> (bytebuffer \<Rightarrow> bb_error + ('v \<times> bytebuffer))
     \<Rightarrow> bytebuffer \<Rightarrow> bb_error + (('k \<Rightarrow> 'v option) \<times> bytebuffer)"
where
  "get_map rk rv b = bind_res (get_vector (get_pair rk rv) b)
     (\<lambda>(kvs, b). Inr (fold map_insert kvs Map.empty, b))"

lemma append_le_bytes:
  assumes "length bs + length (le_bytes v) < bb_limit" and "8 \<le> LENGTH('a)"
  shows "append_val (v :: 'a::len word) (wstate r (bs, [])) = Inr (wstate r (bs @ le_bytes v, []))"
proof -
  have "0 < length (le_bytes v)" using assms(2) by (simp add: div_greater_zero_iff)
  with assms have "Suc (length bs) < bb_limit" by simp
  with append_val_wstate [of "[]" bs, OF _ this assms(2)] show ?thesis
    by (simp add: flush_image_def)
qed

lemma unread_advance: "unread_bytes (b\<lparr>rpos := rpos b + n\<rparr>) = drop n (unread_bytes b)"
  by (simp add: unread_bytes_def add.commute)

lemma read_le_bytes:
  assumes "unread_bytes b = le_bytes v @ rest" and "LENGTH('a) mod 8 = 0" and "8 \<le> LENGTH('a)"
  shows "\<exists>b'. read_val b = Inr (v :: 'a::len word, b') \<and> unread_bytes b' = rest"
  using read_val_prefix [OF assms] assms(1) by (auto simp: unread_advance)

context byte_codec begin

lemma put_all_enc:
  "\<forall>v \<in> set vs. valid v \<Longrightarrow> length bs + length (concat (map enc vs)) < bb_limit \<Longrightarrow>
     put_all wr vs (wstate r (bs, [])) = Inr (wstate r (bs @ concat (map enc vs), []))"
proof (induction vs arbitrary: bs)
  case Nil
  then show ?case by simp
next
  case (Cons v vs)
  then have "wr v (wstate r (bs, [])) = Inr (wstate r (bs @ enc v, []))"
    by (intro wr_enc) simp_all
  with Cons.IH [of "bs @ enc v"] Cons.prems show ?case by simp
qed

lemma get_n_enc:
  "\<forall>v \<in> set vs. valid v \<Longrightarrow> unread_bytes b = concat (map enc vs) @ rest \<Longrightarrow>
     \<exists>b'. get_n rd (length vs) b = Inr (vs, b') \<and> unread_bytes b' = rest"
proof (induction vs arbitrary: b)
  case Nil
  then show ?case by simp
next
  case (Cons v vs)
  from Cons.prems rd_enc [of v b "concat (map enc vs) @ rest"] obtain b1 where
    b1: "rd b = Inr (v, b1)" "unread_bytes b1 = concat (map enc vs) @ rest"
    by auto
  with Cons.IH [OF _ b1(2)] Cons.prems(1) show ?case by auto
qed

definition enc_vector :: "'v list \<Rightarrow> u8 list" where
  "enc_vector vs = le_bytes (of_nat (length vs) :: u32) @ concat (map enc vs)"

definition valid_vector :: "'v list \<Rightarrow> bool" where
  "valid_vector vs \<longleftrightarrow> (\<forall>v \<in> set vs. valid v) \<and> length vs < 2 ^ 32"

lemma vector_codec: "byte_codec (put_vector wr) (get_vector rd) enc_vector valid_vector"
proof
  fix vs and bs :: "u8 list" and r
  assume v: "valid_vector vs" and len: "length bs + length (enc_vector vs) < bb_limit"
  have "append_val (of_nat (length vs) :: u32) (wstate r (bs, [])) =
      Inr (wstate r (bs @ le_bytes (of_nat (length vs) :: u32), []))"
    using len by (intro append_le_bytes) (simp_all add: enc_vector_def)
  with put_all_enc [of vs "bs @ le_bytes (of_nat (length vs) :: u32)" r] v len
  show "put_vector wr vs (wstate r (bs, [])) = Inr (wstate r (bs @ enc_vector vs, []))"
    by (simp add: put_vector_def valid_vector_def enc_vector_def)
next
  fix vs b rest
  assume v: "valid_vector vs" and u: "unread_bytes b = enc_vector vs @ rest"
  have "\<exists>b1. read_val b = Inr (of_nat (length vs) :: u32, b1) \<and>
      unread_bytes b1 = concat (map enc vs) @ rest"
    using u by (intro read_le_bytes) (simp_all add: enc_vector_def)
  then obtain b1 where b1: "read_val b = Inr (of_nat (length vs) :: u32, b1)"
    "unread_bytes b1 = concat (map enc vs) @ rest" by blast
  have "unat (of_nat (length vs) :: u32) = length vs"
    using v by (simp add: valid_vector_def unat_of_nat)
  with b1 get_n_enc [OF _ b1(2)] v show "\<exists>b'. get_vector rd b = Inr (vs, b') \<and> unread_bytes b' = rest"
    by (auto simp: get_vector_def valid_vector_def)
qed

end

locale codec_pair = k: byte_codec wk rk enck validk + v: byte_codec wv rv encv validv
  for wk :: "'k \<Rightarrow> bytebuffer \<Rightarrow> bb_error + bytebuffer" and rk enck validk
    and wv :: "'v \<Rightarrow> bytebuffer \<Rightarrow> bb_error + bytebuffer" and rv encv validv
begin

definition enc_pair :: "'k \<times> 'v \<Rightarrow> u8 list" where
  "enc_pair p = enck (fst p) @ encv (snd p)"

definition valid_pair :: "'k \<times> 'v \<Rightarrow> bool" where
  "valid_pair p \<longleftrightarrow> validk (fst p) \<and> validv (snd p)"

lemma pair_codec: "byte_codec (put_pair wk wv) (get_pair rk rv) enc_pair valid_pair"
proof
  fix p and bs :: "u8 list" and r
  assume "valid_pair p" and "length bs + length (enc_pair p) < bb_limit"
  then show "put_pair wk wv p (wstate r (bs, [])) = Inr (wstate r (bs @ enc_pair p, []))"
    by (simp add: put_pair_def valid_pair_def enc_pair_def k.wr_enc v.wr_enc)
next
  fix p b rest
  assume p: "valid_pair p" and u: "unread_bytes b = enc_pair p @ rest"
  then obtain b1 where "rk b = Inr (fst p, b1)" "unread_bytes b1 = encv (snd p) @ rest"
    using k.rd_enc [of "fst p" b "encv (snd p) @ rest"] by (auto simp: valid_pair_def enc_pair_def)
  with v.rd_enc [of "snd p" b1 rest] p
  show "\<exists>b'. get_pair rk rv b = Inr (p, b') \<and> unread_bytes b' = rest"
    by (auto simp: get_pair_def valid_pair_def)
qed

end

sublocale codec_pair \<subseteq> p: byte_codec "put_pair wk wv" "get_pair rk rv" enc_pair valid_pair
  by (rule pair_codec)

lemma fold_map_insert:
  "distinct (map fst kvs) \<Longrightarrow> \<forall>k \<in> fst ` set kvs. m k = None \<Longrightarrow>
     fold map_insert kvs m = m ++ map_of kvs"
proof (induction kvs arbitrary: m)
  case Nil
  then show ?case by simp
next
  case (Cons kv kvs)
  have "map_insert kv m k = None" if "k \<in> fst ` set kvs" for k
  proof -
    have "fst kv \<notin> fst ` set kvs" using Cons.prems(1) by simp
    with that have "k \<noteq> fst kv" by blast
    with that Cons.prems(2) show ?thesis by (auto simp: map_insert_def)
  qed
  then have "fold map_insert kvs (map_insert kv m) = map_insert kv m ++ map_of kvs"
    using Cons.prems(1) by (intro Cons.IH) simp_all
  also have "\<dots> = m ++ map_of (kv # kvs)"
  proof -
    have "map_of kvs (fst kv) = None" using Cons.prems(1) by (simp add: map_of_eq_None_iff)
    with Cons.prems(2) show ?thesis
      by (cases kv) (auto simp: map_insert_def fun_eq_iff map_add_def split: option.splits)
  qed
  finally show ?case by (simp only: fold.simps comp_def)
qed

context codec_pair begin

lemma map_roundtrip:
  assumes "\<forall>p \<in> set kvs. valid_pair p" and "length kvs < 2 ^ 32" and "distinct (map fst kvs)"
    and "length bs + length (p.enc_vector kvs) < bb_limit"
  shows "put_map wk wv kvs (wstate r (bs, [])) = Inr (wstate r (bs @ p.enc_vector kvs, []))"
    and "unread_bytes b = p.enc_vector kvs @ rest \<Longrightarrow>
      \<exists>b'. get_map rk rv b = Inr (map_of kvs, b') \<and> unread_bytes b' = rest"
proof -
  have v: "p.valid_vector kvs" using assms(1,2) by (simp add: p.valid_vector_def)
  show "put_map wk wv kvs (wstate r (bs, [])) = Inr (wstate r (bs @ p.enc_vector kvs, []))"
    using byte_codec.wr_enc [OF p.vector_codec v assms(4)] by (simp add: put_map_def)
  assume "unread_bytes b = p.enc_vector kvs @ rest"
  from byte_codec.rd_enc [OF p.vector_codec v this] fold_map_insert [OF assms(3), of Map.empty]
  show "\<exists>b'. get_map rk rv b = Inr (map_of kvs, b') \<and> unread_bytes b' = rest"
    by (auto simp: get_map_def)
qed

end

subsection \<open>Strings\<close>

text \<open>
  A \<open>std::string\<close> is its bytes. The characters are appended raw, without \<open>FlushBits\<close>; only the
  terminating zero flushes. A null \<open>const char*\<close> is \<open>None\<close>, another one its characters up to the zero.
\<close>

definition append_string :: "u8 list \<Rightarrow> bytebuffer \<Rightarrow> bb_error + bytebuffer" where
  "append_string str b =
     bind_res (if str \<noteq> [] then append_bytes str b else Inr b) (append_val (0 :: u8))"

definition append_cstring :: "u8 list option \<Rightarrow> bytebuffer \<Rightarrow> bb_error + bytebuffer" where
  "append_cstring str b = append_string (case str of None \<Rightarrow> [] | Some s \<Rightarrow> s) b"

function read_string_from :: "u8 list \<Rightarrow> bytebuffer \<Rightarrow> bb_error + (u8 list \<times> bytebuffer)" where
  "read_string_from v b =
     (if rpos b < length (storage b)
      then bind_res (read_val b) (\<lambda>(c, b).
             if c = 0 then Inr (v, b) else read_string_from (v @ [c]) b)
      else Inr (v, b))"
  by pat_completeness auto
termination
  by (relation "measure (\<lambda>(v, b). length (storage b) - rpos b)")
    (auto simp: read_val_def read_at_def split: if_splits)

definition read_string :: "bytebuffer \<Rightarrow> bb_error + (u8 list \<times> bytebuffer)" where
  "read_string b = read_string_from [] b"

definition ReadString :: "u32 \<Rightarrow> bytebuffer \<Rightarrow> bb_error + (u8 list \<times> bytebuffer)" where
  "ReadString len b =
     (if len = 0 then Inr ([], b)
      else bind_res (read_bytes (unat len) b) (\<lambda>(str, b). Inr (takeWhile (\<lambda>c. c \<noteq> 0) str, b)))"

definition WriteString :: "u8 list \<Rightarrow> bytebuffer \<Rightarrow> bb_error + bytebuffer" where
  "WriteString str b = (if str \<noteq> [] then append_bytes str b else Inr b)"

definition read_bool :: "bytebuffer \<Rightarrow> bb_error + (bool \<times> bytebuffer)" where
  "read_bool b = bind_res (read_val b) (\<lambda>(c, b). Inr (sint (c :: u8) > 0, b))"

declare read_string_from.simps [simp del]

lemma append_bytes_byte: "le_bytes (c :: u8) = [c]"
  by (simp add: le_bytes_def word_byte_def)

lemma read_val_u8:
  assumes "unread_bytes b = c # rest"
  shows "read_val b = Inr (c, b\<lparr>rpos := rpos b + 1\<rparr>)"
    and "unread_bytes (b\<lparr>rpos := rpos b + 1\<rparr>) = rest"
    and "rpos b < length (storage b)"
proof -
  show "read_val b = Inr (c, b\<lparr>rpos := rpos b + 1\<rparr>)"
    using read_val_prefix [of b c rest] assms by (simp add: append_bytes_byte)
  show "unread_bytes (b\<lparr>rpos := rpos b + 1\<rparr>) = rest"
    unfolding unread_advance using assms by simp
  show "rpos b < length (storage b)"
    using assms by (rule_tac ccontr) (simp add: unread_bytes_def)
qed

lemma read_string_from_enc:
  "0 \<notin> set str \<Longrightarrow> unread_bytes b = str @ 0 # rest \<Longrightarrow>
     \<exists>b'. read_string_from v b = Inr (v @ str, b') \<and> unread_bytes b' = rest"
proof (induction str arbitrary: v b)
  case Nil
  then show ?case
    using read_val_u8 [of b 0 rest] by (subst read_string_from.simps) simp
next
  case (Cons c str)
  let ?b = "b\<lparr>rpos := rpos b + 1\<rparr>"
  have c: "read_val b = Inr (c, ?b)" "unread_bytes ?b = str @ 0 # rest" "rpos b < length (storage b)"
    using read_val_u8 [of b c "str @ 0 # rest"] Cons.prems(2) by simp_all
  from Cons.IH [OF _ c(2), of "v @ [c]"] Cons.prems(1) obtain b' where
    "read_string_from (v @ [c]) ?b = Inr (v @ c # str, b')" "unread_bytes b' = rest" by auto
  with c Cons.prems(1) show ?case by (subst read_string_from.simps) auto
qed

definition enc_string :: "u8 list \<Rightarrow> u8 list" where
  "enc_string str = str @ [0]"

definition zero_free :: "u8 list \<Rightarrow> bool" where
  "zero_free str \<longleftrightarrow> 0 \<notin> set str"

interpretation str: byte_codec append_string read_string enc_string zero_free
proof
  fix str bs :: "u8 list" and r
  assume len: "length bs + length (enc_string str) < bb_limit"
  have "(if str \<noteq> [] then append_bytes str (wstate r (bs, [])) else Inr (wstate r (bs, []))) =
      Inr (wstate r (bs @ str, []))"
    using len by (simp add: enc_string_def append_bytes_wstate)
  with len show "append_string str (wstate r (bs, [])) = Inr (wstate r (bs @ enc_string str, []))"
    using append_le_bytes [of "bs @ str" "0 :: u8" r]
    by (simp add: append_string_def enc_string_def append_bytes_byte)
next
  fix str rest b
  assume "zero_free str" and "unread_bytes b = enc_string str @ rest"
  then show "\<exists>b'. read_string b = Inr (str, b') \<and> unread_bytes b' = rest"
    using read_string_from_enc [of str b rest "[]"]
    by (simp add: zero_free_def enc_string_def read_string_def)
qed

interpretation val8: byte_codec "append_val :: u8 \<Rightarrow> _" read_val le_bytes "\<lambda>_. True"
  by unfold_locales (simp_all add: append_le_bytes read_le_bytes)

interpretation val16: byte_codec "append_val :: u16 \<Rightarrow> _" read_val le_bytes "\<lambda>_. True"
  by unfold_locales (simp_all add: append_le_bytes read_le_bytes)

interpretation val32: byte_codec "append_val :: u32 \<Rightarrow> _" read_val le_bytes "\<lambda>_. True"
  by unfold_locales (simp_all add: append_le_bytes read_le_bytes)

interpretation val64: byte_codec "append_val :: u64 \<Rightarrow> _" read_val le_bytes "\<lambda>_. True"
  by unfold_locales (simp_all add: append_le_bytes read_le_bytes)

interpretation dict: codec_pair "append_val :: u32 \<Rightarrow> _" read_val le_bytes "\<lambda>_. True"
    append_string read_string enc_string zero_free
  ..

text \<open>
  A map from 32-bit keys to strings without zero bytes written with operator<< is read back
  by operator>> as the same map, to the last byte of the packet.
\<close>

theorem string_map_roundtrip:
  assumes "distinct (map fst kvs)" and "\<forall>(k, str) \<in> set kvs. zero_free str" and "length kvs < 2 ^ 32"
    and "4 + (\<Sum>(k, str) \<leftarrow> kvs. length str + 5) < bb_limit"
  shows "\<exists>b b'. put_map (append_val :: u32 \<Rightarrow> _) append_string kvs bb_new = Inr b \<and>
    get_map read_val read_string (bb_received (storage b)) = Inr (map_of kvs, b') \<and> unread_bytes b' = []"
proof -
  have v: "\<forall>p \<in> set kvs. dict.valid_pair p"
    using assms(2) by (auto simp: dict.valid_pair_def)
  have "length (dict.p.enc_vector kvs) = 4 + (\<Sum>(k, str) \<leftarrow> kvs. length str + 5)"
    by (simp add: dict.p.enc_vector_def dict.enc_pair_def enc_string_def length_concat comp_def split_def add.commute)
  with assms(4) have len: "length ([] :: u8 list) + length (dict.p.enc_vector kvs) < bb_limit" by simp
  let ?bs = "dict.p.enc_vector kvs"
  have u: "unread_bytes (bb_received ?bs) = ?bs @ []"
    by (simp add: unread_bytes_def bb_received_def)
  from dict.map_roundtrip(2) [OF v assms(3,1) len u] dict.map_roundtrip(1) [OF v assms(3,1) len, of 0]
  show ?thesis by (auto simp: bb_new_wstate wstate_def)
qed

theorem string_map_roundtrip_witness:
  "\<exists>b b'. put_map (append_val :: u32 \<Rightarrow> _) append_string [(1, [72, 105]), (7, []), (9, [33])] bb_new = Inr b \<and>
    get_map read_val read_string (bb_received (storage b)) =
      Inr (map_of [(1 :: u32, [72, 105]), (7, []), (9, [33])], b') \<and> unread_bytes b' = []"
  using string_map_roundtrip [of "[(1, [72, 105]), (7, []), (9, [33])]"]
  by (simp add: zero_free_def bb_limit_def)

subsection \<open>Packed GUIDs\<close>

function pack_guid_loop :: "nat \<Rightarrow> u64 \<Rightarrow> u8 \<Rightarrow> u8 list \<Rightarrow> u8 \<times> u8 list" where
  "pack_guid_loop i g mark bytes =
     (if g = 0 then (mark, bytes)
      else if g AND 0xFF \<noteq> 0
      then pack_guid_loop (Suc i) (drop_bit 8 g) (mark OR push_bit i 1) (bytes @ [ucast (g AND 0xFF)])
      else pack_guid_loop (Suc i) (drop_bit 8 g) mark bytes)"
  by pat_completeness auto
termination
  by (relation "measure (\<lambda>(i, g, mark, bytes). unat g)")
    (auto simp: drop_bit_eq_div unat_div word_less_nat_alt unat_gt_0)

definition appendPackGUID :: "u64 \<Rightarrow> bytebuffer \<Rightarrow> bb_error + bytebuffer" where
  "appendPackGUID g b = (case pack_guid_loop 0 g 0 [] of (mark, bytes) \<Rightarrow> append_bytes (mark # bytes) b)"

fun unpack_guid_loop :: "nat list \<Rightarrow> u8 \<Rightarrow> u64 \<Rightarrow> bytebuffer \<Rightarrow> bb_error + (u64 \<times> bytebuffer)" where
  "unpack_guid_loop [] mark g b = Inr (g, b)"
| "unpack_guid_loop (i # is) mark g b =
     (if mark AND push_bit i 1 \<noteq> 0
      then if rpos b + 1 > length (storage b)
           then Inl (PositionException False (rpos b) 1 (length (storage b)))
           else bind_res (read_val b) (\<lambda>(x, b).
             unpack_guid_loop is mark (g OR push_bit (i * 8) (ucast (x :: u8))) b)
      else unpack_guid_loop is mark g b)"

definition readPackGUID :: "bytebuffer \<Rightarrow> bb_error + (u64 \<times> bytebuffer)" where
  "readPackGUID b =
     (if rpos b + 1 > length (storage b)
      then Inl (PositionException False (rpos b) 1 (length (storage b)))
      else bind_res (read_val b) (\<lambda>(mark, b). unpack_guid_loop [0..<8] mark 0 b))"

declare pack_guid_loop.simps [simp del]

definition packed_bytes :: "u64 \<Rightarrow> nat \<Rightarrow> u8 list" where
  "packed_bytes g i = map (word_byte g) (filter (\<lambda>j. word_byte g j \<noteq> 0) [i..<8])"

lemma word_byte_drop: "word_byte (drop_bit (8 * i) g) 0 = word_byte g i"
  by (rule bit_word_eqI) (simp add: bit_word_byte bit_drop_bit_eq)

lemma and_FF: "(g :: u64) AND 0xFF = ucast (word_byte g 0)"
  by (rule bit_word_eqI) (unfold bit_and_iff bit_FF, auto simp: bit_ucast_iff bit_word_byte)

lemma ucast_byte_u64_eq_0: "(ucast (x :: u8) :: u64) = 0 \<longleftrightarrow> x = 0"
proof
  assume "(ucast x :: u64) = 0"
  then have "word_byte (ucast x :: u64) 0 = 0" by (simp add: word_byte_def)
  moreover have "word_byte (ucast x :: u64) 0 = x"
    by (rule bit_word_eqI) (simp add: bit_word_byte bit_ucast_iff)
  ultimately show "x = 0" by simp
qed simp

lemma bit_u8_pow: "bit (2 ^ i :: u8) j \<longleftrightarrow> i = j \<and> j < 8"
  by (auto simp: bit_exp_iff possible_bit_word)

lemma ucast_u8_u64 [simp]: "(ucast (ucast x :: u64) :: u8) = x"
  by (rule bit_word_eqI) (simp add: bit_ucast_iff)

lemma drop_bit_8_pos: "drop_bit (8 * i) g = (0 :: u64) \<Longrightarrow> i \<le> j \<Longrightarrow> word_byte g j = 0"
proof (rule bit_word_eqI)
  fix n assume z: "drop_bit (8 * i) g = 0" and "i \<le> j" "n < LENGTH(8)"
  have "bit (word_byte g j) n \<longleftrightarrow> bit (drop_bit (8 * i) g) (8 * (j - i) + n)"
    using \<open>i \<le> j\<close> \<open>n < LENGTH(8)\<close> by (simp add: bit_word_byte bit_drop_bit_eq algebra_simps)
  with z show "bit (word_byte g j) n = bit 0 n" by simp
qed

lemma packed_bytes_zero: "\<forall>j \<in> {i..<8}. word_byte g j = 0 \<Longrightarrow> packed_bytes g i = []"
  by (simp add: packed_bytes_def filter_empty_conv)

lemma packed_bytes_Cons:
  "i < 8 \<Longrightarrow> packed_bytes g i =
     (if word_byte g i \<noteq> 0 then word_byte g i # packed_bytes g (Suc i) else packed_bytes g (Suc i))"
  by (simp add: packed_bytes_def upt_conv_Cons)

lemma pack_guid_loop_spec:
  assumes "i \<le> 8"
  shows "\<exists>m. pack_guid_loop i (drop_bit (8 * i) g) mark bytes = (m, bytes @ packed_bytes g i) \<and>
    (\<forall>j. bit m j \<longleftrightarrow> bit mark j \<or> i \<le> j \<and> j < 8 \<and> word_byte g j \<noteq> 0)"
  using assms
proof (induction "8 - i" arbitrary: i mark bytes)
  case 0
  then have i: "i = 8" by simp
  have "drop_bit 64 g = 0"
    by (rule bit_word_eqI) (auto simp: bit_drop_bit_eq dest: bit_imp_le_length)
  with i show ?case by (subst pack_guid_loop.simps) (auto simp: packed_bytes_def)
next
  case (Suc n)
  then have i: "i < 8" and n: "n = 8 - Suc i" "Suc i \<le> 8" by simp_all
  let ?g = "drop_bit (8 * i) g"
  show ?case
  proof (cases "?g = 0")
    case True
    then have "\<forall>j \<in> {i..<8}. word_byte g j = 0" using drop_bit_8_pos by simp
    with True show ?thesis
      by (subst pack_guid_loop.simps) (auto simp: packed_bytes_zero)
  next
    case False
    have d: "drop_bit 8 ?g = drop_bit (8 * Suc i) g" by (simp add: ac_simps)
    have b0: "?g AND 0xFF = ucast (word_byte g i)" by (simp only: and_FF word_byte_drop)
    have nz: "ucast (word_byte g i) = (0 :: u64) \<longleftrightarrow> word_byte g i = 0"
      by (rule ucast_byte_u64_eq_0)
    let ?m = "if word_byte g i \<noteq> 0 then mark OR push_bit i 1 else mark"
    let ?b = "if word_byte g i \<noteq> 0 then bytes @ [word_byte g i] else bytes"
    have "pack_guid_loop i ?g mark bytes = pack_guid_loop (Suc i) (drop_bit (8 * Suc i) g) ?m ?b"
      using False by (subst pack_guid_loop.simps) (simp only: b0 nz d if_False, simp)
    moreover from Suc.hyps(1) [OF n, of ?m ?b] obtain m where
      "pack_guid_loop (Suc i) (drop_bit (8 * Suc i) g) ?m ?b = (m, ?b @ packed_bytes g (Suc i))"
      "\<forall>j. bit m j \<longleftrightarrow> bit ?m j \<or> Suc i \<le> j \<and> j < 8 \<and> word_byte g j \<noteq> 0"
      by blast
    ultimately show ?thesis
      using i by (auto simp: packed_bytes_Cons bit_or_iff bit_u8_pow le_eq_less_or_eq Suc_le_eq)
  qed
qed

lemma word_byte_or_push:
  assumes "i < 8" and "word_byte h i = 0"
  shows "word_byte (h OR push_bit (i * 8) (ucast (v :: u8)) :: u64) j = (if i = j then v else word_byte h j)"
proof (rule bit_word_eqI)
  fix n assume n: "n < LENGTH(8)"
  have z: "\<not> bit h (8 * i + n)"
    using arg_cong [OF assms(2), of "\<lambda>w. bit w n"] n by (simp add: bit_word_byte)
  have p: "bit (push_bit (i * 8) (ucast v) :: u64) (8 * j + n) \<longleftrightarrow> i = j \<and> bit v n"
  proof (cases "i = j")
    case True
    with assms(1) n show ?thesis
      by (auto simp: bit_push_bit_iff bit_ucast_iff possible_bit_word ac_simps)
  next
    case False
    have "\<not> (8 * i \<le> 8 * j + n \<and> 8 * j + n - 8 * i < 8)" using False n by auto
    with False show ?thesis
      by (auto simp: bit_push_bit_iff bit_ucast_iff ac_simps dest: bit_imp_le_length)
  qed
  show "bit (word_byte (h OR push_bit (i * 8) (ucast v)) j) n = bit (if i = j then v else word_byte h j) n"
    using n z p by (auto simp: bit_word_byte bit_or_iff)
qed

lemma unpack_guid_loop_spec:
  assumes "i \<le> 8" and "\<forall>j. bit mark j \<longleftrightarrow> j < 8 \<and> word_byte g j \<noteq> 0"
    and "\<forall>j. word_byte h j = (if j < i then word_byte g j else 0)"
    and "unread_bytes b = packed_bytes g i @ rest"
  shows "\<exists>b'. unpack_guid_loop [i..<8] mark h b = Inr (g, b') \<and> unread_bytes b' = rest"
  using assms(1,3,4)
proof (induction "8 - i" arbitrary: i h b)
  case 0
  then have "h = g" by (intro guid_eq_iff_bytes) simp
  with 0 show ?case by (simp add: packed_bytes_def)
next
  case (Suc n)
  then have i: "i < 8" and n: "n = 8 - Suc i" "Suc i \<le> 8" by simp_all
  have mk: "mark AND push_bit i 1 \<noteq> 0 \<longleftrightarrow> word_byte g i \<noteq> 0"
  proof -
    have "mark AND push_bit i 1 \<noteq> 0 \<longleftrightarrow> bit mark i"
      by (simp only: bit_iff_and_push_bit_not_eq_0)
    with assms(2) i show ?thesis by simp
  qed
  show ?case
  proof (cases "word_byte g i = 0")
    case True
    have "\<forall>j. word_byte h j = (if j < Suc i then word_byte g j else 0)"
      using Suc.prems(2) True by (simp add: less_Suc_eq)
    moreover have "unread_bytes b = packed_bytes g (Suc i) @ rest"
      using Suc.prems(3) True i by (simp add: packed_bytes_Cons)
    ultimately show ?thesis
      using Suc.hyps(1) [OF n] True mk i by (simp add: upt_conv_Cons)
  next
    case False
    let ?h = "h OR push_bit (i * 8) (ucast (word_byte g i))" and ?b = "b\<lparr>rpos := rpos b + 1\<rparr>"
    have "unread_bytes b = word_byte g i # packed_bytes g (Suc i) @ rest"
      using Suc.prems(3) False i by (simp add: packed_bytes_Cons)
    note rd = read_val_u8 [OF this]
    have "word_byte h i = 0" using Suc.prems(2) by simp
    from word_byte_or_push [OF i this] Suc.prems(2)
    have h: "\<forall>j. word_byte ?h j = (if j < Suc i then word_byte g j else 0)"
      by (simp add: less_Suc_eq)
    from Suc.hyps(1) [OF n h rd(2)] show ?thesis
      using rd mk False i by (simp add: upt_conv_Cons)
  qed
qed

definition enc_packed_guid :: "u64 \<Rightarrow> u8 list" where
  "enc_packed_guid g = fst (pack_guid_loop 0 g 0 []) # packed_bytes g 0"

lemma pack_guid_0:
  obtains m where "pack_guid_loop 0 g 0 [] = (m, packed_bytes g 0)"
    and "\<forall>j. bit m j \<longleftrightarrow> j < 8 \<and> word_byte g j \<noteq> 0"
  using pack_guid_loop_spec [of 0 g 0 "[]"] by auto

interpretation packed_guid: byte_codec appendPackGUID readPackGUID enc_packed_guid "\<lambda>_. True"
proof
  fix g and bs :: "u8 list" and r
  assume len: "length bs + length (enc_packed_guid g) < bb_limit"
  obtain m where "pack_guid_loop 0 g 0 [] = (m, packed_bytes g 0)" by (rule pack_guid_0)
  with len show "appendPackGUID g (wstate r (bs, [])) = Inr (wstate r (bs @ enc_packed_guid g, []))"
    by (simp add: appendPackGUID_def enc_packed_guid_def append_bytes_wstate)
next
  fix g b rest
  assume u: "unread_bytes b = enc_packed_guid g @ rest"
  obtain m where m: "pack_guid_loop 0 g 0 [] = (m, packed_bytes g 0)"
    "\<forall>j. bit m j \<longleftrightarrow> j < 8 \<and> word_byte g j \<noteq> 0" by (rule pack_guid_0)
  have "unread_bytes b = m # packed_bytes g 0 @ rest"
    using u m by (simp add: enc_packed_guid_def)
  note rd = read_val_u8 [OF this]
  from unpack_guid_loop_spec [of 0 m g 0, OF _ m(2) _ rd(2)] rd
  show "\<exists>b'. readPackGUID b = Inr (g, b') \<and> unread_bytes b' = rest"
    by (auto simp: readPackGUID_def word_byte_def)
qed

lemma length_enc_packed_guid: "length (enc_packed_guid g) \<le> 9"
proof -
  have "length (packed_bytes g 0) \<le> length [0..<8]"
    unfolding packed_bytes_def length_map by (rule length_filter_le)
  then show ?thesis by (simp add: enc_packed_guid_def)
qed

text \<open>
  appendPackGUID adds at most nine bytes behind what the packet already holds, and
  readPackGUID turns them back into the GUID for all 2^64 values.
\<close>

theorem packed_guid_roundtrip:
  assumes "length bs + 9 < bb_limit"
  shows "\<exists>b b'. appendPackGUID g (wstate (length bs) (bs, [])) = Inr b \<and>
    length (storage b) \<le> length bs + 9 \<and> take (length bs) (storage b) = bs \<and>
    readPackGUID b = Inr (g, b') \<and> unread_bytes b' = []"
proof -
  let ?e = "enc_packed_guid g"
  let ?b = "wstate (length bs) (bs @ ?e, [])"
  have "length bs + length ?e < bb_limit"
    using assms length_enc_packed_guid [of g] by simp
  then have "appendPackGUID g (wstate (length bs) (bs, [])) = Inr ?b"
    by (intro packed_guid.wr_enc) simp_all
  moreover have "unread_bytes ?b = ?e @ []"
    by (simp add: unread_bytes_def wstate_def)
  then have "\<exists>b'. readPackGUID ?b = Inr (g, b') \<and> unread_bytes b' = []"
    by (intro packed_guid.rd_enc) simp_all
  ultimately show ?thesis
    using length_enc_packed_guid [of g] by (auto simp: wstate_def)
qed

theorem packed_guid_roundtrip_witness:
  "\<exists>b b'. appendPackGUID 0x0300000000A0B1C2 (wstate 2 ([7, 8], [])) = Inr b \<and>
    length (storage b) \<le> 2 + 9 \<and> take 2 (storage b) = [7, 8] \<and>
    readPackGUID b = Inr (0x0300000000A0B1C2, b') \<and> unread_bytes b' = []"
  using packed_guid_roundtrip [of "[7, 8]" "0x0300000000A0B1C2"]
  by (simp add: bb_limit_def numeral_2_eq_2)

subsection \<open>Patching bits\<close>

text \<open>The bits of a packet in stream order.\<close>

definition stream_bits :: "u8 list \<Rightarrow> bool list" where
  "stream_bits bs = concat (map bits_of_byte bs)"

definition put_bit_at :: "nat \<Rightarrow> bool \<Rightarrow> u8 list \<Rightarrow> u8 list" where
  "put_bit_at p x bs =
     bs[p div 8 := (if x then bs ! (p div 8) OR push_bit (7 - p mod 8) 1
                    else bs ! (p div 8) AND NOT (push_bit (7 - p mod 8) 1))]"

fun PutBits_from :: "nat \<Rightarrow> 'a::len word \<Rightarrow> nat \<Rightarrow> u8 list \<Rightarrow> u8 list" where
  "PutBits_from p v 0 bs = bs"
| "PutBits_from p v (Suc n) bs = PutBits_from (Suc p) v n (put_bit_at p (bit v n) bs)"

text \<open>A shift by at least the width of the (promoted) operand has no defined result.\<close>

definition PutBits :: "nat \<Rightarrow> 'a::len word \<Rightarrow> nat \<Rightarrow> bytebuffer \<Rightarrow> bb_error + bytebuffer" where
  "PutBits pos v n b =
     (if n = 0 then Inl (SourceException ((pos + n) div 8) (length (storage b)) 0)
      else if pos + n > length (storage b) * 8
      then Inl (PositionException False ((pos + n) div 8) (length (storage b)) ((n - 1) div 8 + 1))
      else if n > max 32 LENGTH('a) then Inl UndefinedBehaviour
      else Inr (b\<lparr>storage := PutBits_from pos v n (storage b)\<rparr>))"

lemma length_stream_bits [simp]: "length (stream_bits bs) = 8 * length bs"
  by (induction bs) (simp_all add: stream_bits_def)

lemma nth_stream_bits:
  "k < 8 * length bs \<Longrightarrow> stream_bits bs ! k = bit (bs ! (k div 8)) (7 - k mod 8)"
proof (induction bs arbitrary: k)
  case Nil
  then show ?case by simp
next
  case (Cons y bs)
  have e: "stream_bits (y # bs) = bits_of_byte y @ stream_bits bs" by (simp add: stream_bits_def)
  show ?case
  proof (cases "k < 8")
    case True
    then show ?thesis by (simp add: e nth_append bits_of_byte_def)
  next
    case False
    then have "k div 8 = Suc ((k - 8) div 8)" "k mod 8 = (k - 8) mod 8"
      by (simp_all add: le_div_geq le_mod_geq)
    with False Cons.IH [of "k - 8"] Cons.prems show ?thesis by (simp add: e nth_append)
  qed
qed

lemma length_put_bit_at [simp]: "length (put_bit_at p x bs) = length bs"
  by (simp add: put_bit_at_def)

lemma stream_put_bit_at:
  assumes "p < 8 * length bs"
  shows "stream_bits (put_bit_at p x bs) = (stream_bits bs)[p := x]"
proof (rule nth_equalityI)
  show "length (stream_bits (put_bit_at p x bs)) = length ((stream_bits bs)[p := x])" by simp
next
  fix k assume "k < length (stream_bits (put_bit_at p x bs))"
  then have k: "k < 8 * length bs" by simp
  have dm: "k = p \<longleftrightarrow> k div 8 = p div 8 \<and> 7 - k mod 8 = 7 - p mod 8"
  proof
    assume a: "k div 8 = p div 8 \<and> 7 - k mod 8 = 7 - p mod 8"
    have "k mod 8 < 8" "p mod 8 < 8" by simp_all
    with a have "k mod 8 = p mod 8" by linarith
    with a show "k = p" by (metis div_mult_mod_eq)
  qed simp
  have b: "bit (push_bit (7 - p mod 8) 1 :: u8) i \<longleftrightarrow> i = 7 - p mod 8" for i
    by (auto simp: bit_u8_pow)
  have pl: "p div 8 < length bs" using assms by simp
  let ?y = "bs ! (p div 8)" and ?i = "7 - k mod 8" and ?w = "push_bit (7 - p mod 8) 1 :: u8"
  have "stream_bits (put_bit_at p x bs) ! k = bit (put_bit_at p x bs ! (k div 8)) ?i"
    using k by (simp add: nth_stream_bits)
  also have "\<dots> = (if k = p then x else bit (bs ! (k div 8)) ?i)"
  proof (cases "k div 8 = p div 8")
    case True
    have i8: "?i < 8" by simp
    have "put_bit_at p x bs ! (k div 8) = (if x then ?y OR ?w else ?y AND NOT ?w)"
      unfolding put_bit_at_def True using pl by (rule nth_list_update_eq)
    with True dm i8 show ?thesis
      unfolding bit_or_iff bit_and_iff bit_not_iff
      by (cases x) (simp_all only: if_True if_False bit_or_iff bit_and_iff bit_not_iff b possible_bit_word, auto)
  next
    case False
    with dm show ?thesis by (simp add: put_bit_at_def)
  qed
  also have "\<dots> = (stream_bits bs)[p := x] ! k"
    using k by (cases "k = p") (simp_all add: nth_stream_bits)
  finally show "stream_bits (put_bit_at p x bs) ! k = (stream_bits bs)[p := x] ! k" .
qed

lemma stream_PutBits_from:
  "p + n \<le> 8 * length bs \<Longrightarrow>
     length (PutBits_from p v n bs) = length bs \<and>
     stream_bits (PutBits_from p v n bs) =
       take p (stream_bits bs) @ map (bit v) (rev [0..<n]) @ drop (p + n) (stream_bits bs)"
proof (induction n arbitrary: p bs)
  case 0
  then show ?case by simp
next
  case (Suc n)
  let ?bs = "put_bit_at p (bit v n) bs"
  have st: "stream_bits ?bs = (stream_bits bs)[p := bit v n]"
    using Suc.prems by (intro stream_put_bit_at) simp
  have "take (Suc p) ((stream_bits bs)[p := bit v n]) = take p (stream_bits bs) @ [bit v n]"
    using Suc.prems by (simp add: take_Suc_conv_app_nth)
  with Suc.IH [of "Suc p" ?bs] Suc.prems show ?case by (simp add: st)
qed

text \<open>
  PutBits overwrites exactly the n bits at the given bit position with the low bits of the
  value, most significant first, and leaves every other bit and every position of the buffer
  alone.
\<close>

theorem PutBits_patches:
  assumes "0 < n" and "pos + n \<le> 8 * length (storage b)" and "n \<le> max 32 LENGTH('a)"
  shows "\<exists>bs. PutBits pos (v :: 'a::len word) n b = Inr (b\<lparr>storage := bs\<rparr>) \<and>
    stream_bits bs = take pos (stream_bits (storage b)) @ map (bit v) (rev [0..<n]) @
      drop (pos + n) (stream_bits (storage b))"
  using assms stream_PutBits_from [of pos n "storage b" v] by (auto simp: PutBits_def)

theorem PutBits_patches_witness:
  "\<exists>bs. PutBits 3 (0x15 :: u32) 6 (bb_received [0xFF, 0x00]) = Inr (bb_received [0xFF, 0x00]\<lparr>storage := bs\<rparr>) \<and>
    stream_bits bs = [True, True, True, False, True, False, True, False, True,
      False, False, False, False, False, False, False]"
proof -
  have s: "stream_bits [0xFF, 0x00] = replicate 8 True @ replicate 8 False"
    by code_simp
  have v: "map (bit (0x15 :: u32)) (rev [0..<6]) = [False, True, False, True, False, True]"
    by code_simp
  show ?thesis
    using PutBits_patches [of 6 3 "bb_received [0xFF, 0x00]" "0x15 :: u32"]
    by (simp add: bb_received_def s v numeral_eq_Suc)
qed

subsection \<open>Bits and bytes that are mixed\<close>

text \<open>
  Any sequence of single bits and bytes in which a byte is only written or read on a bit boundary is read
  back exactly as it was written, and nothing of the packet is left.
\<close>

theorem packet_tokens_roundtrip:
  assumes "aligned 0 ts" and "emit ts ([], []) = (bs, [])" and "2 * length ts < bb_limit"
  shows "bb.put_tokens ts bb_new = Inr (wstate 0 (bs, [])) \<and>
    (\<exists>b. bb.get_tokens ts (bb_received bs) = Inr (ts, b) \<and> unread_bytes b = [])"
  unfolding bb_new_wstate
  by (rule bb.tokens_roundtrip [OF assms])
    (simp_all add: received_wstate wstate_def pending_bits_def unread_bytes_def)

theorem packet_tokens_roundtrip_witness:
  "bb.put_tokens [Bit True, Bit False, Byte 7, Byte 9] bb_new = Inr (wstate 0 ([0x80, 7, 9], [])) \<and>
    (\<exists>b. bb.get_tokens [Bit True, Bit False, Byte 7, Byte 9] (bb_received [0x80, 7, 9]) =
      Inr ([Bit True, Bit False, Byte 7, Byte 9], b) \<and> unread_bytes b = [])"
proof -
  have "pack_bits [True, False] = 0x80" by code_simp
  then show ?thesis
    by (intro packet_tokens_roundtrip) (simp_all add: flush_image_def bb_limit_def)
qed

text \<open>
  The alignment is needed: with a bit written after a byte without a flush in between,
  the reader keeps the stale bits of the first byte and reads the second bit wrong.
\<close>

theorem unaligned_bits_misread:
  "\<not> aligned 0 [Bit True, Byte 5, Bit True] \<and>
   bind_res (bb.put_tokens [Bit True, Byte 5, Bit True] bb_new) FlushBits = Inr (wstate 0 ([0x80, 5, 0x80], [])) \<and>
   (\<exists>b. bb.get_tokens [Bit True, Byte 5, Bit True] (bb_received [0x80, 5, 0x80]) =
      Inr ([Bit True, Byte 5, Bit False], b) \<and> unread_bytes b = [0x80])"
proof (intro conjI)
  have p: "pack_bits [True] = 0x80" by code_simp
  show "\<not> aligned 0 [Bit True, Byte 5, Bit True]" by simp
  have "bb.put_tokens [Bit True, Byte 5, Bit True] bb_new = Inr (wstate 0 ([0x80, 5], [True]))"
    using bb.put_tokens_view [of "([], [])" "[Bit True, Byte 5, Bit True]" 0]
    by (simp add: bb_new_wstate bb_limit_def flush_image_def p)
  then show "bind_res (bb.put_tokens [Bit True, Byte 5, Bit True] bb_new) FlushBits =
      Inr (wstate 0 ([0x80, 5, 0x80], []))"
    by (simp add: FlushBits_wstate bb_limit_def flush_image_def p)
  let ?bs = "[0x80, 5, 0x80] :: u8 list"
  let ?b1 = "\<lparr>rpos = 1, wpos = 3, bitpos = 0, curbitval = 0x80, storage = ?bs\<rparr>"
  let ?b2 = "?b1\<lparr>rpos := 2\<rparr>" and ?b3 = "?b1\<lparr>rpos := 2, bitpos := 1\<rparr>"
  have "ReadBit (bb_received ?bs) = Inr (True, ?b1)"
    by code_simp
  moreover have "read_val ?b1 = Inr (5 :: u8, ?b2)" by code_simp
  moreover have "ReadBit ?b2 = Inr (False, ?b3)" by code_simp
  moreover have "unread_bytes ?b3 = [0x80]" by (simp add: unread_bytes_def)
  ultimately show "\<exists>b. bb.get_tokens [Bit True, Byte 5, Bit True] (bb_received ?bs) =
      Inr ([Bit True, Byte 5, Bit False], b) \<and> unread_bytes b = [0x80]"
    by (simp add: bb.get_token_def)
qed

lemma append_bytes_pending:
  "src \<noteq> [] \<Longrightarrow> length bs < bb_limit \<Longrightarrow>
     append_bytes src (wstate r (bs, ps)) = Inr (wstate r (bs @ src, ps))"
  by (simp add: append_bytes_def wstate_def bb_limit_def)

text \<open>
  operator<<(std::string) does not flush: bits written before the string end up behind its
  characters and before its terminating zero.
\<close>

theorem string_overtakes_pending_bits:
  assumes "str \<noteq> []" and "ps \<noteq> []" and "length ps < 8" and "length bs + length str + 1 < bb_limit"
  shows "append_string str (wstate r (bs, ps)) = Inr (wstate r (bs @ str @ [pack_bits ps] @ [0], []))"
  using assms append_bytes_pending [of str bs r ps] append_val_wstate [of ps "bs @ str" "0 :: u8" r]
  by (simp add: append_string_def flush_image_def append_bytes_byte)

theorem string_overtakes_pending_bits_witness:
  "append_string [72, 105] (wstate 0 ([1], [True])) = Inr (wstate 0 ([1, 72, 105, 0x80, 0], []))"
proof -
  have "pack_bits [True] = 0x80" by code_simp
  then show ?thesis
    using string_overtakes_pending_bits [of "[72, 105]" "[True]" "[1]" 0] by (simp add: bb_limit_def)
qed

end
