(* ===== verification/PacketValues.thy ===== *)
theory PacketValues
  imports PacketCodec
begin

text \<open>
  A packet as its handlers see it: a sequence of bits, bit fields and integers of 8, 16, 32 and 64 bits, written with
  \<open>WriteBit\<close>, \<open>WriteBits\<close> and \<open>operator<<\<close> and read with \<open>ReadBit\<close>, \<open>ReadBits\<close> and \<open>operator>>\<close>
  (\<open>server/shared/Packets/ByteBuffer.h\<close>). The reader knows the kinds of the values and nothing else.
\<close>

datatype packet_value = VBit bool | VBits nat u32 | V8 u8 | V16 u16 | V32 u32 | V64 u64

datatype value_kind = KBit | KBits nat | K8 | K16 | K32 | K64

fun kind_of :: "packet_value \<Rightarrow> value_kind" where
  "kind_of (VBit _) = KBit"
| "kind_of (VBits n _) = KBits n"
| "kind_of (V8 _) = K8"
| "kind_of (V16 _) = K16"
| "kind_of (V32 _) = K32"
| "kind_of (V64 _) = K64"

fun put_value :: "packet_value \<Rightarrow> bytebuffer \<Rightarrow> bb_error + bytebuffer" where
  "put_value (VBit x) b = WriteBit (of_bool x) b"
| "put_value (VBits n v) b = WriteBits v n b"
| "put_value (V8 v) b = append_val v b"
| "put_value (V16 v) b = append_val v b"
| "put_value (V32 v) b = append_val v b"
| "put_value (V64 v) b = append_val v b"

definition read_as :: "('a::len word \<Rightarrow> packet_value) \<Rightarrow> bytebuffer \<Rightarrow> bb_error + (packet_value \<times> bytebuffer)" where
  "read_as f b = bind_res (read_val b) (\<lambda>(v, b). Inr (f v, b))"

fun get_value :: "value_kind \<Rightarrow> bytebuffer \<Rightarrow> bb_error + (packet_value \<times> bytebuffer)" where
  "get_value KBit b = bind_res (ReadBit b) (\<lambda>(x, b). Inr (VBit x, b))"
| "get_value (KBits n) b = bind_res (ReadBits n b) (\<lambda>(v, b). Inr (VBits n v, b))"
| "get_value K8 b = read_as V8 b"
| "get_value K16 b = read_as V16 b"
| "get_value K32 b = read_as V32 b"
| "get_value K64 b = read_as V64 b"

fun put_values :: "packet_value list \<Rightarrow> bytebuffer \<Rightarrow> bb_error + bytebuffer" where
  "put_values [] b = Inr b"
| "put_values (v # vs) b = bind_res (put_value v b) (put_values vs)"

fun get_values :: "value_kind list \<Rightarrow> bytebuffer \<Rightarrow> bb_error + (packet_value list \<times> bytebuffer)" where
  "get_values [] b = Inr ([], b)"
| "get_values (k # ks) b =
     bind_res (get_value k b) (\<lambda>(v, b). bind_res (get_values ks b) (\<lambda>(vs, b). Inr (v # vs, b)))"

text \<open>A bit field holds what its number of bits can hold.\<close>

fun valid_value :: "packet_value \<Rightarrow> bool" where
  "valid_value (VBits n v) \<longleftrightarrow> n \<le> 32 \<and> take_bit n v = v"
| "valid_value _ \<longleftrightarrow> True"

fun value_tokens :: "packet_value \<Rightarrow> token list" where
  "value_tokens (VBit x) = [Bit x]"
| "value_tokens (VBits n v) = bits_tokens n v"
| "value_tokens (V8 v) = word_tokens v"
| "value_tokens (V16 v) = word_tokens v"
| "value_tokens (V32 v) = word_tokens v"
| "value_tokens (V64 v) = word_tokens v"

definition packet_tokens :: "packet_value list \<Rightarrow> token list" where
  "packet_tokens vs = concat (map value_tokens vs)"

lemma packet_tokens_simps [simp]: "packet_tokens [] = []" "packet_tokens (v # vs) = value_tokens v @ packet_tokens vs"
  by (simp_all add: packet_tokens_def)

lemma put_value_emit:
  "room (length (value_tokens v) + 2) st \<Longrightarrow> put_value v (wstate r st) = Inr (wstate r (emit (value_tokens v) st))"
  by (cases v) (auto simp: append_val_emit WriteBits_emit write_of_bool_emit simp del: emit.simps)

lemma put_values_emit:
  "room (length (packet_tokens vs) + 2) st \<Longrightarrow> put_values vs (wstate r st) = Inr (wstate r (emit (packet_tokens vs) st))"
proof (induction vs arbitrary: st)
  case (Cons v vs)
  let ?st = "emit (value_tokens v) st"
  have "put_value v (wstate r st) = Inr (wstate r ?st)" using Cons.prems by (intro put_value_emit) simp
  moreover have "room (length (packet_tokens vs) + 2) ?st"
    using Cons.prems length_emit [of "value_tokens v" st] by (simp add: pending_ok_emit)
  ultimately show ?case using Cons.IH by simp
qed simp

lemma read_as_avail:
  "avail b (word_tokens v @ ts) \<Longrightarrow> LENGTH('a) mod 8 = 0 \<Longrightarrow> 8 \<le> LENGTH('a) \<Longrightarrow>
     \<exists>b'. read_as f b = Inr (f (v :: 'a::len word), b') \<and> avail b' ts"
  using avail_val by (fastforce simp: read_as_def)

lemma get_value_avail:
  assumes "avail b (value_tokens v @ ts)" and "valid_value v"
  shows "\<exists>b'. get_value (kind_of v) b = Inr (v, b') \<and> avail b' ts"
proof (cases v)
  case (VBit x)
  then show ?thesis using assms avail_bit [of b x ts] by auto
next
  case (VBits n w)
  then show ?thesis using assms avail_bits [of b n w ts] by auto
qed (use assms in \<open>auto intro!: read_as_avail\<close>)

lemma get_values_avail:
  "avail b (packet_tokens vs) \<Longrightarrow> \<forall>v \<in> set vs. valid_value v \<Longrightarrow>
     \<exists>b'. get_values (map kind_of vs) b = Inr (vs, b') \<and> unread_bytes b' = []"
proof (induction vs arbitrary: b)
  case (Cons v vs)
  then obtain b1 where "get_value (kind_of v) b = Inr (v, b1)" "avail b1 (packet_tokens vs)"
    using get_value_avail [of b v "packet_tokens vs"] by auto
  with Cons.IH [of b1] Cons.prems(2) show ?case by auto
qed simp

text \<open>
  C27: ByteBuffer as a codec: a sequence of single bits, bit fields of up to 32 bits and integers
  of 8, 16, 32 and 64 bits that ends with no bits pending, has an integer behind an unfinished
  byte of bits only when no bits follow, and stays below the size limit, is written to an empty
  buffer, and a reader who knows only the kinds of the values reads exactly these values back and
  nothing of the packet is left.
\<close>

theorem packet_values_roundtrip:
  assumes "\<forall>v \<in> set vs. valid_value v" and "aligned 0 (packet_tokens vs)" and "emit (packet_tokens vs) ([], []) = (bs, [])"
    and "2 * length (packet_tokens vs) + 4 < bb_limit"
  shows "put_values vs bb_new = Inr (wstate 0 (bs, [])) \<and> storage (wstate 0 (bs, [])) = bs \<and>
    (\<exists>b. get_values (map kind_of vs) (bb_received bs) = Inr (vs, b) \<and> unread_bytes b = [])"
proof (intro conjI)
  show "put_values vs bb_new = Inr (wstate 0 (bs, []))"
    using put_values_emit [where vs = vs and st = "([], [])" and r = 0] assms(3,4) by (simp add: bb_new_wstate)
  show "storage (wstate 0 (bs, [])) = bs" by (simp add: wstate_def)
  have "readable [] bs (packet_tokens vs)" using emit_readable [OF assms(3)] assms(2) by simp
  then show "\<exists>b. get_values (map kind_of vs) (bb_received bs) = Inr (vs, b) \<and> unread_bytes b = []"
    by (intro get_values_avail assms(1)) (simp add: received_wstate wstate_def pending_bits_def unread_bytes_def)
qed

text \<open>A flag and a bit field that fill a byte, and integers.\<close>

definition sample_values :: "packet_value list" where
  "sample_values = [VBit True, VBits 7 5, V32 0x01020304, V8 7]"

lemma sample_tokens:
  "packet_tokens sample_values =
     [Bit True, Bit False, Bit False, Bit False, Bit False, Bit True, Bit False, Bit True, Byte 4, Byte 3, Byte 2, Byte 1, Byte 7]"
proof -
  have b: "bits_tokens 7 (5 :: u32) = [Bit False, Bit False, Bit False, Bit False, Bit True, Bit False, Bit True]" by code_simp
  have w: "word_tokens (0x01020304 :: u32) = [Byte 4, Byte 3, Byte 2, Byte 1]" by code_simp
  have y: "word_tokens (7 :: u8) = [Byte 7]" by (simp add: word_tokens_def)
  show ?thesis by (simp add: sample_values_def b w y)
qed

theorem packet_values_roundtrip_witness:
  "\<exists>b. get_values [KBit, KBits 7, K32, K8] (bb_received [0x85, 4, 3, 2, 1, 7]) = Inr (sample_values, b) \<and> unread_bytes b = []"
proof -
  have p: "pack_bits [True, False, False, False, False, True, False, True] = 0x85" by code_simp
  have e: "emit (packet_tokens sample_values) ([], []) = ([0x85, 4, 3, 2, 1, 7], [])"
    unfolding sample_tokens by (simp add: p flush_image_def)
  have a: "aligned 0 (packet_tokens sample_values)" unfolding sample_tokens by simp
  have l: "2 * length (packet_tokens sample_values) + 4 < bb_limit" unfolding sample_tokens by (simp add: bb_limit_def)
  have "take_bit 7 (5 :: u32) = 5" by code_simp
  then have v: "\<forall>v \<in> set sample_values. valid_value v" by (simp add: sample_values_def)
  have k: "map kind_of sample_values = [KBit, KBits 7, K32, K8]" by (simp add: sample_values_def)
  show ?thesis using packet_values_roundtrip [OF v a e l] unfolding k by blast
qed

end
