(* ===== verification/Timers.thy ===== *)
theory Timers
  imports PacketCodec "HOL-Library.Signed_Division"
begin

text \<open>
  The timers of \<open>src/server/shared/Utilities/Timer.h\<close>. \<open>time_t\<close> is a signed 64-bit integer and
  \<open>int32\<close> a signed 32-bit one; both are words read with \<open>sint\<close>, and every addition is the one the code
  makes, wrap-around included. The countdown timers share the contract \<open>countdown\<close>.
\<close>

subsection \<open>The millisecond clock\<close>

definition getMSTimeDiff :: "u32 \<Rightarrow> u32 \<Rightarrow> u32" where
  "getMSTimeDiff oldMSTime newMSTime =
     (if oldMSTime > newMSTime then (0xFFFFFFFF - oldMSTime) + newMSTime else newMSTime - oldMSTime)"

text \<open>
  getMSTimeDiff is the elapsed time modulo 2^32, except that it is one millisecond short when
  the clock has wrapped in between.
\<close>

theorem getMSTimeDiff_elapsed:
  "getMSTimeDiff old new = (if old > new then new - old - 1 else new - old)"
proof -
  have "(0xFFFFFFFF :: u32) = - 1" by simp
  then show ?thesis by (simp add: getMSTimeDiff_def)
qed

subsection \<open>Signed arithmetic within range\<close>

definition fits :: "'a::len itself \<Rightarrow> int \<Rightarrow> bool" where
  "fits t x \<longleftrightarrow> - (2 ^ (LENGTH('a) - 1)) \<le> x \<and> x < 2 ^ (LENGTH('a) - 1)"

lemma sint_minus_fits:
  "fits TYPE('a) (sint a - sint b) \<Longrightarrow> sint (a - b :: 'a::len word) = sint a - sint b"
  unfolding fits_def by (simp add: sint_word_ariths signed_take_bit_int_eq_self)

lemma sint_plus_fits:
  "fits TYPE('a) (sint a + sint b) \<Longrightarrow> sint (a + b :: 'a::len word) = sint a + sint b"
  unfolding fits_def by (simp add: sint_word_ariths signed_take_bit_int_eq_self)

lemma fits_sint [simp]: "fits TYPE('a) (sint (a :: 'a::len word))"
  unfolding fits_def using sint_ge [of a] sint_lt [of a] by simp

subsection \<open>Countdowns\<close>

text \<open>
  \<open>remaining\<close> is the time left. \<open>inrange\<close> are the values the representation can hold; outside it the
  counter wraps.
\<close>

locale countdown =
  fixes update :: "'d \<Rightarrow> 't \<Rightarrow> 't" and passed :: "'t \<Rightarrow> bool" and reset :: "'d \<Rightarrow> 't \<Rightarrow> 't"
    and remaining :: "'t \<Rightarrow> int" and amount :: "'d \<Rightarrow> int" and inrange :: "int \<Rightarrow> bool"
  assumes update_remaining:
      "inrange (remaining t - amount d) \<Longrightarrow> remaining (update d t) = remaining t - amount d"
    and passed_remaining: "passed t \<longleftrightarrow> remaining t \<le> 0"
    and reset_remaining: "remaining (reset d t) = amount d"
    and inrange_between: "inrange x \<Longrightarrow> inrange y \<Longrightarrow> x \<le> z \<Longrightarrow> z \<le> y \<Longrightarrow> inrange z"
    and inrange_remaining: "inrange (remaining t)"
begin

lemma updates_remaining:
  "\<forall>d \<in> set ds. 0 \<le> amount d \<Longrightarrow> inrange (remaining t - (\<Sum>d \<leftarrow> ds. amount d)) \<Longrightarrow>
     remaining (fold update ds t) = remaining t - (\<Sum>d \<leftarrow> ds. amount d)"
proof (induction ds arbitrary: t)
  case Nil
  then show ?case by simp
next
  case (Cons d ds)
  have nn: "0 \<le> (\<Sum>d \<leftarrow> ds. amount d)"
    using Cons.prems(1) by (intro sum_list_nonneg) auto
  have "inrange (remaining t - amount d)"
    using Cons.prems nn by (intro inrange_between [OF Cons.prems(2) inrange_remaining [of t]]) auto
  then have one: "remaining (update d t) = remaining t - amount d" by (rule update_remaining)
  have eq: "remaining t - (\<Sum>d \<leftarrow> d # ds. amount d) = remaining (update d t) - (\<Sum>d \<leftarrow> ds. amount d)"
    using one by simp
  have "inrange (remaining (update d t) - (\<Sum>d \<leftarrow> ds. amount d))"
    using Cons.prems(2) unfolding eq .
  with Cons.IH [of "update d t"] Cons.prems(1)
  have "remaining (fold update ds (update d t)) = remaining (update d t) - (\<Sum>d \<leftarrow> ds. amount d)"
    by simp
  with eq show ?case by (simp only: fold.simps comp_def)
qed

text \<open>A timer that was set passes exactly when the time it was set to has gone by.\<close>

lemma passed_after:
  assumes "\<forall>d \<in> set ds. 0 \<le> amount d" and "inrange (amount n - (\<Sum>d \<leftarrow> ds. amount d))"
  shows "passed (fold update ds (reset n t)) \<longleftrightarrow> amount n \<le> (\<Sum>d \<leftarrow> ds. amount d)"
  using updates_remaining [OF assms(1), of "reset n t"] assms(2)
  by (simp add: reset_remaining passed_remaining)

end

record TimeTracker =
  i_expiryTime :: u64

definition TimeTracker_new :: "u64 \<Rightarrow> TimeTracker" where
  "TimeTracker_new expiry = \<lparr>i_expiryTime = expiry\<rparr>"

definition TimeTracker_Update :: "u64 \<Rightarrow> TimeTracker \<Rightarrow> TimeTracker" where
  "TimeTracker_Update diff t = t\<lparr>i_expiryTime := i_expiryTime t - diff\<rparr>"

definition TimeTracker_Passed :: "TimeTracker \<Rightarrow> bool" where
  "TimeTracker_Passed t \<longleftrightarrow> sint (i_expiryTime t) \<le> 0"

definition TimeTracker_Reset :: "u64 \<Rightarrow> TimeTracker \<Rightarrow> TimeTracker" where
  "TimeTracker_Reset interval t = t\<lparr>i_expiryTime := interval\<rparr>"

interpretation tracker: countdown TimeTracker_Update TimeTracker_Passed TimeTracker_Reset
    "\<lambda>t. sint (i_expiryTime t)" sint "fits TYPE(64)"
proof
  show "fits TYPE(64) x \<Longrightarrow> fits TYPE(64) y \<Longrightarrow> x \<le> z \<Longrightarrow> z \<le> y \<Longrightarrow> fits TYPE(64) z" for x y z
    by (simp add: fits_def)
qed (simp_all add: TimeTracker_Update_def TimeTracker_Passed_def TimeTracker_Reset_def sint_minus_fits)

record TimeTrackerSmall =
  i_expiryTimeSmall :: u32

definition TimeTrackerSmall_new :: "u32 \<Rightarrow> TimeTrackerSmall" where
  "TimeTrackerSmall_new expiry = \<lparr>i_expiryTimeSmall = expiry\<rparr>"

definition TimeTrackerSmall_Update :: "u32 \<Rightarrow> TimeTrackerSmall \<Rightarrow> TimeTrackerSmall" where
  "TimeTrackerSmall_Update diff t = t\<lparr>i_expiryTimeSmall := i_expiryTimeSmall t - diff\<rparr>"

definition TimeTrackerSmall_Passed :: "TimeTrackerSmall \<Rightarrow> bool" where
  "TimeTrackerSmall_Passed t \<longleftrightarrow> sint (i_expiryTimeSmall t) \<le> 0"

definition TimeTrackerSmall_Reset :: "u32 \<Rightarrow> TimeTrackerSmall \<Rightarrow> TimeTrackerSmall" where
  "TimeTrackerSmall_Reset interval t = t\<lparr>i_expiryTimeSmall := interval\<rparr>"

interpretation small: countdown TimeTrackerSmall_Update TimeTrackerSmall_Passed TimeTrackerSmall_Reset
    "\<lambda>t. sint (i_expiryTimeSmall t)" sint "fits TYPE(32)"
proof
  show "fits TYPE(32) x \<Longrightarrow> fits TYPE(32) y \<Longrightarrow> x \<le> z \<Longrightarrow> z \<le> y \<Longrightarrow> fits TYPE(32) z" for x y z
    by (simp add: fits_def)
qed (simp_all add: TimeTrackerSmall_Update_def TimeTrackerSmall_Passed_def TimeTrackerSmall_Reset_def
    sint_minus_fits)

subsection \<open>Periodic timers\<close>

record PeriodicTimer =
  i_period :: u32
  i_expireTime :: u32

definition PeriodicTimer_new :: "u32 \<Rightarrow> u32 \<Rightarrow> PeriodicTimer" where
  "PeriodicTimer_new period start_time = \<lparr>i_period = period, i_expireTime = start_time\<rparr>"

definition PeriodicTimer_Update :: "u32 \<Rightarrow> PeriodicTimer \<Rightarrow> bool \<times> PeriodicTimer" where
  "PeriodicTimer_Update diff t =
    (let e = i_expireTime t - diff
     in if sint e > 0 then (False, t\<lparr>i_expireTime := e\<rparr>)
        else (True, t\<lparr>i_expireTime := e + (if sint (i_period t) > sint diff then i_period t else diff)\<rparr>))"

definition PeriodicTimer_SetPeriodic :: "u32 \<Rightarrow> u32 \<Rightarrow> PeriodicTimer \<Rightarrow> PeriodicTimer" where
  "PeriodicTimer_SetPeriodic period start_time t = t\<lparr>i_expireTime := start_time, i_period := period\<rparr>"

definition PeriodicTimer_TUpdate :: "u32 \<Rightarrow> PeriodicTimer \<Rightarrow> PeriodicTimer" where
  "PeriodicTimer_TUpdate diff t = t\<lparr>i_expireTime := i_expireTime t - diff\<rparr>"

definition PeriodicTimer_TPassed :: "PeriodicTimer \<Rightarrow> bool" where
  "PeriodicTimer_TPassed t \<longleftrightarrow> sint (i_expireTime t) \<le> 0"

definition PeriodicTimer_TReset :: "u32 \<Rightarrow> u32 \<Rightarrow> PeriodicTimer \<Rightarrow> PeriodicTimer" where
  "PeriodicTimer_TReset diff period t =
     t\<lparr>i_expireTime := i_expireTime t + (if sint period > sint diff then period else diff)\<rparr>"

text \<open>\<open>SetPeriodic\<close> with the current period is the reset of the tracker interface.\<close>

definition PeriodicTimer_restart :: "u32 \<Rightarrow> PeriodicTimer \<Rightarrow> PeriodicTimer" where
  "PeriodicTimer_restart start_time t = PeriodicTimer_SetPeriodic (i_period t) start_time t"

interpretation periodic: countdown PeriodicTimer_TUpdate PeriodicTimer_TPassed PeriodicTimer_restart
    "\<lambda>t. sint (i_expireTime t)" sint "fits TYPE(32)"
proof
  show "fits TYPE(32) x \<Longrightarrow> fits TYPE(32) y \<Longrightarrow> x \<le> z \<Longrightarrow> z \<le> y \<Longrightarrow> fits TYPE(32) z" for x y z
    by (simp add: fits_def)
qed (simp_all add: PeriodicTimer_TUpdate_def PeriodicTimer_TPassed_def PeriodicTimer_restart_def
    PeriodicTimer_SetPeriodic_def sint_minus_fits)

text \<open>
  TimeTracker, TimeTrackerSmall and PeriodicTimer used as countdowns have passed after a
  sequence of updates exactly when the differences add up to the armed time; the bounds are the
  widths of time_t and int32.
\<close>

theorem trackers_pass_on_time:
  assumes "\<forall>d \<in> set ds. 0 \<le> sint d" and "0 \<le> sint n"
    and "\<forall>d \<in> set es. 0 \<le> sint d" and "0 \<le> sint m"
    and "(\<Sum>d \<leftarrow> ds. sint d) \<le> 2 ^ 63" and "(\<Sum>d \<leftarrow> es. sint d) \<le> 2 ^ 31"
  shows "(TimeTracker_Passed (fold TimeTracker_Update ds (TimeTracker_Reset n t)) \<longleftrightarrow>
      sint n \<le> (\<Sum>d \<leftarrow> ds. sint d)) \<and>
    (TimeTrackerSmall_Passed (fold TimeTrackerSmall_Update es (TimeTrackerSmall_Reset m s)) \<longleftrightarrow>
      sint m \<le> (\<Sum>d \<leftarrow> es. sint d)) \<and>
    (PeriodicTimer_TPassed (fold PeriodicTimer_TUpdate es (PeriodicTimer_SetPeriodic (i_period p) m p)) \<longleftrightarrow>
      sint m \<le> (\<Sum>d \<leftarrow> es. sint d))"
proof (intro conjI)
  have p: "0 \<le> (\<Sum>d \<leftarrow> ds. sint d)" "0 \<le> (\<Sum>d \<leftarrow> es. sint d)"
    using assms(1,3) by (auto intro!: sum_list_nonneg)
  have f: "fits TYPE(64) (sint n - (\<Sum>d \<leftarrow> ds. sint d))" "fits TYPE(32) (sint m - (\<Sum>d \<leftarrow> es. sint d))"
    using assms p fits_sint [of n] fits_sint [of m] by (auto simp: fits_def)
  show "TimeTracker_Passed (fold TimeTracker_Update ds (TimeTracker_Reset n t)) \<longleftrightarrow>
      sint n \<le> (\<Sum>d \<leftarrow> ds. sint d)"
    by (rule tracker.passed_after [OF assms(1) f(1)])
  show "TimeTrackerSmall_Passed (fold TimeTrackerSmall_Update es (TimeTrackerSmall_Reset m s)) \<longleftrightarrow>
      sint m \<le> (\<Sum>d \<leftarrow> es. sint d)"
    by (rule small.passed_after [OF assms(3) f(2)])
  show "PeriodicTimer_TPassed (fold PeriodicTimer_TUpdate es (PeriodicTimer_SetPeriodic (i_period p) m p)) \<longleftrightarrow>
      sint m \<le> (\<Sum>d \<leftarrow> es. sint d)"
    using periodic.passed_after [OF assms(3) f(2), of p] by (simp add: PeriodicTimer_restart_def)
qed

theorem trackers_pass_on_time_witness:
  "(TimeTracker_Passed (fold TimeTracker_Update [30, 40] (TimeTracker_Reset 100 (TimeTracker_new 5))) \<longleftrightarrow>
      sint (100 :: u64) \<le> (\<Sum>d \<leftarrow> [30, 40 :: u64]. sint d)) \<and>
    (TimeTrackerSmall_Passed (fold TimeTrackerSmall_Update [60, 40]
        (TimeTrackerSmall_Reset 100 (TimeTrackerSmall_new 0))) \<longleftrightarrow>
      sint (100 :: u32) \<le> (\<Sum>d \<leftarrow> [60, 40 :: u32]. sint d)) \<and>
    (PeriodicTimer_TPassed (fold PeriodicTimer_TUpdate [60, 40]
        (PeriodicTimer_SetPeriodic (i_period (PeriodicTimer_new 7 8)) 100 (PeriodicTimer_new 7 8))) \<longleftrightarrow>
      sint (100 :: u32) \<le> (\<Sum>d \<leftarrow> [60, 40 :: u32]. sint d))"
  by (rule trackers_pass_on_time) simp_all

text \<open>
  A periodic timer that expires is rearmed by the larger of its period and the elapsed interval, so
  an update that is longer than the period does not leave it expired.
\<close>

text \<open>
  PeriodicTimer::Update fires exactly when the remaining time is used up and is then armed
  with a positive remaining time again, late by at most the larger of period and difference.
\<close>

theorem periodic_rearmed:
  assumes "0 < sint (i_expireTime t)" and "0 \<le> sint diff" and "0 < sint (i_period t)"
  shows "case PeriodicTimer_Update diff t of (fired, t') \<Rightarrow>
    (fired \<longleftrightarrow> sint (i_expireTime t) \<le> sint diff) \<and> 0 < sint (i_expireTime t') \<and>
    sint (i_expireTime t') = sint (i_expireTime t) - sint diff +
      (if fired then max (sint (i_period t)) (sint diff) else 0)"
proof -
  have f: "fits TYPE(32) (sint (i_expireTime t) - sint diff)"
    using assms fits_sint [of "i_expireTime t"] fits_sint [of diff] by (auto simp: fits_def)
  note e = sint_minus_fits [OF f]
  let ?r = "if sint (i_period t) > sint diff then i_period t else diff"
  have r: "sint ?r = max (sint (i_period t)) (sint diff)" by simp
  have "sint (i_expireTime t - diff + ?r) = sint (i_expireTime t) - sint diff + sint ?r"
    if "sint (i_expireTime t) \<le> sint diff"
  proof -
    have "fits TYPE(32) (sint (i_expireTime t - diff) + sint ?r)"
      using that assms e fits_sint [of ?r] fits_sint [of diff] r by (auto simp: fits_def)
    from sint_plus_fits [OF this] e show ?thesis by simp
  qed
  with assms e r show ?thesis
    by (auto simp: PeriodicTimer_Update_def Let_def)
qed

theorem periodic_rearmed_witness:
  "case PeriodicTimer_Update 250 (PeriodicTimer_new 100 40) of (fired, t') \<Rightarrow>
    (fired \<longleftrightarrow> sint (i_expireTime (PeriodicTimer_new 100 40)) \<le> sint (250 :: u32)) \<and> 0 < sint (i_expireTime t') \<and>
    sint (i_expireTime t') = sint (i_expireTime (PeriodicTimer_new 100 40)) - sint (250 :: u32) +
      (if fired then max (sint (i_period (PeriodicTimer_new 100 40))) (sint (250 :: u32)) else 0)"
  by (rule periodic_rearmed) (simp_all add: PeriodicTimer_new_def)

subsection \<open>Interval timers\<close>

record IntervalTimer =
  it_interval :: u64
  it_current :: u64

definition IntervalTimer_new :: IntervalTimer where
  "IntervalTimer_new = \<lparr>it_interval = 0, it_current = 0\<rparr>"

definition IntervalTimer_Update :: "u64 \<Rightarrow> IntervalTimer \<Rightarrow> IntervalTimer" where
  "IntervalTimer_Update diff t =
    (let c = it_current t + diff in t\<lparr>it_current := (if sint c < 0 then 0 else c)\<rparr>)"

definition IntervalTimer_Passed :: "IntervalTimer \<Rightarrow> bool" where
  "IntervalTimer_Passed t \<longleftrightarrow> sint (it_current t) \<ge> sint (it_interval t)"

text \<open>\<open>_current %= _interval\<close> has no defined result for a zero interval: \<open>None\<close>.\<close>

definition IntervalTimer_Reset :: "IntervalTimer \<Rightarrow> IntervalTimer option" where
  "IntervalTimer_Reset t =
    (if sint (it_current t) \<ge> sint (it_interval t)
     then if it_interval t = 0 then None
          else Some (t\<lparr>it_current := word_of_int (sint (it_current t) smod sint (it_interval t))\<rparr>)
     else Some t)"

definition IntervalTimer_SetCurrent :: "u64 \<Rightarrow> IntervalTimer \<Rightarrow> IntervalTimer" where
  "IntervalTimer_SetCurrent c t = t\<lparr>it_current := c\<rparr>"

definition IntervalTimer_SetInterval :: "u64 \<Rightarrow> IntervalTimer \<Rightarrow> IntervalTimer" where
  "IntervalTimer_SetInterval i t = t\<lparr>it_interval := i\<rparr>"

text \<open>How the world loop uses it: update, and when it has passed, reset.\<close>

definition interval_tick :: "u64 \<Rightarrow> IntervalTimer \<Rightarrow> IntervalTimer option" where
  "interval_tick diff t =
    (let t = IntervalTimer_Update diff t
     in if IntervalTimer_Passed t then IntervalTimer_Reset t else Some t)"

fun interval_ticks :: "u64 list \<Rightarrow> IntervalTimer \<Rightarrow> IntervalTimer option" where
  "interval_ticks [] t = Some t"
| "interval_ticks (d # ds) t = Option.bind (interval_tick d t) (interval_ticks ds)"

lemma smod_nonneg: "0 \<le> (a :: int) \<Longrightarrow> 0 < b \<Longrightarrow> a smod b = a mod b"
  by (simp add: signed_modulo_int_def sgn_if)

lemma sint_word_of_int_fits: "fits TYPE('a) k \<Longrightarrow> sint (word_of_int k :: 'a::len word) = k"
  unfolding fits_def by (simp add: sint_sbintrunc' signed_take_bit_int_eq_self)

lemma interval_tick_current:
  assumes "0 < sint (it_interval t)" and "0 \<le> sint (it_current t)" and "sint (it_current t) < sint (it_interval t)"
    and "0 \<le> sint d" and "sint (it_interval t) + sint d < 2 ^ 63"
  shows "\<exists>t'. interval_tick d t = Some t' \<and> it_interval t' = it_interval t \<and>
    sint (it_current t') = (sint (it_current t) + sint d) mod sint (it_interval t)"
proof -
  let ?c = "it_current t + d"
  have c: "sint ?c = sint (it_current t) + sint d"
    using assms by (intro sint_plus_fits) (simp add: fits_def)
  show ?thesis
  proof (cases "sint ?c \<ge> sint (it_interval t)")
    case True
    have m: "sint ?c smod sint (it_interval t) = (sint (it_current t) + sint d) mod sint (it_interval t)"
      using assms c by (simp add: smod_nonneg)
    have "0 \<le> (sint (it_current t) + sint d) mod sint (it_interval t)"
      "(sint (it_current t) + sint d) mod sint (it_interval t) < sint (it_interval t)"
      using assms(1) by simp_all
    then have "fits TYPE(64) ((sint (it_current t) + sint d) mod sint (it_interval t))"
      using fits_sint [of "it_interval t"] by (auto simp: fits_def)
    from sint_word_of_int_fits [OF this] True m c assms show ?thesis
      by (auto simp: interval_tick_def IntervalTimer_Update_def IntervalTimer_Passed_def
        IntervalTimer_Reset_def Let_def)
  next
    case False
    with c assms show ?thesis
      by (auto simp: interval_tick_def IntervalTimer_Update_def IntervalTimer_Passed_def Let_def)
  qed
qed

text \<open>
  C32: An IntervalTimer that is updated and reset whenever it has passed keeps the elapsed time
  modulo its interval, so late updates never accumulate a drift, and no reset is undefined.
\<close>

theorem interval_timer_no_drift:
  assumes "0 < sint n" and "\<forall>d \<in> set ds. 0 \<le> sint d \<and> sint n + sint d < 2 ^ 63"
  shows "\<exists>t. interval_ticks ds (IntervalTimer_SetInterval n IntervalTimer_new) = Some t \<and>
    it_interval t = n \<and> sint (it_current t) = (\<Sum>d \<leftarrow> ds. sint d) mod sint n"
proof -
  have "\<exists>t'. interval_ticks ds t = Some t' \<and> it_interval t' = n \<and>
      sint (it_current t') = (sint (it_current t) + (\<Sum>d \<leftarrow> ds. sint d)) mod sint n"
    if "it_interval t = n" "0 \<le> sint (it_current t)" "sint (it_current t) < sint n" for t
    using that assms(2)
  proof (induction ds arbitrary: t)
    case Nil
    then show ?case by simp
  next
    case (Cons d ds)
    from interval_tick_current [of t d] Cons.prems assms(1) obtain t1 where
      t1: "interval_tick d t = Some t1" "it_interval t1 = n"
        "sint (it_current t1) = (sint (it_current t) + sint d) mod sint n"
      by auto
    from Cons.IH [OF t1(2)] t1(3) Cons.prems(4) assms(1) obtain t' where
      "interval_ticks ds t1 = Some t'" "it_interval t' = n"
      "sint (it_current t') = ((sint (it_current t) + sint d) mod sint n + (\<Sum>d \<leftarrow> ds. sint d)) mod sint n"
      by auto
    with t1(1) show ?case by (simp add: mod_add_left_eq add.assoc)
  qed
  from this [of "IntervalTimer_SetInterval n IntervalTimer_new"] assms(1) show ?thesis
    by (simp add: IntervalTimer_SetInterval_def IntervalTimer_new_def)
qed

theorem interval_timer_no_drift_witness:
  "\<exists>t. interval_ticks [300, 900, 50] (IntervalTimer_SetInterval 1000 IntervalTimer_new) = Some t \<and>
    it_interval t = 1000 \<and> sint (it_current t) = (\<Sum>d \<leftarrow> [300, 900, 50 :: u64]. sint d) mod sint (1000 :: u64)"
  by (rule interval_timer_no_drift) simp_all

text \<open>C\<close>

theorem zero_interval_reset_undefined:
  "IntervalTimer_Passed IntervalTimer_new \<and> IntervalTimer_Reset IntervalTimer_new = None"
  by (simp add: IntervalTimer_Passed_def IntervalTimer_Reset_def IntervalTimer_new_def)

end
