(* ===== verification/EventProcessor.thy ===== *)
theory EventProcessor
  imports Prelude
begin

text \<open>
  \<open>src/server/shared/Utilities/EventProcessor.h\<close> and \<open>.cpp\<close>: the per-object queue of timed events, a
  multimap from execution times to events. \<open>Execute\<close> is virtual and its implementations lie outside
  the class: it is the parameter \<open>exec\<close>, which yields the calls an event makes on its processor and
  whether the event is to be destroyed. Virtual calls and destructions are logged. The loop of
  \<open>Update\<close> runs as long as due events remain and may not end when events keep adding due events:
  it is a partial function, and \<open>None\<close> is the run that does not return.
\<close>

record event =
  ev_id :: nat
  to_Abort :: bool
  m_addTime :: u64
  m_execTime :: u64
  ev_deletable :: bool

record event_processor =
  ep_time :: u64
  ep_events :: "(u64 \<times> event) list"
  ep_aborting :: bool

datatype ep_call = CallAddEvent event u64 bool | CallKillAllEvents bool | CallSetAbort nat

datatype ep_effect = Executed nat u64 u32 | Aborted nat u64 | Deleted nat

definition ep_new :: event_processor where
  "ep_new = \<lparr>ep_time = 0, ep_events = [], ep_aborting = False\<rparr>"

text \<open>\<open>multimap::insert\<close>: after the entries with the same key.\<close>

fun multimap_insert :: "u64 \<Rightarrow> event \<Rightarrow> (u64 \<times> event) list \<Rightarrow> (u64 \<times> event) list" where
  "multimap_insert t e [] = [(t, e)]"
| "multimap_insert t e ((u, f) # xs) =
     (if u \<le> t then (u, f) # multimap_insert t e xs else (t, e) # (u, f) # xs)"

definition AddEvent :: "event \<Rightarrow> u64 \<Rightarrow> bool \<Rightarrow> event_processor \<Rightarrow> event_processor" where
  "AddEvent ev e_time set_addtime p =
    (let ev = (if set_addtime then ev\<lparr>m_addTime := ep_time p\<rparr> else ev);
         ev = ev\<lparr>m_execTime := e_time\<rparr>
     in p\<lparr>ep_events := multimap_insert e_time ev (ep_events p)\<rparr>)"

definition CalculateTime :: "u64 \<Rightarrow> event_processor \<Rightarrow> u64" where
  "CalculateTime t_offset p = ep_time p + t_offset"

fun kill_events :: "bool \<Rightarrow> u64 \<Rightarrow> (u64 \<times> event) list \<Rightarrow> (u64 \<times> event) list \<times> ep_effect list" where
  "kill_events force now [] = ([], [])"
| "kill_events force now ((t, ev) # xs) =
    (let ev = ev\<lparr>to_Abort := True\<rparr>;
         del = (force \<or> ev_deletable ev);
         r = kill_events force now xs
     in (if del \<and> \<not> force then fst r else (t, ev) # fst r,
         Aborted (ev_id ev) now # (if del then [Deleted (ev_id ev)] else []) @ snd r))"

definition KillAllEvents :: "bool \<Rightarrow> event_processor \<Rightarrow> event_processor \<times> ep_effect list" where
  "KillAllEvents force p =
    (let r = kill_events force (ep_time p) (ep_events p)
     in (p\<lparr>ep_aborting := True, ep_events := (if force then [] else fst r)\<rparr>, snd r))"

definition set_abort :: "nat \<Rightarrow> event_processor \<Rightarrow> event_processor" where
  "set_abort i p = p\<lparr>ep_events :=
     map (\<lambda>(t, ev). (t, if ev_id ev = i then ev\<lparr>to_Abort := True\<rparr> else ev)) (ep_events p)\<rparr>"

fun run_call :: "ep_call \<Rightarrow> event_processor \<Rightarrow> event_processor \<times> ep_effect list" where
  "run_call (CallAddEvent ev t b) p = (AddEvent ev t b p, [])"
| "run_call (CallKillAllEvents force) p = KillAllEvents force p"
| "run_call (CallSetAbort i) p = (set_abort i p, [])"

fun run_calls :: "ep_call list \<Rightarrow> event_processor \<Rightarrow> event_processor \<times> ep_effect list" where
  "run_calls [] p = (p, [])"
| "run_calls (c # cs) p =
    (let r = run_call c p; s = run_calls cs (fst r) in (fst s, snd r @ snd s))"

type_synonym event_code = "event \<Rightarrow> u64 \<Rightarrow> u32 \<Rightarrow> ep_call list \<times> bool"

text \<open>One iteration: the event is already out of the queue.\<close>

definition fire :: "event_code \<Rightarrow> u32 \<Rightarrow> event \<Rightarrow> event_processor \<Rightarrow> event_processor \<times> ep_effect list" where
  "fire exec p_time ev p =
    (if \<not> to_Abort ev
     then (case exec ev (ep_time p) p_time of (calls, destroy) \<Rightarrow>
            let r = run_calls calls p
            in (fst r, Executed (ev_id ev) (ep_time p) p_time # snd r @ (if destroy then [Deleted (ev_id ev)] else [])))
     else (p, [Aborted (ev_id ev) (ep_time p), Deleted (ev_id ev)]))"

partial_function (option) event_loop ::
  "event_code \<Rightarrow> u32 \<Rightarrow> event_processor \<Rightarrow> (event_processor \<times> ep_effect list) option"
where
  "event_loop exec p_time p = (case ep_events p of
       [] \<Rightarrow> Some (p, [])
     | (t, ev) # rest \<Rightarrow>
         if t \<le> ep_time p
         then (case fire exec p_time ev (p\<lparr>ep_events := rest\<rparr>) of (q, out) \<Rightarrow>
                 Option.bind (event_loop exec p_time q) (\<lambda>(r, out'). Some (r, out @ out')))
         else Some (p, []))"

definition Update ::
  "event_code \<Rightarrow> u32 \<Rightarrow> event_processor \<Rightarrow> (event_processor \<times> ep_effect list) option"
where
  "Update exec p_time p = event_loop exec p_time (p\<lparr>ep_time := ep_time p + ucast p_time\<rparr>)"

subsection \<open>The queue stays sorted\<close>

definition ep_sorted :: "event_processor \<Rightarrow> bool" where
  "ep_sorted p \<longleftrightarrow> sorted (map fst (ep_events p))"

lemma multimap_insert_split:
  "sorted (map fst xs) \<Longrightarrow>
     multimap_insert t e xs = takeWhile (\<lambda>x. fst x \<le> t) xs @ (t, e) # dropWhile (\<lambda>x. fst x \<le> t) xs"
  by (induction xs) auto

lemma set_multimap_insert [simp]: "set (multimap_insert t e xs) = insert (t, e) (set xs)"
  by (induction t e xs rule: multimap_insert.induct) auto

lemma sorted_multimap_insert: "sorted (map fst xs) \<Longrightarrow> sorted (map fst (multimap_insert t e xs))"
proof (induction xs)
  case Nil
  then show ?case by simp
next
  case (Cons x xs)
  show ?case
  proof (cases "fst x \<le> t")
    case True
    with Cons show ?thesis by (cases x) auto
  next
    case False
    then have "t \<le> fst x" by simp
    with False Cons.prems show ?thesis by (cases x) (auto intro: order_trans)
  qed
qed

lemma kill_events_times:
  "(t, e) \<in> set (fst (kill_events force now xs)) \<Longrightarrow> t \<in> fst ` set xs"
proof (induction xs)
  case Nil
  then show ?case by simp
next
  case (Cons x xs)
  then show ?case by (cases x) (auto simp: Let_def split: if_splits)
qed

lemma sorted_kill_events:
  "sorted (map fst xs) \<Longrightarrow> sorted (map fst (fst (kill_events force now xs)))"
proof (induction xs)
  case Nil
  then show ?case by simp
next
  case (Cons x xs)
  have "\<forall>u \<in> fst ` set (fst (kill_events force now xs)). fst x \<le> u"
    using kill_events_times [of _ _ force now xs] Cons.prems by fastforce
  with Cons show ?case by (cases x) (auto simp: Let_def)
qed

lemma run_call_sorted: "ep_sorted p \<Longrightarrow> ep_sorted (fst (run_call c p)) \<and> ep_time (fst (run_call c p)) = ep_time p"
  by (cases c) (auto simp: ep_sorted_def AddEvent_def KillAllEvents_def set_abort_def Let_def comp_def split_def
    sorted_multimap_insert sorted_kill_events)

lemma run_calls_sorted:
  "ep_sorted p \<Longrightarrow> ep_sorted (fst (run_calls cs p)) \<and> ep_time (fst (run_calls cs p)) = ep_time p"
proof (induction cs arbitrary: p)
  case Nil
  then show ?case by simp
next
  case (Cons c cs)
  from run_call_sorted [OF Cons.prems, of c] Cons.IH show ?case by (simp add: Let_def)
qed

lemma fire_sorted:
  "ep_sorted p \<Longrightarrow> ep_sorted (fst (fire exec dt ev p)) \<and> ep_time (fst (fire exec dt ev p)) = ep_time p"
  using run_calls_sorted [of p] by (simp add: fire_def Let_def split: prod.splits)

lemma event_loop_result:
  assumes "event_loop exec dt p = Some r"
  shows "ep_sorted p \<longrightarrow> ep_sorted (fst r) \<and> ep_time (fst r) = ep_time p \<and>
    (\<forall>x \<in> set (ep_events (fst r)). ep_time p < fst x)"
proof (rule event_loop.raw_induct [where P = "\<lambda>exec dt p r. ep_sorted p \<longrightarrow> ep_sorted (fst r) \<and>
    ep_time (fst r) = ep_time p \<and> (\<forall>x \<in> set (ep_events (fst r)). ep_time p < fst x)", OF _ assms])
  fix loop :: "event_code \<Rightarrow> u32 \<Rightarrow> event_processor \<Rightarrow> (event_processor \<times> ep_effect list) option"
    and exec dt p r
  assume IH: "\<And>exec dt p r. loop exec dt p = Some r \<Longrightarrow> ep_sorted p \<longrightarrow> ep_sorted (fst r) \<and>
      ep_time (fst r) = ep_time p \<and> (\<forall>x \<in> set (ep_events (fst r)). ep_time p < fst x)"
    and body: "(case ep_events p of
       [] \<Rightarrow> Some (p, [])
     | (t, ev) # rest \<Rightarrow>
         if t \<le> ep_time p
         then (case fire exec dt ev (p\<lparr>ep_events := rest\<rparr>) of (q, out) \<Rightarrow>
                 Option.bind (loop exec dt q) (\<lambda>(r, out'). Some (r, out @ out')))
         else Some (p, [])) = Some r"
  show "ep_sorted p \<longrightarrow> ep_sorted (fst r) \<and> ep_time (fst r) = ep_time p \<and>
      (\<forall>x \<in> set (ep_events (fst r)). ep_time p < fst x)"
  proof
    assume so: "ep_sorted p"
    show "ep_sorted (fst r) \<and> ep_time (fst r) = ep_time p \<and> (\<forall>x \<in> set (ep_events (fst r)). ep_time p < fst x)"
    proof (cases "ep_events p")
      case Nil
      with body so show ?thesis by auto
    next
      case (Cons x rest)
      obtain t ev where x: "x = (t, ev)" by (cases x)
      show ?thesis
      proof (cases "t \<le> ep_time p")
        case False
        with body Cons x so show ?thesis by (force simp: ep_sorted_def)
      next
        case True
        let ?p = "p\<lparr>ep_events := rest\<rparr>" and ?q = "fst (fire exec dt ev (p\<lparr>ep_events := rest\<rparr>))"
        have "ep_sorted ?p" using so Cons by (simp add: ep_sorted_def)
        from fire_sorted [OF this, of exec dt ev] have q: "ep_sorted ?q" "ep_time ?q = ep_time p" by simp_all
        from body True Cons x obtain r' out where "loop exec dt ?q = Some (r', out)" "fst r = r'"
          by (auto split: prod.splits simp: bind_eq_Some_conv)
        with IH [of exec dt ?q "(r', out)"] q show ?thesis by simp
      qed
    qed
  qed
qed

text \<open>
  C29: Whatever the events do when they run (add events, abort, kill), when EventProcessor::Update
  returns, the clock has advanced by the difference, the queue is sorted and no event left in it
  is due.
\<close>

theorem update_leaves_no_due_event:
  assumes "ep_sorted p" and "Update exec dt p = Some (q, out)"
  shows "ep_time q = ep_time p + ucast dt \<and> ep_sorted q \<and> (\<forall>x \<in> set (ep_events q). ep_time q < fst x)"
  using event_loop_result [OF assms(2) [unfolded Update_def]] assms(1) by (simp add: ep_sorted_def)

definition sample_event :: "nat \<Rightarrow> event" where
  "sample_event i = \<lparr>ev_id = i, to_Abort = False, m_addTime = 0, m_execTime = 0, ev_deletable = True\<rparr>"

text \<open>Event 1 schedules itself again 50 milliseconds later, the others run once.\<close>

definition sample_code :: event_code where
  "sample_code ev now dt =
    (if ev_id ev = 1 then ([CallAddEvent ev (now + 50) False], False) else ([], True))"

definition sample_processor :: event_processor where
  "sample_processor = \<lparr>ep_time = 100,
     ep_events = [(120, sample_event 1), (120, sample_event 2), (300, sample_event 3)], ep_aborting = False\<rparr>"

lemma sample_update:
  "\<exists>q. Update sample_code 50 sample_processor = Some (q, [Executed 1 150 50, Executed 2 150 50, Deleted 2])"
  by (simp add: Update_def sample_processor_def sample_code_def sample_event_def event_loop.simps [of sample_code]
    fire_def AddEvent_def Let_def)

theorem update_leaves_no_due_event_witness:
  "\<exists>q out. ep_sorted sample_processor \<and> Update sample_code 50 sample_processor = Some (q, out) \<and>
    ep_time q = ep_time sample_processor + ucast (50 :: u32) \<and> ep_sorted q \<and>
    (\<forall>x \<in> set (ep_events q). ep_time q < fst x)"
proof -
  have so: "ep_sorted sample_processor" by (simp add: ep_sorted_def sample_processor_def)
  from sample_update obtain q out where "Update sample_code 50 sample_processor = Some (q, out)" by blast
  with update_leaves_no_due_event [OF so this] so show ?thesis by blast
qed

subsection \<open>Due events run once, in order\<close>

text \<open>Code that only schedules events for later, and neither kills nor aborts others.\<close>

fun later_call :: "u64 \<Rightarrow> ep_call \<Rightarrow> bool" where
  "later_call now (CallAddEvent ev t b) \<longleftrightarrow> now < t"
| "later_call now (CallKillAllEvents force) \<longleftrightarrow> False"
| "later_call now (CallSetAbort i) \<longleftrightarrow> False"

definition event_effects :: "event_code \<Rightarrow> u32 \<Rightarrow> u64 \<Rightarrow> event \<Rightarrow> ep_effect list" where
  "event_effects exec dt now ev =
    (if \<not> to_Abort ev
     then Executed (ev_id ev) now dt # (if snd (exec ev now dt) then [Deleted (ev_id ev)] else [])
     else [Aborted (ev_id ev) now, Deleted (ev_id ev)])"

definition event_calls :: "event_code \<Rightarrow> u32 \<Rightarrow> u64 \<Rightarrow> event \<Rightarrow> ep_call list" where
  "event_calls exec dt now ev = (if to_Abort ev then [] else fst (exec ev now dt))"

lemma multimap_insert_later:
  "\<forall>x \<in> set due. fst x \<le> now \<Longrightarrow> now < t \<Longrightarrow>
     multimap_insert t e (due @ rest) = due @ multimap_insert t e rest"
  by (induction due) auto

lemma run_calls_later:
  assumes "\<forall>c \<in> set cs. later_call (ep_time p) c" and "\<forall>x \<in> set rest. ep_time p < fst x"
  obtains rest' where "\<forall>x \<in> set rest'. ep_time p < fst x"
    and "\<And>due. \<forall>x \<in> set due. fst x \<le> ep_time p \<Longrightarrow>
      run_calls cs (p\<lparr>ep_events := due @ rest\<rparr>) = (p\<lparr>ep_events := due @ rest'\<rparr>, [])"
proof -
  have "\<exists>rest'. (\<forall>x \<in> set rest'. ep_time p < fst x) \<and> (\<forall>due. (\<forall>x \<in> set due. fst x \<le> ep_time p) \<longrightarrow>
      run_calls cs (p\<lparr>ep_events := due @ rest\<rparr>) = (p\<lparr>ep_events := due @ rest'\<rparr>, []))"
    using assms
  proof (induction cs arbitrary: rest)
    case Nil
    then show ?case by auto
  next
    case (Cons c cs)
    then obtain ev t b where c: "c = CallAddEvent ev t b" "ep_time p < t" by (cases c) auto
    let ?ev = "(if b then ev\<lparr>m_addTime := ep_time p\<rparr> else ev)\<lparr>m_execTime := t\<rparr>"
    let ?rest = "multimap_insert t ?ev rest"
    have "\<forall>x \<in> set ?rest. ep_time p < fst x" using c Cons.prems(2) by simp
    with Cons.IH [of ?rest] Cons.prems(1) obtain rest' where
      "\<forall>x \<in> set rest'. ep_time p < fst x"
      "\<forall>due. (\<forall>x \<in> set due. fst x \<le> ep_time p) \<longrightarrow>
        run_calls cs (p\<lparr>ep_events := due @ ?rest\<rparr>) = (p\<lparr>ep_events := due @ rest'\<rparr>, [])"
      by auto
    moreover have "run_call c (p\<lparr>ep_events := due @ rest\<rparr>) = (p\<lparr>ep_events := due @ ?rest\<rparr>, [])"
      if "\<forall>x \<in> set due. fst x \<le> ep_time p" for due
      using multimap_insert_later [OF that c(2)] by (simp add: c(1) AddEvent_def)
    ultimately show ?case by (intro exI [of _ rest']) (simp add: Let_def)
  qed
  with that show ?thesis by blast
qed

lemma run_calls_append:
  "run_calls (cs @ ds) p = (let r = run_calls cs p; s = run_calls ds (fst r) in (fst s, snd r @ snd s))"
  by (induction cs arbitrary: p) (simp_all add: Let_def)

lemma event_loop_due:
  assumes "\<forall>x \<in> set due. fst x \<le> ep_time p" and "\<forall>x \<in> set rest. ep_time p < fst x"
    and "\<forall>x \<in> set due. \<forall>c \<in> set (event_calls exec dt (ep_time p) (snd x)). later_call (ep_time p) c"
  shows "event_loop exec dt (p\<lparr>ep_events := due @ rest\<rparr>) =
    Some (fst (run_calls (concat (map (\<lambda>x. event_calls exec dt (ep_time p) (snd x)) due))
            (p\<lparr>ep_events := rest\<rparr>)),
          concat (map (\<lambda>x. event_effects exec dt (ep_time p) (snd x)) due))"
  using assms
proof (induction due arbitrary: rest)
  case Nil
  then show ?case
    by (subst event_loop.simps) (auto split: list.splits prod.splits)
next
  case (Cons x due)
  obtain t ev where x: "x = (t, ev)" by (cases x)
  let ?calls = "event_calls exec dt (ep_time p) ev"
  have "\<forall>c \<in> set ?calls. later_call (ep_time p) c" using Cons.prems(3) by (simp add: x)
  from run_calls_later [OF this Cons.prems(2)] obtain rest' where
    r1: "\<forall>x \<in> set rest'. ep_time p < fst x" and
    r2: "\<And>due. \<forall>x \<in> set due. fst x \<le> ep_time p \<Longrightarrow>
      run_calls ?calls (p\<lparr>ep_events := due @ rest\<rparr>) = (p\<lparr>ep_events := due @ rest'\<rparr>, [])"
    by blast
  have fire: "fire exec dt ev (p\<lparr>ep_events := due @ rest\<rparr>) =
      (p\<lparr>ep_events := due @ rest'\<rparr>, event_effects exec dt (ep_time p) ev)"
    using r2 [of due] Cons.prems(1)
    by (auto simp: fire_def event_effects_def event_calls_def Let_def split: prod.splits if_splits)
  have IH: "event_loop exec dt (p\<lparr>ep_events := due @ rest'\<rparr>) =
      Some (fst (run_calls (concat (map (\<lambda>x. event_calls exec dt (ep_time p) (snd x)) due))
              (p\<lparr>ep_events := rest'\<rparr>)),
            concat (map (\<lambda>x. event_effects exec dt (ep_time p) (snd x)) due))"
    using Cons.IH [OF _ r1] Cons.prems(1,3) by simp
  have "event_loop exec dt (p\<lparr>ep_events := (x # due) @ rest\<rparr>) =
      Option.bind (event_loop exec dt (p\<lparr>ep_events := due @ rest'\<rparr>))
        (\<lambda>(r, out'). Some (r, event_effects exec dt (ep_time p) ev @ out'))"
    using Cons.prems(1) fire by (subst event_loop.simps) (simp add: x)
  with IH r2 [of "[]"] show ?case
    by (simp add: x run_calls_append Let_def)
qed

text \<open>
  When the events only schedule later ones, EventProcessor::Update runs exactly the due
  events, each once, in order of their time (insertion order among equals), aborts those marked,
  and leaves the others with what the events added.
\<close>

theorem update_runs_due_events:
  assumes "ep_sorted p" and "now = ep_time p + ucast dt"
    and "due = takeWhile (\<lambda>x. fst x \<le> now) (ep_events p)" and "rest = dropWhile (\<lambda>x. fst x \<le> now) (ep_events p)"
    and "\<forall>x \<in> set due. \<forall>c \<in> set (event_calls exec dt now (snd x)). later_call now c"
  shows "Update exec dt p =
    Some (fst (run_calls (concat (map (\<lambda>x. event_calls exec dt now (snd x)) due))
            (p\<lparr>ep_time := now, ep_events := rest\<rparr>)),
          concat (map (\<lambda>x. event_effects exec dt now (snd x)) due))"
proof -
  have du: "\<forall>x \<in> set due. fst x \<le> now"
    unfolding assms(3) by (auto dest: set_takeWhileD)
  have re: "\<forall>x \<in> set rest. now < fst x"
  proof (cases "rest = []")
    case True
    then show ?thesis by simp
  next
    case False
    then obtain y ys where y: "rest = y # ys" by (cases rest) auto
    have "\<not> fst y \<le> now"
      using y assms(4) by (metis hd_dropWhile list.distinct(1) list.sel(1))
    moreover have "sorted (map fst rest)"
      using assms(1,4) unfolding ep_sorted_def by (metis sorted_wrt_append map_append takeWhile_dropWhile_id)
    ultimately show ?thesis using y by fastforce
  qed
  have ev: "ep_events p = due @ rest" using assms(3,4) by simp
  let ?p = "p\<lparr>ep_time := now\<rparr>"
  have "event_loop exec dt (?p\<lparr>ep_events := due @ rest\<rparr>) =
      Some (fst (run_calls (concat (map (\<lambda>x. event_calls exec dt now (snd x)) due)) (?p\<lparr>ep_events := rest\<rparr>)),
          concat (map (\<lambda>x. event_effects exec dt now (snd x)) due))"
    using event_loop_due [of due ?p rest exec dt] du re assms(5) by simp
  moreover have "?p\<lparr>ep_events := due @ rest\<rparr> = p\<lparr>ep_time := ep_time p + ucast dt\<rparr>"
    using ev assms(2) by (cases p) simp
  ultimately show ?thesis by (simp add: Update_def)
qed

theorem update_runs_due_events_witness:
  "\<exists>q. Update sample_code 50 sample_processor = Some (q, [Executed 1 150 50, Executed 2 150 50, Deleted 2]) \<and>
    map fst (ep_events q) = [200, 300]"
proof -
  have so: "ep_sorted sample_processor" by (simp add: ep_sorted_def sample_processor_def)
  show ?thesis
    using update_runs_due_events [OF so refl refl refl, of 50 sample_code]
    by (simp add: sample_processor_def sample_code_def sample_event_def event_calls_def event_effects_def
      AddEvent_def Let_def)
qed

text \<open>
  KillAllEvents(true) aborts and deletes every event once, in queue order, and empties the
  queue.
\<close>

theorem kill_all_forced:
  "KillAllEvents True p = (p\<lparr>ep_aborting := True, ep_events := []\<rparr>,
     concat (map (\<lambda>x. [Aborted (ev_id (snd x)) (ep_time p), Deleted (ev_id (snd x))]) (ep_events p)))"
proof -
  have "snd (kill_events True now xs) = concat (map (\<lambda>x. [Aborted (ev_id (snd x)) now, Deleted (ev_id (snd x))]) xs)"
    for now xs
    by (induction xs) (auto simp: Let_def)
  then show ?thesis by (simp add: KillAllEvents_def Let_def)
qed

text \<open>
  KillAllEvents sets the aborting flag to prevent insertions, but AddEvent never reads it:
  the event added afterwards is in the queue.
\<close>

theorem insertion_not_prevented:
  "ep_aborting (fst (KillAllEvents force p)) \<and>
   (e_time, (if b then ev\<lparr>m_addTime := ep_time p\<rparr> else ev)\<lparr>m_execTime := e_time\<rparr>)
     \<in> set (ep_events (AddEvent ev e_time b (fst (KillAllEvents force p))))"
  by (simp add: KillAllEvents_def AddEvent_def Let_def)

end
