(* ===== verification/UpdateMask.thy ===== *)
theory UpdateMask
  imports PacketCodec
begin

text \<open>
  \<open>src/server/game/Entities/Object/Updates/UpdateMask.h\<close>: the set of changed fields of an object, one
  byte per field in the server and one bit per field, in blocks of 32, for the client. \<open>um_bits\<close> is
  \<open>None\<close> for the null pointer; an access outside the array has no defined result.
\<close>

record update_mask =
  um_fieldCount :: u32
  um_blockCount :: u32
  um_bits :: "u8 list option"

definition um_new :: update_mask where
  "um_new = \<lparr>um_fieldCount = 0, um_blockCount = 0, um_bits = None\<rparr>"

definition SetCount :: "u32 \<Rightarrow> update_mask \<Rightarrow> update_mask" where
  "SetCount valuesCount m =
    (let blocks = (valuesCount + 32 - 1) div 32
     in \<lparr>um_fieldCount = valuesCount, um_blockCount = blocks,
         um_bits = Some (replicate (unat (blocks * 32)) 0)\<rparr>)"

definition bits_at :: "update_mask \<Rightarrow> nat \<Rightarrow> bb_error + u8" where
  "bits_at m i = (case um_bits m of
       None \<Rightarrow> Inl UndefinedBehaviour
     | Some bs \<Rightarrow> if i < length bs then Inr (bs ! i) else Inl UndefinedBehaviour)"

definition bits_put :: "nat \<Rightarrow> u8 \<Rightarrow> update_mask \<Rightarrow> bb_error + update_mask" where
  "bits_put i v m = (case um_bits m of
       None \<Rightarrow> Inl UndefinedBehaviour
     | Some bs \<Rightarrow> if i < length bs then Inr (m\<lparr>um_bits := Some (bs[i := v])\<rparr>) else Inl UndefinedBehaviour)"

definition SetBit :: "u32 \<Rightarrow> update_mask \<Rightarrow> bb_error + update_mask" where
  "SetBit index m = bits_put (unat index) 1 m"

definition UnsetBit :: "u32 \<Rightarrow> update_mask \<Rightarrow> bb_error + update_mask" where
  "UnsetBit index m = bits_put (unat index) 0 m"

definition GetBit :: "u32 \<Rightarrow> update_mask \<Rightarrow> bb_error + bool" where
  "GetBit index m = bind_res (bits_at m (unat index)) (\<lambda>x. Inr (x \<noteq> 0))"

definition mask_clear :: "update_mask \<Rightarrow> update_mask" where
  "mask_clear m = m\<lparr>um_bits := map_option (\<lambda>bs. replicate (length bs) 0) (um_bits m)\<rparr>"

text \<open>The copy reads as many bytes from the right side as the new array has.\<close>

definition mask_copy :: "update_mask \<Rightarrow> update_mask \<Rightarrow> bb_error + update_mask" where
  "mask_copy right m =
    (let m = SetCount (um_fieldCount right) m; n = length (the (um_bits m))
     in case um_bits right of
          None \<Rightarrow> if n = 0 then Inr m else Inl UndefinedBehaviour
        | Some bs \<Rightarrow> if length bs < n then Inl UndefinedBehaviour
                     else Inr (m\<lparr>um_bits := Some (take n bs)\<rparr>))"

definition mask_assign :: "update_mask \<Rightarrow> update_mask \<Rightarrow> bb_error + update_mask" where
  "mask_assign right m = (if right = m then Inr m else mask_copy right m)"

fun combine_bits ::
  "(u8 \<Rightarrow> u8 \<Rightarrow> u8) \<Rightarrow> nat list \<Rightarrow> update_mask \<Rightarrow> update_mask \<Rightarrow> bb_error + update_mask"
where
  "combine_bits f [] right m = Inr m"
| "combine_bits f (i # is) right m =
    bind_res (bits_at m i) (\<lambda>x. bind_res (bits_at right i) (\<lambda>y.
      bind_res (bits_put i (f x y) m) (combine_bits f is right)))"

definition mask_combine :: "(u8 \<Rightarrow> u8 \<Rightarrow> u8) \<Rightarrow> update_mask \<Rightarrow> update_mask \<Rightarrow> bb_error + update_mask" where
  "mask_combine f right m =
    (if um_fieldCount right \<le> um_fieldCount m
     then combine_bits f [0..<unat (um_fieldCount m)] right m
     else Inl AssertFailed)"

definition mask_and :: "update_mask \<Rightarrow> update_mask \<Rightarrow> bb_error + update_mask" where
  "mask_and = mask_combine (AND)"

definition mask_or :: "update_mask \<Rightarrow> update_mask \<Rightarrow> bb_error + update_mask" where
  "mask_or = mask_combine (OR)"

definition mask_union :: "update_mask \<Rightarrow> update_mask \<Rightarrow> bb_error + update_mask" where
  "mask_union right m = bind_res (mask_copy m um_new) (mask_or right)"

fun mask_part :: "nat list \<Rightarrow> nat \<Rightarrow> update_mask \<Rightarrow> u32 \<Rightarrow> bb_error + u32" where
  "mask_part [] i m w = Inr w"
| "mask_part (j # js) i m w =
    bind_res (bits_at m (32 * i + j)) (\<lambda>x. mask_part js i m (if x \<noteq> 0 then w OR push_bit j 1 else w))"

fun append_blocks :: "nat list \<Rightarrow> update_mask \<Rightarrow> bytebuffer \<Rightarrow> bb_error + bytebuffer" where
  "append_blocks [] m b = Inr b"
| "append_blocks (i # is) m b =
    bind_res (mask_part [0..<32] i m 0) (\<lambda>w. bind_res (append_val w b) (append_blocks is m))"

definition AppendToPacket :: "update_mask \<Rightarrow> bytebuffer \<Rightarrow> bb_error + bytebuffer" where
  "AppendToPacket m b = append_blocks [0..<unat (um_blockCount m)] m b"

subsection \<open>Well-formed masks\<close>

definition um_ok :: "update_mask \<Rightarrow> bool" where
  "um_ok m \<longleftrightarrow> (case um_bits m of
       None \<Rightarrow> um_fieldCount m = 0 \<and> um_blockCount m = 0
     | Some bs \<Rightarrow> length bs = 32 * unat (um_blockCount m) \<and> unat (um_fieldCount m) \<le> length bs)"

lemma um_new_ok: "um_ok um_new"
  by (simp add: um_ok_def um_new_def)

lemma unat_block_count:
  assumes "unat n + 31 < 2 ^ 32"
  shows "unat ((n + 32 - 1) div 32 :: u32) = (unat n + 31) div 32"
    and "unat ((n + 32 - 1) div 32 * 32 :: u32) = 32 * ((unat n + 31) div 32)"
proof -
  have e: "n + 32 - 1 = n + (31 :: u32)" by simp
  have s: "unat (n + 31) = unat n + 31"
    using assms by (subst unat_add_lem [THEN iffD1]) simp_all
  show d: "unat ((n + 32 - 1) div 32 :: u32) = (unat n + 31) div 32"
    by (simp add: e unat_div s)
  have "unat ((n + 32 - 1) div 32) * unat (32 :: u32) < 2 ^ LENGTH(32)"
    using assms d by simp
  then have "unat ((n + 32 - 1) div 32 * 32 :: u32) = unat ((n + 32 - 1) div 32) * unat (32 :: u32)"
    using unat_mult_lem by blast
  with d show "unat ((n + 32 - 1) div 32 * 32 :: u32) = 32 * ((unat n + 31) div 32)" by simp
qed

lemma SetCount_ok: "unat n + 31 < 2 ^ 32 \<Longrightarrow> um_ok (SetCount n m)"
  unfolding um_ok_def SetCount_def Let_def using unat_block_count [of n] by simp

lemma bits_put_ok: "um_ok m \<Longrightarrow> bits_put i v m = Inr m' \<Longrightarrow> um_ok m'"
  by (auto simp: um_ok_def bits_put_def split: option.splits if_splits)

lemma combine_bits_ok: "um_ok m \<Longrightarrow> combine_bits f is right m = Inr m' \<Longrightarrow> um_ok m'"
proof (induction "is" arbitrary: m)
  case Nil
  then show ?case by simp
next
  case (Cons i "is")
  then show ?case by (auto simp: bind_res_eq_Inr dest: bits_put_ok)
qed

lemma clear_ok: "um_ok m \<Longrightarrow> um_ok (mask_clear m)"
  by (auto simp: um_ok_def mask_clear_def split: option.splits)

text \<open>The bytes of a mask; a well-formed mask without array has none.\<close>

definition um_bytes :: "update_mask \<Rightarrow> u8 list" where
  "um_bytes m = (case um_bits m of None \<Rightarrow> [] | Some bs \<Rightarrow> bs)"

lemma length_um_bytes: "um_ok m \<Longrightarrow> length (um_bytes m) = 32 * unat (um_blockCount m)"
  by (auto simp: um_ok_def um_bytes_def split: option.splits)

lemma fieldCount_um_bytes: "um_ok m \<Longrightarrow> unat (um_fieldCount m) \<le> length (um_bytes m)"
  by (auto simp: um_ok_def um_bytes_def split: option.splits)

lemma bits_at_um_bytes:
  "bits_at m i = (if i < length (um_bytes m) then Inr (um_bytes m ! i) else Inl UndefinedBehaviour)"
  by (auto simp: bits_at_def um_bytes_def split: option.splits)

lemma bits_put_um_bytes:
  "i < length (um_bytes m) \<Longrightarrow>
     \<exists>m'. bits_put i v m = Inr m' \<and> um_bytes m' = (um_bytes m)[i := v] \<and>
       um_fieldCount m' = um_fieldCount m \<and> um_blockCount m' = um_blockCount m"
  by (auto simp: bits_put_def um_bytes_def split: option.splits)

subsection \<open>Setting and testing\<close>

text \<open>
  On a well-formed UpdateMask, SetBit and UnsetBit change the bit they name and no other,
  succeed below the field count and keep the mask well-formed.
\<close>

theorem update_mask_bits:
  assumes "um_ok m" and "i < um_fieldCount m" and "j < um_fieldCount m"
  shows "\<exists>s u. SetBit i m = Inr s \<and> UnsetBit i m = Inr u \<and> um_ok s \<and> um_ok u \<and>
    GetBit j s = (if i = j then Inr True else GetBit j m) \<and>
    GetBit j u = (if i = j then Inr False else GetBit j m)"
proof -
  have ij: "unat i < length (um_bytes m)" "unat j < length (um_bytes m)"
    using assms fieldCount_um_bytes [OF assms(1)] by (simp_all add: word_less_nat_alt)
  from bits_put_um_bytes [OF ij(1), of 1] obtain s where s: "SetBit i m = Inr s" "um_bytes s = (um_bytes m)[unat i := 1]"
    by (auto simp: SetBit_def)
  from bits_put_um_bytes [OF ij(1), of 0] obtain u where u: "UnsetBit i m = Inr u" "um_bytes u = (um_bytes m)[unat i := 0]"
    by (auto simp: UnsetBit_def)
  have "um_ok s" "um_ok u"
    using bits_put_ok [OF assms(1)] s(1) u(1) by (auto simp: SetBit_def UnsetBit_def)
  with s u ij show ?thesis
    by (auto simp: GetBit_def bits_at_um_bytes nth_list_update word_unat_eq_iff)
qed

subsection \<open>Combining\<close>

lemma combine_bits_spec:
  assumes "\<forall>i \<in> set is. i < length (um_bytes m) \<and> i < length (um_bytes right)" and "distinct is"
  shows "\<exists>m'. combine_bits f is right m = Inr m' \<and> length (um_bytes m') = length (um_bytes m) \<and>
    um_fieldCount m' = um_fieldCount m \<and> um_blockCount m' = um_blockCount m \<and>
    (\<forall>k < length (um_bytes m). um_bytes m' ! k =
      (if k \<in> set is then f (um_bytes m ! k) (um_bytes right ! k) else um_bytes m ! k))"
  using assms
proof (induction "is" arbitrary: m)
  case Nil
  then show ?case by simp
next
  case (Cons i "is")
  from bits_put_um_bytes [of i m "f (um_bytes m ! i) (um_bytes right ! i)"] Cons.prems obtain m1 where
    m1: "bits_put i (f (um_bytes m ! i) (um_bytes right ! i)) m = Inr m1"
      "um_bytes m1 = (um_bytes m)[i := f (um_bytes m ! i) (um_bytes right ! i)]"
      "um_fieldCount m1 = um_fieldCount m" "um_blockCount m1 = um_blockCount m"
    by auto
  from Cons.IH [of m1] Cons.prems m1 obtain m' where
    "combine_bits f is right m1 = Inr m'" "length (um_bytes m') = length (um_bytes m)"
    "um_fieldCount m' = um_fieldCount m" "um_blockCount m' = um_blockCount m"
    "\<forall>k < length (um_bytes m). um_bytes m' ! k =
      (if k \<in> set is then f (um_bytes m1 ! k) (um_bytes right ! k) else um_bytes m1 ! k)"
    by auto
  with m1 Cons.prems show ?case
    by (intro exI [of _ m']) (auto simp: bits_at_um_bytes nth_list_update)
qed

lemma mask_combine_spec:
  assumes "um_ok m" and "um_ok right" and "um_fieldCount right \<le> um_fieldCount m"
    and "unat (um_fieldCount m) \<le> 32 * unat (um_blockCount right)"
  shows "\<exists>m'. mask_combine f right m = Inr m' \<and> um_ok m' \<and> um_fieldCount m' = um_fieldCount m \<and>
    (\<forall>k < unat (um_fieldCount m). um_bytes m' ! k = f (um_bytes m ! k) (um_bytes right ! k))"
proof -
  have "\<forall>i \<in> set [0..<unat (um_fieldCount m)]. i < length (um_bytes m) \<and> i < length (um_bytes right)"
    using assms(4) fieldCount_um_bytes [OF assms(1)] length_um_bytes [OF assms(2)] by auto
  from combine_bits_spec [OF this, of f] fieldCount_um_bytes [OF assms(1)] obtain m' where
    m': "combine_bits f [0..<unat (um_fieldCount m)] right m = Inr m'"
      "um_fieldCount m' = um_fieldCount m"
      "\<forall>k < unat (um_fieldCount m). um_bytes m' ! k = f (um_bytes m ! k) (um_bytes right ! k)"
    by auto
  with combine_bits_ok [OF assms(1) m'(1)] assms(3) show ?thesis by (simp add: mask_combine_def)
qed

text \<open>
  When the right side has as many blocks as the left side has fields for, operator&= and
  operator|= combine the masks field by field and keep them well-formed.
\<close>

theorem mask_combine_pointwise:
  assumes "um_ok m" and "um_ok right" and "um_fieldCount right \<le> um_fieldCount m"
    and "unat (um_fieldCount m) \<le> 32 * unat (um_blockCount right)"
  shows "(\<exists>a. mask_and right m = Inr a \<and> um_ok a \<and> (\<forall>k < unat (um_fieldCount m).
      um_bytes a ! k = um_bytes m ! k AND um_bytes right ! k)) \<and>
    (\<exists>u. mask_or right m = Inr u \<and> um_ok u \<and> (\<forall>k < unat (um_fieldCount m).
      um_bytes u ! k = um_bytes m ! k OR um_bytes right ! k))"
  using mask_combine_spec [OF assms, of "(AND)"] mask_combine_spec [OF assms, of "(OR)"]
  by (auto simp: mask_and_def mask_or_def)

lemma combine_bits_out:
  assumes "\<exists>i \<in> set is. length (um_bytes right) \<le> i" and "\<forall>i \<in> set is. i < length (um_bytes m)"
  shows "combine_bits f is right m = Inl UndefinedBehaviour"
  using assms
proof (induction "is" arbitrary: m)
  case Nil
  then show ?case by simp
next
  case (Cons i "is")
  show ?case
  proof (cases "length (um_bytes right) \<le> i")
    case True
    with Cons.prems show ?thesis by (simp add: bits_at_um_bytes)
  next
    case False
    from bits_put_um_bytes [of i m "f (um_bytes m ! i) (um_bytes right ! i)"] Cons.prems obtain m1 where
      m1: "bits_put i (f (um_bytes m ! i) (um_bytes right ! i)) m = Inr m1"
        "um_bytes m1 = (um_bytes m)[i := f (um_bytes m ! i) (um_bytes right ! i)]"
      by auto
    with Cons.IH [of m1] Cons.prems False show ?thesis by (simp add: bits_at_um_bytes)
  qed
qed

text \<open>
  The assertion of operator&= and operator|= allows a right side with fewer blocks, and then
  the loop over the left field count reads past the end of its array.
\<close>

theorem mask_combine_reads_past_right:
  assumes "um_ok m" and "um_ok right" and "um_fieldCount right \<le> um_fieldCount m"
    and "32 * unat (um_blockCount right) < unat (um_fieldCount m)"
  shows "mask_and right m = Inl UndefinedBehaviour \<and> mask_or right m = Inl UndefinedBehaviour"
proof -
  have "combine_bits f [0..<unat (um_fieldCount m)] right m = Inl UndefinedBehaviour" for f
    using assms(4) fieldCount_um_bytes [OF assms(1)] length_um_bytes [OF assms(2)]
    by (intro combine_bits_out bexI [of _ "length (um_bytes right)"]) auto
  with assms(3) show ?thesis by (simp add: mask_and_def mask_or_def mask_combine_def)
qed

subsection \<open>The client's view\<close>

lemma mask_part_spec:
  assumes "\<forall>j \<in> set js. 32 * i + j < length (um_bytes m) \<and> j < 32"
  shows "\<exists>w'. mask_part js i m w = Inr w' \<and>
    (\<forall>n. bit w' n \<longleftrightarrow> bit w n \<or> n \<in> set js \<and> um_bytes m ! (32 * i + n) \<noteq> 0)"
  using assms
proof (induction js arbitrary: w)
  case Nil
  then show ?case by simp
next
  case (Cons j js)
  let ?w = "if um_bytes m ! (32 * i + j) \<noteq> 0 then w OR push_bit j 1 else w"
  from Cons.IH [of ?w] Cons.prems obtain w' where
    "mask_part js i m ?w = Inr w'"
    "\<forall>n. bit w' n \<longleftrightarrow> bit ?w n \<or> n \<in> set js \<and> um_bytes m ! (32 * i + n) \<noteq> 0"
    by auto
  moreover have "bit (push_bit j 1 :: u32) n \<longleftrightarrow> n = j" for n
    using Cons.prems by (auto simp: bit_exp_iff possible_bit_word)
  ultimately show ?case
    using Cons.prems by (intro exI [of _ w']) (auto simp: bits_at_um_bytes bit_or_iff)
qed

definition client_word :: "update_mask \<Rightarrow> nat \<Rightarrow> u32 \<Rightarrow> bool" where
  "client_word m i w \<longleftrightarrow> (\<forall>j. bit w j \<longleftrightarrow> j < 32 \<and> um_bytes m ! (32 * i + j) \<noteq> 0)"

lemma append_blocks_spec:
  assumes "\<forall>i \<in> set is. i < unat (um_blockCount m)" and "um_ok m" and "length bs + 4 * length is < bb_limit"
  shows "\<exists>ws. append_blocks is m (wstate r (bs, [])) = Inr (wstate r (bs @ concat (map le_bytes ws), [])) \<and>
    list_all2 (client_word m) is ws"
  using assms
proof (induction "is" arbitrary: bs)
  case Nil
  then show ?case by simp
next
  case (Cons i "is")
  have "\<forall>j \<in> set [0..<32]. 32 * i + j < length (um_bytes m) \<and> j < 32"
    using Cons.prems(1) length_um_bytes [OF Cons.prems(2)] by auto
  from mask_part_spec [OF this, of 0] obtain w where
    w: "mask_part [0..<32] i m 0 = Inr w" "client_word m i w"
    by (auto simp: client_word_def)
  have "append_val w (wstate r (bs, [])) = Inr (wstate r (bs @ le_bytes w, []))"
    using append_val_wstate [of "[]" bs w r] Cons.prems(3) by (simp add: flush_image_def)
  moreover from Cons.IH [of "bs @ le_bytes w"] Cons.prems obtain ws where
    "append_blocks is m (wstate r (bs @ le_bytes w, [])) =
      Inr (wstate r ((bs @ le_bytes w) @ concat (map le_bytes ws), []))" "list_all2 (client_word m) is ws"
    by auto
  ultimately show ?case using w by (intro exI [of _ "w # ws"]) simp
qed

text \<open>
  AppendToPacket sends one 32-bit word per block, little endian, and bit j of word i is set
  exactly when field 32 i + j is marked.
\<close>

theorem update_mask_sent:
  assumes "um_ok m" and "length bs + 4 * unat (um_blockCount m) < bb_limit"
  shows "\<exists>ws :: u32 list. AppendToPacket m (wstate r (bs, [])) = Inr (wstate r (bs @ concat (map le_bytes ws), [])) \<and>
    length ws = unat (um_blockCount m) \<and>
    (\<forall>k < 32 * unat (um_blockCount m). bit (ws ! (k div 32)) (k mod 32) \<longleftrightarrow> um_bytes m ! k \<noteq> 0)"
proof -
  from append_blocks_spec [of "[0..<unat (um_blockCount m)]" m bs r] assms obtain ws where
    ws: "AppendToPacket m (wstate r (bs, [])) = Inr (wstate r (bs @ concat (map le_bytes ws), []))"
    and l2: "list_all2 (client_word m) [0..<unat (um_blockCount m)] ws"
    by (auto simp: AppendToPacket_def)
  have len: "length ws = unat (um_blockCount m)"
    using list_all2_lengthD [OF l2] by simp
  have "bit (ws ! (k div 32)) (k mod 32) \<longleftrightarrow> um_bytes m ! k \<noteq> 0" if "k < 32 * unat (um_blockCount m)" for k
  proof -
    have "k div 32 < unat (um_blockCount m)" using that by simp
    with l2 have "client_word m (k div 32) (ws ! (k div 32))"
      by (auto simp: list_all2_conv_all_nth)
    then show ?thesis by (simp add: client_word_def)
  qed
  with ws len show ?thesis by blast
qed

subsection \<open>A concrete mask\<close>

definition sample_mask :: update_mask where
  "sample_mask = \<lparr>um_fieldCount = 40, um_blockCount = 2, um_bits = Some (replicate 64 1)\<rparr>"

definition short_mask :: update_mask where
  "short_mask = \<lparr>um_fieldCount = 8, um_blockCount = 1, um_bits = Some (replicate 32 1)\<rparr>"

lemma sample_masks_ok: "um_ok sample_mask" "um_ok short_mask"
  by (simp_all add: um_ok_def sample_mask_def short_mask_def)

theorem update_mask_bits_witness:
  "\<exists>s u. SetBit 3 sample_mask = Inr s \<and> UnsetBit 3 sample_mask = Inr u \<and> um_ok s \<and> um_ok u \<and>
    GetBit 3 s = Inr True \<and> GetBit 3 u = Inr False"
  using update_mask_bits [OF sample_masks_ok(1), of 3 3] by (simp add: sample_mask_def)

theorem mask_combine_pointwise_witness:
  "(\<exists>a. mask_and sample_mask sample_mask = Inr a \<and> um_ok a \<and> (\<forall>k < 40.
      um_bytes a ! k = um_bytes sample_mask ! k AND um_bytes sample_mask ! k)) \<and>
    (\<exists>u. mask_or sample_mask sample_mask = Inr u \<and> um_ok u \<and> (\<forall>k < 40.
      um_bytes u ! k = um_bytes sample_mask ! k OR um_bytes sample_mask ! k))"
proof -
  have c: "unat (um_fieldCount sample_mask) = 40" "32 * unat (um_blockCount sample_mask) = 64"
    by (simp_all add: sample_mask_def)
  show ?thesis
    using mask_combine_pointwise [OF sample_masks_ok(1) sample_masks_ok(1)] unfolding c by simp
qed

theorem mask_combine_reads_past_right_witness:
  "mask_and short_mask sample_mask = Inl UndefinedBehaviour \<and>
   mask_or short_mask sample_mask = Inl UndefinedBehaviour"
  by (rule mask_combine_reads_past_right [OF sample_masks_ok]) (simp_all add: sample_mask_def short_mask_def)

theorem update_mask_sent_witness:
  "\<exists>ws :: u32 list. AppendToPacket sample_mask (wstate 0 ([7], [])) =
      Inr (wstate 0 ([7] @ concat (map le_bytes ws), [])) \<and>
    length ws = 2 \<and> (\<forall>k < 64. bit (ws ! (k div 32)) (k mod 32) \<longleftrightarrow> um_bytes sample_mask ! k \<noteq> 0)"
proof -
  have c: "unat (um_blockCount sample_mask) = 2" by (simp add: sample_mask_def)
  show ?thesis
    using update_mask_sent [OF sample_masks_ok(1), of "[7]" 0] unfolding c by (simp add: bb_limit_def)
qed

end
