(* ===== verification/OrderedMap.thy ===== *)
theory OrderedMap
  imports Prelude
begin

text \<open>
  The ordered containers of the C++ library as the game code uses them: a \<open>std::map\<close> is the list
  of its entries in key order, a \<open>std::set\<close> the list of its elements in order. Iteration is the
  list itself, so loops over a container are recursions over the list.
\<close>

subsection \<open>Maps\<close>

text \<open>\<open>m[k] = v\<close>\<close>

fun om_put :: "'k::linorder \<Rightarrow> 'v \<Rightarrow> ('k \<times> 'v) list \<Rightarrow> ('k \<times> 'v) list" where
  "om_put k v [] = [(k, v)]"
| "om_put k v ((a, b) # m) =
     (if k < a then (k, v) # (a, b) # m else if k = a then (k, v) # m else (a, b) # om_put k v m)"

definition om_erase :: "'k \<Rightarrow> ('k \<times> 'v) list \<Rightarrow> ('k \<times> 'v) list" where
  "om_erase k m = filter (\<lambda>x. fst x \<noteq> k) m"

text \<open>Assignment through an iterator or a reference to the value of a present key.\<close>

definition om_adjust :: "'k \<Rightarrow> ('v \<Rightarrow> 'v) \<Rightarrow> ('k \<times> 'v) list \<Rightarrow> ('k \<times> 'v) list" where
  "om_adjust k f m = map (\<lambda>(a, b). (a, if a = k then f b else b)) m"

definition om_ok :: "('k::linorder \<times> 'v) list \<Rightarrow> bool" where
  "om_ok m = sorted_wrt (<) (map fst m)"

lemma om_ok_Nil [simp]: "om_ok []"
  by (simp add: om_ok_def)

lemma om_ok_Cons: "om_ok ((a, b) # m) \<longleftrightarrow> (\<forall>x \<in> set m. a < fst x) \<and> om_ok m"
  by (auto simp: om_ok_def)

lemma om_ok_distinct: "om_ok m \<Longrightarrow> distinct (map fst m)"
  by (simp add: om_ok_def strict_sorted_iff)

lemma map_of_om_put [simp]: "map_of (om_put k v m) = (map_of m)(k \<mapsto> v)"
  by (induction k v m rule: om_put.induct) (auto simp: fun_eq_iff)

lemma fst_om_put: "fst ` set (om_put k v m) = insert k (fst ` set m)"
  by (induction k v m rule: om_put.induct) auto

lemma length_om_put: "length (om_put k v m) \<le> Suc (length m)"
  by (induction k v m rule: om_put.induct) auto

lemma set_om_put: "set (om_put k v m) \<subseteq> insert (k, v) (set m)"
  by (induction k v m rule: om_put.induct) auto

lemma om_ok_put [simp]: "om_ok m \<Longrightarrow> om_ok (om_put k v m)"
proof (induction k v m rule: om_put.induct)
  case (2 k v a b m)
  have "\<forall>x \<in> set (om_put k v m). a < fst x" if "a < k"
    using 2(2) that fst_om_put [of k v m] by (fastforce simp: om_ok_Cons)
  with 2 show ?case by (auto simp: om_ok_Cons)
qed (simp add: om_ok_Cons)

lemma map_of_om_erase [simp]: "map_of (om_erase k m) = (map_of m)(k := None)"
  by (induction m) (auto simp: om_erase_def fun_eq_iff)

lemma om_ok_erase [simp]: "om_ok m \<Longrightarrow> om_ok (om_erase k m)"
  by (induction m) (auto simp: om_erase_def om_ok_Cons)

lemma map_of_om_adjust: "map_of (om_adjust k f m) a = (if a = k then map_option f (map_of m k) else map_of m a)"
  by (induction m) (auto simp: om_adjust_def)

lemma fst_om_adjust [simp]: "map fst (om_adjust k f m) = map fst m"
  by (induction m) (auto simp: om_adjust_def)

lemma om_ok_adjust [simp]: "om_ok (om_adjust k f m) = om_ok m"
  by (simp add: om_ok_def)

lemma length_om_adjust [simp]: "length (om_adjust k f m) = length m"
  by (simp add: om_adjust_def)

text \<open>A read through \<open>operator[]\<close>: the default value of the mapped type for a key that is absent.\<close>

definition om_at :: "'v \<Rightarrow> ('k \<times> 'v) list \<Rightarrow> 'k \<Rightarrow> 'v" where
  "om_at d m k = (case map_of m k of Some v \<Rightarrow> v | None \<Rightarrow> d)"

lemma om_at_put [simp]: "om_at d (om_put k v m) a = (if a = k then v else om_at d m a)"
  by (simp add: om_at_def)

lemma om_at_erase [simp]: "om_at d (om_erase k m) a = (if a = k then d else om_at d m a)"
  by (simp add: om_at_def)

subsection \<open>Sets\<close>

definition os_ok :: "'a::linorder list \<Rightarrow> bool" where
  "os_ok s = sorted_wrt (<) s"

definition os_insert :: "'a::linorder \<Rightarrow> 'a list \<Rightarrow> 'a list" where
  "os_insert x s = insort_insert x s"

definition os_erase :: "'a \<Rightarrow> 'a list \<Rightarrow> 'a list" where
  "os_erase x s = filter (\<lambda>y. y \<noteq> x) s"

text \<open>\<open>std::set_intersection\<close> of two ordered ranges.\<close>

fun os_inter :: "'a::linorder list \<Rightarrow> 'a list \<Rightarrow> 'a list" where
  "os_inter [] ys = []"
| "os_inter xs [] = []"
| "os_inter (x # xs) (y # ys) =
     (if x < y then os_inter xs (y # ys) else if y < x then os_inter (x # xs) ys else x # os_inter xs ys)"

lemma os_ok_Nil [simp]: "os_ok []"
  by (simp add: os_ok_def)

lemma os_ok_sorted: "os_ok s \<longleftrightarrow> sorted s \<and> distinct s"
  by (auto simp: os_ok_def strict_sorted_iff)

lemma os_ok_insert [simp]: "os_ok s \<Longrightarrow> os_ok (os_insert x s)"
  by (simp add: os_ok_sorted os_insert_def sorted_insort_insert distinct_insort_insert)

lemma set_os_insert [simp]: "set (os_insert x s) = insert x (set s)"
  by (simp add: os_insert_def set_insort_insert)

lemma os_ok_erase [simp]: "os_ok s \<Longrightarrow> os_ok (os_erase x s)"
  by (simp add: os_ok_sorted os_erase_def sorted_filter [of "\<lambda>x. x", simplified])

lemma set_os_erase [simp]: "set (os_erase x s) = set s - {x}"
  by (auto simp: os_erase_def)

lemma os_inter_subset: "set (os_inter xs ys) \<subseteq> set xs \<inter> set ys"
  by (induction xs ys rule: os_inter.induct) auto

lemma set_os_inter: "os_ok xs \<Longrightarrow> os_ok ys \<Longrightarrow> set (os_inter xs ys) = set xs \<inter> set ys"
  by (induction xs ys rule: os_inter.induct) (auto simp: os_ok_def)

lemma os_ok_inter: "os_ok xs \<Longrightarrow> os_ok ys \<Longrightarrow> os_ok (os_inter xs ys)"
proof (induction xs ys rule: os_inter.induct)
  case (3 x xs y ys)
  then show ?case
    using os_inter_subset [of xs ys] by (auto simp: os_ok_def)
qed simp_all

end
