(* ===== verification/LfgTypes.thy ===== *)
theory LfgTypes
  imports OrderedMap
begin

text \<open>
  The data of the dungeon finder (\<open>LFG.h\<close>, \<open>LFGPlayerData\<close>, \<open>LFGGroupData\<close>): the enumerations, what
  is stored for a player and for a group, and every operation on it. Both keep the current state
  and the last stable one, to which a failed role check or proposal returns; the locale
  \<open>restorable\<close> states that contract, and both data types are interpretations of it.
\<close>

subsection \<open>Enumerations\<close>

definition PLAYER_ROLE_NONE :: u8 where "PLAYER_ROLE_NONE = 0x00"
definition PLAYER_ROLE_LEADER :: u8 where "PLAYER_ROLE_LEADER = 0x01"
definition PLAYER_ROLE_TANK :: u8 where "PLAYER_ROLE_TANK = 0x02"
definition PLAYER_ROLE_HEALER :: u8 where "PLAYER_ROLE_HEALER = 0x04"
definition PLAYER_ROLE_DAMAGE :: u8 where "PLAYER_ROLE_DAMAGE = 0x08"

definition LFG_TANKS_NEEDED :: nat where "LFG_TANKS_NEEDED = 1"
definition LFG_HEALERS_NEEDED :: nat where "LFG_HEALERS_NEEDED = 1"
definition LFG_DPS_NEEDED :: nat where "LFG_DPS_NEEDED = 3"

definition MAXGROUPSIZE :: nat where "MAXGROUPSIZE = 5"
definition LFG_GROUP_MAX_KICKS :: u8 where "LFG_GROUP_MAX_KICKS = 3"

lemmas role_defs = PLAYER_ROLE_NONE_def PLAYER_ROLE_LEADER_def PLAYER_ROLE_TANK_def
  PLAYER_ROLE_HEALER_def PLAYER_ROLE_DAMAGE_def

lemmas needed_defs = LFG_TANKS_NEEDED_def LFG_HEALERS_NEEDED_def LFG_DPS_NEEDED_def

datatype LfgState =
    LFG_STATE_NONE | LFG_STATE_ROLECHECK | LFG_STATE_QUEUED | LFG_STATE_PROPOSAL
  | LFG_STATE_BOOT | LFG_STATE_DUNGEON | LFG_STATE_FINISHED_DUNGEON | LFG_STATE_RAIDBROWSER

datatype LfgAnswer = LFG_ANSWER_PENDING | LFG_ANSWER_DENY | LFG_ANSWER_AGREE

text \<open>The cast \<open>LfgAnswer(accept)\<close> of a bool.\<close>

definition answer_of :: "bool \<Rightarrow> LfgAnswer" where
  "answer_of accept = (if accept then LFG_ANSWER_AGREE else LFG_ANSWER_DENY)"

datatype LfgCompatibility =
    LFG_COMPATIBILITY_PENDING | LFG_INCOMPATIBLES_WRONG_GROUP_SIZE | LFG_INCOMPATIBLES_TOO_MUCH_PLAYERS
  | LFG_INCOMPATIBLES_MULTIPLE_LFG_GROUPS | LFG_INCOMPATIBLES_HAS_IGNORES | LFG_INCOMPATIBLES_NO_ROLES
  | LFG_INCOMPATIBLES_NO_DUNGEONS | LFG_COMPATIBLES_WITH_LESS_PLAYERS | LFG_COMPATIBLES_BAD_STATES
  | LFG_COMPATIBLES_MATCH

text \<open>The code compares compatibilities as the integers of their enumerators.\<close>

primrec compat_rank :: "LfgCompatibility \<Rightarrow> nat" where
  "compat_rank LFG_COMPATIBILITY_PENDING = 0"
| "compat_rank LFG_INCOMPATIBLES_WRONG_GROUP_SIZE = 1"
| "compat_rank LFG_INCOMPATIBLES_TOO_MUCH_PLAYERS = 2"
| "compat_rank LFG_INCOMPATIBLES_MULTIPLE_LFG_GROUPS = 3"
| "compat_rank LFG_INCOMPATIBLES_HAS_IGNORES = 4"
| "compat_rank LFG_INCOMPATIBLES_NO_ROLES = 5"
| "compat_rank LFG_INCOMPATIBLES_NO_DUNGEONS = 6"
| "compat_rank LFG_COMPATIBLES_WITH_LESS_PLAYERS = 7"
| "compat_rank LFG_COMPATIBLES_BAD_STATES = 8"
| "compat_rank LFG_COMPATIBLES_MATCH = 9"

lemma compat_rank_eq: "compat_rank a = compat_rank b \<longleftrightarrow> a = b"
  by (cases a; cases b) simp_all

instantiation LfgCompatibility :: linorder
begin

definition less_eq_LfgCompatibility :: "LfgCompatibility \<Rightarrow> LfgCompatibility \<Rightarrow> bool" where
  "less_eq_LfgCompatibility a b \<longleftrightarrow> compat_rank a \<le> compat_rank b"

definition less_LfgCompatibility :: "LfgCompatibility \<Rightarrow> LfgCompatibility \<Rightarrow> bool" where
  "less_LfgCompatibility a b \<longleftrightarrow> compat_rank a < compat_rank b"

instance
  by standard (auto simp: less_eq_LfgCompatibility_def less_LfgCompatibility_def compat_rank_eq)

end

text \<open>The high part of a GUID says what it names.\<close>

definition GUID_HIPART :: "u64 \<Rightarrow> u32" where
  "GUID_HIPART guid =
    (let t = ucast (drop_bit 48 guid AND 0xFFFF)
     in if t = 0xF0C0 \<or> t = 0xF102 then t else drop_bit 4 t AND 0xFFF)"

definition IS_GROUP_GUID :: "u64 \<Rightarrow> bool" where
  "IS_GROUP_GUID guid \<longleftrightarrow> GUID_HIPART guid = 0x1F5"

subsection \<open>Going back to the last stable state\<close>

definition stable_state :: "LfgState \<Rightarrow> bool" where
  "stable_state s \<longleftrightarrow> s = LFG_STATE_NONE \<or> s = LFG_STATE_DUNGEON \<or> s = LFG_STATE_FINISHED_DUNGEON"

locale restorable =
  fixes SetSt :: "LfgState \<Rightarrow> 'd \<Rightarrow> 'd" and Restore :: "'d \<Rightarrow> 'd"
    and GetSt :: "'d \<Rightarrow> LfgState" and GetOld :: "'d \<Rightarrow> LfgState"
  assumes get_set: "GetSt (SetSt s d) = s"
    and old_set: "GetOld (SetSt s d) = (if stable_state s then s else GetOld d)"
    and get_restore: "GetSt (Restore d) = GetOld d"
    and old_restore: "GetOld (Restore d) = GetOld d"
begin

lemma old_transient: "\<forall>s \<in> set ss. \<not> stable_state s \<Longrightarrow> GetOld (fold SetSt ss d) = GetOld d"
  by (induction ss arbitrary: d) (simp_all add: old_set)

lemma restore_transient:
  assumes "stable_state s" and "\<forall>t \<in> set ss. \<not> stable_state t"
  shows "GetSt (Restore (fold SetSt ss (SetSt s d))) = s"
  using assms by (simp add: get_restore old_transient old_set)

lemma old_stable: "stable_state (GetOld d) \<Longrightarrow> stable_state (GetOld (SetSt s d)) \<and> stable_state (GetOld (Restore d))"
  by (simp add: old_set old_restore)

lemma get_fold: "ss \<noteq> [] \<Longrightarrow> GetSt (fold SetSt ss d) = last ss"
  by (induction ss rule: rev_induct) (simp_all add: get_set)

end

subsection \<open>Player data\<close>

type_synonym LfgDungeonSet = "u32 list"
type_synonym LfgLockMap = "(u32 \<times> u32) list"
type_synonym LfgRolesMap = "(u64 \<times> u8) list"

record LfgPlayerData =
  pd_State :: LfgState
  pd_OldState :: LfgState
  pd_LockedDungeons :: LfgLockMap
  pd_Team :: u8
  pd_Group :: u64
  pd_Roles :: u8
  pd_Comment :: string
  pd_SelectedDungeons :: LfgDungeonSet

definition LfgPlayerData_new :: LfgPlayerData where
  "LfgPlayerData_new = \<lparr>pd_State = LFG_STATE_NONE, pd_OldState = LFG_STATE_NONE, pd_LockedDungeons = [],
     pd_Team = 0, pd_Group = 0, pd_Roles = 0, pd_Comment = [], pd_SelectedDungeons = []\<rparr>"

definition PlayerData_SetState :: "LfgState \<Rightarrow> LfgPlayerData \<Rightarrow> LfgPlayerData" where
  "PlayerData_SetState state d =
    (case state of
       LFG_STATE_NONE \<Rightarrow> d\<lparr>pd_Roles := 0, pd_SelectedDungeons := [], pd_Comment := [], pd_OldState := state, pd_State := state\<rparr>
     | LFG_STATE_FINISHED_DUNGEON \<Rightarrow> d\<lparr>pd_Roles := 0, pd_SelectedDungeons := [], pd_Comment := [], pd_OldState := state, pd_State := state\<rparr>
     | LFG_STATE_DUNGEON \<Rightarrow> d\<lparr>pd_OldState := state, pd_State := state\<rparr>
     | _ \<Rightarrow> d\<lparr>pd_State := state\<rparr>)"

definition PlayerData_RestoreState :: "LfgPlayerData \<Rightarrow> LfgPlayerData" where
  "PlayerData_RestoreState d =
    (let d = (if pd_OldState d = LFG_STATE_NONE then d\<lparr>pd_SelectedDungeons := [], pd_Roles := 0\<rparr> else d)
     in d\<lparr>pd_State := pd_OldState d\<rparr>)"

interpretation player: restorable PlayerData_SetState PlayerData_RestoreState pd_State pd_OldState
  by unfold_locales
    (simp_all add: PlayerData_SetState_def PlayerData_RestoreState_def stable_state_def split: LfgState.splits)

text \<open>A player who uses nothing keeps no roles and no dungeons, once \<open>SetState\<close> or \<open>RestoreState\<close> has put him there.\<close>

lemma PlayerData_none_clears:
  "pd_State (PlayerData_SetState s d) = LFG_STATE_NONE \<Longrightarrow>
     pd_Roles (PlayerData_SetState s d) = 0 \<and> pd_SelectedDungeons (PlayerData_SetState s d) = []"
  "pd_State (PlayerData_RestoreState d) = LFG_STATE_NONE \<Longrightarrow>
     pd_Roles (PlayerData_RestoreState d) = 0 \<and> pd_SelectedDungeons (PlayerData_RestoreState d) = []"
  by (cases s; simp add: PlayerData_SetState_def)
    (simp add: PlayerData_RestoreState_def split: if_splits)

lemma PlayerData_SetState_group [simp]:
  "pd_Group (PlayerData_SetState s d) = pd_Group d" "pd_Team (PlayerData_SetState s d) = pd_Team d"
  "pd_LockedDungeons (PlayerData_SetState s d) = pd_LockedDungeons d"
  by (simp_all add: PlayerData_SetState_def split: LfgState.splits)

lemma PlayerData_RestoreState_group [simp]:
  "pd_Group (PlayerData_RestoreState d) = pd_Group d" "pd_Team (PlayerData_RestoreState d) = pd_Team d"
  "pd_LockedDungeons (PlayerData_RestoreState d) = pd_LockedDungeons d"
  by (simp_all add: PlayerData_RestoreState_def)

subsection \<open>Group data\<close>

record LfgGroupData =
  gd_State :: LfgState
  gd_OldState :: LfgState
  gd_Leader :: u64
  gd_Players :: "u64 list"
  gd_Dungeon :: u32
  gd_KicksLeft :: u8

definition LfgGroupData_new :: LfgGroupData where
  "LfgGroupData_new = \<lparr>gd_State = LFG_STATE_NONE, gd_OldState = LFG_STATE_NONE, gd_Leader = 0,
     gd_Players = [], gd_Dungeon = 0, gd_KicksLeft = LFG_GROUP_MAX_KICKS\<rparr>"

definition GroupData_IsLfgGroup :: "LfgGroupData \<Rightarrow> bool" where
  "GroupData_IsLfgGroup d \<longleftrightarrow> gd_OldState d \<noteq> LFG_STATE_NONE"

definition GroupData_SetState :: "LfgState \<Rightarrow> LfgGroupData \<Rightarrow> LfgGroupData" where
  "GroupData_SetState state d =
    (case state of
       LFG_STATE_NONE \<Rightarrow> d\<lparr>gd_Dungeon := 0, gd_KicksLeft := LFG_GROUP_MAX_KICKS, gd_OldState := state, gd_State := state\<rparr>
     | LFG_STATE_FINISHED_DUNGEON \<Rightarrow> d\<lparr>gd_OldState := state, gd_State := state\<rparr>
     | LFG_STATE_DUNGEON \<Rightarrow> d\<lparr>gd_OldState := state, gd_State := state\<rparr>
     | _ \<Rightarrow> d\<lparr>gd_State := state\<rparr>)"

definition GroupData_RestoreState :: "LfgGroupData \<Rightarrow> LfgGroupData" where
  "GroupData_RestoreState d = d\<lparr>gd_State := gd_OldState d\<rparr>"

definition GroupData_AddPlayer :: "u64 \<Rightarrow> LfgGroupData \<Rightarrow> LfgGroupData" where
  "GroupData_AddPlayer guid d = d\<lparr>gd_Players := os_insert guid (gd_Players d)\<rparr>"

definition GroupData_RemovePlayer :: "u64 \<Rightarrow> LfgGroupData \<Rightarrow> u8 \<times> LfgGroupData" where
  "GroupData_RemovePlayer guid d =
    (let d = d\<lparr>gd_Players := os_erase guid (gd_Players d)\<rparr> in (of_nat (length (gd_Players d)), d))"

definition GroupData_RemoveAllPlayers :: "LfgGroupData \<Rightarrow> LfgGroupData" where
  "GroupData_RemoveAllPlayers d = d\<lparr>gd_Players := []\<rparr>"

definition GroupData_DecreaseKicksLeft :: "LfgGroupData \<Rightarrow> LfgGroupData" where
  "GroupData_DecreaseKicksLeft d = (if gd_KicksLeft d \<noteq> 0 then d\<lparr>gd_KicksLeft := gd_KicksLeft d - 1\<rparr> else d)"

definition GroupData_GetPlayerCount :: "LfgGroupData \<Rightarrow> u8" where
  "GroupData_GetPlayerCount d = of_nat (length (gd_Players d))"

definition GroupData_GetDungeon :: "bool \<Rightarrow> LfgGroupData \<Rightarrow> u32" where
  "GroupData_GetDungeon asId d = (if asId then gd_Dungeon d AND 0x00FFFFFF else gd_Dungeon d)"

interpretation group: restorable GroupData_SetState GroupData_RestoreState gd_State gd_OldState
  by unfold_locales
    (simp_all add: GroupData_SetState_def GroupData_RestoreState_def stable_state_def split: LfgState.splits)

lemma GroupData_SetState_frame [simp]:
  "gd_Players (GroupData_SetState s d) = gd_Players d" "gd_Leader (GroupData_SetState s d) = gd_Leader d"
  by (simp_all add: GroupData_SetState_def split: LfgState.splits)

lemma GroupData_RestoreState_frame [simp]:
  "gd_Players (GroupData_RestoreState d) = gd_Players d" "gd_Leader (GroupData_RestoreState d) = gd_Leader d"
  "gd_KicksLeft (GroupData_RestoreState d) = gd_KicksLeft d" "gd_Dungeon (GroupData_RestoreState d) = gd_Dungeon d"
  by (simp_all add: GroupData_RestoreState_def)

text \<open>
  RestoreState of player and group data goes back to the last stable state (none, dungeon,
  finished), whatever transient states were set in between.
\<close>

theorem states_restored:
  assumes "stable_state s" and "\<forall>t \<in> set ss. \<not> stable_state t"
  shows "pd_State (PlayerData_RestoreState (fold PlayerData_SetState ss (PlayerData_SetState s p))) = s \<and>
    gd_State (GroupData_RestoreState (fold GroupData_SetState ss (GroupData_SetState s g))) = s \<and>
    (GroupData_IsLfgGroup (fold GroupData_SetState ss (GroupData_SetState s g)) \<longleftrightarrow> s \<noteq> LFG_STATE_NONE)"
  using assms
  by (simp add: player.restore_transient group.restore_transient GroupData_IsLfgGroup_def
    group.old_transient group.old_set)

theorem states_restored_witness:
  "pd_State (PlayerData_RestoreState (fold PlayerData_SetState [LFG_STATE_ROLECHECK, LFG_STATE_QUEUED]
     (PlayerData_SetState LFG_STATE_DUNGEON LfgPlayerData_new))) = LFG_STATE_DUNGEON"
  using states_restored [of LFG_STATE_DUNGEON "[LFG_STATE_ROLECHECK, LFG_STATE_QUEUED]" LfgPlayerData_new LfgGroupData_new]
  by (simp add: stable_state_def)

end
