(* ===== verification/LfgRoles.thy ===== *)
theory LfgRoles
  imports LfgTypes
begin

text \<open>
  \<open>LFGMgr::CheckGroupRoles\<close>: the search for an assignment of one role to every member of a group. It
  works in place, taking roles away from members and trying again; the map is a list of entries in
  key order, a member is named by its position. The main lemma shows that the search is complete
  and leaves the map as it was when it fails.
\<close>

subsection \<open>The search\<close>

definition role_at :: "LfgRolesMap \<Rightarrow> nat \<Rightarrow> u8" where
  "role_at gs i = snd (gs ! i)"

definition set_role :: "nat \<Rightarrow> u8 \<Rightarrow> LfgRolesMap \<Rightarrow> LfgRolesMap" where
  "set_role i r gs = gs[i := (fst (gs ! i), r)]"

text \<open>
  One of the three blocks of the loop body. \<open>Inl\<close> leaves the function with its result and the map,
  \<open>Inr\<close> goes on with the map and the count.
\<close>

definition try_role ::
  "(LfgRolesMap \<Rightarrow> (bool \<times> LfgRolesMap) option) \<Rightarrow> u8 \<Rightarrow> nat \<Rightarrow> nat \<Rightarrow> LfgRolesMap \<Rightarrow> nat
     \<Rightarrow> ((bool \<times> LfgRolesMap) + (LfgRolesMap \<times> nat)) option"
where
  "try_role rec flag needed i gs count =
    (if role_at gs i AND flag = 0 then Some (Inr (gs, count))
     else if role_at gs i \<noteq> flag
     then Option.bind (rec (set_role i (role_at gs i - flag) gs))
            (\<lambda>(ok, gs). Some (if ok then Inl (True, gs) else Inr (set_role i (role_at gs i + flag) gs, count)))
     else if count = needed then Some (Inl (False, gs))
     else Some (Inr (gs, Suc count)))"

lemma try_role_mono [partial_function_mono]:
  assumes "\<And>gs. mono_option (\<lambda>f. B f gs)"
  shows "mono_option (\<lambda>f. try_role (B f) flag needed i gs count)"
  unfolding try_role_def by (intro partial_function_mono assms)

partial_function (option) check_roles_from ::
  "LfgRolesMap \<Rightarrow> nat \<Rightarrow> nat \<Rightarrow> nat \<Rightarrow> nat \<Rightarrow> (bool \<times> LfgRolesMap) option"
where
  "check_roles_from gs i damage healer tank =
    (if length gs \<le> i then Some (tank + healer + damage = length gs mod 256, gs)
     else if role_at gs i = PLAYER_ROLE_NONE then Some (False, gs)
     else Option.bind (try_role (\<lambda>gs. check_roles_from gs 0 0 0 0) PLAYER_ROLE_DAMAGE LFG_DPS_NEEDED i gs damage) (\<lambda>r.
       case r of Inl x \<Rightarrow> Some x | Inr (gs, damage) \<Rightarrow>
         Option.bind (try_role (\<lambda>gs. check_roles_from gs 0 0 0 0) PLAYER_ROLE_HEALER LFG_HEALERS_NEEDED i gs healer) (\<lambda>r.
           case r of Inl x \<Rightarrow> Some x | Inr (gs, healer) \<Rightarrow>
             Option.bind (try_role (\<lambda>gs. check_roles_from gs 0 0 0 0) PLAYER_ROLE_TANK LFG_TANKS_NEEDED i gs tank) (\<lambda>r.
               case r of Inl x \<Rightarrow> Some x | Inr (gs, tank) \<Rightarrow> check_roles_from gs (Suc i) damage healer tank))))"

definition clear_leader_flags :: "LfgRolesMap \<Rightarrow> LfgRolesMap" where
  "clear_leader_flags gs = map (\<lambda>(guid, r). (guid, r AND NOT PLAYER_ROLE_LEADER)) gs"

definition CheckGroupRoles :: "LfgRolesMap \<Rightarrow> bool \<Rightarrow> (bool \<times> LfgRolesMap) option" where
  "CheckGroupRoles gs removeLeaderFlag =
    (if gs = [] then Some (False, gs)
     else check_roles_from (if removeLeaderFlag then clear_leader_flags gs else gs) 0 0 0 0)"

subsection \<open>What it searches for\<close>

text \<open>A member can take role \<open>r\<close> if it is among his flags and these hold nothing but the three roles.\<close>

definition role_choice :: "u8 \<Rightarrow> u8 \<Rightarrow> bool" where
  "role_choice v r \<longleftrightarrow>
     (r = PLAYER_ROLE_TANK \<or> r = PLAYER_ROLE_HEALER \<or> r = PLAYER_ROLE_DAMAGE) \<and> r AND v = r \<and> v AND NOT 0x0E = 0"

definition role_count :: "u8 \<Rightarrow> LfgRolesMap \<Rightarrow> nat" where
  "role_count r as = length (filter (\<lambda>x. snd x = r) as)"

definition role_assignment :: "LfgRolesMap \<Rightarrow> LfgRolesMap \<Rightarrow> bool" where
  "role_assignment gs as \<longleftrightarrow>
     list_all2 (\<lambda>x y. fst x = fst y \<and> role_choice (snd x) (snd y)) gs as \<and>
     role_count PLAYER_ROLE_TANK as \<le> LFG_TANKS_NEEDED \<and>
     role_count PLAYER_ROLE_HEALER as \<le> LFG_HEALERS_NEEDED \<and>
     role_count PLAYER_ROLE_DAMAGE as \<le> LFG_DPS_NEEDED"

definition feasible :: "LfgRolesMap \<Rightarrow> bool" where
  "feasible gs \<longleftrightarrow> (\<exists>as. role_assignment gs as)"

definition single_role :: "u8 \<Rightarrow> bool" where
  "single_role v \<longleftrightarrow> v = PLAYER_ROLE_TANK \<or> v = PLAYER_ROLE_HEALER \<or> v = PLAYER_ROLE_DAMAGE"

definition role_flags :: "u8 set" where
  "role_flags = {PLAYER_ROLE_TANK, PLAYER_ROLE_HEALER, PLAYER_ROLE_DAMAGE}"

lemma single_role_choice: "single_role v \<Longrightarrow> role_choice v r \<longleftrightarrow> r = v"
  by (auto simp: single_role_def role_choice_def role_defs)

lemma single_role_flags: "single_role v \<longleftrightarrow> v \<in> role_flags"
  by (simp add: single_role_def role_flags_def)

lemma role_choice_flag: "role_choice v r \<Longrightarrow> r \<in> role_flags"
  by (auto simp: role_choice_def role_flags_def)

text \<open>Taking a flag away and giving it back, as the code does with \<open>-=\<close> and \<open>+=\<close>.\<close>

lemma flag_bits:
  assumes "f \<in> role_flags"
  obtains k where "f = push_bit k 1" and "k < 8"
  using assms that [of 1] that [of 2] that [of 3] by (auto simp: role_flags_def role_defs)

lemma sub_flag:
  assumes "f \<in> role_flags" and "v AND f \<noteq> 0"
  shows "v - f = v AND NOT f" and "f AND v = f"
proof -
  obtain k where f: "f = push_bit k 1" "k < 8"
    using flag_bits [OF assms(1)] by blast
  have "bit v k"
  proof (rule ccontr)
    assume "\<not> bit v k"
    then have "v AND f = 0"
      by (intro bit_word_eqI) (auto simp: f bit_and_iff bit_exp_iff)
    with assms(2) show False by simp
  qed
  then show fv: "f AND v = f"
    by (intro bit_word_eqI) (auto simp: f bit_and_iff bit_exp_iff)
  have "(v AND NOT f) + f = (v AND NOT f) OR f"
    by (rule disjunctive_add) (auto simp: bit_and_iff bit_not_iff)
  also have "\<dots> = v"
    using fv by (auto simp: bit_eq_iff bit_and_iff bit_not_iff bit_or_iff)
  finally show "v - f = v AND NOT f" by (metis add_diff_cancel_right')
qed

lemma sub_flag_less:
  assumes "f \<in> role_flags" and "v AND f \<noteq> 0"
  shows "unat (v - f) < unat v"
proof -
  have "f \<le> v" using sub_flag(2) [OF assms] by (metis word_and_le1)
  moreover have "0 < unat f" using assms(2) by (auto simp: unat_gt_0)
  ultimately show ?thesis by (simp add: unat_sub word_le_nat_alt)
qed

lemma sub_flag_choice:
  assumes f: "f \<in> role_flags" "v AND f \<noteq> 0"
  shows "role_choice (v - f) r \<longleftrightarrow> role_choice v r \<and> r \<noteq> f"
proof -
  have r: "r AND (v AND NOT f) = r \<longleftrightarrow> r AND v = r \<and> r AND f = 0"
    by (auto simp: bit_eq_iff bit_and_iff bit_not_iff)
  have "f OR 0x0E = 0x0E" using f(1) by (auto simp: role_flags_def role_defs)
  then have z: "(v AND NOT f) AND NOT 0x0E = v AND NOT 0x0E"
    by (metis and.assoc bit.de_Morgan_disj)
  have "r \<in> role_flags \<Longrightarrow> r AND f = 0 \<longleftrightarrow> r \<noteq> f"
    using f(1) by (auto simp: role_flags_def role_defs)
  then show ?thesis
    unfolding sub_flag(1) [OF f] role_choice_def r z role_flags_def by blast
qed

text \<open>A member with more than one flag can drop one and keep the role he has in an assignment.\<close>

lemma other_flag:
  assumes "role_choice v r" and "\<not> single_role v"
  obtains f where "f \<in> role_flags" and "v AND f \<noteq> 0" and "r \<noteq> f"
proof -
  have v: "r AND v = r" "v AND NOT 0x0E = 0" using assms(1) by (simp_all add: role_choice_def)
  show thesis
  proof (rule ccontr)
    assume "\<not> thesis"
    then have "\<forall>f \<in> role_flags - {r}. v AND f = 0" using that by blast
    then have "v AND f = (if f = r then r else 0)" if "f \<in> role_flags" for f
      using that v(1) by (auto simp: and.commute)
    then have *: "v AND 2 = (if r = 2 then 2 else 0)" "v AND 4 = (if r = 4 then 4 else 0)"
        "v AND 8 = (if r = 8 then 8 else 0)"
      by (auto simp: role_flags_def role_defs)
    have "v = (v AND m) OR (v AND NOT m)" for m
      by (auto simp: bit_eq_iff bit_and_iff bit_or_iff bit_not_iff)
    then have "v = (v AND 0x0E) OR (v AND NOT 0x0E)" .
    also have "v AND 0x0E = (v AND 2) OR (v AND 4) OR (v AND 8)"
      by (simp flip: bit.conj_disj_distrib)
    finally have "v = r"
      using * role_choice_flag [OF assms(1)] v(2) by (auto simp: role_flags_def role_defs)
    with assms(2) role_choice_flag [OF assms(1)] show False by (simp add: single_role_flags)
  qed
qed

subsection \<open>Dropping a flag of one member\<close>

lemma set_role_simps [simp]:
  "length (set_role i r gs) = length gs"
  "i < length gs \<Longrightarrow> role_at (set_role i r gs) i = r"
  "i < length gs \<Longrightarrow> set_role i s (set_role i r gs) = set_role i s gs"
  "i < length gs \<Longrightarrow> set_role i (role_at gs i) gs = gs"
  by (simp_all add: set_role_def role_at_def)

lemma set_role_eq_Nil [simp]: "set_role i r gs = [] \<longleftrightarrow> gs = []"
  by (simp add: set_role_def)

lemma nth_set_role:
  "i < length gs \<Longrightarrow> j < length gs \<Longrightarrow> set_role i r gs ! j = (if i = j then (fst (gs ! i), r) else gs ! j)"
  by (simp add: set_role_def nth_list_update)

lemma assignment_drop:
  assumes i: "i < length gs" and f: "f \<in> role_flags" "role_at gs i AND f \<noteq> 0"
  shows "role_assignment (set_role i (role_at gs i - f) gs) as \<longleftrightarrow> role_assignment gs as \<and> snd (as ! i) \<noteq> f"
  using i sub_flag_choice [OF f]
  by (auto simp: role_assignment_def list_all2_conv_all_nth nth_set_role role_at_def split: if_splits)

lemma feasible_split:
  assumes i: "i < length gs" and v: "\<not> single_role (role_at gs i)" and gs: "feasible gs"
  obtains f where "f \<in> role_flags" and "role_at gs i AND f \<noteq> 0"
    and "feasible (set_role i (role_at gs i - f) gs)"
proof -
  from gs obtain as where as: "role_assignment gs as" by (auto simp: feasible_def)
  then have "role_choice (role_at gs i) (snd (as ! i))"
    using i by (auto simp: role_assignment_def list_all2_conv_all_nth role_at_def)
  from other_flag [OF this v] obtain f where
    "f \<in> role_flags" "role_at gs i AND f \<noteq> 0" "snd (as ! i) \<noteq> f" by blast
  with assignment_drop [OF i this(1,2)] as that show thesis by (auto simp: feasible_def)
qed

definition role_weight :: "LfgRolesMap \<Rightarrow> nat" where
  "role_weight gs = (\<Sum>x \<leftarrow> gs. unat (snd x))"

lemma role_weight_drop:
  assumes "i < length gs" and "f \<in> role_flags" and "role_at gs i AND f \<noteq> 0"
  shows "role_weight (set_role i (role_at gs i - f) gs) < role_weight gs"
proof -
  have "gs = take i gs @ gs ! i # drop (Suc i) gs" using assms(1) by (simp add: id_take_nth_drop)
  then have "role_weight gs = role_weight (take i gs) + unat (role_at gs i) + role_weight (drop (Suc i) gs)"
    by (metis (no_types, lifting) add.assoc list.simps(9) map_append role_at_def role_weight_def sum_list.Cons sum_list_append)
  moreover have "role_weight (set_role i (role_at gs i - f) gs) =
      role_weight (take i gs) + unat (role_at gs i - f) + role_weight (drop (Suc i) gs)"
    using assms(1) by (simp add: set_role_def role_weight_def upd_conv_take_nth_drop)
  ultimately show ?thesis using sub_flag_less [OF assms(2,3)] by simp
qed

subsection \<open>The search is complete\<close>

text \<open>What a call promises for the map it is given.\<close>

definition search_ok :: "LfgRolesMap \<Rightarrow> (bool \<times> LfgRolesMap) option \<Rightarrow> bool" where
  "search_ok gs r \<longleftrightarrow> (case r of None \<Rightarrow> False
     | Some (ok, gs') \<Rightarrow> (ok \<longleftrightarrow> feasible gs) \<and> (if ok then role_assignment gs gs' else gs' = gs))"

lemma try_role_multi:
  assumes i: "i < length gs" and f: "f \<in> role_flags" and v: "role_at gs i \<noteq> f"
    and rec: "role_at gs i AND f \<noteq> 0 \<Longrightarrow>
      search_ok (set_role i (role_at gs i - f) gs) (rec (set_role i (role_at gs i - f) gs))"
  shows "(\<exists>as. try_role rec f needed i gs c = Some (Inl (True, as)) \<and> role_assignment gs as) \<or>
    try_role rec f needed i gs c = Some (Inr (gs, c)) \<and>
      (role_at gs i AND f \<noteq> 0 \<longrightarrow> \<not> feasible (set_role i (role_at gs i - f) gs))"
proof (cases "role_at gs i AND f = 0")
  case True
  then show ?thesis by (simp add: try_role_def)
next
  case False
  from rec [OF False] obtain ok gs' where
    r: "rec (set_role i (role_at gs i - f) gs) = Some (ok, gs')" and
    ok: "ok \<longleftrightarrow> feasible (set_role i (role_at gs i - f) gs)" and
    gs': "if ok then role_assignment (set_role i (role_at gs i - f) gs) gs' else gs' = set_role i (role_at gs i - f) gs"
    by (auto simp: search_ok_def split: option.splits)
  show ?thesis
  proof (cases ok)
    case True
    with False r v gs' assignment_drop [OF i f False] show ?thesis by (simp add: try_role_def)
  next
    case F: False
    with False r v gs' ok i show ?thesis by (simp add: try_role_def)
  qed
qed

lemma try_role_single:
  "f AND g = 0 \<Longrightarrow> role_at gs i = g \<Longrightarrow> try_role rec f needed i gs c = Some (Inr (gs, c))"
  by (simp add: try_role_def and.commute)

lemma try_role_own:
  "role_at gs i = f \<Longrightarrow> f \<noteq> 0 \<Longrightarrow>
     try_role rec f needed i gs c = Some (if c = needed then Inl (False, gs) else Inr (gs, Suc c))"
  by (simp add: try_role_def)

lemma role_count_take:
  "i < length gs \<Longrightarrow> role_count r (take (Suc i) gs) = role_count r (take i gs) + (if role_at gs i = r then 1 else 0)"
  by (simp add: role_count_def take_Suc_conv_app_nth role_at_def)

lemma role_count_le:
  assumes "role_assignment gs as" and f: "f \<in> role_flags"
  shows "role_count f gs \<le> role_count f as"
proof -
  have "list_all2 (\<lambda>x y. fst x = fst y \<and> role_choice (snd x) (snd y)) gs as"
    using assms(1) by (simp add: role_assignment_def)
  then show ?thesis
  proof (induction rule: list_all2_induct)
    case (Cons x xs y ys)
    have "snd x = f \<Longrightarrow> snd y = f"
      using Cons(1) f single_role_choice [of f "snd y"] by (simp add: single_role_flags)
    with Cons show ?case by (auto simp: role_count_def)
  qed (simp add: role_count_def)
qed

lemma role_count_take_le: "role_count f (take k gs) \<le> role_count f gs"
  by (metis append_take_drop_id filter_append le_add1 length_append role_count_def)

lemma feasible_bounds:
  assumes "feasible gs"
  shows "role_count PLAYER_ROLE_TANK gs \<le> LFG_TANKS_NEEDED" "role_count PLAYER_ROLE_HEALER gs \<le> LFG_HEALERS_NEEDED"
    "role_count PLAYER_ROLE_DAMAGE gs \<le> LFG_DPS_NEEDED"
proof -
  obtain as where as: "role_assignment gs as" using assms by (auto simp: feasible_def)
  have f: "PLAYER_ROLE_TANK \<in> role_flags" "PLAYER_ROLE_HEALER \<in> role_flags" "PLAYER_ROLE_DAMAGE \<in> role_flags"
    by (simp_all add: role_flags_def)
  show "role_count PLAYER_ROLE_TANK gs \<le> LFG_TANKS_NEEDED" "role_count PLAYER_ROLE_HEALER gs \<le> LFG_HEALERS_NEEDED"
    "role_count PLAYER_ROLE_DAMAGE gs \<le> LFG_DPS_NEEDED"
    using role_count_le [OF as f(1)] role_count_le [OF as f(2)] role_count_le [OF as f(3)] as
    by (auto simp: role_assignment_def)
qed

lemma infeasible_none: "i < length gs \<Longrightarrow> role_at gs i = 0 \<Longrightarrow> \<not> feasible gs"
  unfolding feasible_def role_assignment_def list_all2_conv_all_nth role_at_def role_choice_def
  by (auto simp: role_defs)

lemma role_counts_sum:
  "role_count PLAYER_ROLE_TANK gs + role_count PLAYER_ROLE_HEALER gs + role_count PLAYER_ROLE_DAMAGE gs =
     length (filter (single_role \<circ> snd) gs)"
  by (induction gs) (auto simp: role_count_def single_role_def role_defs)

lemma all_single_assignment:
  assumes "\<forall>i < length gs. single_role (role_at gs i)"
    and "role_count PLAYER_ROLE_TANK gs \<le> LFG_TANKS_NEEDED" and "role_count PLAYER_ROLE_HEALER gs \<le> LFG_HEALERS_NEEDED"
    and "role_count PLAYER_ROLE_DAMAGE gs \<le> LFG_DPS_NEEDED"
  shows "role_assignment gs gs"
  using assms by (auto simp: role_assignment_def list_all2_conv_all_nth role_at_def single_role_choice)

lemma single_filter_length:
  "length (filter (single_role \<circ> snd) gs) = length gs \<longleftrightarrow> (\<forall>i < length gs. single_role (role_at gs i))"
  by (metis (no_types, lifting) all_set_conv_all_nth comp_apply filter_id_conv length_filter_less less_irrefl role_at_def)

definition counts_upto :: "nat \<Rightarrow> LfgRolesMap \<Rightarrow> nat \<Rightarrow> nat \<Rightarrow> nat \<Rightarrow> bool" where
  "counts_upto i gs d h t \<longleftrightarrow> i \<le> length gs \<and>
     d = role_count PLAYER_ROLE_DAMAGE (take i gs) \<and> h = role_count PLAYER_ROLE_HEALER (take i gs) \<and>
     t = role_count PLAYER_ROLE_TANK (take i gs) \<and> d \<le> LFG_DPS_NEEDED \<and> h \<le> LFG_HEALERS_NEEDED \<and> t \<le> LFG_TANKS_NEEDED \<and>
     (\<forall>j < i. \<not> single_role (role_at gs j) \<longrightarrow> \<not> feasible gs)"

lemma search_end:
  assumes c: "counts_upto (length gs) gs d h t" and n: "length gs < 256"
  shows "search_ok gs (Some (t + h + d = length gs mod 256, gs))"
proof (cases "\<forall>i < length gs. single_role (role_at gs i)")
  case True
  with c have "role_assignment gs gs" by (intro all_single_assignment) (auto simp: counts_upto_def)
  moreover have "t + h + d = length gs"
    using c True role_counts_sum [of gs] single_filter_length [of gs] by (simp add: counts_upto_def)
  ultimately show ?thesis using n by (auto simp: search_ok_def feasible_def)
next
  case False
  then have "\<not> feasible gs" using c by (auto simp: counts_upto_def)
  moreover have "t + h + d \<noteq> length gs"
    using c False role_counts_sum [of gs] single_filter_length [of gs] by (simp add: counts_upto_def)
  ultimately show ?thesis using n by (simp add: search_ok_def)
qed

text \<open>The three blocks at a member with one role: he is counted, or there are too many of them.\<close>

lemma step_single:
  assumes i: "i < length gs" and v: "single_role (role_at gs i)" and c: "counts_upto i gs d h t"
    and nxt: "\<And>d h t. counts_upto (Suc i) gs d h t \<Longrightarrow> search_ok gs (check_roles_from gs (Suc i) d h t)"
  shows "search_ok gs (check_roles_from gs i d h t)"
proof -
  have le: "role_count r (take (Suc i) gs) \<le> role_count r gs" for r by (rule role_count_take_le)
  have take: "role_count r (take (Suc i) gs) = role_count r (take i gs) + (if role_at gs i = r then 1 else 0)" for r
    using i by (rule role_count_take)
  have z: "role_at gs i \<noteq> PLAYER_ROLE_NONE" using v by (auto simp: single_role_def role_defs)
  have flags: "PLAYER_ROLE_DAMAGE AND PLAYER_ROLE_HEALER = 0" "PLAYER_ROLE_DAMAGE AND PLAYER_ROLE_TANK = 0"
      "PLAYER_ROLE_HEALER AND PLAYER_ROLE_TANK = 0" "PLAYER_ROLE_HEALER AND PLAYER_ROLE_DAMAGE = 0"
      "PLAYER_ROLE_TANK AND PLAYER_ROLE_DAMAGE = 0" "PLAYER_ROLE_TANK AND PLAYER_ROLE_HEALER = 0"
      "PLAYER_ROLE_TANK \<noteq> 0" "PLAYER_ROLE_HEALER \<noteq> 0" "PLAYER_ROLE_DAMAGE \<noteq> 0"
      "PLAYER_ROLE_TANK \<noteq> PLAYER_ROLE_HEALER" "PLAYER_ROLE_TANK \<noteq> PLAYER_ROLE_DAMAGE" "PLAYER_ROLE_HEALER \<noteq> PLAYER_ROLE_DAMAGE"
    by (simp_all add: role_defs)
  have go: "search_ok gs (check_roles_from gs (Suc i) d' h' t')"
    if "d' = d + (if role_at gs i = PLAYER_ROLE_DAMAGE then 1 else 0)" "h' = h + (if role_at gs i = PLAYER_ROLE_HEALER then 1 else 0)"
      "t' = t + (if role_at gs i = PLAYER_ROLE_TANK then 1 else 0)" "d' \<le> LFG_DPS_NEEDED" "h' \<le> LFG_HEALERS_NEEDED" "t' \<le> LFG_TANKS_NEEDED"
    for d' h' t'
    using c that v i by (intro nxt) (auto simp: counts_upto_def take less_Suc_eq)
  have stop: "search_ok gs (Some (False, gs))" if "\<not> feasible gs" using that by (simp add: search_ok_def)
  from v consider "role_at gs i = PLAYER_ROLE_DAMAGE" | "role_at gs i = PLAYER_ROLE_HEALER" | "role_at gs i = PLAYER_ROLE_TANK"
    by (auto simp: single_role_def)
  then show ?thesis
  proof cases
    case 1
    have "d = LFG_DPS_NEEDED \<Longrightarrow> \<not> feasible gs"
      using feasible_bounds(3) [of gs] le [of PLAYER_ROLE_DAMAGE] take [of PLAYER_ROLE_DAMAGE] c 1 by (auto simp: counts_upto_def)
    then show ?thesis
      using i z go 1 c flags stop
      by (subst check_roles_from.simps) (auto simp: try_role_own try_role_single counts_upto_def)
  next
    case 2
    have "h = LFG_HEALERS_NEEDED \<Longrightarrow> \<not> feasible gs"
      using feasible_bounds(2) [of gs] le [of PLAYER_ROLE_HEALER] take [of PLAYER_ROLE_HEALER] c 2 by (auto simp: counts_upto_def)
    then show ?thesis
      using i z go 2 c flags stop
      by (subst check_roles_from.simps) (auto simp: try_role_own try_role_single counts_upto_def)
  next
    case 3
    have "t = LFG_TANKS_NEEDED \<Longrightarrow> \<not> feasible gs"
      using feasible_bounds(1) [of gs] le [of PLAYER_ROLE_TANK] take [of PLAYER_ROLE_TANK] c 3 by (auto simp: counts_upto_def)
    then show ?thesis
      using i z go 3 c flags stop
      by (subst check_roles_from.simps) (auto simp: try_role_own try_role_single counts_upto_def)
  qed
qed

text \<open>At a member with several flags: the blocks drop one flag each and try again.\<close>

lemma step_multi:
  assumes i: "i < length gs" and v: "\<not> single_role (role_at gs i)" "role_at gs i \<noteq> PLAYER_ROLE_NONE"
    and c: "counts_upto i gs d h t"
    and rec: "\<And>gs'. role_weight gs' < role_weight gs \<Longrightarrow> length gs' = length gs \<Longrightarrow> search_ok gs' (check_roles_from gs' 0 0 0 0)"
    and nxt: "\<And>d h t. counts_upto (Suc i) gs d h t \<Longrightarrow> search_ok gs (check_roles_from gs (Suc i) d h t)"
  shows "search_ok gs (check_roles_from gs i d h t)"
proof -
  let ?rec = "\<lambda>gs. check_roles_from gs 0 0 0 0"
  have block: "(\<exists>as. try_role ?rec f needed i gs c = Some (Inl (True, as)) \<and> role_assignment gs as) \<or>
      try_role ?rec f needed i gs c = Some (Inr (gs, c)) \<and>
        (role_at gs i AND f \<noteq> 0 \<longrightarrow> \<not> feasible (set_role i (role_at gs i - f) gs))" if "f \<in> role_flags" for f needed c
    using v(1) that role_weight_drop [OF i that]
    by (intro try_role_multi i rec) (auto simp: single_role_flags)
  have found: "search_ok gs (Some (True, as))" if "role_assignment gs as" for as
    using that by (auto simp: search_ok_def feasible_def)
  have f: "PLAYER_ROLE_TANK \<in> role_flags" "PLAYER_ROLE_HEALER \<in> role_flags" "PLAYER_ROLE_DAMAGE \<in> role_flags"
    by (simp_all add: role_flags_def)
  have last: "search_ok gs (check_roles_from gs (Suc i) d h t)"
    if "\<forall>f \<in> role_flags. role_at gs i AND f \<noteq> 0 \<longrightarrow> \<not> feasible (set_role i (role_at gs i - f) gs)"
  proof (rule nxt)
    have "\<not> feasible gs" using feasible_split [OF i v(1)] that by blast
    with v(1) have "role_count r (take (Suc i) gs) = role_count r (take i gs)" if "r \<in> role_flags" for r
      using that i by (auto simp: role_count_take single_role_flags)
    with c f i \<open>\<not> feasible gs\<close> show "counts_upto (Suc i) gs d h t" by (simp add: counts_upto_def)
  qed
  show ?thesis
    using i v(2) block [OF f(3), of LFG_DPS_NEEDED d] block [OF f(2), of LFG_HEALERS_NEEDED h]
      block [OF f(1), of LFG_TANKS_NEEDED t] found last
    by (subst check_roles_from.simps) (auto simp: role_flags_def)
qed

lemma check_roles_from_ok:
  assumes "length gs < 256" and "counts_upto i gs d h t"
  shows "search_ok gs (check_roles_from gs i d h t)"
  using assms
proof (induction "role_weight gs" arbitrary: gs i d h t rule: less_induct)
  case less
  have rec: "search_ok gs' (check_roles_from gs' 0 0 0 0)"
    if "role_weight gs' < role_weight gs" "length gs' = length gs" for gs'
    using that less.prems(1) by (intro less.hyps) (auto simp: counts_upto_def role_count_def)
  show ?case
    using less.prems(2)
  proof (induction "length gs - i" arbitrary: i d h t)
    case 0
    then have "i = length gs" by (simp add: counts_upto_def)
    with search_end 0 less.prems(1) show ?case by (subst check_roles_from.simps) simp
  next
    case (Suc n)
    then have i: "i < length gs" by simp
    have nxt: "search_ok gs (check_roles_from gs (Suc i) d h t)" if "counts_upto (Suc i) gs d h t" for d h t
      using Suc.hyps(2) that by (intro Suc.hyps(1)) auto
    show ?case
    proof (cases "role_at gs i = PLAYER_ROLE_NONE")
      case True
      then show ?thesis
        using i infeasible_none [OF i] by (subst check_roles_from.simps) (simp add: search_ok_def role_defs)
    next
      case False
      then show ?thesis
        using step_single [OF i _ Suc.prems nxt] step_multi [OF i _ False Suc.prems rec nxt] by blast
    qed
  qed
qed

lemma CheckGroupRoles_ok:
  assumes "gs \<noteq> []" and "length gs < 256"
  shows "search_ok (if b then clear_leader_flags gs else gs) (CheckGroupRoles gs b)"
  using assms check_roles_from_ok [of "if b then clear_leader_flags gs else gs" 0 0 0 0]
  by (auto simp: CheckGroupRoles_def clear_leader_flags_def counts_upto_def role_count_def)

text \<open>
  C3: CheckGroupRoles, a search that takes roles away from its argument and gives them back,
  returns for every non-empty map of less than 256 members, and answers exactly whether each
  member can be given one of his roles within one tank, one healer and three damage dealers; after
  success the map is such an assignment.
\<close>

theorem CheckGroupRoles_complete:
  assumes "gs \<noteq> []" and "length gs < 256"
  shows "(feasible (clear_leader_flags gs) \<longrightarrow>
      (\<exists>as. CheckGroupRoles gs True = Some (True, as) \<and> role_assignment (clear_leader_flags gs) as)) \<and>
    (\<not> feasible (clear_leader_flags gs) \<longrightarrow> CheckGroupRoles gs True = Some (False, clear_leader_flags gs))"
  using CheckGroupRoles_ok [OF assms, of True] by (auto simp: search_ok_def split: option.splits if_splits)

text \<open>Five players of whom only a search finds the assignment: tank or damage, healer or damage, and three who can do anything.\<close>

definition sample_roles :: LfgRolesMap where
  "sample_roles = [(1, 0x0B), (2, 0x0C), (3, 0x08), (4, 0x08), (5, 0x0E)]"

theorem CheckGroupRoles_complete_witness:
  "\<exists>as. CheckGroupRoles sample_roles True = Some (True, as) \<and> role_assignment (clear_leader_flags sample_roles) as"
proof -
  have "role_assignment (clear_leader_flags sample_roles) [(1, 0x02), (2, 0x04), (3, 0x08), (4, 0x08), (5, 0x08)]"
    by (simp add: sample_roles_def clear_leader_flags_def role_assignment_def role_choice_def role_count_def role_defs needed_defs)
  then show ?thesis
    using CheckGroupRoles_complete [of sample_roles] by (auto simp: feasible_def sample_roles_def)
qed

end
