(* ===== verification/LfgQueue.thy ===== *)
theory LfgQueue
  imports LfgRoles "HOL-Library.List_Lexorder" "HOL-Library.Char_ord"
begin

text \<open>
  \<open>LFGQueue\<close>: the queue of one team, the cache of which entries fit together, and the search for five
  players. A queue entry is a player or a premade group; the cache is keyed by the text of the
  GUIDs involved, as in the code. What the queue asks the manager (\<open>sLFGMgr\<close>) during a search does
  not change while it runs and is the record \<open>queue_env\<close>; what it gives to it, proposals, is the
  state \<open>lfg_host\<close> threaded through. Times are seconds.
\<close>

subsection \<open>Data\<close>

record LfgCompatibilityData =
  cd_compatibility :: LfgCompatibility
  cd_roles :: LfgRolesMap

definition CompatibilityData_new :: "LfgCompatibility \<Rightarrow> LfgCompatibilityData" where
  "CompatibilityData_new c = \<lparr>cd_compatibility = c, cd_roles = []\<rparr>"

record LfgQueueData =
  qd_joinTime :: int
  qd_tanks :: u8
  qd_healers :: u8
  qd_dps :: u8
  qd_dungeons :: LfgDungeonSet
  qd_roles :: LfgRolesMap
  qd_bestCompatible :: string

definition LfgQueueData_new :: "int \<Rightarrow> LfgDungeonSet \<Rightarrow> LfgRolesMap \<Rightarrow> LfgQueueData" where
  "LfgQueueData_new joinTime dungeons roles =
     \<lparr>qd_joinTime = joinTime, qd_tanks = of_nat LFG_TANKS_NEEDED, qd_healers = of_nat LFG_HEALERS_NEEDED,
      qd_dps = of_nat LFG_DPS_NEEDED, qd_dungeons = dungeons, qd_roles = roles, qd_bestCompatible = []\<rparr>"

record LfgWaitTime =
  wt_time :: u32
  wt_number :: u32

definition LfgWaitTime_new :: LfgWaitTime where
  "LfgWaitTime_new = \<lparr>wt_time = - 1, wt_number = 0\<rparr>"

record LFGQueue =
  QueueDataStore :: "(u64 \<times> LfgQueueData) list"
  CompatibleMapStore :: "(string \<times> LfgCompatibilityData) list"
  waitTimesAvgStore :: "(u32 \<times> LfgWaitTime) list"
  waitTimesTankStore :: "(u32 \<times> LfgWaitTime) list"
  waitTimesHealerStore :: "(u32 \<times> LfgWaitTime) list"
  waitTimesDpsStore :: "(u32 \<times> LfgWaitTime) list"
  currentQueueStore :: "u64 list"
  newToQueueStore :: "u64 list"

definition LFGQueue_new :: LFGQueue where
  "LFGQueue_new = \<lparr>QueueDataStore = [], CompatibleMapStore = [], waitTimesAvgStore = [], waitTimesTankStore = [],
     waitTimesHealerStore = [], waitTimesDpsStore = [], currentQueueStore = [], newToQueueStore = []\<rparr>"

datatype LfgProposalState = LFG_PROPOSAL_INITIATING | LFG_PROPOSAL_FAILED | LFG_PROPOSAL_SUCCESS

record LfgProposalPlayer =
  pp_role :: u8
  pp_accept :: LfgAnswer
  pp_group :: u64

definition LfgProposalPlayer_new :: LfgProposalPlayer where
  "LfgProposalPlayer_new = \<lparr>pp_role = 0, pp_accept = LFG_ANSWER_PENDING, pp_group = 0\<rparr>"

record LfgProposal =
  pr_id :: u32
  pr_dungeonId :: u32
  pr_state :: LfgProposalState
  pr_group :: u64
  pr_leader :: u64
  pr_cancelTime :: int
  pr_encounters :: u32
  pr_isNew :: bool
  pr_queues :: "u64 list"
  pr_showorder :: "u64 list"
  pr_players :: "(u64 \<times> LfgProposalPlayer) list"

definition LfgProposal_new :: "u32 \<Rightarrow> LfgProposal" where
  "LfgProposal_new dungeon = \<lparr>pr_id = 0, pr_dungeonId = dungeon, pr_state = LFG_PROPOSAL_INITIATING, pr_group = 0,
     pr_leader = 0, pr_cancelTime = 0, pr_encounters = 0, pr_isNew = True, pr_queues = [], pr_showorder = [], pr_players = []\<rparr>"

text \<open>The proposals of the manager, its counter, and the number of random draws made so far.\<close>

record lfg_host =
  ProposalsStore :: "(u32 \<times> LfgProposal) list"
  m_lfgProposalId :: u32
  rand_draws :: nat

text \<open>
  What the queue asks: \<open>LFGMgr::IsLfgGroup\<close>, \<open>HasIgnore\<close>, \<open>GetOldState\<close>, \<open>GetState\<close>, the clock, and
  the \<open>n\<close>-th raw random number.
\<close>

record queue_env =
  qe_IsLfgGroup :: "u64 \<Rightarrow> bool"
  qe_HasIgnore :: "u64 \<Rightarrow> u64 \<Rightarrow> bool"
  qe_GetOldState :: "u64 \<Rightarrow> LfgState"
  qe_GetState :: "u64 \<Rightarrow> LfgState"
  qe_time :: int
  qe_rand :: "nat \<Rightarrow> nat"

definition LFG_TIME_PROPOSAL :: int where "LFG_TIME_PROPOSAL = 45"

text \<open>\<open>urand(min, max)\<close> with \<open>min \<le> max\<close>: some value of the range.\<close>

definition urand :: "queue_env \<Rightarrow> nat \<Rightarrow> nat \<Rightarrow> nat \<Rightarrow> nat" where
  "urand env k lo hi = lo + qe_rand env k mod (hi - lo + 1)"

definition AllQueued :: "queue_env \<Rightarrow> u64 list \<Rightarrow> bool" where
  "AllQueued env check \<longleftrightarrow> check \<noteq> [] \<and> (\<forall>g \<in> set check. qe_GetState env g = LFG_STATE_QUEUED)"

definition AddProposal :: "LfgProposal \<Rightarrow> 'a lfg_host_scheme \<Rightarrow> 'a lfg_host_scheme" where
  "AddProposal proposal h =
    (let i = m_lfgProposalId h + 1
     in h\<lparr>m_lfgProposalId := i, ProposalsStore := om_put i (proposal\<lparr>pr_id := i\<rparr>) (ProposalsStore h)\<rparr>)"

subsection \<open>Keys of the cache\<close>

fun decimal :: "nat \<Rightarrow> string" where
  "decimal n = (if n < 10 then [char_of (48 + n)] else decimal (n div 10) @ [char_of (48 + n mod 10)])"

declare decimal.simps [simp del]

definition guid_string :: "u64 \<Rightarrow> string" where
  "guid_string g = decimal (unat g)"

fun join_guids :: "u64 list \<Rightarrow> string" where
  "join_guids [] = []"
| "join_guids [g] = guid_string g"
| "join_guids (g # gs) = guid_string g @ CHR ''|'' # join_guids gs"

definition ConcatenateGuids :: "u64 list \<Rightarrow> string" where
  "ConcatenateGuids check = join_guids (fold os_insert check [])"

text \<open>\<open>find(p) != npos\<close>\<close>

fun contains :: "string \<Rightarrow> string \<Rightarrow> bool" where
  "contains p [] \<longleftrightarrow> p = []"
| "contains p (c # cs) \<longleftrightarrow> take (length p) (c # cs) = p \<or> contains p cs"

definition SetCompatibles :: "string \<Rightarrow> LfgCompatibility \<Rightarrow> LFGQueue \<Rightarrow> LFGQueue" where
  "SetCompatibles key c q = q\<lparr>CompatibleMapStore :=
     om_put key ((om_at (CompatibilityData_new LFG_COMPATIBILITY_PENDING) (CompatibleMapStore q) key)\<lparr>cd_compatibility := c\<rparr>)
       (CompatibleMapStore q)\<rparr>"

definition SetCompatibilityData :: "string \<Rightarrow> LfgCompatibilityData \<Rightarrow> LFGQueue \<Rightarrow> LFGQueue" where
  "SetCompatibilityData key d q = q\<lparr>CompatibleMapStore := om_put key d (CompatibleMapStore q)\<rparr>"

definition GetCompatibles :: "string \<Rightarrow> LFGQueue \<Rightarrow> LfgCompatibility" where
  "GetCompatibles key q = (case map_of (CompatibleMapStore q) key of
     Some d \<Rightarrow> cd_compatibility d | None \<Rightarrow> LFG_COMPATIBILITY_PENDING)"

definition RemoveFromCompatibles :: "u64 \<Rightarrow> LFGQueue \<Rightarrow> LFGQueue" where
  "RemoveFromCompatibles guid q = q\<lparr>CompatibleMapStore :=
     filter (\<lambda>(key, d). \<not> contains (guid_string guid) key) (CompatibleMapStore q)\<rparr>"

subsection \<open>The best compatible group of an entry\<close>

text \<open>\<open>std::count(.., '|') + 1\<close>, cut to eight bits.\<close>

definition key_size :: "string \<Rightarrow> nat" where
  "key_size key = (length (filter (\<lambda>c. c = CHR ''|'') key) + 1) mod 256"

fun count_needed :: "LfgRolesMap \<Rightarrow> LfgQueueData \<Rightarrow> LfgQueueData" where
  "count_needed [] d = d"
| "count_needed ((g, role) # roles) d = count_needed roles
    (if role AND PLAYER_ROLE_TANK \<noteq> 0 then d\<lparr>qd_tanks := qd_tanks d - 1\<rparr>
     else if role AND PLAYER_ROLE_HEALER \<noteq> 0 then d\<lparr>qd_healers := qd_healers d - 1\<rparr>
     else d\<lparr>qd_dps := qd_dps d - 1\<rparr>)"

definition UpdateBestCompatible :: "string \<Rightarrow> LfgRolesMap \<Rightarrow> LfgQueueData \<Rightarrow> LfgQueueData" where
  "UpdateBestCompatible key roles d =
    (let storedSize = (if qd_bestCompatible d = [] then 0 else key_size (qd_bestCompatible d))
     in if key_size key \<le> storedSize then d
        else count_needed roles (d\<lparr>qd_bestCompatible := key, qd_tanks := of_nat LFG_TANKS_NEEDED,
               qd_healers := of_nat LFG_HEALERS_NEEDED, qd_dps := of_nat LFG_DPS_NEEDED\<rparr>))"

definition UpdateBestCompatibleInQueue :: "u64 \<Rightarrow> string \<Rightarrow> LfgRolesMap \<Rightarrow> LFGQueue \<Rightarrow> LFGQueue" where
  "UpdateBestCompatibleInQueue guid key roles q =
     q\<lparr>QueueDataStore := om_adjust guid (UpdateBestCompatible key roles) (QueueDataStore q)\<rparr>"

fun find_best :: "string \<Rightarrow> (string \<times> LfgCompatibilityData) list \<Rightarrow> LfgQueueData \<Rightarrow> LfgQueueData" where
  "find_best sguid [] d = d"
| "find_best sguid ((key, c) # cs) d = find_best sguid cs
    (if cd_compatibility c = LFG_COMPATIBLES_WITH_LESS_PLAYERS \<and> contains sguid key
     then UpdateBestCompatible key (cd_roles c) d else d)"

text \<open>On the entry \<open>(guid, d)\<close> of the queue data; it only reads the cache.\<close>

definition FindBestCompatibleInQueue :: "(string \<times> LfgCompatibilityData) list \<Rightarrow> u64 \<Rightarrow> LfgQueueData \<Rightarrow> LfgQueueData" where
  "FindBestCompatibleInQueue cache guid d = find_best (guid_string guid) cache d"

subsection \<open>Entering and leaving\<close>

definition AddToNewQueue :: "u64 \<Rightarrow> LFGQueue \<Rightarrow> LFGQueue" where
  "AddToNewQueue guid q = q\<lparr>newToQueueStore := newToQueueStore q @ [guid]\<rparr>"

definition RemoveFromNewQueue :: "u64 \<Rightarrow> LFGQueue \<Rightarrow> LFGQueue" where
  "RemoveFromNewQueue guid q = q\<lparr>newToQueueStore := filter (\<lambda>g. g \<noteq> guid) (newToQueueStore q)\<rparr>"

definition AddToCurrentQueue :: "u64 \<Rightarrow> LFGQueue \<Rightarrow> LFGQueue" where
  "AddToCurrentQueue guid q = q\<lparr>currentQueueStore := currentQueueStore q @ [guid]\<rparr>"

definition RemoveFromCurrentQueue :: "u64 \<Rightarrow> LFGQueue \<Rightarrow> LFGQueue" where
  "RemoveFromCurrentQueue guid q = q\<lparr>currentQueueStore := filter (\<lambda>g. g \<noteq> guid) (currentQueueStore q)\<rparr>"

definition AddToQueue :: "u64 \<Rightarrow> LFGQueue \<Rightarrow> LFGQueue" where
  "AddToQueue guid q = (if map_of (QueueDataStore q) guid = None then q else AddToNewQueue guid q)"

definition AddQueueData :: "u64 \<Rightarrow> int \<Rightarrow> LfgDungeonSet \<Rightarrow> LfgRolesMap \<Rightarrow> LFGQueue \<Rightarrow> LFGQueue" where
  "AddQueueData guid joinTime dungeons roles q =
     AddToQueue guid (q\<lparr>QueueDataStore := om_put guid (LfgQueueData_new joinTime dungeons roles) (QueueDataStore q)\<rparr>)"

definition RemoveQueueData :: "u64 \<Rightarrow> LFGQueue \<Rightarrow> LFGQueue" where
  "RemoveQueueData guid q = q\<lparr>QueueDataStore := om_erase guid (QueueDataStore q)\<rparr>"

definition RemoveFromQueue :: "u64 \<Rightarrow> LFGQueue \<Rightarrow> LFGQueue" where
  "RemoveFromQueue guid q =
    (let q = RemoveFromCompatibles guid (RemoveFromCurrentQueue guid (RemoveFromNewQueue guid q));
         rematch = (\<lambda>(g, d). (g,
           if g \<noteq> guid \<and> contains (guid_string guid) (qd_bestCompatible d)
           then FindBestCompatibleInQueue (CompatibleMapStore q) g (d\<lparr>qd_bestCompatible := []\<rparr>) else d))
     in q\<lparr>QueueDataStore := om_erase guid (map rematch (QueueDataStore q))\<rparr>)"

definition GetJoinTime :: "u64 \<Rightarrow> LFGQueue \<Rightarrow> int" where
  "GetJoinTime guid q = (case map_of (QueueDataStore q) guid of Some d \<Rightarrow> qd_joinTime d | None \<Rightarrow> 0)"

subsection \<open>Wait times\<close>

text \<open>The average is computed in unsigned 32-bit arithmetic and cast back to a signed number.\<close>

definition UpdateWaitTime :: "u32 \<Rightarrow> LfgWaitTime \<Rightarrow> LfgWaitTime" where
  "UpdateWaitTime waitTime wt =
    (let old_number = wt_number wt; n = old_number + 1
     in wt\<lparr>wt_number := n, wt_time := (wt_time wt * old_number + waitTime) div n\<rparr>)"

definition UpdateWaitTimeAvg :: "u32 \<Rightarrow> u32 \<Rightarrow> LFGQueue \<Rightarrow> LFGQueue" where
  "UpdateWaitTimeAvg waitTime dungeonId q = q\<lparr>waitTimesAvgStore :=
     om_put dungeonId (UpdateWaitTime waitTime (om_at LfgWaitTime_new (waitTimesAvgStore q) dungeonId)) (waitTimesAvgStore q)\<rparr>"

definition UpdateWaitTimeTank :: "u32 \<Rightarrow> u32 \<Rightarrow> LFGQueue \<Rightarrow> LFGQueue" where
  "UpdateWaitTimeTank waitTime dungeonId q = q\<lparr>waitTimesTankStore :=
     om_put dungeonId (UpdateWaitTime waitTime (om_at LfgWaitTime_new (waitTimesTankStore q) dungeonId)) (waitTimesTankStore q)\<rparr>"

definition UpdateWaitTimeHealer :: "u32 \<Rightarrow> u32 \<Rightarrow> LFGQueue \<Rightarrow> LFGQueue" where
  "UpdateWaitTimeHealer waitTime dungeonId q = q\<lparr>waitTimesHealerStore :=
     om_put dungeonId (UpdateWaitTime waitTime (om_at LfgWaitTime_new (waitTimesHealerStore q) dungeonId)) (waitTimesHealerStore q)\<rparr>"

definition UpdateWaitTimeDps :: "u32 \<Rightarrow> u32 \<Rightarrow> LFGQueue \<Rightarrow> LFGQueue" where
  "UpdateWaitTimeDps waitTime dungeonId q = q\<lparr>waitTimesDpsStore :=
     om_put dungeonId (UpdateWaitTime waitTime (om_at LfgWaitTime_new (waitTimesDpsStore q) dungeonId)) (waitTimesDpsStore q)\<rparr>"

subsection \<open>Leaving the queue\<close>

lemma contains_iff: "contains p xs \<longleftrightarrow> (\<exists>a b. xs = a @ p @ b)"
proof (induction xs)
  case (Cons c cs)
  have "take (length p) (c # cs) = p \<longleftrightarrow> (\<exists>b. c # cs = p @ b)"
    by (metis append_eq_conv_conj append_take_drop_id)
  with Cons show ?case
    by (auto simp: Cons_eq_append_conv)
qed auto

lemma guid_string_not_Nil [simp]: "guid_string g \<noteq> []"
  by (simp add: guid_string_def decimal.simps)

lemma contains_Nil [simp]: "\<not> contains (guid_string g) []"
  by simp

lemma contains_join: "g \<in> set gs \<Longrightarrow> contains (guid_string g) (join_guids gs)"
proof (induction gs rule: join_guids.induct)
  case (2 g')
  then show ?case by (auto simp: contains_iff intro: exI [of _ "[]"])
next
  case (3 g' g'' gs)
  then show ?case
    by (auto simp: contains_iff intro: exI [of _ "[]"]) (metis append_Cons append_assoc)+
qed simp

lemma set_fold_insert [simp]: "set (fold os_insert xs s) = set xs \<union> set s"
  by (induction xs arbitrary: s) auto

lemma contains_key: "g \<in> set check \<Longrightarrow> contains (guid_string g) (ConcatenateGuids check)"
  by (simp add: ConcatenateGuids_def contains_join)

lemma count_needed_frame [simp]:
  "qd_bestCompatible (count_needed rs d) = qd_bestCompatible d" "qd_roles (count_needed rs d) = qd_roles d"
  "qd_dungeons (count_needed rs d) = qd_dungeons d" "qd_joinTime (count_needed rs d) = qd_joinTime d"
  by (induction rs d rule: count_needed.induct) simp_all

lemma UpdateBestCompatible_frame [simp]:
  "qd_roles (UpdateBestCompatible key rs d) = qd_roles d" "qd_dungeons (UpdateBestCompatible key rs d) = qd_dungeons d"
  "qd_joinTime (UpdateBestCompatible key rs d) = qd_joinTime d"
  by (simp_all add: UpdateBestCompatible_def Let_def)

lemma UpdateBestCompatible_best:
  "qd_bestCompatible (UpdateBestCompatible key rs d) = key \<or> UpdateBestCompatible key rs d = d"
  by (simp add: UpdateBestCompatible_def Let_def)

lemma find_best_frame [simp]:
  "qd_roles (find_best s cs d) = qd_roles d" "qd_dungeons (find_best s cs d) = qd_dungeons d"
  "qd_joinTime (find_best s cs d) = qd_joinTime d"
  by (induction s cs d rule: find_best.induct) simp_all

lemma find_best_from_cache:
  "qd_bestCompatible (find_best s cs d) \<in> insert (qd_bestCompatible d) (fst ` set cs)"
proof (induction s cs d rule: find_best.induct)
  case (2 s key c cs d)
  let ?d = "if cd_compatibility c = LFG_COMPATIBLES_WITH_LESS_PLAYERS \<and> contains s key
    then UpdateBestCompatible key (cd_roles c) d else d"
  have "qd_bestCompatible ?d \<in> {key, qd_bestCompatible d}"
    using UpdateBestCompatible_best [of key "cd_roles c" d] by auto
  moreover have "qd_bestCompatible (find_best s cs ?d) \<in> insert (qd_bestCompatible ?d) (fst ` set cs)"
    by (rule 2)
  moreover have "a \<in> insert b S \<Longrightarrow> b \<in> {k, l} \<Longrightarrow> a \<in> insert l (insert k S)" for a b k l :: string and S
    by auto
  ultimately show ?case by (simp only: find_best.simps list.set image_insert fst_conv)
qed simp

lemma map_of_map_values: "map_of (map (\<lambda>(k, v). (k, f k v)) m) k = map_option (f k) (map_of m k)"
  by (induction m) auto

lemma set_om_erase: "set (om_erase k m) = {x \<in> set m. fst x \<noteq> k}"
  by (auto simp: om_erase_def)

text \<open>
  After RemoveFromQueue the entry is in no list and has no data, no cached result and no best
  match mentions it, and the dungeons, roles and join times of the others are untouched.
\<close>

theorem leaving_forgets:
  fixes g q
  defines "q' \<equiv> RemoveFromQueue g q"
  shows "g \<notin> set (newToQueueStore q') \<and> g \<notin> set (currentQueueStore q') \<and> map_of (QueueDataStore q') g = None \<and>
    (\<forall>check. g \<in> set check \<longrightarrow> GetCompatibles (ConcatenateGuids check) q' = LFG_COMPATIBILITY_PENDING) \<and>
    (\<forall>(h, d) \<in> set (QueueDataStore q'). \<not> contains (guid_string g) (qd_bestCompatible d)) \<and>
    (\<forall>h. h \<noteq> g \<longrightarrow> map_option (\<lambda>d. (qd_joinTime d, qd_dungeons d, qd_roles d)) (map_of (QueueDataStore q') h) =
       map_option (\<lambda>d. (qd_joinTime d, qd_dungeons d, qd_roles d)) (map_of (QueueDataStore q) h))"
proof (intro conjI allI impI)
  let ?cache = "filter (\<lambda>(key, d). \<not> contains (guid_string g) key) (CompatibleMapStore q)"
  let ?f = "\<lambda>h d. if h \<noteq> g \<and> contains (guid_string g) (qd_bestCompatible d)
     then find_best (guid_string h) ?cache (d\<lparr>qd_bestCompatible := []\<rparr>) else d"
  note d = q'_def RemoveFromQueue_def Let_def RemoveFromCompatibles_def RemoveFromCurrentQueue_def
    RemoveFromNewQueue_def FindBestCompatibleInQueue_def
  have cache: "CompatibleMapStore q' = ?cache" by (simp add: d)
  have data: "QueueDataStore q' = om_erase g (map (\<lambda>(h, d). (h, ?f h d)) (QueueDataStore q))"
    by (simp add: d cong: if_cong)
  show "g \<notin> set (newToQueueStore q')" "g \<notin> set (currentQueueStore q')" by (simp_all add: d)
  show "map_of (QueueDataStore q') g = None" by (simp add: data)
  show "GetCompatibles (ConcatenateGuids check) q' = LFG_COMPATIBILITY_PENDING" if "g \<in> set check" for check
  proof -
    have "map_of ?cache (ConcatenateGuids check) = None"
      using contains_key [OF that] by (auto simp: map_of_eq_None_iff)
    then show ?thesis by (simp add: GetCompatibles_def cache)
  qed
  have "\<not> contains (guid_string g) (qd_bestCompatible (?f h d))" if "h \<noteq> g" for h d
    using find_best_from_cache [of "guid_string h" ?cache "d\<lparr>qd_bestCompatible := []\<rparr>"] that by auto
  then show "\<forall>(h, d) \<in> set (QueueDataStore q'). \<not> contains (guid_string g) (qd_bestCompatible d)"
    by (auto simp: data set_om_erase)
  show "map_option (\<lambda>d. (qd_joinTime d, qd_dungeons d, qd_roles d)) (map_of (QueueDataStore q') h) =
       map_option (\<lambda>d. (qd_joinTime d, qd_dungeons d, qd_roles d)) (map_of (QueueDataStore q) h)" if "h \<noteq> g" for h
    using that by (cases "map_of (QueueDataStore q) h") (simp_all add: data map_of_map_values)
qed

text \<open>A premade group of the player 112 is waiting; the player 12 leaves, and its cached result goes with him.\<close>

definition overlap_queue :: LFGQueue where
  "overlap_queue = SetCompatibilityData (ConcatenateGuids [112]) (CompatibilityData_new LFG_COMPATIBLES_WITH_LESS_PLAYERS)
     (AddQueueData 12 0 [1] [(12, 8)] (AddQueueData 112 0 [1] [(112, 8)] LFGQueue_new))"

theorem leaving_forgets_witness:
  "12 \<notin> set (newToQueueStore (RemoveFromQueue 12 overlap_queue))"
  using leaving_forgets [of 12 overlap_queue] by blast

text \<open>
  RemoveFromCompatibles looks for the GUID as a substring: the player 12 leaving the queue
  deletes the cached result of the player 112.
\<close>

theorem removal_matches_substrings:
  "GetCompatibles (ConcatenateGuids [112]) overlap_queue = LFG_COMPATIBLES_WITH_LESS_PLAYERS \<and>
   GetCompatibles (ConcatenateGuids [112]) (RemoveFromQueue 12 overlap_queue) = LFG_COMPATIBILITY_PENDING \<and>
   newToQueueStore (RemoveFromQueue 12 overlap_queue) = [112]"
  by code_simp

subsection \<open>What an entry still needs\<close>

lemma count_needed_assigned:
  assumes "\<forall>x \<in> set rs. snd x \<in> role_flags"
  shows "qd_tanks (count_needed rs d) = qd_tanks d - of_nat (role_count PLAYER_ROLE_TANK rs)"
    and "qd_healers (count_needed rs d) = qd_healers d - of_nat (role_count PLAYER_ROLE_HEALER rs)"
    and "qd_dps (count_needed rs d) = qd_dps d - of_nat (role_count PLAYER_ROLE_DAMAGE rs)"
  using assms
  by (induction rs d rule: count_needed.induct) (auto simp: role_count_def role_flags_def role_defs)

lemma assignment_flags: "role_assignment gs rs \<Longrightarrow> \<forall>x \<in> set rs. snd x \<in> role_flags"
  by (simp add: role_assignment_def list_all2_conv_all_nth all_set_conv_all_nth) (metis role_choice_flag)

text \<open>
  When a larger combination is found for an entry, the tanks, healers and damage dealers
  shown as needed are those that its role assignment leaves open.
\<close>

theorem needed_roles_shown:
  assumes "role_assignment gs rs" and "key_size (qd_bestCompatible d) < key_size key"
  defines "d' \<equiv> UpdateBestCompatible key rs d"
  shows "qd_bestCompatible d' = key \<and>
    unat (qd_tanks d') + role_count PLAYER_ROLE_TANK rs = LFG_TANKS_NEEDED \<and>
    unat (qd_healers d') + role_count PLAYER_ROLE_HEALER rs = LFG_HEALERS_NEEDED \<and>
    unat (qd_dps d') + role_count PLAYER_ROLE_DAMAGE rs = LFG_DPS_NEEDED"
proof -
  have diff: "unat (of_nat a - of_nat b :: u8) + b = a" if "b \<le> a" "a < 256" for a b
    using that by (simp add: unat_of_nat flip: of_nat_diff)
  have small: "LFG_TANKS_NEEDED < 256" "LFG_HEALERS_NEEDED < 256" "LFG_DPS_NEEDED < 256"
    by (simp_all add: needed_defs)
  have "\<not> key_size key \<le> (if qd_bestCompatible d = [] then 0 else key_size (qd_bestCompatible d))"
    using assms(2) by auto
  then have d': "d' = count_needed rs (d\<lparr>qd_bestCompatible := key, qd_tanks := of_nat LFG_TANKS_NEEDED,
      qd_healers := of_nat LFG_HEALERS_NEEDED, qd_dps := of_nat LFG_DPS_NEEDED\<rparr>)"
    by (simp add: d'_def UpdateBestCompatible_def)
  show ?thesis
    using assms(1) count_needed_assigned [OF assignment_flags [OF assms(1)]] small
    by (simp add: d' diff role_assignment_def)
qed

theorem needed_roles_shown_witness:
  "unat (qd_dps (UpdateBestCompatible (ConcatenateGuids [1, 2]) [(1, PLAYER_ROLE_TANK), (2, PLAYER_ROLE_DAMAGE)]
     (LfgQueueData_new 0 [] []))) = 2"
proof -
  have "role_assignment [(1, 0x06), (2, 0x08)] [(1, PLAYER_ROLE_TANK), (2, PLAYER_ROLE_DAMAGE)]"
    by (simp add: role_assignment_def role_choice_def role_count_def role_defs needed_defs)
  moreover have "key_size (qd_bestCompatible (LfgQueueData_new 0 [] [])) < key_size (ConcatenateGuids [1, 2])"
    by code_simp
  ultimately show ?thesis
    using needed_roles_shown [of "[(1, 0x06), (2, 0x08)]" "[(1, PLAYER_ROLE_TANK), (2, PLAYER_ROLE_DAMAGE)]"
      "LfgQueueData_new 0 [] []" "ConcatenateGuids [1, 2]"]
    by (simp add: role_count_def role_defs needed_defs)
qed

subsection \<open>Average wait times\<close>

lemma UpdateWaitTime_unat:
  assumes "unat (wt_number wt) = n" and "Suc n < 2 ^ 32" and "unat (wt_time wt) * n + unat w < 2 ^ 32"
  shows "unat (wt_number (UpdateWaitTime w wt)) = Suc n"
    and "unat (wt_time (UpdateWaitTime w wt)) = (unat (wt_time wt) * n + unat w) div Suc n"
proof -
  have "unat (wt_number wt + 1) = (n + 1) mod 2 ^ 32"
    by (simp add: unat_word_ariths assms(1))
  with assms(2) have N: "unat (wt_number wt + 1) = Suc n" by simp
  have "unat (wt_time wt * wt_number wt + w) = (unat (wt_time wt) * n + unat w) mod 2 ^ 32"
    by (simp add: unat_word_ariths assms(1) mod_simps)
  with assms(3) have S: "unat (wt_time wt * wt_number wt + w) = unat (wt_time wt) * n + unat w" by simp
  from N show "unat (wt_number (UpdateWaitTime w wt)) = Suc n"
    by (simp add: UpdateWaitTime_def Let_def)
  show "unat (wt_time (UpdateWaitTime w wt)) = (unat (wt_time wt) * n + unat w) div Suc n"
    by (simp add: UpdateWaitTime_def Let_def unat_div N S)
qed

lemma average_between:
  fixes t w n lo hi :: nat
  assumes "n \<noteq> 0 \<longrightarrow> lo \<le> t \<and> t \<le> hi" and "lo \<le> w" and "w \<le> hi"
  shows "lo \<le> (t * n + w) div Suc n" and "(t * n + w) div Suc n \<le> hi" and "t * n + w \<le> hi * Suc n"
proof -
  have "lo * n \<le> t * n \<and> t * n \<le> hi * n" using assms(1) by (cases "n = 0") simp_all
  with assms(2,3) have "lo * Suc n \<le> t * n + w" and up: "t * n + w \<le> hi * Suc n"
    unfolding mult_Suc_right by linarith+
  then show "lo \<le> (t * n + w) div Suc n" by (simp only: less_eq_div_iff_mult_less_eq zero_less_Suc)
  show "t * n + w \<le> hi * Suc n" by (rule up)
  show "(t * n + w) div Suc n \<le> hi"
    using div_le_mono [OF up, of "Suc n"] nonzero_mult_div_cancel_right [OF Suc_not_Zero, of hi n] by linarith
qed

text \<open>
  UpdateWaitTime, with its mixed signed and unsigned arithmetic, keeps the average wait time
  between the smallest and the largest wait time seen as long as the products stay below 2^32.
\<close>

theorem wait_time_bounded:
  assumes "ws \<noteq> []" and "\<forall>w \<in> set ws. lo \<le> unat w \<and> unat w \<le> hi" and "hi * length ws < 2 ^ 32"
    and "length ws < 2 ^ 32"
  shows "unat (wt_number (fold UpdateWaitTime ws LfgWaitTime_new)) = length ws \<and>
    lo \<le> unat (wt_time (fold UpdateWaitTime ws LfgWaitTime_new)) \<and>
    unat (wt_time (fold UpdateWaitTime ws LfgWaitTime_new)) \<le> hi"
  using assms
proof (induction ws rule: rev_induct)
  case (snoc w ws)
  let ?wt = "fold UpdateWaitTime ws LfgWaitTime_new"
  have w: "lo \<le> unat w" "unat w \<le> hi" using snoc.prems(2) by simp_all
  have n: "hi * Suc (length ws) < 2 ^ 32" "Suc (length ws) < 2 ^ 32" using snoc.prems(3,4) by simp_all
  have "unat (wt_number ?wt) = length ws \<and>
      (length ws \<noteq> 0 \<longrightarrow> lo \<le> unat (wt_time ?wt) \<and> unat (wt_time ?wt) \<le> hi)"
  proof (cases "ws = []")
    case False
    have "hi * length ws < 2 ^ 32" "length ws < 2 ^ 32" using n by simp_all
    with False snoc.IH snoc.prems(2) show ?thesis by simp
  qed (simp add: LfgWaitTime_new_def)
  then have IH: "unat (wt_number ?wt) = length ws"
    and t: "length ws \<noteq> 0 \<longrightarrow> lo \<le> unat (wt_time ?wt) \<and> unat (wt_time ?wt) \<le> hi" by blast+
  note b = average_between [OF t w]
  from UpdateWaitTime_unat [OF IH n(2) le_less_trans [OF b(3) n(1)]] b(1,2) show ?case by simp
qed simp

theorem wait_time_bounded_witness:
  "unat (wt_time (fold UpdateWaitTime [60, 120, 90] LfgWaitTime_new)) \<in> {60..120}"
  using wait_time_bounded [of "[60, 120, 90]" 60 120] by simp

end
