(* ===== verification/LfgSearch.thy ===== *)
theory LfgSearch
  imports LfgQueue
begin

text \<open>
  The search of \<open>LFGQueue\<close> for groups of five: \<open>CheckCompatibility\<close> decides about a list of queue
  entries and makes a proposal of a match, \<open>FindNewGroups\<close> extends a list by the other entries of
  the queue, \<open>FindGroups\<close> does so for every new entry. The state is the queue and the host that
  receives the proposals.
\<close>

subsection \<open>Checking a list of entries\<close>

type_synonym 'a search_state = "LFGQueue \<times> 'a lfg_host_scheme"

text \<open>The role search of \<open>LFGMgr\<close>, which returns for every map of less than 256 members.\<close>

definition group_roles :: "LfgRolesMap \<Rightarrow> bool \<times> LfgRolesMap" where
  "group_roles gs = (case CheckGroupRoles gs True of Some r \<Rightarrow> r | None \<Rightarrow> (False, gs))"

text \<open>The loop over the entries that counts players and dungeon finder groups; \<open>Inl\<close>: not queued.\<close>

record scan =
  sc_groups :: "(u64 \<times> u64) list"
  sc_players :: nat
  sc_lfg :: nat
  sc_group :: u64

fun store_group :: "u64 \<Rightarrow> LfgRolesMap \<Rightarrow> (u64 \<times> u64) list \<Rightarrow> (u64 \<times> u64) list" where
  "store_group g [] m = m"
| "store_group g ((p, r) # roles) m = store_group g roles (om_put p (if IS_GROUP_GUID g then g else 0) m)"

fun scan_entries :: "queue_env \<Rightarrow> LFGQueue \<Rightarrow> u64 list \<Rightarrow> scan \<Rightarrow> u64 + scan" where
  "scan_entries env q [] s = Inr s"
| "scan_entries env q (guid # check) s =
    (if sc_lfg s < 2 \<and> sc_players s \<le> MAXGROUPSIZE
     then (case map_of (QueueDataStore q) guid of
         None \<Rightarrow> Inl guid
       | Some d \<Rightarrow>
           let s = s\<lparr>sc_groups := store_group guid (qd_roles d) (sc_groups s),
                     sc_players := (sc_players s + length (qd_roles d)) mod 256\<rparr>;
               s = (if qe_IsLfgGroup env guid
                    then s\<lparr>sc_group := (if sc_lfg s = 0 then guid else sc_group s), sc_lfg := sc_lfg s + 1\<rparr>
                    else s)
           in scan_entries env q check s)
     else Inr s)"

text \<open>The players of all entries, without those whom an earlier one ignores or who ignore him.\<close>

fun ignored_by :: "queue_env \<Rightarrow> u64 \<Rightarrow> LfgRolesMap \<Rightarrow> bool" where
  "ignored_by env p [] \<longleftrightarrow> False"
| "ignored_by env p ((p', r) # roles) \<longleftrightarrow>
     (if p = p' then ignored_by env p roles else if qe_HasIgnore env p p' then True else ignored_by env p roles)"

fun collect_roles :: "queue_env \<Rightarrow> LfgRolesMap \<Rightarrow> LfgRolesMap \<Rightarrow> LfgRolesMap" where
  "collect_roles env [] acc = acc"
| "collect_roles env ((p, r) # roles) acc =
     collect_roles env roles (if ignored_by env p acc then acc else om_put p r acc)"

definition entry :: "LFGQueue \<Rightarrow> u64 \<Rightarrow> LfgQueueData" where
  "entry q guid = om_at (LfgQueueData_new 0 [] []) (QueueDataStore q) guid"

fun collect_entries :: "queue_env \<Rightarrow> LFGQueue \<Rightarrow> u64 list \<Rightarrow> LfgRolesMap \<Rightarrow> LfgRolesMap" where
  "collect_entries env q [] acc = acc"
| "collect_entries env q (guid # check) acc =
     collect_entries env q check (collect_roles env (qd_roles (entry q guid)) acc)"

fun common_dungeons :: "LFGQueue \<Rightarrow> u64 list \<Rightarrow> LfgDungeonSet \<Rightarrow> LfgDungeonSet" where
  "common_dungeons q [] ds = ds"
| "common_dungeons q (guid # check) ds = common_dungeons q check (os_inter ds (qd_dungeons (entry q guid)))"

text \<open>
  The role and dungeon checks, skipped for a single entry. \<open>uint8(numPlayers - size)\<close> counts the
  players that were left out.
\<close>

definition check_members ::
  "queue_env \<Rightarrow> LFGQueue \<Rightarrow> u64 list \<Rightarrow> nat \<Rightarrow> LfgCompatibility + (LfgRolesMap \<times> LfgDungeonSet)"
where
  "check_members env q check numPlayers =
    (if length check > 1
     then let roles = collect_entries env q check []
          in if (of_nat numPlayers - of_nat (length roles) :: u8) \<noteq> 0 then Inl LFG_INCOMPATIBLES_HAS_IGNORES
             else (case group_roles roles of (ok, roles) \<Rightarrow>
               if \<not> ok then Inl LFG_INCOMPATIBLES_NO_ROLES
               else let ds = common_dungeons q (tl check) (qd_dungeons (entry q (hd check)))
                    in if ds = [] then Inl LFG_INCOMPATIBLES_NO_DUNGEONS else Inr (roles, ds))
     else Inr (snd (group_roles (qd_roles (entry q (hd check)))), qd_dungeons (entry q (hd check))))"

text \<open>The leader: one of those who asked for it, else anyone; ties by chance.\<close>

fun choose_leader :: "queue_env \<Rightarrow> LfgRolesMap \<Rightarrow> bool \<Rightarrow> u64 \<Rightarrow> nat \<Rightarrow> u64 \<times> nat" where
  "choose_leader env [] leader l k = (l, k)"
| "choose_leader env ((p, r) # roles) leader l k =
    (if r AND PLAYER_ROLE_LEADER \<noteq> 0
     then if \<not> leader \<or> l = 0 then choose_leader env roles True p k
          else choose_leader env roles True (if urand env k 0 1 \<noteq> 0 then p else l) (Suc k)
     else if leader then choose_leader env roles leader l k
     else if l = 0 then choose_leader env roles leader p k
     else choose_leader env roles leader (if urand env k 0 1 \<noteq> 0 then p else l) (Suc k))"

definition proposal_player :: "bool \<Rightarrow> u64 \<Rightarrow> (u64 \<times> u64) list \<Rightarrow> u64 \<Rightarrow> u8 \<Rightarrow> LfgProposalPlayer" where
  "proposal_player isNew gr groups p r =
    (let g = om_at 0 groups p
     in \<lparr>pp_role = r,
         pp_accept = (if \<not> isNew \<and> g \<noteq> 0 \<and> g = gr then LFG_ANSWER_AGREE else LFG_ANSWER_PENDING),
         pp_group = g\<rparr>)"

definition make_proposal ::
  "queue_env \<Rightarrow> u64 list \<Rightarrow> scan \<Rightarrow> LfgRolesMap \<Rightarrow> LfgDungeonSet \<Rightarrow> nat \<Rightarrow> LfgProposal \<times> nat"
where
  "make_proposal env check sc roles dungeons k =
    (let isNew = (sc_lfg sc \<noteq> 1 \<or> qe_GetOldState env (hd check) \<noteq> LFG_STATE_DUNGEON);
         dungeon = dungeons ! urand env k 0 (length dungeons - 1)
     in case choose_leader env roles False 0 (Suc k) of (l, k) \<Rightarrow>
       ((LfgProposal_new 0)\<lparr>pr_dungeonId := dungeon, pr_group := sc_group sc, pr_leader := l,
          pr_cancelTime := qe_time env + LFG_TIME_PROPOSAL, pr_isNew := isNew, pr_queues := check,
          pr_players := map (\<lambda>(p, r). (p, proposal_player isNew (sc_group sc) (sc_groups sc) p r)) roles\<rparr>, k))"

definition dequeue :: "u64 \<Rightarrow> LFGQueue \<Rightarrow> LFGQueue" where
  "dequeue guid q = RemoveFromCurrentQueue guid (RemoveFromNewQueue guid q)"

text \<open>From the count of players on.\<close>

definition check_scanned ::
  "queue_env \<Rightarrow> u64 list \<Rightarrow> scan \<Rightarrow> 'a search_state \<Rightarrow> LfgCompatibility \<times> 'a search_state"
where
  "check_scanned env check sc s = (case s of (q, h) \<Rightarrow>
    let key = ConcatenateGuids check; n = sc_players sc
    in if length check = 1 \<and> n \<noteq> MAXGROUPSIZE
       then let d = (CompatibilityData_new LFG_COMPATIBLES_WITH_LESS_PLAYERS)
                  \<lparr>cd_roles := snd (group_roles (qd_roles (entry q (hd check))))\<rparr>
            in (LFG_COMPATIBLES_WITH_LESS_PLAYERS,
                SetCompatibilityData key d (UpdateBestCompatibleInQueue (hd check) key (cd_roles d) q), h)
       else if sc_lfg sc > 1
       then (LFG_INCOMPATIBLES_MULTIPLE_LFG_GROUPS, SetCompatibles key LFG_INCOMPATIBLES_MULTIPLE_LFG_GROUPS q, h)
       else if n > MAXGROUPSIZE
       then (LFG_INCOMPATIBLES_TOO_MUCH_PLAYERS, SetCompatibles key LFG_INCOMPATIBLES_TOO_MUCH_PLAYERS q, h)
       else (case check_members env q check n of
           Inl c \<Rightarrow> (c, SetCompatibles key c q, h)
         | Inr (roles, dungeons) \<Rightarrow>
             if n \<noteq> MAXGROUPSIZE
             then let d = (CompatibilityData_new LFG_COMPATIBLES_WITH_LESS_PLAYERS)\<lparr>cd_roles := roles\<rparr>
                  in (LFG_COMPATIBLES_WITH_LESS_PLAYERS,
                      SetCompatibilityData key d (fold (\<lambda>g. UpdateBestCompatibleInQueue g key roles) check q), h)
             else if \<not> AllQueued env check
             then (LFG_COMPATIBLES_BAD_STATES, SetCompatibles key LFG_COMPATIBLES_BAD_STATES q, h)
             else (case make_proposal env check sc roles dungeons (rand_draws h) of (p, k) \<Rightarrow>
               (LFG_COMPATIBLES_MATCH,
                SetCompatibles key LFG_COMPATIBLES_MATCH (fold dequeue check q),
                AddProposal p (h\<lparr>rand_draws := k\<rparr>)))))"

fun CheckCompatibility ::
  "queue_env \<Rightarrow> u64 list \<Rightarrow> 'a search_state \<Rightarrow> LfgCompatibility \<times> 'a search_state"
where
  "CheckCompatibility env [] s = (LFG_INCOMPATIBLES_WRONG_GROUP_SIZE, s)"
| "CheckCompatibility env (front # rest) s =
    (if length (front # rest) > MAXGROUPSIZE then (LFG_INCOMPATIBLES_WRONG_GROUP_SIZE, s)
     else case (if length (front # rest) > 2 then CheckCompatibility env rest s
                else (LFG_COMPATIBLES_MATCH, s)) of (child, q, h) \<Rightarrow>
       if child < LFG_COMPATIBLES_WITH_LESS_PLAYERS
       then (child, SetCompatibles (ConcatenateGuids (front # rest)) child q, h)
       else (case scan_entries env q (front # rest) \<lparr>sc_groups = [], sc_players = 0, sc_lfg = 0, sc_group = 0\<rparr> of
           Inl guid \<Rightarrow> (LFG_COMPATIBILITY_PENDING, RemoveFromQueue guid q, h)
         | Inr sc \<Rightarrow> check_scanned env (front # rest) sc (q, h)))"

subsection \<open>Extending a list of entries\<close>

definition cached_compatibility ::
  "queue_env \<Rightarrow> u64 list \<Rightarrow> 'a search_state \<Rightarrow> LfgCompatibility \<times> 'a search_state"
where
  "cached_compatibility env check s =
    (let key = ConcatenateGuids check; c = GetCompatibles key (fst s)
     in case (if c = LFG_COMPATIBILITY_PENDING then CheckCompatibility env check s else (c, s)) of (c, q, h) \<Rightarrow>
       if c = LFG_COMPATIBLES_BAD_STATES \<and> AllQueued env check
       then (LFG_COMPATIBLES_MATCH, SetCompatibles key LFG_COMPATIBLES_MATCH q, h)
       else (c, q, h))"

text \<open>
  The \<open>while\<close> loop of \<open>FindNewGroups\<close>, with the head of the recursive call in it. \<open>check\<close> and \<open>all\<close> are
  passed by reference: what the recursive call takes from \<open>all\<close> is gone for the caller too.
\<close>

partial_function (option) match_loop ::
  "queue_env \<Rightarrow> u64 list \<Rightarrow> u64 list \<Rightarrow> 'a search_state \<Rightarrow> (LfgCompatibility \<times> u64 list \<times> u64 list \<times> 'a search_state) option"
where
  "match_loop env check all s = (case all of
       [] \<Rightarrow> Some (LFG_COMPATIBLES_WITH_LESS_PLAYERS, check, [], s)
     | a # rest \<Rightarrow>
         Option.bind
           (case cached_compatibility env (check @ [a]) s of (c, s) \<Rightarrow>
              if c \<noteq> LFG_COMPATIBLES_WITH_LESS_PLAYERS then Some (c, check @ [a], rest, s)
              else match_loop env (check @ [a]) rest s)
           (\<lambda>(c, check, all, s).
              if c = LFG_COMPATIBLES_MATCH then Some (LFG_COMPATIBLES_MATCH, check, all, s)
              else match_loop env (butlast check) all s))"

definition FindNewGroups ::
  "queue_env \<Rightarrow> u64 list \<Rightarrow> u64 list \<Rightarrow> 'a search_state \<Rightarrow> (LfgCompatibility \<times> u64 list \<times> u64 list \<times> 'a search_state) option"
where
  "FindNewGroups env check all s = (case cached_compatibility env check s of (c, s) \<Rightarrow>
     if c \<noteq> LFG_COMPATIBLES_WITH_LESS_PLAYERS then Some (c, check, all, s)
     else match_loop env check all s)"

partial_function (option) find_groups_loop ::
  "queue_env \<Rightarrow> u8 \<Rightarrow> 'a search_state \<Rightarrow> (u8 \<times> 'a search_state) option"
where
  "find_groups_loop env proposals s = (case newToQueueStore (fst s) of
       [] \<Rightarrow> Some (proposals, s)
     | front # _ \<Rightarrow>
         let q = RemoveFromNewQueue front (fst s)
         in Option.bind (FindNewGroups env [front] (currentQueueStore q) (q, snd s)) (\<lambda>(c, check, all, s).
              if c = LFG_COMPATIBLES_MATCH then find_groups_loop env (proposals + 1) s
              else find_groups_loop env proposals (AddToCurrentQueue front (fst s), snd s)))"

definition FindGroups :: "queue_env \<Rightarrow> 'a search_state \<Rightarrow> (u8 \<times> 'a search_state) option" where
  "FindGroups env s = find_groups_loop env 0 s"

subsection \<open>What a search leaves alone\<close>

text \<open>
  A search never changes the dungeons and roles of an entry, and what it does to the two queue
  lists is to drop some GUIDs from both.
\<close>

definition entry_view :: "LFGQueue \<Rightarrow> u64 \<Rightarrow> (LfgDungeonSet \<times> LfgRolesMap) option" where
  "entry_view q g = map_option (\<lambda>d. (qd_dungeons d, qd_roles d)) (map_of (QueueDataStore q) g)"

definition queue_frame :: "LFGQueue \<Rightarrow> LFGQueue \<Rightarrow> bool" where
  "queue_frame q q' \<longleftrightarrow> entry_view q' = entry_view q \<and>
     (\<exists>P. newToQueueStore q' = filter P (newToQueueStore q) \<and> currentQueueStore q' = filter P (currentQueueStore q))"

lemma queue_frame_refl [simp, intro]: "queue_frame q q"
  by (auto simp: queue_frame_def intro: exI [of _ "\<lambda>_. True"])

lemma queue_frame_trans: "queue_frame q q' \<Longrightarrow> queue_frame q' q'' \<Longrightarrow> queue_frame q q''"
  unfolding queue_frame_def by (metis filter_filter)

lemma entry_view_simps [simp]:
  "entry_view (SetCompatibles key c q) = entry_view q" "entry_view (SetCompatibilityData key d q) = entry_view q"
  "entry_view (dequeue g q) = entry_view q" "entry_view (AddToCurrentQueue g q) = entry_view q"
  "entry_view (RemoveFromNewQueue g q) = entry_view q"
  by (simp_all add: entry_view_def fun_eq_iff SetCompatibles_def SetCompatibilityData_def dequeue_def
    RemoveFromCurrentQueue_def RemoveFromNewQueue_def AddToCurrentQueue_def)

lemma queues_simps [simp]:
  "newToQueueStore (SetCompatibles key c q) = newToQueueStore q" "currentQueueStore (SetCompatibles key c q) = currentQueueStore q"
  "newToQueueStore (SetCompatibilityData key d q) = newToQueueStore q"
  "currentQueueStore (SetCompatibilityData key d q) = currentQueueStore q"
  "newToQueueStore (UpdateBestCompatibleInQueue g key rs q) = newToQueueStore q"
  "currentQueueStore (UpdateBestCompatibleInQueue g key rs q) = currentQueueStore q"
  "newToQueueStore (dequeue g q) = filter (\<lambda>x. x \<noteq> g) (newToQueueStore q)"
  "currentQueueStore (dequeue g q) = filter (\<lambda>x. x \<noteq> g) (currentQueueStore q)"
  "newToQueueStore (RemoveFromNewQueue g q) = filter (\<lambda>x. x \<noteq> g) (newToQueueStore q)"
  "currentQueueStore (RemoveFromNewQueue g q) = currentQueueStore q"
  "newToQueueStore (AddToCurrentQueue g q) = newToQueueStore q"
  "currentQueueStore (AddToCurrentQueue g q) = currentQueueStore q @ [g]"
  "newToQueueStore (RemoveFromQueue g q) = filter (\<lambda>x. x \<noteq> g) (newToQueueStore q)"
  "currentQueueStore (RemoveFromQueue g q) = filter (\<lambda>x. x \<noteq> g) (currentQueueStore q)"
  by (simp_all add: SetCompatibles_def SetCompatibilityData_def UpdateBestCompatibleInQueue_def dequeue_def
    RemoveFromCurrentQueue_def RemoveFromNewQueue_def AddToCurrentQueue_def RemoveFromQueue_def RemoveFromCompatibles_def Let_def)

lemma entry_view_UpdateBest [simp]: "entry_view (UpdateBestCompatibleInQueue g key rs q) = entry_view q"
  by (auto simp: entry_view_def UpdateBestCompatibleInQueue_def map_of_om_adjust fun_eq_iff option.map_comp comp_def)

lemma entry_view_RemoveFromQueue:
  "entry_view (RemoveFromQueue g q) = (entry_view q)(g := None)"
proof
  fix h
  show "entry_view (RemoveFromQueue g q) h = ((entry_view q)(g := None)) h"
    by (cases "map_of (QueueDataStore q) h")
      (simp_all add: entry_view_def RemoveFromQueue_def RemoveFromCompatibles_def RemoveFromCurrentQueue_def
        RemoveFromNewQueue_def Let_def map_of_map_values FindBestCompatibleInQueue_def)
qed

lemma queue_frame_intros [intro]:
  "queue_frame q q' \<Longrightarrow> queue_frame q (SetCompatibles key c q')"
  "queue_frame q q' \<Longrightarrow> queue_frame q (SetCompatibilityData key d q')"
  "queue_frame q q' \<Longrightarrow> queue_frame q (UpdateBestCompatibleInQueue g key rs q')"
  "queue_frame q q' \<Longrightarrow> queue_frame q (dequeue g q')"
  "queue_frame q q' \<Longrightarrow> map_of (QueueDataStore q') g = None \<Longrightarrow> queue_frame q (RemoveFromQueue g q')"
proof -
  assume f: "queue_frame q q'"
  then show "queue_frame q (SetCompatibles key c q')" "queue_frame q (SetCompatibilityData key d q')"
    "queue_frame q (UpdateBestCompatibleInQueue g key rs q')"
    by (simp_all add: queue_frame_def)
  show "queue_frame q (dequeue g q')"
    by (rule queue_frame_trans [OF f]) (auto simp: queue_frame_def)
  assume "map_of (QueueDataStore q') g = None"
  then have "(entry_view q')(g := None) = entry_view q'" by (auto simp: entry_view_def)
  then show "queue_frame q (RemoveFromQueue g q')"
    by (intro queue_frame_trans [OF f]) (auto simp: queue_frame_def entry_view_RemoveFromQueue)
qed

lemma queue_frame_fold:
  "(\<And>g q'. queue_frame q q' \<Longrightarrow> queue_frame q (f g q')) \<Longrightarrow> queue_frame q q' \<Longrightarrow> queue_frame q (fold f gs q')"
  by (induction gs arbitrary: q') auto

lemma check_scanned_frame: "queue_frame q (fst (snd (check_scanned env check sc (q, h))))"
  by (auto simp: check_scanned_def Let_def split: sum.splits prod.splits intro!: queue_frame_intros(1,2) queue_frame_fold)

lemma scan_entries_absent: "scan_entries env q check s = Inl g \<Longrightarrow> map_of (QueueDataStore q) g = None"
  by (induction env q check s rule: scan_entries.induct) (auto simp: Let_def split: if_splits option.splits)

lemma CheckCompatibility_frame: "queue_frame (fst s) (fst (snd (CheckCompatibility env check s)))"
proof (induction env check s rule: CheckCompatibility.induct)
  case (2 env front rest s)
  obtain child q h where child: "(if length (front # rest) > 2 then CheckCompatibility env rest s
      else (LFG_COMPATIBLES_MATCH, s)) = (child, q, h)" by (metis prod_cases3)
  show ?case
  proof (cases "length (front # rest) > MAXGROUPSIZE")
    case False
    with 2 child have q: "queue_frame (fst s) q"
      by (cases "length (front # rest) > 2") (auto split: if_splits)
    show ?thesis
    proof (cases "child < LFG_COMPATIBLES_WITH_LESS_PLAYERS")
      case True
      with False child q show ?thesis by (auto simp del: length_Cons)
    next
      case F: False
      with False child q check_scanned_frame [of q env "front # rest" _ h] show ?thesis
        by (auto simp del: length_Cons scan_entries.simps split: sum.splits
          intro: queue_frame_trans scan_entries_absent)
    qed
  qed simp
qed auto

lemma cached_compatibility_frame: "queue_frame (fst s) (fst (snd (cached_compatibility env check s)))"
  using CheckCompatibility_frame [of s env check]
  by (auto simp: cached_compatibility_def Let_def split: prod.splits if_splits)

subsection \<open>The search returns\<close>

lemma GetCompatibles_Set [simp]:
  "GetCompatibles key (SetCompatibles key' c q) = (if key = key' then c else GetCompatibles key q)"
  "GetCompatibles key (SetCompatibilityData key' d q) = (if key = key' then cd_compatibility d else GetCompatibles key q)"
  "GetCompatibles key (UpdateBestCompatibleInQueue g k rs q) = GetCompatibles key q"
  "GetCompatibles key (dequeue g q) = GetCompatibles key q"
  by (simp_all add: GetCompatibles_def SetCompatibles_def SetCompatibilityData_def UpdateBestCompatibleInQueue_def
    dequeue_def RemoveFromCurrentQueue_def RemoveFromNewQueue_def om_at_def)

text \<open>A match or a bad state that is reported is also what the cache says.\<close>

lemma check_members_low: "check_members env q check n = Inl c \<Longrightarrow> c < LFG_COMPATIBLES_WITH_LESS_PLAYERS"
  by (auto simp: check_members_def Let_def less_LfgCompatibility_def split: if_splits prod.splits)

lemma low_compatibility:
  "c < LFG_COMPATIBLES_WITH_LESS_PLAYERS \<Longrightarrow> c \<noteq> LFG_COMPATIBLES_MATCH \<and> c \<noteq> LFG_COMPATIBLES_BAD_STATES"
  by (auto simp: less_LfgCompatibility_def)

lemma check_scanned_cached:
  "fst (check_scanned env check sc s) = c \<Longrightarrow> c = LFG_COMPATIBLES_MATCH \<or> c = LFG_COMPATIBLES_BAD_STATES \<Longrightarrow>
     GetCompatibles (ConcatenateGuids check) (fst (snd (check_scanned env check sc s))) = c"
  by (auto simp: check_scanned_def Let_def split: prod.splits sum.splits if_splits)

lemma CheckCompatibility_cached:
  assumes "fst (CheckCompatibility env check s) = c" and c: "c = LFG_COMPATIBLES_MATCH \<or> c = LFG_COMPATIBLES_BAD_STATES"
  shows "GetCompatibles (ConcatenateGuids check) (fst (snd (CheckCompatibility env check s))) = c"
proof (cases check)
  case Nil
  with assms show ?thesis by auto
next
  case (Cons front rest)
  let ?check = "front # rest"
  obtain child q h where child: "(if length ?check > 2 then CheckCompatibility env rest s
      else (LFG_COMPATIBLES_MATCH, s)) = (child, q, h)" by (metis prod_cases3)
  note step = CheckCompatibility.simps(2) [of env front rest s, unfolded child]
  have n: "\<not> length ?check > MAXGROUPSIZE" using assms Cons by auto
  then have l: "\<not> child < LFG_COMPATIBLES_WITH_LESS_PLAYERS"
    using assms low_compatibility [of child] step by (auto simp: Cons split: if_splits)
  show ?thesis
  proof (cases "scan_entries env q ?check \<lparr>sc_groups = [], sc_players = 0, sc_lfg = 0, sc_group = 0\<rparr>")
    case (Inl g)
    with n l step assms Cons show ?thesis by auto
  next
    case (Inr sc)
    with n l step assms Cons check_scanned_cached [of env ?check sc "(q, h)" c] show ?thesis by simp
  qed
qed

lemma cached_compatibility_match:
  "cached_compatibility env check s = (LFG_COMPATIBLES_MATCH, s') \<Longrightarrow>
     GetCompatibles (ConcatenateGuids check) (fst s') = LFG_COMPATIBLES_MATCH"
  using CheckCompatibility_cached [of env check s LFG_COMPATIBLES_MATCH]
  by (auto simp: cached_compatibility_def Let_def split: prod.splits if_splits)

lemma match_loop_Nil [simp]: "match_loop env check [] s = Some (LFG_COMPATIBLES_WITH_LESS_PLAYERS, check, [], s)"
  by (subst match_loop.simps) simp

lemma match_loop_Cons:
  "match_loop env check (a # rest) s =
     Option.bind (FindNewGroups env (check @ [a]) rest s)
       (\<lambda>(c, check, all, s). if c = LFG_COMPATIBLES_MATCH then Some (LFG_COMPATIBLES_MATCH, check, all, s)
          else match_loop env (butlast check) all s)"
  by (subst match_loop.simps) (simp add: FindNewGroups_def split: prod.splits)

text \<open>
  Without a match the loop gives the list back as it was, and has used up everything it could try.
  The states in between are those that \<open>cached_compatibility\<close> leaves.
\<close>

definition matched :: "LfgCompatibility \<Rightarrow> u64 list \<Rightarrow> u64 list \<Rightarrow> 'a search_state \<Rightarrow> bool" where
  "matched c check check' s' \<longleftrightarrow> (c = LFG_COMPATIBLES_MATCH \<longrightarrow> hd check' = hd check \<and> check' \<noteq> [] \<and>
     GetCompatibles (ConcatenateGuids check') (fst s') = LFG_COMPATIBLES_MATCH)"

locale search_invariant =
  fixes env :: queue_env and I :: "'a search_state \<Rightarrow> bool" and U :: "u64 set"
  assumes keeps: "I s \<Longrightarrow> check \<noteq> [] \<Longrightarrow> set check \<subseteq> U \<Longrightarrow> I (snd (cached_compatibility env check s))"
begin

lemma match_loop_returns:
  "set check \<subseteq> U \<Longrightarrow> check \<noteq> [] \<Longrightarrow> set all \<subseteq> U \<Longrightarrow> I s \<Longrightarrow>
     \<exists>c check' all' s'. match_loop env check all s = Some (c, check', all', s') \<and> set check' \<subseteq> U \<and> set all' \<subseteq> U \<and>
       length all' \<le> length all \<and> (c \<noteq> LFG_COMPATIBLES_MATCH \<longrightarrow> check' = check) \<and> matched c check check' s' \<and> I s'"
proof (induction "length all" arbitrary: check all s rule: less_induct)
  case less
  show ?case
  proof (cases all)
    case Nil
    with less.prems show ?thesis by (simp add: matched_def)
  next
    case (Cons a rest)
    obtain c1 s1 where cc: "cached_compatibility env (check @ [a]) s = (c1, s1)" by (meson surj_pair)
    have s1: "I s1" using keeps [of s "check @ [a]"] less.prems Cons cc by simp
    have "\<exists>c check' all' s'. FindNewGroups env (check @ [a]) rest s = Some (c, check', all', s') \<and> set check' \<subseteq> U \<and>
        set all' \<subseteq> U \<and> length all' \<le> length rest \<and> (c \<noteq> LFG_COMPATIBLES_MATCH \<longrightarrow> check' = check @ [a]) \<and>
        matched c (check @ [a]) check' s' \<and> I s'"
      using less.hyps [of rest "check @ [a]" s1] less.prems Cons s1
        cached_compatibility_match [of env "check @ [a]" s s1] cc
      by (cases s1) (simp add: FindNewGroups_def matched_def)
    then obtain c check' all' s' where f: "FindNewGroups env (check @ [a]) rest s = Some (c, check', all', s')"
        "set check' \<subseteq> U" "set all' \<subseteq> U" "length all' \<le> length rest" "c \<noteq> LFG_COMPATIBLES_MATCH \<longrightarrow> check' = check @ [a]"
        "matched c (check @ [a]) check' s'" "I s'"
      by blast
    show ?thesis
    proof (cases "c = LFG_COMPATIBLES_MATCH")
      case True
      with f Cons less.prems(2) show ?thesis by (simp add: match_loop_Cons matched_def)
    next
      case False
      with less.hyps [of all' check s'] f Cons less.prems
      obtain c2 check2 all2 s2 where "match_loop env check all' s' = Some (c2, check2, all2, s2)"
          "set check2 \<subseteq> U" "set all2 \<subseteq> U" "length all2 \<le> length all'" "c2 \<noteq> LFG_COMPATIBLES_MATCH \<longrightarrow> check2 = check"
          "matched c2 check check2 s2" "I s2"
        by auto
      with False f Cons show ?thesis by (simp add: match_loop_Cons)
    qed
  qed
qed

lemma FindNewGroups_returns:
  assumes "set check \<subseteq> U" and "check \<noteq> []" and "set all \<subseteq> U" and "I s"
  obtains c check' all' s' where "FindNewGroups env check all s = Some (c, check', all', s')" and "matched c check check' s'" and "I s'"
proof -
  obtain c1 s1 where cc: "cached_compatibility env check s = (c1, s1)" by (meson surj_pair)
  have "I s1" using keeps [of s check] assms cc by simp
  show thesis
  proof (cases "c1 = LFG_COMPATIBLES_WITH_LESS_PLAYERS")
    case True
    from match_loop_returns [of check all s1] assms \<open>I s1\<close> obtain c check' all' s'
      where "match_loop env check all s1 = Some (c, check', all', s')" "matched c check check' s'" "I s'" by blast
    with True that [of c check' all' s'] show thesis by (simp add: FindNewGroups_def cc)
  next
    case False
    with that [of c1 check all s1] \<open>I s1\<close> cached_compatibility_match [of env check s s1] cc assms(2) show thesis
      by (simp add: FindNewGroups_def matched_def)
  qed
qed

end

interpretation frame: search_invariant env "\<lambda>s. queue_frame q (fst s)" UNIV for env q
  by unfold_locales (meson cached_compatibility_frame queue_frame_trans)

lemma FindNewGroups_frame:
  assumes "check \<noteq> []"
  obtains c check' all' s' where "FindNewGroups env check all s = Some (c, check', all', s')" and "queue_frame (fst s) (fst s')"
proof (rule frame.FindNewGroups_returns [where env = env and q = "fst s" and check = check and all = all and s = s])
  fix c check' all' s'
  assume "FindNewGroups env check all s = Some (c, check', all', s')" and "queue_frame (fst s) (fst s')"
  then show thesis by (rule that)
qed (use assms in simp_all)

text \<open>\<open>FindGroups\<close> looks at every new entry once: the list of new entries is empty afterwards.\<close>

lemma find_groups_loop_returns:
  "\<exists>n s'. find_groups_loop env k s = Some (n, s') \<and> newToQueueStore (fst s') = [] \<and> entry_view (fst s') = entry_view (fst s) \<and>
     set (currentQueueStore (fst s')) \<subseteq> set (newToQueueStore (fst s)) \<union> set (currentQueueStore (fst s))"
proof (induction "length (newToQueueStore (fst s))" arbitrary: k s rule: less_induct)
  case less
  show ?case
  proof (cases "newToQueueStore (fst s)")
    case Nil
    then show ?thesis by (subst find_groups_loop.simps) simp
  next
    case (Cons front rest)
    let ?q = "RemoveFromNewQueue front (fst s)"
    obtain c check' all' s' where f: "FindNewGroups env [front] (currentQueueStore ?q) (?q, snd s) = Some (c, check', all', s')"
        "queue_frame ?q (fst s')"
      by (rule FindNewGroups_frame [of "[front]" env "currentQueueStore ?q" "(?q, snd s)"]) auto
    then obtain P where P: "newToQueueStore (fst s') = filter P (filter (\<lambda>x. x \<noteq> front) rest)"
        "currentQueueStore (fst s') = filter P (currentQueueStore (fst s))" "entry_view (fst s') = entry_view (fst s)"
      using Cons by (auto simp: queue_frame_def)
    have short: "length (newToQueueStore (fst s')) < length (newToQueueStore (fst s))"
      using P(1) Cons by (simp add: le_imp_less_Suc order_trans [OF length_filter_le])
    let ?t = "if c = LFG_COMPATIBLES_MATCH then s' else (AddToCurrentQueue front (fst s'), snd s')"
    have "find_groups_loop env k s = find_groups_loop env (if c = LFG_COMPATIBLES_MATCH then k + 1 else k) ?t"
      using Cons f by (subst find_groups_loop.simps) (simp add: Let_def)
    moreover have "length (newToQueueStore (fst ?t)) < length (newToQueueStore (fst s))"
      using short by simp
    then obtain n u where "find_groups_loop env (if c = LFG_COMPATIBLES_MATCH then k + 1 else k) ?t = Some (n, u)"
        "newToQueueStore (fst u) = []" "entry_view (fst u) = entry_view (fst ?t)"
        "set (currentQueueStore (fst u)) \<subseteq> set (newToQueueStore (fst ?t)) \<union> set (currentQueueStore (fst ?t))"
      using less.hyps by blast
    moreover have "set (newToQueueStore (fst ?t)) \<union> set (currentQueueStore (fst ?t)) \<subseteq>
        set (newToQueueStore (fst s)) \<union> set (currentQueueStore (fst s))"
      using P Cons by auto
    ultimately show ?thesis using P(3) by (auto split: if_splits)
  qed
qed


end
