(* ===== verification/LfgProposals.thy ===== *)
theory LfgProposals
  imports LfgSearch
begin

text \<open>
  What a search of the queue does, in one lemma: the proposals it makes are legal groups of five, and
  an entry that leaves the lists is in one of them. The theorems that say so of \<open>FindGroups\<close> are in
  \<open>LfgRuns\<close>.
\<close>

subsection \<open>Legal proposals\<close>

type_synonym queue_view = "u64 \<Rightarrow> (LfgDungeonSet \<times> LfgRolesMap) option"

definition view_roles :: "queue_view \<Rightarrow> u64 \<Rightarrow> LfgRolesMap" where
  "view_roles V g = (case V g of Some (ds, rs) \<Rightarrow> rs | None \<Rightarrow> [])"

definition view_dungeons :: "queue_view \<Rightarrow> u64 \<Rightarrow> LfgDungeonSet" where
  "view_dungeons V g = (case V g of Some (ds, rs) \<Rightarrow> ds | None \<Rightarrow> [])"

text \<open>Roles are maps with less than 250 entries, an entry has dungeons, ignoring counts both ways.\<close>

definition view_ok :: "queue_env \<Rightarrow> queue_view \<Rightarrow> bool" where
  "view_ok env V \<longleftrightarrow> (\<forall>g ds rs. V g = Some (ds, rs) \<longrightarrow> om_ok rs \<and> length rs < 250 \<and> ds \<noteq> []) \<and>
     (\<forall>a b. qe_HasIgnore env a b \<longrightarrow> qe_HasIgnore env b a)"

definition no_ignores :: "queue_env \<Rightarrow> u64 set \<Rightarrow> bool" where
  "no_ignores env A \<longleftrightarrow> (\<forall>a \<in> A. \<forall>b \<in> A. a \<noteq> b \<longrightarrow> \<not> qe_HasIgnore env a b)"

definition legal_proposal :: "queue_env \<Rightarrow> queue_view \<Rightarrow> LfgProposal \<Rightarrow> bool" where
  "legal_proposal env V p \<longleftrightarrow>
     pr_queues p \<noteq> [] \<and> (\<forall>g \<in> set (pr_queues p). V g \<noteq> None \<and> qe_GetState env g = LFG_STATE_QUEUED) \<and>
     length (pr_players p) = MAXGROUPSIZE \<and> distinct (map fst (pr_players p)) \<and>
     fst ` set (pr_players p) = (\<Union>g \<in> set (pr_queues p). fst ` set (view_roles V g)) \<and>
     (\<forall>g \<in> set (pr_queues p). pr_dungeonId p \<in> set (view_dungeons V g)) \<and>
     length (filter (qe_IsLfgGroup env) (pr_queues p)) \<le> 1 \<and>
     (length (pr_queues p) > 1 \<longrightarrow>
        (\<forall>(a, x) \<in> set (pr_players p). \<exists>g \<in> set (pr_queues p). \<exists>v. (a, v) \<in> set (view_roles V g) \<and>
           role_choice (v AND NOT PLAYER_ROLE_LEADER) (pp_role x)) \<and>
        length (filter (\<lambda>x. pp_role (snd x) = PLAYER_ROLE_TANK) (pr_players p)) = LFG_TANKS_NEEDED \<and>
        length (filter (\<lambda>x. pp_role (snd x) = PLAYER_ROLE_HEALER) (pr_players p)) = LFG_HEALERS_NEEDED \<and>
        length (filter (\<lambda>x. pp_role (snd x) = PLAYER_ROLE_DAMAGE) (pr_players p)) = LFG_DPS_NEEDED \<and>
        no_ignores env (fst ` set (pr_players p))) \<and>
     pr_state p = LFG_PROPOSAL_INITIATING \<and> pr_cancelTime p = qe_time env + LFG_TIME_PROPOSAL"

lemma entry_view_entry:
  assumes "entry_view q = V"
  shows "qd_roles (entry q g) = view_roles V g" and "qd_dungeons (entry q g) = view_dungeons V g"
  using assms
  by (auto simp: entry_view_def entry_def om_at_def view_roles_def view_dungeons_def LfgQueueData_new_def split: option.splits)

subsection \<open>Counting the players\<close>

lemma scan_entries_counts:
  assumes "scan_entries env q check s = Inr s'" and "sc_lfg s' \<le> 1" and "sc_players s' \<le> MAXGROUPSIZE"
    and "entry_view q = V" and "view_ok env V" and "sc_players s \<le> MAXGROUPSIZE"
  shows "sc_players s' = sc_players s + (\<Sum>g \<leftarrow> check. length (view_roles V g)) \<and>
    sc_lfg s' = sc_lfg s + length (filter (qe_IsLfgGroup env) check) \<and> (\<forall>g \<in> set check. V g \<noteq> None)"
  using assms
proof (induction env q check s rule: scan_entries.induct)
  case (2 env q guid check s)
  show ?case
  proof (cases "sc_lfg s < 2")
    case True
    with 2(2,7) obtain d where d: "map_of (QueueDataStore q) guid = Some d"
      by (auto split: option.splits)
    let ?s = "s\<lparr>sc_groups := store_group guid (qd_roles d) (sc_groups s),
      sc_players := (sc_players s + length (qd_roles d)) mod 256\<rparr>"
    let ?t = "if qe_IsLfgGroup env guid
      then ?s\<lparr>sc_group := (if sc_lfg ?s = 0 then guid else sc_group ?s), sc_lfg := sc_lfg ?s + 1\<rparr> else ?s"
    have V: "V guid = Some (qd_dungeons d, qd_roles d)" using d 2(5) by (auto simp: entry_view_def)
    then have small: "length (qd_roles d) < 250" using 2(6) by (auto simp: view_ok_def)
    then have players: "sc_players ?t = sc_players s + length (view_roles V guid)"
      using 2(7) by (simp add: V view_roles_def MAXGROUPSIZE_def)
    have run: "scan_entries env q check ?t = Inr s'"
      using 2(2) True 2(7) d by (simp add: Let_def)
    show ?thesis
    proof (cases "sc_players ?t \<le> MAXGROUPSIZE")
      case t: True
      have "sc_players s' = sc_players ?t + (\<Sum>g \<leftarrow> check. length (view_roles V g)) \<and>
          sc_lfg s' = sc_lfg ?t + length (filter (qe_IsLfgGroup env) check) \<and> (\<forall>g \<in> set check. V g \<noteq> None)"
        using 2(1) [OF _ d refl refl run 2(3-6) t] True 2(7) by simp
      with players V show ?thesis by simp
    next
      case False
      then have "s' = ?t" using run by (cases check) auto
      with False 2(4) show ?thesis by simp
    qed
  next
    case False
    with 2(2,3) show ?thesis by auto
  qed
qed simp

subsection \<open>Collecting the players\<close>

lemma ignored_by_iff: "ignored_by env p acc \<longleftrightarrow> (\<exists>b \<in> fst ` set acc. b \<noteq> p \<and> qe_HasIgnore env p b)"
  by (induction env p acc rule: ignored_by.induct) auto

text \<open>\<open>acc\<close> is a map of players who do not ignore each other, each with a role he queued with.\<close>

definition collected :: "queue_env \<Rightarrow> (u64 \<times> u8) set \<Rightarrow> nat \<Rightarrow> LfgRolesMap \<Rightarrow> bool" where
  "collected env A n acc \<longleftrightarrow> om_ok acc \<and> set acc \<subseteq> A \<and> length acc \<le> n \<and> no_ignores env (fst ` set acc)"

lemma collect_roles_ok:
  assumes "collected env A n acc" and "\<forall>a b. qe_HasIgnore env a b \<longrightarrow> qe_HasIgnore env b a"
  shows "collected env (A \<union> set roles) (n + length roles) (collect_roles env roles acc)"
  using assms
proof (induction env roles acc arbitrary: A n rule: collect_roles.induct)
  case (2 env p r roles acc)
  let ?acc = "if ignored_by env p acc then acc else om_put p r acc"
  have "collected env (insert (p, r) A) (Suc n) ?acc"
  proof (cases "ignored_by env p acc")
    case False
    have "\<not> qe_HasIgnore env p b \<and> \<not> qe_HasIgnore env b p" if "b \<in> fst ` set acc" "b \<noteq> p" for b
    proof -
      have "\<not> qe_HasIgnore env p b" using False that ignored_by_iff by metis
      with 2(3) [THEN spec, THEN spec, of b p] show ?thesis by blast
    qed
    moreover have "no_ignores env (fst ` set acc)" using 2(2) by (simp add: collected_def)
    ultimately have "no_ignores env (insert p (fst ` set acc))"
      unfolding no_ignores_def by blast
    with 2(2) show ?thesis
      using set_om_put [of p r acc] length_om_put [of p r acc] False
      by (auto simp: collected_def fst_om_put)
  qed (use 2(2) in \<open>auto simp: collected_def\<close>)
  from 2(1) [OF this 2(3)] show ?case by simp
qed (simp add: collected_def)

lemma collect_entries_ok:
  assumes "collected env A n acc" and "\<forall>a b. qe_HasIgnore env a b \<longrightarrow> qe_HasIgnore env b a" and "entry_view q = V"
  shows "collected env (A \<union> (\<Union>g \<in> set check. set (view_roles V g))) (n + (\<Sum>g \<leftarrow> check. length (view_roles V g)))
    (collect_entries env q check acc)"
  using assms
proof (induction env q check acc arbitrary: A n rule: collect_entries.induct)
  case (2 env q guid check acc)
  from 2(1) [OF collect_roles_ok [OF 2(2,3), of "qd_roles (entry q guid)"] 2(3,4)] show ?case
    by (simp add: entry_view_entry [OF 2(4)] Un_assoc add.assoc)
qed simp

text \<open>All players of the entries are collected when the count is right.\<close>

lemma collected_all:
  assumes "collected env (\<Union>g \<in> set check. set (view_roles V g)) n acc" and n: "n = (\<Sum>g \<leftarrow> check. length (view_roles V g))"
    and "length acc = n"
  shows "fst ` set acc = (\<Union>g \<in> set check. fst ` set (view_roles V g))"
proof (rule card_subset_eq)
  show "finite (\<Union>g \<in> set check. fst ` set (view_roles V g))" by simp
  show sub: "fst ` set acc \<subseteq> (\<Union>g \<in> set check. fst ` set (view_roles V g))"
    unfolding image_UN [symmetric] by (rule image_mono) (use assms(1) in \<open>simp add: collected_def\<close>)
  have "card (fst ` set acc) = length acc"
    using om_ok_distinct [of acc] distinct_card [of "map fst acc"] assms(1) by (simp add: collected_def)
  moreover have "card (\<Union>g \<in> set check. fst ` set (view_roles V g)) \<le> n"
    unfolding n
  proof (induction check)
    case (Cons g check)
    have "card (fst ` set (view_roles V g)) \<le> length (view_roles V g)"
      by (metis card_length length_map set_map)
    with Cons card_Un_le [of "fst ` set (view_roles V g)" "\<Union>g \<in> set check. fst ` set (view_roles V g)"]
    show ?case by simp
  qed simp
  moreover have "card (fst ` set acc) \<le> card (\<Union>g \<in> set check. fst ` set (view_roles V g))"
    using sub by (simp add: card_mono)
  ultimately show "card (fst ` set acc) = card (\<Union>g \<in> set check. fst ` set (view_roles V g))"
    using assms(3) by simp
qed

subsection \<open>Roles and dungeons\<close>

lemma group_roles_ok:
  assumes "length gs < 256"
  shows "map fst (snd (group_roles gs)) = map fst gs"
    and "fst (group_roles gs) \<Longrightarrow> role_assignment (clear_leader_flags gs) (snd (group_roles gs))"
proof -
  have c: "map fst (clear_leader_flags gs) = map fst gs"
    by (auto simp: clear_leader_flags_def)
  have a: "map fst as = map fst xs" if "role_assignment xs as" for xs as
    using that by (auto simp: role_assignment_def list_all2_conv_all_nth intro!: nth_equalityI)
  have "map fst (snd (group_roles gs)) = map fst gs \<and>
    (fst (group_roles gs) \<longrightarrow> role_assignment (clear_leader_flags gs) (snd (group_roles gs)))"
  proof (cases "gs = []")
    case False
    from CheckGroupRoles_ok [OF this assms, of True] a c show ?thesis
      by (auto simp: group_roles_def search_ok_def split: option.splits if_splits)
  qed (simp add: group_roles_def CheckGroupRoles_def)
  then show "map fst (snd (group_roles gs)) = map fst gs"
    "fst (group_roles gs) \<Longrightarrow> role_assignment (clear_leader_flags gs) (snd (group_roles gs))" by blast+
qed

lemma common_dungeons_subset:
  "set (common_dungeons q check ds) \<subseteq> set ds \<inter> (\<Inter>g \<in> set check. set (qd_dungeons (entry q g)))"
proof (induction q check ds rule: common_dungeons.induct)
  case (2 q guid check ds)
  then show ?case using os_inter_subset [of ds "qd_dungeons (entry q guid)"] by auto
qed simp

definition members_ok :: "queue_env \<Rightarrow> queue_view \<Rightarrow> u64 list \<Rightarrow> LfgRolesMap \<Rightarrow> LfgDungeonSet \<Rightarrow> bool" where
  "members_ok env V check roles ds \<longleftrightarrow> distinct (map fst roles) \<and>
     length roles = (\<Sum>g \<leftarrow> check. length (view_roles V g)) \<and>
     fst ` set roles = (\<Union>g \<in> set check. fst ` set (view_roles V g)) \<and>
     ds \<noteq> [] \<and> (\<forall>g \<in> set check. set ds \<subseteq> set (view_dungeons V g)) \<and>
     (length check > 1 \<longrightarrow>
        (\<forall>(a, r) \<in> set roles. \<exists>g \<in> set check. \<exists>v. (a, v) \<in> set (view_roles V g) \<and> role_choice (v AND NOT PLAYER_ROLE_LEADER) r) \<and>
        role_count PLAYER_ROLE_TANK roles \<le> LFG_TANKS_NEEDED \<and> role_count PLAYER_ROLE_HEALER roles \<le> LFG_HEALERS_NEEDED \<and>
        role_count PLAYER_ROLE_DAMAGE roles \<le> LFG_DPS_NEEDED \<and> no_ignores env (fst ` set roles))"

lemma assignment_of_collected:
  assumes "role_assignment (clear_leader_flags rs) roles" and "(a, r) \<in> set roles"
  shows "\<exists>v. (a, v) \<in> set rs \<and> role_choice (v AND NOT PLAYER_ROLE_LEADER) r"
proof -
  obtain i where i: "i < length roles" "roles ! i = (a, r)" using assms(2) by (auto simp: in_set_conv_nth)
  with assms(1) have l: "i < length rs" and "fst (clear_leader_flags rs ! i) = a" "role_choice (snd (clear_leader_flags rs ! i)) r"
    by (auto simp: role_assignment_def list_all2_conv_all_nth clear_leader_flags_def)
  then have "fst (rs ! i) = a" "role_choice (snd (rs ! i) AND NOT PLAYER_ROLE_LEADER) r"
    by (auto simp: clear_leader_flags_def split: prod.splits)
  then show ?thesis using nth_mem [OF l] by (metis prod.collapse)
qed

lemma check_members_ok:
  assumes r: "check_members env q check n = Inr (roles, ds)" and n: "n = (\<Sum>g \<leftarrow> check. length (view_roles V g))" "n \<le> MAXGROUPSIZE"
    and V: "entry_view q = V" "view_ok env V" "\<forall>g \<in> set check. V g \<noteq> None" and "check \<noteq> []"
  shows "members_ok env V check roles ds"
proof (cases "length check > 1")
  case True
  let ?acc = "collect_entries env q check []"
  have acc: "collected env (\<Union>g \<in> set check. set (view_roles V g)) n ?acc"
    using collect_entries_ok [of env "{}" 0 "[]" q V check] V(1,2) n(1) by (simp add: collected_def no_ignores_def view_ok_def)
  then have le: "length ?acc \<le> n" by (simp add: collected_def)
  have zero: "(of_nat n - of_nat (length ?acc) :: u8) = 0" and ok: "fst (group_roles ?acc)"
    and roles: "roles = snd (group_roles ?acc)"
    and ds: "ds = common_dungeons q (tl check) (qd_dungeons (entry q (hd check)))" "ds \<noteq> []"
    using r True by (auto simp: check_members_def Let_def split: if_splits prod.splits)
  have "(of_nat (n - length ?acc) :: u8) = 0" using zero le by (simp add: of_nat_diff)
  then have "unat (of_nat (n - length ?acc) :: u8) = 0" by simp
  then have "(n - length ?acc) mod 256 = 0" by (simp add: unat_of_nat)
  then have len: "length ?acc = n" using le n(2) by (simp add: MAXGROUPSIZE_def)
  then have small: "length ?acc < 256" using n(2) by (simp add: MAXGROUPSIZE_def)
  note gr = group_roles_ok [OF small]
  have keys: "map fst roles = map fst ?acc" using gr(1) roles by simp
  then have "fst ` set roles = fst ` set ?acc" by (metis set_map)
  then have all: "fst ` set roles = (\<Union>g \<in> set check. fst ` set (view_roles V g))"
    using collected_all [OF acc n(1) len] by simp
  have "length roles = n" using keys len by (metis length_map)
  moreover have "distinct (map fst roles)" using acc keys om_ok_distinct [of ?acc] by (simp add: collected_def)
  moreover have "\<forall>g \<in> set check. set ds \<subseteq> set (view_dungeons V g)"
    using common_dungeons_subset [of q "tl check" "qd_dungeons (entry q (hd check))"] ds(1) \<open>check \<noteq> []\<close>
    by (cases check) (auto simp: entry_view_entry [OF V(1)])
  moreover have a: "role_assignment (clear_leader_flags ?acc) roles" using gr(2) ok roles by simp
  moreover have "\<forall>(a, r) \<in> set roles. \<exists>g \<in> set check. \<exists>v. (a, v) \<in> set (view_roles V g) \<and>
      role_choice (v AND NOT PLAYER_ROLE_LEADER) r"
    using assignment_of_collected [OF a] acc by (fastforce simp: collected_def)
  moreover have "no_ignores env (fst ` set roles)"
    using acc \<open>fst ` set roles = fst ` set ?acc\<close> by (simp add: collected_def)
  ultimately show ?thesis using all ds(2) n(1) by (simp add: members_ok_def role_assignment_def)
next
  case False
  with \<open>check \<noteq> []\<close> obtain g where g: "check = [g]" by (cases check) auto
  have rs: "roles = snd (group_roles (view_roles V g))" "ds = view_dungeons V g"
    using r g by (auto simp: check_members_def entry_view_entry [OF V(1)])
  obtain d rs where Vg: "V g = Some (d, rs)" using V(3) g by auto
  then have w: "om_ok rs" "length rs < 250" "d \<noteq> []" using V(2) by (auto simp: view_ok_def)
  have keys: "map fst roles = map fst rs" using group_roles_ok(1) [of rs] w(2) rs Vg by (simp add: view_roles_def)
  have "distinct (map fst roles)" "fst ` set roles = fst ` set rs" "length roles = length rs"
    using om_ok_distinct [OF w(1)] keys by (simp, metis set_map, metis length_map)
  with g rs Vg w show ?thesis by (simp add: members_ok_def view_roles_def view_dungeons_def)
qed

lemma make_proposal_legal:
  assumes m: "members_ok env V check roles ds" and five: "(\<Sum>g \<leftarrow> check. length (view_roles V g)) = MAXGROUPSIZE"
    and q: "AllQueued env check" "\<forall>g \<in> set check. V g \<noteq> None" "length (filter (qe_IsLfgGroup env) check) \<le> 1"
    and p: "make_proposal env check sc roles ds k = (p, k')"
  shows "legal_proposal env V p \<and> pr_queues p = check"
proof -
  have p': "pr_queues p = check" "pr_state p = LFG_PROPOSAL_INITIATING" "pr_cancelTime p = qe_time env + LFG_TIME_PROPOSAL"
    "pr_dungeonId p = ds ! urand env k 0 (length ds - 1)" "map (\<lambda>x. (fst x, pp_role (snd x))) (pr_players p) = roles"
    using p by (auto simp: make_proposal_def Let_def LfgProposal_new_def proposal_player_def comp_def case_prod_beta split: prod.splits)
  have "map fst (pr_players p) = map fst roles" unfolding p'(5) [symmetric] by simp
  then have players: "length (pr_players p) = length roles" "fst ` set (pr_players p) = fst ` set roles"
      "distinct (map fst (pr_players p)) = distinct (map fst roles)"
    by (metis length_map, metis set_map, simp)
  have "urand env k 0 (length ds - 1) < length ds"
    using m by (simp add: urand_def members_ok_def)
  then have dungeon: "pr_dungeonId p \<in> set ds" unfolding p'(4) by (rule nth_mem)
  have cnt: "length (filter (\<lambda>x. pp_role (snd x) = r) (pr_players p)) = role_count r roles" for r
    unfolding p'(5) [symmetric] role_count_def by (simp add: filter_map comp_def)
  have choice: "\<exists>g \<in> set check. \<exists>v. (a, v) \<in> set (view_roles V g) \<and> role_choice (v AND NOT PLAYER_ROLE_LEADER) (pp_role x)"
    if "length check > 1" "(a, x) \<in> set (pr_players p)" for a x
  proof -
    have "(a, pp_role x) \<in> set roles" using that(2) unfolding p'(5) [symmetric] by force
    with m that(1) show ?thesis by (auto simp: members_ok_def)
  qed
  have exact: "role_count PLAYER_ROLE_TANK roles = LFG_TANKS_NEEDED" "role_count PLAYER_ROLE_HEALER roles = LFG_HEALERS_NEEDED"
      "role_count PLAYER_ROLE_DAMAGE roles = LFG_DPS_NEEDED" if "length check > 1"
  proof -
    have "\<forall>x \<in> set roles. single_role (snd x)"
      using m that role_choice_flag by (fastforce simp: members_ok_def single_role_flags)
    then have "length (filter (single_role \<circ> snd) roles) = 5"
      using m five by (simp add: members_ok_def MAXGROUPSIZE_def)
    with role_counts_sum [of roles] m that
    show "role_count PLAYER_ROLE_TANK roles = LFG_TANKS_NEEDED" "role_count PLAYER_ROLE_HEALER roles = LFG_HEALERS_NEEDED"
      "role_count PLAYER_ROLE_DAMAGE roles = LFG_DPS_NEEDED"
      by (auto simp: members_ok_def needed_defs)
  qed
  show ?thesis
    using m q dungeon choice exact five
    by (auto simp: legal_proposal_def p'(1-3) players cnt members_ok_def AllQueued_def)
qed

subsection \<open>What a search does to queue and host\<close>

text \<open>Adding proposals, whatever random numbers were drawn in between.\<close>

definition added :: "'a lfg_host_scheme \<Rightarrow> LfgProposal list \<Rightarrow> 'a lfg_host_scheme \<Rightarrow> bool" where
  "added h ps h' \<longleftrightarrow> h' = (fold AddProposal ps h)\<lparr>rand_draws := rand_draws h'\<rparr>"

lemma added_Nil [simp]: "added h [] h"
  by (simp add: added_def)

lemma fold_AddProposal_draws: "fold AddProposal ps (h\<lparr>rand_draws := k\<rparr>) = (fold AddProposal ps h)\<lparr>rand_draws := k\<rparr>"
proof (induction ps arbitrary: h)
  case (Cons p ps)
  have "AddProposal p (h\<lparr>rand_draws := k\<rparr>) = (AddProposal p h)\<lparr>rand_draws := k\<rparr>"
    by (simp add: AddProposal_def Let_def)
  with Cons show ?case by simp
qed simp

lemma added_trans:
  assumes "added h ps h'" and "added h' ps' h''"
  shows "added h (ps @ ps') h''"
proof -
  have "fold AddProposal ps' h' = (fold AddProposal (ps @ ps') h)\<lparr>rand_draws := rand_draws h'\<rparr>"
    using assms(1) fold_AddProposal_draws [where ps = ps' and h = "fold AddProposal ps h" and k = "rand_draws h'"] by (simp add: added_def)
  then show ?thesis using assms(2) unfolding added_def by simp
qed

lemma added_one: "added h [p] (AddProposal p (h\<lparr>rand_draws := k\<rparr>))"
  by (simp add: added_def AddProposal_def Let_def)

text \<open>The new proposals account for the entries that left the lists and for the matches in the cache.\<close>

definition no_bad_states :: "queue_env \<Rightarrow> u64 set \<Rightarrow> 'a search_state \<Rightarrow> bool" where
  "no_bad_states env U s \<longleftrightarrow> (\<forall>g \<in> U. qe_GetState env g = LFG_STATE_QUEUED) \<and>
     (\<forall>key. GetCompatibles key (fst s) \<noteq> LFG_COMPATIBLES_BAD_STATES)"

definition search_result ::
  "queue_env \<Rightarrow> u64 set \<Rightarrow> 'a search_state \<Rightarrow> LfgProposal list \<Rightarrow> 'a search_state \<Rightarrow> bool"
where
  "search_result env U s ps s' \<longleftrightarrow>
     added (snd s) ps (snd s') \<and> entry_view (fst s') = entry_view (fst s) \<and>
     (\<exists>P. newToQueueStore (fst s') = filter P (newToQueueStore (fst s)) \<and>
          currentQueueStore (fst s') = filter P (currentQueueStore (fst s)) \<and>
          (\<forall>g. \<not> P g \<longrightarrow> entry_view (fst s) g = None \<or> (\<exists>p \<in> set ps. g \<in> set (pr_queues p)))) \<and>
     (\<forall>p \<in> set ps. set (pr_queues p) \<subseteq> U \<and> (view_ok env (entry_view (fst s)) \<longrightarrow> legal_proposal env (entry_view (fst s)) p)) \<and>
     (no_bad_states env U s \<longrightarrow> no_bad_states env U s' \<and>
       (\<forall>key. GetCompatibles key (fst s') = LFG_COMPATIBLES_MATCH \<longrightarrow> GetCompatibles key (fst s) = LFG_COMPATIBLES_MATCH \<or>
          (\<exists>p \<in> set ps. key = ConcatenateGuids (pr_queues p))))"

lemma search_result_refl: "search_result env U s [] s"
  by (auto simp: search_result_def intro!: exI [of _ "\<lambda>_. True"])

lemma search_result_trans:
  assumes "search_result env U s ps s'" and "search_result env U s' ps' s''"
  shows "search_result env U s (ps @ ps') s''"
proof -
  from assms(1) obtain P where P: "newToQueueStore (fst s') = filter P (newToQueueStore (fst s))"
      "currentQueueStore (fst s') = filter P (currentQueueStore (fst s))"
      "\<forall>g. \<not> P g \<longrightarrow> entry_view (fst s) g = None \<or> (\<exists>p \<in> set ps. g \<in> set (pr_queues p))"
    by (auto simp: search_result_def)
  from assms(2) obtain P' where P': "newToQueueStore (fst s'') = filter P' (newToQueueStore (fst s'))"
      "currentQueueStore (fst s'') = filter P' (currentQueueStore (fst s'))"
      "\<forall>g. \<not> P' g \<longrightarrow> entry_view (fst s') g = None \<or> (\<exists>p \<in> set ps'. g \<in> set (pr_queues p))"
    by (auto simp: search_result_def)
  have v: "entry_view (fst s') = entry_view (fst s)" "entry_view (fst s'') = entry_view (fst s)"
    using assms by (simp_all add: search_result_def)
  have "added (snd s) (ps @ ps') (snd s'')" using assms by (auto simp: search_result_def intro: added_trans)
  moreover have "\<exists>Q. newToQueueStore (fst s'') = filter Q (newToQueueStore (fst s)) \<and>
          currentQueueStore (fst s'') = filter Q (currentQueueStore (fst s)) \<and>
          (\<forall>g. \<not> Q g \<longrightarrow> entry_view (fst s) g = None \<or> (\<exists>p \<in> set (ps @ ps'). g \<in> set (pr_queues p)))"
    using P P' v by (intro exI [of _ "\<lambda>g. P g \<and> P' g"]) auto
  ultimately show ?thesis
    using assms v unfolding search_result_def by (simp add: ball_Un bex_Un) meson
qed

lemma map_of_filter_key: "map_of (filter (\<lambda>(k, d). Q k) m) k = (if Q k then map_of m k else None)"
  by (induction m) auto

lemma GetCompatibles_RemoveFromQueue:
  "GetCompatibles key (RemoveFromQueue g q) =
     (if contains (guid_string g) key then LFG_COMPATIBILITY_PENDING else GetCompatibles key q)"
  by (simp add: GetCompatibles_def RemoveFromQueue_def RemoveFromCompatibles_def RemoveFromCurrentQueue_def
    RemoveFromNewQueue_def Let_def map_of_filter_key)

text \<open>Steps that only touch the cache and the best matches, and put nothing suspicious in.\<close>

lemma search_result_cache:
  assumes "entry_view q' = entry_view q" and "newToQueueStore q' = newToQueueStore q" and "currentQueueStore q' = currentQueueStore q"
    and "\<And>key. GetCompatibles key q' \<noteq> GetCompatibles key q \<Longrightarrow>
      GetCompatibles key q' \<notin> {LFG_COMPATIBLES_MATCH, LFG_COMPATIBLES_BAD_STATES} \<or>
      (GetCompatibles key q' = LFG_COMPATIBLES_BAD_STATES \<and> (\<exists>g \<in> U. qe_GetState env g \<noteq> LFG_STATE_QUEUED))"
  shows "search_result env U (q, h) [] (q', h)"
proof -
  have "GetCompatibles key q = LFG_COMPATIBLES_MATCH" if "GetCompatibles key q' = LFG_COMPATIBLES_MATCH" for key
    using assms(4) [of key] that by (cases "GetCompatibles key q' = GetCompatibles key q") auto
  moreover have "GetCompatibles key q' \<noteq> LFG_COMPATIBLES_BAD_STATES" if "no_bad_states env U (q, h)" for key
    using assms(4) [of key] that by (cases "GetCompatibles key q' = GetCompatibles key q") (auto simp: no_bad_states_def)
  ultimately show ?thesis
    using assms(1-3) unfolding search_result_def by (auto simp: no_bad_states_def intro!: exI [of _ "\<lambda>_. True"])
qed

lemma fold_dequeue [simp]:
  "newToQueueStore (fold dequeue gs q) = filter (\<lambda>g. g \<notin> set gs) (newToQueueStore q)"
  "currentQueueStore (fold dequeue gs q) = filter (\<lambda>g. g \<notin> set gs) (currentQueueStore q)"
  "entry_view (fold dequeue gs q) = entry_view q" "GetCompatibles key (fold dequeue gs q) = GetCompatibles key q"
  by (induction gs arbitrary: q) (auto intro: filter_cong)

lemma fold_UpdateBest [simp]:
  "newToQueueStore (fold (\<lambda>g. UpdateBestCompatibleInQueue g key rs) gs q) = newToQueueStore q"
  "currentQueueStore (fold (\<lambda>g. UpdateBestCompatibleInQueue g key rs) gs q) = currentQueueStore q"
  "entry_view (fold (\<lambda>g. UpdateBestCompatibleInQueue g key rs) gs q) = entry_view q"
  "GetCompatibles key' (fold (\<lambda>g. UpdateBestCompatibleInQueue g key rs) gs q) = GetCompatibles key' q"
  by (induction gs arbitrary: q) simp_all

lemma make_proposal_queues: "make_proposal env check sc roles ds k = (p, k') \<Longrightarrow> pr_queues p = check"
  by (auto simp: make_proposal_def Let_def split: prod.splits)

definition start_scan :: scan where
  "start_scan = \<lparr>sc_groups = [], sc_players = 0, sc_lfg = 0, sc_group = 0\<rparr>"

text \<open>The match itself.\<close>

lemma match_result:
  assumes sc: "scan_entries env q check start_scan = Inr sc" and "set check \<subseteq> U"
    and five: "sc_players sc = MAXGROUPSIZE" "\<not> sc_lfg sc > 1" and m: "check_members env q check MAXGROUPSIZE = Inr (roles, ds)"
    and all: "AllQueued env check" and p: "make_proposal env check sc roles ds (rand_draws h) = (p, k)"
  shows "search_result env U (q, h) [p]
    (SetCompatibles (ConcatenateGuids check) LFG_COMPATIBLES_MATCH (fold dequeue check q), AddProposal p (h\<lparr>rand_draws := k\<rparr>))"
proof -
  note pq = make_proposal_queues [OF p]
  have "legal_proposal env (entry_view q) p" if v: "view_ok env (entry_view q)"
  proof -
    note counts = scan_entries_counts [OF sc _ _ refl v]
    have c: "MAXGROUPSIZE = (\<Sum>g \<leftarrow> check. length (view_roles (entry_view q) g))"
        "length (filter (qe_IsLfgGroup env) check) \<le> 1" "\<forall>g \<in> set check. entry_view q g \<noteq> None"
      using counts five by (auto simp: start_scan_def)
    have "check \<noteq> []" using all by (auto simp: AllQueued_def)
    from check_members_ok [OF m c(1) order_refl refl v c(3) this] make_proposal_legal [OF _ c(1) [symmetric] all c(3,2) p]
    show ?thesis by blast
  qed
  then show ?thesis
    using assms(2) pq added_one [of h p k] unfolding search_result_def
    by (auto simp: no_bad_states_def intro!: exI [of _ "\<lambda>g. g \<notin> set check"])
qed

lemma check_scanned_result:
  assumes sc: "scan_entries env q check start_scan = Inr sc" and U: "set check \<subseteq> U" and ne: "check \<noteq> []"
  shows "\<exists>ps. search_result env U (q, h) ps (snd (check_scanned env check sc (q, h)))"
proof -
  let ?key = "ConcatenateGuids check" and ?n = "sc_players sc"
  have cache: "search_result env U (q, h) [] (SetCompatibles ?key c q, h)"
    if "c \<notin> {LFG_COMPATIBLES_MATCH, LFG_COMPATIBLES_BAD_STATES}" for c
    using that by (intro search_result_cache) auto
  have less: "search_result env U (q, h) [] (SetCompatibilityData ?key d q', h)"
    if "cd_compatibility d = LFG_COMPATIBLES_WITH_LESS_PLAYERS" "entry_view q' = entry_view q"
      "newToQueueStore q' = newToQueueStore q" "currentQueueStore q' = currentQueueStore q"
      "\<And>key. GetCompatibles key q' = GetCompatibles key q" for d q'
    using that by (intro search_result_cache) auto
  consider (single) "length check = 1 \<and> ?n \<noteq> MAXGROUPSIZE" | (groups) "\<not> (length check = 1 \<and> ?n \<noteq> MAXGROUPSIZE)" "sc_lfg sc > 1"
    | (many) "\<not> (length check = 1 \<and> ?n \<noteq> MAXGROUPSIZE)" "\<not> sc_lfg sc > 1" "?n > MAXGROUPSIZE"
    | (members) "\<not> (length check = 1 \<and> ?n \<noteq> MAXGROUPSIZE)" "\<not> sc_lfg sc > 1" "\<not> ?n > MAXGROUPSIZE" by blast
  then show ?thesis
  proof cases
    case single
    then show ?thesis
      by (intro exI [of _ "[]"]) (auto simp: check_scanned_def Let_def CompatibilityData_new_def intro!: less)
  next
    case groups
    then show ?thesis by (intro exI [of _ "[]"]) (auto simp: check_scanned_def Let_def intro!: cache)
  next
    case many
    then show ?thesis by (intro exI [of _ "[]"]) (auto simp: check_scanned_def Let_def intro!: cache)
  next
    case members
    show ?thesis
    proof (cases "check_members env q check ?n")
      case (Inl c)
      with members low_compatibility [OF check_members_low [OF Inl]] show ?thesis
        by (intro exI [of _ "[]"]) (auto simp: check_scanned_def Let_def intro!: cache)
    next
      case (Inr m)
      obtain roles ds where m: "m = (roles, ds)" by (cases m)
      show ?thesis
      proof (cases "?n \<noteq> MAXGROUPSIZE \<or> \<not> AllQueued env check")
        case True
        have bad: "search_result env U (q, h) [] (SetCompatibles ?key LFG_COMPATIBLES_BAD_STATES q, h)" if "\<not> AllQueued env check"
        proof -
          have "\<exists>g \<in> U. qe_GetState env g \<noteq> LFG_STATE_QUEUED" using that ne U by (auto simp: AllQueued_def)
          then show ?thesis by (intro search_result_cache) auto
        qed
        from True members Inr m show ?thesis
          by (intro exI [of _ "[]"]) (auto simp: check_scanned_def Let_def CompatibilityData_new_def intro!: less bad)
      next
        case False
        obtain p k where p: "make_proposal env check sc roles ds (rand_draws h) = (p, k)" by (meson surj_pair)
        from False members Inr m p match_result [OF sc U _ members(2) _ _ p] show ?thesis
          by (intro exI [of _ "[p]"]) (auto simp: check_scanned_def Let_def)
      qed
    qed
  qed
qed

lemma absent_result:
  assumes "map_of (QueueDataStore q) g = None"
  shows "search_result env U (q, h) [] (RemoveFromQueue g q, h)"
proof -
  have "(entry_view q)(g := None) = entry_view q" "entry_view q g = None" using assms by (auto simp: entry_view_def)
  then show ?thesis
    by (auto simp: search_result_def entry_view_RemoveFromQueue no_bad_states_def GetCompatibles_RemoveFromQueue
      intro!: exI [of _ "\<lambda>x. x \<noteq> g"])
qed

lemma CheckCompatibility_result:
  "set check \<subseteq> U \<Longrightarrow> \<exists>ps. search_result env U s ps (snd (CheckCompatibility env check s))"
proof (induction env check s rule: CheckCompatibility.induct)
  case (2 env front rest s)
  let ?check = "front # rest"
  show ?case
  proof (cases "length ?check > MAXGROUPSIZE")
    case False
    obtain child q h where child: "(if length ?check > 2 then CheckCompatibility env rest s
        else (LFG_COMPATIBLES_MATCH, s)) = (child, q, h)" by (metis prod_cases3)
    have "\<exists>ps. search_result env U s ps (q, h)"
    proof (cases "length ?check > 2")
      case True
      with 2 False child show ?thesis by auto
    next
      case F: False
      then have "s = (q, h)" using child by simp
      with search_result_refl [of env U s] show ?thesis by blast
    qed
    then obtain ps where ps: "search_result env U s ps (q, h)" by blast
    have "\<exists>ps'. search_result env U (q, h) ps' (snd (CheckCompatibility env ?check s))"
    proof (cases "child < LFG_COMPATIBLES_WITH_LESS_PLAYERS")
      case True
      have "search_result env U (q, h) [] (SetCompatibles (ConcatenateGuids ?check) child q, h)"
        using low_compatibility [OF True] by (intro search_result_cache) auto
      with True False child show ?thesis by (auto simp del: length_Cons)
    next
      case F: False
      show ?thesis
      proof (cases "scan_entries env q ?check start_scan")
        case (Inl g)
        with F False child absent_result [OF scan_entries_absent [OF Inl]] show ?thesis
          by (auto simp: start_scan_def simp del: length_Cons scan_entries.simps)
      next
        case (Inr sc)
        with F False child check_scanned_result [OF Inr 2(2), of h] show ?thesis
          by (auto simp: start_scan_def simp del: length_Cons scan_entries.simps)
      qed
    qed
    with ps show ?thesis by (blast intro: search_result_trans)
  next
    case True
    with search_result_refl [of env U s] show ?thesis by auto
  qed
next
  case (1 env s)
  with search_result_refl [of env U s] show ?case by auto
qed

lemma cached_compatibility_result:
  assumes "set check \<subseteq> U" and "check \<noteq> []"
  shows "\<exists>ps. search_result env U s ps (snd (cached_compatibility env check s))"
proof -
  let ?key = "ConcatenateGuids check"
  obtain c q h where c: "(if GetCompatibles ?key (fst s) = LFG_COMPATIBILITY_PENDING then CheckCompatibility env check s
      else (GetCompatibles ?key (fst s), s)) = (c, q, h)" by (metis prod_cases3)
  obtain ps where ps: "search_result env U s ps (q, h)"
    using CheckCompatibility_result [OF assms(1), of env s] search_result_refl [of env U s] c by (auto split: if_splits)
  show ?thesis
  proof (cases "c = LFG_COMPATIBLES_BAD_STATES \<and> AllQueued env check")
    case True
    have bad: "GetCompatibles ?key q = LFG_COMPATIBLES_BAD_STATES"
      using True c CheckCompatibility_cached [of env check s LFG_COMPATIBLES_BAD_STATES] by (auto split: if_splits)
    then have "\<not> no_bad_states env U (q, h)" by (auto simp: no_bad_states_def)
    then have "search_result env U (q, h) [] (SetCompatibles ?key LFG_COMPATIBLES_MATCH q, h)"
      by (auto simp: search_result_def intro!: exI [of _ "\<lambda>_. True"])
    with ps True c show ?thesis
      by (auto simp: cached_compatibility_def Let_def dest: search_result_trans)
  next
    case False
    with ps c show ?thesis by (auto simp: cached_compatibility_def Let_def)
  qed
qed

interpretation result: search_invariant env "\<lambda>s. \<exists>ps. search_result env U s0 ps s" U for env U s0
proof unfold_locales
  fix s check
  assume "\<exists>ps. search_result env U s0 ps s" and c: "check \<noteq> []" "set check \<subseteq> U"
  then obtain ps where "search_result env U s0 ps s" by blast
  moreover obtain ps' where "search_result env U s ps' (snd (cached_compatibility env check s))"
    using cached_compatibility_result [OF c(2,1)] by blast
  ultimately show "\<exists>ps. search_result env U s0 ps (snd (cached_compatibility env check s))"
    by (blast intro: search_result_trans)
qed

subsection \<open>A key names its entries\<close>

definition decimal_value :: "string \<Rightarrow> nat" where
  "decimal_value ds = foldl (\<lambda>a c. 10 * a + (of_char c - 48)) 0 ds"

lemma decimal_value_decimal: "decimal_value (decimal n) = n"
proof (induction n rule: decimal.induct)
  case (1 n)
  show ?case
  proof (cases "n < 10")
    case True
    then show ?thesis by (simp add: decimal.simps [of n] decimal_value_def)
  next
    case False
    with 1 have "decimal_value (decimal (n div 10)) = n div 10" by blast
    moreover have "decimal_value (ds @ [char_of (48 + n mod 10)]) = 10 * decimal_value ds + n mod 10" for ds
      by (simp add: decimal_value_def)
    ultimately show ?thesis using False by (simp add: decimal.simps [of n])
  qed
qed

lemma no_bar_digit: "d < 10 \<Longrightarrow> char_of (48 + d :: nat) \<noteq> CHR ''|''"
proof
  assume d: "d < 10" and "char_of (48 + d) = CHR ''|''"
  then have "of_char (char_of (48 + d) :: char) = (124 :: nat)" by simp
  with d show False by simp
qed

lemma no_bar_decimal: "CHR ''|'' \<notin> set (decimal n)"
proof (induction n rule: decimal.induct)
  case (1 n)
  then show ?case
    using no_bar_digit [of n] no_bar_digit [of "n mod 10"] by (subst decimal.simps) auto
qed

lemma guid_string_eq: "guid_string g = guid_string h \<Longrightarrow> g = h"
  using decimal_value_decimal unfolding guid_string_def by (metis unsigned_word_eqI)

lemma join_guids_Cons: "join_guids (g # gs) = guid_string g @ (if gs = [] then [] else CHR ''|'' # join_guids gs)"
  by (cases gs) simp_all

lemma join_guids_inj: "join_guids xs = join_guids ys \<Longrightarrow> xs = ys"
proof (induction xs arbitrary: ys)
  case Nil
  then show ?case by (cases ys) (auto simp: join_guids_Cons split: if_splits)
next
  case (Cons x xs)
  then obtain y ys' where ys: "ys = y # ys'" by (cases ys) (auto simp: join_guids_Cons split: if_splits)
  have bar: "CHR ''|'' \<notin> set (guid_string g)" for g by (simp add: guid_string_def no_bar_decimal)
  have head: "takeWhile (\<lambda>c. c \<noteq> CHR ''|'') (join_guids (g # gs)) = guid_string g"
    "dropWhile (\<lambda>c. c \<noteq> CHR ''|'') (join_guids (g # gs)) = (if gs = [] then [] else CHR ''|'' # join_guids gs)" for g gs
    using bar [of g] by (auto simp: join_guids_Cons takeWhile_append dropWhile_append)
  have "x = y" using Cons.prems ys head(1) [of x xs] head(1) [of y ys'] guid_string_eq by simp
  moreover have "(if xs = [] then [] else CHR ''|'' # join_guids xs) = (if ys' = [] then [] else CHR ''|'' # join_guids ys')"
    using Cons.prems ys head(2) [of x xs] head(2) [of y ys'] by simp
  then have "xs = ys'" using Cons.IH by (auto split: if_splits)
  ultimately show ?case using ys by simp
qed

lemma ConcatenateGuids_set: "ConcatenateGuids xs = ConcatenateGuids ys \<Longrightarrow> set xs = set ys"
  unfolding ConcatenateGuids_def using join_guids_inj set_fold_insert by (metis Un_empty_right list.set(1))

subsection \<open>All new entries\<close>

definition kept :: "LFGQueue \<Rightarrow> LfgProposal list \<Rightarrow> u64 \<Rightarrow> bool" where
  "kept q ps g \<longleftrightarrow> g \<in> set (newToQueueStore q) \<or> g \<in> set (currentQueueStore q) \<or> (\<exists>p \<in> set ps. g \<in> set (pr_queues p))"

definition cache_ok :: "queue_env \<Rightarrow> u64 set \<Rightarrow> LfgProposal list \<Rightarrow> 'a search_state \<Rightarrow> bool" where
  "cache_ok env U ps s \<longleftrightarrow> no_bad_states env U s \<and>
     (\<forall>key. GetCompatibles key (fst s) = LFG_COMPATIBLES_MATCH \<longrightarrow> (\<exists>p \<in> set ps. key = ConcatenateGuids (pr_queues p)))"

lemma search_result_cache_ok:
  "search_result env U s ps s' \<Longrightarrow> cache_ok env U ps0 s \<Longrightarrow> cache_ok env U (ps0 @ ps) s'"
  unfolding search_result_def cache_ok_def by (metis Un_iff set_append)

lemma search_result_lists:
  assumes "search_result env U s ps s'"
  obtains P where "newToQueueStore (fst s') = filter P (newToQueueStore (fst s))"
    and "currentQueueStore (fst s') = filter P (currentQueueStore (fst s))"
    and "\<forall>g. \<not> P g \<longrightarrow> entry_view (fst s) g = None \<or> (\<exists>p \<in> set ps. g \<in> set (pr_queues p))"
  using assms unfolding search_result_def by blast

lemma search_result_kept:
  assumes "search_result env U s ps s'" and "kept (fst s) ps0 g" and "entry_view (fst s) g \<noteq> None"
  shows "kept (fst s') (ps0 @ ps) g"
proof -
  obtain P where P: "newToQueueStore (fst s') = filter P (newToQueueStore (fst s))"
      "currentQueueStore (fst s') = filter P (currentQueueStore (fst s))"
      "\<forall>g. \<not> P g \<longrightarrow> entry_view (fst s) g = None \<or> (\<exists>p \<in> set ps. g \<in> set (pr_queues p))"
    by (rule search_result_lists [OF assms(1)])
  show ?thesis
  proof (cases "P g")
    case True
    with P(1,2) assms(2) show ?thesis by (auto simp: kept_def)
  next
    case False
    then have "\<exists>p \<in> set ps. g \<in> set (pr_queues p)" using P(3) [THEN spec, of g] assms(3) by simp
    then show ?thesis by (auto simp: kept_def)
  qed
qed

lemma find_groups_loop_result:
  assumes "set (newToQueueStore (fst s)) \<union> set (currentQueueStore (fst s)) \<subseteq> U"
  shows "\<exists>n s' ps. find_groups_loop env k s = Some (n, s') \<and> added (snd s) ps (snd s') \<and>
    (\<forall>p \<in> set ps. set (pr_queues p) \<subseteq> U \<and> (view_ok env (entry_view (fst s)) \<longrightarrow> legal_proposal env (entry_view (fst s)) p)) \<and>
    (cache_ok env U ps0 s \<longrightarrow> (\<forall>g. kept (fst s) ps0 g \<and> entry_view (fst s) g \<noteq> None \<longrightarrow> kept (fst s') (ps0 @ ps) g))"
  using assms
proof (induction "length (newToQueueStore (fst s))" arbitrary: k s ps0 rule: less_induct)
  case less
  show ?case
  proof (cases "newToQueueStore (fst s)")
    case Nil
    then show ?thesis by (subst find_groups_loop.simps) (auto intro!: exI [of _ "[]"])
  next
    case (Cons front rest)
    let ?q = "RemoveFromNewQueue front (fst s)"
    have U: "set [front] \<subseteq> U" "set (currentQueueStore ?q) \<subseteq> U" using less.prems Cons by auto
    obtain c check' all' s1 ps1 where f: "FindNewGroups env [front] (currentQueueStore ?q) (?q, snd s) = Some (c, check', all', s1)"
        "matched c [front] check' s1" and r: "search_result env U (?q, snd s) ps1 s1"
      using result.FindNewGroups_returns [OF U(1) _ U(2), where env = env and s = "(?q, snd s)" and ?s0.0 = "(?q, snd s)"]
        search_result_refl [of env U "(?q, snd s)"] by (metis list.distinct(1))
    let ?t = "if c = LFG_COMPATIBLES_MATCH then s1 else (AddToCurrentQueue front (fst s1), snd s1)"
    have run: "find_groups_loop env k s = find_groups_loop env (if c = LFG_COMPATIBLES_MATCH then k + 1 else k) ?t"
      using Cons f(1) by (subst find_groups_loop.simps) (simp add: Let_def)
    obtain P where P: "newToQueueStore (fst s1) = filter P (filter (\<lambda>x. x \<noteq> front) rest)"
        "currentQueueStore (fst s1) = filter P (currentQueueStore (fst s))"
      using r Cons by (auto simp: search_result_def)
    have short: "length (newToQueueStore (fst ?t)) < length (newToQueueStore (fst s))"
      using P(1) Cons by (simp add: le_imp_less_Suc order_trans [OF length_filter_le])
    have sub: "set (newToQueueStore (fst ?t)) \<union> set (currentQueueStore (fst ?t)) \<subseteq> U"
      using P Cons less.prems by auto
    have v: "entry_view (fst ?t) = entry_view (fst s)" using r by (simp add: search_result_def)
    obtain n s' ps where rest: "find_groups_loop env (if c = LFG_COMPATIBLES_MATCH then k + 1 else k) ?t = Some (n, s')"
      "added (snd ?t) ps (snd s')"
      "\<forall>p \<in> set ps. set (pr_queues p) \<subseteq> U \<and> (view_ok env (entry_view (fst s)) \<longrightarrow> legal_proposal env (entry_view (fst s)) p)"
      "cache_ok env U (ps0 @ ps1) ?t \<longrightarrow> (\<forall>g. kept (fst ?t) (ps0 @ ps1) g \<and> entry_view (fst s) g \<noteq> None \<longrightarrow> kept (fst s') ((ps0 @ ps1) @ ps) g)"
      using less.hyps [OF short sub, of "if c = LFG_COMPATIBLES_MATCH then k + 1 else k" "ps0 @ ps1"] unfolding v by blast
    have "added (snd s) (ps1 @ ps) (snd s')"
      using r rest(2) by (auto simp: search_result_def intro: added_trans split: if_splits)
    moreover have "\<forall>p \<in> set (ps1 @ ps). set (pr_queues p) \<subseteq> U \<and> (view_ok env (entry_view (fst s)) \<longrightarrow> legal_proposal env (entry_view (fst s)) p)"
      using r rest(3) by (auto simp: search_result_def)
    moreover have "kept (fst s') (ps0 @ ps1 @ ps) g" if ok: "cache_ok env U ps0 s" and g: "kept (fst s) ps0 g" "entry_view (fst s) g \<noteq> None" for g
    proof -
      have ok1: "cache_ok env U (ps0 @ ps1) s1"
        using search_result_cache_ok [OF r, of ps0] ok
        by (simp add: cache_ok_def no_bad_states_def GetCompatibles_def RemoveFromNewQueue_def)
      then have okt: "cache_ok env U (ps0 @ ps1) ?t"
        by (simp add: cache_ok_def no_bad_states_def GetCompatibles_def AddToCurrentQueue_def)
      have "kept (fst ?t) (ps0 @ ps1) g"
      proof (cases "g = front")
        case True
        show ?thesis
        proof (cases "c = LFG_COMPATIBLES_MATCH")
          case m: True
          with f(2) ok1 obtain p where "p \<in> set (ps0 @ ps1)" "ConcatenateGuids check' = ConcatenateGuids (pr_queues p)"
              and "hd check' = front" "check' \<noteq> []"
            by (auto simp: matched_def cache_ok_def)
          then have "front \<in> set (pr_queues p)" using ConcatenateGuids_set by (metis hd_in_set)
          with \<open>p \<in> set (ps0 @ ps1)\<close> show ?thesis unfolding kept_def True by blast
        next
          case False
          then show ?thesis by (simp add: kept_def True)
        qed
      next
        case False
        with g(1) Cons have "kept (fst (?q, snd s)) ps0 g" by (auto simp: kept_def)
        with search_result_kept [OF r this] g(2) have "kept (fst s1) (ps0 @ ps1) g" by simp
        then show ?thesis by (auto simp: kept_def)
      qed
      with rest(4) okt g(2) show ?thesis by simp
    qed
    ultimately show ?thesis using run rest(1) by (intro exI [of _ n] exI [of _ s'] exI [of _ "ps1 @ ps"]) auto
  qed
qed

end
