(* ===== verification/LfgRuns.thy ===== *)
theory LfgRuns
  imports LfgProposals
begin

text \<open>
  The theorems about the searches of the dungeon finder queue, and concrete searches on a queue of
  three groups and two players: they witness the theorems and show where the search falls short of
  what its comments say.
\<close>

subsection \<open>A sample queue\<close>

text \<open>With one role each the role search has nothing to choose.\<close>

lemma group_roles_single:
  assumes "\<forall>x \<in> set gs. single_role (snd x)" and "gs \<noteq> []" and "length gs < 256"
  shows "group_roles gs = (role_count PLAYER_ROLE_TANK gs \<le> LFG_TANKS_NEEDED \<and>
    role_count PLAYER_ROLE_HEALER gs \<le> LFG_HEALERS_NEEDED \<and> role_count PLAYER_ROLE_DAMAGE gs \<le> LFG_DPS_NEEDED, gs)"
proof -
  have single: "\<forall>i < length gs. single_role (role_at gs i)" using assms(1) by (simp add: role_at_def)
  have c: "clear_leader_flags gs = gs"
    using assms(1) by (auto simp: clear_leader_flags_def single_role_def role_defs intro!: map_idI split: prod.splits)
  have only: "as = gs" if "role_assignment gs as" for as
    using that single by (auto simp: role_assignment_def list_all2_conv_all_nth role_at_def single_role_choice
      intro!: nth_equalityI prod_eqI)
  show ?thesis
  proof (cases "feasible gs")
    case True
    with feasible_bounds [OF True] only CheckGroupRoles_ok [OF assms(2,3), of True] show ?thesis
      by (auto simp: c search_ok_def group_roles_def split: option.splits if_splits)
  next
    case False
    then have "\<not> (role_count PLAYER_ROLE_TANK gs \<le> LFG_TANKS_NEEDED \<and>
        role_count PLAYER_ROLE_HEALER gs \<le> LFG_HEALERS_NEEDED \<and> role_count PLAYER_ROLE_DAMAGE gs \<le> LFG_DPS_NEEDED)"
      using all_single_assignment [OF single] by (auto simp: feasible_def)
    with False CheckGroupRoles_ok [OF assms(2,3), of True] show ?thesis
      by (auto simp: c search_ok_def group_roles_def split: option.splits if_splits)
  qed
qed

text \<open>Everyone is queued, nobody ignores anyone, and every random number is the least.\<close>

definition sample_env :: queue_env where
  "sample_env = \<lparr>qe_IsLfgGroup = (\<lambda>_. False), qe_HasIgnore = (\<lambda>_ _. False), qe_GetOldState = (\<lambda>_. LFG_STATE_NONE),
     qe_GetState = (\<lambda>_. LFG_STATE_QUEUED), qe_time = 1000, qe_rand = (\<lambda>_. 0)\<rparr>"

definition sample_host :: lfg_host where
  "sample_host = \<lparr>ProposalsStore = [], m_lfgProposalId = 0, rand_draws = 0\<rparr>"

definition two_group :: u64 where "two_group = 0x1F50000000000001"
definition three_group :: u64 where "three_group = 0x1F50000000000002"
definition pair_group :: u64 where "pair_group = 0x1F50000000000003"

text \<open>The player 19 is new; the others were left in the queue.\<close>

definition run_queue :: LFGQueue where
  "run_queue = foldl (\<lambda>q g. AddToCurrentQueue g (RemoveFromNewQueue g q)) (
     AddQueueData 19 0 [3] [(19, PLAYER_ROLE_DAMAGE)] (
     AddQueueData pair_group 0 [2, 3] [(16, PLAYER_ROLE_HEALER), (17, PLAYER_ROLE_DAMAGE)] (
     AddQueueData three_group 0 [1, 3] [(13, PLAYER_ROLE_HEALER), (14, PLAYER_ROLE_DAMAGE), (15, PLAYER_ROLE_DAMAGE)] (
     AddQueueData two_group 0 [1, 3] [(11, PLAYER_ROLE_TANK), (12, PLAYER_ROLE_DAMAGE)] (
     AddQueueData 10 0 [1, 2] [(10, PLAYER_ROLE_DAMAGE)] LFGQueue_new))))) [10, two_group, three_group, pair_group]"

lemma fold_insert_same_set:
  assumes "set xs = set ys"
  shows "fold os_insert xs [] = fold os_insert ys ([] :: u64 list)"
proof -
  have ok: "os_ok s \<Longrightarrow> os_ok (fold os_insert zs s)" for zs s :: "u64 list" by (induction zs arbitrary: s) auto
  show ?thesis
    using ok [of "[]" xs] ok [of "[]" ys] assms by (intro sorted_distinct_set_unique) (auto simp: os_ok_sorted)
qed

lemma ConcatenateGuids_eq: "ConcatenateGuids xs = ConcatenateGuids ys \<longleftrightarrow> set xs \<subseteq> set ys \<and> set ys \<subseteq> set xs"
  using ConcatenateGuids_set fold_insert_same_set unfolding ConcatenateGuids_def by (metis subset_antisym order_refl)

lemma scan_entries_view:
  "scan_entries env q (guid # check) s =
    (if sc_lfg s < 2 \<and> sc_players s \<le> MAXGROUPSIZE
     then (case entry_view q guid of
         None \<Rightarrow> Inl guid
       | Some (ds, rs) \<Rightarrow>
           let s = s\<lparr>sc_groups := store_group guid rs (sc_groups s), sc_players := (sc_players s + length rs) mod 256\<rparr>;
               s = (if qe_IsLfgGroup env guid
                    then s\<lparr>sc_group := (if sc_lfg s = 0 then guid else sc_group s), sc_lfg := sc_lfg s + 1\<rparr>
                    else s)
           in scan_entries env q check s)
     else Inr s)"
  by (simp add: entry_view_def split: option.splits)

lemma entry_roles: "qd_roles (entry q g) = view_roles (entry_view q) g" "qd_dungeons (entry q g) = view_dungeons (entry_view q) g"
  using entry_view_entry [OF refl] by simp_all

lemma find_groups_loop_Nil: "newToQueueStore q = [] \<Longrightarrow> find_groups_loop env k (q, h) = Some (k, (q, h))"
  by (subst find_groups_loop.simps) simp

lemma find_groups_loop_Cons:
  "newToQueueStore q = front # rest \<Longrightarrow> find_groups_loop env k (q, h) =
     Option.bind (FindNewGroups env [front] (currentQueueStore q) (RemoveFromNewQueue front q, h)) (\<lambda>(c, check, all, s).
       find_groups_loop env (if c = LFG_COMPATIBLES_MATCH then k + 1 else k)
         (if c = LFG_COMPATIBLES_MATCH then s else (AddToCurrentQueue front (fst s), snd s)))"
  by (subst find_groups_loop.simps)
    (auto simp: Let_def intro!: arg_cong2 [where f = Option.bind])

lemma run_view:
  "entry_view run_queue 10 = Some ([1, 2], [(10, PLAYER_ROLE_DAMAGE)])"
  "entry_view run_queue two_group = Some ([1, 3], [(11, PLAYER_ROLE_TANK), (12, PLAYER_ROLE_DAMAGE)])"
  "entry_view run_queue three_group = Some ([1, 3], [(13, PLAYER_ROLE_HEALER), (14, PLAYER_ROLE_DAMAGE), (15, PLAYER_ROLE_DAMAGE)])"
  "entry_view run_queue pair_group = Some ([2, 3], [(16, PLAYER_ROLE_HEALER), (17, PLAYER_ROLE_DAMAGE)])"
  "entry_view run_queue 19 = Some ([3], [(19, PLAYER_ROLE_DAMAGE)])"
  "newToQueueStore run_queue = [19]" "currentQueueStore run_queue = [10, two_group, three_group, pair_group]"
  "GetCompatibles key run_queue = LFG_COMPATIBILITY_PENDING"
  by (simp_all add: run_queue_def AddQueueData_def AddToQueue_def AddToNewQueue_def entry_view_def LFGQueue_new_def
    LfgQueueData_new_def two_group_def three_group_def pair_group_def GetCompatibles_def
    RemoveFromNewQueue_def AddToCurrentQueue_def)

lemma GetCompatibles_lists [simp]:
  "GetCompatibles key (RemoveFromNewQueue h q) = GetCompatibles key q"
  "GetCompatibles key (AddToCurrentQueue h q) = GetCompatibles key q"
  by (simp_all add: GetCompatibles_def RemoveFromNewQueue_def AddToCurrentQueue_def)

lemma sample_env_simps [simp]:
  "qe_IsLfgGroup sample_env g = False" "qe_HasIgnore sample_env a b = False" "qe_GetOldState sample_env g = LFG_STATE_NONE"
  "AllQueued sample_env check \<longleftrightarrow> check \<noteq> []" "qe_time sample_env = 1000" "urand sample_env k lo hi = lo"
  by (simp_all add: sample_env_def AllQueued_def urand_def)

lemma run_guids:
  "two_group \<noteq> 10" "three_group \<noteq> 10" "pair_group \<noteq> 10" "two_group \<noteq> 19" "three_group \<noteq> 19" "pair_group \<noteq> 19"
  "two_group \<noteq> three_group" "two_group \<noteq> pair_group" "three_group \<noteq> pair_group"
  by (simp_all add: two_group_def three_group_def pair_group_def)

lemmas run_guids_both = run_guids run_guids [symmetric]

lemma run_group_guids:
  "IS_GROUP_GUID two_group" "IS_GROUP_GUID three_group" "IS_GROUP_GUID pair_group" "\<not> IS_GROUP_GUID 10" "\<not> IS_GROUP_GUID 19"
  by (simp_all add: two_group_def three_group_def pair_group_def IS_GROUP_GUID_def GUID_HIPART_def Let_def)

lemmas run_simps = find_groups_loop_Cons find_groups_loop_Nil FindNewGroups_def match_loop_Cons
  cached_compatibility_def ConcatenateGuids_eq run_view run_guids_both run_group_guids check_scanned_def scan_entries_view
  entry_roles check_members_def view_roles_def view_dungeons_def Let_def MAXGROUPSIZE_def less_LfgCompatibility_def
  group_roles_single single_role_def role_count_def role_defs needed_defs CompatibilityData_new_def
  make_proposal_def LfgProposal_new_def AddProposal_def sample_host_def

subsection \<open>Every search\<close>

lemma find_groups_loop_empties:
  "find_groups_loop env k s = Some (n, s') \<Longrightarrow> newToQueueStore (fst s') = []"
  using find_groups_loop_returns [of env k s] by auto

text \<open>
  C4: Every proposal a run of FindGroups adds is a legal group: five different players, exactly
  those of the entries it took, everyone queued, a dungeon each entry selected, at most one
  dungeon finder group, and for a match of several entries one tank, one healer and three damage
  dealers with roles they asked for and no player ignoring another.
\<close>

theorem proposals_legal:
  assumes "view_ok env (entry_view q)"
  shows "\<exists>n q' h' ps. FindGroups env (q, h) = Some (n, q', h') \<and> h' = (fold AddProposal ps h)\<lparr>rand_draws := rand_draws h'\<rparr> \<and>
    (\<forall>p \<in> set ps. legal_proposal env (entry_view q) p)"
  using find_groups_loop_result [of "(q, h)" UNIV env 0] assms
  by (fastforce simp: FindGroups_def added_def)

text \<open>
  C20: When everyone in the lists is in the queued state and the cache holds no match and no bad
  state, every queued entry is after FindGroups either waiting in the current queue or in one of
  the proposals that were added.
\<close>

theorem nobody_lost:
  assumes "\<forall>g. g \<in> set (newToQueueStore q) \<union> set (currentQueueStore q) \<longrightarrow> qe_GetState env g = LFG_STATE_QUEUED"
    and "\<forall>key. GetCompatibles key q \<noteq> LFG_COMPATIBLES_MATCH \<and> GetCompatibles key q \<noteq> LFG_COMPATIBLES_BAD_STATES"
  shows "\<exists>n q' h' ps. FindGroups env (q, h) = Some (n, q', h') \<and> h' = (fold AddProposal ps h)\<lparr>rand_draws := rand_draws h'\<rparr> \<and>
    (\<forall>g. g \<in> set (newToQueueStore q) \<union> set (currentQueueStore q) \<and> entry_view q g \<noteq> None \<longrightarrow>
       g \<in> set (currentQueueStore q') \<or> (\<exists>p \<in> set ps. g \<in> set (pr_queues p)))"
proof -
  let ?U = "set (newToQueueStore q) \<union> set (currentQueueStore q)"
  have "cache_ok env ?U [] (q, h)" using assms by (auto simp: cache_ok_def no_bad_states_def)
  with find_groups_loop_result [of "(q, h)" ?U env 0 "[]"] obtain n s' ps where
    r: "find_groups_loop env 0 (q, h) = Some (n, s')" "added h ps (snd s')"
      "\<forall>g. kept q [] g \<and> entry_view q g \<noteq> None \<longrightarrow> kept (fst s') ps g" by auto
  have "newToQueueStore (fst s') = []" by (rule find_groups_loop_empties [OF r(1)])
  with r show ?thesis
    by (intro exI [of _ n] exI [of _ "fst s'"] exI [of _ "snd s'"] exI [of _ ps])
      (auto simp: FindGroups_def added_def kept_def)
qed

lemma run_view_ok: "view_ok sample_env (entry_view run_queue)"
  by (auto simp: view_ok_def entry_view_def run_queue_def AddQueueData_def AddToQueue_def AddToNewQueue_def LFGQueue_new_def
    LfgQueueData_new_def RemoveFromNewQueue_def AddToCurrentQueue_def om_ok_def run_guids_both run_group_guids split: if_splits)

theorem proposals_legal_witness:
  "\<exists>n q' h' ps. FindGroups sample_env (run_queue, sample_host) = Some (n, q', h') \<and>
     h' = (fold AddProposal ps sample_host)\<lparr>rand_draws := rand_draws h'\<rparr> \<and>
    (\<forall>p \<in> set ps. legal_proposal sample_env (entry_view run_queue) p)"
  by (rule proposals_legal [OF run_view_ok])

theorem nobody_lost_witness:
  "\<exists>n q' h' ps. FindGroups sample_env (run_queue, sample_host) = Some (n, q', h') \<and>
     h' = (fold AddProposal ps sample_host)\<lparr>rand_draws := rand_draws h'\<rparr> \<and>
    (\<forall>g. g \<in> set (newToQueueStore run_queue) \<union> set (currentQueueStore run_queue) \<and> entry_view run_queue g \<noteq> None \<longrightarrow>
       g \<in> set (currentQueueStore q') \<or> (\<exists>p \<in> set ps. g \<in> set (pr_queues p)))"
  by (rule nobody_lost) (simp_all add: run_view sample_env_def)

text \<open>
  A cached bad state that is retried when everybody is queued again is reported as a match
  without a proposal: FindGroups counts a group, adds no proposal and leaves the entry in no list.
\<close>

theorem bad_state_retry_drops_group:
  assumes "newToQueueStore q = [g]" and "GetCompatibles (ConcatenateGuids [g]) q = LFG_COMPATIBLES_BAD_STATES"
    and "qe_GetState env g = LFG_STATE_QUEUED"
  shows "\<exists>q'. FindGroups env (q, h) = Some (1, q', h) \<and> newToQueueStore q' = [] \<and>
    currentQueueStore q' = currentQueueStore q"
  using assms
  by (simp add: FindGroups_def find_groups_loop_Cons find_groups_loop_Nil FindNewGroups_def cached_compatibility_def AllQueued_def Let_def)

theorem bad_state_retry_drops_group_witness:
  "\<exists>q'. FindGroups sample_env (SetCompatibles (ConcatenateGuids [19]) LFG_COMPATIBLES_BAD_STATES run_queue, sample_host) =
     Some (1, q', sample_host) \<and> newToQueueStore q' = [] \<and> 19 \<notin> set (currentQueueStore q')"
  using bad_state_retry_drops_group
    [of "SetCompatibles (ConcatenateGuids [19]) LFG_COMPATIBLES_BAD_STATES run_queue" 19 sample_env sample_host]
  by (auto simp: run_view sample_env_def run_guids_both)

text \<open>
  \<open>CheckGroupRoles\<close> removes the leader flags before the roles are searched, so nobody who is offered a
  proposal still has the flag by which \<open>choose_leader\<close> would prefer him.
\<close>

text \<open>
  The roles from which choose_leader picks the leader of a match no longer contain the leader
  flag, so the wish to lead is never honoured.
\<close>

theorem leader_wish_lost:
  assumes "check_members env q check n = Inr (roles, ds)" and "length check > 1"
    and "n = (\<Sum>g \<leftarrow> check. length (view_roles (entry_view q) g))" and "n \<le> MAXGROUPSIZE"
    and "view_ok env (entry_view q)" and "\<forall>g \<in> set check. entry_view q g \<noteq> None"
  shows "\<forall>(p, r) \<in> set roles. r AND PLAYER_ROLE_LEADER = 0"
proof -
  have "check \<noteq> []" using assms(2) by auto
  from check_members_ok [OF assms(1,3,4) refl assms(5,6) this] assms(2)
  have "\<forall>(p, r) \<in> set roles. r \<in> role_flags"
    by (fastforce simp: members_ok_def dest: role_choice_flag)
  then show ?thesis by (auto simp: role_flags_def role_defs)
qed

theorem leader_wish_lost_witness:
  "PLAYER_ROLE_TANK AND PLAYER_ROLE_LEADER = 0 \<and> PLAYER_ROLE_DAMAGE AND PLAYER_ROLE_LEADER = 0"
  using leader_wish_lost [of sample_env run_queue "[19, two_group]" 3
      "[(11, PLAYER_ROLE_TANK), (12, PLAYER_ROLE_DAMAGE), (19, PLAYER_ROLE_DAMAGE)]" "[3]"]
  by (simp add: run_simps run_view_ok)

subsection \<open>Concrete searches\<close>

text \<open>
  An example: CheckCompatibility also makes a proposal when the check of all but the newest entry is
  already a match, and the search goes on: in the sample queue one run of FindGroups reports one
  group but adds two proposals that share a group of players.
\<close>

theorem search_double_books:
  "\<exists>q' h'. FindGroups sample_env (run_queue, sample_host) = Some (1, q', h') \<and>
     map (\<lambda>(i, p). pr_queues p) (ProposalsStore h') = [[two_group, three_group], [19, two_group, pair_group]] \<and>
     11 \<in> fst ` set (pr_players (snd (ProposalsStore h' ! 0))) \<inter> fst ` set (pr_players (snd (ProposalsStore h' ! 1)))"
  by (simp add: FindGroups_def run_simps del: scan_entries.simps(2))

text \<open>
  FindNewGroups hands the list of candidates to the recursive call by reference, which uses
  it up: in the sample queue the entry and a queued group match, but the search reports that more
  players are needed.
\<close>

theorem search_skips_match:
  "fst (CheckCompatibility sample_env [three_group, two_group] (run_queue, sample_host)) = LFG_COMPATIBLES_MATCH \<and>
   map_option fst (FindNewGroups sample_env [three_group] [10, two_group] (run_queue, sample_host)) = Some LFG_COMPATIBLES_WITH_LESS_PLAYERS"
  by (simp_all add: run_simps del: scan_entries.simps(2))

end
