(* ===== verification/LfgManager.thy ===== *)
theory LfgManager
  imports LfgSearch "HOL-Library.Signed_Division"
begin

text \<open>
  \<open>LFGMgr\<close>: its stores, the accessors of player and group data, the choice of the queue and the
  messages to the clients. The maps of player and group data are read and written with
  \<open>operator[]\<close>, which creates a default entry, and nothing asks whether an entry exists; they are
  total functions. The other stores are iterated over and are ordered lists.
\<close>

subsection \<open>Data\<close>

datatype LfgUpdateType =
    LFG_UPDATETYPE_DEFAULT | LFG_UPDATETYPE_LEADER_UNK1 | LFG_UPDATETYPE_ROLECHECK_ABORTED
  | LFG_UPDATETYPE_JOIN_QUEUE | LFG_UPDATETYPE_ROLECHECK_FAILED | LFG_UPDATETYPE_REMOVED_FROM_QUEUE
  | LFG_UPDATETYPE_PROPOSAL_FAILED | LFG_UPDATETYPE_PROPOSAL_DECLINED | LFG_UPDATETYPE_GROUP_FOUND
  | LFG_UPDATETYPE_ADDED_TO_QUEUE | LFG_UPDATETYPE_PROPOSAL_BEGIN | LFG_UPDATETYPE_UPDATE_STATUS
  | LFG_UPDATETYPE_GROUP_MEMBER_OFFLINE | LFG_UPDATETYPE_GROUP_DISBAND_UNK16 | LFG_UPDATETYPE_JOIN_QUEUE_INITIAL
  | LFG_UPDATETYPE_DUNGEON_FINISHED | LFG_UPDATETYPE_PARTY_ROLE_NOT_AVAILABLE | LFG_UPDATETYPE_JOIN_LFG_OBJECT_FAILED

datatype LfgJoinResult =
    LFG_JOIN_OK | LFG_JOIN_FAILED | LFG_JOIN_GROUPFULL | LFG_JOIN_INTERNAL_ERROR | LFG_JOIN_NOT_MEET_REQS
  | LFG_JOIN_MIXED_RAID_DUNGEON | LFG_JOIN_MULTI_REALM | LFG_JOIN_DISCONNECTED | LFG_JOIN_PARTY_INFO_FAILED
  | LFG_JOIN_DUNGEON_INVALID | LFG_JOIN_DESERTER | LFG_JOIN_PARTY_DESERTER | LFG_JOIN_RANDOM_COOLDOWN
  | LFG_JOIN_PARTY_RANDOM_COOLDOWN | LFG_JOIN_TOO_MUCH_MEMBERS | LFG_JOIN_USING_BG_SYSTEM | LFG_JOIN_ROLE_CHECK_FAILED

datatype LfgRoleCheckState =
    LFG_ROLECHECK_DEFAULT | LFG_ROLECHECK_FINISHED | LFG_ROLECHECK_INITIALITING | LFG_ROLECHECK_MISSING_ROLE
  | LFG_ROLECHECK_WRONG_ROLES | LFG_ROLECHECK_ABORTED | LFG_ROLECHECK_NO_ROLE

datatype LfgType = LFG_TYPE_NONE | LFG_TYPE_DUNGEON | LFG_TYPE_RAID | LFG_TYPE_HEROIC | LFG_TYPE_RANDOM

record LfgUpdateData =
  ud_updateType :: LfgUpdateType
  ud_state :: LfgState
  ud_dungeons :: LfgDungeonSet
  ud_comment :: string

definition UpdateData :: "LfgUpdateType \<Rightarrow> LfgDungeonSet \<Rightarrow> string \<Rightarrow> LfgUpdateData" where
  "UpdateData t ds c = \<lparr>ud_updateType = t, ud_state = LFG_STATE_NONE, ud_dungeons = ds, ud_comment = c\<rparr>"

type_synonym LfgLockPartyMap = "(u64 \<times> LfgLockMap) list"

record LfgJoinResultData =
  jd_result :: LfgJoinResult
  jd_state :: LfgRoleCheckState
  jd_lockmap :: LfgLockPartyMap

definition JoinResultData :: "LfgJoinResult \<Rightarrow> LfgRoleCheckState \<Rightarrow> LfgJoinResultData" where
  "JoinResultData r s = \<lparr>jd_result = r, jd_state = s, jd_lockmap = []\<rparr>"

record LfgQueueStatusData =
  qs_queueId :: u8
  qs_dungeonId :: u32
  qs_joinTime :: int
  qs_waitTime :: u32
  qs_waitTimeAvg :: u32
  qs_waitTimeTank :: u32
  qs_waitTimeHealer :: u32
  qs_waitTimeDps :: u32
  qs_queuedTime :: u32
  qs_tanks :: u8
  qs_healers :: u8
  qs_dps :: u8

record LfgRoleCheck =
  rc_cancelTime :: int
  rc_roles :: LfgRolesMap
  rc_state :: LfgRoleCheckState
  rc_dungeons :: LfgDungeonSet
  rc_rDungeonId :: u32
  rc_leader :: u64

record LfgPlayerBoot =
  bt_cancelTime :: int
  bt_inProgress :: bool
  bt_votes :: "(u64 \<times> LfgAnswer) list"
  bt_victim :: u64
  bt_reason :: string

record LfgReward =
  rw_maxLevel :: u32
  rw_firstQuest :: u32
  rw_otherQuest :: u32

text \<open>\<open>LFGDungeonData\<close> without its name; the coordinates are bit patterns of floats.\<close>

record LFGDungeonData =
  dg_id :: u32
  dg_map :: u16
  dg_type :: LfgType
  dg_expansion :: u8
  dg_group :: u8
  dg_minlevel :: u8
  dg_maxlevel :: u8
  dg_difficulty :: nat
  dg_seasonal :: bool
  dg_x :: u32
  dg_y :: u32
  dg_z :: u32
  dg_o :: u32

primrec type_code :: "LfgType \<Rightarrow> u32" where
  "type_code LFG_TYPE_NONE = 0"
| "type_code LFG_TYPE_DUNGEON = 1"
| "type_code LFG_TYPE_RAID = 2"
| "type_code LFG_TYPE_HEROIC = 5"
| "type_code LFG_TYPE_RANDOM = 6"

definition dungeon_Entry :: "LFGDungeonData \<Rightarrow> u32" where
  "dungeon_Entry d = dg_id d + push_bit 24 (type_code (dg_type d))"

text \<open>The packets the manager hands to the sessions of players.\<close>

datatype lfg_message =
    RoleChosen u64 u8
  | RoleCheckUpdate LfgRoleCheck
  | UpdateStatus LfgUpdateData bool
  | JoinResult LfgJoinResultData
  | BootProposalUpdate LfgPlayerBoot
  | ProposalUpdate LfgProposal
  | QueueStatus LfgQueueStatusData
  | PlayerReward u32 u32 bool u32
  | OfferContinue u32
  | CastSpell u32

text \<open>
  The manager. \<open>sent\<close> is the history of the packets, each with the player it goes to.
\<close>

record LFGMgr = lfg_host +
  m_QueueTimer :: u32
  m_options :: u32
  QueuesStore :: "(u8 \<times> LFGQueue) list"
  CachedDungeonMapStore :: "(u8 \<times> LfgDungeonSet) list"
  RewardMapStore :: "(u32 \<times> LfgReward) list"
  LfgDungeonStore :: "(u32 \<times> LFGDungeonData) list"
  RoleChecksStore :: "(u64 \<times> LfgRoleCheck) list"
  BootsStore :: "(u64 \<times> LfgPlayerBoot) list"
  PlayersStore :: "u64 \<Rightarrow> LfgPlayerData"
  GroupsStore :: "u64 \<Rightarrow> LfgGroupData"
  sent :: "(u64 \<times> lfg_message) list"

definition LFGMgr_new :: "u32 \<Rightarrow> LFGMgr" where
  "LFGMgr_new options = \<lparr>ProposalsStore = [], m_lfgProposalId = 1, rand_draws = 0, m_QueueTimer = 0, m_options = options,
     QueuesStore = [], CachedDungeonMapStore = [], RewardMapStore = [], LfgDungeonStore = [], RoleChecksStore = [],
     BootsStore = [], PlayersStore = (\<lambda>_. LfgPlayerData_new), GroupsStore = (\<lambda>_. LfgGroupData_new), sent = []\<rparr>"

text \<open>
  What the manager asks the rest of the server: who is online (\<open>ObjectAccessor::FindPlayer\<close>), whom a
  player ignores, the clock, random numbers, and the group object of a GUID, if there is one, with
  its \<open>isLFGGroup\<close>.
\<close>

record lfg_world =
  lw_online :: "u64 \<Rightarrow> bool"
  lw_ignores :: "u64 \<Rightarrow> u32 \<Rightarrow> bool"
  lw_time :: int
  lw_rand :: "nat \<Rightarrow> nat"
  lw_group :: "u64 \<Rightarrow> bool option"
  lw_two_sides :: bool

definition LFG_TIME_ROLECHECK :: int where "LFG_TIME_ROLECHECK = 45 * 1000"
definition LFG_TIME_BOOT :: int where "LFG_TIME_BOOT = 120"
definition LFG_QUEUEUPDATE_INTERVAL :: u32 where "LFG_QUEUEUPDATE_INTERVAL = 15 * 1000"
definition LFG_GROUP_KICK_VOTES_NEEDED :: nat where "LFG_GROUP_KICK_VOTES_NEEDED = 3"
definition LFG_OPTION_ENABLE_DUNGEON_FINDER :: u32 where "LFG_OPTION_ENABLE_DUNGEON_FINDER = 1"
definition LFG_OPTION_ENABLE_RAID_BROWSER :: u32 where "LFG_OPTION_ENABLE_RAID_BROWSER = 2"

subsection \<open>Player and group data\<close>

definition upd_player :: "u64 \<Rightarrow> (LfgPlayerData \<Rightarrow> LfgPlayerData) \<Rightarrow> LFGMgr \<Rightarrow> LFGMgr" where
  "upd_player guid f m = m\<lparr>PlayersStore := (PlayersStore m)(guid := f (PlayersStore m guid))\<rparr>"

definition upd_group :: "u64 \<Rightarrow> (LfgGroupData \<Rightarrow> LfgGroupData) \<Rightarrow> LFGMgr \<Rightarrow> LFGMgr" where
  "upd_group guid f m = m\<lparr>GroupsStore := (GroupsStore m)(guid := f (GroupsStore m guid))\<rparr>"

definition GetState :: "u64 \<Rightarrow> LFGMgr \<Rightarrow> LfgState" where
  "GetState guid m = (if IS_GROUP_GUID guid then gd_State (GroupsStore m guid) else pd_State (PlayersStore m guid))"

definition GetOldState :: "u64 \<Rightarrow> LFGMgr \<Rightarrow> LfgState" where
  "GetOldState guid m = (if IS_GROUP_GUID guid then gd_OldState (GroupsStore m guid) else pd_OldState (PlayersStore m guid))"

definition SetState :: "u64 \<Rightarrow> LfgState \<Rightarrow> LFGMgr \<Rightarrow> LFGMgr" where
  "SetState guid s m =
    (if IS_GROUP_GUID guid then upd_group guid (GroupData_SetState s) m else upd_player guid (PlayerData_SetState s) m)"

definition RestoreState :: "u64 \<Rightarrow> LFGMgr \<Rightarrow> LFGMgr" where
  "RestoreState guid m =
    (if IS_GROUP_GUID guid then upd_group guid GroupData_RestoreState m else upd_player guid PlayerData_RestoreState m)"

definition GetDungeon :: "u64 \<Rightarrow> bool \<Rightarrow> LFGMgr \<Rightarrow> u32" where
  "GetDungeon guid asId m = GroupData_GetDungeon asId (GroupsStore m guid)"

definition GetLFGDungeon :: "u32 \<Rightarrow> LFGMgr \<Rightarrow> LFGDungeonData option" where
  "GetLFGDungeon i m = map_of (LfgDungeonStore m) i"

definition GetDungeonMapId :: "u64 \<Rightarrow> LFGMgr \<Rightarrow> u32" where
  "GetDungeonMapId guid m =
    (let i = GetDungeon guid True m
     in if i \<noteq> 0 then (case GetLFGDungeon i m of Some d \<Rightarrow> ucast (dg_map d) | None \<Rightarrow> 0) else 0)"

definition GetDungeonType :: "u32 \<Rightarrow> LFGMgr \<Rightarrow> LfgType" where
  "GetDungeonType i m = (case GetLFGDungeon i m of Some d \<Rightarrow> dg_type d | None \<Rightarrow> LFG_TYPE_NONE)"

definition GetLFGDungeonEntry :: "u32 \<Rightarrow> LFGMgr \<Rightarrow> u32" where
  "GetLFGDungeonEntry i m =
    (if i \<noteq> 0 then (case GetLFGDungeon i m of Some d \<Rightarrow> dungeon_Entry d | None \<Rightarrow> 0) else 0)"

definition GetDungeonsByRandom :: "u32 \<Rightarrow> LFGMgr \<Rightarrow> LfgDungeonSet" where
  "GetDungeonsByRandom i m =
     om_at [] (CachedDungeonMapStore m) (case GetLFGDungeon i m of Some d \<Rightarrow> dg_group d | None \<Rightarrow> 0)"

text \<open>The first reward of the dungeon whose level is high enough, else its last.\<close>

fun first_reward :: "u8 \<Rightarrow> LfgReward option \<Rightarrow> LfgReward list \<Rightarrow> LfgReward option" where
  "first_reward level rew [] = rew"
| "first_reward level rew (r # rs) = (if rw_maxLevel r \<ge> ucast level then Some r else first_reward level (Some r) rs)"

definition GetRandomDungeonReward :: "u32 \<Rightarrow> u8 \<Rightarrow> LFGMgr \<Rightarrow> LfgReward option" where
  "GetRandomDungeonReward dungeon level m =
     first_reward level None (map snd (filter (\<lambda>x. fst x = dungeon AND 0x00FFFFFF) (RewardMapStore m)))"

definition SetDungeon :: "u64 \<Rightarrow> u32 \<Rightarrow> LFGMgr \<Rightarrow> LFGMgr" where
  "SetDungeon guid d m = upd_group guid (\<lambda>g. g\<lparr>gd_Dungeon := d\<rparr>) m"

definition SetRoles :: "u64 \<Rightarrow> u8 \<Rightarrow> LFGMgr \<Rightarrow> LFGMgr" where
  "SetRoles guid r m = upd_player guid (\<lambda>p. p\<lparr>pd_Roles := r\<rparr>) m"

definition SetComment :: "u64 \<Rightarrow> string \<Rightarrow> LFGMgr \<Rightarrow> LFGMgr" where
  "SetComment guid c m = upd_player guid (\<lambda>p. p\<lparr>pd_Comment := c\<rparr>) m"

definition SetSelectedDungeons :: "u64 \<Rightarrow> LfgDungeonSet \<Rightarrow> LFGMgr \<Rightarrow> LFGMgr" where
  "SetSelectedDungeons guid ds m = upd_player guid (\<lambda>p. p\<lparr>pd_SelectedDungeons := ds\<rparr>) m"

definition SetLockedDungeons :: "u64 \<Rightarrow> LfgLockMap \<Rightarrow> LFGMgr \<Rightarrow> LFGMgr" where
  "SetLockedDungeons guid l m = upd_player guid (\<lambda>p. p\<lparr>pd_LockedDungeons := l\<rparr>) m"

definition SetGroup :: "u64 \<Rightarrow> u64 \<Rightarrow> LFGMgr \<Rightarrow> LFGMgr" where
  "SetGroup guid g m = upd_player guid (\<lambda>p. p\<lparr>pd_Group := g\<rparr>) m"

definition SetTeam :: "lfg_world \<Rightarrow> u64 \<Rightarrow> u8 \<Rightarrow> LFGMgr \<Rightarrow> LFGMgr" where
  "SetTeam w guid team m = upd_player guid (\<lambda>p. p\<lparr>pd_Team := if lw_two_sides w then 0 else team\<rparr>) m"

definition SetLeader :: "u64 \<Rightarrow> u64 \<Rightarrow> LFGMgr \<Rightarrow> LFGMgr" where
  "SetLeader gguid l m = upd_group gguid (\<lambda>g. g\<lparr>gd_Leader := l\<rparr>) m"

definition DecreaseKicksLeft :: "u64 \<Rightarrow> LFGMgr \<Rightarrow> LFGMgr" where
  "DecreaseKicksLeft guid m = upd_group guid GroupData_DecreaseKicksLeft m"

definition AddPlayerToGroup :: "u64 \<Rightarrow> u64 \<Rightarrow> LFGMgr \<Rightarrow> LFGMgr" where
  "AddPlayerToGroup gguid guid m = upd_group gguid (GroupData_AddPlayer guid) m"

definition RemovePlayerFromGroup :: "u64 \<Rightarrow> u64 \<Rightarrow> LFGMgr \<Rightarrow> u8 \<times> LFGMgr" where
  "RemovePlayerFromGroup gguid guid m =
     (fst (GroupData_RemovePlayer guid (GroupsStore m gguid)), upd_group gguid (\<lambda>g. snd (GroupData_RemovePlayer guid g)) m)"

abbreviation "GetRoles guid m \<equiv> pd_Roles (PlayersStore m guid)"
abbreviation "GetComment guid m \<equiv> pd_Comment (PlayersStore m guid)"
abbreviation "GetSelectedDungeons guid m \<equiv> pd_SelectedDungeons (PlayersStore m guid)"
abbreviation "GetLockedDungeons guid m \<equiv> pd_LockedDungeons (PlayersStore m guid)"
abbreviation "GetTeam guid m \<equiv> pd_Team (PlayersStore m guid)"
abbreviation "GetGroup guid m \<equiv> pd_Group (PlayersStore m guid)"
abbreviation "GetPlayers gguid m \<equiv> gd_Players (GroupsStore m gguid)"
abbreviation "GetLeader gguid m \<equiv> gd_Leader (GroupsStore m gguid)"
abbreviation "GetKicksLeft gguid m \<equiv> gd_KicksLeft (GroupsStore m gguid)"

definition IsLfgGroup :: "u64 \<Rightarrow> LFGMgr \<Rightarrow> bool" where
  "IsLfgGroup guid m \<longleftrightarrow> guid \<noteq> 0 \<and> IS_GROUP_GUID guid \<and> GroupData_IsLfgGroup (GroupsStore m guid)"

definition HasIgnore :: "lfg_world \<Rightarrow> u64 \<Rightarrow> u64 \<Rightarrow> bool" where
  "HasIgnore w a b \<longleftrightarrow> lw_online w a \<and> lw_online w b \<and> (lw_ignores w a (ucast b) \<or> lw_ignores w b (ucast a))"

definition isOptionEnabled :: "u32 \<Rightarrow> LFGMgr \<Rightarrow> bool" where
  "isOptionEnabled option m \<longleftrightarrow> m_options m AND option \<noteq> 0"

definition SetupGroupMember :: "u64 \<Rightarrow> u64 \<Rightarrow> LFGMgr \<Rightarrow> LFGMgr" where
  "SetupGroupMember guid gguid m =
    (let m = SetSelectedDungeons guid [GetDungeon gguid True m] m;
         m = SetState guid (GetState gguid m) m
     in AddPlayerToGroup gguid guid (SetGroup guid gguid m))"

definition selectedRandomLfgDungeon :: "u64 \<Rightarrow> LFGMgr \<Rightarrow> bool" where
  "selectedRandomLfgDungeon guid m \<longleftrightarrow> GetState guid m \<noteq> LFG_STATE_NONE \<and>
     (case GetSelectedDungeons guid m of [] \<Rightarrow> False
      | i # _ \<Rightarrow> (case GetLFGDungeon i m of Some d \<Rightarrow> dg_type d = LFG_TYPE_RANDOM \<or> dg_seasonal d | None \<Rightarrow> False))"

definition inLfgDungeonMap :: "u64 \<Rightarrow> u32 \<Rightarrow> nat \<Rightarrow> LFGMgr \<Rightarrow> bool" where
  "inLfgDungeonMap guid mapId difficulty m \<longleftrightarrow>
    (let guid = (if IS_GROUP_GUID guid then guid else GetGroup guid m); i = GetDungeon guid True m
     in i \<noteq> 0 \<and> (case GetLFGDungeon i m of Some d \<Rightarrow> ucast (dg_map d) = mapId \<and> dg_difficulty d = difficulty | None \<Rightarrow> False))"

subsection \<open>Queues and messages\<close>

definition GetQueueId :: "u64 \<Rightarrow> LFGMgr \<Rightarrow> u8" where
  "GetQueueId guid m =
    (if IS_GROUP_GUID guid
     then let pguid = (case GetPlayers guid m of [] \<Rightarrow> 0 | p # _ \<Rightarrow> p) in if pguid \<noteq> 0 then GetTeam pguid m else GetTeam guid m
     else GetTeam guid m)"

definition GetQueue :: "u64 \<Rightarrow> LFGMgr \<Rightarrow> LFGQueue" where
  "GetQueue guid m = om_at LFGQueue_new (QueuesStore m) (GetQueueId guid m)"

text \<open>An operation on the queue that \<open>GetQueue(guid)\<close> refers to.\<close>

definition on_queue :: "u64 \<Rightarrow> (LFGQueue \<Rightarrow> LFGQueue) \<Rightarrow> LFGMgr \<Rightarrow> LFGMgr" where
  "on_queue guid f m = m\<lparr>QueuesStore := om_put (GetQueueId guid m) (f (GetQueue guid m)) (QueuesStore m)\<rparr>"

definition GetQueueJoinTime :: "u64 \<Rightarrow> LFGMgr \<Rightarrow> int" where
  "GetQueueJoinTime guid m =
    (case map_of (QueuesStore m) (GetQueueId guid m) of Some q \<Rightarrow> GetJoinTime guid q | None \<Rightarrow> 0)"

definition send :: "lfg_world \<Rightarrow> u64 \<Rightarrow> lfg_message \<Rightarrow> LFGMgr \<Rightarrow> LFGMgr" where
  "send w guid msg m = (if lw_online w guid then m\<lparr>sent := sent m @ [(guid, msg)]\<rparr> else m)"

text \<open>What a search of a queue asks the manager.\<close>

definition mgr_env :: "lfg_world \<Rightarrow> LFGMgr \<Rightarrow> queue_env" where
  "mgr_env w m = \<lparr>qe_IsLfgGroup = (\<lambda>g. IsLfgGroup g m), qe_HasIgnore = HasIgnore w, qe_GetOldState = (\<lambda>g. GetOldState g m),
     qe_GetState = (\<lambda>g. GetState g m), qe_time = lw_time w, qe_rand = lw_rand w\<rparr>"

subsection \<open>What the accessors change\<close>

named_theorems mgr_simps \<open>what an operation of the manager changes\<close>

lemmas accessor_defs = upd_player_def upd_group_def SetState_def RestoreState_def send_def SetRoles_def SetComment_def
  SetSelectedDungeons_def SetGroup_def AddPlayerToGroup_def SetLeader_def SetDungeon_def DecreaseKicksLeft_def

lemma stores_frame [mgr_simps]:
  "RoleChecksStore (SetState g s m) = RoleChecksStore m" "RoleChecksStore (RestoreState g m) = RoleChecksStore m"
  "RoleChecksStore (send w g msg m) = RoleChecksStore m" "RoleChecksStore (SetRoles g r m) = RoleChecksStore m"
  "BootsStore (SetState g s m) = BootsStore m" "BootsStore (RestoreState g m) = BootsStore m"
  "BootsStore (send w g msg m) = BootsStore m" "BootsStore (SetRoles g r m) = BootsStore m"
  "ProposalsStore (SetState g s m) = ProposalsStore m" "ProposalsStore (RestoreState g m) = ProposalsStore m"
  "ProposalsStore (send w g msg m) = ProposalsStore m" "ProposalsStore (SetRoles g r m) = ProposalsStore m"
  "QueuesStore (SetState g s m) = QueuesStore m" "QueuesStore (RestoreState g m) = QueuesStore m"
  "QueuesStore (send w g msg m) = QueuesStore m" "QueuesStore (SetRoles g r m) = QueuesStore m"
  "RoleChecksStore (on_queue g f m) = RoleChecksStore m" "BootsStore (on_queue g f m) = BootsStore m"
  "ProposalsStore (on_queue g f m) = ProposalsStore m" "m_options (on_queue g f m) = m_options m"
  "m_options (SetState g s m) = m_options m" "m_options (RestoreState g m) = m_options m"
  "m_options (send w g msg m) = m_options m" "m_options (SetRoles g r m) = m_options m"
  "PlayersStore (on_queue g f m) = PlayersStore m" "GroupsStore (on_queue g f m) = GroupsStore m"
  "PlayersStore (send w g msg m) = PlayersStore m" "GroupsStore (send w g msg m) = GroupsStore m"
  "GroupsStore (SetRoles g r m) = GroupsStore m"
  "BootsStore (DecreaseKicksLeft g m) = BootsStore m" "ProposalsStore (DecreaseKicksLeft g m) = ProposalsStore m"
  "QueuesStore (DecreaseKicksLeft g m) = QueuesStore m" "RoleChecksStore (DecreaseKicksLeft g m) = RoleChecksStore m"
  "m_options (DecreaseKicksLeft g m) = m_options m" "PlayersStore (DecreaseKicksLeft g m) = PlayersStore m"
  by (simp_all add: accessor_defs on_queue_def)

lemma links_frame [mgr_simps]:
  "GetTeam h (SetState g s m) = GetTeam h m" "GetTeam h (RestoreState g m) = GetTeam h m" "GetTeam h (SetRoles g r m) = GetTeam h m"
  "GetGroup h (SetState g s m) = GetGroup h m" "GetGroup h (RestoreState g m) = GetGroup h m" "GetGroup h (SetRoles g r m) = GetGroup h m"
  "GetPlayers h (SetState g s m) = GetPlayers h m" "GetPlayers h (RestoreState g m) = GetPlayers h m"
  "GetLeader h (SetState g s m) = GetLeader h m" "GetLeader h (RestoreState g m) = GetLeader h m"
  "GetPlayers h (DecreaseKicksLeft g m) = GetPlayers h m" "GetLeader h (DecreaseKicksLeft g m) = GetLeader h m"
  by (simp_all add: accessor_defs GroupData_DecreaseKicksLeft_def)

lemma GetQueueId_cong:
  "(\<And>g. GetTeam g m = GetTeam g m') \<Longrightarrow> GetPlayers g m = GetPlayers g m' \<Longrightarrow> GetQueueId g m = GetQueueId g m'"
  by (simp add: GetQueueId_def Let_def)

lemma GetQueueId_frame [mgr_simps]:
  "GetQueueId h (SetState g s m) = GetQueueId h m" "GetQueueId h (RestoreState g m) = GetQueueId h m"
  "GetQueueId h (send w g msg m) = GetQueueId h m" "GetQueueId h (SetRoles g r m) = GetQueueId h m"
  "GetQueueId h (on_queue g f m) = GetQueueId h m" "GetQueueId h (DecreaseKicksLeft g m) = GetQueueId h m"
  "GetQueueId h (m\<lparr>RoleChecksStore := a\<rparr>) = GetQueueId h m" "GetQueueId h (m\<lparr>BootsStore := b\<rparr>) = GetQueueId h m"
  "GetQueueId h (m\<lparr>ProposalsStore := c\<rparr>) = GetQueueId h m"
  by (simp_all add: GetQueueId_def mgr_simps Let_def cong: if_cong)

lemma GetQueue_frame [mgr_simps]:
  "GetQueue h (SetState g s m) = GetQueue h m" "GetQueue h (RestoreState g m) = GetQueue h m"
  "GetQueue h (send w g msg m) = GetQueue h m" "GetQueue h (SetRoles g r m) = GetQueue h m"
  "GetQueue h (DecreaseKicksLeft g m) = GetQueue h m"
  "GetQueue h (m\<lparr>RoleChecksStore := a\<rparr>) = GetQueue h m" "GetQueue h (m\<lparr>BootsStore := b\<rparr>) = GetQueue h m"
  "GetQueue h (m\<lparr>ProposalsStore := c\<rparr>) = GetQueue h m"
  by (simp_all add: GetQueue_def mgr_simps)

lemma GetQueue_on_queue [mgr_simps]:
  "GetQueue h (on_queue g f m) = (if GetQueueId g m = GetQueueId h m then f (GetQueue h m) else GetQueue h m)"
  by (simp add: GetQueue_def GetQueueId_frame) (simp add: on_queue_def GetQueue_def)

lemma states_frame [mgr_simps]:
  "GetState h (SetState g s m) = (if h = g then s else GetState h m)"
  "GetState h (RestoreState g m) = (if h = g then GetOldState h m else GetState h m)"
  "GetState h (send w g msg m) = GetState h m" "GetState h (SetRoles g r m) = GetState h m"
  "GetState h (on_queue g f m) = GetState h m" "GetState h (DecreaseKicksLeft g m) = GetState h m"
  "GetOldState h (SetState g s m) = (if h = g \<and> stable_state s then s else GetOldState h m)"
  "GetOldState h (RestoreState g m) = GetOldState h m"
  "GetOldState h (send w g msg m) = GetOldState h m" "GetOldState h (SetRoles g r m) = GetOldState h m"
  "GetOldState h (on_queue g f m) = GetOldState h m" "GetOldState h (DecreaseKicksLeft g m) = GetOldState h m"
  "GetState h (m\<lparr>RoleChecksStore := a\<rparr>) = GetState h m" "GetState h (m\<lparr>BootsStore := b\<rparr>) = GetState h m"
  "GetState h (m\<lparr>ProposalsStore := c\<rparr>) = GetState h m"
  "GetOldState h (m\<lparr>RoleChecksStore := a\<rparr>) = GetOldState h m" "GetOldState h (m\<lparr>BootsStore := b\<rparr>) = GetOldState h m"
  "GetOldState h (m\<lparr>ProposalsStore := c\<rparr>) = GetOldState h m"
  by (auto simp: GetState_def GetOldState_def accessor_defs on_queue_def player.get_set player.old_set player.get_restore
    player.old_restore group.get_set group.old_set group.get_restore group.old_restore GroupData_DecreaseKicksLeft_def)

end
