(* ===== verification/LfgRoleCheck.thy ===== *)
theory LfgRoleCheck
  imports LfgManager
begin

text \<open>
  The role check of a premade group: it opens when the group joins, collects the roles its members
  choose, and ends when all have chosen, when someone chooses nothing, or when the group leaves.
\<close>

subsection \<open>Answers\<close>

text \<open>What an answer makes of the role check; \<open>guid\<close> 0 aborts it.\<close>

definition answer_role_check :: "u64 \<Rightarrow> u8 \<Rightarrow> LfgRoleCheck \<Rightarrow> LfgRoleCheck" where
  "answer_role_check guid roles rc =
    (if guid = 0 then rc\<lparr>rc_state := LFG_ROLECHECK_ABORTED\<rparr>
     else if roles < PLAYER_ROLE_TANK then rc\<lparr>rc_state := LFG_ROLECHECK_NO_ROLE\<rparr>
     else let rc = rc\<lparr>rc_roles := om_put guid roles (rc_roles rc)\<rparr>
          in if \<forall>(p, r) \<in> set (rc_roles rc). r \<noteq> PLAYER_ROLE_NONE
             then rc\<lparr>rc_state := if fst (group_roles (rc_roles rc)) then LFG_ROLECHECK_FINISHED else LFG_ROLECHECK_WRONG_ROLES\<rparr>
             else rc)"

definition shown_dungeons :: "LfgRoleCheck \<Rightarrow> LfgDungeonSet" where
  "shown_dungeons rc = (if rc_rDungeonId rc \<noteq> 0 then [rc_rDungeonId rc] else rc_dungeons rc)"

definition role_check_result :: "LfgRoleCheckState \<Rightarrow> LfgJoinResult" where
  "role_check_result s =
    (if s = LFG_ROLECHECK_MISSING_ROLE \<or> s = LFG_ROLECHECK_WRONG_ROLES then LFG_JOIN_ROLE_CHECK_FAILED else LFG_JOIN_FAILED)"

text \<open>What a member is told, and his new state.\<close>

definition role_check_member ::
  "lfg_world \<Rightarrow> bool \<Rightarrow> u64 \<Rightarrow> u8 \<Rightarrow> LfgRoleCheck \<Rightarrow> u64 \<times> u8 \<Rightarrow> LFGMgr \<Rightarrow> LFGMgr"
where
  "role_check_member w chosen guid roles rc = (\<lambda>(pguid, role) m.
    (let m = (if chosen then send w pguid (RoleChosen guid roles) m else m);
         m = send w pguid (RoleCheckUpdate rc) m
     in case rc_state rc of
          LFG_ROLECHECK_INITIALITING \<Rightarrow> m
        | LFG_ROLECHECK_FINISHED \<Rightarrow>
            let m = SetRoles pguid role (SetState pguid LFG_STATE_QUEUED m)
            in send w pguid (UpdateStatus (UpdateData LFG_UPDATETYPE_ADDED_TO_QUEUE (shown_dungeons rc) (GetComment pguid m)) True) m
        | _ \<Rightarrow>
            let m = (if rc_leader rc = pguid
                     then send w pguid (JoinResult (JoinResultData (role_check_result (rc_state rc)) (rc_state rc))) m else m);
                m = send w pguid (UpdateStatus (UpdateData LFG_UPDATETYPE_ROLECHECK_FAILED [] []) True) m
            in RestoreState pguid m))"

definition UpdateRoleCheck :: "lfg_world \<Rightarrow> u64 \<Rightarrow> u64 \<Rightarrow> u8 \<Rightarrow> LFGMgr \<Rightarrow> LFGMgr" where
  "UpdateRoleCheck w gguid guid roles m =
    (if gguid = 0 then m
     else case map_of (RoleChecksStore m) gguid of
       None \<Rightarrow> m
     | Some rc \<Rightarrow>
         let chosen = (rc_state rc \<noteq> LFG_ROLECHECK_DEFAULT \<and> guid \<noteq> 0);
             rc = answer_role_check guid roles rc;
             m = m\<lparr>RoleChecksStore := om_put gguid rc (RoleChecksStore m)\<rparr>;
             m = fold (role_check_member w chosen guid roles rc) (rc_roles rc) m
         in if rc_state rc = LFG_ROLECHECK_FINISHED
            then let m = SetState gguid LFG_STATE_QUEUED m;
                     m = on_queue gguid (AddQueueData gguid (lw_time w) (rc_dungeons rc) (rc_roles rc)) m
                 in m\<lparr>RoleChecksStore := om_erase gguid (RoleChecksStore m)\<rparr>
            else if rc_state rc \<noteq> LFG_ROLECHECK_INITIALITING
            then let m = RestoreState gguid m in m\<lparr>RoleChecksStore := om_erase gguid (RoleChecksStore m)\<rparr>
            else m)"

text \<open>The part of \<open>LFGMgr::Update\<close> that gives up on role checks.\<close>

definition expire_member :: "lfg_world \<Rightarrow> LfgRoleCheck \<Rightarrow> u64 \<times> u8 \<Rightarrow> LFGMgr \<Rightarrow> LFGMgr" where
  "expire_member w rc = (\<lambda>(guid, role) m.
    (let m = send w guid (RoleCheckUpdate rc) (RestoreState guid m)
     in if guid = rc_leader rc
        then send w guid (JoinResult (JoinResultData LFG_JOIN_ROLE_CHECK_FAILED LFG_ROLECHECK_MISSING_ROLE)) m else m))"

definition expire_role_check :: "lfg_world \<Rightarrow> u64 \<times> LfgRoleCheck \<Rightarrow> LFGMgr \<Rightarrow> LFGMgr" where
  "expire_role_check w = (\<lambda>(gguid, rc) m.
    (if lw_time w < rc_cancelTime rc then m
     else let rc = rc\<lparr>rc_state := LFG_ROLECHECK_MISSING_ROLE\<rparr>;
              m = RestoreState gguid (fold (expire_member w rc) (rc_roles rc) m)
          in m\<lparr>RoleChecksStore := om_erase gguid (RoleChecksStore m)\<rparr>))"

definition expire_role_checks :: "lfg_world \<Rightarrow> LFGMgr \<Rightarrow> LFGMgr" where
  "expire_role_checks w m = fold (expire_role_check w) (RoleChecksStore m) m"

subsection \<open>Restrictions\<close>

text \<open>The dungeons that no player is locked out of; else the locks that left none.\<close>

fun lock_player :: "u64 \<Rightarrow> LfgLockMap \<Rightarrow> LfgDungeonSet \<Rightarrow> LfgLockPartyMap \<Rightarrow> LfgDungeonSet \<times> LfgLockPartyMap" where
  "lock_player guid [] ds lm = (ds, lm)"
| "lock_player guid ((e, why) # locks) ds lm =
    (if ds = [] then (ds, lm)
     else let d = e AND 0x00FFFFFF
          in if d \<in> set ds
             then lock_player guid locks (os_erase d ds) (om_put guid (om_put d why (om_at [] lm guid)) lm)
             else lock_player guid locks ds lm)"

fun lock_players :: "(u64 \<Rightarrow> LfgLockMap) \<Rightarrow> u64 list \<Rightarrow> LfgDungeonSet \<Rightarrow> LfgLockPartyMap \<Rightarrow> LfgDungeonSet \<times> LfgLockPartyMap" where
  "lock_players locked [] ds lm = (ds, lm)"
| "lock_players locked (guid # guids) ds lm =
    (if ds = [] then (ds, lm)
     else (case lock_player guid (locked guid) ds lm of (ds, lm) \<Rightarrow> lock_players locked guids ds lm))"

definition GetCompatibleDungeons :: "LfgDungeonSet \<Rightarrow> u64 list \<Rightarrow> LFGMgr \<Rightarrow> LfgDungeonSet \<times> LfgLockPartyMap" where
  "GetCompatibleDungeons ds players m =
    (case lock_players (\<lambda>g. GetLockedDungeons g m) players ds [] of (ds, lm) \<Rightarrow> (ds, if ds \<noteq> [] then [] else lm))"

subsection \<open>How a role check ends\<close>

lemma role_check_member_frame [mgr_simps]:
  "RoleChecksStore (role_check_member w c g r rc x m) = RoleChecksStore m"
  "GetQueue h (role_check_member w c g r rc x m) = GetQueue h m"
  "GetQueueId h (role_check_member w c g r rc x m) = GetQueueId h m"
  "GetOldState h (role_check_member w c g r rc x m) = GetOldState h m"
  by (simp_all add: role_check_member_def mgr_simps Let_def stable_state_def split: prod.splits LfgRoleCheckState.splits)

lemma role_check_member_state:
  "GetState h (role_check_member w c g r rc x m) =
    (if h \<noteq> fst x \<or> rc_state rc = LFG_ROLECHECK_INITIALITING then GetState h m
     else if rc_state rc = LFG_ROLECHECK_FINISHED then LFG_STATE_QUEUED else GetOldState h m)"
  by (simp add: role_check_member_def mgr_simps Let_def split: prod.splits LfgRoleCheckState.splits)

lemma role_check_members:
  "RoleChecksStore (fold (role_check_member w c g r rc) ms m) = RoleChecksStore m"
  "GetQueue h (fold (role_check_member w c g r rc) ms m) = GetQueue h m"
  "GetQueueId h (fold (role_check_member w c g r rc) ms m) = GetQueueId h m"
  "GetOldState h (fold (role_check_member w c g r rc) ms m) = GetOldState h m"
  "GetState h (fold (role_check_member w c g r rc) ms m) =
    (if h \<notin> fst ` set ms \<or> rc_state rc = LFG_ROLECHECK_INITIALITING then GetState h m
     else if rc_state rc = LFG_ROLECHECK_FINISHED then LFG_STATE_QUEUED else GetOldState h m)"
  by (induction ms arbitrary: m) (auto simp: mgr_simps role_check_member_state)

lemma answer_role_check_chosen:
  fixes rc :: LfgRoleCheck
  assumes "guid \<noteq> 0" and "PLAYER_ROLE_TANK \<le> roles"
  defines "rs \<equiv> om_put guid roles (rc_roles rc)"
  shows "answer_role_check guid roles rc = rc\<lparr>rc_roles := rs, rc_state :=
     if \<exists>x \<in> set rs. snd x = PLAYER_ROLE_NONE then rc_state rc
     else if fst (group_roles rs) then LFG_ROLECHECK_FINISHED else LFG_ROLECHECK_WRONG_ROLES\<rparr>"
  using assms by (auto simp: answer_role_check_def Let_def)


lemma group_roles_feasible:
  assumes "gs \<noteq> []" and "length gs < 256"
  shows "fst (group_roles gs) \<longleftrightarrow> feasible (clear_leader_flags gs)"
  using CheckGroupRoles_ok [OF assms, of True] by (auto simp: group_roles_def search_ok_def split: option.splits if_splits)

definition role_check_open :: "u64 \<Rightarrow> LFGMgr \<Rightarrow> bool" where
  "role_check_open gguid m \<longleftrightarrow> map_of (RoleChecksStore m) gguid \<noteq> None"

text \<open>
  The three ends of an answer with a role: the check stays open, it is over and the group queued, or
  it is over and everyone is back where he was.
\<close>

definition still_choosing :: "u64 \<Rightarrow> LfgRolesMap \<Rightarrow> LFGMgr \<Rightarrow> LFGMgr \<Rightarrow> bool" where
  "still_choosing gguid rs m m' \<longleftrightarrow>
     map_option rc_roles (map_of (RoleChecksStore m') gguid) = Some rs \<and>
     (\<forall>h. GetState h m' = GetState h m) \<and> (\<forall>h. GetQueue h m' = GetQueue h m)"

definition group_queued :: "lfg_world \<Rightarrow> u64 \<Rightarrow> LfgRolesMap \<Rightarrow> LfgDungeonSet \<Rightarrow> LFGMgr \<Rightarrow> LFGMgr \<Rightarrow> bool" where
  "group_queued w gguid rs ds m m' \<longleftrightarrow>
     \<not> role_check_open gguid m' \<and>
     (\<forall>h. GetState h m' = (if h = gguid \<or> h \<in> fst ` set rs then LFG_STATE_QUEUED else GetState h m)) \<and>
     GetQueue gguid m' = AddQueueData gguid (lw_time w) ds rs (GetQueue gguid m)"

definition all_restored :: "u64 \<Rightarrow> LfgRolesMap \<Rightarrow> LFGMgr \<Rightarrow> LFGMgr \<Rightarrow> bool" where
  "all_restored gguid rs m m' \<longleftrightarrow>
     \<not> role_check_open gguid m' \<and>
     (\<forall>h. GetState h m' = (if h = gguid \<or> h \<in> fst ` set rs then GetOldState h m else GetState h m)) \<and>
     (\<forall>h. GetQueue h m' = GetQueue h m)"


definition sample_world :: lfg_world where
  "sample_world = \<lparr>lw_online = (\<lambda>_. True), lw_ignores = (\<lambda>_ _. False), lw_time = 1000, lw_rand = (\<lambda>_. 0),
     lw_group = (\<lambda>_. Some True), lw_two_sides = False\<rparr>"

definition sample_party :: u64 where "sample_party = 0x1F50000000000009"

definition sample_check :: LfgRoleCheck where
  "sample_check = \<lparr>rc_cancelTime = 46000, rc_roles = [(1, PLAYER_ROLE_NONE), (2, PLAYER_ROLE_DAMAGE)],
     rc_state = LFG_ROLECHECK_INITIALITING, rc_dungeons = [7], rc_rDungeonId = 0, rc_leader = 1\<rparr>"

definition sample_choosing :: LFGMgr where
  "sample_choosing = SetState sample_party LFG_STATE_ROLECHECK (SetState 1 LFG_STATE_ROLECHECK (SetState 2 LFG_STATE_ROLECHECK
     ((LFGMgr_new 3)\<lparr>RoleChecksStore := [(sample_party, sample_check)]\<rparr>)))"


end
