(* ===== verification/LfgAnswers.thy ===== *)
theory LfgAnswers
  imports LfgRoleCheck
begin

text \<open>
  The answers to a proposal: it fails when someone declines, leaves or does not answer in time, and
  the others go back to the queue; it succeeds when all have agreed. Leaving the dungeon finder from
  any state is here too, since it may decline a proposal.
\<close>

subsection \<open>A failed proposal\<close>

definition decline_pending :: "LfgUpdateType \<Rightarrow> LfgProposal \<Rightarrow> LfgProposal" where
  "decline_pending type p =
    (if type = LFG_UPDATETYPE_PROPOSAL_FAILED
     then p\<lparr>pr_players := map (\<lambda>(g, x). (g, if pp_accept x = LFG_ANSWER_PENDING then x\<lparr>pp_accept := LFG_ANSWER_DENY\<rparr> else x))
            (pr_players p)\<rparr>
     else p)"

text \<open>The queue entry of a player: his group, if he joined with one.\<close>

definition queue_guid :: "u64 \<times> LfgProposalPlayer \<Rightarrow> u64" where
  "queue_guid x = (if pp_group (snd x) \<noteq> 0 then pp_group (snd x) else fst x)"

definition removed_by :: "LfgUpdateType \<Rightarrow> u64 \<times> LfgProposalPlayer \<Rightarrow> bool" where
  "removed_by type x \<longleftrightarrow> pp_accept (snd x) \<noteq> LFG_ANSWER_AGREE \<and>
     (pp_accept (snd x) = LFG_ANSWER_DENY \<or> type = LFG_UPDATETYPE_PROPOSAL_FAILED)"

definition to_remove :: "LfgUpdateType \<Rightarrow> LfgProposal \<Rightarrow> u64 list" where
  "to_remove type p = fold (\<lambda>x s. if removed_by type x then os_insert (queue_guid x) s else s) (pr_players p) []"

definition mark_player :: "LfgUpdateType \<Rightarrow> u64 \<times> LfgProposalPlayer \<Rightarrow> u64 \<times> LfgProposalPlayer" where
  "mark_player type x = (fst x, if removed_by type x then (snd x)\<lparr>pp_accept := LFG_ANSWER_DENY\<rparr> else snd x)"

definition mark_removed :: "LfgUpdateType \<Rightarrow> LfgProposal \<Rightarrow> LfgProposal" where
  "mark_removed type p = p\<lparr>pr_players := map (mark_player type) (pr_players p)\<rparr>"

definition notify_failed ::
  "lfg_world \<Rightarrow> LfgUpdateType \<Rightarrow> u64 list \<Rightarrow> LfgProposal \<Rightarrow> u64 \<times> LfgProposalPlayer \<Rightarrow> LFGMgr \<Rightarrow> LFGMgr"
where
  "notify_failed w type gone p x m =
    (let guid = fst x; gguid = queue_guid x; m = send w guid (ProposalUpdate p) m
     in if gguid \<in> set gone
        then let t = (if pp_accept (snd x) = LFG_ANSWER_DENY then type else LFG_UPDATETYPE_REMOVED_FROM_QUEUE);
                 m = RestoreState guid m;
                 m = (if gguid \<noteq> guid then RestoreState (pp_group (snd x)) m else m)
             in send w guid (UpdateStatus (UpdateData t [] []) (gguid \<noteq> guid)) m
        else let m = SetState guid LFG_STATE_QUEUED m;
                 m = (if gguid \<noteq> guid then SetState gguid LFG_STATE_QUEUED m else m)
             in send w guid (UpdateStatus (UpdateData LFG_UPDATETYPE_ADDED_TO_QUEUE
                  (GetSelectedDungeons guid m) (GetComment guid m)) (gguid \<noteq> guid)) m)"

text \<open>A proposal has players: the queue is that of the first.\<close>

definition RemoveProposal :: "lfg_world \<Rightarrow> u32 \<Rightarrow> LfgUpdateType \<Rightarrow> LFGMgr \<Rightarrow> LFGMgr" where
  "RemoveProposal w i type m = (case map_of (ProposalsStore m) i of
       None \<Rightarrow> m
     | Some p \<Rightarrow>
         let p = decline_pending type (p\<lparr>pr_state := LFG_PROPOSAL_FAILED\<rparr>);
             gone = to_remove type p;
             p = mark_removed type p;
             m = m\<lparr>ProposalsStore := om_put i p (ProposalsStore m)\<rparr>;
             m = fold (notify_failed w type gone p) (pr_players p) m;
             back = filter (\<lambda>g. g \<notin> set gone) (pr_queues p);
             m = on_queue (fst (hd (pr_players p))) (\<lambda>q. fold AddToQueue back (fold RemoveFromQueue gone q)) m
         in m\<lparr>ProposalsStore := om_erase i (ProposalsStore m)\<rparr>)"

subsection \<open>Answers\<close>

text \<open>
  The bookkeeping for one player of a successful proposal. \<open>None\<close>: he has no selected dungeon, and
  the code dereferences the end of an empty set. The type of the update changes inside the loop, so
  only the first player is told that a group was found. The wait time is divided by 1000 although
  the clock counts seconds.
\<close>

definition record_wait :: "u8 \<Rightarrow> u32 \<Rightarrow> u32 \<Rightarrow> LFGQueue \<Rightarrow> LFGQueue" where
  "record_wait roles waitTime dungeon q =
    (let role = roles AND NOT PLAYER_ROLE_LEADER
     in if role = PLAYER_ROLE_DAMAGE then UpdateWaitTimeDps waitTime dungeon q
        else if role = PLAYER_ROLE_HEALER then UpdateWaitTimeHealer waitTime dungeon q
        else if role = PLAYER_ROLE_TANK then UpdateWaitTimeTank waitTime dungeon q
        else UpdateWaitTimeAvg waitTime dungeon q)"

definition enter_player ::
  "lfg_world \<Rightarrow> bool \<Rightarrow> u64 \<Rightarrow> LfgProposal \<Rightarrow> u64 \<times> LfgProposalPlayer \<Rightarrow> LfgUpdateType \<times> LFGMgr \<Rightarrow> (LfgUpdateType \<times> LFGMgr) option"
where
  "enter_player w sendUpdate asked p x = (\<lambda>(t, m).
    (case GetSelectedDungeons (fst x) m of
       [] \<Rightarrow> None
     | dungeon # _ \<Rightarrow>
         let pguid = fst x;
             m = (if sendUpdate then send w pguid (ProposalUpdate p) m else m);
             waitTime = word_of_int ((lw_time w - GetJoinTime (queue_guid x) (GetQueue asked m)) sdiv 1000);
             m = send w pguid (UpdateStatus (UpdateData t [] []) False) m;
             t = LFG_UPDATETYPE_REMOVED_FROM_QUEUE;
             m = send w pguid (UpdateStatus (UpdateData t [] []) False) (send w pguid (UpdateStatus (UpdateData t [] []) True) m);
             m = on_queue asked (record_wait (GetRoles pguid m) waitTime dungeon) m
         in Some (t, SetState pguid LFG_STATE_DUNGEON m)))"

fun enter_players ::
  "lfg_world \<Rightarrow> bool \<Rightarrow> u64 \<Rightarrow> LfgProposal \<Rightarrow> (u64 \<times> LfgProposalPlayer) list \<Rightarrow> LfgUpdateType \<times> LFGMgr \<Rightarrow> LFGMgr option"
where
  "enter_players w su asked p [] s = Some (snd s)"
| "enter_players w su asked p (x # xs) s = Option.bind (enter_player w su asked p x s) (enter_players w su asked p xs)"

text \<open>\<open>form\<close> is \<open>MakeNewGroup\<close>.\<close>

definition UpdateProposal ::
  "(LfgProposal \<Rightarrow> LFGMgr \<Rightarrow> LFGMgr option) \<Rightarrow> lfg_world \<Rightarrow> u32 \<Rightarrow> u64 \<Rightarrow> bool \<Rightarrow> LFGMgr \<Rightarrow> LFGMgr option"
where
  "UpdateProposal form w i guid accept m = (case map_of (ProposalsStore m) i of
       None \<Rightarrow> Some m
     | Some p \<Rightarrow>
         if map_of (pr_players p) guid = None then Some m
         else let p = p\<lparr>pr_players := om_adjust guid (\<lambda>x. x\<lparr>pp_accept := answer_of accept\<rparr>) (pr_players p)\<rparr>;
                  m = m\<lparr>ProposalsStore := om_put i p (ProposalsStore m)\<rparr>
              in if \<not> accept then Some (RemoveProposal w i LFG_UPDATETYPE_PROPOSAL_DECLINED m)
                 else if \<exists>(g, x) \<in> set (pr_players p). pp_accept x \<noteq> LFG_ANSWER_AGREE
                 then Some (fold (\<lambda>(g, x). send w g (ProposalUpdate p)) (pr_players p) m)
                 else let sendUpdate = (pr_state p \<noteq> LFG_PROPOSAL_SUCCESS);
                          p = p\<lparr>pr_state := LFG_PROPOSAL_SUCCESS\<rparr>;
                          m = m\<lparr>ProposalsStore := om_put i p (ProposalsStore m)\<rparr>
                      in Option.bind (enter_players w sendUpdate guid p (pr_players p) (LFG_UPDATETYPE_GROUP_FOUND, m)) (\<lambda>m.
                           let m = on_queue guid (fold RemoveFromQueue (pr_queues p)) m
                           in map_option (\<lambda>m. m\<lparr>ProposalsStore := om_erase i (ProposalsStore m)\<rparr>) (form p m)))"

text \<open>\<open>Update\<close> gives up on the proposals that were not answered in time.\<close>

definition expire_proposals :: "lfg_world \<Rightarrow> LFGMgr \<Rightarrow> LFGMgr" where
  "expire_proposals w m =
     fold (\<lambda>(i, p) m. if pr_cancelTime p < lw_time w then RemoveProposal w i LFG_UPDATETYPE_PROPOSAL_FAILED m else m)
       (ProposalsStore m) m"

subsection \<open>Leaving\<close>

text \<open>The first proposal with the player.\<close>

fun proposal_of :: "u64 \<Rightarrow> (u32 \<times> LfgProposal) list \<Rightarrow> u32 option" where
  "proposal_of guid [] = None"
| "proposal_of guid ((i, p) # ps) = (if map_of (pr_players p) guid \<noteq> None then Some i else proposal_of guid ps)"

definition leave_member :: "lfg_world \<Rightarrow> u64 \<Rightarrow> LFGMgr \<Rightarrow> LFGMgr" where
  "leave_member w g m = send w g (UpdateStatus (UpdateData LFG_UPDATETYPE_REMOVED_FROM_QUEUE [] []) True) (SetState g LFG_STATE_NONE m)"

definition LeaveLfg :: "lfg_world \<Rightarrow> u64 \<Rightarrow> LFGMgr \<Rightarrow> LFGMgr" where
  "LeaveLfg w guid m =
    (let gguid = (if IS_GROUP_GUID guid then guid else GetGroup guid m)
     in case GetState guid m of
          LFG_STATE_QUEUED \<Rightarrow>
            if gguid \<noteq> 0
            then let m = SetState gguid LFG_STATE_NONE (on_queue gguid (RemoveFromQueue gguid) m)
                 in fold (leave_member w) (GetPlayers gguid m) m
            else let m = on_queue guid (RemoveFromQueue guid) m;
                     m = send w guid (UpdateStatus (UpdateData LFG_UPDATETYPE_REMOVED_FROM_QUEUE [] []) False) m
                 in SetState guid LFG_STATE_NONE m
        | LFG_STATE_ROLECHECK \<Rightarrow> if gguid \<noteq> 0 then UpdateRoleCheck w gguid 0 PLAYER_ROLE_NONE m else m
        | LFG_STATE_PROPOSAL \<Rightarrow>
            (let pguid = (if gguid = guid then GetLeader gguid m else guid)
             in case proposal_of pguid (ProposalsStore m) of
                  None \<Rightarrow> m
                | Some i \<Rightarrow>
                    RemoveProposal w i LFG_UPDATETYPE_PROPOSAL_DECLINED
                      (m\<lparr>ProposalsStore := om_adjust i (\<lambda>p. p\<lparr>pr_players :=
                           om_adjust pguid (\<lambda>x. x\<lparr>pp_accept := LFG_ANSWER_DENY\<rparr>) (pr_players p)\<rparr>) (ProposalsStore m)\<rparr>))
        | LFG_STATE_DUNGEON \<Rightarrow> if guid \<noteq> gguid then SetState guid LFG_STATE_NONE m else m
        | LFG_STATE_FINISHED_DUNGEON \<Rightarrow> if guid \<noteq> gguid then SetState guid LFG_STATE_NONE m else m
        | LFG_STATE_BOOT \<Rightarrow> if guid \<noteq> gguid then SetState guid LFG_STATE_NONE m else m
        | _ \<Rightarrow> m)"

subsection \<open>What a failed proposal leaves\<close>

lemma selected_frame [mgr_simps]:
  "GetSelectedDungeons h (send w g msg m) = GetSelectedDungeons h m"
  "GetSelectedDungeons h (on_queue g f m) = GetSelectedDungeons h m"
  "GetSelectedDungeons h (m\<lparr>ProposalsStore := c\<rparr>) = GetSelectedDungeons h m"
  by (simp_all add: accessor_defs on_queue_def)

lemma selected_SetState:
  "\<not> IS_GROUP_GUID h \<Longrightarrow> s \<noteq> LFG_STATE_NONE \<Longrightarrow> s \<noteq> LFG_STATE_FINISHED_DUNGEON \<Longrightarrow>
     GetSelectedDungeons h (SetState g s m) = GetSelectedDungeons h m"
  "GetSelectedDungeons h m = [] \<Longrightarrow> GetSelectedDungeons h (SetState g s m) = []"
  "GetSelectedDungeons h m = [] \<Longrightarrow> GetSelectedDungeons h (RestoreState g m) = []"
  "\<not> IS_GROUP_GUID h \<Longrightarrow> GetOldState h m = LFG_STATE_NONE \<Longrightarrow> GetSelectedDungeons h (RestoreState h m) = []"
  by (auto simp: accessor_defs PlayerData_SetState_def PlayerData_RestoreState_def GetOldState_def Let_def split: LfgState.splits)

lemma notify_failed_frame [mgr_simps]:
  "GetQueue h (notify_failed w t gone p x m) = GetQueue h m"
  "GetQueueId h (notify_failed w t gone p x m) = GetQueueId h m"
  "GetOldState h (notify_failed w t gone p x m) = GetOldState h m"
  "ProposalsStore (notify_failed w t gone p x m) = ProposalsStore m"
  by (simp_all add: notify_failed_def Let_def mgr_simps stable_state_def)

lemma notify_failed_state:
  "GetState h (notify_failed w t gone p x m) =
    (if h = fst x \<or> h = queue_guid x
     then if queue_guid x \<in> set gone then GetOldState h m else LFG_STATE_QUEUED
     else GetState h m)"
  by (auto simp: notify_failed_def Let_def mgr_simps queue_guid_def)

lemma notify_all_frame [mgr_simps]:
  "GetQueue h (fold (notify_failed w t gone p) xs m) = GetQueue h m"
  "GetQueueId h (fold (notify_failed w t gone p) xs m) = GetQueueId h m"
  "GetOldState h (fold (notify_failed w t gone p) xs m) = GetOldState h m"
  "ProposalsStore (fold (notify_failed w t gone p) xs m) = ProposalsStore m"
  by (induction xs arbitrary: m) (simp_all add: mgr_simps)

text \<open>Players have player GUIDs, groups group GUIDs, and a player comes only once.\<close>

definition players_ok :: "(u64 \<times> LfgProposalPlayer) list \<Rightarrow> bool" where
  "players_ok xs \<longleftrightarrow> distinct (map fst xs) \<and>
     (\<forall>x \<in> set xs. \<not> IS_GROUP_GUID (fst x) \<and> (pp_group (snd x) \<noteq> 0 \<longrightarrow> IS_GROUP_GUID (pp_group (snd x))))"

lemma players_ok_map:
  assumes "\<And>x. fst (f x) = fst x \<and> pp_group (snd (f x)) = pp_group (snd x)"
  shows "players_ok (map f xs) = players_ok xs"
  using assms by (simp add: players_ok_def comp_def)

lemma queue_guid_player:
  assumes "players_ok xs" and "x \<in> set xs" and "y \<in> set xs" and "queue_guid y = fst x"
  shows "y = x"
proof -
  have "pp_group (snd y) = 0" using assms unfolding players_ok_def queue_guid_def by metis
  then have "fst y = fst x" using assms(4) by (simp add: queue_guid_def)
  with assms(1-3) show ?thesis by (auto simp: players_ok_def distinct_map inj_on_def)
qed

lemma notify_all_other:
  "h \<notin> fst ` set xs \<Longrightarrow> h \<notin> queue_guid ` set xs \<Longrightarrow> GetState h (fold (notify_failed w t gone p) xs m) = GetState h m"
  by (induction xs arbitrary: m) (simp_all add: notify_failed_state)

lemma notify_all_entry:
  assumes "players_ok xs" and "x \<in> set xs"
  shows "GetState (queue_guid x) (fold (notify_failed w t gone p) xs m) =
    (if queue_guid x \<in> set gone then GetOldState (queue_guid x) m else LFG_STATE_QUEUED)"
  using assms
proof (induction xs rule: rev_induct)
  case (snoc y xs)
  have ok: "players_ok xs" using snoc.prems(1) by (simp add: players_ok_def)
  show ?case
  proof (cases "queue_guid x = queue_guid y")
    case False
    then have "x \<in> set xs" using snoc.prems(2) by auto
    moreover have "queue_guid x \<noteq> fst y"
      using queue_guid_player [OF snoc.prems(1), of y x] snoc.prems(2) False by auto
    ultimately show ?thesis using snoc.IH ok False by (simp add: notify_failed_state)
  qed (simp add: notify_failed_state mgr_simps)
qed simp

lemma notify_all_player:
  assumes "players_ok xs" and "x \<in> set xs"
  shows "GetState (fst x) (fold (notify_failed w t gone p) xs m) =
    (if queue_guid x \<in> set gone then GetOldState (fst x) m else LFG_STATE_QUEUED)"
  using assms
proof (induction xs rule: rev_induct)
  case (snoc y xs)
  have ok: "players_ok xs" using snoc.prems(1) by (simp add: players_ok_def)
  show ?case
  proof (cases "y = x")
    case False
    then have x: "x \<in> set xs" using snoc.prems(2) by simp
    have "fst y \<notin> fst ` set xs" using snoc.prems(1) by (simp add: players_ok_def)
    with x have "fst x \<noteq> fst y" by (metis imageI)
    moreover have "fst x \<noteq> queue_guid y"
      using queue_guid_player [OF snoc.prems(1,2), of y] False by auto
    ultimately show ?thesis using snoc.IH ok x by (simp add: notify_failed_state)
  qed (simp add: notify_failed_state mgr_simps)
qed simp

lemma set_to_remove: "set (to_remove t p) = queue_guid ` {x \<in> set (pr_players p). removed_by t x}"
proof -
  have "set (fold (\<lambda>x s. if removed_by t x then os_insert (queue_guid x) s else s) xs s) =
      set s \<union> queue_guid ` {x \<in> set xs. removed_by t x}" for xs s
    by (induction xs arbitrary: s) auto
  then show ?thesis by (simp add: to_remove_def)
qed

lemma mark_player_simps [simp]:
  "fst (mark_player t x) = fst x" "queue_guid (mark_player t x) = queue_guid x" "pp_group (snd (mark_player t x)) = pp_group (snd x)"
  by (simp_all add: mark_player_def queue_guid_def)

lemma mark_removed_simps [simp]:
  "pr_players (mark_removed t p) = map (mark_player t) (pr_players p)" "pr_queues (mark_removed t p) = pr_queues p"
  by (simp_all add: mark_removed_def)

lemma decline_pending_declined [simp]: "decline_pending LFG_UPDATETYPE_PROPOSAL_DECLINED p = p"
  by (simp add: decline_pending_def)

lemma fold_AddToQueue:
  "newToQueueStore (fold AddToQueue gs q) = newToQueueStore q @ filter (\<lambda>g. entry_view q g \<noteq> None) gs"
  "currentQueueStore (fold AddToQueue gs q) = currentQueueStore q" "entry_view (fold AddToQueue gs q) = entry_view q"
  by (induction gs arbitrary: q) (auto simp: AddToQueue_def AddToNewQueue_def entry_view_def fun_eq_iff)

lemma RemoveFromQueue_lists [simp]:
  "newToQueueStore (RemoveFromQueue g q) = filter (\<lambda>x. x \<noteq> g) (newToQueueStore q)"
  "currentQueueStore (RemoveFromQueue g q) = filter (\<lambda>x. x \<noteq> g) (currentQueueStore q)"
  by (simp_all add: RemoveFromQueue_def RemoveFromCompatibles_def RemoveFromCurrentQueue_def RemoveFromNewQueue_def Let_def)

lemma om_erase_put: "om_erase k (om_put k v m) = om_erase k m"
  by (induction k v m rule: om_put.induct) (auto simp: om_erase_def)

lemma om_put_put: "om_put k v (om_put k u m) = om_put k v m"
  by (induction k u m rule: om_put.induct) auto

lemma os_ok_to_remove: "os_ok (to_remove t p)"
proof -
  have "os_ok s \<Longrightarrow> os_ok (fold (\<lambda>x s. if removed_by t x then os_insert (queue_guid x) s else s) xs s)" for xs s
    by (induction xs arbitrary: s) auto
  then show ?thesis by (simp add: to_remove_def)
qed

text \<open>One player declines: his entry leaves, the others are queued again.\<close>

definition answered :: "u64 \<Rightarrow> bool \<Rightarrow> LfgProposal \<Rightarrow> LfgProposal" where
  "answered guid accept p = p\<lparr>pr_players := om_adjust guid (\<lambda>x. x\<lparr>pp_accept := answer_of accept\<rparr>) (pr_players p)\<rparr>"

lemma queue_guid_accept [simp]: "queue_guid (g, x\<lparr>pp_accept := a\<rparr>) = queue_guid (g, x)"
  by (simp add: queue_guid_def)

lemma to_remove_declined:
  assumes "(guid, x) \<in> set (pr_players p)" and "distinct (map fst (pr_players p))"
    and "\<forall>y \<in> set (pr_players p). pp_accept (snd y) \<noteq> LFG_ANSWER_DENY"
  shows "to_remove LFG_UPDATETYPE_PROPOSAL_DECLINED ((answered guid False p)\<lparr>pr_state := s\<rparr>) = [queue_guid (guid, x)]"
proof (rule sorted_distinct_set_unique)
  let ?p = "(answered guid False p)\<lparr>pr_state := s\<rparr>"
  have "queue_guid y = queue_guid (guid, x)" if y: "y \<in> set (pr_players ?p)" "removed_by LFG_UPDATETYPE_PROPOSAL_DECLINED y" for y
  proof -
    obtain b where b: "(fst y, b) \<in> set (pr_players p)" "snd y = (if fst y = guid then b\<lparr>pp_accept := LFG_ANSWER_DENY\<rparr> else b)"
      using y(1) by (auto simp: answered_def om_adjust_def answer_of_def)
    have g: "fst y = guid"
    proof (rule ccontr)
      assume "fst y \<noteq> guid"
      with y(2) b assms(3) show False by (fastforce simp: removed_by_def)
    qed
    with b(1) assms(1,2) have "b = x" by (auto dest: eq_key_imp_eq_value)
    with b g show ?thesis by (metis prod.collapse queue_guid_accept)
  qed
  moreover have "(guid, x\<lparr>pp_accept := LFG_ANSWER_DENY\<rparr>) \<in> set (pr_players ?p)"
    using assms(1) by (force simp: answered_def om_adjust_def answer_of_def)
  moreover have "removed_by LFG_UPDATETYPE_PROPOSAL_DECLINED (guid, x\<lparr>pp_accept := LFG_ANSWER_DENY\<rparr>)"
    by (simp add: removed_by_def)
  ultimately show "set (to_remove LFG_UPDATETYPE_PROPOSAL_DECLINED ?p) = set [queue_guid (guid, x)]"
    unfolding set_to_remove by (auto intro!: image_eqI [of _ _ "(guid, x\<lparr>pp_accept := LFG_ANSWER_DENY\<rparr>)"])
qed (use os_ok_to_remove in \<open>auto simp: os_ok_sorted\<close>)

lemma RemoveProposal_declined:
  fixes w :: lfg_world
  assumes p: "map_of (ProposalsStore m) i = Some (answered guid False p)" and "(guid, x) \<in> set (pr_players p)"
    and ok: "players_ok (pr_players p)" and "\<forall>y \<in> set (pr_players p). pp_accept (snd y) \<noteq> LFG_ANSWER_DENY"
  defines "d \<equiv> queue_guid (guid, x)" and "g0 \<equiv> fst (hd (pr_players p))"
  defines "m' \<equiv> RemoveProposal w i LFG_UPDATETYPE_PROPOSAL_DECLINED m"
  shows "ProposalsStore m' = om_erase i (ProposalsStore m)"
    and "GetQueue g0 m' = fold AddToQueue (filter (\<lambda>g. g \<noteq> d) (pr_queues p)) (RemoveFromQueue d (GetQueue g0 m))"
    and "y \<in> set (pr_players p) \<Longrightarrow> GetState (fst y) m' = (if queue_guid y = d then GetOldState (fst y) m else LFG_STATE_QUEUED)"
    and "y \<in> set (pr_players p) \<Longrightarrow> GetState (queue_guid y) m' = (if queue_guid y = d then GetOldState d m else LFG_STATE_QUEUED)"
proof -
  let ?p = "(answered guid False p)\<lparr>pr_state := LFG_PROPOSAL_FAILED\<rparr>"
  let ?f = "\<lambda>(g, x). mark_player LFG_UPDATETYPE_PROPOSAL_DECLINED (g, if g = guid then x\<lparr>pp_accept := LFG_ANSWER_DENY\<rparr> else x)"
  let ?xs = "map ?f (pr_players p)"
  let ?m = "fold (notify_failed w LFG_UPDATETYPE_PROPOSAL_DECLINED [d] (mark_removed LFG_UPDATETYPE_PROPOSAL_DECLINED ?p)) ?xs
    (m\<lparr>ProposalsStore := om_put i (mark_removed LFG_UPDATETYPE_PROPOSAL_DECLINED ?p) (ProposalsStore m)\<rparr>)"
  have xs: "pr_players (mark_removed LFG_UPDATETYPE_PROPOSAL_DECLINED ?p) = ?xs"
    by (simp add: answered_def om_adjust_def answer_of_def comp_def case_prod_unfold)
  have gone: "to_remove LFG_UPDATETYPE_PROPOSAL_DECLINED ?p = [d]"
    using to_remove_declined [OF assms(2) _ assms(4)] ok by (simp add: d_def players_ok_def)
  have f: "fst (?f z) = fst z" "queue_guid (?f z) = queue_guid z" "pp_group (snd (?f z)) = pp_group (snd z)" for z
    by (cases z, simp)+
  have hd: "fst (hd ?xs) = g0"
    using assms(2) by (cases "pr_players p") (auto simp: g0_def f)
  have q: "pr_queues (answered guid False p) = pr_queues p" by (simp add: answered_def)
  have m': "m' = (on_queue g0 (\<lambda>q. fold AddToQueue (filter (\<lambda>g. g \<noteq> d) (pr_queues p)) (RemoveFromQueue d q)) ?m)
      \<lparr>ProposalsStore := om_erase i (ProposalsStore (on_queue g0 (\<lambda>q. fold AddToQueue (filter (\<lambda>g. g \<noteq> d) (pr_queues p)) (RemoveFromQueue d q)) ?m))\<rparr>"
    using hd xs by (simp add: m'_def RemoveProposal_def p Let_def gone q del: mark_removed_simps(1))
  show "ProposalsStore m' = om_erase i (ProposalsStore m)"
    by (simp add: m' mgr_simps om_erase_put)
  show "GetQueue g0 m' = fold AddToQueue (filter (\<lambda>g. g \<noteq> d) (pr_queues p)) (RemoveFromQueue d (GetQueue g0 m))"
    by (simp add: m' mgr_simps)
  assume y: "y \<in> set (pr_players p)"
  have okxs: "players_ok ?xs" using ok by (subst players_ok_map) (simp_all add: f)
  have "?f y \<in> set ?xs" using y by simp
  from notify_all_player [OF okxs this, unfolded f]
  show "GetState (fst y) m' = (if queue_guid y = d then GetOldState (fst y) m else LFG_STATE_QUEUED)"
    by (simp add: m' mgr_simps)
  from notify_all_entry [OF okxs \<open>?f y \<in> set ?xs\<close>, unfolded f]
  show "GetState (queue_guid y) m' = (if queue_guid y = d then GetOldState d m else LFG_STATE_QUEUED)"
    by (simp add: m' mgr_simps)
qed

text \<open>
  C23: When a player declines a proposal, it is erased; everyone who queued with him is back in
  his stable state and their queue entry is gone, everyone else is queued again, and exactly their
  entries that still have data are appended to the list of new entries.
\<close>

theorem proposal_declined:
  fixes w :: lfg_world
  assumes "map_of (ProposalsStore m) i = Some p" and "(guid, x) \<in> set (pr_players p)"
    and "players_ok (pr_players p)" and "\<forall>y \<in> set (pr_players p). pp_accept (snd y) \<noteq> LFG_ANSWER_DENY"
  defines "d \<equiv> queue_guid (guid, x)" and "g0 \<equiv> fst (hd (pr_players p))"
  shows "\<exists>m'. UpdateProposal form w i guid False m = Some m' \<and> map_of (ProposalsStore m') i = None \<and>
    (\<forall>y \<in> set (pr_players p).
       GetState (fst y) m' = (if queue_guid y = d then GetOldState (fst y) m else LFG_STATE_QUEUED) \<and>
       GetState (queue_guid y) m' = (if queue_guid y = d then GetOldState d m else LFG_STATE_QUEUED)) \<and>
    entry_view (GetQueue g0 m') = (entry_view (GetQueue g0 m))(d := None) \<and>
    currentQueueStore (GetQueue g0 m') = filter (\<lambda>g. g \<noteq> d) (currentQueueStore (GetQueue g0 m)) \<and>
    newToQueueStore (GetQueue g0 m') = filter (\<lambda>g. g \<noteq> d) (newToQueueStore (GetQueue g0 m)) @
      filter (\<lambda>g. g \<noteq> d \<and> entry_view (GetQueue g0 m) g \<noteq> None) (pr_queues p)"
proof -
  let ?m = "m\<lparr>ProposalsStore := om_put i (answered guid False p) (ProposalsStore m)\<rparr>"
  let ?m' = "RemoveProposal w i LFG_UPDATETYPE_PROPOSAL_DECLINED ?m"
  have r: "map_of (ProposalsStore ?m) i = Some (answered guid False p)" by simp
  obtain y where x: "map_of (pr_players p) guid = Some y"
    using weak_map_of_SomeI [OF assms(2)] by blast
  have "UpdateProposal form w i guid False m = Some ?m'"
    using x by (simp add: UpdateProposal_def assms(1) answered_def)
  note removed = RemoveProposal_declined [OF r assms(2-4), where w = w, folded d_def g0_def, unfolded mgr_simps]
  show ?thesis
    using removed \<open>UpdateProposal form w i guid False m = Some ?m'\<close>
    by (intro exI [of _ ?m'] conjI ballI, simp_all add: fold_AddToQueue entry_view_RemoveFromQueue conj_commute)
      (auto intro!: filter_cong)
qed

subsection \<open>What a successful proposal leaves\<close>

lemma enter_player_Some:
  assumes "GetSelectedDungeons (fst x) m \<noteq> []"
  obtains t' m' where "enter_player w su asked p x (t, m) = Some (t', m')" and "ProposalsStore m' = ProposalsStore m"
    and "\<And>h. GetState h m' = (if h = fst x then LFG_STATE_DUNGEON else GetState h m)"
    and "\<And>h. GetQueueId h m' = GetQueueId h m"
    and "\<And>h. \<not> IS_GROUP_GUID h \<Longrightarrow> GetSelectedDungeons h m' = GetSelectedDungeons h m"
    and "\<And>h. entry_view (GetQueue h m') = entry_view (GetQueue h m)"
    and "\<And>h. newToQueueStore (GetQueue h m') = newToQueueStore (GetQueue h m)"
    and "\<And>h. currentQueueStore (GetQueue h m') = currentQueueStore (GetQueue h m)"
proof -
  obtain d ds where d: "GetSelectedDungeons (fst x) m = d # ds" using assms by (cases "GetSelectedDungeons (fst x) m") auto
  have w: "entry_view (record_wait r wt d q) = entry_view q" "newToQueueStore (record_wait r wt d q) = newToQueueStore q"
      "currentQueueStore (record_wait r wt d q) = currentQueueStore q" for r wt q
    by (simp_all add: record_wait_def Let_def UpdateWaitTimeDps_def UpdateWaitTimeHealer_def UpdateWaitTimeTank_def
        UpdateWaitTimeAvg_def entry_view_def fun_eq_iff)
  let ?s = "snd (the (enter_player w su asked p x (t, m)))"
  show thesis
    by (rule that [of LFG_UPDATETYPE_REMOVED_FROM_QUEUE ?s])
      (simp_all add: enter_player_def d Let_def mgr_simps selected_SetState w)
qed

lemma enter_players_Some:
  assumes "\<forall>x \<in> set xs. \<not> IS_GROUP_GUID (fst x) \<and> GetSelectedDungeons (fst x) m \<noteq> []"
  shows "\<exists>m'. enter_players w su asked p xs (t, m) = Some m' \<and> ProposalsStore m' = ProposalsStore m \<and>
    (\<forall>h. GetState h m' = (if h \<in> fst ` set xs then LFG_STATE_DUNGEON else GetState h m)) \<and>
    (\<forall>h. GetQueueId h m' = GetQueueId h m) \<and>
    (\<forall>h. entry_view (GetQueue h m') = entry_view (GetQueue h m) \<and>
      newToQueueStore (GetQueue h m') = newToQueueStore (GetQueue h m) \<and>
      currentQueueStore (GetQueue h m') = currentQueueStore (GetQueue h m))"
  using assms
proof (induction xs arbitrary: t m)
  case (Cons x xs)
  then have "GetSelectedDungeons (fst x) m \<noteq> []" by simp
  then obtain t' m1 where m1: "enter_player w su asked p x (t, m) = Some (t', m1)" "ProposalsStore m1 = ProposalsStore m"
    "\<And>h. GetState h m1 = (if h = fst x then LFG_STATE_DUNGEON else GetState h m)"
    "\<And>h. GetQueueId h m1 = GetQueueId h m"
    "\<And>h. \<not> IS_GROUP_GUID h \<Longrightarrow> GetSelectedDungeons h m1 = GetSelectedDungeons h m"
    "\<And>h. entry_view (GetQueue h m1) = entry_view (GetQueue h m)"
    "\<And>h. newToQueueStore (GetQueue h m1) = newToQueueStore (GetQueue h m)"
    "\<And>h. currentQueueStore (GetQueue h m1) = currentQueueStore (GetQueue h m)"
    by (rule enter_player_Some [where x = x and m = m and w = w and su = su and asked = asked and p = p and t = t]) metis
  then have "\<forall>x \<in> set xs. \<not> IS_GROUP_GUID (fst x) \<and> GetSelectedDungeons (fst x) m1 \<noteq> []" using Cons.prems by simp
  from Cons.IH [OF this, of t'] m1 show ?case by auto
qed simp

lemma enter_players_None:
  assumes "x \<in> set xs" and "GetSelectedDungeons (fst x) m = []"
  shows "enter_players w su asked p xs (t, m) = None"
  using assms
proof (induction xs arbitrary: t m)
  case (Cons y ys)
  show ?case
  proof (cases "enter_player w su asked p y (t, m)")
    case (Some r)
    then have "GetSelectedDungeons (fst y) m \<noteq> []" by (auto simp: enter_player_def)
    with Cons.prems have x: "x \<in> set ys" by auto
    have "GetSelectedDungeons (fst x) (snd r) = []"
      using Some Cons.prems(2)
      by (auto simp: enter_player_def Let_def mgr_simps selected_SetState split: list.splits)
    with Cons.IH [OF x, of "snd r" "fst r"] Some show ?thesis by simp
  qed simp
qed simp

lemma fold_RemoveFromQueue:
  "newToQueueStore (fold RemoveFromQueue gs q) = filter (\<lambda>x. x \<notin> set gs) (newToQueueStore q)"
  "currentQueueStore (fold RemoveFromQueue gs q) = filter (\<lambda>x. x \<notin> set gs) (currentQueueStore q)"
  "entry_view (fold RemoveFromQueue gs q) = (\<lambda>g. if g \<in> set gs then None else entry_view q g)"
  by (induction gs arbitrary: q) (auto simp: entry_view_RemoveFromQueue fun_eq_iff intro!: filter_cong)

definition all_agree :: "LfgProposal \<Rightarrow> bool" where
  "all_agree p \<longleftrightarrow> (\<forall>x \<in> set (pr_players p). pp_accept (snd x) = LFG_ANSWER_AGREE)"


subsection \<open>A player in two proposals\<close>

lemma notify_keeps_unselected:
  "GetSelectedDungeons h m = [] \<Longrightarrow> GetSelectedDungeons h (notify_failed w t gone p x m) = []"
  by (simp add: notify_failed_def Let_def mgr_simps selected_SetState)

lemma notify_all_keeps_unselected:
  "GetSelectedDungeons h m = [] \<Longrightarrow> GetSelectedDungeons h (fold (notify_failed w t gone p) xs m) = []"
  by (induction xs arbitrary: m) (simp_all add: notify_keeps_unselected)

lemma notify_all_unselects:
  assumes "x \<in> set xs" and "queue_guid x \<in> set gone" and "\<not> IS_GROUP_GUID (fst x)" and "GetOldState (fst x) m = LFG_STATE_NONE"
  shows "GetSelectedDungeons (fst x) (fold (notify_failed w t gone p) xs m) = []"
  using assms
proof (induction xs arbitrary: m)
  case (Cons y ys)
  show ?case
  proof (cases "x = y")
    case True
    have "GetSelectedDungeons (fst x) (notify_failed w t gone p y m) = []"
      using Cons.prems True by (simp add: notify_failed_def Let_def mgr_simps selected_SetState)
    then show ?thesis by (simp add: notify_all_keeps_unselected)
  next
    case False
    with Cons show ?thesis by (simp add: mgr_simps)
  qed
qed simp

text \<open>
  A search can put a player into two proposals. When the first is declined by his entry, he has no
  selected dungeon left, and completing the second reads the first element of an empty set.
\<close>

text \<open>
  When a player who is in two proposals has his first one declined and his state restored to
  none, his selected dungeons are gone, and the last agreement to the second proposal reads the
  first element of an empty set.
\<close>

theorem double_booked_undefined:
  fixes w :: lfg_world
  assumes p: "map_of (ProposalsStore m) i = Some p" "(guid, x) \<in> set (pr_players p)"
    and ok: "players_ok (pr_players p)" "\<forall>y \<in> set (pr_players p). pp_accept (snd y) \<noteq> LFG_ANSWER_DENY"
    and booked: "z \<in> set (pr_players p)" "queue_guid z = queue_guid (guid, x)" "GetOldState (fst z) m = LFG_STATE_NONE"
    and r: "map_of (ProposalsStore m) j = Some r" "j \<noteq> i" "fst z \<in> fst ` set (pr_players r)"
    and other: "map_of (pr_players r) other \<noteq> None" "all_agree (answered other True r)"
  shows "\<exists>m'. UpdateProposal form w i guid False m = Some m' \<and> UpdateProposal form w j other True m' = None"
proof -
  let ?m = "m\<lparr>ProposalsStore := om_put i (answered guid False p) (ProposalsStore m)\<rparr>"
  let ?m' = "RemoveProposal w i LFG_UPDATETYPE_PROPOSAL_DECLINED ?m"
  let ?p = "(answered guid False p)\<lparr>pr_state := LFG_PROPOSAL_FAILED\<rparr>"
  let ?gone = "[queue_guid (guid, x)]"
  let ?mark = "mark_removed LFG_UPDATETYPE_PROPOSAL_DECLINED ?p"
  obtain y where "map_of (pr_players p) guid = Some y"
    using weak_map_of_SomeI [OF p(2)] by blast
  then have first: "UpdateProposal form w i guid False m = Some ?m'"
    by (simp add: UpdateProposal_def p answered_def)
  have gone: "to_remove LFG_UPDATETYPE_PROPOSAL_DECLINED ?p = ?gone"
    using to_remove_declined [OF p(2) _ ok(2)] ok(1) by (simp add: players_ok_def)
  obtain z' where z': "z' \<in> set (pr_players ?mark)" "fst z' = fst z" "queue_guid z' = queue_guid z"
  proof -
    obtain a b where ab: "z = (a, b)" by (cases z)
    let ?z = "(a, if a = guid then b\<lparr>pp_accept := LFG_ANSWER_DENY\<rparr> else b)"
    have "?z \<in> set (pr_players ?p)" using booked(1) by (force simp: ab answered_def om_adjust_def answer_of_def)
    then have "mark_player LFG_UPDATETYPE_PROPOSAL_DECLINED ?z \<in> set (pr_players ?mark)" by simp
    from that [OF this] show thesis by (simp add: ab)
  qed
  have none: "GetSelectedDungeons (fst z) ?m' = []"
    using notify_all_unselects [OF z'(1), of ?gone "m\<lparr>ProposalsStore := om_put i ?mark (ProposalsStore m)\<rparr>"] z' booked ok(1)
    by (simp add: RemoveProposal_def Let_def gone mgr_simps om_put_put players_ok_def del: mark_removed_simps(1))
  have "ProposalsStore ?m' = om_erase i (ProposalsStore ?m)"
    by (rule RemoveProposal_declined(1) [OF _ p(2) ok]) simp
  then have second: "map_of (ProposalsStore ?m') j = Some r" using r(1,2) by (simp add: om_erase_put)
  let ?r = "(answered other True r)\<lparr>pr_state := LFG_PROPOSAL_SUCCESS\<rparr>"
  have "fst z \<in> fst ` set (pr_players ?r)" using r(3) by (simp add: answered_def flip: set_map)
  then obtain v where v: "v \<in> set (pr_players ?r)" "fst v = fst z" by auto
  obtain u where u: "map_of (pr_players r) other = Some u" using other(1) by blast
  have "\<not> (\<exists>(g, x) \<in> set (pr_players (answered other True r)). pp_accept x \<noteq> LFG_ANSWER_AGREE)"
    using other(2) by (auto simp: all_agree_def)
  then have "UpdateProposal form w j other True ?m' = None"
    using second u enter_players_None [OF v(1), of "?m'\<lparr>ProposalsStore := om_put j ?r (ProposalsStore ?m')\<rparr>"] none v(2)
    by (simp add: UpdateProposal_def om_put_put mgr_simps flip: answered_def)
  with first show ?thesis by blast
qed

subsection \<open>Two offers\<close>

text \<open>The player 1 has been offered two groups; everyone else has agreed to both.\<close>

definition offer :: "u32 \<Rightarrow> (u64 \<times> LfgAnswer) list \<Rightarrow> LfgProposal" where
  "offer i answers = (LfgProposal_new 7)\<lparr>pr_id := i, pr_leader := 1, pr_queues := map fst answers,
     pr_players := map (\<lambda>(g, a). (g, \<lparr>pp_role = PLAYER_ROLE_DAMAGE, pp_accept = a, pp_group = 0\<rparr>)) answers\<rparr>"

definition first_offer :: LfgProposal where
  "first_offer = offer 2 [(1, LFG_ANSWER_PENDING), (2, LFG_ANSWER_AGREE)]"

definition second_offer :: LfgProposal where
  "second_offer = offer 3 [(1, LFG_ANSWER_AGREE), (3, LFG_ANSWER_PENDING)]"

definition sample_offers :: LFGMgr where
  "sample_offers = on_queue 1 (fold (\<lambda>g. AddQueueData g 900 [7] [(g, PLAYER_ROLE_DAMAGE)]) [1, 2, 3])
     ((LFGMgr_new 3)\<lparr>ProposalsStore := [(2, first_offer), (3, second_offer)],
        PlayersStore := (\<lambda>g. if g \<in> {1, 2, 3}
          then LfgPlayerData_new\<lparr>pd_State := LFG_STATE_PROPOSAL, pd_SelectedDungeons := [7], pd_Roles := PLAYER_ROLE_DAMAGE\<rparr>
          else LfgPlayerData_new)\<rparr>)"

lemma sample_offers_simps:
  "ProposalsStore sample_offers = [(2, first_offer), (3, second_offer)]"
  "pr_players first_offer = [(1, \<lparr>pp_role = PLAYER_ROLE_DAMAGE, pp_accept = LFG_ANSWER_PENDING, pp_group = 0\<rparr>),
     (2, \<lparr>pp_role = PLAYER_ROLE_DAMAGE, pp_accept = LFG_ANSWER_AGREE, pp_group = 0\<rparr>)]"
  "pr_players second_offer = [(1, \<lparr>pp_role = PLAYER_ROLE_DAMAGE, pp_accept = LFG_ANSWER_AGREE, pp_group = 0\<rparr>),
     (3, \<lparr>pp_role = PLAYER_ROLE_DAMAGE, pp_accept = LFG_ANSWER_PENDING, pp_group = 0\<rparr>)]"
  "players_ok [(1, \<lparr>pp_role = PLAYER_ROLE_DAMAGE, pp_accept = LFG_ANSWER_PENDING, pp_group = 0\<rparr>),
     (2, \<lparr>pp_role = PLAYER_ROLE_DAMAGE, pp_accept = LFG_ANSWER_AGREE, pp_group = 0\<rparr>)]" "GetOldState 1 sample_offers = LFG_STATE_NONE"
  "GetSelectedDungeons 1 sample_offers = [7]" "GetSelectedDungeons 2 sample_offers = [7]"
  "GetSelectedDungeons 3 sample_offers = [7]"
  by (simp_all add: sample_offers_def mgr_simps first_offer_def second_offer_def offer_def LfgProposal_new_def players_ok_def
    IS_GROUP_GUID_def GUID_HIPART_def GetOldState_def LfgPlayerData_new_def)

theorem proposal_declined_witness:
  "GetState 2 (the (UpdateProposal (\<lambda>_. Some) sample_world 2 1 False sample_offers)) = LFG_STATE_QUEUED"
  using proposal_declined [of sample_offers 2 first_offer 1 "\<lparr>pp_role = PLAYER_ROLE_DAMAGE, pp_accept = LFG_ANSWER_PENDING, pp_group = 0\<rparr>"
      "\<lambda>_. Some" sample_world]
  by (auto simp: sample_offers_simps queue_guid_def)


theorem double_booked_undefined_witness:
  "\<exists>m. UpdateProposal (\<lambda>_. Some) sample_world 2 1 False sample_offers = Some m \<and>
     UpdateProposal (\<lambda>_. Some) sample_world 3 3 True m = None"
  by (rule double_booked_undefined [where p = first_offer and r = second_offer and z = "hd (pr_players first_offer)" and
        x = "\<lparr>pp_role = PLAYER_ROLE_DAMAGE, pp_accept = LFG_ANSWER_PENDING, pp_group = 0\<rparr>"])
    (simp_all add: sample_offers_simps queue_guid_def all_agree_def answered_def om_adjust_def answer_of_def)

end
