(* ===== verification/LfgBoot.thy ===== *)
theory LfgBoot
  imports LfgAnswers
begin

text \<open>
  Votes to kick a player out of a dungeon finder group, and the hooks by which the groups tell the
  manager about their members (\<open>LFGScripts\<close>). A group asks for a vote by calling the hook of a
  removed member; a vote that passes removes the member, which calls the hook again.
\<close>

subsection \<open>Opening a vote\<close>

definition InitBoot :: "lfg_world \<Rightarrow> u64 \<Rightarrow> u64 \<Rightarrow> u64 \<Rightarrow> string \<Rightarrow> LFGMgr \<Rightarrow> LFGMgr" where
  "InitBoot w gguid kicker victim reason m =
    (let m = SetState gguid LFG_STATE_BOOT m;
         old = (case map_of (BootsStore m) gguid of Some b \<Rightarrow> bt_votes b | None \<Rightarrow> []);
         players = GetPlayers gguid m;
         votes = fold (\<lambda>g. om_put g LFG_ANSWER_PENDING) players old;
         m = fold (\<lambda>g. SetState g LFG_STATE_BOOT) players m;
         boot = \<lparr>bt_cancelTime = lw_time w + LFG_TIME_BOOT, bt_inProgress = True,
           bt_votes = om_put kicker LFG_ANSWER_AGREE (om_put victim LFG_ANSWER_DENY votes), bt_victim = victim, bt_reason = reason\<rparr>;
         m = m\<lparr>BootsStore := om_put gguid boot (BootsStore m)\<rparr>
     in fold (\<lambda>g. send w g (BootProposalUpdate boot)) players m)"

subsection \<open>The hooks\<close>

datatype RemoveMethod =
  GROUP_REMOVEMETHOD_DEFAULT | GROUP_REMOVEMETHOD_KICK | GROUP_REMOVEMETHOD_LEAVE | GROUP_REMOVEMETHOD_KICK_LFG

definition LFG_SPELL_DUNGEON_DESERTER :: u32 where "LFG_SPELL_DUNGEON_DESERTER = 71041"

definition lfg_enabled :: "LFGMgr \<Rightarrow> bool" where
  "lfg_enabled m \<longleftrightarrow> isOptionEnabled (LFG_OPTION_ENABLE_DUNGEON_FINDER OR LFG_OPTION_ENABLE_RAID_BROWSER) m"

text \<open>The teleport out of the dungeon concerns the player alone and is left out.\<close>

definition OnRemoveMember ::
  "lfg_world \<Rightarrow> bool \<Rightarrow> u64 \<Rightarrow> u64 \<Rightarrow> RemoveMethod \<Rightarrow> u64 \<Rightarrow> string \<Rightarrow> LFGMgr \<Rightarrow> LFGMgr"
where
  "OnRemoveMember w isLFG gguid guid method kicker reason m =
    (if \<not> lfg_enabled m then m
     else if isLFG \<and> method = GROUP_REMOVEMETHOD_KICK then InitBoot w gguid kicker guid reason m
     else let state = GetState gguid m
          in if state = LFG_STATE_PROPOSAL \<and> method = GROUP_REMOVEMETHOD_DEFAULT
             then snd (RemovePlayerFromGroup gguid guid (SetGroup guid 0 m))
             else case RemovePlayerFromGroup gguid guid (SetGroup guid 0 (LeaveLfg w guid m)) of (players, m) \<Rightarrow>
               let m = (if method = GROUP_REMOVEMETHOD_LEAVE \<and> state = LFG_STATE_DUNGEON \<and>
                           unat players \<ge> LFG_GROUP_KICK_VOTES_NEEDED
                        then send w guid (CastSpell LFG_SPELL_DUNGEON_DESERTER) m else m);
                   m = send w guid (UpdateStatus (UpdateData LFG_UPDATETYPE_LEADER_UNK1 [] []) True) m
               in if isLFG \<and> state \<noteq> LFG_STATE_FINISHED_DUNGEON
                  then send w (GetLeader gguid m) (OfferContinue (GetDungeon gguid False m)) m else m)"

definition OnAddMember :: "lfg_world \<Rightarrow> u64 \<Rightarrow> u64 \<Rightarrow> u64 \<Rightarrow> LFGMgr \<Rightarrow> LFGMgr" where
  "OnAddMember w gguid leader guid m =
    (if \<not> lfg_enabled m then m
     else let m = (if leader = guid then SetLeader gguid guid m
                   else let gstate = GetState gguid m; state = GetState guid m;
                            m = (if state = LFG_STATE_QUEUED then LeaveLfg w guid m else m)
                        in if gstate = LFG_STATE_QUEUED then LeaveLfg w gguid m else m)
          in AddPlayerToGroup gguid guid (SetGroup guid gguid m))"

definition RemovePlayerData :: "u64 \<Rightarrow> LFGMgr \<Rightarrow> LFGMgr" where
  "RemovePlayerData guid m = upd_player guid (\<lambda>_. LfgPlayerData_new) m"

definition RemoveGroupData :: "lfg_world \<Rightarrow> u64 \<Rightarrow> LFGMgr \<Rightarrow> LFGMgr" where
  "RemoveGroupData w guid m =
    (let state = GetState guid m;
         m = fold (\<lambda>g m. let m = SetGroup g 0 m
               in if state \<noteq> LFG_STATE_PROPOSAL
                  then send w g (UpdateStatus (UpdateData LFG_UPDATETYPE_REMOVED_FROM_QUEUE [] []) True) (SetState g LFG_STATE_NONE m)
                  else m) (GetPlayers guid m) m
     in upd_group guid (\<lambda>_. LfgGroupData_new) m)"

definition OnDisband :: "lfg_world \<Rightarrow> u64 \<Rightarrow> LFGMgr \<Rightarrow> LFGMgr" where
  "OnDisband w gguid m = (if lfg_enabled m then RemoveGroupData w gguid m else m)"

definition OnChangeLeader :: "u64 \<Rightarrow> u64 \<Rightarrow> LFGMgr \<Rightarrow> LFGMgr" where
  "OnChangeLeader gguid newLeader m = (if lfg_enabled m then SetLeader gguid newLeader m else m)"

definition OnInviteMember :: "lfg_world \<Rightarrow> u64 \<Rightarrow> u64 \<Rightarrow> LFGMgr \<Rightarrow> LFGMgr" where
  "OnInviteMember w gguid leader m = (if lfg_enabled m \<and> leader \<noteq> 0 \<and> gguid = 0 then LeaveLfg w leader m else m)"

definition OnLogout :: "lfg_world \<Rightarrow> bool \<Rightarrow> u64 \<Rightarrow> LFGMgr \<Rightarrow> LFGMgr" where
  "OnLogout w grouped guid m = (if lfg_enabled m \<and> \<not> grouped then LeaveLfg w guid m else m)"

subsection \<open>Voting\<close>

text \<open>
  \<open>boot.votes[guid]\<close> creates the vote of someone who has none as a denial. A vote that passes
  removes the victim from the group object, if there is one, and so calls the hook.
\<close>

definition votes_for :: "LfgAnswer \<Rightarrow> (u64 \<times> LfgAnswer) list \<Rightarrow> nat" where
  "votes_for a votes = length (filter (\<lambda>x. snd x = a) votes)"

definition end_vote :: "lfg_world \<Rightarrow> LfgPlayerBoot \<Rightarrow> (u64 \<times> LfgAnswer) list \<Rightarrow> LFGMgr \<Rightarrow> LFGMgr" where
  "end_vote w boot votes m =
     fold (\<lambda>(g, a) m. if g \<noteq> bt_victim boot then send w g (BootProposalUpdate boot) (SetState g LFG_STATE_DUNGEON m) else m) votes m"

definition UpdateBoot :: "lfg_world \<Rightarrow> u64 \<Rightarrow> bool \<Rightarrow> LFGMgr \<Rightarrow> LFGMgr" where
  "UpdateBoot w guid accept m =
    (let gguid = GetGroup guid m
     in if gguid = 0 then m
        else case map_of (BootsStore m) gguid of
          None \<Rightarrow> m
        | Some boot \<Rightarrow>
            if map_of (bt_votes boot) guid \<noteq> Some LFG_ANSWER_PENDING
            then (if map_of (bt_votes boot) guid = None
                  then m\<lparr>BootsStore := om_put gguid (boot\<lparr>bt_votes := om_put guid LFG_ANSWER_DENY (bt_votes boot)\<rparr>) (BootsStore m)\<rparr>
                  else m)
            else let boot = boot\<lparr>bt_votes := om_put guid (answer_of accept) (bt_votes boot)\<rparr>;
                     votesNum = (votes_for LFG_ANSWER_AGREE (bt_votes boot) + votes_for LFG_ANSWER_DENY (bt_votes boot)) mod 256;
                     agreeNum = votes_for LFG_ANSWER_AGREE (bt_votes boot) mod 256;
                     m = m\<lparr>BootsStore := om_put gguid boot (BootsStore m)\<rparr>
                 in if agreeNum < LFG_GROUP_KICK_VOTES_NEEDED \<and> int votesNum - int agreeNum < int LFG_GROUP_KICK_VOTES_NEEDED then m
                    else let boot = boot\<lparr>bt_inProgress := False\<rparr>;
                             m = m\<lparr>BootsStore := om_put gguid boot (BootsStore m)\<rparr>;
                             m = SetState gguid LFG_STATE_DUNGEON (end_vote w boot (bt_votes boot) m);
                             m = (if agreeNum = LFG_GROUP_KICK_VOTES_NEEDED
                                  then DecreaseKicksLeft gguid (case lw_group w gguid of
                                         Some isLFG \<Rightarrow> OnRemoveMember w isLFG gguid (bt_victim boot) GROUP_REMOVEMETHOD_KICK_LFG 0 [] m
                                       | None \<Rightarrow> m)
                                  else m)
                         in m\<lparr>BootsStore := om_erase gguid (BootsStore m)\<rparr>)"

text \<open>\<open>Update\<close> gives up on votes that took too long.\<close>

definition expire_boot :: "lfg_world \<Rightarrow> u64 \<times> LfgPlayerBoot \<Rightarrow> LFGMgr \<Rightarrow> LFGMgr" where
  "expire_boot w = (\<lambda>(gguid, boot) m.
    (if bt_cancelTime boot < lw_time w
     then let boot = boot\<lparr>bt_inProgress := False\<rparr>;
              m = m\<lparr>BootsStore := om_put gguid boot (BootsStore m)\<rparr>;
              m = fold (\<lambda>(g, a) m. SetState g LFG_STATE_DUNGEON (if g \<noteq> bt_victim boot then send w g (BootProposalUpdate boot) m else m))
                (bt_votes boot) m;
              m = SetState gguid LFG_STATE_DUNGEON m
          in m\<lparr>BootsStore := om_erase gguid (BootsStore m)\<rparr>
     else m))"

definition expire_boots :: "lfg_world \<Rightarrow> LFGMgr \<Rightarrow> LFGMgr" where
  "expire_boots w m = fold (expire_boot w) (BootsStore m) m"

subsection \<open>How a vote ends\<close>

lemma end_vote_state:
  "GetState h (end_vote w b vs m) = (if h \<in> fst ` set vs \<and> h \<noteq> bt_victim b then LFG_STATE_DUNGEON else GetState h m)"
  by (induction vs arbitrary: m) (auto simp: end_vote_def mgr_simps)

lemma GetKicksLeft_frame [mgr_simps]:
  "s \<noteq> LFG_STATE_NONE \<Longrightarrow> GetKicksLeft h (SetState g s m) = GetKicksLeft h m"
  "GetKicksLeft h (send w g msg m) = GetKicksLeft h m" "GetKicksLeft h (RestoreState g m) = GetKicksLeft h m"
  by (auto simp: accessor_defs GroupData_SetState_def GroupData_RestoreState_def split: LfgState.splits)

lemma end_vote_frame [mgr_simps]:
  "BootsStore (end_vote w b vs m) = BootsStore m" "GetPlayers h (end_vote w b vs m) = GetPlayers h m"
  "GetKicksLeft h (end_vote w b vs m) = GetKicksLeft h m" "GetGroup h (end_vote w b vs m) = GetGroup h m"
  "m_options (end_vote w b vs m) = m_options m" "GetOldState h (end_vote w b vs m) =
    (if h \<in> fst ` set vs \<and> h \<noteq> bt_victim b then LFG_STATE_DUNGEON else GetOldState h m)"
  by (induction vs arbitrary: m) (auto simp: end_vote_def mgr_simps stable_state_def)

lemma votes_total:
  "votes_for LFG_ANSWER_AGREE vs + votes_for LFG_ANSWER_DENY vs + votes_for LFG_ANSWER_PENDING vs = length vs"
proof -
  have "votes_for LFG_ANSWER_AGREE (x # vs) + votes_for LFG_ANSWER_DENY (x # vs) + votes_for LFG_ANSWER_PENDING (x # vs) =
      Suc (votes_for LFG_ANSWER_AGREE vs + votes_for LFG_ANSWER_DENY vs + votes_for LFG_ANSWER_PENDING vs)" for x vs
    by (cases "snd x") (simp_all add: votes_for_def)
  then show ?thesis by (induction vs) (auto simp: votes_for_def)
qed

lemma length_om_put_present: "map_of m k \<noteq> None \<Longrightarrow> om_ok m \<Longrightarrow> length (om_put k v m) = length m"
proof (induction k v m rule: om_put.induct)
  case (2 k v a b m)
  then have "\<not> k < a" by (force simp: om_ok_Cons dest: map_of_SomeD split: if_splits)
  with 2 show ?case by (auto simp: om_ok_Cons)
qed simp

text \<open>The vote after an answer.\<close>

definition voted :: "u64 \<Rightarrow> bool \<Rightarrow> LfgPlayerBoot \<Rightarrow> LfgPlayerBoot" where
  "voted guid accept boot = boot\<lparr>bt_votes := om_put guid (answer_of accept) (bt_votes boot)\<rparr>"

definition undecided :: "LfgPlayerBoot \<Rightarrow> bool" where
  "undecided boot \<longleftrightarrow> votes_for LFG_ANSWER_AGREE (bt_votes boot) < LFG_GROUP_KICK_VOTES_NEEDED \<and>
     votes_for LFG_ANSWER_DENY (bt_votes boot) < LFG_GROUP_KICK_VOTES_NEEDED"

lemma UpdateBoot_cases:
  fixes accept :: bool
  assumes "GetGroup guid m = gguid" and "gguid \<noteq> 0" and "map_of (BootsStore m) gguid = Some boot"
    and "map_of (bt_votes boot) guid = Some LFG_ANSWER_PENDING" and "length (bt_votes boot) < 255"
  defines "b \<equiv> voted guid accept boot"
  shows "undecided b \<Longrightarrow> UpdateBoot w guid accept m = m\<lparr>BootsStore := om_put gguid b (BootsStore m)\<rparr>"
    and "\<not> undecided b \<Longrightarrow> UpdateBoot w guid accept m =
      (let b = b\<lparr>bt_inProgress := False\<rparr>;
           m = SetState gguid LFG_STATE_DUNGEON (end_vote w b (bt_votes b) (m\<lparr>BootsStore := om_put gguid b (BootsStore m)\<rparr>));
           m = (if votes_for LFG_ANSWER_AGREE (bt_votes b) = LFG_GROUP_KICK_VOTES_NEEDED
                then DecreaseKicksLeft gguid (case lw_group w gguid of
                       Some isLFG \<Rightarrow> OnRemoveMember w isLFG gguid (bt_victim b) GROUP_REMOVEMETHOD_KICK_LFG 0 [] m
                     | None \<Rightarrow> m)
                else m)
       in m\<lparr>BootsStore := om_erase gguid (BootsStore m)\<rparr>)"
proof -
  have "length (bt_votes b) < 256"
    using length_om_put [of guid "answer_of accept" "bt_votes boot"] assms(5) by (simp add: b_def voted_def)
  then have n: "votes_for LFG_ANSWER_AGREE (bt_votes b) + votes_for LFG_ANSWER_DENY (bt_votes b) < 256"
    using votes_total [of "bt_votes b"] by linarith
  show "undecided b \<Longrightarrow> UpdateBoot w guid accept m = m\<lparr>BootsStore := om_put gguid b (BootsStore m)\<rparr>"
    using n assms(1-4) by (simp add: UpdateBoot_def Let_def b_def undecided_def flip: voted_def)
  show "\<not> undecided b \<Longrightarrow> UpdateBoot w guid accept m =
      (let b = b\<lparr>bt_inProgress := False\<rparr>;
           m = SetState gguid LFG_STATE_DUNGEON (end_vote w b (bt_votes b) (m\<lparr>BootsStore := om_put gguid b (BootsStore m)\<rparr>));
           m = (if votes_for LFG_ANSWER_AGREE (bt_votes b) = LFG_GROUP_KICK_VOTES_NEEDED
                then DecreaseKicksLeft gguid (case lw_group w gguid of
                       Some isLFG \<Rightarrow> OnRemoveMember w isLFG gguid (bt_victim b) GROUP_REMOVEMETHOD_KICK_LFG 0 [] m
                     | None \<Rightarrow> m)
                else m)
       in m\<lparr>BootsStore := om_erase gguid (BootsStore m)\<rparr>)"
    using n assms(1-4) by (auto simp: UpdateBoot_def Let_def b_def undecided_def om_put_put simp flip: voted_def)
qed

lemma group_links [mgr_simps]:
  "GetState h (SetGroup g k m) = GetState h m" "GetState h (snd (RemovePlayerFromGroup k g m)) = GetState h m"
  "GetGroup h (SetGroup g k m) = (if h = g then k else GetGroup h m)"
  "GetGroup h (snd (RemovePlayerFromGroup k g m)) = GetGroup h m" "GetGroup h (send w g msg m) = GetGroup h m"
  "GetPlayers h (SetGroup g k m) = GetPlayers h m" "GetPlayers h (send w g msg m) = GetPlayers h m"
  "GetPlayers h (snd (RemovePlayerFromGroup k g m)) = (if h = k then os_erase g (GetPlayers h m) else GetPlayers h m)"
  "GetKicksLeft h (SetGroup g k m) = GetKicksLeft h m" "GetKicksLeft h (snd (RemovePlayerFromGroup k g m)) = GetKicksLeft h m"
  "GetKicksLeft h (DecreaseKicksLeft g m) = (if h = g \<and> GetKicksLeft h m \<noteq> 0 then GetKicksLeft h m - 1 else GetKicksLeft h m)"
  "GetGroup h (DecreaseKicksLeft g m) = GetGroup h m" "m_options (SetGroup g k m) = m_options m"
  "BootsStore (SetGroup g k m) = BootsStore m" "BootsStore (snd (RemovePlayerFromGroup k g m)) = BootsStore m"
  by (auto simp: accessor_defs RemovePlayerFromGroup_def GetState_def GroupData_RemovePlayer_def GroupData_DecreaseKicksLeft_def)

text \<open>The hook for a member who is kicked while the group is in the dungeon.\<close>

lemma OnRemoveMember_kick:
  fixes w :: lfg_world and lfg :: bool and k :: u64 and reason :: string
  assumes "lfg_enabled m" and "GetState gguid m = LFG_STATE_DUNGEON" and "GetState victim m = LFG_STATE_BOOT"
    and "\<not> IS_GROUP_GUID victim" and "GetGroup victim m \<noteq> victim" and "IS_GROUP_GUID gguid"
  defines "m' \<equiv> OnRemoveMember w lfg gguid victim GROUP_REMOVEMETHOD_KICK_LFG k reason m"
  shows "GetState h m' = (if h = victim then LFG_STATE_NONE else GetState h m)" and "GetGroup victim m' = 0"
    and "GetPlayers gguid m' = os_erase victim (GetPlayers gguid m)" and "GetKicksLeft gguid m' = GetKicksLeft gguid m"
    and "BootsStore m' = BootsStore m"
proof -
  have leave: "LeaveLfg w victim m = SetState victim LFG_STATE_NONE m"
    using assms(3-5) by (simp add: LeaveLfg_def Let_def)
  have kicks: "GetKicksLeft gguid (SetState victim LFG_STATE_NONE m) = GetKicksLeft gguid m"
    using assms(4) by (simp add: SetState_def upd_player_def)
  show "GetState h m' = (if h = victim then LFG_STATE_NONE else GetState h m)" "GetGroup victim m' = 0"
    "GetPlayers gguid m' = os_erase victim (GetPlayers gguid m)" "GetKicksLeft gguid m' = GetKicksLeft gguid m"
    "BootsStore m' = BootsStore m"
    using assms(1-3) kicks
    by (simp_all add: m'_def OnRemoveMember_def Let_def leave case_prod_unfold mgr_simps)
qed

lemma enabled_simps [mgr_simps]:
  "lfg_enabled (SetState g s m) = lfg_enabled m" "lfg_enabled (end_vote w b vs m) = lfg_enabled m"
  "lfg_enabled (m\<lparr>BootsStore := x\<rparr>) = lfg_enabled m"
  by (simp_all add: lfg_enabled_def isOptionEnabled_def mgr_simps)

text \<open>The parties of a vote: a running vote in a dungeon finder group, the voter has not answered.\<close>

definition vote_open :: "u64 \<Rightarrow> u64 \<Rightarrow> LfgPlayerBoot \<Rightarrow> LFGMgr \<Rightarrow> bool" where
  "vote_open gguid guid boot m \<longleftrightarrow> GetGroup guid m = gguid \<and> IS_GROUP_GUID gguid \<and>
     map_of (BootsStore m) gguid = Some boot \<and> map_of (bt_votes boot) guid = Some LFG_ANSWER_PENDING \<and>
     length (bt_votes boot) < 255 \<and> \<not> IS_GROUP_GUID (bt_victim boot) \<and> (\<forall>x \<in> set (bt_votes boot). \<not> IS_GROUP_GUID (fst x))"

lemma group_guid_0 [simp]: "\<not> IS_GROUP_GUID 0"
  by (simp add: IS_GROUP_GUID_def GUID_HIPART_def Let_def)

text \<open>
  C25: A vote on a kick is recorded and changes nothing else until three players agree or three
  deny; then the vote is closed and everyone but the victim is back in the dungeon, and with three
  agreeing the victim has lost his state and his group and one kick is used up.
\<close>

theorem vote_outcome:
  fixes w :: lfg_world and accept :: bool
  assumes vote: "vote_open gguid guid boot m"
    and victim: "GetState (bt_victim boot) m = LFG_STATE_BOOT" "GetGroup (bt_victim boot) m = gguid"
    and env: "lfg_enabled m" "lw_group w gguid \<noteq> None"
  defines "b \<equiv> voted guid accept boot" and "m' \<equiv> UpdateBoot w guid accept m"
  shows "if undecided b then m' = m\<lparr>BootsStore := om_put gguid b (BootsStore m)\<rparr>
    else map_of (BootsStore m') gguid = None \<and> GetState gguid m' = LFG_STATE_DUNGEON \<and>
      (\<forall>g \<in> fst ` set (bt_votes b). g \<noteq> bt_victim boot \<longrightarrow> GetState g m' = LFG_STATE_DUNGEON) \<and>
      (if votes_for LFG_ANSWER_AGREE (bt_votes b) = LFG_GROUP_KICK_VOTES_NEEDED
       then GetState (bt_victim boot) m' = LFG_STATE_NONE \<and> GetGroup (bt_victim boot) m' = 0 \<and>
         GetPlayers gguid m' = os_erase (bt_victim boot) (GetPlayers gguid m) \<and>
         GetKicksLeft gguid m' = (if GetKicksLeft gguid m = 0 then 0 else GetKicksLeft gguid m - 1)
       else GetState (bt_victim boot) m' = LFG_STATE_BOOT \<and> GetGroup (bt_victim boot) m' = gguid \<and>
         GetPlayers gguid m' = GetPlayers gguid m \<and> GetKicksLeft gguid m' = GetKicksLeft gguid m)"
proof (cases "undecided b")
  case True
  have "gguid \<noteq> 0" using vote by (auto simp: vote_open_def)
  with True vote show ?thesis
    using UpdateBoot_cases(1) [of m guid gguid boot accept w] by (auto simp: vote_open_def b_def m'_def)
next
  case False
  let ?b = "b\<lparr>bt_inProgress := False\<rparr>"
  let ?m = "SetState gguid LFG_STATE_DUNGEON (end_vote w ?b (bt_votes ?b) (m\<lparr>BootsStore := om_put gguid ?b (BootsStore m)\<rparr>))"
  have bv: "bt_victim b = bt_victim boot" by (simp add: b_def voted_def)
  have ne: "bt_victim boot \<noteq> gguid" "gguid \<noteq> 0" using vote by (auto simp: vote_open_def)
  have state: "GetState h ?m = (if h = gguid \<or> h \<in> fst ` set (bt_votes b) \<and> h \<noteq> bt_victim boot then LFG_STATE_DUNGEON else GetState h m)" for h
    by (auto simp: mgr_simps end_vote_state bv)
  note step = UpdateBoot_cases(2) [of m guid gguid boot accept w, folded b_def m'_def]
  show ?thesis
  proof (cases "votes_for LFG_ANSWER_AGREE (bt_votes b) = LFG_GROUP_KICK_VOTES_NEEDED")
    case kick: True
    obtain lfg where lfg: "lw_group w gguid = Some lfg" using env(2) by blast
    let ?k = "OnRemoveMember w lfg gguid (bt_victim boot) GROUP_REMOVEMETHOD_KICK_LFG 0 [] ?m"
    have m': "m' = (DecreaseKicksLeft gguid ?k)\<lparr>BootsStore := om_erase gguid (BootsStore (DecreaseKicksLeft gguid ?k))\<rparr>"
      using step vote False kick lfg by (simp add: vote_open_def Let_def bv ne)
    have "GetState (bt_victim boot) ?m = LFG_STATE_BOOT" "GetState gguid ?m = LFG_STATE_DUNGEON" "lfg_enabled ?m"
        "GetGroup (bt_victim boot) ?m \<noteq> bt_victim boot" "\<not> IS_GROUP_GUID (bt_victim boot)" "IS_GROUP_GUID gguid"
      using victim env(1) ne vote by (simp_all add: vote_open_def mgr_simps end_vote_state bv)
    note k = OnRemoveMember_kick [OF this(3,2,1,5,4,6), where w = w and lfg = lfg and k = 0 and reason = "[]"]
    show ?thesis
      using False kick k ne state by (simp add: m' mgr_simps)
  next
    case keep: False
    have m': "m' = ?m\<lparr>BootsStore := om_erase gguid (BootsStore ?m)\<rparr>"
      using step vote False keep ne by (simp add: vote_open_def Let_def)
    show ?thesis
      using False keep ne victim by (simp add: m' mgr_simps end_vote_state bv)
  qed
qed

lemma expire_boots_other:
  assumes "\<forall>(k, b) \<in> set (BootsStore m). k \<noteq> g \<and> g \<notin> fst ` set (bt_votes b)"
  shows "GetState g (expire_boots w m) = GetState g m"
proof -
  have v: "g \<notin> fst ` set vs \<Longrightarrow> GetState g (fold (\<lambda>(g, a) m. SetState g LFG_STATE_DUNGEON
      (if g \<noteq> v then send w g (BootProposalUpdate b) m else m)) vs m) = GetState g m" for v b m and vs :: "(u64 \<times> LfgAnswer) list"
    by (induction vs arbitrary: m) (auto simp: mgr_simps)
  have "\<forall>(k, b) \<in> set bs. k \<noteq> g \<and> g \<notin> fst ` set (bt_votes b) \<Longrightarrow> GetState g (fold (expire_boot w) bs m) = GetState g m" for bs m
    by (induction bs arbitrary: m) (auto simp: expire_boot_def Let_def mgr_simps v)
  with assms show ?thesis by (simp add: expire_boots_def)
qed

text \<open>
  When a vote to kick fails, the victim stays in the boot state, and no later expiry of votes
  takes him out of it.
\<close>

theorem kept_player_stuck:
  fixes w :: lfg_world and accept :: bool
  assumes vote: "vote_open gguid guid boot m" "\<not> undecided (voted guid accept boot)"
      "votes_for LFG_ANSWER_AGREE (bt_votes (voted guid accept boot)) \<noteq> LFG_GROUP_KICK_VOTES_NEEDED"
    and victim: "GetState (bt_victim boot) m = LFG_STATE_BOOT"
    and only: "\<forall>(k, b) \<in> set (BootsStore m). k \<noteq> gguid \<longrightarrow> bt_victim boot \<notin> fst ` set (bt_votes b) \<and> k \<noteq> bt_victim boot"
  shows "GetState gguid (UpdateBoot w guid accept m) = LFG_STATE_DUNGEON \<and>
    GetState (bt_victim boot) (UpdateBoot w guid accept m) = LFG_STATE_BOOT \<and>
    GetState (bt_victim boot) (expire_boots w' (UpdateBoot w guid accept m)) = LFG_STATE_BOOT"
proof -
  let ?b = "(voted guid accept boot)\<lparr>bt_inProgress := False\<rparr>"
  let ?m = "SetState gguid LFG_STATE_DUNGEON (end_vote w ?b (bt_votes ?b) (m\<lparr>BootsStore := om_put gguid ?b (BootsStore m)\<rparr>))"
  let ?m' = "?m\<lparr>BootsStore := om_erase gguid (BootsStore ?m)\<rparr>"
  have ne: "gguid \<noteq> 0" "bt_victim boot \<noteq> gguid" using vote(1) by (auto simp: vote_open_def)
  have m': "UpdateBoot w guid accept m = ?m'"
    using UpdateBoot_cases(2) [of m guid gguid boot accept w] vote ne by (simp add: vote_open_def Let_def)
  have bv: "bt_victim (voted guid accept boot) = bt_victim boot" by (simp add: voted_def)
  have st: "GetState (bt_victim boot) ?m' = LFG_STATE_BOOT" "GetState gguid ?m' = LFG_STATE_DUNGEON"
    using ne victim by (simp_all add: mgr_simps end_vote_state bv)
  have "\<forall>(k, b) \<in> set (BootsStore ?m'). k \<noteq> bt_victim boot \<and> bt_victim boot \<notin> fst ` set (bt_votes b)"
  proof clarify
    have e: "BootsStore ?m' = om_erase gguid (BootsStore m)" by (simp add: mgr_simps om_erase_put)
    fix k b
    assume "(k, b) \<in> set (BootsStore ?m')"
    then have "(k, b) \<in> set (BootsStore m)" "k \<noteq> gguid" unfolding e by (simp_all add: om_erase_def)
    with bspec [OF only this(1)] have "bt_victim boot \<notin> fst ` set (bt_votes b) \<and> k \<noteq> bt_victim boot" by simp
    then show "k \<noteq> bt_victim boot \<and> bt_victim boot \<notin> fst ` set (bt_votes b)" by blast
  qed
  from expire_boots_other [OF this, of w'] st show ?thesis unfolding m' by simp
qed

text \<open>Five votes always decide; four may be two against two.\<close>

text \<open>C\<close>

theorem five_votes_decide:
  assumes "om_ok (bt_votes boot)" and "map_of (bt_votes boot) guid = Some LFG_ANSWER_PENDING"
    and "length (bt_votes boot) = 5" and "votes_for LFG_ANSWER_PENDING (bt_votes boot) = 1"
  shows "\<not> undecided (voted guid accept boot)"
proof -
  have pending: "votes_for LFG_ANSWER_PENDING (om_put guid a vs) = 0"
    if "a \<noteq> LFG_ANSWER_PENDING" "om_ok vs" "map_of vs guid = Some LFG_ANSWER_PENDING" "votes_for LFG_ANSWER_PENDING vs = 1" for a vs
    using that
  proof (induction guid a vs rule: om_put.induct)
    case (2 k v a b vs)
    then have "\<not> k < a" by (force simp: om_ok_Cons dest: map_of_SomeD split: if_splits)
    show ?case
    proof (cases "k = a")
      case True
      with 2 \<open>\<not> k < a\<close> show ?thesis by (simp add: votes_for_def split: if_splits)
    next
      case False
      then have "map_of vs k = Some LFG_ANSWER_PENDING" using 2 by simp
      then have "(k, LFG_ANSWER_PENDING) \<in> set (filter (\<lambda>x. snd x = LFG_ANSWER_PENDING) vs)" by (auto dest: map_of_SomeD)
      then have "votes_for LFG_ANSWER_PENDING vs \<noteq> 0" unfolding votes_for_def by (metis length_0_conv list.set(1) empty_iff)
      with 2 False \<open>\<not> k < a\<close> show ?thesis by (auto simp: votes_for_def om_ok_Cons split: if_splits)
    qed
  qed simp
  let ?vs = "om_put guid (answer_of accept) (bt_votes boot)"
  have "length ?vs = 5" using length_om_put_present [of "bt_votes boot" guid] assms by simp
  moreover have "votes_for LFG_ANSWER_PENDING ?vs = 0"
    by (rule pending) (use assms in \<open>simp_all add: answer_of_def\<close>)
  ultimately show ?thesis
    using votes_total [of ?vs] by (auto simp: undecided_def voted_def LFG_GROUP_KICK_VOTES_NEEDED_def)
qed

subsection \<open>A vote\<close>

text \<open>The player 1 wants to kick the player 2; the player 4 has the last vote.\<close>

definition sample_boot :: LfgPlayerBoot where
  "sample_boot = \<lparr>bt_cancelTime = 1100, bt_inProgress = True, bt_votes = [(1, LFG_ANSWER_AGREE), (2, LFG_ANSWER_DENY),
     (3, LFG_ANSWER_AGREE), (4, LFG_ANSWER_PENDING), (5, LFG_ANSWER_DENY)], bt_victim = 2, bt_reason = []\<rparr>"

definition sample_vote :: LFGMgr where
  "sample_vote = (LFGMgr_new 3)\<lparr>BootsStore := [(sample_party, sample_boot)],
     PlayersStore := (\<lambda>g. LfgPlayerData_new\<lparr>pd_State := LFG_STATE_BOOT, pd_OldState := LFG_STATE_DUNGEON, pd_Group := sample_party\<rparr>),
     GroupsStore := (\<lambda>g. LfgGroupData_new\<lparr>gd_State := LFG_STATE_BOOT, gd_OldState := LFG_STATE_DUNGEON, gd_Players := [1, 2, 3, 4, 5]\<rparr>)\<rparr>"

lemma sample_vote_simps:
  "vote_open sample_party 4 sample_boot sample_vote" "GetState 2 sample_vote = LFG_STATE_BOOT"
  "GetGroup g sample_vote = sample_party" "lfg_enabled sample_vote" "bt_victim sample_boot = 2"
  "bt_votes (voted 4 a sample_boot) = [(1, LFG_ANSWER_AGREE), (2, LFG_ANSWER_DENY), (3, LFG_ANSWER_AGREE),
     (4, answer_of a), (5, LFG_ANSWER_DENY)]"
  "BootsStore sample_vote = [(sample_party, sample_boot)]" "sample_party \<noteq> 2" "lw_group sample_world g = Some True"
  by (simp_all add: vote_open_def sample_vote_def sample_boot_def sample_party_def GetState_def IS_GROUP_GUID_def GUID_HIPART_def
    lfg_enabled_def isOptionEnabled_def LFGMgr_new_def LFG_OPTION_ENABLE_DUNGEON_FINDER_def LFG_OPTION_ENABLE_RAID_BROWSER_def
    voted_def sample_world_def)

theorem vote_outcome_witness:
  "GetState 2 (UpdateBoot sample_world 4 True sample_vote) = LFG_STATE_NONE \<and>
   GetState 3 (UpdateBoot sample_world 4 True sample_vote) = LFG_STATE_DUNGEON"
  using vote_outcome [OF sample_vote_simps(1), of sample_world True]
  by (simp add: sample_vote_simps undecided_def votes_for_def answer_of_def LFG_GROUP_KICK_VOTES_NEEDED_def)

theorem kept_player_stuck_witness:
  "GetState 2 (expire_boots (sample_world\<lparr>lw_time := 9000\<rparr>) (UpdateBoot sample_world 4 False sample_vote)) = LFG_STATE_BOOT"
  using kept_player_stuck [OF sample_vote_simps(1), of False sample_world "sample_world\<lparr>lw_time := 9000\<rparr>"]
  by (simp add: sample_vote_simps undecided_def votes_for_def answer_of_def LFG_GROUP_KICK_VOTES_NEEDED_def)

theorem five_votes_decide_witness: "\<not> undecided (voted 4 True sample_boot)"
  by (rule five_votes_decide) (simp_all add: sample_boot_def om_ok_def votes_for_def)

end
