(* ===== verification/LfgUpdate.thy ===== *)
theory LfgUpdate
  imports LfgBoot
begin

text \<open>
  The remaining operations of the manager: joining, the periodic \<open>Update\<close>, which expires what was
  not answered, runs the searches and offers the groups they find, and the end of a dungeon.
\<close>

subsection \<open>Joining\<close>

text \<open>What joining asks of a player: permission, battleground, the deserter and cooldown auras.\<close>

record player_facts =
  pf_may_join :: "u64 \<Rightarrow> bool"
  pf_battleground :: "u64 \<Rightarrow> bool"
  pf_deserter :: "u64 \<Rightarrow> bool"
  pf_cooldown :: "u64 \<Rightarrow> bool"

text \<open>The group of the player: GUID, kind, number of members, and the members that are online.\<close>

record lfg_party =
  lp_guid :: u64
  lp_isLFG :: bool
  lp_count :: nat
  lp_members :: "u64 list"

fun join_members :: "player_facts \<Rightarrow> u64 list \<Rightarrow> nat \<Rightarrow> u64 list \<Rightarrow> LfgJoinResult \<times> nat \<times> u64 list" where
  "join_members f [] n ps = (LFG_JOIN_OK, n, ps)"
| "join_members f (g # gs) n ps =
    (let r = (if \<not> pf_may_join f g then LFG_JOIN_INTERNAL_ERROR else LFG_JOIN_OK);
         r = (if pf_deserter f g then LFG_JOIN_PARTY_DESERTER
              else if pf_cooldown f g then LFG_JOIN_PARTY_RANDOM_COOLDOWN
              else if pf_battleground f g then LFG_JOIN_USING_BG_SYSTEM else r);
         n = (n + 1) mod 256; ps = os_insert g ps
     in if r = LFG_JOIN_OK then join_members f gs n ps else (r, n, ps))"

definition join_restrictions ::
  "player_facts \<Rightarrow> u64 \<Rightarrow> lfg_party option \<Rightarrow> LfgDungeonSet \<Rightarrow> LfgJoinResult \<times> u64 list"
where
  "join_restrictions f guid party ds =
    (if \<not> pf_may_join f guid then (LFG_JOIN_NOT_MEET_REQS, [])
     else if pf_battleground f guid then (LFG_JOIN_USING_BG_SYSTEM, [])
     else if pf_deserter f guid then (LFG_JOIN_DESERTER, [])
     else if pf_cooldown f guid then (LFG_JOIN_RANDOM_COOLDOWN, [])
     else if ds = [] then (LFG_JOIN_NOT_MEET_REQS, [])
     else case party of
       None \<Rightarrow> (LFG_JOIN_OK, [guid])
     | Some g \<Rightarrow>
         if lp_count g > MAXGROUPSIZE then (LFG_JOIN_TOO_MUCH_MEMBERS, [])
         else case join_members f (lp_members g) 0 [] of (r, n, ps) \<Rightarrow>
           (if r = LFG_JOIN_OK \<and> n \<noteq> lp_count g then LFG_JOIN_DISCONNECTED else r, ps))"

text \<open>The kinds of the selected dungeons: the result, whether they are raids, the random dungeon.\<close>

record join_kind =
  jk_result :: LfgJoinResult
  jk_isRaid :: bool
  jk_isDungeon :: bool
  jk_random :: u32

definition join_type :: "LfgDungeonSet \<Rightarrow> LfgType \<Rightarrow> join_kind \<Rightarrow> join_kind" where
  "join_type ds t k =
    (let k = (if t = LFG_TYPE_RANDOM
              then if length ds > 1 then k\<lparr>jk_result := LFG_JOIN_DUNGEON_INVALID\<rparr> else k\<lparr>jk_random := hd ds\<rparr> else k)
     in case t of
          LFG_TYPE_NONE \<Rightarrow> k\<lparr>jk_result := LFG_JOIN_DUNGEON_INVALID\<rparr>
        | LFG_TYPE_RAID \<Rightarrow>
            (if jk_isDungeon k then k\<lparr>jk_result := LFG_JOIN_MIXED_RAID_DUNGEON, jk_isRaid := True\<rparr> else k\<lparr>jk_isRaid := True\<rparr>)
        | _ \<Rightarrow>
            (if jk_isRaid k then k\<lparr>jk_result := LFG_JOIN_MIXED_RAID_DUNGEON, jk_isDungeon := True\<rparr> else k\<lparr>jk_isDungeon := True\<rparr>))"

fun join_types :: "(u32 \<Rightarrow> LfgType) \<Rightarrow> LfgDungeonSet \<Rightarrow> u32 list \<Rightarrow> join_kind \<Rightarrow> join_kind" where
  "join_types type ds [] k = k"
| "join_types type ds (d # rest) k = (if jk_result k = LFG_JOIN_OK then join_types type ds rest (join_type ds (type d) k) else k)"

text \<open>All checks: the result with its locks, the dungeons that remain, the kind, the players.\<close>

definition join_checks ::
  "player_facts \<Rightarrow> u64 \<Rightarrow> lfg_party option \<Rightarrow> LfgDungeonSet \<Rightarrow> LFGMgr \<Rightarrow> LfgJoinResultData \<times> LfgDungeonSet \<times> join_kind"
where
  "join_checks f guid party ds m = (case join_restrictions f guid party ds of (r, players) \<Rightarrow>
     let k = \<lparr>jk_result = r, jk_isRaid = False, jk_isDungeon = False, jk_random = 0\<rparr>
     in if r \<noteq> LFG_JOIN_OK then (JoinResultData r LFG_ROLECHECK_DEFAULT, ds, k)
        else let k = join_types (\<lambda>d. GetDungeonType d m) ds ds k
             in if jk_result k \<noteq> LFG_JOIN_OK then (JoinResultData (jk_result k) LFG_ROLECHECK_DEFAULT, ds, k)
                else case GetCompatibleDungeons (if jk_random k \<noteq> 0 then GetDungeonsByRandom (jk_random k) m else ds) players m of
                  (ds, locks) \<Rightarrow>
                    ((JoinResultData (if ds = [] then (if party \<noteq> None then LFG_JOIN_INTERNAL_ERROR else LFG_JOIN_NOT_MEET_REQS)
                        else LFG_JOIN_OK) LFG_ROLECHECK_DEFAULT)\<lparr>jd_lockmap := locks\<rparr>, ds, k))"

definition tell :: "u64 \<Rightarrow> lfg_message \<Rightarrow> LFGMgr \<Rightarrow> LFGMgr" where
  "tell guid msg m = m\<lparr>sent := sent m @ [(guid, msg)]\<rparr>"

definition begin_role_check ::
  "lfg_world \<Rightarrow> u64 \<Rightarrow> lfg_party \<Rightarrow> u8 \<Rightarrow> LfgDungeonSet \<Rightarrow> u32 \<Rightarrow> string \<Rightarrow> bool \<Rightarrow> LFGMgr \<Rightarrow> LFGMgr"
where
  "begin_role_check w guid g roles ds random comment isContinue m =
    (let gguid = lp_guid g;
         shown = (if random \<noteq> 0 then [random] else ds);
         old = (case map_of (RoleChecksStore m) gguid of Some rc \<Rightarrow> rc_roles rc | None \<Rightarrow> []);
         rc = \<lparr>rc_cancelTime = lw_time w + LFG_TIME_ROLECHECK, rc_roles = fold (\<lambda>p. om_put p 0) (lp_members g) old,
           rc_state = LFG_ROLECHECK_INITIALITING, rc_dungeons = ds, rc_rDungeonId = random, rc_leader = guid\<rparr>;
         m = SetState gguid LFG_STATE_ROLECHECK (m\<lparr>RoleChecksStore := om_put gguid rc (RoleChecksStore m)\<rparr>);
         m = fold (\<lambda>p m. let m = SetState p LFG_STATE_ROLECHECK
               (tell p (UpdateStatus (UpdateData LFG_UPDATETYPE_JOIN_QUEUE shown comment) True) m)
             in if isContinue then m else SetSelectedDungeons p shown m) (lp_members g) m
     in UpdateRoleCheck w gguid guid roles m)"

definition join_queue ::
  "lfg_world \<Rightarrow> u64 \<Rightarrow> u8 \<Rightarrow> LfgDungeonSet \<Rightarrow> u32 \<Rightarrow> string \<Rightarrow> LfgJoinResultData \<Rightarrow> LFGMgr \<Rightarrow> LFGMgr"
where
  "join_queue w guid roles ds random comment jd m =
    (let m = on_queue guid (AddQueueData guid (lw_time w) ds [(guid, roles)]) m;
         shown = (if random \<noteq> 0 then [random] else ds);
         m = SetSelectedDungeons guid shown m;
         m = tell guid (UpdateStatus (UpdateData LFG_UPDATETYPE_JOIN_QUEUE shown comment) False) (tell guid (JoinResult jd) m)
     in SetRoles guid roles (SetState guid LFG_STATE_QUEUED m))"

definition JoinLfg ::
  "lfg_world \<Rightarrow> player_facts \<Rightarrow> u64 \<Rightarrow> lfg_party option \<Rightarrow> u8 \<Rightarrow> LfgDungeonSet \<Rightarrow> string \<Rightarrow> LFGMgr \<Rightarrow> LFGMgr"
where
  "JoinLfg w f guid party roles dungeons comment m =
    (if dungeons = [] then m
     else let gguid = (case party of Some g \<Rightarrow> lp_guid g | None \<Rightarrow> guid);
              isContinue = (case party of Some g \<Rightarrow> lp_isLFG g \<and> GetState gguid m \<noteq> LFG_STATE_FINISHED_DUNGEON | None \<Rightarrow> False);
              ds = (if isContinue then [GetDungeon gguid True m] else dungeons);
              m = (if GetState gguid m = LFG_STATE_QUEUED then on_queue gguid (RemoveFromQueue gguid) m else m)
          in case join_checks f guid party ds m of (jd, ds, k) \<Rightarrow>
               if jd_result jd \<noteq> LFG_JOIN_OK
               then tell guid (JoinResult (if ds \<noteq> [] then jd\<lparr>jd_lockmap := []\<rparr> else jd)) m
               else let m = SetComment guid comment m
                    in if jk_isRaid k then m
                       else case party of
                         Some g \<Rightarrow> begin_role_check w guid g roles ds (jk_random k) comment isContinue m
                       | None \<Rightarrow> join_queue w guid roles ds (jk_random k) comment jd m)"

subsection \<open>The periodic update\<close>

fun find_groups :: "lfg_world \<Rightarrow> u8 list \<Rightarrow> LFGMgr \<Rightarrow> LFGMgr option" where
  "find_groups w [] m = Some m"
| "find_groups w (i # is) m =
     Option.bind (FindGroups (mgr_env w m) (om_at LFGQueue_new (QueuesStore m) i, m)) (\<lambda>(n, q, m).
       find_groups w is (m\<lparr>QueuesStore := om_put i q (QueuesStore m)\<rparr>))"

definition offer_player :: "lfg_world \<Rightarrow> LfgProposal \<Rightarrow> u64 \<Rightarrow> LFGMgr \<Rightarrow> LFGMgr" where
  "offer_player w p guid m =
    (let m = SetState guid LFG_STATE_PROPOSAL m;
         gguid = GetGroup guid m;
         m = (if gguid \<noteq> 0 then SetState gguid LFG_STATE_PROPOSAL m else m);
         m = send w guid (UpdateStatus (UpdateData LFG_UPDATETYPE_PROPOSAL_BEGIN (GetSelectedDungeons guid m) (GetComment guid m))
               (gguid \<noteq> 0)) m
     in send w guid (ProposalUpdate p) m)"

text \<open>
  The proposals from the newest on. One that has succeeded already is completed at once; when that
  erases it, the loop goes on from an erased element (\<open>None\<close>). New proposals have not succeeded.
\<close>

fun offer_proposals ::
  "(LfgProposal \<Rightarrow> LFGMgr \<Rightarrow> LFGMgr option) \<Rightarrow> lfg_world \<Rightarrow> (u32 \<times> LfgProposal) list \<Rightarrow> LFGMgr \<Rightarrow> LFGMgr option"
where
  "offer_proposals form w [] m = Some m"
| "offer_proposals form w ((i, p) # ps) m =
    (let m = fold (offer_player w p) (map fst (pr_players p)) m
     in if pr_state p = LFG_PROPOSAL_SUCCESS
        then Option.bind (UpdateProposal form w i (case pr_players p of [] \<Rightarrow> 0 | xs \<Rightarrow> fst (List.last xs)) True m)
          (\<lambda>m. if map_of (ProposalsStore m) i = None then None else offer_proposals form w ps m)
        else offer_proposals form w ps m)"

text \<open>The status of an entry. \<open>None\<close>: it has no dungeon, and the code reads the first of an empty set.\<close>

definition entry_role :: "LfgRolesMap \<Rightarrow> u8" where
  "entry_role roles = fold (\<lambda>x r. r OR snd x) roles PLAYER_ROLE_NONE AND NOT PLAYER_ROLE_LEADER"

definition queue_status :: "u8 \<Rightarrow> int \<Rightarrow> LFGQueue \<Rightarrow> u32 \<Rightarrow> LfgQueueData \<Rightarrow> LfgQueueStatusData" where
  "queue_status queueId now q dungeon d =
    (let tank = wt_time (om_at LfgWaitTime_new (waitTimesTankStore q) dungeon);
         healer = wt_time (om_at LfgWaitTime_new (waitTimesHealerStore q) dungeon);
         dps = wt_time (om_at LfgWaitTime_new (waitTimesDpsStore q) dungeon);
         avg = wt_time (om_at LfgWaitTime_new (waitTimesAvgStore q) dungeon);
         role = entry_role (qd_roles d);
         wait = (if role = PLAYER_ROLE_NONE then - 1 else if role = PLAYER_ROLE_TANK then tank
           else if role = PLAYER_ROLE_HEALER then healer else if role = PLAYER_ROLE_DAMAGE then dps else avg)
     in \<lparr>qs_queueId = queueId, qs_dungeonId = dungeon, qs_joinTime = qd_joinTime d, qs_waitTime = wait, qs_waitTimeAvg = avg,
          qs_waitTimeTank = tank, qs_waitTimeHealer = healer, qs_waitTimeDps = dps,
          qs_queuedTime = word_of_int (now - qd_joinTime d), qs_tanks = qd_tanks d, qs_healers = qd_healers d, qs_dps = qd_dps d\<rparr>)"

fun update_timers :: "lfg_world \<Rightarrow> u8 \<Rightarrow> (u64 \<times> LfgQueueData) list \<Rightarrow> LFGQueue \<times> LFGMgr \<Rightarrow> (LFGQueue \<times> LFGMgr) option" where
  "update_timers w i [] s = Some s"
| "update_timers w i ((g, d) # rest) (q, m) =
    (case qd_dungeons d of
       [] \<Rightarrow> None
     | dungeon # _ \<Rightarrow>
         let d = (if qd_bestCompatible d = [] then FindBestCompatibleInQueue (CompatibleMapStore q) g d else d);
             q = q\<lparr>QueueDataStore := om_put g d (QueueDataStore q)\<rparr>;
             m = fold (\<lambda>(p, r). send w p (QueueStatus (queue_status i (lw_time w) q dungeon d))) (qd_roles d) m
         in update_timers w i rest (q, m))"

definition UpdateQueueTimers :: "lfg_world \<Rightarrow> u8 \<Rightarrow> LFGQueue \<times> LFGMgr \<Rightarrow> (LFGQueue \<times> LFGMgr) option" where
  "UpdateQueueTimers w i s = update_timers w i (QueueDataStore (fst s)) s"

fun update_queues :: "lfg_world \<Rightarrow> u8 list \<Rightarrow> LFGMgr \<Rightarrow> LFGMgr option" where
  "update_queues w [] m = Some m"
| "update_queues w (i # is) m =
     Option.bind (UpdateQueueTimers w i (om_at LFGQueue_new (QueuesStore m) i, m)) (\<lambda>(q, m).
       update_queues w is (m\<lparr>QueuesStore := om_put i q (QueuesStore m)\<rparr>))"

definition mgr_Update :: "(LfgProposal \<Rightarrow> LFGMgr \<Rightarrow> LFGMgr option) \<Rightarrow> lfg_world \<Rightarrow> u32 \<Rightarrow> LFGMgr \<Rightarrow> LFGMgr option" where
  "mgr_Update form w diff m =
    (if \<not> lfg_enabled m then Some m
     else let m = expire_boots w (expire_proposals w (expire_role_checks w m));
              last = m_lfgProposalId m
          in Option.bind (find_groups w (map fst (QueuesStore m)) m) (\<lambda>m.
             Option.bind (if last \<noteq> m_lfgProposalId m
                 then offer_proposals form w (dropWhile (\<lambda>x. fst x \<noteq> m_lfgProposalId m) (ProposalsStore m)) m else Some m) (\<lambda>m.
             if m_QueueTimer m > LFG_QUEUEUPDATE_INTERVAL then update_queues w (map fst (QueuesStore m)) (m\<lparr>m_QueueTimer := 0\<rparr>)
             else Some (m\<lparr>m_QueueTimer := m_QueueTimer m + diff\<rparr>))))"

subsection \<open>The end of a dungeon\<close>

text \<open>Where a player is (\<open>None\<close>: not in the world), his level, which quests exist and which he may finish.\<close>

record reward_facts =
  rf_map :: "u64 \<Rightarrow> u32 option"
  rf_level :: "u64 \<Rightarrow> u8"
  rf_quest :: "u32 \<Rightarrow> bool"
  rf_can_reward :: "u64 \<Rightarrow> u32 \<Rightarrow> bool"

text \<open>The reward of a player for a random or seasonal dungeon: the quest, and whether it was done before.\<close>

definition dungeon_reward :: "reward_facts \<Rightarrow> u32 \<Rightarrow> u32 \<Rightarrow> u64 \<Rightarrow> LFGMgr \<Rightarrow> (LFGDungeonData \<times> bool \<times> u32) option" where
  "dungeon_reward f random done_id guid m = (case GetLFGDungeon random m of
       None \<Rightarrow> None
     | Some d \<Rightarrow>
         if dg_type d \<noteq> LFG_TYPE_RANDOM \<and> \<not> dg_seasonal d then None
         else if rf_map f guid \<noteq> Some (case GetLFGDungeon done_id m of Some e \<Rightarrow> ucast (dg_map e) | None \<Rightarrow> 0) then None
         else (case GetRandomDungeonReward random (rf_level f guid) m of
             None \<Rightarrow> None
           | Some r \<Rightarrow>
               if \<not> rf_quest f (rw_firstQuest r) then None
               else if rf_can_reward f guid (rw_firstQuest r) then Some (d, False, rw_firstQuest r)
               else if rf_quest f (rw_otherQuest r) then Some (d, True, rw_otherQuest r) else None))"

definition finish_player :: "reward_facts \<Rightarrow> u64 \<Rightarrow> u32 \<Rightarrow> u64 \<Rightarrow> LFGMgr \<Rightarrow> LFGMgr" where
  "finish_player f gguid dungeonId guid m =
    (if GetState guid m = LFG_STATE_FINISHED_DUNGEON then m
     else let random = (case GetSelectedDungeons guid m of [] \<Rightarrow> 0 | d # _ \<Rightarrow> d);
              m = SetState guid LFG_STATE_FINISHED_DUNGEON m
          in case dungeon_reward f random dungeonId guid m of
               None \<Rightarrow> m
             | Some (d, again, quest) \<Rightarrow> tell guid (PlayerReward (dungeon_Entry d) (GetDungeon gguid False m) again quest) m)"

definition FinishDungeon :: "reward_facts \<Rightarrow> u64 \<Rightarrow> u32 \<Rightarrow> LFGMgr \<Rightarrow> LFGMgr" where
  "FinishDungeon f gguid dungeonId m =
    (if GetDungeon gguid True m \<noteq> dungeonId then m
     else if GetState gguid m = LFG_STATE_FINISHED_DUNGEON then m
     else let m = SetState gguid LFG_STATE_FINISHED_DUNGEON m
          in fold (finish_player f gguid dungeonId) (GetPlayers gguid m) m)"

subsection \<open>Locked dungeons\<close>

datatype LfgLockStatusType =
    LFG_LOCKSTATUS_INSUFFICIENT_EXPANSION | LFG_LOCKSTATUS_TOO_LOW_LEVEL | LFG_LOCKSTATUS_TOO_HIGH_LEVEL
  | LFG_LOCKSTATUS_RAID_LOCKED | LFG_LOCKSTATUS_QUEST_NOT_COMPLETED | LFG_LOCKSTATUS_MISSING_ITEM
  | LFG_LOCKSTATUS_NOT_IN_SEASON | LFG_LOCKSTATUS_MISSING_ACHIEVEMENT

primrec lock_code :: "LfgLockStatusType \<Rightarrow> u32" where
  "lock_code LFG_LOCKSTATUS_INSUFFICIENT_EXPANSION = 1"
| "lock_code LFG_LOCKSTATUS_TOO_LOW_LEVEL = 2"
| "lock_code LFG_LOCKSTATUS_TOO_HIGH_LEVEL = 3"
| "lock_code LFG_LOCKSTATUS_RAID_LOCKED = 6"
| "lock_code LFG_LOCKSTATUS_QUEST_NOT_COMPLETED = 1022"
| "lock_code LFG_LOCKSTATUS_MISSING_ITEM = 1025"
| "lock_code LFG_LOCKSTATUS_NOT_IN_SEASON = 1031"
| "lock_code LFG_LOCKSTATUS_MISSING_ACHIEVEMENT = 1034"

record AccessRequirement =
  ar_item :: u32
  ar_item2 :: u32
  ar_quest_A :: u32
  ar_quest_H :: u32
  ar_achievement :: u32

text \<open>What the locks depend on: the player, disabled maps, saved instances, the season, the access table.\<close>

record lock_facts =
  lf_may_join :: bool
  lf_expansion :: u8
  lf_level :: u8
  lf_alliance :: bool
  lf_horde :: bool
  lf_disabled :: "u16 \<Rightarrow> bool"
  lf_bound :: "u16 \<Rightarrow> nat \<Rightarrow> bool"
  lf_season :: "u32 \<Rightarrow> bool"
  lf_requirement :: "u16 \<Rightarrow> nat \<Rightarrow> AccessRequirement option"
  lf_achieved :: "u32 \<Rightarrow> bool"
  lf_quest_done :: "u32 \<Rightarrow> bool"
  lf_has_item :: "u32 \<Rightarrow> bool"

definition requirement_lock :: "lock_facts \<Rightarrow> AccessRequirement \<Rightarrow> LfgLockStatusType option" where
  "requirement_lock f ar =
    (if ar_achievement ar \<noteq> 0 \<and> \<not> lf_achieved f (ar_achievement ar) then Some LFG_LOCKSTATUS_MISSING_ACHIEVEMENT
     else if lf_alliance f \<and> ar_quest_A ar \<noteq> 0 \<and> \<not> lf_quest_done f (ar_quest_A ar) then Some LFG_LOCKSTATUS_QUEST_NOT_COMPLETED
     else if lf_horde f \<and> ar_quest_H ar \<noteq> 0 \<and> \<not> lf_quest_done f (ar_quest_H ar) then Some LFG_LOCKSTATUS_QUEST_NOT_COMPLETED
     else if ar_item ar \<noteq> 0
     then if \<not> lf_has_item f (ar_item ar) \<and> (ar_item2 ar = 0 \<or> \<not> lf_has_item f (ar_item2 ar))
          then Some LFG_LOCKSTATUS_MISSING_ITEM else None
     else if ar_item2 ar \<noteq> 0 \<and> \<not> lf_has_item f (ar_item2 ar) then Some LFG_LOCKSTATUS_MISSING_ITEM
     else None)"

definition dungeon_lock :: "lock_facts \<Rightarrow> LFGDungeonData \<Rightarrow> LfgLockStatusType option" where
  "dungeon_lock f d =
    (if \<not> lf_may_join f then Some LFG_LOCKSTATUS_RAID_LOCKED
     else if dg_expansion d > lf_expansion f then Some LFG_LOCKSTATUS_INSUFFICIENT_EXPANSION
     else if lf_disabled f (dg_map d) then Some LFG_LOCKSTATUS_RAID_LOCKED
     else if dg_difficulty d > 1 \<and> lf_bound f (dg_map d) (dg_difficulty d) then Some LFG_LOCKSTATUS_RAID_LOCKED
     else if dg_minlevel d > lf_level f then Some LFG_LOCKSTATUS_TOO_LOW_LEVEL
     else if dg_maxlevel d < lf_level f then Some LFG_LOCKSTATUS_TOO_HIGH_LEVEL
     else if dg_seasonal d \<and> \<not> lf_season f (dg_id d) then Some LFG_LOCKSTATUS_NOT_IN_SEASON
     else (case lf_requirement f (dg_map d) (dg_difficulty d) of Some ar \<Rightarrow> requirement_lock f ar | None \<Rightarrow> None))"

definition InitializeLockedDungeons :: "lock_facts \<Rightarrow> u64 \<Rightarrow> LFGMgr \<Rightarrow> LFGMgr" where
  "InitializeLockedDungeons f guid m = SetLockedDungeons guid
     (fold (\<lambda>i l. case GetLFGDungeon i m of
          None \<Rightarrow> l
        | Some d \<Rightarrow> (case dungeon_lock f d of Some why \<Rightarrow> om_put (dungeon_Entry d) (lock_code why) l | None \<Rightarrow> l))
        (GetDungeonsByRandom 0 m) []) m"

definition OnLogin :: "lfg_world \<Rightarrow> lock_facts \<Rightarrow> u64 \<Rightarrow> u64 option \<Rightarrow> u8 \<Rightarrow> LFGMgr \<Rightarrow> LFGMgr" where
  "OnLogin w f guid gguid team m =
    (if \<not> lfg_enabled m then m
     else let m = (case gguid of Some g \<Rightarrow> if GetGroup guid m \<noteq> g then SetupGroupMember guid g m else m | None \<Rightarrow> m)
          in SetTeam w guid team (InitializeLockedDungeons f guid m))"

definition OnLevelChanged :: "lock_facts \<Rightarrow> u64 \<Rightarrow> LFGMgr \<Rightarrow> LFGMgr" where
  "OnLevelChanged f guid m = (if lfg_enabled m then InitializeLockedDungeons f guid m else m)"

definition GetRandomAndSeasonalDungeons :: "(u32 \<Rightarrow> bool) \<Rightarrow> u8 \<Rightarrow> u8 \<Rightarrow> LFGMgr \<Rightarrow> LfgDungeonSet" where
  "GetRandomAndSeasonalDungeons season level expansion m =
     fold (\<lambda>(i, d) s. if (dg_type d = LFG_TYPE_RANDOM \<or> dg_seasonal d \<and> season (dg_id d)) \<and>
         dg_expansion d \<le> expansion \<and> dg_minlevel d \<le> level \<and> level \<le> dg_maxlevel d
       then os_insert (dungeon_Entry d) s else s) (LfgDungeonStore m) []"

end
