(* ===== verification/LfgJoin.thy ===== *)
theory LfgJoin
  imports LfgUpdate
begin

text \<open>
  What joining, leaving and finishing do: the dungeons that remain, what a refused request leaves
  behind, that a dungeon is finished once, and that an update offers the newest group only.
\<close>

subsection \<open>The dungeons that remain\<close>

definition locked_ids :: "LfgLockMap \<Rightarrow> u32 set" where
  "locked_ids l = (\<lambda>x. fst x AND 0x00FFFFFF) ` set l"

lemma lock_player_dungeons: "fst (lock_player g l ds lm) = filter (\<lambda>d. d \<notin> locked_ids l) ds"
proof (induction g l ds lm rule: lock_player.induct)
  case (2 g e why locks ds lm)
  let ?d = "e AND 0x00FFFFFF"
  have "filter (\<lambda>d. d \<notin> locked_ids locks) (os_erase ?d ds) = filter (\<lambda>d. d \<notin> locked_ids ((e, why) # locks)) ds"
    by (auto simp: os_erase_def locked_ids_def intro!: filter_cong)
  moreover have "?d \<notin> set ds \<Longrightarrow> filter (\<lambda>d. d \<notin> locked_ids locks) ds = filter (\<lambda>d. d \<notin> locked_ids ((e, why) # locks)) ds"
    by (auto simp: locked_ids_def intro!: filter_cong)
  ultimately show ?case using 2 by (auto simp: Let_def)
qed (simp add: locked_ids_def)

lemma lock_players_dungeons:
  "fst (lock_players locked ps ds lm) = filter (\<lambda>d. \<forall>p \<in> set ps. d \<notin> locked_ids (locked p)) ds"
proof (induction locked ps ds lm rule: lock_players.induct)
  case (2 locked p ps ds lm)
  show ?case
  proof (cases "ds = []")
    case False
    obtain ds' lm' where l: "lock_player p (locked p) ds lm = (ds', lm')" by (meson surj_pair)
    then have "ds' = filter (\<lambda>d. d \<notin> locked_ids (locked p)) ds" using lock_player_dungeons by (metis fst_conv)
    with 2 [OF False l [symmetric]] False l show ?thesis by (simp add: conj_commute)
  qed simp
qed simp

text \<open>
  GetCompatibleDungeons leaves, in their order, exactly the dungeons that no player has
  locked, and returns locks only when no dungeon is left.
\<close>

theorem compatible_dungeons_exact:
  "fst (GetCompatibleDungeons ds players m) =
     filter (\<lambda>d. \<forall>p \<in> set players. \<forall>(e, why) \<in> set (GetLockedDungeons p m). d \<noteq> e AND 0x00FFFFFF) ds \<and>
   (fst (GetCompatibleDungeons ds players m) = [] \<or> snd (GetCompatibleDungeons ds players m) = [])"
proof -
  let ?r = "lock_players (\<lambda>g. GetLockedDungeons g m) players ds []"
  have r: "GetCompatibleDungeons ds players m = (fst ?r, if fst ?r \<noteq> [] then [] else snd ?r)"
    by (simp add: GetCompatibleDungeons_def split_def)
  have "filter (\<lambda>d. \<forall>p \<in> set players. d \<notin> locked_ids (GetLockedDungeons p m)) ds =
    filter (\<lambda>d. \<forall>p \<in> set players. \<forall>(e, why) \<in> set (GetLockedDungeons p m). d \<noteq> e AND 0x00FFFFFF) ds"
    by (rule filter_cong [OF refl]) (simp add: locked_ids_def image_iff split_def)
  then show ?thesis by (simp only: r fst_conv snd_conv lock_players_dungeons) simp
qed

subsection \<open>What the other operations leave alone\<close>

lemma tell_frame [mgr_simps]:
  "GetState h (tell g msg m) = GetState h m" "GetOldState h (tell g msg m) = GetOldState h m"
  "GetQueueId h (tell g msg m) = GetQueueId h m" "GetQueue h (tell g msg m) = GetQueue h m"
  "PlayersStore (tell g msg m) = PlayersStore m" "GroupsStore (tell g msg m) = GroupsStore m"
  "QueuesStore (tell g msg m) = QueuesStore m" "ProposalsStore (tell g msg m) = ProposalsStore m"
  "RoleChecksStore (tell g msg m) = RoleChecksStore m" "BootsStore (tell g msg m) = BootsStore m"
  by (simp_all add: tell_def GetState_def GetOldState_def GetQueue_def GetQueueId_def Let_def cong: if_cong)

subsection \<open>A refused request\<close>

text \<open>
  A queued player whose further request is refused by the restrictions loses his queue entry
  but keeps the queued state.
\<close>

theorem refused_join_leaves_queue:
  fixes w :: lfg_world and f guid roles comment
  assumes "GetState guid m = LFG_STATE_QUEUED" and "dungeons \<noteq> []"
    and "fst (join_restrictions f guid None dungeons) \<noteq> LFG_JOIN_OK"
  defines "m' \<equiv> JoinLfg w f guid None roles dungeons comment m"
  shows "GetState guid m' = LFG_STATE_QUEUED \<and> entry_view (GetQueue guid m') guid = None \<and>
    guid \<notin> set (newToQueueStore (GetQueue guid m')) \<and> guid \<notin> set (currentQueueStore (GetQueue guid m'))"
proof -
  obtain r ps where r: "join_restrictions f guid None dungeons = (r, ps)" by (meson surj_pair)
  have "m' = tell guid (JoinResult (JoinResultData r LFG_ROLECHECK_DEFAULT\<lparr>jd_lockmap := []\<rparr>)) (on_queue guid (RemoveFromQueue guid) m)"
    using assms r by (simp add: m'_def JoinLfg_def join_checks_def JoinResultData_def)
  then show ?thesis using assms by (simp add: mgr_simps entry_view_RemoveFromQueue)
qed

subsection \<open>A dungeon is finished once\<close>

definition tables :: "LFGMgr \<Rightarrow> (u32 \<times> LFGDungeonData) list \<times> (u32 \<times> LfgReward) list" where
  "tables m = (LfgDungeonStore m, RewardMapStore m)"

lemma dungeon_reward_tables: "tables m = tables m' \<Longrightarrow> dungeon_reward f r d g m = dungeon_reward f r d g m'"
  by (simp add: tables_def dungeon_reward_def GetLFGDungeon_def GetRandomDungeonReward_def cong: option.case_cong if_cong)

lemma tables_frame [mgr_simps]:
  "tables (SetState g s m) = tables m" "tables (tell g msg m) = tables m"
  by (simp_all add: tables_def accessor_defs tell_def)

lemma sent_frame [mgr_simps]:
  "sent (SetState g s m) = sent m" "sent (tell g msg m) = sent m @ [(g, msg)]"
  by (simp_all add: accessor_defs tell_def)

definition reward_wish :: "u64 \<Rightarrow> LFGMgr \<Rightarrow> u32" where
  "reward_wish g m = (case GetSelectedDungeons g m of [] \<Rightarrow> 0 | d # _ \<Rightarrow> d)"

definition rewarded :: "reward_facts \<Rightarrow> u32 \<Rightarrow> LFGMgr \<Rightarrow> u64 \<Rightarrow> bool" where
  "rewarded f d m g \<longleftrightarrow> GetState g m \<noteq> LFG_STATE_FINISHED_DUNGEON \<and> dungeon_reward f (reward_wish g m) d g m \<noteq> None"

lemma finish_player_facts:
  "GetState h (finish_player f gg d g m) = (if h = g then LFG_STATE_FINISHED_DUNGEON else GetState h m)"
  "tables (finish_player f gg d g m) = tables m"
  by (auto simp: finish_player_def Let_def mgr_simps split: option.splits)

lemma finish_player_other: "h \<noteq> g \<Longrightarrow> \<not> IS_GROUP_GUID g \<Longrightarrow> PlayersStore (finish_player f gg d g m) h = PlayersStore m h"
  by (auto simp: finish_player_def Let_def mgr_simps accessor_defs split: option.splits)

lemma finish_player_sent:
  "\<exists>msg. sent (finish_player f gg d g m) = sent m @ (if rewarded f d m g then [(g, msg)] else [])"
proof (cases "GetState g m = LFG_STATE_FINISHED_DUNGEON")
  case True
  then show ?thesis by (simp add: finish_player_def rewarded_def)
next
  case False
  have "dungeon_reward f (reward_wish g m) d g (SetState g LFG_STATE_FINISHED_DUNGEON m) = dungeon_reward f (reward_wish g m) d g m"
    by (rule dungeon_reward_tables) (simp add: mgr_simps)
  with False show ?thesis
    by (cases "dungeon_reward f (reward_wish g m) d g m")
      (auto simp: finish_player_def rewarded_def reward_wish_def [symmetric] mgr_simps Let_def)
qed

lemma finish_players:
  assumes "distinct gs" and "\<forall>g \<in> set gs. \<not> IS_GROUP_GUID g"
  shows "GetState h (fold (finish_player f gg d) gs m) = (if h \<in> set gs then LFG_STATE_FINISHED_DUNGEON else GetState h m) \<and>
    (\<exists>ms. sent (fold (finish_player f gg d) gs m) = sent m @ ms \<and> map fst ms = filter (rewarded f d m) gs)"
  using assms
proof (induction gs arbitrary: m)
  case (Cons g gs)
  let ?m = "finish_player f gg d g m"
  have same: "rewarded f d ?m x = rewarded f d m x" if "x \<in> set gs" for x
  proof -
    have "PlayersStore ?m x = PlayersStore m x" using Cons.prems that by (intro finish_player_other) auto
    then show ?thesis
      using Cons.prems that dungeon_reward_tables [OF finish_player_facts(2)]
      by (auto simp: rewarded_def reward_wish_def finish_player_facts)
  qed
  obtain ms where "sent (fold (finish_player f gg d) gs ?m) = sent ?m @ ms" "map fst ms = filter (rewarded f d ?m) gs"
    using Cons.IH [of ?m] Cons.prems by auto
  moreover have "filter (rewarded f d ?m) gs = filter (rewarded f d m) gs" using same by (auto intro: filter_cong)
  moreover obtain msg where "sent ?m = sent m @ (if rewarded f d m g then [(g, msg)] else [])" using finish_player_sent by blast
  ultimately have "\<exists>ms. sent (fold (finish_player f gg d) gs ?m) = sent m @ ms \<and> map fst ms = filter (rewarded f d m) (g # gs)"
    by (auto intro!: exI [of _ "(if rewarded f d m g then [(g, msg)] else []) @ ms"])
  then show ?case using Cons.IH [of ?m] Cons.prems by (auto simp: finish_player_facts)
qed simp

text \<open>
  C28: FinishDungeon of the dungeon of a group puts the group and its members into the finished
  state and nobody else, sends one reward to exactly the members who were not finished and to whom
  the reward rules give one, and a further FinishDungeon of the group changes nothing.
\<close>

theorem finish_once:
  fixes f :: reward_facts and m :: LFGMgr
  assumes "IS_GROUP_GUID gg" and "GetState gg m \<noteq> LFG_STATE_FINISHED_DUNGEON"
    and "distinct (GetPlayers gg m)" and "\<forall>g \<in> set (GetPlayers gg m). \<not> IS_GROUP_GUID g"
  defines "m' \<equiv> FinishDungeon f gg (GetDungeon gg True m) m"
  shows "(\<forall>h. GetState h m' = (if h = gg \<or> h \<in> set (GetPlayers gg m) then LFG_STATE_FINISHED_DUNGEON else GetState h m)) \<and>
    (\<exists>ms. sent m' = sent m @ ms \<and> map fst ms = filter (rewarded f (GetDungeon gg True m) m) (GetPlayers gg m)) \<and>
    FinishDungeon f' gg d m' = m'"
proof -
  let ?m = "SetState gg LFG_STATE_FINISHED_DUNGEON m"
  let ?d = "GetDungeon gg True m"
  have m': "m' = fold (finish_player f gg ?d) (GetPlayers gg m) ?m"
    using assms by (simp add: m'_def FinishDungeon_def mgr_simps)
  have state: "GetState h m' = (if h = gg \<or> h \<in> set (GetPlayers gg m) then LFG_STATE_FINISHED_DUNGEON else GetState h m)" for h
    using finish_players [OF assms(3,4), of h f gg ?d ?m] by (auto simp: m' mgr_simps)
  have "rewarded f ?d ?m g = rewarded f ?d m g" if "g \<in> set (GetPlayers gg m)" for g
  proof -
    have "PlayersStore ?m g = PlayersStore m g" using assms(1) by (simp add: accessor_defs)
    moreover have "g \<noteq> gg" using that assms by auto
    ultimately show ?thesis using dungeon_reward_tables [OF tables_frame(1)] by (simp add: rewarded_def reward_wish_def mgr_simps)
  qed
  then have "filter (rewarded f ?d ?m) (GetPlayers gg m) = filter (rewarded f ?d m) (GetPlayers gg m)" by (auto intro: filter_cong)
  then have "\<exists>ms. sent m' = sent m @ ms \<and> map fst ms = filter (rewarded f ?d m) (GetPlayers gg m)"
    using finish_players [OF assms(3,4), of gg f gg ?d ?m] by (auto simp: m' mgr_simps)
  moreover have "FinishDungeon f' gg d m' = m'" using state [of gg] by (simp add: FinishDungeon_def)
  ultimately show ?thesis using state by blast
qed

subsection \<open>Examples\<close>

theorem compatible_dungeons_exact_witness:
  "fst (GetCompatibleDungeons [7, 9] [1] (SetLockedDungeons 1 [(0x01000007, 1)] (LFGMgr_new 3))) = [9]"
  using compatible_dungeons_exact [of "[7, 9]" "[1]" "SetLockedDungeons 1 [(0x01000007, 1)] (LFGMgr_new 3)"]
  by (simp add: SetLockedDungeons_def accessor_defs)

definition sample_facts :: player_facts where
  "sample_facts = \<lparr>pf_may_join = (\<lambda>_. True), pf_battleground = (\<lambda>_. False), pf_deserter = (\<lambda>g. g = 5), pf_cooldown = (\<lambda>_. False)\<rparr>"

text \<open>The player 5 waits in the queue, has become a deserter, and asks again.\<close>

definition sample_waiting :: LFGMgr where
  "sample_waiting = join_queue sample_world 5 PLAYER_ROLE_DAMAGE [7] 0 [] (JoinResultData LFG_JOIN_OK LFG_ROLECHECK_DEFAULT) (LFGMgr_new 3)"

theorem refused_join_leaves_queue_witness:
  "GetState 5 (JoinLfg sample_world sample_facts 5 None PLAYER_ROLE_DAMAGE [7] [] sample_waiting) = LFG_STATE_QUEUED \<and>
   entry_view (GetQueue 5 (JoinLfg sample_world sample_facts 5 None PLAYER_ROLE_DAMAGE [7] [] sample_waiting)) 5 = None"
  using refused_join_leaves_queue [of 5 sample_waiting "[7]" sample_facts sample_world PLAYER_ROLE_DAMAGE "[]"]
  by (simp add: sample_waiting_def join_queue_def Let_def mgr_simps join_restrictions_def sample_facts_def)

definition sample_group :: LFGMgr where
  "sample_group = (LFGMgr_new 3)\<lparr>GroupsStore := (\<lambda>g. LfgGroupData_new\<lparr>gd_State := LFG_STATE_DUNGEON, gd_OldState := LFG_STATE_DUNGEON,
     gd_Dungeon := 7, gd_Players := [1, 2]\<rparr>)\<rparr>"

lemma sample_group_simps:
  "IS_GROUP_GUID sample_party" "\<not> IS_GROUP_GUID 1" "\<not> IS_GROUP_GUID 2" "GetState sample_party sample_group = LFG_STATE_DUNGEON"
  "GetPlayers g sample_group = [1, 2]" "GetDungeon g True sample_group = 7"
  by (simp_all add: sample_group_def sample_party_def GetState_def IS_GROUP_GUID_def GUID_HIPART_def GetDungeon_def
    GroupData_GetDungeon_def)

definition sample_reward_facts :: reward_facts where
  "sample_reward_facts = \<lparr>rf_map = (\<lambda>_. Some 36), rf_level = (\<lambda>_. 20), rf_quest = (\<lambda>_. True), rf_can_reward = (\<lambda>_ _. True)\<rparr>"

theorem finish_once_witness:
  "FinishDungeon sample_reward_facts sample_party 9 (FinishDungeon sample_reward_facts sample_party 7 sample_group) =
     FinishDungeon sample_reward_facts sample_party 7 sample_group \<and>
   GetState 2 (FinishDungeon sample_reward_facts sample_party 7 sample_group) = LFG_STATE_FINISHED_DUNGEON"
  using finish_once [of sample_party sample_group sample_reward_facts sample_reward_facts 9]
  by (simp add: sample_group_simps)

end
