(* ===== verification/LfgTables.thy ===== *)
theory LfgTables
  imports LfgJoin
begin

text \<open>
  What the manager loads and saves: the dungeons of the client data with their entrances, the
  rewards, and the group data. The rows of a query are arguments, in the order of the query; an empty
  result is the empty list. Floats are bit patterns.
\<close>

subsection \<open>Dungeons\<close>

record LFGDungeonEntry =
  le_ID :: u32
  le_minlevel :: u32
  le_maxlevel :: u32
  le_map :: u32
  le_type :: u32
  le_flags :: u32
  le_difficulty :: u32
  le_expansion :: u32
  le_grouptype :: u32

definition LFG_FLAG_SEASONAL :: u32 where "LFG_FLAG_SEASONAL = 4"

definition dungeon_type :: "u32 \<Rightarrow> LfgType option" where
  "dungeon_type t = (if t = 1 then Some LFG_TYPE_DUNGEON else if t = 2 then Some LFG_TYPE_RAID
     else if t = 5 then Some LFG_TYPE_HEROIC else if t = 6 then Some LFG_TYPE_RANDOM else None)"

definition LFGDungeonData_of :: "LfgType \<Rightarrow> LFGDungeonEntry \<Rightarrow> LFGDungeonData" where
  "LFGDungeonData_of t e = \<lparr>dg_id = le_ID e, dg_map = ucast (le_map e), dg_type = t, dg_expansion = ucast (le_expansion e),
     dg_group = ucast (le_grouptype e), dg_minlevel = ucast (le_minlevel e), dg_maxlevel = ucast (le_maxlevel e),
     dg_difficulty = unat (le_difficulty e), dg_seasonal = (le_flags e AND LFG_FLAG_SEASONAL \<noteq> 0), dg_x = 0, dg_y = 0, dg_z = 0, dg_o = 0\<rparr>"

definition load_entries :: "LFGDungeonEntry list \<Rightarrow> (u32 \<times> LFGDungeonData) list" where
  "load_entries es = fold (\<lambda>e s. case dungeon_type (le_type e) of
     None \<Rightarrow> s | Some t \<Rightarrow> om_put (le_ID e) (LFGDungeonData_of t e) s) es []"

text \<open>A position is a map (of a trigger only), three coordinates and an orientation.\<close>

record position_row =
  po_x :: u32
  po_y :: u32
  po_z :: u32
  po_o :: u32

record AreaTriggerStruct = position_row +
  target_mapId :: u32

definition place :: "'a position_row_scheme \<Rightarrow> LFGDungeonData \<Rightarrow> LFGDungeonData" where
  "place p d = d\<lparr>dg_x := po_x p, dg_y := po_y p, dg_z := po_z p, dg_o := po_o p\<rparr>"

definition float_zero :: "u32 \<Rightarrow> bool" where
  "float_zero f \<longleftrightarrow> f AND 0x7FFFFFFF = 0"

text \<open>The position of a dungeon that the table does not have: the entrance of its map; \<open>None\<close>: there is none.\<close>

definition entrance :: "(u32 \<Rightarrow> AreaTriggerStruct option) \<Rightarrow> LFGDungeonData \<Rightarrow> LFGDungeonData option" where
  "entrance trigger d =
    (if dg_type d \<noteq> LFG_TYPE_RANDOM \<and> float_zero (dg_x d) \<and> float_zero (dg_y d) \<and> float_zero (dg_z d)
     then (case trigger (ucast (dg_map d)) of None \<Rightarrow> None | Some at \<Rightarrow> Some (place at (d\<lparr>dg_map := ucast (target_mapId at)\<rparr>)))
     else Some d)"

definition cache_put :: "u8 \<Rightarrow> u32 \<Rightarrow> (u8 \<times> LfgDungeonSet) list \<Rightarrow> (u8 \<times> LfgDungeonSet) list" where
  "cache_put g i c = om_put g (os_insert i (om_at [] c g)) c"

fun cache_dungeons ::
  "(u32 \<Rightarrow> AreaTriggerStruct option) \<Rightarrow> (u32 \<times> LFGDungeonData) list \<Rightarrow> (u8 \<times> LfgDungeonSet) list \<Rightarrow>
     (u32 \<times> LFGDungeonData) list \<times> (u8 \<times> LfgDungeonSet) list"
where
  "cache_dungeons trigger [] c = ([], c)"
| "cache_dungeons trigger ((i, d) # ds) c = (case entrance trigger d of
       None \<Rightarrow> (case cache_dungeons trigger ds c of (ds, c) \<Rightarrow> ((i, d) # ds, c))
     | Some d \<Rightarrow>
         let c = (if dg_type d \<noteq> LFG_TYPE_RANDOM then cache_put (dg_group d) (dg_id d) c else c)
         in (case cache_dungeons trigger ds (cache_put 0 (dg_id d) c) of (ds, c) \<Rightarrow> ((i, d) # ds, c)))"

text \<open>\<open>players\<close> are those with data who are online, with what their locks depend on.\<close>

definition LoadLFGDungeons ::
  "(u32 \<Rightarrow> AreaTriggerStruct option) \<Rightarrow> LFGDungeonEntry list \<Rightarrow> (u32 \<times> position_row) list \<Rightarrow> (u64 \<times> lock_facts) list \<Rightarrow>
     bool \<Rightarrow> LFGMgr \<Rightarrow> LFGMgr"
where
  "LoadLFGDungeons trigger entries positions players reload m =
    (let ds = load_entries entries
     in if positions = [] then m\<lparr>LfgDungeonStore := ds\<rparr>
        else case cache_dungeons trigger (fold (\<lambda>(i, p). om_adjust i (place p)) positions ds) (CachedDungeonMapStore m) of (ds, c) \<Rightarrow>
          if reload
          then fold (\<lambda>(g, f). InitializeLockedDungeons f g) players (m\<lparr>LfgDungeonStore := ds, CachedDungeonMapStore := []\<rparr>)
          else m\<lparr>LfgDungeonStore := ds, CachedDungeonMapStore := c\<rparr>)"

subsection \<open>Rewards\<close>

record reward_row =
  rr_dungeonId :: u32
  rr_maxLevel :: u8
  rr_firstQuest :: u32
  rr_otherQuest :: u32

text \<open>\<open>std::multimap::insert\<close>: behind the entries of the same key.\<close>

fun mm_insert :: "'k::linorder \<Rightarrow> 'v \<Rightarrow> ('k \<times> 'v) list \<Rightarrow> ('k \<times> 'v) list" where
  "mm_insert k v [] = [(k, v)]"
| "mm_insert k v ((a, b) # m) = (if a \<le> k then (a, b) # mm_insert k v m else (k, v) # (a, b) # m)"

definition load_reward ::
  "u32 \<Rightarrow> (u32 \<Rightarrow> bool) \<Rightarrow> LFGMgr \<Rightarrow> reward_row \<Rightarrow> (u32 \<times> LfgReward) list \<Rightarrow> (u32 \<times> LfgReward) list"
where
  "load_reward maxPlayerLevel quest m r s =
    (if GetLFGDungeonEntry (rr_dungeonId r) m = 0 then s
     else let maxLevel = ucast (rr_maxLevel r);
              maxLevel = (if maxLevel = 0 \<or> maxLevel > maxPlayerLevel then maxPlayerLevel else maxLevel)
          in if rr_firstQuest r = 0 \<or> \<not> quest (rr_firstQuest r) then s
             else let otherQuest = (if rr_otherQuest r \<noteq> 0 \<and> \<not> quest (rr_otherQuest r) then 0 else rr_otherQuest r)
                  in mm_insert (rr_dungeonId r) \<lparr>rw_maxLevel = maxLevel, rw_firstQuest = rr_firstQuest r, rw_otherQuest = otherQuest\<rparr> s)"

definition LoadRewards :: "u32 \<Rightarrow> (u32 \<Rightarrow> bool) \<Rightarrow> reward_row list \<Rightarrow> LFGMgr \<Rightarrow> LFGMgr" where
  "LoadRewards maxPlayerLevel quest rows m = m\<lparr>RewardMapStore := fold (load_reward maxPlayerLevel quest m) rows []\<rparr>"

subsection \<open>Group data\<close>

primrec state_code :: "LfgState \<Rightarrow> u8" where
  "state_code LFG_STATE_NONE = 0"
| "state_code LFG_STATE_ROLECHECK = 1"
| "state_code LFG_STATE_QUEUED = 2"
| "state_code LFG_STATE_PROPOSAL = 3"
| "state_code LFG_STATE_BOOT = 4"
| "state_code LFG_STATE_DUNGEON = 5"
| "state_code LFG_STATE_FINISHED_DUNGEON = 6"
| "state_code LFG_STATE_RAIDBROWSER = 7"

text \<open>The leader, dungeon and state columns of a group row.\<close>

record group_row =
  row_leader :: u32
  row_dungeon :: u32
  row_state :: u8

definition LoadFromDB :: "group_row option \<Rightarrow> u64 \<Rightarrow> LFGMgr \<Rightarrow> LFGMgr" where
  "LoadFromDB row guid m = (case row of
     None \<Rightarrow> m
   | Some r \<Rightarrow>
       if \<not> IS_GROUP_GUID guid then m
       else let m = SetLeader guid (ucast (row_leader r)) m; dungeon = row_dungeon r; state = row_state r
            in if dungeon = 0 \<or> state = 0 then m
               else let m = SetDungeon guid dungeon m
                    in if state = state_code LFG_STATE_DUNGEON then SetState guid LFG_STATE_DUNGEON m
                       else if state = state_code LFG_STATE_FINISHED_DUNGEON then SetState guid LFG_STATE_FINISHED_DUNGEON m
                       else m)"

text \<open>The table \<open>lfg_data\<close>: storage id of the group, dungeon, state.\<close>

definition SaveToDB :: "u64 \<Rightarrow> u32 \<Rightarrow> LFGMgr \<Rightarrow> (u32 \<times> u32 \<times> u8) list \<Rightarrow> (u32 \<times> u32 \<times> u8) list" where
  "SaveToDB guid db_guid m t =
    (if \<not> IS_GROUP_GUID guid then t
     else filter (\<lambda>r. fst r \<noteq> db_guid) t @ [(db_guid, GetDungeon guid True m, state_code (GetState guid m))])"

subsection \<open>A saved group comes back without the type of its dungeon\<close>

text \<open>
  A group in a dungeon or finished state that is saved with _SaveToDB and loaded with
  _LoadFromDB has the same state, stable state and dungeon id again; the type bits of its dungeon
  are lost, since only the id is saved.
\<close>

theorem saved_group_restored:
  fixes m m0 :: LFGMgr and leader :: u32
  assumes "IS_GROUP_GUID g" and "GetState g m = LFG_STATE_DUNGEON \<or> GetState g m = LFG_STATE_FINISHED_DUNGEON"
    and "GetDungeon g True m \<noteq> 0"
    and "(db, d, s) \<in> set (SaveToDB g db m t)"
  defines "m' \<equiv> LoadFromDB (Some \<lparr>row_leader = leader, row_dungeon = d, row_state = s\<rparr>) g m0"
  shows "GetState g m' = GetState g m \<and> GetOldState g m' = GetState g m \<and> GetDungeon g True m' = GetDungeon g True m \<and>
    GetDungeon g False m' = GetDungeon g False m AND 0x00FFFFFF \<and> GetLeader g m' = ucast leader"
proof -
  have "d = GetDungeon g True m" "s = state_code (GetState g m)"
    using assms(1,4) by (auto simp: SaveToDB_def)
  with assms show ?thesis
    by (auto simp: m'_def LoadFromDB_def Let_def GetState_def GetOldState_def GetDungeon_def GroupData_GetDungeon_def accessor_defs
      GroupData_SetState_def and.assoc)
qed

subsection \<open>The cache of dungeons\<close>

definition placed :: "(u32 \<Rightarrow> AreaTriggerStruct option) \<Rightarrow> (u32 \<times> LFGDungeonData) list \<Rightarrow> LFGDungeonData set" where
  "placed trigger ds = {d. \<exists>x \<in> set ds. entrance trigger (snd x) = Some d}"

lemma set_cache_put: "set (om_at [] (cache_put g i c) h) = (if h = g then {i} else {}) \<union> set (om_at [] c h)"
  by (simp add: cache_put_def set_os_insert)

lemma cache_dungeons_set:
  "set (om_at [] (snd (cache_dungeons trigger ds c)) g) =
     set (om_at [] c g) \<union> dg_id ` {d \<in> placed trigger ds. g = 0 \<or> dg_type d \<noteq> LFG_TYPE_RANDOM \<and> dg_group d = g}"
proof (induction trigger ds c rule: cache_dungeons.induct)
  case (2 trigger i d ds c)
  show ?case
  proof (cases "entrance trigger d")
    case None
    then have "placed trigger ((i, d) # ds) = placed trigger ds" by (auto simp: placed_def)
    with 2(1) None show ?thesis by (simp add: split_def)
  next
    case (Some d')
    then have p: "placed trigger ((i, d) # ds) = insert d' (placed trigger ds)" by (auto simp: placed_def)
    show ?thesis using 2(2) [OF Some refl] Some by (auto simp: p split_def Let_def set_cache_put)
  qed
qed (simp add: placed_def)

lemma om_at_Nil: "om_at x [] k = x"
  by (simp add: om_at_def)

lemma locks_keep_tables:
  "LfgDungeonStore (fold (\<lambda>(g, f). InitializeLockedDungeons f g) ps m) = LfgDungeonStore m \<and>
   CachedDungeonMapStore (fold (\<lambda>(g, f). InitializeLockedDungeons f g) ps m) = CachedDungeonMapStore m"
  by (induction ps arbitrary: m) (auto simp: InitializeLockedDungeons_def accessor_defs SetLockedDungeons_def)

text \<open>
  Loading the dungeons caches, per group number, exactly the dungeons that have a position
  (all of them under 0, the non-random ones of a group under its number); a reload fills this
  cache and then clears it, so that afterwards no random dungeon expands to anything.
\<close>

theorem reload_forgets_dungeons:
  fixes m :: LFGMgr and trigger positions entries players
  assumes "positions \<noteq> []" and "CachedDungeonMapStore m = []"
  defines "ds \<equiv> fold (\<lambda>(i, p). om_adjust i (place p)) positions (load_entries entries)"
    and "m1 \<equiv> LoadLFGDungeons trigger entries positions players False m"
  shows "set (GetDungeonsByRandom r m1) = dg_id ` {d \<in> placed trigger ds. case GetLFGDungeon r m1 of None \<Rightarrow> True
      | Some e \<Rightarrow> dg_group e = 0 \<or> dg_type d \<noteq> LFG_TYPE_RANDOM \<and> dg_group d = dg_group e} \<and>
    GetDungeonsByRandom r (LoadLFGDungeons trigger entries positions players True m1) = []"
proof -
  have cache: "set (om_at [] (CachedDungeonMapStore m1) g) =
      dg_id ` {d \<in> placed trigger ds. g = 0 \<or> dg_type d \<noteq> LFG_TYPE_RANDOM \<and> dg_group d = g}" for g
    using assms(1,2) cache_dungeons_set [of trigger ds "[]" g] om_at_Nil [of "[] :: LfgDungeonSet" g]
    by (simp add: m1_def LoadLFGDungeons_def ds_def split_def Let_def)
  have "CachedDungeonMapStore (LoadLFGDungeons trigger entries positions players True m1) = []"
    using assms(1) by (simp add: LoadLFGDungeons_def Let_def split_def locks_keep_tables [unfolded split_def])
  then show ?thesis
    by (cases "GetLFGDungeon r m1") (simp_all add: GetDungeonsByRandom_def cache om_at_Nil)
qed

subsection \<open>Rewards\<close>

lemma first_reward_find:
  "first_reward level x rs = (case find (\<lambda>r. ucast level \<le> rw_maxLevel r) rs of Some r \<Rightarrow> Some r
     | None \<Rightarrow> if rs = [] then x else Some (List.last rs))"
  by (induction level x rs rule: first_reward.induct) (auto split: option.splits)

definition reward_of :: "(u32 \<Rightarrow> bool) \<Rightarrow> reward_row \<Rightarrow> LfgReward" where
  "reward_of quest r = \<lparr>rw_maxLevel = ucast (rr_maxLevel r), rw_firstQuest = rr_firstQuest r,
     rw_otherQuest = (if quest (rr_otherQuest r) then rr_otherQuest r else 0)\<rparr>"

definition row_ok :: "u32 \<Rightarrow> (u32 \<Rightarrow> bool) \<Rightarrow> LFGMgr \<Rightarrow> reward_row \<Rightarrow> bool" where
  "row_ok maxLevel quest m r \<longleftrightarrow> GetLFGDungeonEntry (rr_dungeonId r) m \<noteq> 0 \<and> rr_maxLevel r \<noteq> 0 \<and>
     ucast (rr_maxLevel r) \<le> maxLevel \<and> rr_firstQuest r \<noteq> 0 \<and> quest (rr_firstQuest r)"

lemma mm_insert_last: "\<forall>x \<in> set s. fst x \<le> k \<Longrightarrow> mm_insert k v s = s @ [(k, v)]"
  by (induction k v s rule: mm_insert.induct) auto

lemma ucast_le_u8: "(ucast (x :: u8) :: u32) \<le> ucast y \<longleftrightarrow> x \<le> y"
  by transfer (simp add: take_bit_take_bit)

lemma load_reward_ok:
  assumes "row_ok lv quest m r" and "\<not> quest 0" and "\<forall>x \<in> set s. fst x \<le> rr_dungeonId r"
  shows "load_reward lv quest m r s = s @ [(rr_dungeonId r, reward_of quest r)]"
proof -
  have "(ucast (rr_maxLevel r) :: u32) = 0 \<longleftrightarrow> rr_maxLevel r = 0"
    using ucast_le_u8 [of "rr_maxLevel r" 0] by simp
  with assms show ?thesis by (auto simp: load_reward_def row_ok_def Let_def mm_insert_last reward_of_def)
qed

lemma load_rewards_ok:
  "\<forall>r \<in> set rows. row_ok lv quest m r \<Longrightarrow> \<not> quest 0 \<Longrightarrow> sorted (map rr_dungeonId rows) \<Longrightarrow>
     \<forall>x \<in> set s. \<forall>r \<in> set rows. fst x \<le> rr_dungeonId r \<Longrightarrow>
     fold (load_reward lv quest m) rows s = s @ map (\<lambda>r. (rr_dungeonId r, reward_of quest r)) rows"
  by (induction rows arbitrary: s) (auto simp: load_reward_ok)

text \<open>
  After LoadRewards with valid rows ordered by dungeon, GetRandomDungeonReward returns the
  first reward of the dungeon whose level is not below that of the player, or the last one of the
  dungeon.
\<close>

theorem reward_of_level:
  assumes "\<forall>r \<in> set rows. row_ok lv quest m r" and "\<not> quest 0" and "sorted (map rr_dungeonId rows)" and "d AND 0x00FFFFFF = d"
  defines "rs \<equiv> filter (\<lambda>r. rr_dungeonId r = d) rows"
  shows "GetRandomDungeonReward d level (LoadRewards lv quest rows m) =
    (case find (\<lambda>r. level \<le> rr_maxLevel r) rs of Some r \<Rightarrow> Some (reward_of quest r)
     | None \<Rightarrow> if rs = [] then None else Some (reward_of quest (List.last rs)))"
proof -
  have s: "RewardMapStore (LoadRewards lv quest rows m) = map (\<lambda>r. (rr_dungeonId r, reward_of quest r)) rows"
    using load_rewards_ok [OF assms(1,2,3), of "[]"] by (simp add: LoadRewards_def)
  have f: "find (\<lambda>r. ucast level \<le> rw_maxLevel r) (map (reward_of quest) xs) =
      map_option (reward_of quest) (find (\<lambda>r. level \<le> rr_maxLevel r) xs)" for xs
    by (induction xs) (simp_all add: reward_of_def ucast_le_u8)
  have "map snd (filter (\<lambda>x. fst x = d) (map (\<lambda>r. (rr_dungeonId r, reward_of quest r)) xs)) =
      map (reward_of quest) (filter (\<lambda>r. rr_dungeonId r = d) xs)" for xs
    by (induction xs) auto
  then show ?thesis
    by (auto simp: GetRandomDungeonReward_def s assms(4) first_reward_find f rs_def last_map split: option.split)
qed

subsection \<open>Examples\<close>

theorem saved_group_restored_witness:
  "GetState sample_party (LoadFromDB (Some \<lparr>row_leader = 1, row_dungeon = 7, row_state = 5\<rparr>) sample_party (LFGMgr_new 3)) = LFG_STATE_DUNGEON"
  using saved_group_restored [of sample_party sample_group 3 7 5 "[]" 1 "LFGMgr_new 3"]
  by (simp add: SaveToDB_def sample_group_simps)

definition sample_entry :: LFGDungeonEntry where
  "sample_entry = \<lparr>le_ID = 7, le_minlevel = 15, le_maxlevel = 25, le_map = 36, le_type = 1, le_flags = 0, le_difficulty = 0,
     le_expansion = 0, le_grouptype = 1\<rparr>"

definition sample_position :: position_row where
  "sample_position = \<lparr>po_x = 0x41200000, po_y = 0, po_z = 0, po_o = 0\<rparr>"

theorem reload_forgets_dungeons_witness:
  "7 \<in> set (GetDungeonsByRandom 0 (LoadLFGDungeons (\<lambda>_. None) [sample_entry] [(7, sample_position)] [] False (LFGMgr_new 3))) \<and>
   GetDungeonsByRandom 0 (LoadLFGDungeons (\<lambda>_. None) [sample_entry] [(7, sample_position)] [] True
     (LoadLFGDungeons (\<lambda>_. None) [sample_entry] [(7, sample_position)] [] False (LFGMgr_new 3))) = []"
  using reload_forgets_dungeons [where positions = "[(7, sample_position)]" and m = "LFGMgr_new 3" and entries = "[sample_entry]"
    and r = 0 and trigger = "\<lambda>_. None" and players = "[]"]
  by (simp add: LFGMgr_new_def load_entries_def sample_entry_def dungeon_type_def LFGDungeonData_of_def om_adjust_def placed_def
    entrance_def place_def sample_position_def float_zero_def LoadLFGDungeons_def Let_def GetLFGDungeon_def cong: option.case_cong)

definition sample_rewards :: "reward_row list" where
  "sample_rewards = [\<lparr>rr_dungeonId = 7, rr_maxLevel = 20, rr_firstQuest = 100, rr_otherQuest = 0\<rparr>,
     \<lparr>rr_dungeonId = 7, rr_maxLevel = 30, rr_firstQuest = 101, rr_otherQuest = 0\<rparr>]"

definition sample_table :: LFGMgr where
  "sample_table = (LFGMgr_new 3)\<lparr>LfgDungeonStore := [(7, LFGDungeonData_of LFG_TYPE_DUNGEON sample_entry)]\<rparr>"

theorem reward_of_level_witness:
  "map_option rw_firstQuest (GetRandomDungeonReward 7 25 (LoadRewards 90 (\<lambda>q. q \<ge> 100) sample_rewards sample_table)) = Some 101"
  using reward_of_level [of sample_rewards 90 "\<lambda>q. q \<ge> 100" sample_table 7 25]
  by (simp add: sample_rewards_def row_ok_def GetLFGDungeonEntry_def GetLFGDungeon_def sample_table_def sample_entry_def
    LFGDungeonData_of_def dungeon_Entry_def reward_of_def)

end
