(* ===== verification/LfgInvariant.thy ===== *)
theory LfgInvariant
  imports LfgTables
begin

text \<open>
  What every operation of the manager keeps: the state to go back to is a stable one, a queue entry
  and a role check have dungeons, no finished role check, vote or proposal stays in its store. The
  exceptions \<open>R\<close>, \<open>B\<close>, \<open>P\<close> are the keys that an operation has changed and not yet erased.
\<close>

subsection \<open>Queues\<close>

definition entries_ok :: "LFGQueue \<Rightarrow> bool" where
  "entries_ok q \<longleftrightarrow> (\<forall>x \<in> set (QueueDataStore q). qd_dungeons (snd x) \<noteq> [])"

lemma entries_ok_new [simp]: "entries_ok LFGQueue_new"
  by (simp add: entries_ok_def LFGQueue_new_def)

lemma qd_dungeons_count [simp]: "qd_dungeons (count_needed rs d) = qd_dungeons d"
  by (induction rs d rule: count_needed.induct) auto

lemma qd_dungeons_best [simp]: "qd_dungeons (UpdateBestCompatible key rs d) = qd_dungeons d"
  by (simp add: UpdateBestCompatible_def Let_def)

lemma qd_dungeons_find [simp]: "qd_dungeons (FindBestCompatibleInQueue c g d) = qd_dungeons d"
proof -
  have "qd_dungeons (find_best s c d) = qd_dungeons d" for s
    by (induction s c d rule: find_best.induct) auto
  then show ?thesis by (simp add: FindBestCompatibleInQueue_def)
qed

lemma entries_ok_ops [simp]:
  "entries_ok (SetCompatibles key c q) = entries_ok q" "entries_ok (SetCompatibilityData key d q) = entries_ok q"
  "entries_ok (dequeue g q) = entries_ok q" "entries_ok (RemoveFromNewQueue g q) = entries_ok q"
  "entries_ok (AddToCurrentQueue g q) = entries_ok q" "entries_ok (AddToQueue g q) = entries_ok q"
  "entries_ok (record_wait r t dungeon q) = entries_ok q"
  by (simp_all add: entries_ok_def SetCompatibles_def SetCompatibilityData_def dequeue_def RemoveFromNewQueue_def
    RemoveFromCurrentQueue_def AddToCurrentQueue_def AddToQueue_def AddToNewQueue_def record_wait_def UpdateWaitTimeDps_def
    UpdateWaitTimeAvg_def UpdateWaitTimeHealer_def UpdateWaitTimeTank_def Let_def)

lemma entries_ok_best [simp]: "entries_ok (UpdateBestCompatibleInQueue g key rs q) = entries_ok q"
proof -
  have "qd_dungeons (snd (case x of (a, b) \<Rightarrow> (a, if a = g then UpdateBestCompatible key rs b else b))) = qd_dungeons (snd x)" for x
    by (cases x) simp
  then show ?thesis by (simp add: entries_ok_def UpdateBestCompatibleInQueue_def om_adjust_def)
qed

lemma entries_ok_RemoveFromQueue [simp]: "entries_ok q \<Longrightarrow> entries_ok (RemoveFromQueue g q)"
  by (auto simp: entries_ok_def RemoveFromQueue_def Let_def RemoveFromCompatibles_def RemoveFromCurrentQueue_def
    RemoveFromNewQueue_def om_erase_def split: if_splits)

lemma entries_ok_put: "entries_ok q \<Longrightarrow> qd_dungeons d \<noteq> [] \<Longrightarrow> entries_ok (q\<lparr>QueueDataStore := om_put g d (QueueDataStore q)\<rparr>)"
  using set_om_put [of g d "QueueDataStore q"] by (auto simp: entries_ok_def)

lemma entries_ok_AddQueueData [simp]: "entries_ok q \<Longrightarrow> ds \<noteq> [] \<Longrightarrow> entries_ok (AddQueueData g t ds rs q)"
  by (simp add: AddQueueData_def entries_ok_put LfgQueueData_new_def)

lemma entries_ok_fold: "(\<And>g q. entries_ok q \<Longrightarrow> entries_ok (f g q)) \<Longrightarrow> entries_ok q \<Longrightarrow> entries_ok (fold f gs q)"
  by (induction gs arbitrary: q) auto

subsection \<open>Searches\<close>

definition proposals_ok :: "u32 set \<Rightarrow> (u32 \<times> LfgProposal) list \<Rightarrow> bool" where
  "proposals_ok P ps \<longleftrightarrow> om_ok ps \<and> (\<forall>x \<in> set ps. fst x \<in> P \<or> pr_state (snd x) = LFG_PROPOSAL_INITIATING)"

lemma proposals_ok_put: "proposals_ok P ps \<Longrightarrow> i \<in> P \<or> pr_state p = LFG_PROPOSAL_INITIATING \<Longrightarrow> proposals_ok P (om_put i p ps)"
  using set_om_put [of i p ps] by (auto simp: proposals_ok_def)

definition search_ok :: "u32 set \<Rightarrow> 'a \<Rightarrow> LFGQueue \<times> 'a lfg_host_scheme \<Rightarrow> bool" where
  "search_ok P x s \<longleftrightarrow> entries_ok (fst s) \<and> proposals_ok P (ProposalsStore (snd s)) \<and> lfg_host.more (snd s) = x"

lemma search_ok_AddProposal:
  "proposals_ok P (ProposalsStore h) \<Longrightarrow> pr_state p = LFG_PROPOSAL_INITIATING \<Longrightarrow>
     proposals_ok P (ProposalsStore (AddProposal p (h\<lparr>rand_draws := k\<rparr>))) \<and> lfg_host.more (AddProposal p (h\<lparr>rand_draws := k\<rparr>)) = lfg_host.more h"
  by (simp add: AddProposal_def Let_def proposals_ok_put)

lemma make_proposal_state: "make_proposal env check sc roles ds k = (p, k') \<Longrightarrow> pr_state p = LFG_PROPOSAL_INITIATING"
  by (auto simp: make_proposal_def Let_def LfgProposal_new_def split: prod.splits)

lemma search_ok_scanned: "search_ok P x s \<Longrightarrow> search_ok P x (snd (check_scanned env check sc s))"
proof (cases s)
  case (Pair q h)
  assume s: "search_ok P x s"
  have "entries_ok (fold dequeue check q) = entries_ok q" "entries_ok (fold (\<lambda>g. UpdateBestCompatibleInQueue g k rs) check q) = entries_ok q"
    for k rs by (induction check arbitrary: q) simp_all
  with s show ?thesis
    using search_ok_AddProposal [of P h] make_proposal_state
    by (auto simp: Pair check_scanned_def search_ok_def Let_def split: prod.splits sum.splits)
qed

lemma search_ok_CheckCompatibility: "search_ok P x s \<Longrightarrow> search_ok P x (snd (CheckCompatibility env check s))"
proof (induction env check s rule: CheckCompatibility.induct)
  case (2 env front rest s)
  obtain child q h where child: "(if length (front # rest) > 2 then CheckCompatibility env rest s
      else (LFG_COMPATIBLES_MATCH, s)) = (child, q, h)" by (metis prod_cases3)
  show ?case
  proof (cases "length (front # rest) > MAXGROUPSIZE")
    case False
    with 2 child have q: "search_ok P x (q, h)" by (cases "length (front # rest) > 2") (auto split: if_splits)
    note step = CheckCompatibility.simps(2) [of env front rest s, unfolded child]
    show ?thesis
    proof (cases "scan_entries env q (front # rest) \<lparr>sc_groups = [], sc_players = 0, sc_lfg = 0, sc_group = 0\<rparr>")
      case (Inl g)
      with False step q show ?thesis by (simp add: search_ok_def)
    next
      case (Inr sc)
      with False step q search_ok_scanned [OF q, of env "front # rest" sc] show ?thesis by (simp add: search_ok_def)
    qed
  qed (use 2 in simp)
qed auto

lemma search_ok_cached: "search_ok P x s \<Longrightarrow> search_ok P x (snd (cached_compatibility env check s))"
  using search_ok_CheckCompatibility [of P x s env check]
  by (auto simp: cached_compatibility_def Let_def search_ok_def split: prod.splits)

interpretation kept_search: search_invariant env "search_ok P x" UNIV for env P x
  by unfold_locales (rule search_ok_cached)

lemma search_ok_loop:
  assumes "find_groups_loop env k s = Some r" and "search_ok P x s"
  shows "search_ok P x (snd r)"
proof -
  have "search_ok P x s \<longrightarrow> search_ok P x (snd r)"
  proof (rule find_groups_loop.raw_induct [where P = "\<lambda>env k s r. search_ok P x s \<longrightarrow> search_ok P x (snd r)", OF _ assms(1)], rule impI)
    fix loop :: "queue_env \<Rightarrow> u8 \<Rightarrow> 'a search_state \<Rightarrow> (u8 \<times> 'a search_state) option" and env k s r
    assume IH: "\<And>env k s r. loop env k s = Some r \<Longrightarrow> search_ok P x s \<longrightarrow> search_ok P x (snd r)" and s: "search_ok P x s"
    assume step: "(case newToQueueStore (fst s) of [] \<Rightarrow> Some (k, s) | front # _ \<Rightarrow>
        let q = RemoveFromNewQueue front (fst s)
        in Option.bind (FindNewGroups env [front] (currentQueueStore q) (q, snd s)) (\<lambda>(c, check, all, s).
             if c = LFG_COMPATIBLES_MATCH then loop env (k + 1) s
             else loop env k (AddToCurrentQueue front (fst s), snd s))) = Some r"
    show "search_ok P x (snd r)"
    proof (cases "newToQueueStore (fst s)")
      case Nil
      with step s show ?thesis by auto
    next
      case (Cons front rest)
      let ?q = "RemoveFromNewQueue front (fst s)"
      have "search_ok P x (?q, snd s)" using s by (simp add: search_ok_def)
      note q = this
      obtain c check' all' s' where f: "FindNewGroups env [front] (currentQueueStore ?q) (?q, snd s) = Some (c, check', all', s')"
          "search_ok P x s'"
        by (rule kept_search.FindNewGroups_returns [where env = env and check = "[front]" and all = "currentQueueStore ?q" and
          s = "(?q, snd s)" and P = P and x = x]) (use q in auto)
      then have "search_ok P x (AddToCurrentQueue front (fst s'), snd s')" by (simp add: search_ok_def)
      with step f Cons IH show ?thesis by (auto simp: Let_def split: if_splits)
    qed
  qed
  with assms(2) show ?thesis by simp
qed

subsection \<open>The manager\<close>

definition player_ok :: "LfgPlayerData \<Rightarrow> bool" where
  "player_ok d \<longleftrightarrow> stable_state (pd_OldState d) \<and> (stable_state (pd_State d) \<longrightarrow> pd_State d = pd_OldState d)"

definition group_ok :: "LfgGroupData \<Rightarrow> bool" where
  "group_ok d \<longleftrightarrow> stable_state (gd_OldState d) \<and> (stable_state (gd_State d) \<longrightarrow> gd_State d = gd_OldState d) \<and>
     gd_KicksLeft d \<le> LFG_GROUP_MAX_KICKS \<and> os_ok (gd_Players d)"

definition check_ok :: "LfgRoleCheck \<Rightarrow> bool" where
  "check_ok rc \<longleftrightarrow> rc_state rc = LFG_ROLECHECK_INITIALITING \<and> rc_dungeons rc \<noteq> []"

definition mgr_ok_but :: "u64 set \<Rightarrow> u64 set \<Rightarrow> u32 set \<Rightarrow> LFGMgr \<Rightarrow> bool" where
  "mgr_ok_but R B P m \<longleftrightarrow> (\<forall>g. player_ok (PlayersStore m g)) \<and> (\<forall>g. group_ok (GroupsStore m g)) \<and>
     om_ok (QueuesStore m) \<and> (\<forall>x \<in> set (QueuesStore m). entries_ok (snd x)) \<and>
     om_ok (RoleChecksStore m) \<and> (\<forall>x \<in> set (RoleChecksStore m). fst x \<in> R \<or> check_ok (snd x)) \<and>
     om_ok (BootsStore m) \<and> (\<forall>x \<in> set (BootsStore m). fst x \<in> B \<or> bt_inProgress (snd x)) \<and>
     proposals_ok P (ProposalsStore m)"

abbreviation "mgr_ok \<equiv> mgr_ok_but {} {} {}"

lemma player_ok_ops [simp]:
  "player_ok LfgPlayerData_new" "player_ok d \<Longrightarrow> player_ok (PlayerData_SetState s d)" "player_ok d \<Longrightarrow> player_ok (PlayerData_RestoreState d)"
  by (auto simp: player_ok_def player.get_set player.old_set player.get_restore player.old_restore)
    (simp_all add: LfgPlayerData_new_def stable_state_def)

lemma player_ok_fields [simp]:
  "player_ok (d\<lparr>pd_Roles := r\<rparr>) = player_ok d" "player_ok (d\<lparr>pd_Comment := c\<rparr>) = player_ok d"
  "player_ok (d\<lparr>pd_SelectedDungeons := ds\<rparr>) = player_ok d" "player_ok (d\<lparr>pd_LockedDungeons := l\<rparr>) = player_ok d"
  "player_ok (d\<lparr>pd_Group := g\<rparr>) = player_ok d" "player_ok (d\<lparr>pd_Team := t\<rparr>) = player_ok d"
  by (simp_all add: player_ok_def)

lemma kick_less: "k \<noteq> 0 \<Longrightarrow> k \<le> n \<Longrightarrow> k - 1 \<le> (n :: u8)"
  by unat_arith

lemma group_ok_ops [simp]:
  "group_ok LfgGroupData_new" "group_ok d \<Longrightarrow> group_ok (GroupData_SetState s d)" "group_ok d \<Longrightarrow> group_ok (GroupData_RestoreState d)"
  "group_ok d \<Longrightarrow> group_ok (GroupData_DecreaseKicksLeft d)" "group_ok d \<Longrightarrow> group_ok (GroupData_AddPlayer g d)"
  "group_ok d \<Longrightarrow> group_ok (snd (GroupData_RemovePlayer g d))" "group_ok (d\<lparr>gd_Leader := l\<rparr>) = group_ok d"
  "group_ok (d\<lparr>gd_Dungeon := e\<rparr>) = group_ok d"
  by (auto simp: group_ok_def group.get_set group.old_set group.get_restore group.old_restore GroupData_AddPlayer_def
    GroupData_RemovePlayer_def)
    (auto simp: LfgGroupData_new_def stable_state_def kick_less GroupData_DecreaseKicksLeft_def GroupData_SetState_def split: LfgState.splits)

lemma mgr_ok_upd_player [simp]:
  "(\<And>d. player_ok d \<Longrightarrow> player_ok (f d)) \<Longrightarrow> mgr_ok_but R B P m \<Longrightarrow> mgr_ok_but R B P (upd_player g f m)"
  by (simp add: mgr_ok_but_def upd_player_def)

lemma mgr_ok_upd_group [simp]:
  "(\<And>d. group_ok d \<Longrightarrow> group_ok (f d)) \<Longrightarrow> mgr_ok_but R B P m \<Longrightarrow> mgr_ok_but R B P (upd_group g f m)"
  by (simp add: mgr_ok_but_def upd_group_def)

lemma mgr_ok_accessors [simp]:
  assumes "mgr_ok_but R B P m"
  shows "mgr_ok_but R B P (SetState g s m)" "mgr_ok_but R B P (RestoreState g m)" "mgr_ok_but R B P (SetRoles g r m)"
    "mgr_ok_but R B P (SetComment g c m)" "mgr_ok_but R B P (SetSelectedDungeons g ds m)" "mgr_ok_but R B P (SetLockedDungeons g l m)"
    "mgr_ok_but R B P (SetGroup g h m)" "mgr_ok_but R B P (SetTeam w g t m)" "mgr_ok_but R B P (SetLeader g h m)"
    "mgr_ok_but R B P (SetDungeon g d m)" "mgr_ok_but R B P (DecreaseKicksLeft g m)" "mgr_ok_but R B P (AddPlayerToGroup g h m)"
    "mgr_ok_but R B P (snd (RemovePlayerFromGroup g h m))" "mgr_ok_but R B P (send w g msg m)" "mgr_ok_but R B P (tell g msg m)"
    "mgr_ok_but R B P (SetupGroupMember g h m)"
  using assms
  by (simp_all add: SetState_def RestoreState_def SetRoles_def SetComment_def SetSelectedDungeons_def SetLockedDungeons_def
    SetGroup_def SetTeam_def SetLeader_def SetDungeon_def DecreaseKicksLeft_def AddPlayerToGroup_def RemovePlayerFromGroup_def
    SetupGroupMember_def Let_def) (simp_all add: mgr_ok_but_def send_def tell_def)

lemma mgr_ok_timer [simp]: "mgr_ok_but R B P (m\<lparr>m_QueueTimer := t\<rparr>) = mgr_ok_but R B P m"
  by (simp add: mgr_ok_but_def)

lemma mgr_ok_queue: "mgr_ok_but R B P m \<Longrightarrow> entries_ok q \<Longrightarrow> mgr_ok_but R B P (m\<lparr>QueuesStore := om_put i q (QueuesStore m)\<rparr>)"
  using set_om_put [of i q "QueuesStore m"] by (auto simp: mgr_ok_but_def)

lemma mgr_ok_at: "mgr_ok_but R B P m \<Longrightarrow> entries_ok (om_at LFGQueue_new (QueuesStore m) i)"
  by (auto simp: mgr_ok_but_def om_at_def split: option.splits dest!: map_of_SomeD)

lemma mgr_ok_on_queue [simp]:
  "mgr_ok_but R B P m \<Longrightarrow> (\<And>q. entries_ok q \<Longrightarrow> entries_ok (f q)) \<Longrightarrow> mgr_ok_but R B P (on_queue g f m)"
  by (simp add: on_queue_def mgr_ok_queue GetQueue_def mgr_ok_at)

lemma mgr_ok_put_check:
  "mgr_ok_but R B P m \<Longrightarrow> g \<in> R \<or> check_ok rc \<Longrightarrow> mgr_ok_but R B P (m\<lparr>RoleChecksStore := om_put g rc (RoleChecksStore m)\<rparr>)"
  using set_om_put [of g rc "RoleChecksStore m"] by (auto simp: mgr_ok_but_def)

lemma mgr_ok_erase_check: "mgr_ok_but (insert g R) B P m \<Longrightarrow> mgr_ok_but R B P (m\<lparr>RoleChecksStore := om_erase g (RoleChecksStore m)\<rparr>)"
  by (auto simp: mgr_ok_but_def) (auto simp: om_erase_def)

lemma mgr_ok_put_boot:
  "mgr_ok_but R B P m \<Longrightarrow> g \<in> B \<or> bt_inProgress b \<Longrightarrow> mgr_ok_but R B P (m\<lparr>BootsStore := om_put g b (BootsStore m)\<rparr>)"
  using set_om_put [of g b "BootsStore m"] by (auto simp: mgr_ok_but_def)

lemma mgr_ok_erase_boot: "mgr_ok_but R (insert g B) P m \<Longrightarrow> mgr_ok_but R B P (m\<lparr>BootsStore := om_erase g (BootsStore m)\<rparr>)"
  by (auto simp: mgr_ok_but_def) (auto simp: om_erase_def)

lemma mgr_ok_put_proposal:
  "mgr_ok_but R B P m \<Longrightarrow> i \<in> P \<or> pr_state p = LFG_PROPOSAL_INITIATING \<Longrightarrow>
     mgr_ok_but R B P (m\<lparr>ProposalsStore := om_put i p (ProposalsStore m)\<rparr>)"
  by (simp add: mgr_ok_but_def proposals_ok_put)

lemma mgr_ok_erase_proposal:
  "mgr_ok_but R B (insert i P) m \<Longrightarrow> mgr_ok_but R B P (m\<lparr>ProposalsStore := om_erase i (ProposalsStore m)\<rparr>)"
  by (auto simp: mgr_ok_but_def proposals_ok_def) (auto simp: om_erase_def)

lemma mgr_ok_mono: "mgr_ok_but R B P m \<Longrightarrow> R \<subseteq> R' \<Longrightarrow> B \<subseteq> B' \<Longrightarrow> P \<subseteq> P' \<Longrightarrow> mgr_ok_but R' B' P' m"
  by (auto simp: mgr_ok_but_def proposals_ok_def)

lemma mgr_ok_fold:
  "(\<And>x m. x \<in> set xs \<Longrightarrow> mgr_ok_but R B P m \<Longrightarrow> mgr_ok_but R B P (f x m)) \<Longrightarrow> mgr_ok_but R B P m \<Longrightarrow> mgr_ok_but R B P (fold f xs m)"
  by (induction xs arbitrary: m) auto

subsection \<open>Role checks\<close>

lemma mgr_ok_role_check_member: "mgr_ok_but R B P m \<Longrightarrow> mgr_ok_but R B P (role_check_member w c g r rc x m)"
  by (cases x) (simp add: role_check_member_def Let_def split: LfgRoleCheckState.split)

lemma answer_keeps_dungeons: "rc_dungeons (answer_role_check g r rc) = rc_dungeons rc"
  by (simp add: answer_role_check_def Let_def)

lemma mgr_ok_UpdateRoleCheck: "mgr_ok_but R B P m \<Longrightarrow> gg \<notin> R \<Longrightarrow> mgr_ok_but R B P (UpdateRoleCheck w gg g r m)"
proof (cases "map_of (RoleChecksStore m) gg")
  case (Some rc)
  assume m: "mgr_ok_but R B P m" and gg: "gg \<notin> R"
  then have rc: "check_ok rc" using map_of_SomeD [OF Some] by (auto simp: mgr_ok_but_def)
  let ?rc = "answer_role_check g r rc"
  let ?m = "fold (role_check_member w (rc_state rc \<noteq> LFG_ROLECHECK_DEFAULT \<and> g \<noteq> 0) g r ?rc) (rc_roles ?rc)
      (m\<lparr>RoleChecksStore := om_put gg ?rc (RoleChecksStore m)\<rparr>)"
  have all: "mgr_ok_but R' B P ?m" if "mgr_ok_but R' B P m" "gg \<in> R' \<or> check_ok ?rc" for R'
    using that by (intro mgr_ok_fold mgr_ok_role_check_member mgr_ok_put_check)
  have but: "mgr_ok_but (insert gg R) B P ?m" by (rule all) (auto intro: mgr_ok_mono [OF m])
  have ds: "rc_dungeons ?rc \<noteq> []" using rc by (simp add: answer_keeps_dungeons check_ok_def)
  show ?thesis
  proof (cases "rc_state ?rc = LFG_ROLECHECK_INITIALITING")
    case True
    with all [OF m] ds Some m show ?thesis by (auto simp: UpdateRoleCheck_def check_ok_def Let_def)
  next
    case False
    with but ds Some m show ?thesis by (auto simp: UpdateRoleCheck_def Let_def intro!: mgr_ok_erase_check)
  qed
qed (simp add: UpdateRoleCheck_def)

lemma mgr_ok_expire_role_checks: "mgr_ok_but R B P m \<Longrightarrow> mgr_ok_but R B P (expire_role_checks w m)"
proof -
  have "mgr_ok_but R B P (expire_role_check w x m)" if m: "mgr_ok_but R B P m" for x m
  proof (cases x)
    case (Pair gg rc)
    have "mgr_ok_but (insert gg R) B P m" by (rule mgr_ok_mono [OF m]) auto
    then have "mgr_ok_but (insert gg R) B P (fold (expire_member w rc') xs m)" for rc' xs
      by (intro mgr_ok_fold) (auto simp: expire_member_def Let_def)
    with m show ?thesis by (auto simp: Pair expire_role_check_def Let_def intro!: mgr_ok_erase_check)
  qed
  then show "mgr_ok_but R B P m \<Longrightarrow> ?thesis" by (simp add: expire_role_checks_def mgr_ok_fold)
qed

subsection \<open>Proposals\<close>

lemma mgr_ok_notify_failed: "mgr_ok_but R B P m \<Longrightarrow> mgr_ok_but R B P (notify_failed w t gone p x m)"
  by (simp add: notify_failed_def Let_def)

lemma mgr_ok_RemoveProposal:
  assumes "mgr_ok_but R B P m"
  shows "mgr_ok_but R B P (RemoveProposal w i t m)"
proof (cases "map_of (ProposalsStore m) i")
  case (Some p)
  have m: "mgr_ok_but R B (insert i P) m" by (rule mgr_ok_mono [OF assms]) auto
  have "mgr_ok_but R B (insert i P) (fold (notify_failed w t gone p') xs (m\<lparr>ProposalsStore := om_put i p' (ProposalsStore m)\<rparr>))"
    for gone p' xs
    using m by (intro mgr_ok_fold mgr_ok_notify_failed mgr_ok_put_proposal) auto
  then show ?thesis
    by (auto simp: RemoveProposal_def Some Let_def intro!: mgr_ok_erase_proposal mgr_ok_on_queue entries_ok_fold)
qed (use assms in \<open>simp add: RemoveProposal_def\<close>)

lemma mgr_ok_expire_proposals: "mgr_ok_but R B P m \<Longrightarrow> mgr_ok_but R B P (expire_proposals w m)"
  unfolding expire_proposals_def by (rule mgr_ok_fold) (auto intro: mgr_ok_RemoveProposal)

lemma mgr_ok_enter_players:
  "enter_players w su asked p xs (t, m) = Some m' \<Longrightarrow> mgr_ok_but R B P m \<Longrightarrow> mgr_ok_but R B P m'"
proof (induction xs arbitrary: t m)
  case (Cons x xs)
  have "mgr_ok_but R B P m2" if "enter_player w su asked p x (t, m) = Some (t2, m2)" for t2 m2
    using that Cons.prems(2) by (auto simp: enter_player_def Let_def split: list.splits)
  with Cons show ?case by (auto split: bind_splits)
qed simp

lemma mgr_ok_adjust_proposal:
  "mgr_ok_but R B P m \<Longrightarrow> (\<And>p. pr_state (f p) = pr_state p) \<Longrightarrow>
     mgr_ok_but R B P (m\<lparr>ProposalsStore := om_adjust i f (ProposalsStore m)\<rparr>)"
  by (auto simp: mgr_ok_but_def proposals_ok_def) (auto simp: om_adjust_def split: if_splits)

lemma mgr_ok_leave_member: "mgr_ok_but R B P m \<Longrightarrow> mgr_ok_but R B P (leave_member w g m)"
  by (simp add: leave_member_def)

lemma mgr_ok_leave_members: "mgr_ok_but R B P m \<Longrightarrow> mgr_ok_but R B P (fold (leave_member w) gs m)"
  by (intro mgr_ok_fold mgr_ok_leave_member)

lemma mgr_ok_LeaveLfg: "mgr_ok_but {} B P m \<Longrightarrow> mgr_ok_but {} B P (LeaveLfg w g m)"
  unfolding LeaveLfg_def Let_def
  by (cases "GetState g m")
    (simp_all add: mgr_ok_leave_members mgr_ok_UpdateRoleCheck mgr_ok_RemoveProposal mgr_ok_adjust_proposal split: option.split)

subsection \<open>Votes and hooks\<close>

lemma mgr_ok_InitBoot: "mgr_ok_but R B P m \<Longrightarrow> mgr_ok_but R B P (InitBoot w gg k v r m)"
  by (simp add: InitBoot_def Let_def mgr_ok_fold mgr_ok_put_boot)

lemma mgr_ok_OnRemoveMember:
  "mgr_ok_but {} B P m \<Longrightarrow> mgr_ok_but {} B P (OnRemoveMember w l gg g method k r m)"
proof -
  assume m: "mgr_ok_but {} B P m"
  have "mgr_ok_but {} B P (snd (RemovePlayerFromGroup gg g (SetGroup g 0 (LeaveLfg w g m))))"
    using m by (simp add: mgr_ok_LeaveLfg)
  with m show ?thesis by (auto simp: OnRemoveMember_def Let_def split_def mgr_ok_InitBoot)
qed

lemma mgr_ok_RemoveGroupData: "mgr_ok_but R B P m \<Longrightarrow> mgr_ok_but R B P (RemoveGroupData w gg m)"
  unfolding RemoveGroupData_def Let_def by (rule mgr_ok_upd_group, simp, rule mgr_ok_fold) auto

lemma mgr_ok_hooks:
  assumes "mgr_ok_but {} B P m"
  shows "mgr_ok_but {} B P (OnAddMember w gg l g m)" "mgr_ok_but {} B P (OnDisband w gg m)" "mgr_ok_but {} B P (OnChangeLeader gg l m)"
    "mgr_ok_but {} B P (OnInviteMember w gg l m)" "mgr_ok_but {} B P (OnLogout w b g m)" "mgr_ok_but {} B P (RemovePlayerData g m)"
  using assms
  by (auto simp: OnAddMember_def OnDisband_def OnChangeLeader_def OnInviteMember_def OnLogout_def
    RemovePlayerData_def Let_def mgr_ok_LeaveLfg mgr_ok_RemoveGroupData)

lemma mgr_ok_end_vote: "mgr_ok_but R B P m \<Longrightarrow> mgr_ok_but R B P (end_vote w b vs m)"
  unfolding end_vote_def by (rule mgr_ok_fold) auto

lemma mgr_ok_UpdateBoot: "mgr_ok m \<Longrightarrow> mgr_ok (UpdateBoot w g a m)"
proof (cases "map_of (BootsStore m) (GetGroup g m)")
  case (Some b)
  assume m: "mgr_ok m"
  let ?gg = "GetGroup g m"
  have b: "bt_inProgress b" using m map_of_SomeD [OF Some] by (auto simp: mgr_ok_but_def)
  show ?thesis
  proof (cases "?gg \<noteq> 0 \<and> map_of (bt_votes b) g = Some LFG_ANSWER_PENDING")
    case False
    with m b show ?thesis by (auto simp: UpdateBoot_def Some Let_def mgr_ok_put_boot)
  next
    case True
    define b1 where "b1 = b\<lparr>bt_votes := om_put g (answer_of a) (bt_votes b)\<rparr>"
    define m1 where "m1 = m\<lparr>BootsStore := om_put ?gg b1 (BootsStore m)\<rparr>"
    define b2 where "b2 = b1\<lparr>bt_inProgress := False\<rparr>"
    define m2 where "m2 = SetState ?gg LFG_STATE_DUNGEON (end_vote w b2 (bt_votes b2) (m1\<lparr>BootsStore := om_put ?gg b2 (BootsStore m1)\<rparr>))"
    define m3 where "m3 = (case lw_group w ?gg of
      Some l \<Rightarrow> OnRemoveMember w l ?gg (bt_victim b2) GROUP_REMOVEMETHOD_KICK_LFG 0 [] m2 | None \<Rightarrow> m2)"
    have m1: "mgr_ok m1" using m b by (simp add: m1_def b1_def mgr_ok_put_boot)
    have "mgr_ok_but {} {?gg} {} m1" by (rule mgr_ok_mono [OF m1]) auto
    then have m2: "mgr_ok_but {} {?gg} {} m2" by (simp add: m2_def mgr_ok_end_vote mgr_ok_put_boot)
    then have m3: "mgr_ok_but {} {?gg} {} m3" by (simp add: m3_def mgr_ok_OnRemoveMember split: option.split)
    have "UpdateBoot w g a m = (if ?gg = 0 then m
      else if map_of (bt_votes b) g \<noteq> Some LFG_ANSWER_PENDING
      then (if map_of (bt_votes b) g = None
            then m\<lparr>BootsStore := om_put ?gg (b\<lparr>bt_votes := om_put g LFG_ANSWER_DENY (bt_votes b)\<rparr>) (BootsStore m)\<rparr> else m)
      else if votes_for LFG_ANSWER_AGREE (bt_votes b1) mod 256 < LFG_GROUP_KICK_VOTES_NEEDED \<and>
         int ((votes_for LFG_ANSWER_AGREE (bt_votes b1) + votes_for LFG_ANSWER_DENY (bt_votes b1)) mod 256) -
           int (votes_for LFG_ANSWER_AGREE (bt_votes b1) mod 256) < int LFG_GROUP_KICK_VOTES_NEEDED
      then m1
      else (\<lambda>x. x\<lparr>BootsStore := om_erase ?gg (BootsStore x)\<rparr>)
        (if votes_for LFG_ANSWER_AGREE (bt_votes b1) mod 256 = LFG_GROUP_KICK_VOTES_NEEDED then DecreaseKicksLeft ?gg m3 else m2))"
      by (simp only: UpdateBoot_def Let_def Some option.case b1_def m1_def b2_def m2_def m3_def)
    with True m1 m2 m3 show ?thesis by (simp add: mgr_ok_erase_boot)
  qed
qed (simp add: UpdateBoot_def Let_def)

lemma mgr_ok_expire_boots: "mgr_ok_but R B P m \<Longrightarrow> mgr_ok_but R B P (expire_boots w m)"
proof -
  have "mgr_ok_but R B P (expire_boot w x m)" if m: "mgr_ok_but R B P m" for x m
  proof (cases x)
    case (Pair gg b)
    have but: "mgr_ok_but R (insert gg B) P m" by (rule mgr_ok_mono [OF m]) auto
    then have "mgr_ok_but R (insert gg B) P (fold (\<lambda>(g, a) m. SetState g s (if g \<noteq> v then send w g msg m else m)) vs
        (m\<lparr>BootsStore := om_put gg b' (BootsStore m)\<rparr>))" for s v msg b' and vs :: "(u64 \<times> LfgAnswer) list"
      by (intro mgr_ok_fold mgr_ok_put_boot) auto
    with m show ?thesis by (simp add: Pair expire_boot_def Let_def mgr_ok_erase_boot)
  qed
  then show "mgr_ok_but R B P m \<Longrightarrow> ?thesis" by (simp add: expire_boots_def mgr_ok_fold)
qed

subsection \<open>Joining\<close>

lemma mgr_ok_begin_role_check:
  assumes "mgr_ok m" and "ds \<noteq> []"
  shows "mgr_ok (begin_role_check w g party r ds d c cont m)"
proof -
  have "mgr_ok (fold (\<lambda>p m. let m = SetState p s (tell p msg m) in if cont then m else SetSelectedDungeons p shown m) ps m')"
    if "mgr_ok m'" for s msg shown ps m'
    using that by (intro mgr_ok_fold) (simp_all add: Let_def)
  with assms show ?thesis
    by (simp add: begin_role_check_def mgr_ok_UpdateRoleCheck mgr_ok_put_check check_ok_def Let_def cong: if_cong)
qed

lemma join_checks_dungeons: "join_checks f g party ds m = (jd, ds', k) \<Longrightarrow> jd_result jd = LFG_JOIN_OK \<Longrightarrow> ds' \<noteq> []"
  by (auto simp: join_checks_def Let_def JoinResultData_def split: prod.splits if_splits)

lemma mgr_ok_JoinLfg: "mgr_ok m \<Longrightarrow> mgr_ok (JoinLfg w f g party r ds c m)"
proof -
  assume m: "mgr_ok m"
  define gg where "gg = (case party of Some g \<Rightarrow> lp_guid g | None \<Rightarrow> g)"
  define m1 where "m1 = (if GetState gg m = LFG_STATE_QUEUED then on_queue gg (RemoveFromQueue gg) m else m)"
  define cont where "cont = (case party of Some p \<Rightarrow> lp_isLFG p \<and> GetState gg m \<noteq> LFG_STATE_FINISHED_DUNGEON | None \<Rightarrow> False)"
  define ds1 where "ds1 = (if cont then [GetDungeon gg True m] else ds)"
  obtain jd ds2 k where c: "join_checks f g party ds1 m1 = (jd, ds2, k)" by (metis prod_cases3)
  have m1: "mgr_ok m1" using m by (simp add: m1_def)
  have "JoinLfg w f g party r ds c m = (if ds = [] then m
     else case join_checks f g party ds1 m1 of (jd, ds2, k) \<Rightarrow>
       if jd_result jd \<noteq> LFG_JOIN_OK then tell g (JoinResult (if ds2 \<noteq> [] then jd\<lparr>jd_lockmap := []\<rparr> else jd)) m1
       else if jk_isRaid k then SetComment g c m1
       else case party of Some p \<Rightarrow> begin_role_check w g p r ds2 (jk_random k) c cont (SetComment g c m1)
         | None \<Rightarrow> join_queue w g r ds2 (jk_random k) c jd (SetComment g c m1))"
    by (simp only: JoinLfg_def Let_def gg_def cont_def ds1_def m1_def)
  then show ?thesis
    using c m m1 join_checks_dungeons [OF c]
    by (auto simp: mgr_ok_begin_role_check join_queue_def Let_def split: option.split)
qed

subsection \<open>Updates\<close>

lemma mgr_ok_FindGroups:
  assumes "mgr_ok m" and "FindGroups env (om_at LFGQueue_new (QueuesStore m) i, m) = Some (n, q, m')"
  shows "mgr_ok (m'\<lparr>QueuesStore := om_put i q (QueuesStore m')\<rparr>)"
proof -
  have "search_ok {} (lfg_host.more m) (om_at LFGQueue_new (QueuesStore m) i, m)"
    using assms(1) by (simp add: search_ok_def mgr_ok_at) (simp add: mgr_ok_but_def)
  from search_ok_loop [OF _ this] assms(2)
  have q: "entries_ok q" and p: "proposals_ok {} (ProposalsStore m')" and more: "lfg_host.more m' = lfg_host.more m"
    by (auto simp: FindGroups_def search_ok_def)
  have "QueuesStore m' = QueuesStore m \<and> RoleChecksStore m' = RoleChecksStore m \<and> BootsStore m' = BootsStore m \<and>
      PlayersStore m' = PlayersStore m \<and> GroupsStore m' = GroupsStore m"
    using more by (cases m; cases m') simp
  with assms(1) p have "mgr_ok m'" by (simp add: mgr_ok_but_def)
  with q show ?thesis by (simp add: mgr_ok_queue)
qed

lemma find_groups_total: "mgr_ok m \<Longrightarrow> \<exists>m'. find_groups w is m = Some m' \<and> mgr_ok m'"
proof (induction "is" arbitrary: m)
  case (Cons i "is")
  obtain n q m' where f: "FindGroups (mgr_env w m) (om_at LFGQueue_new (QueuesStore m) i, m) = Some (n, q, m')"
    using find_groups_loop_returns [of "mgr_env w m" 0 "(om_at LFGQueue_new (QueuesStore m) i, m)"] by (auto simp: FindGroups_def)
  from Cons.IH [OF mgr_ok_FindGroups [OF Cons.prems f]] f show ?case by simp
qed simp

lemma mgr_ok_offer_player: "mgr_ok_but R B P m \<Longrightarrow> mgr_ok_but R B P (offer_player w p g m)"
  by (simp add: offer_player_def Let_def)

lemma offer_proposals_total:
  "mgr_ok m \<Longrightarrow> \<forall>x \<in> set ps. pr_state (snd x) = LFG_PROPOSAL_INITIATING \<Longrightarrow>
     \<exists>m'. offer_proposals form w ps m = Some m' \<and> mgr_ok m'"
proof (induction ps arbitrary: m)
  case (Cons x ps)
  have "mgr_ok (fold (offer_player w (snd x)) (map fst (pr_players (snd x))) m)"
    using Cons.prems(1) by (intro mgr_ok_fold mgr_ok_offer_player)
  with Cons show ?case by (cases x) simp
qed simp

lemma update_timers_total:
  "entries_ok q \<Longrightarrow> mgr_ok m \<Longrightarrow> \<forall>x \<in> set es. qd_dungeons (snd x) \<noteq> [] \<Longrightarrow>
     \<exists>q' m'. update_timers w i es (q, m) = Some (q', m') \<and> entries_ok q' \<and> mgr_ok m'"
proof (induction es arbitrary: q m)
  case (Cons x es)
  obtain g d where x: "x = (g, d)" by (cases x)
  obtain dungeon ds where d: "qd_dungeons d = dungeon # ds" using Cons.prems(3) x by (cases "qd_dungeons d") auto
  let ?d = "if qd_bestCompatible d = [] then FindBestCompatibleInQueue (CompatibleMapStore q) g d else d"
  let ?q = "q\<lparr>QueueDataStore := om_put g ?d (QueueDataStore q)\<rparr>"
  have "entries_ok ?q" using Cons.prems(1) d by (intro entries_ok_put) auto
  moreover have "mgr_ok (fold (\<lambda>(p, r). send w p msg) rs m)" for msg and rs :: LfgRolesMap
    using Cons.prems(2) by (intro mgr_ok_fold) auto
  ultimately have "\<exists>q' m'. update_timers w i es
      (?q, fold (\<lambda>(p, r). send w p (QueueStatus (queue_status i (lw_time w) ?q dungeon ?d))) (qd_roles ?d) m) = Some (q', m') \<and>
      entries_ok q' \<and> mgr_ok m'"
    using Cons.IH Cons.prems(3) by simp
  then show ?case by (simp add: x d Let_def)
qed simp

lemma update_queues_total: "mgr_ok m \<Longrightarrow> \<exists>m'. update_queues w is m = Some m' \<and> mgr_ok m'"
proof (induction "is" arbitrary: m)
  case (Cons i "is")
  let ?q = "om_at LFGQueue_new (QueuesStore m) i"
  have q: "entries_ok ?q" using Cons.prems by (rule mgr_ok_at)
  then have "\<forall>x \<in> set (QueueDataStore ?q). qd_dungeons (snd x) \<noteq> []" by (simp add: entries_ok_def)
  from update_timers_total [OF q Cons.prems this, of w i] obtain q' m' where u: "UpdateQueueTimers w i (?q, m) = Some (q', m')"
      "entries_ok q'" "mgr_ok m'"
    by (auto simp: UpdateQueueTimers_def)
  with Cons.IH [OF mgr_ok_queue [OF u(3,2)]] show ?case by simp
qed simp

lemma mgr_Update_total: "mgr_ok m \<Longrightarrow> \<exists>m'. mgr_Update form w diff m = Some m' \<and> mgr_ok m'"
proof (cases "lfg_enabled m")
  case True
  assume m: "mgr_ok m"
  let ?m = "expire_boots w (expire_proposals w (expire_role_checks w m))"
  have "mgr_ok ?m" using m by (intro mgr_ok_expire_boots mgr_ok_expire_proposals mgr_ok_expire_role_checks)
  then obtain m1 where m1: "find_groups w (map fst (QueuesStore ?m)) ?m = Some m1" "mgr_ok m1"
    using find_groups_total by blast
  let ?ps = "dropWhile (\<lambda>x. fst x \<noteq> m_lfgProposalId m1) (ProposalsStore m1)"
  have "\<forall>x \<in> set ?ps. pr_state (snd x) = LFG_PROPOSAL_INITIATING"
    using m1(2) by (auto simp: mgr_ok_but_def proposals_ok_def dest: set_dropWhileD)
  then obtain m2 where m2: "offer_proposals form w ?ps m1 = Some m2" "mgr_ok m2"
    using offer_proposals_total [OF m1(2)] by blast
  define m3 where "m3 = (if m_lfgProposalId ?m \<noteq> m_lfgProposalId m1 then m2 else m1)"
  have "mgr_ok m3" using m1 m2 by (simp add: m3_def)
  then have "mgr_ok (m3\<lparr>m_QueueTimer := 0\<rparr>)" by simp
  then obtain m4 where m4: "update_queues w (map fst (QueuesStore m3)) (m3\<lparr>m_QueueTimer := 0\<rparr>) = Some m4" "mgr_ok m4"
    using update_queues_total by blast
  have "(if m_lfgProposalId ?m \<noteq> m_lfgProposalId m1 then offer_proposals form w ?ps m1 else Some m1) = Some m3"
    by (simp add: m3_def m2(1))
  then have "mgr_Update form w diff m = (if m_QueueTimer m3 > LFG_QUEUEUPDATE_INTERVAL then Some m4
      else Some (m3\<lparr>m_QueueTimer := m_QueueTimer m3 + diff\<rparr>))"
    using True by (simp only: mgr_Update_def Let_def m1(1) m4(1) Option.bind.bind_lunit not_True_eq_False if_False)
  with m4 \<open>mgr_ok m3\<close> show ?thesis by simp
qed (simp add: mgr_Update_def)

subsection \<open>Steps\<close>

text \<open>What the operations of a group do to the manager, \<open>MakeNewGroup\<close> among them.\<close>

inductive hook_step :: "LFGMgr \<Rightarrow> LFGMgr \<Rightarrow> bool" where
  add: "hook_step m (OnAddMember w gg l g m)"
| remove: "hook_step m (OnRemoveMember w b gg g method k r m)"
| disband: "hook_step m (OnDisband w gg m)"
| leader: "hook_step m (OnChangeLeader gg l m)"
| invite: "hook_step m (OnInviteMember w gg l m)"
| state: "hook_step m (SetState gg s m)"
| dungeon: "hook_step m (SetDungeon gg d m)"

definition forms_groups :: "(LfgProposal \<Rightarrow> LFGMgr \<Rightarrow> LFGMgr option) \<Rightarrow> bool" where
  "forms_groups form \<longleftrightarrow> (\<forall>p m m'. form p m = Some m' \<longrightarrow> hook_step\<^sup>*\<^sup>* m m')"

inductive mgr_step :: "LFGMgr \<Rightarrow> LFGMgr \<Rightarrow> bool" where
  hook: "hook_step m m' \<Longrightarrow> mgr_step m m'"
| join: "mgr_step m (JoinLfg w f g party r ds c m)"
| leave: "mgr_step m (LeaveLfg w g m)"
| role: "mgr_step m (UpdateRoleCheck w gg g r m)"
| answer: "forms_groups form \<Longrightarrow> UpdateProposal form w i g a m = Some m' \<Longrightarrow> mgr_step m m'"
| vote: "mgr_step m (UpdateBoot w g a m)"
| update: "mgr_Update form w diff m = Some m' \<Longrightarrow> mgr_step m m'"
| finish: "mgr_step m (FinishDungeon rf gg d m)"
| login: "mgr_step m (OnLogin w lf g gg t m)"
| level: "mgr_step m (OnLevelChanged lf g m)"
| logout: "mgr_step m (OnLogout w b g m)"
| dungeons: "mgr_step m (LoadLFGDungeons trigger es ps fs reload m)"
| rewards: "mgr_step m (LoadRewards lv quest rows m)"
| load: "mgr_step m (LoadFromDB row g m)"

inductive_cases mgr_stepE: "mgr_step m m'"

lemma hook_step_ok: "hook_step m m' \<Longrightarrow> mgr_ok_but {} B P m \<Longrightarrow> mgr_ok_but {} B P m'"
  by (induction rule: hook_step.induct) (simp_all add: mgr_ok_hooks mgr_ok_OnRemoveMember)

lemma hook_steps_ok: "hook_step\<^sup>*\<^sup>* m m' \<Longrightarrow> mgr_ok_but {} B P m \<Longrightarrow> mgr_ok_but {} B P m'"
  by (induction rule: rtranclp_induct) (auto intro: hook_step_ok)

lemma mgr_ok_UpdateProposal:
  assumes form: "forms_groups form" and u: "UpdateProposal form w i g a m = Some m'" and m: "mgr_ok m"
  shows "mgr_ok m'"
proof (cases "map_of (ProposalsStore m) i")
  case None
  with u m show ?thesis by (simp add: UpdateProposal_def)
next
  case (Some p)
  have p: "pr_state p = LFG_PROPOSAL_INITIATING"
    using m map_of_SomeD [OF Some] by (auto simp: mgr_ok_but_def proposals_ok_def)
  define p1 where "p1 = p\<lparr>pr_players := om_adjust g (\<lambda>x. x\<lparr>pp_accept := answer_of a\<rparr>) (pr_players p)\<rparr>"
  define m1 where "m1 = m\<lparr>ProposalsStore := om_put i p1 (ProposalsStore m)\<rparr>"
  define p2 where "p2 = p1\<lparr>pr_state := LFG_PROPOSAL_SUCCESS\<rparr>"
  define m2 where "m2 = m1\<lparr>ProposalsStore := om_put i p2 (ProposalsStore m1)\<rparr>"
  have m1: "mgr_ok m1" using m p by (simp add: m1_def p1_def mgr_ok_put_proposal)
  have "mgr_ok_but {} {} {i} m1" by (rule mgr_ok_mono [OF m1]) auto
  then have m2: "mgr_ok_but {} {} {i} m2" by (simp add: m2_def mgr_ok_put_proposal)
  have told: "mgr_ok (fold (\<lambda>(g, x). send w g (ProposalUpdate p1)) (pr_players p1) m1)"
    using m1 by (intro mgr_ok_fold) auto
  have new: "mgr_ok m5"
    if e: "enter_players w su g p2 xs (t, m2) = Some m3"
      and f: "form p2 (on_queue g (fold RemoveFromQueue qs) m3) = Some m4"
      and m5: "m5 = m4\<lparr>ProposalsStore := om_erase i (ProposalsStore m4)\<rparr>" for su xs t m3 m4 m5 qs
  proof -
    have "mgr_ok_but {} {} {i} m3" by (rule mgr_ok_enter_players [OF e m2])
    then have "mgr_ok_but {} {} {i} (on_queue g (fold RemoveFromQueue qs) m3)" by (simp add: entries_ok_fold)
    moreover have "hook_step\<^sup>*\<^sup>* (on_queue g (fold RemoveFromQueue qs) m3) m4" using form f by (simp add: forms_groups_def)
    ultimately have "mgr_ok_but {} {} {i} m4" by (rule hook_steps_ok [rotated])
    then show ?thesis by (simp add: m5 mgr_ok_erase_proposal)
  qed
  show ?thesis
    using u Some m m1 told new
    by (auto simp: UpdateProposal_def Let_def p1_def [symmetric] m1_def [symmetric] p2_def [symmetric] m2_def [symmetric]
      mgr_ok_RemoveProposal split: if_splits bind_splits)
qed

lemma mgr_ok_FinishDungeon: "mgr_ok m \<Longrightarrow> mgr_ok (FinishDungeon f gg d m)"
proof -
  have "mgr_ok (finish_player f gg d g m)" if "mgr_ok m" for g m
    using that by (auto simp: finish_player_def Let_def split: option.split)
  then show "mgr_ok m \<Longrightarrow> mgr_ok (FinishDungeon f gg d m)"
    by (auto simp: FinishDungeon_def Let_def intro: mgr_ok_fold)
qed

lemma mgr_ok_locked: "mgr_ok m \<Longrightarrow> mgr_ok (InitializeLockedDungeons f g m)"
  by (simp add: InitializeLockedDungeons_def)

lemma mgr_ok_tables [simp]:
  "mgr_ok_but R B P (m\<lparr>LfgDungeonStore := ds\<rparr>) = mgr_ok_but R B P m"
  "mgr_ok_but R B P (m\<lparr>CachedDungeonMapStore := c\<rparr>) = mgr_ok_but R B P m"
  "mgr_ok_but R B P (m\<lparr>RewardMapStore := r\<rparr>) = mgr_ok_but R B P m"
  by (simp_all add: mgr_ok_but_def)

lemma mgr_ok_LoadLFGDungeons: "mgr_ok m \<Longrightarrow> mgr_ok (LoadLFGDungeons trigger es ps fs reload m)"
  by (auto simp: LoadLFGDungeons_def Let_def split_def intro!: mgr_ok_fold mgr_ok_locked)

lemma mgr_step_ok: "mgr_step m m' \<Longrightarrow> mgr_ok m \<Longrightarrow> mgr_ok m'"
proof (erule mgr_stepE)
  show "mgr_ok m'" if "mgr_ok m" "mgr_Update form w diff m = Some m'" for form w diff
    using mgr_Update_total [OF that(1), of form w diff] that(2) by auto
qed (simp_all add: hook_step_ok mgr_ok_JoinLfg mgr_ok_LeaveLfg mgr_ok_UpdateRoleCheck mgr_ok_UpdateProposal mgr_ok_UpdateBoot
    mgr_ok_FinishDungeon OnLogin_def OnLevelChanged_def mgr_ok_locked mgr_ok_hooks mgr_ok_LoadLFGDungeons LoadRewards_def
    LoadFromDB_def Let_def split: option.split)

lemma mgr_steps_ok: "mgr_step\<^sup>*\<^sup>* (LFGMgr_new options) m \<Longrightarrow> mgr_ok m"
proof (induction rule: rtranclp_induct)
  case base
  have "mgr_ok (LFGMgr_new options)" by (simp add: mgr_ok_but_def LFGMgr_new_def proposals_ok_def)
  then show ?case .
qed (rule mgr_step_ok)

text \<open>
  C5: In every state the manager reaches from its constructor through joins, leaves, role and
  proposal answers, votes, updates, dungeon ends, logins, loads and the hooks of the groups: the
  state a player or group goes back to is a stable one and is the current one whenever the current
  one is stable, kicks never exceed their maximum, no ended role check, vote or proposal stays in
  its store, and every role check and queue entry has a dungeon.
\<close>

theorem manager_invariant:
  assumes "mgr_step\<^sup>*\<^sup>* (LFGMgr_new options) m"
  shows "stable_state (GetOldState g m) \<and> (\<not> stable_state (GetState g m) \<or> GetState g m = GetOldState g m) \<and>
    GetKicksLeft g m \<le> LFG_GROUP_MAX_KICKS \<and> os_ok (GetPlayers g m) \<and>
    (\<forall>x \<in> set (RoleChecksStore m). rc_state (snd x) = LFG_ROLECHECK_INITIALITING \<and> rc_dungeons (snd x) \<noteq> []) \<and>
    (\<forall>x \<in> set (BootsStore m). bt_inProgress (snd x)) \<and>
    (\<forall>x \<in> set (ProposalsStore m). pr_state (snd x) = LFG_PROPOSAL_INITIATING) \<and>
    (\<forall>x \<in> set (QueuesStore m). \<forall>e \<in> set (QueueDataStore (snd x)). qd_dungeons (snd e) \<noteq> [])"
  using mgr_steps_ok [OF assms]
  by (auto simp: mgr_ok_but_def player_ok_def group_ok_def check_ok_def entries_ok_def proposals_ok_def GetState_def GetOldState_def)

text \<open>
  C21: LFGMgr::Update returns in every reachable state: its searches end, it never reads the first
  dungeon of a queue entry without dungeons, and no proposal it offers has already succeeded, so
  the loop over the proposals never continues from an erased one.
\<close>

theorem update_returns:
  assumes "mgr_step\<^sup>*\<^sup>* (LFGMgr_new options) m"
  shows "\<exists>m'. mgr_Update form w diff m = Some m'"
  using mgr_Update_total [OF mgr_steps_ok [OF assms]] by blast

subsection \<open>The newest group is offered\<close>

lemma offer_player_state:
  assumes "\<not> IS_GROUP_GUID h" and "\<forall>g. GetGroup g m = 0 \<or> IS_GROUP_GUID (GetGroup g m)"
  shows "GetState h (offer_player w p g m) = (if h = g then LFG_STATE_PROPOSAL else GetState h m)"
    and "GetGroup k (offer_player w p g m) = GetGroup k m"
  using assms by (auto simp: offer_player_def Let_def mgr_simps)

lemma offer_players_state:
  "\<not> IS_GROUP_GUID h \<Longrightarrow> \<forall>g. GetGroup g m = 0 \<or> IS_GROUP_GUID (GetGroup g m) \<Longrightarrow>
     GetState h (fold (offer_player w p) gs m) = (if h \<in> set gs then LFG_STATE_PROPOSAL else GetState h m)"
  by (induction gs arbitrary: m) (auto simp: offer_player_state)

lemma dropWhile_newest:
  "om_ok ps \<Longrightarrow> \<forall>x \<in> set ps. fst x \<le> i \<Longrightarrow> map_of ps i = Some p \<Longrightarrow> dropWhile (\<lambda>x. fst x \<noteq> i) ps = [(i, p)]"
proof (induction ps)
  case (Cons x ps)
  show ?case
  proof (cases "fst x = i")
    case True
    then have "ps = []" using Cons.prems(1,2) by (cases ps) (auto simp: om_ok_Cons [of "fst x" "snd x", simplified])
    with True Cons.prems(3) show ?thesis by (cases x) simp
  next
    case False
    with Cons show ?thesis by (cases x) (simp add: om_ok_Cons)
  qed
qed simp

text \<open>
  After its searches, Update offers the proposal with the newest id only: the players of that
  proposal get the proposal state, and a player of another new proposal keeps his state and is
  told nothing.
\<close>

theorem newest_offer_only:
  fixes m :: LFGMgr
  assumes "om_ok (ProposalsStore m)" and "\<forall>x \<in> set (ProposalsStore m). fst x \<le> m_lfgProposalId m"
    and "map_of (ProposalsStore m) (m_lfgProposalId m) = Some p" and "pr_state p = LFG_PROPOSAL_INITIATING"
    and "\<forall>g. GetGroup g m = 0 \<or> IS_GROUP_GUID (GetGroup g m)" and "\<not> IS_GROUP_GUID h"
  shows "\<exists>m'. offer_proposals form w (dropWhile (\<lambda>x. fst x \<noteq> m_lfgProposalId m) (ProposalsStore m)) m = Some m' \<and>
    GetState h m' = (if h \<in> fst ` set (pr_players p) then LFG_STATE_PROPOSAL else GetState h m)"
  using assms(4) offer_players_state [OF assms(6,5), of w p "map fst (pr_players p)"]
  by (simp add: dropWhile_newest [OF assms(1-3)])

subsection \<open>Examples\<close>

text \<open>The player 4 asks for the dungeon 7.\<close>

definition sample_joined :: LFGMgr where
  "sample_joined = JoinLfg sample_world sample_facts 4 None PLAYER_ROLE_TANK [7] []
     (LoadLFGDungeons (\<lambda>_. None) [sample_entry] [(7, sample_position)] [] False (LFGMgr_new 3))"

lemma sample_joined_steps: "mgr_step\<^sup>*\<^sup>* (LFGMgr_new 3) sample_joined"
  unfolding sample_joined_def by (rule rtranclp_trans [OF r_into_rtranclp r_into_rtranclp]) (rule mgr_step.intros)+

theorem manager_invariant_witness: "stable_state (GetOldState 4 sample_joined)"
  using manager_invariant [OF sample_joined_steps, of 4] by simp

theorem update_returns_witness: "\<exists>m'. mgr_Update (\<lambda>_ _. None) sample_world 100 sample_joined = Some m'"
  by (rule update_returns [OF sample_joined_steps])

text \<open>Two new proposals; only the players of the second are told.\<close>

definition sample_offered :: LFGMgr where
  "sample_offered = (LFGMgr_new 3)\<lparr>m_lfgProposalId := 3, ProposalsStore :=
     [(2, (LfgProposal_new 7)\<lparr>pr_players := [(1, LfgProposalPlayer_new)]\<rparr>),
      (3, (LfgProposal_new 7)\<lparr>pr_players := [(2, LfgProposalPlayer_new)]\<rparr>)]\<rparr>"

theorem newest_offer_only_witness:
  "\<exists>m'. offer_proposals (\<lambda>_ _. None) sample_world (dropWhile (\<lambda>x. fst x \<noteq> 3) (ProposalsStore sample_offered)) sample_offered = Some m' \<and>
     GetState 1 m' = LFG_STATE_NONE"
proof -
  have "\<not> IS_GROUP_GUID 1" "GetState 1 sample_offered = LFG_STATE_NONE"
    by (simp_all add: IS_GROUP_GUID_def GUID_HIPART_def GetState_def sample_offered_def LFGMgr_new_def LfgPlayerData_new_def)
  then show ?thesis
    using newest_offer_only [of sample_offered "(LfgProposal_new 7)\<lparr>pr_players := [(2, LfgProposalPlayer_new)]\<rparr>" 1 "\<lambda>_ _. None" sample_world]
    by (simp add: sample_offered_def LFGMgr_new_def om_ok_def LfgProposal_new_def LfgPlayerData_new_def)
qed

end
