(* ===== verification/GroupData.thy ===== *)
theory GroupData
  imports LfgInvariant "HOL-Library.Monad_Syntax"
begin

text \<open>
  The data of \<open>game/Groups/Group.h\<close> and the operations of \<open>Group.cpp\<close> that read or write one group
  object alone: member slots, subgroup counters, flags and roles, the ready check, target icons, world
  markers. A write outside the array of subgroup counters is \<open>None\<close>.
\<close>

subsection \<open>Enumerations\<close>

definition MAXRAIDSIZE :: nat where "MAXRAIDSIZE = 40"
definition MAX_RAID_SUBGROUPS :: nat where "MAX_RAID_SUBGROUPS = MAXRAIDSIZE div MAXGROUPSIZE"
definition TARGETICONCOUNT :: nat where "TARGETICONCOUNT = 8"
definition WORLD_MARKER_COUNT :: nat where "WORLD_MARKER_COUNT = 5"

lemmas group_sizes = MAXRAIDSIZE_def MAX_RAID_SUBGROUPS_def MAXGROUPSIZE_def TARGETICONCOUNT_def WORLD_MARKER_COUNT_def

lemma raid_subgroups [simp]: "MAX_RAID_SUBGROUPS = 8"
  by (simp add: group_sizes)

datatype RollVote = PASS | NEED | GREED | DISENCHANT | NOT_EMITED_YET | NOT_VALID

definition MEMBER_FLAG_ASSISTANT :: u8 where "MEMBER_FLAG_ASSISTANT = 0x01"
definition MEMBER_FLAG_MAINTANK :: u8 where "MEMBER_FLAG_MAINTANK = 0x02"
definition MEMBER_FLAG_MAINASSIST :: u8 where "MEMBER_FLAG_MAINASSIST = 0x04"

lemmas member_flag_defs = MEMBER_FLAG_ASSISTANT_def MEMBER_FLAG_MAINTANK_def MEMBER_FLAG_MAINASSIST_def

definition GROUPTYPE_NORMAL :: u8 where "GROUPTYPE_NORMAL = 0x00"
definition GROUPTYPE_BG :: u8 where "GROUPTYPE_BG = 0x01"
definition GROUPTYPE_RAID :: u8 where "GROUPTYPE_RAID = 0x02"
definition GROUPTYPE_BGRAID :: u8 where "GROUPTYPE_BGRAID = GROUPTYPE_BG OR GROUPTYPE_RAID"
definition GROUPTYPE_UNK1 :: u8 where "GROUPTYPE_UNK1 = 0x04"
definition GROUPTYPE_LFG :: u8 where "GROUPTYPE_LFG = 0x08"

lemmas group_type_defs = GROUPTYPE_NORMAL_def GROUPTYPE_BG_def GROUPTYPE_RAID_def GROUPTYPE_BGRAID_def
  GROUPTYPE_UNK1_def GROUPTYPE_LFG_def

definition FREE_FOR_ALL :: u8 where "FREE_FOR_ALL = 0"
definition ROUND_ROBIN :: u8 where "ROUND_ROBIN = 1"
definition MASTER_LOOT :: u8 where "MASTER_LOOT = 2"
definition GROUP_LOOT :: u8 where "GROUP_LOOT = 3"
definition NEED_BEFORE_GREED :: u8 where "NEED_BEFORE_GREED = 4"

definition ITEM_QUALITY_UNCOMMON :: u8 where "ITEM_QUALITY_UNCOMMON = 2"

definition DUNGEON_DIFFICULTY_NORMAL :: u8 where "DUNGEON_DIFFICULTY_NORMAL = 1"
definition RAID_DIFFICULTY_10MAN_NORMAL :: u8 where "RAID_DIFFICULTY_10MAN_NORMAL = 3"
definition MAX_DUNGEON_DIFFICULTY :: u8 where "MAX_DUNGEON_DIFFICULTY = 8 + 1"
definition MAX_RAID_DIFFICULTY :: u8 where "MAX_RAID_DIFFICULTY = 9 + 1"

definition HIGHGUID_PLAYER :: u32 where "HIGHGUID_PLAYER = 0x000"
definition HIGHGUID_GROUP :: u32 where "HIGHGUID_GROUP = 0x1F5"
definition HIGHGUID_ITEM :: u32 where "HIGHGUID_ITEM = 0x400"

definition MAKE_NEW_GUID :: "u32 \<Rightarrow> u32 \<Rightarrow> u32 \<Rightarrow> u64" where
  "MAKE_NEW_GUID l e h =
    ucast l OR push_bit 32 (ucast e) OR push_bit (if h = 0xF102 \<or> h = 0xF0C0 then 48 else 52) (ucast h)"

definition GUID_LOPART :: "u64 \<Rightarrow> u32" where "GUID_LOPART x = ucast (x AND 0xFFFFFFFF)"

subsection \<open>Members, rolls and the group\<close>

record MemberSlot =
  ms_guid :: u64
  ms_name :: string
  ms_group :: u8
  ms_flags :: u8
  ms_roles :: u8
  ms_responded :: bool

text \<open>A roll refers to its loot by the address of the loot, \<open>None\<close> once the loot has been cleared.\<close>

record Roll =
  r_itemGUID :: u64
  r_itemid :: u32
  r_itemRandomPropId :: u32
  r_itemRandomSuffix :: u32
  r_itemCount :: u8
  r_playerVote :: "(u64 \<times> RollVote) list"
  r_totalPlayersRolling :: u8
  r_totalNeed :: u8
  r_totalGreed :: u8
  r_totalPass :: u8
  r_itemSlot :: u8
  r_rollVoteMask :: u8
  r_loot :: "nat option"

text \<open>The two references of a player to groups: the group he is in, and the one he left for a battleground.\<close>

datatype GroupRefKind = CurrentRef | OriginalRef

text \<open>\<open>Position\<close> and map of a world marker, the floats as bit patterns.\<close>

type_synonym WorldMarker = "(u32 \<times> u32 \<times> u32 \<times> u32) \<times> u32"

text \<open>
  \<open>m_memberMgr\<close> is the list of the references linked to the group, the newest first. Pointers to
  battlegrounds and battlefields are addresses.
\<close>

record Group =
  m_memberSlots :: "MemberSlot list"
  m_memberMgr :: "(u64 \<times> GroupRefKind) list"
  m_invitees :: "u64 list"
  m_leaderGuid :: u64
  m_leaderName :: string
  m_groupType :: u8
  m_dungeonDifficulty :: u8
  m_raidDifficulty :: u8
  m_bgGroup :: "nat option"
  m_bfGroup :: "nat option"
  m_targetIcons :: "u64 list"
  m_lootMethod :: u8
  m_lootThreshold :: u8
  m_looterGuid :: u64
  RollId :: "Roll list"
  m_subGroupsCounts :: "u8 list option"
  m_guid :: u64
  m_counter :: u32
  m_maxEnchantingLevel :: u32
  m_dbStoreId :: u32
  readyCheckInProgress :: bool
  m_worldMarkers :: "(u8 \<times> WorldMarker option) list"

definition Group_new :: Group where
  "Group_new = \<lparr>m_memberSlots = [], m_memberMgr = [], m_invitees = [], m_leaderGuid = 0, m_leaderName = [],
     m_groupType = GROUPTYPE_NORMAL, m_dungeonDifficulty = DUNGEON_DIFFICULTY_NORMAL,
     m_raidDifficulty = RAID_DIFFICULTY_10MAN_NORMAL, m_bgGroup = None, m_bfGroup = None,
     m_targetIcons = replicate TARGETICONCOUNT 0, m_lootMethod = FREE_FOR_ALL, m_lootThreshold = ITEM_QUALITY_UNCOMMON,
     m_looterGuid = 0, RollId = [], m_subGroupsCounts = None, m_guid = 0, m_counter = 0, m_maxEnchantingLevel = 0,
     m_dbStoreId = 0, readyCheckInProgress = False,
     m_worldMarkers = map (\<lambda>i. (of_nat i, None)) [0..<WORLD_MARKER_COUNT]\<rparr>"

subsection \<open>Accessors\<close>

definition isLFGGroup :: "Group \<Rightarrow> bool" where "isLFGGroup g \<longleftrightarrow> m_groupType g AND GROUPTYPE_LFG \<noteq> 0"
definition isRaidGroup :: "Group \<Rightarrow> bool" where "isRaidGroup g \<longleftrightarrow> m_groupType g AND GROUPTYPE_RAID \<noteq> 0"
definition isBGGroup :: "Group \<Rightarrow> bool" where "isBGGroup g \<longleftrightarrow> m_bgGroup g \<noteq> None"
definition isBFGroup :: "Group \<Rightarrow> bool" where "isBFGroup g \<longleftrightarrow> m_bfGroup g \<noteq> None"

definition GetMembersCount :: "Group \<Rightarrow> nat" where "GetMembersCount g = length (m_memberSlots g)"

definition IsCreated :: "Group \<Rightarrow> bool" where "IsCreated g \<longleftrightarrow> 0 < GetMembersCount g"

definition IsFull :: "Group \<Rightarrow> bool" where
  "IsFull g \<longleftrightarrow> (if isRaidGroup g then length (m_memberSlots g) \<ge> MAXRAIDSIZE
                      else length (m_memberSlots g) \<ge> MAXGROUPSIZE)"

text \<open>\<open>_getMemberCSlot\<close> and \<open>_getMemberWSlot\<close>: the first slot of the player.\<close>

fun find_slot :: "u64 \<Rightarrow> MemberSlot list \<Rightarrow> MemberSlot option" where
  "find_slot guid [] = None"
| "find_slot guid (s # ss) = (if ms_guid s = guid then Some s else find_slot guid ss)"

definition getMemberSlot :: "u64 \<Rightarrow> Group \<Rightarrow> MemberSlot option" where
  "getMemberSlot guid g = find_slot guid (m_memberSlots g)"

text \<open>A write through the iterator that \<open>_getMemberWSlot\<close> returns, and an erasure through it.\<close>

fun write_slot :: "u64 \<Rightarrow> (MemberSlot \<Rightarrow> MemberSlot) \<Rightarrow> MemberSlot list \<Rightarrow> MemberSlot list" where
  "write_slot guid f [] = []"
| "write_slot guid f (s # ss) = (if ms_guid s = guid then f s # ss else s # write_slot guid f ss)"

fun erase_slot :: "u64 \<Rightarrow> MemberSlot list \<Rightarrow> MemberSlot list" where
  "erase_slot guid [] = []"
| "erase_slot guid (s # ss) = (if ms_guid s = guid then ss else s # erase_slot guid ss)"

definition at_slot :: "u64 \<Rightarrow> (MemberSlot \<Rightarrow> MemberSlot) \<Rightarrow> Group \<Rightarrow> Group" where
  "at_slot guid f g = g\<lparr>m_memberSlots := write_slot guid f (m_memberSlots g)\<rparr>"

definition IsMember :: "u64 \<Rightarrow> Group \<Rightarrow> bool" where
  "IsMember guid g \<longleftrightarrow> getMemberSlot guid g \<noteq> None"

definition IsLeader :: "u64 \<Rightarrow> Group \<Rightarrow> bool" where
  "IsLeader guid g \<longleftrightarrow> m_leaderGuid g = guid"

fun GetMemberGUID :: "string \<Rightarrow> MemberSlot list \<Rightarrow> u64" where
  "GetMemberGUID name [] = 0"
| "GetMemberGUID name (s # ss) = (if ms_name s = name then ms_guid s else GetMemberGUID name ss)"

definition IsAssistant :: "u64 \<Rightarrow> Group \<Rightarrow> bool" where
  "IsAssistant guid g =
    (case getMemberSlot guid g of None \<Rightarrow> False | Some s \<Rightarrow> ms_flags s AND MEMBER_FLAG_ASSISTANT \<noteq> 0)"

definition SameSubGroup :: "u64 \<Rightarrow> u64 \<Rightarrow> Group \<Rightarrow> bool" where
  "SameSubGroup guid1 guid2 g =
    (case getMemberSlot guid2 g of None \<Rightarrow> False
     | Some s2 \<Rightarrow> (case getMemberSlot guid1 g of None \<Rightarrow> False | Some s1 \<Rightarrow> ms_group s1 = ms_group s2))"

definition GetMemberGroup :: "u64 \<Rightarrow> Group \<Rightarrow> u8" where
  "GetMemberGroup guid g =
    (case getMemberSlot guid g of None \<Rightarrow> of_nat (MAX_RAID_SUBGROUPS + 1) | Some s \<Rightarrow> ms_group s)"

text \<open>The counters are only read for a subgroup that exists.\<close>

definition HasFreeSlotSubGroup :: "u8 \<Rightarrow> Group \<Rightarrow> bool" where
  "HasFreeSlotSubGroup subgroup g =
    (case m_subGroupsCounts g of None \<Rightarrow> False | Some cs \<Rightarrow> unat (cs ! unat subgroup) < MAXGROUPSIZE)"

definition GetDifficulty :: "bool \<Rightarrow> Group \<Rightarrow> u8" where
  "GetDifficulty isRaid g = (if isRaid then m_raidDifficulty g else m_dungeonDifficulty g)"

definition isRollLootActive :: "Group \<Rightarrow> bool" where "isRollLootActive g \<longleftrightarrow> RollId g \<noteq> []"

subsection \<open>Setters\<close>

definition SetLootMethod :: "u8 \<Rightarrow> Group \<Rightarrow> Group" where "SetLootMethod lm g = g\<lparr>m_lootMethod := lm\<rparr>"
definition SetLooterGuid :: "u64 \<Rightarrow> Group \<Rightarrow> Group" where "SetLooterGuid guid g = g\<lparr>m_looterGuid := guid\<rparr>"
definition SetLootThreshold :: "u8 \<Rightarrow> Group \<Rightarrow> Group" where "SetLootThreshold t g = g\<lparr>m_lootThreshold := t\<rparr>"
definition SetBattlegroundGroup :: "nat option \<Rightarrow> Group \<Rightarrow> Group" where "SetBattlegroundGroup bg g = g\<lparr>m_bgGroup := bg\<rparr>"
definition SetBattlefieldGroup :: "nat option \<Rightarrow> Group \<Rightarrow> Group" where "SetBattlefieldGroup bf g = g\<lparr>m_bfGroup := bf\<rparr>"

subsection \<open>Subgroup counters\<close>

definition bump :: "u8 \<Rightarrow> u8 \<Rightarrow> u8 list \<Rightarrow> u8 list option" where
  "bump d subgroup cs = (if unat subgroup < length cs then Some (cs[unat subgroup := cs ! unat subgroup + d]) else None)"

definition SubGroupCounterIncrease :: "u8 \<Rightarrow> Group \<Rightarrow> Group option" where
  "SubGroupCounterIncrease subgroup g =
    (case m_subGroupsCounts g of None \<Rightarrow> Some g
     | Some cs \<Rightarrow> map_option (\<lambda>cs. g\<lparr>m_subGroupsCounts := Some cs\<rparr>) (bump 1 subgroup cs))"

definition SubGroupCounterDecrease :: "u8 \<Rightarrow> Group \<Rightarrow> Group option" where
  "SubGroupCounterDecrease subgroup g =
    (case m_subGroupsCounts g of None \<Rightarrow> Some g
     | Some cs \<Rightarrow> map_option (\<lambda>cs. g\<lparr>m_subGroupsCounts := Some cs\<rparr>) (bump (- 1) subgroup cs))"

fun count_slots :: "MemberSlot list \<Rightarrow> u8 list \<Rightarrow> u8 list option" where
  "count_slots [] cs = Some cs"
| "count_slots (s # ss) cs = (case bump 1 (ms_group s) cs of None \<Rightarrow> None | Some cs \<Rightarrow> count_slots ss cs)"

definition initRaidSubGroupsCounter :: "Group \<Rightarrow> Group option" where
  "initRaidSubGroupsCounter g =
    map_option (\<lambda>cs. g\<lparr>m_subGroupsCounts := Some cs\<rparr>) (count_slots (m_memberSlots g) (replicate MAX_RAID_SUBGROUPS 0))"

text \<open>The first subgroup with room, \<open>subGroup = 0\<close> in a group without counters.\<close>

fun free_subgroup :: "nat \<Rightarrow> u8 list \<Rightarrow> nat option" where
  "free_subgroup i [] = None"
| "free_subgroup i (c # cs) = (if unat c < MAXGROUPSIZE then Some i else free_subgroup (Suc i) cs)"

definition choose_subgroup :: "Group \<Rightarrow> u8 option" where
  "choose_subgroup g =
    (case m_subGroupsCounts g of None \<Rightarrow> Some 0
     | Some cs \<Rightarrow> map_option of_nat (free_subgroup 0 (take MAX_RAID_SUBGROUPS cs)))"

subsection \<open>Flags, roles and the ready check\<close>

definition ToggleFlag :: "u8 \<Rightarrow> bool \<Rightarrow> MemberSlot \<Rightarrow> MemberSlot" where
  "ToggleFlag flag apply_flag s =
    s\<lparr>ms_flags := (if apply_flag then ms_flags s OR flag else ms_flags s AND NOT flag)\<rparr>"

definition RemoveUniqueGroupMemberFlag :: "u8 \<Rightarrow> Group \<Rightarrow> Group" where
  "RemoveUniqueGroupMemberFlag flag g =
    g\<lparr>m_memberSlots := map (\<lambda>s. if ms_flags s AND flag \<noteq> 0 then s\<lparr>ms_flags := ms_flags s AND NOT flag\<rparr> else s) (m_memberSlots g)\<rparr>"

definition GetMemberRole :: "u64 \<Rightarrow> Group \<Rightarrow> u32" where
  "GetMemberRole guid g = (case getMemberSlot guid g of None \<Rightarrow> 0 | Some s \<Rightarrow> ucast (ms_roles s))"

definition ReadyCheckMemberHasResponded :: "u64 \<Rightarrow> Group \<Rightarrow> Group" where
  "ReadyCheckMemberHasResponded guid g = at_slot guid (\<lambda>s. s\<lparr>ms_responded := True\<rparr>) g"

definition ReadyCheckResetResponded :: "Group \<Rightarrow> Group" where
  "ReadyCheckResetResponded g = g\<lparr>m_memberSlots := map (\<lambda>s. s\<lparr>ms_responded := False\<rparr>) (m_memberSlots g)\<rparr>"

definition ReadyCheckAllResponded :: "Group \<Rightarrow> bool" where
  "ReadyCheckAllResponded g = list_all ms_responded (m_memberSlots g)"

subsection \<open>Target icons and world markers\<close>

text \<open>
  \<open>SetTargetIcon\<close> calls itself with an empty target for every icon on the target, then stores. The
  list holds the updates in the order in which they are broadcast: icon and target.
\<close>

definition put_icon :: "u8 \<Rightarrow> u64 \<Rightarrow> u64 list \<times> (u8 \<times> u64) list \<Rightarrow> u64 list \<times> (u8 \<times> u64) list" where
  "put_icon iconID target st = (case st of (icons, out) \<Rightarrow> (icons[unat iconID := target], out @ [(iconID, target)]))"

fun clear_icons :: "nat \<Rightarrow> u64 \<Rightarrow> u64 list \<times> (u8 \<times> u64) list \<Rightarrow> u64 list \<times> (u8 \<times> u64) list" where
  "clear_icons 0 target st = st"
| "clear_icons (Suc n) target st =
    (let i = TARGETICONCOUNT - Suc n;
         st = (if fst st ! i = target then put_icon (of_nat i) 0 st else st)
     in clear_icons n target st)"

definition SetTargetIcon :: "u8 \<Rightarrow> u64 \<Rightarrow> Group \<Rightarrow> Group \<times> (u8 \<times> u64) list" where
  "SetTargetIcon iconID target g =
    (if unat iconID \<ge> TARGETICONCOUNT then (g, [])
     else let st = (m_targetIcons g, []);
              st = (if target \<noteq> 0 then clear_icons TARGETICONCOUNT target st else st);
              st = put_icon iconID target st
          in (g\<lparr>m_targetIcons := fst st\<rparr>, snd st))"

text \<open>The icons in use, as \<open>SendTargetIconList\<close> lists them.\<close>

definition SendTargetIconList :: "Group \<Rightarrow> (u8 \<times> u64) list" where
  "SendTargetIconList g =
    map (\<lambda>i. (of_nat i, m_targetIcons g ! i)) (filter (\<lambda>i. m_targetIcons g ! i \<noteq> 0) [0..<TARGETICONCOUNT])"

text \<open>\<open>operator[]\<close> on the marker map creates an empty entry; \<open>SetWorldMarker\<close> asserts its slot.\<close>

definition SetWorldMarker :: "u8 \<Rightarrow> WorldMarker \<Rightarrow> Group \<Rightarrow> Group option" where
  "SetWorldMarker slot marker g =
    (if unat slot < WORLD_MARKER_COUNT
     then Some (g\<lparr>m_worldMarkers := om_put slot (Some marker) (m_worldMarkers g)\<rparr>) else None)"

definition ClearWorldMarker :: "u8 \<Rightarrow> Group \<Rightarrow> Group \<times> bool" where
  "ClearWorldMarker slot g =
    (if unat slot = WORLD_MARKER_COUNT
     then (g\<lparr>m_worldMarkers := fold (\<lambda>i m. om_put (of_nat i) None m) [0..<WORLD_MARKER_COUNT] (m_worldMarkers g)\<rparr>, True)
     else (g\<lparr>m_worldMarkers := om_put slot None (m_worldMarkers g)\<rparr>, om_at None (m_worldMarkers g) slot \<noteq> None))"

text \<open>What \<open>SendWorldMarkerUpdate\<close> sends: the count of three bits, the mask, and the markers.\<close>

definition SendWorldMarkerUpdate :: "Group \<Rightarrow> u8 \<times> u32 \<times> WorldMarker list" where
  "SendWorldMarkerUpdate g =
    (let at = (\<lambda>i. om_at None (m_worldMarkers g) (of_nat i))
     in (of_nat (length (filter (\<lambda>x. snd x \<noteq> None) (m_worldMarkers g))),
         fold (\<lambda>i mask. if at i \<noteq> None then mask OR push_bit i 1 else mask) [0..<WORLD_MARKER_COUNT] 0,
         map (\<lambda>i. the (at i)) (filter (\<lambda>i. at i \<noteq> None) [0..<WORLD_MARKER_COUNT])))"

end
