(* ===== verification/GroupWorld.thy ===== *)
theory GroupWorld
  imports GroupData
begin

text \<open>
  The state that the operations of groups share: the player and group objects in memory, the references
  between them (\<open>GroupReference\<close>, \<open>Reference\<close>, \<open>RefManager\<close>), loot, \<open>GroupMgr\<close>, the dungeon finder, and what
  was sent to players or written to the data base. A group object is named by its address; an access to
  an object that is not there, and a failed \<open>ASSERT\<close>, is \<open>None\<close>.
\<close>

subsection \<open>State\<close>

record GPlayer =
  gp_name :: string
  gp_inWorld :: bool
  gp_level :: u8
  gp_enchanting :: u16
  gp_group :: "nat option"
  gp_subGroup :: u8
  gp_originalGroup :: "nat option"
  gp_originalSubGroup :: u8
  gp_groupInvite :: "nat option"
  gp_leaderFlag :: bool
  gp_dungeonDifficulty :: u8
  gp_raidDifficulty :: u8
  gp_passOnGroupLoot :: bool
  gp_readyCheckTimer :: u32

record LootItem =
  li_itemid :: u32
  li_randomSuffix :: u32
  li_randomPropertyId :: u32
  li_count :: u8
  li_is_looted :: bool
  li_is_blocked :: bool
  li_freeforall :: bool
  li_is_underthreshold :: bool
  li_follow_loot_rules :: bool

text \<open>The loot, with the timer and the group number of the creature or chest it lies in.\<close>

record Loot =
  lt_items :: "LootItem list"
  lt_quest_items :: "LootItem list"
  lt_unlootedCount :: u8
  lt_PlayersLooting :: "u64 list"
  lt_groupLootTimer :: u32
  lt_lootingGroup :: u32

text \<open>The statements prepared by \<open>CharacterDatabase\<close> that the groups execute, with their arguments.\<close>

datatype GroupSql =
    INS_GROUP u32 u32 u8 u32 u8 "u32 list" u8 u8 u8
  | INS_GROUP_MEMBER u32 u32 u8 u8 u8
  | DEL_GROUP_MEMBER u32
  | UPD_GROUP_LEADER u32 u32
  | UPD_GROUP_TYPE u8 u32
  | UPD_GROUP_MEMBER_SUBGROUP u8 u32
  | UPD_GROUP_MEMBER_FLAG u8 u32
  | UPD_GROUP_DIFFICULTY u8 u32
  | UPD_GROUP_RAID_DIFFICULTY u8 u32
  | UPD_GROUP_ROLE u8 u32
  | DEL_GROUP u32
  | DEL_GROUP_MEMBER_ALL u32
  | DEL_LFG_DATA u32
  | INS_LFG_DATA u32 u32 u8

datatype PartyResult =
    ERR_PARTY_RESULT_OK | ERR_BAD_PLAYER_NAME_S | ERR_TARGET_NOT_IN_GROUP_S | ERR_TARGET_NOT_IN_INSTANCE_S
  | ERR_GROUP_FULL | ERR_ALREADY_IN_GROUP_S | ERR_NOT_IN_GROUP | ERR_NOT_LEADER | ERR_PLAYER_WRONG_FACTION
  | ERR_IGNORING_YOU_S | ERR_INVITE_RESTRICTED | ERR_PARTY_LFG_BOOT_LIMIT | ERR_PARTY_LFG_BOOT_IN_PROGRESS
  | ERR_PARTY_LFG_BOOT_TOO_FEW_PLAYERS | ERR_PARTY_LFG_BOOT_IN_COMBAT | ERR_PARTY_LFG_BOOT_DUNGEON_COMPLETE
  | ERR_PARTY_LFG_BOOT_LOOT_ROLLS

text \<open>
  What a player is sent or given: a packet by its opcode and the values it carries (the group list by the
  group at that moment), an item, the loot of a disenchanted item.
\<close>

datatype GroupMsg =
    GroupList Group bool
  | GroupDestroyed
  | GroupUninvite
  | GroupSetLeader string
  | GroupInviteMsg string bool
  | GroupDecline string
  | PartyCommandResult string PartyResult
  | GroupSetRole u64 u64 u32 u32
  | DungeonDifficultyMsg u8
  | RaidDifficultyMsg u8
  | TargetIcons "(u8 \<times> u64) list"
  | TargetUpdate u8 u64 u64
  | WorldMarkers "u8 \<times> u32 \<times> WorldMarker list"
  | ReadyCheckStarted u64 u64 u32
  | ReadyCheckConfirm u64 u64 bool
  | ReadyCheckCompleted u64
  | LootStartRoll u32 u32 u8 Roll
  | LootRoll u64 u64 u8 u8 Roll
  | LootRollWon u64 u64 u8 u8 Roll
  | LootAllPassed Roll
  | LootMasterList "u64 list"
  | LootItemRemoved u8
  | EquipError u32
  | StoredItem u32 u32
  | DisenchantedItem u32
  | LfgCooldown
  | LfgTeleportError u8
  | TeleportTo u32 "u32 \<times> u32 \<times> u32 \<times> u32"
  | TeleportToBGEntryPoint


record GroupWorld =
  gw_players :: "u64 \<Rightarrow> GPlayer option"
  gw_groups :: "nat \<Rightarrow> Group option"
  gw_next :: nat
  NextGroupId :: u32
  NextGroupDbStoreId :: u32
  GroupStore :: "(u32 \<times> nat) list"
  GroupDbStore :: "nat option list"
  gw_lfg :: LFGMgr
  gw_loots :: "nat \<Rightarrow> Loot option"
  gw_draws :: nat
  gw_hiItemGuid :: u32
  gw_sql :: "GroupSql list"
  gw_sent :: "(u64 \<times> GroupMsg) list"

text \<open>
  Facts from the rest of the server: the world of the dungeon finder, the content of memory that
  \<open>AddMember\<close> leaves uninitialised, the random numbers, the item templates, whether a player can store
  an item, and whether he is alive and on which map.
\<close>

record item_template =
  it_Quality :: u32
  it_DisenchantID :: u32
  it_RequiredDisenchantSkill :: u32
  it_Flags2 :: u32

record group_env =
  ge_lfg :: lfg_world
  ge_junk :: bool
  ge_urand :: "nat \<Rightarrow> u8"
  ge_item :: "u32 \<Rightarrow> item_template option"
  ge_canStore :: "u64 \<Rightarrow> u32 \<Rightarrow> u8 \<Rightarrow> bool"
  ge_alive :: "u64 \<Rightarrow> bool"
  ge_map :: "u64 \<Rightarrow> u32"

subsection \<open>Access\<close>

text \<open>\<open>ObjectAccessor::FindPlayer\<close> only finds players who are in the world.\<close>

definition FindPlayer :: "u64 \<Rightarrow> GroupWorld \<Rightarrow> GPlayer option" where
  "FindPlayer guid w =
    (case gw_players w guid of None \<Rightarrow> None | Some p \<Rightarrow> if gp_inWorld p then Some p else None)"

definition at_player :: "u64 \<Rightarrow> (GPlayer \<Rightarrow> GPlayer) \<Rightarrow> GroupWorld \<Rightarrow> GroupWorld" where
  "at_player guid f w = w\<lparr>gw_players := (gw_players w)(guid := map_option f (gw_players w guid))\<rparr>"

definition at_group :: "nat \<Rightarrow> (Group \<Rightarrow> Group) \<Rightarrow> GroupWorld \<Rightarrow> GroupWorld" where
  "at_group h f w = w\<lparr>gw_groups := (gw_groups w)(h := map_option f (gw_groups w h))\<rparr>"

definition put_group :: "nat \<Rightarrow> Group \<Rightarrow> GroupWorld \<Rightarrow> GroupWorld" where
  "put_group h g w = w\<lparr>gw_groups := (gw_groups w)(h \<mapsto> g)\<rparr>"

definition send_to :: "u64 \<Rightarrow> GroupMsg \<Rightarrow> GroupWorld \<Rightarrow> GroupWorld" where
  "send_to guid m w = w\<lparr>gw_sent := gw_sent w @ [(guid, m)]\<rparr>"

definition sql :: "GroupSql \<Rightarrow> GroupWorld \<Rightarrow> GroupWorld" where
  "sql s w = w\<lparr>gw_sql := gw_sql w @ [s]\<rparr>"

definition on_lfg :: "(LFGMgr \<Rightarrow> LFGMgr) \<Rightarrow> GroupWorld \<Rightarrow> GroupWorld" where
  "on_lfg f w = w\<lparr>gw_lfg := f (gw_lfg w)\<rparr>"

lemma world_frame [simp]:
  "gw_players (send_to guid m w) = gw_players w" "gw_groups (send_to guid m w) = gw_groups w"
  "gw_lfg (send_to guid m w) = gw_lfg w" "gw_sql (send_to guid m w) = gw_sql w" "gw_loots (send_to guid m w) = gw_loots w"
  "gw_players (sql s w) = gw_players w" "gw_groups (sql s w) = gw_groups w" "gw_lfg (sql s w) = gw_lfg w"
  "gw_sql (sql s w) = gw_sql w @ [s]" "gw_loots (sql s w) = gw_loots w"
  "gw_players (on_lfg f w) = gw_players w" "gw_groups (on_lfg f w) = gw_groups w" "gw_lfg (on_lfg f w) = f (gw_lfg w)"
  "gw_sql (on_lfg f w) = gw_sql w" "gw_loots (on_lfg f w) = gw_loots w"
  "gw_groups (at_player p u w) = gw_groups w" "gw_lfg (at_player p u w) = gw_lfg w" "gw_sql (at_player p u w) = gw_sql w"
  "gw_players (at_group h k w) = gw_players w" "gw_lfg (at_group h k w) = gw_lfg w" "gw_sql (at_group h k w) = gw_sql w"
  "gw_players (put_group h g w) = gw_players w" "gw_lfg (put_group h g w) = gw_lfg w" "gw_sql (put_group h g w) = gw_sql w"
  "gw_groups (put_group h g w) x = (if x = h then Some g else gw_groups w x)"
  "gw_groups (at_group h k w) x = (if x = h then map_option k (gw_groups w h) else gw_groups w x)"
  "gw_players (at_player p u w) q = (if q = p then map_option u (gw_players w p) else gw_players w q)"
  by (simp_all add: send_to_def sql_def on_lfg_def at_player_def at_group_def put_group_def)

lemma FindPlayer_frame [simp]:
  "FindPlayer p (send_to guid m w) = FindPlayer p w" "FindPlayer p (sql s w) = FindPlayer p w"
  "FindPlayer p (on_lfg f w) = FindPlayer p w" "FindPlayer p (at_group h k w) = FindPlayer p w"
  "FindPlayer p (put_group h g w) = FindPlayer p w"
  by (simp_all add: FindPlayer_def)

subsection \<open>References between players and groups\<close>

definition ref_target :: "GroupRefKind \<Rightarrow> GPlayer \<Rightarrow> nat option" where
  "ref_target k p = (case k of CurrentRef \<Rightarrow> gp_group p | OriginalRef \<Rightarrow> gp_originalGroup p)"

definition set_target :: "GroupRefKind \<Rightarrow> nat option \<Rightarrow> GPlayer \<Rightarrow> GPlayer" where
  "set_target k t p = (case k of CurrentRef \<Rightarrow> p\<lparr>gp_group := t\<rparr> | OriginalRef \<Rightarrow> p\<lparr>gp_originalGroup := t\<rparr>)"

definition set_subgroup :: "GroupRefKind \<Rightarrow> u8 \<Rightarrow> GPlayer \<Rightarrow> GPlayer" where
  "set_subgroup k s p = (case k of CurrentRef \<Rightarrow> p\<lparr>gp_subGroup := s\<rparr> | OriginalRef \<Rightarrow> p\<lparr>gp_originalSubGroup := s\<rparr>)"

text \<open>\<open>Reference::unlink\<close>: out of the list of the group, no target any more. The subgroup stays.\<close>

definition unlink :: "u64 \<Rightarrow> GroupRefKind \<Rightarrow> GroupWorld \<Rightarrow> GroupWorld" where
  "unlink guid k w =
    (case gw_players w guid of None \<Rightarrow> w
     | Some p \<Rightarrow> (case ref_target k p of None \<Rightarrow> w
       | Some h \<Rightarrow> at_player guid (set_target k None)
           (at_group h (\<lambda>g. g\<lparr>m_memberMgr := filter (\<lambda>x. x \<noteq> (guid, k)) (m_memberMgr g)\<rparr>) w)))"

text \<open>\<open>Reference::link\<close>, whose \<open>targetObjectBuildLink\<close> is \<open>Group::LinkMember\<close>: the reference goes first.\<close>

definition LinkMember :: "(u64 \<times> GroupRefKind) \<Rightarrow> Group \<Rightarrow> Group" where
  "LinkMember r g = g\<lparr>m_memberMgr := r # m_memberMgr g\<rparr>"

definition link_ref :: "u64 \<Rightarrow> GroupRefKind \<Rightarrow> nat \<Rightarrow> GroupWorld \<Rightarrow> GroupWorld option" where
  "link_ref guid k h w =
    (let w = unlink guid k w
     in if gw_groups w h = None \<or> gw_players w guid = None then None
        else Some (at_group h (LinkMember (guid, k)) (at_player guid (set_target k (Some h)) w)))"

text \<open>\<open>Player::SetGroup\<close> and \<open>Player::SetOriginalGroup\<close>; the subgroup is a signed byte that may not be negative.\<close>

definition set_ref :: "u64 \<Rightarrow> GroupRefKind \<Rightarrow> (nat \<times> u8) option \<Rightarrow> GroupWorld \<Rightarrow> GroupWorld option" where
  "set_ref guid k t w =
    (case t of None \<Rightarrow> Some (unlink guid k w)
     | Some (h, subgroup) \<Rightarrow>
         if 128 \<le> subgroup then None
         else map_option (at_player guid (set_subgroup k subgroup)) (link_ref guid k h w))"

definition Player_SetGroup :: "u64 \<Rightarrow> (nat \<times> u8) option \<Rightarrow> GroupWorld \<Rightarrow> GroupWorld option" where
  "Player_SetGroup guid t w = set_ref guid CurrentRef t w"

definition Player_SetOriginalGroup :: "u64 \<Rightarrow> (nat \<times> u8) option \<Rightarrow> GroupWorld \<Rightarrow> GroupWorld option" where
  "Player_SetOriginalGroup guid t w = set_ref guid OriginalRef t w"

definition SetBattlegroundOrBattlefieldRaid :: "u64 \<Rightarrow> nat \<Rightarrow> u8 \<Rightarrow> GroupWorld \<Rightarrow> GroupWorld option" where
  "SetBattlegroundOrBattlefieldRaid guid h subgroup w =
    do { p \<leftarrow> gw_players w guid;
         w \<leftarrow> Player_SetOriginalGroup guid (map_option (\<lambda>h. (h, gp_subGroup p)) (gp_group p)) w;
         w \<leftarrow> link_ref guid CurrentRef h (unlink guid CurrentRef w);
         Some (at_player guid (set_subgroup CurrentRef subgroup) w) }"

definition RemoveFromBattlegroundOrBattlefieldRaid :: "u64 \<Rightarrow> GroupWorld \<Rightarrow> GroupWorld option" where
  "RemoveFromBattlegroundOrBattlefieldRaid guid w =
    do { p \<leftarrow> gw_players w guid;
         let w = unlink guid CurrentRef w;
         w \<leftarrow> (case gp_originalGroup p of None \<Rightarrow> Some w
               | Some h \<Rightarrow> map_option (at_player guid (set_subgroup CurrentRef (gp_originalSubGroup p)))
                             (link_ref guid CurrentRef h w));
         Player_SetOriginalGroup guid None w }"

text \<open>\<open>Group::DelinkMember\<close>: the first reference of the player in the list.\<close>

definition DelinkMember :: "nat \<Rightarrow> u64 \<Rightarrow> GroupWorld \<Rightarrow> GroupWorld" where
  "DelinkMember h guid w =
    (case gw_groups w h of None \<Rightarrow> w
     | Some g \<Rightarrow> (case find (\<lambda>x. fst x = guid) (m_memberMgr g) of None \<Rightarrow> w | Some (_, k) \<Rightarrow> unlink guid k w))"

text \<open>
  \<open>delete\<close> of a group: the manager of its references invalidates them all. The invitations are plain
  pointers and stay.
\<close>

definition invalidate :: "(u64 \<times> GroupRefKind) \<Rightarrow> GroupWorld \<Rightarrow> GroupWorld" where
  "invalidate r w = at_player (fst r) (set_target (snd r) None) w"

definition delete_group :: "nat \<Rightarrow> GroupWorld \<Rightarrow> GroupWorld" where
  "delete_group h w =
    (case gw_groups w h of None \<Rightarrow> w
     | Some g \<Rightarrow> let w = fold invalidate (m_memberMgr g) w in w\<lparr>gw_groups := (gw_groups w)(h := None)\<rparr>)"

definition new_group :: "GroupWorld \<Rightarrow> nat \<times> GroupWorld" where
  "new_group w = (gw_next w, w\<lparr>gw_groups := (gw_groups w)(gw_next w \<mapsto> Group_new), gw_next := Suc (gw_next w)\<rparr>)"

subsection \<open>Packets to the members\<close>

definition BroadcastPacket :: "nat \<Rightarrow> GroupMsg \<Rightarrow> bool \<Rightarrow> u8 option \<Rightarrow> u64 \<Rightarrow> GroupWorld \<Rightarrow> GroupWorld" where
  "BroadcastPacket h m ignorePlayersInBGRaid subgroup ignore w =
    (case gw_groups w h of None \<Rightarrow> w
     | Some g \<Rightarrow> fold (\<lambda>(guid, k) w.
         case gw_players w guid of None \<Rightarrow> w
         | Some p \<Rightarrow>
             if (ignore \<noteq> 0 \<and> guid = ignore) \<or> (ignorePlayersInBGRaid \<and> gp_group p \<noteq> Some h) then w
             else if subgroup = None \<or> subgroup = Some (case k of CurrentRef \<Rightarrow> gp_subGroup p | OriginalRef \<Rightarrow> gp_originalSubGroup p)
             then send_to guid m w else w) (m_memberMgr g) w)"

lemma fold_send: "(\<And>x w. f x w = w \<or> (\<exists>g m. f x w = send_to g m w)) \<Longrightarrow> \<exists>s. fold f xs w = w\<lparr>gw_sent := gw_sent w @ s\<rparr>"
proof (induction xs arbitrary: w)
  case Nil
  have "w = w\<lparr>gw_sent := gw_sent w @ []\<rparr>" by simp
  then show ?case by (metis fold_simps(1))
next
  case (Cons x xs)
  from Cons.IH [OF Cons.prems, of "f x w"] obtain s where s: "fold f xs (f x w) = (f x w)\<lparr>gw_sent := gw_sent (f x w) @ s\<rparr>" ..
  from Cons.prems [of x w] show ?case
  proof
    assume "f x w = w"
    with s show ?thesis by auto
  next
    assume "\<exists>g m. f x w = send_to g m w"
    then obtain g m where "f x w = send_to g m w" by blast
    with s have "fold f (x # xs) w = w\<lparr>gw_sent := gw_sent w @ ((g, m) # s)\<rparr>" by (simp add: send_to_def)
    then show ?thesis by blast
  qed
qed

lemma BroadcastPacket_sends: "\<exists>s. BroadcastPacket h m b sg i w = w\<lparr>gw_sent := gw_sent w @ s\<rparr>"
proof (cases "gw_groups w h")
  case None
  then have "BroadcastPacket h m b sg i w = w\<lparr>gw_sent := gw_sent w @ []\<rparr>" by (simp add: BroadcastPacket_def)
  then show ?thesis by blast
next
  case (Some g)
  have "\<exists>s. fold f (m_memberMgr g) w = w\<lparr>gw_sent := gw_sent w @ s\<rparr>"
    if "f = (\<lambda>(guid, k) w.
         case gw_players w guid of None \<Rightarrow> w
         | Some p \<Rightarrow>
             if (i \<noteq> 0 \<and> guid = i) \<or> (b \<and> gp_group p \<noteq> Some h) then w
             else if sg = None \<or> sg = Some (case k of CurrentRef \<Rightarrow> gp_subGroup p | OriginalRef \<Rightarrow> gp_originalSubGroup p)
             then send_to guid m w else w)" for f
    by (rule fold_send) (auto simp: that split: option.split, blast+)
  then show ?thesis by (simp add: BroadcastPacket_def Some)
qed

lemma BroadcastPacket_frame [simp]:
  "gw_players (BroadcastPacket h m b sg i w) = gw_players w" "gw_groups (BroadcastPacket h m b sg i w) = gw_groups w"
  "gw_lfg (BroadcastPacket h m b sg i w) = gw_lfg w" "gw_sql (BroadcastPacket h m b sg i w) = gw_sql w"
  "gw_loots (BroadcastPacket h m b sg i w) = gw_loots w" "FindPlayer p (BroadcastPacket h m b sg i w) = FindPlayer p w"
  using BroadcastPacket_sends [of h m b sg i w] by (auto simp: FindPlayer_def)

text \<open>\<open>SendUpdateToPlayer\<close> with a slot (\<open>full\<close>) and without one. It counts the packets.\<close>

definition SendUpdateToPlayer :: "nat \<Rightarrow> u64 \<Rightarrow> bool \<Rightarrow> GroupWorld \<Rightarrow> GroupWorld" where
  "SendUpdateToPlayer h guid full w =
    (case gw_groups w h of None \<Rightarrow> w
     | Some g \<Rightarrow> (case FindPlayer guid w of None \<Rightarrow> w
       | Some p \<Rightarrow> if full \<and> gp_group p \<noteq> Some h then w
           else at_group h (\<lambda>g. g\<lparr>m_counter := m_counter g + 1\<rparr>) (send_to guid (GroupList g full) w)))"

definition SendUpdate :: "nat \<Rightarrow> GroupWorld \<Rightarrow> GroupWorld" where
  "SendUpdate h w =
    (case gw_groups w h of None \<Rightarrow> w
     | Some g \<Rightarrow> fold (\<lambda>s. SendUpdateToPlayer h (ms_guid s) True) (m_memberSlots g) w)"

subsection \<open>Group numbers: \<open>GroupMgr\<close>\<close>

definition GroupMgr_new :: "LFGMgr \<Rightarrow> GroupWorld" where
  "GroupMgr_new m = \<lparr>gw_players = (\<lambda>_. None), gw_groups = (\<lambda>_. None), gw_next = 0, NextGroupId = 1, NextGroupDbStoreId = 1,
     GroupStore = [], GroupDbStore = [], gw_lfg = m, gw_loots = (\<lambda>_. None), gw_draws = 0, gw_hiItemGuid = 1,
     gw_sql = [], gw_sent = []\<rparr>"

text \<open>
  The search for the next free storage id starts behind the one that is handed out and ends below
  \<open>0xFFFFFFFF\<close>; when it finds none, the id behind stays. The flag is the overflow that stops the server.
\<close>

function next_store_id :: "nat option list \<Rightarrow> nat \<Rightarrow> nat option" where
  "next_store_id db i =
    (if i < 0xFFFFFFFF
     then if (i < length db \<and> db ! i = None) \<or> i \<ge> length db then Some i else next_store_id db (Suc i)
     else None)"
  by pat_completeness auto
termination by (relation "measure (\<lambda>(db, i). 0xFFFFFFFF - i)") auto

declare next_store_id.simps [simp del]

definition GenerateNewGroupDbStoreId :: "GroupWorld \<Rightarrow> u32 \<times> bool \<times> GroupWorld" where
  "GenerateNewGroupDbStoreId w =
    (let newStorageId = NextGroupDbStoreId w;
         i = newStorageId + 1;
         n = (case next_store_id (GroupDbStore w) (unat i) of None \<Rightarrow> i | Some j \<Rightarrow> of_nat j)
     in (newStorageId, newStorageId = n, w\<lparr>NextGroupDbStoreId := n\<rparr>))"

text \<open>\<open>resize (storageId + 1)\<close> computes in 32 bits; a store to an element that is not there is \<open>None\<close>.\<close>

definition RegisterGroupDbStoreId :: "u32 \<Rightarrow> nat \<Rightarrow> GroupWorld \<Rightarrow> GroupWorld option" where
  "RegisterGroupDbStoreId storageId h w =
    (let db = GroupDbStore w;
         n = unat (storageId + 1);
         db = (if unat storageId \<ge> length db then take n db @ replicate (n - length db) None else db)
     in if unat storageId < length db then Some (w\<lparr>GroupDbStore := db[unat storageId := Some h]\<rparr>) else None)"

definition FreeGroupDbStoreId :: "u32 \<Rightarrow> GroupWorld \<Rightarrow> GroupWorld option" where
  "FreeGroupDbStoreId storageId w =
    (let w = (if storageId < NextGroupDbStoreId w then w\<lparr>NextGroupDbStoreId := storageId\<rparr> else w)
     in if unat storageId < length (GroupDbStore w)
        then Some (w\<lparr>GroupDbStore := (GroupDbStore w)[unat storageId := None]\<rparr>) else None)"

definition GetGroupByDbStoreId :: "u32 \<Rightarrow> GroupWorld \<Rightarrow> nat option" where
  "GetGroupByDbStoreId storageId w =
    (if unat storageId < length (GroupDbStore w) then GroupDbStore w ! unat storageId else None)"

text \<open>\<open>World::StopNow\<close> only asks for the end of the server, so the id is used all the same.\<close>

definition GenerateGroupId :: "GroupWorld \<Rightarrow> u32 \<times> GroupWorld" where
  "GenerateGroupId w = (NextGroupId w, w\<lparr>NextGroupId := NextGroupId w + 1\<rparr>)"

definition GetGroupByGUID :: "u32 \<Rightarrow> GroupWorld \<Rightarrow> nat option" where
  "GetGroupByGUID groupId w = map_of (GroupStore w) groupId"

definition AddGroup :: "nat \<Rightarrow> Group \<Rightarrow> GroupWorld \<Rightarrow> GroupWorld" where
  "AddGroup h g w = w\<lparr>GroupStore := om_put (GUID_LOPART (m_guid g)) h (GroupStore w)\<rparr>"

definition RemoveGroup :: "Group \<Rightarrow> GroupWorld \<Rightarrow> GroupWorld" where
  "RemoveGroup g w = w\<lparr>GroupStore := om_erase (GUID_LOPART (m_guid g)) (GroupStore w)\<rparr>"

end
