(* ===== verification/GroupRolls.thy ===== *)
theory GroupRolls
  imports GroupWorld
begin

text \<open>
  The loot system of a group: rolls are opened for the items of a corpse or chest, the members vote, and
  the votes are counted when all have voted or the timer of the loot ends. The random numbers are drawn
  from a stream (\<open>gw_draws\<close> counts them). The distance to the looted object and the items a player may
  see are arguments.
\<close>

subsection \<open>Votes and numbers\<close>

primrec vote_code :: "RollVote \<Rightarrow> u8" where
  "vote_code PASS = 0"
| "vote_code NEED = 1"
| "vote_code GREED = 2"
| "vote_code DISENCHANT = 3"
| "vote_code NOT_EMITED_YET = 4"
| "vote_code NOT_VALID = 5"

definition ROLL_PASS :: u8 where "ROLL_PASS = 0"
definition ROLL_NEED :: u8 where "ROLL_NEED = 1"
definition ROLL_GREED :: u8 where "ROLL_GREED = 2"
definition ROLL_DISENCHANT :: u8 where "ROLL_DISENCHANT = 3"
definition MAX_ROLL_TYPE :: u8 where "MAX_ROLL_TYPE = 4"

lemmas roll_types = ROLL_PASS_def ROLL_NEED_def ROLL_GREED_def ROLL_DISENCHANT_def MAX_ROLL_TYPE_def

definition ROLL_FLAG_TYPE_NEED :: u8 where "ROLL_FLAG_TYPE_NEED = 0x02"
definition ROLL_FLAG_TYPE_DISENCHANT :: u8 where "ROLL_FLAG_TYPE_DISENCHANT = 0x08"
definition ROLL_ALL_TYPE_NO_DISENCHANT :: u8 where "ROLL_ALL_TYPE_NO_DISENCHANT = 0x07"

definition Roll_new :: "u64 \<Rightarrow> LootItem \<Rightarrow> Roll" where
  "Roll_new guid li = \<lparr>r_itemGUID = guid, r_itemid = li_itemid li, r_itemRandomPropId = li_randomPropertyId li,
     r_itemRandomSuffix = li_randomSuffix li, r_itemCount = li_count li, r_playerVote = [], r_totalPlayersRolling = 0,
     r_totalNeed = 0, r_totalGreed = 0, r_totalPass = 0, r_itemSlot = 0, r_rollVoteMask = ROLL_ALL_TYPE_NO_DISENCHANT,
     r_loot = None\<rparr>"

text \<open>\<open>urand(1, 100)\<close>\<close>

definition draw :: "group_env \<Rightarrow> GroupWorld \<Rightarrow> u8 \<times> GroupWorld" where
  "draw e w = (ge_urand e (gw_draws w), w\<lparr>gw_draws := Suc (gw_draws w)\<rparr>)"

definition on_rolls :: "nat \<Rightarrow> (Roll list \<Rightarrow> Roll list) \<Rightarrow> GroupWorld \<Rightarrow> GroupWorld" where
  "on_rolls h f w = at_group h (\<lambda>g. g\<lparr>RollId := f (RollId g)\<rparr>) w"

definition remove_nth :: "nat \<Rightarrow> 'a list \<Rightarrow> 'a list" where
  "remove_nth i xs = take i xs @ drop (Suc i) xs"

subsection \<open>Packets of a roll\<close>

text \<open>The voters of a roll who can be found and whose vote satisfies the condition, in the order of the map.\<close>

definition send_voters :: "(RollVote \<Rightarrow> bool) \<Rightarrow> GroupMsg \<Rightarrow> Roll \<Rightarrow> GroupWorld \<Rightarrow> GroupWorld" where
  "send_voters c m roll w =
    fold (\<lambda>(guid, v) w. if FindPlayer guid w \<noteq> None \<and> c v then send_to guid m w else w) (r_playerVote roll) w"

definition SendLootStartRoll :: "u32 \<Rightarrow> u32 \<Rightarrow> Roll \<Rightarrow> GroupWorld \<Rightarrow> GroupWorld" where
  "SendLootStartRoll countDown mapid roll w =
    send_voters (\<lambda>v. v = NOT_EMITED_YET) (LootStartRoll countDown mapid (r_rollVoteMask roll) roll) roll w"

definition SendLootStartRollToPlayer :: "u32 \<Rightarrow> u32 \<Rightarrow> u64 \<Rightarrow> bool \<Rightarrow> Roll \<Rightarrow> GroupWorld \<Rightarrow> GroupWorld" where
  "SendLootStartRollToPlayer countDown mapid guid canNeed roll w =
    (let vm = (if canNeed then r_rollVoteMask roll else r_rollVoteMask roll AND NOT ROLL_FLAG_TYPE_NEED)
     in send_to guid (LootStartRoll countDown mapid vm roll) w)"

definition SendLootRoll :: "u64 \<Rightarrow> u64 \<Rightarrow> u8 \<Rightarrow> u8 \<Rightarrow> Roll \<Rightarrow> GroupWorld \<Rightarrow> GroupWorld" where
  "SendLootRoll source target rollNumber rollType roll w =
    send_voters (\<lambda>v. v \<noteq> NOT_VALID) (LootRoll source target rollNumber rollType roll) roll w"

definition SendLootRollWon :: "u64 \<Rightarrow> u64 \<Rightarrow> u8 \<Rightarrow> u8 \<Rightarrow> Roll \<Rightarrow> GroupWorld \<Rightarrow> GroupWorld" where
  "SendLootRollWon source target rollNumber rollType roll w =
    send_voters (\<lambda>v. v \<noteq> NOT_VALID) (LootRollWon source target rollNumber rollType roll) roll w"

definition SendLootAllPassed :: "Roll \<Rightarrow> GroupWorld \<Rightarrow> GroupWorld" where
  "SendLootAllPassed roll w = send_voters (\<lambda>v. v \<noteq> NOT_VALID) (LootAllPassed roll) roll w"

subsection \<open>The item of a roll\<close>

text \<open>The item slot counts the items and then the quest items of the loot.\<close>

definition item_at :: "nat \<Rightarrow> Loot \<Rightarrow> LootItem option" where
  "item_at i l =
    (if i \<ge> length (lt_items l)
     then (if i - length (lt_items l) < length (lt_quest_items l) then Some (lt_quest_items l ! (i - length (lt_items l))) else None)
     else Some (lt_items l ! i))"

definition write_item :: "nat \<Rightarrow> (LootItem \<Rightarrow> LootItem) \<Rightarrow> Loot \<Rightarrow> Loot" where
  "write_item i f l =
    (if i \<ge> length (lt_items l)
     then let j = i - length (lt_items l) in l\<lparr>lt_quest_items := (lt_quest_items l)[j := f (lt_quest_items l ! j)]\<rparr>
     else l\<lparr>lt_items := (lt_items l)[i := f (lt_items l ! i)]\<rparr>)"

definition at_loot :: "nat \<Rightarrow> (Loot \<Rightarrow> Loot) \<Rightarrow> GroupWorld \<Rightarrow> GroupWorld" where
  "at_loot la f w = w\<lparr>gw_loots := (gw_loots w)(la := map_option f (gw_loots w la))\<rparr>"

text \<open>\<open>Loot::NotifyItemRemoved\<close>: those looting are told, or dropped from the set when they are gone.\<close>

definition NotifyItemRemoved :: "nat \<Rightarrow> u8 \<Rightarrow> GroupWorld \<Rightarrow> GroupWorld" where
  "NotifyItemRemoved la lootIndex w =
    (case gw_loots w la of None \<Rightarrow> w
     | Some l \<Rightarrow> fold (\<lambda>guid w.
         if FindPlayer guid w \<noteq> None then send_to guid (LootItemRemoved lootIndex) w
         else at_loot la (\<lambda>l. l\<lparr>lt_PlayersLooting := os_erase guid (lt_PlayersLooting l)\<rparr>) w) (lt_PlayersLooting l) w)"

text \<open>\<open>is_looted\<close>, the notification and the count of what is left.\<close>

definition loot_item :: "nat \<Rightarrow> u8 \<Rightarrow> GroupWorld \<Rightarrow> GroupWorld" where
  "loot_item la slot w =
    at_loot la (\<lambda>l. l\<lparr>lt_unlootedCount := lt_unlootedCount l - 1\<rparr>)
      (NotifyItemRemoved la slot (at_loot la (write_item (unat slot) (\<lambda>i. i\<lparr>li_is_looted := True\<rparr>)) w))"

definition unblock_item :: "nat \<Rightarrow> u8 \<Rightarrow> GroupWorld \<Rightarrow> GroupWorld" where
  "unblock_item la slot w = at_loot la (write_item (unat slot) (\<lambda>i. i\<lparr>li_is_blocked := False\<rparr>)) w"

text \<open>The winner gets the item, or an error that unblocks it when he cannot store it.\<close>

definition store_item :: "group_env \<Rightarrow> u64 \<Rightarrow> Roll \<Rightarrow> LootItem \<Rightarrow> nat \<Rightarrow> GroupWorld \<Rightarrow> GroupWorld" where
  "store_item e guid roll item la w =
    (if ge_canStore e guid (r_itemid roll) (li_count item)
     then send_to guid (StoredItem (r_itemid roll) (li_randomPropertyId item)) (loot_item la (r_itemSlot roll) w)
     else send_to guid (EquipError (r_itemid roll)) (unblock_item la (r_itemSlot roll) w))"

text \<open>
  A disenchanted item is not looked at whether it can be stored; the template of the item is read
  without a check.
\<close>

definition disenchant_item :: "group_env \<Rightarrow> u64 \<Rightarrow> Roll \<Rightarrow> nat \<Rightarrow> GroupWorld \<Rightarrow> GroupWorld option" where
  "disenchant_item e guid roll la w =
    map_option (\<lambda>t. send_to guid (DisenchantedItem (it_DisenchantID t)) (loot_item la (r_itemSlot roll) w)) (ge_item e (r_itemid roll))"

subsection \<open>Counting\<close>

text \<open>
  One number is drawn for every vote that counts; the first of the highest wins. The result is the
  highest number, who has it and what he voted.
\<close>

fun roll_numbers ::
  "group_env \<Rightarrow> (RollVote \<Rightarrow> bool) \<Rightarrow> Roll \<Rightarrow> (u64 \<times> RollVote) list \<Rightarrow> u8 \<times> u64 \<times> RollVote \<Rightarrow> GroupWorld \<Rightarrow>
    (u8 \<times> u64 \<times> RollVote) \<times> GroupWorld"
where
  "roll_numbers e c roll [] best w = (best, w)"
| "roll_numbers e c roll ((guid, v) # vs) best w =
    (if \<not> c v then roll_numbers e c roll vs best w
     else case draw e w of (randomN, w) \<Rightarrow>
       let w = SendLootRoll 0 guid randomN (vote_code v) roll w
       in roll_numbers e c roll vs (if fst best < randomN then (randomN, guid, v) else best) w)"

definition award :: "group_env \<Rightarrow> (RollVote \<Rightarrow> bool) \<Rightarrow> Roll \<Rightarrow> nat \<Rightarrow> Loot \<Rightarrow> RollVote \<Rightarrow> GroupWorld \<Rightarrow> GroupWorld option" where
  "award e c roll la l told w =
    (if r_playerVote roll = [] then Some w
     else case roll_numbers e c roll (r_playerVote roll) (0, fst (hd (r_playerVote roll)), told) w of
       ((maxresul, maxguid, rollvote), w) \<Rightarrow>
         let w = SendLootRollWon 0 maxguid maxresul (vote_code rollvote) roll w
         in if FindPlayer maxguid w = None then Some w
            else case item_at (unat (r_itemSlot roll)) l of None \<Rightarrow> None
              | Some item \<Rightarrow>
                  if rollvote = DISENCHANT then disenchant_item e maxguid roll la w
                  else if rollvote = NOT_VALID then Some w
                  else Some (store_item e maxguid roll item la w))"

definition CountTheRoll :: "group_env \<Rightarrow> nat \<Rightarrow> nat \<Rightarrow> GroupWorld \<Rightarrow> GroupWorld option" where
  "CountTheRoll e h i w =
    do { g \<leftarrow> gw_groups w h;
         if i < length (RollId g) then
           let roll = RollId g ! i
           in case r_loot roll of
                None \<Rightarrow> Some (on_rolls h (remove_nth i) w)
              | Some la \<Rightarrow> do {
                  l \<leftarrow> gw_loots w la;
                  w \<leftarrow> (if 0 < r_totalNeed roll then award e (\<lambda>v. v = NEED) roll la l NEED w
                        else if 0 < r_totalGreed roll then award e (\<lambda>v. v = GREED \<or> v = DISENCHANT) roll la l NOT_VALID w
                        else case item_at (unat (r_itemSlot roll)) l of None \<Rightarrow> None
                          | Some _ \<Rightarrow> Some (unblock_item la (r_itemSlot roll) (SendLootAllPassed roll w)));
                  Some (on_rolls h (remove_nth i) w) }
         else None }"

text \<open>\<open>GetRoll\<close>: the first valid roll of the item.\<close>

fun GetRoll :: "u64 \<Rightarrow> Roll list \<Rightarrow> nat option" where
  "GetRoll guid [] = None"
| "GetRoll guid (r # rs) = (if r_itemGUID r = guid \<and> r_loot r \<noteq> None then Some 0 else map_option Suc (GetRoll guid rs))"

text \<open>A choice beyond the four types changes no vote, but the counts are looked at all the same.\<close>

definition cast_vote :: "u64 \<Rightarrow> u8 \<Rightarrow> Roll \<Rightarrow> Roll" where
  "cast_vote guid choice roll =
    (let set_vote = (\<lambda>v r. r\<lparr>r_playerVote := om_adjust guid (\<lambda>_. v) (r_playerVote r)\<rparr>)
     in if choice = ROLL_PASS then set_vote PASS (roll\<lparr>r_totalPass := r_totalPass roll + 1\<rparr>)
        else if choice = ROLL_NEED then set_vote NEED (roll\<lparr>r_totalNeed := r_totalNeed roll + 1\<rparr>)
        else if choice = ROLL_GREED then set_vote GREED (roll\<lparr>r_totalGreed := r_totalGreed roll + 1\<rparr>)
        else if choice = ROLL_DISENCHANT then set_vote DISENCHANT (roll\<lparr>r_totalGreed := r_totalGreed roll + 1\<rparr>)
        else roll)"

definition tell_vote :: "u64 \<Rightarrow> u8 \<Rightarrow> Roll \<Rightarrow> GroupWorld \<Rightarrow> GroupWorld" where
  "tell_vote guid choice roll w =
    (if choice = ROLL_NEED then SendLootRoll 0 guid 0 0 roll w
     else if choice < MAX_ROLL_TYPE then SendLootRoll 0 guid 128 choice roll w
     else w)"

definition all_voted :: "Roll \<Rightarrow> bool" where
  "all_voted r \<longleftrightarrow> unat (r_totalPass r) + unat (r_totalNeed r) + unat (r_totalGreed r) \<ge> unat (r_totalPlayersRolling r)"

definition CountRollVote :: "group_env \<Rightarrow> nat \<Rightarrow> u64 \<Rightarrow> u64 \<Rightarrow> u8 \<Rightarrow> GroupWorld \<Rightarrow> GroupWorld option" where
  "CountRollVote e h playerGUID guid choice w =
    do { g \<leftarrow> gw_groups w h;
         case GetRoll guid (RollId g) of None \<Rightarrow> Some w
         | Some i \<Rightarrow>
             let roll = RollId g ! i
             in if map_of (r_playerVote roll) playerGUID = None then Some w
                else do {
                  l \<leftarrow> gw_loots w (the (r_loot roll));
                  if lt_items l = [] then Some w
                  else let w = tell_vote playerGUID choice roll w;
                           roll = cast_vote playerGUID choice roll;
                           w = on_rolls h (\<lambda>rs. rs[i := roll]) w
                       in if all_voted roll then CountTheRoll e h i w else Some w } }"

text \<open>\<open>EndRoll\<close> starts again from the front after every roll it has counted.\<close>

fun find_loot :: "nat \<Rightarrow> Roll list \<Rightarrow> nat option" where
  "find_loot la [] = None"
| "find_loot la (r # rs) = (if r_loot r = Some la then Some 0 else map_option Suc (find_loot la rs))"

partial_function (option) EndRoll :: "group_env \<Rightarrow> nat \<Rightarrow> nat \<Rightarrow> GroupWorld \<Rightarrow> GroupWorld option" where
  "EndRoll e h la w =
    (case gw_groups w h of None \<Rightarrow> None
     | Some g \<Rightarrow> (case find_loot la (RollId g) of None \<Rightarrow> Some w
       | Some i \<Rightarrow> (case CountTheRoll e h i w of None \<Rightarrow> None | Some w \<Rightarrow> EndRoll e h la w)))"

text \<open>\<open>Loot::clear\<close>: the rolls for its items lose their loot, but stay.\<close>

definition Loot_clear :: "nat \<Rightarrow> GroupWorld \<Rightarrow> GroupWorld" where
  "Loot_clear la w =
    (let w = at_loot la (\<lambda>l. l\<lparr>lt_items := [], lt_quest_items := [], lt_unlootedCount := 0, lt_PlayersLooting := []\<rparr>) w;
         forget = (\<lambda>g. g\<lparr>RollId := map (\<lambda>r. if r_loot r = Some la then r\<lparr>r_loot := None\<rparr> else r) (RollId g)\<rparr>)
     in w\<lparr>gw_groups := map_option forget \<circ> gw_groups w\<rparr>)"

subsection \<open>Opening rolls\<close>

text \<open>The members near the object who may see the item take part; those who pass on all loot pass at once.\<close>

definition add_voters :: "(u64 \<Rightarrow> bool) \<Rightarrow> (u64 \<Rightarrow> bool) \<Rightarrow> (u64 \<times> GroupRefKind) list \<Rightarrow> Roll \<Rightarrow> Roll" where
  "add_voters rolling passes refs roll =
    fold (\<lambda>(guid, k) r.
      if rolling guid
      then let r = r\<lparr>r_totalPlayersRolling := r_totalPlayersRolling r + 1\<rparr>
           in if passes guid then r\<lparr>r_playerVote := om_put guid PASS (r_playerVote r), r_totalPass := r_totalPass r + 1\<rparr>
              else r\<lparr>r_playerVote := om_put guid NOT_EMITED_YET (r_playerVote r)\<rparr>
      else r) refs roll"

text \<open>What is broadcast when a roll opens: in a group loot first the automatic passes, then the start.\<close>

definition announce_group :: "u32 \<Rightarrow> Roll \<Rightarrow> GroupWorld \<Rightarrow> GroupWorld" where
  "announce_group mapid roll w =
    SendLootStartRoll 60000 mapid roll
      (fold (\<lambda>(guid, v) w. if FindPlayer guid w \<noteq> None \<and> v = PASS then SendLootRoll (r_itemGUID roll) guid 128 ROLL_PASS roll w else w)
         (r_playerVote roll) w)"

definition announce_need :: "(u64 \<Rightarrow> bool) \<Rightarrow> u32 \<Rightarrow> Roll \<Rightarrow> GroupWorld \<Rightarrow> GroupWorld" where
  "announce_need canNeed mapid roll w =
    fold (\<lambda>(guid, v) w.
      if FindPlayer guid w = None then w
      else if v = PASS then SendLootRoll (r_itemGUID roll) guid 128 ROLL_PASS roll w
      else SendLootStartRollToPlayer 60000 mapid guid (canNeed guid) roll w) (r_playerVote roll) w"

definition open_roll ::
  "(u64 \<Rightarrow> bool) \<Rightarrow> (u64 \<Rightarrow> bool) \<Rightarrow> (Roll \<Rightarrow> GroupWorld \<Rightarrow> GroupWorld) \<Rightarrow> (u8 \<Rightarrow> u8) \<Rightarrow> nat \<Rightarrow> nat \<Rightarrow> nat \<Rightarrow> LootItem \<Rightarrow>
    GroupWorld \<Rightarrow> GroupWorld option"
where
  "open_roll rolling passes announce vote_mask h la i item w =
    do { g \<leftarrow> gw_groups w h;
         let guid = MAKE_NEW_GUID (gw_hiItemGuid w) 0 HIGHGUID_ITEM;
         let w = w\<lparr>gw_hiItemGuid := gw_hiItemGuid w + 1\<rparr>;
         let r = add_voters rolling passes (m_memberMgr g) (Roll_new guid item);
         if 0 < r_totalPlayersRolling r
         then let r = r\<lparr>r_loot := Some la, r_itemSlot := of_nat i, r_rollVoteMask := vote_mask (r_rollVoteMask r)\<rparr>;
                  w = at_loot la (write_item i (\<lambda>x. x\<lparr>li_is_blocked := True\<rparr>)) w;
                  w = on_rolls h (\<lambda>rs. rs @ [r]) (announce r w)
              in Some (at_loot la (\<lambda>l. l\<lparr>lt_groupLootTimer := 60000, lt_lootingGroup := GUID_LOPART (m_guid g)\<rparr>) w)
         else Some w }"

definition passes_loot :: "GroupWorld \<Rightarrow> u64 \<Rightarrow> bool" where
  "passes_loot w guid = (case gw_players w guid of None \<Rightarrow> False | Some p \<Rightarrow> gp_passOnGroupLoot p)"

definition disenchant_mask :: "item_template \<Rightarrow> Group \<Rightarrow> u8 \<Rightarrow> u8" where
  "disenchant_mask t g vm =
    (if it_DisenchantID t \<noteq> 0 \<and> m_maxEnchantingLevel g \<ge> it_RequiredDisenchantSkill t
     then vm OR ROLL_FLAG_TYPE_DISENCHANT else vm)"

text \<open>One item of \<open>GroupLoot\<close>, then one quest item; \<open>i\<close> is the item slot.\<close>

definition group_item ::
  "group_env \<Rightarrow> (u64 \<Rightarrow> LootItem \<Rightarrow> bool) \<Rightarrow> (u64 \<Rightarrow> bool) \<Rightarrow> u32 \<Rightarrow> nat \<Rightarrow> nat \<Rightarrow> nat \<Rightarrow> GroupWorld \<Rightarrow> GroupWorld option"
where
  "group_item e allowed near mapid h la i w =
    do { l \<leftarrow> gw_loots w la; g \<leftarrow> gw_groups w h; item \<leftarrow> item_at i l;
         if li_freeforall item then Some w
         else case ge_item e (li_itemid item) of None \<Rightarrow> Some w
         | Some t \<Rightarrow>
             if it_Quality t \<ge> ucast (m_lootThreshold g)
             then open_roll (\<lambda>p. allowed p item \<and> near p) (passes_loot w) (announce_group mapid) (disenchant_mask t g) h la i item w
             else Some (at_loot la (write_item i (\<lambda>x. x\<lparr>li_is_underthreshold := True\<rparr>)) w) }"

definition group_quest_item ::
  "group_env \<Rightarrow> (u64 \<Rightarrow> LootItem \<Rightarrow> bool) \<Rightarrow> (u64 \<Rightarrow> bool) \<Rightarrow> u32 \<Rightarrow> nat \<Rightarrow> nat \<Rightarrow> nat \<Rightarrow> GroupWorld \<Rightarrow> GroupWorld option"
where
  "group_quest_item e allowed near mapid h la i w =
    do { l \<leftarrow> gw_loots w la; item \<leftarrow> item_at i l;
         if \<not> li_follow_loot_rules item then Some w
         else case ge_item e (li_itemid item) of None \<Rightarrow> Some w
         | Some t \<Rightarrow> open_roll (\<lambda>p. allowed p item \<and> near p) (\<lambda>_. False) (SendLootStartRoll 60000 mapid) (\<lambda>m. m) h la i item w }"

fun each_slot :: "(nat \<Rightarrow> GroupWorld \<Rightarrow> GroupWorld option) \<Rightarrow> nat list \<Rightarrow> GroupWorld \<Rightarrow> GroupWorld option" where
  "each_slot f [] w = Some w"
| "each_slot f (i # is) w = (case f i w of None \<Rightarrow> None | Some w \<Rightarrow> each_slot f is w)"

definition GroupLoot ::
  "group_env \<Rightarrow> (u64 \<Rightarrow> LootItem \<Rightarrow> bool) \<Rightarrow> (u64 \<Rightarrow> bool) \<Rightarrow> u32 \<Rightarrow> nat \<Rightarrow> nat \<Rightarrow> GroupWorld \<Rightarrow> GroupWorld option"
where
  "GroupLoot e allowed near mapid h la w =
    do { l \<leftarrow> gw_loots w la;
         let n = length (lt_items l); let q = length (lt_quest_items l);
         w \<leftarrow> each_slot (group_item e allowed near mapid h la) [0..<n] w;
         each_slot (group_quest_item e allowed near mapid h la) [n..<n + q] w }"

text \<open>\<open>NeedBeforeGreed\<close> reads the template of an item without a check.\<close>

definition need_item ::
  "group_env \<Rightarrow> (u64 \<Rightarrow> LootItem \<Rightarrow> bool) \<Rightarrow> (u64 \<Rightarrow> bool) \<Rightarrow> (u64 \<Rightarrow> LootItem \<Rightarrow> bool) \<Rightarrow> u32 \<Rightarrow> nat \<Rightarrow> nat \<Rightarrow> nat \<Rightarrow>
    GroupWorld \<Rightarrow> GroupWorld option"
where
  "need_item e allowed near canNeed mapid h la i w =
    do { l \<leftarrow> gw_loots w la; g \<leftarrow> gw_groups w h; item \<leftarrow> item_at i l;
         if li_freeforall item then Some w
         else do { t \<leftarrow> ge_item e (li_itemid item);
           if it_Quality t \<ge> ucast (m_lootThreshold g)
           then open_roll (\<lambda>p. allowed p item \<and> near p) (passes_loot w) (announce_need (\<lambda>p. canNeed p item) mapid)
                  (\<lambda>m. let m = disenchant_mask t g m
                       in if it_Flags2 t AND 0x100 \<noteq> 0 then m AND NOT ROLL_FLAG_TYPE_NEED else m) h la i item w
           else Some (at_loot la (write_item i (\<lambda>x. x\<lparr>li_is_underthreshold := True\<rparr>)) w) } }"

definition need_quest_item ::
  "group_env \<Rightarrow> (u64 \<Rightarrow> LootItem \<Rightarrow> bool) \<Rightarrow> (u64 \<Rightarrow> bool) \<Rightarrow> (u64 \<Rightarrow> LootItem \<Rightarrow> bool) \<Rightarrow> u32 \<Rightarrow> nat \<Rightarrow> nat \<Rightarrow> nat \<Rightarrow>
    GroupWorld \<Rightarrow> GroupWorld option"
where
  "need_quest_item e allowed near canNeed mapid h la i w =
    do { l \<leftarrow> gw_loots w la; item \<leftarrow> item_at i l;
         if \<not> li_follow_loot_rules item then Some w
         else open_roll (\<lambda>p. allowed p item \<and> near p) (\<lambda>_. False) (announce_need (\<lambda>p. canNeed p item) mapid) (\<lambda>m. m) h la i item w }"

definition NeedBeforeGreed ::
  "group_env \<Rightarrow> (u64 \<Rightarrow> LootItem \<Rightarrow> bool) \<Rightarrow> (u64 \<Rightarrow> bool) \<Rightarrow> (u64 \<Rightarrow> LootItem \<Rightarrow> bool) \<Rightarrow> u32 \<Rightarrow> nat \<Rightarrow> nat \<Rightarrow>
    GroupWorld \<Rightarrow> GroupWorld option"
where
  "NeedBeforeGreed e allowed near canNeed mapid h la w =
    do { l \<leftarrow> gw_loots w la;
         let n = length (lt_items l); let q = length (lt_quest_items l);
         w \<leftarrow> each_slot (need_item e allowed near canNeed mapid h la) [0..<n] w;
         each_slot (need_quest_item e allowed near canNeed mapid h la) [n..<n + q] w }"

text \<open>The members who may be given the item by the master looter, as the packet lists them.\<close>

definition MasterLoot :: "(u64 \<Rightarrow> bool) \<Rightarrow> nat \<Rightarrow> GroupWorld \<Rightarrow> GroupWorld option" where
  "MasterLoot near h w =
    do { g \<leftarrow> gw_groups w h;
         let near_members = map fst (filter (\<lambda>x. near (fst x)) (m_memberMgr g));
         let looters = filter (\<lambda>p. FindPlayer p w \<noteq> None) near_members;
         Some (fold (\<lambda>p. send_to p (LootMasterList looters)) near_members w) }"

end
