(* ===== verification/GroupMembers.thy ===== *)
theory GroupMembers
  imports GroupRolls
begin

text \<open>
  The operations of \<open>Group.cpp\<close> that involve players, the data base and the dungeon finder: adding and
  removing members, the leader, disbanding, creating and loading a group, subgroups, flags, roles,
  difficulties, invitations and the round robin of looters. Not in the state: the fields of players that
  are only shown to clients, quest objects, and the instances a group is bound to.
\<close>

subsection \<open>The dungeon finder's view of the groups\<close>

definition lfg_of :: "group_env \<Rightarrow> GroupWorld \<Rightarrow> lfg_world" where
  "lfg_of e w = (ge_lfg e)\<lparr>lw_online := (\<lambda>g. FindPlayer g w \<noteq> None),
     lw_group := (\<lambda>gg. case GetGroupByGUID (GUID_LOPART gg) w of None \<Rightarrow> None
                    | Some h \<Rightarrow> map_option isLFGGroup (gw_groups w h))\<rparr>"

subsection \<open>Invitations\<close>

definition RemoveInvite :: "nat \<Rightarrow> u64 \<Rightarrow> GroupWorld \<Rightarrow> GroupWorld" where
  "RemoveInvite h guid w =
    at_player guid (\<lambda>p. p\<lparr>gp_groupInvite := None\<rparr>)
      (at_group h (\<lambda>g. g\<lparr>m_invitees := removeAll guid (m_invitees g)\<rparr>) w)"

text \<open>Every invitee is written through his pointer, which has to be alive.\<close>

fun clear_invites :: "u64 list \<Rightarrow> GroupWorld \<Rightarrow> GroupWorld option" where
  "clear_invites [] w = Some w"
| "clear_invites (p # ps) w =
    (if gw_players w p = None then None
     else clear_invites ps (at_player p (\<lambda>p. p\<lparr>gp_groupInvite := None\<rparr>) w))"

definition RemoveAllInvites :: "nat \<Rightarrow> GroupWorld \<Rightarrow> GroupWorld option" where
  "RemoveAllInvites h w =
    do { g \<leftarrow> gw_groups w h;
         w \<leftarrow> clear_invites (m_invitees g) w;
         Some (at_group h (\<lambda>g. g\<lparr>m_invitees := []\<rparr>) w) }"

text \<open>The group that counts for an invitation: the original one of a player in a battleground.\<close>

definition invite_group :: "GPlayer \<Rightarrow> GroupWorld \<Rightarrow> nat option option" where
  "invite_group p w =
    (case gp_group p of None \<Rightarrow> Some None
     | Some h \<Rightarrow> map_option (\<lambda>g. if isBGGroup g \<or> isBFGroup g then gp_originalGroup p else Some h) (gw_groups w h))"

definition AddInvite :: "group_env \<Rightarrow> nat \<Rightarrow> u64 \<Rightarrow> GroupWorld \<Rightarrow> (bool \<times> GroupWorld) option" where
  "AddInvite e h guid w =
    do { p \<leftarrow> gw_players w guid;
         if gp_groupInvite p \<noteq> None then Some (False, w)
         else do {
           t \<leftarrow> invite_group p w;
           if t \<noteq> None then Some (False, w)
           else do {
             let w = RemoveInvite h guid w;
             g \<leftarrow> gw_groups w h;
             let w = put_group h (g\<lparr>m_invitees := guid # m_invitees g\<rparr>) w;
             let w = at_player guid (\<lambda>p. p\<lparr>gp_groupInvite := Some h\<rparr>) w;
             Some (True, on_lfg (OnInviteMember (lfg_of e w) (m_guid g) (m_leaderGuid g)) w) } } }"

definition AddLeaderInvite :: "group_env \<Rightarrow> nat \<Rightarrow> u64 \<Rightarrow> GroupWorld \<Rightarrow> (bool \<times> GroupWorld) option" where
  "AddLeaderInvite e h guid w =
    do { (added, w) \<leftarrow> AddInvite e h guid w;
         if \<not> added then Some (False, w)
         else do { p \<leftarrow> gw_players w guid;
                   Some (True, at_group h (\<lambda>g. g\<lparr>m_leaderGuid := guid, m_leaderName := gp_name p\<rparr>) w) } }"

definition GetInvited :: "nat \<Rightarrow> u64 \<Rightarrow> GroupWorld \<Rightarrow> u64 option" where
  "GetInvited h guid w = (case gw_groups w h of None \<Rightarrow> None | Some g \<Rightarrow> find (\<lambda>p. p = guid) (m_invitees g))"

subsection \<open>Adding a member\<close>

definition add_slot :: "u8 \<Rightarrow> u64 \<Rightarrow> string \<Rightarrow> bool \<Rightarrow> Group \<Rightarrow> Group option" where
  "add_slot subGroup guid name junk g =
    SubGroupCounterIncrease subGroup
      (g\<lparr>m_memberSlots := m_memberSlots g @ [\<lparr>ms_guid = guid, ms_name = name, ms_group = subGroup, ms_flags = 0,
           ms_roles = 0, ms_responded = junk\<rparr>]\<rparr>)"

definition refer_member :: "Group \<Rightarrow> nat \<Rightarrow> u64 \<Rightarrow> u8 \<Rightarrow> GPlayer \<Rightarrow> GroupWorld \<Rightarrow> GroupWorld option" where
  "refer_member g h guid subGroup p w =
    (if gp_group p \<noteq> None
     then if isBGGroup g \<or> isBFGroup g then SetBattlegroundOrBattlefieldRaid guid h subGroup w
          else Player_SetOriginalGroup guid (Some (h, subGroup)) w
     else Player_SetGroup guid (Some (h, subGroup)) w)"

definition adopt_difficulty :: "Group \<Rightarrow> u64 \<Rightarrow> GroupWorld \<Rightarrow> GroupWorld" where
  "adopt_difficulty g guid w =
    (case gw_players w guid of None \<Rightarrow> w
     | Some p \<Rightarrow>
         if gp_level p < 70 then w
         else let d = m_dungeonDifficulty g; r = m_raidDifficulty g;
                  w = (if gp_dungeonDifficulty p \<noteq> d
                       then send_to guid (DungeonDifficultyMsg d) (at_player guid (\<lambda>p. p\<lparr>gp_dungeonDifficulty := d\<rparr>) w) else w)
              in if gp_raidDifficulty p \<noteq> r
                 then send_to guid (RaidDifficultyMsg r) (at_player guid (\<lambda>p. p\<lparr>gp_raidDifficulty := r\<rparr>) w) else w)"

definition AddMember :: "group_env \<Rightarrow> nat \<Rightarrow> u64 \<Rightarrow> GroupWorld \<Rightarrow> (bool \<times> GroupWorld) option" where
  "AddMember e h guid w =
    do { g \<leftarrow> gw_groups w h;
         p \<leftarrow> gw_players w guid;
         case choose_subgroup g of None \<Rightarrow> Some (False, w)
         | Some subGroup \<Rightarrow> do {
             g' \<leftarrow> add_slot subGroup guid (gp_name p) (ge_junk e) g;
             let w = at_player guid (\<lambda>p. p\<lparr>gp_groupInvite := None\<rparr>) (put_group h g' w);
             w \<leftarrow> refer_member g h guid subGroup p w;
             let w = (if isRaidGroup g then w else at_group h (\<lambda>g. g\<lparr>m_targetIcons := replicate TARGETICONCOUNT 0\<rparr>) w);
             let stored = \<not> isBGGroup g \<and> \<not> isBFGroup g;
             let w = (if stored then sql (INS_GROUP_MEMBER (m_dbStoreId g) (GUID_LOPART guid) 0 subGroup 0) w else w);
             let w = SendUpdate h w;
             let w = on_lfg (OnAddMember (lfg_of e w) (m_guid g) (m_leaderGuid g) guid) w;
             let w = (if \<not> IsLeader guid g \<and> stored then adopt_difficulty g guid w else w);
             Some (True, at_group h (\<lambda>g. if m_maxEnchantingLevel g < ucast (gp_enchanting p)
                                         then g\<lparr>m_maxEnchantingLevel := ucast (gp_enchanting p)\<rparr> else g) w) } }"

subsection \<open>The leader, disbanding\<close>

definition ChangeLeader :: "group_env \<Rightarrow> nat \<Rightarrow> u64 \<Rightarrow> GroupWorld \<Rightarrow> GroupWorld option" where
  "ChangeLeader e h newLeaderGuid w =
    do { g \<leftarrow> gw_groups w h;
         case getMemberSlot newLeaderGuid g of None \<Rightarrow> Some w
         | Some slot \<Rightarrow> (case FindPlayer newLeaderGuid w of None \<Rightarrow> Some w
           | Some newLeader \<Rightarrow>
               let w = on_lfg (OnChangeLeader (m_guid g) newLeaderGuid) w;
                   w = (if \<not> isBGGroup g \<and> \<not> isBFGroup g
                        then sql (UPD_GROUP_LEADER (GUID_LOPART newLeaderGuid) (m_dbStoreId g)) w else w);
                   w = (if FindPlayer (m_leaderGuid g) w \<noteq> None
                        then at_player (m_leaderGuid g) (\<lambda>p. p\<lparr>gp_leaderFlag := False\<rparr>) w else w);
                   w = at_player newLeaderGuid (\<lambda>p. p\<lparr>gp_leaderFlag := True\<rparr>) w;
                   w = at_group h (\<lambda>g. at_slot newLeaderGuid (ToggleFlag MEMBER_FLAG_ASSISTANT False)
                         (g\<lparr>m_leaderGuid := newLeaderGuid, m_leaderName := gp_name newLeader\<rparr>)) w
               in Some (BroadcastPacket h (GroupSetLeader (gp_name newLeader)) True None 0 w)) }"

text \<open>What \<open>Disband\<close> does for a member who can be found.\<close>

definition dismiss :: "nat \<Rightarrow> bool \<Rightarrow> u64 \<Rightarrow> GroupWorld \<Rightarrow> GroupWorld option" where
  "dismiss h hideDestroy guid w =
    (case FindPlayer guid w of None \<Rightarrow> Some w
     | Some p \<Rightarrow> do {
         g \<leftarrow> gw_groups w h;
         w \<leftarrow> (if isBGGroup g \<or> isBFGroup g then RemoveFromBattlegroundOrBattlefieldRaid guid w
               else if gp_originalGroup p = Some h then Player_SetOriginalGroup guid None w
               else Player_SetGroup guid None w);
         let w = (if hideDestroy then w else send_to guid GroupDestroyed w);
         p \<leftarrow> gw_players w guid;
         Some (case gp_group p of Some h' \<Rightarrow> SendUpdate h' w | None \<Rightarrow> SendUpdateToPlayer h guid False w) })"

fun dismiss_all :: "nat \<Rightarrow> bool \<Rightarrow> u64 list \<Rightarrow> GroupWorld \<Rightarrow> GroupWorld option" where
  "dismiss_all h hide [] w = Some w"
| "dismiss_all h hide (guid # gs) w = (case dismiss h hide guid w of None \<Rightarrow> None | Some w \<Rightarrow> dismiss_all h hide gs w)"

definition Disband :: "group_env \<Rightarrow> nat \<Rightarrow> bool \<Rightarrow> GroupWorld \<Rightarrow> GroupWorld option" where
  "Disband e h hideDestroy w =
    do { g \<leftarrow> gw_groups w h;
         let w = on_lfg (OnDisband (lfg_of e w) (m_guid g)) w;
         w \<leftarrow> dismiss_all h hideDestroy (map ms_guid (m_memberSlots g)) w;
         let w = at_group h (\<lambda>g. g\<lparr>RollId := [], m_memberSlots := []\<rparr>) w;
         w \<leftarrow> RemoveAllInvites h w;
         w \<leftarrow> (if \<not> isBGGroup g \<and> \<not> isBFGroup g
               then FreeGroupDbStoreId (m_dbStoreId g)
                      (sql (DEL_LFG_DATA (m_dbStoreId g)) (sql (DEL_GROUP_MEMBER_ALL (m_dbStoreId g)) (sql (DEL_GROUP (m_dbStoreId g)) w)))
               else Some w);
         Some (delete_group h (RemoveGroup g w)) }"

subsection \<open>Removing a member\<close>

definition ResetMaxEnchantingLevel :: "nat \<Rightarrow> GroupWorld \<Rightarrow> GroupWorld" where
  "ResetMaxEnchantingLevel h w =
    at_group h (\<lambda>g. g\<lparr>m_maxEnchantingLevel := fold (\<lambda>s lv.
      case FindPlayer (ms_guid s) w of None \<Rightarrow> lv | Some p \<Rightarrow> if lv < ucast (gp_enchanting p) then ucast (gp_enchanting p) else lv)
      (m_memberSlots g) 0\<rparr>) w"

definition withdraw_vote :: "u64 \<Rightarrow> RollVote \<Rightarrow> Roll \<Rightarrow> Roll" where
  "withdraw_vote guid v r =
    (let r = (if v = GREED \<or> v = DISENCHANT then r\<lparr>r_totalGreed := r_totalGreed r - 1\<rparr>
              else if v = NEED then r\<lparr>r_totalNeed := r_totalNeed r - 1\<rparr>
              else if v = PASS then r\<lparr>r_totalPass := r_totalPass r - 1\<rparr> else r);
         r = (if v \<noteq> NOT_VALID then r\<lparr>r_totalPlayersRolling := r_totalPlayersRolling r - 1\<rparr> else r)
     in r\<lparr>r_playerVote := om_erase guid (r_playerVote r)\<rparr>)"

definition leave_roll :: "group_env \<Rightarrow> nat \<Rightarrow> u64 \<Rightarrow> nat \<Rightarrow> GroupWorld \<Rightarrow> GroupWorld option" where
  "leave_roll e h guid i w =
    do { g \<leftarrow> gw_groups w h;
         if i < length (RollId g) then
           let roll = RollId g ! i
           in case map_of (r_playerVote roll) guid of None \<Rightarrow> Some w
              | Some v \<Rightarrow> CountRollVote e h guid (r_itemGUID roll) MAX_ROLL_TYPE
                            (on_rolls h (\<lambda>rs. rs[i := withdraw_vote guid v roll]) w)
         else Some w }"

definition remove_slot :: "u64 \<Rightarrow> Group \<Rightarrow> Group option" where
  "remove_slot guid g =
    (case getMemberSlot guid g of None \<Rightarrow> Some g
     | Some s \<Rightarrow> map_option (\<lambda>g. g\<lparr>m_memberSlots := erase_slot guid (m_memberSlots g)\<rparr>) (SubGroupCounterDecrease (ms_group s) g))"

definition take_leave :: "nat \<Rightarrow> u64 \<Rightarrow> RemoveMethod \<Rightarrow> GroupWorld \<Rightarrow> GroupWorld option" where
  "take_leave h guid method w =
    (case FindPlayer guid w of None \<Rightarrow> Some w
     | Some p \<Rightarrow> do {
         g \<leftarrow> gw_groups w h;
         w \<leftarrow> (if isBGGroup g \<or> isBFGroup g then RemoveFromBattlegroundOrBattlefieldRaid guid w
               else if gp_originalGroup p = Some h then Player_SetOriginalGroup guid None w
               else Player_SetGroup guid None w);
         let w = (if method = GROUP_REMOVEMETHOD_KICK \<or> method = GROUP_REMOVEMETHOD_KICK_LFG then send_to guid GroupUninvite w else w);
         Some (SendUpdateToPlayer h guid False w) })"

text \<open>The first member who can be found becomes the leader.\<close>

definition pick_leader :: "group_env \<Rightarrow> nat \<Rightarrow> GroupWorld \<Rightarrow> GroupWorld option" where
  "pick_leader e h w =
    do { g \<leftarrow> gw_groups w h;
         case find (\<lambda>s. FindPlayer (ms_guid s) w \<noteq> None) (m_memberSlots g) of None \<Rightarrow> Some w
         | Some s \<Rightarrow> ChangeLeader e h (ms_guid s) w }"

text \<open>The enchanting level is looked up again when an enchanter or an offline player leaves.\<close>

definition reset_enchanting :: "nat \<Rightarrow> u64 \<Rightarrow> GroupWorld \<Rightarrow> GroupWorld" where
  "reset_enchanting h guid w =
    (case FindPlayer guid w of None \<Rightarrow> ResetMaxEnchantingLevel h w
     | Some p \<Rightarrow> if gp_enchanting p \<noteq> 0 then ResetMaxEnchantingLevel h w else w)"

definition delete_membership :: "nat \<Rightarrow> u64 \<Rightarrow> GroupWorld \<Rightarrow> GroupWorld" where
  "delete_membership h guid w =
    (case gw_groups w h of None \<Rightarrow> w
     | Some g \<Rightarrow> if \<not> isBGGroup g \<and> \<not> isBFGroup g
         then DelinkMember h guid (sql (DEL_GROUP_MEMBER (GUID_LOPART guid)) w) else w)"

definition leave_rolls :: "group_env \<Rightarrow> nat \<Rightarrow> u64 \<Rightarrow> GroupWorld \<Rightarrow> GroupWorld option" where
  "leave_rolls e h guid w =
    do { g \<leftarrow> gw_groups w h; each_slot (leave_roll e h guid) [0..<length (RollId g)] w }"

definition drop_slot :: "group_env \<Rightarrow> nat \<Rightarrow> u64 \<Rightarrow> GroupWorld \<Rightarrow> GroupWorld option" where
  "drop_slot e h guid w =
    do { g \<leftarrow> gw_groups w h;
         g \<leftarrow> remove_slot guid g;
         let w = put_group h g w;
         if m_leaderGuid g = guid then pick_leader e h w else Some w }"

definition close_group :: "group_env \<Rightarrow> nat \<Rightarrow> GroupWorld \<Rightarrow> (bool \<times> GroupWorld) option" where
  "close_group e h w =
    do { g \<leftarrow> gw_groups w h;
         let leader = m_leaderGuid g;
         let mapId = GetDungeonMapId (m_guid g) (gw_lfg w);
         if isLFGGroup g \<and> GetMembersCount g = 1 \<and>
            (mapId = 0 \<or> FindPlayer leader w = None \<or> (ge_alive e leader \<and> ge_map e leader \<noteq> mapId))
         then map_option (Pair False) (Disband e h False w)
         else if length (m_memberMgr g) < (if isLFGGroup g \<or> isBGGroup g then 1 else 2)
         then map_option (Pair True) (Disband e h False w)
         else Some (True, w) }"

definition RemoveMember ::
  "group_env \<Rightarrow> nat \<Rightarrow> u64 \<Rightarrow> RemoveMethod \<Rightarrow> u64 \<Rightarrow> string \<Rightarrow> GroupWorld \<Rightarrow> (bool \<times> GroupWorld) option"
where
  "RemoveMember e h guid method kicker reason w =
    do { g \<leftarrow> gw_groups w h;
         let w = on_lfg (OnRemoveMember (lfg_of e w) (isLFGGroup g) (m_guid g) guid method kicker reason) w;
         if isLFGGroup g \<and> method = GROUP_REMOVEMETHOD_KICK then Some (m_memberSlots g \<noteq> [], w)
         else if GetMembersCount g > (if isBGGroup g \<or> isLFGGroup g \<or> isBFGroup g then 1 else 2) then do {
           w \<leftarrow> take_leave h guid method w;
           w \<leftarrow> leave_rolls e h guid (reset_enchanting h guid (delete_membership h guid w));
           w \<leftarrow> drop_slot e h guid w;
           close_group e h (SendUpdate h w) }
         else map_option (Pair False) (Disband e h False w) }"

subsection \<open>Creating a group\<close>

definition create_header :: "GPlayer \<Rightarrow> u64 \<Rightarrow> u64 \<Rightarrow> Group \<Rightarrow> Group option" where
  "create_header leader guid gguid g =
    do { let g = g\<lparr>m_guid := gguid, m_leaderGuid := guid, m_leaderName := gp_name leader\<rparr>;
         let g = (if isBGGroup g \<or> isBFGroup g then g\<lparr>m_groupType := GROUPTYPE_BGRAID\<rparr> else g);
         g \<leftarrow> (if isRaidGroup g then initRaidSubGroupsCounter g else Some g);
         let g = (if isLFGGroup g then g else g\<lparr>m_lootMethod := GROUP_LOOT\<rparr>);
         Some (g\<lparr>m_lootThreshold := ITEM_QUALITY_UNCOMMON, m_looterGuid := guid,
                 m_dungeonDifficulty := DUNGEON_DIFFICULTY_NORMAL, m_raidDifficulty := RAID_DIFFICULTY_10MAN_NORMAL\<rparr>) }"

definition Create :: "group_env \<Rightarrow> nat \<Rightarrow> u64 \<Rightarrow> GroupWorld \<Rightarrow> (bool \<times> GroupWorld) option" where
  "Create e h guid w =
    do { leader \<leftarrow> gw_players w guid;
         g \<leftarrow> gw_groups w h;
         let (lowguid, w) = GenerateGroupId w;
         g \<leftarrow> create_header leader guid (MAKE_NEW_GUID lowguid 0 HIGHGUID_GROUP) g;
         let w = at_player guid (\<lambda>p. p\<lparr>gp_leaderFlag := True\<rparr>) (put_group h g w);
         if \<not> isBGGroup g \<and> \<not> isBFGroup g then do {
           let (storageId, _, w) = GenerateNewGroupDbStoreId w;
           let g = g\<lparr>m_dungeonDifficulty := gp_dungeonDifficulty leader, m_raidDifficulty := gp_raidDifficulty leader,
                     m_dbStoreId := storageId\<rparr>;
           w \<leftarrow> RegisterGroupDbStoreId storageId h (put_group h g w);
           let w = sql (INS_GROUP storageId (GUID_LOPART guid) (m_lootMethod g) (GUID_LOPART (m_looterGuid g))
                         (m_lootThreshold g) (map ucast (m_targetIcons g)) (m_groupType g) (m_dungeonDifficulty g)
                         (m_raidDifficulty g)) w;
           (added, w) \<leftarrow> AddMember e h guid w;
           if added then Some (True, w) else None }
         else AddMember e h guid w }"

definition ConvertToLFG :: "nat \<Rightarrow> GroupWorld \<Rightarrow> GroupWorld" where
  "ConvertToLFG h w =
    (let w = at_group h (\<lambda>g. g\<lparr>m_groupType := m_groupType g OR GROUPTYPE_LFG OR GROUPTYPE_UNK1,
               m_lootMethod := NEED_BEFORE_GREED\<rparr>) w
     in case gw_groups w h of None \<Rightarrow> w
        | Some g \<Rightarrow> SendUpdate h (if \<not> isBGGroup g \<and> \<not> isBFGroup g then sql (UPD_GROUP_TYPE (m_groupType g) (m_dbStoreId g)) w else w))"

definition ConvertToRaid :: "nat \<Rightarrow> GroupWorld \<Rightarrow> GroupWorld option" where
  "ConvertToRaid h w =
    do { g \<leftarrow> gw_groups w h;
         g \<leftarrow> initRaidSubGroupsCounter (g\<lparr>m_groupType := m_groupType g OR GROUPTYPE_RAID\<rparr>);
         let w = put_group h g w;
         Some (SendUpdate h (if \<not> isBGGroup g \<and> \<not> isBFGroup g then sql (UPD_GROUP_TYPE (m_groupType g) (m_dbStoreId g)) w else w)) }"

definition ConvertToGroup :: "nat \<Rightarrow> GroupWorld \<Rightarrow> GroupWorld option" where
  "ConvertToGroup h w =
    do { g \<leftarrow> gw_groups w h;
         if length (m_memberSlots g) > 5 then Some w
         else let g = g\<lparr>m_groupType := GROUPTYPE_NORMAL, m_subGroupsCounts := None\<rparr>; w = put_group h g w
              in Some (SendUpdate h (if \<not> isBGGroup g \<and> \<not> isBFGroup g then sql (UPD_GROUP_TYPE (m_groupType g) (m_dbStoreId g)) w else w)) }"

subsection \<open>Loading\<close>

text \<open>A row of the query in \<open>LoadGroups\<close>: the columns of \<open>groups\<close>, and those of \<open>lfg_data\<close>.\<close>

record groups_row =
  gr_leaderGuid :: u32
  gr_lootMethod :: u8
  gr_looterGuid :: u32
  gr_lootThreshold :: u8
  gr_icons :: "u32 list"
  gr_groupType :: u8
  gr_difficulty :: u8
  gr_raiddifficulty :: u8
  gr_guid :: u32
  gr_lfgDungeon :: u32
  gr_lfgState :: u8

definition load_header :: "groups_row \<Rightarrow> string \<Rightarrow> Group \<Rightarrow> Group option" where
  "load_header r name g =
    do { let g = g\<lparr>m_leaderName := name, m_lootMethod := gr_lootMethod r,
                   m_looterGuid := MAKE_NEW_GUID (gr_looterGuid r) 0 HIGHGUID_PLAYER, m_lootThreshold := gr_lootThreshold r,
                   m_targetIcons := map ucast (gr_icons r), m_groupType := gr_groupType r\<rparr>;
         g \<leftarrow> (if isRaidGroup g then initRaidSubGroupsCounter g else Some g);
         Some (g\<lparr>m_dungeonDifficulty := (if gr_difficulty r \<ge> MAX_DUNGEON_DIFFICULTY then DUNGEON_DIFFICULTY_NORMAL else gr_difficulty r),
                 m_raidDifficulty := (if gr_raiddifficulty r \<ge> MAX_RAID_DIFFICULTY then RAID_DIFFICULTY_10MAN_NORMAL
                                      else gr_raiddifficulty r)\<rparr>) }"

definition LoadGroupFromDB :: "(u64 \<Rightarrow> string option) \<Rightarrow> nat \<Rightarrow> groups_row \<Rightarrow> GroupWorld \<Rightarrow> GroupWorld option" where
  "LoadGroupFromDB names h r w =
    do { let (lowguid, w) = GenerateGroupId w;
         let leaderGuid = MAKE_NEW_GUID (gr_leaderGuid r) 0 HIGHGUID_PLAYER;
         let gguid = MAKE_NEW_GUID lowguid 0 HIGHGUID_GROUP;
         let w = at_group h (\<lambda>g. g\<lparr>m_dbStoreId := gr_guid r, m_guid := gguid, m_leaderGuid := leaderGuid\<rparr>) w;
         case names (ucast (gr_leaderGuid r)) of None \<Rightarrow> Some w
         | Some name \<Rightarrow> do {
             g \<leftarrow> gw_groups w h;
             g \<leftarrow> load_header r name g;
             let w = put_group h g w;
             Some (if isLFGGroup g
                   then on_lfg (LoadFromDB (Some \<lparr>row_leader = gr_leaderGuid r, row_dungeon = gr_lfgDungeon r, row_state = gr_lfgState r\<rparr>) gguid) w
                   else w) } }"

definition LoadMemberFromDB :: "group_env \<Rightarrow> (u64 \<Rightarrow> string option) \<Rightarrow> nat \<Rightarrow> u32 \<Rightarrow> u8 \<Rightarrow> u8 \<Rightarrow> u8 \<Rightarrow> GroupWorld \<Rightarrow> GroupWorld option" where
  "LoadMemberFromDB e names h guidLow memberFlags subgroup roles w =
    (let guid = MAKE_NEW_GUID guidLow 0 HIGHGUID_PLAYER
     in case names guid of None \<Rightarrow> Some (sql (DEL_GROUP_MEMBER guidLow) w)
        | Some name \<Rightarrow> do {
            g \<leftarrow> gw_groups w h;
            g \<leftarrow> SubGroupCounterIncrease subgroup
                   (g\<lparr>m_memberSlots := m_memberSlots g @ [\<lparr>ms_guid = guid, ms_name = name, ms_group = subgroup,
                        ms_flags = memberFlags, ms_roles = roles, ms_responded = ge_junk e\<rparr>]\<rparr>);
            Some (on_lfg (SetupGroupMember guid (m_guid g)) (put_group h g w)) })"

text \<open>The loops of \<open>GroupMgr::LoadGroups\<close> over the rows of the groups and of their members.\<close>

fun load_groups :: "(u64 \<Rightarrow> string option) \<Rightarrow> groups_row list \<Rightarrow> GroupWorld \<Rightarrow> GroupWorld option" where
  "load_groups names [] w = Some w"
| "load_groups names (r # rs) w =
    do { let (h, w) = new_group w;
         w \<leftarrow> LoadGroupFromDB names h r w;
         g \<leftarrow> gw_groups w h;
         w \<leftarrow> RegisterGroupDbStoreId (m_dbStoreId g) h (AddGroup h g w);
         load_groups names rs (if m_dbStoreId g = NextGroupDbStoreId w
           then w\<lparr>NextGroupDbStoreId := NextGroupDbStoreId w + 1\<rparr> else w) }"

type_synonym member_row = "u32 \<times> u32 \<times> u8 \<times> u8 \<times> u8"

fun load_members :: "group_env \<Rightarrow> (u64 \<Rightarrow> string option) \<Rightarrow> member_row list \<Rightarrow> GroupWorld \<Rightarrow> GroupWorld option" where
  "load_members e names [] w = Some w"
| "load_members e names ((storageId, low, flags, sub, roles) # rs) w =
    do { w \<leftarrow> (case GetGroupByDbStoreId storageId w of None \<Rightarrow> Some w
               | Some h \<Rightarrow> LoadMemberFromDB e names h low flags sub roles w);
         load_members e names rs w }"

definition LoadGroups :: "group_env \<Rightarrow> (u64 \<Rightarrow> string option) \<Rightarrow> groups_row list \<Rightarrow> member_row list \<Rightarrow> GroupWorld \<Rightarrow> GroupWorld option" where
  "LoadGroups e names gs ms w =
    (if gs = [] then Some w else do { w \<leftarrow> load_groups names gs w; load_members e names ms w })"

subsection \<open>Subgroups, flags, roles, difficulties\<close>

definition move_slot :: "u64 \<Rightarrow> u8 \<Rightarrow> Group \<Rightarrow> Group option" where
  "move_slot guid subgroup g =
    do { let prev = GetMemberGroup guid g;
         g \<leftarrow> SubGroupCounterIncrease subgroup (at_slot guid (\<lambda>s. s\<lparr>ms_group := subgroup\<rparr>) g);
         SubGroupCounterDecrease prev g }"

definition ChangeMembersGroup :: "nat \<Rightarrow> u64 \<Rightarrow> u8 \<Rightarrow> GroupWorld \<Rightarrow> GroupWorld option" where
  "ChangeMembersGroup h guid subgroup w =
    do { g \<leftarrow> gw_groups w h;
         if \<not> isRaidGroup g \<or> getMemberSlot guid g = None \<or> GetMemberGroup guid g = subgroup then Some w
         else do {
           g' \<leftarrow> move_slot guid subgroup g;
           let w = put_group h g' w;
           let w = (if \<not> isBGGroup g \<and> \<not> isBFGroup g then sql (UPD_GROUP_MEMBER_SUBGROUP subgroup (GUID_LOPART guid)) w else w);
           let w = (case FindPlayer guid w of None \<Rightarrow> w
                    | Some p \<Rightarrow> at_player guid (set_subgroup (if gp_group p = Some h then CurrentRef else OriginalRef) subgroup) w);
           Some (SendUpdate h w) } }"

definition setMembersGroup :: "nat \<Rightarrow> u64 \<Rightarrow> u8 \<Rightarrow> GroupWorld \<Rightarrow> (bool \<times> GroupWorld) option" where
  "setMembersGroup h guid subgroup w =
    do { g \<leftarrow> gw_groups w h;
         if getMemberSlot guid g = None then Some (False, w)
         else do {
           g' \<leftarrow> SubGroupCounterIncrease subgroup (at_slot guid (\<lambda>s. s\<lparr>ms_group := subgroup\<rparr>) g);
           let w = put_group h g' w;
           Some (True, if \<not> isBGGroup g \<and> \<not> isBFGroup g then sql (UPD_GROUP_MEMBER_SUBGROUP subgroup (GUID_LOPART guid)) w else w) } }"

definition SetGroupMemberFlag :: "nat \<Rightarrow> u64 \<Rightarrow> bool \<Rightarrow> u8 \<Rightarrow> GroupWorld \<Rightarrow> GroupWorld" where
  "SetGroupMemberFlag h guid apply_flag flag w =
    (case gw_groups w h of None \<Rightarrow> w
     | Some g \<Rightarrow>
         if \<not> isRaidGroup g \<or> getMemberSlot guid g = None
            \<or> flag \<notin> {MEMBER_FLAG_MAINASSIST, MEMBER_FLAG_MAINTANK, MEMBER_FLAG_ASSISTANT} then w
         else let g = (if flag \<noteq> MEMBER_FLAG_ASSISTANT then RemoveUniqueGroupMemberFlag flag g else g);
                  g = at_slot guid (ToggleFlag flag apply_flag) g;
                  flags = (case getMemberSlot guid g of Some s \<Rightarrow> ms_flags s | None \<Rightarrow> 0)
              in SendUpdate h (sql (UPD_GROUP_MEMBER_FLAG flags (GUID_LOPART guid)) (put_group h g w)))"

definition SetMemberRole :: "nat \<Rightarrow> u64 \<Rightarrow> u32 \<Rightarrow> GroupWorld \<Rightarrow> GroupWorld" where
  "SetMemberRole h guid role w =
    (case gw_groups w h of None \<Rightarrow> w
     | Some g \<Rightarrow> if getMemberSlot guid g = None then w
         else sql (UPD_GROUP_ROLE (ucast role) (GUID_LOPART guid)) (put_group h (at_slot guid (\<lambda>s. s\<lparr>ms_roles := ucast role\<rparr>) g) w))"

definition SetLfgRoles :: "nat \<Rightarrow> u64 \<Rightarrow> u8 \<Rightarrow> GroupWorld \<Rightarrow> GroupWorld" where
  "SetLfgRoles h guid roles w =
    (case gw_groups w h of None \<Rightarrow> w
     | Some g \<Rightarrow> if getMemberSlot guid g = None then w
         else SendUpdate h (put_group h (at_slot guid (\<lambda>s. s\<lparr>ms_roles := roles\<rparr>) g) w))"

definition each_member :: "nat \<Rightarrow> (u64 \<Rightarrow> GroupWorld \<Rightarrow> GroupWorld) \<Rightarrow> GroupWorld \<Rightarrow> GroupWorld" where
  "each_member h f w = (case gw_groups w h of None \<Rightarrow> w | Some g \<Rightarrow> fold f (map fst (m_memberMgr g)) w)"

definition SetDungeonDifficulty :: "nat \<Rightarrow> u8 \<Rightarrow> GroupWorld \<Rightarrow> GroupWorld" where
  "SetDungeonDifficulty h d w =
    (case gw_groups w h of None \<Rightarrow> w
     | Some g \<Rightarrow>
         let w = put_group h (g\<lparr>m_dungeonDifficulty := d\<rparr>) w;
             w = (if \<not> isBGGroup g \<and> \<not> isBFGroup g then sql (UPD_GROUP_DIFFICULTY d (m_dbStoreId g)) w else w)
         in each_member h (\<lambda>guid w. send_to guid (DungeonDifficultyMsg d) (at_player guid (\<lambda>p. p\<lparr>gp_dungeonDifficulty := d\<rparr>) w)) w)"

definition SetRaidDifficulty :: "nat \<Rightarrow> u8 \<Rightarrow> GroupWorld \<Rightarrow> GroupWorld" where
  "SetRaidDifficulty h d w =
    (case gw_groups w h of None \<Rightarrow> w
     | Some g \<Rightarrow>
         let w = put_group h (g\<lparr>m_raidDifficulty := d\<rparr>) w;
             w = (if \<not> isBGGroup g \<and> \<not> isBFGroup g then sql (UPD_GROUP_RAID_DIFFICULTY d (m_dbStoreId g)) w else w)
         in each_member h (\<lambda>guid w. send_to guid (RaidDifficultyMsg d) (at_player guid (\<lambda>p. p\<lparr>gp_raidDifficulty := d\<rparr>) w)) w)"

subsection \<open>The round robin of looters\<close>

fun slot_index :: "u64 \<Rightarrow> MemberSlot list \<Rightarrow> nat option" where
  "slot_index guid [] = None"
| "slot_index guid (s # ss) = (if ms_guid s = guid then Some 0 else map_option Suc (slot_index guid ss))"

definition next_looter :: "(u64 \<Rightarrow> bool) \<Rightarrow> nat \<Rightarrow> MemberSlot list \<Rightarrow> u64 option" where
  "next_looter can start slots =
    (case find (\<lambda>s. can (ms_guid s)) (drop start slots) of Some s \<Rightarrow> Some (ms_guid s)
     | None \<Rightarrow> map_option ms_guid (find (\<lambda>s. can (ms_guid s)) (take start slots)))"

definition UpdateLooterGuid :: "(u64 \<Rightarrow> bool) \<Rightarrow> nat \<Rightarrow> bool \<Rightarrow> GroupWorld \<Rightarrow> GroupWorld" where
  "UpdateLooterGuid near h ifneed w =
    (case gw_groups w h of None \<Rightarrow> w
     | Some g \<Rightarrow>
         if m_lootMethod g = MASTER_LOOT \<or> m_lootMethod g = FREE_FOR_ALL then w
         else let can = (\<lambda>p. FindPlayer p w \<noteq> None \<and> near p);
                  old = m_looterGuid g;
                  slots = m_memberSlots g
              in case slot_index old slots of
                   Some i \<Rightarrow>
                     if ifneed \<and> can old then w
                     else (case next_looter can (Suc i) slots of
                         Some p \<Rightarrow> if old \<noteq> p then SendUpdate h (at_group h (SetLooterGuid p) w) else w
                       | None \<Rightarrow> SendUpdate h (at_group h (SetLooterGuid 0) w))
                 | None \<Rightarrow> (case next_looter can (length slots) slots of
                         Some p \<Rightarrow> if old \<noteq> p then SendUpdate h (at_group h (SetLooterGuid p) w) else w
                       | None \<Rightarrow> SendUpdate h (at_group h (SetLooterGuid 0) w)))"

end
