(* ===== verification/GroupHandlers.thy ===== *)
theory GroupHandlers
  imports GroupMembers
begin

text \<open>
  The packet handlers of \<open>game/Handlers/GroupHandler.cpp\<close> and the parts of \<open>Player.cpp\<close> and
  \<open>WorldSession.cpp\<close> that call the groups when a player enters or leaves. A packet is the values read
  from it; the handlers are given the player of the session. An access through a pointer to a group that
  has been deleted is \<open>None\<close>.
\<close>

subsection \<open>Invitations\<close>

text \<open>The checks of an invitation that concern neither player's group, in their order.\<close>

record invite_facts =
  if_target :: "u64 option"
  if_normalName :: bool
  if_allowGM :: bool
  if_twoSides :: bool
  if_inviterGM :: bool
  if_targetGM :: bool
  if_sameTeam :: bool
  if_instance :: u32
  if_targetInstance :: u32
  if_sameMap :: bool
  if_sameDifficulty :: bool
  if_ignored :: bool

definition invite_refusal :: "invite_facts \<Rightarrow> PartyResult option" where
  "invite_refusal f =
    (if \<not> if_normalName f then Some ERR_BAD_PLAYER_NAME_S
     else if if_target f = None then Some ERR_BAD_PLAYER_NAME_S
     else if \<not> if_allowGM f \<and> \<not> if_inviterGM f \<and> if_targetGM f then Some ERR_BAD_PLAYER_NAME_S
     else if \<not> if_inviterGM f \<and> \<not> if_twoSides f \<and> \<not> if_sameTeam f then Some ERR_PLAYER_WRONG_FACTION
     else if if_instance f \<noteq> 0 \<and> if_targetInstance f \<noteq> 0 \<and> if_instance f \<noteq> if_targetInstance f \<and> if_sameMap f
     then Some ERR_TARGET_NOT_IN_INSTANCE_S
     else if if_targetInstance f \<noteq> 0 \<and> \<not> if_sameDifficulty f then Some ERR_IGNORING_YOU_S
     else if if_ignored f then Some ERR_IGNORING_YOU_S
     else None)"

text \<open>The handler looks through battleground groups only, not through those of a battlefield.\<close>

definition handler_group :: "GPlayer \<Rightarrow> GroupWorld \<Rightarrow> nat option option" where
  "handler_group p w =
    (case gp_group p of None \<Rightarrow> Some None
     | Some h \<Rightarrow> map_option (\<lambda>g. if isBGGroup g then gp_originalGroup p else Some h) (gw_groups w h))"

definition invite_to_new :: "group_env \<Rightarrow> u64 \<Rightarrow> u64 \<Rightarrow> GroupWorld \<Rightarrow> (bool \<times> GroupWorld) option" where
  "invite_to_new e inviter target w =
    do { let (h, w) = new_group w;
         (added, w) \<leftarrow> AddLeaderInvite e h inviter w;
         if \<not> added then Some (False, delete_group h w)
         else do { (added, w) \<leftarrow> AddInvite e h target w;
                   if \<not> added then Some (False, delete_group h w) else Some (True, w) } }"

definition HandleGroupInvite :: "group_env \<Rightarrow> invite_facts \<Rightarrow> string \<Rightarrow> u64 \<Rightarrow> GroupWorld \<Rightarrow> GroupWorld option" where
  "HandleGroupInvite e f name inviter w =
    (case invite_refusal f of Some r \<Rightarrow> Some (send_to inviter (PartyCommandResult name r) w)
     | None \<Rightarrow> do {
         target \<leftarrow> if_target f;
         me \<leftarrow> gw_players w inviter;
         you \<leftarrow> gw_players w target;
         group \<leftarrow> handler_group me w;
         group2 \<leftarrow> handler_group you w;
         if group2 \<noteq> None \<or> gp_groupInvite you \<noteq> None
         then let w = send_to inviter (PartyCommandResult name ERR_ALREADY_IN_GROUP_S) w
              in Some (if group2 \<noteq> None then send_to target (GroupInviteMsg (gp_name me) True) w else w)
         else do {
           r \<leftarrow> (case group of
                  None \<Rightarrow> map_option Inr (invite_to_new e inviter target w)
                | Some h \<Rightarrow> do {
                    g \<leftarrow> gw_groups w h;
                    if \<not> IsLeader inviter g \<and> \<not> IsAssistant inviter g then Some (Inl ERR_NOT_LEADER)
                    else if IsFull g then Some (Inl ERR_GROUP_FULL)
                    else map_option Inr (AddInvite e h target w) });
           Some (case r of
               Inl err \<Rightarrow> send_to inviter (PartyCommandResult [] err) w
             | Inr (added, w) \<Rightarrow>
                 if added then send_to inviter (PartyCommandResult name ERR_PARTY_RESULT_OK)
                                 (send_to target (GroupInviteMsg (gp_name me) False) w)
                 else w) } })"

definition UninviteFromGroup :: "group_env \<Rightarrow> u64 \<Rightarrow> GroupWorld \<Rightarrow> GroupWorld option" where
  "UninviteFromGroup e guid w =
    do { p \<leftarrow> gw_players w guid;
         case gp_groupInvite p of None \<Rightarrow> Some w
         | Some h \<Rightarrow> do {
             g \<leftarrow> gw_groups w h;
             let w = RemoveInvite h guid w;
             if GetMembersCount g \<le> 1
             then if IsCreated g then Disband e h True w else map_option (delete_group h) (RemoveAllInvites h w)
             else Some w } }"

definition accept_invite :: "group_env \<Rightarrow> nat \<Rightarrow> u64 \<Rightarrow> GroupWorld \<Rightarrow> GroupWorld option" where
  "accept_invite e h guid w =
    do { g \<leftarrow> gw_groups w h;
         let w = RemoveInvite h guid w;
         if m_leaderGuid g = guid then Some w
         else if IsFull g then Some (send_to guid (PartyCommandResult [] ERR_GROUP_FULL) w)
         else if \<not> IsCreated g \<and> FindPlayer (m_leaderGuid g) w = None then RemoveAllInvites h w
         else do {
           w \<leftarrow> (if IsCreated g then Some w
                 else do { (_, w) \<leftarrow> Create e h (m_leaderGuid g) (RemoveInvite h (m_leaderGuid g) w);
                           g \<leftarrow> gw_groups w h;
                           Some (AddGroup h g w) });
           (_, w) \<leftarrow> AddMember e h guid w;
           Some w } }"

definition HandleGroupInviteResponse :: "group_env \<Rightarrow> bool \<Rightarrow> u64 \<Rightarrow> GroupWorld \<Rightarrow> GroupWorld option" where
  "HandleGroupInviteResponse e accept guid w =
    do { p \<leftarrow> gw_players w guid;
         case gp_groupInvite p of None \<Rightarrow> Some w
         | Some h \<Rightarrow>
             if accept then accept_invite e h guid w
             else do {
               g \<leftarrow> gw_groups w h;
               let leader = (case FindPlayer (m_leaderGuid g) w of None \<Rightarrow> None | Some _ \<Rightarrow> Some (m_leaderGuid g));
               w \<leftarrow> UninviteFromGroup e guid w;
               Some (case leader of None \<Rightarrow> w | Some l \<Rightarrow> send_to l (GroupDecline (gp_name p)) w) } }"

subsection \<open>Leaving and removing\<close>

text \<open>\<open>Player::RemoveFromGroup\<close>\<close>

definition RemoveFromGroup :: "group_env \<Rightarrow> nat option \<Rightarrow> u64 \<Rightarrow> RemoveMethod \<Rightarrow> u64 \<Rightarrow> string \<Rightarrow> GroupWorld \<Rightarrow> GroupWorld option" where
  "RemoveFromGroup e t guid method kicker reason w =
    (case t of None \<Rightarrow> Some w | Some h \<Rightarrow> map_option snd (RemoveMember e h guid method kicker reason w))"

definition CanUninviteFromGroup :: "(u64 \<Rightarrow> bool) \<Rightarrow> bool \<Rightarrow> u64 \<Rightarrow> GroupWorld \<Rightarrow> PartyResult" where
  "CanUninviteFromGroup inCombat inBattleground guid w =
    (case Option.bind (gw_players w guid) gp_group of None \<Rightarrow> ERR_NOT_IN_GROUP
     | Some h \<Rightarrow> (case gw_groups w h of None \<Rightarrow> ERR_NOT_IN_GROUP
       | Some g \<Rightarrow>
           if isLFGGroup g then
             let state = GetState (m_guid g) (gw_lfg w)
             in if GetKicksLeft (m_guid g) (gw_lfg w) = 0 then ERR_PARTY_LFG_BOOT_LIMIT
                else if state = LFG_STATE_BOOT then ERR_PARTY_LFG_BOOT_IN_PROGRESS
                else if GetMembersCount g \<le> LFG_GROUP_KICK_VOTES_NEEDED then ERR_PARTY_LFG_BOOT_TOO_FEW_PLAYERS
                else if state = LFG_STATE_FINISHED_DUNGEON then ERR_PARTY_LFG_BOOT_DUNGEON_COMPLETE
                else if isRollLootActive g then ERR_PARTY_LFG_BOOT_LOOT_ROLLS
                else if list_ex (\<lambda>x. inCombat (fst x)) (m_memberMgr g) then ERR_PARTY_LFG_BOOT_IN_COMBAT
                else ERR_PARTY_RESULT_OK
           else if \<not> IsLeader guid g \<and> \<not> IsAssistant guid g then ERR_NOT_LEADER
           else if inBattleground then ERR_INVITE_RESTRICTED
           else ERR_PARTY_RESULT_OK))"

definition HandleGroupUninviteGuid ::
  "group_env \<Rightarrow> (u64 \<Rightarrow> bool) \<Rightarrow> bool \<Rightarrow> u64 \<Rightarrow> string \<Rightarrow> u64 \<Rightarrow> GroupWorld \<Rightarrow> GroupWorld option"
where
  "HandleGroupUninviteGuid e inCombat inBattleground guid reason me w =
    (if guid = me then Some w
     else let res = CanUninviteFromGroup inCombat inBattleground me w
          in if res \<noteq> ERR_PARTY_RESULT_OK then Some (send_to me (PartyCommandResult [] res) w)
             else do {
               p \<leftarrow> gw_players w me;
               case gp_group p of None \<Rightarrow> Some w
               | Some h \<Rightarrow> do {
                   g \<leftarrow> gw_groups w h;
                   if IsLeader guid g then Some (send_to me (PartyCommandResult [] ERR_NOT_LEADER) w)
                   else if IsMember guid g then RemoveFromGroup e (Some h) guid GROUP_REMOVEMETHOD_KICK me reason w
                   else (case GetInvited h guid w of
                       Some player \<Rightarrow> UninviteFromGroup e player w
                     | None \<Rightarrow> Some (send_to me (PartyCommandResult [] ERR_TARGET_NOT_IN_GROUP_S) w)) } })"

definition HandleGroupDisband :: "group_env \<Rightarrow> bool \<Rightarrow> u64 \<Rightarrow> GroupWorld \<Rightarrow> GroupWorld option" where
  "HandleGroupDisband e inBattleground me w =
    do { p \<leftarrow> gw_players w me;
         case gp_group p of None \<Rightarrow> Some w
         | Some h \<Rightarrow>
             if inBattleground then Some (send_to me (PartyCommandResult [] ERR_INVITE_RESTRICTED) w)
             else RemoveFromGroup e (Some h) me GROUP_REMOVEMETHOD_LEAVE 0 []
                    (send_to me (PartyCommandResult (gp_name p) ERR_PARTY_RESULT_OK) w) }"

subsection \<open>Orders of the leader and the assistants\<close>

text \<open>The group of the player of the session, for the handlers that do nothing without one.\<close>

definition with_group :: "u64 \<Rightarrow> (nat \<Rightarrow> Group \<Rightarrow> GroupWorld \<Rightarrow> GroupWorld option) \<Rightarrow> GroupWorld \<Rightarrow> GroupWorld option" where
  "with_group me f w =
    do { p \<leftarrow> gw_players w me;
         case gp_group p of None \<Rightarrow> Some w | Some h \<Rightarrow> do { g \<leftarrow> gw_groups w h; f h g w } }"

definition HandleGroupSetLeader :: "group_env \<Rightarrow> u64 \<Rightarrow> u64 \<Rightarrow> GroupWorld \<Rightarrow> GroupWorld option" where
  "HandleGroupSetLeader e guid me =
    with_group me (\<lambda>h g w.
      case FindPlayer guid w of None \<Rightarrow> Some w
      | Some player \<Rightarrow>
          if \<not> IsLeader me g \<or> gp_group player \<noteq> Some h then Some w
          else map_option (SendUpdate h) (ChangeLeader e h guid w))"

definition HandleGroupSetRoles :: "u32 \<Rightarrow> u64 \<Rightarrow> u64 \<Rightarrow> GroupWorld \<Rightarrow> GroupWorld option" where
  "HandleGroupSetRoles newRole targetGuid me =
    with_group me (\<lambda>h g w.
      case FindPlayer targetGuid w of None \<Rightarrow> Some w
      | Some t \<Rightarrow>
          if gp_group t \<noteq> Some h then Some w
          else Some (SendUpdate h (SetMemberRole h targetGuid newRole
                 (BroadcastPacket h (GroupSetRole me targetGuid (GetMemberRole targetGuid g) newRole) False None 0 w))))"

definition HandleLootMethod :: "u8 \<Rightarrow> u8 \<Rightarrow> u64 \<Rightarrow> u64 \<Rightarrow> GroupWorld \<Rightarrow> GroupWorld option" where
  "HandleLootMethod lootMethod lootThreshold lootMaster me =
    with_group me (\<lambda>h g w.
      if \<not> IsLeader me g then Some w
      else Some (SendUpdate h (at_group h (\<lambda>g. SetLootThreshold lootThreshold (SetLooterGuid lootMaster (SetLootMethod lootMethod g))) w)))"

definition HandleLootRoll :: "group_env \<Rightarrow> u64 \<Rightarrow> u8 \<Rightarrow> u64 \<Rightarrow> GroupWorld \<Rightarrow> GroupWorld option" where
  "HandleLootRoll e guid rollType me = with_group me (\<lambda>h g w. CountRollVote e h me guid rollType w)"

definition HandleRaidTargetUpdate :: "u8 \<Rightarrow> u8 \<Rightarrow> u64 \<Rightarrow> u64 \<Rightarrow> GroupWorld \<Rightarrow> GroupWorld option" where
  "HandleRaidTargetUpdate x iconID guid me =
    with_group me (\<lambda>h g w.
      if x = 0xFF then Some (send_to me (TargetIcons (SendTargetIconList g)) w)
      else if \<not> IsLeader me g \<and> \<not> IsAssistant me g then Some w
      else case SetTargetIcon iconID guid g of (g, updates) \<Rightarrow>
        Some (fold (\<lambda>(i, t). BroadcastPacket h (TargetUpdate i me t) True None 0) updates (put_group h g w)))"

definition HandleGroupRaidConvert :: "bool \<Rightarrow> bool \<Rightarrow> u64 \<Rightarrow> GroupWorld \<Rightarrow> GroupWorld option" where
  "HandleGroupRaidConvert toRaid inBattleground me =
    with_group me (\<lambda>h g w.
      if inBattleground then Some w
      else if \<not> IsLeader me g \<or> GetMembersCount g < 2 then Some w
      else let w = send_to me (PartyCommandResult [] ERR_PARTY_RESULT_OK) w
           in if toRaid then ConvertToRaid h w else ConvertToGroup h w)"

text \<open>The player is named; \<open>guid\<close> is the one found under the name, online or in the data base.\<close>

definition HandleGroupChangeSubGroup :: "u64 \<Rightarrow> u8 \<Rightarrow> u64 \<Rightarrow> GroupWorld \<Rightarrow> GroupWorld option" where
  "HandleGroupChangeSubGroup guid groupNr me =
    with_group me (\<lambda>h g w.
      if unat groupNr \<ge> MAX_RAID_SUBGROUPS then Some w
      else if \<not> IsLeader me g \<and> \<not> IsAssistant me g then Some w
      else if \<not> HasFreeSlotSubGroup groupNr g then Some w
      else ChangeMembersGroup h guid groupNr w)"

definition HandleGroupAssistantLeader :: "u64 \<Rightarrow> bool \<Rightarrow> u64 \<Rightarrow> GroupWorld \<Rightarrow> GroupWorld option" where
  "HandleGroupAssistantLeader guid apply_flag me =
    with_group me (\<lambda>h g w.
      if \<not> IsLeader me g then Some w
      else Some (SendUpdate h (SetGroupMemberFlag h guid apply_flag MEMBER_FLAG_ASSISTANT w)))"

definition HandlePartyAssignment :: "u8 \<Rightarrow> bool \<Rightarrow> u64 \<Rightarrow> u64 \<Rightarrow> GroupWorld \<Rightarrow> GroupWorld option" where
  "HandlePartyAssignment assignment apply_flag guid me =
    with_group me (\<lambda>h g w.
      if \<not> IsLeader me g \<and> \<not> IsAssistant me g then Some w
      else let flag = (if assignment = 1 then MEMBER_FLAG_MAINASSIST else MEMBER_FLAG_MAINTANK);
               w = (if assignment \<le> 1
                    then SetGroupMemberFlag h guid apply_flag flag (at_group h (RemoveUniqueGroupMemberFlag flag) w) else w)
           in Some (SendUpdate h w))"

definition HandleSetEveryoneIsAssistant :: "bool \<Rightarrow> u64 \<Rightarrow> GroupWorld \<Rightarrow> GroupWorld option" where
  "HandleSetEveryoneIsAssistant apply_flag me =
    with_group me (\<lambda>h g w.
      if \<not> isRaidGroup g \<or> \<not> IsLeader me g then Some w
      else Some (SendUpdate h (fold (\<lambda>s. SetGroupMemberFlag h (ms_guid s) True MEMBER_FLAG_ASSISTANT) (m_memberSlots g) w)))"

definition HandleClearWorldMarker :: "u8 \<Rightarrow> u64 \<Rightarrow> GroupWorld \<Rightarrow> GroupWorld option" where
  "HandleClearWorldMarker slot me =
    with_group me (\<lambda>h g w.
      if isRaidGroup g \<and> \<not> (IsAssistant me g \<or> IsLeader me g) then Some w
      else case ClearWorldMarker slot g of (g, changed) \<Rightarrow>
        let w = put_group h g w
        in Some (if changed then BroadcastPacket h (WorldMarkers (SendWorldMarkerUpdate g)) False None 0 w else w))"

definition HandleOptOutOfLoot :: "bool \<Rightarrow> u64 \<Rightarrow> GroupWorld \<Rightarrow> GroupWorld" where
  "HandleOptOutOfLoot passOnLoot me w = at_player me (\<lambda>p. p\<lparr>gp_passOnGroupLoot := passOnLoot\<rparr>) w"

subsection \<open>The ready check\<close>

definition offline_response :: "nat \<Rightarrow> u64 \<Rightarrow> u64 \<Rightarrow> GroupWorld \<Rightarrow> GroupWorld" where
  "offline_response h gguid guid w =
    (if FindPlayer guid w = None
     then at_group h (ReadyCheckMemberHasResponded guid) (BroadcastPacket h (ReadyCheckConfirm gguid guid False) False None 0 w)
     else w)"

definition OfflineReadyCheck :: "nat \<Rightarrow> GroupWorld \<Rightarrow> GroupWorld" where
  "OfflineReadyCheck h w =
    (case gw_groups w h of None \<Rightarrow> w
     | Some g \<Rightarrow> fold (\<lambda>s. offline_response h (m_guid g) (ms_guid s)) (m_memberSlots g) w)"

definition SendReadyCheckCompleted :: "nat \<Rightarrow> GroupWorld \<Rightarrow> GroupWorld" where
  "SendReadyCheckCompleted h w =
    (case gw_groups w h of None \<Rightarrow> w | Some g \<Rightarrow> BroadcastPacket h (ReadyCheckCompleted (m_guid g)) False None 0 w)"

definition HandleRaidReadyCheck :: "u64 \<Rightarrow> GroupWorld \<Rightarrow> GroupWorld option" where
  "HandleRaidReadyCheck me =
    with_group me (\<lambda>h g w.
      if \<not> IsLeader me g \<and> \<not> IsAssistant me g then Some w
      else if readyCheckInProgress g then Some w
      else let w = BroadcastPacket h (ReadyCheckStarted (m_guid g) me 35000) False None 0 w;
               w = at_group h (\<lambda>g. ReadyCheckMemberHasResponded me (g\<lparr>readyCheckInProgress := True\<rparr>)) w;
               w = OfflineReadyCheck h w
           in Some (at_player me (\<lambda>p. p\<lparr>gp_readyCheckTimer := 35000\<rparr>) w))"

definition HandleRaidReadyCheckConfirm :: "bool \<Rightarrow> u64 \<Rightarrow> GroupWorld \<Rightarrow> GroupWorld option" where
  "HandleRaidReadyCheckConfirm status me =
    with_group me (\<lambda>h g w.
      if \<not> readyCheckInProgress g then Some w
      else let w = BroadcastPacket h (ReadyCheckConfirm (m_guid g) me status) False None 0 w;
               g = ReadyCheckMemberHasResponded me g;
               w = put_group h g w
           in if \<not> ReadyCheckAllResponded g then Some w
              else let w = (if FindPlayer (m_leaderGuid g) w \<noteq> None
                            then at_player (m_leaderGuid g) (\<lambda>p. p\<lparr>gp_readyCheckTimer := 0\<rparr>) w else w)
                   in Some (SendReadyCheckCompleted h (put_group h (ReadyCheckResetResponded (g\<lparr>readyCheckInProgress := False\<rparr>)) w)))"

text \<open>\<open>Player::ReadyCheckComplete\<close>, called when the timer of the player ends and when he logs out.\<close>

definition ReadyCheckComplete :: "u64 \<Rightarrow> GroupWorld \<Rightarrow> GroupWorld option" where
  "ReadyCheckComplete me =
    with_group me (\<lambda>h g w.
      if \<not> IsLeader me g \<or> \<not> readyCheckInProgress g then Some w
      else let w = at_player me (\<lambda>p. p\<lparr>gp_readyCheckTimer := 0\<rparr>) w
           in Some (SendReadyCheckCompleted h (put_group h (ReadyCheckResetResponded (g\<lparr>readyCheckInProgress := False\<rparr>)) w)))"

definition ready_check_tick :: "u32 \<Rightarrow> u64 \<Rightarrow> GroupWorld \<Rightarrow> GroupWorld option" where
  "ready_check_tick p_time me w =
    do { p \<leftarrow> gw_players w me;
         if gp_readyCheckTimer p > 0
         then if p_time \<ge> gp_readyCheckTimer p then ReadyCheckComplete me w
              else Some (at_player me (\<lambda>p. p\<lparr>gp_readyCheckTimer := gp_readyCheckTimer p - p_time\<rparr>) w)
         else Some w }"

subsection \<open>Entering and leaving the world\<close>

text \<open>\<open>Player::_LoadGroup\<close> with the storage id that the data base has for the player.\<close>

definition rejoin :: "nat \<Rightarrow> Group \<Rightarrow> u64 \<Rightarrow> GPlayer \<Rightarrow> GroupWorld \<Rightarrow> GroupWorld option" where
  "rejoin h g me p w =
    do { let w = (if IsLeader me g then at_player me (\<lambda>p. p\<lparr>gp_leaderFlag := True\<rparr>) w else w);
         w \<leftarrow> Player_SetGroup me (Some (h, GetMemberGroup me g)) w;
         Some (if gp_level p \<ge> 70
               then at_player me (\<lambda>p. p\<lparr>gp_dungeonDifficulty := m_dungeonDifficulty g,
                      gp_raidDifficulty := m_raidDifficulty g\<rparr>) w else w) }"

definition LoadGroup :: "u32 option \<Rightarrow> u64 \<Rightarrow> GroupWorld \<Rightarrow> GroupWorld option" where
  "LoadGroup row me w =
    do { p \<leftarrow> gw_players w me;
         w \<leftarrow> (case Option.bind row (\<lambda>i. GetGroupByDbStoreId i w) of None \<Rightarrow> Some w
               | Some h \<Rightarrow> do { g \<leftarrow> gw_groups w h; rejoin h g me p w });
         p \<leftarrow> gw_players w me;
         leads \<leftarrow> (case gp_group p of None \<Rightarrow> Some False | Some h \<Rightarrow> map_option (IsLeader me) (gw_groups w h));
         Some (if leads then w else at_player me (\<lambda>p. p\<lparr>gp_leaderFlag := False\<rparr>) w) }"

text \<open>The player object is destroyed; its references unlink themselves.\<close>

definition delete_player :: "u64 \<Rightarrow> GroupWorld \<Rightarrow> GroupWorld" where
  "delete_player guid w =
    (let w = unlink guid OriginalRef (unlink guid CurrentRef w) in w\<lparr>gw_players := (gw_players w)(guid := None)\<rparr>)"

text \<open>
  The group part of \<open>WorldSession::LogoutPlayer\<close>; \<open>socket\<close> tells a normal logout from a lost
  connection. The script hook of the logout sees whether the player still has a group.
\<close>

definition LogoutPlayer :: "group_env \<Rightarrow> bool \<Rightarrow> u64 \<Rightarrow> GroupWorld \<Rightarrow> GroupWorld option" where
  "LogoutPlayer e socket me w =
    do { w \<leftarrow> ReadyCheckComplete me w;
         w \<leftarrow> UninviteFromGroup e me w;
         p \<leftarrow> gw_players w me;
         w \<leftarrow> (case gp_group p of None \<Rightarrow> Some w
               | Some h \<Rightarrow> do {
                   g \<leftarrow> gw_groups w h;
                   if \<not> isRaidGroup g \<and> socket then RemoveFromGroup e (Some h) me GROUP_REMOVEMETHOD_DEFAULT 0 [] w else Some w });
         p \<leftarrow> gw_players w me;
         let w = (case gp_group p of None \<Rightarrow> w | Some h \<Rightarrow> ResetMaxEnchantingLevel h (SendUpdate h w));
         let w = on_lfg (OnLogout (lfg_of e w) (gp_group p \<noteq> None) me) w;
         Some (delete_player me w) }"

end
