(* ===== verification/GroupCallers.thy ===== *)
theory GroupCallers
  imports GroupHandlers
begin

text \<open>
  The other parts of the server that form groups: \<open>LFGMgr::MakeNewGroup\<close> for an accepted proposal and the
  teleport that follows it, the raids of battlegrounds and battlefields, and the commands of game masters
  (\<open>scripts/Commands/cs_group.cpp\<close>).
\<close>

subsection \<open>The dungeon finder\<close>

definition LFG_TELEPORTERROR_OK :: u8 where "LFG_TELEPORTERROR_OK = 0"
definition LFG_TELEPORTERROR_PLAYER_DEAD :: u8 where "LFG_TELEPORTERROR_PLAYER_DEAD = 1"
definition LFG_TELEPORTERROR_FALLING :: u8 where "LFG_TELEPORTERROR_FALLING = 2"
definition LFG_TELEPORTERROR_IN_VEHICLE :: u8 where "LFG_TELEPORTERROR_IN_VEHICLE = 3"
definition LFG_TELEPORTERROR_FATIGUE :: u8 where "LFG_TELEPORTERROR_FATIGUE = 4"
definition LFG_TELEPORTERROR_INVALID_LOCATION :: u8 where "LFG_TELEPORTERROR_INVALID_LOCATION = 6"
definition LFG_TELEPORTERROR_CHARMING :: u8 where "LFG_TELEPORTERROR_CHARMING = 8"

lemmas teleport_errors = LFG_TELEPORTERROR_OK_def LFG_TELEPORTERROR_PLAYER_DEAD_def LFG_TELEPORTERROR_FALLING_def
  LFG_TELEPORTERROR_IN_VEHICLE_def LFG_TELEPORTERROR_FATIGUE_def LFG_TELEPORTERROR_INVALID_LOCATION_def
  LFG_TELEPORTERROR_CHARMING_def

text \<open>What the teleport asks about a player, and whether \<open>Player::TeleportTo\<close> would succeed.\<close>

record teleport_facts =
  tf_alive :: bool
  tf_falling :: bool
  tf_fatigue :: bool
  tf_vehicle :: bool
  tf_charmed :: bool
  tf_map :: u32
  tf_position :: "u32 \<times> u32 \<times> u32 \<times> u32"
  tf_teleports :: bool

text \<open>
  The place a player is sent to: the entrance, or the first other member inside, whom the loop looks for
  as long as the number of the map is still zero.
\<close>

definition teleport_place ::
  "(u64 \<Rightarrow> teleport_facts) \<Rightarrow> bool \<Rightarrow> LFGDungeonData \<Rightarrow> u64 \<Rightarrow> Group \<Rightarrow> u32 \<times> (u32 \<times> u32 \<times> u32 \<times> u32)"
where
  "teleport_place facts fromOpcode d guid g =
    (let mapid = ucast (dg_map d); entrance = (mapid, dg_x d, dg_y d, dg_z d, dg_o d)
     in if fromOpcode \<or> mapid \<noteq> 0 then entrance
        else case find (\<lambda>q. q \<noteq> guid \<and> tf_map (facts q) = ucast (dg_map d)) (map fst (m_memberMgr g)) of
               None \<Rightarrow> entrance | Some q \<Rightarrow> (tf_map (facts q), tf_position (facts q)))"

definition teleport_in :: "(u64 \<Rightarrow> teleport_facts) \<Rightarrow> bool \<Rightarrow> LFGDungeonData \<Rightarrow> u64 \<Rightarrow> Group \<Rightarrow> GroupMsg" where
  "teleport_in facts fromOpcode d guid g =
    (let f = facts guid
     in if \<not> tf_alive f then LfgTeleportError LFG_TELEPORTERROR_PLAYER_DEAD
        else if tf_falling f then LfgTeleportError LFG_TELEPORTERROR_FALLING
        else if tf_fatigue f then LfgTeleportError LFG_TELEPORTERROR_FATIGUE
        else if tf_vehicle f then LfgTeleportError LFG_TELEPORTERROR_IN_VEHICLE
        else if tf_charmed f then LfgTeleportError LFG_TELEPORTERROR_CHARMING
        else if tf_map f \<noteq> ucast (dg_map d) \<and> tf_teleports f
        then (case teleport_place facts fromOpcode d guid g of (mapid, pos) \<Rightarrow> TeleportTo mapid pos)
        else LfgTeleportError LFG_TELEPORTERROR_INVALID_LOCATION)"

text \<open>The dungeon of the player's group, when that is a group of the dungeon finder.\<close>

definition teleport_dungeon :: "Group option \<Rightarrow> LFGMgr \<Rightarrow> (Group \<times> LFGDungeonData) option" where
  "teleport_dungeon t m =
    (case t of None \<Rightarrow> None
     | Some g \<Rightarrow> if isLFGGroup g then map_option (Pair g) (GetLFGDungeon (GetDungeon (m_guid g) True m) m) else None)"

definition TeleportPlayer ::
  "(u64 \<Rightarrow> teleport_facts) \<Rightarrow> u64 \<Rightarrow> bool \<Rightarrow> bool \<Rightarrow> GroupWorld \<Rightarrow> GroupWorld option"
where
  "TeleportPlayer facts guid out fromOpcode w =
    do { p \<leftarrow> gw_players w guid;
         t \<leftarrow> (case gp_group p of None \<Rightarrow> Some None | Some h \<Rightarrow> map_option Some (gw_groups w h));
         Some (case teleport_dungeon t (gw_lfg w) of
             None \<Rightarrow> send_to guid (LfgTeleportError LFG_TELEPORTERROR_INVALID_LOCATION) w
           | Some (g, d) \<Rightarrow>
               if out then (if tf_map (facts guid) = ucast (dg_map d) then send_to guid TeleportToBGEntryPoint w else w)
               else send_to guid (teleport_in facts fromOpcode d guid g) w) }"

fun teleport_all :: "(u64 \<Rightarrow> teleport_facts) \<Rightarrow> u64 list \<Rightarrow> GroupWorld \<Rightarrow> GroupWorld option" where
  "teleport_all facts [] w = Some w"
| "teleport_all facts (p # ps) w =
    (if FindPlayer p w = None then teleport_all facts ps w
     else case TeleportPlayer facts p False False w of None \<Rightarrow> None | Some w \<Rightarrow> teleport_all facts ps w)"

definition store_lfg_data :: "u64 \<Rightarrow> u32 \<Rightarrow> GroupWorld \<Rightarrow> GroupWorld" where
  "store_lfg_data guid db_guid w =
    (if \<not> IS_GROUP_GUID guid then w
     else sql (INS_LFG_DATA db_guid (GetDungeon guid True (gw_lfg w)) (state_code (GetState guid (gw_lfg w))))
            (sql (DEL_LFG_DATA db_guid) w))"

text \<open>One player of the proposal: he leaves another group; the first one creates the group, the others join.\<close>

definition found_lfg_group :: "group_env \<Rightarrow> u64 \<Rightarrow> GroupWorld \<Rightarrow> (nat \<times> GroupWorld) option" where
  "found_lfg_group e guid w =
    do { let (h, w) = new_group w;
         (_, w) \<leftarrow> Create e h guid (ConvertToLFG h w);
         g \<leftarrow> gw_groups w h;
         Some (h, AddGroup h g (on_lfg (SetState (m_guid g) LFG_STATE_PROPOSAL) w)) }"

definition gather_player ::
  "group_env \<Rightarrow> LfgProposal \<Rightarrow> bool \<Rightarrow> u64 \<Rightarrow> nat option \<Rightarrow> GroupWorld \<Rightarrow> (nat option \<times> GroupWorld) option"
where
  "gather_player e proposal random guid grp w =
    (case FindPlayer guid w of None \<Rightarrow> Some (grp, w)
     | Some p \<Rightarrow> do {
         let group = gp_group p;
         w \<leftarrow> (if group \<noteq> None \<and> group \<noteq> grp then RemoveFromGroup e group guid GROUP_REMOVEMETHOD_DEFAULT 0 [] w else Some w);
         (h, w) \<leftarrow> (case grp of None \<Rightarrow> found_lfg_group e guid w
                   | Some h \<Rightarrow> if group \<noteq> grp then map_option (\<lambda>(_, w). (h, w)) (AddMember e h guid w) else Some (h, w));
         g \<leftarrow> gw_groups w h;
         x \<leftarrow> map_of (pr_players proposal) guid;
         let w = SetLfgRoles h guid (pp_role x) w;
         Some (Some h, if random then send_to guid LfgCooldown w else w) })"

fun gather_players ::
  "group_env \<Rightarrow> LfgProposal \<Rightarrow> bool \<Rightarrow> u64 list \<Rightarrow> nat option \<Rightarrow> GroupWorld \<Rightarrow> (nat option \<times> GroupWorld) option"
where
  "gather_players e proposal random [] grp w = Some (grp, w)"
| "gather_players e proposal random (p # ps) grp w =
    (case gather_player e proposal random p grp w of None \<Rightarrow> None
     | Some (grp, w) \<Rightarrow> gather_players e proposal random ps grp w)"

text \<open>The leader first; a dungeon that is not known is a failed assertion, a group without players a null pointer.\<close>

definition leader_first :: "LfgProposal \<Rightarrow> u64 list" where
  "leader_first proposal =
    (let ps = map fst (pr_players proposal)
     in filter (\<lambda>g. g = pr_leader proposal) ps @ filter (\<lambda>g. g \<noteq> pr_leader proposal) ps)"

definition MakeNewGroup :: "group_env \<Rightarrow> (u64 \<Rightarrow> teleport_facts) \<Rightarrow> LfgProposal \<Rightarrow> GroupWorld \<Rightarrow> GroupWorld option" where
  "MakeNewGroup e facts proposal w =
    do { let toTeleport = filter (\<lambda>g. pr_isNew proposal \<or> GetGroup g (gw_lfg w) \<noteq> pr_group proposal) (map fst (pr_players proposal));
         dungeon \<leftarrow> GetLFGDungeon (pr_dungeonId proposal) (gw_lfg w);
         let grp = (if pr_group proposal \<noteq> 0 then GetGroupByGUID (GUID_LOPART (pr_group proposal)) w else None);
         (grp, w) \<leftarrow> gather_players e proposal (dg_type dungeon = LFG_TYPE_RANDOM) (leader_first proposal) grp w;
         h \<leftarrow> grp;
         let w = SetDungeonDifficulty h (of_nat (dg_difficulty dungeon)) w;
         g \<leftarrow> gw_groups w h;
         let w = on_lfg (SetState (m_guid g) LFG_STATE_DUNGEON \<circ> SetDungeon (m_guid g) (dungeon_Entry dungeon)) w;
         w \<leftarrow> teleport_all facts toTeleport (store_lfg_data (m_guid g) (m_dbStoreId g) w);
         Some (SendUpdate h w) }"

subsection \<open>Battlegrounds and battlefields\<close>

definition SetBgRaid :: "nat \<Rightarrow> nat option \<Rightarrow> nat option \<Rightarrow> GroupWorld \<Rightarrow> GroupWorld" where
  "SetBgRaid bg old_raid bg_raid w =
    (let w = (case old_raid of None \<Rightarrow> w | Some h \<Rightarrow> at_group h (SetBattlegroundGroup None) w)
     in case bg_raid of None \<Rightarrow> w | Some h \<Rightarrow> at_group h (SetBattlegroundGroup (Some bg)) w)"

text \<open>The raid of the player's team, which the battleground keeps, is passed in and returned.\<close>

definition AddOrSetPlayerToCorrectBgGroup ::
  "group_env \<Rightarrow> nat \<Rightarrow> nat option \<Rightarrow> u64 \<Rightarrow> GroupWorld \<Rightarrow> (nat \<times> GroupWorld) option"
where
  "AddOrSetPlayerToCorrectBgGroup e bg raid guid w =
    (case raid of
       None \<Rightarrow> do { let (h, w) = new_group w;
                   (_, w) \<leftarrow> Create e h guid (SetBgRaid bg None (Some h) w);
                   Some (h, w) }
     | Some h \<Rightarrow> do {
         g \<leftarrow> gw_groups w h;
         if IsMember guid g then map_option (Pair h) (SetBattlegroundOrBattlefieldRaid guid h (GetMemberGroup guid g) w)
         else do {
           (_, w) \<leftarrow> AddMember e h guid w;
           p \<leftarrow> gw_players w guid;
           case gp_originalGroup p of None \<Rightarrow> Some (h, w)
           | Some o' \<Rightarrow> do {
               original \<leftarrow> gw_groups w o';
               if IsLeader guid original then map_option (\<lambda>w. (h, SendUpdate h w)) (ChangeLeader e h guid w)
               else Some (h, w) } } })"

text \<open>The groups of a team in a battlefield, by their guids.\<close>

definition GetFreeBfRaid :: "u64 list \<Rightarrow> GroupWorld \<Rightarrow> nat option" where
  "GetFreeBfRaid groups w =
    find (\<lambda>h. case gw_groups w h of None \<Rightarrow> False | Some g \<Rightarrow> \<not> IsFull g)
      (concat (map (\<lambda>gg. case GetGroupByGUID (GUID_LOPART gg) w of None \<Rightarrow> [] | Some h \<Rightarrow> [h]) groups))"

definition GetGroupPlayer :: "u64 \<Rightarrow> u64 list \<Rightarrow> GroupWorld \<Rightarrow> nat option" where
  "GetGroupPlayer guid groups w =
    find (\<lambda>h. case gw_groups w h of None \<Rightarrow> False | Some g \<Rightarrow> IsMember guid g)
      (concat (map (\<lambda>gg. case GetGroupByGUID (GUID_LOPART gg) w of None \<Rightarrow> [] | Some h \<Rightarrow> [h]) groups))"

definition AddOrSetPlayerToCorrectBfGroup ::
  "group_env \<Rightarrow> nat \<Rightarrow> u64 list \<Rightarrow> u64 \<Rightarrow> GroupWorld \<Rightarrow> (bool \<times> u64 list \<times> GroupWorld) option"
where
  "AddOrSetPlayerToCorrectBfGroup e bf groups guid w =
    (case FindPlayer guid w of None \<Rightarrow> Some (False, groups, w)
     | Some p \<Rightarrow> do {
         w \<leftarrow> RemoveFromGroup e (gp_group p) guid GROUP_REMOVEMETHOD_DEFAULT 0 [] w;
         case GetFreeBfRaid groups w of
           None \<Rightarrow> do { let (h, w) = new_group w;
                       (_, w) \<leftarrow> Create e h guid (at_group h (SetBattlefieldGroup (Some bf)) w);
                       g \<leftarrow> gw_groups w h;
                       Some (True, os_insert (m_guid g) groups, AddGroup h g w) }
         | Some h \<Rightarrow> do {
             g \<leftarrow> gw_groups w h;
             if IsMember guid g
             then map_option (\<lambda>w. (True, groups, w)) (SetBattlegroundOrBattlefieldRaid guid h (GetMemberGroup guid g) w)
             else map_option (\<lambda>(_, w). (True, groups, w)) (AddMember e h guid w) } })"

subsection \<open>Commands of game masters\<close>

text \<open>
  The player, his group and his guid for a name: \<open>found\<close> is the player online under it, \<open>stored\<close> the guid
  the data base has, \<open>instead\<close> the selected player or the game master.
\<close>

definition GetPlayerGroupAndGUIDByName ::
  "u64 option \<Rightarrow> u64 \<Rightarrow> u64 \<Rightarrow> bool \<Rightarrow> GroupWorld \<Rightarrow> u64 \<times> nat option \<times> u64"
where
  "GetPlayerGroupAndGUIDByName found stored instead offline w =
    (let guid = (if offline then stored else 0);
         player = (case found of Some p \<Rightarrow> p | None \<Rightarrow> instead);
         guid = (if guid = 0 \<or> \<not> offline then player else guid)
     in (player, Option.bind (gw_players w player) gp_group, guid))"

definition HandleGroupLeaderCommand :: "group_env \<Rightarrow> u64 option \<Rightarrow> u64 \<Rightarrow> GroupWorld \<Rightarrow> (bool \<times> GroupWorld) option" where
  "HandleGroupLeaderCommand e found instead w =
    (case GetPlayerGroupAndGUIDByName found 0 instead False w of
       (_, None, _) \<Rightarrow> Some (False, w)
     | (_, Some h, guid) \<Rightarrow> do {
         g \<leftarrow> gw_groups w h;
         if m_leaderGuid g \<noteq> guid then map_option (\<lambda>w. (True, SendUpdate h w)) (ChangeLeader e h guid w)
         else Some (True, w) })"

definition HandleGroupDisbandCommand :: "group_env \<Rightarrow> u64 option \<Rightarrow> u64 \<Rightarrow> GroupWorld \<Rightarrow> (bool \<times> GroupWorld) option" where
  "HandleGroupDisbandCommand e found instead w =
    (case GetPlayerGroupAndGUIDByName found 0 instead False w of
       (_, None, _) \<Rightarrow> Some (False, w)
     | (_, Some h, guid) \<Rightarrow> map_option (Pair True) (Disband e h False w))"

definition HandleGroupRemoveCommand :: "group_env \<Rightarrow> u64 option \<Rightarrow> u64 \<Rightarrow> GroupWorld \<Rightarrow> (bool \<times> GroupWorld) option" where
  "HandleGroupRemoveCommand e found instead w =
    (case GetPlayerGroupAndGUIDByName found 0 instead False w of
       (_, None, _) \<Rightarrow> Some (False, w)
     | (_, Some h, guid) \<Rightarrow> map_option (Pair True) (RemoveFromGroup e (Some h) guid GROUP_REMOVEMETHOD_DEFAULT 0 [] w))"

text \<open>The group joined is the one of the first name, the player the one of the second.\<close>

definition HandleGroupJoinCommand ::
  "group_env \<Rightarrow> u64 option \<times> u64 \<Rightarrow> u64 option \<times> u64 \<Rightarrow> u64 \<Rightarrow> GroupWorld \<Rightarrow> (bool \<times> GroupWorld) option"
where
  "HandleGroupJoinCommand e first second instead w =
    (case GetPlayerGroupAndGUIDByName (fst first) (snd first) instead True w of
       (_, None, _) \<Rightarrow> Some (False, w)
     | (_, Some h, _) \<Rightarrow>
         (case GetPlayerGroupAndGUIDByName (fst second) (snd second) instead True w of (player, current, _) \<Rightarrow>
            if current \<noteq> None then Some (False, w)
            else do { g \<leftarrow> gw_groups w h;
                      if \<not> IsFull g then Some (False, w)
                      else map_option (\<lambda>(_, w). (True, w)) (AddMember e h player w) }))"

end
