(* ===== verification/GroupRefs.thy ===== *)
theory GroupRefs
  imports GroupCallers
begin

text \<open>
  The references between players and groups. \<open>view\<close> is the part of the state they live in; most steps of the
  operations leave it alone (the rules of the collection \<open>view_simps\<close>), the others are an unlinking, a
  linking, an invitation or a deletion. \<open>refs_ok\<close> says that every reference names a group that is there and
  lists it, and every invitation a group that has invited the player; all handlers keep it, with the one
  exception that a player invites himself.
\<close>

named_theorems view_simps \<open>steps that leave the references alone\<close>

subsection \<open>The references in a state\<close>

record PlayerLinks =
  lk_current :: "nat option"
  lk_original :: "nat option"
  lk_invite :: "nat option"

record GroupLinks =
  lk_members :: "(u64 \<times> GroupRefKind) list"
  lk_invitees :: "u64 list"

definition prefs :: "GPlayer \<Rightarrow> PlayerLinks" where
  "prefs p = \<lparr>lk_current = gp_group p, lk_original = gp_originalGroup p, lk_invite = gp_groupInvite p\<rparr>"

definition grefs :: "Group \<Rightarrow> GroupLinks" where
  "grefs g = \<lparr>lk_members = m_memberMgr g, lk_invitees = m_invitees g\<rparr>"

definition pview :: "GroupWorld \<Rightarrow> u64 \<Rightarrow> PlayerLinks option" where
  "pview w guid = map_option prefs (gw_players w guid)"

definition gview :: "GroupWorld \<Rightarrow> nat \<Rightarrow> GroupLinks option" where
  "gview w h = map_option grefs (gw_groups w h)"

definition view :: "GroupWorld \<Rightarrow> _" where
  "view w = (pview w, gview w, gw_next w)"

lemma view_at_player [view_simps]: "(\<And>p. prefs (f p) = prefs p) \<Longrightarrow> view (at_player guid f w) = view w"
  by (auto simp: view_def pview_def gview_def at_player_def fun_eq_iff option.map_comp o_def)

lemma view_at_group [view_simps]: "(\<And>g. grefs (f g) = grefs g) \<Longrightarrow> view (at_group h f w) = view w"
  by (auto simp: view_def pview_def gview_def at_group_def fun_eq_iff option.map_comp o_def)

lemma view_put_group: "gw_groups w h = Some g0 \<Longrightarrow> grefs g = grefs g0 \<Longrightarrow> view (put_group h g w) = view w"
  by (auto simp: view_def pview_def gview_def put_group_def fun_eq_iff)

lemma view_simple [view_simps, simp]:
  "view (send_to guid m w) = view w" "view (sql s w) = view w" "view (on_lfg f w) = view w"
  "view (at_loot la l w) = view w" "view (w\<lparr>gw_hiItemGuid := x\<rparr>) = view w" "view (w\<lparr>gw_draws := n\<rparr>) = view w"
  "view (w\<lparr>NextGroupId := i\<rparr>) = view w" "view (w\<lparr>NextGroupDbStoreId := i\<rparr>) = view w"
  "view (w\<lparr>GroupDbStore := db\<rparr>) = view w" "view (w\<lparr>GroupStore := st\<rparr>) = view w"
  by (simp_all add: view_def pview_def gview_def send_to_def sql_def on_lfg_def at_loot_def fun_eq_iff)

lemma view_on_rolls [view_simps, simp]: "view (on_rolls h f w) = view w"
  by (simp add: on_rolls_def view_at_group grefs_def)

lemma view_fold [view_simps]: "(\<And>x w. view (f x w) = view w) \<Longrightarrow> view (fold f xs w) = view w"
  by (induction xs arbitrary: w) simp_all

lemma view_each_slot:
  "(\<And>i w w'. f i w = Some w' \<Longrightarrow> view w' = view w) \<Longrightarrow> each_slot f is w = Some w' \<Longrightarrow> view w' = view w"
  by (induction "is" arbitrary: w) (auto split: option.splits)

lemma view_messages [view_simps, simp]:
  "view (BroadcastPacket h m b s i w) = view w" "view (SendUpdateToPlayer h guid full w) = view w"
  "view (SendUpdate h w) = view w" "view (send_voters c m r w) = view w"
proof -
  show "view (BroadcastPacket h m b s i w) = view w"
    by (auto simp: BroadcastPacket_def Let_def intro!: view_fold split: option.split)
  have *: "view (SendUpdateToPlayer h guid full w) = view w" for h guid full w
    by (simp add: SendUpdateToPlayer_def view_at_group grefs_def split: option.split)
  then show "view (SendUpdateToPlayer h guid full w) = view w" .
  show "view (SendUpdate h w) = view w"
    by (auto simp: SendUpdate_def * intro!: view_fold split: option.split)
  show "view (send_voters c m r w) = view w"
    by (auto simp: send_voters_def intro!: view_fold)
qed

lemma view_managers [view_simps, simp]:
  "view (AddGroup h g w) = view w" "view (RemoveGroup g w) = view w"
  "GenerateGroupId w = (i, w') \<Longrightarrow> view w' = view w"
  "GenerateNewGroupDbStoreId w = (s, b, w') \<Longrightarrow> view w' = view w"
  "RegisterGroupDbStoreId s h w = Some w' \<Longrightarrow> view w' = view w"
  "FreeGroupDbStoreId s w = Some w' \<Longrightarrow> view w' = view w"
  by (auto simp: AddGroup_def RemoveGroup_def GenerateGroupId_def GenerateNewGroupDbStoreId_def
    RegisterGroupDbStoreId_def FreeGroupDbStoreId_def Let_def split: if_splits)

subsection \<open>Rolls\<close>

lemma view_rolls [view_simps, simp]:
  "view (SendLootRoll s t n y r w) = view w" "view (SendLootRollWon s t n y r w) = view w"
  "view (SendLootAllPassed r w) = view w" "view (SendLootStartRoll c m r w) = view w"
  "view (SendLootStartRollToPlayer c m p b r w) = view w" "view (NotifyItemRemoved la i w) = view w"
  "view (unblock_item la i w) = view w"
  by (auto simp: SendLootRoll_def SendLootRollWon_def SendLootAllPassed_def SendLootStartRoll_def Let_def
    SendLootStartRollToPlayer_def NotifyItemRemoved_def unblock_item_def intro!: view_fold split: option.split)

lemma view_loot_item [view_simps, simp]:
  "view (loot_item la i w) = view w" "view (store_item e p r it la w) = view w"
  "disenchant_item e p r la w = Some w' \<Longrightarrow> view w' = view w"
  by (auto simp: loot_item_def store_item_def disenchant_item_def)

lemma view_roll_numbers: "roll_numbers e c r vs best w = (x, w') \<Longrightarrow> view w' = view w"
  by (induction e c r vs best w rule: roll_numbers.induct)
    (auto simp: draw_def Let_def split: if_splits prod.splits)

lemma view_CountTheRoll: "CountTheRoll e h i w = Some w' \<Longrightarrow> view w' = view w"
  by (auto simp: CountTheRoll_def award_def Let_def split: if_splits option.splits bind_splits prod.splits
    dest: view_roll_numbers)

lemma view_CountRollVote: "CountRollVote e h p g c w = Some w' \<Longrightarrow> view w' = view w"
  by (auto simp: CountRollVote_def tell_vote_def Let_def split: if_splits option.splits bind_splits dest!: view_CountTheRoll)

lemma view_EndRoll:
  assumes "EndRoll e h la w = Some w'"
  shows "view w' = view w"
proof (rule EndRoll.raw_induct [where P = "\<lambda>e h la w w'. view w' = view w", OF _ assms])
qed (auto split: option.splits dest: view_CountTheRoll)

subsection \<open>Every reference is listed, every list entry refers back\<close>

definition tref :: "GroupRefKind \<Rightarrow> PlayerLinks \<Rightarrow> nat option" where
  "tref k t = (case k of CurrentRef \<Rightarrow> lk_current t | OriginalRef \<Rightarrow> lk_original t)"

definition tset :: "GroupRefKind \<Rightarrow> nat option \<Rightarrow> PlayerLinks \<Rightarrow> PlayerLinks" where
  "tset k x t = (case k of CurrentRef \<Rightarrow> t\<lparr>lk_current := x\<rparr> | OriginalRef \<Rightarrow> t\<lparr>lk_original := x\<rparr>)"

lemma tref_tset [simp]: "tref k (tset k' x t) = (if k = k' then x else tref k t)" "lk_invite (tset k x t) = lk_invite t"
  by (auto simp: tref_def tset_def split: GroupRefKind.splits)

lemma tset_same [simp]: "tref k t = x \<Longrightarrow> tset k x t = t"
  by (auto simp: tref_def tset_def split: GroupRefKind.splits)

lemma tref_prefs [simp]: "tref k (prefs p) = ref_target k p" "prefs (set_target k x p) = tset k x (prefs p)"
  "lk_invite (prefs p) = gp_groupInvite p"
  by (auto simp: tref_def tset_def prefs_def ref_target_def set_target_def split: GroupRefKind.splits)

definition refs_ok :: "GroupWorld \<Rightarrow> bool" where
  "refs_ok w \<longleftrightarrow>
    (\<forall>guid t k h. pview w guid = Some t \<and> tref k t = Some h \<longrightarrow> (\<exists>r. gview w h = Some r \<and> (guid, k) \<in> set (lk_members r))) \<and>
    (\<forall>h r guid k. gview w h = Some r \<and> (guid, k) \<in> set (lk_members r) \<longrightarrow> (\<exists>t. pview w guid = Some t \<and> tref k t = Some h)) \<and>
    (\<forall>h r. gview w h = Some r \<longrightarrow> distinct (lk_members r)) \<and>
    (\<forall>guid t h. pview w guid = Some t \<and> lk_invite t = Some h \<longrightarrow> (\<exists>r. gview w h = Some r \<and> guid \<in> set (lk_invitees r))) \<and>
    (\<forall>h. gw_next w \<le> h \<longrightarrow> gview w h = None)"

lemma refs_okD:
  assumes "refs_ok w"
  shows "pview w guid = Some t \<Longrightarrow> tref k t = Some h \<Longrightarrow> \<exists>r. gview w h = Some r \<and> (guid, k) \<in> set (lk_members r)"
    and "gview w h = Some r \<Longrightarrow> (guid, k) \<in> set (lk_members r) \<Longrightarrow> \<exists>t. pview w guid = Some t \<and> tref k t = Some h"
    and "gview w h = Some r \<Longrightarrow> distinct (lk_members r)"
    and "pview w guid = Some t \<Longrightarrow> lk_invite t = Some h \<Longrightarrow> \<exists>r. gview w h = Some r \<and> guid \<in> set (lk_invitees r)"
    and "gw_next w \<le> h \<Longrightarrow> gview w h = None"
  using assms unfolding refs_ok_def by blast+

lemma refs_okI:
  assumes "\<And>guid t k h. pview w guid = Some t \<Longrightarrow> tref k t = Some h \<Longrightarrow> \<exists>r. gview w h = Some r \<and> (guid, k) \<in> set (lk_members r)"
    and "\<And>h r guid k. gview w h = Some r \<Longrightarrow> (guid, k) \<in> set (lk_members r) \<Longrightarrow> \<exists>t. pview w guid = Some t \<and> tref k t = Some h"
    and "\<And>h r. gview w h = Some r \<Longrightarrow> distinct (lk_members r)"
    and "\<And>guid t h. pview w guid = Some t \<Longrightarrow> lk_invite t = Some h \<Longrightarrow> \<exists>r. gview w h = Some r \<and> guid \<in> set (lk_invitees r)"
    and "\<And>h. gw_next w \<le> h \<Longrightarrow> gview w h = None"
  shows "refs_ok w"
  using assms unfolding refs_ok_def by blast

lemma refs_ok_view: "view w' = view w \<Longrightarrow> refs_ok w' = refs_ok w"
  by (simp add: view_def refs_ok_def)

lemma pview_at_player_target: "pview (at_player guid (set_target k x) w) = (pview w)(guid := map_option (tset k x) (pview w guid))"
  by (auto simp: pview_def at_player_def fun_eq_iff option.map_comp o_def)

lemma gview_at_player [simp]: "gview (at_player guid f w) = gview w" "gw_next (at_player guid f w) = gw_next w"
  by (auto simp: gview_def at_player_def fun_eq_iff)

lemma pview_at_group [simp]: "pview (at_group h f w) = pview w" "gw_next (at_group h f w) = gw_next w"
  by (auto simp: pview_def at_group_def fun_eq_iff)

lemma pview_put_group [simp]: "pview (put_group h g w) = pview w" "gw_next (put_group h g w) = gw_next w"
  "gview (put_group h g w) = (gview w)(h \<mapsto> grefs g)"
  by (auto simp: pview_def put_group_def gview_def fun_eq_iff)

lemma gview_at_group:
  "(\<And>g. grefs (f g) = F (grefs g)) \<Longrightarrow> gview (at_group h f w) = (gview w)(h := map_option F (gview w h))"
  by (auto simp: gview_def at_group_def fun_eq_iff option.map_comp o_def)

lemma gw_next_unlink [simp]: "gw_next (unlink guid k w) = gw_next w"
  by (simp add: unlink_def split: option.split)

text \<open>Under the invariant, an unlinking takes the reference out of every list, since only one has it.\<close>

definition without :: "u64 \<times> GroupRefKind \<Rightarrow> GroupLinks \<Rightarrow> GroupLinks" where
  "without x r = r\<lparr>lk_members := filter (\<lambda>y. y \<noteq> x) (lk_members r)\<rparr>"

lemma without_simps [simp]:
  "lk_invitees (without x r) = lk_invitees r" "set (lk_members (without x r)) = set (lk_members r) - {x}"
  "distinct (lk_members r) \<Longrightarrow> distinct (lk_members (without x r))"
  by (auto simp: without_def)

lemma without_absent: "x \<notin> set (lk_members r) \<Longrightarrow> without x r = r"
  by (cases r) (auto simp: without_def filter_id_conv)

lemma unlink_views:
  assumes "refs_ok w"
  shows "pview (unlink guid k w) = (pview w)(guid := map_option (tset k None) (pview w guid))"
    and "gview (unlink guid k w) = (\<lambda>h. map_option (without (guid, k)) (gview w h))"
proof -
  have absent: "map_option (without (guid, k)) (gview w h) = gview w h"
    if "\<forall>t. pview w guid = Some t \<longrightarrow> tref k t \<noteq> Some h" for h
  proof (cases "gview w h")
    case (Some r)
    then have "(guid, k) \<notin> set (lk_members r)" using refs_okD(2) [OF assms, of h r guid k] that by blast
    then show ?thesis by (simp add: Some without_absent)
  qed simp
  show "pview (unlink guid k w) = (pview w)(guid := map_option (tset k None) (pview w guid))"
    by (auto simp: unlink_def at_player_def at_group_def pview_def fun_eq_iff split: option.split)
  show "gview (unlink guid k w) = (\<lambda>h. map_option (without (guid, k)) (gview w h))"
  proof (cases "gw_players w guid")
    case None
    then show ?thesis using absent by (auto simp: unlink_def pview_def fun_eq_iff)
  next
    case (Some p)
    then have p: "pview w guid = Some (prefs p)" by (simp add: pview_def)
    show ?thesis
    proof (cases "ref_target k p")
      case None
      with Some p absent show ?thesis by (auto simp: unlink_def fun_eq_iff)
    next
      case t: (Some h)
      have "gview (unlink guid k w) = (gview w)(h := map_option (without (guid, k)) (gview w h))"
        using Some t by (simp add: unlink_def gview_at_group [where F = "without (guid, k)"] grefs_def without_def)
      then show ?thesis using absent p t by (auto simp: fun_eq_iff)
    qed
  qed
qed

lemma refs_ok_unlink [simp]:
  assumes "refs_ok w"
  shows "refs_ok (unlink guid k w)"
proof (rule refs_okI)
  note v = unlink_views [OF assms, of guid k]
  fix p t j h
  assume t: "pview (unlink guid k w) p = Some t" and h: "tref j t = Some h"
  then obtain t0 where "pview w p = Some t0" "t = (if p = guid then tset k None t0 else t0)"
    by (cases "pview w p") (auto simp: v split: if_splits)
  with h have "pview w p = Some t0" "tref j t0 = Some h" "(p, j) \<noteq> (guid, k)" by (auto split: if_splits)
  with refs_okD(1) [OF assms this(1,2)] show "\<exists>r. gview (unlink guid k w) h = Some r \<and> (p, j) \<in> set (lk_members r)"
    by (auto simp: v)
next
  note v = unlink_views [OF assms, of guid k]
  fix h r p j
  assume "gview (unlink guid k w) h = Some r" "(p, j) \<in> set (lk_members r)"
  then obtain r0 where r0: "gview w h = Some r0" "(p, j) \<in> set (lk_members r0)" "(p, j) \<noteq> (guid, k)" by (auto simp: v)
  with refs_okD(2) [OF assms this(1,2)] show "\<exists>t. pview (unlink guid k w) p = Some t \<and> tref j t = Some h"
    by (auto simp: v)
next
  fix h r
  assume "gview (unlink guid k w) h = Some r"
  then show "distinct (lk_members r)" using refs_okD(3) [OF assms] by (auto simp: unlink_views [OF assms])
next
  note v = unlink_views [OF assms, of guid k]
  fix p t h
  assume t: "pview (unlink guid k w) p = Some t" and h: "lk_invite t = Some h"
  then obtain t0 where "pview w p = Some t0" "t = (if p = guid then tset k None t0 else t0)"
    by (cases "pview w p") (auto simp: v split: if_splits)
  with h have "pview w p = Some t0" "lk_invite t0 = Some h" by (auto split: if_splits)
  with refs_okD(4) [OF assms this(1,2)] show "\<exists>r. gview (unlink guid k w) h = Some r \<and> p \<in> set (lk_invitees r)"
    by (auto simp: v)
qed (simp add: unlink_views [OF assms] refs_okD(5) [OF assms])

text \<open>A link to an existing group, after the reference was unlinked.\<close>

lemma refs_ok_add_link:
  assumes w: "refs_ok w" and t: "pview w guid = Some t" "tref k t = None" and g: "gview w h = Some r"
  shows "refs_ok (at_group h (LinkMember (guid, k)) (at_player guid (set_target k (Some h)) w))"
proof -
  define v where "v = at_group h (LinkMember (guid, k)) (at_player guid (set_target k (Some h)) w)"
  have new: "(guid, k) \<notin> set (lk_members r')" if "gview w h' = Some r'" for h' r'
    using refs_okD(2) [OF w that, of guid k] t by auto
  have pv: "pview v = (pview w)(guid \<mapsto> tset k (Some h) t)"
    by (simp add: v_def pview_at_player_target t)
  have "grefs (LinkMember x y) = (grefs y)\<lparr>lk_members := x # lk_members (grefs y)\<rparr>" for x y
    by (simp add: LinkMember_def grefs_def)
  then have gv: "gview v = (gview w)(h \<mapsto> r\<lparr>lk_members := (guid, k) # lk_members r\<rparr>)"
    by (simp add: v_def gview_at_group [where F = "\<lambda>r. r\<lparr>lk_members := (guid, k) # lk_members r\<rparr>"] g)
  have nx: "gw_next v = gw_next w" by (simp add: v_def)
  have "refs_ok v"
  proof (rule refs_okI)
    fix p t' j h'
    assume a: "pview v p = Some t'" "tref j t' = Some h'"
    show "\<exists>r. gview v h' = Some r \<and> (p, j) \<in> set (lk_members r)"
    proof (cases "p = guid")
      case True
      with a t refs_okD(1) [OF w t(1), of j h'] show ?thesis by (auto simp: pv gv g split: if_splits)
    next
      case False
      with a refs_okD(1) [OF w, of p t' j h'] show ?thesis by (auto simp: pv gv g)
    qed
  next
    fix h' r' p j
    assume a: "gview v h' = Some r'" "(p, j) \<in> set (lk_members r')"
    show "\<exists>t. pview v p = Some t \<and> tref j t = Some h'"
    proof (cases "(p, j) = (guid, k)")
      case True
      with a new show ?thesis by (auto simp: pv gv split: if_splits)
    next
      case False
      then obtain r0 where "gview w h' = Some r0" "(p, j) \<in> set (lk_members r0)"
        using a g by (auto simp: gv split: if_splits)
      with refs_okD(2) [OF w this] False t show ?thesis by (auto simp: pv)
    qed
  next
    fix h' r' assume "gview v h' = Some r'"
    then show "distinct (lk_members r')" using refs_okD(3) [OF w] new [OF g] g by (auto simp: gv split: if_splits)
  next
    fix p t' h'
    assume a: "pview v p = Some t'" "lk_invite t' = Some h'"
    then obtain t0 where "pview w p = Some t0" "lk_invite t0 = Some h'" using t by (auto simp: pv split: if_splits)
    with refs_okD(4) [OF w this] show "\<exists>r. gview v h' = Some r \<and> p \<in> set (lk_invitees r)" by (auto simp: gv g)
  next
    fix h' assume "gw_next v \<le> h'"
    then show "gview v h' = None" using refs_okD(5) [OF w, of h'] refs_okD(5) [OF w, of h] g nx by (auto simp: gv)
  qed
  then show ?thesis by (simp add: v_def)
qed

lemma refs_ok_link_ref:
  assumes "refs_ok w" "link_ref guid k h w = Some w'"
  shows "refs_ok w'"
proof -
  let ?u = "unlink guid k w"
  obtain g p where g: "gw_groups ?u h = Some g" and p: "gw_players ?u guid = Some p"
    and w': "w' = at_group h (LinkMember (guid, k)) (at_player guid (set_target k (Some h)) ?u)"
    using assms(2) by (auto simp: link_ref_def Let_def split: if_splits)
  have pv: "pview ?u guid = Some (prefs p)" by (simp add: pview_def p)
  then obtain z where "tset k None z = prefs p" using unlink_views(1) [OF assms(1), of guid k] by auto
  from this [symmetric] have "tref k (prefs p) = None" by simp
  then show ?thesis using refs_ok_add_link [OF refs_ok_unlink [OF assms(1)] pv] g by (simp add: w' gview_def)
qed

lemma view_set_subgroup [simp]: "view (at_player guid (set_subgroup k s) w) = view w"
  by (intro view_at_player) (simp add: set_subgroup_def prefs_def split: GroupRefKind.split)

lemmas refs_ok_same [simp] = view_simple [THEN refs_ok_view] view_on_rolls [THEN refs_ok_view] view_messages [THEN refs_ok_view]
  view_managers(1,2) [THEN refs_ok_view] view_rolls [THEN refs_ok_view] view_loot_item(1,2) [THEN refs_ok_view]
  view_set_subgroup [THEN refs_ok_view]

lemma refs_ok_set_ref:
  assumes w: "refs_ok w" and s: "set_ref guid k t w = Some w'"
  shows "refs_ok w'"
proof (cases t)
  case None
  with w s show ?thesis by (auto simp: set_ref_def)
next
  case (Some x)
  obtain h b where x: "x = (h, b)" by force
  with s Some obtain w1 where "link_ref guid k h w = Some w1" "w' = at_player guid (set_subgroup k b) w1"
    by (auto simp: set_ref_def split: if_splits)
  with refs_ok_link_ref [OF w this(1)] show ?thesis by simp
qed

lemma refs_ok_raid:
  "refs_ok w \<Longrightarrow> SetBattlegroundOrBattlefieldRaid guid h s w = Some w' \<Longrightarrow> refs_ok w'"
  "refs_ok w \<Longrightarrow> RemoveFromBattlegroundOrBattlefieldRaid guid w = Some w' \<Longrightarrow> refs_ok w'"
  by (auto simp: SetBattlegroundOrBattlefieldRaid_def RemoveFromBattlegroundOrBattlefieldRaid_def Let_def
      Player_SetOriginalGroup_def split: bind_splits option.splits dest!: refs_ok_link_ref [rotated] refs_ok_set_ref [rotated])

lemma refs_ok_DelinkMember [simp]: "refs_ok w \<Longrightarrow> refs_ok (DelinkMember h guid w)"
  by (simp add: DelinkMember_def split: option.split)

subsection \<open>New and deleted groups\<close>

lemma new_group_views:
  assumes "new_group w = (h, w')"
  shows "pview w' = pview w" "gview w' = (gview w)(h \<mapsto> grefs Group_new)" "h = gw_next w" "gw_next w' = Suc (gw_next w)"
    "gw_groups w' h = Some Group_new"
  using assms by (auto simp: new_group_def pview_def gview_def fun_eq_iff)

lemma refs_ok_new_group:
  assumes w: "refs_ok w" and n: "new_group w = (h, w')"
  shows "refs_ok w'"
proof -
  note v = new_group_views [OF n]
  have "lk_members (grefs Group_new) = []" by (simp add: grefs_def Group_new_def)
  moreover have "gview w h = None" using refs_okD(5) [OF w] v by simp
  ultimately show ?thesis
    using refs_okD [OF w] by (intro refs_okI) (fastforce simp: v split: if_splits)+
qed

lemma pview_invalidate1: "pview (invalidate x w) = (pview w)(fst x := map_option (tset (snd x) None) (pview w (fst x)))"
  by (simp add: invalidate_def pview_at_player_target)

lemma gview_invalidate1 [simp]: "gview (invalidate x w) = gview w" "gw_next (invalidate x w) = gw_next w"
  by (simp_all add: invalidate_def)

lemma pview_invalidate:
  "pview (fold invalidate rs w) p = map_option (\<lambda>t. t\<lparr>lk_current := (if (p, CurrentRef) \<in> set rs then None else lk_current t),
     lk_original := (if (p, OriginalRef) \<in> set rs then None else lk_original t)\<rparr>) (pview w p)"
proof (induction rs arbitrary: w)
  case Nil
  then show ?case by (cases "pview w p") auto
next
  case (Cons x rs)
  obtain g k where x: "x = (g, k)" by force
  show ?case
    by (cases k; cases "pview w p") (auto simp: Cons.IH x pview_invalidate1 tset_def)
qed

lemma gview_invalidate [simp]: "gview (fold invalidate rs w) = gview w" "gw_next (fold invalidate rs w) = gw_next w"
  by (induction rs arbitrary: w) auto

definition drop_links :: "nat \<Rightarrow> PlayerLinks \<Rightarrow> PlayerLinks" where
  "drop_links h t = t\<lparr>lk_current := (if lk_current t = Some h then None else lk_current t),
     lk_original := (if lk_original t = Some h then None else lk_original t)\<rparr>"

lemma tref_drop_links [simp]:
  "tref k (drop_links h t) = (if tref k t = Some h then None else tref k t)" "lk_invite (drop_links h t) = lk_invite t"
  by (cases k; simp add: tref_def drop_links_def) (simp add: drop_links_def)

text \<open>The group disappears, and with it all references to it; an invitation to it would stay.\<close>

lemma refs_ok_delete_group:
  assumes w: "refs_ok w" and inv: "\<And>p t. pview w p = Some t \<Longrightarrow> lk_invite t \<noteq> Some h"
  shows "refs_ok (delete_group h w)"
proof (cases "gw_groups w h")
  case None
  with w show ?thesis by (simp add: delete_group_def)
next
  case (Some g)
  let ?w = "delete_group h w"
  have g: "gview w h = Some (grefs g)" by (simp add: gview_def Some)
  have "map_option grefs (gw_groups (fold invalidate (m_memberMgr g) w) x) = map_option grefs (gw_groups w x)" for x
    using fun_cong [OF gview_invalidate(1) [of "m_memberMgr g" w], of x] unfolding gview_def .
  then have gv: "gview ?w = (gview w)(h := None)"
    by (auto simp: delete_group_def Some Let_def gview_def fun_eq_iff)
  have mem: "(p, k) \<in> set (m_memberMgr g) \<longleftrightarrow> tref k t = Some h" if "pview w p = Some t" for p k t
    using refs_okD(1) [OF w that, of k h] refs_okD(2) [OF w g, of p k] that g by (auto simp: grefs_def)
  have pv: "pview ?w p = map_option (drop_links h) (pview w p)" for p
  proof (cases "pview w p")
    case t: (Some t)
    have "pview ?w p = pview (fold invalidate (m_memberMgr g) w) p" by (simp add: delete_group_def Some Let_def pview_def)
    then show ?thesis using mem [OF t, of CurrentRef] mem [OF t, of OriginalRef] t
      by (auto simp: pview_invalidate tref_def drop_links_def)
  next
    case None
    then show ?thesis using pview_invalidate [of "m_memberMgr g" w p] by (simp add: delete_group_def Some Let_def pview_def)
  qed
  show ?thesis
  proof (rule refs_okI)
    fix p t k h' assume "pview ?w p = Some t" "tref k t = Some h'"
    then obtain t0 where "pview w p = Some t0" "tref k t0 = Some h'" "h' \<noteq> h" by (auto simp: pv split: if_splits)
    with refs_okD(1) [OF w this(1,2)] show "\<exists>r. gview ?w h' = Some r \<and> (p, k) \<in> set (lk_members r)" by (auto simp: gv)
  next
    fix h' r p k assume a: "gview ?w h' = Some r" "(p, k) \<in> set (lk_members r)"
    then have "gview w h' = Some r" "h' \<noteq> h" by (auto simp: gv split: if_splits)
    with refs_okD(2) [OF w this(1) a(2)] show "\<exists>t. pview ?w p = Some t \<and> tref k t = Some h'" by (auto simp: pv)
  next
    fix h' r assume "gview ?w h' = Some r"
    then show "distinct (lk_members r)" using refs_okD(3) [OF w] by (auto simp: gv split: if_splits)
  next
    fix p t h' assume "pview ?w p = Some t" "lk_invite t = Some h'"
    then obtain t0 where t0: "pview w p = Some t0" "lk_invite t0 = Some h'" by (auto simp: pv)
    then have "h' \<noteq> h" using inv by auto
    with refs_okD(4) [OF w t0] show "\<exists>r. gview ?w h' = Some r \<and> p \<in> set (lk_invitees r)" by (auto simp: gv)
  next
    fix h' assume "gw_next ?w \<le> h'"
    moreover have "gw_next ?w = gw_next w"
      using gview_invalidate(2) [of "m_memberMgr g" w] by (simp add: delete_group_def Some Let_def)
    ultimately show "gview ?w h' = None" using refs_okD(5) [OF w] by (simp add: gv)
  qed
qed

subsection \<open>Invitations\<close>

text \<open>A step that changes nothing but invitations.\<close>

lemma refs_ok_invitations:
  assumes w: "refs_ok w" and next_eq: "gw_next w' = gw_next w"
    and p: "\<And>p. map_option (\<lambda>t. t\<lparr>lk_invite := None\<rparr>) (pview w' p) = map_option (\<lambda>t. t\<lparr>lk_invite := None\<rparr>) (pview w p)"
    and g: "\<And>h. map_option lk_members (gview w' h) = map_option lk_members (gview w h)"
    and inv: "\<And>p t h. pview w' p = Some t \<Longrightarrow> lk_invite t = Some h \<Longrightarrow> \<exists>r. gview w' h = Some r \<and> p \<in> set (lk_invitees r)"
  shows "refs_ok w'"
proof (rule refs_okI)
  have tref_inv: "tref k (t\<lparr>lk_invite := x\<rparr>) = tref k t" for k t x by (cases k) (simp_all add: tref_def)
  have same: "map_option (tref k) (pview w' a) = map_option (tref k) (pview w a)" for a k
    using arg_cong [OF p [of a], of "map_option (tref k)"] by (simp add: option.map_comp o_def tref_inv)
  fix a t k h assume "pview w' a = Some t" "tref k t = Some h"
  then obtain t0 where "pview w a = Some t0" "tref k t0 = Some h" using same [of k a] by (cases "pview w a") auto
  from refs_okD(1) [OF w this] show "\<exists>r. gview w' h = Some r \<and> (a, k) \<in> set (lk_members r)"
    using g [of h] by (auto simp: map_option_eq_Some)
next
  have tref_inv: "tref k (t\<lparr>lk_invite := x\<rparr>) = tref k t" for k t x by (cases k) (simp_all add: tref_def)
  have same: "map_option (tref k) (pview w' a) = map_option (tref k) (pview w a)" for a k
    using arg_cong [OF p [of a], of "map_option (tref k)"] by (simp add: option.map_comp o_def tref_inv)
  fix h r a k assume r: "gview w' h = Some r" "(a, k) \<in> set (lk_members r)"
  then obtain r0 where "gview w h = Some r0" "(a, k) \<in> set (lk_members r0)" using g [of h] by (cases "gview w h") auto
  from refs_okD(2) [OF w this] obtain t where "pview w a = Some t" "tref k t = Some h" by blast
  then show "\<exists>t. pview w' a = Some t \<and> tref k t = Some h" using same [of k a] by (auto simp: map_option_eq_Some)
next
  fix h r assume "gview w' h = Some r"
  then obtain r0 where "gview w h = Some r0" "lk_members r0 = lk_members r" using g [of h] by (cases "gview w h") auto
  then show "distinct (lk_members r)" using refs_okD(3) [OF w] by metis
next
  fix h assume "gw_next w' \<le> h"
  then have "gview w h = None" using refs_okD(5) [OF w] next_eq by simp
  then show "gview w' h = None" using g [of h] by simp
qed (rule inv)

definition set_invite :: "nat option \<Rightarrow> GPlayer \<Rightarrow> GPlayer" where
  "set_invite x p = p\<lparr>gp_groupInvite := x\<rparr>"

lemma pview_set_invite: "pview (at_player guid (\<lambda>p. p\<lparr>gp_groupInvite := x\<rparr>) w) =
    (pview w)(guid := map_option (\<lambda>t. t\<lparr>lk_invite := x\<rparr>) (pview w guid))"
  by (auto simp: pview_def at_player_def fun_eq_iff option.map_comp o_def prefs_def)

lemma gview_set_invitees: "gview (at_group h (\<lambda>g. g\<lparr>m_invitees := F (m_invitees g)\<rparr>) w) =
    (gview w)(h := map_option (\<lambda>r. r\<lparr>lk_invitees := F (lk_invitees r)\<rparr>) (gview w h))"
  by (rule gview_at_group) (simp add: grefs_def)

lemma refs_ok_no_invite [simp]: "refs_ok w \<Longrightarrow> refs_ok (at_player guid (\<lambda>p. p\<lparr>gp_groupInvite := None\<rparr>) w)"
  by (rule refs_ok_invitations, assumption)
    (auto simp: pview_set_invite map_option_case split: if_splits option.splits dest: refs_okD(4))

lemma RemoveInvite_views:
  "pview (RemoveInvite h guid w) = (pview w)(guid := map_option (\<lambda>t. t\<lparr>lk_invite := None\<rparr>) (pview w guid))"
  "gview (RemoveInvite h guid w) = (gview w)(h := map_option (\<lambda>r. r\<lparr>lk_invitees := removeAll guid (lk_invitees r)\<rparr>) (gview w h))"
  "gw_next (RemoveInvite h guid w) = gw_next w"
  by (simp_all add: RemoveInvite_def pview_set_invite gview_set_invitees)

lemma refs_ok_RemoveInvite [simp]:
  assumes "refs_ok w"
  shows "refs_ok (RemoveInvite h guid w)"
proof (rule refs_ok_invitations [OF assms])
  fix p t h' assume "pview (RemoveInvite h guid w) p = Some t" "lk_invite t = Some h'"
  then have "pview w p = Some t" "p \<noteq> guid" by (auto simp: RemoveInvite_views split: if_splits)
  with refs_okD(4) [OF assms this(1) \<open>lk_invite t = Some h'\<close>]
  show "\<exists>r. gview (RemoveInvite h guid w) h' = Some r \<and> p \<in> set (lk_invitees r)" by (auto simp: RemoveInvite_views)
qed (auto simp: RemoveInvite_views option.map_comp o_def)

lemma clear_invites_views:
  "clear_invites ps w = Some w' \<Longrightarrow>
     (\<forall>p. pview w' p = (if p \<in> set ps then map_option (\<lambda>t. t\<lparr>lk_invite := None\<rparr>) (pview w p) else pview w p)) \<and>
     gview w' = gview w \<and> gw_next w' = gw_next w"
proof (induction ps arbitrary: w)
  case (Cons a ps)
  then have "clear_invites ps (at_player a (\<lambda>p. p\<lparr>gp_groupInvite := None\<rparr>) w) = Some w'" by (auto split: if_splits)
  from Cons.IH [OF this] show ?case by (auto simp: pview_set_invite option.map_comp o_def)
qed simp

lemma refs_ok_RemoveAllInvites:
  assumes w: "refs_ok w" and r: "RemoveAllInvites h w = Some w'"
  shows "refs_ok w' \<and> (\<forall>p t. pview w' p = Some t \<longrightarrow> lk_invite t \<noteq> Some h)"
proof -
  obtain g w1 where g: "gw_groups w h = Some g" and c: "clear_invites (m_invitees g) w = Some w1"
    and w': "w' = at_group h (\<lambda>g. g\<lparr>m_invitees := []\<rparr>) w1"
    using r by (auto simp: RemoveAllInvites_def split: bind_splits)
  have gv: "gview w h = Some (grefs g)" by (simp add: gview_def g)
  note v = clear_invites_views [OF c]
  have pv: "pview w' p = (if p \<in> set (m_invitees g) then map_option (\<lambda>t. t\<lparr>lk_invite := None\<rparr>) (pview w p) else pview w p)" for p
    using v by (simp add: w')
  have gv': "gview w' = (gview w)(h \<mapsto> (grefs g)\<lparr>lk_invitees := []\<rparr>)"
    using v gv gview_set_invitees [of h "\<lambda>_. []" w1] by (simp add: w')
  have 1: "lk_invite t \<noteq> Some h" if "pview w' p = Some t" for p t
  proof
    assume i: "lk_invite t = Some h"
    with that have "pview w p = Some t" "p \<notin> set (m_invitees g)" by (auto simp: pv split: if_splits)
    with refs_okD(4) [OF w this(1) i] gv show False by (simp add: grefs_def)
  qed
  have "refs_ok w'"
  proof (rule refs_ok_invitations [OF w])
    fix p t h' assume a: "pview w' p = Some t" "lk_invite t = Some h'"
    then have "h' \<noteq> h" using 1 [OF a(1)] by auto
    with a have "pview w p = Some t" by (auto simp: pv split: if_splits)
    with refs_okD(4) [OF w this a(2)] \<open>h' \<noteq> h\<close> show "\<exists>r. gview w' h' = Some r \<and> p \<in> set (lk_invitees r)" by (auto simp: gv')
  qed (use v in \<open>auto simp: w' pv [unfolded w'] gv' [unfolded w'] gv option.map_comp o_def\<close>)
  with 1 show ?thesis by blast
qed

lemma refs_ok_AddInvite:
  assumes w: "refs_ok w" and a: "AddInvite e h guid w = Some (b, w')"
  shows "refs_ok w'"
proof -
  let ?w = "RemoveInvite h guid w"
  consider "w' = w" | g where "gw_groups ?w h = Some g"
    "view w' = view (at_player guid (\<lambda>p. p\<lparr>gp_groupInvite := Some h\<rparr>) (put_group h (g\<lparr>m_invitees := guid # m_invitees g\<rparr>) ?w))"
    using a by (auto simp: AddInvite_def Let_def split: bind_splits if_splits)
  then show ?thesis
  proof cases
    case 1
    with w show ?thesis by simp
  next
    case 2
    define w2 where "w2 = at_player guid (\<lambda>p. p\<lparr>gp_groupInvite := Some h\<rparr>) (put_group h (g\<lparr>m_invitees := guid # m_invitees g\<rparr>) ?w)"
    have g: "gview ?w h = Some (grefs g)" using 2 by (simp add: gview_def)
    have gv: "gview w2 = (gview ?w)(h \<mapsto> (grefs g)\<lparr>lk_invitees := guid # lk_invitees (grefs g)\<rparr>)"
      by (simp add: w2_def grefs_def)
    have pv: "pview w2 = (pview ?w)(guid := map_option (\<lambda>t. t\<lparr>lk_invite := Some h\<rparr>) (pview ?w guid))"
      by (simp add: w2_def pview_set_invite)
    have ok: "refs_ok ?w" using w by simp
    have "refs_ok w2"
    proof (rule refs_ok_invitations [OF ok])
      fix p t h' assume t: "pview w2 p = Some t" "lk_invite t = Some h'"
      show "\<exists>r. gview w2 h' = Some r \<and> p \<in> set (lk_invitees r)"
      proof (cases "p = guid")
        case True
        with t have "h' = h" by (auto simp: pv)
        with True show ?thesis by (simp add: gv)
      next
        case False
        with t have "pview ?w p = Some t" by (simp add: pv)
        with refs_okD(4) [OF ok this t(2)] g show ?thesis by (auto simp: gv)
      qed
    next
      show "gw_next w2 = gw_next ?w" by (simp add: w2_def)
    qed (auto simp: pv gv g option.map_comp o_def)
    then show ?thesis using refs_ok_view [OF 2(2)] by (simp add: w2_def)
  qed
qed

lemma refs_ok_AddLeaderInvite:
  assumes "refs_ok w" "AddLeaderInvite e h guid w = Some (b, w')"
  shows "refs_ok w'"
proof -
  obtain b1 w1 where a: "AddInvite e h guid w = Some (b1, w1)" using assms(2) by (auto simp: AddLeaderInvite_def split: bind_splits)
  have "view w' = view w1"
    using assms(2) by (auto simp: AddLeaderInvite_def a grefs_def split: bind_splits if_splits intro!: view_at_group)
  from refs_ok_view [OF this] refs_ok_AddInvite [OF assms(1) a] show ?thesis by simp
qed

end
