(* ===== verification/GroupSafety.thy ===== *)
theory GroupSafety
  imports GroupRefs
begin

text \<open>
  Every operation and handler of groups keeps the references sound: after any sequence of them no player
  refers to a group that has been deleted, by membership or by invitation. Inviting oneself is the
  exception, and it leaves such a reference behind.
\<close>

subsection \<open>Operations on the group alone\<close>

lemma grefs_counters [simp]:
  "SubGroupCounterIncrease s g = Some g' \<Longrightarrow> grefs g' = grefs g"
  "SubGroupCounterDecrease s g = Some g' \<Longrightarrow> grefs g' = grefs g"
  by (auto simp: SubGroupCounterIncrease_def SubGroupCounterDecrease_def grefs_def split: option.splits)

lemma grefs_slots [simp]: "grefs (at_slot guid f g) = grefs g" "grefs (g\<lparr>m_memberSlots := ss\<rparr>) = grefs g"
  "grefs (g\<lparr>m_groupType := t\<rparr>) = grefs g" "grefs (g\<lparr>m_subGroupsCounts := c\<rparr>) = grefs g"
  "grefs (RemoveUniqueGroupMemberFlag fl g) = grefs g" "grefs (ReadyCheckMemberHasResponded guid g) = grefs g"
  "grefs (ReadyCheckResetResponded g) = grefs g" "grefs (g\<lparr>readyCheckInProgress := b\<rparr>) = grefs g"
  "grefs (g\<lparr>m_leaderGuid := l\<rparr>) = grefs g" "grefs (g\<lparr>m_leaderName := n\<rparr>) = grefs g" "grefs (g\<lparr>m_lootMethod := lm\<rparr>) = grefs g"
  "grefs (g\<lparr>m_guid := i\<rparr>) = grefs g" "grefs (g\<lparr>m_lootThreshold := lt\<rparr>) = grefs g" "grefs (g\<lparr>m_looterGuid := lo\<rparr>) = grefs g"
  "grefs (g\<lparr>m_dungeonDifficulty := d\<rparr>) = grefs g" "grefs (g\<lparr>m_raidDifficulty := d\<rparr>) = grefs g"
  "grefs (g\<lparr>m_dbStoreId := u\<rparr>) = grefs g" "grefs (g\<lparr>m_targetIcons := ic\<rparr>) = grefs g"
  "grefs (g\<lparr>m_worldMarkers := wm\<rparr>) = grefs g" "grefs (g\<lparr>RollId := ro\<rparr>) = grefs g"
  "grefs (g\<lparr>m_maxEnchantingLevel := ml\<rparr>) = grefs g" "grefs (SetLootMethod lm g) = grefs g"
  "grefs (SetLooterGuid lo g) = grefs g" "grefs (SetLootThreshold lt g) = grefs g"
  by (simp_all add: grefs_def at_slot_def RemoveUniqueGroupMemberFlag_def ReadyCheckMemberHasResponded_def
    ReadyCheckResetResponded_def SetLootMethod_def SetLooterGuid_def SetLootThreshold_def)

lemma grefs_composed [simp]:
  "initRaidSubGroupsCounter g = Some g' \<Longrightarrow> grefs g' = grefs g"
  "add_slot s guid n j g = Some g' \<Longrightarrow> grefs g' = grefs g"
  "remove_slot guid g = Some g' \<Longrightarrow> grefs g' = grefs g"
  "move_slot guid s g = Some g' \<Longrightarrow> grefs g' = grefs g"
  "create_header p guid i g = Some g' \<Longrightarrow> grefs g' = grefs g"
  "load_header r n g = Some g' \<Longrightarrow> grefs g' = grefs g"
proof -
  show i: "initRaidSubGroupsCounter g = Some g' \<Longrightarrow> grefs g' = grefs g" for g g'
    by (auto simp: initRaidSubGroupsCounter_def)
  show "add_slot s guid n j g = Some g' \<Longrightarrow> grefs g' = grefs g" by (auto simp: add_slot_def)
  show "remove_slot guid g = Some g' \<Longrightarrow> grefs g' = grefs g" by (auto simp: remove_slot_def split: option.splits)
  show "move_slot guid s g = Some g' \<Longrightarrow> grefs g' = grefs g"
    by (auto simp: move_slot_def Let_def split: bind_splits)
  show "create_header p guid i g = Some g' \<Longrightarrow> grefs g' = grefs g"
    using i by (force simp: create_header_def Let_def split: bind_splits if_splits)
  show "load_header r n g = Some g' \<Longrightarrow> grefs g' = grefs g"
    using i by (force simp: load_header_def Let_def split: bind_splits if_splits)
qed

lemma view_put [simp]: "gw_groups w h = Some g0 \<Longrightarrow> grefs g = grefs g0 \<Longrightarrow> view (put_group h g w) = view w"
  by (rule view_put_group)

lemma prefs_frame [simp]:
  "prefs (p\<lparr>gp_leaderFlag := b\<rparr>) = prefs p" "prefs (p\<lparr>gp_dungeonDifficulty := d\<rparr>) = prefs p"
  "prefs (p\<lparr>gp_raidDifficulty := d\<rparr>) = prefs p" "prefs (p\<lparr>gp_readyCheckTimer := t\<rparr>) = prefs p"
  "prefs (p\<lparr>gp_passOnGroupLoot := b\<rparr>) = prefs p" "prefs (p\<lparr>gp_inWorld := b\<rparr>) = prefs p"
  by (simp_all add: prefs_def)

lemma refs_ok_put: "refs_ok w \<Longrightarrow> gw_groups w h = Some g0 \<Longrightarrow> grefs g = grefs g0 \<Longrightarrow> refs_ok (put_group h g w)"
  using refs_ok_view [OF view_put_group] by blast

lemma refs_ok_put_same: "map_option grefs (gw_groups w h) = Some (grefs g) \<Longrightarrow> refs_ok (put_group h g w) = refs_ok w"
  using refs_ok_view [OF view_put_group] by fastforce

lemma refs_ok_at [simp]:
  "(\<And>p. prefs (f p) = prefs p) \<Longrightarrow> refs_ok (at_player guid f w) = refs_ok w"
  "(\<And>g. grefs (k g) = grefs g) \<Longrightarrow> refs_ok (at_group h k w) = refs_ok w"
  using refs_ok_view [OF view_at_player] refs_ok_view [OF view_at_group] by blast+

subsection \<open>Adding members\<close>

lemma refs_ok_refer_member: "refs_ok w \<Longrightarrow> refer_member g h guid s p w = Some w' \<Longrightarrow> refs_ok w'"
  by (auto simp: refer_member_def Player_SetOriginalGroup_def Player_SetGroup_def split: if_splits
    dest: refs_ok_raid(1) [rotated] refs_ok_set_ref [rotated])

lemma refs_ok_adopt_difficulty [simp]: "refs_ok (adopt_difficulty g guid w) = refs_ok w"
  by (auto simp: adopt_difficulty_def Let_def split: option.split)

lemma refs_ok_AddMember:
  assumes w: "refs_ok w" and a: "AddMember e h guid w = Some (b, w')"
  shows "refs_ok w'"
proof -
  obtain g p where g: "gw_groups w h = Some g" and p: "gw_players w guid = Some p"
    using a by (auto simp: AddMember_def split: bind_splits)
  show ?thesis
  proof (cases "choose_subgroup g")
    case None
    with a g p w show ?thesis by (simp add: AddMember_def)
  next
    case (Some s)
    obtain g' w1 where g': "add_slot s guid (gp_name p) (ge_junk e) g = Some g'"
      and w1: "refer_member g h guid s p (at_player guid (\<lambda>p. p\<lparr>gp_groupInvite := None\<rparr>) (put_group h g' w)) = Some w1"
      using a by (auto simp: AddMember_def g p Some Let_def split: bind_splits)
    have "refs_ok (put_group h g' w)" using refs_ok_put [OF w g] g' by simp
    then have "refs_ok w1" using refs_ok_refer_member [OF _ w1] by simp
    then show ?thesis using a by (auto simp: AddMember_def g p Some Let_def g' w1)
  qed
qed

lemma refs_ok_Create:
  assumes w: "refs_ok w" and c: "Create e h guid w = Some (b, w')"
  shows "refs_ok w'"
proof -
  obtain leader g i wi g' where l: "gw_players w guid = Some leader" and g: "gw_groups w h = Some g"
    and i: "GenerateGroupId w = (i, wi)" and g': "create_header leader guid (MAKE_NEW_GUID i 0 HIGHGUID_GROUP) g = Some g'"
    using c by (auto simp: Create_def split: bind_splits prod.splits)
  define w1 where "w1 = at_player guid (\<lambda>p. p\<lparr>gp_leaderFlag := True\<rparr>) (put_group h g' wi)"
  have gi: "gw_groups wi h = Some g" using i g by (auto simp: GenerateGroupId_def)
  have wi: "refs_ok wi" using w view_managers(3) [OF i] refs_ok_view by blast
  have w1: "refs_ok w1" using refs_ok_put [OF wi gi] g' by (simp add: w1_def)
  have h1: "gw_groups w1 h = Some g'" by (simp add: w1_def at_player_def put_group_def)
  show ?thesis
  proof (cases "isBGGroup g' \<or> isBFGroup g'")
    case True
    then have "AddMember e h guid w1 = Some (b, w')" using c by (auto simp: Create_def l g i g' w1_def Let_def)
    with w1 show ?thesis by (rule refs_ok_AddMember)
  next
    case False
    obtain s bb w2 where s: "GenerateNewGroupDbStoreId w1 = (s, bb, w2)" by (metis prod_cases3)
    let ?g = "g'\<lparr>m_dungeonDifficulty := gp_dungeonDifficulty leader, m_raidDifficulty := gp_raidDifficulty leader, m_dbStoreId := s\<rparr>"
    have h2: "gw_groups w2 h = Some g'" using s h1 by (auto simp: GenerateNewGroupDbStoreId_def Let_def)
    have w2: "refs_ok w2" using w1 view_managers(4) [OF s] refs_ok_view by blast
    have "refs_ok (put_group h ?g w2)" by (rule refs_ok_put [OF w2 h2]) simp
    moreover obtain w3 m where w3: "RegisterGroupDbStoreId s h (put_group h ?g w2) = Some w3" and
      add: "AddMember e h guid (sql m w3) = Some (b, w')"
      using c False by (auto simp: Create_def l g i g' s w1_def [symmetric] Let_def split: bind_splits if_splits)
    moreover have "refs_ok w3" using calculation(1) view_managers(5) [OF w3] refs_ok_view by blast
    ultimately show ?thesis using refs_ok_AddMember [OF _ add] by simp
  qed
qed

subsection \<open>Leader, disbanding, removing\<close>

lemma refs_ok_ChangeLeader:
  assumes "ChangeLeader e h guid w = Some w'"
  shows "refs_ok w' = refs_ok w"
  using assms by (auto simp: ChangeLeader_def Let_def if_distrib [of refs_ok] split: bind_splits option.splits if_splits)

lemma refs_ok_pick_leader: "pick_leader e h w = Some w' \<Longrightarrow> refs_ok w' = refs_ok w"
  by (auto simp: pick_leader_def split: bind_splits option.splits dest: refs_ok_ChangeLeader)

lemma refs_ok_depart:
  "refs_ok w \<Longrightarrow>
    (if b then RemoveFromBattlegroundOrBattlefieldRaid guid w
     else if c then Player_SetOriginalGroup guid None w else Player_SetGroup guid None w) = Some w' \<Longrightarrow> refs_ok w'"
  by (auto simp: Player_SetOriginalGroup_def Player_SetGroup_def split: if_splits
    dest: refs_ok_raid(2) [rotated] refs_ok_set_ref [rotated])

lemma refs_ok_dismiss:
  assumes w: "refs_ok w" and d: "dismiss h hide guid w = Some w'"
  shows "refs_ok w'"
proof (cases "FindPlayer guid w")
  case None
  with w d show ?thesis by (simp add: dismiss_def)
next
  case (Some p)
  then obtain g w1 where
    "(if isBGGroup g \<or> isBFGroup g then RemoveFromBattlegroundOrBattlefieldRaid guid w
      else if gp_originalGroup p = Some h then Player_SetOriginalGroup guid None w else Player_SetGroup guid None w) = Some w1"
    and "view w' = view w1"
    using d by (auto simp: dismiss_def Let_def split: bind_splits option.splits)
  with refs_ok_depart [OF w this(1)] refs_ok_view show ?thesis by blast
qed

lemma refs_ok_dismiss_all: "refs_ok w \<Longrightarrow> dismiss_all h hide gs w = Some w' \<Longrightarrow> refs_ok w'"
  by (induction gs arbitrary: w) (auto split: option.splits dest: refs_ok_dismiss)

lemma delete_uninvited:
  "refs_ok w \<Longrightarrow> RemoveAllInvites h w = Some w1 \<Longrightarrow> view w2 = view w1 \<Longrightarrow> refs_ok (delete_group h w2)"
  using refs_ok_RemoveAllInvites [of w h w1] refs_ok_view [of w2 w1] by (auto simp: view_def intro!: refs_ok_delete_group)

lemma refs_ok_Disband:
  assumes w: "refs_ok w" and d: "Disband e h hide w = Some w'"
  shows "refs_ok w'"
proof -
  obtain g where g: "gw_groups w h = Some g" using d by (auto simp: Disband_def split: bind_splits)
  obtain w1 where 1: "dismiss_all h hide (map ms_guid (m_memberSlots g)) (on_lfg (OnDisband (lfg_of e w) (m_guid g)) w) = Some w1"
    using d by (auto simp: Disband_def g Let_def split: bind_splits)
  obtain w2 where 2: "RemoveAllInvites h (at_group h (\<lambda>g. g\<lparr>RollId := [], m_memberSlots := []\<rparr>) w1) = Some w2"
    using d by (auto simp: Disband_def g 1 Let_def split: bind_splits)
  obtain w3 where 3: "view w3 = view w2" "w' = delete_group h (RemoveGroup g w3)"
    using d by (auto simp: Disband_def g 1 2 Let_def split: bind_splits if_splits dest!: view_managers(6))
  have "refs_ok w1" using refs_ok_dismiss_all [OF _ 1] w by simp
  then have "refs_ok (at_group h (\<lambda>g. g\<lparr>RollId := [], m_memberSlots := []\<rparr>) w1)" by simp
  from delete_uninvited [OF this 2, of "RemoveGroup g w3"] 3 show ?thesis by simp
qed

lemma refs_ok_take_leave:
  assumes w: "refs_ok w" and t: "take_leave h guid method w = Some w'"
  shows "refs_ok w'"
proof (cases "FindPlayer guid w")
  case None
  with w t show ?thesis by (simp add: take_leave_def)
next
  case (Some p)
  then obtain g w1 where
    "(if isBGGroup g \<or> isBFGroup g then RemoveFromBattlegroundOrBattlefieldRaid guid w
      else if gp_originalGroup p = Some h then Player_SetOriginalGroup guid None w else Player_SetGroup guid None w) = Some w1"
    and "view w' = view w1"
    using t by (auto simp: take_leave_def Let_def split: bind_splits)
  with refs_ok_depart [OF w this(1)] refs_ok_view show ?thesis by blast
qed

lemma view_leave_roll: "leave_roll e h guid i w = Some w' \<Longrightarrow> view w' = view w"
  by (auto simp: leave_roll_def Let_def split: bind_splits if_splits option.splits dest: view_CountRollVote)

lemma refs_ok_ResetMaxEnchantingLevel [simp]: "refs_ok (ResetMaxEnchantingLevel h w) = refs_ok w"
  by (simp add: ResetMaxEnchantingLevel_def)

lemma refs_ok_drop:
  "refs_ok w \<Longrightarrow> refs_ok (delete_membership h guid w)" "refs_ok (reset_enchanting h guid w) = refs_ok w"
  "leave_rolls e h guid w = Some w' \<Longrightarrow> refs_ok w' = refs_ok w"
proof -
  show "leave_rolls e h guid w = Some w' \<Longrightarrow> refs_ok w' = refs_ok w"
    by (auto simp: leave_rolls_def split: bind_splits intro!: refs_ok_view dest!: view_each_slot [rotated] view_leave_roll)
qed (auto simp: delete_membership_def reset_enchanting_def split: option.split)

lemma refs_ok_drop_slot:
  assumes "refs_ok w" "drop_slot e h guid w = Some w'"
  shows "refs_ok w'"
proof -
  obtain g g' where g: "gw_groups w h = Some g" and g': "remove_slot guid g = Some g'"
    using assms(2) by (auto simp: drop_slot_def split: bind_splits)
  have "refs_ok (put_group h g' w)" using refs_ok_put [OF assms(1) g] g' by simp
  then show ?thesis using assms(2) by (auto simp: drop_slot_def g g' Let_def split: if_splits dest: refs_ok_pick_leader)
qed

lemma refs_ok_close_group: "refs_ok w \<Longrightarrow> close_group e h w = Some (b, w') \<Longrightarrow> refs_ok w'"
  by (auto simp: close_group_def Let_def split: bind_splits if_splits dest: refs_ok_Disband)

lemma refs_ok_RemoveMember:
  assumes w: "refs_ok w" and r: "RemoveMember e h guid method kicker reason w = Some (b, w')"
  shows "refs_ok w'"
proof -
  obtain g where g: "gw_groups w h = Some g" using r by (auto simp: RemoveMember_def split: bind_splits)
  define w0 where "w0 = on_lfg (OnRemoveMember (lfg_of e w) (isLFGGroup g) (m_guid g) guid method kicker reason) w"
  have w0: "refs_ok w0" using w by (simp add: w0_def)
  consider (kick) "w' = w0" | (disband) "Disband e h False w0 = Some w'"
    | (leave) w1 w2 w3 where "take_leave h guid method w0 = Some w1"
        "leave_rolls e h guid (reset_enchanting h guid (delete_membership h guid w1)) = Some w2"
        "drop_slot e h guid w2 = Some w3" "close_group e h (SendUpdate h w3) = Some (b, w')"
    using r unfolding RemoveMember_def g Option.bind.bind_lunit Let_def w0_def [symmetric]
    by (auto split: bind_splits if_splits)
  then show ?thesis
  proof cases
    case kick
    with w0 show ?thesis by simp
  next
    case disband
    with w0 show ?thesis by (rule refs_ok_Disband)
  next
    case leave
    have "refs_ok (delete_membership h guid w1)" using refs_ok_drop(1) refs_ok_take_leave [OF w0 leave(1)] by blast
    then have "refs_ok w2" using refs_ok_drop(2) refs_ok_drop(3) [OF leave(2)] by blast
    then have "refs_ok (SendUpdate h w3)" using refs_ok_drop_slot [OF _ leave(3)] by simp
    then show ?thesis by (rule refs_ok_close_group [OF _ leave(4)])
  qed
qed

subsection \<open>Group data\<close>

lemma refs_ok_convert:
  "refs_ok (ConvertToLFG h w) = refs_ok w"
  "refs_ok w \<Longrightarrow> ConvertToRaid h w = Some w' \<Longrightarrow> refs_ok w'"
  "refs_ok w \<Longrightarrow> ConvertToGroup h w = Some w' \<Longrightarrow> refs_ok w'"
  by (auto simp: ConvertToLFG_def ConvertToRaid_def ConvertToGroup_def Let_def split: bind_splits option.splits if_splits
    intro!: refs_ok_put dest!: grefs_composed(1))

lemma refs_ok_ChangeMembersGroup: "refs_ok w \<Longrightarrow> ChangeMembersGroup h guid s w = Some w' \<Longrightarrow> refs_ok w'"
  by (auto simp: ChangeMembersGroup_def Let_def split: bind_splits option.splits if_splits
    intro!: refs_ok_put dest!: grefs_composed(4))

lemma refs_ok_setMembersGroup: "refs_ok w \<Longrightarrow> setMembersGroup h guid s w = Some (b, w') \<Longrightarrow> refs_ok w'"
  by (auto simp: setMembersGroup_def Let_def split: bind_splits option.splits if_splits
    intro!: refs_ok_put dest!: grefs_counters(1))

lemma refs_ok_flags [simp]:
  "refs_ok w \<Longrightarrow> refs_ok (SetGroupMemberFlag h guid b f w)"
  "refs_ok w \<Longrightarrow> refs_ok (SetMemberRole h guid r w)" "refs_ok w \<Longrightarrow> refs_ok (SetLfgRoles h guid r8 w)"
  by (auto simp: SetGroupMemberFlag_def SetMemberRole_def SetLfgRoles_def Let_def intro!: refs_ok_put split: option.split)

lemma refs_ok_fold: "(\<And>x w. refs_ok w \<Longrightarrow> refs_ok (f x w)) \<Longrightarrow> refs_ok w \<Longrightarrow> refs_ok (fold f xs w)"
  by (induction xs arbitrary: w) simp_all

lemma refs_ok_difficulty [simp]:
  "refs_ok w \<Longrightarrow> refs_ok (SetDungeonDifficulty h d w)" "refs_ok w \<Longrightarrow> refs_ok (SetRaidDifficulty h d w)"
  by (auto simp: SetDungeonDifficulty_def SetRaidDifficulty_def each_member_def Let_def
    intro!: refs_ok_put refs_ok_fold split: option.split)

lemma refs_ok_UpdateLooterGuid [simp]: "refs_ok (UpdateLooterGuid near h n w) = refs_ok w"
  by (auto simp: UpdateLooterGuid_def Let_def split: option.split)

subsection \<open>Loot\<close>

lemma view_open_roll: "(\<And>r w. view (ann r w) = view w) \<Longrightarrow> open_roll ro pa ann m h la i it w = Some w' \<Longrightarrow> view w' = view w"
  by (auto simp: open_roll_def Let_def split: bind_splits if_splits)

lemma view_announce [simp]: "view (announce_group m r w) = view w" "view (announce_need c m r w) = view w"
  by (auto simp: announce_group_def announce_need_def intro!: view_fold)

lemma view_items:
  "group_item e al ne m h la i w = Some w' \<Longrightarrow> view w' = view w"
  "group_quest_item e al ne m h la i w = Some w' \<Longrightarrow> view w' = view w"
  "need_item e al ne cn m h la i w = Some w' \<Longrightarrow> view w' = view w"
  "need_quest_item e al ne cn m h la i w = Some w' \<Longrightarrow> view w' = view w"
  by (auto simp: group_item_def group_quest_item_def need_item_def need_quest_item_def split: bind_splits if_splits option.splits
    dest!: view_open_roll [rotated])

lemma view_loot:
  "GroupLoot e al ne m h la w = Some w' \<Longrightarrow> view w' = view w"
  "NeedBeforeGreed e al ne cn m h la w = Some w' \<Longrightarrow> view w' = view w"
  "MasterLoot ne h w = Some w' \<Longrightarrow> view w' = view w"
  by (auto simp: GroupLoot_def NeedBeforeGreed_def MasterLoot_def Let_def split: bind_splits intro!: view_fold
    dest!: view_each_slot [rotated] view_items)

subsection \<open>Loading\<close>

lemma refs_ok_LoadGroupFromDB:
  assumes w: "refs_ok w" and l: "LoadGroupFromDB names h r w = Some w'"
  shows "refs_ok w'"
proof -
  obtain i w0 where i: "GenerateGroupId w = (i, w0)" by force
  define w1 where "w1 = at_group h (\<lambda>g. g\<lparr>m_dbStoreId := gr_guid r, m_guid := MAKE_NEW_GUID i 0 HIGHGUID_GROUP,
    m_leaderGuid := MAKE_NEW_GUID (gr_leaderGuid r) 0 HIGHGUID_PLAYER\<rparr>) w0"
  have "refs_ok w0" using w view_managers(3) [OF i] refs_ok_view by blast
  then have w1: "refs_ok w1" by (simp add: w1_def)
  show ?thesis
  proof (cases "names (ucast (gr_leaderGuid r))")
    case None
    with l w1 show ?thesis by (simp add: LoadGroupFromDB_def i Let_def w1_def)
  next
    case (Some name)
    then obtain g g' where "gw_groups w1 h = Some g" "load_header r name g = Some g'" "view w' = view (put_group h g' w1)"
      using l unfolding LoadGroupFromDB_def i Let_def prod.case w1_def [symmetric] by (auto split: bind_splits)
    with refs_ok_put [OF w1 this(1)] refs_ok_view show ?thesis using grefs_composed(6) by blast
  qed
qed

lemma refs_ok_LoadMemberFromDB: "refs_ok w \<Longrightarrow> LoadMemberFromDB e names h low f s r w = Some w' \<Longrightarrow> refs_ok w'"
  by (auto simp: LoadMemberFromDB_def Let_def split: option.splits bind_splits intro!: refs_ok_put dest!: grefs_counters(1))

lemma refs_ok_load_groups: "refs_ok w \<Longrightarrow> load_groups names rs w = Some w' \<Longrightarrow> refs_ok w'"
proof (induction names rs w rule: load_groups.induct)
  case (2 names r rs w)
  obtain h w0 where n: "new_group w = (h, w0)" by force
  obtain w1 g w2 where 1: "LoadGroupFromDB names h r w0 = Some w1" and g: "gw_groups w1 h = Some g"
    and 2: "RegisterGroupDbStoreId (m_dbStoreId g) h (AddGroup h g w1) = Some w2"
    and 3: "load_groups names rs (if m_dbStoreId g = NextGroupDbStoreId w2
           then w2\<lparr>NextGroupDbStoreId := NextGroupDbStoreId w2 + 1\<rparr> else w2) = Some w'"
    using "2.prems"(2) by (auto simp: n split: bind_splits)
  have "refs_ok w1" using refs_ok_LoadGroupFromDB [OF refs_ok_new_group [OF "2.prems"(1) n] 1] .
  then have "refs_ok w2" using view_managers(5) [OF 2] refs_ok_view [of w2 "AddGroup h g w1"] by simp
  then show ?case using "2.IH" [OF n [symmetric] _ 1 g 2 _ 3] by simp
qed simp

lemma refs_ok_load_members: "refs_ok w \<Longrightarrow> load_members e names rs w = Some w' \<Longrightarrow> refs_ok w'"
  by (induction e names rs w rule: load_members.induct)
    (auto split: bind_splits option.splits dest: refs_ok_LoadMemberFromDB [rotated])

lemma refs_ok_LoadGroups: "refs_ok w \<Longrightarrow> LoadGroups e names gs ms w = Some w' \<Longrightarrow> refs_ok w'"
  by (auto simp: LoadGroups_def split: if_splits bind_splits dest: refs_ok_load_groups refs_ok_load_members)

subsection \<open>Handlers\<close>

lemma refs_ok_with_group:
  assumes "refs_ok w" and "with_group me f w = Some w'"
    and "\<And>h g w'. gw_groups w h = Some g \<Longrightarrow> f h g w = Some w' \<Longrightarrow> refs_ok w'"
  shows "refs_ok w'"
  using assms by (auto simp: with_group_def split: bind_splits option.splits)

lemma refs_ok_UninviteFromGroup:
  assumes "refs_ok w" and "UninviteFromGroup e guid w = Some w'"
  shows "refs_ok w'"
  using assms by (auto simp: UninviteFromGroup_def Let_def split: bind_splits option.splits if_splits
    dest: refs_ok_Disband [rotated] intro: delete_uninvited [OF refs_ok_RemoveInvite _ refl])

lemma refs_ok_accept_invite:
  assumes w: "refs_ok w" and a: "accept_invite e h guid w = Some w'"
  shows "refs_ok w'"
proof -
  obtain g where g: "gw_groups w h = Some g" using a by (auto simp: accept_invite_def split: bind_splits)
  let ?w = "RemoveInvite h guid w" and ?l = "m_leaderGuid g"
  have ok: "refs_ok ?w" using w by simp
  consider "view w' = view ?w" | "RemoveAllInvites h ?w = Some w'"
    | b where "IsCreated g" "AddMember e h guid ?w = Some (b, w')"
    | b b1 w1 g1 where "Create e h ?l (RemoveInvite h ?l ?w) = Some (b1, w1)" "AddMember e h guid (AddGroup h g1 w1) = Some (b, w')"
    using a unfolding accept_invite_def g Option.bind.bind_lunit Let_def by (auto split: if_splits bind_splits)
  then show ?thesis
  proof cases
    case 1
    with ok refs_ok_view show ?thesis by blast
  next
    case 2
    with ok refs_ok_RemoveAllInvites show ?thesis by blast
  next
    case 3
    with ok refs_ok_AddMember show ?thesis by blast
  next
    case 4
    have "refs_ok w1" using refs_ok_Create [OF _ 4(1)] ok by simp
    then show ?thesis using refs_ok_AddMember [OF _ 4(2)] by simp
  qed
qed

lemma refs_ok_response: "refs_ok w \<Longrightarrow> HandleGroupInviteResponse e acc guid w = Some w' \<Longrightarrow> refs_ok w'"
  by (auto simp: HandleGroupInviteResponse_def Let_def split: bind_splits option.splits if_splits
    dest: refs_ok_accept_invite [rotated] refs_ok_UninviteFromGroup [rotated])

text \<open>Inviting somebody else into a new group never fails half way.\<close>

lemma AddInvite_frame:
  assumes "AddInvite e h guid w = Some (b, w')" and "other \<noteq> guid"
  shows "gw_players w' other = gw_players w other" "x \<noteq> h \<Longrightarrow> gw_groups w' x = gw_groups w x"
  using assms by (auto simp: AddInvite_def Let_def RemoveInvite_def at_player_def at_group_def put_group_def on_lfg_def
    split: bind_splits if_splits)

lemma refs_ok_invite_to_new:
  assumes w: "refs_ok w" and other: "target \<noteq> inviter" and i: "invite_to_new e inviter target w = Some (b, w')"
    and you: "gw_players w target = Some you" "gp_groupInvite you = None" "handler_group you w = Some None"
  shows "refs_ok w'"
proof -
  obtain h w0 where n: "new_group w = (h, w0)" by force
  note v = new_group_views [OF n]
  have w0: "refs_ok w0" by (rule refs_ok_new_group [OF w n])
  have fresh: "gw_groups w h = None" using refs_okD(5) [OF w, of h] v(3) by (simp add: gview_def)
  obtain b1 w1 where a: "AddLeaderInvite e h inviter w0 = Some (b1, w1)"
    using i by (auto simp: invite_to_new_def n split: bind_splits)
  have w1: "refs_ok w1" by (rule refs_ok_AddLeaderInvite [OF w0 a])
  show ?thesis
  proof (cases b1)
    case False
    have "w1 = w0" using a False by (auto simp: AddLeaderInvite_def AddInvite_def Let_def split: bind_splits if_splits)
    have "lk_invite t \<noteq> Some h" if "pview w1 p = Some t" for p t
      using refs_okD(4) [OF w, of p t h] that fresh by (auto simp: \<open>w1 = w0\<close> v gview_def)
    from refs_ok_delete_group [OF w1 this] False i show ?thesis by (auto simp: invite_to_new_def n a)
  next
    case True
    have "gw_players w1 target = gw_players w0 target" "x \<noteq> h \<Longrightarrow> gw_groups w1 x = gw_groups w0 x" for x
      using a AddInvite_frame [OF _ other] by (fastforce simp: AddLeaderInvite_def at_group_def split: bind_splits if_splits)+
    moreover have "gw_players w0 = gw_players w" "x \<noteq> h \<Longrightarrow> gw_groups w0 x = gw_groups w x" for x
      using n by (auto simp: new_group_def)
    ultimately have t: "gw_players w1 target = Some you" and gr: "x \<noteq> h \<Longrightarrow> gw_groups w1 x = gw_groups w x" for x
      using you by simp_all
    have "invite_group you w1 = Some None"
    proof (cases "gp_group you")
      case None
      then show ?thesis by (simp add: invite_group_def)
    next
      case (Some x)
      with you obtain g where "gw_groups w x = Some g" "isBGGroup g" "gp_originalGroup you = None"
        by (auto simp: handler_group_def split: if_splits)
      with Some gr [of x] fresh show ?thesis by (cases "x = h") (auto simp: invite_group_def)
    qed
    then have "\<forall>w2. AddInvite e h target w1 \<noteq> Some (False, w2)"
      by (auto simp: AddInvite_def t you Let_def split: bind_splits)
    then obtain w2 where "AddInvite e h target w1 = Some (True, w2)" "w' = w2"
      using i True by (auto simp: invite_to_new_def n a split: bind_splits if_splits)
    with refs_ok_AddInvite [OF w1] show ?thesis by blast
  qed
qed

lemma refs_ok_HandleGroupInvite:
  assumes w: "refs_ok w" and other: "if_target f \<noteq> Some inviter" and i: "HandleGroupInvite e f name inviter w = Some w'"
  shows "refs_ok w'"
proof (cases "invite_refusal f")
  case (Some r)
  with w i show ?thesis by (auto simp: HandleGroupInvite_def)
next
  case None
  then obtain target me you g1 g2 where t: "if_target f = Some target" and me: "gw_players w inviter = Some me"
    and you: "gw_players w target = Some you" and g1: "handler_group me w = Some g1" and g2: "handler_group you w = Some g2"
    using i by (auto simp: HandleGroupInvite_def split: bind_splits)
  note h = i [unfolded HandleGroupInvite_def None option.case t me you g1 g2 Option.bind.bind_lunit]
  show ?thesis
  proof (cases "g2 \<noteq> None \<or> gp_groupInvite you \<noteq> None")
    case True
    with h w show ?thesis by (auto simp: Let_def split: if_splits)
  next
    case False
    then have u: "gp_groupInvite you = None" "handler_group you w = Some None" using g2 by auto
    show ?thesis
    proof (cases g1)
      case None
      with h False obtain b w1 where "invite_to_new e inviter target w = Some (b, w1)"
        and v: "view w' = view w1"
        by (auto split: bind_splits if_splits)
      with refs_ok_invite_to_new [OF w _ this(1) you u] other t refs_ok_view [OF v] show ?thesis by auto
    next
      case (Some x)
      with h False w consider "view w' = view w" | b w1 where "AddInvite e x target w = Some (b, w1)" "view w' = view w1"
        by (auto split: bind_splits if_splits)
      then show ?thesis using w refs_ok_view [of w'] refs_ok_AddInvite [OF w] by cases blast+
    qed
  qed
qed

lemma refs_ok_RemoveFromGroup: "refs_ok w \<Longrightarrow> RemoveFromGroup e t guid m k r w = Some w' \<Longrightarrow> refs_ok w'"
  by (auto simp: RemoveFromGroup_def split: option.splits dest: refs_ok_RemoveMember)

lemma refs_ok_leaving:
  "refs_ok w \<Longrightarrow> HandleGroupUninviteGuid e ic ib guid reason me w = Some w' \<Longrightarrow> refs_ok w'"
  "refs_ok w \<Longrightarrow> HandleGroupDisband e ib me w = Some w' \<Longrightarrow> refs_ok w'"
  by (auto simp: HandleGroupUninviteGuid_def HandleGroupDisband_def Let_def split: bind_splits option.splits if_splits
    dest: refs_ok_RemoveFromGroup [rotated] refs_ok_UninviteFromGroup [rotated])

lemma refs_ok_orders:
  "refs_ok w \<Longrightarrow> HandleGroupSetLeader e guid me w = Some w' \<Longrightarrow> refs_ok w'"
  "refs_ok w \<Longrightarrow> HandleGroupSetRoles role guid me w = Some w' \<Longrightarrow> refs_ok w'"
  "refs_ok w \<Longrightarrow> HandleLootMethod lm lt lo me w = Some w' \<Longrightarrow> refs_ok w'"
  "refs_ok w \<Longrightarrow> HandleLootRoll e guid ty me w = Some w' \<Longrightarrow> refs_ok w'"
  "refs_ok w \<Longrightarrow> HandleRaidTargetUpdate x ic guid me w = Some w' \<Longrightarrow> refs_ok w'"
  "refs_ok w \<Longrightarrow> HandleGroupRaidConvert tr ib me w = Some w' \<Longrightarrow> refs_ok w'"
  "refs_ok w \<Longrightarrow> HandleGroupChangeSubGroup guid nr me w = Some w' \<Longrightarrow> refs_ok w'"
  "refs_ok w \<Longrightarrow> HandleGroupAssistantLeader guid b me w = Some w' \<Longrightarrow> refs_ok w'"
  "refs_ok w \<Longrightarrow> HandlePartyAssignment as b guid me w = Some w' \<Longrightarrow> refs_ok w'"
  "refs_ok w \<Longrightarrow> HandleSetEveryoneIsAssistant b me w = Some w' \<Longrightarrow> refs_ok w'"
  "refs_ok w \<Longrightarrow> HandleClearWorldMarker slot me w = Some w' \<Longrightarrow> refs_ok w'"
proof -
  show "refs_ok w'" if "refs_ok w" "HandleGroupSetLeader e guid me w = Some w'"
    using that unfolding HandleGroupSetLeader_def
    by (rule refs_ok_with_group) (auto split: option.splits if_splits simp: that dest!: refs_ok_ChangeLeader)
  show "refs_ok w'" if "refs_ok w" "HandleGroupSetRoles role guid me w = Some w'"
    using that unfolding HandleGroupSetRoles_def
    by (rule refs_ok_with_group) (auto split: option.splits if_splits simp: that)
  show "refs_ok w'" if "refs_ok w" "HandleLootMethod lm lt lo me w = Some w'"
    using that unfolding HandleLootMethod_def by (rule refs_ok_with_group) (auto split: if_splits simp: that)
  show "refs_ok w'" if "refs_ok w" "HandleLootRoll e guid ty me w = Some w'"
    using that unfolding HandleLootRoll_def
    by (rule refs_ok_with_group) (use that in \<open>auto dest!: view_CountRollVote refs_ok_view\<close>)
  show "refs_ok w'" if "refs_ok w" "HandleRaidTargetUpdate x ic guid me w = Some w'"
    using that unfolding HandleRaidTargetUpdate_def
    by (rule refs_ok_with_group)
      (use that in \<open>auto split: prod.splits if_splits simp: SetTargetIcon_def Let_def intro!: refs_ok_fold refs_ok_put\<close>)
  show "refs_ok w'" if "refs_ok w" "HandleGroupRaidConvert tr ib me w = Some w'"
    using that unfolding HandleGroupRaidConvert_def
    by (rule refs_ok_with_group) (use that in \<open>auto simp: Let_def split: if_splits dest: refs_ok_convert(2,3) [rotated]\<close>)
  show "refs_ok w'" if "refs_ok w" "HandleGroupChangeSubGroup guid nr me w = Some w'"
    using that unfolding HandleGroupChangeSubGroup_def
    by (rule refs_ok_with_group) (use that in \<open>auto split: if_splits dest: refs_ok_ChangeMembersGroup\<close>)
  show "refs_ok w'" if "refs_ok w" "HandleGroupAssistantLeader guid b me w = Some w'"
    using that unfolding HandleGroupAssistantLeader_def by (rule refs_ok_with_group) (auto split: if_splits simp: that)
  show "refs_ok w'" if "refs_ok w" "HandlePartyAssignment as b guid me w = Some w'"
    using that unfolding HandlePartyAssignment_def
    by (rule refs_ok_with_group) (auto split: if_splits simp: that Let_def)
  show "refs_ok w'" if "refs_ok w" "HandleSetEveryoneIsAssistant b me w = Some w'"
    using that unfolding HandleSetEveryoneIsAssistant_def
    by (rule refs_ok_with_group) (auto split: if_splits simp: that intro!: refs_ok_fold)
  show "refs_ok w'" if "refs_ok w" "HandleClearWorldMarker slot me w = Some w'"
    using that unfolding HandleClearWorldMarker_def
    by (rule refs_ok_with_group)
      (use that in \<open>auto split: prod.splits if_splits simp: ClearWorldMarker_def Let_def intro!: refs_ok_put\<close>)
qed

lemma refs_ok_ready_check:
  "refs_ok w \<Longrightarrow> HandleRaidReadyCheck me w = Some w' \<Longrightarrow> refs_ok w'"
  "refs_ok w \<Longrightarrow> HandleRaidReadyCheckConfirm st me w = Some w' \<Longrightarrow> refs_ok w'"
  "refs_ok w \<Longrightarrow> ReadyCheckComplete me w = Some w' \<Longrightarrow> refs_ok w'"
  "refs_ok w \<Longrightarrow> ready_check_tick t me w = Some w' \<Longrightarrow> refs_ok w'"
proof -
  have off: "refs_ok (OfflineReadyCheck h w) = refs_ok w" for h w
    by (auto simp: OfflineReadyCheck_def offline_response_def view_at_group intro!: refs_ok_view view_fold split: option.split)
  have fin: "refs_ok (SendReadyCheckCompleted h w) = refs_ok w" for h w
    by (simp add: SendReadyCheckCompleted_def split: option.split)
  show "refs_ok w'" if "refs_ok w" "HandleRaidReadyCheck me w = Some w'"
    using that unfolding HandleRaidReadyCheck_def
    by (rule refs_ok_with_group) (auto split: if_splits simp: that Let_def off)
  show "refs_ok w'" if "refs_ok w" "HandleRaidReadyCheckConfirm st me w = Some w'"
    using that unfolding HandleRaidReadyCheckConfirm_def
    by (rule refs_ok_with_group) (use that in \<open>auto split: if_splits simp: Let_def fin refs_ok_put_same\<close>)
  show complete: "refs_ok w'" if "refs_ok w" "ReadyCheckComplete me w = Some w'" for w w'
    using that unfolding ReadyCheckComplete_def
    by (rule refs_ok_with_group) (use that in \<open>auto split: if_splits simp: Let_def fin refs_ok_put_same\<close>)
  show "refs_ok w'" if "refs_ok w" "ready_check_tick t me w = Some w'"
    using that by (auto simp: ready_check_tick_def split: bind_splits if_splits dest: complete)
qed

subsection \<open>Entering and leaving the world\<close>

lemma refs_ok_rejoin:
  assumes w: "refs_ok w" and r: "rejoin h g me p w = Some w'"
  shows "refs_ok w'"
proof -
  define w0 where "w0 = (if IsLeader me g then at_player me (\<lambda>p. p\<lparr>gp_leaderFlag := True\<rparr>) w else w)"
  have w0: "refs_ok w0" using w by (simp add: w0_def)
  obtain w1 where 1: "set_ref me CurrentRef (Some (h, GetMemberGroup me g)) w0 = Some w1" and "view w' = view w1"
    using r unfolding rejoin_def Let_def w0_def [symmetric] Player_SetGroup_def
    by (auto simp: view_at_player split: bind_splits if_splits)
  then show ?thesis using refs_ok_set_ref [OF w0 1] refs_ok_view by blast
qed

lemma refs_ok_LoadGroup:
  assumes w: "refs_ok w" and l: "LoadGroup row me w = Some w'"
  shows "refs_ok w'"
proof -
  obtain p w1 where p: "gw_players w me = Some p"
    and 1: "(case Option.bind row (\<lambda>i. GetGroupByDbStoreId i w) of None \<Rightarrow> Some w
               | Some h \<Rightarrow> do { g \<leftarrow> gw_groups w h; rejoin h g me p w }) = Some w1" and v: "view w' = view w1"
    using l unfolding LoadGroup_def by (auto simp: view_at_player split: bind_splits if_splits)
  have "refs_ok w1" using 1 w refs_ok_rejoin [OF w] by (auto split: option.splits bind_splits)
  with refs_ok_view [OF v] show ?thesis by simp
qed

lemma refs_ok_delete_player:
  assumes w: "refs_ok w"
  shows "refs_ok (delete_player guid w)"
proof -
  define u where "u = unlink guid OriginalRef (unlink guid CurrentRef w)"
  have u: "refs_ok u" using w by (simp add: u_def)
  have unlinked: "tref k t = None" if "pview u guid = Some t" for t k
    using that unlink_views(1) [OF w, of guid CurrentRef] unlink_views(1) [OF refs_ok_unlink [OF w], of guid OriginalRef guid CurrentRef]
    by (cases k) (auto simp: u_def split: if_splits)
  have gone: "(guid, k) \<notin> set (lk_members r)" if "gview u h = Some r" for h r k
    using refs_okD(2) [OF u that, of guid k] unlinked by auto
  have pv: "pview (delete_player guid w) = (pview u)(guid := None)" and gv: "gview (delete_player guid w) = gview u"
    and nx: "gw_next (delete_player guid w) = gw_next u"
    by (auto simp: delete_player_def u_def Let_def pview_def gview_def)
  show ?thesis
    by (rule refs_okI) (use refs_okD [OF u] gone in \<open>fastforce simp: pv gv nx split: if_splits\<close>)+
qed

lemma refs_ok_LogoutPlayer:
  assumes w: "refs_ok w" and l: "LogoutPlayer e socket me w = Some w'"
  shows "refs_ok w'"
proof -
  obtain w1 w2 p where 1: "ReadyCheckComplete me w = Some w1" and 2: "UninviteFromGroup e me w1 = Some w2"
    and p: "gw_players w2 me = Some p"
    using l by (auto simp: LogoutPlayer_def split: bind_splits)
  have w2: "refs_ok w2" using refs_ok_UninviteFromGroup [OF refs_ok_ready_check(3) [OF w 1] 2] .
  obtain w3 where 3: "(case gp_group p of None \<Rightarrow> Some w2
               | Some h \<Rightarrow> do {
                   g \<leftarrow> gw_groups w2 h;
                   if \<not> isRaidGroup g \<and> socket then RemoveFromGroup e (Some h) me GROUP_REMOVEMETHOD_DEFAULT 0 [] w2 else Some w2 }) = Some w3"
    using l by (auto simp: LogoutPlayer_def 1 2 p split: bind_splits)
  obtain p3 where p3: "gw_players w3 me = Some p3"
    using l unfolding LogoutPlayer_def 1 2 p Option.bind.bind_lunit 3 by (auto split: bind_splits)
  define w4 where "w4 = (case gp_group p3 of None \<Rightarrow> w3 | Some h \<Rightarrow> ResetMaxEnchantingLevel h (SendUpdate h w3))"
  define w5 where "w5 = on_lfg (OnLogout (lfg_of e w4) (gp_group p3 \<noteq> None) me) w4"
  have w': "w' = delete_player me w5"
    using l unfolding LogoutPlayer_def 1 2 p Option.bind.bind_lunit 3 p3 Let_def w4_def [symmetric] w5_def [symmetric] by simp
  have "view w5 = view w3" by (simp add: w5_def w4_def ResetMaxEnchantingLevel_def view_at_group split: option.split)
  have "refs_ok w3" using 3 w2 refs_ok_RemoveFromGroup [OF w2] by (auto split: option.splits bind_splits if_splits)
  with refs_ok_view [OF \<open>view w5 = view w3\<close>] refs_ok_delete_player show ?thesis by (simp add: w')
qed

end
