(* ===== verification/GroupShape.thy ===== *)
theory GroupShape
  imports GroupSafety
begin

text \<open>
  What an operation does to the members of a group, apart from references, rolls and packets. An
  observer is a function of the group that the references, the rolls and the counters of packets do not
  change (\<open>core_observer\<close>), nor the invitations (\<open>observer\<close>); the operations of players and rolls then
  leave all observations alone. The observer used for rosters is \<open>shape\<close> of \<open>GroupTyped\<close>: the leader, the
  type, the counters and who sits in which subgroup.
\<close>

subsection \<open>Observers\<close>

definition observe :: "(Group \<Rightarrow> 'a) \<Rightarrow> GroupWorld \<Rightarrow> nat \<Rightarrow> 'a option" where
  "observe ob w h = map_option ob (gw_groups w h)"

lemma groups_invalidate [simp]: "gw_groups (fold invalidate rs w) = gw_groups w"
  by (induction rs arbitrary: w) (simp_all add: invalidate_def)

locale core_observer =
  fixes ob :: "Group \<Rightarrow> 'a"
  assumes ob_refs: "ob (g\<lparr>m_memberMgr := r\<rparr>) = ob g"
    and ob_rolls: "ob (g\<lparr>RollId := rs\<rparr>) = ob g"
    and ob_counter: "ob (g\<lparr>m_counter := c\<rparr>) = ob g"
    and ob_enchanting: "ob (g\<lparr>m_maxEnchantingLevel := lv\<rparr>) = ob g"
begin

abbreviation obs :: "GroupWorld \<Rightarrow> nat \<Rightarrow> 'a option" where
  "obs \<equiv> observe ob"

lemma obs_at_group: "(\<And>g. ob (f g) = ob g) \<Longrightarrow> obs (at_group h f w) = obs w"
  by (auto simp: observe_def fun_eq_iff option.map_comp o_def)

lemma obs_at_group_upd: "obs (at_group h f w) = (obs w)(h := map_option (ob \<circ> f) (gw_groups w h))"
  by (auto simp: observe_def fun_eq_iff option.map_comp)

lemma obs_put [simp]: "obs (put_group h g w) = (obs w)(h \<mapsto> ob g)"
  by (auto simp: observe_def fun_eq_iff)

lemma obs_simple [simp]:
  "obs (at_player p u w) = obs w" "obs (send_to guid m w) = obs w" "obs (sql s w) = obs w" "obs (on_lfg k w) = obs w"
  "obs (at_loot la l w) = obs w" "obs (w\<lparr>gw_hiItemGuid := x\<rparr>) = obs w" "obs (w\<lparr>gw_draws := n\<rparr>) = obs w"
  "obs (w\<lparr>NextGroupId := i\<rparr>) = obs w" "obs (w\<lparr>NextGroupDbStoreId := i\<rparr>) = obs w"
  "obs (w\<lparr>GroupDbStore := db\<rparr>) = obs w" "obs (w\<lparr>GroupStore := st\<rparr>) = obs w" "obs (w\<lparr>gw_loots := lo\<rparr>) = obs w"
  "obs (w\<lparr>gw_players := ps\<rparr>) = obs w"
  by (simp_all add: observe_def at_loot_def fun_eq_iff)

lemma obs_fold: "(\<And>x w. obs (f x w) = obs w) \<Longrightarrow> obs (fold f xs w) = obs w"
  by (induction xs arbitrary: w) simp_all

lemma obs_each_slot: "(\<And>i w w'. f i w = Some w' \<Longrightarrow> obs w' = obs w) \<Longrightarrow> each_slot f is w = Some w' \<Longrightarrow> obs w' = obs w"
  by (induction "is" arbitrary: w) (auto split: option.splits)

lemma obs_on_rolls [simp]: "obs (on_rolls h f w) = obs w"
  by (simp add: on_rolls_def obs_at_group ob_rolls)

lemma obs_messages [simp]:
  "obs (BroadcastPacket h m b s i w) = obs w" "obs (SendUpdateToPlayer h guid full w) = obs w"
  "obs (SendUpdate h w) = obs w" "obs (send_voters c m r w) = obs w"
proof -
  show "obs (BroadcastPacket h m b s i w) = obs w" by (simp add: observe_def fun_eq_iff)
  have *: "obs (SendUpdateToPlayer h guid full w) = obs w" for h guid full w
    by (simp add: SendUpdateToPlayer_def obs_at_group ob_counter split: option.split)
  then show "obs (SendUpdateToPlayer h guid full w) = obs w" .
  show "obs (SendUpdate h w) = obs w" by (auto simp: SendUpdate_def * intro!: obs_fold split: option.split)
  show "obs (send_voters c m r w) = obs w" by (auto simp: send_voters_def intro!: obs_fold)
qed

lemma obs_managers [simp]:
  "obs (AddGroup h g w) = obs w" "obs (RemoveGroup g w) = obs w"
  "GenerateGroupId w = (i, w') \<Longrightarrow> obs w' = obs w"
  "GenerateNewGroupDbStoreId w = (s, b, w') \<Longrightarrow> obs w' = obs w"
  "RegisterGroupDbStoreId s h w = Some w' \<Longrightarrow> obs w' = obs w"
  "FreeGroupDbStoreId s w = Some w' \<Longrightarrow> obs w' = obs w"
  by (auto simp: AddGroup_def RemoveGroup_def GenerateGroupId_def GenerateNewGroupDbStoreId_def
    RegisterGroupDbStoreId_def FreeGroupDbStoreId_def Let_def split: if_splits)

lemma obs_unlink [simp]: "obs (unlink guid k w) = obs w"
  by (simp add: unlink_def obs_at_group ob_refs split: option.split)

lemma obs_link_ref: "link_ref guid k h w = Some w' \<Longrightarrow> obs w' = obs w"
  by (auto simp: link_ref_def Let_def obs_at_group ob_refs LinkMember_def split: if_splits)

lemma obs_set_ref:
  "set_ref guid k t w = Some w' \<Longrightarrow> obs w' = obs w" "Player_SetGroup guid t w = Some w' \<Longrightarrow> obs w' = obs w"
  "Player_SetOriginalGroup guid t w = Some w' \<Longrightarrow> obs w' = obs w"
proof -
  show *: "obs w' = obs w" if "set_ref guid k t w = Some w'" for k
    using that by (auto simp: set_ref_def split: option.splits prod.splits if_splits dest: obs_link_ref)
  show "Player_SetGroup guid t w = Some w' \<Longrightarrow> obs w' = obs w"
    "Player_SetOriginalGroup guid t w = Some w' \<Longrightarrow> obs w' = obs w"
    by (auto simp: Player_SetGroup_def Player_SetOriginalGroup_def dest: *)
qed

lemma obs_raid:
  "SetBattlegroundOrBattlefieldRaid guid h s w = Some w' \<Longrightarrow> obs w' = obs w"
  "RemoveFromBattlegroundOrBattlefieldRaid guid w = Some w' \<Longrightarrow> obs w' = obs w"
  by (auto simp: SetBattlegroundOrBattlefieldRaid_def RemoveFromBattlegroundOrBattlefieldRaid_def Let_def
    split: bind_splits option.splits dest!: obs_link_ref obs_set_ref(3))

lemma obs_DelinkMember [simp]: "obs (DelinkMember h guid w) = obs w"
  by (simp add: DelinkMember_def split: option.split)

lemma obs_invalidate: "obs (fold invalidate rs w) = obs w"
  by (rule obs_fold) (simp add: invalidate_def)

lemma obs_delete_group: "obs (delete_group h w) = (obs w)(h := None)"
proof (cases "gw_groups w h")
  case None
  then show ?thesis by (auto simp: delete_group_def observe_def fun_eq_iff)
next
  case (Some g)
  then show ?thesis by (auto simp: delete_group_def observe_def fun_eq_iff Let_def)
qed

subsection \<open>Rolls and loot\<close>

lemma obs_loot_item [simp]:
  "obs (loot_item la i w) = obs w" "obs (unblock_item la i w) = obs w" "obs (store_item e p r it la w) = obs w"
  "disenchant_item e p r la w = Some w' \<Longrightarrow> obs w' = obs w"
proof -
  have *: "obs (NotifyItemRemoved la i w) = obs w" for la i w
    by (auto simp: NotifyItemRemoved_def intro!: obs_fold split: option.split)
  show "obs (loot_item la i w) = obs w" "obs (unblock_item la i w) = obs w" "obs (store_item e p r it la w) = obs w"
    "disenchant_item e p r la w = Some w' \<Longrightarrow> obs w' = obs w"
    by (auto simp: loot_item_def unblock_item_def store_item_def disenchant_item_def *)
qed

lemma obs_roll_messages [simp]:
  "obs (SendLootRoll s t n y r w) = obs w" "obs (SendLootRollWon s t n y r w) = obs w" "obs (SendLootAllPassed r w) = obs w"
  "obs (SendLootStartRoll c m r w) = obs w" "obs (SendLootStartRollToPlayer c m p b r w) = obs w"
  by (simp_all add: SendLootRoll_def SendLootRollWon_def SendLootAllPassed_def SendLootStartRoll_def SendLootStartRollToPlayer_def Let_def)

lemma obs_roll_numbers: "roll_numbers e c r vs best w = (x, w') \<Longrightarrow> obs w' = obs w"
  by (induction e c r vs best w rule: roll_numbers.induct) (auto simp: draw_def Let_def split: if_splits prod.splits)

lemma obs_CountTheRoll: "CountTheRoll e h i w = Some w' \<Longrightarrow> obs w' = obs w"
  by (auto simp: CountTheRoll_def award_def Let_def split: if_splits option.splits bind_splits prod.splits dest: obs_roll_numbers)

lemma obs_CountRollVote: "CountRollVote e h p g c w = Some w' \<Longrightarrow> obs w' = obs w"
  by (auto simp: CountRollVote_def tell_vote_def Let_def split: if_splits option.splits bind_splits dest!: obs_CountTheRoll)

lemma obs_EndRoll:
  assumes "EndRoll e h la w = Some w'"
  shows "obs w' = obs w"
proof (rule EndRoll.raw_induct [where P = "\<lambda>e h la w w'. obs w' = obs w", OF _ assms])
qed (auto split: option.splits dest: obs_CountTheRoll)

lemma obs_open_roll: "(\<And>r w. obs (ann r w) = obs w) \<Longrightarrow> open_roll ro pa ann m h la i it w = Some w' \<Longrightarrow> obs w' = obs w"
  by (auto simp: open_roll_def Let_def split: bind_splits if_splits)

lemma obs_announce [simp]: "obs (announce_group m r w) = obs w" "obs (announce_need c m r w) = obs w"
  by (auto simp: announce_group_def announce_need_def intro!: obs_fold)

lemma obs_items:
  "group_item e al ne m h la i w = Some w' \<Longrightarrow> obs w' = obs w"
  "group_quest_item e al ne m h la i w = Some w' \<Longrightarrow> obs w' = obs w"
  "need_item e al ne cn m h la i w = Some w' \<Longrightarrow> obs w' = obs w"
  "need_quest_item e al ne cn m h la i w = Some w' \<Longrightarrow> obs w' = obs w"
  by (auto simp: group_item_def group_quest_item_def need_item_def need_quest_item_def
    split: bind_splits if_splits option.splits dest: obs_open_roll [rotated])

lemma obs_loot:
  "GroupLoot e al ne m h la w = Some w' \<Longrightarrow> obs w' = obs w"
  "NeedBeforeGreed e al ne cn m h la w = Some w' \<Longrightarrow> obs w' = obs w"
  "MasterLoot ne h w = Some w' \<Longrightarrow> obs w' = obs w"
proof -
  show "GroupLoot e al ne m h la w = Some w' \<Longrightarrow> obs w' = obs w"
    by (auto simp: GroupLoot_def Let_def split: bind_splits dest!: obs_each_slot [rotated] intro: obs_items)
  show "NeedBeforeGreed e al ne cn m h la w = Some w' \<Longrightarrow> obs w' = obs w"
    by (auto simp: NeedBeforeGreed_def Let_def split: bind_splits dest!: obs_each_slot [rotated] intro: obs_items)
  show "MasterLoot ne h w = Some w' \<Longrightarrow> obs w' = obs w"
    by (auto simp: MasterLoot_def Let_def split: bind_splits intro!: obs_fold)
qed

subsection \<open>Difficulties, leaving\<close>

lemma obs_members [simp]:
  "obs (adopt_difficulty g guid w) = obs w" "obs (ResetMaxEnchantingLevel h w) = obs w"
  "obs (reset_enchanting h guid w) = obs w" "obs (delete_membership h guid w) = obs w"
  by (auto simp: adopt_difficulty_def ResetMaxEnchantingLevel_def reset_enchanting_def delete_membership_def
    obs_at_group ob_enchanting Let_def split: option.split)

lemma obs_refer_member: "refer_member g h guid s p w = Some w' \<Longrightarrow> obs w' = obs w"
  by (auto simp: refer_member_def split: if_splits dest: obs_set_ref(2,3) obs_raid(1))

lemma obs_dismiss: "dismiss h hide guid w = Some w' \<Longrightarrow> obs w' = obs w"
  by (auto simp: dismiss_def Let_def split: option.splits bind_splits if_splits dest: obs_set_ref(2,3) obs_raid(2))

lemma obs_dismiss_all: "dismiss_all h hide gs w = Some w' \<Longrightarrow> obs w' = obs w"
  by (induction gs arbitrary: w) (auto split: option.splits dest: obs_dismiss)

lemma obs_take_leave: "take_leave h guid m w = Some w' \<Longrightarrow> obs w' = obs w"
  by (auto simp: take_leave_def Let_def split: option.splits bind_splits if_splits dest: obs_set_ref(2,3) obs_raid(2))

lemma obs_leave_rolls: "leave_rolls e h guid w = Some w' \<Longrightarrow> obs w' = obs w"
proof -
  have "leave_roll e h guid i w = Some w' \<Longrightarrow> obs w' = obs w" for i w w'
    by (auto simp: leave_roll_def Let_def split: bind_splits option.splits if_splits dest: obs_CountRollVote)
  then show "leave_rolls e h guid w = Some w' \<Longrightarrow> obs w' = obs w"
    by (auto simp: leave_rolls_def split: bind_splits dest: obs_each_slot [rotated])
qed

end

subsection \<open>Invitations, disbanding\<close>

locale observer = core_observer +
  assumes ob_invitees: "ob (g\<lparr>m_invitees := i\<rparr>) = ob g"
begin

lemma obs_RemoveInvite [simp]: "obs (RemoveInvite h guid w) = obs w"
  by (simp add: RemoveInvite_def obs_at_group ob_invitees)

lemma obs_RemoveAllInvites: "RemoveAllInvites h w = Some w' \<Longrightarrow> obs w' = obs w"
proof -
  have "clear_invites ps w = Some w' \<Longrightarrow> obs w' = obs w" for ps w w'
    by (induction ps arbitrary: w) (auto split: if_splits)
  then show "RemoveAllInvites h w = Some w' \<Longrightarrow> obs w' = obs w"
    by (auto simp: RemoveAllInvites_def obs_at_group ob_invitees split: bind_splits)
qed

lemma obs_AddInvite:
  assumes "AddInvite e h guid w = Some (b, w')"
  shows "obs w' = obs w"
proof -
  have *: "(obs v)(h \<mapsto> ob (g\<lparr>m_invitees := i\<rparr>)) = obs v" if "gw_groups v h = Some g" for v g i
    using that by (auto simp: observe_def ob_invitees)
  have "gw_groups (RemoveInvite h guid w) h = Some g \<Longrightarrow>
      (obs w)(h \<mapsto> ob (g\<lparr>m_invitees := i\<rparr>)) = obs w" for g i
    using * [of "RemoveInvite h guid w" g i] by simp
  with assms show ?thesis by (auto simp: AddInvite_def Let_def split: bind_splits if_splits)
qed

text \<open>Disbanding takes the group away, whatever is observed.\<close>

lemma obs_Disband:
  assumes "Disband e h hide w = Some w'"
  shows "obs w' = (obs w)(h := None)"
proof -
  obtain g w1 w2 w3 where 1: "dismiss_all h hide (map ms_guid (m_memberSlots g)) (on_lfg (OnDisband (lfg_of e w) (m_guid g)) w) = Some w1"
    and 2: "RemoveAllInvites h (at_group h (\<lambda>g. g\<lparr>RollId := [], m_memberSlots := []\<rparr>) w1) = Some w2"
    and 3: "obs w3 = obs w2" and w': "w' = delete_group h (RemoveGroup g w3)"
    using assms by (auto simp: Disband_def Let_def split: bind_splits if_splits dest!: obs_managers(6))
  have "obs w' = (obs (at_group h (\<lambda>g. g\<lparr>RollId := [], m_memberSlots := []\<rparr>) w1))(h := None)"
    by (simp add: w' obs_delete_group 3 obs_RemoveAllInvites [OF 2])
  also have "\<dots> = (obs w1)(h := None)" by (auto simp: observe_def)
  finally show ?thesis using obs_dismiss_all [OF 1] by simp
qed

lemma obs_UninviteFromGroup:
  assumes "UninviteFromGroup e guid w = Some w'"
  shows "obs w' = obs w \<or> (\<exists>h. obs w' = (obs w)(h := None))"
  using assms by (auto simp: UninviteFromGroup_def Let_def obs_delete_group split: bind_splits option.splits if_splits
    dest!: obs_RemoveAllInvites obs_Disband)

end

end
