(* ===== verification/GroupRoster.thy ===== *)
theory GroupRoster
  imports GroupShape
begin

text \<open>
  The abstract specification of a group: who leads it, whether it is a raid, and who sits in which
  subgroup, in the order of joining. Places are counted from the seats themselves; the array of counters
  of the code is an optimisation of that count (\<open>counters_ok\<close>). \<open>roster_step\<close> says what may happen to the
  rosters of all groups, and a roster that fits (\<open>roster_fits\<close>) stays one that fits.
\<close>

subsection \<open>Rosters\<close>

record Roster =
  ro_leader :: u64
  ro_raid :: bool
  ro_seats :: "(u64 \<times> nat) list"

definition occupancy :: "nat \<Rightarrow> Roster \<Rightarrow> nat" where
  "occupancy i R = length (filter (\<lambda>s. snd s = i) (ro_seats R))"

definition vacancy :: "Roster \<Rightarrow> nat option" where
  "vacancy R = (if ro_raid R then find (\<lambda>i. occupancy i R < MAXGROUPSIZE) [0..<MAX_RAID_SUBGROUPS] else Some 0)"

fun erase_first :: "'a \<Rightarrow> ('a \<times> 'b) list \<Rightarrow> ('a \<times> 'b) list" where
  "erase_first p [] = []"
| "erase_first p (s # ss) = (if fst s = p then ss else s # erase_first p ss)"

fun move_first :: "'a \<Rightarrow> 'b \<Rightarrow> ('a \<times> 'b) list \<Rightarrow> ('a \<times> 'b) list" where
  "move_first p i [] = []"
| "move_first p i (s # ss) = (if fst s = p then (p, i) # ss else s # move_first p i ss)"

definition seat :: "u64 \<Rightarrow> nat \<Rightarrow> Roster \<Rightarrow> Roster" where
  "seat p i R = R\<lparr>ro_seats := ro_seats R @ [(p, i)]\<rparr>"

definition unseat :: "u64 \<Rightarrow> Roster \<Rightarrow> Roster" where
  "unseat p R = R\<lparr>ro_seats := erase_first p (ro_seats R)\<rparr>"

definition reseat :: "u64 \<Rightarrow> nat \<Rightarrow> Roster \<Rightarrow> Roster" where
  "reseat p i R = R\<lparr>ro_seats := move_first p i (ro_seats R)\<rparr>"

definition seated :: "u64 \<Rightarrow> Roster \<Rightarrow> bool" where
  "seated p R \<longleftrightarrow> map_of (ro_seats R) p \<noteq> None"

definition roster_new :: Roster where
  "roster_new = \<lparr>ro_leader = 0, ro_raid = False, ro_seats = []\<rparr>"

definition roster_full :: "Roster \<Rightarrow> bool" where
  "roster_full R \<longleftrightarrow> length (ro_seats R) \<ge> (if ro_raid R then MAXRAIDSIZE else MAXGROUPSIZE)"

inductive roster_step :: "(nat \<Rightarrow> Roster option) \<Rightarrow> (nat \<Rightarrow> Roster option) \<Rightarrow> bool" where
  found: "m h = None \<Longrightarrow> roster_step m (m(h \<mapsto> roster_new))"
| head: "m h = Some R \<Longrightarrow> ro_seats R = [] \<Longrightarrow> roster_step m (m(h \<mapsto> R\<lparr>ro_leader := p, ro_raid := b\<rparr>))"
| join: "m h = Some R \<Longrightarrow> \<not> roster_full R \<Longrightarrow> vacancy R = Some i \<Longrightarrow> roster_step m (m(h \<mapsto> seat p i R))"
| leave: "m h = Some R \<Longrightarrow> seated p R \<Longrightarrow> roster_step m (m(h \<mapsto> unseat p R))"
| move: "m h = Some R \<Longrightarrow> ro_raid R \<Longrightarrow> seated p R \<Longrightarrow> i < MAX_RAID_SUBGROUPS \<Longrightarrow> occupancy i R < MAXGROUPSIZE \<Longrightarrow>
    roster_step m (m(h \<mapsto> reseat p i R))"
| promote: "m h = Some R \<Longrightarrow> seated p R \<Longrightarrow> roster_step m (m(h \<mapsto> R\<lparr>ro_leader := p\<rparr>))"
| widen: "m h = Some R \<Longrightarrow> roster_step m (m(h \<mapsto> R\<lparr>ro_raid := True\<rparr>))"
| narrow: "m h = Some R \<Longrightarrow> length (ro_seats R) \<le> MAXGROUPSIZE \<Longrightarrow> roster_step m (m(h \<mapsto> R\<lparr>ro_raid := False\<rparr>))"
| dissolve: "roster_step m (m(h := None))"

subsection \<open>Capacity\<close>

definition roster_fits :: "Roster \<Rightarrow> bool" where
  "roster_fits R \<longleftrightarrow> (\<forall>s\<in>set (ro_seats R). snd s < MAX_RAID_SUBGROUPS) \<and>
     (if ro_raid R then \<forall>i<MAX_RAID_SUBGROUPS. occupancy i R \<le> MAXGROUPSIZE else length (ro_seats R) \<le> MAXGROUPSIZE)"

lemma occupancy_le: "occupancy i R \<le> length (ro_seats R)"
  by (simp add: occupancy_def)

lemma occupancy_more [simp]: "occupancy i (R\<lparr>ro_leader := p\<rparr>) = occupancy i R" "occupancy i (R\<lparr>ro_raid := b\<rparr>) = occupancy i R"
  by (simp_all add: occupancy_def)

lemma occupancy_seat [simp]: "occupancy i (seat p j R) = occupancy i R + (if i = j then 1 else 0)"
  by (simp add: occupancy_def seat_def)

lemma filter_erase_first:
  "map_of ss p = Some j \<Longrightarrow>
    length (filter (\<lambda>s. snd s = i) (erase_first p ss)) + (if i = j then 1 else 0) = length (filter (\<lambda>s. snd s = i) ss)"
  by (induction ss) (auto split: if_splits)

lemma occupancy_unseat: "map_of (ro_seats R) p = Some j \<Longrightarrow> occupancy i (unseat p R) + (if i = j then 1 else 0) = occupancy i R"
  using filter_erase_first [of "ro_seats R" p j i] by (simp add: occupancy_def unseat_def)

lemma filter_move_first:
  "map_of ss p = Some j \<Longrightarrow>
    length (filter (\<lambda>s. snd s = i) (move_first p k ss)) + (if i = j then 1 else 0) =
    length (filter (\<lambda>s. snd s = i) ss) + (if i = k then 1 else 0)"
  by (induction ss) (auto split: if_splits)

lemma occupancy_reseat:
  "map_of (ro_seats R) p = Some j \<Longrightarrow>
    occupancy i (reseat p k R) + (if i = j then 1 else 0) = occupancy i R + (if i = k then 1 else 0)"
  using filter_move_first [of "ro_seats R" p j i k] by (simp add: occupancy_def reseat_def)

lemma erase_first_sub: "set (erase_first p ss) \<subseteq> set ss" "length (erase_first p ss) \<le> length ss"
proof -
  show "set (erase_first p ss) \<subseteq> set ss" by (induction ss) auto
  show "length (erase_first p ss) \<le> length ss" by (induction ss) auto
qed

lemma move_first_sub: "set (move_first p i ss) \<subseteq> insert (p, i) (set ss)" "length (move_first p i ss) = length ss"
proof -
  show "set (move_first p i ss) \<subseteq> insert (p, i) (set ss)" by (induction ss) auto
  show "length (move_first p i ss) = length ss" by (induction ss) auto
qed

lemma find_upt: "find P [0..<n] = Some i \<Longrightarrow> i < n \<and> P i \<and> (\<forall>j<i. \<not> P j)"
  by (auto simp: find_Some_iff)

lemma length_by_key: "\<forall>s\<in>set ss. snd s < (n :: nat) \<Longrightarrow> length ss = (\<Sum>i<n. length (filter (\<lambda>s. snd s = i) ss))"
proof (induction ss)
  case (Cons s ss)
  have "(\<Sum>i<n. if snd s = i then 1 else 0) = (1 :: nat)" using Cons.prems by simp
  moreover have "(\<Sum>i<n. length (filter (\<lambda>s. snd s = i) (s # ss)))
      = (\<Sum>i<n. (if snd s = i then 1 else 0) + length (filter (\<lambda>s. snd s = i) ss))"
    by (rule sum.cong) auto
  ultimately show ?case using Cons by (simp add: sum.distrib)
qed simp

lemma fits_length: "roster_fits R \<Longrightarrow> length (ro_seats R) \<le> MAXRAIDSIZE"
proof (cases "ro_raid R")
  case True
  assume f: "roster_fits R"
  then have "length (ro_seats R) = (\<Sum>i<MAX_RAID_SUBGROUPS. occupancy i R)"
    unfolding occupancy_def by (intro length_by_key) (simp add: roster_fits_def)
  also have "\<dots> \<le> (\<Sum>i<MAX_RAID_SUBGROUPS. MAXGROUPSIZE)"
    using f True by (intro sum_mono) (simp add: roster_fits_def)
  finally show ?thesis by (simp add: MAXRAIDSIZE_def MAXGROUPSIZE_def)
qed (simp add: roster_fits_def MAXRAIDSIZE_def MAXGROUPSIZE_def)

lemma fits_new [simp]: "roster_fits roster_new"
  by (simp add: roster_fits_def roster_new_def)

lemma fits_head: "ro_seats R = [] \<Longrightarrow> roster_fits (R\<lparr>ro_leader := p, ro_raid := b\<rparr>)"
  by (simp add: roster_fits_def occupancy_def)

lemma fits_leader [simp]: "roster_fits (R\<lparr>ro_leader := p\<rparr>) = roster_fits R"
  by (simp add: roster_fits_def)

lemma fits_seat: "roster_fits R \<Longrightarrow> \<not> roster_full R \<Longrightarrow> vacancy R = Some i \<Longrightarrow> roster_fits (seat p i R)"
  by (auto simp: roster_fits_def roster_full_def vacancy_def seat_def [of p i R] occupancy_seat [unfolded seat_def]
    dest!: find_upt split: if_splits simp: MAXGROUPSIZE_def)

lemma fits_unseat: "roster_fits R \<Longrightarrow> seated p R \<Longrightarrow> roster_fits (unseat p R)"
proof -
  assume f: "roster_fits R" and "seated p R"
  then obtain j where "map_of (ro_seats R) p = Some j" by (auto simp: seated_def)
  from occupancy_unseat [OF this] have "occupancy i (unseat p R) \<le> occupancy i R" for i by (metis le_add1)
  then have "occupancy i R \<le> n \<Longrightarrow> occupancy i (unseat p R) \<le> n" for i n using order_trans by blast
  with f erase_first_sub [of p "ro_seats R"] show ?thesis
    by (auto simp: roster_fits_def unseat_def [of p R] split: if_splits)
qed

lemma fits_reseat:
  assumes "roster_fits R" "seated p R" "ro_raid R" "k < MAX_RAID_SUBGROUPS" "occupancy k R < MAXGROUPSIZE"
  shows "roster_fits (reseat p k R)"
proof -
  obtain j where j: "map_of (ro_seats R) p = Some j" using assms(2) by (auto simp: seated_def)
  have "occupancy i (reseat p k R) \<le> MAXGROUPSIZE" if "i < MAX_RAID_SUBGROUPS" for i
    using occupancy_reseat [OF j, of i k] assms that by (auto simp: roster_fits_def split: if_splits)
  with assms move_first_sub [of p k "ro_seats R"] show ?thesis
    by (auto simp: roster_fits_def reseat_def)
qed

lemma fits_widen: "roster_fits R \<Longrightarrow> roster_fits (R\<lparr>ro_raid := True\<rparr>)"
  using occupancy_le by (fastforce simp: roster_fits_def split: if_splits intro: order_trans)

lemma fits_narrow: "roster_fits R \<Longrightarrow> length (ro_seats R) \<le> MAXGROUPSIZE \<Longrightarrow> roster_fits (R\<lparr>ro_raid := False\<rparr>)"
  by (simp add: roster_fits_def)

lemma roster_step_fits:
  assumes "roster_step m m'" and "\<And>h R. m h = Some R \<Longrightarrow> roster_fits R"
  shows "m' h = Some R \<Longrightarrow> roster_fits R"
  using assms
  by (induction rule: roster_step.induct)
    (auto split: if_splits simp: fits_head fits_seat fits_unseat fits_reseat fits_widen fits_narrow)

end
