(* ===== verification/GroupTyped.thy ===== *)
theory GroupTyped
  imports GroupRoster
begin

text \<open>
  The data of a group and its roster. A group is \<open>typed\<close> when its roster fits, and it has counters exactly
  when it is a raid, eight of them, each the number of members in its subgroup. Every change of a slot
  finds its counters there, changes the roster as the specification says, and leaves the group typed.
\<close>

subsection \<open>The roster of a group\<close>

definition roster :: "Group \<Rightarrow> Roster" where
  "roster g = \<lparr>ro_leader = m_leaderGuid g, ro_raid = isRaidGroup g,
     ro_seats = map (\<lambda>s. (ms_guid s, unat (ms_group s))) (m_memberSlots g)\<rparr>"

definition counts_ok :: "Roster \<Rightarrow> u8 list option \<Rightarrow> bool" where
  "counts_ok R c =
    (case c of None \<Rightarrow> \<not> ro_raid R
     | Some cs \<Rightarrow> ro_raid R \<and> length cs = MAX_RAID_SUBGROUPS \<and> (\<forall>i<MAX_RAID_SUBGROUPS. unat (cs ! i) = occupancy i R))"

definition shape :: "Group \<Rightarrow> Roster \<times> u8 list option" where
  "shape g = (roster g, m_subGroupsCounts g)"

definition shape_ok :: "Roster \<times> u8 list option \<Rightarrow> bool" where
  "shape_ok S \<longleftrightarrow> roster_fits (fst S) \<and> counts_ok (fst S) (snd S)"

definition typed :: "Group \<Rightarrow> bool" where
  "typed g \<longleftrightarrow> shape_ok (shape g)"

lemma typed_iff: "typed g \<longleftrightarrow> roster_fits (roster g) \<and> counts_ok (roster g) (m_subGroupsCounts g)"
  by (simp add: typed_def shape_ok_def shape_def)

interpretation sh: observer shape
  by unfold_locales (simp_all add: shape_def roster_def isRaidGroup_def)

lemma shape_same [simp]:
  "shape (g\<lparr>m_targetIcons := ic\<rparr>) = shape g" "shape (g\<lparr>m_leaderName := n\<rparr>) = shape g" "shape (g\<lparr>m_lootMethod := lm\<rparr>) = shape g"
  "shape (g\<lparr>m_guid := i\<rparr>) = shape g" "shape (g\<lparr>m_lootThreshold := lt\<rparr>) = shape g" "shape (g\<lparr>m_looterGuid := lo\<rparr>) = shape g"
  "shape (g\<lparr>m_dungeonDifficulty := d\<rparr>) = shape g" "shape (g\<lparr>m_raidDifficulty := d\<rparr>) = shape g"
  "shape (g\<lparr>m_dbStoreId := u\<rparr>) = shape g" "shape (g\<lparr>m_worldMarkers := wm\<rparr>) = shape g"
  "shape (g\<lparr>readyCheckInProgress := b\<rparr>) = shape g" "shape (g\<lparr>m_bgGroup := bg\<rparr>) = shape g" "shape (g\<lparr>m_bfGroup := bf\<rparr>) = shape g"
  by (simp_all add: shape_def roster_def isRaidGroup_def)

lemma write_slot_same:
  "(\<And>s. ms_guid (f s) = ms_guid s \<and> ms_group (f s) = ms_group s) \<Longrightarrow>
    map (\<lambda>s. (ms_guid s, unat (ms_group s))) (write_slot guid f ss) = map (\<lambda>s. (ms_guid s, unat (ms_group s))) ss"
  by (induction ss) auto

lemma shape_at_slot: "(\<And>s. ms_guid (f s) = ms_guid s \<and> ms_group (f s) = ms_group s) \<Longrightarrow> shape (at_slot guid f g) = shape g"
  by (simp add: shape_def roster_def at_slot_def isRaidGroup_def write_slot_same)

lemma shape_flags [simp]:
  "shape (RemoveUniqueGroupMemberFlag fl g) = shape g" "shape (ReadyCheckMemberHasResponded guid g) = shape g"
  "shape (ReadyCheckResetResponded g) = shape g" "shape (at_slot guid (ToggleFlag fl b) g) = shape g"
  "shape (at_slot guid (\<lambda>s. s\<lparr>ms_roles := r\<rparr>) g) = shape g"
  "shape (SetLootMethod lm g) = shape g" "shape (SetLooterGuid lo g) = shape g" "shape (SetLootThreshold lt g) = shape g"
proof -
  show "shape (RemoveUniqueGroupMemberFlag fl g) = shape g" "shape (ReadyCheckResetResponded g) = shape g"
    by (auto simp: shape_def roster_def RemoveUniqueGroupMemberFlag_def ReadyCheckResetResponded_def isRaidGroup_def)
qed (simp_all add: ReadyCheckMemberHasResponded_def shape_at_slot ToggleFlag_def SetLootMethod_def SetLooterGuid_def SetLootThreshold_def)

subsection \<open>Lookup\<close>

lemma getMemberSlot_seat: "map_of (ro_seats (roster g)) guid = map_option (\<lambda>s. unat (ms_group s)) (getMemberSlot guid g)"
proof -
  have "map_of (map (\<lambda>s. (ms_guid s, unat (ms_group s))) ss) guid = map_option (\<lambda>s. unat (ms_group s)) (find_slot guid ss)" for ss
    by (induction ss) auto
  then show ?thesis by (simp add: roster_def getMemberSlot_def)
qed

lemma seated_iff: "seated guid (roster g) \<longleftrightarrow> getMemberSlot guid g \<noteq> None"
  by (simp add: seated_def getMemberSlot_seat)

lemma IsFull_roster: "IsFull g \<longleftrightarrow> roster_full (roster g)"
  by (simp add: IsFull_def roster_full_def roster_def)

lemma counts_okD:
  assumes "counts_ok R (Some cs)" "i < MAX_RAID_SUBGROUPS"
  shows "ro_raid R" "length cs = MAX_RAID_SUBGROUPS" "unat (cs ! i) = occupancy i R"
  using assms by (auto simp: counts_ok_def)

lemma fits_occupancy: "roster_fits R \<Longrightarrow> ro_raid R \<Longrightarrow> i < MAX_RAID_SUBGROUPS \<Longrightarrow> occupancy i R \<le> 5"
  by (simp add: roster_fits_def MAXGROUPSIZE_def)

lemma find_map: "find P (map f xs) = map_option f (find (P \<circ> f) xs)"
  by (induction xs) auto

lemma free_subgroup_find: "free_subgroup i cs = map_option ((+) i) (find (\<lambda>j. unat (cs ! j) < MAXGROUPSIZE) [0..<length cs])"
proof (induction cs arbitrary: i)
  case (Cons c cs)
  have "[0..<length (c # cs)] = 0 # map Suc [0..<length cs]"
    by (simp only: upt_conv_Cons list.size(4) map_Suc_upt zero_less_Suc add_Suc_right add_0_right)
  with Cons show ?case by (simp add: find_map comp_def option.map_comp)
qed simp

lemma find_cong': "(\<And>x. x \<in> set xs \<Longrightarrow> P x = Q x) \<Longrightarrow> find P xs = find Q xs"
  by (induction xs) auto

text \<open>The search through the counters finds the first subgroup with a free place.\<close>

lemma choose_subgroup_vacancy:
  assumes "typed g"
  shows "map_option unat (choose_subgroup g) = vacancy (roster g)"
proof (cases "m_subGroupsCounts g")
  case None
  with assms show ?thesis by (simp add: typed_iff counts_ok_def choose_subgroup_def vacancy_def)
next
  case (Some cs)
  note ok = counts_okD [OF assms [unfolded typed_iff Some, THEN conjunct2]]
  define F where "F = find (\<lambda>i. occupancy i (roster g) < MAXGROUPSIZE) [0..<8]"
  have "find (\<lambda>j. unat (cs ! j) < MAXGROUPSIZE) [0..<8] = F"
    unfolding F_def by (rule find_cong') (simp add: ok)
  then have "choose_subgroup g = map_option of_nat F"
    using ok(2) [of 0] by (simp add: choose_subgroup_def Some free_subgroup_find option.map_comp comp_def)
  moreover have "vacancy (roster g) = F" using ok(1) [of 0] by (simp add: vacancy_def F_def)
  moreover have "unat (of_nat i :: u8) = i" if "F = Some i" for i
    using find_upt [OF that [unfolded F_def]] by (simp add: unat_of_nat)
  ultimately show ?thesis by (cases F) simp_all
qed

subsection \<open>Slots and counters\<close>

lemma counts_bump:
  assumes "counts_ok R (Some cs)" "unat s < MAX_RAID_SUBGROUPS"
    and "\<And>i. i < MAX_RAID_SUBGROUPS \<Longrightarrow> unat ((cs[unat s := cs ! unat s + d]) ! i) = occupancy i R'" "ro_raid R' = ro_raid R"
  shows "\<exists>cs'. bump d s cs = Some cs' \<and> counts_ok R' (Some cs')"
  using assms by (auto simp: counts_ok_def bump_def)

lemma unat_suc: "unat (c :: u8) \<le> 250 \<Longrightarrow> unat (c + 1) = Suc (unat c)"
  by (simp add: unat_plus_simple [THEN iffD1] word_le_nat_alt unat_word_ariths(1))

lemma unat_pred: "0 < unat (c :: u8) \<Longrightarrow> unat (c - 1) = unat c - 1"
  by (metis One_nat_def Suc_leI unat_1 unat_sub word_le_nat_alt)

lemma add_slot_shape:
  assumes t: "typed g" and s: "vacancy (roster g) = Some (unat s)"
  shows "\<exists>g'. add_slot s guid n j g = Some g' \<and> roster g' = seat guid (unat s) (roster g)
    \<and> counts_ok (roster g') (m_subGroupsCounts g')"
proof -
  define g1 where "g1 = g\<lparr>m_memberSlots := m_memberSlots g @
    [\<lparr>ms_guid = guid, ms_name = n, ms_group = s, ms_flags = 0, ms_roles = 0, ms_responded = j\<rparr>]\<rparr>"
  have r: "roster (g1\<lparr>m_subGroupsCounts := c\<rparr>) = seat guid (unat s) (roster g)" "roster g1 = seat guid (unat s) (roster g)" for c
    by (simp_all add: g1_def roster_def seat_def isRaidGroup_def)
  have raid: "ro_raid (seat guid i R) = ro_raid R" for i R by (simp add: seat_def)
  show ?thesis
  proof (cases "m_subGroupsCounts g")
    case None
    with t show ?thesis using r(2) by (auto simp: add_slot_def SubGroupCounterIncrease_def typed_iff counts_ok_def g1_def raid)
  next
    case (Some cs)
    have ok: "roster_fits (roster g)" "counts_ok (roster g) (Some cs)" using t by (simp_all add: typed_iff Some)
    have s8: "unat s < MAX_RAID_SUBGROUPS"
      using s counts_okD(1) [OF ok(2), of 0] by (auto simp: vacancy_def dest: find_upt)
    have "unat ((cs[unat s := cs ! unat s + 1]) ! i) = occupancy i (seat guid (unat s) (roster g))"
      if "i < MAX_RAID_SUBGROUPS" for i
      using fits_occupancy [OF ok(1) counts_okD(1) [OF ok(2) s8] that] counts_okD(2,3) [OF ok(2) that] s8
        unat_suc [of "cs ! i"] by (auto simp: nth_list_update)
    from counts_bump [OF ok(2) s8 this] obtain cs' where "bump 1 s cs = Some cs'"
      and "counts_ok (seat guid (unat s) (roster g)) (Some cs')" by (auto simp: raid)
    then have "add_slot s guid n j g = Some (g1\<lparr>m_subGroupsCounts := Some cs'\<rparr>)"
      by (simp add: add_slot_def SubGroupCounterIncrease_def g1_def [symmetric] Some) (simp add: g1_def Some)
    with \<open>counts_ok _ (Some cs')\<close> show ?thesis by (simp add: r)
  qed
qed

lemma remove_slot_shape:
  assumes t: "typed g" and p: "seated guid (roster g)"
  shows "\<exists>g'. remove_slot guid g = Some g' \<and> roster g' = unseat guid (roster g) \<and> typed g'"
proof -
  obtain x where x: "getMemberSlot guid g = Some x" using p by (auto simp: seated_iff)
  then have j: "map_of (ro_seats (roster g)) guid = Some (unat (ms_group x))" by (simp add: getMemberSlot_seat)
  have e: "map (\<lambda>s. (ms_guid s, unat (ms_group s))) (erase_slot guid ss) =
      erase_first guid (map (\<lambda>s. (ms_guid s, unat (ms_group s))) ss)" for ss
    by (induction ss) auto
  define g1 where "g1 c = g\<lparr>m_subGroupsCounts := c, m_memberSlots := erase_slot guid (m_memberSlots g)\<rparr>" for c
  have r: "roster (g1 c) = unseat guid (roster g)" for c
    by (simp add: g1_def roster_def unseat_def isRaidGroup_def e)
  have raid: "ro_raid (unseat guid R) = ro_raid R" for R by (simp add: unseat_def)
  have f: "roster_fits (unseat guid (roster g))" using t p by (simp add: typed_iff fits_unseat)
  show ?thesis
  proof (cases "m_subGroupsCounts g")
    case None
    have "g\<lparr>m_memberSlots := erase_slot guid (m_memberSlots g)\<rparr> = g1 None" using None by (simp add: g1_def)
    with None t x r f show ?thesis
      by (auto simp: remove_slot_def SubGroupCounterDecrease_def typed_iff counts_ok_def raid) (simp_all add: g1_def raid)
  next
    case (Some cs)
    have ok: "roster_fits (roster g)" "counts_ok (roster g) (Some cs)" using t by (simp_all add: typed_iff Some)
    have s8: "unat (ms_group x) < MAX_RAID_SUBGROUPS"
      using map_of_SomeD [OF j] ok(1) by (auto simp: roster_fits_def simp del: raid_subgroups)
    have "unat ((cs[unat (ms_group x) := cs ! unat (ms_group x) + - 1]) ! i) = occupancy i (unseat guid (roster g))"
      if "i < MAX_RAID_SUBGROUPS" for i
      using occupancy_unseat [OF j, of i] counts_okD(2,3) [OF ok(2) that] s8 unat_pred [of "cs ! i"]
      by (auto simp: nth_list_update)
    from counts_bump [OF ok(2) s8 this] obtain cs' where "bump (- 1) (ms_group x) cs = Some cs'"
      and "counts_ok (unseat guid (roster g)) (Some cs')" by (auto simp: raid)
    then have "remove_slot guid g = Some (g1 (Some cs'))"
      by (simp add: remove_slot_def x SubGroupCounterDecrease_def Some g1_def)
    moreover have "m_subGroupsCounts (g1 (Some cs')) = Some cs'" by (simp add: g1_def)
    ultimately show ?thesis using \<open>counts_ok _ (Some cs')\<close> f by (simp add: r typed_iff)
  qed
qed

lemma move_slot_shape:
  assumes t: "typed g" and p: "seated guid (roster g)" and s8: "unat s < MAX_RAID_SUBGROUPS"
    and raid: "isRaidGroup g" and room: "occupancy (unat s) (roster g) < MAXGROUPSIZE"
  shows "\<exists>g'. move_slot guid s g = Some g' \<and> roster g' = reseat guid (unat s) (roster g) \<and> typed g'"
proof -
  obtain x where x: "getMemberSlot guid g = Some x" using p by (auto simp: seated_iff)
  then have j: "map_of (ro_seats (roster g)) guid = Some (unat (ms_group x))" by (simp add: getMemberSlot_seat)
  have R: "ro_raid (roster g)" using raid by (simp add: roster_def)
  then obtain cs where cs: "m_subGroupsCounts g = Some cs" and ok: "roster_fits (roster g)" "counts_ok (roster g) (Some cs)"
    using t by (cases "m_subGroupsCounts g") (auto simp: typed_iff counts_ok_def)
  have x8: "unat (ms_group x) < MAX_RAID_SUBGROUPS"
    using map_of_SomeD [OF j] ok(1) by (auto simp: roster_fits_def simp del: raid_subgroups)
  define cs1 where "cs1 = cs[unat s := cs ! unat s + 1]"
  define cs2 where "cs2 = cs1[unat (ms_group x) := cs1 ! unat (ms_group x) - 1]"
  define g' where "g' = g\<lparr>m_memberSlots := write_slot guid (\<lambda>s'. s'\<lparr>ms_group := s\<rparr>) (m_memberSlots g), m_subGroupsCounts := Some cs2\<rparr>"
  have len: "length cs = 8" "length cs1 = 8" using counts_okD(2) [OF ok(2) s8] by (simp_all add: cs1_def)
  have "move_slot guid s g = Some g'"
    using s8 x8 len by (simp add: move_slot_def GetMemberGroup_def x SubGroupCounterIncrease_def SubGroupCounterDecrease_def
      at_slot_def cs bump_def cs1_def [symmetric] cs2_def [symmetric] g'_def)
  moreover have w: "map (\<lambda>s. (ms_guid s, unat (ms_group s))) (write_slot guid (\<lambda>s'. s'\<lparr>ms_group := s\<rparr>) ss) =
      move_first guid (unat s) (map (\<lambda>s. (ms_guid s, unat (ms_group s))) ss)" for ss
    by (induction ss) auto
  have r: "roster g' = reseat guid (unat s) (roster g)"
    by (simp add: g'_def roster_def reseat_def isRaidGroup_def w)
  have "unat (cs2 ! i) = occupancy i (reseat guid (unat s) (roster g))" if i: "i < MAX_RAID_SUBGROUPS" for i
  proof -
    have "unat (cs1 ! i) = occupancy i (roster g) + (if i = unat s then 1 else 0)"
      using counts_okD(3) [OF ok(2) i] fits_occupancy [OF ok(1) R i] unat_suc [of "cs ! i"] i len
      by (auto simp: cs1_def nth_list_update)
    then have c1: "unat (cs1 ! i) = occupancy i (reseat guid (unat s) (roster g)) + (if i = unat (ms_group x) then 1 else 0)"
      using occupancy_reseat [OF j, of i "unat s"] by (simp split: if_splits)
    then show ?thesis using unat_pred [of "cs1 ! i"] i len by (auto simp: cs2_def nth_list_update split: if_splits)
  qed
  moreover have "length cs2 = 8" "ro_raid (reseat guid (unat s) (roster g))" "m_subGroupsCounts g' = Some cs2"
    using len R by (simp_all add: cs2_def g'_def reseat_def)
  ultimately have "counts_ok (roster g') (m_subGroupsCounts g')" using r by (simp add: counts_ok_def)
  then show ?thesis using \<open>move_slot guid s g = Some g'\<close> r fits_reseat [OF ok(1) p R s8 room] by (simp add: typed_iff)
qed

text \<open>Counting the members of a group that fits gives the counters.\<close>

lemma count_slots_ok:
  assumes "length cs = n" "\<forall>s\<in>set ss. unat (ms_group s) < n" "\<And>i. i < n \<Longrightarrow> unat (cs ! i) + length ss \<le> 250"
  shows "\<exists>cs'. count_slots ss cs = Some cs' \<and> length cs' = n \<and>
    (\<forall>i<n. unat (cs' ! i) = unat (cs ! i) + length (filter (\<lambda>s. unat (ms_group s) = i) ss))"
  using assms
proof (induction ss arbitrary: cs)
  case (Cons s ss)
  let ?k = "unat (ms_group s)"
  let ?c = "cs[?k := cs ! ?k + 1]"
  have k: "?k < n" and room: "unat (cs ! ?k) \<le> 250" using Cons.prems(2) Cons.prems(3) [of ?k] by auto
  have c: "unat (?c ! i) = unat (cs ! i) + (if i = ?k then 1 else 0)" if "i < n" for i
    using that Cons.prems(1) unat_suc [OF room] by (simp add: nth_list_update)
  have "\<exists>cs'. count_slots ss ?c = Some cs' \<and> length cs' = n \<and>
    (\<forall>i<n. unat (cs' ! i) = unat (?c ! i) + length (filter (\<lambda>s. unat (ms_group s) = i) ss))"
  proof (rule Cons.IH)
    show "unat (?c ! i) + length ss \<le> 250" if "i < n" for i
      using c [OF that] Cons.prems(3) [OF that] by (simp split: if_splits)
  qed (use Cons.prems in auto)
  with c k Cons.prems(1) show ?case by (auto simp: bump_def)
qed simp

lemma init_counter_shape:
  assumes f: "\<forall>s\<in>set (ro_seats (roster g)). snd s < MAX_RAID_SUBGROUPS" "length (m_memberSlots g) \<le> 250" and raid: "isRaidGroup g"
  shows "\<exists>g'. initRaidSubGroupsCounter g = Some g' \<and> roster g' = roster g \<and> counts_ok (roster g) (m_subGroupsCounts g')"
proof -
  have "\<exists>cs. count_slots (m_memberSlots g) (replicate MAX_RAID_SUBGROUPS 0) = Some cs \<and> length cs = MAX_RAID_SUBGROUPS \<and>
    (\<forall>i<MAX_RAID_SUBGROUPS. unat (cs ! i) = unat (replicate MAX_RAID_SUBGROUPS (0 :: u8) ! i)
      + length (filter (\<lambda>s. unat (ms_group s) = i) (m_memberSlots g)))"
    using f by (intro count_slots_ok) (auto simp: roster_def simp del: replicate.simps)
  then obtain cs where "count_slots (m_memberSlots g) (replicate MAX_RAID_SUBGROUPS 0) = Some cs" "length cs = MAX_RAID_SUBGROUPS"
    "\<And>i. i < MAX_RAID_SUBGROUPS \<Longrightarrow> unat (cs ! i) = length (filter (\<lambda>s. unat (ms_group s) = i) (m_memberSlots g))"
    by (auto simp del: replicate.simps simp: nth_replicate)
  then show ?thesis using raid
    by (auto simp: initRaidSubGroupsCounter_def roster_def isRaidGroup_def counts_ok_def occupancy_def filter_map comp_def
      simp del: replicate.simps)
qed

end
