(* ===== verification/GroupRefinement.thy ===== *)
theory GroupRefinement
  imports GroupTyped
begin

text \<open>
  The refinement: every operation and handler of groups is a sequence of steps of the specification on
  the rosters, and keeps all groups typed (\<open>sim\<close>).
\<close>

definition rosters :: "GroupWorld \<Rightarrow> nat \<Rightarrow> Roster option" where
  "rosters w = observe roster w"

definition all_typed :: "GroupWorld \<Rightarrow> bool" where
  "all_typed w \<longleftrightarrow> (\<forall>h g. gw_groups w h = Some g \<longrightarrow> typed g)"

definition sim :: "GroupWorld \<Rightarrow> GroupWorld \<Rightarrow> bool" where
  "sim w w' \<longleftrightarrow> (all_typed w \<longrightarrow> all_typed w' \<and> roster_step\<^sup>*\<^sup>* (rosters w) (rosters w'))"

abbreviation shapes :: "GroupWorld \<Rightarrow> nat \<Rightarrow> (Roster \<times> u8 list option) option" where
  "shapes \<equiv> observe shape"

lemma rosters_shapes: "rosters w = map_option fst \<circ> shapes w"
  by (simp add: rosters_def observe_def fun_eq_iff shape_def option.map_comp comp_def)

lemma all_typed_shapes: "all_typed w \<longleftrightarrow> (\<forall>h. pred_option shape_ok (shapes w h))"
proof -
  have "pred_option shape_ok (map_option shape x) \<longleftrightarrow> (\<forall>g. x = Some g \<longrightarrow> typed g)" for x
    by (cases x) (simp_all add: typed_def)
  then show ?thesis by (auto simp: all_typed_def observe_def)
qed

lemma sim_refl [simp]: "sim w w"
  by (simp add: sim_def)

lemma sim_trans [trans]: "sim w w1 \<Longrightarrow> sim w1 w2 \<Longrightarrow> sim w w2"
  by (auto simp: sim_def)

lemma sim_same: "shapes w' = shapes w \<Longrightarrow> sim w w'"
  by (simp add: sim_def rosters_shapes all_typed_shapes)

lemma sim_then_same: "shapes w' = shapes w1 \<Longrightarrow> sim w w1 \<Longrightarrow> sim w w'"
  using sim_trans sim_same by blast

lemma sim_step:
  assumes "gw_groups w h = Some g" and w': "shapes w' = (shapes w)(h \<mapsto> shape g')"
    and s: "typed g \<Longrightarrow> typed g' \<and> roster_step (rosters w) ((rosters w)(h \<mapsto> roster g'))"
  shows "sim w w'"
proof -
  have r: "rosters w' = (rosters w)(h \<mapsto> roster g')" by (auto simp: rosters_shapes w' shape_def fun_eq_iff)
  show ?thesis
  proof (unfold sim_def r, intro impI conjI)
    assume a: "all_typed w"
    then have t: "typed g" using assms(1) by (simp add: all_typed_def)
    show "all_typed w'" using a s [OF t] by (simp add: all_typed_shapes w' typed_def)
    show "roster_step\<^sup>*\<^sup>* (rosters w) ((rosters w)(h \<mapsto> roster g'))" using s [OF t] by blast
  qed
qed

lemma sim_gone: "shapes w' = (shapes w)(h := None) \<Longrightarrow> sim w w'"
proof -
  assume w': "shapes w' = (shapes w)(h := None)"
  then have "rosters w' = (rosters w)(h := None)" by (auto simp: rosters_shapes fun_eq_iff)
  with w' show ?thesis by (auto simp: sim_def all_typed_shapes intro: r_into_rtranclp dissolve)
qed

lemma rosters_at: "gw_groups w h = Some g \<Longrightarrow> rosters w h = Some (roster g)"
  by (simp add: rosters_def observe_def)

lemma shapes_put_same: "map_option shape (gw_groups w h) = Some (shape g) \<Longrightarrow> shapes (put_group h g w) = shapes w"
  by (auto simp: observe_def fun_eq_iff)

lemma shapes_upd_same [simp]: "gw_groups w h = Some g \<Longrightarrow> (shapes w)(h \<mapsto> shape g) = shapes w"
  by (auto simp: observe_def fun_eq_iff)

lemma shapes_at [simp]: "(\<And>g. shape (f g) = shape g) \<Longrightarrow> shapes (at_group h f w) = shapes w"
  by (rule sh.obs_at_group)

subsection \<open>Members\<close>

lemma AddMember_shape:
  assumes a: "AddMember e h guid w = Some (b, w')"
  obtains "\<not> b" "w' = w"
  | g and p :: GPlayer and s g' where "b" "gw_groups w h = Some g" "choose_subgroup g = Some s"
      "add_slot s guid (gp_name p) (ge_junk e) g = Some g'" "shapes w' = (shapes w)(h \<mapsto> shape g')"
proof -
  obtain g p where g: "gw_groups w h = Some g" and p: "gw_players w guid = Some p"
    using a by (auto simp: AddMember_def split: bind_splits)
  show ?thesis
  proof (cases "choose_subgroup g")
    case None
    with a that(1) show ?thesis by (simp add: AddMember_def g p)
  next
    case (Some s)
    then obtain g' w1 where b and g': "add_slot s guid (gp_name p) (ge_junk e) g = Some g'"
      and w1: "refer_member g h guid s p (at_player guid (\<lambda>p. p\<lparr>gp_groupInvite := None\<rparr>) (put_group h g' w)) = Some w1"
      and w': "shapes w' = shapes w1"
      using a by (auto simp: AddMember_def g p Some Let_def if_distrib [of shapes] sh.ob_enchanting split: bind_splits)
    have "shapes w' = (shapes w)(h \<mapsto> shape g')" using sh.obs_refer_member [OF w1] by (simp add: w')
    with that(2) [OF \<open>b\<close> g Some g'] show ?thesis by blast
  qed
qed

lemma sim_AddMember:
  assumes a: "AddMember e h guid w = Some (b, w')" and f: "\<And>g. gw_groups w h = Some g \<Longrightarrow> \<not> IsFull g"
  shows "sim w w'"
  using a
proof (cases rule: AddMember_shape)
  case 1
  then show ?thesis by simp
next
  case (2 g p s g')
  from 2(2,5) show ?thesis
  proof (rule sim_step)
    assume t: "typed g"
    have v: "vacancy (roster g) = Some (unat s)" using choose_subgroup_vacancy [OF t] 2(3) by simp
    from add_slot_shape [OF t this, of guid "gp_name p" "ge_junk e"] 2(4) have r: "roster g' = seat guid (unat s) (roster g)"
      "counts_ok (roster g') (m_subGroupsCounts g')" by auto
    have nf: "\<not> roster_full (roster g)" using f [OF 2(2)] by (simp add: IsFull_roster)
    show "typed g' \<and> roster_step (rosters w) ((rosters w)(h \<mapsto> roster g'))"
      using t r fits_seat [OF _ nf v] roster_step.join [of "rosters w" h, OF _ nf v] rosters_at [OF 2(2)] by (simp add: typed_iff)
  qed
qed

lemma roster_leader [simp]: "roster (g\<lparr>m_leaderGuid := p\<rparr>) = (roster g)\<lparr>ro_leader := p\<rparr>"
  by (simp add: roster_def isRaidGroup_def)

lemma counts_leader [simp]: "counts_ok (R\<lparr>ro_leader := p\<rparr>) c = counts_ok R c"
  by (simp add: counts_ok_def split: option.split)

lemma typed_leader [simp]: "typed (g\<lparr>m_leaderGuid := p\<rparr>) = typed g"
  by (simp add: typed_iff)

lemma ChangeLeader_shape:
  assumes "ChangeLeader e h guid w = Some w'"
  obtains "shapes w' = shapes w"
  | g where "gw_groups w h = Some g" "getMemberSlot guid g \<noteq> None" "shapes w' = (shapes w)(h \<mapsto> shape (g\<lparr>m_leaderGuid := guid\<rparr>))"
proof -
  have *: "shape (g\<lparr>m_leaderGuid := p, m_leaderName := n\<rparr>) = shape (g\<lparr>m_leaderGuid := p\<rparr>)" for g p n
    by (simp add: shape_def roster_def isRaidGroup_def)
  show ?thesis
    using assms that by (auto simp: ChangeLeader_def Let_def sh.obs_at_group_upd * if_distrib [of shapes]
      if_distrib [of gw_groups] split: bind_splits option.splits)
qed

lemma sim_ChangeLeader:
  assumes "ChangeLeader e h guid w = Some w'"
  shows "sim w w'"
  using assms
proof (cases rule: ChangeLeader_shape)
  case (2 g)
  from 2(1,3) show ?thesis
    by (rule sim_step) (use 2 in \<open>auto simp: seated_iff intro!: roster_step.promote rosters_at\<close>)
qed (rule sim_same)

lemma sim_pick_leader: "pick_leader e h w = Some w' \<Longrightarrow> sim w w'"
  by (auto simp: pick_leader_def split: bind_splits option.splits dest: sim_ChangeLeader)

lemma sim_Disband: "Disband e h hide w = Some w' \<Longrightarrow> sim w w'"
  by (rule sim_gone) (rule sh.obs_Disband)

lemma sim_drop_slot:
  assumes "drop_slot e h guid w = Some w'"
  shows "sim w w'"
proof -
  obtain g g' where g: "gw_groups w h = Some g" and g': "remove_slot guid g = Some g'"
    and w': "w' = put_group h g' w \<or> pick_leader e h (put_group h g' w) = Some w'"
    using assms by (auto simp: drop_slot_def Let_def split: bind_splits if_splits)
  have "sim w (put_group h g' w)"
  proof (cases "getMemberSlot guid g")
    case None
    then have "g' = g" using g' by (simp add: remove_slot_def)
    then show ?thesis using g by (auto intro!: sim_same shapes_put_same)
  next
    case (Some x)
    then have s: "seated guid (roster g)" by (simp add: seated_iff)
    show ?thesis using g
    proof (rule sim_step)
      assume "typed g"
      from remove_slot_shape [OF this s] g' show "typed g' \<and> roster_step (rosters w) ((rosters w)(h \<mapsto> roster g'))"
        using roster_step.leave [of "rosters w" h, OF rosters_at [OF g] s] by auto
    qed simp
  qed
  with w' show ?thesis using sim_pick_leader sim_trans by blast
qed

lemma sim_close_group: "close_group e h w = Some (b, w') \<Longrightarrow> sim w w'"
  by (auto simp: close_group_def Let_def split: bind_splits if_splits dest: sim_Disband)

lemma sim_RemoveMember:
  assumes "RemoveMember e h guid m k r w = Some (b, w')"
  shows "sim w w'"
proof -
  obtain g where g: "gw_groups w h = Some g" using assms by (auto simp: RemoveMember_def split: bind_splits)
  define w1 where "w1 = on_lfg (OnRemoveMember (lfg_of e w) (isLFGGroup g) (m_guid g) guid m k r) w"
  have w1: "sim w w1" by (rule sim_same) (simp add: w1_def)
  note a = assms [unfolded RemoveMember_def g Option.bind.bind_lunit Let_def w1_def [symmetric]]
  consider "w' = w1" | "Disband e h False w1 = Some w'"
    | w2 w3 w4 where "take_leave h guid m w1 = Some w2"
      "leave_rolls e h guid (reset_enchanting h guid (delete_membership h guid w2)) = Some w3"
      "drop_slot e h guid w3 = Some w4" "close_group e h (SendUpdate h w4) = Some (b, w')"
    using a by (auto split: if_splits bind_splits)
  then show ?thesis
  proof cases
    case 2
    then show ?thesis using w1 sim_Disband sim_trans by blast
  next
    case 3
    have "sim w w3" using sh.obs_take_leave [OF 3(1)] sh.obs_leave_rolls [OF 3(2)] w1 by (auto intro: sim_then_same)
    also have "sim w3 w4" using sim_drop_slot [OF 3(3)] .
    also have "sim w4 (SendUpdate h w4)" by (rule sim_same) simp
    also have "sim (SendUpdate h w4) w'" using sim_close_group [OF 3(4)] .
    finally show ?thesis .
  qed (use w1 in simp)
qed

subsection \<open>Creating and converting\<close>

lemma roster_empty: "ro_seats (roster g) = [] \<longleftrightarrow> m_memberSlots g = []"
  by (simp add: roster_def)

lemma counts_ok_seats [simp]: "counts_ok (R\<lparr>ro_leader := p\<rparr>) c = counts_ok R c"
  by (simp add: counts_ok_def split: option.split)

lemma create_header_shape:
  assumes "create_header p guid i g = Some g'" and e: "m_memberSlots g = []" and t: "typed g"
  shows "typed g' \<and> (\<exists>b. roster g' = (roster g)\<lparr>ro_leader := guid, ro_raid := b\<rparr>)"
proof -
  define gl where "gl = g\<lparr>m_guid := i, m_leaderGuid := guid, m_leaderName := gp_name p\<rparr>"
  define g1 where "g1 = (if isBGGroup gl \<or> isBFGroup gl then gl\<lparr>m_groupType := GROUPTYPE_BGRAID\<rparr> else gl)"
  have c: "m_memberSlots g1 = []" "m_subGroupsCounts g1 = m_subGroupsCounts g" using e by (simp_all add: g1_def gl_def)
  have raid: "ro_raid (roster g1) = isRaidGroup g1" by (simp add: roster_def)
  have not_raid: "\<not> isRaidGroup g1 \<Longrightarrow> \<not> isRaidGroup g"
    by (auto simp: g1_def gl_def isRaidGroup_def group_type_defs split: if_splits)
  obtain g2 where 2: "(if isRaidGroup g1 then initRaidSubGroupsCounter g1 else Some g1) = Some g2" and s: "shape g' = shape g2"
  proof -
    obtain g2 where g2: "(if isRaidGroup g1 then initRaidSubGroupsCounter g1 else Some g1) = Some g2"
      and "g' = (if isLFGGroup g2 then g2 else g2\<lparr>m_lootMethod := GROUP_LOOT\<rparr>)\<lparr>m_lootThreshold := ITEM_QUALITY_UNCOMMON,
        m_looterGuid := guid, m_dungeonDifficulty := DUNGEON_DIFFICULTY_NORMAL, m_raidDifficulty := RAID_DIFFICULTY_10MAN_NORMAL\<rparr>"
      using assms(1) unfolding create_header_def Let_def gl_def [symmetric] g1_def [symmetric] by (auto split: bind_splits)
    then show ?thesis by (intro that [OF g2]) auto
  qed
  have r1: "roster g1 = (roster g)\<lparr>ro_leader := guid, ro_raid := isRaidGroup g1\<rparr>"
    using e by (auto simp: g1_def gl_def roster_def isRaidGroup_def)
  have f1: "roster_fits (roster g1)" using c(1) by (simp add: roster_fits_def roster_def occupancy_def)
  have "typed g2 \<and> roster g2 = roster g1"
  proof (cases "isRaidGroup g1")
    case True
    then have "\<exists>g'. initRaidSubGroupsCounter g1 = Some g' \<and> roster g' = roster g1 \<and> counts_ok (roster g1) (m_subGroupsCounts g')"
      by (intro init_counter_shape) (simp_all add: c roster_def)
    with 2 True f1 show ?thesis by (auto simp: typed_iff)
  next
    case False
    then have "m_subGroupsCounts g = None"
      using t not_raid by (auto simp: typed_iff counts_ok_def roster_def split: option.splits)
    with 2 False f1 c(2) raid show ?thesis by (auto simp: typed_iff counts_ok_def)
  qed
  then show ?thesis using s r1 by (auto simp: typed_def) (metis Pair_inject shape_def)
qed

lemma sim_Create:
  assumes c: "Create e h guid w = Some (b, w')" and e: "\<And>g. gw_groups w h = Some g \<Longrightarrow> m_memberSlots g = []"
  shows "sim w w'" and "\<exists>S. shapes w' = (shapes w)(h \<mapsto> S) \<and> length (ro_seats (fst S)) \<le> 1"
proof -
  obtain leader g i wi g1 where l: "gw_players w guid = Some leader" and g: "gw_groups w h = Some g"
    and i: "GenerateGroupId w = (i, wi)" and g1: "create_header leader guid (MAKE_NEW_GUID i 0 HIGHGUID_GROUP) g = Some g1"
    using c by (auto simp: Create_def split: bind_splits prod.splits)
  obtain w2 where w2: "shapes w2 = (shapes w)(h \<mapsto> shape g1)" and add: "AddMember e h guid w2 = Some (b, w')"
  proof (cases "\<not> isBGGroup g1 \<and> \<not> isBFGroup g1")
    case False
    with c show ?thesis
      by (intro that [of "at_player guid (\<lambda>p. p\<lparr>gp_leaderFlag := True\<rparr>) (put_group h g1 wi)"])
        (auto simp: Create_def l g i g1 Let_def sh.obs_managers(3) [OF i] split: if_splits)
  next
    case True
    define w0 where "w0 = at_player guid (\<lambda>p. p\<lparr>gp_leaderFlag := True\<rparr>) (put_group h g1 wi)"
    have w0: "shapes w0 = (shapes w)(h \<mapsto> shape g1)" by (simp add: w0_def sh.obs_managers(3) [OF i])
    obtain st bb w1 where st: "GenerateNewGroupDbStoreId w0 = (st, bb, w1)" by (metis prod_cases3)
    define g2 where "g2 = g1\<lparr>m_dungeonDifficulty := gp_dungeonDifficulty leader, m_raidDifficulty := gp_raidDifficulty leader, m_dbStoreId := st\<rparr>"
    obtain w3 m where w3: "RegisterGroupDbStoreId st h (put_group h g2 w1) = Some w3" and "AddMember e h guid (sql m w3) = Some (b, w')"
      using c True by (auto simp: Create_def l g i g1 w0_def [symmetric] g2_def st Let_def split: bind_splits if_splits)
    moreover have "shapes (sql m w3) = (shapes w)(h \<mapsto> shape g1)"
      using sh.obs_managers(5) [OF w3] sh.obs_managers(4) [OF st] w0 by (simp add: g2_def)
    ultimately show ?thesis using that by blast
  qed
  have seats: "m_memberSlots g1 = []" using g1 e [OF g]
    by (auto simp: create_header_def initRaidSubGroupsCounter_def Let_def split: bind_splits if_splits)
  have at_h: "m_memberSlots g' = []" if "gw_groups w2 h = Some g'" for g'
  proof -
    have "shape g' = shape g1" using w2 that by (auto simp: observe_def fun_eq_iff split: if_splits dest: spec [of _ h])
    then show ?thesis using seats by (simp add: shape_def) (metis roster_empty)
  qed
  have "sim w w2" using g w2
  proof (rule sim_step)
    assume "typed g"
    from create_header_shape [OF g1 e [OF g] this] obtain b where t: "typed g1" and "roster g1 = (roster g)\<lparr>ro_leader := guid, ro_raid := b\<rparr>"
      by blast
    with roster_step.head [of "rosters w" h "roster g" b guid] e [OF g] g
    show "typed g1 \<and> roster_step (rosters w) ((rosters w)(h \<mapsto> roster g1))"
      by (simp add: rosters_at roster_empty)
  qed
  also have "sim w2 w'" using add by (rule sim_AddMember) (auto dest: at_h simp: IsFull_def group_sizes)
  finally show "sim w w'" .
  from add show "\<exists>S. shapes w' = (shapes w)(h \<mapsto> S) \<and> length (ro_seats (fst S)) \<le> 1"
  proof (cases rule: AddMember_shape)
    case 1
    then show ?thesis using w2 seats by (auto simp: shape_def roster_def)
  next
    case (2 g p s g')
    have "length (m_memberSlots g') = 1"
      using 2(4) at_h [OF 2(2)] by (auto simp: add_slot_def SubGroupCounterIncrease_def split: option.splits)
    then show ?thesis using 2(5) w2 by (auto simp: shape_def roster_def)
  qed
qed

lemma sim_convert:
  "sim w (ConvertToLFG h w)" "ConvertToRaid h w = Some w' \<Longrightarrow> sim w w'" "ConvertToGroup h w = Some w' \<Longrightarrow> sim w w'"
proof -
  have "shape (g\<lparr>m_groupType := m_groupType g OR GROUPTYPE_LFG OR GROUPTYPE_UNK1, m_lootMethod := NEED_BEFORE_GREED\<rparr>) = shape g" for g
    by (simp add: shape_def roster_def isRaidGroup_def group_type_defs bit.conj_disj_distrib2)
  then show "sim w (ConvertToLFG h w)"
    by (intro sim_same) (auto simp: ConvertToLFG_def Let_def split: option.split)
  show "sim w w'" if a: "ConvertToRaid h w = Some w'"
  proof -
    obtain g g' where g: "gw_groups w h = Some g" and g': "initRaidSubGroupsCounter (g\<lparr>m_groupType := m_groupType g OR GROUPTYPE_RAID\<rparr>) = Some g'"
      and w': "shapes w' = (shapes w)(h \<mapsto> shape g')"
      using a by (auto simp: ConvertToRaid_def Let_def if_distrib [of shapes] split: bind_splits)
    show ?thesis using g w'
    proof (rule sim_step)
      assume t: "typed g"
      define g1 where "g1 = g\<lparr>m_groupType := m_groupType g OR GROUPTYPE_RAID\<rparr>"
      have r1: "roster g1 = (roster g)\<lparr>ro_raid := True\<rparr>" "isRaidGroup g1"
        by (simp_all add: g1_def roster_def isRaidGroup_def bit.conj_disj_distrib2 group_type_defs)
      have f: "roster_fits (roster g1)" using t r1 by (simp add: typed_iff fits_widen)
      have "length (m_memberSlots g1) \<le> 250" using fits_length [OF f] by (simp add: roster_def MAXRAIDSIZE_def)
      with f r1(2) have "\<exists>g'. initRaidSubGroupsCounter g1 = Some g' \<and> roster g' = roster g1 \<and> counts_ok (roster g1) (m_subGroupsCounts g')"
        by (intro init_counter_shape) (auto simp: roster_fits_def)
      with g' f r1 show "typed g' \<and> roster_step (rosters w) ((rosters w)(h \<mapsto> roster g'))"
        using roster_step.widen [of "rosters w" h, OF rosters_at [OF g]] by (auto simp: g1_def [symmetric] typed_iff)
    qed
  qed
  show "sim w w'" if a: "ConvertToGroup h w = Some w'"
  proof -
    obtain g where g: "gw_groups w h = Some g" using a by (auto simp: ConvertToGroup_def split: bind_splits)
    show ?thesis
    proof (cases "length (m_memberSlots g) > 5")
      case True
      then show ?thesis using a g by (simp add: ConvertToGroup_def)
    next
      case False
      define g' where "g' = g\<lparr>m_groupType := GROUPTYPE_NORMAL, m_subGroupsCounts := None\<rparr>"
      have r: "roster g' = (roster g)\<lparr>ro_raid := False\<rparr>" "m_subGroupsCounts g' = None"
        by (simp_all add: g'_def roster_def isRaidGroup_def group_type_defs)
      have len: "length (ro_seats (roster g)) \<le> MAXGROUPSIZE" using False by (simp add: roster_def MAXGROUPSIZE_def)
      have "shapes w' = (shapes w)(h \<mapsto> shape g')"
        using a False by (auto simp: ConvertToGroup_def if_distrib [of shapes] g g'_def Let_def)
      with g show ?thesis
      proof (rule sim_step)
        assume "typed g"
        then show "typed g' \<and> roster_step (rosters w) ((rosters w)(h \<mapsto> roster g'))"
          using roster_step.narrow [of "rosters w" h, OF rosters_at [OF g] len] fits_narrow [OF _ len]
          by (simp add: r typed_iff counts_ok_def)
      qed
    qed
  qed
qed

subsection \<open>Subgroups, flags and settings\<close>

lemma HasFreeSlot_occupancy:
  assumes t: "typed g" and "HasFreeSlotSubGroup s g" and s: "unat s < MAX_RAID_SUBGROUPS"
  shows "isRaidGroup g \<and> occupancy (unat s) (roster g) < MAXGROUPSIZE"
proof -
  obtain cs where cs: "m_subGroupsCounts g = Some cs" "unat (cs ! unat s) < MAXGROUPSIZE"
    using assms(2) by (auto simp: HasFreeSlotSubGroup_def split: option.splits)
  with t have "counts_ok (roster g) (Some cs)" by (simp add: typed_iff)
  from counts_okD [OF this s] cs show ?thesis by (simp add: roster_def)
qed

lemma sim_ChangeMembersGroup:
  assumes a: "ChangeMembersGroup h guid s w = Some w'" and s: "unat s < MAX_RAID_SUBGROUPS"
    and room: "\<And>g. gw_groups w h = Some g \<Longrightarrow> HasFreeSlotSubGroup s g"
  shows "sim w w'"
proof -
  obtain g where g: "gw_groups w h = Some g" using a by (auto simp: ChangeMembersGroup_def split: bind_splits)
  show ?thesis
  proof (cases "\<not> isRaidGroup g \<or> getMemberSlot guid g = None \<or> GetMemberGroup guid g = s")
    case True
    with a show ?thesis by (simp add: ChangeMembersGroup_def g)
  next
    case False
    then obtain g' where g': "move_slot guid s g = Some g'" and w': "shapes w' = (shapes w)(h \<mapsto> shape g')"
      using a by (auto simp: ChangeMembersGroup_def g Let_def if_distrib [of shapes] split: bind_splits option.splits)
    from g w' show ?thesis
    proof (rule sim_step)
      assume t: "typed g"
      have raid: "isRaidGroup g" and free: "occupancy (unat s) (roster g) < MAXGROUPSIZE"
        using HasFreeSlot_occupancy [OF t room [OF g] s] by auto
      have p: "seated guid (roster g)" using False by (simp add: seated_iff)
      have r: "ro_raid (roster g)" using raid by (simp add: roster_def)
      from move_slot_shape [OF t p s raid free] g'
      show "typed g' \<and> roster_step (rosters w) ((rosters w)(h \<mapsto> roster g'))"
        using roster_step.move [of "rosters w" h, OF rosters_at [OF g] r p s free] by auto
    qed
  qed
qed

lemma shapes_settings [simp]:
  "shapes (SetGroupMemberFlag h guid b fl w) = shapes w" "shapes (SetMemberRole h guid role w) = shapes w"
  "shapes (SetLfgRoles h guid roles w) = shapes w" "shapes (SetDungeonDifficulty h d w) = shapes w"
  "shapes (SetRaidDifficulty h d w) = shapes w" "shapes (UpdateLooterGuid near h n w) = shapes w"
proof -
  show "shapes (SetGroupMemberFlag h guid b fl w) = shapes w"
    by (auto simp: SetGroupMemberFlag_def Let_def shapes_put_same split: option.split)
  show "shapes (SetMemberRole h guid role w) = shapes w" "shapes (SetLfgRoles h guid roles w) = shapes w"
    by (auto simp: SetMemberRole_def SetLfgRoles_def shapes_put_same split: option.split)
  have each: "shapes (each_member h f w) = shapes w" if "\<And>p w. shapes (f p w) = shapes w" for f w
    using that by (auto simp: each_member_def intro!: sh.obs_fold split: option.split)
  show "shapes (SetDungeonDifficulty h d w) = shapes w" "shapes (SetRaidDifficulty h d w) = shapes w"
    by (auto simp: SetDungeonDifficulty_def SetRaidDifficulty_def Let_def each shapes_put_same split: option.split)
  show "shapes (UpdateLooterGuid near h n w) = shapes w"
    by (auto simp: UpdateLooterGuid_def Let_def split: option.split)
qed

subsection \<open>Invitations\<close>

lemma sim_UninviteFromGroup: "UninviteFromGroup e guid w = Some w' \<Longrightarrow> sim w w'"
  by (drule sh.obs_UninviteFromGroup) (auto intro: sim_same sim_gone)

lemma shape_slots: "map_option shape (gw_groups w h) = Some S \<Longrightarrow> \<exists>g. gw_groups w h = Some g \<and> length (m_memberSlots g) = length (ro_seats (fst S))"
  by (auto simp: shape_def roster_def)

lemma sim_accept_invite:
  assumes a: "accept_invite e h guid w = Some w'"
  shows "sim w w'"
proof -
  define w0 where "w0 = RemoveInvite h guid w"
  have w0: "sim w w0" by (rule sim_same) (simp add: w0_def)
  obtain g where g: "gw_groups w h = Some g" using a by (auto simp: accept_invite_def split: bind_splits)
  note a = a [unfolded accept_invite_def g Option.bind.bind_lunit Let_def w0_def [symmetric]]
  consider "shapes w' = shapes w0" | w1 w2 b where "\<not> IsFull g" "AddMember e h guid w1 = Some (b, w2)" "w' = w2"
      "(if IsCreated g then Some w0
        else do { (_, w) \<leftarrow> Create e h (m_leaderGuid g) (RemoveInvite h (m_leaderGuid g) w0);
                  g \<leftarrow> gw_groups w h; Some (AddGroup h g w) }) = Some w1"
    using a by (auto split: if_splits bind_splits dest: sh.obs_RemoveAllInvites)
  then show ?thesis
  proof cases
    case 1
    with w0 show ?thesis by (rule sim_then_same [rotated])
  next
    case (2 w1 w2 b)
    have "sim w0 w1 \<and> (\<forall>g. gw_groups w1 h = Some g \<longrightarrow> \<not> IsFull g)"
    proof (cases "IsCreated g")
      case True
      have "gw_groups w0 h = Some (g\<lparr>m_invitees := removeAll guid (m_invitees g)\<rparr>)" by (simp add: w0_def RemoveInvite_def g)
      with 2 True show ?thesis by (auto simp: IsFull_def isRaidGroup_def split: if_splits)
    next
      case False
      define w00 where "w00 = RemoveInvite h (m_leaderGuid g) w0"
      obtain b' w3 g3 where c: "Create e h (m_leaderGuid g) w00 = Some (b', w3)" and g3: "gw_groups w3 h = Some g3" and w1: "w1 = AddGroup h g3 w3"
        using 2(4) False by (auto simp: w00_def [symmetric] split: bind_splits)
      have "m_memberSlots g' = []" if "gw_groups w00 h = Some g'" for g'
        using that False by (auto simp: w00_def w0_def RemoveInvite_def g IsCreated_def GetMembersCount_def)
      note created = sim_Create [OF c this]
      have "sim w0 w00" by (rule sim_same) (simp add: w00_def)
      also have "sim w00 w3" using created(1) by blast
      also have "sim w3 w1" by (rule sim_same) (simp add: w1)
      finally have "sim w0 w1" .
      obtain S where "shapes w1 = (shapes w00)(h \<mapsto> S)" "length (ro_seats (fst S)) \<le> 1" using created(2) by (auto simp: w1)
      then have "map_option shape (gw_groups w1 h) = Some S" by (simp add: observe_def fun_eq_iff)
      from shape_slots [OF this] \<open>length (ro_seats (fst S)) \<le> 1\<close> \<open>sim w0 w1\<close> show ?thesis
        by (auto simp: IsFull_def group_sizes)
    qed
    then show ?thesis using sim_AddMember [OF 2(2)] w0 2(3) sim_trans by blast
  qed
qed

lemma sim_response: "HandleGroupInviteResponse e acc guid w = Some w' \<Longrightarrow> sim w w'"
  by (auto simp: HandleGroupInviteResponse_def Let_def split: bind_splits option.splits if_splits
    dest!: sim_accept_invite sim_UninviteFromGroup intro: sim_then_same [rotated])

lemma sim_new_group: "gw_groups w (gw_next w) = None \<Longrightarrow> new_group w = (h, w') \<Longrightarrow> sim w w'"
proof -
  assume n: "gw_groups w (gw_next w) = None" and new: "new_group w = (h, w')"
  have r: "rosters w' = (rosters w)(h \<mapsto> roster_new)"
    using new by (auto simp: new_group_def rosters_def observe_def fun_eq_iff roster_def Group_new_def roster_new_def
      isRaidGroup_def group_type_defs)
  have "typed Group_new"
    by (simp add: typed_iff roster_fits_def roster_def Group_new_def counts_ok_def isRaidGroup_def group_type_defs)
  then have "all_typed w \<Longrightarrow> all_typed w'" using new by (auto simp: all_typed_def new_group_def split: if_splits)
  moreover have "roster_step (rosters w) (rosters w')"
    unfolding r using new n by (intro roster_step.found) (auto simp: new_group_def rosters_def observe_def)
  ultimately show ?thesis by (auto simp: sim_def)
qed

lemma sim_AddLeaderInvite:
  assumes a: "AddLeaderInvite e h guid w = Some (b, w')" and g: "\<And>g. gw_groups w h = Some g \<Longrightarrow> m_memberSlots g = []"
  shows "sim w w'"
proof -
  obtain b1 w1 where 1: "AddInvite e h guid w = Some (b1, w1)" and 2: "w' = w1 \<or> (\<exists>n. w' = at_group h (\<lambda>g. g\<lparr>m_leaderGuid := guid, m_leaderName := n\<rparr>) w1)"
    using a unfolding AddLeaderInvite_def by (elim bind_eq_Some_conv [THEN iffD1, elim_format]) (auto split: bind_splits if_splits)
  have w1: "sim w w1" using sh.obs_AddInvite [OF 1] by (rule sim_same)
  have "sim w1 w'"
  proof (cases "gw_groups w1 h")
    case None
    then have "shapes (at_group h f w1) = shapes w1" for f by (auto simp: observe_def fun_eq_iff)
    with 2 show ?thesis by (auto intro: sim_same)
  next
    case (Some g1)
    then have "map_option shape (gw_groups w h) = Some (shape g1)"
      using fun_cong [OF sh.obs_AddInvite [OF 1], of h] by (simp add: observe_def)
    from shape_slots [OF this] g have e: "m_memberSlots g1 = []" by (auto simp: shape_def roster_def)
    have upd: "shapes (at_group h (\<lambda>g. g\<lparr>m_leaderGuid := guid, m_leaderName := n\<rparr>) w1) = (shapes w1)(h \<mapsto> shape (g1\<lparr>m_leaderGuid := guid\<rparr>))" for n
      by (auto simp: observe_def fun_eq_iff Some shape_def roster_def isRaidGroup_def)
    have "sim w1 v" if "shapes v = (shapes w1)(h \<mapsto> shape (g1\<lparr>m_leaderGuid := guid\<rparr>))" for v
      using Some that
    proof (rule sim_step)
      show "typed (g1\<lparr>m_leaderGuid := guid\<rparr>) \<and> roster_step (rosters w1) ((rosters w1)(h \<mapsto> roster (g1\<lparr>m_leaderGuid := guid\<rparr>)))"
        if "typed g1"
        using that roster_step.head [of "rosters w1" h "roster g1" "ro_raid (roster g1)" guid] e rosters_at [OF Some]
        by (simp add: roster_empty)
    qed
    with 2 upd show ?thesis by auto
  qed
  with w1 show ?thesis by (rule sim_trans)
qed

lemma sim_delete_group: "sim w (delete_group h w)"
  by (rule sim_gone) (rule sh.obs_delete_group)

lemma sim_invite_to_new:
  assumes n: "gw_groups w (gw_next w) = None" and i: "invite_to_new e inviter target w = Some (b, w')"
  shows "sim w w'"
proof -
  obtain h w1 where new: "new_group w = (h, w1)" by (metis surj_pair)
  obtain b2 w2 where 2: "AddLeaderInvite e h inviter w1 = Some (b2, w2)"
    and 3: "w' = delete_group h w2 \<or> (\<exists>b3 w3. AddInvite e h target w2 = Some (b3, w3) \<and> (w' = w3 \<or> w' = delete_group h w3))"
    using i by (auto simp: invite_to_new_def new split: bind_splits if_splits)
  have "m_memberSlots g = []" if "gw_groups w1 h = Some g" for g
    using new that by (auto simp: new_group_def Group_new_def)
  note s2 = sim_AddLeaderInvite [OF 2 this]
  have "sim w w1" using n new by (rule sim_new_group)
  also have "sim w1 w2" using s2 by blast
  also have "sim w2 w'" using 3 sim_delete_group sim_same [OF sh.obs_AddInvite] sim_trans by metis
  finally show ?thesis .
qed

lemma sim_HandleGroupInvite:
  assumes n: "gw_groups w (gw_next w) = None" and i: "HandleGroupInvite e f name inviter w = Some w'"
  shows "sim w w'"
proof (cases "invite_refusal f")
  case (Some r)
  with i show ?thesis by (auto simp: HandleGroupInvite_def intro!: sim_same)
next
  case None
  then obtain target me you g1 g2 where t: "if_target f = Some target" and me: "gw_players w inviter = Some me"
    and you: "gw_players w target = Some you" and g1: "handler_group me w = Some g1" and g2: "handler_group you w = Some g2"
    using i by (auto simp: HandleGroupInvite_def split: bind_splits)
  note h = i [unfolded HandleGroupInvite_def None option.case t me you g1 g2 Option.bind.bind_lunit]
  from h consider "shapes w' = shapes w"
    | b w1 where "invite_to_new e inviter target w = Some (b, w1)" "shapes w' = shapes w1"
    | g b w1 where "AddInvite e g target w = Some (b, w1)" "shapes w' = shapes w1"
    by (auto simp: Let_def split: if_splits bind_splits option.splits)
  then show ?thesis
    by cases (auto intro: sim_same sim_then_same sim_invite_to_new [OF n] dest: sh.obs_AddInvite)
qed

subsection \<open>The other handlers\<close>

lemma sim_RemoveFromGroup: "RemoveFromGroup e t guid m k r w = Some w' \<Longrightarrow> sim w w'"
  by (auto simp: RemoveFromGroup_def split: option.splits dest: sim_RemoveMember)

lemma sim_leaving:
  "HandleGroupUninviteGuid e ic ib guid reason me w = Some w' \<Longrightarrow> sim w w'"
  "HandleGroupDisband e ib me w = Some w' \<Longrightarrow> sim w w'"
  by (auto simp: HandleGroupUninviteGuid_def HandleGroupDisband_def Let_def split: bind_splits option.splits if_splits
    dest!: sim_RemoveFromGroup sim_UninviteFromGroup intro: sim_trans [OF sim_same, rotated] sim_same)

lemma sim_with_group:
  assumes "with_group me f w = Some w'"
    and "\<And>p h g w'. gw_players w me = Some p \<Longrightarrow> gp_group p = Some h \<Longrightarrow> gw_groups w h = Some g \<Longrightarrow> f h g w = Some w' \<Longrightarrow> sim w w'"
  shows "sim w w'"
  using assms by (auto simp: with_group_def split: bind_splits option.splits)

lemma shapes_fold_same: "(\<And>x w. shapes (f x w) = shapes w) \<Longrightarrow> shapes (fold f xs w) = shapes w"
  by (rule sh.obs_fold)

lemma SetTargetIcon_shape: "SetTargetIcon i t g = (g', out) \<Longrightarrow> shape g' = shape g"
  by (auto simp: SetTargetIcon_def Let_def split: if_splits)

lemma ClearWorldMarker_shape: "ClearWorldMarker slot g = (g', b) \<Longrightarrow> shape g' = shape g"
  by (auto simp: ClearWorldMarker_def split: if_splits)

lemma sim_orders:
  "HandleGroupSetLeader e guid me w = Some w' \<Longrightarrow> sim w w'"
  "HandleGroupSetRoles role guid me w = Some w' \<Longrightarrow> sim w w'"
  "HandleLootMethod lm lt lo me w = Some w' \<Longrightarrow> sim w w'"
  "HandleLootRoll e guid ty me w = Some w' \<Longrightarrow> sim w w'"
  "HandleRaidTargetUpdate x ic guid me w = Some w' \<Longrightarrow> sim w w'"
  "HandleGroupRaidConvert tr ib me w = Some w' \<Longrightarrow> sim w w'"
  "HandleGroupChangeSubGroup guid nr me w = Some w' \<Longrightarrow> sim w w'"
  "HandleGroupAssistantLeader guid b me w = Some w' \<Longrightarrow> sim w w'"
  "HandlePartyAssignment as b guid me w = Some w' \<Longrightarrow> sim w w'"
  "HandleSetEveryoneIsAssistant b me w = Some w' \<Longrightarrow> sim w w'"
  "HandleClearWorldMarker slot me w = Some w' \<Longrightarrow> sim w w'"
proof -
  show "sim w w'" if "HandleGroupSetLeader e guid me w = Some w'"
    using that unfolding HandleGroupSetLeader_def
    by (rule sim_with_group)
      (auto split: option.splits if_splits dest!: sim_ChangeLeader intro: sim_then_same [rotated])
  show "sim w w'" if "HandleGroupSetRoles role guid me w = Some w'"
    using that unfolding HandleGroupSetRoles_def
    by (rule sim_with_group) (auto split: option.splits if_splits intro!: sim_same)
  show "sim w w'" if "HandleLootMethod lm lt lo me w = Some w'"
    using that unfolding HandleLootMethod_def
    by (rule sim_with_group) (auto split: if_splits intro!: sim_same)
  show "sim w w'" if "HandleLootRoll e guid ty me w = Some w'"
    using that unfolding HandleLootRoll_def
    by (rule sim_with_group) (auto dest!: sh.obs_CountRollVote intro: sim_same)
  show "sim w w'" if "HandleRaidTargetUpdate x ic guid me w = Some w'"
    using that unfolding HandleRaidTargetUpdate_def
    by (rule sim_with_group)
      (auto split: prod.splits if_splits simp: shapes_fold_same SetTargetIcon_shape intro!: sim_same)
  show "sim w w'" if "HandleGroupRaidConvert tr ib me w = Some w'"
    using that unfolding HandleGroupRaidConvert_def
    by (rule sim_with_group)
      (auto simp: Let_def split: if_splits dest!: sim_convert(2,3) intro: sim_trans [OF sim_same, rotated])
  show "sim w w'" if "HandleGroupChangeSubGroup guid nr me w = Some w'"
    using that unfolding HandleGroupChangeSubGroup_def
    by (rule sim_with_group) (auto split: if_splits intro: sim_ChangeMembersGroup)
  show "sim w w'" if "HandleGroupAssistantLeader guid b me w = Some w'"
    using that unfolding HandleGroupAssistantLeader_def by (rule sim_with_group) (auto split: if_splits intro!: sim_same)
  show "sim w w'" if "HandlePartyAssignment as b guid me w = Some w'"
    using that unfolding HandlePartyAssignment_def by (rule sim_with_group) (auto simp: Let_def split: if_splits intro!: sim_same)
  show "sim w w'" if "HandleSetEveryoneIsAssistant b me w = Some w'"
    using that unfolding HandleSetEveryoneIsAssistant_def
    by (rule sim_with_group) (auto simp: shapes_fold_same split: if_splits intro!: sim_same)
  show "sim w w'" if "HandleClearWorldMarker slot me w = Some w'"
    using that unfolding HandleClearWorldMarker_def
    by (rule sim_with_group)
      (auto split: prod.splits if_splits simp: Let_def ClearWorldMarker_shape intro!: sim_same)
qed

lemma sim_ready_check:
  "HandleRaidReadyCheck me w = Some w' \<Longrightarrow> sim w w'"
  "HandleRaidReadyCheckConfirm st me w = Some w' \<Longrightarrow> sim w w'"
  "ReadyCheckComplete me w = Some w' \<Longrightarrow> sim w w'"
  "ready_check_tick t me w = Some w' \<Longrightarrow> sim w w'"
proof -
  have off: "shapes (OfflineReadyCheck h w) = shapes w" for h w
    by (auto simp: OfflineReadyCheck_def offline_response_def shapes_fold_same split: option.split)
  have fin: "shapes (SendReadyCheckCompleted h w) = shapes w" for h w
    by (simp add: SendReadyCheckCompleted_def split: option.split)
  show "sim w w'" if "HandleRaidReadyCheck me w = Some w'"
    using that unfolding HandleRaidReadyCheck_def
    by (rule sim_with_group) (auto split: if_splits simp: Let_def off intro!: sim_same)
  show "sim w w'" if "HandleRaidReadyCheckConfirm st me w = Some w'"
    using that unfolding HandleRaidReadyCheckConfirm_def
    by (rule sim_with_group) (auto split: if_splits simp: Let_def fin intro!: sim_same)
  show complete: "sim w w'" if "ReadyCheckComplete me w = Some w'" for w w'
    using that unfolding ReadyCheckComplete_def
    by (rule sim_with_group) (auto split: if_splits simp: Let_def fin intro!: sim_same)
  show "sim w w'" if "ready_check_tick t me w = Some w'"
    using that by (auto simp: ready_check_tick_def split: bind_splits if_splits dest: complete intro: sim_same)
qed

lemma sim_world:
  "LoadGroup row me w = Some w' \<Longrightarrow> sim w w'" "sim w (delete_player me w)" "LogoutPlayer e socket me w = Some w' \<Longrightarrow> sim w w'"
proof -
  have rejoin: "shapes w' = shapes w" if "rejoin h g me p w = Some w'" for h g p w w'
    using that by (auto simp: rejoin_def Let_def split: bind_splits if_splits dest!: sh.obs_set_ref(2))
  show "sim w w'" if "LoadGroup row me w = Some w'"
    using that by (auto simp: LoadGroup_def split: bind_splits option.splits if_splits dest!: rejoin intro!: sim_same)
  show del: "sim w (delete_player me w)" for w
    by (rule sim_same) (simp add: delete_player_def Let_def)
  show "sim w w'" if l: "LogoutPlayer e socket me w = Some w'"
  proof -
    obtain w1 w2 p w3 p3 where 1: "ReadyCheckComplete me w = Some w1" and 2: "UninviteFromGroup e me w1 = Some w2"
      and 3: "w3 = w2 \<or> (\<exists>h. RemoveFromGroup e (Some h) me GROUP_REMOVEMETHOD_DEFAULT 0 [] w2 = Some w3)"
      and 4: "\<exists>w4. shapes w4 = shapes w3 \<and> w' = delete_player me w4"
    proof -
      obtain w1 w2 p where 1: "ReadyCheckComplete me w = Some w1" and 2: "UninviteFromGroup e me w1 = Some w2"
        and p: "gw_players w2 me = Some p"
        using l by (auto simp: LogoutPlayer_def split: bind_splits)
      obtain w3 where 3: "(case gp_group p of None \<Rightarrow> Some w2
               | Some h \<Rightarrow> do {
                   g \<leftarrow> gw_groups w2 h;
                   if \<not> isRaidGroup g \<and> socket then RemoveFromGroup e (Some h) me GROUP_REMOVEMETHOD_DEFAULT 0 [] w2 else Some w2 }) = Some w3"
        using l by (auto simp: LogoutPlayer_def 1 2 p split: bind_splits)
      obtain p3 where p3: "gw_players w3 me = Some p3"
        using l unfolding LogoutPlayer_def 1 2 p Option.bind.bind_lunit 3 by (auto split: bind_splits)
      define w4 where "w4 = (case gp_group p3 of None \<Rightarrow> w3 | Some h \<Rightarrow> ResetMaxEnchantingLevel h (SendUpdate h w3))"
      define w5 where "w5 = on_lfg (OnLogout (lfg_of e w4) (gp_group p3 \<noteq> None) me) w4"
      have "w' = delete_player me w5"
        using l unfolding LogoutPlayer_def 1 2 p Option.bind.bind_lunit 3 p3 Let_def w4_def [symmetric] w5_def [symmetric] by simp
      moreover have "shapes w5 = shapes w3" by (simp add: w5_def w4_def split: option.split)
      ultimately show ?thesis using that [OF 1 2 _ ] 3 by (auto split: option.splits bind_splits if_splits)
    qed
    have "sim w w1" using sim_ready_check(3) [OF 1] .
    also have "sim w1 w2" using sim_UninviteFromGroup [OF 2] .
    also have "sim w2 w3" using 3 sim_RemoveFromGroup by auto
    also have "sim w3 w'" using 4 del sim_same sim_trans by blast
    finally show ?thesis .
  qed
qed

end
