(* ===== verification/GroupSteps.thy ===== *)
theory GroupSteps
  imports GroupRefinement
begin

text \<open>
  What may happen to the groups of a server, as one step relation: the packet handlers, the calls of the
  other parts of the server, players and loot that come and go. Any sequence of steps keeps the references
  sound, and refines the specification of rosters. The flag says that members added by a direct call find
  a group that is not full, as the handler of an accepted invitation makes sure itself; the callers in
  \<open>GroupCallers\<close> are sequences of steps without the flag.
\<close>

inductive group_step :: "bool \<Rightarrow> GroupWorld \<Rightarrow> GroupWorld \<Rightarrow> bool" for cap where
  invite: "HandleGroupInvite e f name p w = Some w' \<Longrightarrow> if_target f \<noteq> Some p \<Longrightarrow> group_step cap w w'"
| respond: "HandleGroupInviteResponse e accept p w = Some w' \<Longrightarrow> group_step cap w w'"
| uninvite: "HandleGroupUninviteGuid e ic ib guid reason p w = Some w' \<Longrightarrow> group_step cap w w'"
| leave: "HandleGroupDisband e ib p w = Some w' \<Longrightarrow> group_step cap w w'"
| set_leader: "HandleGroupSetLeader e guid p w = Some w' \<Longrightarrow> group_step cap w w'"
| set_roles: "HandleGroupSetRoles r guid p w = Some w' \<Longrightarrow> group_step cap w w'"
| loot_method: "HandleLootMethod lm lt lo p w = Some w' \<Longrightarrow> group_step cap w w'"
| loot_roll: "HandleLootRoll e guid ty p w = Some w' \<Longrightarrow> group_step cap w w'"
| target: "HandleRaidTargetUpdate x ic guid p w = Some w' \<Longrightarrow> group_step cap w w'"
| convert: "HandleGroupRaidConvert b ib p w = Some w' \<Longrightarrow> group_step cap w w'"
| subgroup: "HandleGroupChangeSubGroup guid nr p w = Some w' \<Longrightarrow> group_step cap w w'"
| assistant: "HandleGroupAssistantLeader guid b p w = Some w' \<Longrightarrow> group_step cap w w'"
| assign: "HandlePartyAssignment k b guid p w = Some w' \<Longrightarrow> group_step cap w w'"
| everyone: "HandleSetEveryoneIsAssistant b p w = Some w' \<Longrightarrow> group_step cap w w'"
| marker: "HandleClearWorldMarker slot p w = Some w' \<Longrightarrow> group_step cap w w'"
| opt_out: "group_step cap w (HandleOptOutOfLoot b p w)"
| ready: "HandleRaidReadyCheck p w = Some w' \<Longrightarrow> group_step cap w w'"
| confirm: "HandleRaidReadyCheckConfirm b p w = Some w' \<Longrightarrow> group_step cap w w'"
| tick: "ready_check_tick t p w = Some w' \<Longrightarrow> group_step cap w w'"
| login: "gw_players w p = None \<Longrightarrow> gp_group q = None \<Longrightarrow> gp_originalGroup q = None \<Longrightarrow> gp_groupInvite q = None \<Longrightarrow>
    group_step cap w (w\<lparr>gw_players := (gw_players w)(p \<mapsto> q)\<rparr>)"
| load: "LoadGroup row p w = Some w' \<Longrightarrow> group_step cap w w'"
| moved: "group_step cap w (at_player p (\<lambda>q. q\<lparr>gp_inWorld := b\<rparr>) w)"
| logout: "LogoutPlayer e s p w = Some w' \<Longrightarrow> group_step cap w w'"
| found: "new_group w = (h, w') \<Longrightarrow> group_step cap w w'"
| bg: "group_step cap w (at_group h (SetBattlegroundGroup b) w)"
| bf: "group_step cap w (at_group h (SetBattlefieldGroup b) w)"
| create: "Create e h p w = Some (b, w') \<Longrightarrow> gw_groups w h = Some g \<Longrightarrow> m_memberSlots g = [] \<Longrightarrow> group_step cap w w'"
| register: "group_step cap w (AddGroup h g w)"
| add: "AddMember e h p w = Some (b, w') \<Longrightarrow> (\<And>g. cap \<Longrightarrow> gw_groups w h = Some g \<Longrightarrow> \<not> IsFull g) \<Longrightarrow> group_step cap w w'"
| remove: "RemoveMember e h p method k r w = Some (b, w') \<Longrightarrow> group_step cap w w'"
| disband: "Disband e h b w = Some w' \<Longrightarrow> group_step cap w w'"
| lead: "ChangeLeader e h p w = Some w' \<Longrightarrow> group_step cap w w'"
| to_lfg: "group_step cap w (ConvertToLFG h w)"
| to_raid: "ConvertToRaid h w = Some w' \<Longrightarrow> group_step cap w w'"
| roles: "group_step cap w (SetLfgRoles h p r w)"
| difficulty: "group_step cap w (SetDungeonDifficulty h d w)"
| raid_difficulty: "group_step cap w (SetRaidDifficulty h d w)"
| join_raid: "SetBattlegroundOrBattlefieldRaid p h s w = Some w' \<Longrightarrow> group_step cap w w'"
| looter: "group_step cap w (UpdateLooterGuid near h b w)"
| group_loot: "GroupLoot e al near m h la w = Some w' \<Longrightarrow> group_step cap w w'"
| need_loot: "NeedBeforeGreed e al near cn m h la w = Some w' \<Longrightarrow> group_step cap w w'"
| master_loot: "MasterLoot near h w = Some w' \<Longrightarrow> group_step cap w w'"
| end_roll: "EndRoll e h la w = Some w' \<Longrightarrow> group_step cap w w'"
| loots: "group_step cap w (w\<lparr>gw_loots := lo\<rparr>)"
| loot_clear: "group_step cap w (Loot_clear la w)"
| update: "group_step cap w (SendUpdate h w)"
| told: "group_step cap w (send_to p m w)"
| stored: "group_step cap w (sql s w)"
| lfg: "group_step cap w (on_lfg k w)"

lemma view_Loot_clear [simp]: "view (Loot_clear la w) = view w" "shapes (Loot_clear la w) = shapes w"
  by (auto simp: Loot_clear_def Let_def view_def pview_def gview_def observe_def at_loot_def fun_eq_iff grefs_def
    shape_def roster_def isRaidGroup_def option.map_comp comp_def intro!: option.map_cong0)

lemma refs_ok_frame [simp]:
  "refs_ok (Loot_clear la w) = refs_ok w" "refs_ok (w\<lparr>gw_loots := lo\<rparr>) = refs_ok w"
  "refs_ok (at_group h (SetBattlegroundGroup b) w) = refs_ok w" "refs_ok (at_group h (SetBattlefieldGroup b) w) = refs_ok w"
proof -
  show "refs_ok (Loot_clear la w) = refs_ok w" by (rule refs_ok_view) simp
  show "refs_ok (w\<lparr>gw_loots := lo\<rparr>) = refs_ok w"
    by (rule refs_ok_view) (simp add: view_def pview_def gview_def fun_eq_iff)
qed (simp_all add: SetBattlegroundGroup_def SetBattlefieldGroup_def grefs_def)

lemma refs_ok_login:
  assumes "refs_ok w" "gw_players w p = None" "gp_group q = None" "gp_originalGroup q = None" "gp_groupInvite q = None"
  shows "refs_ok (w\<lparr>gw_players := (gw_players w)(p \<mapsto> q)\<rparr>)"
proof -
  have pv: "pview (w\<lparr>gw_players := (gw_players w)(p \<mapsto> q)\<rparr>) = (pview w)(p \<mapsto> prefs q)"
    and gv: "gview (w\<lparr>gw_players := (gw_players w)(p \<mapsto> q)\<rparr>) = gview w"
    by (auto simp: pview_def gview_def fun_eq_iff)
  have none: "pview w p = None" using assms(2) by (simp add: pview_def)
  have t: "tref k (prefs q) = None" "lk_invite (prefs q) = None" for k
    using assms(3-5) by (cases k; simp add: ref_target_def)+
  show ?thesis
    by (rule refs_okI)
      (use refs_okD [OF assms(1)] none in \<open>fastforce simp: pv gv t simp del: tref_prefs split: if_splits\<close>)+
qed

lemma prefs_loot [simp]: "refs_ok (HandleOptOutOfLoot b p w) = refs_ok w"
  by (simp add: HandleOptOutOfLoot_def)

lemma refs_ok_moved [simp]: "refs_ok (at_player p (\<lambda>q. q\<lparr>gp_inWorld := b\<rparr>) w) = refs_ok w"
  by simp

lemmas refs_ok_handlers = refs_ok_HandleGroupInvite refs_ok_response refs_ok_leaving refs_ok_orders refs_ok_ready_check
  refs_ok_LoadGroup refs_ok_LogoutPlayer refs_ok_Create refs_ok_AddMember refs_ok_RemoveMember refs_ok_Disband
  refs_ok_convert(2,3) refs_ok_raid refs_ok_new_group

lemmas refs_ok_by_view = refs_ok_ChangeLeader view_loot [THEN refs_ok_view] view_EndRoll [THEN refs_ok_view]

lemma group_step_refs: "group_step cap w w' \<Longrightarrow> refs_ok w \<Longrightarrow> refs_ok w'"
  by (induction rule: group_step.induct)
    (((simp add: refs_ok_convert(1); fail) | (erule (1) refs_ok_handlers [rotated]; (assumption)?; fail)
      | (erule refs_ok_login [rotated]; assumption) | (drule refs_ok_by_view, blast))+)

lemma fresh_group: "refs_ok w \<Longrightarrow> gw_groups w (gw_next w) = None"
  using refs_okD(5) [of w "gw_next w"] by (simp add: gview_def)

lemma shapes_callers:
  "shapes (HandleOptOutOfLoot b p w) = shapes w" "shapes (at_group h (SetBattlegroundGroup bg) w) = shapes w"
  "shapes (at_group h (SetBattlefieldGroup bf) w) = shapes w"
  by (simp_all add: HandleOptOutOfLoot_def SetBattlegroundGroup_def SetBattlefieldGroup_def)

lemmas sim_handlers = sim_response sim_leaving sim_orders sim_ready_check sim_world sim_RemoveMember sim_Disband
  sim_ChangeLeader sim_convert sim_same [OF sh.obs_raid(1)] sim_same [OF sh.obs_loot(1)] sim_same [OF sh.obs_loot(2)]
  sim_same [OF sh.obs_loot(3)] sim_same [OF sh.obs_EndRoll]

lemma group_step_sim: "group_step True w w' \<Longrightarrow> refs_ok w \<Longrightarrow> sim w w'"
proof (induction rule: group_step.induct)
  case (invite e f name p w w')
  then show ?case using sim_HandleGroupInvite fresh_group by blast
next
  case (found w h w')
  then show ?case using sim_new_group fresh_group by blast
next
  case (create e h p w b w' g)
  then show ?case using sim_Create(1) [OF create(1)] by simp
next
  case (add e h p w b w')
  then show ?case using sim_AddMember by blast
qed ((rule sim_same, simp add: shapes_callers; fail) | (erule sim_handlers; fail) | (rule sim_handlers; fail))+

lemma group_steps_sim: "(group_step True)\<^sup>*\<^sup>* w w' \<Longrightarrow> refs_ok w \<Longrightarrow> refs_ok w' \<and> sim w w'"
proof (induction rule: rtranclp_induct)
  case (step w1 w2)
  then show ?case using group_step_refs group_step_sim sim_trans by blast
qed simp

end
