(* ===== verification/GroupLfg.thy ===== *)
theory GroupLfg
  imports GroupSafety
begin

text \<open>
  What the operations of groups do to the dungeon finder: nothing but calls of its hooks. In particular
  \<open>LFGMgr::MakeNewGroup\<close>, which the model of the manager takes as a parameter, is such a sequence, so the
  manager's invariants hold for the manager together with the groups of the server.
\<close>

definition hooks :: "GroupWorld \<Rightarrow> GroupWorld \<Rightarrow> bool" where
  "hooks w w' \<longleftrightarrow> hook_step\<^sup>*\<^sup>* (gw_lfg w) (gw_lfg w')"

lemma hooks_refl [simp]: "hooks w w"
  by (simp add: hooks_def)

lemma hooks_trans [trans]: "hooks w w1 \<Longrightarrow> hooks w1 w2 \<Longrightarrow> hooks w w2"
  by (auto simp: hooks_def)

lemma hooks_same: "gw_lfg w' = gw_lfg w \<Longrightarrow> hooks w w'"
  by (simp add: hooks_def)

subsection \<open>Operations that leave the manager alone\<close>

lemma lfg_fold: "(\<And>x w. gw_lfg (f x w) = gw_lfg w) \<Longrightarrow> gw_lfg (fold f xs w) = gw_lfg w"
  by (induction xs arbitrary: w) simp_all

lemma lfg_each_slot: "(\<And>i w w'. f i w = Some w' \<Longrightarrow> gw_lfg w' = gw_lfg w) \<Longrightarrow> each_slot f is w = Some w' \<Longrightarrow> gw_lfg w' = gw_lfg w"
  by (induction "is" arbitrary: w) (auto split: option.splits)

lemma lfg_simple [simp]: "gw_lfg (at_loot la l w) = gw_lfg w" "gw_lfg (on_rolls h f w) = gw_lfg w"
  by (simp_all add: at_loot_def on_rolls_def)

lemma lfg_messages [simp]:
  "gw_lfg (SendUpdateToPlayer h guid full w) = gw_lfg w" "gw_lfg (SendUpdate h w) = gw_lfg w" "gw_lfg (send_voters c m r w) = gw_lfg w"
proof -
  have *: "gw_lfg (SendUpdateToPlayer h guid full w) = gw_lfg w" for h guid full w
    by (simp add: SendUpdateToPlayer_def split: option.split)
  show "gw_lfg (SendUpdateToPlayer h guid full w) = gw_lfg w" "gw_lfg (SendUpdate h w) = gw_lfg w"
    "gw_lfg (send_voters c m r w) = gw_lfg w"
    by (auto simp: * SendUpdate_def send_voters_def intro!: lfg_fold split: option.split)
qed

lemma lfg_managers [simp]:
  "gw_lfg (AddGroup h g w) = gw_lfg w" "gw_lfg (RemoveGroup g w) = gw_lfg w"
  "GenerateGroupId w = (i, w') \<Longrightarrow> gw_lfg w' = gw_lfg w"
  "GenerateNewGroupDbStoreId w = (s, b, w') \<Longrightarrow> gw_lfg w' = gw_lfg w"
  "RegisterGroupDbStoreId s h w = Some w' \<Longrightarrow> gw_lfg w' = gw_lfg w"
  "FreeGroupDbStoreId s w = Some w' \<Longrightarrow> gw_lfg w' = gw_lfg w"
  "new_group w = (h, w') \<Longrightarrow> gw_lfg w' = gw_lfg w"
  by (auto simp: AddGroup_def RemoveGroup_def GenerateGroupId_def GenerateNewGroupDbStoreId_def new_group_def
    RegisterGroupDbStoreId_def FreeGroupDbStoreId_def Let_def split: if_splits)

lemma lfg_refs [simp]:
  "gw_lfg (unlink guid k w) = gw_lfg w" "gw_lfg (DelinkMember h guid w) = gw_lfg w" "gw_lfg (invalidate x w) = gw_lfg w"
  "gw_lfg (delete_group h w) = gw_lfg w" "gw_lfg (RemoveInvite h guid w) = gw_lfg w"
  by (auto simp: unlink_def DelinkMember_def invalidate_def delete_group_def RemoveInvite_def Let_def intro!: lfg_fold split: option.split)

lemma lfg_link_ref: "link_ref guid k h w = Some w' \<Longrightarrow> gw_lfg w' = gw_lfg w"
  by (auto simp: link_ref_def Let_def split: if_splits)

lemma lfg_set_ref:
  "set_ref guid k t w = Some w' \<Longrightarrow> gw_lfg w' = gw_lfg w" "Player_SetGroup guid t w = Some w' \<Longrightarrow> gw_lfg w' = gw_lfg w"
  "Player_SetOriginalGroup guid t w = Some w' \<Longrightarrow> gw_lfg w' = gw_lfg w"
proof -
  show *: "gw_lfg w' = gw_lfg w" if "set_ref guid k t w = Some w'" for k
    using that by (auto simp: set_ref_def split: option.splits prod.splits if_splits dest: lfg_link_ref)
  show "Player_SetGroup guid t w = Some w' \<Longrightarrow> gw_lfg w' = gw_lfg w"
    "Player_SetOriginalGroup guid t w = Some w' \<Longrightarrow> gw_lfg w' = gw_lfg w"
    by (auto simp: Player_SetGroup_def Player_SetOriginalGroup_def dest: *)
qed

lemma lfg_raid:
  "SetBattlegroundOrBattlefieldRaid guid h s w = Some w' \<Longrightarrow> gw_lfg w' = gw_lfg w"
  "RemoveFromBattlegroundOrBattlefieldRaid guid w = Some w' \<Longrightarrow> gw_lfg w' = gw_lfg w"
  by (auto simp: SetBattlegroundOrBattlefieldRaid_def RemoveFromBattlegroundOrBattlefieldRaid_def Let_def
    split: bind_splits option.splits dest!: lfg_link_ref lfg_set_ref(3))

lemma lfg_RemoveAllInvites: "RemoveAllInvites h w = Some w' \<Longrightarrow> gw_lfg w' = gw_lfg w"
proof -
  have "clear_invites ps w = Some w' \<Longrightarrow> gw_lfg w' = gw_lfg w" for ps w w'
    by (induction ps arbitrary: w) (auto split: if_splits)
  then show "RemoveAllInvites h w = Some w' \<Longrightarrow> gw_lfg w' = gw_lfg w"
    by (auto simp: RemoveAllInvites_def split: bind_splits)
qed

lemma lfg_loot_item [simp]:
  "gw_lfg (loot_item la i w) = gw_lfg w" "gw_lfg (unblock_item la i w) = gw_lfg w" "gw_lfg (store_item e p r it la w) = gw_lfg w"
  "disenchant_item e p r la w = Some w' \<Longrightarrow> gw_lfg w' = gw_lfg w"
proof -
  have *: "gw_lfg (NotifyItemRemoved la i w) = gw_lfg w" for la i w
    by (auto simp: NotifyItemRemoved_def intro!: lfg_fold split: option.split)
  show "gw_lfg (loot_item la i w) = gw_lfg w" "gw_lfg (unblock_item la i w) = gw_lfg w" "gw_lfg (store_item e p r it la w) = gw_lfg w"
    "disenchant_item e p r la w = Some w' \<Longrightarrow> gw_lfg w' = gw_lfg w"
    by (auto simp: loot_item_def unblock_item_def store_item_def disenchant_item_def *)
qed

lemma lfg_roll_messages [simp]:
  "gw_lfg (SendLootRoll s t n y r w) = gw_lfg w" "gw_lfg (SendLootRollWon s t n y r w) = gw_lfg w" "gw_lfg (SendLootAllPassed r w) = gw_lfg w"
  by (simp_all add: SendLootRoll_def SendLootRollWon_def SendLootAllPassed_def)

lemma lfg_roll_numbers: "roll_numbers e c r vs best w = (x, w') \<Longrightarrow> gw_lfg w' = gw_lfg w"
  by (induction e c r vs best w rule: roll_numbers.induct) (auto simp: draw_def Let_def split: if_splits prod.splits)

lemma lfg_CountTheRoll: "CountTheRoll e h i w = Some w' \<Longrightarrow> gw_lfg w' = gw_lfg w"
  by (auto simp: CountTheRoll_def award_def Let_def split: if_splits option.splits bind_splits prod.splits dest: lfg_roll_numbers)

lemma lfg_CountRollVote: "CountRollVote e h p g c w = Some w' \<Longrightarrow> gw_lfg w' = gw_lfg w"
  by (auto simp: CountRollVote_def tell_vote_def Let_def split: if_splits option.splits bind_splits dest!: lfg_CountTheRoll)

lemma lfg_leave_rolls: "leave_rolls e h guid w = Some w' \<Longrightarrow> gw_lfg w' = gw_lfg w"
proof -
  have "leave_roll e h guid i w = Some w' \<Longrightarrow> gw_lfg w' = gw_lfg w" for i w w'
    by (auto simp: leave_roll_def Let_def split: bind_splits option.splits if_splits dest: lfg_CountRollVote)
  then show "leave_rolls e h guid w = Some w' \<Longrightarrow> gw_lfg w' = gw_lfg w"
    by (auto simp: leave_rolls_def split: bind_splits dest: lfg_each_slot [rotated])
qed

lemma lfg_each_member: "(\<And>p w. gw_lfg (f p w) = gw_lfg w) \<Longrightarrow> gw_lfg (each_member h f w) = gw_lfg w"
  by (auto simp: each_member_def intro!: lfg_fold split: option.split)

lemma lfg_if [simp]: "gw_lfg a = gw_lfg b \<Longrightarrow> gw_lfg (if c then a else b) = gw_lfg b"
  by simp

lemma lfg_members [simp]:
  "gw_lfg (ResetMaxEnchantingLevel h w) = gw_lfg w" "gw_lfg (reset_enchanting h guid w) = gw_lfg w"
  "gw_lfg (delete_membership h guid w) = gw_lfg w" "gw_lfg (SetLfgRoles h guid r w) = gw_lfg w"
  "gw_lfg (SetDungeonDifficulty h d w) = gw_lfg w" "gw_lfg (ConvertToLFG h w) = gw_lfg w"
  "gw_lfg (adopt_difficulty g guid w) = gw_lfg w"
proof -
  have r: "gw_lfg (ResetMaxEnchantingLevel h w) = gw_lfg w" by (simp add: ResetMaxEnchantingLevel_def)
  then show "gw_lfg (ResetMaxEnchantingLevel h w) = gw_lfg w" .
  from r show "gw_lfg (reset_enchanting h guid w) = gw_lfg w" by (simp add: reset_enchanting_def split: option.split)
  show "gw_lfg (delete_membership h guid w) = gw_lfg w" by (simp add: delete_membership_def split: option.split)
  show "gw_lfg (SetLfgRoles h guid r w) = gw_lfg w" by (simp add: SetLfgRoles_def split: option.split)
  show "gw_lfg (SetDungeonDifficulty h d w) = gw_lfg w"
    by (simp add: SetDungeonDifficulty_def Let_def lfg_each_member split: option.split)
  show "gw_lfg (ConvertToLFG h w) = gw_lfg w" by (simp add: ConvertToLFG_def Let_def split: option.split)
  show "gw_lfg (adopt_difficulty g guid w) = gw_lfg w" by (simp add: adopt_difficulty_def Let_def split: option.split)
qed

lemma lfg_refer_member: "refer_member g h guid s p w = Some w' \<Longrightarrow> gw_lfg w' = gw_lfg w"
  by (auto simp: refer_member_def split: if_splits dest: lfg_set_ref(2,3) lfg_raid(1))

lemma lfg_dismiss: "dismiss h hide guid w = Some w' \<Longrightarrow> gw_lfg w' = gw_lfg w"
  by (auto simp: dismiss_def Let_def split: option.splits bind_splits if_splits dest: lfg_set_ref(2,3) lfg_raid(2))

lemma lfg_dismiss_all: "dismiss_all h hide gs w = Some w' \<Longrightarrow> gw_lfg w' = gw_lfg w"
  by (induction gs arbitrary: w) (auto split: option.splits dest: lfg_dismiss)

lemma lfg_take_leave: "take_leave h guid m w = Some w' \<Longrightarrow> gw_lfg w' = gw_lfg w"
  by (auto simp: take_leave_def Let_def split: option.splits bind_splits if_splits dest: lfg_set_ref(2,3) lfg_raid(2))

lemma lfg_teleport: "TeleportPlayer facts guid out op w = Some w' \<Longrightarrow> gw_lfg w' = gw_lfg w"
  by (auto simp: TeleportPlayer_def split: bind_splits option.splits if_splits)

lemma lfg_teleport_all: "teleport_all facts ps w = Some w' \<Longrightarrow> gw_lfg w' = gw_lfg w"
  by (induction ps arbitrary: w) (auto split: option.splits if_splits dest: lfg_teleport)

subsection \<open>Operations that call the hooks\<close>

lemma hooks_AddMember:
  assumes a: "AddMember e h guid w = Some (b, w')"
  shows "hooks w w'"
proof -
  obtain g p where g: "gw_groups w h = Some g" and p: "gw_players w guid = Some p"
    using a by (auto simp: AddMember_def split: bind_splits)
  show ?thesis
  proof (cases "choose_subgroup g")
    case None
    with a show ?thesis by (simp add: AddMember_def g p)
  next
    case (Some s)
    then obtain g' w1 v where w1: "refer_member g h guid s p (at_player guid (\<lambda>p. p\<lparr>gp_groupInvite := None\<rparr>) (put_group h g' w)) = Some w1"
      and w': "gw_lfg w' = OnAddMember v (m_guid g) (m_leaderGuid g) guid (gw_lfg w1)"
      using a by (auto simp: AddMember_def g p Some Let_def split: bind_splits)
    then show ?thesis using hook_step.add by (auto simp: hooks_def lfg_refer_member [OF w1] intro: r_into_rtranclp)
  qed
qed

lemma hooks_ChangeLeader:
  assumes a: "ChangeLeader e h guid w = Some w'"
  shows "hooks w w'"
proof -
  have "gw_lfg w' = gw_lfg w \<or> (\<exists>gg. gw_lfg w' = OnChangeLeader gg guid (gw_lfg w))"
    using a by (auto simp: ChangeLeader_def Let_def split: bind_splits option.splits)
  then show ?thesis using hook_step.leader by (auto simp: hooks_def intro: r_into_rtranclp)
qed

lemma hooks_Disband:
  assumes a: "Disband e h hide w = Some w'"
  shows "hooks w w'"
proof -
  obtain g w1 w2 w3 v where 1: "dismiss_all h hide (map ms_guid (m_memberSlots g)) (on_lfg (OnDisband v (m_guid g)) w) = Some w1"
    and 2: "RemoveAllInvites h (at_group h (\<lambda>g. g\<lparr>RollId := [], m_memberSlots := []\<rparr>) w1) = Some w2"
    and 3: "gw_lfg w3 = gw_lfg w2" and w': "w' = delete_group h (RemoveGroup g w3)"
    using a by (auto simp: Disband_def Let_def split: bind_splits if_splits dest!: lfg_managers(6))
  have "gw_lfg w' = OnDisband v (m_guid g) (gw_lfg w)"
    by (simp add: w' 3 lfg_RemoveAllInvites [OF 2] lfg_dismiss_all [OF 1])
  then show ?thesis using hook_step.disband by (auto simp: hooks_def intro: r_into_rtranclp)
qed

lemma hooks_RemoveMember:
  assumes "RemoveMember e h guid m k r w = Some (b, w')"
  shows "hooks w w'"
proof -
  obtain g where g: "gw_groups w h = Some g" using assms by (auto simp: RemoveMember_def split: bind_splits)
  define w1 where "w1 = on_lfg (OnRemoveMember (lfg_of e w) (isLFGGroup g) (m_guid g) guid m k r) w"
  have w1: "hooks w w1" using hook_step.remove by (auto simp: w1_def hooks_def intro: r_into_rtranclp)
  note a = assms [unfolded RemoveMember_def g Option.bind.bind_lunit Let_def w1_def [symmetric]]
  have drop: "hooks v v'" if "drop_slot e h guid v = Some v'" for v v'
    using that by (auto simp: drop_slot_def pick_leader_def Let_def split: bind_splits option.splits if_splits
      dest!: hooks_ChangeLeader intro: hooks_same simp: hooks_def)
  have close: "hooks v v'" if "close_group e h v = Some (b, v')" for v v'
    using that by (auto simp: close_group_def Let_def split: bind_splits if_splits dest: hooks_Disband)
  consider "w' = w1" | "Disband e h False w1 = Some w'"
    | w2 w3 w4 where "take_leave h guid m w1 = Some w2"
      "leave_rolls e h guid (reset_enchanting h guid (delete_membership h guid w2)) = Some w3"
      "drop_slot e h guid w3 = Some w4" "close_group e h (SendUpdate h w4) = Some (b, w')"
    using a by (auto split: if_splits bind_splits)
  then show ?thesis
  proof cases
    case 2
    then show ?thesis using w1 hooks_Disband hooks_trans by blast
  next
    case 3
    note w1
    also have "hooks w1 w3" using lfg_take_leave [OF 3(1)] lfg_leave_rolls [OF 3(2)] by (auto intro: hooks_same)
    also have "hooks w3 w4" using drop [OF 3(3)] .
    also have "hooks w4 (SendUpdate h w4)" by (rule hooks_same) simp
    also have "hooks (SendUpdate h w4) w'" using close [OF 3(4)] .
    finally show ?thesis .
  qed (use w1 in simp)
qed

lemma hooks_Create:
  assumes c: "Create e h guid w = Some (b, w')"
  shows "hooks w w'"
proof -
  have "\<exists>v. AddMember e h guid v = Some (b, w') \<and> gw_lfg v = gw_lfg w"
    using c by (auto simp: Create_def Let_def split: bind_splits prod.splits if_splits dest!: lfg_managers(3,4,5))
  then obtain v where "AddMember e h guid v = Some (b, w')" and "gw_lfg v = gw_lfg w" by blast
  then show ?thesis using hooks_AddMember [of e h guid v b w'] by (simp add: hooks_def)
qed

lemma hooks_RemoveFromGroup: "RemoveFromGroup e t guid m k r w = Some w' \<Longrightarrow> hooks w w'"
  by (auto simp: RemoveFromGroup_def split: option.splits dest: hooks_RemoveMember)

subsection \<open>Forming the group of a proposal\<close>

lemma hooks_set: "hooks w (on_lfg (SetState gg st) w)" "hooks w (on_lfg (SetDungeon gg d) w)"
  using hook_step.state hook_step.dungeon by (auto simp: hooks_def intro: r_into_rtranclp)

lemma hooks_found_lfg_group:
  assumes "found_lfg_group e guid w = Some (h, w')"
  shows "hooks w w'"
proof -
  obtain w1 b w2 g where 1: "new_group w = (h, w1)" and 2: "Create e h guid (ConvertToLFG h w1) = Some (b, w2)"
    and w': "w' = AddGroup h g (on_lfg (SetState (m_guid g) LFG_STATE_PROPOSAL) w2)"
    using assms by (auto simp: found_lfg_group_def Let_def split: bind_splits prod.splits)
  have "hooks w (ConvertToLFG h w1)" by (rule hooks_same) (simp add: lfg_managers(7) [OF 1])
  also have "hooks (ConvertToLFG h w1) w2" using hooks_Create [OF 2] .
  also have "hooks w2 (on_lfg (SetState (m_guid g) LFG_STATE_PROPOSAL) w2)" by (rule hooks_set)
  also have "hooks (on_lfg (SetState (m_guid g) LFG_STATE_PROPOSAL) w2) w'" by (rule hooks_same) (simp add: w')
  finally show ?thesis .
qed

lemma hooks_gather_player:
  assumes a: "gather_player e pr random guid grp w = Some (grp', w')"
  shows "hooks w w'"
proof (cases "FindPlayer guid w")
  case None
  with a show ?thesis by (simp add: gather_player_def)
next
  case (Some p)
  have *: "hook_step\<^sup>*\<^sup>* (gw_lfg v) (gw_lfg v')"
    if "RemoveFromGroup e t guid m k r v = Some v' \<or> found_lfg_group e guid v = Some (h, v') \<or> AddMember e h guid v = Some (b, v')"
    for v v' t m k r h b
    using that hooks_RemoveFromGroup hooks_found_lfg_group hooks_AddMember unfolding hooks_def by blast
  show ?thesis
    using a by (auto simp: gather_player_def Some Let_def hooks_def split: bind_splits option.splits if_splits prod.splits
      intro: * rtranclp_trans [OF * *])
qed

lemma hooks_gather_players: "gather_players e pr random ps grp w = Some (grp', w') \<Longrightarrow> hooks w w'"
  by (induction ps arbitrary: grp w) (auto split: option.splits dest: hooks_gather_player intro: hooks_trans)

lemma hooks_MakeNewGroup:
  assumes "MakeNewGroup e facts pr w = Some w'"
  shows "hooks w w'"
proof -
  have "\<exists>w1 gg d. hooks w w1 \<and> gw_lfg w' = SetState gg LFG_STATE_DUNGEON (SetDungeon gg d (gw_lfg w1))"
    using assms by (auto simp: MakeNewGroup_def store_lfg_data_def Let_def split: bind_splits dest!: lfg_teleport_all hooks_gather_players) blast
  then obtain w1 gg d where "hooks w w1" and w': "gw_lfg w' = SetState gg LFG_STATE_DUNGEON (SetDungeon gg d (gw_lfg w1))"
    by blast
  note this(1)
  also have "hooks w1 (on_lfg (SetState gg LFG_STATE_DUNGEON) (on_lfg (SetDungeon gg d) w1))"
    using hooks_set hooks_trans by blast
  also have "hooks \<dots> w'" by (rule hooks_same) (simp add: w')
  finally show ?thesis .
qed

text \<open>The law that the manager needs of its parameter.\<close>

lemma forms_groups_MakeNewGroup:
  "forms_groups (\<lambda>pr m. map_option gw_lfg (MakeNewGroup e facts pr (w\<lparr>gw_lfg := m\<rparr>)))"
  using hooks_MakeNewGroup by (fastforce simp: forms_groups_def hooks_def)

end
