(* ===== verification/GroupVotes.thy ===== *)
theory GroupVotes
  imports GroupSafety
begin

text \<open>
  Loot rolls: the tallies of a roll count the votes as long as everybody votes once, a roll closes when
  nobody is left to vote, and the item goes to the first of those with the highest number, need before
  greed. What goes wrong: a second vote of the same player counts as well, a member who leaves does not
  close the roll, and a roll whose loot has been cleared is never removed.
\<close>

subsection \<open>Tallies\<close>

definition tally :: "RollVote \<Rightarrow> Roll \<Rightarrow> nat" where
  "tally v r = length (filter (\<lambda>x. snd x = v) (r_playerVote r))"

definition outstanding :: "Roll \<Rightarrow> u64 list" where
  "outstanding r = map fst (filter (\<lambda>x. snd x = NOT_EMITED_YET) (r_playerVote r))"

definition roll_ok :: "Roll \<Rightarrow> bool" where
  "roll_ok r \<longleftrightarrow> distinct (map fst (r_playerVote r)) \<and> (\<forall>x\<in>set (r_playerVote r). snd x \<noteq> NOT_VALID) \<and>
     length (r_playerVote r) < 256 \<and> unat (r_totalPlayersRolling r) = length (r_playerVote r) \<and>
     unat (r_totalNeed r) = tally NEED r \<and> unat (r_totalGreed r) = tally GREED r + tally DISENCHANT r \<and>
     unat (r_totalPass r) = tally PASS r"

lemma vote_partition:
  "length xs = length (filter (\<lambda>x. snd x = PASS) xs) + length (filter (\<lambda>x. snd x = NEED) xs)
    + length (filter (\<lambda>x. snd x = GREED) xs) + length (filter (\<lambda>x. snd x = DISENCHANT) xs)
    + length (filter (\<lambda>x. snd x = NOT_EMITED_YET) xs) + length (filter (\<lambda>x. snd x = NOT_VALID) xs)"
proof (induction xs)
  case (Cons x xs)
  then show ?case by (cases "snd x") simp_all
qed simp

lemma tally_sum: "length (r_playerVote r) = tally PASS r + tally NEED r + tally GREED r + tally DISENCHANT r
    + tally NOT_EMITED_YET r + tally NOT_VALID r"
  using vote_partition [of "r_playerVote r"] by (simp add: tally_def)

lemma roll_ok_sum:
  assumes "roll_ok r"
  shows "unat (r_totalPass r) + unat (r_totalNeed r) + unat (r_totalGreed r) + length (outstanding r) = unat (r_totalPlayersRolling r)"
proof -
  have "filter (\<lambda>x. snd x = NOT_VALID) (r_playerVote r) = []" using assms by (auto simp: roll_ok_def filter_empty_conv)
  with assms vote_partition [of "r_playerVote r"] show ?thesis by (simp add: roll_ok_def outstanding_def tally_def)
qed

text \<open>A roll is counted exactly when nobody is left to vote.\<close>

lemma all_voted_iff: "roll_ok r \<Longrightarrow> all_voted r \<longleftrightarrow> outstanding r = []"
  using roll_ok_sum [of r] by (auto simp: all_voted_def simp flip: length_0_conv)

subsection \<open>Casting and withdrawing a vote\<close>

lemma adjust_absent: "p \<notin> fst ` set vs \<Longrightarrow> om_adjust p f vs = vs"
  by (induction vs) (auto simp: om_adjust_def)

lemma adjust_votes:
  assumes "distinct (map fst vs)" "map_of vs p = Some u"
  shows "length (filter (\<lambda>x. snd x = k) (om_adjust p (\<lambda>_. v) vs)) + (if k = u then 1 else 0) =
      length (filter (\<lambda>x. snd x = k) vs) + (if k = v then 1 else 0)"
  using assms
proof (induction vs)
  case (Cons x vs)
  have e: "om_adjust p (\<lambda>_. v) (x # vs) = (fst x, if fst x = p then v else snd x) # om_adjust p (\<lambda>_. v) vs"
    by (cases x) (simp add: om_adjust_def)
  show ?case
  proof (cases "fst x = p")
    case True
    with Cons.prems adjust_absent [of p vs "\<lambda>_. v"] show ?thesis unfolding e by (cases x) (auto simp: image_iff)
  next
    case False
    with Cons.prems have "map_of vs p = Some u" by (cases x) auto
    with Cons False show ?thesis unfolding e by (auto split: if_splits)
  qed
qed simp

lemma tally_vote:
  assumes "roll_ok r" "map_of (r_playerVote r) p = Some u"
  shows "tally k (r\<lparr>r_playerVote := om_adjust p (\<lambda>_. v) (r_playerVote r)\<rparr>) + (if k = u then 1 else 0) =
    tally k r + (if k = v then 1 else 0)"
  using adjust_votes [of "r_playerVote r" p u k v] assms by (simp add: tally_def roll_ok_def)

lemma unat_inc: "unat (x :: u8) < 255 \<Longrightarrow> unat (x + 1) = Suc (unat x)"
  by (simp add: unat_word_ariths(1))

lemma unat_dec: "0 < unat (x :: u8) \<Longrightarrow> unat (x - 1) = unat x - 1"
  by (metis One_nat_def Suc_leI unat_1 unat_sub word_le_nat_alt)

lemma tally_le: "tally a r + (if a = b then 0 else tally b r) \<le> length (r_playerVote r)"
  using vote_partition [of "r_playerVote r"] by (cases a; cases b; simp add: tally_def)

lemma adjust_valid: "\<forall>x\<in>set vs. snd x \<noteq> NOT_VALID \<Longrightarrow> v \<noteq> NOT_VALID \<Longrightarrow> \<forall>x\<in>set (om_adjust p (\<lambda>_. v) vs). snd x \<noteq> NOT_VALID"
  by (auto simp: om_adjust_def split: if_splits)

text \<open>The first vote of a player keeps the tallies true and takes him off the list of those who have to vote.\<close>

lemma first_vote:
  assumes r: "roll_ok r" and p: "map_of (r_playerVote r) p = Some NOT_EMITED_YET" and c: "choice < MAX_ROLL_TYPE"
  shows "roll_ok (cast_vote p choice r)" and "length (outstanding (cast_vote p choice r)) + 1 = length (outstanding r)"
proof -
  have n: "tally NOT_EMITED_YET r > 0"
    using map_of_SomeD [OF p] by (force simp: tally_def filter_empty_conv)
  have room: "tally v r < 255 \<and> tally GREED r + tally DISENCHANT r < 255" if "v \<noteq> NOT_EMITED_YET" for v
  proof -
    have "length (r_playerVote r) < 256" using r by (simp add: roll_ok_def)
    then show ?thesis using n that tally_sum [of r] by (cases v) auto
  qed
  have o: "length (outstanding q) = tally NOT_EMITED_YET q" for q by (simp add: outstanding_def tally_def)
  note upd = roll_types roll_ok_def unat_inc tally_def
  have d: "distinct (map fst (r_playerVote r))" using r by (simp add: roll_ok_def)
  have valid: "\<forall>x\<in>set (om_adjust p (\<lambda>_. v) (r_playerVote r)). snd x \<noteq> NOT_VALID" if "v \<noteq> NOT_VALID" for v
    using r that by (intro adjust_valid) (simp_all add: roll_ok_def)
  note count = adjust_votes [OF d p, of PASS] adjust_votes [OF d p, of NEED] adjust_votes [OF d p, of GREED]
    adjust_votes [OF d p, of DISENCHANT] adjust_votes [OF d p, of NOT_EMITED_YET]
  consider "choice = 0" | "choice = 1" | "choice = 2" | "choice = 3"
    using c by (simp add: roll_types) unat_arith
  then have "roll_ok (cast_vote p choice r) \<and> length (outstanding (cast_vote p choice r)) + 1 = length (outstanding r)"
  proof cases
    case 1
    then show ?thesis
      using r room [of PASS] count [of PASS] valid [of PASS] by (auto simp: cast_vote_def Let_def o upd)
  next
    case 2
    then show ?thesis
      using r room [of NEED] count [of NEED] valid [of NEED] by (auto simp: cast_vote_def Let_def o upd)
  next
    case 3
    then show ?thesis
      using r room [of GREED] count [of GREED] valid [of GREED] by (auto simp: cast_vote_def Let_def o upd)
  next
    case 4
    then show ?thesis
      using r room [of GREED] count [of DISENCHANT] valid [of DISENCHANT] by (auto simp: cast_vote_def Let_def o upd)
  qed
  then show "roll_ok (cast_vote p choice r)" and "length (outstanding (cast_vote p choice r)) + 1 = length (outstanding r)" by auto
qed

text \<open>A second vote counts again: the sum of the tallies grows, though as many as before have to vote.\<close>

lemma second_vote:
  assumes r: "roll_ok r" and p: "map_of (r_playerVote r) p = Some u" "u \<noteq> NOT_EMITED_YET" and c: "choice < MAX_ROLL_TYPE"
    and one: "outstanding r \<noteq> []"
  shows "outstanding (cast_vote p choice r) = outstanding r"
    and "unat (r_totalPass (cast_vote p choice r)) + unat (r_totalNeed (cast_vote p choice r)) + unat (r_totalGreed (cast_vote p choice r))
      = Suc (unat (r_totalPass r) + unat (r_totalNeed r) + unat (r_totalGreed r))"
proof -
  have n: "0 < length (outstanding r)" using one by simp
  have "unat (r_totalPlayersRolling r) < 256" using r by (simp add: roll_ok_def)
  then have small: "unat (r_totalPass r) < 255" "unat (r_totalNeed r) < 255" "unat (r_totalGreed r) < 255"
    using roll_ok_sum [OF r] n by linarith+
  consider "choice = 0" | "choice = 1" | "choice = 2" | "choice = 3"
    using c by (simp add: roll_types) unat_arith
  then show "unat (r_totalPass (cast_vote p choice r)) + unat (r_totalNeed (cast_vote p choice r)) + unat (r_totalGreed (cast_vote p choice r))
      = Suc (unat (r_totalPass r) + unat (r_totalNeed r) + unat (r_totalGreed r))"
    by cases (simp_all add: cast_vote_def Let_def roll_types unat_inc small)
  have "map fst (filter (\<lambda>x. snd x = NOT_EMITED_YET) (om_adjust p (\<lambda>_. v) vs)) = map fst (filter (\<lambda>x. snd x = NOT_EMITED_YET) vs)"
    if "v \<noteq> NOT_EMITED_YET" "distinct (map fst vs)" "map_of vs p = Some u" for v vs
    using that(2,3)
  proof (induction vs)
    case (Cons x vs)
    show ?case
    proof (cases "fst x = p")
      case True
      with Cons.prems adjust_absent [of p vs "\<lambda>_. v"] p(2) that(1) show ?thesis by (cases x) (auto simp: om_adjust_def image_iff)
    next
      case False
      with Cons show ?thesis by (cases x) (auto simp: om_adjust_def)
    qed
  qed (simp add: om_adjust_def)
  with r p(1) show "outstanding (cast_vote p choice r) = outstanding r"
    by (auto simp: cast_vote_def Let_def outstanding_def roll_ok_def)
qed

text \<open>A member who leaves is taken out of the tallies.\<close>

lemma erase_votes:
  assumes "distinct (map fst vs)" "map_of vs p = Some u"
  shows "length (filter (\<lambda>x. snd x = k) (om_erase p vs)) + (if k = u then 1 else 0) = length (filter (\<lambda>x. snd x = k) vs)"
    and "length (om_erase p vs) + 1 = length vs"
  using assms
proof (induction vs)
  case (Cons x vs)
  have absent: "om_erase p vs = vs" if "p \<notin> fst ` set vs"
    using that by (auto simp: om_erase_def filter_id_conv)
  {
    case 1
    with Cons.IH absent show ?case by (cases x; cases "fst x = p") (auto simp: om_erase_def image_iff)
  next
    case 2
    with Cons.IH absent show ?case by (cases x; cases "fst x = p") (auto simp: om_erase_def image_iff)
  }
qed simp_all

lemma withdraw_ok:
  assumes r: "roll_ok r" and p: "map_of (r_playerVote r) p = Some v"
  shows "roll_ok (withdraw_vote p v r)"
proof -
  have d: "distinct (map fst (r_playerVote r))" and v: "v \<noteq> NOT_VALID" and len: "0 < length (r_playerVote r)"
    using r map_of_SomeD [OF p] by (auto simp: roll_ok_def)
  have one: "tally v r > 0" using map_of_SomeD [OF p] by (force simp: tally_def filter_empty_conv)
  have d': "distinct (map fst (om_erase p (r_playerVote r)))"
    using d by (auto simp: om_erase_def distinct_map intro: inj_on_subset)
  have valid: "\<forall>x\<in>set (om_erase p (r_playerVote r)). snd x \<noteq> NOT_VALID" using r by (auto simp: roll_ok_def om_erase_def)
  note e = erase_votes [OF d p]
  show ?thesis
    using r one len v d' valid e(2) e(1) [of PASS] e(1) [of NEED] e(1) [of GREED] e(1) [of DISENCHANT]
    by (cases v) (auto simp: withdraw_vote_def Let_def roll_ok_def tally_def unat_dec)
qed

subsection \<open>Opening a roll\<close>

lemma put_votes:
  "p \<notin> fst ` set vs \<Longrightarrow> length (filter (\<lambda>x. snd x = k) (om_put p v vs)) = length (filter (\<lambda>x. snd x = k) vs) + (if k = v then 1 else 0)"
  "p \<notin> fst ` set vs \<Longrightarrow> length (om_put p v vs) = Suc (length vs)"
  "p \<notin> fst ` set vs \<Longrightarrow> distinct (map fst vs) \<Longrightarrow> distinct (map fst (om_put p v vs))"
proof -
  show "p \<notin> fst ` set vs \<Longrightarrow> length (filter (\<lambda>x. snd x = k) (om_put p v vs)) = length (filter (\<lambda>x. snd x = k) vs) + (if k = v then 1 else 0)"
    by (induction p v vs rule: om_put.induct) auto
  show "p \<notin> fst ` set vs \<Longrightarrow> length (om_put p v vs) = Suc (length vs)"
    by (induction p v vs rule: om_put.induct) auto
  show "p \<notin> fst ` set vs \<Longrightarrow> distinct (map fst vs) \<Longrightarrow> distinct (map fst (om_put p v vs))"
    using fst_om_put [of p v] by (induction p v vs rule: om_put.induct) (auto simp: fst_om_put simp flip: set_map)
qed

definition take_part :: "(u64 \<Rightarrow> bool) \<Rightarrow> u64 \<Rightarrow> Roll \<Rightarrow> Roll" where
  "take_part passes guid r =
    (let r = r\<lparr>r_totalPlayersRolling := r_totalPlayersRolling r + 1\<rparr>
     in if passes guid then r\<lparr>r_playerVote := om_put guid PASS (r_playerVote r), r_totalPass := r_totalPass r + 1\<rparr>
        else r\<lparr>r_playerVote := om_put guid NOT_EMITED_YET (r_playerVote r)\<rparr>)"

lemma take_part_ok:
  assumes r: "roll_ok r" and p: "p \<notin> fst ` set (r_playerVote r)" and l: "length (r_playerVote r) < 255"
  shows "roll_ok (take_part passes p r)" and "fst ` set (r_playerVote (take_part passes p r)) = insert p (fst ` set (r_playerVote r))"
proof -
  have t: "tally PASS r < 255" using l tally_sum [of r] by linarith
  have v: "\<forall>x\<in>set (om_put p v (r_playerVote r)). snd x \<noteq> NOT_VALID" if "v \<noteq> NOT_VALID" for v
    using r that set_om_put [of p v "r_playerVote r"] by (auto simp: roll_ok_def)
  show "roll_ok (take_part passes p r)"
    using r t l v [of PASS] v [of NOT_EMITED_YET] put_votes [OF p] by (auto simp: take_part_def Let_def roll_ok_def tally_def unat_inc)
  show "fst ` set (r_playerVote (take_part passes p r)) = insert p (fst ` set (r_playerVote r))"
    by (simp add: take_part_def Let_def fst_om_put)
qed

lemma add_voters_ok:
  assumes "distinct (map fst refs)" "length refs < 256"
  shows "roll_ok (add_voters rolling passes refs (Roll_new guid item))"
proof -
  have step: "add_voters rolling passes (x # xs) r = add_voters rolling passes xs (if rolling (fst x) then take_part passes (fst x) r else r)" for x xs r
    by (cases x) (simp add: add_voters_def take_part_def Let_def)
  have "roll_ok (add_voters rolling passes xs r)"
    if "roll_ok r" "distinct (map fst xs)" "fst ` set (r_playerVote r) \<inter> fst ` set xs = {}" "length (r_playerVote r) + length xs < 256" for xs r
    using that
  proof (induction xs arbitrary: r)
    case (Cons x xs)
    show ?case
    proof (cases "rolling (fst x)")
      case True
      have n: "fst x \<notin> fst ` set (r_playerVote r)" "length (r_playerVote r) < 255" using Cons.prems by auto
      note t = take_part_ok [OF Cons.prems(1) n, of passes]
      have "length (r_playerVote (take_part passes (fst x) r)) = Suc (length (r_playerVote r))"
        by (simp add: take_part_def Let_def put_votes(2) [OF n(1)])
      with Cons.IH [OF t(1)] Cons.prems t(2) True show ?thesis by (auto simp: step)
    qed (use Cons in \<open>auto simp: step\<close>)
  qed (simp add: add_voters_def)
  from this [of "Roll_new guid item"] assms show ?thesis by (simp add: Roll_new_def roll_ok_def tally_def)
qed

subsection \<open>Counting a roll\<close>

lemma groups_frame [simp]:
  "gw_groups (send_voters c m r w) = gw_groups w" "gw_groups (at_loot la l w) = gw_groups w"
  "gw_groups (loot_item la i w) = gw_groups w" "gw_groups (unblock_item la i w) = gw_groups w"
  "gw_groups (store_item e p r it la w) = gw_groups w" "disenchant_item e p r la w = Some w' \<Longrightarrow> gw_groups w' = gw_groups w"
  "gw_groups (tell_vote p ch r w) = gw_groups w" "gw_groups (SendLootAllPassed r w) = gw_groups w"
  "gw_groups (SendLootRoll s t n y r w) = gw_groups w" "gw_groups (SendLootRollWon s t n y r w) = gw_groups w"
proof -
  have f: "gw_groups (fold f xs w) = gw_groups w" if "\<And>x w. gw_groups (f x w) = gw_groups w" for f and xs :: "'x list" and w
    using that by (induction xs arbitrary: w) simp_all
  have v: "gw_groups (send_voters c m r w) = gw_groups w" for c m r w by (auto simp: send_voters_def intro!: f)
  then show "gw_groups (send_voters c m r w) = gw_groups w" "gw_groups (SendLootAllPassed r w) = gw_groups w"
    "gw_groups (SendLootRoll s t n y r w) = gw_groups w" "gw_groups (SendLootRollWon s t n y r w) = gw_groups w"
    "gw_groups (tell_vote p ch r w) = gw_groups w"
    by (simp_all add: SendLootAllPassed_def SendLootRoll_def SendLootRollWon_def tell_vote_def)
  have l: "gw_groups (at_loot la l w) = gw_groups w" for la l w by (simp add: at_loot_def)
  then have n: "gw_groups (NotifyItemRemoved la i w) = gw_groups w" for la i w
    by (auto simp: NotifyItemRemoved_def intro!: f split: option.split)
  show "gw_groups (at_loot la l w) = gw_groups w" "gw_groups (loot_item la i w) = gw_groups w"
    "gw_groups (unblock_item la i w) = gw_groups w" "gw_groups (store_item e p r it la w) = gw_groups w"
    "disenchant_item e p r la w = Some w' \<Longrightarrow> gw_groups w' = gw_groups w"
    by (auto simp: l n loot_item_def unblock_item_def store_item_def disenchant_item_def)
qed

lemma groups_roll_numbers: "roll_numbers e c r vs best w = (x, w') \<Longrightarrow> gw_groups w' = gw_groups w"
  by (induction e c r vs best w rule: roll_numbers.induct) (auto simp: draw_def Let_def split: if_splits prod.splits)

lemma groups_award: "award e c r la l told w = Some w' \<Longrightarrow> gw_groups w' = gw_groups w"
  by (auto simp: award_def Let_def split: if_splits option.splits prod.splits dest: groups_roll_numbers)

text \<open>Whatever the outcome, the roll is gone afterwards.\<close>

lemma CountTheRoll_rolls:
  assumes "CountTheRoll e h i w = Some w'" and g: "gw_groups w h = Some g"
  shows "gw_groups w' h = Some (g\<lparr>RollId := remove_nth i (RollId g)\<rparr>)"
proof -
  have "w' = on_rolls h (remove_nth i) v \<Longrightarrow> gw_groups v = gw_groups w \<Longrightarrow> ?thesis" for v
    using g by (simp add: on_rolls_def)
  moreover have "\<exists>v. w' = on_rolls h (remove_nth i) v \<and> gw_groups v = gw_groups w"
    using assms by (auto simp: CountTheRoll_def Let_def split: if_splits option.splits bind_splits dest: groups_award)
  ultimately show ?thesis by blast
qed

lemma GetRoll_Some: "GetRoll guid rs = Some i \<Longrightarrow> i < length rs \<and> r_itemGUID (rs ! i) = guid \<and> r_loot (rs ! i) \<noteq> None"
  by (induction rs arbitrary: i) (auto split: if_splits)

lemma outstanding_alone:
  assumes "roll_ok r" "map_of (r_playerVote r) p = Some NOT_EMITED_YET"
  shows "length (outstanding r) = 1 \<longleftrightarrow> outstanding r = [p]"
proof -
  have "(p, NOT_EMITED_YET) \<in> set (r_playerVote r)" using assms(2) by (rule map_of_SomeD)
  then have "p \<in> set (outstanding r)" by (force simp: outstanding_def)
  then show ?thesis by (cases "outstanding r") auto
qed

lemma CountRollVote_first:
  assumes c: "CountRollVote e h p guid choice w = Some w'" and g: "gw_groups w h = Some g"
    and i: "GetRoll guid (RollId g) = Some i" and ok: "roll_ok (RollId g ! i)"
    and p: "map_of (r_playerVote (RollId g ! i)) p = Some NOT_EMITED_YET" and ch: "choice < MAX_ROLL_TYPE"
    and l: "gw_loots w (the (r_loot (RollId g ! i))) = Some l" "lt_items l \<noteq> []"
  shows "gw_groups w' h = Some (g\<lparr>RollId := if outstanding (RollId g ! i) = [p] then remove_nth i (RollId g)
    else (RollId g)[i := cast_vote p choice (RollId g ! i)]\<rparr>)"
proof -
  define roll where "roll = RollId g ! i"
  define r' where "r' = cast_vote p choice roll"
  define w1 where "w1 = on_rolls h (\<lambda>rs. rs[i := r']) (tell_vote p choice roll w)"
  have w1: "gw_groups w1 h = Some (g\<lparr>RollId := (RollId g)[i := r']\<rparr>)" by (simp add: w1_def on_rolls_def g)
  have r': "roll_ok r'" "length (outstanding r') + 1 = length (outstanding roll)"
    using first_vote [OF ok p ch] by (simp_all add: r'_def roll_def)
  have "all_voted r' \<longleftrightarrow> length (outstanding roll) = 1"
    using all_voted_iff [OF r'(1)] r'(2) by (metis add_is_0 add_right_imp_eq length_0_conv One_nat_def add_0)
  then have v: "all_voted r' \<longleftrightarrow> outstanding roll = [p]" using outstanding_alone [OF ok p] by (simp add: roll_def)
  have w': "(if all_voted r' then CountTheRoll e h i w1 else Some w1) = Some w'"
    using c l p by (auto simp: CountRollVote_def g i roll_def [symmetric] Let_def r'_def [symmetric] w1_def split: if_splits)
  have rm: "remove_nth i ((RollId g)[i := r']) = remove_nth i (RollId g)"
    by (simp add: remove_nth_def)
  show ?thesis
  proof (cases "all_voted r'")
    case True
    with w' have "CountTheRoll e h i w1 = Some w'" by simp
    from CountTheRoll_rolls [OF this w1] show ?thesis using True v by (simp add: rm roll_def)
  next
    case False
    with w' w1 v show ?thesis by (simp add: roll_def r'_def)
  qed
qed

subsection \<open>The winner\<close>

definition gives :: "GroupMsg \<Rightarrow> bool" where
  "gives m \<longleftrightarrow> (case m of StoredItem _ _ \<Rightarrow> True | DisenchantedItem _ \<Rightarrow> True | EquipError _ \<Rightarrow> True | _ \<Rightarrow> False)"

definition given :: "GroupWorld \<Rightarrow> (u64 \<times> GroupMsg) list" where
  "given w = filter (gives \<circ> snd) (gw_sent w)"

text \<open>The voters who count, the numbers drawn for them, and the place of the first of the highest.\<close>

definition first_best :: "(nat \<Rightarrow> u8) \<Rightarrow> nat \<Rightarrow> nat \<Rightarrow> bool" where
  "first_best d n k \<longleftrightarrow> k < n \<and> (\<forall>j<n. d j \<le> d k) \<and> (\<forall>j<k. d j < d k)"

lemma given_frame [simp]:
  "given (send_to p m w) = given w @ (if gives m then [(p, m)] else [])" "given (at_loot la l w) = given w"
  "given (w\<lparr>gw_draws := n\<rparr>) = given w" "given (on_rolls h f w) = given w"
  by (simp_all add: given_def send_to_def at_loot_def on_rolls_def at_group_def)

lemma given_fold: "(\<And>x w. given (f x w) = given w) \<Longrightarrow> given (fold f xs w) = given w"
  by (induction xs arbitrary: w) simp_all

lemma given_messages [simp]:
  "given (SendLootRoll s t n y r w) = given w" "given (SendLootRollWon s t n y r w) = given w" "given (SendLootAllPassed r w) = given w"
  "given (loot_item la i w) = given w" "given (unblock_item la i w) = given w"
proof -
  have "given (NotifyItemRemoved la i w) = given w" for la i w
    by (auto simp: NotifyItemRemoved_def gives_def intro!: given_fold split: option.split)
  then show "given (SendLootRoll s t n y r w) = given w" "given (SendLootRollWon s t n y r w) = given w"
    "given (SendLootAllPassed r w) = given w" "given (loot_item la i w) = given w" "given (unblock_item la i w) = given w"
    by (auto simp: SendLootRoll_def SendLootRollWon_def SendLootAllPassed_def send_voters_def loot_item_def unblock_item_def
      gives_def intro!: given_fold)
qed

lemma draws_frame [simp]: "gw_draws (SendLootRoll s t n y r w) = gw_draws w" "gw_players (SendLootRoll s t n y r w) = gw_players w"
  "gw_players (SendLootRollWon s t n y r w) = gw_players w"
proof -
  have f: "gw_draws (fold f xs w) = gw_draws w \<and> gw_players (fold f xs w) = gw_players w"
    if "\<And>x w. gw_draws (f x w) = gw_draws w \<and> gw_players (f x w) = gw_players w" for f and xs :: "'x list" and w
    using that by (induction xs arbitrary: w) simp_all
  have "gw_draws (SendLootRoll s t n y r w) = gw_draws w \<and> gw_players (SendLootRoll s t n y r w) = gw_players w"
    unfolding SendLootRoll_def send_voters_def by (rule f) (auto simp: send_to_def)
  then show "gw_draws (SendLootRoll s t n y r w) = gw_draws w" "gw_players (SendLootRoll s t n y r w) = gw_players w" by auto
  show "gw_players (SendLootRollWon s t n y r w) = gw_players w"
    unfolding SendLootRollWon_def send_voters_def by (rule f [THEN conjunct2]) (auto simp: send_to_def)
qed

fun best_of :: "(nat \<Rightarrow> u8) \<Rightarrow> 'a list \<Rightarrow> u8 \<times> 'a \<Rightarrow> u8 \<times> 'a" where
  "best_of d [] b = b"
| "best_of d (x # xs) b = best_of (d \<circ> Suc) xs (if fst b < d 0 then (d 0, x) else b)"

lemma best_of_first:
  "best_of d xs b = b \<and> (\<forall>j<length xs. d j \<le> fst b) \<or>
    (\<exists>k. first_best d (length xs) k \<and> fst b < d k \<and> best_of d xs b = (d k, xs ! k))"
proof (induction xs arbitrary: d b)
  case (Cons x xs)
  define b' where "b' = (if fst b < d 0 then (d 0, x) else b)"
  have le: "fst b \<le> fst b'" "d 0 \<le> fst b'" by (auto simp: b'_def)
  from Cons.IH [of "d \<circ> Suc" b'] show ?case
  proof (elim disjE exE conjE)
    assume e: "best_of (d \<circ> Suc) xs b' = b'" and l: "\<forall>j<length xs. (d \<circ> Suc) j \<le> fst b'"
    have all: "d j \<le> fst b'" if "j < length (x # xs)" for j using l le that by (cases j) auto
    show ?thesis
    proof (cases "fst b < d 0")
      case True
      then have "first_best d (length (x # xs)) 0" using all by (auto simp: first_best_def b'_def)
      with True e show ?thesis by (intro disjI2 exI [of _ 0]) (simp add: b'_def)
    next
      case False
      with e all show ?thesis by (simp add: b'_def)
    qed
  next
    fix k
    assume k: "first_best (d \<circ> Suc) (length xs) k" "fst b' < (d \<circ> Suc) k" "best_of (d \<circ> Suc) xs b' = ((d \<circ> Suc) k, xs ! k)"
    have "d j \<le> d (Suc k)" if "j < length (x # xs)" for j
      using k(1,2) le(2) that by (cases j) (auto simp: first_best_def)
    moreover have "d j < d (Suc k)" if "j < Suc k" for j
      using k(1,2) le(2) that by (cases j) (auto simp: first_best_def)
    ultimately have "first_best d (length (x # xs)) (Suc k)" using k(1) by (simp add: first_best_def)
    with k le show ?thesis by (intro disjI2 exI [of _ "Suc k"]) (auto simp: b'_def [symmetric])
  qed
qed simp

lemma roll_numbers_best:
  assumes "roll_numbers e c r vs best w = (x, w')"
  shows "x = best_of (\<lambda>j. ge_urand e (gw_draws w + j)) (filter (\<lambda>x. c (snd x)) vs) best"
    and "given w' = given w" and "gw_players w' = gw_players w"
  using assms
proof (induction e c r vs best w rule: roll_numbers.induct)
  case (2 e c roll guid v vs best w)
  have s: "(\<lambda>j. ge_urand e (gw_draws w + j)) \<circ> Suc = (\<lambda>j. ge_urand e (Suc (gw_draws w) + j))" by (simp add: fun_eq_iff)
  {
    case 1
    then show ?case using 2 by (auto simp: draw_def Let_def s split: if_splits prod.splits)
  next
    case 2
    then show ?case using "2.IH" by (auto simp: draw_def Let_def split: if_splits prod.splits)
  next
    case 3
    then show ?case using "2.IH" by (auto simp: draw_def Let_def split: if_splits prod.splits)
  }
qed simp_all

definition prize :: "group_env \<Rightarrow> Roll \<Rightarrow> LootItem \<Rightarrow> u64 \<Rightarrow> RollVote \<Rightarrow> GroupMsg" where
  "prize e roll item p v =
    (if v = DISENCHANT then DisenchantedItem (case ge_item e (r_itemid roll) of None \<Rightarrow> 0 | Some t \<Rightarrow> it_DisenchantID t)
     else if ge_canStore e p (r_itemid roll) (li_count item) then StoredItem (r_itemid roll) (li_randomPropertyId item)
     else EquipError (r_itemid roll))"

lemma gives_prize [simp]: "gives (prize e roll item p v)"
  by (simp add: prize_def gives_def)

lemma award_winner:
  assumes a: "award e c roll la l told w = Some w'" and item: "item_at (unat (r_itemSlot roll)) l = Some item"
    and pos: "\<And>j. 0 < ge_urand e j" and el: "el = filter (\<lambda>x. c (snd x)) (r_playerVote roll)" "el \<noteq> []"
    and c: "\<not> c NOT_VALID"
  shows "\<exists>k. first_best (\<lambda>j. ge_urand e (gw_draws w + j)) (length el) k \<and>
    given w' = given w @ (if FindPlayer (fst (el ! k)) w = None then [] else [(fst (el ! k), prize e roll item (fst (el ! k)) (snd (el ! k)))])"
proof -
  let ?d = "\<lambda>j. ge_urand e (gw_draws w + j)" and ?b = "(0, fst (hd (r_playerVote roll)), told)"
  obtain n p v w1 where r: "roll_numbers e c roll (r_playerVote roll) ?b w = ((n, p, v), w1)" by (metis prod_cases3 prod.exhaust_sel)
  note b = roll_numbers_best [OF r]
  have "\<not> (\<forall>j<length el. ?d j \<le> 0)" using el(2) pos by (metis length_greater_0_conv not_le)
  with b(1) best_of_first [of ?d el ?b] obtain k where k: "first_best ?d (length el) k" "(n, p, v) = (?d k, el ! k)"
    by (auto simp: el(1))
  have "k < length el" using k(1) by (simp add: first_best_def)
  then have "el ! k \<in> set el" by simp
  then have "c (snd (el ! k))" by (simp add: el(1))
  then have "c v" using k(2) by (metis prod.inject snd_conv)
  then have v: "v \<noteq> NOT_VALID" using c by auto
  have ne: "r_playerVote roll \<noteq> []" using el by auto
  define w2 where "w2 = SendLootRollWon 0 p n (vote_code v) roll w1"
  have w2: "given w2 = given w" "FindPlayer p w2 = FindPlayer p w" by (simp_all add: w2_def b FindPlayer_def)
  have w': "(if FindPlayer p w2 = None then Some w2
     else if v = DISENCHANT then disenchant_item e p roll la w2 else Some (store_item e p roll item la w2)) = Some w'"
    using a ne v unfolding w2_def by (auto simp: award_def r Let_def item split: if_splits)
  have "given w' = given w @ (if FindPlayer p w = None then [] else [(p, prize e roll item p v)])"
    using w' w2 by (auto simp: disenchant_item_def store_item_def prize_def gives_def split: if_splits)
  moreover have "el ! k = (p, v)" using k(2) by simp
  ultimately show ?thesis using k(1) by (intro exI [of _ k]) simp
qed

lemma CountTheRoll_winner:
  assumes a: "CountTheRoll e h i w = Some w'" and g: "gw_groups w h = Some g" and i: "i < length (RollId g)"
    and la: "r_loot (RollId g ! i) = Some la" "gw_loots w la = Some l" and item: "item_at (unat (r_itemSlot (RollId g ! i))) l = Some item"
    and pos: "\<And>j. 0 < ge_urand e j"
    and el: "el = filter (\<lambda>x. if 0 < r_totalNeed (RollId g ! i) then snd x = NEED else snd x = GREED \<or> snd x = DISENCHANT)
      (r_playerVote (RollId g ! i))" "el \<noteq> []"
    and some: "0 < r_totalNeed (RollId g ! i) \<or> 0 < r_totalGreed (RollId g ! i)"
  shows "\<exists>k. first_best (\<lambda>j. ge_urand e (gw_draws w + j)) (length el) k \<and>
    given w' = given w @ (if FindPlayer (fst (el ! k)) w = None then []
      else [(fst (el ! k), prize e (RollId g ! i) item (fst (el ! k)) (snd (el ! k)))])"
proof -
  define roll where "roll = RollId g ! i"
  define c where "c = (\<lambda>v. if 0 < r_totalNeed roll then v = NEED else v = GREED \<or> v = DISENCHANT)"
  obtain told w1 where 1: "award e c roll la l told w = Some w1" and w': "w' = on_rolls h (remove_nth i) w1"
    using a g i la some by (cases "0 < r_totalNeed roll")
      (auto simp: CountTheRoll_def Let_def roll_def c_def split: bind_splits if_splits)
  have "el = filter (\<lambda>x. c (snd x)) (r_playerVote roll)" by (simp add: el c_def roll_def)
  from award_winner [OF 1 item [folded roll_def] pos this el(2)] have "\<exists>k. first_best (\<lambda>j. ge_urand e (gw_draws w + j)) (length el) k \<and>
    given w1 = given w @ (if FindPlayer (fst (el ! k)) w = None then []
      else [(fst (el ! k), prize e roll item (fst (el ! k)) (snd (el ! k)))])" by (simp add: c_def)
  moreover have "given w' = given w1" by (simp add: w')
  ultimately show ?thesis by (simp only: roll_def)
qed

subsection \<open>A member who leaves, and loot that is gone\<close>

text \<open>
  When a member leaves, \<open>CountRollVote\<close> is called to count the roll again; but his vote has just been
  erased, so the call finds none and returns: nobody looks whether the others have all voted.
\<close>

lemma GetRoll_update: "r_itemGUID r = r_itemGUID (rs ! i) \<Longrightarrow> r_loot r = r_loot (rs ! i) \<Longrightarrow> GetRoll guid (rs[i := r]) = GetRoll guid rs"
proof (induction rs arbitrary: i)
  case (Cons x rs)
  then show ?case by (cases i) auto
qed simp

lemma leave_roll_no_recount:
  assumes g: "gw_groups w h = Some g" and i: "i < length (RollId g)" and v: "map_of (r_playerVote (RollId g ! i)) p = Some v"
    and k: "GetRoll (r_itemGUID (RollId g ! i)) (RollId g) = Some i"
  shows "leave_roll e h p i w = Some (on_rolls h (\<lambda>rs. rs[i := withdraw_vote p v (RollId g ! i)]) w)"
proof -
  define r' where "r' = withdraw_vote p v (RollId g ! i)"
  have r': "r_itemGUID r' = r_itemGUID (RollId g ! i)" "r_loot r' = r_loot (RollId g ! i)" "map_of (r_playerVote r') p = None"
    by (auto simp: r'_def withdraw_vote_def Let_def)
  have "gw_groups (on_rolls h (\<lambda>rs. rs[i := r']) w) h = Some (g\<lparr>RollId := (RollId g)[i := r']\<rparr>)" by (simp add: on_rolls_def g)
  moreover have "GetRoll (r_itemGUID (RollId g ! i)) ((RollId g)[i := r']) = Some i" using k r' by (simp add: GetRoll_update)
  ultimately show ?thesis
    using g i v r' by (simp add: leave_roll_def Let_def r'_def [symmetric] CountRollVote_def)
qed

text \<open>A roll without loot is overlooked by every operation that could remove it.\<close>

definition forgotten :: "Group \<Rightarrow> Roll list" where
  "forgotten g = filter (\<lambda>r. r_loot r = None) (RollId g)"

lemma find_loot_Some: "find_loot la rs = Some i \<Longrightarrow> i < length rs \<and> r_loot (rs ! i) = Some la"
  by (induction rs arbitrary: i) (auto split: if_splits)

lemma filter_remove_nth: "i < length xs \<Longrightarrow> \<not> P (xs ! i) \<Longrightarrow> filter P (remove_nth i xs) = filter P xs"
  by (subst (2) id_take_nth_drop [of i xs]) (simp_all add: remove_nth_def)

lemma filter_update: "i < length xs \<Longrightarrow> \<not> P (xs ! i) \<Longrightarrow> \<not> P y \<Longrightarrow> filter P (xs[i := y]) = filter P xs"
proof (induction xs arbitrary: i)
  case (Cons x xs)
  then show ?case by (cases i) auto
qed simp

lemma CountTheRoll_forgets:
  assumes c: "CountTheRoll e h i w = Some w'" and g: "gw_groups w h = Some g" and "i < length (RollId g)" "r_loot (RollId g ! i) \<noteq> None"
  shows "\<exists>g'. gw_groups w' h = Some g' \<and> forgotten g' = forgotten g"
  using CountTheRoll_rolls [OF c g] assms(3,4) by (simp add: forgotten_def filter_remove_nth)

lemma EndRoll_forgets:
  assumes "EndRoll e h la w = Some w'" and "gw_groups w h = Some g"
  shows "\<exists>g'. gw_groups w' h = Some g' \<and> forgotten g' = forgotten g"
proof -
  have "\<forall>g. gw_groups w h = Some g \<longrightarrow> (\<exists>g'. gw_groups w' h = Some g' \<and> forgotten g' = forgotten g)"
  proof (rule EndRoll.raw_induct [where P = "\<lambda>e h la w w'. \<forall>g. gw_groups w h = Some g \<longrightarrow>
      (\<exists>g'. gw_groups w' h = Some g' \<and> forgotten g' = forgotten g)", OF _ assms(1)])
  qed (fastforce split: option.splits dest!: find_loot_Some dest: CountTheRoll_forgets)
  with assms(2) show ?thesis by blast
qed

lemma CountRollVote_forgets:
  assumes c: "CountRollVote e h p guid choice w = Some w'" and g: "gw_groups w h = Some g"
  shows "\<exists>g'. gw_groups w' h = Some g' \<and> forgotten g' = forgotten g"
proof (cases "GetRoll guid (RollId g)")
  case None
  with c g show ?thesis by (simp add: CountRollVote_def)
next
  case (Some i)
  have i: "i < length (RollId g)" "r_loot (RollId g ! i) \<noteq> None" using GetRoll_Some [OF Some] by auto
  define roll where "roll = RollId g ! i"
  define r' where "r' = cast_vote p choice roll"
  define w1 where "w1 = on_rolls h (\<lambda>rs. rs[i := r']) (tell_vote p choice roll w)"
  have w1: "gw_groups w1 h = Some (g\<lparr>RollId := (RollId g)[i := r']\<rparr>)" by (simp add: w1_def on_rolls_def g)
  have r': "r_loot r' \<noteq> None" using i by (simp add: r'_def roll_def cast_vote_def Let_def)
  have same: "forgotten (g\<lparr>RollId := (RollId g)[i := r']\<rparr>) = forgotten g"
    using i r' by (simp add: forgotten_def filter_update)
  have "w' = w \<or> w' = w1 \<or> CountTheRoll e h i w1 = Some w'"
    using c by (auto simp: CountRollVote_def g Some roll_def [symmetric] r'_def [symmetric] w1_def Let_def split: bind_splits if_splits)
  then show ?thesis
    using g w1 same CountTheRoll_forgets [OF _ w1] i r' by (auto simp: nth_list_update)
qed

end
