(* ===== verification/GroupNumbers.thy ===== *)
theory GroupNumbers
  imports GroupSafety
begin

text \<open>
  Target icons and storage ids: no target has two icons, and the updates that are broadcast take the icons
  a client shows to those of the group; a new group gets a storage id that no other group has.
\<close>

subsection \<open>Target icons\<close>

definition icons_ok :: "Group \<Rightarrow> bool" where
  "icons_ok g \<longleftrightarrow> length (m_targetIcons g) = TARGETICONCOUNT \<and>
     (\<forall>i<TARGETICONCOUNT. \<forall>j<TARGETICONCOUNT. m_targetIcons g ! i = m_targetIcons g ! j \<and> m_targetIcons g ! i \<noteq> 0 \<longrightarrow> i = j)"

text \<open>A client that is sent updates.\<close>

definition show_updates :: "(u8 \<times> u64) list \<Rightarrow> u64 list \<Rightarrow> u64 list" where
  "show_updates out icons = foldl (\<lambda>ic (i, t). ic[unat i := t]) icons out"

lemma put_icon_shows: "fst st = show_updates (snd st) ic \<Longrightarrow> fst (put_icon i t st) = show_updates (snd (put_icon i t st)) ic"
  by (auto simp: put_icon_def show_updates_def split: prod.split)

lemma clear_icons_shows: "fst st = show_updates (snd st) ic \<Longrightarrow> fst (clear_icons n t st) = show_updates (snd (clear_icons n t st)) ic"
proof (induction n t st rule: clear_icons.induct)
  case (2 n t st)
  then show ?case using put_icon_shows [of st ic] by (simp add: Let_def)
qed simp

lemma unat_icon: "i < 8 \<Longrightarrow> unat (of_nat i :: u8) = i"
  by (simp add: unat_of_nat)

lemma clear_icons_spec:
  assumes "n \<le> 8" "length (fst st) = 8" "t \<noteq> 0"
  shows "length (fst (clear_icons n t st)) = 8 \<and>
    (\<forall>j<8. fst (clear_icons n t st) ! j = (if 8 - n \<le> j \<and> fst st ! j = t then 0 else fst st ! j))"
  using assms
proof (induction n t st rule: clear_icons.induct)
  case (2 n t st)
  define i where "i = TARGETICONCOUNT - Suc n"
  define st1 where "st1 = (if fst st ! i = t then put_icon (of_nat i) 0 st else st)"
  have i: "i < 8" "8 - n = Suc i" "8 - Suc n = i" using 2(2) by (simp_all add: i_def TARGETICONCOUNT_def)
  have st1: "length (fst st1) = 8" "j < 8 \<Longrightarrow> fst st1 ! j = (if j = i \<and> fst st ! i = t then 0 else fst st ! j)" for j
    using i 2(3) by (auto simp: st1_def put_icon_def unat_icon nth_list_update split: prod.split)
  have "clear_icons (Suc n) t st = clear_icons n t st1" by (simp add: Let_def i_def st1_def)
  moreover have "length (fst (clear_icons n t st1)) = 8 \<and>
    (\<forall>j<8. fst (clear_icons n t st1) ! j = (if 8 - n \<le> j \<and> fst st1 ! j = t then 0 else fst st1 ! j))"
    using 2(1) [OF i_def st1_def [unfolded i_def [symmetric]]] 2(2,4) st1(1) by simp
  ultimately show ?case using st1(2) 2(4) i by (auto simp: Suc_le_eq)
qed simp

lemma SetTargetIcon_spec:
  assumes ok: "length (m_targetIcons g) = TARGETICONCOUNT" and s: "SetTargetIcon i t g = (g', out)" and i: "unat i < TARGETICONCOUNT"
  shows "length (m_targetIcons g') = TARGETICONCOUNT" and "m_targetIcons g' = show_updates out (m_targetIcons g)"
    and "j < TARGETICONCOUNT \<Longrightarrow> m_targetIcons g' ! j =
      (if j = unat i then t else if t \<noteq> 0 \<and> m_targetIcons g ! j = t then 0 else m_targetIcons g ! j)"
proof -
  define st where "st = (if t \<noteq> 0 then clear_icons TARGETICONCOUNT t (m_targetIcons g, []) else (m_targetIcons g, []))"
  have g': "m_targetIcons g' = fst (put_icon i t st)" "out = snd (put_icon i t st)"
    using s i by (auto simp: SetTargetIcon_def Let_def st_def)
  have "fst st = show_updates (snd st) (m_targetIcons g)"
    unfolding st_def by (auto intro!: clear_icons_shows) (simp_all add: show_updates_def)
  from put_icon_shows [OF this] show "m_targetIcons g' = show_updates out (m_targetIcons g)" by (simp add: g')
  have l: "length (fst st) = 8 \<and> (\<forall>j<8. fst st ! j = (if t \<noteq> 0 \<and> m_targetIcons g ! j = t then 0 else m_targetIcons g ! j))"
    using clear_icons_spec [of 8 "(m_targetIcons g, [])" t] ok by (auto simp: st_def TARGETICONCOUNT_def)
  then show "length (m_targetIcons g') = TARGETICONCOUNT" by (auto simp: g' put_icon_def TARGETICONCOUNT_def split: prod.split)
  show "j < TARGETICONCOUNT \<Longrightarrow> m_targetIcons g' ! j =
      (if j = unat i then t else if t \<noteq> 0 \<and> m_targetIcons g ! j = t then 0 else m_targetIcons g ! j)"
    using l by (auto simp: g' put_icon_def TARGETICONCOUNT_def nth_list_update split: prod.split)
qed

lemma SetTargetIcon_ok:
  assumes ok: "icons_ok g" and s: "SetTargetIcon i t g = (g', out)"
  shows "icons_ok g'" and "m_targetIcons g' = show_updates out (m_targetIcons g)"
proof -
  have "icons_ok g' \<and> m_targetIcons g' = show_updates out (m_targetIcons g)"
  proof (cases "unat i < TARGETICONCOUNT")
    case True
    have len: "length (m_targetIcons g) = TARGETICONCOUNT" using ok by (simp add: icons_ok_def)
    note spec = SetTargetIcon_spec [OF len s True]
    have "icons_ok g'" using ok spec(1,3) by (auto simp: icons_ok_def split: if_splits)
    with spec(2) show ?thesis by blast
  next
    case False
    with ok s show ?thesis by (auto simp: SetTargetIcon_def show_updates_def)
  qed
  then show "icons_ok g'" and "m_targetIcons g' = show_updates out (m_targetIcons g)" by auto
qed

subsection \<open>Storage ids\<close>

definition ids_ok :: "GroupWorld \<Rightarrow> bool" where
  "ids_ok w \<longleftrightarrow> GetGroupByDbStoreId (NextGroupDbStoreId w) w = None \<and>
     unat (NextGroupDbStoreId w) \<le> Suc (length (GroupDbStore w))"

lemma next_store_id_free:
  "next_store_id db i = Some j \<Longrightarrow> i \<le> j \<and> j < 0xFFFFFFFF \<and> (j < length db \<longrightarrow> db ! j = None) \<and> j \<le> max i (length db)"
proof (induction db i rule: next_store_id.induct)
  case (1 db i)
  show ?case
  proof (cases "i < 0xFFFFFFFF \<and> \<not> ((i < length db \<and> db ! i = None) \<or> i \<ge> length db)")
    case True
    with 1 show ?thesis by (simp add: next_store_id.simps [of db i])
  next
    case False
    with 1(2) show ?thesis by (auto simp: next_store_id.simps [of db i] split: if_splits)
  qed
qed

lemma next_store_id_total: "length db < 0xFFFFFFFF \<Longrightarrow> i < 0xFFFFFFFF \<Longrightarrow> next_store_id db i \<noteq> None"
proof (induction db i rule: next_store_id.induct)
  case (1 db i)
  then show ?case by (cases "Suc i < 0xFFFFFFFF") (auto simp: next_store_id.simps [of db i] split: if_splits)
qed

lemma Generate_Register:
  assumes ok: "ids_ok w" and small: "length (GroupDbStore w) < 0xFFFFFFF0"
    and g: "GenerateNewGroupDbStoreId w = (s, stop, w1)" and r: "RegisterGroupDbStoreId s h w1 = Some w2"
  shows "GetGroupByDbStoreId s w = None" and "\<not> stop" and "GetGroupByDbStoreId s w2 = Some h"
    and "i \<noteq> s \<Longrightarrow> GetGroupByDbStoreId i w2 = GetGroupByDbStoreId i w" and "ids_ok w2"
proof -
  define db where "db = GroupDbStore w"
  have s: "s = NextGroupDbStoreId w" using g by (simp add: GenerateNewGroupDbStoreId_def Let_def)
  then show "GetGroupByDbStoreId s w = None" using ok by (simp add: ids_ok_def)
  have us: "unat s \<le> Suc (length db)" using ok s by (simp add: ids_ok_def db_def)
  have plus: "unat (s + 1) = Suc (unat s)" using us small by (simp add: unat_word_ariths(1) db_def)
  obtain j where j: "next_store_id db (unat (s + 1)) = Some j"
    using next_store_id_total [of db "unat (s + 1)"] small us plus by (auto simp: db_def)
  note free = next_store_id_free [OF j, unfolded plus]
  have uj: "unat (of_nat j :: u32) = j" using free by (simp add: unat_of_nat)
  have w1: "w1 = w\<lparr>NextGroupDbStoreId := of_nat j\<rparr>" "stop \<longleftrightarrow> s = of_nat j"
    using g j s by (auto simp: GenerateNewGroupDbStoreId_def Let_def db_def)
  show "\<not> stop" using free uj by (auto simp: w1 dest!: arg_cong [where f = unat])
  define db' where "db' = (if unat s \<ge> length db then db @ replicate (Suc (unat s) - length db) None else db)"
  have w2: "w2 = w1\<lparr>GroupDbStore := db'[unat s := Some h]\<rparr>"
    using r by (auto simp: RegisterGroupDbStoreId_def Let_def w1(1) plus db'_def db_def split: if_splits)
  have db': "unat s < length db'" "length db \<le> length db'" "length db' \<le> Suc (max (unat s) (length db))"
    by (auto simp: db'_def)
  have at: "(if k < length db' then db' ! k else None) = (if k < length db then db ! k else None)" for k
    by (auto simp: db'_def nth_append)
  have same: "unat s = unat i \<longleftrightarrow> i = s" for i :: u32 by (auto simp: word_unat_eq_iff)
  have get: "GetGroupByDbStoreId i w2 = (if i = s then Some h else GetGroupByDbStoreId i w)" for i
    using at [of "unat i"] db'(1) same [of i] by (auto simp: GetGroupByDbStoreId_def w2 w1(1) db_def nth_list_update split: if_splits)
  then show "GetGroupByDbStoreId s w2 = Some h" "i \<noteq> s \<Longrightarrow> GetGroupByDbStoreId i w2 = GetGroupByDbStoreId i w" by simp_all
  have "GetGroupByDbStoreId (of_nat j) w2 = None"
    using \<open>\<not> stop\<close> w1(2) free uj by (auto simp: get) (auto simp: GetGroupByDbStoreId_def db_def)
  moreover have "j \<le> Suc (length db')" using free db' by auto
  ultimately show "ids_ok w2" using uj by (simp add: ids_ok_def w2 w1(1))
qed

lemma Free_ids_ok:
  assumes ok: "ids_ok w" and f: "FreeGroupDbStoreId s w = Some w'"
  shows "ids_ok w'"
proof -
  have s: "unat s < length (GroupDbStore w)" using f by (auto simp: FreeGroupDbStoreId_def Let_def split: if_splits)
  then show ?thesis using f ok
    by (auto simp: FreeGroupDbStoreId_def ids_ok_def GetGroupByDbStoreId_def Let_def nth_list_update split: if_splits)
qed

end
