(* ===== verification/GroupFaults.thy ===== *)
theory GroupFaults
  imports GroupRefinement
begin

text \<open>
  Where the groups go wrong: an invitation of oneself, an invitation that is forgotten by the player but
  not by the group, the command that lets a player join only a group that is full; and the teleport into
  a dungeon, which never looks for a member inside.
\<close>

subsection \<open>Inviting oneself\<close>

text \<open>
  The group made for the invitation is deleted when the player turns out to be invited already: by himself,
  a moment ago. The invitation still points to it.
\<close>

lemma self_invite:
  assumes r: "invite_refusal f = None" and t: "if_target f = Some p" and p: "gw_players w p = Some q"
    and q: "gp_group q = None" "gp_groupInvite q = None"
  shows "\<exists>w' q'. HandleGroupInvite e f name p w = Some w' \<and> gw_players w' p = Some q' \<and>
    gp_groupInvite q' = Some (gw_next w) \<and> gw_groups w' (gw_next w) = None"
proof -
  define h where "h = gw_next w"
  obtain w1 where new: "new_group w = (h, w1)" and w1: "gw_players w1 p = Some q" "gw_groups w1 h = Some Group_new"
    using p by (auto simp: new_group_def h_def)
  obtain w2 q2 where add: "AddInvite e h p w1 = Some (True, w2)" and w2: "gw_players w2 p = Some q2" "gp_groupInvite q2 = Some h"
    using w1 q by (auto simp: AddInvite_def invite_group_def RemoveInvite_def Let_def)
  define w3 where "w3 = at_group h (\<lambda>g. g\<lparr>m_leaderGuid := p, m_leaderName := gp_name q2\<rparr>) w2"
  have lead: "AddLeaderInvite e h p w1 = Some (True, w3)" by (simp add: AddLeaderInvite_def add w2 w3_def)
  have "AddInvite e h p w3 = Some (False, w3)" by (simp add: AddInvite_def w3_def w2)
  then have "invite_to_new e p p w = Some (False, delete_group h w3)" by (simp add: invite_to_new_def new lead)
  then have i: "HandleGroupInvite e f name p w = Some (delete_group h w3)"
    using q by (simp add: HandleGroupInvite_def r t p handler_group_def)
  have inv: "\<exists>q'. gw_players (fold invalidate rs v) p = Some q' \<and> gp_groupInvite q' = gp_groupInvite q0"
    if "gw_players v p = Some q0" for rs v q0
    using that
  proof (induction rs arbitrary: v q0)
    case (Cons x rs)
    obtain q1 where "gw_players (invalidate x v) p = Some q1" "gp_groupInvite q1 = gp_groupInvite q0"
      using Cons.prems by (cases "fst x = p"; cases "snd x") (auto simp: invalidate_def set_target_def)
    with Cons.IH show ?case by fastforce
  qed simp
  have w3: "gw_players w3 p = Some q2" by (simp add: w3_def w2)
  then obtain q' where "gw_players (delete_group h w3) p = Some q'" "gp_groupInvite q' = Some h"
    using inv [OF w3] w2(2) by (cases "gw_groups w3 h") (auto simp: delete_group_def Let_def)
  moreover have "gw_groups (delete_group h w3) h = None" by (auto simp: delete_group_def Let_def split: option.split)
  ultimately show ?thesis using i by (auto simp: h_def)
qed

text \<open>Every use of such an invitation reads the group that is gone.\<close>

lemma dangling_invite:
  assumes "gw_players w p = Some q" "gp_groupInvite q = Some h" "gw_groups w h = None"
  shows "UninviteFromGroup e p w = None" "HandleGroupInviteResponse e accept p w = None"
  using assms by (auto simp: UninviteFromGroup_def HandleGroupInviteResponse_def accept_invite_def)

subsection \<open>Forgotten invitations\<close>

text \<open>Joining a group clears the invitation of the player, but no list of invitations.\<close>

interpretation inv: core_observer m_invitees
  by unfold_locales simp_all

lemma add_slot_invitees: "add_slot s guid n j g = Some g' \<Longrightarrow> m_invitees g' = m_invitees g"
  by (auto simp: add_slot_def SubGroupCounterIncrease_def split: option.splits)

lemma AddMember_invitees:
  assumes a: "AddMember e h guid w = Some (b, w')"
  shows "observe m_invitees w' = observe m_invitees w"
proof -
  obtain g p where g: "gw_groups w h = Some g" and p: "gw_players w guid = Some p"
    using a by (auto simp: AddMember_def split: bind_splits)
  show ?thesis
  proof (cases "choose_subgroup g")
    case None
    with a show ?thesis by (simp add: AddMember_def g p)
  next
    case (Some s)
    then obtain g' w1 where g': "add_slot s guid (gp_name p) (ge_junk e) g = Some g'"
      and w1: "refer_member g h guid s p (at_player guid (\<lambda>p. p\<lparr>gp_groupInvite := None\<rparr>) (put_group h g' w)) = Some w1"
      and w': "observe m_invitees w' = observe m_invitees w1"
      using a by (auto simp: AddMember_def g p Some Let_def if_distrib [of "observe m_invitees"] inv.obs_at_group split: bind_splits)
    have "observe m_invitees w1 = (observe m_invitees w)(h \<mapsto> m_invitees g')"
      using inv.obs_refer_member [OF w1] by simp
    then show ?thesis using g add_slot_invitees [OF g'] by (auto simp: w' observe_def fun_eq_iff)
  qed
qed

lemma gone_invitee:
  assumes "gw_groups w h = Some g" "p \<in> set (m_invitees g)" "gw_players w p = None"
  shows "RemoveAllInvites h w = None"
proof -
  have "clear_invites ps v = None" if "p \<in> set ps" "gw_players v p = None" for ps v
    using that
  proof (induction ps arbitrary: v)
    case (Cons a ps)
    then show ?case by (cases "a = p") auto
  qed simp
  with assms show ?thesis by (simp add: RemoveAllInvites_def)
qed

lemma delete_player_groups: "observe m_invitees (delete_player p w) = observe m_invitees w" "gw_players (delete_player p w) p = None"
  by (simp_all add: delete_player_def Let_def)

lemma joined_elsewhere:
  assumes a: "AddMember e h' p w = Some (b, w1)" and g: "gw_groups w h = Some g" "p \<in> set (m_invitees g)"
  shows "RemoveAllInvites h (delete_player p w1) = None"
proof -
  have "observe m_invitees (delete_player p w1) h = Some (m_invitees g)"
    using g AddMember_invitees [OF a] delete_player_groups(1) [of p w1] by (simp add: observe_def fun_eq_iff)
  then obtain g1 where "gw_groups (delete_player p w1) h = Some g1" "m_invitees g1 = m_invitees g" by (auto simp: observe_def)
  with g(2) gone_invitee delete_player_groups(2) show ?thesis by metis
qed

subsection \<open>The command \<open>group join\<close>\<close>

lemma join_command:
  assumes j: "HandleGroupJoinCommand e x y i w = Some (True, w')"
  obtains h g p b where "gw_groups w h = Some g" "IsFull g" "AddMember e h p w = Some (b, w')"
  using j by (auto simp: HandleGroupJoinCommand_def split: prod.splits option.splits bind_splits if_splits)

lemma join_command_overfull:
  assumes j: "HandleGroupJoinCommand e x y i w = Some (True, w')" and t: "all_typed w"
  shows "\<exists>h g. gw_groups w h = Some g \<and> IsFull g \<and>
    (\<not> isRaidGroup g \<longrightarrow> (\<exists>g'. gw_groups w' h = Some g' \<and> GetMembersCount g' = Suc (GetMembersCount g) \<and> GetMembersCount g' > MAXGROUPSIZE))"
proof -
  obtain h g p b where g: "gw_groups w h = Some g" "IsFull g" and a: "AddMember e h p w = Some (b, w')"
    using join_command [OF j] by blast
  have "\<exists>g'. gw_groups w' h = Some g' \<and> GetMembersCount g' = Suc (GetMembersCount g) \<and> GetMembersCount g' > MAXGROUPSIZE"
    if nr: "\<not> isRaidGroup g"
  proof -
    have "typed g" using t g(1) by (simp add: all_typed_def)
    then have "counts_ok (roster g) (m_subGroupsCounts g)" by (simp add: typed_iff)
    then have "m_subGroupsCounts g = None" using nr by (auto simp: counts_ok_def roster_def split: option.splits)
    then have ch: "choose_subgroup g = Some 0" by (simp add: choose_subgroup_def)
    from a show ?thesis
    proof (cases rule: AddMember_shape)
      case 1
      then show ?thesis using a g(1) ch by (auto simp: AddMember_def Let_def split: bind_splits)
    next
      case (2 g0 q s g')
      have g': "GetMembersCount g' = Suc (GetMembersCount g)"
        using 2 g by (auto simp: add_slot_def SubGroupCounterIncrease_def GetMembersCount_def split: option.splits)
      have "map_option shape (gw_groups w' h) = Some (shape g')" using fun_cong [OF 2(5), of h] by (simp add: observe_def)
      then obtain g1 where "gw_groups w' h = Some g1" "shape g1 = shape g'" by auto
      moreover from this have "GetMembersCount g1 = GetMembersCount g'"
        by (auto simp: shape_def roster_def GetMembersCount_def dest: map_eq_imp_length_eq)
      ultimately show ?thesis using g' g nr by (auto simp: IsFull_def GetMembersCount_def)
    qed
  qed
  with g show ?thesis by blast
qed

subsection \<open>The teleport into a dungeon\<close>

lemma teleport_entrance:
  "dg_map d \<noteq> 0 \<Longrightarrow> teleport_place facts fromOpcode d guid g = (ucast (dg_map d), dg_x d, dg_y d, dg_z d, dg_o d)"
proof -
  assume "dg_map d \<noteq> 0"
  moreover have "unat (dg_map d) < 2 ^ LENGTH(16)" by (rule unsigned_less)
  ultimately have "(ucast (dg_map d) :: u32) \<noteq> 0"
    by (simp add: word_unat_eq_iff unsigned_ucast_eq take_bit_nat_eq_self)
  then show ?thesis by (simp add: teleport_place_def Let_def)
qed

end
