(* ===== verification/GroupProperties.thy ===== *)
theory GroupProperties
  imports GroupSteps GroupLfg GroupVotes GroupNumbers GroupFaults
begin

text \<open>
  What the groups promise, each applied to a sample: a party of two that becomes a raid, a roll for an
  item, a server on which a player forms a group.
\<close>

subsection \<open>A sample server\<close>

definition party_env :: group_env where
  "party_env = \<lparr>ge_lfg = sample_world, ge_junk = False, ge_urand = (\<lambda>n. if n = 1 then 90 else 40),
     ge_item = (\<lambda>i. Some \<lparr>it_Quality = 3, it_DisenchantID = 0, it_RequiredDisenchantSkill = 0, it_Flags2 = 0\<rparr>),
     ge_canStore = (\<lambda>_ _ _. True), ge_alive = (\<lambda>_. True), ge_map = (\<lambda>_. 0)\<rparr>"

definition party_player :: "string \<Rightarrow> GPlayer" where
  "party_player n = \<lparr>gp_name = n, gp_inWorld = True, gp_level = 90, gp_enchanting = 0, gp_group = None, gp_subGroup = 0,
     gp_originalGroup = None, gp_originalSubGroup = 0, gp_groupInvite = None, gp_leaderFlag = False,
     gp_dungeonDifficulty = 1, gp_raidDifficulty = 3, gp_passOnGroupLoot = False, gp_readyCheckTimer = 0\<rparr>"

definition party_slot :: "u64 \<Rightarrow> MemberSlot" where
  "party_slot p = \<lparr>ms_guid = p, ms_name = [], ms_group = 0, ms_flags = 0, ms_roles = 0, ms_responded = False\<rparr>"

definition party_group :: Group where
  "party_group = Group_new\<lparr>m_memberSlots := [party_slot 1, party_slot 2], m_leaderGuid := 1\<rparr>"

definition party_server :: GroupWorld where
  "party_server = (GroupMgr_new (LFGMgr_new 3))\<lparr>gw_groups := [0 \<mapsto> party_group], gw_next := 1\<rparr>"

lemma party_group_simps [simp]:
  "m_memberSlots party_group = [party_slot 1, party_slot 2]" "m_subGroupsCounts party_group = None"
  "\<not> isRaidGroup party_group" "m_leaderGuid party_group = 1" "m_bgGroup party_group = None" "m_bfGroup party_group = None"
  "m_memberMgr party_group = []" "m_invitees party_group = []" "ms_guid (party_slot p) = p" "ms_group (party_slot p) = 0"
  by (simp_all add: party_group_def Group_new_def party_slot_def isRaidGroup_def group_type_defs)

lemma party_typed: "typed party_group"
  by (simp add: typed_iff roster_fits_def roster_def counts_ok_def MAXGROUPSIZE_def)

lemma party_server_ok: "refs_ok party_server" "all_typed party_server" "gw_groups party_server 0 = Some party_group"
proof -
  show "refs_ok party_server"
    by (rule refs_okI) (auto simp: party_server_def GroupMgr_new_def pview_def gview_def grefs_def split: if_splits)
qed (auto simp: all_typed_def party_server_def party_typed split: if_splits)

definition party_raid :: GroupWorld where
  "party_raid = the (ConvertToRaid 0 party_server)"

lemma party_raid_simps:
  "ConvertToRaid 0 party_server = Some party_raid"
  "\<exists>g. gw_groups party_raid 0 = Some g \<and> isRaidGroup g \<and> m_subGroupsCounts g = Some [2, 0, 0, 0, 0, 0, 0, 0]"
proof -
  define g where "g = party_group\<lparr>m_groupType := m_groupType party_group OR GROUPTYPE_RAID\<rparr>"
  have g: "m_memberSlots g = [party_slot 1, party_slot 2]" "isRaidGroup g"
    by (simp_all add: g_def isRaidGroup_def bit.conj_disj_distrib2 group_type_defs)
  have i: "initRaidSubGroupsCounter g = Some (g\<lparr>m_subGroupsCounts := Some [2, 0, 0, 0, 0, 0, 0, 0]\<rparr>)"
    by (simp add: initRaidSubGroupsCounter_def g bump_def numeral_eq_Suc)
  have "\<exists>y. ConvertToRaid 0 party_server = Some y \<and> shapes y = (shapes party_server)(0 \<mapsto> shape (g\<lparr>m_subGroupsCounts := Some [2, 0, 0, 0, 0, 0, 0, 0]\<rparr>))"
    by (simp add: ConvertToRaid_def party_server_ok(3) g_def [symmetric] i Let_def if_distrib [of shapes])
  then obtain y where y: "ConvertToRaid 0 party_server = Some y"
    "shapes y = (shapes party_server)(0 \<mapsto> shape (g\<lparr>m_subGroupsCounts := Some [2, 0, 0, 0, 0, 0, 0, 0]\<rparr>))" by blast
  then show "ConvertToRaid 0 party_server = Some party_raid" by (simp add: party_raid_def)
  from y have "shapes party_raid = (shapes party_server)(0 \<mapsto> shape (g\<lparr>m_subGroupsCounts := Some [2, 0, 0, 0, 0, 0, 0, 0]\<rparr>))"
    by (simp add: party_raid_def)
  then have "map_option shape (gw_groups party_raid 0) = Some (shape (g\<lparr>m_subGroupsCounts := Some [2, 0, 0, 0, 0, 0, 0, 0]\<rparr>))"
    by (simp add: observe_def fun_eq_iff)
  then show "\<exists>g. gw_groups party_raid 0 = Some g \<and> isRaidGroup g \<and> m_subGroupsCounts g = Some [2, 0, 0, 0, 0, 0, 0, 0]"
    using g(2) by (auto simp: shape_def roster_def isRaidGroup_def)
qed

lemma party_step: "(group_step True)\<^sup>*\<^sup>* party_server party_raid"
  using group_step.to_raid [OF party_raid_simps(1)] by blast

subsection \<open>Rosters\<close>

text \<open>
  C6: After any sequence of packets, logins, logouts, loot and calls of other parts of the server
  (players who invite themselves excepted, and members added by a direct call finding room), a
  group has at most 5 members, or 40 as a raid; it has subgroup counters exactly when it is a
  raid, eight of them, each the number of members whose slot names the subgroup and at most 5.
\<close>

theorem groups_stay_typed:
  assumes "refs_ok w0" and "all_typed w0" and "(group_step True)\<^sup>*\<^sup>* w0 w" and "gw_groups w h = Some g"
  shows "GetMembersCount g \<le> (if isRaidGroup g then MAXRAIDSIZE else MAXGROUPSIZE) \<and>
    (case m_subGroupsCounts g of None \<Rightarrow> \<not> isRaidGroup g
     | Some cs \<Rightarrow> isRaidGroup g \<and> length cs = MAX_RAID_SUBGROUPS \<and> (\<forall>i<MAX_RAID_SUBGROUPS. unat (cs ! i) \<le> MAXGROUPSIZE \<and>
         unat (cs ! i) = length (filter (\<lambda>s. unat (ms_group s) = i) (m_memberSlots g))))"
proof -
  have t: "typed g" using group_steps_sim [OF assms(3,1)] assms(2,4) by (auto simp: sim_def all_typed_def)
  then have f: "roster_fits (roster g)" and c: "counts_ok (roster g) (m_subGroupsCounts g)" by (simp_all add: typed_iff)
  have r: "ro_raid (roster g) = isRaidGroup g" "length (ro_seats (roster g)) = GetMembersCount g"
    "occupancy i (roster g) = length (filter (\<lambda>s. unat (ms_group s) = i) (m_memberSlots g))" for i
    by (simp_all add: roster_def GetMembersCount_def occupancy_def filter_map comp_def)
  have "GetMembersCount g \<le> (if isRaidGroup g then MAXRAIDSIZE else MAXGROUPSIZE)"
    using f fits_length [OF f] r(1,2) by (auto simp: roster_fits_def)
  moreover have "occupancy i (roster g) \<le> MAXGROUPSIZE" if "isRaidGroup g" "i < MAX_RAID_SUBGROUPS" for i
    using f that by (simp add: roster_fits_def r(1))
  ultimately show ?thesis using c by (auto simp: counts_ok_def r split: option.splits)
qed

theorem groups_stay_typed_witness:
  "\<exists>g. gw_groups party_raid 0 = Some g \<and> GetMembersCount g \<le> MAXRAIDSIZE \<and>
     length (filter (\<lambda>s. unat (ms_group s) = 0) (m_memberSlots g)) = 2"
proof -
  obtain g where g: "gw_groups party_raid 0 = Some g" "isRaidGroup g" "m_subGroupsCounts g = Some [2, 0, 0, 0, 0, 0, 0, 0]"
    using party_raid_simps(2) by blast
  note typed = groups_stay_typed [OF party_server_ok(1,2) party_step g(1), unfolded g(3) option.case]
  have "unat ([2, 0, 0, 0, 0, 0, 0, 0 :: u8] ! 0) = length (filter (\<lambda>s. unat (ms_group s) = 0) (m_memberSlots g))"
    using typed by (metis raid_subgroups zero_less_numeral)
  moreover have "GetMembersCount g \<le> MAXRAIDSIZE" using typed g(2) by simp
  ultimately show ?thesis using g(1) by auto
qed

text \<open>
  C7: The operations of groups refine an abstract specification: forgetting slots, counters,
  packets, rolls, references and the data base, from a state with sound references and typed
  groups any sequence of steps of the server in which no player invites himself and a direct call
  of AddMember finds room is a sequence of steps of rosters (found, seat in the first subgroup
  with room, unseat, reseat, change of leader or type, disband).
\<close>

theorem roster_refinement:
  assumes "refs_ok w0" and "all_typed w0" and "(group_step True)\<^sup>*\<^sup>* w0 w"
  shows "roster_step\<^sup>*\<^sup>* (rosters w0) (rosters w)"
  using group_steps_sim [OF assms(3,1)] assms(2) by (simp add: sim_def)

theorem roster_refinement_witness: "roster_step\<^sup>*\<^sup>* (rosters party_server) (rosters party_raid)"
  by (rule roster_refinement [OF party_server_ok(1,2) party_step])

text \<open>
  C30: On a typed group no operation on the slots writes outside the array of counters: a subgroup
  is found unless the group is a full raid, a member can be put into it, any guid can be removed,
  and a member can be moved to a subgroup below 8 with room.
\<close>

theorem slot_operations_defined:
  assumes "typed g"
  shows "(case choose_subgroup g of None \<Rightarrow> isRaidGroup g \<and> IsFull g
          | Some s \<Rightarrow> add_slot s guid n j g \<noteq> None) \<and> remove_slot guid g \<noteq> None \<and>
    (unat r < MAX_RAID_SUBGROUPS \<and> HasFreeSlotSubGroup r g \<and> IsMember guid g \<longrightarrow> move_slot guid r g \<noteq> None)"
proof -
  have f: "roster_fits (roster g)" using assms by (simp add: typed_iff)
  have "isRaidGroup g \<and> IsFull g" if "choose_subgroup g = None"
  proof -
    have v: "vacancy (roster g) = None" using choose_subgroup_vacancy [OF assms] that by simp
    then have raid: "ro_raid (roster g)" by (auto simp: vacancy_def split: if_splits)
    have "MAXGROUPSIZE \<le> occupancy i (roster g)" if "i < MAX_RAID_SUBGROUPS" for i
      using v raid that by (auto simp: vacancy_def find_None_iff)
    then have "(\<Sum>i<MAX_RAID_SUBGROUPS. MAXGROUPSIZE) \<le> (\<Sum>i<MAX_RAID_SUBGROUPS. occupancy i (roster g))"
      by (intro sum_mono) simp
    moreover have "length (ro_seats (roster g)) = (\<Sum>i<MAX_RAID_SUBGROUPS. occupancy i (roster g))"
      unfolding occupancy_def using f by (intro length_by_key) (simp add: roster_fits_def)
    ultimately have "MAXRAIDSIZE \<le> length (ro_seats (roster g))" by (simp add: MAXRAIDSIZE_def MAXGROUPSIZE_def)
    then show ?thesis using raid by (simp add: IsFull_roster roster_full_def) (simp add: roster_def)
  qed
  moreover have "add_slot s guid n j g \<noteq> None" if "choose_subgroup g = Some s" for s
    using add_slot_shape [OF assms, of s guid n j] choose_subgroup_vacancy [OF assms] that by auto
  moreover have "remove_slot guid g \<noteq> None"
    using remove_slot_shape [OF assms, of guid] by (cases "getMemberSlot guid g") (auto simp: seated_iff remove_slot_def)
  moreover have "move_slot guid r g \<noteq> None" if "unat r < MAX_RAID_SUBGROUPS" "HasFreeSlotSubGroup r g" "IsMember guid g"
    using move_slot_shape [OF assms, of guid r] HasFreeSlot_occupancy [OF assms that(2,1)] that by (auto simp: seated_iff IsMember_def)
  ultimately show ?thesis by (auto split: option.split)
qed

theorem slot_operations_defined_witness: "remove_slot 2 party_group \<noteq> None"
  using slot_operations_defined [OF party_typed, of 2] by blast

subsection \<open>References\<close>

text \<open>
  C8: From the start of the server, after loading the groups and any sequence of steps, every
  group that a player refers to, as his group, his original group or by an invitation, is an
  object that has not been deleted (steps in which a player invites himself excepted).
\<close>

theorem references_never_dangle:
  assumes "LoadGroups e names gs ms (GroupMgr_new m) = Some w0" and "(group_step False)\<^sup>*\<^sup>* w0 w" and "gw_players w p = Some q"
    and "gp_group q = Some h \<or> gp_originalGroup q = Some h \<or> gp_groupInvite q = Some h"
  shows "gw_groups w h \<noteq> None"
proof -
  have "refs_ok (GroupMgr_new m)" by (rule refs_okI) (simp_all add: GroupMgr_new_def pview_def gview_def)
  then have "refs_ok w0" using assms(1) by (rule refs_ok_LoadGroups)
  with assms(2) have ok: "refs_ok w" by (induction rule: rtranclp_induct) (auto intro: group_step_refs)
  have v: "pview w p = Some (prefs q)" by (simp add: pview_def assms(3))
  from assms(4) have "(\<exists>k. ref_target k q = Some h) \<or> gp_groupInvite q = Some h"
    by (auto simp: ref_target_def split: GroupRefKind.split intro: exI [of _ CurrentRef] exI [of _ OriginalRef])
  then have "gview w h \<noteq> None"
    using refs_okD(1) [OF ok v, of _ h] refs_okD(4) [OF ok v, of h] by auto
  then show ?thesis by (simp add: gview_def)
qed

definition party_login :: GroupWorld where
  "party_login = (GroupMgr_new (LFGMgr_new 3))\<lparr>gw_players := (gw_players (GroupMgr_new (LFGMgr_new 3)))(1 \<mapsto> party_player ''A'')\<rparr>"

definition party_found :: GroupWorld where
  "party_found = snd (new_group party_login)"

definition party_member :: GroupWorld where
  "party_member = the (SetBattlegroundOrBattlefieldRaid 1 0 0 party_found)"

lemma party_members:
  "(group_step False)\<^sup>*\<^sup>* (GroupMgr_new (LFGMgr_new 3)) party_member"
  "\<exists>q. gw_players party_member 1 = Some q \<and> gp_group q = Some 0"
proof -
  have 1: "group_step False (GroupMgr_new (LFGMgr_new 3)) party_login"
    unfolding party_login_def by (rule group_step.login) (simp_all add: GroupMgr_new_def party_player_def)
  have f: "gw_players party_found 1 = Some (party_player ''A'')" "gw_groups party_found 0 = Some Group_new"
    by (simp_all add: party_found_def party_login_def new_group_def GroupMgr_new_def)
  have 2: "group_step False party_login party_found"
    by (rule group_step.found [of _ 0]) (simp add: party_found_def party_login_def new_group_def GroupMgr_new_def)
  have u: "unlink 1 k party_found = party_found" for k
    by (cases k) (simp_all add: unlink_def f ref_target_def party_player_def)
  have s: "SetBattlegroundOrBattlefieldRaid 1 0 0 party_found = Some party_member"
    by (simp add: party_member_def SetBattlegroundOrBattlefieldRaid_def Player_SetOriginalGroup_def set_ref_def f u link_ref_def Let_def
      party_player_def)
  then have 3: "group_step False party_found party_member" by (rule group_step.join_raid)
  show "(group_step False)\<^sup>*\<^sup>* (GroupMgr_new (LFGMgr_new 3)) party_member"
    using 1 2 3 by (meson converse_rtranclp_into_rtranclp rtranclp.rtrancl_refl)
  show "\<exists>q. gw_players party_member 1 = Some q \<and> gp_group q = Some 0"
  proof -
    have e: "party_member = at_player 1 (set_subgroup CurrentRef 0) (at_group 0 (LinkMember (1, CurrentRef))
        (at_player 1 (set_target CurrentRef (Some 0)) party_found))"
      using s by (simp add: SetBattlegroundOrBattlefieldRaid_def Player_SetOriginalGroup_def set_ref_def f u link_ref_def Let_def
        party_player_def)
    show ?thesis unfolding e by (simp add: f set_subgroup_def set_target_def)
  qed
qed

theorem references_never_dangle_witness: "gw_groups party_member 0 \<noteq> None"
proof -
  have "LoadGroups party_env (\<lambda>_. None) [] [] (GroupMgr_new (LFGMgr_new 3)) = Some (GroupMgr_new (LFGMgr_new 3))"
    by (simp add: LoadGroups_def)
  from references_never_dangle [OF this party_members(1)] party_members(2) show ?thesis by blast
qed

subsection \<open>Rolls\<close>

definition party_item :: LootItem where
  "party_item = \<lparr>li_itemid = 77, li_randomSuffix = 0, li_randomPropertyId = 0, li_count = 1, li_is_looted = False,
     li_is_blocked = True, li_freeforall = False, li_is_underthreshold = False, li_follow_loot_rules = False\<rparr>"

definition party_loot :: Loot where
  "party_loot = \<lparr>lt_items = [party_item], lt_quest_items = [], lt_unlootedCount = 1, lt_PlayersLooting = [],
     lt_groupLootTimer = 60000, lt_lootingGroup = 1\<rparr>"

definition party_roll :: "RollVote \<Rightarrow> Roll" where
  "party_roll v = (Roll_new 5 party_item)\<lparr>r_playerVote := [(1, NEED), (2, v)], r_totalPlayersRolling := 2,
     r_totalNeed := (if v = NEED then 2 else 1), r_loot := Some 0\<rparr>"

definition party_rolling :: "RollVote \<Rightarrow> GroupWorld" where
  "party_rolling v = party_server\<lparr>gw_groups := [0 \<mapsto> party_group\<lparr>RollId := [party_roll v]\<rparr>], gw_loots := [0 \<mapsto> party_loot],
     gw_players := [1 \<mapsto> party_player ''A'', 2 \<mapsto> party_player ''B'']\<rparr>"

lemma party_rolling_simps [simp]:
  "gw_groups (party_rolling v) 0 = Some (party_group\<lparr>RollId := [party_roll v]\<rparr>)" "gw_loots (party_rolling v) 0 = Some party_loot"
  "r_loot (party_roll v) = Some 0" "r_itemSlot (party_roll v) = 0" "r_itemGUID (party_roll v) = 5" "r_itemid (party_roll v) = 77"
  "r_playerVote (party_roll v) = [(1, NEED), (2, v)]" "r_totalNeed (party_roll v) = (if v = NEED then 2 else 1)"
  "lt_items party_loot = [party_item]" "lt_quest_items party_loot = []" "lt_PlayersLooting party_loot = []"
  "gw_draws (party_rolling v) = 0" "gw_sent (party_rolling v) = []"
  "FindPlayer 1 (party_rolling v) = Some (party_player ''A'')" "FindPlayer 2 (party_rolling v) = Some (party_player ''B'')"
  by (simp_all add: party_rolling_def party_roll_def Roll_new_def party_item_def party_loot_def party_server_def GroupMgr_new_def
    FindPlayer_def party_player_def)

text \<open>
  C12: Counting a roll with voters removes it and gives the item to the first of the eligible
  voters with the highest number drawn: those who need it if anybody does, otherwise those who
  chose greed or disenchant; the winner gets the item, or a refusal when his bags are full, or the
  disenchanted loot, and nothing when he cannot be found; nobody else gets anything.
\<close>

theorem roll_winner:
  assumes "CountTheRoll e h i w = Some w'" and "gw_groups w h = Some g" and "i < length (RollId g)" and "roll = RollId g ! i"
    and "r_loot roll = Some la" and "gw_loots w la = Some l" and "item_at (unat (r_itemSlot roll)) l = Some item"
    and "\<And>j. 0 < ge_urand e j" and "0 < r_totalNeed roll \<or> 0 < r_totalGreed roll"
    and "el = filter (\<lambda>x. if 0 < r_totalNeed roll then snd x = NEED else snd x = GREED \<or> snd x = DISENCHANT) (r_playerVote roll)"
    and "el \<noteq> []"
  shows "gw_groups w' h = Some (g\<lparr>RollId := remove_nth i (RollId g)\<rparr>) \<and>
    (\<exists>k. first_best (\<lambda>j. ge_urand e (gw_draws w + j)) (length el) k \<and>
      given w' = given w @ (if FindPlayer (fst (el ! k)) w = None then []
        else [(fst (el ! k), prize e roll item (fst (el ! k)) (snd (el ! k)))]))"
  by (intro conjI CountTheRoll_winner [OF assms(1-3), folded assms(4), OF assms(5-8,10,11,9)] CountTheRoll_rolls [OF assms(1,2)])

lemma party_count: "\<exists>w'. CountTheRoll party_env 0 0 (party_rolling NEED) = Some w'"
  by (simp add: CountTheRoll_def award_def Let_def draw_def item_at_def split: prod.split option.split)

theorem roll_winner_witness:
  "\<exists>w'. CountTheRoll party_env 0 0 (party_rolling NEED) = Some w' \<and> given w' = [(2, StoredItem 77 0)]"
proof -
  obtain w' where c: "CountTheRoll party_env 0 0 (party_rolling NEED) = Some w'" using party_count by blast
  have g0: "given (party_rolling NEED) = []" by (simp add: given_def)
  have pos: "0 < ge_urand party_env j" for j by (simp add: party_env_def)
  have f: "[(1, NEED), (2, NEED)] = filter (\<lambda>x. if 0 < r_totalNeed (party_roll NEED) then snd x = NEED
      else snd x = GREED \<or> snd x = DISENCHANT) (r_playerVote (party_roll NEED))"
    by simp
  obtain k where k: "first_best (ge_urand party_env) (length [(1 :: u64, NEED), (2, NEED)]) k"
    "given w' = (if FindPlayer (fst ([(1 :: u64, NEED), (2, NEED)] ! k)) (party_rolling NEED) = None then []
      else [(fst ([(1 :: u64, NEED), (2, NEED)] ! k), prize party_env (party_roll NEED) party_item
        (fst ([(1 :: u64, NEED), (2, NEED)] ! k)) (snd ([(1 :: u64, NEED), (2, NEED)] ! k)))])"
    using roll_winner [OF c party_rolling_simps(1) _ _ _ party_rolling_simps(2) _ pos _ f, of party_item] g0
    by (auto simp: item_at_def)
  have "k = 1"
    using k(1) by (cases k) (auto simp: first_best_def party_env_def dest: spec [of _ 1] split: if_splits)
  with k(2) show ?thesis using c by (simp add: prize_def party_env_def party_item_def)
qed


lemma party_roll_ok: "roll_ok (party_roll NOT_EMITED_YET)"
  by (simp add: roll_ok_def party_roll_def Roll_new_def tally_def)

lemma send_voters_frame:
  "gw_loots (send_voters f m r w) = gw_loots w \<and> gw_players (send_voters f m r w) = gw_players w \<and>
   gw_draws (send_voters f m r w) = gw_draws w"
proof -
  have "gw_loots (fold k xs w) = gw_loots w \<and> gw_players (fold k xs w) = gw_players w \<and> gw_draws (fold k xs w) = gw_draws w"
    if "\<And>x v. gw_loots (k x v) = gw_loots v \<and> gw_players (k x v) = gw_players v \<and> gw_draws (k x v) = gw_draws v"
    for k and xs :: "(u64 \<times> RollVote) list"
    using that by (induction xs arbitrary: w) auto
  then show ?thesis unfolding send_voters_def by (auto simp: send_to_def)
qed

lemma vote_frame [simp]:
  "gw_loots (tell_vote p c r w) = gw_loots w" "FindPlayer q (tell_vote p c r w) = FindPlayer q w"
  "gw_draws (tell_vote p c r w) = gw_draws w"
  "gw_loots (at_group h f w) = gw_loots w" "FindPlayer q (at_group h f w) = FindPlayer q w" "gw_draws (at_group h f w) = gw_draws w"
  by (simp_all add: tell_vote_def SendLootRoll_def Let_def send_voters_frame FindPlayer_def at_group_def split: option.split)

lemma party_urand: "0 < ge_urand party_env n"
  by (simp add: party_env_def)

lemma party_vote: "\<exists>w'. CountRollVote party_env 0 2 5 ROLL_PASS (party_rolling NOT_EMITED_YET) = Some w'"
  by (simp add: CountRollVote_def CountTheRoll_def award_def Let_def draw_def item_at_def on_rolls_def cast_vote_def roll_types om_adjust_def
    party_urand cong: if_cong split: prod.split option.split)




text \<open>
  A roll whose loot has been cleared is removed neither by votes nor by the end of any loot,
  so the group counts as rolling for ever (which forbids a vote to kick).
\<close>

theorem roll_without_loot_stays:
  assumes "gw_groups w h = Some g" and "r \<in> set (RollId g)" and "r_loot r = None"
    and "CountRollVote e h p guid choice w = Some w' \<or> EndRoll e h la w = Some w'"
  shows "\<exists>g'. gw_groups w' h = Some g' \<and> r \<in> set (RollId g') \<and> isRollLootActive g'"
proof -
  obtain g' where "gw_groups w' h = Some g'" "forgotten g' = forgotten g"
    using assms(4) CountRollVote_forgets [OF _ assms(1)] EndRoll_forgets [OF _ assms(1)] by blast
  moreover have "r \<in> set (forgotten g)" using assms(2,3) by (simp add: forgotten_def)
  ultimately have "r \<in> set (forgotten g')" by simp
  then have "r \<in> set (RollId g')" by (simp add: forgotten_def)
  then show ?thesis using \<open>gw_groups w' h = Some g'\<close> by (auto simp: isRollLootActive_def)
qed

definition party_cleared :: GroupWorld where
  "party_cleared = Loot_clear 0 (party_rolling NEED)"

lemma party_cleared_simps:
  "\<exists>g. gw_groups party_cleared 0 = Some g \<and> RollId g = [(party_roll NEED)\<lparr>r_loot := None\<rparr>]"
  by (simp add: party_cleared_def Loot_clear_def Let_def at_loot_def)

theorem roll_without_loot_stays_witness: "\<exists>g. gw_groups party_cleared 0 = Some g \<and> isRollLootActive g"
proof -
  obtain g where g: "gw_groups party_cleared 0 = Some g" "RollId g = [(party_roll NEED)\<lparr>r_loot := None\<rparr>]"
    using party_cleared_simps by blast
  then have fin: "EndRoll party_env 0 0 party_cleared = Some party_cleared" by (simp add: EndRoll.simps)
  show ?thesis
    using roll_without_loot_stays [OF g(1) _ _ disjI2 [OF fin], of "(party_roll NEED)\<lparr>r_loot := None\<rparr>"] g(2) by auto
qed

subsection \<open>Icons and ids\<close>

text \<open>
  C31: SetTargetIcon keeps eight icons of which no two mark the same target, and the updates it
  broadcasts, applied in order, turn the icons a client shows into those of the group.
\<close>

theorem icons_stay_distinct:
  assumes "icons_ok g" and "SetTargetIcon i t g = (g', out)"
  shows "icons_ok g' \<and> m_targetIcons g' = show_updates out (m_targetIcons g)"
  using SetTargetIcon_ok [OF assms] by blast

theorem icons_stay_distinct_witness: "icons_ok (fst (SetTargetIcon 3 17 Group_new))"
proof -
  have "icons_ok Group_new" by (simp add: icons_ok_def Group_new_def TARGETICONCOUNT_def)
  then show ?thesis using icons_stay_distinct [of Group_new 3 17] by (metis prod.collapse)
qed

text \<open>
  A new storage id belongs to no group, registering it under the new group changes no other
  id, the next id is free again and the overflow check does not stop the server, as long as the
  table has fewer than 0xFFFFFFF0 entries.
\<close>

theorem new_storage_id_is_free:
  assumes "ids_ok w" and "length (GroupDbStore w) < 0xFFFFFFF0" and "GenerateNewGroupDbStoreId w = (s, stop, w1)"
    and "RegisterGroupDbStoreId s h w1 = Some w2"
  shows "GetGroupByDbStoreId s w = None \<and> GetGroupByDbStoreId s w2 = Some h \<and>
    (\<forall>i. i = s \<or> GetGroupByDbStoreId i w2 = GetGroupByDbStoreId i w) \<and> \<not> stop \<and> ids_ok w2"
  using Generate_Register [OF assms] by blast

theorem new_storage_id_is_free_witness:
  "\<exists>s stop w1 w2. GenerateNewGroupDbStoreId party_server = (s, stop, w1) \<and> RegisterGroupDbStoreId s 0 w1 = Some w2 \<and>
     \<not> stop \<and> GetGroupByDbStoreId s w2 = Some 0"
proof -
  have ok: "ids_ok party_server"
    by (simp add: ids_ok_def party_server_def GroupMgr_new_def GetGroupByDbStoreId_def)
  obtain s stop w1 where g: "GenerateNewGroupDbStoreId party_server = (s, stop, w1)" by (cases "GenerateNewGroupDbStoreId party_server")
  obtain w2 where r: "RegisterGroupDbStoreId s 0 w1 = Some w2"
    using g by (auto simp: RegisterGroupDbStoreId_def GenerateNewGroupDbStoreId_def Let_def party_server_def GroupMgr_new_def split: if_splits)
  have "length (GroupDbStore party_server) < 0xFFFFFFF0" by (simp add: party_server_def GroupMgr_new_def)
  from new_storage_id_is_free [OF ok this g r] g r show ?thesis by blast
qed

subsection \<open>Faults\<close>

text \<open>
  C35: A player without group and invitation who invites himself is left with an invitation to a
  group that has been deleted; logging out or answering the invitation then uses the deleted
  group.
\<close>

theorem self_invitation_dangles:
  assumes "invite_refusal f = None" and "if_target f = Some p" and "gw_players w p = Some q"
    and "gp_group q = None" and "gp_groupInvite q = None"
  shows "\<exists>w' q'. HandleGroupInvite e f name p w = Some w' \<and> gw_players w' p = Some q' \<and>
    gp_groupInvite q' \<noteq> None \<and> UninviteFromGroup e p w' = None \<and> (\<forall>accept. HandleGroupInviteResponse e accept p w' = None)"
proof -
  obtain w' q' where w': "HandleGroupInvite e f name p w = Some w'" "gw_players w' p = Some q'"
    "gp_groupInvite q' = Some (gw_next w)" "gw_groups w' (gw_next w) = None"
    using self_invite [OF assms] by blast
  with dangling_invite [OF w'(2-4)] show ?thesis by auto
qed

definition party_invite :: invite_facts where
  "party_invite = \<lparr>if_target = Some 1, if_normalName = True, if_allowGM = False, if_twoSides = False, if_inviterGM = False,
     if_targetGM = False, if_sameTeam = True, if_instance = 0, if_targetInstance = 0, if_sameMap = True, if_sameDifficulty = True,
     if_ignored = False\<rparr>"

theorem self_invitation_dangles_witness:
  "\<exists>w' q'. HandleGroupInvite party_env party_invite ''A'' 1 party_login = Some w' \<and> gw_players w' 1 = Some q' \<and>
    gp_groupInvite q' \<noteq> None \<and> UninviteFromGroup party_env 1 w' = None"
proof -
  have "invite_refusal party_invite = None" "if_target party_invite = Some 1" by (simp_all add: invite_refusal_def party_invite_def)
  moreover have "gw_players party_login 1 = Some (party_player ''A'')" by (simp add: party_login_def)
  ultimately show ?thesis
    using self_invitation_dangles [of party_invite 1 party_login "party_player ''A''" party_env "''A''"]
    by (auto simp: party_player_def)
qed

text \<open>
  A player who is added to another group stays in the list of invited players; when he has
  left the game, clearing that list uses his deleted object.
\<close>

theorem joined_elsewhere_dangles:
  assumes "AddMember e h' p w = Some (b, w1)" and "gw_groups w h = Some g" and "p \<in> set (m_invitees g)"
  shows "RemoveAllInvites h (delete_player p w1) = None"
  using assms by (rule joined_elsewhere)

definition party_invited :: GroupWorld where
  "party_invited = party_login\<lparr>gw_groups := [0 \<mapsto> Group_new, 1 \<mapsto> Group_new\<lparr>m_invitees := [1]\<rparr>], gw_next := 2\<rparr>"

lemma party_joins: "\<exists>w1. AddMember party_env 0 1 party_invited = Some (True, w1)"
  by (simp add: AddMember_def party_invited_def party_login_def choose_subgroup_def Group_new_def add_slot_def refer_member_def
    party_player_def GroupMgr_new_def Let_def Player_SetGroup_def set_ref_def link_ref_def
    SubGroupCounterIncrease_def unlink_def ref_target_def)

theorem joined_elsewhere_dangles_witness:
  "\<exists>b w1. AddMember party_env 0 1 party_invited = Some (b, w1) \<and> RemoveAllInvites 1 (delete_player 1 w1) = None"
proof -
  have "gw_groups party_invited 1 = Some (Group_new\<lparr>m_invitees := [1]\<rparr>)" by (simp add: party_invited_def)
  moreover obtain w1 where a: "AddMember party_env 0 1 party_invited = Some (True, w1)"
    using party_joins by blast
  ultimately show ?thesis using joined_elsewhere_dangles [OF a] by fastforce
qed

text \<open>
  The command group join only succeeds for a group that is full, and then a group that is no
  raid has more than five members.
\<close>

theorem join_command_overfills:
  assumes "HandleGroupJoinCommand e x y i w = Some (True, w')" and "all_typed w"
  shows "\<exists>h g. gw_groups w h = Some g \<and> IsFull g \<and>
    (\<not> isRaidGroup g \<longrightarrow> (\<exists>g'. gw_groups w' h = Some g' \<and> GetMembersCount g' = Suc (GetMembersCount g) \<and> GetMembersCount g' > MAXGROUPSIZE))"
  using assms by (rule join_command_overfull)

definition full_group :: Group where
  "full_group = Group_new\<lparr>m_memberSlots := map party_slot [1, 2, 3, 4, 5], m_leaderGuid := 1\<rparr>"

definition full_server :: GroupWorld where
  "full_server = (GroupMgr_new (LFGMgr_new 3))\<lparr>gw_groups := [0 \<mapsto> full_group], gw_next := 1,
     gw_players := [1 \<mapsto> (party_player ''A'')\<lparr>gp_group := Some 0\<rparr>, 6 \<mapsto> party_player ''B'']\<rparr>"

lemma full_server_join:
  "\<exists>w'. HandleGroupJoinCommand party_env (Some 1, 0) (Some 6, 0) 6 full_server = Some (True, w')"
  by (simp add: HandleGroupJoinCommand_def GetPlayerGroupAndGUIDByName_def full_server_def full_group_def IsFull_def isRaidGroup_def
    AddMember_def choose_subgroup_def Group_new_def add_slot_def refer_member_def group_type_defs MAXGROUPSIZE_def
    party_player_def GroupMgr_new_def Let_def Player_SetGroup_def set_ref_def link_ref_def
    SubGroupCounterIncrease_def unlink_def ref_target_def)

theorem join_command_overfills_witness:
  "\<exists>w' h g g'. HandleGroupJoinCommand party_env (Some 1, 0) (Some 6, 0) 6 full_server = Some (True, w') \<and>
     gw_groups full_server h = Some g \<and> IsFull g \<and> gw_groups w' h = Some g' \<and> GetMembersCount g' > MAXGROUPSIZE"
proof -
  obtain w' where j: "HandleGroupJoinCommand party_env (Some 1, 0) (Some 6, 0) 6 full_server = Some (True, w')"
    using full_server_join by blast
  have t: "typed full_group"
    by (simp add: typed_iff roster_fits_def roster_def counts_ok_def MAXGROUPSIZE_def full_group_def Group_new_def isRaidGroup_def
      group_type_defs party_slot_def)
  then have "all_typed full_server" by (simp add: all_typed_def full_server_def)
  moreover have "\<not> isRaidGroup g" if "gw_groups full_server h = Some g" for g h
    using that by (auto simp: full_server_def full_group_def Group_new_def isRaidGroup_def group_type_defs split: if_splits)
  ultimately show ?thesis using join_command_overfills [OF j] j by blast
qed

end
