(* ===== verification/InstanceIds.thy ===== *)
theory InstanceIds
  imports OrderedMap "HOL-Library.Monad_Syntax"
begin

text \<open>
  The instance ids of the map manager (\<open>game/Maps/MapManager.cpp\<close>) and their loading
  (\<open>game/Instances/InstanceSaveMgr.cpp\<close>). \<open>_instanceIds\<close> is a \<open>vector<bool>\<close> whose size the code sets
  from its capacity; the capacity that the standard library takes when it allocates, from the old
  capacity and the size wanted, is the parameter \<open>alloc\<close>. An access past the size is \<open>None\<close>.
\<close>

record instance_ids =
  ids_vec :: "bool list"
  ids_cap :: nat
  ids_next :: u32
  ids_stop :: bool

type_synonym allocator = "nat \<Rightarrow> nat \<Rightarrow> nat"

definition ids_empty :: instance_ids where
  "ids_empty = \<lparr>ids_vec = [], ids_cap = 0, ids_next = 0, ids_stop = False\<rparr>"

definition vec_resize :: "allocator \<Rightarrow> nat \<Rightarrow> instance_ids \<Rightarrow> instance_ids" where
  "vec_resize alloc n s =
    s\<lparr>ids_vec := take n (ids_vec s) @ replicate (n - length (ids_vec s)) False,
      ids_cap := if n \<le> ids_cap s then ids_cap s else alloc (ids_cap s) n\<rparr>"

text \<open>\<open>_instanceIds[instanceId] = b\<close>\<close>

definition set_id :: "nat \<Rightarrow> bool \<Rightarrow> instance_ids \<Rightarrow> instance_ids option" where
  "set_id i b s = (if i < length (ids_vec s) then Some (s\<lparr>ids_vec := (ids_vec s)[i := b]\<rparr>) else None)"

definition InitInstanceIds :: "allocator \<Rightarrow> u32 option \<Rightarrow> instance_ids \<Rightarrow> instance_ids" where
  "InitInstanceIds alloc maxId s =
    (let s = s\<lparr>ids_next := 1\<rparr>
     in case maxId of None \<Rightarrow> s
        | Some m \<Rightarrow> vec_resize alloc (unat ((m div 32) * 32 + (if m mod 32 > 0 then 32 else 0))) s)"

definition RegisterInstanceId :: "u32 \<Rightarrow> instance_ids \<Rightarrow> instance_ids option" where
  "RegisterInstanceId instanceId s = set_id (unat instanceId) True s"

text \<open>The loop of \<open>LoadResetTimes\<close> over the ids of the table, in ascending order.\<close>

fun load_ids :: "u32 list \<Rightarrow> instance_ids \<Rightarrow> instance_ids option" where
  "load_ids [] s = Some s"
| "load_ids (i # is) s =
    Option.bind (RegisterInstanceId i (if ids_next s = i then s\<lparr>ids_next := i + 1\<rparr> else s)) (load_ids is)"

text \<open>The search for the next id, from \<open>i\<close> to the last value; \<open>None\<close> when the loop runs out.\<close>

function next_free :: "bool list \<Rightarrow> nat \<Rightarrow> nat option" where
  "next_free v i =
    (if i < 0xFFFFFFFF
     then if (i < length v \<and> \<not> v ! i) \<or> length v \<le> i then Some i else next_free v (Suc i)
     else None)"
  by pat_completeness auto
termination
  by (relation "measure (\<lambda>(v, i). 0xFFFFFFFF - i)") auto

declare next_free.simps [simp del]

definition advance_next :: "instance_ids \<Rightarrow> instance_ids" where
  "advance_next s =
    (let s = s\<lparr>ids_next := ids_next s + 1\<rparr>
     in case next_free (ids_vec s) (unat (ids_next s)) of None \<Rightarrow> s | Some i \<Rightarrow> s\<lparr>ids_next := of_nat i\<rparr>)"

definition make_space :: "allocator \<Rightarrow> u32 \<Rightarrow> instance_ids \<Rightarrow> instance_ids" where
  "make_space alloc newInstanceId s =
    (if length (ids_vec s) \<le> unat newInstanceId
     then if length (ids_vec s) < ids_cap s then vec_resize alloc (ids_cap s) s
          else vec_resize alloc (unat ((newInstanceId div 32) * 32 + (if newInstanceId mod 32 > 0 then 32 else 0))) s
     else s)"

definition GenerateInstanceId :: "allocator \<Rightarrow> instance_ids \<Rightarrow> (u32 \<times> instance_ids) option" where
  "GenerateInstanceId alloc s =
    (let newInstanceId = ids_next s;
         s = advance_next s;
         s = (if newInstanceId = ids_next s then s\<lparr>ids_stop := True\<rparr> else s)
     in map_option (Pair newInstanceId) (set_id (unat newInstanceId) True (make_space alloc newInstanceId s)))"

definition FreeInstanceId :: "u32 \<Rightarrow> instance_ids \<Rightarrow> instance_ids option" where
  "FreeInstanceId instanceId s =
    set_id (unat instanceId) False (if instanceId < ids_next s then s\<lparr>ids_next := instanceId\<rparr> else s)"

subsection \<open>The ids in use\<close>

definition ids_used :: "instance_ids \<Rightarrow> nat set" where
  "ids_used s = {i. i < length (ids_vec s) \<and> ids_vec s ! i}"

text \<open>The next id is the least positive one that is not in use.\<close>

definition instance_ids_ok :: "instance_ids \<Rightarrow> bool" where
  "instance_ids_ok s \<longleftrightarrow> 0 < ids_next s \<and> unat (ids_next s) \<notin> ids_used s \<and> {0<..<unat (ids_next s)} \<subseteq> ids_used s"

lemma pad_nth: "i < length (v @ replicate n False) \<and> (v @ replicate n False) ! i \<longleftrightarrow> i < length v \<and> v ! i"
  by (simp add: nth_append)

lemma ids_used_resize:
  assumes "length (ids_vec s) \<le> n"
  shows "ids_used (vec_resize alloc n s) = ids_used s"
proof -
  have "ids_vec (vec_resize alloc n s) = ids_vec s @ replicate (n - length (ids_vec s)) False"
    using assms by (simp add: vec_resize_def)
  then show ?thesis unfolding ids_used_def by (simp only: pad_nth)
qed

lemma length_resize [simp]: "length (ids_vec (vec_resize alloc n s)) = n"
  by (simp add: vec_resize_def)

lemma ids_next_resize [simp]: "ids_next (vec_resize alloc n s) = ids_next s"
  by (simp add: vec_resize_def)

lemma ids_used_next [simp]: "ids_used (s\<lparr>ids_next := x\<rparr>) = ids_used s" "ids_used (s\<lparr>ids_stop := b\<rparr>) = ids_used s"
  by (simp_all add: ids_used_def)

lemma set_id_Some:
  assumes "set_id i b s = Some s'"
  shows "ids_used s' = (if b then insert i (ids_used s) else ids_used s - {i})" and "ids_next s' = ids_next s"
    and "i < length (ids_vec s)"
  using assms by (auto simp: set_id_def ids_used_def nth_list_update split: if_splits)

lemma next_free_Some:
  "next_free v i = Some j \<Longrightarrow> i \<le> j \<and> j < 0xFFFFFFFF \<and> \<not> (j < length v \<and> v ! j) \<and> (\<forall>k. i \<le> k \<and> k < j \<longrightarrow> k < length v \<and> v ! k)"
proof (induction v i rule: next_free.induct)
  case (1 v i)
  show ?case
  proof (cases "i < 0xFFFFFFFF \<and> \<not> ((i < length v \<and> \<not> v ! i) \<or> length v \<le> i)")
    case True
    then have "next_free v (Suc i) = Some j" using "1.prems" by (subst (asm) next_free.simps) (auto split: if_splits)
    from "1.IH" [OF _ _ this] True have IH: "Suc i \<le> j" "j < 0xFFFFFFFF" "\<not> (j < length v \<and> v ! j)"
      "\<forall>k. Suc i \<le> k \<and> k < j \<longrightarrow> k < length v \<and> v ! k" by auto
    have "k < length v \<and> v ! k" if "i \<le> k" "k < j" for k
      using that IH(4) True by (cases "k = i") auto
    with IH show ?thesis by auto
  next
    case False
    then show ?thesis using "1.prems" by (subst (asm) next_free.simps) (auto split: if_splits)
  qed
qed

lemma next_free_None: "next_free v i = None \<Longrightarrow> i \<le> k \<Longrightarrow> k < 0xFFFFFFFF \<Longrightarrow> k < length v \<and> v ! k"
proof (induction v i rule: next_free.induct)
  case (1 v i)
  then have "i < 0xFFFFFFFF" by simp
  with "1.prems" have "\<not> ((i < length v \<and> \<not> v ! i) \<or> length v \<le> i)" "next_free v (Suc i) = None"
    by (auto simp: next_free.simps [of v i] split: if_splits)
  with "1" \<open>i < 0xFFFFFFFF\<close> show ?case by (cases "i = k") auto
qed

lemma advance_next_simps [simp]:
  "ids_used (advance_next s) = ids_used s" "ids_vec (advance_next s) = ids_vec s" "ids_cap (advance_next s) = ids_cap s"
  by (simp_all add: advance_next_def Let_def split: option.split)

lemma make_space_used:
  "unat i < length (ids_vec (make_space alloc i s)) \<Longrightarrow> ids_used (make_space alloc i s) = ids_used s"
  by (simp add: make_space_def ids_used_resize split: if_splits)

lemma make_space_next [simp]: "ids_next (make_space alloc i s) = ids_next s"
  by (simp add: make_space_def)

lemma generate_Some:
  assumes "GenerateInstanceId alloc s = Some (i, s')"
  shows "i = ids_next s \<and> ids_used s' = insert (unat i) (ids_used s) \<and> ids_next s' = ids_next (advance_next s)"
proof -
  let ?t = "if ids_next s = ids_next (advance_next s) then (advance_next s)\<lparr>ids_stop := True\<rparr> else advance_next s"
  have i: "i = ids_next s" and t: "set_id (unat i) True (make_space alloc i ?t) = Some s'"
    using assms by (auto simp: GenerateInstanceId_def Let_def)
  have "ids_used ?t = ids_used s" "ids_next ?t = ids_next (advance_next s)" by simp_all
  with set_id_Some [OF t] make_space_used [OF set_id_Some(3) [OF t]] i show ?thesis by simp
qed

text \<open>A generated id was not in use; the next one is again the least that is free.\<close>

lemma generate_ok:
  assumes "GenerateInstanceId alloc s = Some (i, s')" and "instance_ids_ok s" and "ids_next s < 0xFFFFFFFE"
    and "length (ids_vec s) < 0xFFFFFFFF"
  shows "unat i \<notin> ids_used s \<and> ids_used s' = insert (unat i) (ids_used s) \<and> instance_ids_ok s'"
proof -
  have g: "i = ids_next s" "ids_used s' = insert (unat i) (ids_used s)" "ids_next s' = ids_next (advance_next s)"
    using generate_Some [OF assms(1)] by simp_all
  have n: "unat (ids_next s + 1) = Suc (unat (ids_next s))"
    using assms(3) by (simp add: unat_word_ariths word_less_nat_alt)
  have "next_free (ids_vec s) (Suc (unat (ids_next s))) \<noteq> None"
    using next_free_None [of "ids_vec s" "Suc (unat (ids_next s))" "0xFFFFFFFE"] assms(3,4)
    by (auto simp: word_less_nat_alt)
  then obtain j where j: "next_free (ids_vec s) (Suc (unat (ids_next s))) = Some j" by blast
  note nf = next_free_Some [OF j]
  have s': "ids_next s' = of_nat j" "unat (of_nat j :: u32) = j"
    using g(3) j n nf by (simp_all add: advance_next_def Let_def unat_of_nat)
  have "ids_used s' = insert (unat (ids_next s)) (ids_used s)" using g by simp
  moreover have "j \<notin> ids_used s" "\<And>k. Suc (unat (ids_next s)) \<le> k \<Longrightarrow> k < j \<Longrightarrow> k \<in> ids_used s"
    using nf by (auto simp: ids_used_def)
  moreover have "{0<..<j} \<subseteq> insert (unat (ids_next s)) (ids_used s)"
  proof
    fix k assume "k \<in> {0<..<j}"
    then show "k \<in> insert (unat (ids_next s)) (ids_used s)"
      using assms(2) calculation(3) [of k] by (cases k "unat (ids_next s)" rule: linorder_cases) (auto simp: instance_ids_ok_def)
  qed
  moreover have "0 < j" "j \<noteq> unat (ids_next s)" using nf by auto
  ultimately show ?thesis
    using assms(2) g(1,2) s' by (simp add: instance_ids_ok_def word_less_nat_alt)
qed

subsection \<open>Freeing and loading\<close>

lemma free_ok:
  assumes "FreeInstanceId i s = Some s'" and "instance_ids_ok s" and "i \<noteq> 0"
  shows "ids_used s' = ids_used s - {unat i} \<and> instance_ids_ok s'"
proof -
  let ?t = "if i < ids_next s then s\<lparr>ids_next := i\<rparr> else s"
  have t: "set_id (unat i) False ?t = Some s'" using assms(1) by (simp add: FreeInstanceId_def)
  have u: "ids_used s' = ids_used s - {unat i}" "ids_next s' = ids_next ?t"
    using set_id_Some(1,2) [OF t] by auto
  have "0 < unat i" using assms(3) by (simp add: unat_gt_0)
  with u assms(2) show ?thesis
    by (auto simp: instance_ids_ok_def word_less_nat_alt not_less)
qed

lemma load_ids_ok:
  assumes "load_ids is s = Some s'" and "sorted_wrt (<) is" and "instance_ids_ok s"
    and "\<And>i. i \<in> set is \<Longrightarrow> ids_next s \<le> i \<and> i \<noteq> - 1 \<and> (\<forall>k \<in> ids_used s. k < unat i)"
  shows "ids_used s' = ids_used s \<union> unat ` set is \<and> instance_ids_ok s'"
  using assms
proof (induction "is" arbitrary: s)
  case (Cons i "is")
  let ?t = "if ids_next s = i then s\<lparr>ids_next := i + 1\<rparr> else s"
  from Cons.prems(1) obtain u where u: "set_id (unat i) True ?t = Some u" "load_ids is u = Some s'"
    by (auto simp: RegisterInstanceId_def bind_eq_Some_conv)
  have us: "ids_used u = insert (unat i) (ids_used s)" "ids_next u = ids_next ?t"
    using set_id_Some(1,2) [OF u(1)] by auto
  have i: "ids_next s \<le> i" "i \<noteq> - 1" "\<forall>k \<in> ids_used s. k < unat i" using Cons.prems(4) [of i] by auto
  then have n: "unat (i + 1) = Suc (unat i)" by (metis add.commute add.right_neutral eq_neg_iff_add_eq_0 unatSuc)
  have "instance_ids_ok u"
  proof (cases "ids_next s = i")
    case True
    then have "unat (ids_next u) = Suc (unat i)" using us n by simp
    with True Cons.prems(3) us i n show ?thesis
      by (fastforce simp: instance_ids_ok_def word_gt_0 less_Suc_eq subset_iff simp flip: unat_gt_0)
  next
    case False
    then have "unat (ids_next s) \<noteq> unat i" by (simp add: word_unat_eq_iff)
    with False Cons.prems(3) us show ?thesis by (auto simp: instance_ids_ok_def)
  qed
  moreover have "ids_next u \<le> j \<and> j \<noteq> - 1 \<and> (\<forall>k \<in> ids_used u. k < unat j)" if "j \<in> set is" for j
  proof -
    have "i < j" using that Cons.prems(2) by simp
    with Cons.prems(4) [of j] that us n show ?thesis
      by (auto simp: word_less_nat_alt word_le_nat_alt)
  qed
  ultimately show ?case using Cons.IH [OF u(2)] Cons.prems(2) us(1) by auto
qed simp

subsection \<open>The ids over a run of the server\<close>

inductive ids_reach :: "allocator \<Rightarrow> instance_ids \<Rightarrow> bool" for alloc where
  ids_load: "sorted_wrt (<) is \<Longrightarrow> 0 \<notin> set is \<Longrightarrow> - 1 \<notin> set is \<Longrightarrow>
    load_ids is (InitInstanceIds alloc (if is = [] then None else Some (last is)) ids_empty) = Some s \<Longrightarrow> ids_reach alloc s"
| ids_generate: "ids_reach alloc s \<Longrightarrow> ids_next s < 0xFFFFFFFE \<Longrightarrow> length (ids_vec s) < 0xFFFFFFFF \<Longrightarrow>
    GenerateInstanceId alloc s = Some (i, s') \<Longrightarrow> ids_reach alloc s'"
| ids_free: "ids_reach alloc s \<Longrightarrow> i \<noteq> 0 \<Longrightarrow> FreeInstanceId i s = Some s' \<Longrightarrow> ids_reach alloc s'"

lemma init_ids: "ids_used (InitInstanceIds alloc m ids_empty) = {}" "ids_next (InitInstanceIds alloc m ids_empty) = 1"
  by (simp_all add: InitInstanceIds_def ids_empty_def Let_def ids_used_resize split: option.split)
    (simp_all add: ids_used_def)

lemma ids_reach_ok: "ids_reach alloc s \<Longrightarrow> instance_ids_ok s"
proof (induction rule: ids_reach.induct)
  case (ids_load "is" s)
  let ?s = "InitInstanceIds alloc (if is = [] then None else Some (last is)) ids_empty"
  have "instance_ids_ok ?s" by (auto simp: instance_ids_ok_def init_ids)
  moreover have "1 \<le> i" if "i \<in> set is" for i
    using that ids_load(2) by (cases "i = 0") (auto simp: word_le_nat_alt Suc_le_eq unat_gt_0)
  ultimately show ?case
    using load_ids_ok [OF ids_load(4) ids_load(1)] ids_load(3) by (auto simp: init_ids)
next
  case ids_generate
  then show ?case using generate_ok by blast
next
  case ids_free
  then show ?case using free_ok by blast
qed

text \<open>
  C13: After loading the ids of the data base and any generating and freeing, a generated instance
  id is positive, in use by nobody, the least such id, and in use afterwards, as long as the ids
  do not run out.
\<close>

theorem generated_ids_are_fresh:
  assumes "ids_reach alloc s" and "ids_next s < 0xFFFFFFFE" and "length (ids_vec s) < 0xFFFFFFFF"
    and "GenerateInstanceId alloc s = Some (i, s')"
  shows "i \<noteq> 0 \<and> unat i \<notin> ids_used s \<and> ids_used s' = insert (unat i) (ids_used s) \<and>
    (\<forall>k. 0 < k \<and> k < unat i \<longrightarrow> k \<in> ids_used s)"
  using generate_ok [OF assms(4) ids_reach_ok [OF assms(1)] assms(2,3)] generate_Some [OF assms(4)]
    ids_reach_ok [OF assms(1)] by (auto simp: instance_ids_ok_def)

text \<open>An allocator that rounds the wanted number of bits up to whole 64-bit words.\<close>

definition word_alloc :: allocator where
  "word_alloc cap n = ((n + 63) div 64) * 64"

subsection \<open>Writes past the end of the vector\<close>

lemma word_mult32: "(i :: u32) mod 32 = 0 \<Longrightarrow> i div 32 * 32 = i"
  by (metis add.right_neutral div_mult_mod_eq)


lemma load_out_of_range:
  assumes "maxId \<noteq> 0" and "maxId mod 32 = 0"
  shows "load_ids (is @ [maxId]) (InitInstanceIds alloc (Some maxId) ids_empty) = None"
proof -
  have "load_ids (is @ [maxId]) s = None" if "length (ids_vec s) = unat maxId" for s
    using that
  proof (induction "is" arbitrary: s)
    case Nil
    then show ?case by (simp add: RegisterInstanceId_def set_id_def)
  next
    case (Cons i "is")
    then show ?case
      by (cases "unat i < length (ids_vec s)") (simp_all add: RegisterInstanceId_def set_id_def)
  qed
  then show ?thesis
    using assms by (simp add: InitInstanceIds_def Let_def word_mult32)
qed

text \<open>C\<close>

theorem instance_id_out_of_range:
  assumes "ids_reach alloc s" and "unat (ids_next s) = length (ids_vec s)"
    and "ids_cap s = length (ids_vec s)" and "ids_next s mod 32 = 0"
  shows "GenerateInstanceId alloc s = None"
proof -
  have "set_id (unat (ids_next s)) True (make_space alloc (ids_next s) t) = None"
    if "ids_vec t = ids_vec s" "ids_cap t = ids_cap s" for t
    using that assms by (simp add: make_space_def set_id_def word_mult32)
  then show ?thesis by (simp add: GenerateInstanceId_def Let_def)
qed

text \<open>A server whose table holds the ids 1 to 63.\<close>

definition ids_full :: instance_ids where
  "ids_full = \<lparr>ids_vec = False # replicate 63 True, ids_cap = 64, ids_next = 64, ids_stop = False\<rparr>"

lemma load_run:
  assumes "length xs = j" and "j + n < 2 ^ 32"
  shows "load_ids (map of_nat [j..<j + n]) (s\<lparr>ids_vec := xs @ replicate (n + m) False, ids_next := of_nat j\<rparr>) =
    Some (s\<lparr>ids_vec := xs @ replicate n True @ replicate m False, ids_next := of_nat (j + n)\<rparr>)"
  using assms
proof (induction n arbitrary: j xs)
  case (Suc n)
  have IH: "load_ids (map of_nat [Suc j..<Suc j + n])
      (s\<lparr>ids_vec := (xs @ [True]) @ replicate (n + m) False, ids_next := of_nat (Suc j)\<rparr>) =
    Some (s\<lparr>ids_vec := (xs @ [True]) @ replicate n True @ replicate m False, ids_next := of_nat (Suc j + n)\<rparr>)"
    using Suc.IH [of "xs @ [True]" "Suc j"] Suc.prems by simp
  have e: "map of_nat [j..<j + Suc n] = (of_nat j :: u32) # map of_nat [Suc j..<Suc j + n]"
    by (simp add: upt_conv_Cons del: upt_Suc)
  have u: "unat (of_nat j :: u32) = j" using Suc.prems(2) by (simp add: unat_of_nat)
  have "RegisterInstanceId (of_nat j) (s\<lparr>ids_vec := xs @ replicate (Suc n + m) False, ids_next := of_nat j + 1\<rparr>) =
      Some (s\<lparr>ids_vec := (xs @ [True]) @ replicate (n + m) False, ids_next := of_nat (Suc j)\<rparr>)"
    using Suc.prems(1) u by (simp add: RegisterInstanceId_def set_id_def list_update_append add.commute)
  with IH show ?case unfolding e load_ids.simps by (simp del: upt_Suc)
qed simp

lemma ids_full_reach: "ids_reach word_alloc ids_full"
proof (rule ids_load)
  let ?is = "map of_nat [1..<64] :: u32 list"
  have l: "last ?is = 63" "?is \<noteq> []" by (simp_all add: upt_rec)
  let ?s = "\<lparr>ids_vec = [], ids_cap = 64, ids_next = 0, ids_stop = False\<rparr>"
  have "load_ids ?is (?s\<lparr>ids_vec := [False] @ replicate (63 + 0) False, ids_next := of_nat 1\<rparr>) = Some ids_full"
    using load_run [of "[False]" 1 63 0 ?s] by (simp add: ids_full_def)
  moreover have "InitInstanceIds word_alloc (Some 63) ids_empty =
      ?s\<lparr>ids_vec := [False] @ replicate (63 + 0) False, ids_next := of_nat 1\<rparr>"
    by (simp add: InitInstanceIds_def vec_resize_def word_alloc_def ids_empty_def Let_def flip: replicate_Suc)
  ultimately show "load_ids ?is (InitInstanceIds word_alloc (if ?is = [] then None else Some (last ?is)) ids_empty) = Some ids_full"
    using l by simp
  show "sorted_wrt (<) ?is" "0 \<notin> set ?is" "- 1 \<notin> set ?is"
    by (simp_all add: upt_rec)
qed

theorem instance_id_out_of_range_witness:
  "ids_reach word_alloc ids_full \<and> GenerateInstanceId word_alloc ids_full = None"
  using instance_id_out_of_range [OF ids_full_reach] ids_full_reach by (simp add: ids_full_def)

text \<open>A server whose table holds the ids 1 and 3 gives out 2 next.\<close>

definition ids_gap :: instance_ids where
  "ids_gap = \<lparr>ids_vec = False # True # False # True # replicate 28 False, ids_cap = 64, ids_next = 2, ids_stop = False\<rparr>"

lemma ids_gap_reach: "ids_reach word_alloc ids_gap"
proof (rule ids_load)
  have "replicate 32 False = False # False # False # False # replicate 28 False"
    by (simp add: numeral_eq_Suc)
  then have "InitInstanceIds word_alloc (Some 3) ids_empty =
      \<lparr>ids_vec = False # False # False # False # replicate 28 False, ids_cap = 64, ids_next = 1, ids_stop = False\<rparr>"
    by (simp add: InitInstanceIds_def vec_resize_def word_alloc_def ids_empty_def)
  moreover have "(a # b # c # d # xs)[3 := e] = a # b # c # e # xs" "(a # xs)[Suc 0 := e] = a # xs[0 := e]"
    for a b c d e :: bool and xs by (simp_all add: numeral_3_eq_3)
  ultimately show "load_ids [1, 3] (InitInstanceIds word_alloc (if [1, 3 :: u32] = [] then None else Some (last [1, 3])) ids_empty) =
      Some ids_gap"
    by (simp add: RegisterInstanceId_def set_id_def ids_gap_def)
qed simp_all

theorem generated_ids_are_fresh_witness:
  "\<exists>s. ids_reach word_alloc ids_gap \<and> GenerateInstanceId word_alloc ids_gap = Some (2, s) \<and>
    2 \<notin> ids_used ids_gap \<and> ids_used s = insert 2 (ids_used ids_gap)"
proof -
  have "set_id 2 True (make_space word_alloc 2 t) \<noteq> None" if "ids_vec t = ids_vec ids_gap" for t
    using that by (simp add: make_space_def set_id_def ids_gap_def)
  then obtain s where s: "GenerateInstanceId word_alloc ids_gap = Some (2, s)"
    by (fastforce simp: GenerateInstanceId_def Let_def ids_gap_def)
  then show ?thesis
    using generated_ids_are_fresh [OF ids_gap_reach _ _ s] ids_gap_reach by (simp add: ids_gap_def)
qed

end
