(* ===== verification/BgData.thy ===== *)
theory BgData
  imports OrderedMap EventProcessor Timers InstanceIds
begin

text \<open>
  The data of the battleground queues (\<open>game/Battlegrounds/BattlegroundQueue.h\<close>), their selection
  pools, the battlegrounds, the battleground manager, and what a player knows of them. A queued group is
  an object that the queue, the players in it and the selection pools point to: it is named by its
  address, and \<open>bq_infos\<close> holds the objects that have not been deleted; battlegrounds are named and held
  the same way in \<open>bw_bgs\<close>. An access to an object that is not there, an iterator moved past the end and
  an index out of range are \<open>None\<close>.
\<close>

subsection \<open>Constants\<close>

definition HORDE :: u32 where "HORDE = 67"
definition ALLIANCE :: u32 where "ALLIANCE = 469"
definition BG_TEAMS_COUNT :: nat where "BG_TEAMS_COUNT = 2"
definition TEAM_ALLIANCE :: nat where "TEAM_ALLIANCE = 0"
definition TEAM_HORDE :: nat where "TEAM_HORDE = 1"
definition MAX_BATTLEGROUND_BRACKETS :: nat where "MAX_BATTLEGROUND_BRACKETS = 17"
definition COUNT_OF_PLAYERS_TO_AVERAGE_WAIT_TIME :: nat where "COUNT_OF_PLAYERS_TO_AVERAGE_WAIT_TIME = 10"

definition BG_QUEUE_PREMADE_ALLIANCE :: nat where "BG_QUEUE_PREMADE_ALLIANCE = 0"
definition BG_QUEUE_PREMADE_HORDE :: nat where "BG_QUEUE_PREMADE_HORDE = 1"
definition BG_QUEUE_NORMAL_ALLIANCE :: nat where "BG_QUEUE_NORMAL_ALLIANCE = 2"
definition BG_QUEUE_NORMAL_HORDE :: nat where "BG_QUEUE_NORMAL_HORDE = 3"
definition BG_QUEUE_GROUP_TYPES_COUNT :: nat where "BG_QUEUE_GROUP_TYPES_COUNT = 4"

lemmas bg_indices = BG_TEAMS_COUNT_def TEAM_ALLIANCE_def TEAM_HORDE_def BG_QUEUE_PREMADE_ALLIANCE_def
  BG_QUEUE_PREMADE_HORDE_def BG_QUEUE_NORMAL_ALLIANCE_def BG_QUEUE_NORMAL_HORDE_def BG_QUEUE_GROUP_TYPES_COUNT_def

lemma teams_differ [simp]: "HORDE \<noteq> ALLIANCE" "ALLIANCE \<noteq> HORDE" "ALLIANCE \<noteq> 0" "HORDE \<noteq> 0"
  by (simp_all add: HORDE_def ALLIANCE_def)

text \<open>\<open>SharedDefines.h\<close>, \<open>RatedInfo.h\<close>, \<open>Battleground.h\<close>\<close>

definition BATTLEGROUND_TYPE_NONE :: u32 where "BATTLEGROUND_TYPE_NONE = 0"
definition BATTLEGROUND_AV :: u32 where "BATTLEGROUND_AV = 1"
definition BATTLEGROUND_WS :: u32 where "BATTLEGROUND_WS = 2"
definition BATTLEGROUND_AB :: u32 where "BATTLEGROUND_AB = 3"
definition BATTLEGROUND_NA :: u32 where "BATTLEGROUND_NA = 4"
definition BATTLEGROUND_BE :: u32 where "BATTLEGROUND_BE = 5"
definition BATTLEGROUND_AA :: u32 where "BATTLEGROUND_AA = 6"
definition BATTLEGROUND_EY :: u32 where "BATTLEGROUND_EY = 7"
definition BATTLEGROUND_RL :: u32 where "BATTLEGROUND_RL = 8"
definition BATTLEGROUND_SA :: u32 where "BATTLEGROUND_SA = 9"
definition BATTLEGROUND_DS :: u32 where "BATTLEGROUND_DS = 10"
definition BATTLEGROUND_RV :: u32 where "BATTLEGROUND_RV = 11"
definition BATTLEGROUND_IC :: u32 where "BATTLEGROUND_IC = 30"
definition BATTLEGROUND_RB :: u32 where "BATTLEGROUND_RB = 32"
definition BATTLEGROUND_RATED_10_VS_10 :: u32 where "BATTLEGROUND_RATED_10_VS_10 = 100"
definition BATTLEGROUND_TP :: u32 where "BATTLEGROUND_TP = 108"
definition BATTLEGROUND_BFG :: u32 where "BATTLEGROUND_BFG = 120"
definition BATTLEGROUND_TOK :: u32 where "BATTLEGROUND_TOK = 699"
definition BATTLEGROUND_SM :: u32 where "BATTLEGROUND_SM = 708"
definition BATTLEGROUND_DG :: u32 where "BATTLEGROUND_DG = 754"

lemmas bg_types = BATTLEGROUND_TYPE_NONE_def BATTLEGROUND_AV_def BATTLEGROUND_WS_def BATTLEGROUND_AB_def
  BATTLEGROUND_NA_def BATTLEGROUND_BE_def BATTLEGROUND_AA_def BATTLEGROUND_EY_def BATTLEGROUND_RL_def
  BATTLEGROUND_SA_def BATTLEGROUND_DS_def BATTLEGROUND_RV_def BATTLEGROUND_IC_def BATTLEGROUND_RB_def
  BATTLEGROUND_RATED_10_VS_10_def BATTLEGROUND_TP_def BATTLEGROUND_BFG_def BATTLEGROUND_TOK_def
  BATTLEGROUND_SM_def BATTLEGROUND_DG_def

text \<open>\<open>BattlegroundQueueTypeId\<close>: the index of a queue in the manager's array.\<close>

definition BATTLEGROUND_QUEUE_NONE :: nat where "BATTLEGROUND_QUEUE_NONE = 0"
definition BATTLEGROUND_QUEUE_AV :: nat where "BATTLEGROUND_QUEUE_AV = 1"
definition BATTLEGROUND_QUEUE_WS :: nat where "BATTLEGROUND_QUEUE_WS = 2"
definition BATTLEGROUND_QUEUE_AB :: nat where "BATTLEGROUND_QUEUE_AB = 3"
definition BATTLEGROUND_QUEUE_EY :: nat where "BATTLEGROUND_QUEUE_EY = 4"
definition BATTLEGROUND_QUEUE_SA :: nat where "BATTLEGROUND_QUEUE_SA = 5"
definition BATTLEGROUND_QUEUE_IC :: nat where "BATTLEGROUND_QUEUE_IC = 6"
definition BATTLEGROUND_QUEUE_TP :: nat where "BATTLEGROUND_QUEUE_TP = 7"
definition BATTLEGROUND_QUEUE_BFG :: nat where "BATTLEGROUND_QUEUE_BFG = 8"
definition BATTLEGROUND_QUEUE_TOK :: nat where "BATTLEGROUND_QUEUE_TOK = 9"
definition BATTLEGROUND_QUEUE_DG :: nat where "BATTLEGROUND_QUEUE_DG = 10"
definition BATTLEGROUND_QUEUE_SM :: nat where "BATTLEGROUND_QUEUE_SM = 11"
definition BATTLEGROUND_QUEUE_RB :: nat where "BATTLEGROUND_QUEUE_RB = 12"
definition BATTLEGROUND_QUEUE_2v2 :: nat where "BATTLEGROUND_QUEUE_2v2 = 13"
definition BATTLEGROUND_QUEUE_3v3 :: nat where "BATTLEGROUND_QUEUE_3v3 = 14"
definition BATTLEGROUND_QUEUE_5v5 :: nat where "BATTLEGROUND_QUEUE_5v5 = 15"
definition BATTLEGROUND_QUEUE_10v10 :: nat where "BATTLEGROUND_QUEUE_10v10 = 16"
definition MAX_BATTLEGROUND_QUEUE_TYPES :: nat where "MAX_BATTLEGROUND_QUEUE_TYPES = 17"

lemmas bg_queue_types = BATTLEGROUND_QUEUE_NONE_def BATTLEGROUND_QUEUE_AV_def BATTLEGROUND_QUEUE_WS_def
  BATTLEGROUND_QUEUE_AB_def BATTLEGROUND_QUEUE_EY_def BATTLEGROUND_QUEUE_SA_def BATTLEGROUND_QUEUE_IC_def
  BATTLEGROUND_QUEUE_TP_def BATTLEGROUND_QUEUE_BFG_def BATTLEGROUND_QUEUE_TOK_def BATTLEGROUND_QUEUE_DG_def
  BATTLEGROUND_QUEUE_SM_def BATTLEGROUND_QUEUE_RB_def BATTLEGROUND_QUEUE_2v2_def BATTLEGROUND_QUEUE_3v3_def
  BATTLEGROUND_QUEUE_5v5_def BATTLEGROUND_QUEUE_10v10_def MAX_BATTLEGROUND_QUEUE_TYPES_def

definition RATED_TYPE_NOT_RATED :: u32 where "RATED_TYPE_NOT_RATED = 0"
definition RATED_TYPE_2v2 :: u32 where "RATED_TYPE_2v2 = 2"
definition RATED_TYPE_3v3 :: u32 where "RATED_TYPE_3v3 = 3"
definition RATED_TYPE_5v5 :: u32 where "RATED_TYPE_5v5 = 5"
definition RATED_TYPE_10v10 :: u32 where "RATED_TYPE_10v10 = 10"

lemmas rated_types = RATED_TYPE_NOT_RATED_def RATED_TYPE_2v2_def RATED_TYPE_3v3_def RATED_TYPE_5v5_def RATED_TYPE_10v10_def

definition STATUS_NONE :: u32 where "STATUS_NONE = 0"
definition STATUS_WAIT_QUEUE :: u32 where "STATUS_WAIT_QUEUE = 1"
definition STATUS_WAIT_JOIN :: u32 where "STATUS_WAIT_JOIN = 2"
definition STATUS_IN_PROGRESS :: u32 where "STATUS_IN_PROGRESS = 3"
definition STATUS_WAIT_LEAVE :: u32 where "STATUS_WAIT_LEAVE = 4"

lemmas bg_status = STATUS_NONE_def STATUS_WAIT_QUEUE_def STATUS_WAIT_JOIN_def STATUS_IN_PROGRESS_def STATUS_WAIT_LEAVE_def

definition INVITATION_REMIND_TIME :: u32 where "INVITATION_REMIND_TIME = 20000"
definition INVITE_ACCEPT_WAIT_TIME :: u32 where "INVITE_ACCEPT_WAIT_TIME = 90000"
definition PLAYER_MAX_BATTLEGROUND_QUEUES :: nat where "PLAYER_MAX_BATTLEGROUND_QUEUES = 2"

subsection \<open>Groups, players, pools\<close>

text \<open>The players of a group are the keys of its map; the pointers stored with them are never read.\<close>

record GroupQueueInfo =
  gq_players :: "u64 list"
  gq_team :: u32
  gq_leaderGUID :: u64
  gq_bgTypeId :: u32
  gq_ratedType :: u32
  gq_isRated :: bool
  gq_joinTime :: u32
  gq_removeInviteTime :: u32
  gq_invited :: u32
  gq_teamRating :: u32
  gq_teamMMR :: u32
  gq_opponentsRating :: u32
  gq_opponentsMMR :: u32

record PlayerQueueInfo =
  pq_LastOnlineTime :: u32
  pq_GroupInfo :: nat

record SelectionPool =
  SelectedGroups :: "nat list"
  PlayerCount :: u32

text \<open>The two events of \<open>BattlegroundQueue.h\<close>: player, instance, battleground type, rated or queue type, time.\<close>

datatype BgEvent =
    BGQueueInviteEvent u64 u32 u32 u32 u32
  | BGQueueRemoveEvent u64 u32 u32 nat u32

text \<open>The lists of queued groups: bracket, then type of the list. \<open>bq_event\<close> has the events by number.\<close>

record BattlegroundQueue =
  m_QueuedPlayers :: "(u64 \<times> PlayerQueueInfo) list"
  m_QueuedGroups :: "nat \<Rightarrow> nat \<Rightarrow> nat list"
  m_SelectionPools :: "nat \<Rightarrow> SelectionPool"
  m_WaitTimes :: "nat \<Rightarrow> nat \<Rightarrow> u32 list"
  m_WaitTimeLastPlayer :: "nat \<Rightarrow> nat \<Rightarrow> u32"
  m_SumOfWaitTimes :: "nat \<Rightarrow> nat \<Rightarrow> u32"
  m_events :: event_processor
  bq_event :: "nat \<Rightarrow> BgEvent option"
  bq_nextEvent :: nat
  bq_infos :: "nat \<Rightarrow> GroupQueueInfo option"
  bq_nextInfo :: nat

definition Pool_Init :: SelectionPool where
  "Pool_Init = \<lparr>SelectedGroups = [], PlayerCount = 0\<rparr>"

definition BattlegroundQueue_new :: BattlegroundQueue where
  "BattlegroundQueue_new = \<lparr>m_QueuedPlayers = [], m_QueuedGroups = (\<lambda>_ _. []), m_SelectionPools = (\<lambda>_. Pool_Init),
     m_WaitTimes = (\<lambda>_ _. replicate COUNT_OF_PLAYERS_TO_AVERAGE_WAIT_TIME 0), m_WaitTimeLastPlayer = (\<lambda>_ _. 0),
     m_SumOfWaitTimes = (\<lambda>_ _. 0), m_events = ep_new, bq_event = (\<lambda>_. None), bq_nextEvent = 0,
     bq_infos = (\<lambda>_. None), bq_nextInfo = 0\<rparr>"

definition at_info :: "nat \<Rightarrow> (GroupQueueInfo \<Rightarrow> GroupQueueInfo) \<Rightarrow> BattlegroundQueue \<Rightarrow> BattlegroundQueue" where
  "at_info a f q = q\<lparr>bq_infos := (bq_infos q)(a := map_option f (bq_infos q a))\<rparr>"

definition put_list :: "nat \<Rightarrow> nat \<Rightarrow> nat list \<Rightarrow> BattlegroundQueue \<Rightarrow> BattlegroundQueue" where
  "put_list b i xs q = q\<lparr>m_QueuedGroups := (m_QueuedGroups q)(b := (m_QueuedGroups q b)(i := xs))\<rparr>"

definition put_pool :: "nat \<Rightarrow> SelectionPool \<Rightarrow> BattlegroundQueue \<Rightarrow> BattlegroundQueue" where
  "put_pool i p q = q\<lparr>m_SelectionPools := (m_SelectionPools q)(i := p)\<rparr>"

definition init_pools :: "BattlegroundQueue \<Rightarrow> BattlegroundQueue" where
  "init_pools q = put_pool TEAM_HORDE Pool_Init (put_pool TEAM_ALLIANCE Pool_Init q)"

lemma put_simps [simp]:
  "bq_infos (put_list b i xs q) = bq_infos q" "bq_infos (put_pool j p q) = bq_infos q"
  "m_QueuedPlayers (put_list b i xs q) = m_QueuedPlayers q" "m_QueuedPlayers (put_pool j p q) = m_QueuedPlayers q"
  "m_QueuedPlayers (at_info a f q) = m_QueuedPlayers q"
  "m_QueuedGroups (put_pool j p q) = m_QueuedGroups q" "m_QueuedGroups (at_info a f q) = m_QueuedGroups q"
  "m_QueuedGroups (put_list b i xs q) c = (if c = b then (m_QueuedGroups q b)(i := xs) else m_QueuedGroups q c)"
  "m_SelectionPools (put_list b i xs q) = m_SelectionPools q" "m_SelectionPools (at_info a f q) = m_SelectionPools q"
  "m_SelectionPools (put_pool j p q) k = (if k = j then p else m_SelectionPools q k)"
  "bq_infos (at_info a f q) c = (if c = a then map_option f (bq_infos q a) else bq_infos q c)"
  "bq_nextInfo (put_list b i xs q) = bq_nextInfo q" "bq_nextInfo (put_pool j p q) = bq_nextInfo q"
  "bq_nextInfo (at_info a f q) = bq_nextInfo q"
  by (simp_all add: put_list_def put_pool_def at_info_def)

lemma init_pools_simps [simp]:
  "bq_infos (init_pools q) = bq_infos q" "m_QueuedPlayers (init_pools q) = m_QueuedPlayers q"
  "m_QueuedGroups (init_pools q) = m_QueuedGroups q" "bq_nextInfo (init_pools q) = bq_nextInfo q"
  "m_SelectionPools (init_pools q) TEAM_ALLIANCE = Pool_Init" "m_SelectionPools (init_pools q) TEAM_HORDE = Pool_Init"
  by (simp_all add: init_pools_def)

subsection \<open>Battlegrounds and their manager\<close>

text \<open>The invited counters and the numbers of players of the two teams are the ones of the alliance and of the horde.\<close>

record Battleground =
  bg_TypeID :: u32
  bg_RandomTypeID :: u32
  bg_InstanceID :: u32
  bg_ClientInstanceID :: u32
  bg_Status :: u32
  bg_StartTime :: u32
  bg_EndTime :: u32
  bg_LastResurrectTime :: u32
  bg_Winner :: u8
  bg_BracketId :: nat
  bg_RatedType :: u32
  bg_IsRated :: bool
  bg_IsArena :: bool
  bg_IsRandom :: bool
  bg_InBGFreeSlotQueue :: bool
  bg_InvitedAlliance :: u32
  bg_InvitedHorde :: u32
  bg_Players :: "(u64 \<times> u32) list"
  bg_CountAlliance :: u32
  bg_CountHorde :: u32
  bg_MMRAlliance :: u32
  bg_MMRHorde :: u32
  bg_LevelMin :: u32
  bg_LevelMax :: u32
  bg_MinPlayersPerTeam :: u32
  bg_MaxPlayersPerTeam :: u32
  bg_MaxPlayers :: u32
  bg_MapId :: u32

record BattlegroundData =
  m_Battlegrounds :: "(u32 \<times> nat) list"
  m_ClientBattlegroundIds :: "nat \<Rightarrow> u32 list"
  BGFreeSlotQueue :: "nat list"

definition BattlegroundData_new :: BattlegroundData where
  "BattlegroundData_new = \<lparr>m_Battlegrounds = [], m_ClientBattlegroundIds = (\<lambda>_. []), BGFreeSlotQueue = []\<rparr>"

text \<open>An entry of the table of brackets.\<close>

record PvPDifficultyEntry =
  pd_mapId :: u32
  pd_bracketId :: nat
  pd_minLevel :: u32
  pd_maxLevel :: u32

subsection \<open>Players\<close>

text \<open>The slots of a player for battleground queues, and the rest of what the queues ask a player for.\<close>

record BgSlot =
  bs_queue :: nat
  bs_invited :: u32

record BgPlayer =
  bp_team :: u32
  bp_level :: u32
  bp_slots :: "BgSlot list"
  bp_bgInstanceID :: u32
  bp_bgTypeID :: u32
  bp_joinTimes :: "(u32 \<times> u32) list"
  bp_bgTeam :: u32
  bp_deserter :: bool
  bp_permArenas :: bool
  bp_permRandom :: bool
  bp_permNormal :: bool
  bp_usingLfg :: bool

subsection \<open>The world\<close>

text \<open>
  What leaves the modelled code: the status packets (receiver, battleground, slot, status, two times and
  rated type), the refusals (receiver, player named in it, joining time, result), the calls of \<open>RatedInfo::UpdateStats\<close>
  (player, rated type, rating of the opponents, won, offline) and the teleportations.
\<close>

datatype BgOut =
    StatusPacket u64 "nat option" u32 u32 u32 u32 u32
  | StatusFailed u64 u64 u32 nat
  | UpdateStatsCall u64 u32 u32 bool bool
  | SendToBattlegroundCall u64 u32 u32

text \<open>
  The configuration, the tables, the numbers drawn by \<open>urand\<close> (the n-th draw, from its bounds), the
  growth of vectors and the answer of \<open>DisableMgr\<close>.
\<close>

record BgConf =
  cf_invitationType :: u32
  cf_premadeWait :: u32
  cf_maxRatingDifference :: u32
  cf_ratingDiscardTimer :: u32
  cf_ratedUpdateTimer :: u32
  cf_brackets :: "PvPDifficultyEntry option list"
  cf_maxGroupSize :: "u32 \<Rightarrow> u32 option"
  cf_disabled :: "u32 \<Rightarrow> bool"
  cf_urand :: "nat \<Rightarrow> u32 \<Rightarrow> u32 \<Rightarrow> u32"
  cf_alloc :: allocator
  cf_arenaWeights :: "(u32 \<times> u8) list"
  cf_ratedWeights :: "(u32 \<times> u8) list"
  cf_bgWeights :: "(u32 \<times> u8) list"

text \<open>\<open>bw_players\<close> are the players that \<open>ObjectAccessor::FindPlayer\<close> finds; \<open>bw_now\<close> is the clock.\<close>

record BgWorld =
  bw_now :: u32
  bw_players :: "u64 \<Rightarrow> BgPlayer option"
  bw_bgs :: "nat \<Rightarrow> Battleground option"
  bw_nextBg :: nat
  bw_store :: "(u32 \<times> BattlegroundData) list"
  bw_queues :: "nat \<Rightarrow> BattlegroundQueue"
  bw_scheduler :: "u64 list"
  bw_nextRated :: u32
  bw_arenaTesting :: bool
  bw_testing :: bool
  bw_ids :: instance_ids
  bw_draws :: nat
  bw_out :: "BgOut list"

definition at_bgplayer :: "u64 \<Rightarrow> (BgPlayer \<Rightarrow> BgPlayer) \<Rightarrow> BgWorld \<Rightarrow> BgWorld" where
  "at_bgplayer g f W = W\<lparr>bw_players := (bw_players W)(g := map_option f (bw_players W g))\<rparr>"

definition at_bg :: "nat \<Rightarrow> (Battleground \<Rightarrow> Battleground) \<Rightarrow> BgWorld \<Rightarrow> BgWorld" where
  "at_bg b f W = W\<lparr>bw_bgs := (bw_bgs W)(b := map_option f (bw_bgs W b))\<rparr>"

definition at_queue :: "nat \<Rightarrow> (BattlegroundQueue \<Rightarrow> BattlegroundQueue) \<Rightarrow> BgWorld \<Rightarrow> BgWorld" where
  "at_queue t f W = W\<lparr>bw_queues := (bw_queues W)(t := f (bw_queues W t))\<rparr>"

text \<open>\<open>bgDataStore[bgTypeId]\<close>, which inserts an empty entry where there is none.\<close>

definition at_store :: "u32 \<Rightarrow> (BattlegroundData \<Rightarrow> BattlegroundData) \<Rightarrow> BgWorld \<Rightarrow> BgWorld" where
  "at_store t f W = W\<lparr>bw_store := om_put t (f (om_at BattlegroundData_new (bw_store W) t)) (bw_store W)\<rparr>"

definition bg_emit :: "BgOut \<Rightarrow> BgWorld \<Rightarrow> BgWorld" where
  "bg_emit x W = W\<lparr>bw_out := bw_out W @ [x]\<rparr>"

end
