(* ===== verification/BgPools.thy ===== *)
theory BgPools
  imports BgData
begin

text \<open>
  The selection pools of \<open>BattlegroundQueue.cpp\<close>: which groups are invited to a running battleground
  (\<open>FillPlayersToBG\<close>), to a match of premade groups, to a normal match, to a skirmish of one faction.
\<close>

type_synonym infos = "nat \<Rightarrow> GroupQueueInfo option"

subsection \<open>A pool\<close>

text \<open>The comparison is made with \<open>size_t\<close>, which does not overflow.\<close>

definition Pool_AddGroup :: "infos \<Rightarrow> nat \<Rightarrow> u32 \<Rightarrow> SelectionPool \<Rightarrow> (bool \<times> SelectionPool) option" where
  "Pool_AddGroup I ginfo desiredCount p =
    do { g \<leftarrow> I ginfo;
         if gq_invited g = 0 \<and> unat (PlayerCount p) + length (gq_players g) \<le> unat desiredCount
         then Some (True, \<lparr>SelectedGroups = SelectedGroups p @ [ginfo],
                           PlayerCount = PlayerCount p + of_nat (length (gq_players g))\<rparr>)
         else Some (PlayerCount p < desiredCount, p) }"

text \<open>The last group whose size differs from the one wanted by at most 1, else the last of the largest.\<close>

fun kick_scan :: "infos \<Rightarrow> u32 \<Rightarrow> nat list \<Rightarrow> nat list \<Rightarrow> nat \<Rightarrow> bool \<times> nat \<Rightarrow> (bool \<times> nat) option" where
  "kick_scan I sz sel [] i st = Some st"
| "kick_scan I sz sel (a # as) i (found, groupToKick) =
    (case I a of None \<Rightarrow> None | Some g \<Rightarrow>
      if \<bar>sint (of_nat (length (gq_players g)) - sz)\<bar> \<le> 1 then kick_scan I sz sel as (Suc i) (True, i)
      else if found then kick_scan I sz sel as (Suc i) (found, groupToKick)
      else (case I (sel ! groupToKick) of None \<Rightarrow> None | Some k \<Rightarrow>
        kick_scan I sz sel as (Suc i) (found, if length (gq_players k) \<le> length (gq_players g) then i else groupToKick)))"

definition erase_at :: "nat \<Rightarrow> 'a list \<Rightarrow> 'a list" where
  "erase_at i xs = take i xs @ drop (Suc i) xs"

definition Pool_KickGroup :: "infos \<Rightarrow> u32 \<Rightarrow> SelectionPool \<Rightarrow> (bool \<times> SelectionPool) option" where
  "Pool_KickGroup I sz p =
    do { (_, k) \<leftarrow> kick_scan I sz (SelectedGroups p) (SelectedGroups p) 0 (False, 0);
         if PlayerCount p \<noteq> 0 then
           if k < length (SelectedGroups p) then do {
             g \<leftarrow> I (SelectedGroups p ! k);
             Some (\<not> length (gq_players g) \<le> unat (sz + 1),
               \<lparr>SelectedGroups = erase_at k (SelectedGroups p), PlayerCount = PlayerCount p - of_nat (length (gq_players g))\<rparr>) }
           else None
         else Some (True, p) }"

subsection \<open>Running battlegrounds\<close>

text \<open>The loops that offer the queue to a pool; what is left of the queue is returned.\<close>

fun add_groups :: "infos \<Rightarrow> u32 \<Rightarrow> nat list \<Rightarrow> SelectionPool \<Rightarrow> (nat list \<times> SelectionPool) option" where
  "add_groups I desired [] p = Some ([], p)"
| "add_groups I desired (a # as) p =
    (case Pool_AddGroup I a desired p of None \<Rightarrow> None
     | Some (ok, p) \<Rightarrow> if ok then add_groups I desired as p else Some (a # as, p))"

text \<open>
  One round for the team with fewer free slots left: a group is kicked, others are tried, and when the
  pool is empty the other team loses a group or the rounds end (the first result).
\<close>

definition kick_side ::
  "infos \<Rightarrow> u32 \<Rightarrow> u32 \<Rightarrow> u32 \<Rightarrow> SelectionPool \<Rightarrow> nat list \<Rightarrow> SelectionPool \<Rightarrow> (bool \<times> SelectionPool \<times> nat list \<times> SelectionPool) option"
where
  "kick_side I free diff other pool rest opool =
    do { (again, pool) \<leftarrow> Pool_KickGroup I (other - diff) pool;
         (rest, pool) \<leftarrow> (if again then add_groups I (if other \<le>s free then free - other else 0) rest pool else Some (rest, pool));
         if PlayerCount pool = 0 then
           if free \<le>s other + 1 then Some (True, pool, rest, opool)
           else do { (_, opool) \<leftarrow> Pool_KickGroup I (other - diff) opool; Some (False, pool, rest, opool) }
         else Some (False, pool, rest, opool) }"

lemma length_erase_at: "i < length xs \<Longrightarrow> Suc (length (erase_at i xs)) = length xs"
  by (simp add: erase_at_def)

lemma kick_length:
  assumes "Pool_KickGroup I sz p = Some (b, p')"
  shows "length (SelectedGroups p') \<le> length (SelectedGroups p)"
    and "PlayerCount p \<noteq> 0 \<Longrightarrow> length (SelectedGroups p') < length (SelectedGroups p)"
    and "PlayerCount p = 0 \<Longrightarrow> p' = p"
  using assms length_erase_at [of _ "SelectedGroups p"]
  by (force simp: Pool_KickGroup_def split: bind_splits if_splits)+

lemma add_groups_length:
  "add_groups I d rest p = Some (rest', p') \<Longrightarrow>
     length (SelectedGroups p') + length rest' \<le> length (SelectedGroups p) + length rest \<and> length rest' \<le> length rest \<and>
     (length rest' = length rest \<longrightarrow> p' = p)"
proof (induction I d rest p rule: add_groups.induct)
  case (2 I d a as p)
  then show ?case by (fastforce simp: Pool_AddGroup_def split: option.splits prod.splits if_splits bind_splits)
qed simp

lemma kick_side_smaller:
  assumes "kick_side I free diff other pool rest opool = Some (False, pool', rest', opool')"
    and "PlayerCount pool \<noteq> 0 \<or> PlayerCount opool \<noteq> 0"
  shows "length (SelectedGroups pool') + 2 * length rest' + length (SelectedGroups opool') <
    length (SelectedGroups pool) + 2 * length rest + length (SelectedGroups opool)"
proof -
  obtain again p1 where k: "Pool_KickGroup I (other - diff) pool = Some (again, p1)"
    and a: "(if again then add_groups I (if other \<le>s free then free - other else 0) rest p1 else Some (rest, p1)) = Some (rest', pool')"
    using assms(1) by (auto simp: kick_side_def split: bind_splits if_splits)
  have o: "if PlayerCount pool' = 0 then \<exists>b. Pool_KickGroup I (other - diff) opool = Some (b, opool') else opool' = opool"
    using assms(1) k a by (auto simp: kick_side_def split: bind_splits if_splits)
  have l: "length (SelectedGroups pool') + length rest' \<le> length (SelectedGroups p1) + length rest"
    "length rest' \<le> length rest" "length rest' = length rest \<Longrightarrow> pool' = p1"
    using a add_groups_length [of I _ rest p1 rest' pool'] by (auto split: if_splits)
  have lo: "length (SelectedGroups opool') \<le> length (SelectedGroups opool)"
    using o kick_length(1) by (auto split: if_splits)
  show ?thesis
  proof (cases "PlayerCount pool = 0")
    case False
    then show ?thesis using kick_length(2) [OF k] l(1,2) lo by simp
  next
    case True
    then have p1: "p1 = pool" using kick_length(3) [OF k] by simp
    show ?thesis
    proof (cases "length rest' = length rest")
      case True
      then have "PlayerCount pool' = 0" using l(3) p1 \<open>PlayerCount pool = 0\<close> by simp
      then obtain b where "Pool_KickGroup I (other - diff) opool = Some (b, opool')" using o by auto
      then have "length (SelectedGroups opool') < length (SelectedGroups opool)"
        using kick_length(2) assms(2) \<open>PlayerCount pool = 0\<close> by simp
      then show ?thesis using l(1,2) p1 by simp
    next
      case False
      then show ?thesis using l(1,2) p1 lo by simp
    qed
  qed
qed

text \<open>
  The rounds: \<open>free\<close> slots of each team, its pool and the rest of its queue. The difference of a team is
  what stays free after the invitations.
\<close>

function balance ::
  "infos \<Rightarrow> u32 \<Rightarrow> u32 \<Rightarrow> SelectionPool \<times> nat list \<Rightarrow> SelectionPool \<times> nat list \<Rightarrow> (SelectionPool \<times> SelectionPool) option"
where
  "balance I aliFree hordeFree (ali, aliRest) (horde, hordeRest) =
    (let diffAli = aliFree - PlayerCount ali; diffHorde = hordeFree - PlayerCount horde
     in if \<bar>sint (diffAli - diffHorde)\<bar> > 1 \<and> (PlayerCount horde \<noteq> 0 \<or> PlayerCount ali \<noteq> 0) then
          if diffAli <s diffHorde then
            (case kick_side I aliFree diffAli diffHorde ali aliRest horde of None \<Rightarrow> None
             | Some (stop, ali, aliRest, horde) \<Rightarrow>
                 if stop then Some (ali, horde) else balance I aliFree hordeFree (ali, aliRest) (horde, hordeRest))
          else
            (case kick_side I hordeFree diffHorde diffAli horde hordeRest ali of None \<Rightarrow> None
             | Some (stop, horde, hordeRest, ali) \<Rightarrow>
                 if stop then Some (ali, horde) else balance I aliFree hordeFree (ali, aliRest) (horde, hordeRest))
        else Some (ali, horde))"
  by pat_completeness auto
termination
  by (relation "measure (\<lambda>(I, a, h, (p, r), (p', r')). length (SelectedGroups p) + 2 * length r + length (SelectedGroups p') + 2 * length r')")
    (use kick_side_smaller in fastforce)+

declare balance.simps [simp del]

definition FillPlayersToBG :: "u32 \<Rightarrow> u32 \<Rightarrow> u32 \<Rightarrow> nat \<Rightarrow> BattlegroundQueue \<Rightarrow> BattlegroundQueue option" where
  "FillPlayersToBG invitationType aliFree hordeFree bracket q =
    do { let I = bq_infos q;
         (aliRest, ali) \<leftarrow> add_groups I aliFree (m_QueuedGroups q bracket BG_QUEUE_NORMAL_ALLIANCE) (m_SelectionPools q TEAM_ALLIANCE);
         (hordeRest, horde) \<leftarrow> add_groups I hordeFree (m_QueuedGroups q bracket BG_QUEUE_NORMAL_HORDE) (m_SelectionPools q TEAM_HORDE);
         (ali, horde) \<leftarrow> (if invitationType = 0 then Some (ali, horde)
                         else balance I aliFree hordeFree (ali, aliRest) (horde, hordeRest));
         Some (put_pool TEAM_HORDE horde (put_pool TEAM_ALLIANCE ali q)) }"

subsection \<open>Premade groups\<close>

text \<open>The first group of a list that is not invited; \<open>Some None\<close> is the end of the list.\<close>

fun first_waiting :: "infos \<Rightarrow> nat list \<Rightarrow> nat option option" where
  "first_waiting I [] = Some None"
| "first_waiting I (a # as) =
    (case I a of None \<Rightarrow> None | Some g \<Rightarrow> if gq_invited g = 0 then Some (Some a) else first_waiting I as)"

text \<open>The loop that adds normal groups; groups that are invited are passed over, not offered.\<close>

fun offer_waiting :: "infos \<Rightarrow> u32 \<Rightarrow> nat list \<Rightarrow> SelectionPool \<Rightarrow> SelectionPool option" where
  "offer_waiting I desired [] p = Some p"
| "offer_waiting I desired (a # as) p =
    (case I a of None \<Rightarrow> None
     | Some g \<Rightarrow> if gq_invited g \<noteq> 0 then offer_waiting I desired as p
                else (case Pool_AddGroup I a desired p of None \<Rightarrow> None
                      | Some (ok, p) \<Rightarrow> if ok then offer_waiting I desired as p else Some p))"

text \<open>A premade group that has waited too long, or has become too small, moves to the normal list of its team.\<close>

definition release_premade :: "u32 \<Rightarrow> u32 \<Rightarrow> nat \<Rightarrow> nat \<Rightarrow> BattlegroundQueue \<Rightarrow> BattlegroundQueue option" where
  "release_premade time_before minPlayers bracket i q =
    (case m_QueuedGroups q bracket (BG_QUEUE_PREMADE_ALLIANCE + i) of [] \<Rightarrow> Some q
     | a # as \<Rightarrow> do {
         g \<leftarrow> bq_infos q a;
         Some (if gq_invited g = 0 \<and> (gq_joinTime g < time_before \<or> length (gq_players g) < unat minPlayers)
               then put_list bracket (BG_QUEUE_PREMADE_ALLIANCE + i) as
                      (put_list bracket (BG_QUEUE_NORMAL_ALLIANCE + i) (a # m_QueuedGroups q bracket (BG_QUEUE_NORMAL_ALLIANCE + i)) q)
               else q) })"

definition premade_pools :: "infos \<Rightarrow> u32 \<Rightarrow> nat \<Rightarrow> nat \<Rightarrow> nat list \<Rightarrow> nat list \<Rightarrow> SelectionPool \<times> SelectionPool \<Rightarrow>
  (SelectionPool \<times> SelectionPool) option"
where
  "premade_pools I maxPlayersPerTeam ali_group horde_group aliList hordeList pools =
    do { (_, ali) \<leftarrow> Pool_AddGroup I ali_group maxPlayersPerTeam (fst pools);
         (_, horde) \<leftarrow> Pool_AddGroup I horde_group maxPlayersPerTeam (snd pools);
         let maxPlayers = min (PlayerCount ali) (PlayerCount horde);
         ali \<leftarrow> offer_waiting I maxPlayers aliList ali;
         horde \<leftarrow> offer_waiting I maxPlayers hordeList horde;
         Some (ali, horde) }"

definition CheckPremadeMatch :: "u32 \<Rightarrow> u32 \<Rightarrow> nat \<Rightarrow> u32 \<Rightarrow> u32 \<Rightarrow> BattlegroundQueue \<Rightarrow> (bool \<times> BattlegroundQueue) option" where
  "CheckPremadeMatch now waitForMatch bracket minPlayers maxPlayers q =
    do { let lists = m_QueuedGroups q bracket;
         found \<leftarrow> (if lists BG_QUEUE_PREMADE_ALLIANCE \<noteq> [] \<and> lists BG_QUEUE_PREMADE_HORDE \<noteq> [] then do {
                    a \<leftarrow> first_waiting (bq_infos q) (lists BG_QUEUE_PREMADE_ALLIANCE);
                    h \<leftarrow> first_waiting (bq_infos q) (lists BG_QUEUE_PREMADE_HORDE);
                    Some (a, h) }
                  else Some (None, None));
         case found of
           (Some a, Some h) \<Rightarrow> do {
             (ali, horde) \<leftarrow> premade_pools (bq_infos q) maxPlayers a h (lists BG_QUEUE_NORMAL_ALLIANCE) (lists BG_QUEUE_NORMAL_HORDE)
                              (m_SelectionPools q TEAM_ALLIANCE, m_SelectionPools q TEAM_HORDE);
             Some (True, put_pool TEAM_HORDE horde (put_pool TEAM_ALLIANCE ali q)) }
         | _ \<Rightarrow> do {
             q \<leftarrow> release_premade (now - waitForMatch) minPlayers bracket 0 q;
             q \<leftarrow> release_premade (now - waitForMatch) minPlayers bracket 1 q;
             Some (False, q) } }"

subsection \<open>Normal matches\<close>

text \<open>The first loop for a team ends at the group that completes the pool (the list from there) or at the end.\<close>

fun fill_pool :: "infos \<Rightarrow> u32 \<Rightarrow> u32 \<Rightarrow> nat list \<Rightarrow> SelectionPool \<Rightarrow> (nat list \<times> SelectionPool) option" where
  "fill_pool I minPlayers maxPlayers [] p = Some ([], p)"
| "fill_pool I minPlayers maxPlayers (a # as) p =
    (case I a of None \<Rightarrow> None
     | Some g \<Rightarrow> if gq_invited g \<noteq> 0 then fill_pool I minPlayers maxPlayers as p
                else (case Pool_AddGroup I a maxPlayers p of None \<Rightarrow> None
                      | Some (_, p) \<Rightarrow> if minPlayers \<le> PlayerCount p then Some (a # as, p)
                                      else fill_pool I minPlayers maxPlayers as p))"

text \<open>The team with fewer players gets more groups, up to the number of the other team.\<close>

definition even_up :: "infos \<Rightarrow> SelectionPool \<Rightarrow> nat list \<Rightarrow> SelectionPool \<Rightarrow> SelectionPool option" where
  "even_up I other itr_team p =
    (case itr_team of [] \<Rightarrow> None | _ # as \<Rightarrow> offer_waiting I (PlayerCount other) as p)"

definition CheckNormalMatch :: "u32 \<Rightarrow> bool \<Rightarrow> nat \<Rightarrow> u32 \<Rightarrow> u32 \<Rightarrow> BattlegroundQueue \<Rightarrow> (bool \<times> BattlegroundQueue) option" where
  "CheckNormalMatch invitationType testing bracket minPlayers maxPlayers q =
    do { let I = bq_infos q;
         (itrA, ali) \<leftarrow> fill_pool I minPlayers maxPlayers (m_QueuedGroups q bracket BG_QUEUE_NORMAL_ALLIANCE) (m_SelectionPools q TEAM_ALLIANCE);
         (itrH, horde) \<leftarrow> fill_pool I minPlayers maxPlayers (m_QueuedGroups q bracket BG_QUEUE_NORMAL_HORDE) (m_SelectionPools q TEAM_HORDE);
         let evening = invitationType \<noteq> 0 \<and> minPlayers \<le> PlayerCount horde \<and> minPlayers \<le> PlayerCount ali;
         (ali, horde) \<leftarrow>
           (if \<not> evening then Some (ali, horde)
            else if PlayerCount horde < PlayerCount ali then map_option (Pair ali) (even_up I ali itrH horde)
            else map_option (\<lambda>ali. (ali, horde)) (even_up I horde itrA ali));
         let q = put_pool TEAM_HORDE horde (put_pool TEAM_ALLIANCE ali q);
         if evening \<and> \<bar>sint (PlayerCount horde - PlayerCount ali)\<bar> > 2 then Some (False, q)
         else if testing \<and> (PlayerCount ali \<noteq> 0 \<or> PlayerCount horde \<noteq> 0) then Some (True, q)
         else Some (minPlayers \<le> PlayerCount ali \<and> minPlayers \<le> PlayerCount horde, q) }"

subsection \<open>Skirmishes\<close>

text \<open>
  The groups of the other pool change their team and move to the front of the other list, one by one.
  The search in the own list starts behind the group \<open>from\<close> that was selected last.
\<close>

definition erase_behind :: "nat \<Rightarrow> nat \<Rightarrow> nat list \<Rightarrow> nat list" where
  "erase_behind from a xs =
    (case dropWhile (\<lambda>x. x \<noteq> from) xs of [] \<Rightarrow> xs
     | f # rest \<Rightarrow> takeWhile (\<lambda>x. x \<noteq> from) xs @ f # remove1 a rest)"

fun change_sides :: "u32 \<Rightarrow> nat \<Rightarrow> nat \<Rightarrow> nat \<Rightarrow> nat \<Rightarrow> nat list \<Rightarrow> BattlegroundQueue \<Rightarrow> BattlegroundQueue" where
  "change_sides otherTeamId bracket otherList ownList from [] q = q"
| "change_sides otherTeamId bracket otherList ownList from (a # as) q =
    change_sides otherTeamId bracket otherList ownList from as
      (let q = at_info a (\<lambda>g. g\<lparr>gq_team := otherTeamId\<rparr>) q;
           q = put_list bracket otherList (a # m_QueuedGroups q bracket otherList) q
       in put_list bracket ownList (erase_behind from a (m_QueuedGroups q bracket ownList)) q)"

definition CheckSkirmishForSameFaction :: "nat \<Rightarrow> u32 \<Rightarrow> BattlegroundQueue \<Rightarrow> (bool \<times> BattlegroundQueue) option" where
  "CheckSkirmishForSameFaction bracket minPlayers q =
    (if PlayerCount (m_SelectionPools q TEAM_ALLIANCE) < minPlayers \<and> PlayerCount (m_SelectionPools q TEAM_HORDE) < minPlayers
     then Some (False, q)
     else
       let horde = PlayerCount (m_SelectionPools q TEAM_HORDE) = minPlayers;
           teamIndex = (if horde then TEAM_HORDE else TEAM_ALLIANCE);
           otherTeam = (if horde then TEAM_ALLIANCE else TEAM_HORDE);
           otherTeamId = (if horde then ALLIANCE else HORDE);
           ownList = BG_QUEUE_NORMAL_ALLIANCE + teamIndex;
           q = put_pool otherTeam Pool_Init q;
           selected = SelectedGroups (m_SelectionPools q teamIndex)
       in if selected = [] then None
          else (case dropWhile (\<lambda>a. a \<noteq> last selected) (m_QueuedGroups q bracket ownList) of
                  [] \<Rightarrow> Some (False, q)
                | _ # as \<Rightarrow> do {
                    p \<leftarrow> offer_waiting (bq_infos q) minPlayers as (m_SelectionPools q otherTeam);
                    let q = put_pool otherTeam p q;
                    if PlayerCount p \<noteq> minPlayers then Some (False, q)
                    else Some (True, change_sides otherTeamId bracket (BG_QUEUE_NORMAL_ALLIANCE + otherTeam) ownList
                                       (last selected) (SelectedGroups p) q) }))"

end
