(* ===== verification/BgWorld.thy ===== *)
theory BgWorld
  imports BgPools
begin

unbundle bit_operations_syntax

text \<open>
  What the queues call: a battleground's slots and its life (\<open>Battleground.cpp\<close>), the battleground
  manager (\<open>BattlegroundMgr.cpp\<close>), the brackets (\<open>DBCStores.cpp\<close>) and a player's queue slots
  (\<open>Player.cpp\<close>).
\<close>

subsection \<open>The slots of a battleground\<close>

definition GetInvitedCount :: "u32 \<Rightarrow> Battleground \<Rightarrow> u32" where
  "GetInvitedCount team b = (if team = ALLIANCE then bg_InvitedAlliance b else bg_InvitedHorde b)"

definition GetPlayersCountByTeam :: "u32 \<Rightarrow> Battleground \<Rightarrow> u32" where
  "GetPlayersCountByTeam team b = (if team = ALLIANCE then bg_CountAlliance b else bg_CountHorde b)"

definition DecreaseInvitedCount :: "u32 \<Rightarrow> Battleground \<Rightarrow> Battleground" where
  "DecreaseInvitedCount team b =
    (if team = ALLIANCE then b\<lparr>bg_InvitedAlliance := bg_InvitedAlliance b - 1\<rparr>
     else b\<lparr>bg_InvitedHorde := bg_InvitedHorde b - 1\<rparr>)"

definition IncreaseInvitedCount :: "u32 \<Rightarrow> Battleground \<Rightarrow> Battleground" where
  "IncreaseInvitedCount team b =
    (if team = ALLIANCE then b\<lparr>bg_InvitedAlliance := bg_InvitedAlliance b + 1\<rparr>
     else b\<lparr>bg_InvitedHorde := bg_InvitedHorde b + 1\<rparr>)"

definition GetFreeSlotsForTeam :: "u32 \<Rightarrow> Battleground \<Rightarrow> u32" where
  "GetFreeSlotsForTeam team b =
    (let invited = GetInvitedCount team b; maxP = bg_MaxPlayersPerTeam b in
     if bg_Status b = STATUS_WAIT_JOIN then (if invited < maxP then maxP - invited else 0)
     else
       let otherTeamId = (if team = ALLIANCE then HORDE else ALLIANCE);
           otherTeam = GetInvitedCount otherTeamId b; otherIn = GetPlayersCountByTeam otherTeamId b
       in if bg_Status b = STATUS_IN_PROGRESS then
            let diff = (if otherTeam = invited then 1 else if otherTeam > invited then otherTeam - invited else 0);
                diff2 = (if invited < maxP then maxP - invited else 0);
                entered = GetPlayersCountByTeam team b;
                diff3 = (if otherIn = entered then 1 else if otherIn > entered then otherIn - entered
                         else if invited \<le> bg_MinPlayersPerTeam b then bg_MinPlayersPerTeam b - invited + 1 else 0)
            in min (min diff diff2) diff3
          else 0)"

definition HasFreeSlots :: "Battleground \<Rightarrow> bool" where
  "HasFreeSlots b \<longleftrightarrow> of_nat (length (bg_Players b)) < bg_MaxPlayers b"

definition Battleground_Reset :: "Battleground \<Rightarrow> Battleground" where
  "Battleground_Reset b = b\<lparr>bg_Winner := 2, bg_Status := STATUS_WAIT_QUEUE, bg_StartTime := 0, bg_EndTime := 0,
     bg_LastResurrectTime := 0, bg_InvitedAlliance := 0, bg_InvitedHorde := 0, bg_InBGFreeSlotQueue := False,
     bg_Players := []\<rparr>"

definition SetTeamMatchmakerRating :: "u32 \<Rightarrow> u32 \<Rightarrow> Battleground \<Rightarrow> Battleground" where
  "SetTeamMatchmakerRating team mmr b =
    (if team = ALLIANCE then b\<lparr>bg_MMRAlliance := mmr\<rparr> else b\<lparr>bg_MMRHorde := mmr\<rparr>)"

subsection \<open>The queue of battlegrounds with free slots\<close>

text \<open>The manager's \<open>AddToBGFreeSlotQueue\<close>, then the battleground's.\<close>

definition Mgr_AddToBGFreeSlotQueue :: "u32 \<Rightarrow> nat \<Rightarrow> BgWorld \<Rightarrow> BgWorld" where
  "Mgr_AddToBGFreeSlotQueue t a = at_store t (\<lambda>d. d\<lparr>BGFreeSlotQueue := a # BGFreeSlotQueue d\<rparr>)"

definition AddToBGFreeSlotQueue :: "nat \<Rightarrow> BgWorld \<Rightarrow> BgWorld option" where
  "AddToBGFreeSlotQueue a W =
    do { b \<leftarrow> bw_bgs W a;
         Some (if \<not> bg_InBGFreeSlotQueue b \<and> \<not> bg_IsArena b
               then at_bg a (\<lambda>b. b\<lparr>bg_InBGFreeSlotQueue := True\<rparr>) (Mgr_AddToBGFreeSlotQueue (bg_TypeID b) a W)
               else W) }"

text \<open>The first battleground with the instance id is erased; every one before it is looked at.\<close>

fun erase_instance :: "(nat \<Rightarrow> Battleground option) \<Rightarrow> u32 \<Rightarrow> nat list \<Rightarrow> nat list option" where
  "erase_instance B instanceId [] = Some []"
| "erase_instance B instanceId (a # as) =
    (case B a of None \<Rightarrow> None
     | Some b \<Rightarrow> if bg_InstanceID b = instanceId then Some as else map_option ((#) a) (erase_instance B instanceId as))"

definition Mgr_RemoveFromBGFreeSlotQueue :: "u32 \<Rightarrow> u32 \<Rightarrow> BgWorld \<Rightarrow> BgWorld option" where
  "Mgr_RemoveFromBGFreeSlotQueue t instanceId W =
    do { as \<leftarrow> erase_instance (bw_bgs W) instanceId (BGFreeSlotQueue (om_at BattlegroundData_new (bw_store W) t));
         Some (at_store t (\<lambda>d. d\<lparr>BGFreeSlotQueue := as\<rparr>) W) }"

definition RemoveFromBGFreeSlotQueue :: "nat \<Rightarrow> BgWorld \<Rightarrow> BgWorld option" where
  "RemoveFromBGFreeSlotQueue a W =
    do { b \<leftarrow> bw_bgs W a;
         if bg_InBGFreeSlotQueue b then do {
           W \<leftarrow> Mgr_RemoveFromBGFreeSlotQueue (bg_TypeID b) (bg_InstanceID b) W;
           Some (at_bg a (\<lambda>b. b\<lparr>bg_InBGFreeSlotQueue := False\<rparr>) W) }
         else Some W }"

definition AddBattleground :: "nat \<Rightarrow> BgWorld \<Rightarrow> BgWorld option" where
  "AddBattleground a W =
    do { b \<leftarrow> bw_bgs W a;
         Some (at_store (bg_TypeID b) (\<lambda>d. d\<lparr>m_Battlegrounds := om_put (bg_InstanceID b) a (m_Battlegrounds d)\<rparr>) W) }"

definition StartBattleground :: "nat \<Rightarrow> BgWorld \<Rightarrow> BgWorld option" where
  "StartBattleground a W =
    do { W \<leftarrow> AddToBGFreeSlotQueue a (at_bg a (\<lambda>b. b\<lparr>bg_StartTime := 0, bg_LastResurrectTime := 0\<rparr>) W);
         AddBattleground a W }"

subsection \<open>Finding battlegrounds\<close>

fun find_in_store :: "u32 \<Rightarrow> (u32 \<times> BattlegroundData) list \<Rightarrow> nat option" where
  "find_in_store instanceId [] = None"
| "find_in_store instanceId ((t, d) # m) =
    (case map_of (m_Battlegrounds d) instanceId of Some a \<Rightarrow> Some a | None \<Rightarrow> find_in_store instanceId m)"

definition GetBattleground :: "u32 \<Rightarrow> u32 \<Rightarrow> BgWorld \<Rightarrow> nat option" where
  "GetBattleground instanceId bgTypeId W =
    (if instanceId = 0 then None
     else if bgTypeId = BATTLEGROUND_TYPE_NONE then find_in_store instanceId (bw_store W)
     else (case map_of (bw_store W) bgTypeId of None \<Rightarrow> None
           | Some d \<Rightarrow> find_in_store instanceId [(bgTypeId, d)]))"

definition GetBattlegroundTemplate :: "u32 \<Rightarrow> BgWorld \<Rightarrow> nat option" where
  "GetBattlegroundTemplate bgTypeId W =
    (case map_of (bw_store W) bgTypeId of None \<Rightarrow> None
     | Some d \<Rightarrow> (case m_Battlegrounds d of [] \<Rightarrow> None | x # _ \<Rightarrow> Some (snd x)))"

subsection \<open>Types of battlegrounds and of queues\<close>

definition IsArenaType :: "u32 \<Rightarrow> bool" where
  "IsArenaType t \<longleftrightarrow> t = BATTLEGROUND_AA \<or> t = BATTLEGROUND_BE \<or> t = BATTLEGROUND_NA \<or> t = BATTLEGROUND_DS \<or>
     t = BATTLEGROUND_RV \<or> t = BATTLEGROUND_RL"

definition BGQueueTypeId :: "u32 \<Rightarrow> u32 \<Rightarrow> nat" where
  "BGQueueTypeId t ratedType =
    (if t = BATTLEGROUND_AB then BATTLEGROUND_QUEUE_AB
     else if t = BATTLEGROUND_AV then BATTLEGROUND_QUEUE_AV
     else if t = BATTLEGROUND_EY then BATTLEGROUND_QUEUE_EY
     else if t = BATTLEGROUND_IC then BATTLEGROUND_QUEUE_IC
     else if t = BATTLEGROUND_TP then BATTLEGROUND_QUEUE_TP
     else if t = BATTLEGROUND_BFG then BATTLEGROUND_QUEUE_BFG
     else if t = BATTLEGROUND_RB then BATTLEGROUND_QUEUE_RB
     else if t = BATTLEGROUND_SA then BATTLEGROUND_QUEUE_SA
     else if t = BATTLEGROUND_TOK then BATTLEGROUND_QUEUE_TOK
     else if t = BATTLEGROUND_SM then BATTLEGROUND_QUEUE_SM
     else if t = BATTLEGROUND_DG then BATTLEGROUND_QUEUE_DG
     else if t = BATTLEGROUND_WS then BATTLEGROUND_QUEUE_WS
     else if IsArenaType t \<or> t = BATTLEGROUND_RATED_10_VS_10 then
       (if ratedType = RATED_TYPE_2v2 then BATTLEGROUND_QUEUE_2v2
        else if ratedType = RATED_TYPE_3v3 then BATTLEGROUND_QUEUE_3v3
        else if ratedType = RATED_TYPE_5v5 then BATTLEGROUND_QUEUE_5v5
        else if ratedType = RATED_TYPE_10v10 then BATTLEGROUND_QUEUE_10v10
        else BATTLEGROUND_QUEUE_NONE)
     else BATTLEGROUND_QUEUE_NONE)"

definition BGTemplateId :: "nat \<Rightarrow> u32" where
  "BGTemplateId qt =
    (if qt = BATTLEGROUND_QUEUE_WS then BATTLEGROUND_WS
     else if qt = BATTLEGROUND_QUEUE_AB then BATTLEGROUND_AB
     else if qt = BATTLEGROUND_QUEUE_AV then BATTLEGROUND_AV
     else if qt = BATTLEGROUND_QUEUE_EY then BATTLEGROUND_EY
     else if qt = BATTLEGROUND_QUEUE_SA then BATTLEGROUND_SA
     else if qt = BATTLEGROUND_QUEUE_IC then BATTLEGROUND_IC
     else if qt = BATTLEGROUND_QUEUE_TP then BATTLEGROUND_TP
     else if qt = BATTLEGROUND_QUEUE_BFG then BATTLEGROUND_BFG
     else if qt = BATTLEGROUND_QUEUE_RB then BATTLEGROUND_RB
     else if qt = BATTLEGROUND_QUEUE_TOK then BATTLEGROUND_TOK
     else if qt = BATTLEGROUND_QUEUE_SM then BATTLEGROUND_SM
     else if qt = BATTLEGROUND_QUEUE_DG then BATTLEGROUND_DG
     else if qt = BATTLEGROUND_QUEUE_2v2 \<or> qt = BATTLEGROUND_QUEUE_3v3 \<or> qt = BATTLEGROUND_QUEUE_5v5 then BATTLEGROUND_AA
     else if qt = BATTLEGROUND_QUEUE_10v10 then BATTLEGROUND_RATED_10_VS_10
     else 0)"

text \<open>The assertion of the last case ends the server.\<close>

definition GetRatedTypeByQueue :: "nat \<Rightarrow> u32 option" where
  "GetRatedTypeByQueue qt =
    (if qt = BATTLEGROUND_QUEUE_2v2 then Some RATED_TYPE_2v2
     else if qt = BATTLEGROUND_QUEUE_3v3 then Some RATED_TYPE_3v3
     else if qt = BATTLEGROUND_QUEUE_5v5 then Some RATED_TYPE_5v5
     else if qt = BATTLEGROUND_QUEUE_10v10 then Some RATED_TYPE_10v10
     else None)"

subsection \<open>Creating battlegrounds\<close>

text \<open>
  The loop over the ids in use never advances its iterator: it compares with the first id until they
  differ. What it leaves in \<open>lastId\<close> is incremented once more.
\<close>

function client_id_loop :: "u32 \<Rightarrow> u32 \<Rightarrow> u32" where
  "client_id_loop lastId itr = (if lastId + 1 \<noteq> itr then lastId + 1 else client_id_loop itr itr)"
  by pat_completeness auto
termination
  by (relation "measure (\<lambda>(lastId, itr). if lastId + 1 = itr then 1 else 0)") auto

declare client_id_loop.simps [simp del]

definition CreateClientVisibleInstanceId :: "u32 \<Rightarrow> nat \<Rightarrow> BgWorld \<Rightarrow> u32 \<times> BgWorld" where
  "CreateClientVisibleInstanceId bgTypeId bracket W =
    (if IsArenaType bgTypeId then (0, W)
     else
       let clientIds = m_ClientBattlegroundIds (om_at BattlegroundData_new (bw_store W) bgTypeId) bracket;
           lastId = (case clientIds of [] \<Rightarrow> 0 | i # _ \<Rightarrow> client_id_loop 0 i) + 1
       in (lastId, at_store bgTypeId (\<lambda>d. d\<lparr>m_ClientBattlegroundIds :=
             (m_ClientBattlegroundIds d)(bracket := os_insert lastId clientIds)\<rparr>) W))"

definition selection_weights :: "BgConf \<Rightarrow> u32 \<Rightarrow> (u32 \<times> u8) list" where
  "selection_weights c t =
    filter (\<lambda>x. snd x \<noteq> 0)
      (if t = BATTLEGROUND_AA then cf_arenaWeights c
       else if t = BATTLEGROUND_RATED_10_VS_10 then cf_ratedWeights c
       else if t = BATTLEGROUND_RB then cf_bgWeights c else [])"

fun weight_sum :: "(u32 \<times> u8) list \<Rightarrow> u32" where
  "weight_sum [] = 0"
| "weight_sum ((t, w) # ws) = ucast w + weight_sum ws"

fun select_weight :: "u32 \<Rightarrow> u32 \<Rightarrow> (u32 \<times> u8) list \<Rightarrow> u32" where
  "select_weight selected weight [] = BATTLEGROUND_TYPE_NONE"
| "select_weight selected weight ((t, w) # ws) =
     (if selected < weight + ucast w then t else select_weight selected (weight + ucast w) ws)"

definition GetRandomBG :: "BgConf \<Rightarrow> u32 \<Rightarrow> BgWorld \<Rightarrow> u32 \<times> BgWorld" where
  "GetRandomBG c t W =
    (let ws = selection_weights c t; weight = weight_sum ws
     in if weight \<noteq> 0
        then (select_weight (cf_urand c (bw_draws W) 0 (weight - 1)) 0 ws, W\<lparr>bw_draws := Suc (bw_draws W)\<rparr>)
        else (BATTLEGROUND_TYPE_NONE, W))"

text \<open>The types for which an object is created: the cases of the switch.\<close>

definition creatable_types :: "u32 list" where
  "creatable_types = [BATTLEGROUND_AV, BATTLEGROUND_WS, BATTLEGROUND_AB, BATTLEGROUND_NA, BATTLEGROUND_BE, BATTLEGROUND_EY,
     BATTLEGROUND_RL, BATTLEGROUND_SA, BATTLEGROUND_DS, BATTLEGROUND_RV, BATTLEGROUND_IC, BATTLEGROUND_TP, BATTLEGROUND_BFG,
     BATTLEGROUND_TOK, BATTLEGROUND_DG, BATTLEGROUND_SM, BATTLEGROUND_RB, BATTLEGROUND_AA, BATTLEGROUND_RATED_10_VS_10]"

definition rated_max_players :: "u32 \<Rightarrow> u32" where
  "rated_max_players ratedType =
    (if ratedType = RATED_TYPE_2v2 then 2 else if ratedType = RATED_TYPE_3v3 then 3
     else if ratedType = RATED_TYPE_5v5 then 5 else if ratedType = RATED_TYPE_10v10 then 10 else 0)"

text \<open>\<open>Some (None, W)\<close> is the null pointer. The GUID of the battleground and what the copy does for its map are left out.\<close>

definition CreateNewBattleground ::
  "BgConf \<Rightarrow> u32 \<Rightarrow> PvPDifficultyEntry \<Rightarrow> u32 \<Rightarrow> bool \<Rightarrow> BgWorld \<Rightarrow> (nat option \<times> BgWorld) option"
where
  "CreateNewBattleground c originalBgTypeId bracketEntry ratedType isRated W =
    (let isRandom = (originalBgTypeId = BATTLEGROUND_RB);
         (bgTypeId, W) = (if originalBgTypeId \<in> {BATTLEGROUND_RB, BATTLEGROUND_AA, BATTLEGROUND_RATED_10_VS_10}
                          then GetRandomBG c originalBgTypeId W else (originalBgTypeId, W))
     in case GetBattlegroundTemplate bgTypeId W of None \<Rightarrow> Some (None, W)
        | Some t \<Rightarrow>
            if bgTypeId \<notin> set creatable_types then Some (None, W)
            else do {
              tmpl \<leftarrow> bw_bgs W t;
              (instanceId, ids) \<leftarrow> GenerateInstanceId (cf_alloc c) (bw_ids W);
              let (clientId, W) = CreateClientVisibleInstanceId (if isRandom then BATTLEGROUND_RB else bgTypeId)
                                    (pd_bracketId bracketEntry) (W\<lparr>bw_ids := ids\<rparr>);
              let a = bw_nextBg W;
              let b = Battleground_Reset (tmpl\<lparr>bg_BracketId := pd_bracketId bracketEntry, bg_LevelMin := pd_minLevel bracketEntry,
                        bg_LevelMax := pd_maxLevel bracketEntry, bg_InstanceID := instanceId, bg_ClientInstanceID := clientId\<rparr>);
              let b = b\<lparr>bg_Status := STATUS_WAIT_JOIN, bg_RatedType := ratedType, bg_TypeID := originalBgTypeId,
                        bg_RandomTypeID := bgTypeId, bg_IsRated := isRated, bg_IsRandom := isRandom\<rparr>;
              let b = (if isRated then b\<lparr>bg_MaxPlayersPerTeam := rated_max_players ratedType,
                                         bg_MaxPlayers := rated_max_players ratedType * 2\<rparr> else b);
              Some (Some a, W\<lparr>bw_nextBg := Suc a, bw_bgs := (bw_bgs W)(a \<mapsto> b)\<rparr>) })"

subsection \<open>Brackets\<close>

text \<open>An entry is named by its row.\<close>

fun bracket_by_level ::
  "PvPDifficultyEntry option list \<Rightarrow> nat \<Rightarrow> u32 \<Rightarrow> u32 \<Rightarrow> (nat \<times> PvPDifficultyEntry) option \<Rightarrow> (nat \<times> PvPDifficultyEntry) option"
where
  "bracket_by_level [] i mapid level maxEntry = maxEntry"
| "bracket_by_level (None # es) i mapid level maxEntry = bracket_by_level es (Suc i) mapid level maxEntry"
| "bracket_by_level (Some e # es) i mapid level maxEntry =
    (if pd_mapId e \<noteq> mapid \<or> pd_minLevel e > level then bracket_by_level es (Suc i) mapid level maxEntry
     else if pd_maxLevel e \<ge> level then Some (i, e)
     else bracket_by_level es (Suc i) mapid level
            (case maxEntry of None \<Rightarrow> Some (i, e)
             | Some (j, m) \<Rightarrow> if pd_maxLevel m < pd_maxLevel e then Some (i, e) else maxEntry))"

definition GetBattlegroundBracketByLevel :: "BgConf \<Rightarrow> u32 \<Rightarrow> u32 \<Rightarrow> (nat \<times> PvPDifficultyEntry) option" where
  "GetBattlegroundBracketByLevel c mapid level = bracket_by_level (cf_brackets c) 0 mapid level None"

fun bracket_by_id :: "PvPDifficultyEntry option list \<Rightarrow> u32 \<Rightarrow> nat \<Rightarrow> PvPDifficultyEntry option" where
  "bracket_by_id [] mapid bracket = None"
| "bracket_by_id (None # es) mapid bracket = bracket_by_id es mapid bracket"
| "bracket_by_id (Some e # es) mapid bracket =
     (if pd_mapId e = mapid \<and> pd_bracketId e = bracket then Some e else bracket_by_id es mapid bracket)"

definition GetBattlegroundBracketById :: "BgConf \<Rightarrow> u32 \<Rightarrow> nat \<Rightarrow> PvPDifficultyEntry option" where
  "GetBattlegroundBracketById c mapid bracket = bracket_by_id (cf_brackets c) mapid bracket"

subsection \<open>The queue slots of a player\<close>

fun slot_of :: "nat \<Rightarrow> BgSlot list \<Rightarrow> nat" where
  "slot_of qt [] = 0"
| "slot_of qt (s # ss) = (if bs_queue s = qt then 0 else Suc (slot_of qt ss))"

definition GetBattlegroundQueueIndex :: "nat \<Rightarrow> BgPlayer \<Rightarrow> nat" where
  "GetBattlegroundQueueIndex qt p = slot_of qt (bp_slots p)"

definition InBattlegroundQueue :: "BgPlayer \<Rightarrow> bool" where
  "InBattlegroundQueue p \<longleftrightarrow> (\<exists>s \<in> set (bp_slots p). bs_queue s \<noteq> BATTLEGROUND_QUEUE_NONE)"

definition InBattlegroundQueueFor :: "nat \<Rightarrow> BgPlayer \<Rightarrow> bool" where
  "InBattlegroundQueueFor qt p \<longleftrightarrow> GetBattlegroundQueueIndex qt p < PLAYER_MAX_BATTLEGROUND_QUEUES"

text \<open>The array has two slots, but the index is not checked: \<open>None\<close> out of range.\<close>

definition GetBattlegroundQueueTypeId :: "u32 \<Rightarrow> BgPlayer \<Rightarrow> nat option" where
  "GetBattlegroundQueueTypeId i p = (if unat i < length (bp_slots p) then Some (bs_queue (bp_slots p ! unat i)) else None)"

fun slot_invited :: "nat \<Rightarrow> BgSlot list \<Rightarrow> bool" where
  "slot_invited qt [] = False"
| "slot_invited qt (s # ss) = (if bs_queue s = qt then bs_invited s \<noteq> 0 else slot_invited qt ss)"

definition IsInvitedForBattlegroundQueueType :: "nat \<Rightarrow> BgPlayer \<Rightarrow> bool" where
  "IsInvitedForBattlegroundQueueType qt p = slot_invited qt (bp_slots p)"

fun add_bgslot :: "nat \<Rightarrow> BgSlot list \<Rightarrow> nat \<times> BgSlot list" where
  "add_bgslot qt [] = (0, [])"
| "add_bgslot qt (s # ss) =
     (if bs_queue s = BATTLEGROUND_QUEUE_NONE \<or> bs_queue s = qt then (0, \<lparr>bs_queue = qt, bs_invited = 0\<rparr> # ss)
      else (case add_bgslot qt ss of (i, ss) \<Rightarrow> (Suc i, s # ss)))"

definition AddBattlegroundQueueId :: "nat \<Rightarrow> BgPlayer \<Rightarrow> nat \<times> BgPlayer" where
  "AddBattlegroundQueueId qt p = (case add_bgslot qt (bp_slots p) of (i, ss) \<Rightarrow> (i, p\<lparr>bp_slots := ss\<rparr>))"

definition HasFreeBattlegroundQueueId :: "BgPlayer \<Rightarrow> bool" where
  "HasFreeBattlegroundQueueId p \<longleftrightarrow> (\<exists>s \<in> set (bp_slots p). bs_queue s = BATTLEGROUND_QUEUE_NONE)"

fun remove_bgslot :: "nat \<Rightarrow> BgSlot list \<Rightarrow> BgSlot list" where
  "remove_bgslot qt [] = []"
| "remove_bgslot qt (s # ss) =
     (if bs_queue s = qt then \<lparr>bs_queue = BATTLEGROUND_QUEUE_NONE, bs_invited = 0\<rparr> # ss else s # remove_bgslot qt ss)"

definition RemoveBattlegroundQueueId :: "nat \<Rightarrow> BgPlayer \<Rightarrow> BgPlayer" where
  "RemoveBattlegroundQueueId qt p = p\<lparr>bp_slots := remove_bgslot qt (bp_slots p)\<rparr>"

definition SetInviteForBattlegroundQueueType :: "nat \<Rightarrow> u32 \<Rightarrow> BgPlayer \<Rightarrow> BgPlayer" where
  "SetInviteForBattlegroundQueueType qt instanceId p =
    p\<lparr>bp_slots := map (\<lambda>s. if bs_queue s = qt then s\<lparr>bs_invited := instanceId\<rparr> else s) (bp_slots p)\<rparr>"

definition SetBattlegroundId :: "u32 \<Rightarrow> u32 \<Rightarrow> BgPlayer \<Rightarrow> BgPlayer" where
  "SetBattlegroundId val t p = p\<lparr>bp_bgInstanceID := val, bp_bgTypeID := t\<rparr>"

definition InBattleground :: "BgPlayer \<Rightarrow> bool" where
  "InBattleground p \<longleftrightarrow> bp_bgInstanceID p \<noteq> 0"

text \<open>The iterator of \<open>find\<close> is read without a test; \<open>Remove\<close> erases the key that is the time found.\<close>

definition GetBattlegroundQueueJoinTime :: "u32 \<Rightarrow> BgPlayer \<Rightarrow> u32 option" where
  "GetBattlegroundQueueJoinTime t p = map_of (bp_joinTimes p) t"

definition AddBattlegroundQueueJoinTime :: "u32 \<Rightarrow> u32 \<Rightarrow> BgPlayer \<Rightarrow> BgPlayer" where
  "AddBattlegroundQueueJoinTime t joinTime p = p\<lparr>bp_joinTimes := om_put t joinTime (bp_joinTimes p)\<rparr>"

definition RemoveBattlegroundQueueJoinTime :: "u32 \<Rightarrow> BgPlayer \<Rightarrow> BgPlayer option" where
  "RemoveBattlegroundQueueJoinTime t p =
    map_option (\<lambda>joined. p\<lparr>bp_joinTimes := om_erase joined (bp_joinTimes p)\<rparr>) (map_of (bp_joinTimes p) t)"

definition CanJoinToBattleground :: "Battleground \<Rightarrow> BgPlayer \<Rightarrow> bool" where
  "CanJoinToBattleground b p \<longleftrightarrow> \<not> bp_deserter p \<and> (bg_IsArena b \<longrightarrow> bp_permArenas p) \<and>
     (bg_IsRandom b \<longrightarrow> bp_permRandom p) \<and> bp_permNormal p"

subsection \<open>The status packet\<close>

text \<open>Without a battleground the status is \<open>STATUS_NONE\<close>; \<open>STATUS_WAIT_LEAVE\<close> builds nothing.\<close>

definition BuildBattlegroundStatusPacket :: "nat option \<Rightarrow> u64 \<Rightarrow> nat \<Rightarrow> u32 \<Rightarrow> u32 \<Rightarrow> u32 \<Rightarrow> u32 \<Rightarrow> BgOut" where
  "BuildBattlegroundStatusPacket bg guid queueSlot statusId time1 time2 ratedType =
    StatusPacket guid bg (of_nat queueSlot AND 0xFF) (if bg = None then STATUS_NONE else statusId) time1 time2 ratedType"

text \<open>The refusal of a join reads the joining time of the player named in it.\<close>

definition BuildStatusFailedPacket :: "u64 \<Rightarrow> Battleground \<Rightarrow> u64 \<Rightarrow> BgPlayer \<Rightarrow> nat \<Rightarrow> BgOut option" where
  "BuildStatusFailedPacket receiver bg guid p result =
    map_option (\<lambda>joined. StatusFailed receiver guid joined result) (GetBattlegroundQueueJoinTime (bg_TypeID bg) p)"

subsection \<open>Scheduling updates\<close>

definition schedule_id :: "u32 \<Rightarrow> u32 \<Rightarrow> nat \<Rightarrow> u32 \<Rightarrow> nat \<Rightarrow> u64" where
  "schedule_id mmr ratedType qt t bracket =
    push_bit 48 (ucast mmr) OR push_bit 40 (ucast ratedType) OR ucast (push_bit 24 (of_nat qt :: u32)) OR
    ucast (push_bit 8 t) OR of_nat bracket"

definition ScheduleQueueUpdate :: "u32 \<Rightarrow> u32 \<Rightarrow> nat \<Rightarrow> u32 \<Rightarrow> nat \<Rightarrow> BgWorld \<Rightarrow> BgWorld" where
  "ScheduleQueueUpdate mmr ratedType qt t bracket W =
    (let i = schedule_id mmr ratedType qt t bracket
     in if i \<in> set (bw_scheduler W) then W else W\<lparr>bw_scheduler := bw_scheduler W @ [i]\<rparr>)"

text \<open>The fields of a scheduled id, as \<open>Update\<close> takes them: rating, rated type, queue, type, bracket.\<close>

definition schedule_fields :: "u64 \<Rightarrow> u32 \<times> u32 \<times> nat \<times> u32 \<times> nat" where
  "schedule_fields i = (ucast (drop_bit 48 i), ucast (drop_bit 40 i AND 0xFF), unat (drop_bit 24 i AND 0xFFFF),
     ucast (drop_bit 8 i AND 0xFFFF), unat (i AND 0xFF))"

end
