(* ===== verification/BgQueue.thy ===== *)
theory BgQueue
  imports BgWorld
begin

text \<open>
  The operations of \<open>BattlegroundQueue.cpp\<close> on the queue number \<open>qt\<close> of the manager: joining, leaving,
  invitations, average waiting times, and the events of an invitation.
\<close>

subsection \<open>Waiting times\<close>

definition wait_team_index :: "GroupQueueInfo \<Rightarrow> nat" where
  "wait_team_index g =
    (if gq_ratedType g = 0 then (if gq_team g = HORDE then TEAM_HORDE else TEAM_ALLIANCE)
     else (if gq_isRated g then TEAM_HORDE else TEAM_ALLIANCE))"

text \<open>The index of the last player is read from the array: \<open>None\<close> if it were out of range.\<close>

definition PlayerInvitedToBGUpdateAverageWaitTime ::
  "u32 \<Rightarrow> GroupQueueInfo \<Rightarrow> nat \<Rightarrow> BattlegroundQueue \<Rightarrow> BattlegroundQueue option"
where
  "PlayerInvitedToBGUpdateAverageWaitTime now g bracket q =
    (let timeInQueue = getMSTimeDiff (gq_joinTime g) now; t = wait_team_index g;
         k = m_WaitTimeLastPlayer q t bracket; times = m_WaitTimes q t bracket;
         sum = m_SumOfWaitTimes q t bracket
     in if unat k < length times
        then Some (q\<lparr>m_SumOfWaitTimes := (m_SumOfWaitTimes q)(t := (m_SumOfWaitTimes q t)(bracket := sum - times ! unat k + timeInQueue)),
                     m_WaitTimes := (m_WaitTimes q)(t := (m_WaitTimes q t)(bracket := times[unat k := timeInQueue])),
                     m_WaitTimeLastPlayer := (m_WaitTimeLastPlayer q)(t := (m_WaitTimeLastPlayer q t)(bracket := (k + 1) mod 10))\<rparr>)
        else None)"

definition GetAverageQueueWaitTime :: "GroupQueueInfo \<Rightarrow> nat \<Rightarrow> BattlegroundQueue \<Rightarrow> u32" where
  "GetAverageQueueWaitTime g bracket q =
    (if m_WaitTimes q (wait_team_index g) bracket ! (COUNT_OF_PLAYERS_TO_AVERAGE_WAIT_TIME - 1) \<noteq> 0
     then m_SumOfWaitTimes q (wait_team_index g) bracket div of_nat COUNT_OF_PLAYERS_TO_AVERAGE_WAIT_TIME
     else 0)"

subsection \<open>Joining\<close>

definition group_index :: "bool \<Rightarrow> bool \<Rightarrow> u32 \<Rightarrow> nat" where
  "group_index isRated isPremade team =
    (if \<not> isRated \<and> \<not> isPremade then BG_TEAMS_COUNT else 0) + (if team = HORDE then 1 else 0)"

fun queue_players :: "u32 \<Rightarrow> nat \<Rightarrow> u64 list \<Rightarrow> BattlegroundQueue \<Rightarrow> BattlegroundQueue" where
  "queue_players now a [] q = q"
| "queue_players now a (m # ms) q =
     queue_players now a ms
       (at_info a (\<lambda>g. g\<lparr>gq_players := os_insert m (gq_players g)\<rparr>)
         (q\<lparr>m_QueuedPlayers := om_put m \<lparr>pq_LastOnlineTime = now, pq_GroupInfo = a\<rparr> (m_QueuedPlayers q)\<rparr>))"

text \<open>
  The new group is at the first free address. The players that the group's references name are
  \<open>members\<close>; without a group only the leader joins. The announcements are left out.
\<close>

definition BgQueue_AddGroup ::
  "u32 \<Rightarrow> u64 \<Rightarrow> u32 \<Rightarrow> u64 list option \<Rightarrow> u32 \<Rightarrow> nat \<Rightarrow> u32 \<Rightarrow> bool \<Rightarrow> bool \<Rightarrow> u32 \<Rightarrow> u32 \<Rightarrow> BattlegroundQueue \<Rightarrow> nat \<times> BattlegroundQueue"
where
  "BgQueue_AddGroup now leader team members bgTypeId bracket ratedType isRated isPremade arenaRating mmr q =
    (let a = bq_nextInfo q;
         ginfo = \<lparr>gq_players = [], gq_team = team, gq_leaderGUID = leader, gq_bgTypeId = bgTypeId, gq_ratedType = ratedType,
           gq_isRated = isRated, gq_joinTime = now, gq_removeInviteTime = 0, gq_invited = 0, gq_teamRating = arenaRating,
           gq_teamMMR = mmr, gq_opponentsRating = 0, gq_opponentsMMR = 0\<rparr>;
         q = q\<lparr>bq_nextInfo := Suc a, bq_infos := (bq_infos q)(a \<mapsto> ginfo)\<rparr>;
         q = queue_players now a (case members of Some ms \<Rightarrow> ms | None \<Rightarrow> [leader]) q;
         index = group_index isRated isPremade team
     in (a, put_list bracket index (m_QueuedGroups q bracket index @ [a]) q))"

subsection \<open>Leaving\<close>

text \<open>
  The list of a group: from the last bracket down, in both lists of the team. Where a bracket has it
  twice, the later list counts.
\<close>

fun find_group :: "(nat \<Rightarrow> nat \<Rightarrow> nat list) \<Rightarrow> nat \<Rightarrow> nat \<Rightarrow> nat \<Rightarrow> (nat \<times> nat) option" where
  "find_group gs index a 0 = None"
| "find_group gs index a (Suc bracket) =
    (if a \<in> set (gs bracket (index + BG_TEAMS_COUNT)) then Some (bracket, index + BG_TEAMS_COUNT)
     else if a \<in> set (gs bracket index) then Some (bracket, index)
     else find_group gs index a bracket)"

definition decrease_invited :: "bool \<Rightarrow> GroupQueueInfo \<Rightarrow> BgWorld \<Rightarrow> BgWorld option" where
  "decrease_invited decrease g W =
    (if decrease \<and> gq_invited g \<noteq> 0 then
       (case GetBattleground (gq_invited g) (gq_bgTypeId g) W of None \<Rightarrow> Some W
        | Some b \<Rightarrow> do { _ \<leftarrow> bw_bgs W b; Some (at_bg b (DecreaseInvitedCount (gq_team g)) W) })
     else Some W)"

text \<open>The notice to the next player of a rated group that leaves altogether.\<close>

definition leave_notice :: "GroupQueueInfo \<Rightarrow> u64 \<Rightarrow> BgWorld \<Rightarrow> BgWorld option" where
  "leave_notice g guid W =
    (case bw_players W guid of None \<Rightarrow> Some W
     | Some p \<Rightarrow> do {
         let bgQueueTypeId = BGQueueTypeId (gq_bgTypeId g) (gq_ratedType g);
         let slot = GetBattlegroundQueueIndex bgQueueTypeId p;
         joined \<leftarrow> GetBattlegroundQueueJoinTime (gq_bgTypeId g) p;
         Some (bg_emit (BuildBattlegroundStatusPacket (GetBattlegroundTemplate (gq_bgTypeId g) W) guid slot
                          STATUS_NONE joined 0 RATED_TYPE_NOT_RATED)
                (at_bgplayer guid (RemoveBattlegroundQueueId bgQueueTypeId) W)) })"

text \<open>The call for one player; the player whom the recursive call removes, if there is one.\<close>

definition remove_step :: "nat \<Rightarrow> u64 \<Rightarrow> bool \<Rightarrow> BgWorld \<Rightarrow> (u64 option \<times> BgWorld) option" where
  "remove_step qt guid decrease W =
    (let q = bw_queues W qt in
     case map_of (m_QueuedPlayers q) guid of None \<Rightarrow> Some (None, W)
     | Some info \<Rightarrow> do {
         let a = pq_GroupInfo info;
         g \<leftarrow> bq_infos q a;
         case find_group (m_QueuedGroups q) (if gq_team g = HORDE then BG_QUEUE_PREMADE_HORDE else BG_QUEUE_PREMADE_ALLIANCE)
                a MAX_BATTLEGROUND_BRACKETS of
           None \<Rightarrow> Some (None, W)
         | Some (bracket, index) \<Rightarrow> do {
             let players = os_erase guid (gq_players g);
             W \<leftarrow> decrease_invited decrease g (at_queue qt (at_info a (\<lambda>g. g\<lparr>gq_players := players\<rparr>)) W);
             let W = at_queue qt (\<lambda>q. q\<lparr>m_QueuedPlayers := om_erase guid (m_QueuedPlayers q)\<rparr>) W;
             let W = (if gq_invited g \<noteq> 0 \<and> gq_isRated g \<and> decrease
                      then bg_emit (UpdateStatsCall guid (gq_ratedType g) (gq_opponentsMMR g) False (bw_players W guid = None)) W
                      else W);
             case players of
               [] \<Rightarrow> Some (None, at_queue qt (\<lambda>q. (put_list bracket index (remove1 a (m_QueuedGroups q bracket index)) q)
                                  \<lparr>bq_infos := (bq_infos q)(a := None)\<rparr>) W)
             | p # _ \<Rightarrow>
                 if gq_invited g = 0 \<and> gq_isRated g then do { W \<leftarrow> leave_notice g p W; Some (Some p, W) }
                 else Some (None, W) } })"

lemma decrease_invited_queues: "decrease_invited d g W = Some W' \<Longrightarrow> bw_queues W' = bw_queues W"
  by (auto simp: decrease_invited_def at_bg_def split: if_splits option.splits bind_splits)

lemma leave_notice_queues: "leave_notice g p W = Some W' \<Longrightarrow> bw_queues W' = bw_queues W"
  by (auto simp: leave_notice_def at_bgplayer_def bg_emit_def Let_def split: if_splits option.splits bind_splits)

lemma length_om_erase: "map_of m k = Some v \<Longrightarrow> length (om_erase k m) < length m"
  by (auto simp: om_erase_def intro!: length_filter_less dest: map_of_SomeD)

lemma remove_step_smaller:
  assumes "remove_step qt guid d W = Some (Some p, W')"
  shows "length (m_QueuedPlayers (bw_queues W' qt)) < length (m_QueuedPlayers (bw_queues W qt))"
  using assms
  by (auto simp: remove_step_def Let_def at_queue_def bg_emit_def split: option.splits if_splits list.splits bind_splits
    dest!: leave_notice_queues decrease_invited_queues) (erule length_om_erase)+

function BgQueue_RemovePlayer :: "nat \<Rightarrow> u64 \<Rightarrow> bool \<Rightarrow> BgWorld \<Rightarrow> BgWorld option" where
  "BgQueue_RemovePlayer qt guid decrease W =
    (case remove_step qt guid decrease W of None \<Rightarrow> None
     | Some (None, W) \<Rightarrow> Some W
     | Some (Some p, W) \<Rightarrow> BgQueue_RemovePlayer qt p decrease W)"
  by pat_completeness auto
termination
  by (relation "measure (\<lambda>(qt, guid, d, W). length (m_QueuedPlayers (bw_queues W qt)))")
    (auto intro: remove_step_smaller)

declare BgQueue_RemovePlayer.simps [simp del]

definition IsPlayerInvited :: "u64 \<Rightarrow> u32 \<Rightarrow> u32 \<Rightarrow> BattlegroundQueue \<Rightarrow> bool option" where
  "IsPlayerInvited guid bgInstanceGuid removeTime q =
    (case map_of (m_QueuedPlayers q) guid of None \<Rightarrow> Some False
     | Some info \<Rightarrow> map_option (\<lambda>g. gq_invited g = bgInstanceGuid \<and> gq_removeInviteTime g = removeTime)
                      (bq_infos q (pq_GroupInfo info)))"

text \<open>\<open>Some None\<close>: the player is not in the queue.\<close>

definition GetPlayerGroupInfoData :: "u64 \<Rightarrow> BattlegroundQueue \<Rightarrow> GroupQueueInfo option option" where
  "GetPlayerGroupInfoData guid q =
    (case map_of (m_QueuedPlayers q) guid of None \<Rightarrow> Some None
     | Some info \<Rightarrow> map_option Some (bq_infos q (pq_GroupInfo info)))"

subsection \<open>Invitations\<close>

definition AddBgEvent :: "BgEvent \<Rightarrow> u32 \<Rightarrow> BattlegroundQueue \<Rightarrow> BattlegroundQueue" where
  "AddBgEvent e t_offset q =
    (let n = bq_nextEvent q;
         ev = \<lparr>ev_id = n, to_Abort = False, m_addTime = 0, m_execTime = 0, ev_deletable = True\<rparr>
     in q\<lparr>bq_nextEvent := Suc n, bq_event := (bq_event q)(n \<mapsto> e),
          m_events := AddEvent ev (CalculateTime (ucast t_offset) (m_events q)) True (m_events q)\<rparr>)"

text \<open>One player of an invited group; \<open>g\<close> is the group with the invitation set, \<open>b\<close> its battleground.\<close>

definition invite_player :: "nat \<Rightarrow> GroupQueueInfo \<Rightarrow> nat \<Rightarrow> Battleground \<Rightarrow> u64 \<Rightarrow> BgWorld \<Rightarrow> BgWorld option" where
  "invite_player qt g b bg guid W =
    (case bw_players W guid of None \<Rightarrow> Some W
     | Some p \<Rightarrow> do {
         let bgQueueTypeId = BGQueueTypeId (bg_TypeID bg) (bg_RatedType bg);
         q \<leftarrow> PlayerInvitedToBGUpdateAverageWaitTime (bw_now W) g (bg_BracketId bg) (bw_queues W qt);
         let q = AddBgEvent (BGQueueInviteEvent guid (gq_invited g) (bg_TypeID bg) (gq_ratedType g) (gq_removeInviteTime g))
                   INVITATION_REMIND_TIME q;
         let q = AddBgEvent (BGQueueRemoveEvent guid (gq_invited g) (bg_TypeID bg) bgQueueTypeId (gq_removeInviteTime g))
                   INVITE_ACCEPT_WAIT_TIME q;
         let p = SetInviteForBattlegroundQueueType bgQueueTypeId (gq_invited g) p;
         joined \<leftarrow> GetBattlegroundQueueJoinTime (bg_TypeID bg) p;
         Some (bg_emit (BuildBattlegroundStatusPacket (Some b) guid (GetBattlegroundQueueIndex bgQueueTypeId p)
                          STATUS_WAIT_JOIN INVITE_ACCEPT_WAIT_TIME joined (gq_ratedType g))
                (at_bgplayer guid (\<lambda>_. p) (at_bg b (IncreaseInvitedCount (gq_team g)) (at_queue qt (\<lambda>_. q) W)))) })"

fun invite_players :: "nat \<Rightarrow> GroupQueueInfo \<Rightarrow> nat \<Rightarrow> Battleground \<Rightarrow> u64 list \<Rightarrow> BgWorld \<Rightarrow> BgWorld option" where
  "invite_players qt g b bg [] W = Some W"
| "invite_players qt g b bg (m # ms) W = Option.bind (invite_player qt g b bg m W) (invite_players qt g b bg ms)"

definition InviteGroupToBG :: "nat \<Rightarrow> nat \<Rightarrow> nat \<Rightarrow> u32 \<Rightarrow> BgWorld \<Rightarrow> (bool \<times> BgWorld) option" where
  "InviteGroupToBG qt a b side W =
    do { g \<leftarrow> bq_infos (bw_queues W qt) a;
         let g = (if side \<noteq> 0 then g\<lparr>gq_team := side\<rparr> else g);
         if gq_invited g = 0 then do {
           bg \<leftarrow> bw_bgs W b;
           let g = g\<lparr>gq_invited := bg_InstanceID bg, gq_removeInviteTime := bw_now W + INVITE_ACCEPT_WAIT_TIME\<rparr>;
           W \<leftarrow> invite_players qt g b bg (gq_players g) (at_queue qt (at_info a (\<lambda>_. g)) W);
           Some (True, W) }
         else Some (False, at_queue qt (at_info a (\<lambda>_. g)) W) }"

subsection \<open>The events\<close>

definition BGQueueInviteEvent_Execute :: "u64 \<Rightarrow> u32 \<Rightarrow> u32 \<Rightarrow> u32 \<Rightarrow> u32 \<Rightarrow> BgWorld \<Rightarrow> BgWorld option" where
  "BGQueueInviteEvent_Execute guid instance t ratedType removeTime W =
    (case (bw_players W guid, GetBattleground instance t W) of
       (Some p, Some b) \<Rightarrow> do {
         bg \<leftarrow> bw_bgs W b;
         let bgQueueTypeId = BGQueueTypeId (bg_TypeID bg) (bg_RatedType bg);
         let slot = GetBattlegroundQueueIndex bgQueueTypeId p;
         if slot < PLAYER_MAX_BATTLEGROUND_QUEUES then do {
           invited \<leftarrow> IsPlayerInvited guid instance removeTime (bw_queues W bgQueueTypeId);
           if invited then do {
             joined \<leftarrow> GetBattlegroundQueueJoinTime t p;
             Some (bg_emit (BuildBattlegroundStatusPacket (Some b) guid slot STATUS_WAIT_JOIN
                              (INVITE_ACCEPT_WAIT_TIME - INVITATION_REMIND_TIME) joined ratedType) W) }
           else Some W }
         else Some W }
     | _ \<Rightarrow> Some W)"

definition BGQueueRemoveEvent_Execute :: "u64 \<Rightarrow> u32 \<Rightarrow> u32 \<Rightarrow> nat \<Rightarrow> u32 \<Rightarrow> BgWorld \<Rightarrow> BgWorld option" where
  "BGQueueRemoveEvent_Execute guid instance t bgQueueTypeId removeTime W =
    (case bw_players W guid of None \<Rightarrow> Some W
     | Some p \<Rightarrow> do {
         let bg = GetBattleground instance t W;
         let slot = GetBattlegroundQueueIndex bgQueueTypeId p;
         if slot < PLAYER_MAX_BATTLEGROUND_QUEUES then do {
           invited \<leftarrow> IsPlayerInvited guid instance removeTime (bw_queues W bgQueueTypeId);
           if invited then do {
             W \<leftarrow> BgQueue_RemovePlayer bgQueueTypeId guid True (at_bgplayer guid (RemoveBattlegroundQueueId bgQueueTypeId) W);
             W \<leftarrow> (case bg of None \<Rightarrow> Some W
                   | Some b \<Rightarrow> do { x \<leftarrow> bw_bgs W b;
                       Some (if \<not> bg_IsArena x \<and> bg_Status x \<noteq> STATUS_WAIT_LEAVE
                             then ScheduleQueueUpdate 0 RATED_TYPE_NOT_RATED bgQueueTypeId t (bg_BracketId x) W else W) });
             joined \<leftarrow> GetBattlegroundQueueJoinTime t p;
             Some (bg_emit (BuildBattlegroundStatusPacket bg guid slot STATUS_NONE joined 0 RATED_TYPE_NOT_RATED) W) }
           else Some W }
         else Some W })"

fun bg_event_execute :: "BgEvent \<Rightarrow> BgWorld \<Rightarrow> BgWorld option" where
  "bg_event_execute (BGQueueInviteEvent g i t r rt) W = BGQueueInviteEvent_Execute g i t r rt W"
| "bg_event_execute (BGQueueRemoveEvent g i t qt rt) W = BGQueueRemoveEvent_Execute g i t qt rt W"

end
