(* ===== verification/BgManager.thy ===== *)
theory BgManager
  imports BgQueue
begin

text \<open>
  The update of a queue (\<open>BattlegroundQueue::BattlegroundQueueUpdate\<close>), which fills running battlegrounds
  and starts new ones, and the part of \<open>BattlegroundMgr::Update\<close> that drives the queues.
\<close>

subsection \<open>Inviting what was selected\<close>

fun invite_pool :: "nat \<Rightarrow> nat \<Rightarrow> nat list \<Rightarrow> BgWorld \<Rightarrow> BgWorld option" where
  "invite_pool qt b [] W = Some W"
| "invite_pool qt b (a # as) W =
    do { g \<leftarrow> bq_infos (bw_queues W qt) a;
         (_, W) \<leftarrow> InviteGroupToBG qt a b (gq_team g) W;
         invite_pool qt b as W }"

definition invite_pools :: "nat \<Rightarrow> nat \<Rightarrow> BgWorld \<Rightarrow> BgWorld option" where
  "invite_pools qt b W =
    do { W \<leftarrow> invite_pool qt b (SelectedGroups (m_SelectionPools (bw_queues W qt) TEAM_ALLIANCE)) W;
         invite_pool qt b (SelectedGroups (m_SelectionPools (bw_queues W qt) TEAM_HORDE)) W }"

subsection \<open>Running battlegrounds\<close>

definition fill_running :: "BgConf \<Rightarrow> nat \<Rightarrow> u32 \<Rightarrow> nat \<Rightarrow> nat \<Rightarrow> BgWorld \<Rightarrow> BgWorld option" where
  "fill_running c qt bgTypeId bracket b W =
    do { bg \<leftarrow> bw_bgs W b;
         if \<not> bg_IsRated bg \<and> bg_TypeID bg = bgTypeId \<and> bg_BracketId bg = bracket \<and>
            bg_Status bg > STATUS_WAIT_QUEUE \<and> bg_Status bg < STATUS_WAIT_LEAVE
         then do {
           q \<leftarrow> FillPlayersToBG (cf_invitationType c) (GetFreeSlotsForTeam ALLIANCE bg) (GetFreeSlotsForTeam HORDE bg) bracket
                  (init_pools (bw_queues W qt));
           W \<leftarrow> invite_pools qt b (at_queue qt (\<lambda>_. q) W);
           if \<not> HasFreeSlots bg then RemoveFromBGFreeSlotQueue b W else Some W }
         else Some W }"

fun fill_all :: "BgConf \<Rightarrow> nat \<Rightarrow> u32 \<Rightarrow> nat \<Rightarrow> nat list \<Rightarrow> BgWorld \<Rightarrow> BgWorld option" where
  "fill_all c qt t bracket [] W = Some W"
| "fill_all c qt t bracket (b # bs) W = Option.bind (fill_running c qt t bracket b W) (fill_all c qt t bracket bs)"

subsection \<open>Starting a battleground for the selected groups\<close>

text \<open>\<open>Some None\<close>: no battleground could be created, and the update ends.\<close>

definition start_new :: "BgConf \<Rightarrow> nat \<Rightarrow> u32 \<Rightarrow> PvPDifficultyEntry \<Rightarrow> u32 \<Rightarrow> BgWorld \<Rightarrow> (bool \<times> BgWorld) option" where
  "start_new c qt bgTypeId bracketEntry ratedType W =
    do { (bg, W) \<leftarrow> CreateNewBattleground c bgTypeId bracketEntry ratedType False W;
         case bg of None \<Rightarrow> Some (False, W)
         | Some b \<Rightarrow> do {
             W \<leftarrow> invite_pools qt b W;
             W \<leftarrow> StartBattleground b W;
             Some (True, W) } }"

subsection \<open>Rated arenas\<close>

text \<open>The rating to search around: of the group that waits longest when none is given; \<open>None\<close> when nobody waits.\<close>

definition front_rating :: "(nat \<Rightarrow> GroupQueueInfo option) \<Rightarrow> nat list \<Rightarrow> nat list \<Rightarrow> u32 option option" where
  "front_rating I ali horde =
    (case (ali, horde) of
       ([], []) \<Rightarrow> Some None
     | (a # _, []) \<Rightarrow> map_option (\<lambda>g. Some (gq_teamMMR g)) (I a)
     | ([], h # _) \<Rightarrow> map_option (\<lambda>g. Some (gq_teamMMR g)) (I h)
     | (a # _, h # _) \<Rightarrow> do { g1 \<leftarrow> I a; g2 \<leftarrow> I h;
         Some (Some (if gq_joinTime g1 < gq_joinTime g2 then gq_teamMMR g1 else gq_teamMMR g2)) })"

definition rating_fits :: "u32 \<Rightarrow> u32 \<Rightarrow> u32 \<Rightarrow> GroupQueueInfo \<Rightarrow> bool" where
  "rating_fits minRating maxRating discardTime g \<longleftrightarrow>
     gq_invited g = 0 \<and> (gq_teamMMR g \<ge> minRating \<and> gq_teamMMR g \<le> maxRating \<or> gq_joinTime g < discardTime)"

text \<open>The first group of a list that satisfies a condition, with the list from there on; \<open>Some []\<close> when there is none.\<close>

fun find_from :: "(nat \<Rightarrow> GroupQueueInfo option) \<Rightarrow> (GroupQueueInfo \<Rightarrow> bool) \<Rightarrow> nat list \<Rightarrow> nat list option" where
  "find_from I P [] = Some []"
| "find_from I P (a # as) = (case I a of None \<Rightarrow> None | Some g \<Rightarrow> if P g then Some (a # as) else find_from I P as)"

text \<open>
  The two groups of a rated match with the lists they stand in: one of each list, else two of the same
  list with different leaders. \<open>Some None\<close> when there are not two.
\<close>

definition find_rated_teams ::
  "(nat \<Rightarrow> GroupQueueInfo option) \<Rightarrow> (GroupQueueInfo \<Rightarrow> bool) \<Rightarrow> nat list \<Rightarrow> nat list \<Rightarrow> ((nat \<times> nat) \<times> (nat \<times> nat)) option option"
where
  "find_rated_teams I P ali horde =
    do { as \<leftarrow> find_from I P ali;
         hs \<leftarrow> find_from I P horde;
         case (as, hs) of
           ([], []) \<Rightarrow> Some None
         | (a # _, h # _) \<Rightarrow> Some (Some ((BG_QUEUE_PREMADE_ALLIANCE, a), (BG_QUEUE_PREMADE_HORDE, h)))
         | (a # as', []) \<Rightarrow> do { g \<leftarrow> I a;
             rest \<leftarrow> find_from I (\<lambda>x. P x \<and> gq_leaderGUID g \<noteq> gq_leaderGUID x) (a # as');
             Some (case rest of [] \<Rightarrow> None | b # _ \<Rightarrow> Some ((BG_QUEUE_PREMADE_ALLIANCE, a), (BG_QUEUE_PREMADE_ALLIANCE, b))) }
         | ([], h # hs') \<Rightarrow> do { g \<leftarrow> I h;
             rest \<leftarrow> find_from I (\<lambda>x. P x \<and> gq_leaderGUID g \<noteq> gq_leaderGUID x) (h # hs');
             Some (case rest of [] \<Rightarrow> None | b # _ \<Rightarrow> Some ((BG_QUEUE_PREMADE_HORDE, h), (BG_QUEUE_PREMADE_HORDE, b))) } }"

text \<open>A group moves to the front of the list of its new team; the iterator must be one of the list it is erased from.\<close>

definition move_team :: "nat \<Rightarrow> nat \<Rightarrow> nat \<Rightarrow> nat \<times> nat \<Rightarrow> BattlegroundQueue \<Rightarrow> BattlegroundQueue option" where
  "move_team bracket into from itr q =
    (if fst itr = from then
       let q = put_list bracket into (snd itr # m_QueuedGroups q bracket into) q
       in Some (put_list bracket from (remove1 (snd itr) (m_QueuedGroups q bracket from)) q)
     else None)"

definition set_opponents :: "nat \<Rightarrow> GroupQueueInfo \<Rightarrow> nat \<Rightarrow> GroupQueueInfo \<Rightarrow> BattlegroundQueue \<Rightarrow> BattlegroundQueue" where
  "set_opponents a ga h gh q =
    at_info h (\<lambda>g. g\<lparr>gq_opponentsRating := gq_teamRating ga, gq_opponentsMMR := gq_teamMMR ga\<rparr>)
      (at_info a (\<lambda>g. g\<lparr>gq_opponentsRating := gq_teamRating gh, gq_opponentsMMR := gq_teamMMR gh\<rparr>) q)"

definition start_rated ::
  "BgConf \<Rightarrow> nat \<Rightarrow> u32 \<Rightarrow> nat \<Rightarrow> PvPDifficultyEntry \<Rightarrow> u32 \<Rightarrow> nat \<times> nat \<Rightarrow> nat \<times> nat \<Rightarrow> BgWorld \<Rightarrow> BgWorld option"
where
  "start_rated c qt bgTypeId bracket bracketEntry ratedType itrA itrH W =
    do { let a = snd itrA; let h = snd itrH;
         ga \<leftarrow> bq_infos (bw_queues W qt) a; gh \<leftarrow> bq_infos (bw_queues W qt) h;
         (arena, W) \<leftarrow> CreateNewBattleground c bgTypeId bracketEntry ratedType True W;
         case arena of None \<Rightarrow> Some W
         | Some b \<Rightarrow> do {
             let q = set_opponents a ga h gh (bw_queues W qt);
             q \<leftarrow> (if gq_team ga \<noteq> ALLIANCE then move_team bracket BG_QUEUE_PREMADE_ALLIANCE BG_QUEUE_PREMADE_HORDE itrA q
                   else Some q);
             q \<leftarrow> (if gq_team gh \<noteq> HORDE then move_team bracket BG_QUEUE_PREMADE_HORDE BG_QUEUE_PREMADE_ALLIANCE itrH q
                   else Some q);
             let W = at_bg b (\<lambda>x. SetTeamMatchmakerRating HORDE (gq_teamMMR gh)
                               (SetTeamMatchmakerRating ALLIANCE (gq_teamMMR ga) x)) (at_queue qt (\<lambda>_. q) W);
             (_, W) \<leftarrow> InviteGroupToBG qt a b ALLIANCE W;
             (_, W) \<leftarrow> InviteGroupToBG qt h b HORDE W;
             StartBattleground b W } }"

definition GetMaxRatingDifference :: "BgConf \<Rightarrow> u32" where
  "GetMaxRatingDifference c = (if cf_maxRatingDifference c = 0 then 5000 else cf_maxRatingDifference c)"

definition rated_update ::
  "BgConf \<Rightarrow> nat \<Rightarrow> u32 \<Rightarrow> nat \<Rightarrow> PvPDifficultyEntry \<Rightarrow> u32 \<Rightarrow> u32 \<Rightarrow> BgWorld \<Rightarrow> BgWorld option"
where
  "rated_update c qt bgTypeId bracket bracketEntry ratedType arenaRating W =
    do { let q = bw_queues W qt;
         let ali = m_QueuedGroups q bracket BG_QUEUE_PREMADE_ALLIANCE;
         let horde = m_QueuedGroups q bracket BG_QUEUE_PREMADE_HORDE;
         rating \<leftarrow> (if arenaRating = 0 then front_rating (bq_infos q) ali horde else Some (Some arenaRating));
         case rating of None \<Rightarrow> Some W
         | Some arenaRating \<Rightarrow> do {
             let maxDiff = GetMaxRatingDifference c;
             let arenaMin = (if arenaRating \<le> maxDiff then 0 else arenaRating - maxDiff);
             let arenaMax = arenaRating + maxDiff;
             let discardTime = bw_now W - cf_ratingDiscardTimer c;
             found \<leftarrow> find_rated_teams (bq_infos q) (rating_fits arenaMin arenaMax discardTime) ali horde;
             case found of None \<Rightarrow> Some W
             | Some (itrA, itrH) \<Rightarrow> start_rated c qt bgTypeId bracket bracketEntry ratedType itrA itrH W } }"

subsection \<open>The update\<close>

definition premade_phase ::
  "BgConf \<Rightarrow> nat \<Rightarrow> u32 \<Rightarrow> nat \<Rightarrow> PvPDifficultyEntry \<Rightarrow> u32 \<Rightarrow> u32 \<Rightarrow> BgWorld \<Rightarrow> (bool \<times> BgWorld) option"
where
  "premade_phase c qt bgTypeId bracket bracketEntry minPlayers maxPlayers W =
    do { (found, q) \<leftarrow> CheckPremadeMatch (bw_now W) (cf_premadeWait c) bracket minPlayers maxPlayers (bw_queues W qt);
         let W = at_queue qt (\<lambda>_. q) W;
         if found then do {
           (created, W) \<leftarrow> start_new c qt bgTypeId bracketEntry RATED_TYPE_NOT_RATED W;
           Some (created, if created then at_queue qt init_pools W else W) }
         else Some (True, W) }"

definition normal_phase ::
  "BgConf \<Rightarrow> nat \<Rightarrow> u32 \<Rightarrow> nat \<Rightarrow> PvPDifficultyEntry \<Rightarrow> u32 \<Rightarrow> bool \<Rightarrow> u32 \<Rightarrow> u32 \<Rightarrow> BgWorld \<Rightarrow> BgWorld option"
where
  "normal_phase c qt bgTypeId bracket bracketEntry ratedType isArena minPlayers maxPlayers W =
    do { (found, q) \<leftarrow> CheckNormalMatch (cf_invitationType c) (bw_testing W) bracket minPlayers maxPlayers (bw_queues W qt);
         (found, q) \<leftarrow> (if \<not> found \<and> isArena then CheckSkirmishForSameFaction bracket minPlayers q else Some (found, q));
         let W = at_queue qt (\<lambda>_. q) W;
         if found then map_option snd (start_new c qt bgTypeId bracketEntry ratedType W) else Some W }"

definition BattlegroundQueueUpdate :: "BgConf \<Rightarrow> nat \<Rightarrow> u32 \<Rightarrow> nat \<Rightarrow> u32 \<Rightarrow> bool \<Rightarrow> u32 \<Rightarrow> BgWorld \<Rightarrow> BgWorld option" where
  "BattlegroundQueueUpdate c qt bgTypeId bracket ratedType isRated arenaRating W =
    (if \<forall>i \<in> {0..<BG_QUEUE_GROUP_TYPES_COUNT}. m_QueuedGroups (bw_queues W qt) bracket i = [] then Some W
     else do {
       let W = at_store bgTypeId (\<lambda>d. d) W;
       W \<leftarrow> fill_all c qt bgTypeId bracket (BGFreeSlotQueue (om_at BattlegroundData_new (bw_store W) bgTypeId)) W;
       case GetBattlegroundTemplate bgTypeId W of None \<Rightarrow> Some W
       | Some t \<Rightarrow> do {
           tmpl \<leftarrow> bw_bgs W t;
           case GetBattlegroundBracketById c (bg_MapId tmpl) bracket of None \<Rightarrow> Some W
           | Some bracketEntry \<Rightarrow> do {
               let maxPlayers = (if bg_IsArena tmpl then ratedType else bg_MaxPlayersPerTeam tmpl);
               let minPlayers = (if bg_IsArena tmpl then (if bw_arenaTesting W then 1 else ratedType)
                                 else if bw_testing W then 1 else bg_MinPlayersPerTeam tmpl);
               let W = at_queue qt init_pools W;
               (continue, W) \<leftarrow> (if \<not> bg_IsArena tmpl then premade_phase c qt bgTypeId bracket bracketEntry minPlayers maxPlayers W
                                else Some (True, W));
               if \<not> continue then Some W
               else if \<not> isRated then normal_phase c qt bgTypeId bracket bracketEntry ratedType (bg_IsArena tmpl) minPlayers maxPlayers W
               else if bg_IsArena tmpl then rated_update c qt bgTypeId bracket bracketEntry ratedType arenaRating W
               else Some W } } })"

subsection \<open>The manager's update\<close>

text \<open>
  The events of a queue run on its event processor. Neither event adds events to it, so what they do is
  done in the order in which they are executed.
\<close>

definition bg_event_code :: event_code where
  "bg_event_code ev now dt = ([], True)"

fun run_events :: "(nat \<Rightarrow> BgEvent option) \<Rightarrow> ep_effect list \<Rightarrow> BgWorld \<Rightarrow> BgWorld option" where
  "run_events E [] W = Some W"
| "run_events E (Executed n _ _ # es) W =
     do { e \<leftarrow> E n; W \<leftarrow> bg_event_execute e W; run_events E es W }"
| "run_events E (_ # es) W = run_events E es W"

definition UpdateEvents :: "u32 \<Rightarrow> nat \<Rightarrow> BgWorld \<Rightarrow> BgWorld option" where
  "UpdateEvents diff qt W =
    do { (p, effects) \<leftarrow> Update bg_event_code diff (m_events (bw_queues W qt));
         run_events (bq_event (bw_queues W qt)) effects (at_queue qt (\<lambda>q. q\<lparr>m_events := p\<rparr>) W) }"

fun update_events_from :: "u32 \<Rightarrow> nat list \<Rightarrow> BgWorld \<Rightarrow> BgWorld option" where
  "update_events_from diff [] W = Some W"
| "update_events_from diff (qt # qts) W = Option.bind (UpdateEvents diff qt W) (update_events_from diff qts)"

text \<open>The loop over the scheduled updates counts with a \<open>uint8\<close>: a run that does not end is \<open>None\<close>.\<close>

definition run_scheduled_one :: "BgConf \<Rightarrow> u64 \<Rightarrow> BgWorld \<Rightarrow> BgWorld option" where
  "run_scheduled_one c i W =
    (case schedule_fields i of (mmr, ratedType, qt, t, bracket) \<Rightarrow>
       if qt < MAX_BATTLEGROUND_QUEUE_TYPES \<and> bracket < MAX_BATTLEGROUND_BRACKETS
       then BattlegroundQueueUpdate c qt t bracket ratedType (mmr > 0) mmr W else None)"

partial_function (option) run_scheduled :: "BgConf \<Rightarrow> u64 list \<Rightarrow> u8 \<Rightarrow> BgWorld \<Rightarrow> BgWorld option" where
  "run_scheduled c scheduled i W =
    (if unat i < length scheduled
     then Option.bind (run_scheduled_one c (scheduled ! unat i) W) (run_scheduled c scheduled (i + 1))
     else Some W)"

text \<open>The forced update of the rated queues, over queues and brackets.\<close>

fun force_rated :: "BgConf \<Rightarrow> (nat \<times> nat) list \<Rightarrow> BgWorld \<Rightarrow> BgWorld option" where
  "force_rated c [] W = Some W"
| "force_rated c ((qt, bracket) # xs) W =
    do { ratedType \<leftarrow> GetRatedTypeByQueue qt;
         W \<leftarrow> BattlegroundQueueUpdate c qt BATTLEGROUND_AA bracket ratedType True 0 W;
         force_rated c xs W }"

definition Mgr_UpdateQueues :: "BgConf \<Rightarrow> u32 \<Rightarrow> BgWorld \<Rightarrow> BgWorld option" where
  "Mgr_UpdateQueues c diff W =
    do { W \<leftarrow> update_events_from diff [BATTLEGROUND_QUEUE_NONE..<MAX_BATTLEGROUND_QUEUE_TYPES] W;
         let scheduled = bw_scheduler W;
         W \<leftarrow> run_scheduled c scheduled 0 (W\<lparr>bw_scheduler := []\<rparr>);
         if cf_maxRatingDifference c \<noteq> 0 \<and> cf_ratedUpdateTimer c \<noteq> 0 then
           if bw_nextRated W < diff then do {
             W \<leftarrow> force_rated c [(qt, bracket). qt \<leftarrow> [BATTLEGROUND_QUEUE_2v2..<Suc BATTLEGROUND_QUEUE_10v10],
                                              bracket \<leftarrow> [0..<MAX_BATTLEGROUND_BRACKETS]] W;
             Some (W\<lparr>bw_nextRated := cf_ratedUpdateTimer c\<rparr>) }
           else Some (W\<lparr>bw_nextRated := bw_nextRated W - diff\<rparr>)
         else Some W }"

end
