(* ===== verification/BgHandlers.thy ===== *)
theory BgHandlers
  imports BgManager
begin

text \<open>
  The client's requests (\<open>game/Handlers/BattleGroundHandler.cpp\<close>) after their packets have been read,
  \<open>Group::CanJoinBattlegroundQueue\<close>, and what leaving a battleground does to its slots
  (\<open>Battleground::RemovePlayerAtLeave\<close>).
\<close>

definition ERR_BATTLEGROUND_NONE :: nat where "ERR_BATTLEGROUND_NONE = 0"
definition ERR_GROUP_JOIN_BATTLEGROUND_DESERTERS :: nat where "ERR_GROUP_JOIN_BATTLEGROUND_DESERTERS = 2"
definition ERR_ARENA_TEAM_PARTY_SIZE :: nat where "ERR_ARENA_TEAM_PARTY_SIZE = 3"
definition ERR_BATTLEGROUND_TOO_MANY_QUEUES :: nat where "ERR_BATTLEGROUND_TOO_MANY_QUEUES = 4"
definition ERR_BATTLEGROUND_JOIN_RANGE_INDEX :: nat where "ERR_BATTLEGROUND_JOIN_RANGE_INDEX = 10"
definition ERR_BATTLEGROUND_JOIN_TIMED_OUT :: nat where "ERR_BATTLEGROUND_JOIN_TIMED_OUT = 11"
definition ERR_LFG_CANT_USE_BATTLEGROUND :: nat where "ERR_LFG_CANT_USE_BATTLEGROUND = 14"
definition ERR_IN_RANDOM_BG :: nat where "ERR_IN_RANDOM_BG = 15"
definition ERR_IN_NON_RANDOM_BG :: nat where "ERR_IN_NON_RANDOM_BG = 16"
definition ERR_BATTLEGROUND_JOIN_FAILED :: nat where "ERR_BATTLEGROUND_JOIN_FAILED = 35"

lemmas bg_errors = ERR_BATTLEGROUND_NONE_def ERR_GROUP_JOIN_BATTLEGROUND_DESERTERS_def ERR_ARENA_TEAM_PARTY_SIZE_def
  ERR_BATTLEGROUND_TOO_MANY_QUEUES_def ERR_BATTLEGROUND_JOIN_RANGE_INDEX_def ERR_BATTLEGROUND_JOIN_TIMED_OUT_def
  ERR_LFG_CANT_USE_BATTLEGROUND_def ERR_IN_RANDOM_BG_def ERR_IN_NON_RANDOM_BG_def ERR_BATTLEGROUND_JOIN_FAILED_def

text \<open>A group as the join sees it: leader, the players its references name, number of members, and the ratings of a rated group.\<close>

record BgGroup =
  bgr_leader :: u64
  bgr_members :: "u64 list"
  bgr_count :: u32
  bgr_isLFG :: bool
  bgr_rating :: u32
  bgr_mmr :: u32

subsection \<open>Joining as a group\<close>

definition queue_random :: nat where
  "queue_random = BGQueueTypeId BATTLEGROUND_RB RATED_TYPE_NOT_RATED"

definition member_error :: "BgConf \<Rightarrow> Battleground \<Rightarrow> nat \<Rightarrow> u32 \<Rightarrow> nat \<times> PvPDifficultyEntry \<Rightarrow> BgPlayer \<Rightarrow> nat" where
  "member_error c bg qt team entry m =
    (if bp_team m \<noteq> team then ERR_BATTLEGROUND_JOIN_TIMED_OUT
     else if map_option fst (GetBattlegroundBracketByLevel c (pd_mapId (snd entry)) (bp_level m)) \<noteq> Some (fst entry)
          then ERR_BATTLEGROUND_JOIN_RANGE_INDEX
     else if InBattlegroundQueueFor qt m then ERR_BATTLEGROUND_JOIN_FAILED
     else if InBattlegroundQueueFor queue_random m then ERR_IN_RANDOM_BG
     else if bg_TypeID bg = BATTLEGROUND_RB \<and> InBattlegroundQueue m then ERR_IN_NON_RANDOM_BG
     else if bg_TypeID bg \<noteq> BATTLEGROUND_AA \<and> \<not> CanJoinToBattleground bg m then ERR_GROUP_JOIN_BATTLEGROUND_DESERTERS
     else if \<not> HasFreeBattlegroundQueueId m then ERR_BATTLEGROUND_TOO_MANY_QUEUES
     else if bp_usingLfg m then ERR_LFG_CANT_USE_BATTLEGROUND
     else ERR_BATTLEGROUND_NONE)"

fun members_error :: "BgConf \<Rightarrow> Battleground \<Rightarrow> nat \<Rightarrow> u32 \<Rightarrow> nat \<times> PvPDifficultyEntry \<Rightarrow> BgWorld \<Rightarrow> u64 list \<Rightarrow> nat" where
  "members_error c bg qt team entry W [] = ERR_BATTLEGROUND_NONE"
| "members_error c bg qt team entry W (m # ms) =
    (case bw_players W m of None \<Rightarrow> ERR_BATTLEGROUND_JOIN_FAILED
     | Some p \<Rightarrow> let e = member_error c bg qt team entry p
                in if e \<noteq> ERR_BATTLEGROUND_NONE then e else members_error c bg qt team entry W ms)"

text \<open>A group without a reference has no first member, whose pointer is read.\<close>

definition CanJoinBattlegroundQueue :: "BgConf \<Rightarrow> BgGroup \<Rightarrow> Battleground \<Rightarrow> nat \<Rightarrow> u32 \<Rightarrow> BgWorld \<Rightarrow> nat option" where
  "CanJoinBattlegroundQueue c grp bg qt minPlayerCount W =
    (if bgr_isLFG grp then Some ERR_LFG_CANT_USE_BATTLEGROUND
     else case cf_maxGroupSize c (bg_TypeID bg) of None \<Rightarrow> Some ERR_BATTLEGROUND_JOIN_FAILED
     | Some maxGroupSize \<Rightarrow>
         if bgr_count grp > maxGroupSize then Some ERR_BATTLEGROUND_NONE
         else (case bgr_members grp of [] \<Rightarrow> None
           | r # _ \<Rightarrow> (case bw_players W r of None \<Rightarrow> Some ERR_BATTLEGROUND_JOIN_FAILED
             | Some reference \<Rightarrow>
               (case GetBattlegroundBracketByLevel c (bg_MapId bg) (bp_level reference) of
                  None \<Rightarrow> Some ERR_BATTLEGROUND_JOIN_FAILED
                | Some entry \<Rightarrow>
                    let e = members_error c bg qt (bp_team reference) entry W (bgr_members grp)
                    in Some (if e \<noteq> ERR_BATTLEGROUND_NONE then e
                             else if bg_IsArena bg \<and> of_nat (length (bgr_members grp)) \<noteq> minPlayerCount then ERR_ARENA_TEAM_PARTY_SIZE
                             else ERR_BATTLEGROUND_NONE)))))"

text \<open>The loop that tells the members of a group: the refusal, or their place in the queue.\<close>

fun tell_refusal :: "nat \<Rightarrow> Battleground \<Rightarrow> u64 \<Rightarrow> u64 list \<Rightarrow> BgWorld \<Rightarrow> BgWorld option" where
  "tell_refusal err bg guid [] W = Some W"
| "tell_refusal err bg guid (m # ms) W =
    (case bw_players W m of None \<Rightarrow> tell_refusal err bg guid ms W
     | Some _ \<Rightarrow> do { p \<leftarrow> bw_players W guid;
         x \<leftarrow> BuildStatusFailedPacket m bg guid p err;
         tell_refusal err bg guid ms (bg_emit x W) })"

fun tell_joined :: "nat \<Rightarrow> nat \<Rightarrow> u32 \<Rightarrow> u32 \<Rightarrow> u32 \<Rightarrow> u32 \<Rightarrow> u64 list \<Rightarrow> BgWorld \<Rightarrow> BgWorld" where
  "tell_joined b qt bgTypeId avgTime joinTime ratedType [] W = W"
| "tell_joined b qt bgTypeId avgTime joinTime ratedType (m # ms) W =
    tell_joined b qt bgTypeId avgTime joinTime ratedType ms
      (case bw_players W m of None \<Rightarrow> W
       | Some p \<Rightarrow> (case AddBattlegroundQueueId qt p of (slot, p) \<Rightarrow>
           bg_emit (BuildBattlegroundStatusPacket (Some b) m slot STATUS_WAIT_QUEUE avgTime joinTime ratedType)
             (at_bgplayer m (\<lambda>_. AddBattlegroundQueueJoinTime bgTypeId joinTime p) W)))"

text \<open>The group enters the queue number \<open>qt\<close>; its players are told.\<close>

definition join_bgqueue ::
  "u64 \<Rightarrow> u32 \<Rightarrow> u64 list option \<Rightarrow> nat \<Rightarrow> nat \<Rightarrow> u32 \<Rightarrow> nat \<Rightarrow> u32 \<Rightarrow> bool \<Rightarrow> bool \<Rightarrow> u32 \<Rightarrow> u32 \<Rightarrow> BgWorld \<Rightarrow> BgWorld option"
where
  "join_bgqueue leader team members b qt bgTypeId bracket ratedType isRated isPremade rating mmr W =
    (case BgQueue_AddGroup (bw_now W) leader team members bgTypeId bracket ratedType isRated isPremade rating mmr (bw_queues W qt) of
       (a, q) \<Rightarrow> do { g \<leftarrow> bq_infos q a;
         Some (tell_joined b qt bgTypeId (GetAverageQueueWaitTime g bracket q) (gq_joinTime g) ratedType
                (case members of Some ms \<Rightarrow> ms | None \<Rightarrow> [leader])
                (at_queue qt (\<lambda>_. q) W)) })"

definition refuse :: "u64 \<Rightarrow> BgPlayer \<Rightarrow> Battleground \<Rightarrow> nat \<Rightarrow> BgWorld \<Rightarrow> BgWorld option" where
  "refuse guid p bg err W = map_option (\<lambda>x. bg_emit x W) (BuildStatusFailedPacket guid bg guid p err)"

text \<open>\<open>HandleBattlemasterJoinOpcode\<close>: alone, or with the group of the player when there is one.\<close>

definition join_alone :: "u64 \<Rightarrow> BgPlayer \<Rightarrow> nat \<Rightarrow> Battleground \<Rightarrow> u32 \<Rightarrow> nat \<Rightarrow> BgWorld \<Rightarrow> (bool \<times> BgWorld) option" where
  "join_alone guid p b bg bgTypeId bracket W =
    (let qt = BGQueueTypeId bgTypeId RATED_TYPE_NOT_RATED; no = (\<lambda>err. map_option (Pair False) (refuse guid p bg err W)) in
     if bp_usingLfg p then no ERR_LFG_CANT_USE_BATTLEGROUND
     else if \<not> CanJoinToBattleground bg p then no ERR_GROUP_JOIN_BATTLEGROUND_DESERTERS
     else if GetBattlegroundQueueIndex queue_random p < PLAYER_MAX_BATTLEGROUND_QUEUES then no ERR_IN_RANDOM_BG
     else if InBattlegroundQueue p \<and> bgTypeId = BATTLEGROUND_RB then no ERR_IN_NON_RANDOM_BG
     else if GetBattlegroundQueueIndex qt p < PLAYER_MAX_BATTLEGROUND_QUEUES then Some (False, W)
     else if \<not> HasFreeBattlegroundQueueId p then no ERR_BATTLEGROUND_TOO_MANY_QUEUES
     else map_option (Pair True) (join_bgqueue guid (bp_team p) None b qt bgTypeId bracket RATED_TYPE_NOT_RATED False False 0 0 W))"

definition join_with_group ::
  "BgConf \<Rightarrow> u64 \<Rightarrow> BgPlayer \<Rightarrow> BgGroup option \<Rightarrow> nat \<Rightarrow> Battleground \<Rightarrow> u32 \<Rightarrow> nat \<Rightarrow> BgWorld \<Rightarrow> (bool \<times> BgWorld) option"
where
  "join_with_group c guid p party b bg bgTypeId bracket W =
    (case party of None \<Rightarrow> Some (False, W)
     | Some grp \<Rightarrow>
         if bgr_leader grp \<noteq> guid then Some (False, W)
         else do {
           let qt = BGQueueTypeId bgTypeId RATED_TYPE_NOT_RATED;
           err \<leftarrow> CanJoinBattlegroundQueue c grp bg qt 0 W;
           let isPremade = (bgr_count grp \<ge> bg_MinPlayersPerTeam bg);
           map_option (Pair True)
             (if err = ERR_BATTLEGROUND_NONE
              then join_bgqueue guid (bp_team p) (Some (bgr_members grp)) b qt bgTypeId bracket RATED_TYPE_NOT_RATED False isPremade 0 0 W
              else tell_refusal err bg guid (bgr_members grp) W) })"

definition HandleBattlemasterJoin :: "BgConf \<Rightarrow> u64 \<Rightarrow> bool \<Rightarrow> BgGroup option \<Rightarrow> u32 \<Rightarrow> BgWorld \<Rightarrow> BgWorld option" where
  "HandleBattlemasterJoin c guid asGroup party bgTypeId W =
    do { p \<leftarrow> bw_players W guid;
         if cf_maxGroupSize c bgTypeId = None \<or> cf_disabled c bgTypeId \<or> InBattleground p then Some W
         else case GetBattlegroundTemplate bgTypeId W of None \<Rightarrow> Some W
         | Some b \<Rightarrow> do {
             bg \<leftarrow> bw_bgs W b;
             case GetBattlegroundBracketByLevel c (bg_MapId bg) (bp_level p) of None \<Rightarrow> Some W
             | Some entry \<Rightarrow> do {
                 let bracket = pd_bracketId (snd entry);
                 (joined, W) \<leftarrow> (if \<not> asGroup then join_alone guid p b bg bgTypeId bracket W
                               else join_with_group c guid p party b bg bgTypeId bracket W);
                 Some (if joined then ScheduleQueueUpdate 0 RATED_TYPE_NOT_RATED (BGQueueTypeId bgTypeId RATED_TYPE_NOT_RATED)
                                        bgTypeId bracket W
                       else W) } } }"

subsection \<open>Rated arenas\<close>

definition GetRatedTypeBySlot :: "u8 \<Rightarrow> u32" where
  "GetRatedTypeBySlot slot =
    (if slot = 0 then RATED_TYPE_2v2 else if slot = 1 then RATED_TYPE_3v3 else if slot = 2 then RATED_TYPE_5v5
     else if slot = 3 then RATED_TYPE_10v10 else RATED_TYPE_NOT_RATED)"

definition IsArenaSlot :: "u8 \<Rightarrow> bool" where
  "IsArenaSlot slot \<longleftrightarrow> slot < 3"

definition HandleBattlemasterJoinArena :: "BgConf \<Rightarrow> u64 \<Rightarrow> u8 \<Rightarrow> BgGroup option \<Rightarrow> BgWorld \<Rightarrow> BgWorld option" where
  "HandleBattlemasterJoinArena c guid arenaSlot party W =
    do { p \<leftarrow> bw_players W guid;
         if \<not> IsArenaSlot arenaSlot \<or> InBattleground p then Some W
         else case GetBattlegroundTemplate BATTLEGROUND_AA W of None \<Rightarrow> Some W
         | Some b \<Rightarrow> do {
             bg \<leftarrow> bw_bgs W b;
             if cf_disabled c BATTLEGROUND_AA then Some W
             else do {
               let arenatype = GetRatedTypeBySlot arenaSlot;
               let bgTypeId = bg_TypeID bg;
               let qt = BGQueueTypeId bgTypeId arenatype;
               case (GetBattlegroundBracketByLevel c (bg_MapId bg) (bp_level p), party) of
                 (Some entry, Some grp) \<Rightarrow>
                   if bgr_leader grp \<noteq> guid then Some W
                   else do {
                     let bracket = pd_bracketId (snd entry);
                     err \<leftarrow> CanJoinBattlegroundQueue c grp bg qt arenatype W;
                     W \<leftarrow> (if err = ERR_BATTLEGROUND_NONE
                           then join_bgqueue guid (bp_team p) (Some (bgr_members grp)) b qt bgTypeId bracket arenatype True False
                                  (if bgr_rating grp = 0 then 1 else bgr_rating grp) (bgr_mmr grp) W
                           else tell_refusal err bg guid (bgr_members grp) W);
                     Some (ScheduleQueueUpdate (bgr_mmr grp) arenatype qt bgTypeId bracket W) }
               | _ \<Rightarrow> Some W } } }"

subsection \<open>Leaving a battleground\<close>

definition GetOtherTeam :: "u32 \<Rightarrow> u32" where
  "GetOtherTeam teamId = (if teamId \<noteq> 0 then (if teamId = ALLIANCE then HORDE else ALLIANCE) else 0)"

definition GetTeamMatchmakerRating :: "u32 \<Rightarrow> Battleground \<Rightarrow> u32" where
  "GetTeamMatchmakerRating team b = (if team = ALLIANCE then bg_MMRAlliance b else bg_MMRHorde b)"

definition player_count_down :: "u32 \<Rightarrow> Battleground \<Rightarrow> Battleground" where
  "player_count_down team b =
    (if team = ALLIANCE then b\<lparr>bg_CountAlliance := bg_CountAlliance b - 1\<rparr> else b\<lparr>bg_CountHorde := bg_CountHorde b - 1\<rparr>)"

text \<open>
  The participant's part: statistics, packet, queue slot. Auras, pets, scores, the raid group, the
  resurrection and the code of the single maps are left out. The result has the team and the type that the rest uses.
\<close>

definition leave_participant :: "u64 \<Rightarrow> nat \<Rightarrow> Battleground \<Rightarrow> u32 \<Rightarrow> bool \<Rightarrow> BgWorld \<Rightarrow> (u32 \<times> u32 \<times> BgWorld) option" where
  "leave_participant guid b bg team sendPacket W =
    (let qt = BGQueueTypeId (bg_TypeID bg) (bg_RatedType bg); lost = bg_IsRated bg \<and> bg_Status bg = STATUS_IN_PROGRESS in
     case bw_players W guid of
       None \<Rightarrow> Some (team, bg_TypeID bg,
         if lost then bg_emit (UpdateStatsCall guid (bg_RatedType bg) (GetTeamMatchmakerRating (GetOtherTeam team) bg) False True) W else W)
     | Some p \<Rightarrow> do {
         let team = (if team = 0 then bp_team p else team);
         let bgTypeId = (if bg_IsArena bg then BATTLEGROUND_AA else bg_TypeID bg);
         let W = (if bg_IsArena bg \<and> lost
                  then bg_emit (UpdateStatsCall guid (bg_RatedType bg) (GetTeamMatchmakerRating (GetOtherTeam team) bg) False False) W
                  else W);
         W \<leftarrow> (if sendPacket then do {
                 joined \<leftarrow> GetBattlegroundQueueJoinTime bgTypeId p;
                 Some (bg_emit (BuildBattlegroundStatusPacket (Some b) guid (GetBattlegroundQueueIndex qt p) STATUS_NONE joined 0
                        RATED_TYPE_NOT_RATED) W) }
               else Some W);
         Some (team, bgTypeId, at_bgplayer guid (RemoveBattlegroundQueueId qt) W) })"

definition RemovePlayerAtLeave :: "nat \<Rightarrow> u64 \<Rightarrow> bool \<Rightarrow> BgWorld \<Rightarrow> BgWorld option" where
  "RemovePlayerAtLeave b guid sendPacket W =
    do { bg \<leftarrow> bw_bgs W b;
         let team = (case map_of (bg_Players bg) guid of None \<Rightarrow> 0 | Some t \<Rightarrow> t);
         let participant = (map_of (bg_Players bg) guid \<noteq> None);
         (bgTypeId, W) \<leftarrow>
           (if participant then do {
              let W = at_bg b (\<lambda>x. (player_count_down team x)\<lparr>bg_Players := om_erase guid (bg_Players x)\<rparr>) W;
              (team, bgTypeId, W) \<leftarrow> leave_participant guid b bg team sendPacket W;
              let W = at_bg b (DecreaseInvitedCount team) W;
              W \<leftarrow> (if \<not> bg_IsArena bg \<and> bg_Status bg < STATUS_WAIT_LEAVE
                    then map_option (ScheduleQueueUpdate 0 RATED_TYPE_NOT_RATED (BGQueueTypeId (bg_TypeID bg) (bg_RatedType bg))
                                       bgTypeId (bg_BracketId bg)) (AddToBGFreeSlotQueue b W)
                    else Some W);
              Some (bgTypeId, W) }
            else Some (bg_TypeID bg, W));
         case bw_players W guid of None \<Rightarrow> Some W
         | Some p \<Rightarrow> do {
             p \<leftarrow> RemoveBattlegroundQueueJoinTime bgTypeId ((SetBattlegroundId 0 BATTLEGROUND_TYPE_NONE p)\<lparr>bp_bgTeam := 0\<rparr>);
             Some (at_bgplayer guid (\<lambda>_. p) W) } }"

subsection \<open>Answering an invitation\<close>

text \<open>
  \<open>HandleBattleFieldPortOpcode\<close>: entering, or leaving the queue. Resurrection, taxi flight and the
  place to return to are left out. \<open>port_target\<close> is what the first half finds: the queue, the copy of the
  group, the battleground and the bracket.
\<close>

definition port_target :: "BgConf \<Rightarrow> u64 \<Rightarrow> BgPlayer \<Rightarrow> u32 \<Rightarrow> bool \<Rightarrow> BgWorld \<Rightarrow>
  (nat \<times> GroupQueueInfo \<times> nat \<times> Battleground \<times> PvPDifficultyEntry) option option"
where
  "port_target c guid p queueSlot action W =
    (if \<not> InBattlegroundQueue p then Some None
     else do {
       qt \<leftarrow> GetBattlegroundQueueTypeId queueSlot p;
       if qt = BATTLEGROUND_QUEUE_NONE then Some None
       else do {
         ginfo \<leftarrow> GetPlayerGroupInfoData guid (bw_queues W qt);
         case ginfo of None \<Rightarrow> Some None
         | Some g \<Rightarrow>
             if gq_invited g = 0 \<and> action then Some None
             else do {
               let t = BGTemplateId qt;
               case (case GetBattleground (gq_invited g) (if t = BATTLEGROUND_AA then BATTLEGROUND_TYPE_NONE else t) W of
                       Some b \<Rightarrow> Some b | None \<Rightarrow> if action then None else GetBattlegroundTemplate t W) of
                 None \<Rightarrow> Some None
               | Some b \<Rightarrow> do {
                   bg \<leftarrow> bw_bgs W b;
                   Some (case GetBattlegroundBracketByLevel c (bg_MapId bg) (bp_level p) of None \<Rightarrow> None
                         | Some entry \<Rightarrow> Some (qt, g, b, bg, snd entry)) } } } })"

definition port_enter :: "u64 \<Rightarrow> BgPlayer \<Rightarrow> u32 \<Rightarrow> nat \<Rightarrow> GroupQueueInfo \<Rightarrow> nat \<Rightarrow> Battleground \<Rightarrow> BgWorld \<Rightarrow> BgWorld option" where
  "port_enter guid p queueSlot qt g b bg W =
    (if \<not> IsInvitedForBattlegroundQueueType qt p then Some W
     else do {
       joined \<leftarrow> GetBattlegroundQueueJoinTime (bg_TypeID bg) p;
       let W = bg_emit (BuildBattlegroundStatusPacket (Some b) guid (unat queueSlot) STATUS_IN_PROGRESS joined (bg_StartTime bg)
                          (bg_RatedType bg)) W;
       W \<leftarrow> BgQueue_RemovePlayer qt guid False W;
       W \<leftarrow> (case GetBattleground (bp_bgInstanceID p) (bp_bgTypeID p) W of None \<Rightarrow> Some W
             | Some current \<Rightarrow> RemovePlayerAtLeave current guid True W);
       let W = at_bgplayer guid (\<lambda>p. (SetBattlegroundId (bg_InstanceID bg) (bg_TypeID bg) p)\<lparr>bp_bgTeam := gq_team g\<rparr>) W;
       Some (bg_emit (SendToBattlegroundCall guid (gq_invited g) (bg_TypeID bg)) W) })"

definition port_leave :: "u64 \<Rightarrow> BgPlayer \<Rightarrow> u32 \<Rightarrow> nat \<Rightarrow> GroupQueueInfo \<Rightarrow> nat \<Rightarrow> Battleground \<Rightarrow> nat \<Rightarrow> BgWorld \<Rightarrow> BgWorld option" where
  "port_leave guid p queueSlot qt g b bg bracket W =
    do { let W = (if gq_isRated g \<and> gq_invited g \<noteq> 0
                  then bg_emit (UpdateStatsCall guid (gq_ratedType g) (gq_opponentsMMR g) False True) W else W);
         joined \<leftarrow> GetBattlegroundQueueJoinTime (bg_TypeID bg) p;
         let W = bg_emit (BuildBattlegroundStatusPacket (Some b) guid (unat queueSlot) STATUS_NONE joined 0 RATED_TYPE_NOT_RATED) W;
         W \<leftarrow> BgQueue_RemovePlayer qt guid True (at_bgplayer guid (RemoveBattlegroundQueueId qt) W);
         Some (if gq_ratedType g = 0
               then ScheduleQueueUpdate (gq_teamMMR g) (gq_ratedType g) qt (bg_TypeID bg) bracket W else W) }"

definition HandleBattleFieldPort :: "BgConf \<Rightarrow> u64 \<Rightarrow> u32 \<Rightarrow> bool \<Rightarrow> BgWorld \<Rightarrow> BgWorld option" where
  "HandleBattleFieldPort c guid queueSlot action W =
    do { p \<leftarrow> bw_players W guid;
         target \<leftarrow> port_target c guid p queueSlot action W;
         case target of None \<Rightarrow> Some W
         | Some (qt, g, b, bg, entry) \<Rightarrow> do {
             let checked = action \<and> gq_ratedType g = 0;
             W \<leftarrow> (if checked \<and> \<not> CanJoinToBattleground bg p
                   then refuse guid p bg ERR_GROUP_JOIN_BATTLEGROUND_DESERTERS W else Some W);
             if action \<and> \<not> (checked \<and> (\<not> CanJoinToBattleground bg p \<or> bp_level p > bg_LevelMax bg))
             then port_enter guid p queueSlot qt g b bg W
             else port_leave guid p queueSlot qt g b bg (pd_bracketId entry) W } }"

subsection \<open>The state of the player's queues\<close>

definition status_of_slot :: "BgConf \<Rightarrow> u64 \<Rightarrow> nat \<Rightarrow> nat \<Rightarrow> BgWorld \<Rightarrow> BgWorld option" where
  "status_of_slot c guid i qt W =
    (if qt = BATTLEGROUND_QUEUE_NONE then Some W
     else do {
       p \<leftarrow> bw_players W guid;
       let t = BGTemplateId qt;
       ratedType \<leftarrow> GetRatedTypeByQueue qt;
       current \<leftarrow> (if t = bp_bgTypeID p then
                    (case GetBattleground (bp_bgInstanceID p) (bp_bgTypeID p) W of None \<Rightarrow> Some None
                     | Some b \<Rightarrow> map_option (\<lambda>bg. if bg_RatedType bg = ratedType then Some (b, bg) else None) (bw_bgs W b))
                  else Some None);
       case current of
         Some (b, bg) \<Rightarrow> do {
           joined \<leftarrow> GetBattlegroundQueueJoinTime t p;
           Some (bg_emit (BuildBattlegroundStatusPacket (Some b) guid i STATUS_IN_PROGRESS joined (bg_StartTime bg) ratedType) W) }
       | None \<Rightarrow> do {
           ginfo \<leftarrow> GetPlayerGroupInfoData guid (bw_queues W qt);
           case ginfo of None \<Rightarrow> Some W
           | Some g \<Rightarrow>
               if gq_invited g \<noteq> 0 then
                 (case GetBattleground (gq_invited g) t W of None \<Rightarrow> Some W
                  | Some b \<Rightarrow> do { joined \<leftarrow> GetBattlegroundQueueJoinTime t p;
                      Some (bg_emit (BuildBattlegroundStatusPacket (Some b) guid i STATUS_WAIT_JOIN
                              (getMSTimeDiff (bw_now W) (gq_removeInviteTime g)) joined ratedType) W) })
               else
                 (case GetBattlegroundTemplate t W of None \<Rightarrow> Some W
                  | Some b \<Rightarrow> do { bg \<leftarrow> bw_bgs W b;
                      case GetBattlegroundBracketByLevel c (bg_MapId bg) (bp_level p) of None \<Rightarrow> Some W
                      | Some entry \<Rightarrow> do { joined \<leftarrow> GetBattlegroundQueueJoinTime t p;
                          Some (bg_emit (BuildBattlegroundStatusPacket (Some b) guid i STATUS_WAIT_QUEUE
                                  (GetAverageQueueWaitTime g (pd_bracketId (snd entry)) (bw_queues W qt)) joined ratedType) W) } }) } })"

fun status_of_slots :: "BgConf \<Rightarrow> u64 \<Rightarrow> nat \<Rightarrow> BgSlot list \<Rightarrow> BgWorld \<Rightarrow> BgWorld option" where
  "status_of_slots c guid i [] W = Some W"
| "status_of_slots c guid i (s # ss) W =
    Option.bind (status_of_slot c guid i (bs_queue s) W) (status_of_slots c guid (Suc i) ss)"

definition HandleBattlefieldStatus :: "BgConf \<Rightarrow> u64 \<Rightarrow> BgWorld \<Rightarrow> BgWorld option" where
  "HandleBattlefieldStatus c guid W =
    Option.bind (bw_players W guid) (\<lambda>p. status_of_slots c guid 0 (bp_slots p) W)"

end
