(* ===== verification/BgSelection.thy ===== *)
theory BgSelection
  imports BgHandlers "HOL-Library.Sublist"
begin

text \<open>
  What the selection of groups guarantees: the pools count their players, a team is never given more than
  its free slots, and the sides of a match are even.
\<close>

subsection \<open>Pools count their players\<close>

definition group_size :: "infos \<Rightarrow> nat \<Rightarrow> nat" where
  "group_size I a = (case I a of None \<Rightarrow> 0 | Some g \<Rightarrow> length (gq_players g))"

definition waiting :: "infos \<Rightarrow> nat \<Rightarrow> bool" where
  "waiting I a \<longleftrightarrow> (\<exists>g. I a = Some g \<and> gq_invited g = 0)"

definition pool_ok :: "infos \<Rightarrow> SelectionPool \<Rightarrow> bool" where
  "pool_ok I p \<longleftrightarrow> unat (PlayerCount p) = sum_list (map (group_size I) (SelectedGroups p)) \<and>
     (\<forall>a \<in> set (SelectedGroups p). waiting I a)"

text \<open>A pool and the rest of the queue it is filled from, in the order of the queue, within the free slots.\<close>

definition side_ok :: "infos \<Rightarrow> nat list \<Rightarrow> u32 \<Rightarrow> SelectionPool \<Rightarrow> nat list \<Rightarrow> bool" where
  "side_ok I Q free p rest \<longleftrightarrow> pool_ok I p \<and> subseq (SelectedGroups p @ rest) Q \<and> PlayerCount p \<le> free"

lemma pool_ok_Init [simp]: "pool_ok I Pool_Init"
  by (simp add: pool_ok_def Pool_Init_def)

lemma unat_add_le:
  assumes "unat (p :: u32) + n \<le> unat (d :: u32)"
  shows "unat (p + of_nat n) = unat p + n"
proof -
  have "unat p + n < 2 ^ 32" using assms unsigned_less [of d, where ?'a = nat] by simp
  then show ?thesis by (simp add: unat_word_ariths unat_of_nat)
qed

lemma AddGroup_ok:
  assumes "Pool_AddGroup I a desired p = Some (b, p')" and "pool_ok I p"
  shows "pool_ok I p'" and "p' = p \<or> SelectedGroups p' = SelectedGroups p @ [a] \<and> PlayerCount p' \<le> desired"
    and "PlayerCount p \<le> PlayerCount p'"
  using assms unat_add_le [of "PlayerCount p" _ desired]
  by (auto simp: Pool_AddGroup_def pool_ok_def group_size_def waiting_def word_le_nat_alt split: bind_splits if_splits)

lemma AddGroup_returns: "I a = Some g \<Longrightarrow> \<exists>b p'. Pool_AddGroup I a desired p = Some (b, p')"
  by (auto simp: Pool_AddGroup_def)

lemma subseq_drop1: "subseq (xs @ a # ys) Q \<Longrightarrow> subseq (xs @ ys) Q"
  using subseq_append' [of xs ys "a # ys"] by (meson list_emb_Cons subseq_order.order_refl subseq_order.trans)

lemma subseq_set: "subseq xs ys \<Longrightarrow> set xs \<subseteq> set ys"
  by (induction rule: list_emb.induct) auto

lemma AddGroup_side:
  assumes "Pool_AddGroup I a desired p = Some (b, p')" and "side_ok I Q free p (a # rest)" and "desired \<le> free"
  shows "side_ok I Q free p' rest"
  using AddGroup_ok(1,2) [OF assms(1)] assms(2,3) subseq_drop1 [of "SelectedGroups p" a rest Q]
  by (auto simp: side_ok_def)

lemma AddGroup_False: "Pool_AddGroup I a desired p = Some (False, p') \<Longrightarrow> p' = p"
  by (auto simp: Pool_AddGroup_def split: bind_splits if_splits)

lemma add_groups_side:
  "add_groups I desired rest p = Some (rest', p') \<Longrightarrow> side_ok I Q free p rest \<Longrightarrow> desired \<le> free \<Longrightarrow> side_ok I Q free p' rest'"
proof (induction I desired rest p rule: add_groups.induct)
  case (2 I desired a as p)
  obtain b p1 where s: "Pool_AddGroup I a desired p = Some (b, p1)"
    using "2.prems"(1) by (auto split: option.splits)
  show ?case
    using 2 s AddGroup_side [OF s "2.prems"(2,3)] AddGroup_False [of I a desired p p1] by (auto split: if_splits)
qed simp

lemma add_groups_returns: "\<forall>a \<in> set rest. I a \<noteq> None \<Longrightarrow> \<exists>x. add_groups I desired rest p = Some x"
proof (induction I desired rest p rule: add_groups.induct)
  case (2 I desired a as p)
  then show ?case by (auto dest: AddGroup_returns [where desired = desired and p = p])
qed simp

subsection \<open>Kicking\<close>

lemma kick_scan_bound:
  "kick_scan I sz sel as i (found, k) = Some (found', k') \<Longrightarrow> k' = k \<or> k' < i + length as"
proof (induction I sz sel as i "(found, k)" arbitrary: found k rule: kick_scan.induct)
  case (2 I sz sel a as i found k)
  then show ?case by (fastforce split: option.splits if_splits)
qed simp

lemma kick_scan_returns:
  "\<forall>a \<in> set as. I a \<noteq> None \<Longrightarrow> \<forall>a \<in> set sel. I a \<noteq> None \<Longrightarrow> k < length sel \<Longrightarrow> i + length as \<le> length sel \<Longrightarrow>
     \<exists>st. kick_scan I sz sel as i (found, k) = Some st"
proof (induction I sz sel as i "(found, k)" arbitrary: found k rule: kick_scan.induct)
  case (2 I sz sel a as i found k)
  obtain g where g: "I a = Some g" using "2.prems"(1) by auto
  obtain kg where kg: "I (sel ! k) = Some kg" using "2.prems"(2,3) by (metis nth_mem option.exhaust)
  show ?case using 2 g kg by auto
qed simp

lemma mset_erase_at: "k < length xs \<Longrightarrow> sum_list (map f (erase_at k xs)) + f (xs ! k) = (sum_list (map f xs) :: nat)"
proof -
  assume "k < length xs"
  then have "xs = take k xs @ xs ! k # drop (Suc k) xs" by (simp add: id_take_nth_drop)
  then have "sum_list (map f xs) = sum_list (map f (take k xs @ xs ! k # drop (Suc k) xs))" by (rule arg_cong)
  then show ?thesis by (simp add: erase_at_def)
qed

lemma subseq_erase_at: "subseq (xs @ rest) Q \<Longrightarrow> subseq (erase_at k xs @ rest) Q"
proof -
  assume s: "subseq (xs @ rest) Q"
  have "subseq (erase_at k xs) xs"
  proof (cases "k < length xs")
    case True
    then have "xs = take k xs @ xs ! k # drop (Suc k) xs" by (simp add: id_take_nth_drop)
    then show ?thesis unfolding erase_at_def
      by (metis list_emb_Cons subseq_append' subseq_order.order_refl)
  qed (simp add: erase_at_def)
  then show ?thesis using s by (meson list_emb_append_mono subseq_order.order_refl subseq_order.trans)
qed

lemma set_erase_at: "set (erase_at k xs) \<subseteq> set xs"
  by (auto simp: erase_at_def dest: in_set_takeD in_set_dropD)

lemma KickGroup_side:
  assumes "Pool_KickGroup I sz p = Some (b, p')" and "side_ok I Q free p rest"
  shows "side_ok I Q free p' rest"
proof (cases "PlayerCount p = 0")
  case True
  then show ?thesis using assms by (auto simp: Pool_KickGroup_def split: bind_splits)
next
  case False
  then obtain k g where k: "k < length (SelectedGroups p)" "I (SelectedGroups p ! k) = Some g"
    and p': "p' = \<lparr>SelectedGroups = erase_at k (SelectedGroups p), PlayerCount = PlayerCount p - of_nat (length (gq_players g))\<rparr>"
    using assms(1) by (auto simp: Pool_KickGroup_def split: bind_splits if_splits)
  have sum: "sum_list (map (group_size I) (erase_at k (SelectedGroups p))) + length (gq_players g) = unat (PlayerCount p)"
    using mset_erase_at [OF k(1), of "group_size I"] assms(2) k(2) by (simp add: side_ok_def pool_ok_def group_size_def)
  then have "length (gq_players g) < 2 ^ 32" "length (gq_players g) \<le> unat (PlayerCount p)"
    using unsigned_less [of "PlayerCount p", where ?'a = nat] by simp_all
  then have "unat (PlayerCount p - of_nat (length (gq_players g))) = unat (PlayerCount p) - length (gq_players g)"
    by (simp add: unat_sub_if' unat_of_nat)
  then show ?thesis
    using assms(2) sum p' subseq_erase_at [of "SelectedGroups p" rest Q k] set_erase_at [of k "SelectedGroups p"]
    by (auto simp: side_ok_def pool_ok_def word_le_nat_alt)
qed

lemma KickGroup_returns:
  assumes "pool_ok I p"
  shows "\<exists>b p'. Pool_KickGroup I sz p = Some (b, p')"
proof -
  have I: "\<forall>a \<in> set (SelectedGroups p). I a \<noteq> None" using assms by (auto simp: pool_ok_def waiting_def)
  show ?thesis
  proof (cases "SelectedGroups p")
    case Nil
    then have "PlayerCount p = 0" using assms by (simp add: pool_ok_def unat_eq_0)
    then show ?thesis using Nil by (auto simp: Pool_KickGroup_def)
  next
    case (Cons a as)
    then obtain f k where k: "kick_scan I sz (SelectedGroups p) (SelectedGroups p) 0 (False, 0) = Some (f, k)"
      using kick_scan_returns [OF I I, of 0 0 sz False] by auto
    then have "k < length (SelectedGroups p)" using kick_scan_bound [OF k] Cons by auto
    then have "I (SelectedGroups p ! k) \<noteq> None" using I nth_mem by blast
    then show ?thesis using k \<open>k < length (SelectedGroups p)\<close> by (auto simp: Pool_KickGroup_def)
  qed
qed

subsection \<open>Balancing the teams\<close>

lemma sint_small: "uint (a :: u32) < 2 ^ 31 \<Longrightarrow> sint a = uint a"
  using sint_word_of_int_fits [of "uint a", where ?'a = 32] uint_nonnegative [of a] by (simp add: fits_def)

lemma sint_difference:
  assumes "uint (a :: u32) < 2 ^ 31" and "uint b < 2 ^ 31"
  shows "sint (a - b) = uint a - uint b"
proof -
  have "a - b = word_of_int (uint a - uint b)" by simp
  moreover have "- (2 ^ 31) \<le> uint a - uint b" "uint a - uint b < 2 ^ 31"
    using assms uint_nonnegative [of a] uint_nonnegative [of b] by linarith+
  then have "fits TYPE(32) (uint a - uint b)" by (simp add: fits_def)
  ultimately show ?thesis
    using sint_word_of_int_fits [of "uint a - uint b", where ?'a = 32] by simp
qed

lemma sless_small: "uint (a :: u32) < 2 ^ 31 \<Longrightarrow> uint b < 2 ^ 31 \<Longrightarrow> a <s b \<longleftrightarrow> uint a < uint b"
  by (simp add: word_sless_alt sint_small)

lemma sle_small: "uint (a :: u32) < 2 ^ 31 \<Longrightarrow> uint b < 2 ^ 31 \<Longrightarrow> a \<le>s b \<longleftrightarrow> uint a \<le> uint b"
  by (simp add: word_sle_eq sint_small)

text \<open>What stays free of a team's slots.\<close>

definition left :: "u32 \<Rightarrow> SelectionPool \<Rightarrow> int" where
  "left free p = uint free - uint (PlayerCount p)"

lemma left_word: "side_ok I Q free p rest \<Longrightarrow> uint (free - PlayerCount p) = left free p"
  by (simp add: side_ok_def left_def uint_sub_if' word_le_def)

lemma left_bounds: "side_ok I Q free p rest \<Longrightarrow> 0 \<le> left free p \<and> left free p \<le> uint free"
  by (simp add: side_ok_def left_def word_le_def)

lemma kick_side_ok:
  assumes "kick_side I free diff other pool rest opool = Some (stop, pool', rest', opool')"
    and "side_ok I Q free pool rest" and "side_ok I Q' ofree opool orest"
    and "other = ofree - PlayerCount opool" and "uint free < 2 ^ 31" and "uint ofree < 2 ^ 31"
  shows "side_ok I Q free pool' rest'" and "side_ok I Q' ofree opool' orest"
    and "stop \<Longrightarrow> PlayerCount pool' = 0 \<and> opool' = opool \<and> free \<le>s other + 1"
proof -
  obtain again p1 where k: "Pool_KickGroup I (other - diff) pool = Some (again, p1)"
    and a: "(if again then add_groups I (if other \<le>s free then free - other else 0) rest p1 else Some (rest, p1)) = Some (rest', pool')"
    and o: "stop \<longrightarrow> PlayerCount pool' = 0 \<and> opool' = opool \<and> free \<le>s other + 1"
      "opool' = opool \<or> (\<exists>b. Pool_KickGroup I (other - diff) opool = Some (b, opool'))"
    using assms(1) by (auto simp: kick_side_def split: bind_splits if_splits)
  have d: "(if other \<le>s free then free - other else 0) \<le> free"
  proof (cases "other \<le>s free")
    case True
    moreover have "uint other < 2 ^ 31"
      using assms(3,4,6) left_word [OF assms(3)] left_bounds [OF assms(3)] by simp
    ultimately have "other \<le> free" using assms(5) by (simp add: sle_small word_le_def)
    then show ?thesis by (simp add: word_le_def uint_sub_if')
  qed simp
  have "side_ok I Q free p1 rest" using KickGroup_side [OF k assms(2)] .
  then show "side_ok I Q free pool' rest'"
    using a add_groups_side [OF _ _ d, of I rest p1 rest' pool' Q] by (auto split: if_splits)
  show "side_ok I Q' ofree opool' orest" using o(2) assms(3) KickGroup_side by blast
  show "stop \<Longrightarrow> PlayerCount pool' = 0 \<and> opool' = opool \<and> free \<le>s other + 1" using o(1) by simp
qed

lemma kick_side_returns:
  assumes "side_ok I Q free pool rest" and "pool_ok I opool" and "\<forall>a \<in> set rest. I a \<noteq> None"
  shows "\<exists>x. kick_side I free diff other pool rest opool = Some x"
proof -
  obtain again p1 where k: "Pool_KickGroup I (other - diff) pool = Some (again, p1)"
    using KickGroup_returns assms(1) by (metis side_ok_def)
  obtain rest' p2 where a: "add_groups I (if other \<le>s free then free - other else 0) rest p1 = Some (rest', p2)"
    using add_groups_returns [OF assms(3)] by (metis surj_pair)
  obtain b p3 where "Pool_KickGroup I (other - diff) opool = Some (b, p3)"
    using KickGroup_returns [OF assms(2)] by blast
  then show ?thesis using k a by (auto simp: kick_side_def)
qed

text \<open>Even: the teams keep equally many free slots, up to one, or the team that keeps fewer selected nobody.\<close>

definition even_sides :: "u32 \<Rightarrow> u32 \<Rightarrow> SelectionPool \<Rightarrow> SelectionPool \<Rightarrow> bool" where
  "even_sides aliFree hordeFree ali horde \<longleftrightarrow>
     \<bar>left aliFree ali - left hordeFree horde\<bar> \<le> 1 \<or>
     (left aliFree ali < left hordeFree horde \<and> PlayerCount ali = 0) \<or>
     (left hordeFree horde < left aliFree ali \<and> PlayerCount horde = 0)"

lemma stop_even:
  assumes "side_ok I Q free pool rest" and "side_ok I Q' ofree opool orest" and "uint free < 2 ^ 31" and "uint ofree < 2 ^ 31"
    and "PlayerCount pool = 0" and "free \<le>s (ofree - PlayerCount opool) + 1"
  shows "left free pool \<le> left ofree opool + 1"
proof -
  let ?o = "ofree - PlayerCount opool"
  have o: "uint ?o = left ofree opool" "uint ?o < 2 ^ 31"
    using left_word [OF assms(2)] left_bounds [OF assms(2)] assms(4) by simp_all
  have n: "0 \<le> uint ?o" by (rule uint_nonnegative)
  show ?thesis
  proof (cases "uint ?o = 2 ^ 31 - 1")
    case True
    then show ?thesis using o(1) assms(3,5) by (simp add: left_def)
  next
    case False
    then have "uint ?o + 1 < 2 ^ 31" using o(2) by simp
    then have u: "uint (?o + 1) = uint ?o + 1" using n by (simp add: uint_word_ariths)
    then have "uint free \<le> uint ?o + 1"
      using sle_small [of free "?o + 1"] assms(3,6) \<open>uint ?o + 1 < 2 ^ 31\<close> by simp
    then show ?thesis using o(1) assms(5) by (simp add: left_def)
  qed
qed

lemmas balance_eq = balance.simps [unfolded Let_def]

lemma balance_side:
  assumes "side_ok I Q aliFree ali aliRest" and "side_ok I Q' hordeFree horde hordeRest"
    and "uint aliFree < 2 ^ 31" and "uint hordeFree < 2 ^ 31"
    and "\<forall>a \<in> set Q \<union> set Q'. I a \<noteq> None"
  shows "\<exists>ali' horde' r r'. balance I aliFree hordeFree (ali, aliRest) (horde, hordeRest) = Some (ali', horde') \<and>
     side_ok I Q aliFree ali' r \<and> side_ok I Q' hordeFree horde' r' \<and> even_sides aliFree hordeFree ali' horde'"
  using assms
proof (induction I aliFree hordeFree "(ali, aliRest)" "(horde, hordeRest)" arbitrary: ali aliRest horde hordeRest rule: balance.induct)
  case (1 I aliFree hordeFree ali aliRest horde hordeRest)
  note a = "1.prems"(1) and h = "1.prems"(2) and af = "1.prems"(3) and hf = "1.prems"(4) and I = "1.prems"(5)
  let ?da = "aliFree - PlayerCount ali" and ?dh = "hordeFree - PlayerCount horde"
  have w: "uint ?da = left aliFree ali" "uint ?dh = left hordeFree horde" "uint ?da < 2 ^ 31" "uint ?dh < 2 ^ 31"
    using left_word [OF a] left_word [OF h] left_bounds [OF a] left_bounds [OF h] af hf by simp_all
  have rests: "\<forall>x \<in> set aliRest. I x \<noteq> None" "\<forall>x \<in> set hordeRest. I x \<noteq> None"
    using I a h by (auto simp: side_ok_def dest!: subseq_set)
  show ?case
  proof (cases "\<bar>sint (?da - ?dh)\<bar> > 1 \<and> (PlayerCount horde \<noteq> 0 \<or> PlayerCount ali \<noteq> 0)")
    case False
    then have "even_sides aliFree hordeFree ali horde"
      using w by (auto simp: even_sides_def sint_difference)
    moreover have "balance I aliFree hordeFree (ali, aliRest) (horde, hordeRest) = Some (ali, horde)"
      using False unfolding balance_eq [of I aliFree hordeFree ali] by (rule if_not_P)
    ultimately show ?thesis using a h by blast
  next
    case True
    show ?thesis
    proof (cases "?da <s ?dh")
      case less: True
      obtain stop ali1 r1 horde1 where k: "kick_side I aliFree ?da ?dh ali aliRest horde = Some (stop, ali1, r1, horde1)"
        using kick_side_returns [OF a _ rests(1)] h by (metis side_ok_def surj_pair)
      note ok = kick_side_ok [OF k a h refl af hf]
      have e: "balance I aliFree hordeFree (ali, aliRest) (horde, hordeRest) =
          (if stop then Some (ali1, horde1) else balance I aliFree hordeFree (ali1, r1) (horde1, hordeRest))"
        using True less k by (subst balance_eq) (simp only: if_True option.case prod.case simp_thms)
      show ?thesis
      proof (cases stop)
        case True
        then have st: "PlayerCount ali1 = 0" "horde1 = horde" "aliFree \<le>s ?dh + 1" using ok(3) by auto
        then have "even_sides aliFree hordeFree ali1 horde1"
          using stop_even [OF ok(1) h af hf] by (auto simp: even_sides_def)
        then show ?thesis using e True ok by auto
      next
        case False
        then show ?thesis using "1.hyps"(1) [OF refl refl True less k refl refl refl False ok(1,2) af hf I] e by simp
      qed
    next
      case nless: False
      obtain stop horde1 r1 ali1 where k: "kick_side I hordeFree ?dh ?da horde hordeRest ali = Some (stop, horde1, r1, ali1)"
        using kick_side_returns [OF h _ rests(2)] a by (metis side_ok_def surj_pair)
      note ok = kick_side_ok [OF k h a refl hf af]
      have e: "balance I aliFree hordeFree (ali, aliRest) (horde, hordeRest) =
          (if stop then Some (ali1, horde1) else balance I aliFree hordeFree (ali1, aliRest) (horde1, r1))"
        using True nless k by (subst balance_eq) (simp only: if_True if_False option.case prod.case simp_thms)
      show ?thesis
      proof (cases stop)
        case True
        then have st: "PlayerCount horde1 = 0" "ali1 = ali" "hordeFree \<le>s ?da + 1" using ok(3) by auto
        then have "even_sides aliFree hordeFree ali1 horde1"
          using stop_even [OF ok(1) a hf af] by (auto simp: even_sides_def)
        then show ?thesis using e True ok by auto
      next
        case False
        then show ?thesis using "1.hyps"(2) [OF refl refl True nless k refl refl refl False ok(2,1) af hf I] e by simp
      qed
    qed
  qed
qed

subsection \<open>Filling a running battleground\<close>

text \<open>What a team is given: groups of its list, in their order, each once, not invited yet, counted, within the limit.\<close>

definition selected_ok :: "infos \<Rightarrow> nat list \<Rightarrow> u32 \<Rightarrow> SelectionPool \<Rightarrow> bool" where
  "selected_ok I Q limit p \<longleftrightarrow> pool_ok I p \<and> subseq (SelectedGroups p) Q \<and> PlayerCount p \<le> limit"

definition live_lists :: "nat \<Rightarrow> BattlegroundQueue \<Rightarrow> bool" where
  "live_lists bracket q \<longleftrightarrow>
     (\<forall>i < BG_QUEUE_GROUP_TYPES_COUNT. \<forall>a \<in> set (m_QueuedGroups q bracket i). bq_infos q a \<noteq> None)"

definition empty_pools :: "BattlegroundQueue \<Rightarrow> bool" where
  "empty_pools q \<longleftrightarrow> m_SelectionPools q TEAM_ALLIANCE = Pool_Init \<and> m_SelectionPools q TEAM_HORDE = Pool_Init"

lemma empty_pools_init [simp]: "empty_pools (init_pools q)"
  by (simp add: empty_pools_def)

lemma side_selected: "side_ok I Q free p rest \<Longrightarrow> selected_ok I Q free p"
  using subseq_append' [of "SelectedGroups p" "[]" rest]
  by (auto simp: side_ok_def selected_ok_def dest: subseq_order.trans [rotated])

lemma side_start: "side_ok I Q free Pool_Init Q"
  by (simp add: side_ok_def) (simp add: Pool_Init_def)

lemma live_list: "live_lists bracket q \<Longrightarrow> i < BG_QUEUE_GROUP_TYPES_COUNT \<Longrightarrow> \<forall>a \<in> set (m_QueuedGroups q bracket i). bq_infos q a \<noteq> None"
  by (simp add: live_lists_def)

subsection \<open>A queue\<close>

text \<open>
  A queue with groups of the given teams and sizes at the addresses from 0 on, for the
  concrete inputs.
\<close>

definition sample_info :: "u32 \<Rightarrow> u64 list \<Rightarrow> GroupQueueInfo" where
  "sample_info team ps = \<lparr>gq_players = ps, gq_team = team, gq_leaderGUID = hd ps, gq_bgTypeId = BATTLEGROUND_WS, gq_ratedType = 0,
     gq_isRated = False, gq_joinTime = 100, gq_removeInviteTime = 0, gq_invited = 0, gq_teamRating = 0, gq_teamMMR = 0,
     gq_opponentsRating = 0, gq_opponentsMMR = 0\<rparr>"

text \<open>Premade groups of two and of one player, and single players in the normal lists.\<close>

definition sample_queue :: BattlegroundQueue where
  "sample_queue = BattlegroundQueue_new\<lparr>
     bq_infos := [0 \<mapsto> sample_info ALLIANCE [10, 11], 1 \<mapsto> sample_info HORDE [20], 2 \<mapsto> sample_info ALLIANCE [12],
                  3 \<mapsto> sample_info HORDE [21], 4 \<mapsto> sample_info ALLIANCE [13]],
     m_QueuedGroups := (\<lambda>b i. if b \<noteq> 0 then [] else if i = 0 then [0] else if i = 1 then [1] else if i = 2 then [2, 4]
                              else if i = 3 then [3] else []),
     bq_nextInfo := 5\<rparr>"

lemma sample_queue_ok: "live_lists 0 sample_queue" "empty_pools sample_queue"
  by (auto simp: live_lists_def empty_pools_def sample_queue_def BattlegroundQueue_new_def)

lemmas sample_simps = sample_queue_def sample_info_def BattlegroundQueue_new_def bg_indices Pool_Init_def

lemma fill_selected:
  assumes "live_lists bracket q" and "empty_pools q" and "uint aliFree < 2 ^ 31" and "uint hordeFree < 2 ^ 31"
  shows "\<exists>q'. FillPlayersToBG invitationType aliFree hordeFree bracket q = Some q' \<and>
     selected_ok (bq_infos q) (m_QueuedGroups q bracket BG_QUEUE_NORMAL_ALLIANCE) aliFree (m_SelectionPools q' TEAM_ALLIANCE) \<and>
     selected_ok (bq_infos q) (m_QueuedGroups q bracket BG_QUEUE_NORMAL_HORDE) hordeFree (m_SelectionPools q' TEAM_HORDE) \<and>
     (invitationType \<noteq> 0 \<longrightarrow> even_sides aliFree hordeFree (m_SelectionPools q' TEAM_ALLIANCE) (m_SelectionPools q' TEAM_HORDE))"
proof -
  let ?I = "bq_infos q" and ?A = "m_QueuedGroups q bracket BG_QUEUE_NORMAL_ALLIANCE" and ?H = "m_QueuedGroups q bracket BG_QUEUE_NORMAL_HORDE"
  have live: "\<forall>a \<in> set ?A. ?I a \<noteq> None" "\<forall>a \<in> set ?H. ?I a \<noteq> None"
    using live_list [OF assms(1), of BG_QUEUE_NORMAL_ALLIANCE] live_list [OF assms(1), of BG_QUEUE_NORMAL_HORDE]
    by (simp_all add: bg_indices)
  obtain ar ali hr horde where
    a: "add_groups ?I aliFree ?A Pool_Init = Some (ar, ali)" and h: "add_groups ?I hordeFree ?H Pool_Init = Some (hr, horde)"
    using add_groups_returns live by (metis surj_pair)
  note as = add_groups_side [OF a side_start order_refl] and hs = add_groups_side [OF h side_start order_refl]
  obtain ali' horde' r r' where
    b: "balance ?I aliFree hordeFree (ali, ar) (horde, hr) = Some (ali', horde')"
      "side_ok ?I ?A aliFree ali' r" "side_ok ?I ?H hordeFree horde' r'" "even_sides aliFree hordeFree ali' horde'"
    using balance_side [OF as hs assms(3,4)] live by blast
  show ?thesis
    using a h b(1,4) side_selected [OF b(2)] side_selected [OF b(3)] side_selected [OF as] side_selected [OF hs] assms(2)
    by (simp add: FillPlayersToBG_def empty_pools_def bg_indices)
qed

text \<open>
  C11: FillPlayersToBG returns on every queue of live groups; each pool holds distinct waiting
  groups of its list whose players are counted right and fit the free slots, and unless configured
  otherwise the teams are left with equally many free slots, up to one, or the team with fewer has
  nobody selected whom it could give up.
\<close>

theorem fill_within_free_slots:
  assumes "live_lists bracket q" and "empty_pools q" and "uint aliFree < 2 ^ 31" and "uint hordeFree < 2 ^ 31"
  shows "\<exists>q'. FillPlayersToBG invitationType aliFree hordeFree bracket q = Some q' \<and>
     selected_ok (bq_infos q) (m_QueuedGroups q bracket BG_QUEUE_NORMAL_ALLIANCE) aliFree (m_SelectionPools q' TEAM_ALLIANCE) \<and>
     selected_ok (bq_infos q) (m_QueuedGroups q bracket BG_QUEUE_NORMAL_HORDE) hordeFree (m_SelectionPools q' TEAM_HORDE) \<and>
     (invitationType \<noteq> 0 \<longrightarrow> even_sides aliFree hordeFree (m_SelectionPools q' TEAM_ALLIANCE) (m_SelectionPools q' TEAM_HORDE))"
  using fill_selected [OF assms] .

theorem fill_within_free_slots_witness:
  "\<exists>q'. FillPlayersToBG 1 3 1 0 sample_queue = Some q' \<and> even_sides 3 1 (m_SelectionPools q' TEAM_ALLIANCE) (m_SelectionPools q' TEAM_HORDE)"
  using fill_within_free_slots [OF sample_queue_ok, of 3 1 1] by auto

subsection \<open>Normal matches\<close>

lemma side_skip: "side_ok I Q free p (a # rest) \<Longrightarrow> side_ok I Q free p rest"
  using subseq_drop1 [of "SelectedGroups p" a rest Q] by (simp add: side_ok_def)

lemma fill_pool_ok:
  "side_ok I Q limit p rest \<Longrightarrow> \<forall>a \<in> set rest. I a \<noteq> None \<Longrightarrow>
     \<exists>itr p'. fill_pool I minPlayers limit rest p = Some (itr, p') \<and> side_ok I Q limit p' (tl itr) \<and> set itr \<subseteq> set rest \<and>
       (itr = [] \<longrightarrow> PlayerCount p' < minPlayers \<or> minPlayers \<le> PlayerCount p)"
proof (induction I minPlayers limit rest p rule: fill_pool.induct)
  case (1 I minPlayers limit p)
  then show ?case by (auto simp: not_le)
next
  case (2 I minPlayers limit a as p)
  obtain g where g: "I a = Some g" using "2.prems"(2) by auto
  note skip = side_skip [OF "2.prems"(1)]
  show ?case
  proof (cases "gq_invited g = 0")
    case False
    then show ?thesis using "2.IH"(1) [OF g _ skip] "2.prems"(2) g by auto
  next
    case True
    obtain b p1 where p1: "Pool_AddGroup I a limit p = Some (b, p1)" using AddGroup_returns [of I a g] g by blast
    note s1 = AddGroup_side [OF p1 "2.prems"(1) order_refl]
    show ?thesis
    proof (cases "minPlayers \<le> PlayerCount p1")
      case m: True
      then show ?thesis using g True p1 s1 by simp
    next
      case m: False
      have "\<forall>a \<in> set as. I a \<noteq> None" using "2.prems"(2) by simp
      then show ?thesis using "2.IH"(2) [OF g _ p1 refl m s1] True g p1 m by auto
    qed
  qed
qed

lemma offer_waiting_ok:
  "side_ok I Q limit p rest \<Longrightarrow> \<forall>a \<in> set rest. I a \<noteq> None \<Longrightarrow> desired \<le> limit \<Longrightarrow>
     \<exists>p'. offer_waiting I desired rest p = Some p' \<and> selected_ok I Q limit p' \<and> PlayerCount p \<le> PlayerCount p'"
proof (induction I desired rest p rule: offer_waiting.induct)
  case (1 I desired p)
  then show ?case using side_selected [OF "1.prems"(1)] by simp
next
  case (2 I desired a as p)
  obtain g where g: "I a = Some g" using "2.prems"(2) by auto
  note skip = side_skip [OF "2.prems"(1)]
  show ?case
  proof (cases "gq_invited g = 0")
    case False
    then show ?thesis using "2.IH"(1) [OF g _ skip] "2.prems"(2,3) g by auto
  next
    case True
    obtain b p1 where p1: "Pool_AddGroup I a desired p = Some (b, p1)" using AddGroup_returns [of I a g] g by blast
    note s1 = AddGroup_side [OF p1 "2.prems"(1,3)]
    have le: "PlayerCount p \<le> PlayerCount p1"
      using AddGroup_ok(3) [OF p1] "2.prems"(1) by (simp add: side_ok_def)
    show ?thesis
    proof (cases b)
      case b: True
      have "\<forall>a \<in> set as. I a \<noteq> None" using "2.prems"(2) by simp
      then show ?thesis using "2.IH"(2) [OF g _ p1 refl b s1 _ "2.prems"(3)] True g p1 b le by (auto intro: order_trans)
    next
      case b: False
      then show ?thesis using g True p1 side_selected [OF s1] le by simp
    qed
  qed
qed

lemma even_up_ok:
  assumes "side_ok I Q limit p (tl itr)" and "itr \<noteq> []" and "\<forall>a \<in> set itr. I a \<noteq> None" and "PlayerCount other \<le> limit"
  shows "\<exists>p'. even_up I other itr p = Some p' \<and> selected_ok I Q limit p' \<and> PlayerCount p \<le> PlayerCount p'"
proof (cases itr)
  case (Cons a as)
  then show ?thesis using offer_waiting_ok [of I Q limit p as "PlayerCount other"] assms by (simp add: even_up_def)
qed (use assms(2) in simp)

text \<open>
  C14: On a queue of live groups with cleared pools CheckNormalMatch selects distinct waiting
  groups within the maximum of a team, leaves the lists alone, and reports a match exactly when
  both sides have the minimum (or, in the debug mode of battlegrounds, anybody is selected at all)
  and, with the even invitation type and the minimum on both sides, the sides differ by at most
  two (for a minimum above zero and a maximum below 2^31).
\<close>

theorem normal_match_even:
  assumes "live_lists bracket q" and "empty_pools q" and "0 < minPlayers" and "uint maxPlayers < 2 ^ 31"
  shows "\<exists>found q' ali horde. CheckNormalMatch invitationType testing bracket minPlayers maxPlayers q = Some (found, q') \<and>
     m_QueuedGroups q' = m_QueuedGroups q \<and> ali = m_SelectionPools q' TEAM_ALLIANCE \<and> horde = m_SelectionPools q' TEAM_HORDE \<and>
     selected_ok (bq_infos q) (m_QueuedGroups q bracket BG_QUEUE_NORMAL_ALLIANCE) maxPlayers ali \<and>
     selected_ok (bq_infos q) (m_QueuedGroups q bracket BG_QUEUE_NORMAL_HORDE) maxPlayers horde \<and>
     (let enough = minPlayers \<le> PlayerCount ali \<and> minPlayers \<le> PlayerCount horde in
      found \<longleftrightarrow> (enough \<or> testing \<and> (PlayerCount ali \<noteq> 0 \<or> PlayerCount horde \<noteq> 0)) \<and>
        (invitationType \<noteq> 0 \<and> enough \<longrightarrow> \<bar>uint (PlayerCount ali) - uint (PlayerCount horde)\<bar> \<le> 2))"
proof -
  let ?I = "bq_infos q" and ?A = "m_QueuedGroups q bracket BG_QUEUE_NORMAL_ALLIANCE" and ?H = "m_QueuedGroups q bracket BG_QUEUE_NORMAL_HORDE"
  have live: "\<forall>a \<in> set ?A. ?I a \<noteq> None" "\<forall>a \<in> set ?H. ?I a \<noteq> None"
    using live_list [OF assms(1), of BG_QUEUE_NORMAL_ALLIANCE] live_list [OF assms(1), of BG_QUEUE_NORMAL_HORDE]
    by (simp_all add: bg_indices)
  have no: "\<not> minPlayers \<le> PlayerCount Pool_Init" using assms(3) by (simp add: Pool_Init_def not_le)
  obtain itrA ali where a: "fill_pool ?I minPlayers maxPlayers ?A Pool_Init = Some (itrA, ali)"
    "side_ok ?I ?A maxPlayers ali (tl itrA)" "set itrA \<subseteq> set ?A" "minPlayers \<le> PlayerCount ali \<Longrightarrow> itrA \<noteq> []"
    using fill_pool_ok [where limit = maxPlayers and minPlayers = minPlayers, OF side_start live(1)] no by (auto simp: not_le)
  obtain itrH horde where h: "fill_pool ?I minPlayers maxPlayers ?H Pool_Init = Some (itrH, horde)"
    "side_ok ?I ?H maxPlayers horde (tl itrH)" "set itrH \<subseteq> set ?H" "minPlayers \<le> PlayerCount horde \<Longrightarrow> itrH \<noteq> []"
    using fill_pool_ok [where limit = maxPlayers and minPlayers = minPlayers, OF side_start live(2)] no by (auto simp: not_le)
  let ?evening = "invitationType \<noteq> 0 \<and> minPlayers \<le> PlayerCount horde \<and> minPlayers \<le> PlayerCount ali"
  obtain ali' horde' where
    e: "(if \<not> ?evening then Some (ali, horde)
         else if PlayerCount horde < PlayerCount ali then map_option (Pair ali) (even_up ?I ali itrH horde)
         else map_option (\<lambda>ali. (ali, horde)) (even_up ?I horde itrA ali)) = Some (ali', horde')"
    and ok: "selected_ok ?I ?A maxPlayers ali'" "selected_ok ?I ?H maxPlayers horde'"
    and le: "PlayerCount ali \<le> PlayerCount ali'" "PlayerCount horde \<le> PlayerCount horde'"
  proof (cases ?evening)
    case False
    then show ?thesis using that [of ali horde] side_selected [OF a(2)] side_selected [OF h(2)] by simp
  next
    case True
    have lim: "PlayerCount ali \<le> maxPlayers" "PlayerCount horde \<le> maxPlayers" using a(2) h(2) by (simp_all add: side_ok_def)
    obtain x where x: "even_up ?I ali itrH horde = Some x" "selected_ok ?I ?H maxPlayers x" "PlayerCount horde \<le> PlayerCount x"
      using even_up_ok [OF h(2), of ali] h(3,4) live(2) True lim by auto
    obtain y where y: "even_up ?I horde itrA ali = Some y" "selected_ok ?I ?A maxPlayers y" "PlayerCount ali \<le> PlayerCount y"
      using even_up_ok [OF a(2), of horde] a(3,4) live(1) True lim by auto
    show ?thesis
      using that [of ali x] that [of y horde] x y True side_selected [OF a(2)] side_selected [OF h(2)]
      by (cases "PlayerCount horde < PlayerCount ali") simp_all
  qed
  have small: "uint (PlayerCount ali') < 2 ^ 31" "uint (PlayerCount horde') < 2 ^ 31"
    using ok assms(4) by (auto simp: selected_ok_def word_le_def)
  note d = sint_difference [OF small(2,1)]
  let ?q = "put_pool TEAM_HORDE horde' (put_pool TEAM_ALLIANCE ali' q)"
  have c: "CheckNormalMatch invitationType testing bracket minPlayers maxPlayers q =
      (if ?evening \<and> \<bar>sint (PlayerCount horde' - PlayerCount ali')\<bar> > 2 then Some (False, ?q)
       else if testing \<and> (PlayerCount ali' \<noteq> 0 \<or> PlayerCount horde' \<noteq> 0) then Some (True, ?q)
       else Some (minPlayers \<le> PlayerCount ali' \<and> minPlayers \<le> PlayerCount horde', ?q))"
    using a(1) h(1) assms(2) by (simp only: CheckNormalMatch_def empty_pools_def Let_def bind.simps prod.case e)
  have same: "\<not> ?evening \<Longrightarrow> ali' = ali \<and> horde' = horde" using e by (simp split: if_splits)
  have lists: "m_QueuedGroups ?q = m_QueuedGroups q" and pools: "m_SelectionPools ?q TEAM_ALLIANCE = ali'" "m_SelectionPools ?q TEAM_HORDE = horde'"
    by (simp_all add: bg_indices)
  let ?enough = "minPlayers \<le> PlayerCount ali' \<and> minPlayers \<le> PlayerCount horde'"
  have ev: "?evening \<longleftrightarrow> invitationType \<noteq> 0 \<and> ?enough" using same le by (cases ?evening) auto
  have r: "found \<longleftrightarrow> (?enough \<or> testing \<and> (PlayerCount ali' \<noteq> 0 \<or> PlayerCount horde' \<noteq> 0)) \<and>
      (invitationType \<noteq> 0 \<and> ?enough \<longrightarrow> \<bar>uint (PlayerCount ali') - uint (PlayerCount horde')\<bar> \<le> 2)"
    if f: "Some (found, ?q) = CheckNormalMatch invitationType testing bracket minPlayers maxPlayers q" for found
    using f unfolding c ev d by (auto split: if_splits)
  obtain found where f: "CheckNormalMatch invitationType testing bracket minPlayers maxPlayers q = Some (found, ?q)"
  proof -
    have "\<exists>found. (if X then Some (False, ?q) else if Y then Some (True, ?q) else Some (Z, ?q)) = Some (found, ?q)" for X Y Z
      by auto
    then show thesis using that unfolding c by blast
  qed
  show ?thesis
    by (rule exI [of _ found], rule exI [of _ ?q], rule exI [of _ ali'], rule exI [of _ horde'])
      (use f lists pools ok r [OF f [symmetric]] in simp)
qed

theorem normal_match_even_witness:
  "\<exists>q'. CheckNormalMatch 1 False 0 1 2 sample_queue = Some (True, q') \<and>
     \<bar>uint (PlayerCount (m_SelectionPools q' TEAM_ALLIANCE)) - uint (PlayerCount (m_SelectionPools q' TEAM_HORDE))\<bar> \<le> 2"
proof -
  have "map_option fst (CheckNormalMatch 1 False 0 1 2 sample_queue) = Some True"
    by (simp add: CheckNormalMatch_def sample_simps even_up_def Pool_AddGroup_def Let_def)
  then obtain q' where q': "CheckNormalMatch 1 False 0 1 2 sample_queue = Some (True, q')" by auto
  show ?thesis using normal_match_even [OF sample_queue_ok, of 1 2 1 False] by (force simp: q')
qed

subsection \<open>Premade matches\<close>

lemma offer_waiting_full:
  "\<forall>a \<in> set as. \<forall>g. I a = Some g \<longrightarrow> gq_players g \<noteq> [] \<Longrightarrow> desired \<le> PlayerCount p \<Longrightarrow>
     offer_waiting I desired as p = Some p' \<Longrightarrow> p' = p"
proof (induction I desired as p rule: offer_waiting.induct)
  case (2 I desired a as p)
  obtain g where g: "I a = Some g" using "2.prems"(3) by (auto split: option.splits)
  have "0 < length (gq_players g)" "unat desired \<le> unat (PlayerCount p)"
    using "2.prems"(1,2) g by (auto simp: word_le_nat_alt)
  then have "\<not> unat (PlayerCount p) + length (gq_players g) \<le> unat desired" by linarith
  then have "Pool_AddGroup I a desired p = Some (PlayerCount p < desired, p)"
    using g by (simp add: Pool_AddGroup_def)
  then show ?case using "2.prems" g "2.IH"(1) [OF g] by (auto split: if_splits)
qed simp

lemma first_waiting_SomeD:
  "first_waiting I as = Some (Some a) \<Longrightarrow> a \<in> set as \<and> waiting I a"
  by (induction as) (auto simp: waiting_def split: option.splits if_splits)

lemma AddGroup_start:
  assumes "waiting I a" and "group_size I a \<le> unat limit"
  shows "Pool_AddGroup I a limit Pool_Init = Some (True, \<lparr>SelectedGroups = [a], PlayerCount = of_nat (group_size I a)\<rparr>)"
  using assms by (auto simp: Pool_AddGroup_def waiting_def group_size_def Pool_Init_def)

text \<open>
  C38: A match of two premade groups takes nobody from the normal queues: each side is the one
  premade group, whatever the difference of their sizes (groups are not empty and fit a team).
\<close>

theorem premade_match_takes_no_others:
  assumes "CheckPremadeMatch now waitForMatch bracket minPlayers maxPlayers q = Some (True, q')" and "empty_pools q"
    and "\<forall>i. \<forall>a \<in> set (m_QueuedGroups q bracket i). 0 < group_size (bq_infos q) a \<and> group_size (bq_infos q) a \<le> unat maxPlayers"
  shows "\<exists>a h. a \<in> set (m_QueuedGroups q bracket BG_QUEUE_PREMADE_ALLIANCE) \<and> h \<in> set (m_QueuedGroups q bracket BG_QUEUE_PREMADE_HORDE) \<and>
     SelectedGroups (m_SelectionPools q' TEAM_ALLIANCE) = [a] \<and> SelectedGroups (m_SelectionPools q' TEAM_HORDE) = [h]"
proof -
  let ?I = "bq_infos q" and ?L = "m_QueuedGroups q bracket"
  obtain a h pools where w: "first_waiting ?I (?L BG_QUEUE_PREMADE_ALLIANCE) = Some (Some a)"
      "first_waiting ?I (?L BG_QUEUE_PREMADE_HORDE) = Some (Some h)"
    and p: "premade_pools ?I maxPlayers a h (?L BG_QUEUE_NORMAL_ALLIANCE) (?L BG_QUEUE_NORMAL_HORDE) (Pool_Init, Pool_Init) = Some pools"
    and q': "q' = put_pool TEAM_HORDE (snd pools) (put_pool TEAM_ALLIANCE (fst pools) q)"
    using assms(1,2) by (auto simp: CheckPremadeMatch_def empty_pools_def Let_def split: bind_splits option.splits if_splits prod.splits)
  note w' = first_waiting_SomeD [OF w(1)] first_waiting_SomeD [OF w(2)]
  note s = AddGroup_start [of ?I a maxPlayers] AddGroup_start [of ?I h maxPlayers]
  have full: "offer_waiting ?I d (?L i) p = Some p' \<Longrightarrow> d \<le> PlayerCount p \<Longrightarrow> p' = p" for d i p p'
    using offer_waiting_full [of "?L i" ?I d p p'] assms(3) by (fastforce simp: group_size_def)
  have "fst pools = \<lparr>SelectedGroups = [a], PlayerCount = of_nat (group_size ?I a)\<rparr> \<and>
      snd pools = \<lparr>SelectedGroups = [h], PlayerCount = of_nat (group_size ?I h)\<rparr>"
    using p s w' assms(3) by (auto simp: premade_pools_def Let_def split: bind_splits dest!: full)
  then show ?thesis using w' q' by (auto simp: bg_indices)
qed

text \<open>The two premade groups play two against one although a player waits on the smaller side.\<close>

theorem premade_match_takes_no_others_witness:
  "\<exists>q' h. CheckPremadeMatch 0 0 0 1 10 sample_queue = Some (True, q') \<and>
     h \<in> set (m_QueuedGroups sample_queue 0 BG_QUEUE_PREMADE_HORDE) \<and> SelectedGroups (m_SelectionPools q' TEAM_HORDE) = [h] \<and>
     PlayerCount (m_SelectionPools q' TEAM_ALLIANCE) = 2 \<and> PlayerCount (m_SelectionPools q' TEAM_HORDE) = 1 \<and>
     waiting (bq_infos sample_queue) 3"
proof -
  have "map_option (\<lambda>x. (fst x, PlayerCount (m_SelectionPools (snd x) TEAM_ALLIANCE), PlayerCount (m_SelectionPools (snd x) TEAM_HORDE)))
      (CheckPremadeMatch 0 0 0 1 10 sample_queue) = Some (True, 2, 1)" by code_simp
  then obtain q' where q': "CheckPremadeMatch 0 0 0 1 10 sample_queue = Some (True, q')"
    "PlayerCount (m_SelectionPools q' TEAM_ALLIANCE) = 2" "PlayerCount (m_SelectionPools q' TEAM_HORDE) = 1" by auto
  have "\<forall>i. \<forall>a \<in> set (m_QueuedGroups sample_queue 0 i). 0 < group_size (bq_infos sample_queue) a \<and>
      group_size (bq_infos sample_queue) a \<le> unat (10 :: u32)"
    by (auto simp: sample_queue_def sample_info_def group_size_def)
  from premade_match_takes_no_others [OF q'(1) sample_queue_ok(2) this] q' show ?thesis
    by (auto simp: waiting_def sample_queue_def sample_info_def)
qed

end
