(* ===== verification/BgConsistency.thy ===== *)
theory BgConsistency
  imports BgSelection
begin

text \<open>
  The invariant of the battleground queues: the players, the groups and the lists of a queue refer to each
  other as the code assumes, whatever the order of joins, answers, updates and events.
\<close>

subsection \<open>The invariant\<close>

definition players_of :: "infos \<Rightarrow> nat \<Rightarrow> u64 list option" where
  "players_of I a = map_option gq_players (I a)"

definition team_of :: "infos \<Rightarrow> nat \<Rightarrow> u32 option" where
  "team_of I a = map_option gq_team (I a)"

text \<open>Every queued player points to a group that has the player, and every player of a group is queued for it.\<close>

definition queue_members_ok :: "(u64 \<times> PlayerQueueInfo) list \<Rightarrow> (nat \<Rightarrow> u64 list option) \<Rightarrow> bool" where
  "queue_members_ok ps P \<longleftrightarrow> om_ok ps \<and>
     (\<forall>m p. map_of ps m = Some p \<longrightarrow> (\<exists>ms. P (pq_GroupInfo p) = Some ms \<and> m \<in> set ms)) \<and>
     (\<forall>a ms. P a = Some ms \<longrightarrow> os_ok ms \<and> ms \<noteq> [] \<and> (\<forall>m \<in> set ms. \<exists>p. map_of ps m = Some p \<and> pq_GroupInfo p = a))"

text \<open>Every group stands in one list, once, and the list is one of its team.\<close>

definition list_team :: "nat \<Rightarrow> u32" where
  "list_team i = (if odd i then HORDE else ALLIANCE)"

definition lists_ok :: "(nat \<Rightarrow> nat \<Rightarrow> nat list) \<Rightarrow> (nat \<Rightarrow> u32 option) \<Rightarrow> bool" where
  "lists_ok L T \<longleftrightarrow>
     (\<forall>b i. distinct (L b i)) \<and>
     (\<forall>b i a. a \<in> set (L b i) \<longrightarrow> b < MAX_BATTLEGROUND_BRACKETS \<and> i < BG_QUEUE_GROUP_TYPES_COUNT \<and> T a = Some (list_team i)) \<and>
     (\<forall>b i b' i' a. a \<in> set (L b i) \<longrightarrow> a \<in> set (L b' i') \<longrightarrow> b' = b \<and> i' = i) \<and>
     (\<forall>a. T a \<noteq> None \<longrightarrow> (\<exists>b i. a \<in> set (L b i)))"

text \<open>The sums of waiting times are the sums of the last ten.\<close>

definition times_ok :: "BattlegroundQueue \<Rightarrow> bool" where
  "times_ok q \<longleftrightarrow> (\<forall>t b. length (m_WaitTimes q t b) = COUNT_OF_PLAYERS_TO_AVERAGE_WAIT_TIME \<and>
     m_WaitTimeLastPlayer q t b < 10 \<and> m_SumOfWaitTimes q t b = sum_list (m_WaitTimes q t b))"

definition queue_ok :: "BattlegroundQueue \<Rightarrow> bool" where
  "queue_ok q \<longleftrightarrow> queue_members_ok (m_QueuedPlayers q) (players_of (bq_infos q)) \<and>
     lists_ok (m_QueuedGroups q) (team_of (bq_infos q)) \<and>
     (\<forall>a. bq_infos q a \<noteq> None \<longrightarrow> a < bq_nextInfo q) \<and> times_ok q"

definition queues_ok :: "BgWorld \<Rightarrow> bool" where
  "queues_ok W \<longleftrightarrow> (\<forall>qt. queue_ok (bw_queues W qt))"

lemma queue_ok_new [simp]: "queue_ok BattlegroundQueue_new"
  by (simp add: queue_ok_def BattlegroundQueue_new_def queue_members_ok_def lists_ok_def times_ok_def players_of_def team_of_def)
    (simp add: COUNT_OF_PLAYERS_TO_AVERAGE_WAIT_TIME_def eval_nat_numeral)

lemma queue_ok_live: "queue_ok q \<Longrightarrow> a \<in> set (m_QueuedGroups q b i) \<Longrightarrow> \<exists>g. bq_infos q a = Some g \<and> gq_team g = list_team i"
  by (fastforce simp: queue_ok_def lists_ok_def team_of_def)

lemma queue_ok_live_lists: "queue_ok q \<Longrightarrow> live_lists b q"
  using queue_ok_live by (fastforce simp: live_lists_def)

subsection \<open>What the invariant does not depend on\<close>

lemma queue_ok_cong:
  assumes "m_QueuedPlayers q' = m_QueuedPlayers q" and "m_QueuedGroups q' = m_QueuedGroups q"
    and "players_of (bq_infos q') = players_of (bq_infos q)" and "team_of (bq_infos q') = team_of (bq_infos q)"
    and "bq_nextInfo q' = bq_nextInfo q" and "m_WaitTimes q' = m_WaitTimes q"
    and "m_WaitTimeLastPlayer q' = m_WaitTimeLastPlayer q" and "m_SumOfWaitTimes q' = m_SumOfWaitTimes q"
  shows "queue_ok q' = queue_ok q"
proof -
  have "bq_infos q' a \<noteq> None \<longleftrightarrow> bq_infos q a \<noteq> None" for a
    using fun_cong [OF assms(4), of a] by (cases "bq_infos q a"; cases "bq_infos q' a") (simp_all add: team_of_def)
  then show ?thesis using assms by (simp add: queue_ok_def times_ok_def)
qed

lemma queue_ok_put_pool [simp]: "queue_ok (put_pool j p q) = queue_ok q"
  by (rule queue_ok_cong) (simp_all add: put_pool_def)

lemma queue_ok_init_pools [simp]: "queue_ok (init_pools q) = queue_ok q"
  by (simp add: init_pools_def)

lemma queue_ok_events [simp]: "queue_ok (q\<lparr>m_events := e\<rparr>) = queue_ok q"
  by (rule queue_ok_cong) simp_all

lemma queue_ok_AddBgEvent [simp]: "queue_ok (AddBgEvent e t q) = queue_ok q"
  by (rule queue_ok_cong) (simp_all add: AddBgEvent_def Let_def)

text \<open>A change of a group that leaves its players and its team.\<close>

lemma of_at_info:
  "players_of (bq_infos (at_info a f q)) = (players_of (bq_infos q))(a := map_option (\<lambda>g. gq_players (f g)) (bq_infos q a))"
  "team_of (bq_infos (at_info a f q)) = (team_of (bq_infos q))(a := map_option (\<lambda>g. gq_team (f g)) (bq_infos q a))"
  by (auto simp: at_info_def players_of_def team_of_def fun_eq_iff option.map_comp comp_def)

lemma queue_ok_at_info:
  assumes "\<forall>g. bq_infos q a = Some g \<longrightarrow> gq_players (f g) = gq_players g \<and> gq_team (f g) = gq_team g"
  shows "queue_ok (at_info a f q) = queue_ok q"
  by (rule queue_ok_cong) (use assms in \<open>auto simp: of_at_info players_of_def team_of_def fun_eq_iff at_info_def\<close>, 
     (cases "bq_infos q a"; simp)+)

subsection \<open>Waiting times\<close>

lemma sum_list_update_word: "k < length xs \<Longrightarrow> sum_list (xs[k := x]) = sum_list xs - xs ! k + (x :: u32)"
  by (induction xs arbitrary: k) (auto split: nat.split)

lemma wait_time_ok:
  assumes "times_ok q"
  shows "\<exists>q'. PlayerInvitedToBGUpdateAverageWaitTime now g bracket q = Some q' \<and> times_ok q' \<and> bq_infos q' = bq_infos q \<and>
     m_QueuedPlayers q' = m_QueuedPlayers q \<and> m_QueuedGroups q' = m_QueuedGroups q \<and> m_SelectionPools q' = m_SelectionPools q \<and>
     bq_nextInfo q' = bq_nextInfo q"
proof -
  let ?t = "wait_team_index g"
  let ?k = "m_WaitTimeLastPlayer q ?t bracket"
  have len: "length (m_WaitTimes q t b) = COUNT_OF_PLAYERS_TO_AVERAGE_WAIT_TIME" and lt: "m_WaitTimeLastPlayer q t b < 10"
    and s: "m_SumOfWaitTimes q t b = sum_list (m_WaitTimes q t b)" for t b
    using assms by (auto simp: times_ok_def)
  have k: "unat ?k < COUNT_OF_PLAYERS_TO_AVERAGE_WAIT_TIME"
    using lt [of ?t bracket] by (simp add: word_less_nat_alt COUNT_OF_PLAYERS_TO_AVERAGE_WAIT_TIME_def)
  have m: "(x + 1) mod 10 < 10" for x :: u32 by (simp add: word_mod_less_divisor)
  obtain q' where q': "PlayerInvitedToBGUpdateAverageWaitTime now g bracket q = Some q'"
    using k len by (simp add: PlayerInvitedToBGUpdateAverageWaitTime_def Let_def)
  then have "times_ok q'"
    using len lt s k m sum_list_update_word [of "unat ?k" "m_WaitTimes q ?t bracket"]
    by (auto simp: PlayerInvitedToBGUpdateAverageWaitTime_def Let_def times_ok_def)
  then show ?thesis using q' k len by (auto simp: PlayerInvitedToBGUpdateAverageWaitTime_def Let_def)
qed

subsection \<open>Joining\<close>

lemma queue_players_simps [simp]:
  "m_QueuedGroups (queue_players now a ms q) = m_QueuedGroups q" "bq_nextInfo (queue_players now a ms q) = bq_nextInfo q"
  "m_WaitTimes (queue_players now a ms q) = m_WaitTimes q" "m_WaitTimeLastPlayer (queue_players now a ms q) = m_WaitTimeLastPlayer q"
  "m_SumOfWaitTimes (queue_players now a ms q) = m_SumOfWaitTimes q" "m_SelectionPools (queue_players now a ms q) = m_SelectionPools q"
  by (induction now a ms q rule: queue_players.induct) (simp_all add: at_info_def)

lemma queue_players_infos:
  "bq_infos (queue_players now a ms q) =
     (bq_infos q)(a := map_option (\<lambda>g. g\<lparr>gq_players := foldl (\<lambda>s m. os_insert m s) (gq_players g) ms\<rparr>) (bq_infos q a))"
  by (induction now a ms q rule: queue_players.induct) (auto simp: at_info_def option.map_comp comp_def fun_eq_iff option.map_ident)

lemma map_of_queue_players:
  "map_of (m_QueuedPlayers (queue_players now a ms q)) m =
     (if m \<in> set ms then Some \<lparr>pq_LastOnlineTime = now, pq_GroupInfo = a\<rparr> else map_of (m_QueuedPlayers q) m)"
  by (induction now a ms q rule: queue_players.induct) (auto simp: at_info_def)

lemma om_ok_queue_players: "om_ok (m_QueuedPlayers q) \<Longrightarrow> om_ok (m_QueuedPlayers (queue_players now a ms q))"
  by (induction now a ms q rule: queue_players.induct) (auto simp: at_info_def)

lemma set_foldl_insert: "set (foldl (\<lambda>s m. os_insert m s) s ms) = set s \<union> set ms"
  by (induction ms arbitrary: s) auto

lemma os_ok_foldl_insert: "os_ok s \<Longrightarrow> os_ok (foldl (\<lambda>s m. os_insert m s) s ms)"
  by (induction ms arbitrary: s) auto

lemma list_team_index: "team \<in> {ALLIANCE, HORDE} \<Longrightarrow> list_team (group_index isRated isPremade team) = team"
  by (auto simp: list_team_def group_index_def BG_TEAMS_COUNT_def)

lemma group_index_bound: "group_index isRated isPremade team < BG_QUEUE_GROUP_TYPES_COUNT"
  by (simp add: group_index_def bg_indices)

text \<open>
  What the invariant needs of a join: the players are not in the queue yet. The handlers look at the slots of the
  members, except when the group is larger than the battleground allows.
\<close>

definition may_join :: "u32 \<Rightarrow> u64 list \<Rightarrow> nat \<Rightarrow> BattlegroundQueue \<Rightarrow> bool" where
  "may_join team ms bracket q \<longleftrightarrow> team \<in> {ALLIANCE, HORDE} \<and> ms \<noteq> [] \<and> bracket < MAX_BATTLEGROUND_BRACKETS \<and>
     (\<forall>m \<in> set ms. map_of (m_QueuedPlayers q) m = None)"

lemma lists_okI:
  assumes "\<And>b i. distinct (L b i)"
    and "\<And>b i a. a \<in> set (L b i) \<Longrightarrow> b < MAX_BATTLEGROUND_BRACKETS \<and> i < BG_QUEUE_GROUP_TYPES_COUNT \<and> T a = Some (list_team i)"
    and "\<And>b i b' i' a. a \<in> set (L b i) \<Longrightarrow> a \<in> set (L b' i') \<Longrightarrow> b' = b \<and> i' = i"
    and "\<And>a. T a \<noteq> None \<Longrightarrow> \<exists>b i. a \<in> set (L b i)"
  shows "lists_ok L T"
  using assms unfolding lists_ok_def by blast

lemma lists_okD:
  assumes "lists_ok L T"
  shows "distinct (L b i)"
    and "a \<in> set (L b i) \<Longrightarrow> b < MAX_BATTLEGROUND_BRACKETS \<and> i < BG_QUEUE_GROUP_TYPES_COUNT \<and> T a = Some (list_team i)"
    and "a \<in> set (L b i) \<Longrightarrow> a \<in> set (L b' i') \<Longrightarrow> b' = b \<and> i' = i"
    and "T a \<noteq> None \<Longrightarrow> \<exists>b i. a \<in> set (L b i)"
  using assms unfolding lists_ok_def by blast+

lemma lists_ok_add:
  assumes ok: "lists_ok L T" and a: "T a = None" and b: "b < MAX_BATTLEGROUND_BRACKETS" "i < BG_QUEUE_GROUP_TYPES_COUNT"
    and xs: "set xs = insert a (set (L b i))" "distinct xs"
  shows "lists_ok (L(b := (L b)(i := xs))) (T(a \<mapsto> list_team i))"
proof -
  let ?L = "L(b := (L b)(i := xs))"
  note d = lists_okD [OF ok]
  have out: "a \<notin> set (L b' i')" for b' i' using d(2) a by fastforce
  have s: "x \<in> set (?L c j) \<longleftrightarrow> x \<in> set (L c j) \<or> x = a \<and> c = b \<and> j = i" for x c j
    using xs(1) by auto
  show ?thesis
  proof (rule lists_okI)
    fix c j show "distinct (?L c j)" using d(1) xs(2) by auto
  next
    fix c j x assume "x \<in> set (?L c j)"
    then show "c < MAX_BATTLEGROUND_BRACKETS \<and> j < BG_QUEUE_GROUP_TYPES_COUNT \<and> (T(a \<mapsto> list_team i)) x = Some (list_team j)"
      using d(2) b out unfolding s by auto
  next
    fix c j c' j' x assume "x \<in> set (?L c j)" and "x \<in> set (?L c' j')"
    then show "c' = c \<and> j' = j" using d(3) out unfolding s by blast
  next
    fix x assume "(T(a \<mapsto> list_team i)) x \<noteq> None"
    then show "\<exists>c j. x \<in> set (?L c j)" using d(4) [of x] unfolding s by (cases "x = a") auto
  qed
qed

lemma queue_members_okI:
  assumes "om_ok ps" and "\<And>m p. map_of ps m = Some p \<Longrightarrow> \<exists>ms. P (pq_GroupInfo p) = Some ms \<and> m \<in> set ms"
    and "\<And>a ms. P a = Some ms \<Longrightarrow> os_ok ms \<and> ms \<noteq> [] \<and> (\<forall>m \<in> set ms. \<exists>p. map_of ps m = Some p \<and> pq_GroupInfo p = a)"
  shows "queue_members_ok ps P"
  using assms by (simp add: queue_members_ok_def)

lemma queue_members_okD:
  assumes "queue_members_ok ps P"
  shows "om_ok ps" and "map_of ps m = Some p \<Longrightarrow> \<exists>ms. P (pq_GroupInfo p) = Some ms \<and> m \<in> set ms"
    and "P a = Some ms \<Longrightarrow> os_ok ms \<and> ms \<noteq> []"
    and "P a = Some ms \<Longrightarrow> m \<in> set ms \<Longrightarrow> \<exists>p. map_of ps m = Some p \<and> pq_GroupInfo p = a"
  using assms by (auto simp: queue_members_ok_def)

lemma members_ok_add:
  assumes ok: "queue_members_ok ps P" and a: "P a = None" and new: "\<forall>m \<in> set ms. map_of ps m = None" and ne: "ms \<noteq> []" and om: "om_ok ps'"
    and ps: "\<And>m. map_of ps' m = (if m \<in> set ms then Some \<lparr>pq_LastOnlineTime = now, pq_GroupInfo = a\<rparr> else map_of ps m)"
    and s: "os_ok s" "set s = set ms"
  shows "queue_members_ok ps' (P(a \<mapsto> s))"
proof (rule queue_members_okI [OF om])
  fix m p assume m: "map_of ps' m = Some p"
  show "\<exists>ms. (P(a \<mapsto> s)) (pq_GroupInfo p) = Some ms \<and> m \<in> set ms"
  proof (cases "m \<in> set ms")
    case True
    then show ?thesis using m s(2) by (auto simp: ps)
  next
    case False
    then obtain l where "P (pq_GroupInfo p) = Some l" "m \<in> set l" using m queue_members_okD(2) [OF ok, of m p] by (auto simp: ps)
    then show ?thesis using a by auto
  qed
next
  fix b l assume b: "(P(a \<mapsto> s)) b = Some l"
  show "os_ok l \<and> l \<noteq> [] \<and> (\<forall>m \<in> set l. \<exists>p. map_of ps' m = Some p \<and> pq_GroupInfo p = b)"
  proof (cases "b = a")
    case True
    then show ?thesis using b s ne by (auto simp: ps)
  next
    case False
    then have "P b = Some l" using b by simp
    then show ?thesis using queue_members_okD(3,4) [OF ok] new by (fastforce simp: ps)
  qed
qed

lemma AddGroup_queue_ok:
  assumes "queue_ok q" and "may_join team (case members of Some ms \<Rightarrow> ms | None \<Rightarrow> [leader]) bracket q"
    and "BgQueue_AddGroup now leader team members bgTypeId bracket ratedType isRated isPremade rating mmr q = (a, q')"
  shows "queue_ok q'"
proof -
  let ?ms = "case members of Some ms \<Rightarrow> ms | None \<Rightarrow> [leader]"
  let ?i = "group_index isRated isPremade team"
  let ?P = "players_of (bq_infos q)" and ?T = "team_of (bq_infos q)"
  have a: "a = bq_nextInfo q" and new: "bq_infos q (bq_nextInfo q) = None"
    using assms(1,3) by (auto simp: BgQueue_AddGroup_def Let_def queue_ok_def)
  have q': "q' = put_list bracket ?i (m_QueuedGroups q bracket ?i @ [a]) (queue_players now a ?ms (q\<lparr>bq_nextInfo := Suc a,
      bq_infos := (bq_infos q)(a \<mapsto> \<lparr>gq_players = [], gq_team = team, gq_leaderGUID = leader, gq_bgTypeId = bgTypeId,
        gq_ratedType = ratedType, gq_isRated = isRated, gq_joinTime = now, gq_removeInviteTime = 0, gq_invited = 0,
        gq_teamRating = rating, gq_teamMMR = mmr, gq_opponentsRating = 0, gq_opponentsMMR = 0\<rparr>)\<rparr>))"
    using assms(3) a by (simp add: BgQueue_AddGroup_def Let_def split: option.splits)
  have P: "players_of (bq_infos q') = ?P(a \<mapsto> foldl (\<lambda>s m. os_insert m s) [] ?ms)" and T: "team_of (bq_infos q') = ?T(a \<mapsto> team)"
    by (simp_all add: q' queue_players_infos players_of_def team_of_def fun_eq_iff)
  have L: "m_QueuedGroups q' = (m_QueuedGroups q)(bracket := (m_QueuedGroups q bracket)(?i := m_QueuedGroups q bracket ?i @ [a]))"
    and nx: "bq_nextInfo q' = Suc a" and ti: "times_ok q'"
    using assms(1) by (simp_all add: q' put_list_def times_ok_def queue_ok_def)
  have ps: "map_of (m_QueuedPlayers q') m = (if m \<in> set ?ms then Some \<lparr>pq_LastOnlineTime = now, pq_GroupInfo = a\<rparr>
      else map_of (m_QueuedPlayers q) m)" for m
    by (simp add: q' map_of_queue_players)
  have m: "queue_members_ok (m_QueuedPlayers q) ?P" and l: "lists_ok (m_QueuedGroups q) ?T" using assms(1) by (simp_all add: queue_ok_def)
  have Pa: "?P a = None" and Ta: "?T a = None" using new a by (simp_all add: players_of_def team_of_def)
  have om: "om_ok (m_QueuedPlayers q')"
    using m by (simp add: q' om_ok_queue_players queue_members_ok_def)
  note j = assms(2) [unfolded may_join_def]
  have "queue_members_ok (m_QueuedPlayers q') (players_of (bq_infos q'))"
    unfolding P by (rule members_ok_add [OF m Pa _ _ om ps]) (use j in \<open>auto simp: set_foldl_insert os_ok_foldl_insert\<close>)
  moreover have "lists_ok (m_QueuedGroups q') (team_of (bq_infos q'))"
  proof -
    have "a \<notin> set (m_QueuedGroups q bracket ?i)" "distinct (m_QueuedGroups q bracket ?i)"
      using lists_okD(1,2) [OF l] Ta by fastforce+
    then show ?thesis
      using lists_ok_add [OF l Ta, of bracket ?i "m_QueuedGroups q bracket ?i @ [a]"] j group_index_bound list_team_index [of team isRated isPremade]
      unfolding L T by simp
  qed
  moreover have "x < Suc a" if "bq_infos q' x \<noteq> None" for x
    using that fun_cong [OF T, of x] assms(1) a by (cases "bq_infos q x") (auto simp: team_of_def queue_ok_def less_Suc_eq split: if_splits)
  ultimately show ?thesis using nx ti by (simp add: queue_ok_def)
qed

subsection \<open>Leaving\<close>

lemma members_ok_remove:
  assumes ok: "queue_members_ok ps P" and p: "map_of ps m = Some p" and a: "P (pq_GroupInfo p) = Some ms"
  shows "queue_members_ok (om_erase m ps) (P(pq_GroupInfo p := (if os_erase m ms = [] then None else Some (os_erase m ms))))"
    (is "queue_members_ok _ ?P")
proof (rule queue_members_okI)
  show "om_ok (om_erase m ps)" using queue_members_okD(1) [OF ok] by simp
next
  fix k r assume k: "map_of (om_erase m ps) k = Some r"
  then have k': "k \<noteq> m" "map_of ps k = Some r" by (auto split: if_splits)
  then obtain l where l: "P (pq_GroupInfo r) = Some l" "k \<in> set l" using queue_members_okD(2) [OF ok] by blast
  show "\<exists>ms. ?P (pq_GroupInfo r) = Some ms \<and> k \<in> set ms"
  proof (cases "pq_GroupInfo r = pq_GroupInfo p")
    case True
    then have "k \<in> set (os_erase m ms)" using l a k' by simp
    then show ?thesis using True by (cases "os_erase m ms") auto
  qed (use l in simp)
next
  fix b l assume b: "?P b = Some l"
  show "os_ok l \<and> l \<noteq> [] \<and> (\<forall>k \<in> set l. \<exists>p. map_of (om_erase m ps) k = Some p \<and> pq_GroupInfo p = b)"
  proof (cases "b = pq_GroupInfo p")
    case True
    then have "l = os_erase m ms" "l \<noteq> []" using b by (auto split: if_splits)
    then show ?thesis using True queue_members_okD(3,4) [OF ok a] by auto
  next
    case False
    then have l: "P b = Some l" using b by simp
    then have "m \<notin> set l" using queue_members_okD(4) [OF ok l, of m] p False by auto
    then show ?thesis using queue_members_okD(3,4) [OF ok l] by auto
  qed
qed

lemma lists_ok_remove:
  assumes "lists_ok L T" and "a \<in> set (L b i)"
  shows "lists_ok (L(b := (L b)(i := remove1 a (L b i)))) (T(a := None))"
proof -
  let ?L = "L(b := (L b)(i := remove1 a (L b i)))"
  note d = lists_okD [OF assms(1)]
  have s: "set (?L c j) = set (L c j) - {a}" for c j
    using d(3) [OF assms(2), of c j] d(1) [of b i] by (cases "c = b \<and> j = i") (auto simp: fun_upd_def)
  show ?thesis
  proof (rule lists_okI)
    fix c j show "distinct (?L c j)" using d(1) by auto
  next
    fix c j x assume "x \<in> set (?L c j)"
    then show "c < MAX_BATTLEGROUND_BRACKETS \<and> j < BG_QUEUE_GROUP_TYPES_COUNT \<and> (T(a := None)) x = Some (list_team j)"
      using d(2) unfolding s by auto
  next
    fix c j c' j' x assume "x \<in> set (?L c j)" and "x \<in> set (?L c' j')"
    then show "c' = c \<and> j' = j" using d(3) unfolding s by blast
  next
    fix x assume "(T(a := None)) x \<noteq> None"
    then have "x \<noteq> a" "T x \<noteq> None" by (auto split: if_splits)
    then show "\<exists>c j. x \<in> set (?L c j)" using d(4) unfolding s by blast
  qed
qed

lemma find_group_at:
  assumes ok: "lists_ok L T" and a: "a \<in> set (L b i)" and n: "b < n" and parity: "index < 2" "index mod 2 = i mod 2"
  shows "find_group L index a n = Some (b, i)"
  using n
proof (induction n)
  case (Suc n)
  have i: "i = index \<or> i = index + 2"
  proof -
    have "i < 4" using lists_okD(2) [OF ok a] by (simp add: BG_QUEUE_GROUP_TYPES_COUNT_def)
    then have "i = 0 \<or> i = 1 \<or> i = 2 \<or> i = 3" by linarith
    moreover have "index = 0 \<or> index = 1" using parity(1) by linarith
    ultimately show ?thesis using parity(2) by (elim disjE) simp_all
  qed
  have u: "a \<in> set (L b' i') \<Longrightarrow> b' = b \<and> i' = i" for b' i'
    using lists_okD(3) [OF ok a] .
  show ?case
  proof (cases "b = n")
    case True
    have "i = index \<Longrightarrow> a \<notin> set (L n (index + 2))" using u [of n "index + 2"] by auto
    then show ?thesis using i a True by (elim disjE) (simp_all add: BG_TEAMS_COUNT_def)
  next
    case False
    then have "a \<notin> set (L n j)" for j using u [of n j] by auto
    then show ?thesis using Suc False by simp
  qed
qed simp

lemma queue_ok_member:
  assumes "queue_ok q" and "map_of (m_QueuedPlayers q) m = Some p"
  shows "\<exists>g b i. bq_infos q (pq_GroupInfo p) = Some g \<and> m \<in> set (gq_players g) \<and> gq_players g \<noteq> [] \<and> gq_team g = list_team i \<and>
     pq_GroupInfo p \<in> set (m_QueuedGroups q b i) \<and> b < MAX_BATTLEGROUND_BRACKETS \<and> i < BG_QUEUE_GROUP_TYPES_COUNT \<and>
     find_group (m_QueuedGroups q) (if gq_team g = HORDE then BG_QUEUE_PREMADE_HORDE else BG_QUEUE_PREMADE_ALLIANCE)
       (pq_GroupInfo p) MAX_BATTLEGROUND_BRACKETS = Some (b, i)"
proof -
  let ?a = "pq_GroupInfo p"
  obtain g where g: "bq_infos q ?a = Some g" "m \<in> set (gq_players g)"
    using assms queue_members_okD(2) [of "m_QueuedPlayers q" "players_of (bq_infos q)" m p] by (auto simp: queue_ok_def players_of_def)
  have l: "lists_ok (m_QueuedGroups q) (team_of (bq_infos q))" using assms(1) by (simp add: queue_ok_def)
  then obtain b i where a: "?a \<in> set (m_QueuedGroups q b i)" using g(1) lists_okD(4) [OF l, of ?a] by (auto simp: team_of_def)
  then have t: "b < MAX_BATTLEGROUND_BRACKETS" "i < BG_QUEUE_GROUP_TYPES_COUNT" "gq_team g = list_team i"
    using lists_okD(2) [OF l a] g(1) by (simp_all add: team_of_def)
  have "find_group (m_QueuedGroups q) (if gq_team g = HORDE then BG_QUEUE_PREMADE_HORDE else BG_QUEUE_PREMADE_ALLIANCE) ?a
      MAX_BATTLEGROUND_BRACKETS = Some (b, i)"
    by (rule find_group_at [OF l a t(1)]) (auto simp: t(3) list_team_def bg_indices odd_iff_mod_2_eq_one)
  then show ?thesis using g a t by (metis empty_iff list.set(1))
qed

end
