(* ===== verification/BgSteps.thy ===== *)
theory BgSteps
  imports BgConsistency
begin

text \<open>
  The operations of the queues, the update of the manager and the answers of the players keep the
  invariant of the queues; so does every sequence of them.
\<close>

subsection \<open>Leaving\<close>

lemma queues_ok_at_queue: "queues_ok W \<Longrightarrow> queue_ok (f (bw_queues W qt)) \<Longrightarrow> queues_ok (at_queue qt f W)"
  by (simp add: queues_ok_def at_queue_def)

lemma queues_ok_same: "bw_queues W' = bw_queues W \<Longrightarrow> queues_ok W' = queues_ok W"
  by (simp add: queues_ok_def)

lemma queues_okD: "queues_ok W \<Longrightarrow> queue_ok (bw_queues W qt)"
  by (simp add: queues_ok_def)

lemma bw_queues_simps [simp]:
  "bw_queues (at_bgplayer g f W) = bw_queues W" "bw_queues (at_bg b h W) = bw_queues W" "bw_queues (at_store t k W) = bw_queues W"
  "bw_queues (bg_emit x W) = bw_queues W" "bw_queues (ScheduleQueueUpdate mmr rt qt t bracket W) = bw_queues W"
  by (simp_all add: at_bgplayer_def at_bg_def at_store_def bg_emit_def ScheduleQueueUpdate_def Let_def)

text \<open>The queue without a player: his group is smaller, or gone from its list.\<close>

lemma queue_ok_smaller:
  assumes q: "queue_ok q" and p: "map_of (m_QueuedPlayers q) m = Some p" and g: "bq_infos q (pq_GroupInfo p) = Some g"
    and ne: "os_erase m (gq_players g) \<noteq> []"
  shows "queue_ok ((at_info (pq_GroupInfo p) (\<lambda>g. g\<lparr>gq_players := os_erase m (gq_players g)\<rparr>) q)
           \<lparr>m_QueuedPlayers := om_erase m (m_QueuedPlayers q)\<rparr>)"
proof -
  let ?a = "pq_GroupInfo p" and ?f = "\<lambda>g. g\<lparr>gq_players := os_erase m (gq_players g)\<rparr>"
  have "players_of (bq_infos (at_info ?a ?f q)) = (players_of (bq_infos q))(?a := Some (os_erase m (gq_players g)))"
    "team_of (bq_infos (at_info ?a ?f q)) = team_of (bq_infos q)"
    using g by (auto simp: of_at_info team_of_def fun_eq_iff)
  moreover have "bq_infos (at_info ?a ?f q) x \<noteq> None \<longleftrightarrow> bq_infos q x \<noteq> None" for x
    by (simp add: at_info_def)
  ultimately show ?thesis
    using q members_ok_remove [of "m_QueuedPlayers q" "players_of (bq_infos q)" m p "gq_players g"] p g ne
    by (simp add: queue_ok_def times_ok_def) (simp add: at_info_def players_of_def)
qed

lemma queue_ok_gone:
  assumes q: "queue_ok q" and p: "map_of (m_QueuedPlayers q) m = Some p" and g: "bq_infos q (pq_GroupInfo p) = Some g"
    and e: "os_erase m (gq_players g) = []" and a: "pq_GroupInfo p \<in> set (m_QueuedGroups q b i)"
    and q': "m_QueuedPlayers q' = om_erase m (m_QueuedPlayers q)" "bq_infos q' = (bq_infos q)(pq_GroupInfo p := None)"
      "m_QueuedGroups q' = (m_QueuedGroups q)(b := (m_QueuedGroups q b)(i := remove1 (pq_GroupInfo p) (m_QueuedGroups q b i)))"
      "bq_nextInfo q' = bq_nextInfo q" "times_ok q' = times_ok q"
  shows "queue_ok q'"
proof -
  let ?a = "pq_GroupInfo p"
  have "players_of (bq_infos q') = (players_of (bq_infos q))(?a := None)" "team_of (bq_infos q') = (team_of (bq_infos q))(?a := None)"
    by (simp_all add: q' players_of_def team_of_def fun_eq_iff)
  moreover have "queue_members_ok (om_erase m (m_QueuedPlayers q)) ((players_of (bq_infos q))(?a := None))"
    using members_ok_remove [of "m_QueuedPlayers q" "players_of (bq_infos q)" m p "gq_players g"] q p g e
    by (simp add: queue_ok_def players_of_def)
  moreover have "lists_ok (m_QueuedGroups q') ((team_of (bq_infos q))(?a := None))"
    using lists_ok_remove [of "m_QueuedGroups q" "team_of (bq_infos q)" ?a b i] a q by (simp add: q' queue_ok_def)
  ultimately show ?thesis using q by (simp add: queue_ok_def q')
qed

definition without_player :: "u64 \<Rightarrow> nat \<Rightarrow> BattlegroundQueue \<Rightarrow> BattlegroundQueue" where
  "without_player m a q = (at_info a (\<lambda>g. g\<lparr>gq_players := os_erase m (gq_players g)\<rparr>) q)\<lparr>m_QueuedPlayers := om_erase m (m_QueuedPlayers q)\<rparr>"

definition without_group :: "nat \<Rightarrow> nat \<Rightarrow> nat \<Rightarrow> BattlegroundQueue \<Rightarrow> BattlegroundQueue" where
  "without_group a b i q = (put_list b i (remove1 a (m_QueuedGroups q b i)) q)\<lparr>bq_infos := (bq_infos q)(a := None)\<rparr>"

lemma remove_step_queues:
  assumes q: "queue_ok (bw_queues W qt)" and p: "map_of (m_QueuedPlayers (bw_queues W qt)) guid = Some p"
    and g: "bq_infos (bw_queues W qt) (pq_GroupInfo p) = Some g" and r: "remove_step qt guid d W = Some (other, W')"
  shows "\<exists>b i. pq_GroupInfo p \<in> set (m_QueuedGroups (bw_queues W qt) b i) \<and>
      bw_queues W' = (bw_queues W)(qt :=
        (let q = without_player guid (pq_GroupInfo p) (bw_queues W qt)
         in if os_erase guid (gq_players g) = [] then without_group (pq_GroupInfo p) b i q else q))"
    and "other = (if os_erase guid (gq_players g) \<noteq> [] \<and> gq_invited g = 0 \<and> gq_isRated g then Some (hd (os_erase guid (gq_players g))) else None)"
proof -
  obtain b i where bi: "pq_GroupInfo p \<in> set (m_QueuedGroups (bw_queues W qt) b i)"
    and f: "find_group (m_QueuedGroups (bw_queues W qt)) (if gq_team g = HORDE then BG_QUEUE_PREMADE_HORDE else BG_QUEUE_PREMADE_ALLIANCE)
      (pq_GroupInfo p) MAX_BATTLEGROUND_BRACKETS = Some (b, i)"
    using queue_ok_member [OF q p] g by auto
  let ?a = "pq_GroupInfo p" and ?l = "os_erase guid (gq_players g)"
  obtain W2 where d: "decrease_invited d g (at_queue qt (at_info ?a (\<lambda>g. g\<lparr>gq_players := ?l\<rparr>)) W) = Some W2"
    and rest: "let W3 = at_queue qt (\<lambda>q. q\<lparr>m_QueuedPlayers := om_erase guid (m_QueuedPlayers q)\<rparr>) W2;
        W4 = (if gq_invited g \<noteq> 0 \<and> gq_isRated g \<and> d
              then bg_emit (UpdateStatsCall guid (gq_ratedType g) (gq_opponentsMMR g) False (bw_players W3 guid = None)) W3 else W3)
      in (case ?l of
                 [] \<Rightarrow> Some (None, at_queue qt (without_group ?a b i) W4)
               | k # _ \<Rightarrow>
                   if gq_invited g = 0 \<and> gq_isRated g then Option.bind (leave_notice g k W4) (\<lambda>W. Some (Some k, W))
                   else Some (None, W4)) = Some (other, W')"
    using r f g p unfolding remove_step_def Let_def
    by (simp only: option.case bind.simps prod.case bind_eq_Some_conv without_group_def [abs_def]) blast
  have main: "bw_queues W' = (bw_queues W)(qt :=
        (let q = without_player guid ?a (bw_queues W qt) in if ?l = [] then without_group ?a b i q else q)) \<and>
      other = (if ?l \<noteq> [] \<and> gq_invited g = 0 \<and> gq_isRated g then Some (hd ?l) else None)"
  proof -
    define W3 where "W3 = at_queue qt (\<lambda>q. q\<lparr>m_QueuedPlayers := om_erase guid (m_QueuedPlayers q)\<rparr>) W2"
    define W4 where "W4 = (if gq_invited g \<noteq> 0 \<and> gq_isRated g \<and> d
              then bg_emit (UpdateStatsCall guid (gq_ratedType g) (gq_opponentsMMR g) False (bw_players W3 guid = None)) W3 else W3)"
    have W4: "bw_queues W4 = bw_queues W3" by (simp add: W4_def)
    note out = rest [unfolded Let_def, folded W3_def, folded W4_def]
    have "at_info ?a (\<lambda>g. g\<lparr>gq_players := ?l\<rparr>) (bw_queues W qt) =
        at_info ?a (\<lambda>g. g\<lparr>gq_players := os_erase guid (gq_players g)\<rparr>) (bw_queues W qt)"
      using g by (simp add: at_info_def)
    then have q4: "bw_queues W4 = (bw_queues W)(qt := without_player guid ?a (bw_queues W qt))"
      using decrease_invited_queues [OF d] W4 by (simp add: W3_def at_queue_def without_player_def)
    show ?thesis
    proof (cases ?l)
      case Nil
      then have "W' = at_queue qt (without_group ?a b i) W4" "other = None" using out by simp_all
      then show ?thesis using q4 Nil by (simp add: at_queue_def Let_def)
    next
      case (Cons k ks)
      then have o: "(if gq_invited g = 0 \<and> gq_isRated g then Option.bind (leave_notice g k W4) (\<lambda>W. Some (Some k, W))
                   else Some (None, W4)) = Some (other, W')" using out by simp
      have "bw_queues W' = bw_queues W4 \<and> other = (if gq_invited g = 0 \<and> gq_isRated g then Some k else None)"
        using o leave_notice_queues [of g k W4] by (auto simp: bind_eq_Some_conv split: if_splits)
      then show ?thesis using q4 Cons by (simp add: Let_def)
    qed
  qed
  show "\<exists>b i. ?a \<in> set (m_QueuedGroups (bw_queues W qt) b i) \<and>
      bw_queues W' = (bw_queues W)(qt :=
        (let q = without_player guid ?a (bw_queues W qt) in if ?l = [] then without_group ?a b i q else q))"
    and "other = (if ?l \<noteq> [] \<and> gq_invited g = 0 \<and> gq_isRated g then Some (hd ?l) else None)"
    using main bi by blast+
qed

lemma remove_step_absent: "map_of (m_QueuedPlayers (bw_queues W qt)) guid = None \<Longrightarrow> remove_step qt guid d W = Some (None, W)"
  by (simp add: remove_step_def Let_def)

lemma queue_ok_without:
  assumes q: "queue_ok q" and p: "map_of (m_QueuedPlayers q) m = Some p" and g: "bq_infos q (pq_GroupInfo p) = Some g"
    and a: "pq_GroupInfo p \<in> set (m_QueuedGroups q b i)"
  shows "queue_ok (let q = without_player m (pq_GroupInfo p) q
                   in if os_erase m (gq_players g) = [] then without_group (pq_GroupInfo p) b i q else q)"
proof (cases "os_erase m (gq_players g) = []")
  case True
  then show ?thesis using queue_ok_gone [OF q p g True a]
    by (simp add: Let_def without_player_def without_group_def put_list_def at_info_def times_ok_def)
next
  case False
  then show ?thesis using queue_ok_smaller [OF q p g False] by (simp add: Let_def without_player_def)
qed

lemma remove_step_ok:
  assumes ok: "queues_ok W" and r: "remove_step qt guid d W = Some (other, W')"
  shows "queues_ok W'" and "map_of (m_QueuedPlayers (bw_queues W' qt)) guid = None"
proof -
  have "queues_ok W' \<and> map_of (m_QueuedPlayers (bw_queues W' qt)) guid = None"
  proof (cases "map_of (m_QueuedPlayers (bw_queues W qt)) guid")
    case None
    then show ?thesis using r ok by (simp add: remove_step_absent)
  next
    case (Some p)
    note q = queues_okD [OF ok, of qt]
    obtain g where g: "bq_infos (bw_queues W qt) (pq_GroupInfo p) = Some g" using queue_ok_member [OF q Some] by blast
    obtain b i where a: "pq_GroupInfo p \<in> set (m_QueuedGroups (bw_queues W qt) b i)"
      and W': "bw_queues W' = (bw_queues W)(qt := (let q = without_player guid (pq_GroupInfo p) (bw_queues W qt)
         in if os_erase guid (gq_players g) = [] then without_group (pq_GroupInfo p) b i q else q))"
      using remove_step_queues(1) [OF q Some g r] by blast
    have "queues_ok W'" using ok queue_ok_without [OF q Some g a] by (simp add: queues_ok_def W')
    moreover have "map_of (m_QueuedPlayers (bw_queues W' qt)) guid = None"
      by (simp add: W' Let_def without_player_def without_group_def put_list_def)
    ultimately show ?thesis by blast
  qed
  then show "queues_ok W'" and "map_of (m_QueuedPlayers (bw_queues W' qt)) guid = None" by blast+
qed

lemma RemovePlayer_ok: "BgQueue_RemovePlayer qt guid d W = Some W' \<Longrightarrow> queues_ok W \<Longrightarrow> queues_ok W'"
proof (induction qt guid d W rule: BgQueue_RemovePlayer.induct)
  case (1 qt guid d W)
  obtain other W1 where s: "remove_step qt guid d W = Some (other, W1)"
    using "1.prems"(1) by (subst (asm) BgQueue_RemovePlayer.simps) (auto split: option.splits)
  note ok = remove_step_ok(1) [OF "1.prems"(2) s]
  show ?case
  proof (cases other)
    case None
    then show ?thesis using "1.prems"(1) s ok by (subst (asm) BgQueue_RemovePlayer.simps) simp
  next
    case (Some p)
    then have "BgQueue_RemovePlayer qt p d W1 = Some W'"
      using "1.prems"(1) s by (subst (asm) BgQueue_RemovePlayer.simps) simp
    then show ?thesis using "1.IH" [OF s refl Some] ok by blast
  qed
qed

subsection \<open>Inviting\<close>

text \<open>What an invitation leaves of a queue, apart from the teams.\<close>

definition queue_kept :: "BattlegroundQueue \<Rightarrow> BattlegroundQueue \<Rightarrow> bool" where
  "queue_kept q q' \<longleftrightarrow> m_QueuedPlayers q' = m_QueuedPlayers q \<and> m_QueuedGroups q' = m_QueuedGroups q \<and>
     players_of (bq_infos q') = players_of (bq_infos q) \<and> bq_nextInfo q' = bq_nextInfo q \<and>
     m_SelectionPools q' = m_SelectionPools q \<and> (times_ok q \<longrightarrow> times_ok q')"

lemma kept_refl [simp]: "queue_kept q q"
  by (simp add: queue_kept_def)

lemma kept_trans: "queue_kept q q1 \<Longrightarrow> queue_kept q1 q2 \<Longrightarrow> queue_kept q q2"
  by (simp add: queue_kept_def)

lemma kept_queue_ok:
  assumes q: "queue_ok q" and k: "queue_kept q q'" and l: "lists_ok (m_QueuedGroups q) (team_of (bq_infos q'))"
  shows "queue_ok q'"
proof -
  have "players_of (bq_infos q') = players_of (bq_infos q)" using k by (simp add: queue_kept_def)
  then have "bq_infos q' x \<noteq> None \<longleftrightarrow> bq_infos q x \<noteq> None" for x
    by (metis map_option_is_None players_of_def)
  then show ?thesis using q k l by (simp add: queue_ok_def queue_kept_def)
qed

lemma AddBgEvent_simps [simp]:
  "bq_infos (AddBgEvent e t q) = bq_infos q" "queue_kept q (AddBgEvent e t q)"
  by (simp_all add: AddBgEvent_def Let_def queue_kept_def times_ok_def)

lemma invite_player_kept:
  assumes "invite_player qt g b bg m W = Some W'" and "times_ok (bw_queues W qt)"
  shows "\<exists>q. bw_queues W' = (bw_queues W)(qt := q) \<and> queue_kept (bw_queues W qt) q \<and> bq_infos q = bq_infos (bw_queues W qt)"
proof (cases "bw_players W m")
  case None
  then show ?thesis using assms by (auto simp: invite_player_def intro!: exI [of _ "bw_queues W qt"])
next
  case (Some p)
  obtain q where q: "PlayerInvitedToBGUpdateAverageWaitTime (bw_now W) g (bg_BracketId bg) (bw_queues W qt) = Some q"
    "queue_kept (bw_queues W qt) q" "bq_infos q = bq_infos (bw_queues W qt)"
    using wait_time_ok [OF assms(2)] by (fastforce simp: queue_kept_def)
  have "\<exists>e1 t1 e2 t2. bw_queues W' = (bw_queues W)(qt := AddBgEvent e1 t1 (AddBgEvent e2 t2 q))"
    using assms(1) Some q(1) by (auto simp: invite_player_def Let_def at_queue_def bind_eq_Some_conv) (intro exI, rule refl)
  then show ?thesis using q(2,3) kept_trans AddBgEvent_simps by metis
qed

lemma invite_players_kept:
  "invite_players qt g b bg ms W = Some W' \<Longrightarrow> times_ok (bw_queues W qt) \<Longrightarrow>
     \<exists>q. bw_queues W' = (bw_queues W)(qt := q) \<and> queue_kept (bw_queues W qt) q \<and> bq_infos q = bq_infos (bw_queues W qt)"
proof (induction qt g b bg ms W rule: invite_players.induct)
  case (1 qt g b bg W)
  then show ?case by (auto intro!: exI [of _ "bw_queues W qt"])
next
  case (2 qt g b bg m ms W)
  then obtain W1 where W1: "invite_player qt g b bg m W = Some W1" "invite_players qt g b bg ms W1 = Some W'"
    by (auto simp: bind_eq_Some_conv)
  obtain q1 where q1: "bw_queues W1 = (bw_queues W)(qt := q1)" "queue_kept (bw_queues W qt) q1" "bq_infos q1 = bq_infos (bw_queues W qt)"
    using invite_player_kept [OF W1(1) "2.prems"(2)] by blast
  then obtain q where q: "bw_queues W' = (bw_queues W1)(qt := q)" "queue_kept q1 q" "bq_infos q = bq_infos q1"
  proof -
    have t: "bw_queues W1 qt = q1" "times_ok (bw_queues W1 qt)" using q1 "2.prems"(2) by (simp_all add: queue_kept_def)
    show thesis using "2.IH" [OF W1 t(2)] that unfolding t(1) by blast
  qed
  then show ?case using q1 kept_trans [OF q1(2) q(2)] by auto
qed

lemma kept_at_info:
  "\<forall>g. bq_infos q a = Some g \<longrightarrow> gq_players (f g) = gq_players g \<Longrightarrow> queue_kept q (at_info a f q)"
  by (auto simp: queue_kept_def of_at_info players_of_def fun_eq_iff at_info_def times_ok_def split: option.splits)
    (metis (no_types, lifting) not_Some_eq option.map_disc_iff option.simps(9))

text \<open>The group that is invited gets the team of the side it is invited for.\<close>

lemma InviteGroup_kept:
  assumes "InviteGroupToBG qt a b side W = Some (r, W')" and "times_ok (bw_queues W qt)"
  shows "\<exists>q g. bq_infos (bw_queues W qt) a = Some g \<and> bw_queues W' = (bw_queues W)(qt := q) \<and> queue_kept (bw_queues W qt) q \<and>
     team_of (bq_infos q) = (team_of (bq_infos (bw_queues W qt)))(a \<mapsto> (if side = 0 then gq_team g else side))"
proof -
  obtain g where g: "bq_infos (bw_queues W qt) a = Some g" using assms(1) by (auto simp: InviteGroupToBG_def bind_eq_Some_conv)
  let ?g = "if side \<noteq> 0 then g\<lparr>gq_team := side\<rparr> else g"
  have p: "gq_players ?g = gq_players g" "gq_team ?g = (if side = 0 then gq_team g else side)" by simp_all
  have k: "queue_kept (bw_queues W qt) (at_info a (\<lambda>_. h) (bw_queues W qt))" if "gq_players h = gq_players g" for h
    using that g by (intro kept_at_info) auto
  show ?thesis
  proof (cases "gq_invited g = 0")
    case True
    then obtain bg where bg: "bw_bgs W b = Some bg" and i: "invite_players qt (?g\<lparr>gq_invited := bg_InstanceID bg,
        gq_removeInviteTime := bw_now W + INVITE_ACCEPT_WAIT_TIME\<rparr>) b bg (gq_players ?g)
        (at_queue qt (at_info a (\<lambda>_. ?g\<lparr>gq_invited := bg_InstanceID bg, gq_removeInviteTime := bw_now W + INVITE_ACCEPT_WAIT_TIME\<rparr>)) W) = Some W'"
      using assms(1) g by (auto simp: InviteGroupToBG_def bind_eq_Some_conv Let_def split: if_splits)
    let ?h = "?g\<lparr>gq_invited := bg_InstanceID bg, gq_removeInviteTime := bw_now W + INVITE_ACCEPT_WAIT_TIME\<rparr>"
    have kh: "queue_kept (bw_queues W qt) (at_info a (\<lambda>_. ?h) (bw_queues W qt))" using k p by simp
    then have "times_ok (at_info a (\<lambda>_. ?h) (bw_queues W qt))" using assms(2) by (simp add: queue_kept_def)
    then obtain q where q: "bw_queues W' = (bw_queues W)(qt := q)" "queue_kept (at_info a (\<lambda>_. ?h) (bw_queues W qt)) q"
      "bq_infos q = bq_infos (at_info a (\<lambda>_. ?h) (bw_queues W qt))"
      using invite_players_kept [OF i] by (auto simp: at_queue_def)
    then show ?thesis using kept_trans [OF kh q(2)] g p by (auto simp: of_at_info)
  next
    case False
    then have "W' = at_queue qt (at_info a (\<lambda>_. ?g)) W"
      using assms(1) g by (auto simp: InviteGroupToBG_def bind_eq_Some_conv Let_def split: if_splits)
    then show ?thesis using k [of ?g] g p by (auto simp: of_at_info at_queue_def)
  qed
qed

lemma InviteGroup_ok:
  assumes "InviteGroupToBG qt a b side W = Some (r, W')" and "queues_ok W"
    and "\<forall>g. bq_infos (bw_queues W qt) a = Some g \<longrightarrow> side = gq_team g"
  shows "queues_ok W'" and "m_SelectionPools (bw_queues W' qt) = m_SelectionPools (bw_queues W qt)"
proof -
  have ok: "queue_ok (bw_queues W qt)" using assms(2) by (simp add: queues_ok_def)
  then obtain q g where q: "bq_infos (bw_queues W qt) a = Some g" "bw_queues W' = (bw_queues W)(qt := q)" "queue_kept (bw_queues W qt) q"
     "team_of (bq_infos q) = (team_of (bq_infos (bw_queues W qt)))(a \<mapsto> (if side = 0 then gq_team g else side))"
    using InviteGroup_kept [OF assms(1)] by (auto simp: queue_ok_def)
  then have "team_of (bq_infos q) = team_of (bq_infos (bw_queues W qt))"
    using assms(3) by (auto simp: team_of_def fun_eq_iff)
  then have "queue_ok q" using kept_queue_ok [OF ok q(3)] ok by (simp add: queue_ok_def)
  then show "queues_ok W'" using assms(2) by (simp add: queues_ok_def q(2))
  show "m_SelectionPools (bw_queues W' qt) = m_SelectionPools (bw_queues W qt)" using q(2,3) by (simp add: queue_kept_def)
qed

lemma invite_pool_ok:
  "invite_pool qt b as W = Some W' \<Longrightarrow> queues_ok W \<Longrightarrow> queues_ok W' \<and> m_SelectionPools (bw_queues W' qt) = m_SelectionPools (bw_queues W qt)"
proof (induction qt b as W rule: invite_pool.induct)
  case (2 qt b a as W)
  then obtain g r W1 where g: "bq_infos (bw_queues W qt) a = Some g" "InviteGroupToBG qt a b (gq_team g) W = Some (r, W1)"
    and rest: "invite_pool qt b as W1 = Some W'" by (auto simp: bind_eq_Some_conv)
  then show ?case using "2.IH" [OF g(1,2) refl] InviteGroup_ok [OF g(2) "2.prems"(2)] by auto
qed simp

lemma invite_pools_ok: "invite_pools qt b W = Some W' \<Longrightarrow> queues_ok W \<Longrightarrow> queues_ok W'"
  using invite_pool_ok by (fastforce simp: invite_pools_def bind_eq_Some_conv)

subsection \<open>Moving groups between lists\<close>

lemma queue_ok_move:
  assumes q: "queue_ok q" and a: "a \<in> set (m_QueuedGroups q b i)" and j: "j < BG_QUEUE_GROUP_TYPES_COUNT" "j \<noteq> i"
    and q': "m_QueuedPlayers q' = m_QueuedPlayers q" "players_of (bq_infos q') = players_of (bq_infos q)"
      "team_of (bq_infos q') = (team_of (bq_infos q))(a \<mapsto> list_team j)"
      "m_QueuedGroups q' = (m_QueuedGroups q)(b := (m_QueuedGroups q b)(i := remove1 a (m_QueuedGroups q b i), j := a # m_QueuedGroups q b j))"
      "bq_nextInfo q' = bq_nextInfo q" "times_ok q' = times_ok q"
  shows "queue_ok q'"
proof -
  let ?L = "m_QueuedGroups q" and ?T = "team_of (bq_infos q)"
  let ?L1 = "?L(b := (?L b)(i := remove1 a (?L b i)))"
  have l: "lists_ok ?L ?T" using q by (simp add: queue_ok_def)
  have l1: "lists_ok ?L1 (?T(a := None))" using lists_ok_remove [of ?L ?T a b i] l a by simp
  have out: "a \<notin> set (?L b j)" using lists_okD(3) [OF l a, of b j] j(2) by auto
  have e: "?L1(b := (?L1 b)(j := a # ?L b j)) = m_QueuedGroups q'" by (simp add: q'(4))
  have "lists_ok (?L1(b := (?L1 b)(j := a # ?L b j))) ((?T(a := None))(a \<mapsto> list_team j))"
    using lists_ok_add [OF l1, of a b j "a # ?L b j"] lists_okD(2) [OF l a] lists_okD(1) [OF l, of b j] j out by simp
  then have "lists_ok (m_QueuedGroups q') (team_of (bq_infos q'))" unfolding e q'(3) by simp
  moreover have "bq_infos q' x \<noteq> None \<longleftrightarrow> bq_infos q x \<noteq> None" for x
    using fun_cong [OF q'(2), of x] by (cases "bq_infos q' x"; cases "bq_infos q x") (simp_all add: players_of_def)
  ultimately show ?thesis using q by (simp add: queue_ok_def q')
qed

lemma remove1_hd: "remove1 a (a # as) = as"
  by simp

lemma release_premade_ok:
  assumes "release_premade time_before minPlayers bracket i q = Some q'" and "queue_ok q" and "i < 2"
  shows "queue_ok q'"
proof (cases "m_QueuedGroups q bracket (BG_QUEUE_PREMADE_ALLIANCE + i)")
  case Nil
  then show ?thesis using assms by (simp add: release_premade_def)
next
  case (Cons a as)
  let ?q = "put_list bracket (BG_QUEUE_PREMADE_ALLIANCE + i) as
              (put_list bracket (BG_QUEUE_NORMAL_ALLIANCE + i) (a # m_QueuedGroups q bracket (BG_QUEUE_NORMAL_ALLIANCE + i)) q)"
  have a: "a \<in> set (m_QueuedGroups q bracket i)" using Cons by (simp add: bg_indices)
  obtain g where g: "bq_infos q a = Some g" "gq_team g = list_team i" using queue_ok_live [OF assms(2) a] by blast
  have "queue_ok ?q"
    by (rule queue_ok_move [OF assms(2) a, of "2 + i"])
      (use Cons assms(3) g in \<open>auto simp: bg_indices put_list_def times_ok_def team_of_def list_team_def fun_eq_iff\<close>)
  then show ?thesis using assms(1,2) Cons by (auto simp: release_premade_def bind_eq_Some_conv Let_def split: if_splits)
qed

lemma bind_SomeE: "Option.bind x f = Some y \<Longrightarrow> (\<And>a. f a = Some y \<Longrightarrow> P) \<Longrightarrow> P"
  by (cases x) auto

lemma CheckPremadeMatch_cases:
  assumes "CheckPremadeMatch now waitForMatch bracket minPlayers maxPlayers q = Some (r, q')"
  shows "(\<exists>ali horde. q' = put_pool TEAM_HORDE horde (put_pool TEAM_ALLIANCE ali q)) \<or>
    (\<exists>q1. release_premade (now - waitForMatch) minPlayers bracket 0 q = Some q1 \<and>
       release_premade (now - waitForMatch) minPlayers bracket 1 q1 = Some q')"
proof -
  obtain found where "(case found of
           (Some a, Some h) \<Rightarrow> Option.bind (premade_pools (bq_infos q) maxPlayers a h (m_QueuedGroups q bracket BG_QUEUE_NORMAL_ALLIANCE)
                (m_QueuedGroups q bracket BG_QUEUE_NORMAL_HORDE) (m_SelectionPools q TEAM_ALLIANCE, m_SelectionPools q TEAM_HORDE))
              (\<lambda>(ali, horde). Some (True, put_pool TEAM_HORDE horde (put_pool TEAM_ALLIANCE ali q)))
         | _ \<Rightarrow> Option.bind (release_premade (now - waitForMatch) minPlayers bracket 0 q)
              (\<lambda>q. Option.bind (release_premade (now - waitForMatch) minPlayers bracket 1 q) (\<lambda>q. Some (False, q)))) = Some (r, q')"
    using assms unfolding CheckPremadeMatch_def Let_def by (rule bind_SomeE) (rule that)
  then show ?thesis by (cases found; cases "fst found"; cases "snd found") (auto simp: bind_eq_Some_conv)
qed

lemma CheckPremadeMatch_ok:
  assumes "CheckPremadeMatch now waitForMatch bracket minPlayers maxPlayers q = Some (r, q')" and "queue_ok q"
  shows "queue_ok q'"
  using CheckPremadeMatch_cases [OF assms(1)] assms(2) release_premade_ok by fastforce

lemma if_pair_snd: "(if X then Some (False, q) else if Y then Some (True, q) else Some (Z, q)) = Some (r, q') \<Longrightarrow> q' = q"
  by (auto split: if_splits)

lemma CheckNormalMatch_pools:
  assumes "CheckNormalMatch it testing bracket minPlayers maxPlayers q = Some (r, q')"
  shows "\<exists>ali horde. q' = put_pool TEAM_HORDE horde (put_pool TEAM_ALLIANCE ali q)"
  using assms unfolding CheckNormalMatch_def Let_def
  by (simp only: bind_eq_Some_conv split_paired_Ex prod.case) (elim exE conjE, drule if_pair_snd, blast)

lemma CheckNormalMatch_ok:
  "CheckNormalMatch it testing bracket minPlayers maxPlayers q = Some (r, q') \<Longrightarrow> queue_ok q \<Longrightarrow> queue_ok q'"
  using CheckNormalMatch_pools by fastforce

lemma FillPlayersToBG_ok:
  assumes "FillPlayersToBG it af hf bracket q = Some q'" and "queue_ok q"
  shows "queue_ok q'"
proof -
  have "\<exists>ali horde. q' = put_pool TEAM_HORDE horde (put_pool TEAM_ALLIANCE ali q)"
    using assms(1) unfolding FillPlayersToBG_def Let_def
    by (simp only: bind_eq_Some_conv split_paired_Ex prod.case) blast
  then show ?thesis using assms(2) by auto
qed

subsection \<open>Skirmishes\<close>

lemma erase_behind_eq:
  assumes "distinct (xs @ from # ys)" and "a \<in> set ys"
  shows "erase_behind from a (xs @ from # ys) = remove1 a (xs @ from # ys)"
proof -
  have x: "from \<notin> set xs" "a \<notin> set xs" "a \<noteq> from" using assms by auto
  have "dropWhile (\<lambda>x. x \<noteq> from) (xs @ from # ys) = from # ys" "takeWhile (\<lambda>x. x \<noteq> from) (xs @ from # ys) = xs"
    using x(1) by (induction xs) auto
  then show ?thesis using x by (simp add: erase_behind_def remove1_append)
qed

lemma change_sides_ok:
  assumes "queue_ok q" and "m_QueuedGroups q bracket i = xs @ from # ys" and "distinct as" and "set as \<subseteq> set ys"
    and "j < BG_QUEUE_GROUP_TYPES_COUNT" and "j \<noteq> i" and "team = list_team j"
  shows "queue_ok (change_sides team bracket j i from as q)"
  using assms
proof (induction as arbitrary: q ys)
  case (Cons a as)
  let ?L = "m_QueuedGroups q"
  let ?q = "let q = at_info a (\<lambda>g. g\<lparr>gq_team := team\<rparr>) q; q = put_list bracket j (a # m_QueuedGroups q bracket j) q
       in put_list bracket i (erase_behind from a (m_QueuedGroups q bracket i)) q"
  have d: "distinct (xs @ from # ys)" using Cons.prems(1,2) lists_okD(1) [of ?L "team_of (bq_infos q)" bracket i] by (simp add: queue_ok_def)
  have a: "a \<in> set (?L bracket i)" and ay: "a \<in> set ys" using Cons.prems(2,4) by auto
  obtain g where g: "bq_infos q a = Some g" using queue_ok_live [OF Cons.prems(1) a] by blast
  have e: "erase_behind from a (?L bracket i) = remove1 a (?L bracket i)" using erase_behind_eq [OF d ay] Cons.prems(2) by simp
  have "queue_ok ?q"
    by (rule queue_ok_move [OF Cons.prems(1) a Cons.prems(5,6)])
      (use Cons.prems(6,7) g e in \<open>auto simp: Let_def put_list_def at_info_def times_ok_def players_of_def team_of_def fun_eq_iff fun_upd_twist\<close>)
  moreover have "m_QueuedGroups ?q bracket i = xs @ from # remove1 a ys"
  proof -
    have "remove1 a (xs @ from # ys) = xs @ from # remove1 a ys" using d ay by (auto simp: remove1_append)
    then show ?thesis using e Cons.prems(2,6) by (simp add: Let_def)
  qed
  moreover have "set as \<subseteq> set (remove1 a ys)" using Cons.prems(3,4) d by auto
  ultimately show ?case using Cons.IH [of ?q "remove1 a ys"] Cons.prems(3,5-7) by simp
qed simp

lemma subseq_distinct: "subseq xs ys \<Longrightarrow> distinct ys \<Longrightarrow> distinct xs"
  by (induction rule: list_emb.induct) (auto dest: subseq_set)

lemma list_split_at: "dropWhile (\<lambda>a. a \<noteq> x) xs = y # ys \<Longrightarrow> xs = takeWhile (\<lambda>a. a \<noteq> x) xs @ x # ys"
  by (metis (mono_tags, lifting) hd_dropWhile list.distinct(1) list.sel(1) takeWhile_dropWhile_id)

lemma CheckSkirmish_ok:
  assumes c: "CheckSkirmishForSameFaction bracket minPlayers q = Some (r, q')" and ok: "queue_ok q"
  shows "queue_ok q'"
proof -
  define horde where "horde = (PlayerCount (m_SelectionPools q TEAM_HORDE) = minPlayers)"
  define t where "t = (if horde then TEAM_HORDE else TEAM_ALLIANCE)"
  define other where "other = (if horde then TEAM_ALLIANCE else TEAM_HORDE)"
  define q1 where "q1 = put_pool other Pool_Init q"
  define lst where "lst = last (SelectedGroups (m_SelectionPools q1 t))"
  have ok1: "queue_ok q1" using ok by (simp add: q1_def)
  let ?own = "m_QueuedGroups q1 bracket (BG_QUEUE_NORMAL_ALLIANCE + t)"
  consider "q' = q" | "q' = q1"
    | y as p where "dropWhile (\<lambda>a. a \<noteq> lst) ?own = y # as" "offer_waiting (bq_infos q1) minPlayers as Pool_Init = Some p"
        "q' = put_pool other p q1 \<or> q' = change_sides (if horde then ALLIANCE else HORDE) bracket (BG_QUEUE_NORMAL_ALLIANCE + other)
           (BG_QUEUE_NORMAL_ALLIANCE + t) lst (SelectedGroups p) (put_pool other p q1)"
  proof -
    have init: "m_SelectionPools q1 other = Pool_Init" by (simp add: q1_def)
    show ?thesis
      using c that
      unfolding CheckSkirmishForSameFaction_def Let_def horde_def [symmetric] t_def [symmetric] other_def [symmetric]
        q1_def [symmetric] lst_def [symmetric] init
      by (auto simp: bind_eq_Some_conv split: if_splits list.splits)
  qed
  then show ?thesis
  proof cases
    case 3
    let ?q = "put_pool other p q1"
    have own: "?own = takeWhile (\<lambda>a. a \<noteq> lst) ?own @ lst # as" using list_split_at [OF 3(1)] .
    have "set as \<subseteq> set ?own" using own by (metis Un_iff list.set_intros(2) set_append subsetI)
    then have live: "\<forall>a \<in> set as. bq_infos q1 a \<noteq> None" using queue_ok_live [OF ok1] by (metis option.distinct(1) subsetD)
    have "selected_ok (bq_infos q1) as minPlayers p"
      using offer_waiting_ok [OF side_start live, of minPlayers minPlayers] 3(2) by auto
    moreover have "distinct as"
      using lists_okD(1) [of "m_QueuedGroups q1" "team_of (bq_infos q1)" bracket "BG_QUEUE_NORMAL_ALLIANCE + t"] ok1 own
      by (metis distinct.simps(2) distinct_append queue_ok_def)
    ultimately have s: "distinct (SelectedGroups p)" "set (SelectedGroups p) \<subseteq> set as"
      by (auto simp: selected_ok_def dest: subseq_set subseq_distinct)
    have "queue_ok (change_sides (if horde then ALLIANCE else HORDE) bracket (BG_QUEUE_NORMAL_ALLIANCE + other)
           (BG_QUEUE_NORMAL_ALLIANCE + t) lst (SelectedGroups p) ?q)"
      by (rule change_sides_ok [OF _ _ s]) (use own ok1 in \<open>auto simp: other_def t_def bg_indices list_team_def\<close>)
    then show ?thesis using 3(3) ok1 by auto
  qed (use ok ok1 in auto)
qed

end
