(* ===== verification/BgInvariant.thy ===== *)
theory BgInvariant
  imports BgSteps
begin

text \<open>
  The update of the queues, the events, the answers of the players and the joins keep the invariant of the
  queues; so does every sequence of them.
\<close>

subsection \<open>Rated arenas\<close>

lemma find_from_SomeD:
  "find_from I P xs = Some (a # as) \<Longrightarrow> \<exists>pre g. xs = pre @ a # as \<and> I a = Some g \<and> P g"
proof (induction I P xs rule: find_from.induct)
  case (2 I P x xs)
  then obtain g where g: "I x = Some g" by (auto split: option.splits)
  show ?case
  proof (cases "P g")
    case True
    then show ?thesis using 2(2) g by auto
  next
    case False
    then obtain pre h where "xs = pre @ a # as" "I a = Some h" "P h" using 2 g by auto
    then show ?thesis by (intro exI [of _ "x # pre"]) auto
  qed
qed simp

lemma find_from_in: "find_from I P xs = Some (a # as) \<Longrightarrow> a \<in> set xs \<and> (\<exists>g. I a = Some g \<and> P g)"
  using find_from_SomeD by fastforce

text \<open>Two groups of the premade lists, in different lists or with different leaders.\<close>

lemma find_rated_teams_SomeD:
  assumes "find_rated_teams I P ali horde = Some (Some ((i, a), (j, h)))"
  shows "(i, j) \<in> {(0, 1), (0, 0), (1, 1)} \<and> a \<in> set (if i = 0 then ali else horde) \<and> h \<in> set (if j = 0 then ali else horde) \<and>
     (i = j \<longrightarrow> a \<noteq> h) \<and> (\<exists>g. I a = Some g \<and> P g) \<and> (\<exists>g. I h = Some g \<and> P g)"
proof -
  obtain as hs where as: "find_from I P ali = Some as" and hs: "find_from I P horde = Some hs"
    and r: "(case (as, hs) of
           ([], []) \<Rightarrow> Some None
         | (a # _, h # _) \<Rightarrow> Some (Some ((BG_QUEUE_PREMADE_ALLIANCE, a), (BG_QUEUE_PREMADE_HORDE, h)))
         | (a # as', []) \<Rightarrow> Option.bind (I a) (\<lambda>g. Option.bind (find_from I (\<lambda>x. P x \<and> gq_leaderGUID g \<noteq> gq_leaderGUID x) (a # as'))
             (\<lambda>rest. Some (case rest of [] \<Rightarrow> None | b # _ \<Rightarrow> Some ((BG_QUEUE_PREMADE_ALLIANCE, a), (BG_QUEUE_PREMADE_ALLIANCE, b)))))
         | ([], h # hs') \<Rightarrow> Option.bind (I h) (\<lambda>g. Option.bind (find_from I (\<lambda>x. P x \<and> gq_leaderGUID g \<noteq> gq_leaderGUID x) (h # hs'))
             (\<lambda>rest. Some (case rest of [] \<Rightarrow> None | b # _ \<Rightarrow> Some ((BG_QUEUE_PREMADE_HORDE, h), (BG_QUEUE_PREMADE_HORDE, b))))))
      = Some (Some ((i, a), (j, h)))"
    using assms unfolding find_rated_teams_def by (auto simp: bind_eq_Some_conv)
  have two: "i = k \<and> j = k \<and> x = y \<and> z \<noteq> y \<and> z \<in> set (y # ys) \<and> (\<exists>g. I z = Some g \<and> P g)"
    if t: "Option.bind (I y) (\<lambda>g. Option.bind (find_from I (\<lambda>x. P x \<and> gq_leaderGUID g \<noteq> gq_leaderGUID x) (y # ys))
          (\<lambda>rest. Some (case rest of [] \<Rightarrow> None | b # _ \<Rightarrow> Some ((k, y), (k, b))))) = Some (Some ((i, x), (j, z)))" for k x y z ys
  proof -
    obtain g rest where g: "I y = Some g" and f: "find_from I (\<lambda>x. P x \<and> gq_leaderGUID g \<noteq> gq_leaderGUID x) (y # ys) = Some rest"
      and c: "(case rest of [] \<Rightarrow> None | b # _ \<Rightarrow> Some ((k, y), (k, b))) = Some ((i, x), (j, z))"
      using t unfolding bind_eq_Some_conv by blast
    obtain b bs where b: "rest = b # bs" using c by (cases rest) auto
    obtain gb where "b \<in> set (y # ys)" "I b = Some gb" "P gb" "gq_leaderGUID g \<noteq> gq_leaderGUID gb"
      using find_from_in [OF f [unfolded b]] by blast
    then show ?thesis using c g b by auto
  qed
  show ?thesis
  proof (cases as)
    case Nil
    then obtain h1 hs' where h1: "hs = h1 # hs'" using r by (cases hs) auto
    obtain pre g where hp: "horde = pre @ h1 # hs'" "I h1 = Some g" "P g" using find_from_SomeD hs h1 by blast
    then show ?thesis using two [of h1 hs' BG_QUEUE_PREMADE_HORDE a h] r Nil h1 by (auto simp: bg_indices)
  next
    case (Cons a1 as')
    obtain pre g where ap: "ali = pre @ a1 # as'" "I a1 = Some g" "P g" using find_from_SomeD as Cons by blast
    show ?thesis
    proof (cases hs)
      case Nil
      then show ?thesis using two [of a1 as' BG_QUEUE_PREMADE_ALLIANCE a h] r Cons ap by (auto simp: bg_indices)
    next
      case h1: (Cons h1 hs')
      then show ?thesis using r Cons ap find_from_in [of I P horde h1 hs'] hs by (auto simp: bg_indices)
    qed
  qed
qed

text \<open>The two groups take their sides: the lists fit the teams once both are invited.\<close>

lemma move_team_SomeD:
  "move_team bracket into src itr q = Some q' \<Longrightarrow> fst itr = src \<and>
     q' = put_list bracket src (remove1 (snd itr) (m_QueuedGroups (put_list bracket into (snd itr # m_QueuedGroups q bracket into) q) bracket src))
            (put_list bracket into (snd itr # m_QueuedGroups q bracket into) q)"
  by (auto simp: move_team_def Let_def split: if_splits)

lemma GetRandomBG_queues: "bw_queues (snd (GetRandomBG c t W)) = bw_queues W"
  by (simp add: GetRandomBG_def Let_def)

lemma CreateClientVisibleInstanceId_queues: "bw_queues (snd (CreateClientVisibleInstanceId t b W)) = bw_queues W"
  by (simp add: CreateClientVisibleInstanceId_def Let_def)

lemma CreateNewBattleground_queues:
  assumes "CreateNewBattleground c t e rt rated W = Some (r, W')"
  shows "bw_queues W' = bw_queues W"
proof -
  obtain bgTypeId W1 where W1: "(if t \<in> {BATTLEGROUND_RB, BATTLEGROUND_AA, BATTLEGROUND_RATED_10_VS_10} then GetRandomBG c t W else (t, W)) = (bgTypeId, W1)"
    by (meson surj_pair)
  have q1: "bw_queues W1 = bw_queues W" using W1 GetRandomBG_queues [of c t W] by (auto split: if_splits)
  show ?thesis
    using assms q1 unfolding CreateNewBattleground_def Let_def W1 case_prod_beta
    by (auto simp: bind_eq_Some_conv CreateClientVisibleInstanceId_queues split: option.splits if_splits)
qed

lemma StartBattleground_queues: "StartBattleground b W = Some W' \<Longrightarrow> bw_queues W' = bw_queues W"
  by (auto simp: StartBattleground_def AddToBGFreeSlotQueue_def AddBattleground_def Mgr_AddToBGFreeSlotQueue_def bind_eq_Some_conv)

lemma RemoveFromBGFreeSlotQueue_queues: "RemoveFromBGFreeSlotQueue b W = Some W' \<Longrightarrow> bw_queues W' = bw_queues W"
  by (auto simp: RemoveFromBGFreeSlotQueue_def Mgr_RemoveFromBGFreeSlotQueue_def bind_eq_Some_conv split: if_splits)

text \<open>A group taken to the front of a list of the other side, with the team it will get.\<close>

lemma lists_ok_front:
  assumes l: "lists_ok L T" and a: "a \<in> set (L b i)" and j: "j < BG_QUEUE_GROUP_TYPES_COUNT" "j \<noteq> i"
  shows "lists_ok (L(b := (L b)(j := a # L b j, i := remove1 a (L b i)))) (T(a \<mapsto> list_team j))"
proof -
  let ?L1 = "L(b := (L b)(i := remove1 a (L b i)))"
  have l1: "lists_ok ?L1 (T(a := None))" using lists_ok_remove [of L T a b i] l a by simp
  have out: "a \<notin> set (L b j)" using lists_okD(3) [OF l a, of b j] j(2) by auto
  have e: "?L1(b := (?L1 b)(j := a # L b j)) = L(b := (L b)(j := a # L b j, i := remove1 a (L b i)))"
    using j(2) by (auto simp: fun_eq_iff)
  have "lists_ok (?L1(b := (?L1 b)(j := a # L b j))) ((T(a := None))(a \<mapsto> list_team j))"
    using lists_ok_add [OF l1, of a b j "a # L b j"] lists_okD(2) [OF l a] lists_okD(1) [OF l, of b j] j out by simp
  then show ?thesis unfolding e by simp
qed

text \<open>One of the two groups of a match: it stays where it is when its team is the side's, and moves otherwise.\<close>

definition take_side :: "nat \<Rightarrow> u32 \<Rightarrow> nat \<Rightarrow> nat \<times> nat \<Rightarrow> GroupQueueInfo \<Rightarrow> BattlegroundQueue \<Rightarrow> BattlegroundQueue option" where
  "take_side bracket team into itr g q =
     (if gq_team g \<noteq> team then move_team bracket into (if into = BG_QUEUE_PREMADE_ALLIANCE then BG_QUEUE_PREMADE_HORDE else BG_QUEUE_PREMADE_ALLIANCE) itr q
      else Some q)"

lemma take_sides:
  "take_side bracket ALLIANCE BG_QUEUE_PREMADE_ALLIANCE itr g q =
     (if gq_team g \<noteq> ALLIANCE then move_team bracket BG_QUEUE_PREMADE_ALLIANCE BG_QUEUE_PREMADE_HORDE itr q else Some q)"
  "take_side bracket HORDE BG_QUEUE_PREMADE_HORDE itr g q =
     (if gq_team g \<noteq> HORDE then move_team bracket BG_QUEUE_PREMADE_HORDE BG_QUEUE_PREMADE_ALLIANCE itr q else Some q)"
  by (simp_all add: take_side_def bg_indices)

lemma take_side_lists:
  assumes t: "take_side bracket team into (i, a) g q = Some q'" and l: "lists_ok (m_QueuedGroups q) T"
    and a: "a \<in> set (m_QueuedGroups q bracket i)" and T: "T a = Some (gq_team g)" and j: "into < 2" "team = list_team into"
  shows "lists_ok (m_QueuedGroups q') (T(a \<mapsto> team)) \<and> m_QueuedPlayers q' = m_QueuedPlayers q \<and> bq_infos q' = bq_infos q \<and>
     bq_nextInfo q' = bq_nextInfo q \<and> times_ok q' = times_ok q \<and>
     (\<forall>h k. h \<noteq> a \<longrightarrow> h \<in> set (m_QueuedGroups q bracket k) \<longrightarrow> h \<in> set (m_QueuedGroups q' bracket k))"
proof (cases "gq_team g = team")
  case True
  then show ?thesis using t l T by (auto simp: take_side_def fun_upd_idem)
next
  case False
  then have "move_team bracket into (if into = BG_QUEUE_PREMADE_ALLIANCE then BG_QUEUE_PREMADE_HORDE else BG_QUEUE_PREMADE_ALLIANCE) (i, a) q = Some q'"
    using t by (simp add: take_side_def)
  from move_team_SomeD [OF this] have src: "i = (if into = BG_QUEUE_PREMADE_ALLIANCE then BG_QUEUE_PREMADE_HORDE else BG_QUEUE_PREMADE_ALLIANCE)"
    and q': "q' = put_list bracket i (remove1 a (m_QueuedGroups (put_list bracket into (a # m_QueuedGroups q bracket into) q) bracket i))
            (put_list bracket into (a # m_QueuedGroups q bracket into) q)"
    by auto
  have ne: "i \<noteq> into" using src j(1) by (auto simp: bg_indices split: if_splits)
  have L: "m_QueuedGroups q' = (m_QueuedGroups q)(bracket := (m_QueuedGroups q bracket)
      (into := a # m_QueuedGroups q bracket into, i := remove1 a (m_QueuedGroups q bracket i)))"
    using ne by (auto simp: q' put_list_def fun_eq_iff)
  have "into < BG_QUEUE_GROUP_TYPES_COUNT" using j(1) by (simp add: BG_QUEUE_GROUP_TYPES_COUNT_def)
  then have "lists_ok (m_QueuedGroups q') (T(a \<mapsto> team))"
    using lists_ok_front [OF l a _ ne [symmetric]] by (simp add: L j(2))
  then show ?thesis using ne by (auto simp: q' put_list_def times_ok_def)
qed

lemma start_rated_ok:
  assumes s: "start_rated c qt bgTypeId bracket entry rt (i, a) (j, h) W = Some W'" and ok: "queues_ok W"
    and ah: "a \<in> set (m_QueuedGroups (bw_queues W qt) bracket i)" "h \<in> set (m_QueuedGroups (bw_queues W qt) bracket j)" "a \<noteq> h"
  shows "queues_ok W'"
proof -
  let ?q = "bw_queues W qt"
  have q: "queue_ok ?q" using queues_okD [OF ok] .
  obtain ga gh where g: "bq_infos ?q a = Some ga" "bq_infos ?q h = Some gh" using queue_ok_live [OF q] ah by meson
  obtain arena W1 where cr: "CreateNewBattleground c bgTypeId entry rt True W = Some (arena, W1)"
    using s g unfolding start_rated_def by (auto simp: bind_eq_Some_conv)
  have w1: "bw_queues W1 = bw_queues W" using CreateNewBattleground_queues [OF cr] .
  show ?thesis
  proof (cases arena)
    case None
    then have "W' = W1" using s g cr unfolding start_rated_def by simp
    then show ?thesis using ok w1 by (simp add: queues_ok_def)
  next
    case (Some b)
    define q0 where "q0 = set_opponents a ga h gh ?q"
    obtain q1 q2 W2 r1 W3 r2 W4 where
      t1: "take_side bracket ALLIANCE BG_QUEUE_PREMADE_ALLIANCE (i, a) ga q0 = Some q1"
      and t2: "take_side bracket HORDE BG_QUEUE_PREMADE_HORDE (j, h) gh q1 = Some q2"
      and i1: "InviteGroupToBG qt a b ALLIANCE W2 = Some (r1, W3)" and i2: "InviteGroupToBG qt h b HORDE W3 = Some (r2, W4)"
      and st: "StartBattleground b W4 = Some W'" and W2: "bw_queues W2 = (bw_queues W)(qt := q2)"
    proof -
      show thesis
        using s g cr Some that unfolding start_rated_def Let_def fst_conv snd_conv
        by (simp only: bind.simps prod.case option.case bind_eq_Some_conv w1 take_sides [symmetric] q0_def [symmetric] split_paired_Ex)
          (elim exE conjE, rule that, assumption+, simp add: at_queue_def w1)
    qed
    have i0: "players_of (bq_infos q0) = players_of (bq_infos ?q)" "team_of (bq_infos q0) = team_of (bq_infos ?q)"
      "m_QueuedGroups q0 = m_QueuedGroups ?q"
      by (auto simp: q0_def set_opponents_def of_at_info players_of_def team_of_def fun_eq_iff at_info_def option.map_comp comp_def
          intro!: option.map_cong)
    have q0: "queue_ok q0"
      using q queue_ok_at_info by (simp add: q0_def set_opponents_def)
    let ?T = "team_of (bq_infos q0)"
    have T: "?T a = Some (gq_team ga)" "?T h = Some (gq_team gh)" using g by (simp_all add: i0 team_of_def)
    have l0: "lists_ok (m_QueuedGroups q0) ?T" using q0 by (simp add: queue_ok_def)
    note s1 = take_side_lists [OF t1 l0, unfolded i0(3), OF ah(1) T(1)]
    have s1: "lists_ok (m_QueuedGroups q1) (?T(a \<mapsto> ALLIANCE))" "h \<in> set (m_QueuedGroups q1 bracket j)"
      "m_QueuedPlayers q1 = m_QueuedPlayers q0" "bq_infos q1 = bq_infos q0" "bq_nextInfo q1 = bq_nextInfo q0" "times_ok q1 = times_ok q0"
      using s1 ah by (auto simp: bg_indices list_team_def)
    have s2: "lists_ok (m_QueuedGroups q2) (?T(a \<mapsto> ALLIANCE, h \<mapsto> HORDE))"
      "m_QueuedPlayers q2 = m_QueuedPlayers q0" "bq_infos q2 = bq_infos q0" "bq_nextInfo q2 = bq_nextInfo q0" "times_ok q2 = times_ok q0"
      using take_side_lists [OF t2 s1(1,2)] T(2) ah(3) s1 by (auto simp: bg_indices list_team_def)
    obtain q3 where q3: "bw_queues W3 = (bw_queues W)(qt := q3)" "queue_kept q2 q3" "team_of (bq_infos q3) = ?T(a \<mapsto> ALLIANCE)"
      using InviteGroup_kept [OF i1] q0 s2 by (auto simp: W2 queue_ok_def)
    obtain q4 where q4: "bw_queues W4 = (bw_queues W)(qt := q4)" "queue_kept q3 q4" "team_of (bq_infos q4) = ?T(a \<mapsto> ALLIANCE, h \<mapsto> HORDE)"
      using InviteGroup_kept [OF i2] q0 s2 q3 by (auto simp: queue_ok_def queue_kept_def)
    have k: "queue_kept q2 q4" using kept_trans [OF q3(2) q4(2)] .
    have "players_of (bq_infos q4) = players_of (bq_infos q0)" using k s2 by (simp add: queue_kept_def)
    then have "bq_infos q4 x \<noteq> None \<longleftrightarrow> bq_infos q0 x \<noteq> None" for x by (metis map_option_is_None players_of_def)
    then have "queue_ok q4" using q0 k s2 q4(3) by (simp add: queue_ok_def queue_kept_def)
    then show ?thesis using ok StartBattleground_queues [OF st] by (simp add: queues_ok_def q4(1))
  qed
qed

lemma rated_update_ok:
  assumes "rated_update c qt bgTypeId bracket entry rt rating W = Some W'" and ok: "queues_ok W"
  shows "queues_ok W'"
proof -
  let ?q = "bw_queues W qt"
  consider "W' = W" | P i a j h where "find_rated_teams (bq_infos ?q) P (m_QueuedGroups ?q bracket BG_QUEUE_PREMADE_ALLIANCE)
        (m_QueuedGroups ?q bracket BG_QUEUE_PREMADE_HORDE) = Some (Some ((i, a), (j, h)))"
      "start_rated c qt bgTypeId bracket entry rt (i, a) (j, h) W = Some W'"
    using assms(1) unfolding rated_update_def Let_def by (auto simp: bind_eq_Some_conv split: option.splits)
  then show ?thesis
  proof cases
    case 2
    have "a \<in> set (m_QueuedGroups ?q bracket i)" "h \<in> set (m_QueuedGroups ?q bracket j)" "a \<noteq> h"
      using find_rated_teams_SomeD [OF 2(1)] lists_okD(3) [of "m_QueuedGroups ?q" "team_of (bq_infos ?q)" a bracket 0 bracket 1] queues_okD [OF ok, of qt]
      by (auto simp: queue_ok_def bg_indices split: if_splits)
    then show ?thesis using start_rated_ok [OF 2(2) ok] by blast
  qed (use ok in simp)
qed

subsection \<open>The update\<close>

lemma fill_running_ok:
  assumes "fill_running c qt t bracket b W = Some W'" and ok: "queues_ok W"
  shows "queues_ok W'"
proof -
  consider "W' = W" | x y q W1 where "FillPlayersToBG (cf_invitationType c) x y bracket (init_pools (bw_queues W qt)) = Some q"
      "invite_pools qt b (at_queue qt (\<lambda>_. q) W) = Some W1" "W' = W1 \<or> RemoveFromBGFreeSlotQueue b W1 = Some W'"
    using assms(1) unfolding fill_running_def by (auto simp: bind_eq_Some_conv split: if_splits)
  then show ?thesis
  proof cases
    case 2
    have "queue_ok q" using FillPlayersToBG_ok [OF 2(1)] queues_okD [OF ok] by simp
    then have "queues_ok W1" using invite_pools_ok [OF 2(2)] ok by (simp add: queues_ok_at_queue)
    then show ?thesis using 2(3) RemoveFromBGFreeSlotQueue_queues [of b W1 W'] by (auto simp: queues_ok_def)
  qed (use ok in simp)
qed

lemma fill_all_ok: "fill_all c qt t bracket bs W = Some W' \<Longrightarrow> queues_ok W \<Longrightarrow> queues_ok W'"
proof (induction bs arbitrary: W)
  case (Cons b bs)
  then show ?case using fill_running_ok by (auto simp: bind_eq_Some_conv)
qed simp

lemma start_new_ok:
  assumes "start_new c qt t entry rt W = Some (r, W')" and ok: "queues_ok W"
  shows "queues_ok W'"
proof -
  obtain bg W1 where cr: "CreateNewBattleground c t entry rt False W = Some (bg, W1)"
    and r: "(case bg of None \<Rightarrow> Some (False, W1)
         | Some b \<Rightarrow> Option.bind (invite_pools qt b W1) (\<lambda>W. Option.bind (StartBattleground b W) (\<lambda>W. Some (True, W)))) = Some (r, W')"
    using assms(1) unfolding start_new_def by (auto simp: bind_eq_Some_conv split_paired_Ex)
  have "queues_ok W1" using CreateNewBattleground_queues [OF cr] ok by (simp add: queues_ok_def)
  then show ?thesis
    using r invite_pools_ok StartBattleground_queues by (fastforce simp: bind_eq_Some_conv queues_ok_def split: option.splits)
qed

lemma premade_phase_ok:
  assumes "premade_phase c qt t bracket entry mn mx W = Some (r, W')" and ok: "queues_ok W"
  shows "queues_ok W'"
proof -
  obtain found q where f: "CheckPremadeMatch (bw_now W) (cf_premadeWait c) bracket mn mx (bw_queues W qt) = Some (found, q)"
    and r: "(if found then Option.bind (start_new c qt t entry RATED_TYPE_NOT_RATED (at_queue qt (\<lambda>_. q) W))
               (\<lambda>(created, W). Some (created, if created then at_queue qt init_pools W else W))
             else Some (True, at_queue qt (\<lambda>_. q) W)) = Some (r, W')"
    using assms(1) unfolding premade_phase_def Let_def by (auto simp: bind_eq_Some_conv split_paired_Ex)
  have "queues_ok (at_queue qt (\<lambda>_. q) W)"
    using CheckPremadeMatch_ok [OF f queues_okD [OF ok]] ok by (simp add: queues_ok_at_queue)
  then show ?thesis using r start_new_ok queues_okD
    by (auto simp: bind_eq_Some_conv intro!: queues_ok_at_queue split: if_splits)
qed

lemma normal_phase_ok:
  assumes "normal_phase c qt t bracket entry rt arena mn mx W = Some W'" and ok: "queues_ok W"
  shows "queues_ok W'"
proof -
  obtain f1 q1 f2 q2 where n: "CheckNormalMatch (cf_invitationType c) (bw_testing W) bracket mn mx (bw_queues W qt) = Some (f1, q1)"
    and sk: "(if \<not> f1 \<and> arena then CheckSkirmishForSameFaction bracket mn q1 else Some (f1, q1)) = Some (f2, q2)"
    and r: "(if f2 then map_option snd (start_new c qt t entry rt (at_queue qt (\<lambda>_. q2) W)) else Some (at_queue qt (\<lambda>_. q2) W)) = Some W'"
    using assms(1) unfolding normal_phase_def Let_def by (simp only: bind_eq_Some_conv split_paired_Ex prod.case) blast
  have "queue_ok q1" using CheckNormalMatch_ok [OF n queues_okD [OF ok]] .
  then have "queue_ok q2" using sk CheckSkirmish_ok by (auto split: if_splits)
  then have "queues_ok (at_queue qt (\<lambda>_. q2) W)" using ok by (simp add: queues_ok_at_queue)
  then show ?thesis using r start_new_ok by (auto split: if_splits)
qed

lemma BattlegroundQueueUpdate_ok:
  assumes u: "BattlegroundQueueUpdate c qt t bracket rt rated rating W = Some W'" and ok: "queues_ok W"
  shows "queues_ok W'"
proof (cases "\<forall>i \<in> {0..<BG_QUEUE_GROUP_TYPES_COUNT}. m_QueuedGroups (bw_queues W qt) bracket i = []")
  case True
  then show ?thesis using u ok unfolding BattlegroundQueueUpdate_def by simp
next
  case False
  let ?W = "at_store t (\<lambda>d. d) W"
  have ok0: "queues_ok ?W" using ok by (simp add: queues_ok_def)
  obtain W1 where f: "fill_all c qt t bracket (BGFreeSlotQueue (om_at BattlegroundData_new (bw_store ?W) t)) ?W = Some W1"
    and r: "(case GetBattlegroundTemplate t W1 of None \<Rightarrow> Some W1
       | Some b \<Rightarrow> Option.bind (bw_bgs W1 b) (\<lambda>tmpl.
           case GetBattlegroundBracketById c (bg_MapId tmpl) bracket of None \<Rightarrow> Some W1
           | Some bracketEntry \<Rightarrow>
               let maxPlayers = (if bg_IsArena tmpl then rt else bg_MaxPlayersPerTeam tmpl);
                   minPlayers = (if bg_IsArena tmpl then (if bw_arenaTesting W1 then 1 else rt)
                                 else if bw_testing W1 then 1 else bg_MinPlayersPerTeam tmpl);
                   W = at_queue qt init_pools W1
               in Option.bind (if \<not> bg_IsArena tmpl then premade_phase c qt t bracket bracketEntry minPlayers maxPlayers W else Some (True, W))
                (\<lambda>(continue, W).
                  if \<not> continue then Some W
                  else if \<not> rated then normal_phase c qt t bracket bracketEntry rt (bg_IsArena tmpl) minPlayers maxPlayers W
                  else if bg_IsArena tmpl then rated_update c qt t bracket bracketEntry rt rating W
                  else Some W))) = Some W'"
    using u False unfolding BattlegroundQueueUpdate_def Let_def if_not_P [OF False] by (simp only: bind_eq_Some_conv) blast
  have ok1: "queues_ok W1" using fill_all_ok [OF f ok0] .
  then have ok2: "queues_ok (at_queue qt init_pools W1)" using queues_okD [OF ok1] by (simp add: queues_ok_at_queue)
  show ?thesis
  proof (cases "GetBattlegroundTemplate t W1")
    case None
    then show ?thesis using r ok1 by simp
  next
    case (Some b)
    then obtain tmpl where tm: "bw_bgs W1 b = Some tmpl" using r by (auto simp: bind_eq_Some_conv)
    show ?thesis
    proof (cases "GetBattlegroundBracketById c (bg_MapId tmpl) bracket")
      case None
      then show ?thesis using r Some tm ok1 by simp
    next
      case e: (Some entry)
      define mx where "mx = (if bg_IsArena tmpl then rt else bg_MaxPlayersPerTeam tmpl)"
      define mn where "mn = (if bg_IsArena tmpl then (if bw_arenaTesting W1 then 1 else rt) else if bw_testing W1 then 1 else bg_MinPlayersPerTeam tmpl)"
      obtain go W2 where p: "(if \<not> bg_IsArena tmpl then premade_phase c qt t bracket entry mn mx (at_queue qt init_pools W1)
            else Some (True, at_queue qt init_pools W1)) = Some (go, W2)"
        and r2: "(if \<not> go then Some W2
                  else if \<not> rated then normal_phase c qt t bracket entry rt (bg_IsArena tmpl) mn mx W2
                  else if bg_IsArena tmpl then rated_update c qt t bracket entry rt rating W2
                  else Some W2) = Some W'"
        using r unfolding Some e tm Let_def mx_def [symmetric] mn_def [symmetric]
        by (simp only: option.case bind.simps tm e mx_def [symmetric] mn_def [symmetric])
          (simp only: bind_eq_Some_conv split_paired_Ex prod.case, blast)
      have "queues_ok W2" using p premade_phase_ok ok2 by (auto split: if_splits)
      then show ?thesis using r2 normal_phase_ok rated_update_ok by (auto split: if_splits)
    qed
  qed
qed

subsection \<open>The events and the manager\<close>

lemma InviteEvent_queues: "BGQueueInviteEvent_Execute g i t r rt W = Some W' \<Longrightarrow> bw_queues W' = bw_queues W"
  by (auto simp: BGQueueInviteEvent_Execute_def Let_def bind_eq_Some_conv split: option.splits if_splits)

lemma RemoveEvent_ok:
  assumes e: "BGQueueRemoveEvent_Execute guid i t qt rt W = Some W'" and ok: "queues_ok W"
  shows "queues_ok W'"
proof -
  consider "W' = W" | W1 where "BgQueue_RemovePlayer qt guid True (at_bgplayer guid (RemoveBattlegroundQueueId qt) W) = Some W1" "bw_queues W' = bw_queues W1"
    using e by (auto simp: BGQueueRemoveEvent_Execute_def Let_def bind_eq_Some_conv split: option.splits if_splits)
  then show ?thesis
  proof cases
    case 2
    have "queues_ok (at_bgplayer guid (RemoveBattlegroundQueueId qt) W)" using ok by (simp add: queues_ok_def)
    then show ?thesis using RemovePlayer_ok [OF 2(1)] 2(2) by (simp add: queues_ok_def)
  qed (use ok in simp)
qed

lemma bg_event_ok: "bg_event_execute e W = Some W' \<Longrightarrow> queues_ok W \<Longrightarrow> queues_ok W'"
  using InviteEvent_queues RemoveEvent_ok by (cases e) (fastforce simp: queues_ok_def)+

lemma run_events_ok: "run_events E es W = Some W' \<Longrightarrow> queues_ok W \<Longrightarrow> queues_ok W'"
proof (induction E es W rule: run_events.induct)
  case (2 E n x y es W)
  then show ?case using bg_event_ok by (auto simp: bind_eq_Some_conv)
qed simp_all

lemma UpdateEvents_ok:
  assumes u: "UpdateEvents diff qt W = Some W'" and ok: "queues_ok W"
  shows "queues_ok W'"
proof -
  obtain p es where "run_events (bq_event (bw_queues W qt)) es (at_queue qt (\<lambda>q. q\<lparr>m_events := p\<rparr>) W) = Some W'"
    using u by (auto simp: UpdateEvents_def bind_eq_Some_conv)
  from run_events_ok [OF this] show ?thesis using ok queues_okD [OF ok] by (simp add: queues_ok_at_queue)
qed

lemma update_events_from_ok: "update_events_from diff qts W = Some W' \<Longrightarrow> queues_ok W \<Longrightarrow> queues_ok W'"
  by (induction qts arbitrary: W) (auto simp: bind_eq_Some_conv dest: UpdateEvents_ok)

lemma run_scheduled_one_ok: "run_scheduled_one c i W = Some W' \<Longrightarrow> queues_ok W \<Longrightarrow> queues_ok W'"
  using BattlegroundQueueUpdate_ok by (auto simp: run_scheduled_one_def split: prod.splits if_splits)

lemma run_scheduled_ok: "run_scheduled c scheduled i W = Some W' \<Longrightarrow> queues_ok W \<Longrightarrow> queues_ok W'"
proof (rule run_scheduled.raw_induct [where P = "\<lambda>c s i W r. queues_ok W \<longrightarrow> queues_ok r", THEN mp])
  fix rec c s i W r
  assume "\<And>c s i W r. rec c s i W = Some r \<Longrightarrow> queues_ok W \<longrightarrow> queues_ok r"
    and "(if unat i < length s then Option.bind (run_scheduled_one c (s ! unat i) W) (rec c s (i + 1)) else Some W) = Some r"
  then show "queues_ok W \<longrightarrow> queues_ok r" using run_scheduled_one_ok by (auto simp: bind_eq_Some_conv split: if_splits)
qed

lemma force_rated_ok: "force_rated c xs W = Some W' \<Longrightarrow> queues_ok W \<Longrightarrow> queues_ok W'"
proof (induction c xs W rule: force_rated.induct)
  case (2 c qt bracket xs W)
  then show ?case using BattlegroundQueueUpdate_ok by (fastforce simp: bind_eq_Some_conv)
qed simp

lemma Mgr_UpdateQueues_ok:
  assumes "Mgr_UpdateQueues c diff W = Some W'" and ok: "queues_ok W"
  shows "queues_ok W'"
proof -
  obtain W1 W2 where u: "update_events_from diff [BATTLEGROUND_QUEUE_NONE..<MAX_BATTLEGROUND_QUEUE_TYPES] W = Some W1"
    and s: "run_scheduled c (bw_scheduler W1) 0 (W1\<lparr>bw_scheduler := []\<rparr>) = Some W2"
    and f: "bw_queues W' = bw_queues W2 \<or> (\<exists>xs W3. force_rated c xs W2 = Some W3 \<and> bw_queues W' = bw_queues W3)"
    using assms(1) unfolding Mgr_UpdateQueues_def Let_def by (auto simp: bind_eq_Some_conv split: if_splits) (metis BgWorld.select_convs)+
  have "queues_ok W1" using update_events_from_ok [OF u ok] .
  then have "queues_ok W2" using run_scheduled_ok [OF s] by (simp add: queues_ok_def)
  then show ?thesis using f force_rated_ok by (auto simp: queues_ok_def)
qed

subsection \<open>Joins and answers\<close>

lemma bind_SomeE_eq: "Option.bind x f = Some y \<Longrightarrow> (\<And>a. x = Some a \<Longrightarrow> f a = Some y \<Longrightarrow> P) \<Longrightarrow> P"
  by (cases x) auto

lemma leave_participant_queues: "leave_participant guid b bg team sp W = Some (x, y, W') \<Longrightarrow> bw_queues W' = bw_queues W"
  by (auto simp: leave_participant_def Let_def bind_eq_Some_conv split: option.splits if_splits)

lemma RemovePlayerAtLeave_queues:
  assumes "RemovePlayerAtLeave b guid sp W = Some W'"
  shows "bw_queues W' = bw_queues W"
proof -
  obtain bg t W1 where bg: "bw_bgs W b = Some bg"
    and p: "(if map_of (bg_Players bg) guid \<noteq> None then
              Option.bind (leave_participant guid b bg (case map_of (bg_Players bg) guid of None \<Rightarrow> 0 | Some t \<Rightarrow> t) sp
                  (at_bg b (\<lambda>x. (player_count_down (case map_of (bg_Players bg) guid of None \<Rightarrow> 0 | Some t \<Rightarrow> t) x)\<lparr>bg_Players := om_erase guid (bg_Players x)\<rparr>) W))
                (\<lambda>(team, bgTypeId, W).
                  Option.bind (if \<not> bg_IsArena bg \<and> bg_Status bg < STATUS_WAIT_LEAVE
                    then map_option (ScheduleQueueUpdate 0 RATED_TYPE_NOT_RATED (BGQueueTypeId (bg_TypeID bg) (bg_RatedType bg))
                                       bgTypeId (bg_BracketId bg)) (AddToBGFreeSlotQueue b (at_bg b (DecreaseInvitedCount team) W))
                    else Some (at_bg b (DecreaseInvitedCount team) W)) (\<lambda>W. Some (bgTypeId, W)))
            else Some (bg_TypeID bg, W)) = Some (t, W1)"
    and r: "bw_queues W' = bw_queues W1"
    using assms unfolding RemovePlayerAtLeave_def Let_def
    by (auto simp: bind_eq_Some_conv [where x = "bw_bgs W b"]) (erule bind_SomeE_eq, auto simp: bind_eq_Some_conv split: option.splits)
  have "bw_queues W1 = bw_queues W"
    using p by (auto simp: bind_eq_Some_conv AddToBGFreeSlotQueue_def Mgr_AddToBGFreeSlotQueue_def dest!: leave_participant_queues split: if_splits)
  then show ?thesis using r by simp
qed

lemma port_enter_ok:
  assumes "port_enter guid p slot qt g b bg W = Some W'" and ok: "queues_ok W"
  shows "queues_ok W'"
proof (cases "IsInvitedForBattlegroundQueueType qt p")
  case False
  then show ?thesis using assms by (simp add: port_enter_def)
next
  case True
  then obtain x W1 W2 where r: "BgQueue_RemovePlayer qt guid False (bg_emit x W) = Some W1"
    and l: "(case GetBattleground (bp_bgInstanceID p) (bp_bgTypeID p) W1 of None \<Rightarrow> Some W1 | Some cur \<Rightarrow> RemovePlayerAtLeave cur guid True W1) = Some W2"
    and W': "bw_queues W' = bw_queues W2"
    using assms(1) by (auto simp: port_enter_def Let_def bind_eq_Some_conv)
  have "queues_ok W1" using RemovePlayer_ok [OF r] ok by (simp add: queues_ok_def)
  moreover have "bw_queues W2 = bw_queues W1" using l by (auto dest: RemovePlayerAtLeave_queues split: option.splits)
  ultimately show ?thesis using W' by (simp add: queues_ok_def)
qed

lemma port_leave_ok:
  assumes "port_leave guid p slot qt g b bg bracket W = Some W'" and ok: "queues_ok W"
  shows "queues_ok W'"
proof -
  obtain W1 W2 where r: "BgQueue_RemovePlayer qt guid True W1 = Some W2" and W1: "bw_queues W1 = bw_queues W" and W': "bw_queues W' = bw_queues W2"
    using assms(1) by (auto simp: port_leave_def Let_def bind_eq_Some_conv split: if_splits)
  show ?thesis using RemovePlayer_ok [OF r] ok W1 W' by (simp add: queues_ok_def)
qed

lemma refuse_queues: "refuse guid p bg err W = Some W' \<Longrightarrow> bw_queues W' = bw_queues W"
  by (auto simp: refuse_def)

lemma HandleBattleFieldPort_ok:
  assumes "HandleBattleFieldPort c guid slot action W = Some W'" and ok: "queues_ok W"
  shows "queues_ok W'"
proof -
  consider "W' = W" | p qt g b bg br W1 where "bw_queues W1 = bw_queues W"
      "port_enter guid p slot qt g b bg W1 = Some W' \<or> port_leave guid p slot qt g b bg br W1 = Some W'"
  proof -
    obtain p target where "bw_players W guid = Some p" "port_target c guid p slot action W = Some target"
      and r: "(case target of None \<Rightarrow> Some W
         | Some (qt, g, b, bg, entry) \<Rightarrow>
            Option.bind (if (action \<and> gq_ratedType g = 0) \<and> \<not> CanJoinToBattleground bg p
                   then refuse guid p bg ERR_GROUP_JOIN_BATTLEGROUND_DESERTERS W else Some W)
             (\<lambda>W. if action \<and> \<not> ((action \<and> gq_ratedType g = 0) \<and> (\<not> CanJoinToBattleground bg p \<or> bp_level p > bg_LevelMax bg))
             then port_enter guid p slot qt g b bg W
             else port_leave guid p slot qt g b bg (pd_bracketId entry) W)) = Some W'"
      using assms(1) unfolding HandleBattleFieldPort_def Let_def by (simp only: bind_eq_Some_conv) blast
    show thesis
    proof (cases target)
      case None
      then show ?thesis using r that(1) by simp
    next
      case (Some x)
      obtain qt g b bg entry where x: "x = (qt, g, b, bg, entry)" by (cases x)
      have refused: "refuse guid p bg ERR_GROUP_JOIN_BATTLEGROUND_DESERTERS W = Some W1 \<Longrightarrow> bw_queues W1 = bw_queues W" for W1
        by (rule refuse_queues)
      obtain W1 where "bw_queues W1 = bw_queues W"
        "(if action \<and> \<not> ((action \<and> gq_ratedType g = 0) \<and> (\<not> CanJoinToBattleground bg p \<or> bp_level p > bg_LevelMax bg))
             then port_enter guid p slot qt g b bg W1
             else port_leave guid p slot qt g b bg (pd_bracketId entry) W1) = Some W'"
        using r unfolding Some x option.case prod.case
        by (elim bind_SomeE_eq) (metis (no_types, lifting) refused option.inject)
      then show ?thesis using that(2) by (metis (full_types))
    qed
  qed
  then show ?thesis
  proof cases
    case 2
    then have "queues_ok W1" using ok by (simp add: queues_ok_def)
    then show ?thesis using 2(2) port_enter_ok port_leave_ok by blast
  qed (use ok in simp)
qed

lemma tell_joined_queues: "bw_queues (tell_joined b qt t avg jt rt ms W) = bw_queues W"
  by (induction b qt t avg jt rt ms W rule: tell_joined.induct) (simp split: option.splits prod.splits)+

lemma join_queue_ok:
  assumes "join_bgqueue leader team members b qt t bracket rt rated premade rating mmr W = Some W'" and ok: "queues_ok W"
    and j: "may_join team (case members of Some ms \<Rightarrow> ms | None \<Rightarrow> [leader]) bracket (bw_queues W qt)"
  shows "queues_ok W'"
proof -
  obtain a q where q: "BgQueue_AddGroup (bw_now W) leader team members t bracket rt rated premade rating mmr (bw_queues W qt) = (a, q)"
    by (meson surj_pair)
  have "bw_queues W' = (bw_queues W)(qt := q)"
    using assms(1) by (auto simp: join_bgqueue_def q bind_eq_Some_conv tell_joined_queues at_queue_def)
  then show ?thesis using AddGroup_queue_ok [OF queues_okD [OF ok] j q] ok by (simp add: queues_ok_def)
qed

subsection \<open>Every sequence of operations\<close>

text \<open>
  The states that the queues pass through: ticks of the manager, answers to invitations, players who
  leave, players and groups who join a queue in which none of them waits, and whatever else happens in the
  world without touching the queues. The rule for joins covers the requests of both handlers when nobody who
  joins waits there already (lemmas \<open>battlemaster_join_reach\<close> and \<open>arena_join_reach\<close>). That nobody does is a
  condition: the handlers look at the queue slots of the members, but not when a group is larger than the
  battleground allows, and such a group leaves the invariant (theorem \<open>oversized_group_queued_twice\<close>).
\<close>

inductive bg_reach :: "BgConf \<Rightarrow> BgWorld \<Rightarrow> bool" for c where
  start: "\<forall>qt. bw_queues W qt = BattlegroundQueue_new \<Longrightarrow> bg_reach c W"
| tick: "bg_reach c W \<Longrightarrow> Mgr_UpdateQueues c diff W = Some W' \<Longrightarrow> bg_reach c W'"
| answer: "bg_reach c W \<Longrightarrow> HandleBattleFieldPort c guid slot action W = Some W' \<Longrightarrow> bg_reach c W'"
| leave: "bg_reach c W \<Longrightarrow> BgQueue_RemovePlayer qt guid decrease W = Some W' \<Longrightarrow> bg_reach c W'"
| join: "bg_reach c W \<Longrightarrow> may_join team (case members of Some ms \<Rightarrow> ms | None \<Rightarrow> [leader]) bracket (bw_queues W qt) \<Longrightarrow>
    join_bgqueue leader team members b qt t bracket ratedType isRated isPremade rating mmr W = Some W' \<Longrightarrow> bg_reach c W'"
| other: "bg_reach c W \<Longrightarrow> bw_queues W' = bw_queues W \<Longrightarrow> bg_reach c W'"

lemma reach_queues_ok: "bg_reach c W \<Longrightarrow> queues_ok W"
proof (induction rule: bg_reach.induct)
  case (start W)
  then show ?case by (simp add: queues_ok_def)
next
  case (join W team members leader bracket qt b t ratedType isRated isPremade rating mmr W')
  then show ?case using join_queue_ok by blast
next
  case (other W W')
  then show ?case by (simp add: queues_ok_def)
qed (auto intro: Mgr_UpdateQueues_ok HandleBattleFieldPort_ok RemovePlayer_ok)

subsection \<open>The handlers are steps\<close>

text \<open>Who joins with a request, and that none of them waits in the queue.\<close>

definition joiners :: "u64 \<Rightarrow> bool \<Rightarrow> BgGroup option \<Rightarrow> u64 list" where
  "joiners guid asGroup party = (if asGroup then (case party of None \<Rightarrow> [] | Some grp \<Rightarrow> bgr_members grp) else [guid])"

definition newcomers :: "BgConf \<Rightarrow> u64 \<Rightarrow> u64 list \<Rightarrow> nat \<Rightarrow> BgWorld \<Rightarrow> bool" where
  "newcomers c guid ms qt W \<longleftrightarrow> ms \<noteq> [] \<and> (\<forall>m \<in> set ms. map_of (m_QueuedPlayers (bw_queues W qt)) m = None) \<and>
     (\<forall>p. bw_players W guid = Some p \<longrightarrow> bp_team p \<in> {ALLIANCE, HORDE}) \<and>
     (\<forall>mapid level e. GetBattlegroundBracketByLevel c mapid level = Some e \<longrightarrow> pd_bracketId (snd e) < MAX_BATTLEGROUND_BRACKETS)"

lemma newcomers_may_join:
  "newcomers c guid ms qt W \<Longrightarrow> bw_players W guid = Some p \<Longrightarrow> GetBattlegroundBracketByLevel c mapid level = Some e \<Longrightarrow>
     may_join (bp_team p) ms (pd_bracketId (snd e)) (bw_queues W qt)"
  by (cases e) (auto simp: newcomers_def may_join_def)

lemma tell_refusal_queues: "tell_refusal err bg guid ms W = Some W' \<Longrightarrow> bw_queues W' = bw_queues W"
  by (induction err bg guid ms W rule: tell_refusal.induct) (auto simp: bind_eq_Some_conv split: option.splits)

lemma join_alone_reach:
  assumes "bg_reach c W" and "join_alone guid p b bg t bracket W = Some (joined, W')"
    and "may_join (bp_team p) [guid] bracket (bw_queues W (BGQueueTypeId t RATED_TYPE_NOT_RATED))"
  shows "bg_reach c W'"
proof -
  have "bw_queues W' = bw_queues W \<or>
    join_bgqueue guid (bp_team p) None b (BGQueueTypeId t RATED_TYPE_NOT_RATED) t bracket RATED_TYPE_NOT_RATED False False 0 0 W = Some W'"
    using assms(2) by (auto simp: join_alone_def Let_def refuse_queues split: if_splits)
  then show ?thesis using assms(1,3) bg_reach.join [where members = None] by (auto intro: bg_reach.other)
qed

lemma join_with_group_reach:
  assumes "bg_reach c W" and "join_with_group c guid p party b bg t bracket W = Some (joined, W')"
    and "\<And>grp. party = Some grp \<Longrightarrow> may_join (bp_team p) (bgr_members grp) bracket (bw_queues W (BGQueueTypeId t RATED_TYPE_NOT_RATED))"
  shows "bg_reach c W'"
proof (cases party)
  case None
  then show ?thesis using assms(1,2) by (simp add: join_with_group_def)
next
  case (Some grp)
  note j = assms(2) [unfolded join_with_group_def Some option.case Let_def]
  consider "W' = W" | err where "tell_refusal err bg guid (bgr_members grp) W = Some W'"
    | prem where "join_bgqueue guid (bp_team p) (Some (bgr_members grp)) b (BGQueueTypeId t RATED_TYPE_NOT_RATED) t bracket
        RATED_TYPE_NOT_RATED False prem 0 0 W = Some W'"
  proof (cases "bgr_leader grp = guid")
    case True
    then show ?thesis using j that(2,3) by (auto simp: bind_eq_Some_conv split: if_splits)
  qed (use j that(1) in simp)
  then show ?thesis
  proof cases
    case 3
    show ?thesis by (rule bg_reach.join [OF assms(1) _ 3]) (simp add: assms(3) [OF Some])
  qed (use assms(1) tell_refusal_queues bg_reach.other in blast)+
qed

lemma battlemaster_join_reach:
  assumes "bg_reach c W" and "HandleBattlemasterJoin c guid asGroup party t W = Some W'"
    and "newcomers c guid (joiners guid asGroup party) (BGQueueTypeId t RATED_TYPE_NOT_RATED) W"
  shows "bg_reach c W'"
proof (cases "W' = W")
  case False
  obtain p where p: "bw_players W guid = Some p" using assms(2) by (auto simp: HandleBattlemasterJoin_def bind_eq_Some_conv)
  note h = assms(2) [unfolded HandleBattlemasterJoin_def p bind.simps Let_def]
  obtain b where b: "GetBattlegroundTemplate t W = Some b" using h False by (auto split: if_splits option.splits)
  obtain bg where bg: "bw_bgs W b = Some bg" using h False by (auto simp: b bind_eq_Some_conv split: if_splits)
  obtain e where e: "GetBattlegroundBracketByLevel c (bg_MapId bg) (bp_level p) = Some e"
    using h False by (auto simp: b bg split: if_splits option.splits)
  let ?join = "if \<not> asGroup then join_alone guid p b bg t (pd_bracketId (snd e)) W
        else join_with_group c guid p party b bg t (pd_bracketId (snd e)) W"
  have "Option.bind ?join (\<lambda>(joined, W). Some (if joined then ScheduleQueueUpdate 0 RATED_TYPE_NOT_RATED
      (BGQueueTypeId t RATED_TYPE_NOT_RATED) t (pd_bracketId (snd e)) W else W)) = Some W'"
    using h False unfolding b bg e option.case bind.simps 
    by (cases "cf_maxGroupSize c t = None \<or> cf_disabled c t \<or> InBattleground p") (simp_all only: if_True if_False option.inject not_True_eq_False simp_thms)
  then obtain joined W1 where j: "?join = Some (joined, W1)"
    and W': "W' = (if joined then ScheduleQueueUpdate 0 RATED_TYPE_NOT_RATED (BGQueueTypeId t RATED_TYPE_NOT_RATED) t (pd_bracketId (snd e)) W1 else W1)"
    by (elim bind_SomeE_eq) auto
  note m = newcomers_may_join [OF assms(3) p e]
  have "bg_reach c W1"
  proof (cases asGroup)
    case True
    then have "join_with_group c guid p party b bg t (pd_bracketId (snd e)) W = Some (joined, W1)" using j by simp
    then show ?thesis by (rule join_with_group_reach [OF assms(1)]) (use m True in \<open>simp add: joiners_def\<close>)
  next
    case False
    then have "join_alone guid p b bg t (pd_bracketId (snd e)) W = Some (joined, W1)" using j by simp
    then show ?thesis by (rule join_alone_reach [OF assms(1)]) (use m False in \<open>simp add: joiners_def\<close>)
  qed
  then show ?thesis by (rule bg_reach.other) (simp add: W')
qed (use assms(1) in simp)

lemma arena_join_reach:
  assumes "bg_reach c W" and "HandleBattlemasterJoinArena c guid slot (Some grp) W = Some W'"
    and "\<And>t. newcomers c guid (bgr_members grp) (BGQueueTypeId t (GetRatedTypeBySlot slot)) W"
  shows "bg_reach c W'"
proof (cases "bw_queues W' = bw_queues W")
  case False
  obtain p where p: "bw_players W guid = Some p" using assms(2) by (auto simp: HandleBattlemasterJoinArena_def bind_eq_Some_conv)
  note h = assms(2) [unfolded HandleBattlemasterJoinArena_def p bind.simps Let_def]
  have "\<not> (\<not> IsArenaSlot slot \<or> InBattleground p)" using h False by (auto split: if_splits)
  then obtain b bg where bg: "bw_bgs W b = Some bg" and r: "(if cf_disabled c BATTLEGROUND_AA then Some W else
      case (GetBattlegroundBracketByLevel c (bg_MapId bg) (bp_level p), Some grp) of
        (Some entry, Some grp) \<Rightarrow>
          if bgr_leader grp \<noteq> guid then Some W
          else Option.bind (CanJoinBattlegroundQueue c grp bg (BGQueueTypeId (bg_TypeID bg) (GetRatedTypeBySlot slot)) (GetRatedTypeBySlot slot) W)
            (\<lambda>err. Option.bind (if err = ERR_BATTLEGROUND_NONE
                 then join_bgqueue guid (bp_team p) (Some (bgr_members grp)) b (BGQueueTypeId (bg_TypeID bg) (GetRatedTypeBySlot slot))
                        (bg_TypeID bg) (pd_bracketId (snd entry)) (GetRatedTypeBySlot slot) True False
                        (if bgr_rating grp = 0 then 1 else bgr_rating grp) (bgr_mmr grp) W
                 else tell_refusal err bg guid (bgr_members grp) W)
               (\<lambda>W. Some (ScheduleQueueUpdate (bgr_mmr grp) (GetRatedTypeBySlot slot) (BGQueueTypeId (bg_TypeID bg) (GetRatedTypeBySlot slot))
                        (bg_TypeID bg) (pd_bracketId (snd entry)) W)))
      | _ \<Rightarrow> Some W) = Some W'"
    using h False by (auto simp: bind_eq_Some_conv split: option.splits)
  show ?thesis
  proof (cases "GetBattlegroundBracketByLevel c (bg_MapId bg) (bp_level p)")
    case None
    then show ?thesis using r False by (simp split: if_splits)
  next
    case (Some e)
    let ?X = "\<lambda>err. if err = ERR_BATTLEGROUND_NONE
        then join_bgqueue guid (bp_team p) (Some (bgr_members grp)) b (BGQueueTypeId (bg_TypeID bg) (GetRatedTypeBySlot slot))
               (bg_TypeID bg) (pd_bracketId (snd e)) (GetRatedTypeBySlot slot) True False
               (if bgr_rating grp = 0 then 1 else bgr_rating grp) (bgr_mmr grp) W
        else tell_refusal err bg guid (bgr_members grp) W"
    have "\<exists>err W1. ?X err = Some W1 \<and> bw_queues W' = bw_queues W1"
      using r False unfolding Some prod.case option.case
      by (cases "cf_disabled c BATTLEGROUND_AA"; cases "bgr_leader grp = guid")
        (simp_all only: if_True if_False not_not simp_thms option.inject, elim bind_SomeE_eq, metis bw_queues_simps(5) option.inject)
    then obtain err W1 where "?X err = Some W1" and W': "bw_queues W' = bw_queues W1" by blast
    moreover have "bg_reach c W1" if "tell_refusal err bg guid (bgr_members grp) W = Some W1" for err
      using bg_reach.other [OF assms(1)] tell_refusal_queues [OF that] by simp
    moreover have "bg_reach c W1" if "?X ERR_BATTLEGROUND_NONE = Some W1"
      by (rule bg_reach.join [OF assms(1) _ that [simplified if_True simp_thms]])
        (simp add: newcomers_may_join [OF assms(3) p Some])
    ultimately have "bg_reach c W1" by (cases "err = ERR_BATTLEGROUND_NONE") simp_all
    then show ?thesis using W' by (rule bg_reach.other)
  qed
qed (use assms(1) in \<open>auto intro: bg_reach.other\<close>)

end
