(* ===== verification/BgProperties.thy ===== *)
theory BgProperties
  imports BgInvariant
begin

text \<open>
  The properties of the battleground queues that rest on their invariant and on the selection of groups.
\<close>

subsection \<open>A battleground is never invited too many players\<close>

definition inc_invited :: "u32 \<Rightarrow> nat \<Rightarrow> Battleground \<Rightarrow> Battleground" where
  "inc_invited team n = (IncreaseInvitedCount team ^^ n)"

lemma inc_invited_add: "inc_invited team m (inc_invited team n x) = inc_invited team (n + m) x"
  by (simp add: inc_invited_def funpow_add add.commute [of n m])

lemma inc_invited_count:
  "GetInvitedCount team (inc_invited team n x) = GetInvitedCount team x + of_nat n"
  "team \<in> {ALLIANCE, HORDE} \<Longrightarrow> other \<in> {ALLIANCE, HORDE} \<Longrightarrow> other \<noteq> team \<Longrightarrow> GetInvitedCount other (inc_invited team n x) = GetInvitedCount other x"
  "bg_MaxPlayersPerTeam (inc_invited team n x) = bg_MaxPlayersPerTeam x"
  by (induction n) (auto simp: inc_invited_def IncreaseInvitedCount_def GetInvitedCount_def)

lemma invite_player_count:
  assumes "invite_player qt g b bg m W = Some W'" and "bw_bgs W b = Some x"
  shows "\<exists>n \<le> 1. bw_bgs W' b = Some (inc_invited (gq_team g) n x)"
proof (cases "bw_players W m")
  case None
  then show ?thesis using assms by (auto simp: invite_player_def inc_invited_def intro!: exI [of _ 0])
next
  case (Some p)
  have "bw_bgs W' b = Some (IncreaseInvitedCount (gq_team g) x)"
    using assms Some by (auto simp: invite_player_def Let_def bind_eq_Some_conv at_bg_def at_bgplayer_def bg_emit_def at_queue_def)
  then show ?thesis by (auto simp: inc_invited_def intro!: exI [of _ "Suc 0"])
qed

lemma invite_players_count:
  "invite_players qt g b bg ms W = Some W' \<Longrightarrow> bw_bgs W b = Some x \<Longrightarrow>
     \<exists>n \<le> length ms. bw_bgs W' b = Some (inc_invited (gq_team g) n x)"
proof (induction ms arbitrary: W x)
  case Nil
  then show ?case by (simp add: inc_invited_def)
next
  case (Cons m ms)
  then obtain W1 where W1: "invite_player qt g b bg m W = Some W1" "invite_players qt g b bg ms W1 = Some W'"
    by (auto simp: bind_eq_Some_conv)
  obtain n where n: "n \<le> 1" "bw_bgs W1 b = Some (inc_invited (gq_team g) n x)" using invite_player_count [OF W1(1) Cons.prems(2)] by blast
  obtain k where k: "k \<le> length ms" "bw_bgs W' b = Some (inc_invited (gq_team g) k (inc_invited (gq_team g) n x))"
    using Cons.IH [OF W1(2) n(2)] by blast
  then show ?case using n by (auto simp: inc_invited_add intro!: exI [of _ "n + k"])
qed

lemma group_size_players_of: "group_size I a = (case players_of I a of None \<Rightarrow> 0 | Some ms \<Rightarrow> length ms)"
  by (simp add: group_size_def players_of_def split: option.splits)

lemma InviteGroup_count:
  assumes "InviteGroupToBG qt a b side W = Some (r, W')" and "bw_bgs W b = Some x"
    and "team_of (bq_infos (bw_queues W qt)) a = Some side" and "side \<noteq> 0"
  shows "\<exists>n \<le> group_size (bq_infos (bw_queues W qt)) a. bw_bgs W' b = Some (inc_invited side n x)"
proof -
  obtain g where g: "bq_infos (bw_queues W qt) a = Some g" "gq_team g = side" using assms(3) by (auto simp: team_of_def)
  show ?thesis
  proof (cases "gq_invited g = 0")
    case True
    then obtain bg h where i: "invite_players qt h b bg (gq_players g) (at_queue qt (at_info a (\<lambda>_. h)) W) = Some W'" and h: "gq_team h = side"
      using assms(1,4) g by (force simp: InviteGroupToBG_def bind_eq_Some_conv Let_def)
    show ?thesis
      using invite_players_count [OF i, of x] assms(2) g h by (simp add: at_queue_def group_size_def)
  next
    case False
    then have "bw_bgs W' b = Some x"
      using assms g by (auto simp: InviteGroupToBG_def bind_eq_Some_conv Let_def at_queue_def split: if_splits)
    then show ?thesis by (auto simp: inc_invited_def intro!: exI [of _ 0])
  qed
qed

lemma invite_pool_count:
  "invite_pool qt b as W = Some W' \<Longrightarrow> bw_bgs W b = Some x \<Longrightarrow> times_ok (bw_queues W qt) \<Longrightarrow> side \<noteq> 0 \<Longrightarrow>
     \<forall>a \<in> set as. team_of (bq_infos (bw_queues W qt)) a = Some side \<Longrightarrow>
     \<exists>n \<le> sum_list (map (group_size (bq_infos (bw_queues W qt))) as). bw_bgs W' b = Some (inc_invited side n x) \<and>
       queue_kept (bw_queues W qt) (bw_queues W' qt) \<and> team_of (bq_infos (bw_queues W' qt)) = team_of (bq_infos (bw_queues W qt))"
proof (induction as arbitrary: W x)
  case Nil
  then show ?case by (simp add: inc_invited_def)
next
  case (Cons a as)
  obtain g where g: "bq_infos (bw_queues W qt) a = Some g" "gq_team g = side" using Cons.prems(5) by (auto simp: team_of_def)
  then obtain r W1 where i: "InviteGroupToBG qt a b side W = Some (r, W1)" and rest: "invite_pool qt b as W1 = Some W'"
    using Cons.prems(1) by (auto simp: bind_eq_Some_conv)
  obtain n where n: "n \<le> group_size (bq_infos (bw_queues W qt)) a" "bw_bgs W1 b = Some (inc_invited side n x)"
    using InviteGroup_count [OF i Cons.prems(2) _ Cons.prems(4)] Cons.prems(5) by auto
  obtain q where q: "bw_queues W1 = (bw_queues W)(qt := q)" "queue_kept (bw_queues W qt) q"
    "team_of (bq_infos q) = (team_of (bq_infos (bw_queues W qt)))(a \<mapsto> side)"
    using InviteGroup_kept [OF i Cons.prems(3)] g by auto
  have t: "team_of (bq_infos (bw_queues W1 qt)) = team_of (bq_infos (bw_queues W qt))"
    using q Cons.prems(5) by (auto simp: fun_eq_iff)
  have sz: "group_size (bq_infos (bw_queues W1 qt)) = group_size (bq_infos (bw_queues W qt))"
    using q by (simp add: queue_kept_def group_size_players_of fun_eq_iff)
  have ti: "times_ok (bw_queues W1 qt)" using q Cons.prems(3) by (simp add: queue_kept_def)
  obtain k where "k \<le> sum_list (map (group_size (bq_infos (bw_queues W qt))) as)"
      "bw_bgs W' b = Some (inc_invited side k (inc_invited side n x))" "queue_kept (bw_queues W1 qt) (bw_queues W' qt)"
      "team_of (bq_infos (bw_queues W' qt)) = team_of (bq_infos (bw_queues W1 qt))"
    using Cons.IH [OF rest n(2) ti Cons.prems(4)] Cons.prems(5) by (auto simp: t sz)
  then show ?case using n t kept_trans [of "bw_queues W qt" q "bw_queues W' qt"] q
    by (auto simp: inc_invited_add intro!: exI [of _ "n + k"])
qed

lemma free_slots_left:
  "GetFreeSlotsForTeam team bg \<le> (if GetInvitedCount team bg < bg_MaxPlayersPerTeam bg
     then bg_MaxPlayersPerTeam bg - GetInvitedCount team bg else 0)"
proof (cases "bg_Status bg = STATUS_WAIT_JOIN")
  case True
  show ?thesis unfolding GetFreeSlotsForTeam_def Let_def if_P [OF True] by (rule order_refl)
next
  case wait: False
  show ?thesis
  proof (cases "bg_Status bg = STATUS_IN_PROGRESS")
    case True
    show ?thesis
      unfolding GetFreeSlotsForTeam_def Let_def if_not_P [OF wait] if_P [OF True]
      by (rule order_trans [OF min.cobounded1 min.cobounded2])
  next
    case False
    show ?thesis unfolding GetFreeSlotsForTeam_def Let_def if_not_P [OF wait] if_not_P [OF False] by (rule word_zero_le)
  qed
qed

lemma free_slots_nat:
  "unat (GetFreeSlotsForTeam team bg) \<le> unat (bg_MaxPlayersPerTeam bg) - unat (GetInvitedCount team bg)"
proof (cases "GetInvitedCount team bg < bg_MaxPlayersPerTeam bg")
  case True
  then show ?thesis
    using free_slots_left [of team bg] unat_sub [OF order_less_imp_le [OF True]] True by (simp add: word_le_nat_alt)
next
  case False
  then have "GetFreeSlotsForTeam team bg = 0" using free_slots_left [of team bg] by simp
  then show ?thesis by simp
qed

lemma free_slots_bound:
  "unat (GetInvitedCount team bg) + unat (GetFreeSlotsForTeam team bg) \<le> max (unat (GetInvitedCount team bg)) (unat (bg_MaxPlayersPerTeam bg))"
  using free_slots_nat [of team bg] by linarith

lemma free_slots_max: "GetFreeSlotsForTeam team bg \<le> bg_MaxPlayersPerTeam bg"
  using free_slots_nat [of team bg] unfolding word_le_nat_alt by linarith

lemma selected_sum: "selected_ok I Q limit p \<Longrightarrow> sum_list (map (group_size I) (SelectedGroups p)) \<le> unat limit"
  by (simp add: selected_ok_def pool_ok_def word_le_nat_alt)

lemma selected_team:
  assumes "selected_ok (bq_infos q) (m_QueuedGroups q b i) limit p" and "queue_ok q"
  shows "\<forall>a \<in> set (SelectedGroups p). team_of (bq_infos q) a = Some (list_team i)"
  using assms subseq_set queue_ok_live by (fastforce simp: selected_ok_def team_of_def)

lemma invited_bound:
  assumes "n \<le> unat free" and "unat v + unat free \<le> max (unat v) (unat mx)"
  shows "v + of_nat n \<le> max v (mx :: u32)"
proof -
  have m: "unat (max v mx) = max (unat v) (unat mx)" by (simp add: max_def word_le_nat_alt)
  have "unat v + n \<le> unat (max v mx)" using assms m by linarith
  then show ?thesis using unat_add_le [of v n "max v mx"] by (simp add: word_le_nat_alt)
qed

lemma RemoveFromBGFreeSlotQueue_bg:
  assumes "RemoveFromBGFreeSlotQueue b W = Some W'" and "bw_bgs W b = Some x"
  shows "\<exists>f. bw_bgs W' b = Some (x\<lparr>bg_InBGFreeSlotQueue := f\<rparr>)"
  using assms by (auto simp: RemoveFromBGFreeSlotQueue_def Mgr_RemoveFromBGFreeSlotQueue_def bind_eq_Some_conv at_bg_def at_store_def split: if_splits)
    (metis Battleground.surjective Battleground.update_convs(15))

lemma FillPlayersToBG_pools:
  "FillPlayersToBG it af hf bracket q = Some q' \<Longrightarrow> \<exists>ali horde. q' = put_pool TEAM_HORDE horde (put_pool TEAM_ALLIANCE ali q)"
  unfolding FillPlayersToBG_def Let_def by (simp only: bind_eq_Some_conv split_paired_Ex prod.case) blast

text \<open>
  C10: Filling a running battleground, in a state reached without anybody joining a queue in which
  he waits already, never invites more players of a team than the battleground allows per team,
  unless more had been invited before.
\<close>

theorem running_battleground_not_overfull:
  assumes "bg_reach c W" and "fill_running c qt bgTypeId bracket b W = Some W'" and "bw_bgs W b = Some bg"
    and "uint (bg_MaxPlayersPerTeam bg) < 2 ^ 31" and "team \<in> {ALLIANCE, HORDE}"
  shows "\<exists>bg'. bw_bgs W' b = Some bg' \<and> GetInvitedCount team bg' \<le> max (GetInvitedCount team bg) (bg_MaxPlayersPerTeam bg)"
proof -
  have ok: "queues_ok W" using reach_queues_ok [OF assms(1)] .
  let ?q = "bw_queues W qt"
  have q: "queue_ok ?q" using queues_okD [OF ok] .
  show ?thesis
  proof (cases "\<not> bg_IsRated bg \<and> bg_TypeID bg = bgTypeId \<and> bg_BracketId bg = bracket \<and>
            bg_Status bg > STATUS_WAIT_QUEUE \<and> bg_Status bg < STATUS_WAIT_LEAVE")
    case False
    then have "W' = W" using assms(2,3) unfolding fill_running_def by (simp only: bind.simps if_False option.inject)
    then show ?thesis using assms(3) by (auto simp: max_def)
  next
    case True
    let ?F = "\<lambda>team. GetFreeSlotsForTeam team bg"
    obtain q1 W1 where f: "FillPlayersToBG (cf_invitationType c) (?F ALLIANCE) (?F HORDE) bracket (init_pools ?q) = Some q1"
      and i: "invite_pools qt b (at_queue qt (\<lambda>_. q1) W) = Some W1"
      and r: "(if \<not> HasFreeSlots bg then RemoveFromBGFreeSlotQueue b W1 else Some W1) = Some W'"
      using assms(2,3) True unfolding fill_running_def by (auto simp: bind_eq_Some_conv)
    have small: "uint (?F t) < 2 ^ 31" for t
      using free_slots_max [of t bg] assms(4) by (auto simp: word_le_def)
    have sel: "selected_ok (bq_infos ?q) (m_QueuedGroups ?q bracket BG_QUEUE_NORMAL_ALLIANCE) (?F ALLIANCE) (m_SelectionPools q1 TEAM_ALLIANCE)"
      "selected_ok (bq_infos ?q) (m_QueuedGroups ?q bracket BG_QUEUE_NORMAL_HORDE) (?F HORDE) (m_SelectionPools q1 TEAM_HORDE)"
      using fill_selected [OF _ empty_pools_init small small, of bracket ?q "cf_invitationType c" ALLIANCE HORDE] f queue_ok_live_lists [OF q]
      by (auto simp: live_lists_def)
    have q1: "queue_ok q1" "bq_infos q1 = bq_infos ?q" "m_QueuedGroups q1 = m_QueuedGroups ?q"
      using FillPlayersToBG_pools [OF f] q by auto
    let ?W = "at_queue qt (\<lambda>_. q1) W"
    have qs: "bw_queues ?W qt = q1" "bw_bgs ?W b = Some bg" using assms(3) by (simp_all add: at_queue_def)
    obtain W2 where p1: "invite_pool qt b (SelectedGroups (m_SelectionPools q1 TEAM_ALLIANCE)) ?W = Some W2"
      and p2: "invite_pool qt b (SelectedGroups (m_SelectionPools (bw_queues W2 qt) TEAM_HORDE)) W2 = Some W1"
      using i qs(1) by (auto simp: invite_pools_def bind_eq_Some_conv)
    have ti: "times_ok q1" using q1(1) by (simp add: queue_ok_def)
    have al: "\<forall>a \<in> set (SelectedGroups (m_SelectionPools q1 TEAM_ALLIANCE)). team_of (bq_infos q1) a = Some ALLIANCE"
      and ho: "\<forall>a \<in> set (SelectedGroups (m_SelectionPools q1 TEAM_HORDE)). team_of (bq_infos q1) a = Some HORDE"
      using selected_team [OF sel(1) q] selected_team [OF sel(2) q] q1 by (simp_all add: list_team_def bg_indices)
    obtain n where n: "n \<le> unat (?F ALLIANCE)" "bw_bgs W2 b = Some (inc_invited ALLIANCE n bg)" "queue_kept q1 (bw_queues W2 qt)"
        "team_of (bq_infos (bw_queues W2 qt)) = team_of (bq_infos q1)"
      using invite_pool_count [OF p1 qs(2) _ teams_differ(3)] ti al selected_sum [OF sel(1)] q1 qs(1)
      by simp (meson le_trans)
    have same: "m_SelectionPools (bw_queues W2 qt) = m_SelectionPools q1" "times_ok (bw_queues W2 qt)"
      "group_size (bq_infos (bw_queues W2 qt)) = group_size (bq_infos q1)"
      using n(3) ti by (simp_all add: queue_kept_def group_size_players_of fun_eq_iff)
    obtain k where k: "k \<le> unat (?F HORDE)" "bw_bgs W1 b = Some (inc_invited HORDE k (inc_invited ALLIANCE n bg))"
      using invite_pool_count [OF p2 n(2) same(2) teams_differ(4)] ho selected_sum [OF sel(2)] q1
      unfolding same n(4) by simp (meson le_trans)
    obtain bg' where bg': "bw_bgs W' b = Some bg'" "GetInvitedCount team bg' = GetInvitedCount team (inc_invited HORDE k (inc_invited ALLIANCE n bg))"
      using r k(2) RemoveFromBGFreeSlotQueue_bg [of b W1 W'] by (fastforce simp: GetInvitedCount_def split: if_splits)
    have "GetInvitedCount team bg' = GetInvitedCount team bg + of_nat (if team = ALLIANCE then n else k)"
      using assms(5) inc_invited_count bg'(2) by auto
    moreover have "(if team = ALLIANCE then n else k) \<le> unat (?F team)" using n(1) k(1) assms(5) by auto
    ultimately show ?thesis using bg'(1) invited_bound [OF _ free_slots_bound] by simp
  qed
qed

subsection \<open>A world\<close>

text \<open>Two players of each team, a battleground for one player of each team, and the queue of its type.\<close>

definition sample_player :: "u32 \<Rightarrow> BgPlayer" where
  "sample_player team = \<lparr>bp_team = team, bp_level = 90, bp_slots = [\<lparr>bs_queue = BATTLEGROUND_QUEUE_NONE, bs_invited = 0\<rparr>,
     \<lparr>bs_queue = BATTLEGROUND_QUEUE_NONE, bs_invited = 0\<rparr>], bp_bgInstanceID = 0, bp_bgTypeID = 0, bp_joinTimes = [],
     bp_bgTeam = 0, bp_deserter = False, bp_permArenas = True, bp_permRandom = True, bp_permNormal = True, bp_usingLfg = False\<rparr>"

definition sample_bg :: Battleground where
  "sample_bg = \<lparr>bg_TypeID = BATTLEGROUND_WS, bg_RandomTypeID = BATTLEGROUND_WS, bg_InstanceID = 7, bg_ClientInstanceID = 1,
     bg_Status = STATUS_WAIT_JOIN, bg_StartTime = 0, bg_EndTime = 0, bg_LastResurrectTime = 0, bg_Winner = 2, bg_BracketId = 0,
     bg_RatedType = 0, bg_IsRated = False, bg_IsArena = False, bg_IsRandom = False, bg_InBGFreeSlotQueue = True, bg_InvitedAlliance = 0,
     bg_InvitedHorde = 0, bg_Players = [], bg_CountAlliance = 0, bg_CountHorde = 0, bg_MMRAlliance = 0, bg_MMRHorde = 0,
     bg_LevelMin = 10, bg_LevelMax = 90, bg_MinPlayersPerTeam = 1, bg_MaxPlayersPerTeam = 1, bg_MaxPlayers = 2, bg_MapId = 489\<rparr>"

definition sample_conf :: BgConf where
  "sample_conf = \<lparr>cf_invitationType = 0, cf_premadeWait = 1800000, cf_maxRatingDifference = 0, cf_ratingDiscardTimer = 600000,
     cf_ratedUpdateTimer = 0, cf_brackets = [], cf_maxGroupSize = (\<lambda>_. Some 5), cf_disabled = (\<lambda>_. False), cf_urand = (\<lambda>_ a _. a),
     cf_alloc = (\<lambda>_ n. n), cf_arenaWeights = [], cf_ratedWeights = [], cf_bgWeights = []\<rparr>"

definition bg_sample_world :: BgWorld where
  "bg_sample_world = \<lparr>bw_now = 1000, bw_players = (\<lambda>g. if g = 10 \<or> g = 11 then Some (sample_player ALLIANCE)
       else if g = 20 \<or> g = 21 then Some (sample_player HORDE) else None),
     bw_bgs = [0 \<mapsto> sample_bg], bw_nextBg = 1,
     bw_store = [(BATTLEGROUND_WS, \<lparr>m_Battlegrounds = [(7, 0)], m_ClientBattlegroundIds = (\<lambda>_. [1]), BGFreeSlotQueue = [0]\<rparr>)],
     bw_queues = (\<lambda>_. BattlegroundQueue_new), bw_scheduler = [], bw_nextRated = 0, bw_arenaTesting = False, bw_testing = False,
     bw_ids = ids_empty, bw_draws = 0, bw_out = []\<rparr>"

definition sample_join :: "u64 \<Rightarrow> u32 \<Rightarrow> BgWorld \<Rightarrow> BgWorld" where
  "sample_join g team W = the (join_bgqueue g team None 0 BATTLEGROUND_QUEUE_WS BATTLEGROUND_WS 0 0 False False 0 0 W)"

definition sample_queued :: BgWorld where
  "sample_queued = sample_join 20 HORDE (sample_join 11 ALLIANCE (sample_join 10 ALLIANCE bg_sample_world))"

lemma the_Some: "map_option (\<lambda>_. ()) x = Some () \<Longrightarrow> x = Some (the x)"
  by (cases x) auto

lemma sample_join_reach:
  assumes "bg_reach sample_conf W" and "team \<in> {ALLIANCE, HORDE}" and "map_of (m_QueuedPlayers (bw_queues W BATTLEGROUND_QUEUE_WS)) g = None"
    and "map_option (\<lambda>_. ()) (join_bgqueue g team None 0 BATTLEGROUND_QUEUE_WS BATTLEGROUND_WS 0 0 False False 0 0 W) = Some ()"
  shows "bg_reach sample_conf (sample_join g team W)"
proof -
  have j: "may_join team (case None of Some ms \<Rightarrow> ms | None \<Rightarrow> [g]) 0 (bw_queues W BATTLEGROUND_QUEUE_WS)"
    using assms(2,3) by (simp add: may_join_def MAX_BATTLEGROUND_BRACKETS_def)
  show ?thesis
    using bg_reach.join [OF assms(1) j, of 0 BATTLEGROUND_WS 0 False False 0 0 "sample_join g team W"] the_Some [OF assms(4)]
    unfolding sample_join_def by simp
qed

lemma sample_queued_reach: "bg_reach sample_conf sample_queued"
proof -
  have s: "bg_reach sample_conf bg_sample_world" by (rule bg_reach.start) (simp add: bg_sample_world_def)
  show ?thesis unfolding sample_queued_def
    by (intro sample_join_reach s) (code_simp)+
qed

theorem running_battleground_not_overfull_witness:
  "\<exists>W' bg'. fill_running sample_conf BATTLEGROUND_QUEUE_WS BATTLEGROUND_WS 0 0 sample_queued = Some W' \<and> bw_bgs W' 0 = Some bg' \<and>
     GetInvitedCount ALLIANCE bg' \<le> 1"
proof -
  have "map_option (\<lambda>_. ()) (fill_running sample_conf BATTLEGROUND_QUEUE_WS BATTLEGROUND_WS 0 0 sample_queued) = Some ()" by code_simp
  then obtain W' where f: "fill_running sample_conf BATTLEGROUND_QUEUE_WS BATTLEGROUND_WS 0 0 sample_queued = Some W'" by auto
  have b: "bw_bgs sample_queued 0 = Some sample_bg" by code_simp
  show ?thesis
    using running_battleground_not_overfull [OF sample_queued_reach f b, of ALLIANCE] f
    by (auto simp: sample_bg_def GetInvitedCount_def)
qed

subsection \<open>The queues\<close>

text \<open>
  C9: Along every run of joins (by players none of whom waits in that queue already, which the
  handlers check unless a group is larger than the battleground allows), departures, answers to
  invitations, updates and events, each battleground queue stays consistent: every player in the
  index of queued players is named by exactly the group his entry points to, every live group
  stands in one list, once, and it is a list of its team, and the sums of waiting times are those
  of the last ten.
\<close>

theorem queues_stay_consistent:
  assumes "bg_reach c W"
  shows "queue_members_ok (m_QueuedPlayers (bw_queues W qt)) (players_of (bq_infos (bw_queues W qt))) \<and>
     lists_ok (m_QueuedGroups (bw_queues W qt)) (team_of (bq_infos (bw_queues W qt))) \<and> times_ok (bw_queues W qt)"
  using reach_queues_ok [OF assms] by (simp add: queues_ok_def queue_ok_def)

theorem queues_stay_consistent_witness:
  "queue_members_ok (m_QueuedPlayers (bw_queues sample_queued BATTLEGROUND_QUEUE_WS)) (players_of (bq_infos (bw_queues sample_queued BATTLEGROUND_QUEUE_WS))) \<and>
   map fst (m_QueuedPlayers (bw_queues sample_queued BATTLEGROUND_QUEUE_WS)) = [10, 11, 20]"
proof
  show "queue_members_ok (m_QueuedPlayers (bw_queues sample_queued BATTLEGROUND_QUEUE_WS)) (players_of (bq_infos (bw_queues sample_queued BATTLEGROUND_QUEUE_WS)))"
    using queues_stay_consistent [OF sample_queued_reach] by blast
  show "map fst (m_QueuedPlayers (bw_queues sample_queued BATTLEGROUND_QUEUE_WS)) = [10, 11, 20]" by code_simp
qed

subsection \<open>Leaving together\<close>

lemma RemovePlayer_together:
  "BgQueue_RemovePlayer qt guid d W = Some W' \<Longrightarrow> queues_ok W \<Longrightarrow> map_of (m_QueuedPlayers (bw_queues W qt)) guid = Some p \<Longrightarrow>
     bq_infos (bw_queues W qt) (pq_GroupInfo p) = Some g \<Longrightarrow> gq_isRated g \<and> gq_invited g = 0 \<Longrightarrow>
     bq_infos (bw_queues W' qt) (pq_GroupInfo p) = None \<and>
     (\<forall>m. map_of (m_QueuedPlayers (bw_queues W' qt)) m =
        (if m \<in> set (gq_players g) then None else map_of (m_QueuedPlayers (bw_queues W qt)) m))"
proof (induction qt guid d W arbitrary: p g rule: BgQueue_RemovePlayer.induct)
  case (1 qt guid d W)
  let ?q = "bw_queues W qt" and ?l = "os_erase guid (gq_players g)"
  note q = queues_okD [OF "1.prems"(2), of qt]
  have mem: "guid \<in> set (gq_players g)" using queue_ok_member [OF q "1.prems"(3)] "1.prems"(4) by auto
  obtain other W1 where s: "remove_step qt guid d W = Some (other, W1)"
    using "1.prems"(1) by (subst (asm) BgQueue_RemovePlayer.simps) (auto split: option.splits)
  obtain b i where W1: "bw_queues W1 = (bw_queues W)(qt :=
        (let q = without_player guid (pq_GroupInfo p) ?q in if ?l = [] then without_group (pq_GroupInfo p) b i q else q))"
    using remove_step_queues(1) [OF q "1.prems"(3,4) s] by blast
  have other: "other = (if ?l \<noteq> [] \<and> gq_invited g = 0 \<and> gq_isRated g then Some (hd ?l) else None)"
    using remove_step_queues(2) [OF q "1.prems"(3,4) s] .
  show ?case
  proof (cases "?l = []")
    case True
    then have "W' = W1" using other s "1.prems"(1) by (subst (asm) BgQueue_RemovePlayer.simps) simp
    moreover have "set (gq_players g) = {guid}"
      using mem arg_cong [OF True, of set] by auto
    ultimately show ?thesis
      using True by (auto simp: W1 Let_def without_player_def without_group_def put_list_def)
  next
    case False
    define k where "k = hd ?l"
    have k: "other = Some k" "k \<in> set ?l" using False other "1.prems"(5) hd_in_set [OF False] by (simp_all add: k_def del: set_os_erase)
    then have r: "BgQueue_RemovePlayer qt k d W1 = Some W'"
      using s "1.prems"(1) by (subst (asm) BgQueue_RemovePlayer.simps) simp
    have q1: "bw_queues W1 qt = without_player guid (pq_GroupInfo p) ?q" using False by (simp add: W1)
    have mo: "queue_members_ok (m_QueuedPlayers ?q) (players_of (bq_infos ?q))" using q by (simp add: queue_ok_def)
    obtain pk where pk: "map_of (m_QueuedPlayers ?q) k = Some pk" "pq_GroupInfo pk = pq_GroupInfo p"
      using queue_members_okD(4) [OF mo, of "pq_GroupInfo p" "gq_players g" k] k(2) "1.prems"(4) by (auto simp: players_of_def)
    have pk1: "map_of (m_QueuedPlayers (bw_queues W1 qt)) k = Some pk"
      using pk k(2) by (simp add: q1 without_player_def)
    have g1: "bq_infos (bw_queues W1 qt) (pq_GroupInfo pk) = Some (g\<lparr>gq_players := ?l\<rparr>)"
      using "1.prems"(4) pk(2) by (simp add: q1 without_player_def at_info_def)
    have "bq_infos (bw_queues W' qt) (pq_GroupInfo pk) = None \<and>
       (\<forall>m. map_of (m_QueuedPlayers (bw_queues W' qt)) m =
        (if m \<in> set (gq_players (g\<lparr>gq_players := ?l\<rparr>)) then None else map_of (m_QueuedPlayers (bw_queues W1 qt)) m))"
      using "1.IH" [OF s refl k(1) r remove_step_ok(1) [OF "1.prems"(2) s] pk1 g1] "1.prems"(5) by simp
    then show ?thesis using pk(2) mem by (auto simp: q1 without_player_def)
  qed
qed

text \<open>
  C15: In a state reached without anybody joining a queue in which he waits already, when a player
  of a rated group that is not invited leaves the queue, the whole group leaves: its object is
  gone, its players and nobody else are out of the index.
\<close>

theorem rated_group_leaves_together:
  assumes "bg_reach c W" and "map_of (m_QueuedPlayers (bw_queues W qt)) guid = Some p"
    and "bq_infos (bw_queues W qt) (pq_GroupInfo p) = Some g" and "gq_isRated g" and "gq_invited g = 0"
    and "BgQueue_RemovePlayer qt guid decrease W = Some W'"
  shows "bq_infos (bw_queues W' qt) (pq_GroupInfo p) = None \<and>
     (\<forall>m. map_of (m_QueuedPlayers (bw_queues W' qt)) m =
        (if m \<in> set (gq_players g) then None else map_of (m_QueuedPlayers (bw_queues W qt)) m))"
  using RemovePlayer_together [OF assms(6) reach_queues_ok [OF assms(1)] assms(2,3)] assms(4,5) by blast

text \<open>A team of two waits for a rated arena; one of the two leaves.\<close>

definition sample_team :: BgWorld where
  "sample_team = the (join_bgqueue 10 ALLIANCE (Some [10, 11]) 0 BATTLEGROUND_QUEUE_2v2 BATTLEGROUND_AA 0 RATED_TYPE_2v2 True False 1500 1500 bg_sample_world)"

lemma sample_team_reach: "bg_reach sample_conf sample_team"
proof -
  have s: "bg_reach sample_conf bg_sample_world" by (rule bg_reach.start) (simp add: bg_sample_world_def)
  have "map_option (\<lambda>_. ()) (join_bgqueue 10 ALLIANCE (Some [10, 11]) 0 BATTLEGROUND_QUEUE_2v2 BATTLEGROUND_AA 0 RATED_TYPE_2v2 True False
      1500 1500 bg_sample_world) = Some ()" by code_simp
  from the_Some [OF this] show ?thesis
    by (intro bg_reach.join [OF s, where team = ALLIANCE and members = "Some [10, 11]" and leader = 10 and bracket = 0 and qt = BATTLEGROUND_QUEUE_2v2])
      (auto simp: sample_team_def may_join_def bg_sample_world_def BattlegroundQueue_new_def MAX_BATTLEGROUND_BRACKETS_def)
qed

theorem rated_group_leaves_together_witness:
  "\<exists>W'. BgQueue_RemovePlayer BATTLEGROUND_QUEUE_2v2 10 True sample_team = Some W' \<and>
     map_of (m_QueuedPlayers (bw_queues W' BATTLEGROUND_QUEUE_2v2)) 11 = None"
proof -
  have "map_option (\<lambda>_. ()) (BgQueue_RemovePlayer BATTLEGROUND_QUEUE_2v2 10 True sample_team) = Some ()" by code_simp
  then obtain W' where r: "BgQueue_RemovePlayer BATTLEGROUND_QUEUE_2v2 10 True sample_team = Some W'" by auto
  have "(case bq_infos (bw_queues sample_team BATTLEGROUND_QUEUE_2v2) 0 of None \<Rightarrow> False
      | Some g \<Rightarrow> gq_isRated g \<and> gq_invited g = 0 \<and> gq_players g = [10, 11])" by code_simp
  then obtain g where g: "bq_infos (bw_queues sample_team BATTLEGROUND_QUEUE_2v2) 0 = Some g" "gq_isRated g" "gq_invited g = 0" "gq_players g = [10, 11]"
    by (auto split: option.splits)
  have p: "map_of (m_QueuedPlayers (bw_queues sample_team BATTLEGROUND_QUEUE_2v2)) 10 = Some \<lparr>pq_LastOnlineTime = 1000, pq_GroupInfo = 0\<rparr>"
    by code_simp
  show ?thesis
    using rated_group_leaves_together [OF sample_team_reach p _ g(2,3) r] g r by auto
qed

subsection \<open>Groups that are too large\<close>

text \<open>
  What the checks of a group achieve: when it is not too large and the slots of the waiting players show that they
  wait, none of its members waits in the queue.
\<close>

lemma members_error_none:
  "members_error c bg qt team entry W ms = ERR_BATTLEGROUND_NONE \<Longrightarrow> m \<in> set ms \<Longrightarrow>
     \<exists>p. bw_players W m = Some p \<and> \<not> InBattlegroundQueueFor qt p"
  by (induction ms) (auto simp: Let_def member_error_def bg_errors split: option.splits if_splits)

lemma checked_members_are_new:
  assumes "CanJoinBattlegroundQueue c grp bg qt k W = Some ERR_BATTLEGROUND_NONE"
    and "cf_maxGroupSize c (bg_TypeID bg) = Some n" and "\<not> n < bgr_count grp" and "m \<in> set (bgr_members grp)"
    and "\<And>m p. map_of (m_QueuedPlayers (bw_queues W qt)) m \<noteq> None \<Longrightarrow> bw_players W m = Some p \<Longrightarrow> InBattlegroundQueueFor qt p"
  shows "map_of (m_QueuedPlayers (bw_queues W qt)) m = None"
proof -
  obtain team entry where "members_error c bg qt team entry W (bgr_members grp) = ERR_BATTLEGROUND_NONE"
    using assms(1-3) unfolding CanJoinBattlegroundQueue_def Let_def
    by (auto simp: bg_errors split: if_splits list.splits option.splits)
  then obtain p where "bw_players W m = Some p" "\<not> InBattlegroundQueueFor qt p" using members_error_none assms(4) by blast
  then show ?thesis using assms(5) by blast
qed

text \<open>
  C39: A group (not one of the dungeon finder) that is larger than a battleground allows passes
  the checks of its members, so its leader joins the queue with members who wait there already:
  such a member then stands in two groups, and the index knows only the new one, so the other
  keeps him.
\<close>

theorem oversized_group_queued_twice:
  assumes "bg_reach c W" and "cf_maxGroupSize c (bg_TypeID bg) = Some n" and "n < bgr_count grp" and "\<not> bgr_isLFG grp"
    and "bgr_leader grp = guid" and "m \<in> set (bgr_members grp)" and "qt = BGQueueTypeId t RATED_TYPE_NOT_RATED"
    and "map_of (m_QueuedPlayers (bw_queues W qt)) m = Some e"
  shows "\<exists>W' a g old. join_with_group c guid p (Some grp) b bg t bracket W = Some (True, W') \<and> a \<noteq> pq_GroupInfo e \<and>
     map_option pq_GroupInfo (map_of (m_QueuedPlayers (bw_queues W' qt)) m) = Some a \<and>
     bq_infos (bw_queues W' qt) a = Some g \<and> m \<in> set (gq_players g) \<and>
     bq_infos (bw_queues W' qt) (pq_GroupInfo e) = Some old \<and> m \<in> set (gq_players old)"
proof -
  let ?q = "bw_queues W qt" and ?ms = "bgr_members grp" and ?prem = "bg_MinPlayersPerTeam bg \<le> bgr_count grp"
  have ok: "queue_ok ?q" using reach_queues_ok [OF assms(1)] by (simp add: queues_ok_def)
  obtain old where old: "bq_infos ?q (pq_GroupInfo e) = Some old" "m \<in> set (gq_players old)"
    using queue_ok_member [OF ok assms(8)] by blast
  have new: "bq_infos ?q (bq_nextInfo ?q) = None" using ok by (auto simp: queue_ok_def)
  obtain a q where aq: "BgQueue_AddGroup (bw_now W) guid (bp_team p) (Some ?ms) t bracket RATED_TYPE_NOT_RATED False ?prem 0 0 ?q = (a, q)"
    by (meson surj_pair)
  have a: "a = bq_nextInfo ?q" "map_option pq_GroupInfo (map_of (m_QueuedPlayers q) m) = Some a"
    and g: "\<exists>g. bq_infos q a = Some g \<and> m \<in> set (gq_players g)"
    and o: "x \<noteq> a \<Longrightarrow> bq_infos q x = bq_infos ?q x" for x
    using aq assms(6) by (auto simp: BgQueue_AddGroup_def Let_def map_of_queue_players queue_players_infos set_foldl_insert put_list_def)
  have ne: "a \<noteq> pq_GroupInfo e" using a(1) new old(1) by auto
  obtain g where g: "bq_infos q a = Some g" "m \<in> set (gq_players g)" using g by blast
  have "CanJoinBattlegroundQueue c grp bg qt 0 W = Some ERR_BATTLEGROUND_NONE"
    using assms(2-4) by (simp add: CanJoinBattlegroundQueue_def)
  then have "join_with_group c guid p (Some grp) b bg t bracket W =
      Some (True, tell_joined b qt t (GetAverageQueueWaitTime g bracket q) (gq_joinTime g) RATED_TYPE_NOT_RATED ?ms (at_queue qt (\<lambda>_. q) W))"
    using assms(5,7) aq g(1) by (simp add: join_with_group_def join_bgqueue_def Let_def)
  moreover have "bw_queues (tell_joined b qt t (GetAverageQueueWaitTime g bracket q) (gq_joinTime g) RATED_TYPE_NOT_RATED ?ms
      (at_queue qt (\<lambda>_. q) W)) qt = q"
    by (simp add: tell_joined_queues at_queue_def)
  ultimately obtain W' where W': "join_with_group c guid p (Some grp) b bg t bracket W = Some (True, W')" "bw_queues W' qt = q" by blast
  show ?thesis
    by (rule exI [of _ W'], rule exI [of _ a], rule exI [of _ g], rule exI [of _ old])
      (use W' a(2) g o [of "pq_GroupInfo e"] ne old in simp)
qed

text \<open>Player 10 waits alone; he joins a raid of ten, whose leader joins the same queue with him.\<close>

definition sample_raid :: BgGroup where
  "sample_raid = \<lparr>bgr_leader = 11, bgr_members = [11, 10], bgr_count = 10, bgr_isLFG = False, bgr_rating = 0, bgr_mmr = 0\<rparr>"

theorem oversized_group_queued_twice_witness:
  "\<exists>W' a. join_with_group sample_conf 11 (sample_player ALLIANCE) (Some sample_raid) 0 sample_bg BATTLEGROUND_WS 0 sample_queued = Some (True, W') \<and>
     a \<noteq> 0 \<and> map_option pq_GroupInfo (map_of (m_QueuedPlayers (bw_queues W' BATTLEGROUND_QUEUE_WS)) 10) = Some a"
proof -
  have q: "BATTLEGROUND_QUEUE_WS = BGQueueTypeId BATTLEGROUND_WS RATED_TYPE_NOT_RATED" by code_simp
  have p: "map_of (m_QueuedPlayers (bw_queues sample_queued BATTLEGROUND_QUEUE_WS)) 10 = Some \<lparr>pq_LastOnlineTime = 1000, pq_GroupInfo = 0\<rparr>"
    by code_simp
  show ?thesis
    using oversized_group_queued_twice [OF sample_queued_reach, of sample_bg 5 sample_raid 11 10 _ BATTLEGROUND_WS, OF _ _ _ _ _ q p]
    by (force simp: sample_conf_def sample_raid_def)
qed

end
