(* ===== verification/BgFaults.thy ===== *)
theory BgFaults
  imports BgInvariant
begin

unbundle bit_operations_syntax

text \<open>
  The scheduled updates of the manager, the ids that clients see, and the query for the state of a
  player's queues.
\<close>

subsection \<open>The fields of a scheduled update\<close>

lemma bit_bound: "(w :: 'a::len word) < 2 ^ n \<Longrightarrow> n < LENGTH('a) \<Longrightarrow> bit w k \<Longrightarrow> k < n"
proof -
  assume a: "w < 2 ^ n" "n < LENGTH('a)" "bit w k"
  have "unat (2 ^ n :: 'a word) = 2 ^ n"
    using a(2) by (metis of_nat_numeral of_nat_power one_less_numeral_iff power_strict_increasing_iff semiring_norm(76) take_bit_nat_eq_self unsigned_of_nat)
  then have "unat w < 2 ^ n" using a(1) by (simp add: word_less_nat_alt)
  then have "take_bit n (unat w) = unat w" by (simp add: take_bit_nat_eq_self)
  then have "take_bit n w = w" by (metis unsigned_take_bit_eq word_unat_eq_iff)
  then show "k < n" using a(3) by (metis bit_take_bit_iff)
qed

lemma bit_nat_bound: "n < 2 ^ m \<Longrightarrow> bit (n :: nat) k \<Longrightarrow> k < m"
  by (metis bit_take_bit_iff take_bit_nat_eq_self)

lemma bit_of_nat_word: "bit (of_nat n :: 'a::len word) k \<longleftrightarrow> k < LENGTH('a) \<and> bit n k"
  by (simp add: bit_simps)

lemma schedule_id_bits:
  "bit (push_bit 48 (ucast (mmr :: u32)) :: u64) k \<longleftrightarrow> 48 \<le> k \<and> k < 64 \<and> bit mmr (k - 48)"
  "bit (push_bit 40 (ucast (rt :: u32)) :: u64) k \<longleftrightarrow> 40 \<le> k \<and> k < 64 \<and> bit rt (k - 40)"
  "bit (ucast (push_bit 24 (of_nat qt :: u32)) :: u64) k \<longleftrightarrow> 24 \<le> k \<and> k < 32 \<and> bit qt (k - 24)"
  "bit (ucast (push_bit 8 (t :: u32)) :: u64) k \<longleftrightarrow> 8 \<le> k \<and> k < 32 \<and> bit t (k - 8)"
  "bit (of_nat br :: u64) k \<longleftrightarrow> k < 64 \<and> bit br k"
  by (auto simp: bit_simps bit_of_nat_word)

lemma and_0xFF: "(w :: u64) AND 0xFF = take_bit 8 w"
  by (simp add: take_bit_eq_mask mask_eq_exp_minus_1)

lemma and_0xFFFF: "(w :: u64) AND 0xFFFF = take_bit 16 w"
  by (simp add: take_bit_eq_mask mask_eq_exp_minus_1)

text \<open>
  C33: The manager reads back from a scheduled id the rating, rated type, queue, battleground type
  and bracket that ScheduleQueueUpdate packed into it, when each fits the bits it has.
\<close>

theorem schedule_fields_of_id:
  assumes "mmr < 2 ^ 16" and "ratedType < 2 ^ 8" and "qt < 2 ^ 8" and "t < 2 ^ 16" and "bracket < 2 ^ 8"
  shows "schedule_fields (schedule_id mmr ratedType qt t bracket) = (mmr, ratedType, qt, t, bracket)"
proof -
  let ?i = "schedule_id mmr ratedType qt t bracket"
  have b: "bit mmr k \<Longrightarrow> k < 16" "bit ratedType k \<Longrightarrow> k < 8" "bit qt k \<Longrightarrow> k < 8" "bit t k \<Longrightarrow> k < 16" "bit bracket k \<Longrightarrow> k < 8" for k
    using bit_bound [OF assms(1)] bit_bound [OF assms(2)] bit_nat_bound [OF assms(3)] bit_bound [OF assms(4)] bit_nat_bound [OF assms(5)] by simp_all
  have i: "bit ?i k \<longleftrightarrow> (48 \<le> k \<and> k < 64 \<and> bit mmr (k - 48)) \<or> (40 \<le> k \<and> k < 48 \<and> bit ratedType (k - 40)) \<or>
      (24 \<le> k \<and> k < 32 \<and> bit qt (k - 24)) \<or> (8 \<le> k \<and> k < 24 \<and> bit t (k - 8)) \<or> (k < 8 \<and> bit bracket k)" for k
  proof -
    have "48 \<le> k \<Longrightarrow> bit mmr (k - 48) \<Longrightarrow> k < 64" "40 \<le> k \<Longrightarrow> bit ratedType (k - 40) \<Longrightarrow> k < 48"
      "24 \<le> k \<Longrightarrow> bit qt (k - 24) \<Longrightarrow> k < 32" "8 \<le> k \<Longrightarrow> bit t (k - 8) \<Longrightarrow> k < 24" "bit bracket k \<Longrightarrow> k < 8"
      using b(1) [of "k - 48"] b(2) [of "k - 40"] b(3) [of "k - 24"] b(4) [of "k - 8"] b(5) [of k] by linarith+
    then show ?thesis unfolding schedule_id_def bit_or_iff schedule_id_bits by (auto dest: less_trans)
  qed
  have "ucast (drop_bit 48 ?i) = mmr"
    by (rule bit_word_eqI) (use b(1) in \<open>auto simp: bit_simps i\<close>)
  moreover have "ucast (drop_bit 40 ?i AND 0xFF) = ratedType"
    unfolding and_0xFF by (rule bit_word_eqI) (use b(2) in \<open>auto simp: bit_simps i\<close>)
  moreover have "bit qt k \<Longrightarrow> k < 16" for k
    using b(3) [of k] by linarith
  then have "drop_bit 24 ?i AND 0xFFFF = of_nat qt"
    unfolding and_0xFFFF by (intro bit_word_eqI) (use b(3) in \<open>auto simp: bit_simps i\<close>)
  moreover have "ucast (drop_bit 8 ?i AND 0xFFFF) = t"
    unfolding and_0xFFFF by (rule bit_word_eqI) (use b(4) in \<open>auto simp: bit_simps i\<close>)
  moreover have "?i AND 0xFF = of_nat bracket"
    unfolding and_0xFF by (rule bit_word_eqI) (use b(5) in \<open>auto simp: bit_simps i\<close>)
  moreover have "unat (of_nat qt :: u64) = qt" "unat (of_nat bracket :: u64) = bracket"
    using assms(3,5) by (simp_all add: unat_of_nat)
  ultimately show ?thesis by (simp only: schedule_fields_def)
qed

theorem schedule_fields_of_id_witness:
  "schedule_fields (schedule_id 1500 RATED_TYPE_3v3 BATTLEGROUND_QUEUE_3v3 BATTLEGROUND_AA 7) =
     (1500, RATED_TYPE_3v3, BATTLEGROUND_QUEUE_3v3, BATTLEGROUND_AA, 7)"
  by (rule schedule_fields_of_id) (simp_all add: rated_types bg_queue_types bg_types)

subsection \<open>The loop over the scheduled updates\<close>

text \<open>What the loop means to do: every scheduled update, in order, once.\<close>

fun each_scheduled :: "BgConf \<Rightarrow> u64 list \<Rightarrow> BgWorld \<Rightarrow> BgWorld option" where
  "each_scheduled c [] W = Some W"
| "each_scheduled c (i # is) W = Option.bind (run_scheduled_one c i W) (each_scheduled c is)"

lemma run_scheduled_short:
  assumes "length s < 256"
  shows "unat i \<le> length s \<Longrightarrow> run_scheduled c s i W = each_scheduled c (drop (unat i) s) W"
proof (induction "length s - unat i" arbitrary: i W)
  case 0
  then show ?case by (subst run_scheduled.simps) simp
next
  case (Suc n)
  then have lt: "unat i < length s" by simp
  then have u: "unat (i + 1) = Suc (unat i)" using assms by (simp add: unat_word_ariths)
  have "run_scheduled c s (i + 1) = each_scheduled c (drop (Suc (unat i)) s)"
    by (rule ext) (use Suc(1) [of "i + 1"] Suc(2) lt in \<open>simp add: u\<close>)
  then show ?case
    using lt by (subst run_scheduled.simps) (simp add: Cons_nth_drop_Suc [symmetric])
qed

lemma run_scheduled_long: "run_scheduled c s i W = Some W' \<Longrightarrow> length s < 256"
proof (rule run_scheduled.raw_induct [where P = "\<lambda>c s i W r. length s < 256"])
  fix rec c and s :: "u64 list" and i :: u8 and W r
  assume "\<And>c s i W r. rec c s i W = Some r \<Longrightarrow> length s < 256"
    and "(if unat i < length s then Option.bind (run_scheduled_one c (s ! unat i) W) (rec c s (i + 1)) else Some W) = Some r"
  moreover have "unat i < 256" using unsigned_less [of i, where ?'a = nat] by simp
  ultimately show "length s < 256" by (auto simp: bind_eq_Some_conv split: if_splits)
qed

text \<open>
  C16: The loop over the scheduled queue updates counts with eight bits: it returns, after every
  scheduled update in order, exactly when fewer than 256 are scheduled and each of them returns;
  with 256 or more the server never leaves it.
\<close>

theorem scheduled_updates_loop:
  "run_scheduled c scheduled 0 W = (if length scheduled < 256 then each_scheduled c scheduled W else None)"
proof (cases "length scheduled < 256")
  case True
  then show ?thesis using run_scheduled_short [OF True, of 0 c W] by simp
next
  case False
  then show ?thesis using run_scheduled_long [of c scheduled 0 W] by (cases "run_scheduled c scheduled 0 W") auto
qed

subsection \<open>The state of a player's queues\<close>

lemma status_of_slots_None:
  "s \<in> set ss \<Longrightarrow> bs_queue s \<noteq> BATTLEGROUND_QUEUE_NONE \<Longrightarrow> GetRatedTypeByQueue (bs_queue s) = None \<Longrightarrow> status_of_slots c guid i ss W = None"
proof (induction c guid i ss W rule: status_of_slots.induct)
  case (2 c guid i s' ss W)
  show ?case
  proof (cases "s = s'")
    case True
    then show ?thesis using "2.prems" by (simp add: status_of_slot_def Let_def bind_eq_None_conv)
  next
    case False
    then show ?thesis using 2 by (cases "status_of_slot c guid i (bs_queue s') W") auto
  qed
qed simp

text \<open>
  C36: A player who waits in a queue that is not rated ends the server by asking for his
  battlefield status: the assertion of GetRatedTypeByQueue fails.
\<close>

theorem status_query_ends_the_server:
  assumes "bw_players W guid = Some p" and "s \<in> set (bp_slots p)"
    and "bs_queue s \<notin> {BATTLEGROUND_QUEUE_NONE, BATTLEGROUND_QUEUE_2v2, BATTLEGROUND_QUEUE_3v3, BATTLEGROUND_QUEUE_5v5, BATTLEGROUND_QUEUE_10v10}"
  shows "HandleBattlefieldStatus c guid W = None"
proof -
  have "GetRatedTypeByQueue (bs_queue s) = None" using assms(3) by (simp add: GetRatedTypeByQueue_def)
  then show ?thesis using status_of_slots_None [OF assms(2)] assms(1,3) by (simp add: HandleBattlefieldStatus_def)
qed

subsection \<open>The ids of battlegrounds that clients see\<close>

lemma client_id_loop_eq: "client_id_loop lst itr = (if lst + 1 \<noteq> itr then lst + 1 else itr + 1)"
proof -
  have "(itr :: u32) + 1 \<noteq> itr" by simp
  then show ?thesis by (subst client_id_loop.simps) (simp add: client_id_loop.simps [of itr itr])
qed

text \<open>
  C37: With the client ids 1 and 3 in use for a battleground type and bracket,
  CreateClientVisibleInstanceId gives out 3 again, and every further battleground gets it too.
\<close>

theorem client_ids_repeat:
  fixes W :: BgWorld
  defines "used \<equiv> \<lambda>W t bracket. m_ClientBattlegroundIds (om_at BattlegroundData_new (bw_store W) t) bracket"
  assumes "\<not> IsArenaType t" and "os_ok (used W t bracket)" and "{1, 3} \<subseteq> set (used W t bracket)" and "0 \<notin> set (used W t bracket)"
  shows "fst (CreateClientVisibleInstanceId t bracket W) = 3 \<and> 3 \<in> set (used W t bracket) \<and>
     used (snd (CreateClientVisibleInstanceId t bracket W)) t bracket = used W t bracket"
proof -
  obtain i js where u: "used W t bracket = i # js" using assms(4) by (cases "used W t bracket") auto
  have "i = 1"
  proof (rule ccontr)
    assume ne: "i \<noteq> 1"
    then have "1 \<in> set js" using assms(4) u by auto
    then have "i < 1" using assms(3) u by (auto simp: os_ok_def)
    then have "i = 0" by (simp add: word_less_nat_alt unat_eq_0)
    then show False using assms(5) u by simp
  qed
  then have c: "CreateClientVisibleInstanceId t bracket W =
      (3, at_store t (\<lambda>d. d\<lparr>m_ClientBattlegroundIds := (m_ClientBattlegroundIds d)(bracket := os_insert 3 (used W t bracket))\<rparr>) W)"
    using assms(2) u by (simp add: CreateClientVisibleInstanceId_def Let_def client_id_loop_eq used_def)
  have "os_insert 3 (used W t bracket) = used W t bracket"
    using assms(4) by (simp add: os_insert_def insort_insert_key_def)
  then show ?thesis using assms(4) by (simp add: c used_def at_store_def)
qed

subsection \<open>Concrete inputs\<close>

text \<open>A player who waits for a random battleground, and a battleground type of which the ids 1 and 3 are in use.\<close>

definition waiting_world :: BgWorld where
  "waiting_world = \<lparr>bw_now = 1000, bw_players = [10 \<mapsto> \<lparr>bp_team = ALLIANCE, bp_level = 90,
       bp_slots = [\<lparr>bs_queue = BATTLEGROUND_QUEUE_RB, bs_invited = 0\<rparr>, \<lparr>bs_queue = BATTLEGROUND_QUEUE_NONE, bs_invited = 0\<rparr>],
       bp_bgInstanceID = 0, bp_bgTypeID = 0, bp_joinTimes = [(BATTLEGROUND_RB, 1000)], bp_bgTeam = 0, bp_deserter = False,
       bp_permArenas = True, bp_permRandom = True, bp_permNormal = True, bp_usingLfg = False\<rparr>],
     bw_bgs = (\<lambda>_. None), bw_nextBg = 0,
     bw_store = [(BATTLEGROUND_RB, \<lparr>m_Battlegrounds = [], m_ClientBattlegroundIds = (\<lambda>_. [1, 3]), BGFreeSlotQueue = []\<rparr>)],
     bw_queues = (\<lambda>_. BattlegroundQueue_new), bw_scheduler = [], bw_nextRated = 0, bw_arenaTesting = False, bw_testing = False,
     bw_ids = ids_empty, bw_draws = 0, bw_out = []\<rparr>"

theorem status_query_ends_the_server_witness: "\<forall>c. HandleBattlefieldStatus c 10 waiting_world = None"
  by (rule allI, rule status_query_ends_the_server [where s = "\<lparr>bs_queue = BATTLEGROUND_QUEUE_RB, bs_invited = 0\<rparr>"])
    (auto simp: waiting_world_def bg_queue_types)

theorem client_ids_repeat_witness: "fst (CreateClientVisibleInstanceId BATTLEGROUND_RB 5 waiting_world) = 3"
  using client_ids_repeat [of BATTLEGROUND_RB waiting_world 5]
  by (simp add: IsArenaType_def bg_types waiting_world_def om_at_def os_ok_def)

end
