(* ===== verification/RatedInfo.thy ===== *)
theory RatedInfo
  imports Complex_Main BgHandlers
begin

text \<open>
  The ratings of a player (\<open>game/Battlegrounds/RatedInfo.cpp\<close>, \<open>RatedMgr.cpp\<close>) and the averages of a group
  (\<open>Group::GetRatedStats\<close>). The Elo formula is computed over the reals, without the rounding of \<open>float\<close>;
  what is stored keeps its width of 16 bits. Saving to the database is left out.
\<close>

record StatsBySlot =
  WeekGames :: u16
  WeekWins :: u16
  SeasonGames :: u16
  SeasonWins :: u16
  WeekBest :: u16
  SeasonBest :: u16
  PersonalRating :: u16

text \<open>\<open>m_ratedStats\<close> by rated type, and the rating of the matchmaker.\<close>

record RatedInfo =
  ri_stats :: "(u32 \<times> StatsBySlot) list"
  ri_mmr :: u16

definition StatsBySlot_new :: "u16 \<Rightarrow> StatsBySlot" where
  "StatsBySlot_new startRating = \<lparr>WeekGames = 0, WeekWins = 0, SeasonGames = 0, SeasonWins = 0, WeekBest = 0, SeasonBest = 0,
     PersonalRating = startRating\<rparr>"

definition RatedInfo_new :: "u16 \<Rightarrow> u16 \<Rightarrow> RatedInfo" where
  "RatedInfo_new startRating startMMR =
    \<lparr>ri_stats = foldl (\<lambda>m i. om_put (GetRatedTypeBySlot i) (StatsBySlot_new startRating) m) [] [0, 1, 2, 3], ri_mmr = startMMR\<rparr>"

definition GetRatedSlotByType :: "u32 \<Rightarrow> u8" where
  "GetRatedSlotByType t =
    (if t = RATED_TYPE_2v2 then 0 else if t = RATED_TYPE_3v3 then 1 else if t = RATED_TYPE_5v5 then 2
     else if t = RATED_TYPE_10v10 then 3 else 0xFF)"

subsection \<open>The Elo formula\<close>

definition GetChanceAgainst :: "u32 \<Rightarrow> u32 \<Rightarrow> real" where
  "GetChanceAgainst ownRating opponentRating =
    1 / (1 + exp (ln 10 * (real (unat opponentRating) - real (unat ownRating)) / 650))"

definition GetRatingMod :: "u32 \<Rightarrow> u32 \<Rightarrow> bool \<Rightarrow> int" where
  "GetRatingMod ownRating opponentRating won =
    (let chance = GetChanceAgainst ownRating opponentRating; won_mod = (if won then 1 else 0) in
     ceiling (if won \<and> ownRating < 1300 then
                if ownRating < 1000 then 96 * (won_mod - chance)
                else (24 + 24 * (1300 - real (unat ownRating)) / 300) * (won_mod - chance)
              else 24 * (won_mod - chance)))"

definition GetMatchmakerRatingMod :: "u32 \<Rightarrow> u32 \<Rightarrow> bool \<Rightarrow> int" where
  "GetMatchmakerRatingMod ownRating opponentRating won =
    ceiling (((if won then 1 else 0) - GetChanceAgainst ownRating opponentRating) * 24)"

subsection \<open>The results of a match\<close>

definition modify_u16 :: "int \<Rightarrow> u16 \<Rightarrow> u16" where
  "modify_u16 m r = (if uint r + m < 0 then 0 else r + of_int m)"

definition ModifyRating :: "int \<Rightarrow> StatsBySlot \<Rightarrow> StatsBySlot" where
  "ModifyRating m s =
    (let s = s\<lparr>PersonalRating := modify_u16 m (PersonalRating s)\<rparr>;
         s = (if PersonalRating s > WeekBest s then s\<lparr>WeekBest := PersonalRating s\<rparr> else s)
     in if PersonalRating s > SeasonBest s then s\<lparr>SeasonBest := PersonalRating s\<rparr> else s)"

text \<open>
  \<open>UpdateStats\<close>: the two changes are 16-bit results. \<open>None\<close>: there are no statistics of that type. The
  achievement and the database are left out.
\<close>

definition RatedInfo_UpdateStats :: "u32 \<Rightarrow> u32 \<Rightarrow> bool \<Rightarrow> bool \<Rightarrow> RatedInfo \<Rightarrow> (16 word \<times> 16 word \<times> RatedInfo) option" where
  "RatedInfo_UpdateStats ratedType againstMMR won offline info =
    (case map_of (ri_stats info) ratedType of None \<Rightarrow> None
     | Some stats \<Rightarrow>
         let ratingChange = of_int (GetRatingMod (ucast (PersonalRating stats)) againstMMR (\<not> offline)) :: 16 word;
             stats = ModifyRating (sint ratingChange) stats;
             mmrChange = of_int (GetMatchmakerRatingMod (ucast (ri_mmr info)) againstMMR won) :: 16 word;
             stats = stats\<lparr>SeasonGames := SeasonGames stats + 1, WeekGames := WeekGames stats + 1\<rparr>;
             stats = (if won then stats\<lparr>SeasonWins := SeasonWins stats + 1, WeekWins := WeekWins stats + 1\<rparr> else stats)
         in Some (ratingChange, mmrChange,
              \<lparr>ri_stats = om_put ratedType stats (ri_stats info), ri_mmr = modify_u16 (sint mmrChange) (ri_mmr info)\<rparr>))"

definition RatedInfo_FinishWeek :: "RatedInfo \<Rightarrow> RatedInfo" where
  "RatedInfo_FinishWeek info =
    info\<lparr>ri_stats := map (\<lambda>(t, s). (t, s\<lparr>WeekGames := 0, WeekWins := 0, WeekBest := 0\<rparr>)) (ri_stats info)\<rparr>"

subsection \<open>The manager\<close>

type_synonym rated_store = "(u64 \<times> RatedInfo) list"

text \<open>The constructor adds a new object for a valid GUID; the assertion of \<open>AddRatedInfo\<close> is \<open>None\<close>.\<close>

definition AddRatedInfo :: "u64 \<Rightarrow> RatedInfo \<Rightarrow> rated_store \<Rightarrow> rated_store option" where
  "AddRatedInfo guid info m = (if map_of m guid = None then Some (om_put guid info m) else None)"

definition GetRatedInfo :: "u16 \<Rightarrow> u16 \<Rightarrow> u64 \<Rightarrow> rated_store \<Rightarrow> (RatedInfo \<times> rated_store) option" where
  "GetRatedInfo startRating startMMR guid m =
    (case map_of m guid of Some info \<Rightarrow> Some (info, m)
     | None \<Rightarrow> let info = RatedInfo_new startRating startMMR
              in map_option (Pair info) (if guid \<noteq> 0 then AddRatedInfo guid info m else Some m))"

text \<open>The calls recorded by the queues, applied to the store.\<close>

fun apply_update :: "u16 \<Rightarrow> u16 \<Rightarrow> BgOut \<Rightarrow> rated_store \<Rightarrow> rated_store option" where
  "apply_update startRating startMMR (UpdateStatsCall guid ratedType opp won offline) m =
     do { (info, m) \<leftarrow> GetRatedInfo startRating startMMR guid m;
          (_, _, info) \<leftarrow> RatedInfo_UpdateStats ratedType opp won offline info;
          Some (om_adjust guid (\<lambda>_. info) m) }"
| "apply_update startRating startMMR _ m = Some m"

subsection \<open>The averages of a group\<close>

text \<open>The members are the players of the group's references; offline ones are passed over.\<close>

fun rated_sums :: "(u64 \<Rightarrow> bool) \<Rightarrow> u16 \<Rightarrow> u16 \<Rightarrow> u32 \<Rightarrow> u64 list \<Rightarrow> rated_store \<Rightarrow> (u32 \<times> u32 \<times> u32 \<times> rated_store) option" where
  "rated_sums on startRating startMMR ratedType [] m = Some (0, 0, 0, m)"
| "rated_sums on startRating startMMR ratedType (g # gs) m =
    (if \<not> on g then rated_sums on startRating startMMR ratedType gs m
     else do {
       (info, m) \<leftarrow> GetRatedInfo startRating startMMR g m;
       stats \<leftarrow> map_of (ri_stats info) ratedType;
       (mmr, rating, n, m) \<leftarrow> rated_sums on startRating startMMR ratedType gs m;
       Some (ucast (ri_mmr info) + mmr, ucast (PersonalRating stats) + rating, n + 1, m) })"

definition GetRatedStats :: "(u64 \<Rightarrow> bool) \<Rightarrow> u16 \<Rightarrow> u16 \<Rightarrow> u32 \<Rightarrow> u64 list \<Rightarrow> rated_store \<Rightarrow> (u32 \<times> u32 \<times> rated_store) option" where
  "GetRatedStats on startRating startMMR ratedType ms m =
    map_option (\<lambda>(mmr, rating, n, m). let n = (if n = 0 then 1 else n) in (mmr div n, rating div n, m))
      (rated_sums on startRating startMMR ratedType ms m)"

subsection \<open>Who wins rating\<close>

lemma chance_bounds: "0 < GetChanceAgainst a b" "GetChanceAgainst a b < 1"
  by (simp_all add: GetChanceAgainst_def field_simps add_pos_pos)

lemma ceiling_bounds: "0 \<le> (x :: real) \<Longrightarrow> x \<le> of_int k \<Longrightarrow> 0 \<le> ceiling x \<and> ceiling x \<le> k"
  by (simp add: ceiling_le_iff le_ceiling_iff)

lemma won_mod_bounds: "0 \<le> GetRatingMod own opp True \<and> GetRatingMod own opp True \<le> 96"
proof -
  have c: "0 \<le> 1 - GetChanceAgainst own opp" "1 - GetChanceAgainst own opp \<le> 1"
    using chance_bounds [of own opp] by simp_all
  have e: "0 \<le> ceiling (k * (1 - GetChanceAgainst own opp)) \<and> ceiling (k * (1 - GetChanceAgainst own opp)) \<le> 96"
    if "0 \<le> k" "k \<le> 96" for k :: real
  proof (rule ceiling_bounds)
    show "0 \<le> k * (1 - GetChanceAgainst own opp)" using that c by (intro mult_nonneg_nonneg)
    show "k * (1 - GetChanceAgainst own opp) \<le> of_int 96" using mult_mono [OF that(2) c(2)] that c by simp
  qed
  have "0 \<le> 24 + 24 * (1300 - real (unat own)) / 300 \<and> 24 + 24 * (1300 - real (unat own)) / 300 \<le> 96"
    if "\<not> own < 1000" "own < 1300"
  proof -
    have "1000 \<le> unat own" "unat own < 1300" using that by (simp_all add: word_less_nat_alt not_less)
    then have "1000 \<le> real (unat own)" "real (unat own) \<le> 1300" by linarith+
    then show ?thesis by (simp add: field_simps)
  qed
  with e [of 96] e [of 24] e [of "24 + 24 * (1300 - real (unat own)) / 300"] show ?thesis
    by (simp only: GetRatingMod_def Let_def if_True simp_thms split: if_split) simp
qed

lemma lost_mod_bounds: "- 24 \<le> GetRatingMod own opp False \<and> GetRatingMod own opp False \<le> 0"
  using chance_bounds [of own opp]
  by (auto simp: GetRatingMod_def Let_def ceiling_le_iff le_ceiling_iff)

lemma rating_mod_sint: "sint (of_int (GetRatingMod own opp w) :: 16 word) = GetRatingMod own opp w"
proof -
  have "- (2 ^ 15) \<le> GetRatingMod own opp w \<and> GetRatingMod own opp w < 2 ^ 15"
    using won_mod_bounds [of own opp] lost_mod_bounds [of own opp] by (cases w) auto
  then show ?thesis by (intro sint_word_of_int_fits) (simp add: fits_def)
qed

lemma ModifyRating_rating [simp]: "PersonalRating (ModifyRating k s) = modify_u16 k (PersonalRating s)"
  by (simp add: ModifyRating_def Let_def)

lemma uint_modify:
  assumes "0 \<le> uint r + m" and "uint r + m < 2 ^ 16"
  shows "uint (modify_u16 m r) = uint r + m"
proof -
  have "r + of_int m = word_of_int (uint r + m)" by simp
  moreover have "take_bit 16 (uint r + m) = uint r + m" using assms by (simp add: take_bit_int_eq_self)
  moreover have "uint (word_of_int (uint r + m) :: u16) = take_bit 16 (uint r + m)"
    by (simp del: of_int_add add: unsigned_of_int)
  ultimately show ?thesis using assms(1) by (simp add: modify_u16_def del: of_int_add)
qed

lemma modify_up:
  assumes "0 \<le> m" and "m \<le> 96" and "r \<le> 65439"
  shows "r \<le> modify_u16 m r"
proof -
  have "0 \<le> uint r" "uint r \<le> 65439" using assms(3) by (simp_all add: word_le_def)
  then have "uint (modify_u16 m r) = uint r + m" using assms(1,2) by (intro uint_modify) auto
  then show ?thesis using assms(1) by (simp add: word_le_def)
qed

lemma modify_down:
  assumes "m \<le> 0"
  shows "modify_u16 m r \<le> r"
proof (cases "uint r + m < 0")
  case False
  then have "uint (modify_u16 m r) = uint r + m" using assms uint_lt2p [of r] by (intro uint_modify) auto
  then show ?thesis using assms by (simp add: word_le_def)
qed (simp add: modify_u16_def)

text \<open>
  C40: For the same rating, opponents and presence UpdateStats returns the same change and leaves
  the same personal rating whether the match was won or lost: the old rating and the Elo change of
  a victory when the player is online, which never lowers it, of a defeat when he is offline, not
  below zero (for ratings up to 65439, beyond which 16 bits overflow).
\<close>

theorem rating_ignores_result:
  assumes "map_of (ri_stats info) ratedType = Some s" and "PersonalRating s \<le> 65439"
  shows "\<exists>r. (\<forall>won. \<exists>mmrChange info' s'.
       RatedInfo_UpdateStats ratedType opp won offline info =
         Some (of_int (GetRatingMod (ucast (PersonalRating s)) opp (\<not> offline)), mmrChange, info') \<and>
       map_of (ri_stats info') ratedType = Some s' \<and> PersonalRating s' = r \<and>
       SeasonWins s' = SeasonWins s + (if won then 1 else 0) \<and> SeasonGames s' = SeasonGames s + 1) \<and>
    uint r = max 0 (uint (PersonalRating s) + GetRatingMod (ucast (PersonalRating s)) opp (\<not> offline)) \<and>
    (if offline then r \<le> PersonalRating s else PersonalRating s \<le> r)"
proof -
  let ?m = "GetRatingMod (ucast (PersonalRating s)) opp (\<not> offline)"
  let ?t = "ModifyRating ?m s"
  let ?s = "?t\<lparr>SeasonGames := SeasonGames ?t + 1, WeekGames := WeekGames ?t + 1\<rparr>"
  have t: "SeasonWins ?t = SeasonWins s" "SeasonGames ?t = SeasonGames s"
    by (simp_all add: ModifyRating_def Let_def)
  have m: "- 24 \<le> ?m \<and> ?m \<le> 96"
    using won_mod_bounds [of "ucast (PersonalRating s)" opp] lost_mod_bounds [of "ucast (PersonalRating s)" opp] by (cases offline) auto
  have won: "\<exists>mmrChange info' s'. RatedInfo_UpdateStats ratedType opp won offline info = Some (of_int ?m, mmrChange, info') \<and>
      map_of (ri_stats info') ratedType = Some s' \<and> PersonalRating s' = modify_u16 ?m (PersonalRating s) \<and>
      SeasonWins s' = SeasonWins s + (if won then 1 else 0) \<and> SeasonGames s' = SeasonGames s + 1" for won
    using assms(1) t
    by (cases won) (simp_all add: RatedInfo_UpdateStats_def Let_def rating_mod_sint del: of_int_add)
  have "uint (modify_u16 ?m (PersonalRating s)) = max 0 (uint (PersonalRating s) + ?m)"
  proof (cases "uint (PersonalRating s) + ?m < 0")
    case False
    have "uint (PersonalRating s) \<le> 65439" using assms(2) by (simp add: word_le_def)
    then show ?thesis using False m uint_modify [of "PersonalRating s" ?m] by simp
  qed (simp add: modify_u16_def)
  moreover have "if offline then modify_u16 ?m (PersonalRating s) \<le> PersonalRating s else PersonalRating s \<le> modify_u16 ?m (PersonalRating s)"
    using modify_up [of ?m "PersonalRating s"] modify_down [of ?m "PersonalRating s"] assms(2)
      won_mod_bounds lost_mod_bounds by (cases offline) auto
  ultimately show ?thesis using won by blast
qed

definition rated_sample :: RatedInfo where
  "rated_sample = RatedInfo_new 1500 1500"

text \<open>A lost and a won match leave a player who stayed with the same rating, which is not lower.\<close>

theorem rating_ignores_result_witness:
  "\<exists>r. (\<forall>won. \<exists>change mmrChange info s'. RatedInfo_UpdateStats RATED_TYPE_2v2 1500 won False rated_sample = Some (change, mmrChange, info) \<and>
     map_of (ri_stats info) RATED_TYPE_2v2 = Some s' \<and> PersonalRating s' = r) \<and> 1500 \<le> r"
proof -
  have s: "map_of (ri_stats rated_sample) RATED_TYPE_2v2 = Some (StatsBySlot_new 1500)"
    by (simp add: rated_sample_def RatedInfo_new_def GetRatedTypeBySlot_def rated_types)
  have r: "PersonalRating (StatsBySlot_new 1500) = 1500" by (simp add: StatsBySlot_new_def)
  show ?thesis
    using rating_ignores_result [OF s, of 1500 False] unfolding r by simp blast
qed

end
