(* ===== verification/Rbac.thy ===== *)
theory Rbac
  imports OrderedMap "HOL-Library.Monad_Syntax"
begin

text \<open>
  Role based access control: the tables of permissions (\<open>game/Accounts/AccountMgr.cpp\<close>) and the permissions
  of an account (\<open>game/Accounts/RBAC.cpp\<close>). A set of permissions is the list of its elements in order. Names and
  the traces are left out; a statement for the data base is a value.
\<close>

subsection \<open>The tables\<close>

record RBACPermission =
  rp_id :: u32
  rp_linked :: "u32 list"

text \<open>The map has pointers: \<open>operator[]\<close> inserts a null pointer for an id that is absent.\<close>

record RbacTables =
  rt_permissions :: "(u32 \<times> RBACPermission option) list"
  rt_defaults :: "(u8 \<times> u32 list) list"

definition ClearRBAC :: RbacTables where
  "ClearRBAC = \<lparr>rt_permissions = [], rt_defaults = []\<rparr>"

definition GetRBACPermission :: "u32 \<Rightarrow> RbacTables \<Rightarrow> RBACPermission option" where
  "GetRBACPermission permissionId t = (case map_of (rt_permissions t) permissionId of None \<Rightarrow> None | Some p \<Rightarrow> p)"

text \<open>\<open>GetRBACDefaultPermissions\<close> inserts an empty set for a level that has none.\<close>

definition GetRBACDefaultPermissions :: "u8 \<Rightarrow> RbacTables \<Rightarrow> u32 list \<times> RbacTables" where
  "GetRBACDefaultPermissions secLevel t =
    (let d = om_at [] (rt_defaults t) secLevel in (d, t\<lparr>rt_defaults := om_put secLevel d (rt_defaults t)\<rparr>))"

fun load_permissions :: "u32 list \<Rightarrow> RbacTables \<Rightarrow> RbacTables" where
  "load_permissions [] t = t"
| "load_permissions (i # is) t =
    load_permissions is (t\<lparr>rt_permissions := om_put i (Some \<lparr>rp_id = i, rp_linked = []\<rparr>) (rt_permissions t)\<rparr>)"

definition touch_permission :: "u32 \<Rightarrow> RbacTables \<Rightarrow> RbacTables" where
  "touch_permission i t = t\<lparr>rt_permissions := om_put i (om_at None (rt_permissions t) i) (rt_permissions t)\<rparr>"

definition AddLinkedPermission :: "u32 \<Rightarrow> RBACPermission \<Rightarrow> RBACPermission" where
  "AddLinkedPermission i p = p\<lparr>rp_linked := os_insert i (rp_linked p)\<rparr>"

text \<open>
  The loop over the links. The pointer is the one found for \<open>permissionId\<close>, or still the null pointer it
  starts with (\<open>found\<close> is false); following a null pointer is \<open>None\<close>.
\<close>

fun load_links :: "(u32 \<times> u32) list \<Rightarrow> u32 \<Rightarrow> bool \<Rightarrow> RbacTables \<Rightarrow> RbacTables option" where
  "load_links [] permissionId found t = Some t"
| "load_links ((newId, linkedPermissionId) # rows) permissionId found t =
    (let changed = (permissionId \<noteq> newId);
         found = (found \<or> changed);
         t = (if changed then touch_permission newId t else t)
     in if linkedPermissionId = newId then load_links rows newId found t
        else case (if found then GetRBACPermission newId t else None) of
               None \<Rightarrow> None
             | Some p \<Rightarrow> load_links rows newId found
                 (t\<lparr>rt_permissions := om_put newId (Some (AddLinkedPermission linkedPermissionId p)) (rt_permissions t)\<rparr>))"

text \<open>The loop over the defaults: the level is kept in eight bits and compared with the 32 bits of the row.\<close>

fun load_defaults :: "(u32 \<times> u32) list \<Rightarrow> u8 \<Rightarrow> bool \<Rightarrow> RbacTables \<Rightarrow> RbacTables" where
  "load_defaults [] secId found t = t"
| "load_defaults ((newId, permissionId) # rows) secId found t =
    (let secId = (if ucast secId \<noteq> newId \<or> \<not> found then ucast newId else secId)
     in load_defaults rows secId True
          (t\<lparr>rt_defaults := om_put secId (os_insert permissionId (om_at [] (rt_defaults t) secId)) (rt_defaults t)\<rparr>))"

definition LoadRBAC :: "u32 list \<Rightarrow> (u32 \<times> u32) list \<Rightarrow> (u32 \<times> u32) list \<Rightarrow> RbacTables option" where
  "LoadRBAC permissionRows linkRows defaultRows =
    (if permissionRows = [] then Some ClearRBAC
     else if linkRows = [] then Some (load_permissions permissionRows ClearRBAC)
     else map_option (load_defaults defaultRows 255 False) (load_links linkRows 0 False (load_permissions permissionRows ClearRBAC)))"

subsection \<open>The permissions of an account\<close>

record RBACData =
  rd_id :: u32
  rd_realmId :: "32 word"
  rd_secLevel :: u8
  rd_granted :: "u32 list"
  rd_denied :: "u32 list"
  rd_global :: "u32 list"

definition RBACData_new :: "u32 \<Rightarrow> 32 word \<Rightarrow> u8 \<Rightarrow> RBACData" where
  "RBACData_new i realmId secLevel =
    \<lparr>rd_id = i, rd_realmId = realmId, rd_secLevel = secLevel, rd_granted = [], rd_denied = [], rd_global = []\<rparr>"

datatype RBACCommandResult =
    RBAC_OK | RBAC_CANT_ADD_ALREADY_ADDED | RBAC_CANT_REVOKE_NOT_IN_LIST | RBAC_IN_GRANTED_LIST
  | RBAC_IN_DENIED_LIST | RBAC_ID_DOES_NOT_EXISTS

datatype RbacSql =
    InsertPermission u32 u32 bool "32 word"
  | DeletePermission u32 u32 "32 word"

definition HasPermission :: "bool \<Rightarrow> u32 \<Rightarrow> RBACData \<Rightarrow> bool" where
  "HasPermission freeMode permission d \<longleftrightarrow> freeMode \<or> permission \<in> set (rd_global d)"

fun add_links :: "u32 list \<Rightarrow> u32 list \<Rightarrow> u32 list \<Rightarrow> u32 list" where
  "add_links [] permissions toCheck = toCheck"
| "add_links (i # is) permissions toCheck =
    add_links is permissions (if i \<notin> set permissions then os_insert i toCheck else toCheck)"

text \<open>The loop ends when nothing is left to check; a loop that does not end is \<open>None\<close>.\<close>

partial_function (option) expand_loop :: "RbacTables \<Rightarrow> u32 list \<Rightarrow> u32 list \<Rightarrow> u32 list option" where
  "expand_loop t toCheck permissions =
    (case toCheck of [] \<Rightarrow> Some permissions
     | permissionId # toCheck \<Rightarrow>
         (case GetRBACPermission permissionId t of
            None \<Rightarrow> expand_loop t toCheck permissions
          | Some permission \<Rightarrow>
              expand_loop t (add_links (rp_linked permission) (os_insert permissionId permissions) toCheck)
                (os_insert permissionId permissions)))"

definition ExpandPermissions :: "RbacTables \<Rightarrow> u32 list \<Rightarrow> u32 list option" where
  "ExpandPermissions t permissions = expand_loop t permissions []"

definition RemovePermissions :: "u32 list \<Rightarrow> u32 list \<Rightarrow> u32 list" where
  "RemovePermissions permsFrom permsTo = foldl (\<lambda>s p. os_erase p s) permsTo permsFrom"

text \<open>The permissions are removed from the second argument, which is the local set of revoked ones.\<close>

definition CalculateNewPermissions :: "RbacTables \<Rightarrow> RBACData \<Rightarrow> RBACData option" where
  "CalculateNewPermissions t d =
    do { globalPerms \<leftarrow> ExpandPermissions t (rd_granted d);
         revoked \<leftarrow> ExpandPermissions t (rd_denied d);
         let revoked = RemovePermissions globalPerms revoked;
         Some (d\<lparr>rd_global := globalPerms\<rparr>) }"

text \<open>What a change ends with, when it is made for a realm: the row is written and the permissions computed again.\<close>

definition save_change :: "RbacTables \<Rightarrow> 32 word \<Rightarrow> RbacSql \<Rightarrow> RBACData \<Rightarrow> (RBACCommandResult \<times> RbacSql list \<times> RBACData) option" where
  "save_change t realmId stmt d =
    (if realmId \<noteq> 0 then map_option (\<lambda>d. (RBAC_OK, [stmt], d)) (CalculateNewPermissions t d) else Some (RBAC_OK, [], d))"

definition GrantPermission :: "RbacTables \<Rightarrow> u32 \<Rightarrow> 32 word \<Rightarrow> RBACData \<Rightarrow> (RBACCommandResult \<times> RbacSql list \<times> RBACData) option" where
  "GrantPermission t permissionId realmId d =
    (if GetRBACPermission permissionId t = None then Some (RBAC_ID_DOES_NOT_EXISTS, [], d)
     else if permissionId \<in> set (rd_denied d) then Some (RBAC_IN_DENIED_LIST, [], d)
     else if permissionId \<in> set (rd_granted d) then Some (RBAC_CANT_ADD_ALREADY_ADDED, [], d)
     else save_change t realmId (InsertPermission (rd_id d) permissionId True realmId)
            (d\<lparr>rd_granted := os_insert permissionId (rd_granted d)\<rparr>))"

definition DenyPermission :: "RbacTables \<Rightarrow> u32 \<Rightarrow> 32 word \<Rightarrow> RBACData \<Rightarrow> (RBACCommandResult \<times> RbacSql list \<times> RBACData) option" where
  "DenyPermission t permissionId realmId d =
    (if GetRBACPermission permissionId t = None then Some (RBAC_ID_DOES_NOT_EXISTS, [], d)
     else if permissionId \<in> set (rd_granted d) then Some (RBAC_IN_GRANTED_LIST, [], d)
     else if permissionId \<in> set (rd_denied d) then Some (RBAC_CANT_ADD_ALREADY_ADDED, [], d)
     else save_change t realmId (InsertPermission (rd_id d) permissionId False realmId)
            (d\<lparr>rd_denied := os_insert permissionId (rd_denied d)\<rparr>))"

definition RevokePermission :: "RbacTables \<Rightarrow> u32 \<Rightarrow> 32 word \<Rightarrow> RBACData \<Rightarrow> (RBACCommandResult \<times> RbacSql list \<times> RBACData) option" where
  "RevokePermission t permissionId realmId d =
    (if permissionId \<notin> set (rd_granted d) \<and> permissionId \<notin> set (rd_denied d) then Some (RBAC_CANT_REVOKE_NOT_IN_LIST, [], d)
     else save_change t realmId (DeletePermission (rd_id d) permissionId realmId)
            (d\<lparr>rd_granted := os_erase permissionId (rd_granted d), rd_denied := os_erase permissionId (rd_denied d)\<rparr>))"

fun load_rows :: "RbacTables \<Rightarrow> (u32 \<times> bool) list \<Rightarrow> RBACData \<Rightarrow> RBACData option" where
  "load_rows t [] d = Some d"
| "load_rows t ((permissionId, granted) # rows) d =
    do { (_, _, d) \<leftarrow> (if granted then GrantPermission t permissionId 0 d else DenyPermission t permissionId 0 d);
         load_rows t rows d }"

definition ClearData :: "RBACData \<Rightarrow> RBACData" where
  "ClearData d = d\<lparr>rd_granted := [], rd_denied := [], rd_global := []\<rparr>"

definition RBACData_LoadFromDB :: "(u32 \<times> bool) list \<Rightarrow> RbacTables \<Rightarrow> RBACData \<Rightarrow> (RBACData \<times> RbacTables) option" where
  "RBACData_LoadFromDB rows t d =
    do { d \<leftarrow> load_rows t rows (ClearData d);
         let (defaults, t) = GetRBACDefaultPermissions (rd_secLevel d) t;
         d \<leftarrow> load_rows t (map (\<lambda>p. (p, True)) defaults) d;
         d \<leftarrow> CalculateNewPermissions t d;
         Some (d, t) }"

definition SetSecurityLevel :: "(u32 \<times> bool) list \<Rightarrow> u8 \<Rightarrow> RbacTables \<Rightarrow> RBACData \<Rightarrow> (RBACData \<times> RbacTables) option" where
  "SetSecurityLevel rows secLevel t d = RBACData_LoadFromDB rows t (d\<lparr>rd_secLevel := secLevel\<rparr>)"

datatype AccessSql =
    DeleteAccess u32
  | DeleteAccessByRealm u32 "32 word"
  | InsertAccess u32 u8 "32 word"

definition UpdateAccountAccess ::
  "(u32 \<times> bool) list \<Rightarrow> RBACData option \<Rightarrow> u32 \<Rightarrow> u8 \<Rightarrow> 32 word \<Rightarrow> RbacTables \<Rightarrow> (RBACData option \<times> RbacTables \<times> AccessSql list) option"
where
  "UpdateAccountAccess rows rbac accountId securityLevel realmId t =
    do { (rbac, t) \<leftarrow> (case rbac of None \<Rightarrow> Some (None, t)
           | Some d \<Rightarrow> if securityLevel = rd_secLevel d
                      then map_option (\<lambda>(d, t). (Some d, t)) (SetSecurityLevel rows securityLevel t d) else Some (Some d, t));
         Some (rbac, t, (if realmId = - 1 then [DeleteAccess accountId] else [DeleteAccessByRealm accountId realmId]) @
                        (if securityLevel \<noteq> 0 then [InsertAccess accountId securityLevel realmId] else [])) }"

text \<open>\<open>AccountMgr::HasPermission\<close>, with the level that \<open>GetSecurity\<close> reads (32 bits, kept in eight).\<close>

definition Account_HasPermission :: "bool \<Rightarrow> (u32 \<times> bool) list \<Rightarrow> u32 \<Rightarrow> u32 \<Rightarrow> u32 \<Rightarrow> u32 \<Rightarrow> RbacTables \<Rightarrow> (bool \<times> RbacTables) option" where
  "Account_HasPermission freeMode rows security accountId permissionId realmId t =
    (if accountId = 0 then Some (False, t)
     else do { (d, t) \<leftarrow> RBACData_LoadFromDB rows t (RBACData_new accountId realmId (ucast security));
               Some (HasPermission freeMode permissionId d, t) })"

text \<open>The permissions of a session are loaded when they are first asked for.\<close>

definition Session_HasPermission ::
  "bool \<Rightarrow> (u32 \<times> bool) list \<Rightarrow> RBACData \<Rightarrow> u32 \<Rightarrow> RBACData option \<Rightarrow> RbacTables \<Rightarrow> (bool \<times> RBACData option \<times> RbacTables) option"
where
  "Session_HasPermission freeMode rows fresh permission cached t =
    do { (d, t) \<leftarrow> (case cached of Some d \<Rightarrow> Some (d, t) | None \<Rightarrow> RBACData_LoadFromDB rows t fresh);
         Some (HasPermission freeMode permission d, Some d, t) }"

end
