(* ===== verification/RbacProperties.thy ===== *)
theory RbacProperties
  imports Rbac
begin

text \<open>
  What the permissions of an account are: the ones that the granted ones are linked to, directly or not.
  The search for them is stated as a locale over any graph of links, interpreted on the tables.
\<close>

subsection \<open>Inheritance\<close>

inductive inherits :: "('a \<Rightarrow> 'a list option) \<Rightarrow> 'a set \<Rightarrow> 'a \<Rightarrow> bool" for links S where
  inherits_own: "a \<in> S \<Longrightarrow> links a \<noteq> None \<Longrightarrow> inherits links S a"
| inherits_linked: "inherits links S a \<Longrightarrow> links a = Some bs \<Longrightarrow> b \<in> set bs \<Longrightarrow> links b \<noteq> None \<Longrightarrow> inherits links S b"

text \<open>What is done is inherited; what is inherited is done or follows from what is left to do.\<close>

definition front :: "('a \<Rightarrow> 'a list option) \<Rightarrow> 'a set \<Rightarrow> 'a set \<Rightarrow> 'a set \<Rightarrow> bool" where
  "front links S D T \<longleftrightarrow>
     (\<forall>a \<in> D. inherits links S a) \<and> (\<forall>a \<in> T. links a \<noteq> None \<longrightarrow> inherits links S a) \<and>
     (\<forall>a \<in> S. links a \<noteq> None \<longrightarrow> a \<in> D \<union> T) \<and>
     (\<forall>a \<in> D. \<forall>bs. links a = Some bs \<longrightarrow> (\<forall>b \<in> set bs. links b \<noteq> None \<longrightarrow> b \<in> D \<union> T)) \<and> D \<inter> T = {}"

locale finite_links =
  fixes links :: "'a \<Rightarrow> 'a list option"
  assumes finite_known: "finite {a. links a \<noteq> None}"
begin

lemma front_start: "front links S {} S"
  by (auto simp: front_def intro: inherits_own)

lemma front_skip: "front links S D (insert a T) \<Longrightarrow> links a = None \<Longrightarrow> front links S D T"
  unfolding front_def by auto (metis option.distinct(1))

lemma front_take:
  assumes "front links S D (insert a T)" and "a \<notin> T" and "links a = Some bs"
  shows "front links S (insert a D) (T \<union> (set bs - insert a D))"
proof -
  have a: "inherits links S a" using assms(1,3) by (simp add: front_def)
  have b: "inherits links S b" if "b \<in> set bs" "links b \<noteq> None" for b
    using inherits_linked [OF a assms(3) that] .
  have f: "\<forall>x \<in> D. inherits links S x" "\<forall>x \<in> T. links x \<noteq> None \<longrightarrow> inherits links S x"
    "\<forall>x \<in> S. links x \<noteq> None \<longrightarrow> x \<in> D \<union> insert a T" "D \<inter> insert a T = {}"
    using assms(1) by (simp_all add: front_def)
  have g: "y \<in> insert a D \<union> (T \<union> (set bs - insert a D))"
    if "x \<in> insert a D" "links x = Some cs" "y \<in> set cs" "links y \<noteq> None" for x y cs
  proof (cases "x = a")
    case True
    then show ?thesis using that assms(3) by auto
  next
    case False
    then have "y \<in> D \<union> insert a T" using that assms(1) unfolding front_def by blast
    then show ?thesis by blast
  qed
  show ?thesis unfolding front_def
  proof (intro conjI)
    show "\<forall>x \<in> insert a D. inherits links S x" using a f(1) by simp
    show "\<forall>x \<in> T \<union> (set bs - insert a D). links x \<noteq> None \<longrightarrow> inherits links S x" using b f(2) by blast
    show "\<forall>x \<in> S. links x \<noteq> None \<longrightarrow> x \<in> insert a D \<union> (T \<union> (set bs - insert a D))" using f(3) by blast
    show "insert a D \<inter> (T \<union> (set bs - insert a D)) = {}" using f(4) assms(2) by blast
  qed (use g in blast)
qed

lemma front_done: "front links S D {} \<Longrightarrow> D = {a. inherits links S a}"
proof
  assume f: "front links S D {}"
  then show "D \<subseteq> {a. inherits links S a}" by (auto simp: front_def)
  have "inherits links S a \<Longrightarrow> a \<in> D" for a
    by (induction rule: inherits.induct) (use f in \<open>auto simp: front_def\<close>)
  then show "{a. inherits links S a} \<subseteq> D" by blast
qed

lemma inherits_known: "inherits links S a \<Longrightarrow> links a \<noteq> None"
  by (induction rule: inherits.induct) auto

lemma inherits_mono: "inherits links S a \<Longrightarrow> S \<subseteq> S' \<Longrightarrow> inherits links S' a"
  by (induction rule: inherits.induct) (auto intro: inherits.intros)

text \<open>Taking an element that is known and not done leaves fewer to be done.\<close>

lemma known_less: "links a \<noteq> None \<Longrightarrow> a \<notin> D \<Longrightarrow> card ({x. links x \<noteq> None} - insert a D) < card ({x. links x \<noteq> None} - D)"
  by (rule psubset_card_mono) (use finite_known in auto)

end

definition links_of :: "RbacTables \<Rightarrow> u32 \<Rightarrow> u32 list option" where
  "links_of t p = map_option rp_linked (GetRBACPermission p t)"

interpretation tables: finite_links "links_of t" for t
proof
  have "{a. links_of t a \<noteq> None} \<subseteq> fst ` set (rt_permissions t)"
    by (auto simp: links_of_def GetRBACPermission_def split: option.splits dest!: map_of_SomeD intro: rev_image_eqI)
  then show "finite {a. links_of t a \<noteq> None}" by (rule finite_subset) simp
qed

lemma add_links: "os_ok T \<Longrightarrow> os_ok (add_links bs D T) \<and> set (add_links bs D T) = set T \<union> (set bs - set D)"
  by (induction bs D T rule: add_links.induct) auto

lemma expand_loop_returns:
  assumes "os_ok T" and "os_ok D" and "front (links_of t) S (set D) (set T)"
  shows "\<exists>r. expand_loop t T D = Some r \<and> os_ok r \<and> set r = {p. inherits (links_of t) S p}"
  using assms
proof (induction "card ({x. links_of t x \<noteq> None} - set D)" arbitrary: D T rule: less_induct)
  case outer: less
  show ?case
    using outer.prems
  proof (induction T)
    case Nil
    then show ?case using tables.front_done [of t S "set D"] by (simp add: expand_loop.simps)
  next
    case (Cons p T)
    have T: "os_ok T" "p \<notin> set T" using Cons.prems(1) by (auto simp: os_ok_def)
    show ?case
    proof (cases "GetRBACPermission p t")
      case None
      then have "front (links_of t) S (set D) (set T)"
        using tables.front_skip [of t S "set D" p "set T"] Cons.prems(3) by (simp add: links_of_def [of t p])
      then show ?thesis using Cons.IH T(1) Cons.prems(2) None by (simp add: expand_loop.simps)
    next
      case (Some permission)
      let ?D = "os_insert p D" and ?T = "add_links (rp_linked permission) (os_insert p D) T"
      have l: "links_of t p = Some (rp_linked permission)" using Some by (simp add: links_of_def)
      have "front (links_of t) S (set ?D) (set ?T)"
        using tables.front_take [OF _ T(2) l, of S "set D"] Cons.prems(3) add_links [OF T(1)] by simp
      moreover have "p \<notin> set D" using Cons.prems(3) by (auto simp: front_def)
      ultimately have "\<exists>r. expand_loop t ?T ?D = Some r \<and> os_ok r \<and> set r = {p. inherits (links_of t) S p}"
        using outer.hyps [of ?D ?T] tables.known_less [of t p "set D"] l add_links [OF T(1)] Cons.prems(2) by simp
      then show ?thesis using Some by (subst expand_loop.simps) simp
    qed
  qed
qed

text \<open>The expansion of a set of permissions returns, and is what they inherit.\<close>

theorem expanded_are_inherited:
  assumes "os_ok permissions"
  shows "\<exists>r. ExpandPermissions t permissions = Some r \<and> os_ok r \<and> set r = {p. inherits (links_of t) (set permissions) p}"
  unfolding ExpandPermissions_def
  by (rule expand_loop_returns) (use assms tables.front_start [of t "set permissions"] in auto)

subsection \<open>The permissions of an account over a run\<close>

definition rbac_ok :: "RbacTables \<Rightarrow> RBACData \<Rightarrow> bool" where
  "rbac_ok t d \<longleftrightarrow> os_ok (rd_granted d) \<and> os_ok (rd_denied d) \<and> set (rd_granted d) \<inter> set (rd_denied d) = {} \<and>
     (\<forall>p \<in> set (rd_granted d) \<union> set (rd_denied d). GetRBACPermission p t \<noteq> None)"

definition computed :: "RbacTables \<Rightarrow> RBACData \<Rightarrow> bool" where
  "computed t d \<longleftrightarrow> os_ok (rd_global d) \<and> set (rd_global d) = {p. inherits (links_of t) (set (rd_granted d)) p}"

lemma os_ok_eqI: "os_ok xs \<Longrightarrow> os_ok ys \<Longrightarrow> set xs = set ys \<Longrightarrow> xs = (ys :: u32 list)"
  by (simp add: os_ok_sorted sorted_distinct_set_unique)

lemma calculate_returns:
  assumes "rbac_ok t d"
  shows "\<exists>g. CalculateNewPermissions t d = Some (d\<lparr>rd_global := g\<rparr>) \<and> computed t (d\<lparr>rd_global := g\<rparr>)"
proof -
  obtain g where "ExpandPermissions t (rd_granted d) = Some g" "os_ok g" "set g = {p. inherits (links_of t) (set (rd_granted d)) p}"
    using expand_loop_returns [of "rd_granted d" "[]" t "set (rd_granted d)"] assms tables.front_start [of t "set (rd_granted d)"]
    by (auto simp: ExpandPermissions_def rbac_ok_def)
  moreover obtain r where "ExpandPermissions t (rd_denied d) = Some r"
    using expand_loop_returns [of "rd_denied d" "[]" t "set (rd_denied d)"] assms tables.front_start [of t "set (rd_denied d)"]
    by (auto simp: ExpandPermissions_def rbac_ok_def)
  ultimately show ?thesis by (auto simp: CalculateNewPermissions_def computed_def)
qed

text \<open>A change keeps the invariant; when it is made for a realm the permissions have been computed.\<close>

lemma save_change_ok:
  assumes "rbac_ok t d"
  shows "\<exists>sql d'. save_change t realmId stmt d = Some (RBAC_OK, sql, d') \<and> rbac_ok t d' \<and> (realmId \<noteq> 0 \<longrightarrow> computed t d') \<and>
    rd_granted d' = rd_granted d \<and> rd_denied d' = rd_denied d \<and> rd_secLevel d' = rd_secLevel d \<and> rd_id d' = rd_id d \<and> rd_realmId d' = rd_realmId d"
  using calculate_returns [OF assms] assms by (auto simp: save_change_def rbac_ok_def)

lemma rbac_ok_add:
  "rbac_ok t d \<Longrightarrow> GetRBACPermission p t \<noteq> None \<Longrightarrow> p \<notin> set (rd_denied d) \<Longrightarrow> rbac_ok t (d\<lparr>rd_granted := os_insert p (rd_granted d)\<rparr>)"
  "rbac_ok t d \<Longrightarrow> GetRBACPermission p t \<noteq> None \<Longrightarrow> p \<notin> set (rd_granted d) \<Longrightarrow> rbac_ok t (d\<lparr>rd_denied := os_insert p (rd_denied d)\<rparr>)"
  "rbac_ok t d \<Longrightarrow> rbac_ok t (d\<lparr>rd_granted := os_erase p (rd_granted d), rd_denied := os_erase p (rd_denied d)\<rparr>)"
  by (auto simp: rbac_ok_def)

text \<open>What an operation does to a state: the sets, and that the permissions stay computed.\<close>

definition changes :: "RbacTables \<Rightarrow> 32 word \<Rightarrow> RBACData \<Rightarrow> u32 set \<Rightarrow> u32 set \<Rightarrow> RBACData \<Rightarrow> bool" where
  "changes t realmId d g n d' \<longleftrightarrow> rbac_ok t d' \<and> set (rd_granted d') = g \<and> set (rd_denied d') = n \<and>
     rd_secLevel d' = rd_secLevel d \<and> rd_id d' = rd_id d \<and> rd_realmId d' = rd_realmId d \<and>
     (realmId \<noteq> 0 \<longrightarrow> computed t d \<longrightarrow> computed t d')"

lemma save_change_changes:
  assumes "rbac_ok t (f d)" and "rd_secLevel (f d) = rd_secLevel d" and "rd_id (f d) = rd_id d" and "rd_realmId (f d) = rd_realmId d"
  shows "\<exists>sql d'. save_change t realmId stmt (f d) = Some (RBAC_OK, sql, d') \<and>
    changes t realmId d (set (rd_granted (f d))) (set (rd_denied (f d))) d' \<and> (realmId \<noteq> 0 \<longrightarrow> computed t d')"
  using save_change_ok [OF assms(1), of realmId stmt] assms(2-4) by (auto simp: changes_def)

lemma changes_refl: "rbac_ok t d \<Longrightarrow> changes t realmId d (set (rd_granted d)) (set (rd_denied d)) d"
  by (simp add: changes_def)

lemma GrantPermission_changes:
  assumes "rbac_ok t d"
  shows "\<exists>r sql d'. GrantPermission t p realmId d = Some (r, sql, d') \<and>
    changes t realmId d (set (rd_granted d) \<union> (if GetRBACPermission p t \<noteq> None \<and> p \<notin> set (rd_denied d) then {p} else {})) (set (rd_denied d)) d'"
proof (cases "GetRBACPermission p t = None \<or> p \<in> set (rd_denied d) \<or> p \<in> set (rd_granted d)")
  case True
  then show ?thesis using changes_refl [OF assms, of realmId] by (auto simp: GrantPermission_def insert_absorb)
next
  case False
  then show ?thesis
    using save_change_changes [where f = "\<lambda>d. d\<lparr>rd_granted := os_insert p (rd_granted d)\<rparr>", OF rbac_ok_add(1) [OF assms], of realmId]
    by (simp add: GrantPermission_def del: split_paired_Ex) (elim conjE exE, simp, blast)
qed

lemma DenyPermission_changes:
  assumes "rbac_ok t d"
  shows "\<exists>r sql d'. DenyPermission t p realmId d = Some (r, sql, d') \<and>
    changes t realmId d (set (rd_granted d)) (set (rd_denied d) \<union> (if GetRBACPermission p t \<noteq> None \<and> p \<notin> set (rd_granted d) then {p} else {})) d'"
proof (cases "GetRBACPermission p t = None \<or> p \<in> set (rd_denied d) \<or> p \<in> set (rd_granted d)")
  case True
  then show ?thesis using changes_refl [OF assms, of realmId] by (auto simp: DenyPermission_def insert_absorb)
next
  case False
  then show ?thesis
    using save_change_changes [where f = "\<lambda>d. d\<lparr>rd_denied := os_insert p (rd_denied d)\<rparr>", OF rbac_ok_add(2) [OF assms], of realmId]
    by (simp add: DenyPermission_def del: split_paired_Ex) (elim conjE exE, simp, blast)
qed

lemma RevokePermission_changes:
  assumes "rbac_ok t d"
  shows "\<exists>r sql d'. RevokePermission t p realmId d = Some (r, sql, d') \<and>
    changes t realmId d (set (rd_granted d) - {p}) (set (rd_denied d) - {p}) d'"
proof (cases "p \<notin> set (rd_granted d) \<and> p \<notin> set (rd_denied d)")
  case True
  then show ?thesis using changes_refl [OF assms, of realmId] by (auto simp: RevokePermission_def)
next
  case False
  then show ?thesis
    using save_change_changes [where f = "\<lambda>d. d\<lparr>rd_granted := os_erase p (rd_granted d), rd_denied := os_erase p (rd_denied d)\<rparr>",
      OF rbac_ok_add(3) [OF assms], of realmId] assms
    by (simp add: RevokePermission_def rbac_ok_def) blast
qed

text \<open>The rows read: of the rows of a permission that is known only the first counts, and none does when it is set already.\<close>

lemma load_rows_result:
  assumes "rbac_ok t d"
  shows "\<exists>d'. load_rows t rows d = Some d' \<and> changes t 0 d
    (set (rd_granted d) \<union> {p. GetRBACPermission p t \<noteq> None \<and> p \<notin> set (rd_denied d) \<and> map_of rows p = Some True})
    (set (rd_denied d) \<union> {p. GetRBACPermission p t \<noteq> None \<and> p \<notin> set (rd_granted d) \<and> map_of rows p = Some False}) d'"
  using assms
proof (induction rows arbitrary: d)
  case Nil
  then show ?case using changes_refl [of t d 0] by simp
next
  case (Cons row rows)
  obtain p g where row: "row = (p, g)" by force
  obtain r sql d1 where d1: "(if g then GrantPermission t p 0 d else DenyPermission t p 0 d) = Some (r, sql, d1)"
    and c: "changes t 0 d
      (set (rd_granted d) \<union> (if g \<and> GetRBACPermission p t \<noteq> None \<and> p \<notin> set (rd_denied d) then {p} else {}))
      (set (rd_denied d) \<union> (if \<not> g \<and> GetRBACPermission p t \<noteq> None \<and> p \<notin> set (rd_granted d) then {p} else {})) d1"
    using GrantPermission_changes [OF Cons.prems, of p 0] DenyPermission_changes [OF Cons.prems, of p 0] by (cases g) auto
  have "rbac_ok t d1" using c by (simp add: changes_def)
  from Cons.IH [OF this] obtain d2 where d2: "load_rows t rows d1 = Some d2" and e: "changes t 0 d1
    (set (rd_granted d1) \<union> {p. GetRBACPermission p t \<noteq> None \<and> p \<notin> set (rd_denied d1) \<and> map_of rows p = Some True})
    (set (rd_denied d1) \<union> {p. GetRBACPermission p t \<noteq> None \<and> p \<notin> set (rd_granted d1) \<and> map_of rows p = Some False}) d2" by blast
  have "load_rows t (row # rows) d = Some d2" using d1 d2 row by simp
  moreover have "set (rd_granted d2) = set (rd_granted d) \<union>
      {q. GetRBACPermission q t \<noteq> None \<and> q \<notin> set (rd_denied d) \<and> map_of (row # rows) q = Some True}"
    using c e row by (auto simp: changes_def split: if_splits)
  moreover have "set (rd_denied d2) = set (rd_denied d) \<union>
      {q. GetRBACPermission q t \<noteq> None \<and> q \<notin> set (rd_granted d) \<and> map_of (row # rows) q = Some False}"
    using c e row by (auto simp: changes_def split: if_splits)
  ultimately show ?case using c e by (auto simp: changes_def)
qed

subsection \<open>Runs\<close>

text \<open>The data of an account is loaded, and then changed for a realm or loaded again with another level.\<close>

inductive rbac_reach :: "RbacTables \<Rightarrow> RBACData \<Rightarrow> bool" where
  reach_load: "RBACData_LoadFromDB rows t0 (RBACData_new i realm level) = Some (d, t) \<Longrightarrow> rbac_reach t d"
| reach_grant: "rbac_reach t d \<Longrightarrow> realmId \<noteq> 0 \<Longrightarrow> GrantPermission t p realmId d = Some (r, sql, d') \<Longrightarrow> rbac_reach t d'"
| reach_deny: "rbac_reach t d \<Longrightarrow> realmId \<noteq> 0 \<Longrightarrow> DenyPermission t p realmId d = Some (r, sql, d') \<Longrightarrow> rbac_reach t d'"
| reach_revoke: "rbac_reach t d \<Longrightarrow> realmId \<noteq> 0 \<Longrightarrow> RevokePermission t p realmId d = Some (r, sql, d') \<Longrightarrow> rbac_reach t d'"
| reach_level: "rbac_reach t0 d0 \<Longrightarrow> SetSecurityLevel rows level t0 d0 = Some (d, t) \<Longrightarrow> rbac_reach t d"

lemma same_permissions:
  "GetRBACPermission p (t\<lparr>rt_defaults := m\<rparr>) = GetRBACPermission p t" "links_of (t\<lparr>rt_defaults := m\<rparr>) = links_of t"
  "rbac_ok (t\<lparr>rt_defaults := m\<rparr>) = rbac_ok t" "computed (t\<lparr>rt_defaults := m\<rparr>) = computed t"
proof -
  show p: "GetRBACPermission p (t\<lparr>rt_defaults := m\<rparr>) = GetRBACPermission p t" for p by (simp add: GetRBACPermission_def)
  show l: "links_of (t\<lparr>rt_defaults := m\<rparr>) = links_of t" by (simp add: links_of_def fun_eq_iff p)
  show "rbac_ok (t\<lparr>rt_defaults := m\<rparr>) = rbac_ok t" by (simp add: rbac_ok_def fun_eq_iff p)
  show "computed (t\<lparr>rt_defaults := m\<rparr>) = computed t" by (simp add: computed_def fun_eq_iff l)
qed

lemma map_of_granted: "map_of (map (\<lambda>p. (p, True)) ps) p = (if p \<in> set ps then Some True else None)"
  by (induction ps) auto

lemma if_Some_eq [simp]: "((if b then Some x else None) = Some y) = (b \<and> x = y)"
  by simp

lemma RBACData_LoadFromDB_result:
  "\<exists>d' m. RBACData_LoadFromDB rows t d = Some (d', t\<lparr>rt_defaults := m\<rparr>) \<and> rbac_ok t d' \<and> computed t d' \<and>
     rd_secLevel d' = rd_secLevel d \<and> rd_id d' = rd_id d \<and> rd_realmId d' = rd_realmId d \<and>
     set (rd_granted d') = {p. GetRBACPermission p t \<noteq> None \<and>
       (case map_of rows p of Some g \<Rightarrow> g | None \<Rightarrow> p \<in> set (om_at [] (rt_defaults t) (rd_secLevel d)))} \<and>
     set (rd_denied d') = {p. GetRBACPermission p t \<noteq> None \<and> map_of rows p = Some False}"
proof -
  have "rbac_ok t (ClearData d)" by (simp add: rbac_ok_def ClearData_def)
  from load_rows_result [OF this, of rows] obtain d1 where d1: "load_rows t rows (ClearData d) = Some d1"
    and c1: "changes t 0 (ClearData d) {p. GetRBACPermission p t \<noteq> None \<and> map_of rows p = Some True}
      {p. GetRBACPermission p t \<noteq> None \<and> map_of rows p = Some False} d1"
    by (auto simp: ClearData_def)
  define ps m where ps: "ps = om_at [] (rt_defaults t) (rd_secLevel d)" and m: "m = om_put (rd_secLevel d) ps (rt_defaults t)"
  have l: "rd_secLevel d1 = rd_secLevel d" "rbac_ok t d1" using c1 by (simp_all add: changes_def ClearData_def)
  let ?t = "t\<lparr>rt_defaults := m\<rparr>"
  have "rbac_ok ?t d1" using l(2) by (simp add: same_permissions)
  from load_rows_result [OF this, of "map (\<lambda>p. (p, True)) ps"] obtain d2 where d2: "load_rows ?t (map (\<lambda>p. (p, True)) ps) d1 = Some d2"
    and c2: "changes ?t 0 d1
      (set (rd_granted d1) \<union> {p. GetRBACPermission p t \<noteq> None \<and> p \<notin> set (rd_denied d1) \<and> p \<in> set ps}) (set (rd_denied d1)) d2"
    by (auto simp: same_permissions map_of_granted)
  have r2: "rbac_ok ?t d2" using c2 by (simp add: changes_def)
  from calculate_returns [OF this] obtain g where
    g: "CalculateNewPermissions ?t d2 = Some (d2\<lparr>rd_global := g\<rparr>)" "computed ?t (d2\<lparr>rd_global := g\<rparr>)" by blast
  have "RBACData_LoadFromDB rows t d = Some (d2\<lparr>rd_global := g\<rparr>, ?t)"
    using d1 d2 g(1) l(1) by (simp add: RBACData_LoadFromDB_def GetRBACDefaultPermissions_def ps m Let_def)
  moreover have "rbac_ok t (d2\<lparr>rd_global := g\<rparr>)" using r2 by (simp add: same_permissions rbac_ok_def)
  moreover have "computed t (d2\<lparr>rd_global := g\<rparr>)" using g(2) by (simp only: same_permissions)
  moreover have "set (rd_granted d2) = {p. GetRBACPermission p t \<noteq> None \<and> (case map_of rows p of Some g \<Rightarrow> g | None \<Rightarrow> p \<in> set ps)}"
    using c1 c2 by (auto simp: changes_def split: option.splits)
  moreover have "set (rd_denied d2) = {p. GetRBACPermission p t \<noteq> None \<and> map_of rows p = Some False}"
    using c1 c2 by (simp add: changes_def)
  moreover have "rd_secLevel d2 = rd_secLevel d" "rd_id d2 = rd_id d" "rd_realmId d2 = rd_realmId d"
    using c1 c2 by (simp_all add: changes_def ClearData_def)
  ultimately show ?thesis unfolding ps by (intro exI [of _ "d2\<lparr>rd_global := g\<rparr>"] exI [of _ m]) simp
qed

lemma reach_ok: "rbac_reach t d \<Longrightarrow> rbac_ok t d \<and> computed t d"
proof (induction rule: rbac_reach.induct)
  case (reach_load rows t0 i realm level d t)
  then show ?case using RBACData_LoadFromDB_result [of rows t0 "RBACData_new i realm level"] by (auto simp: same_permissions)
next
  case (reach_grant t d realmId p r sql d')
  then show ?case using GrantPermission_changes [of t d p realmId] by (auto simp: changes_def)
next
  case (reach_deny t d realmId p r sql d')
  then show ?case using DenyPermission_changes [of t d p realmId] by (auto simp: changes_def)
next
  case (reach_revoke t d realmId p r sql d')
  then show ?case using RevokePermission_changes [of t d p realmId] by (auto simp: changes_def)
next
  case (reach_level t0 d0 rows level d t)
  then show ?case using RBACData_LoadFromDB_result [of rows t0 "d0\<lparr>rd_secLevel := level\<rparr>"] by (auto simp: SetSecurityLevel_def same_permissions)
qed

subsection \<open>Properties\<close>

text \<open>
  C18: After loading the data of an account and any grants, denials and revocations for a realm
  and changes of the security level: no permission is both granted and denied, every further
  operation returns (the expansion of linked permissions ends, with cycles too), and the account
  has exactly the permissions that the granted ones inherit over the links, denied or not.
\<close>

theorem account_permissions:
  assumes "rbac_reach t d"
  shows "set (rd_granted d) \<inter> set (rd_denied d) = {} \<and>
    (\<forall>p. HasPermission False p d \<longleftrightarrow> inherits (links_of t) (set (rd_granted d)) p) \<and>
    GrantPermission t p realmId d \<noteq> None \<and> DenyPermission t p realmId d \<noteq> None \<and> RevokePermission t p realmId d \<noteq> None \<and>
    SetSecurityLevel rows level t d \<noteq> None"
proof -
  have ok: "rbac_ok t d" "computed t d" using reach_ok [OF assms] by simp_all
  have "SetSecurityLevel rows level t d \<noteq> None"
    using RBACData_LoadFromDB_result [of rows t "d\<lparr>rd_secLevel := level\<rparr>"] by (auto simp: SetSecurityLevel_def)
  moreover have "GrantPermission t p realmId d \<noteq> None" "DenyPermission t p realmId d \<noteq> None" "RevokePermission t p realmId d \<noteq> None"
    using GrantPermission_changes [OF ok(1), of p realmId] DenyPermission_changes [OF ok(1), of p realmId]
      RevokePermission_changes [OF ok(1), of p realmId] by auto
  ultimately show ?thesis using ok by (simp add: rbac_ok_def computed_def HasPermission_def)
qed

text \<open>
  Permission 1 has 2, and 2 has 3 and 1. The account is granted 1 by its level, and 3 is denied to it in the
  data base: it has all three.
\<close>

definition sample_tables :: RbacTables where
  "sample_tables = the (LoadRBAC [1, 2, 3] [(1, 2), (2, 1), (2, 3)] [(0, 1)])"

definition sample_account :: "RBACData \<times> RbacTables" where
  "sample_account = the (RBACData_LoadFromDB [(3, False)] sample_tables (RBACData_new 7 1 0))"

lemma sample_account_reach: "rbac_reach (snd sample_account) (fst sample_account)"
  using RBACData_LoadFromDB_result [of "[(3, False)]" sample_tables "RBACData_new 7 1 0"]
  by (intro reach_load [of "[(3, False)]" sample_tables 7 1 0]) (auto simp: sample_account_def)

lemma sample_tables_eq:
  "sample_tables = \<lparr>rt_permissions = [(1, Some \<lparr>rp_id = 1, rp_linked = [2]\<rparr>), (2, Some \<lparr>rp_id = 2, rp_linked = [1, 3]\<rparr>),
     (3, Some \<lparr>rp_id = 3, rp_linked = []\<rparr>)], rt_defaults = [(0, [1])]\<rparr>"
  by code_simp

lemma sample_known: "GetRBACPermission p sample_tables \<noteq> None \<longleftrightarrow> p \<in> {1, 2, 3}"
  by (auto simp: sample_tables_eq GetRBACPermission_def)

lemma sample_account_sets:
  "set (rd_granted (fst sample_account)) = {1}" "set (rd_denied (fst sample_account)) = {3}"
  "links_of (snd sample_account) = links_of sample_tables"
proof -
  have d: "om_at [] (rt_defaults sample_tables) 0 = [1]" by (simp add: sample_tables_eq om_at_def)
  have e: "rd_secLevel (RBACData_new 7 1 0) = 0" by (simp add: RBACData_new_def)
  obtain d' m where l: "RBACData_LoadFromDB [(3, False)] sample_tables (RBACData_new 7 1 0) = Some (d', sample_tables\<lparr>rt_defaults := m\<rparr>)"
    "set (rd_granted d') = {p. p \<in> {1, 2, 3} \<and> (case map_of [(3, False)] p of Some g \<Rightarrow> g | None \<Rightarrow> p \<in> {1})}"
    "set (rd_denied d') = {p. p \<in> {1, 2, 3} \<and> map_of [(3, False)] p = Some False}"
    using RBACData_LoadFromDB_result [of "[(3, False)]" sample_tables "RBACData_new 7 1 0"] unfolding sample_known e d by auto
  have f: "fst sample_account = d'" "snd sample_account = sample_tables\<lparr>rt_defaults := m\<rparr>"
    using l(1) by (simp_all add: sample_account_def)
  show "set (rd_granted (fst sample_account)) = {1}" "set (rd_denied (fst sample_account)) = {3}"
    unfolding f l(2,3) by auto
  show "links_of (snd sample_account) = links_of sample_tables" unfolding f by (rule same_permissions)
qed

theorem account_permissions_witness:
  "3 \<in> set (rd_denied (fst sample_account)) \<and> HasPermission False 3 (fst sample_account)"
proof -
  have l: "links_of sample_tables 1 = Some [2]" "links_of sample_tables 2 = Some [1, 3]" "links_of sample_tables 3 = Some []"
    by (simp_all add: links_of_def GetRBACPermission_def sample_tables_eq)
  have "inherits (links_of sample_tables) {1} 1" by (rule inherits_own) (simp_all add: l)
  then have "inherits (links_of sample_tables) {1} 2" by (rule inherits_linked [where a = 1 and bs = "[2]" and b = 2]) (simp_all add: l)
  then have "inherits (links_of sample_tables) {1} 3" by (rule inherits_linked [where a = 2 and bs = "[1, 3]" and b = 3]) (simp_all add: l)
  then show ?thesis using account_permissions [OF sample_account_reach] by (simp add: sample_account_sets)
qed

text \<open>Denying a permission that another one brings has no effect on what the account may do.\<close>

theorem denied_permission_stays:
  assumes "rbac_reach t d" and "inherits (links_of t) (set (rd_granted d)) p" and "p \<notin> set (rd_granted d)" and "p \<notin> set (rd_denied d)"
    and "realmId \<noteq> 0"
  shows "\<exists>sql d'. DenyPermission t p realmId d = Some (RBAC_OK, sql, d') \<and> p \<in> set (rd_denied d') \<and> HasPermission False p d'"
proof -
  have ok: "rbac_ok t d" using reach_ok [OF assms(1)] by simp
  have k: "GetRBACPermission p t \<noteq> None" using tables.inherits_known [OF assms(2)] by (simp add: links_of_def)
  show ?thesis
    using save_change_changes [where f = "\<lambda>d. d\<lparr>rd_denied := os_insert p (rd_denied d)\<rparr>", OF rbac_ok_add(2) [OF ok k assms(3)], of realmId]
      assms k by (simp add: DenyPermission_def HasPermission_def computed_def changes_def del: split_paired_Ex) (metis CollectI insertI1)
qed

text \<open>\<open>UpdateAccountAccess\<close> never gives a session another security level.\<close>

theorem level_of_session_stays:
  assumes "UpdateAccountAccess rows (Some d) accountId level realmId t = Some (Some d', t', sql)"
  shows "rd_secLevel d' = rd_secLevel d"
  using assms RBACData_LoadFromDB_result [of rows t "d\<lparr>rd_secLevel := level\<rparr>"]
  by (auto simp: UpdateAccountAccess_def SetSecurityLevel_def bind_eq_Some_conv split: if_splits)

end
