(* ===== verification/Spec2Isabelle.thy ===== *)
theory Spec2Isabelle
  imports MovementSender ByteBufferOps PacketValues Timers EventProcessor UpdateMask LfgRuns GroupProperties BgProperties BgFaults RatedInfo RbacProperties
begin

text \<open>
  A verification library for the world server of this repository (\<open>src/src/server\<close>, C++). The
  theories translate the server's own logic into HOL functions over explicit states and prove what
  each part promises to the others. Paths below are relative to \<open>src/src/server\<close>.

  \<^bold>\<open>Conventions.\<close> Integers keep their width (\<open>u8\<close> to \<open>u64\<close>, \<open>s64\<close> are words of HOL-Library.Word, so \<open>+\<close>
  wraps as in C++). A \<open>std::map\<close> or \<open>std::set\<close> is the list of its entries in key order
  (\<open>OrderedMap\<close>), an unordered container a partial function or a list whose order is not used. An operation that may
  throw \<open>ByteBufferException\<close> returns \<open>error + 'a\<close>, an operation with undefined behaviour (a null
  pointer, an index out of range, an erased iterator) or a failing \<open>ASSERT\<close> returns an option whose
  \<open>None\<close> is that behaviour. Floats are carried as their bit patterns. The clock, random numbers, data
  base rows and the facts read from parts that are not modelled are arguments.

  \<^bold>\<open>Packets.\<close> \<open>ByteBuffer\<close> and \<open>ByteBufferOps\<close> translate \<open>shared/Packets/ByteBuffer.h\<close>: the read and write
  positions, the pending bit byte, every read, write, put, append and container operation. \<open>PacketStream\<close>
  states the contract of the buffer as a locale over tokens (a packet is a sequence of bits and bytes) and
  interprets it on the model; \<open>PacketCodec\<close> has the round trip of each value over that contract. The
  properties are the round trips of strings, GUIDs, packed GUIDs, maps and (\<open>PacketValues\<close>) of mixed bits, bit
  fields and integers of every width, of bit and byte
  sequences, what \<open>PutBits\<close> patches, and how a reader that forgets to flush misreads. The size of a buffer
  is bounded by the limit of 10,000,000 bytes that \<open>ByteBuffer::append\<close> asserts.

  \<^bold>\<open>Movement packets.\<close> \<open>MovementStructures\<close>, \<open>MovementTables\<close> (all element arrays of
  \<open>game/Movement/MovementStructures.cpp\<close>), \<open>MovementInfo\<close> (\<open>Unit::WriteMovementInfo\<close>,
  \<open>Player::ReadMovementInfo\<close>), \<open>MovementSender\<close> (\<open>Movement::PacketSender\<close>). \<open>MovementElement\<close>,
  \<open>MovementLayout\<close>, \<open>MovementRoundtrip\<close> and \<open>MovementChecks\<close> show that a sequence that passes the
  executable check \<open>layout_ok\<close> is read back as written, that the check holds for the opcodes listed there,
  and that flags a client may not set are removed. The mover's facts are the argument \<open>mover_env\<close>, float
  predicates \<open>float_env\<close>.

  \<^bold>\<open>Small machines.\<close> \<open>Timers\<close> is \<open>shared/Utilities/Timer.h\<close>; \<open>EventProcessor\<close> is
  \<open>shared/Utilities/EventProcessor\<close>, where the code of an event is an argument that returns the calls it
  makes on the processor; the loop of \<open>Update\<close> may not end when events reschedule themselves, so it is a
  \<open>partial_function (option)\<close> and its termination for events that do not is a property; \<open>UpdateMask\<close> is
  \<open>game/Entities/Object/Updates/UpdateMask.h\<close>.

  \<^bold>\<open>Dungeon finder.\<close> \<open>LfgTypes\<close> holds the enumerations, player and group data
  (\<open>game/DungeonFinding/LFG.h\<close>, \<open>LFGPlayerData\<close>, \<open>LFGGroupData\<close>); \<open>LfgRoles\<close> the role search
  \<open>LFGMgr::CheckGroupRoles\<close>, proved equivalent to the existence of an assignment; \<open>LfgQueue\<close>,
  \<open>LfgSearch\<close>, \<open>LfgProposals\<close>, \<open>LfgRuns\<close> the class \<open>LFGQueue\<close>: the compatibility cache, the search for a
  group of five (the recursion is a \<open>partial_function (option)\<close>, proved total for queues of well formed
  entries) and that every proposal it makes is a legal group of queued players. \<open>LfgManager\<close>,
  \<open>LfgRoleCheck\<close>, \<open>LfgAnswers\<close>, \<open>LfgBoot\<close>, \<open>LfgUpdate\<close>, \<open>LfgJoin\<close>, \<open>LfgTables\<close> are \<open>LFGMgr\<close> and the hooks of
  \<open>LFGScripts\<close>: joining, role checks, proposals, votes to kick, the periodic update, the end of a
  dungeon, loading and saving. \<open>LfgInvariant\<close> has the step relation of the manager and the invariant that
  all of its steps keep. Facts about players, dungeons and rewards are the arguments \<open>lfg_world\<close>,
  \<open>player_facts\<close>, \<open>lock_facts\<close>, \<open>reward_facts\<close> and \<open>queue_env\<close>.

  \<^bold>\<open>Groups.\<close> \<open>GroupData\<close> is the group object of \<open>game/Groups/Group.h\<close> and what \<open>Group.cpp\<close> does to it alone;
  \<open>GroupWorld\<close> the state that groups share with players, loot, the data base and the dungeon finder, the
  references between players and groups (\<open>GroupReference\<close>, \<open>Reference\<close>, \<open>RefManager\<close>) and \<open>GroupMgr\<close>;
  \<open>GroupRolls\<close> the loot system, \<open>GroupMembers\<close> the members, leaders, invitations, types and loading;
  \<open>GroupHandlers\<close> the handlers of \<open>game/Handlers/GroupHandler.cpp\<close> and the parts of \<open>Player.cpp\<close> and
  \<open>WorldSession.cpp\<close> that call groups; \<open>GroupCallers\<close> \<open>LFGMgr::MakeNewGroup\<close> and \<open>TeleportPlayer\<close>,
  \<open>Battleground\<close>, \<open>Battlefield\<close> and the commands of \<open>cs_group.cpp\<close>. \<open>GroupRefs\<close> and \<open>GroupSafety\<close> show that no
  reference dangles. \<open>GroupRoster\<close> is an abstract specification (who leads, who sits where), \<open>GroupTyped\<close> the
  data of a group over its roster, \<open>GroupShape\<close> the locales of observers that most operations leave alone,
  \<open>GroupRefinement\<close> and \<open>GroupSteps\<close> the simulation of every step of the server by the specification.
  \<open>GroupLfg\<close> shows that the groups act on the dungeon finder through its hooks, so the parameter of
  \<open>UpdateProposal\<close> can be the model of \<open>MakeNewGroup\<close>. \<open>GroupVotes\<close>, \<open>GroupNumbers\<close>, \<open>GroupFaults\<close> have the
  lemmas on rolls, icons, storage ids and faults, \<open>GroupProperties\<close> the properties with their samples.
  \<open>EndRoll\<close> is a \<open>partial_function (option)\<close>; the search for a storage id ends at \<open>0xFFFFFFFF\<close>. Left out are
  the instances a group is bound to, quest objects, achievements, the layout of the packets, and fields of
  players that only clients see; \<open>_setMembersGroup\<close> is translated but nothing calls it.

  \<^bold>\<open>Battleground queues.\<close> \<open>BgData\<close> has the data of \<open>game/Battlegrounds/BattlegroundQueue.h\<close> and the state that
  the queues share with battlegrounds, their manager and players (\<open>BgWorld\<close>; objects are named by numbers, a
  deleted object is \<open>None\<close>); \<open>BgPools\<close> the selection pools (\<open>FillPlayersToBG\<close>, \<open>CheckPremadeMatch\<close>,
  \<open>CheckNormalMatch\<close>, \<open>CheckSkirmishForSameFaction\<close>), where the rounds of \<open>FillPlayersToBG\<close> are the function
  \<open>balance\<close> whose termination is proved: every round takes a group out of a pool or out of the rest of a queue;
  \<open>BgWorld\<close> the slots of \<open>Battleground.cpp\<close>, \<open>BattlegroundMgr.cpp\<close>, \<open>DBCStores.cpp\<close> and the queue slots of
  \<open>Player.cpp\<close>; \<open>BgQueue\<close> joining, leaving, inviting and the two events, which run on the model of
  \<open>EventProcessor\<close>; \<open>BgManager\<close> \<open>BattlegroundQueueUpdate\<close> and the queue part of \<open>BattlegroundMgr::Update\<close>,
  whose loop counts with eight bits and is a \<open>partial_function (option)\<close>; \<open>BgHandlers\<close> the handlers of
  \<open>game/Handlers/BattleGroundHandler.cpp\<close> and \<open>Battleground::RemovePlayerAtLeave\<close>; \<open>RatedInfo\<close> the ratings, with
  the Elo formula over the reals; \<open>InstanceIds\<close> the instance ids of \<open>game/Maps/MapManager.cpp\<close>, where the growth
  of \<open>vector<bool>\<close> is the argument \<open>alloc\<close>. \<open>BgSelection\<close> shows what the pools select, \<open>BgConsistency\<close> the
  invariant of a queue, \<open>BgSteps\<close> and \<open>BgInvariant\<close> that every operation keeps it, \<open>BgProperties\<close> and \<open>BgFaults\<close>
  the properties with their samples. The step relation \<open>bg_reach\<close> lets players join a queue in
  which none of them waits; the requests of both handlers are such steps then. The handlers look at the slots of the
  members to see to it, except when a group is larger than the battleground allows, and then the invariant is lost
  (\<open>oversized_group_queued_twice\<close>). Left out are the course of a battle
  (\<open>Battleground::Update\<close>, \<open>AddPlayer\<close>, \<open>EndBattleground\<close>, the game modes), announcements, the layout of the
  packets (a packet is its values), auras, pets and the raid groups of battlegrounds.

  \<^bold>\<open>Access control.\<close> \<open>Rbac\<close> has the tables of permissions of \<open>game/Accounts/AccountMgr.cpp\<close> with their loading,
  and the permissions of an account of \<open>game/Accounts/RBAC.cpp\<close>; the expansion of linked permissions is a
  \<open>partial_function (option)\<close>. \<open>RbacProperties\<close> states the search as the locale \<open>finite_links\<close> over any finite graph,
  interpreted on the tables, shows that it ends with exactly what is inherited, and that every run keeps this.
  A denied permission that a granted one brings stays (\<open>denied_permission_stays\<close>), and \<open>UpdateAccountAccess\<close> leaves
  the level of a session alone (\<open>level_of_session_stays\<close>). Names and traces are left out.

  \<^bold>\<open>Locales.\<close> \<open>restorable\<close> (states that can be restored, player and group data), the packet stream, the
  interval timers and the rest are stated in the theory of their provider and interpreted there on the code's
  definitions.

  \<^bold>\<open>Not modelled.\<close> The clock, logging and text dumps, the sockets, the execution of SQL, the
  handlers \<open>LFGMgr::OnMapChanged\<close> and \<open>Clean\<close>, and the
  parts of the server named as not modelled in the manifest: they are larger than this library (spells,
  entities, maps, scripts, chat, guilds, auction house, game modes of battlegrounds).
\<close>

end
